(* ===== verification/Prelude.thy ===== *)
theory Prelude
  imports Main "HOL-Library.Sublist"
begin

text \<open>
  Shared vocabulary of the development: the effect type of the gateway's asynchronous
  methods, its combinators, the weakest precondition calculus the component proofs use,
  and the proof interface for frame conditions and invariants (a preorder that a run follows)
  as a locale over an arbitrary state.

  An \<open>async\<close> method of the source either resolves, rejects with an error, or never
  settles (\<open>new Promise(() => ...)\<close> of the ledger gateways). Mutations done before a
  rejection stay visible, because the source mutates objects that are shared through the
  session map: the state is therefore returned on every outcome.
\<close>

section \<open>Outcomes and actions\<close>

datatype ('e, 'a) outcome = Returns 'a | Throws 'e | Pending

type_synonym ('s, 'e, 'a) act = "'s \<Rightarrow> ('e, 'a) outcome \<times> 's"

definition ret :: "'a \<Rightarrow> ('s, 'e, 'a) act" where
  "ret a = (\<lambda>s. (Returns a, s))"

definition throwE :: "'e \<Rightarrow> ('s, 'e, 'a) act" where
  "throwE e = (\<lambda>s. (Throws e, s))"

definition never :: "('s, 'e, 'a) act" where
  "never = (\<lambda>s. (Pending, s))"

definition bindA :: "('s, 'e, 'a) act \<Rightarrow> ('a \<Rightarrow> ('s, 'e, 'b) act) \<Rightarrow> ('s, 'e, 'b) act" where
  "bindA m k = (\<lambda>s. case m s of
      (Returns a, s') \<Rightarrow> k a s'
    | (Throws e, s') \<Rightarrow> (Throws e, s')
    | (Pending, s') \<Rightarrow> (Pending, s'))"

definition thenA :: "('s, 'e, 'a) act \<Rightarrow> ('s, 'e, 'b) act \<Rightarrow> ('s, 'e, 'b) act" where
  "thenA m k = bindA m (\<lambda>_. k)"

definition getsA :: "('s \<Rightarrow> 'a) \<Rightarrow> ('s, 'e, 'a) act" where
  "getsA f = (\<lambda>s. (Returns (f s), s))"

definition modifyA :: "('s \<Rightarrow> 's) \<Rightarrow> ('s, 'e, unit) act" where
  "modifyA f = (\<lambda>s. (Returns (), f s))"

text \<open>\<open>if (!c) throw e\<close>\<close>

definition ensure :: "bool \<Rightarrow> 'e \<Rightarrow> ('s, 'e, unit) act" where
  "ensure c e = (if c then ret () else throwE e)"

text \<open>\<open>try { m } catch { throw e }\<close>\<close>

definition rethrowAs :: "'e \<Rightarrow> ('s, 'e, 'a) act \<Rightarrow> ('s, 'e, 'a) act" where
  "rethrowAs e m = (\<lambda>s. case m s of
      (Throws e', s') \<Rightarrow> (Throws e, s')
    | r \<Rightarrow> r)"

text \<open>\<open>for (const x of xs) await body(x)\<close>\<close>

primrec forEachA :: "('a \<Rightarrow> ('s, 'e, unit) act) \<Rightarrow> 'a list \<Rightarrow> ('s, 'e, unit) act" where
  "forEachA body [] = ret ()"
| "forEachA body (x # xs) = thenA (body x) (forEachA body xs)"

subsection \<open>Monad laws\<close>

lemma bindA_ret [simp]: "bindA (ret a) k = k a"
  by (simp add: bindA_def ret_def)

lemma bindA_throwE [simp]: "bindA (throwE e) k = throwE e"
  by (simp add: bindA_def throwE_def)

lemma bindA_never [simp]: "bindA never k = never"
  by (simp add: bindA_def never_def)

lemma bindA_assoc: "bindA (bindA m k) l = bindA m (\<lambda>x. bindA (k x) l)"
  by (rule ext) (simp add: bindA_def split: prod.split outcome.split)

lemma bindA_ret_right [simp]: "bindA m ret = m"
  by (rule ext) (simp add: bindA_def ret_def split: prod.split outcome.split)

section \<open>Weakest preconditions\<close>

text \<open>
  \<open>wp m Q s\<close>: running \<open>m\<close> from \<open>s\<close> ends in an outcome and a state that satisfy
  \<open>Q\<close>. The rules are equations, collected in \<open>wp_simps\<close>, so that the simplifier computes
  the precondition of a whole method.
\<close>

named_theorems wp_simps

definition wp :: "('s, 'e, 'a) act \<Rightarrow> (('e, 'a) outcome \<Rightarrow> 's \<Rightarrow> bool) \<Rightarrow> 's \<Rightarrow> bool" where
  "wp m Q s = Q (fst (m s)) (snd (m s))"

lemma wp_ret [wp_simps]: "wp (ret a) Q s = Q (Returns a) s"
  by (simp add: wp_def ret_def)

lemma wp_throwE [wp_simps]: "wp (throwE e) Q s = Q (Throws e) s"
  by (simp add: wp_def throwE_def)

lemma wp_never [wp_simps]: "wp never Q s = Q Pending s"
  by (simp add: wp_def never_def)

lemma wp_bindA [wp_simps]:
  "wp (bindA m k) Q s = wp m (\<lambda>r s'. case r of
      Returns a \<Rightarrow> wp (k a) Q s' | Throws e \<Rightarrow> Q (Throws e) s' | Pending \<Rightarrow> Q Pending s') s"
  by (simp add: wp_def bindA_def split: prod.split outcome.split)

lemma wp_thenA [wp_simps]:
  "wp (thenA m k) Q s = wp m (\<lambda>r s'. case r of
      Returns a \<Rightarrow> wp k Q s' | Throws e \<Rightarrow> Q (Throws e) s' | Pending \<Rightarrow> Q Pending s') s"
  by (simp add: thenA_def wp_bindA)

lemma wp_getsA [wp_simps]: "wp (getsA f) Q s = Q (Returns (f s)) s"
  by (simp add: wp_def getsA_def)

lemma wp_modifyA [wp_simps]: "wp (modifyA f) Q s = Q (Returns ()) (f s)"
  by (simp add: wp_def modifyA_def)

lemma wp_ensure [wp_simps]:
  "wp (ensure c e) Q s = (if c then Q (Returns ()) s else Q (Throws e) s)"
  by (simp add: ensure_def wp_simps)

lemma wp_if [wp_simps]: "wp (if c then m else m') Q s = (if c then wp m Q s else wp m' Q s)"
  by simp

lemma wp_rethrowAs [wp_simps]:
  "wp (rethrowAs e m) Q s = wp m (\<lambda>r s'. case r of Throws e' \<Rightarrow> Q (Throws e) s' | _ \<Rightarrow> Q r s') s"
  by (simp add: wp_def rethrowAs_def split: prod.split outcome.split)

lemma wp_mono: "wp m Q s \<Longrightarrow> (\<And>r s'. Q r s' \<Longrightarrow> R r s') \<Longrightarrow> wp m R s"
  by (simp add: wp_def)

lemma wp_conj: "wp m (\<lambda>r s'. Q r s' \<and> R r s') s = (wp m Q s \<and> wp m R s)"
  by (simp add: wp_def)

lemma wp_result: "m s = (r, s') \<Longrightarrow> wp m Q s \<Longrightarrow> Q r s'"
  by (simp add: wp_def)

section \<open>Runs that follow a preorder\<close>

text \<open>
  Frame conditions, monotone logs, a clock that does not go back, preserved invariants: each is
  a reflexive and transitive relation between the state before and after a run. An action that
  only performs steps of the relation stays in it, whatever its outcome.
\<close>

named_theorems follows_intros

definition follows :: "('s \<Rightarrow> 's \<Rightarrow> bool) \<Rightarrow> ('s, 'e, 'a) act \<Rightarrow> bool" where
  "follows R m \<longleftrightarrow> (\<forall>s. R s (snd (m s)))"

lemma followsD: "follows R m \<Longrightarrow> m s = (r, s') \<Longrightarrow> R s s'"
  by (metis follows_def snd_conv)

lemma follows_wp: "follows R m \<longleftrightarrow> (\<forall>s. wp m (\<lambda>_. R s) s)"
  by (simp add: follows_def wp_def)

locale run_preorder =
  fixes R :: "'s \<Rightarrow> 's \<Rightarrow> bool"
  assumes stays: "R s s"
    and chain: "R s t \<Longrightarrow> R t u \<Longrightarrow> R s u"
begin

lemma follows_ret [follows_intros]: "follows R (ret a)"
  by (simp add: follows_def ret_def stays)

lemma follows_throwE [follows_intros]: "follows R (throwE e)"
  by (simp add: follows_def throwE_def stays)

lemma follows_never [follows_intros]: "follows R never"
  by (simp add: follows_def never_def stays)

lemma follows_getsA [follows_intros]: "follows R (getsA f)"
  by (simp add: follows_def getsA_def stays)

lemma follows_ensure [follows_intros]: "follows R (ensure c e)"
  by (simp add: ensure_def follows_ret follows_throwE)

lemma follows_bindA [follows_intros]:
  "follows R m \<Longrightarrow> (\<And>a. follows R (k a)) \<Longrightarrow> follows R (bindA m k)"
  unfolding follows_def bindA_def
  by (auto split: prod.split outcome.split) (metis chain snd_conv)+

lemma follows_thenA [follows_intros]: "follows R m \<Longrightarrow> follows R k \<Longrightarrow> follows R (thenA m k)"
  by (simp add: thenA_def follows_bindA)

lemma follows_rethrowAs [follows_intros]: "follows R m \<Longrightarrow> follows R (rethrowAs e m)"
  unfolding follows_def rethrowAs_def
  by (auto split: prod.split outcome.split) (metis snd_conv)+

lemma follows_if [follows_intros]: "follows R m \<Longrightarrow> follows R m' \<Longrightarrow> follows R (if c then m else m')"
  by simp

lemma follows_option [follows_intros]:
  "follows R m \<Longrightarrow> (\<And>a. follows R (k a)) \<Longrightarrow> follows R (case x of None \<Rightarrow> m | Some a \<Rightarrow> k a)"
  by (cases x) simp_all

lemma follows_forEachA [follows_intros]: "(\<And>x. follows R (body x)) \<Longrightarrow> follows R (forEachA body xs)"
  by (induction xs) (simp_all add: follows_ret follows_thenA)

end

text \<open>A preserved predicate is the relation that carries it from the state before to the state after.\<close>

definition keeps :: "('s \<Rightarrow> bool) \<Rightarrow> 's \<Rightarrow> 's \<Rightarrow> bool" where
  "keeps P s s' \<longleftrightarrow> (P s \<longrightarrow> P s')"

lemma keeps_preorder: "run_preorder (keeps P)"
  by unfold_locales (auto simp: keeps_def)

lemma same_preorder: "run_preorder (\<lambda>s s'. f s' = f s)"
  by unfold_locales auto

section \<open>Inversion\<close>

text \<open>What a run that returns has done; the collection \<open>returns\<close> holds one rule per operation.\<close>

named_theorems returns

lemma bindA_Returns [returns]:
  "bindA m k s = (Returns b, s') \<longleftrightarrow> (\<exists>a t. m s = (Returns a, t) \<and> k a t = (Returns b, s'))"
  by (auto simp: bindA_def split: prod.splits outcome.splits)

lemma thenA_Returns [returns]:
  "thenA m k s = (Returns b, s') \<longleftrightarrow> (\<exists>a t. m s = (Returns a, t) \<and> k t = (Returns b, s'))"
  by (simp add: thenA_def bindA_Returns)

lemma ret_Returns [returns]: "ret a s = (Returns b, s') \<longleftrightarrow> b = a \<and> s' = s"
  by (auto simp: ret_def)

lemma throwE_Returns [returns]: "throwE e s = (Returns b, s') \<longleftrightarrow> False"
  by (simp add: throwE_def)

lemma never_Returns [returns]: "never s = (Returns b, s') \<longleftrightarrow> False"
  by (simp add: never_def)

lemma getsA_Returns [returns]: "getsA f s = (Returns b, s') \<longleftrightarrow> b = f s \<and> s' = s"
  by (auto simp: getsA_def)

lemma modifyA_Returns [returns]: "modifyA f s = (Returns b, s') \<longleftrightarrow> s' = f s"
  by (auto simp: modifyA_def)

lemma ensure_Returns [returns]: "ensure c e s = (Returns b, s') \<longleftrightarrow> c \<and> s' = s"
  by (auto simp: ensure_def ret_def throwE_def)

lemma rethrowAs_Returns [returns]: "rethrowAs e m s = (Returns b, s') \<longleftrightarrow> m s = (Returns b, s')"
  by (auto simp: rethrowAs_def split: prod.splits outcome.splits)

section \<open>Reachable states\<close>

inductive reaches :: "('s \<Rightarrow> bool) \<Rightarrow> ('s \<Rightarrow> 's \<Rightarrow> bool) \<Rightarrow> 's \<Rightarrow> bool"
  for init :: "'s \<Rightarrow> bool" and step :: "'s \<Rightarrow> 's \<Rightarrow> bool" where
  starts: "init s \<Longrightarrow> reaches init step s"
| steps: "reaches init step s \<Longrightarrow> step s t \<Longrightarrow> reaches init step t"

lemma reaches_invariant:
  assumes "reaches init step s" "\<And>s. init s \<Longrightarrow> I s" "\<And>s t. I s \<Longrightarrow> step s t \<Longrightarrow> I t"
  shows "I s"
  using assms(1) by induction (simp_all add: assms(2), erule assms(3))

end
