(* ===== verification/JS_Lib.thy ===== *)
theory JS_Lib
  imports Prelude "HOL-Library.Word"
begin

text \<open>
  The parts of JavaScript and of the Node standard library the gateway code uses:
  decimal printing of numbers, \<open>parseInt\<close>, \<open>String.prototype.match\<close> with a plain
  substring, hexadecimal encoding of byte arrays (\<open>Buffer.from(x).toString("hex")\<close> and
  \<open>Buffer.from(s, "hex")\<close>), the comparison of text columns, and \<open>Date.prototype.toString\<close>.

  Strings are lists of 8 bit code units. Numbers are integers: every number of the
  gateway's state is a counter, a retry limit or a time in milliseconds.
\<close>

section \<open>Decimal numbers\<close>

definition digitChar :: "nat \<Rightarrow> char" where
  "digitChar d = char_of (48 + d)"

fun natToString :: "nat \<Rightarrow> string" where
  "natToString n = (if n < 10 then [digitChar n]
     else natToString (n div 10) @ [digitChar (n mod 10)])"

declare natToString.simps [simp del]

definition intToString :: "int \<Rightarrow> string" where
  "intToString i = (if i < 0 then CHR ''-'' # natToString (nat (- i)) else natToString (nat i))"

definition isDigit :: "char \<Rightarrow> bool" where
  "isDigit c \<longleftrightarrow> 48 \<le> (of_char c :: nat) \<and> (of_char c :: nat) \<le> 57"

definition digitVal :: "char \<Rightarrow> nat" where
  "digitVal c = of_char c - 48"

fun digitsVal :: "nat \<Rightarrow> string \<Rightarrow> nat" where
  "digitsVal acc [] = acc"
| "digitsVal acc (c # cs) = digitsVal (10 * acc + digitVal c) cs"

lemma isDigit_digitChar [simp]: "d < 10 \<Longrightarrow> isDigit (digitChar d)"
  by (simp add: isDigit_def digitChar_def)

lemma digitVal_digitChar [simp]: "d < 10 \<Longrightarrow> digitVal (digitChar d) = d"
  by (simp add: digitVal_def digitChar_def)

lemma digitsVal_append: "digitsVal acc (xs @ ys) = digitsVal (digitsVal acc xs) ys"
  by (induction xs arbitrary: acc) simp_all

lemma of_char_digitChar: "d < 10 \<Longrightarrow> of_char (digitChar d) = 48 + d"
  by (simp add: digitChar_def)

lemma digitChar_0: "digitChar 0 = CHR ''0''"
  by code_simp

lemma digitChar_zero_iff: "d < 10 \<Longrightarrow> digitChar d = CHR ''0'' \<longleftrightarrow> d = 0"
  using of_char_digitChar [of d] of_char_digitChar [of 0] digitChar_0 by auto

lemma natToString_digits: "\<forall>c \<in> set (natToString n). isDigit c"
proof (induction n rule: natToString.induct)
  case (1 n)
  show ?case
  proof (cases "n < 10")
    case True
    then show ?thesis by (subst natToString.simps) simp
  next
    case False
    with 1 have "\<forall>c \<in> set (natToString (n div 10)). isDigit c" by simp
    with False show ?thesis by (subst natToString.simps) simp
  qed
qed

lemma natToString_nonempty [simp]: "natToString n \<noteq> []"
  by (subst natToString.simps) simp

lemma digitsVal_natToString [simp]: "digitsVal 0 (natToString n) = n"
proof (induction n rule: natToString.induct)
  case (1 n)
  show ?case
  proof (cases "n < 10")
    case True
    then show ?thesis by (subst natToString.simps) simp
  next
    case False
    with 1 show ?thesis by (subst natToString.simps) (simp add: digitsVal_append)
  qed
qed

lemma hd_natToString_digit [simp]: "isDigit (hd (natToString n))"
  using natToString_digits [of n] by (simp add: hd_in_set)

lemma hd_natToString_zero: "hd (natToString n) = CHR ''0'' \<longleftrightarrow> n = 0"
proof (induction n rule: natToString.induct)
  case (1 n)
  show ?case
  proof (cases "n < 10")
    case True
    then show ?thesis by (subst natToString.simps) (simp add: digitChar_zero_iff)
  next
    case False
    with 1 show ?thesis by (subst natToString.simps) simp
  qed
qed

subsection \<open>\<open>parseInt\<close>\<close>

text \<open>
  \<open>parseInt(s)\<close>: white space is skipped, an optional sign is read, \<open>0x\<close> switches to radix
  16, and the longest prefix of digits is the value. No digit at all is \<open>NaN\<close> (\<open>None\<close>).
\<close>

definition isSpace :: "char \<Rightarrow> bool" where
  "isSpace c \<longleftrightarrow> (of_char c :: nat) \<in> {9, 10, 11, 12, 13, 32, 160}"

definition hexDigitVal :: "char \<Rightarrow> nat option" where
  "hexDigitVal c = (let k = (of_char c :: nat) in
     if 48 \<le> k \<and> k \<le> 57 then Some (k - 48)
     else if 97 \<le> k \<and> k \<le> 102 then Some (k - 87)
     else if 65 \<le> k \<and> k \<le> 70 then Some (k - 55)
     else None)"

fun hexDigitsVal :: "nat \<Rightarrow> string \<Rightarrow> nat" where
  "hexDigitsVal acc [] = acc"
| "hexDigitsVal acc (c # cs) = (case hexDigitVal c of
     None \<Rightarrow> acc | Some v \<Rightarrow> hexDigitsVal (16 * acc + v) cs)"

definition parseMagnitude :: "string \<Rightarrow> nat option" where
  "parseMagnitude s =
     (if take 2 s = ''0x'' \<or> take 2 s = ''0X''
      then (case drop 2 s of [] \<Rightarrow> None
            | c # _ \<Rightarrow> if hexDigitVal c = None then None else Some (hexDigitsVal 0 (drop 2 s)))
      else (case takeWhile isDigit s of [] \<Rightarrow> None | ds \<Rightarrow> Some (digitsVal 0 ds)))"

definition parseInt :: "string \<Rightarrow> int option" where
  "parseInt s = (case dropWhile isSpace s of
     [] \<Rightarrow> None
   | c # r \<Rightarrow> if c = CHR ''-'' then map_option (\<lambda>n. - int n) (parseMagnitude r)
              else if c = CHR ''+'' then map_option int (parseMagnitude r)
              else map_option int (parseMagnitude (c # r)))"

lemma isDigit_not_space: "isDigit c \<Longrightarrow> \<not> isSpace c"
  by (auto simp: isDigit_def isSpace_def)

lemma isDigit_not_sign: "isDigit c \<Longrightarrow> c \<noteq> CHR ''-'' \<and> c \<noteq> CHR ''+''"
  by (auto simp: isDigit_def)

lemma takeWhile_all_digits: "\<forall>c \<in> set s. isDigit c \<Longrightarrow> takeWhile isDigit s = s"
  by (induction s) auto

lemma digits_no_hex_prefix: "\<forall>c \<in> set s. isDigit c \<Longrightarrow> take 2 s \<noteq> ''0x'' \<and> take 2 s \<noteq> ''0X''"
  by (cases s; cases "tl s") (auto simp: isDigit_def)

lemma parseMagnitude_digits:
  assumes "\<forall>c \<in> set s. isDigit c" "s \<noteq> []"
  shows "parseMagnitude s = Some (digitsVal 0 s)"
proof -
  obtain c r where "s = c # r" using assms(2) by (cases s) auto
  with assms digits_no_hex_prefix [OF assms(1)] show ?thesis
    by (auto simp: parseMagnitude_def takeWhile_all_digits)
qed

lemma parseMagnitude_natToString [simp]: "parseMagnitude (natToString n) = Some n"
  by (simp add: parseMagnitude_digits natToString_digits)

text \<open>Reading back a printed number gives the number.\<close>

lemma parseInt_intToString [simp]: "parseInt (intToString i) = Some i"
proof (cases "i < 0")
  case True
  then show ?thesis by (simp add: parseInt_def intToString_def isSpace_def)
next
  case False
  obtain c r where cr: "natToString (nat i) = c # r"
    by (cases "natToString (nat i)") simp_all
  with hd_natToString_digit [of "nat i"] have "isDigit c" by simp
  then have "\<not> isSpace c" "c \<noteq> CHR ''-''" "c \<noteq> CHR ''+''"
    using isDigit_not_space isDigit_not_sign by blast+
  with False cr parseMagnitude_natToString [of "nat i"] show ?thesis
    by (simp add: parseInt_def intToString_def)
qed

lemma parseInt_letter:
  assumes "\<not> isSpace c" "\<not> isDigit c" "c \<noteq> CHR ''-''" "c \<noteq> CHR ''+''"
  shows "parseInt (c # s) = None"
proof -
  have "c \<noteq> CHR ''0''" using assms(2) by (auto simp: isDigit_def)
  with assms show ?thesis by (simp add: parseInt_def parseMagnitude_def numeral_2_eq_2)
qed

section \<open>Substring search and text comparison\<close>

text \<open>\<open>message.match("Rollback")\<close> is truthy when the text occurs in the message.\<close>

fun matches :: "string \<Rightarrow> string \<Rightarrow> bool" where
  "matches pat [] = (pat = [])"
| "matches pat (c # cs) = (take (length pat) (c # cs) = pat \<or> matches pat cs)"

text \<open>Comparison of text columns by code units, as the database compares timestamps.\<close>

fun textLess :: "string \<Rightarrow> string \<Rightarrow> bool" where
  "textLess _ [] = False"
| "textLess [] (_ # _) = True"
| "textLess (c # cs) (d # ds) =
     ((of_char c :: nat) < of_char d \<or> c = d \<and> textLess cs ds)"

lemma textLess_irrefl [simp]: "\<not> textLess s s"
  by (induction s) auto

lemma textLess_trans: "textLess a b \<Longrightarrow> textLess b c \<Longrightarrow> textLess a c"
proof (induction a b arbitrary: c rule: textLess.induct)
  case (3 x xs y ys)
  then show ?case by (cases c) auto
next
  case (2 y ys)
  then show ?case by (cases c) auto
qed simp

lemma textLess_total: "textLess a b \<or> a = b \<or> textLess b a"
proof (induction a b rule: textLess.induct)
  case (1 s)
  then show ?case by (cases s) simp_all
next
  case (2 d ds)
  then show ?case by simp
next
  case (3 c cs d ds)
  have "(of_char c :: nat) < of_char d \<or> c = d \<or> (of_char d :: nat) < of_char c"
    by (metis linorder_neqE_nat of_char_eq_iff)
  with 3 show ?case by auto
qed

section \<open>Byte arrays and hexadecimal text\<close>

type_synonym byte = "8 word"

definition hexChar :: "nat \<Rightarrow> char" where
  "hexChar d = (if d < 10 then char_of (48 + d) else char_of (87 + d))"

definition byteToHex :: "byte \<Rightarrow> string" where
  "byteToHex b = [hexChar (unat b div 16), hexChar (unat b mod 16)]"

text \<open>\<open>PluginSatpGateway.bufArray2HexStr\<close>: \<open>Buffer.from(array).toString("hex")\<close>\<close>

definition bufArray2HexStr :: "byte list \<Rightarrow> string" where
  "bufArray2HexStr bs = concat (map byteToHex bs)"

text \<open>\<open>Buffer.from(s, "hex")\<close> stops at the first pair that is not hexadecimal.\<close>

fun hexToBytes :: "string \<Rightarrow> byte list" where
  "hexToBytes (a # b # r) = (case (hexDigitVal a, hexDigitVal b) of
     (Some x, Some y) \<Rightarrow> word_of_nat (16 * x + y) # hexToBytes r
   | _ \<Rightarrow> [])"
| "hexToBytes _ = []"

lemma hexDigitVal_hexChar [simp]: "d < 16 \<Longrightarrow> hexDigitVal (hexChar d) = Some d"
  by (simp add: hexDigitVal_def hexChar_def Let_def)

lemma hexToBytes_byteToHex [simp]: "hexToBytes (byteToHex b @ s) = b # hexToBytes s"
proof -
  have "unat b < 256" using unsigned_less [of b] by simp
  then have "unat b div 16 < 16" "unat b mod 16 < 16" by simp_all
  then show ?thesis by (simp add: byteToHex_def)
qed

lemma hexToBytes_bufArray2HexStr [simp]: "hexToBytes (bufArray2HexStr bs) = bs"
  by (induction bs) (simp_all add: bufArray2HexStr_def)

section \<open>Dates\<close>

text \<open>
  A time value is a number of milliseconds since 1970-01-01 UTC. The host's time zone is
  a parameter, as in the ECMAScript specification: \<open>localTZA t isUTC\<close> is the offset of
  local time from UTC at \<open>t\<close>, and \<open>name\<close> the implementation-defined zone name.
\<close>

record timezone =
  localTZA :: "int \<Rightarrow> bool \<Rightarrow> int"
  tzName :: "int \<Rightarrow> string"

definition msPerDay :: int where "msPerDay = 86400000"

definition localTime :: "timezone \<Rightarrow> int \<Rightarrow> int" where
  "localTime z t = t + localTZA z t True"

definition utcTime :: "timezone \<Rightarrow> int \<Rightarrow> int" where
  "utcTime z t = t - localTZA z t False"

definition weekDay :: "int \<Rightarrow> nat" where
  "weekDay t = nat ((t div msPerDay + 4) mod 7)"

definition dayNames :: "string list" where
  "dayNames = [''Sun'', ''Mon'', ''Tue'', ''Wed'', ''Thu'', ''Fri'', ''Sat'']"

definition monthNames :: "string list" where
  "monthNames = [''Jan'', ''Feb'', ''Mar'', ''Apr'', ''May'', ''Jun'',
     ''Jul'', ''Aug'', ''Sep'', ''Oct'', ''Nov'', ''Dec'']"

text \<open>Year, month (from 0) and day of the proleptic Gregorian calendar.\<close>

definition civilFromDays :: "int \<Rightarrow> int \<times> nat \<times> nat" where
  "civilFromDays d =
    (let z = d + 719468;
         era = z div 146097;
         doe = z - era * 146097;
         yoe = (doe - doe div 1460 + doe div 36524 - doe div 146096) div 365;
         doy = doe - (365 * yoe + yoe div 4 - yoe div 100);
         mp = (5 * doy + 2) div 153;
         day = doy - (153 * mp + 2) div 5 + 1;
         month = (if mp < 10 then mp + 2 else mp - 10);
         year = yoe + era * 400 + (if month \<le> 1 then 1 else 0)
     in (year, nat month, nat day))"

definition padTo :: "nat \<Rightarrow> nat \<Rightarrow> string" where
  "padTo k n = (let s = natToString n in replicate (k - length s) (CHR ''0'') @ s)"

definition yearString :: "int \<Rightarrow> string" where
  "yearString y = (if y < 0 then CHR ''-'' # padTo 4 (nat (- y)) else padTo 4 (nat y))"

definition offsetString :: "int \<Rightarrow> string" where
  "offsetString off = (let m = nat (abs off div 60000) in
     (if off < 0 then ''-'' else ''+'') @ padTo 2 (m div 60) @ padTo 2 (m mod 60))"

text \<open>\<open>new Date(t).toString()\<close>, for example \<open>Tue Nov 18 2025 11:58:00 GMT+0000 (...)\<close>.\<close>

definition dateToString :: "timezone \<Rightarrow> int \<Rightarrow> string" where
  "dateToString z t =
    (let lt = localTime z t;
         (y, m, d) = civilFromDays (lt div msPerDay);
         s = nat (lt mod msPerDay div 1000)
     in dayNames ! weekDay lt @ '' '' @ monthNames ! m @ '' '' @ padTo 2 d @ '' '' @ yearString y
        @ '' '' @ padTo 2 (s div 3600) @ '':'' @ padTo 2 (s div 60 mod 60) @ '':'' @ padTo 2 (s mod 60)
        @ '' GMT'' @ offsetString (localTZA z t True) @ tzName z t)"

text \<open>
  \<open>new Date().setDate(new Date().getDate() + 1)\<close> for two readings \<open>t0\<close>, \<open>t1\<close> of the
  clock: the first date is moved to the calendar day after the day of the second, inside
  the first date's month. \<open>MakeDay\<close> adds the day of the month to the first of the month.
\<close>

definition dayOfMonth :: "int \<Rightarrow> int" where
  "dayOfMonth lt = (case civilFromDays (lt div msPerDay) of (_, _, d) \<Rightarrow> int d)"

definition setDate :: "timezone \<Rightarrow> int \<Rightarrow> int \<Rightarrow> int" where
  "setDate z t d =
    (let lt = localTime z t
     in utcTime z ((lt div msPerDay - dayOfMonth lt + d) * msPerDay + lt mod msPerDay))"

definition getDate :: "timezone \<Rightarrow> int \<Rightarrow> int" where
  "getDate z t = dayOfMonth (localTime z t)"

text \<open>A textual date never reads as a number.\<close>

lemma weekDay_less: "weekDay t < 7"
  by (simp add: weekDay_def nat_less_iff)

lemma dayNames_not_number:
  assumes "i < 7"
  shows "parseInt (dayNames ! i @ s) = None"
proof -
  have "\<exists>c r. dayNames ! i = c # r \<and> c \<in> set ''SMTWF''"
    using assms by (simp add: dayNames_def less_Suc_eq numeral_eq_Suc) auto
  then obtain c r where cr: "dayNames ! i = c # r" "c \<in> set ''SMTWF''" by blast
  then have "\<not> isSpace c" "\<not> isDigit c" "c \<noteq> CHR ''-''" "c \<noteq> CHR ''+''"
    by (auto simp: isSpace_def isDigit_def)
  with cr show ?thesis by (simp add: parseInt_letter)
qed

lemma parseInt_dateToString [simp]: "parseInt (dateToString z t) = None"
  by (simp add: dateToString_def Let_def split_def dayNames_not_number weekDay_less)

text \<open>One day later is one day later, where the zone has no clock change in between.\<close>

lemma setDate_next_day:
  assumes "localTZA z t True = off" "localTZA z (t + off + msPerDay) False = off"
  shows "setDate z t (getDate z t + 1) = t + msPerDay"
proof -
  let ?lt = "t + off"
  have "(?lt div msPerDay + 1) * msPerDay + ?lt mod msPerDay = ?lt + msPerDay"
    using div_mult_mod_eq [of ?lt msPerDay] by (simp add: algebra_simps)
  with assms show ?thesis
    by (simp add: setDate_def getDate_def localTime_def utcTime_def Let_def algebra_simps)
qed

end
