(* ===== verification/Json.thy ===== *)
theory Json
  imports JS_Lib
begin

text \<open>
  JSON values, \<open>JSON.stringify\<close> and \<open>JSON.parse\<close>. Objects are association lists in
  property order. Every object the gateway signs, hashes or stores passes through this
  text, so the round trip \<open>parse (stringify j) = Some j\<close> carries the recovery results.

  The parser accepts the JSON grammar with integer numbers; a fraction or an exponent, and
  a \<open>\u\<close> escape above \<open>00FF\<close>, are rejected because the value types have no room for them.
\<close>

section \<open>Values\<close>

datatype json =
    JNull
  | JBool bool
  | JNum int
  | JStr string
  | JArr "json list"
  | JObj "(string \<times> json) list"

text \<open>Property access; a missing property and \<open>null\<close> both compare equal to \<open>undefined\<close>.\<close>

definition jget :: "string \<Rightarrow> json \<Rightarrow> json option" where
  "jget k j = (case j of
     JObj fs \<Rightarrow> (case map_of fs k of Some JNull \<Rightarrow> None | r \<Rightarrow> r)
   | _ \<Rightarrow> None)"

text \<open>An object never has two properties of the same name.\<close>

fun wfJson :: "json \<Rightarrow> bool" where
  "wfJson (JArr xs) = (\<forall>x \<in> set xs. wfJson x)"
| "wfJson (JObj fs) = (distinct (map fst fs) \<and> (\<forall>f \<in> set fs. wfJson (snd f)))"
| "wfJson _ = True"

section \<open>\<open>JSON.stringify\<close>\<close>

definition escapeChar :: "char \<Rightarrow> string" where
  "escapeChar c =
    (if c = CHR 0x22 then [CHR 0x5C, CHR 0x22]
     else if c = CHR 0x5C then [CHR 0x5C, CHR 0x5C]
     else if c = CHR 0x08 then [CHR 0x5C, CHR ''b'']
     else if c = CHR 0x0C then [CHR 0x5C, CHR ''f'']
     else if c = CHR 0x0A then [CHR 0x5C, CHR ''n'']
     else if c = CHR 0x0D then [CHR 0x5C, CHR ''r'']
     else if c = CHR 0x09 then [CHR 0x5C, CHR ''t'']
     else if (of_char c :: nat) < 32
       then [CHR 0x5C, CHR ''u'', CHR ''0'', CHR ''0'',
             hexChar (of_char c div 16), hexChar (of_char c mod 16)]
     else [c])"

definition quote :: "string \<Rightarrow> string" where
  "quote s = CHR 0x22 # concat (map escapeChar s) @ [CHR 0x22]"

fun stringify :: "json \<Rightarrow> string"
  and stringifyElems :: "json list \<Rightarrow> string"
  and stringifyFields :: "(string \<times> json) list \<Rightarrow> string" where
  "stringify JNull = ''null''"
| "stringify (JBool b) = (if b then ''true'' else ''false'')"
| "stringify (JNum i) = intToString i"
| "stringify (JStr s) = quote s"
| "stringify (JArr xs) = CHR ''['' # stringifyElems xs @ '']''"
| "stringify (JObj fs) = CHR ''{'' # stringifyFields fs @ ''}''"
| "stringifyElems [] = []"
| "stringifyElems [x] = stringify x"
| "stringifyElems (x # y # xs) = stringify x @ CHR '','' # stringifyElems (y # xs)"
| "stringifyFields [] = []"
| "stringifyFields [(k, v)] = quote k @ CHR '':'' # stringify v"
| "stringifyFields ((k, v) # g # fs) =
     quote k @ CHR '':'' # stringify v @ CHR '','' # stringifyFields (g # fs)"

section \<open>\<open>JSON.parse\<close>\<close>

definition jsonSpace :: "char \<Rightarrow> bool" where
  "jsonSpace c \<longleftrightarrow> c = CHR '' '' \<or> c = CHR 0x09 \<or> c = CHR 0x0A \<or> c = CHR 0x0D"

definition skipWs :: "string \<Rightarrow> string" where
  "skipWs s = dropWhile jsonSpace s"

text \<open>The characters of a string up to its closing quote.\<close>

definition unescape :: "char \<Rightarrow> char option" where
  "unescape c =
    (if c = CHR 0x22 \<or> c = CHR 0x5C \<or> c = CHR ''/'' then Some c
     else if c = CHR ''b'' then Some (CHR 0x08)
     else if c = CHR ''f'' then Some (CHR 0x0C)
     else if c = CHR ''n'' then Some (CHR 0x0A)
     else if c = CHR ''r'' then Some (CHR 0x0D)
     else if c = CHR ''t'' then Some (CHR 0x09)
     else None)"

definition unicodeEscape :: "string \<Rightarrow> char option" where
  "unicodeEscape h = (case map hexDigitVal h of
     [Some a, Some b, Some c, Some d] \<Rightarrow>
       if a = 0 \<and> b = 0 then Some (char_of (16 * c + d)) else None
   | _ \<Rightarrow> None)"

fun parseChars :: "string \<Rightarrow> (string \<times> string) option" where
  "parseChars [] = None"
| "parseChars (c # r) =
    (if c = CHR 0x22 then Some ([], r)
     else if c = CHR 0x5C then
       (case r of
          [] \<Rightarrow> None
        | e # r' \<Rightarrow>
            if e = CHR ''u'' then
              (case (unicodeEscape (take 4 r'), parseChars (drop 4 r')) of
                 (Some u, Some (s, rest)) \<Rightarrow> Some (u # s, rest)
               | _ \<Rightarrow> None)
            else (case (unescape e, parseChars r') of
                 (Some u, Some (s, rest)) \<Rightarrow> Some (u # s, rest)
               | _ \<Rightarrow> None))
     else if (of_char c :: nat) < 32 then None
     else (case parseChars r of Some (s, rest) \<Rightarrow> Some (c # s, rest) | None \<Rightarrow> None))"

definition parseDigits :: "string \<Rightarrow> (nat \<times> string) option" where
  "parseDigits s =
    (let ds = takeWhile isDigit s; rest = dropWhile isDigit s
     in if ds = [] \<or> (hd ds = CHR ''0'' \<and> ds \<noteq> ''0'')
           \<or> (rest \<noteq> [] \<and> hd rest \<in> {CHR ''.'', CHR ''e'', CHR ''E''})
        then None else Some (digitsVal 0 ds, rest))"

definition headIs :: "char \<Rightarrow> string \<Rightarrow> bool" where
  "headIs c s \<longleftrightarrow> s \<noteq> [] \<and> hd s = c"

definition parseNumber :: "string \<Rightarrow> (int \<times> string) option" where
  "parseNumber s =
    (if headIs (CHR ''-'') s then map_option (\<lambda>(n, t). (- int n, t)) (parseDigits (tl s))
     else map_option (\<lambda>(n, t). (int n, t)) (parseDigits s))"

text \<open>A repeated property keeps its first position and takes the last value.\<close>

fun upsert :: "string \<Rightarrow> json \<Rightarrow> (string \<times> json) list \<Rightarrow> (string \<times> json) list" where
  "upsert k v [] = [(k, v)]"
| "upsert k v (f # fs) = (if fst f = k then (k, v) # fs else f # upsert k v fs)"

definition buildObj :: "(string \<times> json) list \<Rightarrow> (string \<times> json) list" where
  "buildObj fs = foldl (\<lambda>acc f. upsert (fst f) (snd f) acc) [] fs"

text \<open>Recursive descent; the fuel bounds the number of nested calls.\<close>

fun parseValue :: "nat \<Rightarrow> string \<Rightarrow> (json \<times> string) option"
  and parseElems :: "nat \<Rightarrow> string \<Rightarrow> (json list \<times> string) option"
  and parseMembers :: "nat \<Rightarrow> string \<Rightarrow> ((string \<times> json) list \<times> string) option" where
  "parseValue 0 s = None"
| "parseValue (Suc n) s =
    (case skipWs s of
       [] \<Rightarrow> None
     | c # r \<Rightarrow>
         if c = CHR 0x22 then map_option (\<lambda>(t, u). (JStr t, u)) (parseChars r)
         else if c = CHR ''['' then
           (if headIs (CHR '']'') (skipWs r) then Some (JArr [], tl (skipWs r))
            else map_option (\<lambda>(xs, u). (JArr xs, u)) (parseElems n r))
         else if c = CHR ''{'' then
           (if headIs (CHR ''}'') (skipWs r) then Some (JObj [], tl (skipWs r))
            else map_option (\<lambda>(fs, u). (JObj (buildObj fs), u)) (parseMembers n r))
         else if take 4 (c # r) = ''null'' then Some (JNull, drop 4 (c # r))
         else if take 4 (c # r) = ''true'' then Some (JBool True, drop 4 (c # r))
         else if take 5 (c # r) = ''false'' then Some (JBool False, drop 5 (c # r))
         else map_option (\<lambda>(i, u). (JNum i, u)) (parseNumber (c # r)))"
| "parseElems 0 s = None"
| "parseElems (Suc n) s =
    (case parseValue n s of
       None \<Rightarrow> None
     | Some (x, r) \<Rightarrow>
         (case skipWs r of
            [] \<Rightarrow> None
          | c # u \<Rightarrow>
              if c = CHR '','' then map_option (\<lambda>(xs, t). (x # xs, t)) (parseElems n u)
              else if c = CHR '']'' then Some ([x], u) else None))"
| "parseMembers 0 s = None"
| "parseMembers (Suc n) s =
    (case skipWs s of
       [] \<Rightarrow> None
     | q # r \<Rightarrow>
         if q \<noteq> CHR 0x22 then None
         else (case parseChars r of
            None \<Rightarrow> None
          | Some (k, r1) \<Rightarrow>
              (case skipWs r1 of
                 [] \<Rightarrow> None
               | c # r2 \<Rightarrow>
                   if c \<noteq> CHR '':'' then None
                   else (case parseValue n r2 of
                      None \<Rightarrow> None
                    | Some (v, r3) \<Rightarrow>
                        (case skipWs r3 of
                           [] \<Rightarrow> None
                         | d # u \<Rightarrow>
                             if d = CHR '','' then map_option (\<lambda>(fs, t). ((k, v) # fs, t)) (parseMembers n u)
                             else if d = CHR ''}'' then Some ([(k, v)], u) else None)))))"

definition parse :: "string \<Rightarrow> json option" where
  "parse s = (case parseValue (2 * length s + 2) s of
     Some (j, r) \<Rightarrow> if skipWs r = [] then Some j else None
   | None \<Rightarrow> None)"

section \<open>Round trip\<close>

lemma skipWs_nonspace [simp]: "\<not> jsonSpace c \<Longrightarrow> skipWs (c # s) = c # s"
  by (simp add: skipWs_def)

lemma skipWs_Nil [simp]: "skipWs [] = []"
  by (simp add: skipWs_def)

lemma hexDigitVal_0 [simp]: "hexDigitVal (CHR ''0'') = Some 0"
  by (simp add: hexDigitVal_def)

lemma unicodeEscape_control:
  assumes "(of_char c :: nat) < 32"
  shows "unicodeEscape [CHR ''0'', CHR ''0'', hexChar (of_char c div 16), hexChar (of_char c mod 16)] = Some c"
proof -
  have "(of_char c :: nat) div 16 < 16" "(of_char c :: nat) mod 16 < 16" using assms by simp_all
  then show ?thesis by (simp add: unicodeEscape_def)
qed

lemma parseChars_escapeChar:
  "parseChars (escapeChar c @ s) = map_option (\<lambda>(t, u). (c # t, u)) (parseChars s)"
proof (cases "escapeChar c = [c]")
  case True
  then have "c \<noteq> CHR 0x22 \<and> c \<noteq> CHR 0x5C \<and> \<not> (of_char c :: nat) < 32"
    by (auto simp: escapeChar_def split: if_splits)
  with True show ?thesis by (simp split: option.split)
next
  case False
  show ?thesis
  proof (cases "c \<in> {CHR 0x22, CHR 0x5C, CHR 0x08, CHR 0x0C, CHR 0x0A, CHR 0x0D, CHR 0x09}")
    case True
    then show ?thesis by (auto simp: escapeChar_def unescape_def split: option.split)
  next
    case no: False
    with False have "(of_char c :: nat) < 32" by (auto simp: escapeChar_def split: if_splits)
    with no show ?thesis
      by (auto simp: escapeChar_def unicodeEscape_control split: option.split)
  qed
qed

lemma parseChars_quote [simp]:
  "parseChars (concat (map escapeChar s) @ CHR 0x22 # r) = Some (s, r)"
  by (induction s) (simp_all add: parseChars_escapeChar)

text \<open>What may follow a value inside a document.\<close>

definition tokenEnds :: "string \<Rightarrow> bool" where
  "tokenEnds r \<longleftrightarrow> r = [] \<or> hd r \<in> {CHR '','', CHR '']'', CHR ''}''}"

lemma tokenEnds_simps [simp]: "tokenEnds []" "tokenEnds (CHR '','' # r)" "tokenEnds (CHR '']'' # r)" "tokenEnds (CHR ''}'' # r)"
  by (simp_all add: tokenEnds_def)

lemma tokenEnds_not_digit: "tokenEnds (c # r) \<Longrightarrow> \<not> isDigit c \<and> c \<notin> {CHR ''.'', CHR ''e'', CHR ''E''}"
  by (auto simp: tokenEnds_def isDigit_def)

lemma takeWhile_digits_tokenEnds:
  assumes "tokenEnds r"
  shows "takeWhile isDigit (natToString n @ r) = natToString n"
    and "dropWhile isDigit (natToString n @ r) = r"
proof -
  have "takeWhile isDigit r = []" "dropWhile isDigit r = r"
    using assms tokenEnds_not_digit by (cases r; auto)+
  then show "takeWhile isDigit (natToString n @ r) = natToString n"
    and "dropWhile isDigit (natToString n @ r) = r"
    by (simp_all add: takeWhile_append2 dropWhile_append2 natToString_digits)
qed

lemma parseDigits_natToString:
  assumes "tokenEnds r"
  shows "parseDigits (natToString n @ r) = Some (n, r)"
proof -
  have lead: "\<not> (hd (natToString n) = CHR ''0'' \<and> natToString n \<noteq> ''0'')"
    by (metis hd_natToString_zero digitChar_0 natToString.simps zero_less_numeral)
  have "r \<noteq> [] \<Longrightarrow> hd r \<notin> {CHR ''.'', CHR ''e'', CHR ''E''}"
    using assms tokenEnds_not_digit by (cases r) auto
  with lead show ?thesis
    by (auto simp: parseDigits_def Let_def takeWhile_digits_tokenEnds [OF assms])
qed

lemma intToString_first:
  "\<exists>c t. intToString i = c # t \<and> (isDigit c \<or> c = CHR ''-'')"
proof (cases "i < 0")
  case False
  then show ?thesis
    using hd_natToString_digit [of "nat i"] natToString_nonempty [of "nat i"]
    by (cases "natToString (nat i)") (auto simp: intToString_def simp del: natToString_nonempty)
qed (simp add: intToString_def)

lemma parseNumber_intToString:
  assumes "tokenEnds r"
  shows "parseNumber (intToString i @ r) = Some (i, r)"
proof (cases "i < 0")
  case True
  then show ?thesis by (simp add: parseNumber_def intToString_def parseDigits_natToString assms headIs_def)
next
  case False
  obtain c t where ct: "natToString (nat i) = c # t" by (cases "natToString (nat i)") simp_all
  with hd_natToString_digit [of "nat i"] have "isDigit c" by simp
  then have "c \<noteq> CHR ''-''" using isDigit_not_sign by blast
  moreover have "parseDigits (c # t @ r) = Some (nat i, r)"
    using parseDigits_natToString [OF assms, of "nat i"] ct by simp
  ultimately show ?thesis using False ct
    by (simp add: parseNumber_def intToString_def headIs_def)
qed

text \<open>The first character decides which production the parser takes.\<close>

lemma stringify_first:
  "\<exists>c t. stringify j = c # t \<and> \<not> jsonSpace c \<and> c \<noteq> CHR '']'' \<and> c \<noteq> CHR ''}''"
proof (cases j)
  case (JNum i)
  with intToString_first [of i] show ?thesis by (auto simp: jsonSpace_def isDigit_def)
qed (auto simp: jsonSpace_def quote_def)


lemma jsonSpace_delims [simp]:
  "\<not> jsonSpace CHR 0x22" "\<not> jsonSpace (CHR '','')" "\<not> jsonSpace (CHR '']'')"
  "\<not> jsonSpace (CHR ''}'')" "\<not> jsonSpace (CHR '':'')" "\<not> jsonSpace (CHR ''['')" "\<not> jsonSpace (CHR ''{'')"
  by (simp_all add: jsonSpace_def)

lemma stringify_length [simp]: "0 < length (stringify j)"
  using stringify_first [of j] by auto

lemma stringifyElems_first:
  assumes "xs \<noteq> []"
  shows "\<exists>c t. stringifyElems xs = c # t \<and> \<not> jsonSpace c \<and> c \<noteq> CHR '']''"
proof -
  obtain x ys where "xs = x # ys" using assms by (cases xs) auto
  moreover obtain c t where "stringify x = c # t" "\<not> jsonSpace c" "c \<noteq> CHR '']''"
    using stringify_first by blast
  ultimately show ?thesis by (cases ys) auto
qed

lemma stringifyFields_first:
  "fs \<noteq> [] \<Longrightarrow> \<exists>t. stringifyFields fs = CHR 0x22 # t"
  by (cases fs rule: stringifyFields.cases) (auto simp: quote_def)

lemma upsert_fresh: "k \<notin> fst ` set fs \<Longrightarrow> upsert k v fs = fs @ [(k, v)]"
  by (induction fs) auto

lemma buildObj_distinct: "distinct (map fst fs) \<Longrightarrow> buildObj fs = fs"
proof (induction fs rule: rev_induct)
  case Nil
  then show ?case by (simp add: buildObj_def)
next
  case (snoc f fs)
  then show ?case by (simp add: buildObj_def upsert_fresh)
qed

lemma parseValue_number:
  assumes "tokenEnds r"
  shows "parseValue (Suc n) (intToString i @ r) = Some (JNum i, r)"
proof -
  obtain c t where ct: "intToString i = c # t" "isDigit c \<or> c = CHR ''-''"
    using intToString_first by blast
  then have c: "\<not> jsonSpace c" "c \<noteq> CHR 0x22" "c \<noteq> CHR ''[''" "c \<noteq> CHR ''{''"
     "c \<noteq> CHR ''n''" "c \<noteq> CHR ''t''" "c \<noteq> CHR ''f''"
    by (auto simp: isDigit_def jsonSpace_def)
  with ct(1) parseNumber_intToString [OF assms, of i] show ?thesis by simp
qed

lemma parse_stringify_gen:
  "wfJson j \<Longrightarrow> tokenEnds r \<Longrightarrow> 2 * length (stringify j) \<le> n \<Longrightarrow>
     parseValue n (stringify j @ r) = Some (j, r)"
  "\<forall>x \<in> set xs. wfJson x \<Longrightarrow> xs \<noteq> [] \<Longrightarrow> 2 * length (stringifyElems xs) + 1 \<le> n \<Longrightarrow>
     parseElems n (stringifyElems xs @ CHR '']'' # r) = Some (xs, r)"
  "\<forall>f \<in> set fs. wfJson (snd f) \<Longrightarrow> fs \<noteq> [] \<Longrightarrow> 2 * length (stringifyFields fs) + 1 \<le> n \<Longrightarrow>
     parseMembers n (stringifyFields fs @ CHR ''}'' # r) = Some (fs, r)"
proof (induction j and xs and fs arbitrary: n r and n r and n r
    rule: stringify_stringifyElems_stringifyFields.induct)
  case 1
  then show ?case by (cases n) (auto simp: jsonSpace_def)
next
  case (2 b)
  then show ?case by (cases n; cases b) (auto simp: jsonSpace_def)
next
  case (3 i)
  obtain m where "n = Suc m" using 3(3) stringify_length [of "JNum i"] by (cases n) (auto simp del: stringify_length)
  with 3 show ?case using parseValue_number [of r m i] by simp
next
  case (4 s)
  then show ?case by (cases n) (auto simp: quote_def)
next
  case (5 xs)
  then obtain m where n: "n = Suc m" by (cases n) auto
  show ?case
  proof (cases "xs = []")
    case True
    with n show ?thesis by (simp add: headIs_def)
  next
    case False
    then obtain c t where ct: "stringifyElems xs = c # t" "\<not> jsonSpace c" "c \<noteq> CHR '']''"
      using stringifyElems_first by blast
    have "parseElems m (stringifyElems xs @ CHR '']'' # r) = Some (xs, r)"
      using 5 False n by simp
    with n ct show ?thesis by (simp add: headIs_def)
  qed
next
  case (6 fs)
  then obtain m where n: "n = Suc m" by (cases n) auto
  show ?case
  proof (cases "fs = []")
    case True
    with n show ?thesis by (simp add: headIs_def)
  next
    case False
    then obtain t where ct: "stringifyFields fs = CHR 0x22 # t"
      using stringifyFields_first by blast
    have "parseMembers m (stringifyFields fs @ CHR ''}'' # r) = Some (fs, r)"
      using 6 False n by simp
    with n ct 6(2) show ?thesis by (simp add: headIs_def buildObj_distinct)
  qed
next
  case 7
  then show ?case by simp
next
  case (8 x)
  then obtain m where n: "n = Suc m" by (cases n) auto
  with 8 have "parseValue m (stringify x @ CHR '']'' # r) = Some (x, CHR '']'' # r)" by simp
  with n show ?case by simp
next
  case (9 x y xs)
  then obtain m where n: "n = Suc m" by (cases n) auto
  with 9 have "parseValue m (stringify x @ CHR '','' # stringifyElems (y # xs) @ CHR '']'' # r) =
      Some (x, CHR '','' # stringifyElems (y # xs) @ CHR '']'' # r)" by simp
  moreover have "parseElems m (stringifyElems (y # xs) @ CHR '']'' # r) = Some (y # xs, r)"
    using 9 n by simp
  ultimately show ?case using n by simp
next
  case 10
  then show ?case by simp
next
  case (11 k v)
  then obtain m where n: "n = Suc m" by (cases n) auto
  with 11 have "parseValue m (stringify v @ CHR ''}'' # r) = Some (v, CHR ''}'' # r)"
    by (simp add: quote_def)
  with n show ?case by (simp add: quote_def)
next
  case (12 k v g fs)
  then obtain m where n: "n = Suc m" by (cases n) auto
  with 12 have "parseValue m (stringify v @ CHR '','' # stringifyFields (g # fs) @ CHR ''}'' # r) =
      Some (v, CHR '','' # stringifyFields (g # fs) @ CHR ''}'' # r)"
    by (simp add: quote_def)
  moreover have "parseMembers m (stringifyFields (g # fs) @ CHR ''}'' # r) = Some (g # fs, r)"
    using 12 n by (simp add: quote_def)
  ultimately show ?case using n by (simp add: quote_def)
qed

lemma parse_stringify [simp]:
  assumes "wfJson j"
  shows "parse (stringify j) = Some j"
  using parse_stringify_gen(1) [OF assms, of "[]" "2 * length (stringify j) + 2"]
  by (simp add: parse_def)


text \<open>Every production consumes input, so the fuel given by \<open>parse\<close> is enough for any text.\<close>

lemma skipWs_length: "length (skipWs s) \<le> length s"
  by (simp add: skipWs_def length_dropWhile_le)

lemma skipWs_Cons_length: "skipWs s = c # r \<Longrightarrow> length r < length s"
  using skipWs_length [of s] by simp

lemma parseChars_length: "parseChars s = Some (t, r) \<Longrightarrow> length r < length s"
proof (induction s arbitrary: t r rule: parseChars.induct)
  case (2 c s)
  then show ?case
    by (fastforce split: if_splits option.splits list.splits prod.splits)
qed simp

lemma parseNumber_length: "parseNumber s = Some (i, r) \<Longrightarrow> length r < length s"
proof -
  have *: "parseDigits u = Some (n, v) \<Longrightarrow> length v < length u" for u n v
  proof -
    assume "parseDigits u = Some (n, v)"
    then have "takeWhile isDigit u \<noteq> []" "v = dropWhile isDigit u"
      by (auto simp: parseDigits_def Let_def split: if_splits)
    moreover have "length u = length (takeWhile isDigit u) + length (dropWhile isDigit u)"
      by (metis length_append takeWhile_dropWhile_id)
    ultimately show ?thesis by simp
  qed
  assume "parseNumber s = Some (i, r)"
  then show ?thesis using * [of "tl s"] * [of s]
    by (auto simp: parseNumber_def headIs_def split: if_splits)
qed

lemma parse_length:
  "parseValue n s = Some (j, r) \<Longrightarrow> length r < length s"
  "parseElems n s = Some (xs, r) \<Longrightarrow> length r < length s"
  "parseMembers n s = Some (fs, r) \<Longrightarrow> length r < length s"
proof (induction n s and n s and n s arbitrary: j r and xs r and fs r
    rule: parseValue_parseElems_parseMembers.induct)
  case (2 n s)
  obtain c u where cu: "skipWs s = c # u" using 2(3) by (auto split: list.splits)
  then have len: "length u < length s" by (rule skipWs_Cons_length)
  have tl: "length (tl (skipWs u)) \<le> length u" using skipWs_length [of u] by simp
  consider "c = CHR 0x22" | "c = CHR ''[''" | "c = CHR ''{''"
    | "c \<noteq> CHR 0x22" "c \<noteq> CHR ''[''" "c \<noteq> CHR ''{''" by blast
  then show ?case
  proof cases
    case 1
    with 2(3) cu len parseChars_length show ?thesis by fastforce
  next
    case c: 2
    with 2 cu len tl show ?thesis by (fastforce split: if_splits)
  next
    case 3
    with 2 cu len tl show ?thesis by (fastforce split: if_splits)
  next
    case 4
    with 2(3) cu len parseNumber_length [of "c # u"] skipWs_length [of s] show ?thesis
      by (auto split: if_splits)
  qed
next
  case (4 n s)
  then show ?case
    by (fastforce split: option.splits list.splits if_splits prod.splits dest: skipWs_Cons_length)
next
  case (6 n s)
  then show ?case
    by (fastforce split: option.splits list.splits if_splits prod.splits
        dest: skipWs_Cons_length parseChars_length)
qed simp_all


lemma parse_more_fuel:
  "2 * length s + 1 \<le> n \<Longrightarrow> parseValue (Suc n) s = parseValue n s"
  "2 * length s + 2 \<le> n \<Longrightarrow> parseElems (Suc n) s = parseElems n s"
  "2 * length s + 2 \<le> n \<Longrightarrow> parseMembers (Suc n) s = parseMembers n s"
proof (induction n arbitrary: s)
  case (Suc m)
  { case 1
    show ?case
    proof (cases "skipWs s")
      case (Cons c r)
      then have "length r < length s" by (rule skipWs_Cons_length)
      then have "parseElems (Suc m) r = parseElems m r" "parseMembers (Suc m) r = parseMembers m r"
        using 1 Suc.IH(2) [of r] Suc.IH(3) [of r] by simp_all
      with Cons show ?thesis by (simp only: parseValue.simps list.case)
    qed simp
  next
    case 2
    have *: "parseValue (Suc m) s = parseValue m s" using 2 Suc.IH(1) [of s] by simp
    have "parseElems (Suc m) u = parseElems m u"
      if "parseValue m s = Some (x, r)" "skipWs r = c # u" for x r c u
      using that parse_length(1) [of m s x r] skipWs_Cons_length [of r c u] 2 Suc.IH(2) [of u] by simp
    then show ?case
      by (simp only: parseElems.simps *) (auto split: option.split list.split)
  next
    case 3
    have V: "parseValue (Suc m) v = parseValue m v" if "length v < length s" for v
      using that 3 Suc.IH(1) [of v] by simp
    have M: "parseMembers (Suc m) v = parseMembers m v" if "length v < length s" for v
      using that 3 Suc.IH(3) [of v] by simp
    show ?case
    proof (cases "skipWs s")
      case (Cons q r)
      note sq = this
      show ?thesis
      proof (cases "parseChars r")
        case (Some kr)
        obtain k r1 where kr: "kr = (k, r1)" by (cases kr)
        show ?thesis
        proof (cases "skipWs r1")
          case (Cons c r2)
          have "length r2 < length s"
            using skipWs_Cons_length [OF sq] skipWs_Cons_length [OF Cons] parseChars_length [of r k r1] Some kr
            by simp
          then have V2: "parseValue (Suc m) r2 = parseValue m r2" by (rule V)
          have "parseMembers (Suc m) u = parseMembers m u"
            if "parseValue m r2 = Some (v, r3)" "skipWs r3 = d # u" for v r3 d u
            using that parse_length(1) [of m r2 v r3] skipWs_Cons_length [of r3 d u] \<open>length r2 < length s\<close>
            by (intro M) simp
          then show ?thesis
            by (simp only: parseMembers.simps(2) [of "Suc m" s] parseMembers.simps(2) [of m s] sq Some kr Cons V2 list.case option.case prod.case)
              (auto split: option.split list.split)
        qed (simp only: parseMembers.simps(2) [of "Suc m" s] parseMembers.simps(2) [of m s] sq Some kr list.case option.case prod.case)
      qed (simp only: parseMembers.simps(2) [of "Suc m" s] parseMembers.simps(2) [of m s] sq list.case option.case)
    qed (simp only: parseMembers.simps(2) [of "Suc m" s] parseMembers.simps(2) [of m s] list.case)
  }
qed simp_all

lemma parseValue_enough_fuel:
  "2 * length s + 2 \<le> n \<Longrightarrow> parseValue n s = parseValue (2 * length s + 2) s"
proof (induction n rule: dec_induct)
  case (step n)
  then show ?case using parse_more_fuel(1) [of s n] by simp
qed simp

end
