(* ===== verification/Session.thy ===== *)
theory Session
  imports Json
begin

text \<open>
  The data model of a transfer: asset and payload profiles, the per-session state
  \<open>SessionData\<close> of the OpenAPI model, and their JSON form. A field of the source that is
  declared optional is an \<open>option\<close>; \<open>x == undefined\<close> is \<open>x = None\<close>. Field names carry the
  prefix \<open>sd_\<close> (\<open>ap_\<close>, \<open>pp_\<close> for the profiles); the JSON keys are the source's names.

  A sender and a receiver see the same property order because both the transport and the
  database keep the text; the model fixes it to the order of the interface.
\<close>

section \<open>Optional fields\<close>

fun optFields :: "(string \<times> json option) list \<Rightarrow> (string \<times> json) list" where
  "optFields [] = []"
| "optFields ((k, None) # fs) = optFields fs"
| "optFields ((k, Some j) # fs) = (k, j) # optFields fs"

definition asStr :: "json \<Rightarrow> string option" where
  "asStr j = (case j of JStr s \<Rightarrow> Some s | _ \<Rightarrow> None)"

definition asNum :: "json \<Rightarrow> int option" where
  "asNum j = (case j of JNum i \<Rightarrow> Some i | _ \<Rightarrow> None)"

definition asBool :: "json \<Rightarrow> bool option" where
  "asBool j = (case j of JBool b \<Rightarrow> Some b | _ \<Rightarrow> None)"

definition asArr :: "json \<Rightarrow> json list option" where
  "asArr j = (case j of JArr xs \<Rightarrow> Some xs | _ \<Rightarrow> None)"

fun sequence :: "'a option list \<Rightarrow> 'a list option" where
  "sequence [] = Some []"
| "sequence (x # xs) = (case (x, sequence xs) of (Some y, Some ys) \<Rightarrow> Some (y # ys) | _ \<Rightarrow> None)"

definition strsToJson :: "string list \<Rightarrow> json" where
  "strsToJson xs = JArr (map JStr xs)"

definition asStrs :: "json \<Rightarrow> string list option" where
  "asStrs j = Option.bind (asArr j) (\<lambda>xs. sequence (map asStr xs))"

definition field :: "string \<Rightarrow> (json \<Rightarrow> 'a option) \<Rightarrow> json \<Rightarrow> 'a option" where
  "field k f j = Option.bind (jget k j) f"

lemma sequence_map [simp]: "(\<And>x. g (f x) = Some x) \<Longrightarrow> sequence (map g (map f xs)) = Some xs"
  by (induction xs) auto

lemma asStrs_strsToJson [simp]: "asStrs (strsToJson xs) = Some xs"
  using sequence_map [of asStr JStr xs] by (simp add: asStrs_def strsToJson_def asArr_def asStr_def)

lemma as_simps [simp]:
  "asStr (JStr s) = Some s" "asNum (JNum i) = Some i" "asBool (JBool b) = Some b" "asArr (JArr xs) = Some xs"
  by (simp_all add: asStr_def asNum_def asBool_def asArr_def)

lemma optFields_keys: "fst ` set (optFields fs) \<subseteq> fst ` set fs"
  by (induction fs rule: optFields.induct) auto

lemma map_of_optFields:
  "distinct (map fst fs) \<Longrightarrow> map_of (optFields fs) k = (case map_of fs k of Some v \<Rightarrow> v | None \<Rightarrow> None)"
proof (induction fs rule: optFields.induct)
  case (2 k' fs)
  then have "k' \<notin> fst ` set (optFields fs)" using optFields_keys [of fs] by auto
  moreover have "map_of fs k' = None" using 2 by (simp add: map_of_eq_None_iff)
  ultimately show ?case using 2 by (cases "k = k'") (simp_all del: map_of_eq_None_iff)
qed auto

lemma distinct_optFields: "distinct (map fst fs) \<Longrightarrow> distinct (map fst (optFields fs))"
proof (induction fs rule: optFields.induct)
  case (3 k j fs)
  then have "k \<notin> fst ` set (optFields fs)" using optFields_keys [of fs] by auto
  with 3 show ?case by simp
qed simp_all

lemma wfJson_optFields:
  assumes "distinct (map fst fs)" "\<forall>f \<in> set fs. pred_option wfJson (snd f)"
  shows "wfJson (JObj (optFields fs))"
proof -
  have "\<forall>f \<in> set (optFields fs). wfJson (snd f)"
    using assms(2) by (induction fs rule: optFields.induct) auto
  then show ?thesis by (simp add: distinct_optFields assms(1))
qed

declare optFields.simps [simp del]

definition readField :: "(json \<Rightarrow> 'a option) \<Rightarrow> json option option \<Rightarrow> 'a option" where
  "readField f v = (case v of Some (Some j) \<Rightarrow> if j = JNull then None else f j | _ \<Rightarrow> None)"

lemma field_optFields:
  "distinct (map fst fs) \<Longrightarrow> field k f (JObj (optFields fs)) = readField f (map_of fs k)"
  by (auto simp: field_def readField_def jget_def map_of_optFields split: option.split json.split)

lemma readField_map [simp]:
  "(\<And>y. g y \<noteq> JNull) \<Longrightarrow> (\<And>y. f (g y) = Some y) \<Longrightarrow> readField f (Some (map_option g x)) = x"
  by (cases x) (simp_all add: readField_def)

lemma readField_Some [simp]: "j \<noteq> JNull \<Longrightarrow> readField f (Some (Some j)) = f j"
  by (simp add: readField_def)

lemma strsToJson_not_null [simp]: "strsToJson xs \<noteq> JNull"
  by (simp add: strsToJson_def)

lemma wfJson_strsToJson [simp]: "wfJson (strsToJson xs)"
  by (simp add: strsToJson_def)

section \<open>Profiles\<close>

record AssetProfile =
  ap_issuer :: "string option"
  ap_assetCode :: "string option"
  ap_assetCodeType :: "string option"
  ap_issuanceDate :: "string option"
  ap_expirationDate :: string
  ap_verificationEndPoint :: "string option"
  ap_digitalSignature :: "string option"
  ap_prospectusLink :: "string option"
  ap_keyInformationLink :: "json list option"
  ap_keyWord :: "json list option"
  ap_transferRestriction :: "json list option"
  ap_ledgerRequirements :: "json list option"

record PayloadProfile =
  pp_assetProfile :: AssetProfile
  pp_capabilities :: "string option"

definition assetProfileToJson :: "AssetProfile \<Rightarrow> json" where
  "assetProfileToJson p = JObj (optFields [
     (''issuer'', map_option JStr (ap_issuer p)),
     (''assetCode'', map_option JStr (ap_assetCode p)),
     (''assetCodeType'', map_option JStr (ap_assetCodeType p)),
     (''issuanceDate'', map_option JStr (ap_issuanceDate p)),
     (''expirationDate'', Some (JStr (ap_expirationDate p))),
     (''verificationEndPoint'', map_option JStr (ap_verificationEndPoint p)),
     (''digitalSignature'', map_option JStr (ap_digitalSignature p)),
     (''prospectusLink'', map_option JStr (ap_prospectusLink p)),
     (''keyInformationLink'', map_option JArr (ap_keyInformationLink p)),
     (''keyWord'', map_option JArr (ap_keyWord p)),
     (''transferRestriction'', map_option JArr (ap_transferRestriction p)),
     (''ledgerRequirements'', map_option JArr (ap_ledgerRequirements p))])"

definition assetProfileOfJson :: "json \<Rightarrow> AssetProfile option" where
  "assetProfileOfJson j = (case field ''expirationDate'' asStr j of None \<Rightarrow> None | Some ex \<Rightarrow> Some \<lparr>
     ap_issuer = field ''issuer'' asStr j,
     ap_assetCode = field ''assetCode'' asStr j,
     ap_assetCodeType = field ''assetCodeType'' asStr j,
     ap_issuanceDate = field ''issuanceDate'' asStr j,
     ap_expirationDate = ex,
     ap_verificationEndPoint = field ''verificationEndPoint'' asStr j,
     ap_digitalSignature = field ''digitalSignature'' asStr j,
     ap_prospectusLink = field ''prospectusLink'' asStr j,
     ap_keyInformationLink = field ''keyInformationLink'' asArr j,
     ap_keyWord = field ''keyWord'' asArr j,
     ap_transferRestriction = field ''transferRestriction'' asArr j,
     ap_ledgerRequirements = field ''ledgerRequirements'' asArr j\<rparr>)"

definition payloadProfileToJson :: "PayloadProfile \<Rightarrow> json" where
  "payloadProfileToJson p = JObj (optFields [
     (''assetProfile'', Some (assetProfileToJson (pp_assetProfile p))),
     (''capabilities'', map_option JStr (pp_capabilities p))])"

definition payloadProfileOfJson :: "json \<Rightarrow> PayloadProfile option" where
  "payloadProfileOfJson j = map_option (\<lambda>a. \<lparr>pp_assetProfile = a, pp_capabilities = field ''capabilities'' asStr j\<rparr>)
     (field ''assetProfile'' assetProfileOfJson j)"

section \<open>Session data\<close>

datatype RollbackAction = CREATE | DELETE | LOCK | UNLOCK

definition actionToString :: "RollbackAction \<Rightarrow> string" where
  "actionToString a = (case a of CREATE \<Rightarrow> ''CREATE'' | DELETE \<Rightarrow> ''DELETE'' | LOCK \<Rightarrow> ''LOCK'' | UNLOCK \<Rightarrow> ''UNLOCK'')"

definition asAction :: "json \<Rightarrow> RollbackAction option" where
  "asAction j = (case j of
     JStr s \<Rightarrow> if s = ''CREATE'' then Some CREATE else if s = ''DELETE'' then Some DELETE
       else if s = ''LOCK'' then Some LOCK else if s = ''UNLOCK'' then Some UNLOCK else None
   | _ \<Rightarrow> None)"

definition actionsToJson :: "RollbackAction list \<Rightarrow> json" where
  "actionsToJson as = JArr (map (\<lambda>a. JStr (actionToString a)) as)"

definition asActions :: "json \<Rightarrow> RollbackAction list option" where
  "asActions j = Option.bind (asArr j) (\<lambda>xs. sequence (map asAction xs))"

lemma asAction_actionToString [simp]: "asAction (JStr (actionToString a)) = Some a"
  by (cases a) (simp_all add: asAction_def actionToString_def)

lemma asActions_actionsToJson [simp]: "asActions (actionsToJson as) = Some as"
  using sequence_map [of asAction "\<lambda>a. JStr (actionToString a)" as]
  by (simp add: asActions_def actionsToJson_def)

record SessionData =
  sd_id :: "string option"
  sd_step :: "int option"
  sd_version :: "string option"
  sd_lastSequenceNumber :: "int option"
  sd_loggingProfile :: "string option"
  sd_accessControlProfile :: "string option"
  sd_applicationProfile :: "string option"
  sd_payloadProfile :: "PayloadProfile option"
  sd_assetProfile :: "AssetProfile option"
  sd_allowedSourceBackupGateways :: "string list option"
  sd_allowedRecipientBackupGateways :: "string list option"
  sd_sourceBasePath :: "string option"
  sd_recipientBasePath :: "string option"
  sd_originatorPubkey :: "string option"
  sd_beneficiaryPubkey :: "string option"
  sd_sourceGatewayPubkey :: "string option"
  sd_sourceGatewayDltSystem :: "string option"
  sd_recipientGatewayPubkey :: "string option"
  sd_recipientGatewayDltSystem :: "string option"
  sd_initializationRequestMessageHash :: "string option"
  sd_initializationResponseMessageHash :: "string option"
  sd_initializationRequestMessageRcvTimeStamp :: "string option"
  sd_initializationRequestMessageProcessedTimeStamp :: "string option"
  sd_clientSignatureInitializationRequestMessage :: "string option"
  sd_serverSignatureInitializationResponseMessage :: "string option"
  sd_transferCommenceMessageRequestHash :: "string option"
  sd_transferCommenceMessageResponseHash :: "string option"
  sd_clientSignatureTransferCommenceRequestMessage :: "string option"
  sd_serverSignatureTransferCommenceResponseMessage :: "string option"
  sd_lockEvidenceRequestMessageHash :: "string option"
  sd_lockEvidenceResponseMessageHash :: "string option"
  sd_clientSignatureLockEvidenceRequestMessage :: "string option"
  sd_serverSignatureLockEvidenceResponseMessage :: "string option"
  sd_lockEvidenceClaim :: "string option"
  sd_commitPrepareRequestMessageHash :: "string option"
  sd_commitPrepareResponseMessageHash :: "string option"
  sd_clientSignatureCommitPreparationRequestMessage :: "string option"
  sd_serverSignatureCommitPreparationResponseMessage :: "string option"
  sd_commitFinalRequestMessageHash :: "string option"
  sd_commitFinalResponseMessageHash :: "string option"
  sd_commitFinalClaim :: "string option"
  sd_commitFinalClaimFormat :: "string option"
  sd_commitAcknowledgementClaim :: "string option"
  sd_commitAcknowledgementClaimFormat :: "string option"
  sd_clientSignatureCommitFinalRequestMessage :: "string option"
  sd_serverSignatureCommitFinalResponseMessage :: "string option"
  sd_transferCompleteMessageHash :: "string option"
  sd_clientSignatureTransferCompleteMessage :: "string option"
  sd_maxRetries :: "int option"
  sd_recipientLedgerAssetID :: "string option"
  sd_sourceLedgerAssetID :: "string option"
  sd_maxTimeout :: "int option"
  sd_lastLogEntryTimestamp :: "string option"
  sd_unlockAssetClaim :: "string option"
  sd_recreateAssetClaim :: "string option"
  sd_deleteAssetClaim :: "string option"
  sd_lastMessageReceivedTimestamp :: "string option"
  sd_rollback :: "bool option"
  sd_rollbackMessageHash :: "string option"
  sd_rollbackProofs :: "string list option"
  sd_rollbackActionsPerformed :: "RollbackAction list option"

text \<open>\<open>const sessionData: SessionData = {}\<close>\<close>

definition emptySession :: SessionData where
  "emptySession = \<lparr>
     sd_id = None,
     sd_step = None,
     sd_version = None,
     sd_lastSequenceNumber = None,
     sd_loggingProfile = None,
     sd_accessControlProfile = None,
     sd_applicationProfile = None,
     sd_payloadProfile = None,
     sd_assetProfile = None,
     sd_allowedSourceBackupGateways = None,
     sd_allowedRecipientBackupGateways = None,
     sd_sourceBasePath = None,
     sd_recipientBasePath = None,
     sd_originatorPubkey = None,
     sd_beneficiaryPubkey = None,
     sd_sourceGatewayPubkey = None,
     sd_sourceGatewayDltSystem = None,
     sd_recipientGatewayPubkey = None,
     sd_recipientGatewayDltSystem = None,
     sd_initializationRequestMessageHash = None,
     sd_initializationResponseMessageHash = None,
     sd_initializationRequestMessageRcvTimeStamp = None,
     sd_initializationRequestMessageProcessedTimeStamp = None,
     sd_clientSignatureInitializationRequestMessage = None,
     sd_serverSignatureInitializationResponseMessage = None,
     sd_transferCommenceMessageRequestHash = None,
     sd_transferCommenceMessageResponseHash = None,
     sd_clientSignatureTransferCommenceRequestMessage = None,
     sd_serverSignatureTransferCommenceResponseMessage = None,
     sd_lockEvidenceRequestMessageHash = None,
     sd_lockEvidenceResponseMessageHash = None,
     sd_clientSignatureLockEvidenceRequestMessage = None,
     sd_serverSignatureLockEvidenceResponseMessage = None,
     sd_lockEvidenceClaim = None,
     sd_commitPrepareRequestMessageHash = None,
     sd_commitPrepareResponseMessageHash = None,
     sd_clientSignatureCommitPreparationRequestMessage = None,
     sd_serverSignatureCommitPreparationResponseMessage = None,
     sd_commitFinalRequestMessageHash = None,
     sd_commitFinalResponseMessageHash = None,
     sd_commitFinalClaim = None,
     sd_commitFinalClaimFormat = None,
     sd_commitAcknowledgementClaim = None,
     sd_commitAcknowledgementClaimFormat = None,
     sd_clientSignatureCommitFinalRequestMessage = None,
     sd_serverSignatureCommitFinalResponseMessage = None,
     sd_transferCompleteMessageHash = None,
     sd_clientSignatureTransferCompleteMessage = None,
     sd_maxRetries = None,
     sd_recipientLedgerAssetID = None,
     sd_sourceLedgerAssetID = None,
     sd_maxTimeout = None,
     sd_lastLogEntryTimestamp = None,
     sd_unlockAssetClaim = None,
     sd_recreateAssetClaim = None,
     sd_deleteAssetClaim = None,
     sd_lastMessageReceivedTimestamp = None,
     sd_rollback = None,
     sd_rollbackMessageHash = None,
     sd_rollbackProofs = None,
     sd_rollbackActionsPerformed = None\<rparr>"

definition sessionFields :: "SessionData \<Rightarrow> (string \<times> json option) list" where
  "sessionFields sd = [
     (''id'', map_option JStr (sd_id sd)),
     (''step'', map_option JNum (sd_step sd)),
     (''version'', map_option JStr (sd_version sd)),
     (''lastSequenceNumber'', map_option JNum (sd_lastSequenceNumber sd)),
     (''loggingProfile'', map_option JStr (sd_loggingProfile sd)),
     (''accessControlProfile'', map_option JStr (sd_accessControlProfile sd)),
     (''applicationProfile'', map_option JStr (sd_applicationProfile sd)),
     (''payloadProfile'', map_option payloadProfileToJson (sd_payloadProfile sd)),
     (''assetProfile'', map_option assetProfileToJson (sd_assetProfile sd)),
     (''allowedSourceBackupGateways'', map_option strsToJson (sd_allowedSourceBackupGateways sd)),
     (''allowedRecipientBackupGateways'', map_option strsToJson (sd_allowedRecipientBackupGateways sd)),
     (''sourceBasePath'', map_option JStr (sd_sourceBasePath sd)),
     (''recipientBasePath'', map_option JStr (sd_recipientBasePath sd)),
     (''originatorPubkey'', map_option JStr (sd_originatorPubkey sd)),
     (''beneficiaryPubkey'', map_option JStr (sd_beneficiaryPubkey sd)),
     (''sourceGatewayPubkey'', map_option JStr (sd_sourceGatewayPubkey sd)),
     (''sourceGatewayDltSystem'', map_option JStr (sd_sourceGatewayDltSystem sd)),
     (''recipientGatewayPubkey'', map_option JStr (sd_recipientGatewayPubkey sd)),
     (''recipientGatewayDltSystem'', map_option JStr (sd_recipientGatewayDltSystem sd)),
     (''initializationRequestMessageHash'', map_option JStr (sd_initializationRequestMessageHash sd)),
     (''initializationResponseMessageHash'', map_option JStr (sd_initializationResponseMessageHash sd)),
     (''initializationRequestMessageRcvTimeStamp'', map_option JStr (sd_initializationRequestMessageRcvTimeStamp sd)),
     (''initializationRequestMessageProcessedTimeStamp'', map_option JStr (sd_initializationRequestMessageProcessedTimeStamp sd)),
     (''clientSignatureInitializationRequestMessage'', map_option JStr (sd_clientSignatureInitializationRequestMessage sd)),
     (''serverSignatureInitializationResponseMessage'', map_option JStr (sd_serverSignatureInitializationResponseMessage sd)),
     (''transferCommenceMessageRequestHash'', map_option JStr (sd_transferCommenceMessageRequestHash sd)),
     (''transferCommenceMessageResponseHash'', map_option JStr (sd_transferCommenceMessageResponseHash sd)),
     (''clientSignatureTransferCommenceRequestMessage'', map_option JStr (sd_clientSignatureTransferCommenceRequestMessage sd)),
     (''serverSignatureTransferCommenceResponseMessage'', map_option JStr (sd_serverSignatureTransferCommenceResponseMessage sd)),
     (''lockEvidenceRequestMessageHash'', map_option JStr (sd_lockEvidenceRequestMessageHash sd)),
     (''lockEvidenceResponseMessageHash'', map_option JStr (sd_lockEvidenceResponseMessageHash sd)),
     (''clientSignatureLockEvidenceRequestMessage'', map_option JStr (sd_clientSignatureLockEvidenceRequestMessage sd)),
     (''serverSignatureLockEvidenceResponseMessage'', map_option JStr (sd_serverSignatureLockEvidenceResponseMessage sd)),
     (''lockEvidenceClaim'', map_option JStr (sd_lockEvidenceClaim sd)),
     (''commitPrepareRequestMessageHash'', map_option JStr (sd_commitPrepareRequestMessageHash sd)),
     (''commitPrepareResponseMessageHash'', map_option JStr (sd_commitPrepareResponseMessageHash sd)),
     (''clientSignatureCommitPreparationRequestMessage'', map_option JStr (sd_clientSignatureCommitPreparationRequestMessage sd)),
     (''serverSignatureCommitPreparationResponseMessage'', map_option JStr (sd_serverSignatureCommitPreparationResponseMessage sd)),
     (''commitFinalRequestMessageHash'', map_option JStr (sd_commitFinalRequestMessageHash sd)),
     (''commitFinalResponseMessageHash'', map_option JStr (sd_commitFinalResponseMessageHash sd)),
     (''commitFinalClaim'', map_option JStr (sd_commitFinalClaim sd)),
     (''commitFinalClaimFormat'', map_option JStr (sd_commitFinalClaimFormat sd)),
     (''commitAcknowledgementClaim'', map_option JStr (sd_commitAcknowledgementClaim sd)),
     (''commitAcknowledgementClaimFormat'', map_option JStr (sd_commitAcknowledgementClaimFormat sd)),
     (''clientSignatureCommitFinalRequestMessage'', map_option JStr (sd_clientSignatureCommitFinalRequestMessage sd)),
     (''serverSignatureCommitFinalResponseMessage'', map_option JStr (sd_serverSignatureCommitFinalResponseMessage sd)),
     (''transferCompleteMessageHash'', map_option JStr (sd_transferCompleteMessageHash sd)),
     (''clientSignatureTransferCompleteMessage'', map_option JStr (sd_clientSignatureTransferCompleteMessage sd)),
     (''maxRetries'', map_option JNum (sd_maxRetries sd)),
     (''recipientLedgerAssetID'', map_option JStr (sd_recipientLedgerAssetID sd)),
     (''sourceLedgerAssetID'', map_option JStr (sd_sourceLedgerAssetID sd)),
     (''maxTimeout'', map_option JNum (sd_maxTimeout sd)),
     (''lastLogEntryTimestamp'', map_option JStr (sd_lastLogEntryTimestamp sd)),
     (''unlockAssetClaim'', map_option JStr (sd_unlockAssetClaim sd)),
     (''recreateAssetClaim'', map_option JStr (sd_recreateAssetClaim sd)),
     (''deleteAssetClaim'', map_option JStr (sd_deleteAssetClaim sd)),
     (''lastMessageReceivedTimestamp'', map_option JStr (sd_lastMessageReceivedTimestamp sd)),
     (''rollback'', map_option JBool (sd_rollback sd)),
     (''rollbackMessageHash'', map_option JStr (sd_rollbackMessageHash sd)),
     (''rollbackProofs'', map_option strsToJson (sd_rollbackProofs sd)),
     (''rollbackActionsPerformed'', map_option actionsToJson (sd_rollbackActionsPerformed sd))]"

definition sessionToJson :: "SessionData \<Rightarrow> json" where
  "sessionToJson sd = JObj (optFields (sessionFields sd))"

definition sessionOfFields :: "json \<Rightarrow> SessionData" where
  "sessionOfFields j = \<lparr>
     sd_id = field ''id'' asStr j,
     sd_step = field ''step'' asNum j,
     sd_version = field ''version'' asStr j,
     sd_lastSequenceNumber = field ''lastSequenceNumber'' asNum j,
     sd_loggingProfile = field ''loggingProfile'' asStr j,
     sd_accessControlProfile = field ''accessControlProfile'' asStr j,
     sd_applicationProfile = field ''applicationProfile'' asStr j,
     sd_payloadProfile = field ''payloadProfile'' payloadProfileOfJson j,
     sd_assetProfile = field ''assetProfile'' assetProfileOfJson j,
     sd_allowedSourceBackupGateways = field ''allowedSourceBackupGateways'' asStrs j,
     sd_allowedRecipientBackupGateways = field ''allowedRecipientBackupGateways'' asStrs j,
     sd_sourceBasePath = field ''sourceBasePath'' asStr j,
     sd_recipientBasePath = field ''recipientBasePath'' asStr j,
     sd_originatorPubkey = field ''originatorPubkey'' asStr j,
     sd_beneficiaryPubkey = field ''beneficiaryPubkey'' asStr j,
     sd_sourceGatewayPubkey = field ''sourceGatewayPubkey'' asStr j,
     sd_sourceGatewayDltSystem = field ''sourceGatewayDltSystem'' asStr j,
     sd_recipientGatewayPubkey = field ''recipientGatewayPubkey'' asStr j,
     sd_recipientGatewayDltSystem = field ''recipientGatewayDltSystem'' asStr j,
     sd_initializationRequestMessageHash = field ''initializationRequestMessageHash'' asStr j,
     sd_initializationResponseMessageHash = field ''initializationResponseMessageHash'' asStr j,
     sd_initializationRequestMessageRcvTimeStamp = field ''initializationRequestMessageRcvTimeStamp'' asStr j,
     sd_initializationRequestMessageProcessedTimeStamp = field ''initializationRequestMessageProcessedTimeStamp'' asStr j,
     sd_clientSignatureInitializationRequestMessage = field ''clientSignatureInitializationRequestMessage'' asStr j,
     sd_serverSignatureInitializationResponseMessage = field ''serverSignatureInitializationResponseMessage'' asStr j,
     sd_transferCommenceMessageRequestHash = field ''transferCommenceMessageRequestHash'' asStr j,
     sd_transferCommenceMessageResponseHash = field ''transferCommenceMessageResponseHash'' asStr j,
     sd_clientSignatureTransferCommenceRequestMessage = field ''clientSignatureTransferCommenceRequestMessage'' asStr j,
     sd_serverSignatureTransferCommenceResponseMessage = field ''serverSignatureTransferCommenceResponseMessage'' asStr j,
     sd_lockEvidenceRequestMessageHash = field ''lockEvidenceRequestMessageHash'' asStr j,
     sd_lockEvidenceResponseMessageHash = field ''lockEvidenceResponseMessageHash'' asStr j,
     sd_clientSignatureLockEvidenceRequestMessage = field ''clientSignatureLockEvidenceRequestMessage'' asStr j,
     sd_serverSignatureLockEvidenceResponseMessage = field ''serverSignatureLockEvidenceResponseMessage'' asStr j,
     sd_lockEvidenceClaim = field ''lockEvidenceClaim'' asStr j,
     sd_commitPrepareRequestMessageHash = field ''commitPrepareRequestMessageHash'' asStr j,
     sd_commitPrepareResponseMessageHash = field ''commitPrepareResponseMessageHash'' asStr j,
     sd_clientSignatureCommitPreparationRequestMessage = field ''clientSignatureCommitPreparationRequestMessage'' asStr j,
     sd_serverSignatureCommitPreparationResponseMessage = field ''serverSignatureCommitPreparationResponseMessage'' asStr j,
     sd_commitFinalRequestMessageHash = field ''commitFinalRequestMessageHash'' asStr j,
     sd_commitFinalResponseMessageHash = field ''commitFinalResponseMessageHash'' asStr j,
     sd_commitFinalClaim = field ''commitFinalClaim'' asStr j,
     sd_commitFinalClaimFormat = field ''commitFinalClaimFormat'' asStr j,
     sd_commitAcknowledgementClaim = field ''commitAcknowledgementClaim'' asStr j,
     sd_commitAcknowledgementClaimFormat = field ''commitAcknowledgementClaimFormat'' asStr j,
     sd_clientSignatureCommitFinalRequestMessage = field ''clientSignatureCommitFinalRequestMessage'' asStr j,
     sd_serverSignatureCommitFinalResponseMessage = field ''serverSignatureCommitFinalResponseMessage'' asStr j,
     sd_transferCompleteMessageHash = field ''transferCompleteMessageHash'' asStr j,
     sd_clientSignatureTransferCompleteMessage = field ''clientSignatureTransferCompleteMessage'' asStr j,
     sd_maxRetries = field ''maxRetries'' asNum j,
     sd_recipientLedgerAssetID = field ''recipientLedgerAssetID'' asStr j,
     sd_sourceLedgerAssetID = field ''sourceLedgerAssetID'' asStr j,
     sd_maxTimeout = field ''maxTimeout'' asNum j,
     sd_lastLogEntryTimestamp = field ''lastLogEntryTimestamp'' asStr j,
     sd_unlockAssetClaim = field ''unlockAssetClaim'' asStr j,
     sd_recreateAssetClaim = field ''recreateAssetClaim'' asStr j,
     sd_deleteAssetClaim = field ''deleteAssetClaim'' asStr j,
     sd_lastMessageReceivedTimestamp = field ''lastMessageReceivedTimestamp'' asStr j,
     sd_rollback = field ''rollback'' asBool j,
     sd_rollbackMessageHash = field ''rollbackMessageHash'' asStr j,
     sd_rollbackProofs = field ''rollbackProofs'' asStrs j,
     sd_rollbackActionsPerformed = field ''rollbackActionsPerformed'' asActions j\<rparr>"

definition sessionOfJson :: "json \<Rightarrow> SessionData option" where
  "sessionOfJson j = (case j of JObj fs \<Rightarrow> Some (sessionOfFields j) | _ \<Rightarrow> None)"

text \<open>\<open>JSON.stringify(sessionData)\<close> and \<open>JSON.parse(log.data)\<close> read as session data\<close>

definition stringifySession :: "SessionData \<Rightarrow> string" where
  "stringifySession sd = stringify (sessionToJson sd)"

definition parseSession :: "string \<Rightarrow> SessionData option" where
  "parseSession s = Option.bind (parse s) sessionOfJson"

section \<open>Round trips\<close>

lemma actionsToJson_not_null [simp]: "actionsToJson xs \<noteq> JNull"
  by (simp add: actionsToJson_def)

lemma assetProfileToJson_not_null [simp]: "assetProfileToJson p \<noteq> JNull"
  by (simp add: assetProfileToJson_def)

lemma payloadProfileToJson_not_null [simp]: "payloadProfileToJson p \<noteq> JNull"
  by (simp add: payloadProfileToJson_def)

lemma assetProfile_round [simp]: "assetProfileOfJson (assetProfileToJson p) = Some p"
  by (cases p) (simp add: assetProfileOfJson_def assetProfileToJson_def field_optFields)

lemma payloadProfile_round [simp]: "payloadProfileOfJson (payloadProfileToJson p) = Some p"
  by (cases p) (simp add: payloadProfileOfJson_def payloadProfileToJson_def field_optFields)

lemma sessionFields_distinct: "distinct (map fst (sessionFields sd))"
  by (simp add: sessionFields_def)

lemma sessionFields_lookup:
  "map_of (sessionFields sd) ''id'' = Some (map_option JStr (sd_id sd))"
  "map_of (sessionFields sd) ''step'' = Some (map_option JNum (sd_step sd))"
  "map_of (sessionFields sd) ''version'' = Some (map_option JStr (sd_version sd))"
  "map_of (sessionFields sd) ''lastSequenceNumber'' = Some (map_option JNum (sd_lastSequenceNumber sd))"
  "map_of (sessionFields sd) ''loggingProfile'' = Some (map_option JStr (sd_loggingProfile sd))"
  "map_of (sessionFields sd) ''accessControlProfile'' = Some (map_option JStr (sd_accessControlProfile sd))"
  "map_of (sessionFields sd) ''applicationProfile'' = Some (map_option JStr (sd_applicationProfile sd))"
  "map_of (sessionFields sd) ''payloadProfile'' = Some (map_option payloadProfileToJson (sd_payloadProfile sd))"
  "map_of (sessionFields sd) ''assetProfile'' = Some (map_option assetProfileToJson (sd_assetProfile sd))"
  "map_of (sessionFields sd) ''allowedSourceBackupGateways'' = Some (map_option strsToJson (sd_allowedSourceBackupGateways sd))"
  "map_of (sessionFields sd) ''allowedRecipientBackupGateways'' = Some (map_option strsToJson (sd_allowedRecipientBackupGateways sd))"
  "map_of (sessionFields sd) ''sourceBasePath'' = Some (map_option JStr (sd_sourceBasePath sd))"
  "map_of (sessionFields sd) ''recipientBasePath'' = Some (map_option JStr (sd_recipientBasePath sd))"
  "map_of (sessionFields sd) ''originatorPubkey'' = Some (map_option JStr (sd_originatorPubkey sd))"
  "map_of (sessionFields sd) ''beneficiaryPubkey'' = Some (map_option JStr (sd_beneficiaryPubkey sd))"
  "map_of (sessionFields sd) ''sourceGatewayPubkey'' = Some (map_option JStr (sd_sourceGatewayPubkey sd))"
  "map_of (sessionFields sd) ''sourceGatewayDltSystem'' = Some (map_option JStr (sd_sourceGatewayDltSystem sd))"
  "map_of (sessionFields sd) ''recipientGatewayPubkey'' = Some (map_option JStr (sd_recipientGatewayPubkey sd))"
  "map_of (sessionFields sd) ''recipientGatewayDltSystem'' = Some (map_option JStr (sd_recipientGatewayDltSystem sd))"
  "map_of (sessionFields sd) ''initializationRequestMessageHash'' = Some (map_option JStr (sd_initializationRequestMessageHash sd))"
  "map_of (sessionFields sd) ''initializationResponseMessageHash'' = Some (map_option JStr (sd_initializationResponseMessageHash sd))"
  "map_of (sessionFields sd) ''initializationRequestMessageRcvTimeStamp'' = Some (map_option JStr (sd_initializationRequestMessageRcvTimeStamp sd))"
  "map_of (sessionFields sd) ''initializationRequestMessageProcessedTimeStamp'' = Some (map_option JStr (sd_initializationRequestMessageProcessedTimeStamp sd))"
  "map_of (sessionFields sd) ''clientSignatureInitializationRequestMessage'' = Some (map_option JStr (sd_clientSignatureInitializationRequestMessage sd))"
  "map_of (sessionFields sd) ''serverSignatureInitializationResponseMessage'' = Some (map_option JStr (sd_serverSignatureInitializationResponseMessage sd))"
  "map_of (sessionFields sd) ''transferCommenceMessageRequestHash'' = Some (map_option JStr (sd_transferCommenceMessageRequestHash sd))"
  "map_of (sessionFields sd) ''transferCommenceMessageResponseHash'' = Some (map_option JStr (sd_transferCommenceMessageResponseHash sd))"
  "map_of (sessionFields sd) ''clientSignatureTransferCommenceRequestMessage'' = Some (map_option JStr (sd_clientSignatureTransferCommenceRequestMessage sd))"
  "map_of (sessionFields sd) ''serverSignatureTransferCommenceResponseMessage'' = Some (map_option JStr (sd_serverSignatureTransferCommenceResponseMessage sd))"
  "map_of (sessionFields sd) ''lockEvidenceRequestMessageHash'' = Some (map_option JStr (sd_lockEvidenceRequestMessageHash sd))"
  "map_of (sessionFields sd) ''lockEvidenceResponseMessageHash'' = Some (map_option JStr (sd_lockEvidenceResponseMessageHash sd))"
  "map_of (sessionFields sd) ''clientSignatureLockEvidenceRequestMessage'' = Some (map_option JStr (sd_clientSignatureLockEvidenceRequestMessage sd))"
  "map_of (sessionFields sd) ''serverSignatureLockEvidenceResponseMessage'' = Some (map_option JStr (sd_serverSignatureLockEvidenceResponseMessage sd))"
  "map_of (sessionFields sd) ''lockEvidenceClaim'' = Some (map_option JStr (sd_lockEvidenceClaim sd))"
  "map_of (sessionFields sd) ''commitPrepareRequestMessageHash'' = Some (map_option JStr (sd_commitPrepareRequestMessageHash sd))"
  "map_of (sessionFields sd) ''commitPrepareResponseMessageHash'' = Some (map_option JStr (sd_commitPrepareResponseMessageHash sd))"
  "map_of (sessionFields sd) ''clientSignatureCommitPreparationRequestMessage'' = Some (map_option JStr (sd_clientSignatureCommitPreparationRequestMessage sd))"
  "map_of (sessionFields sd) ''serverSignatureCommitPreparationResponseMessage'' = Some (map_option JStr (sd_serverSignatureCommitPreparationResponseMessage sd))"
  "map_of (sessionFields sd) ''commitFinalRequestMessageHash'' = Some (map_option JStr (sd_commitFinalRequestMessageHash sd))"
  "map_of (sessionFields sd) ''commitFinalResponseMessageHash'' = Some (map_option JStr (sd_commitFinalResponseMessageHash sd))"
  "map_of (sessionFields sd) ''commitFinalClaim'' = Some (map_option JStr (sd_commitFinalClaim sd))"
  "map_of (sessionFields sd) ''commitFinalClaimFormat'' = Some (map_option JStr (sd_commitFinalClaimFormat sd))"
  "map_of (sessionFields sd) ''commitAcknowledgementClaim'' = Some (map_option JStr (sd_commitAcknowledgementClaim sd))"
  "map_of (sessionFields sd) ''commitAcknowledgementClaimFormat'' = Some (map_option JStr (sd_commitAcknowledgementClaimFormat sd))"
  "map_of (sessionFields sd) ''clientSignatureCommitFinalRequestMessage'' = Some (map_option JStr (sd_clientSignatureCommitFinalRequestMessage sd))"
  "map_of (sessionFields sd) ''serverSignatureCommitFinalResponseMessage'' = Some (map_option JStr (sd_serverSignatureCommitFinalResponseMessage sd))"
  "map_of (sessionFields sd) ''transferCompleteMessageHash'' = Some (map_option JStr (sd_transferCompleteMessageHash sd))"
  "map_of (sessionFields sd) ''clientSignatureTransferCompleteMessage'' = Some (map_option JStr (sd_clientSignatureTransferCompleteMessage sd))"
  "map_of (sessionFields sd) ''maxRetries'' = Some (map_option JNum (sd_maxRetries sd))"
  "map_of (sessionFields sd) ''recipientLedgerAssetID'' = Some (map_option JStr (sd_recipientLedgerAssetID sd))"
  "map_of (sessionFields sd) ''sourceLedgerAssetID'' = Some (map_option JStr (sd_sourceLedgerAssetID sd))"
  "map_of (sessionFields sd) ''maxTimeout'' = Some (map_option JNum (sd_maxTimeout sd))"
  "map_of (sessionFields sd) ''lastLogEntryTimestamp'' = Some (map_option JStr (sd_lastLogEntryTimestamp sd))"
  "map_of (sessionFields sd) ''unlockAssetClaim'' = Some (map_option JStr (sd_unlockAssetClaim sd))"
  "map_of (sessionFields sd) ''recreateAssetClaim'' = Some (map_option JStr (sd_recreateAssetClaim sd))"
  "map_of (sessionFields sd) ''deleteAssetClaim'' = Some (map_option JStr (sd_deleteAssetClaim sd))"
  "map_of (sessionFields sd) ''lastMessageReceivedTimestamp'' = Some (map_option JStr (sd_lastMessageReceivedTimestamp sd))"
  "map_of (sessionFields sd) ''rollback'' = Some (map_option JBool (sd_rollback sd))"
  "map_of (sessionFields sd) ''rollbackMessageHash'' = Some (map_option JStr (sd_rollbackMessageHash sd))"
  "map_of (sessionFields sd) ''rollbackProofs'' = Some (map_option strsToJson (sd_rollbackProofs sd))"
  "map_of (sessionFields sd) ''rollbackActionsPerformed'' = Some (map_option actionsToJson (sd_rollbackActionsPerformed sd))"
  by (rule map_of_is_SomeI [OF sessionFields_distinct], subst sessionFields_def,
      (rule list.set_intros(1) | rule list.set_intros(2))+)+

lemma sessionOfFields_sessionToJson: "sessionOfFields (sessionToJson sd) = sd"
  unfolding sessionOfFields_def sessionToJson_def field_optFields [OF sessionFields_distinct]
    sessionFields_lookup
  by simp

lemma sessionOfJson_sessionToJson [simp]: "sessionOfJson (sessionToJson sd) = Some sd"
  using sessionOfFields_sessionToJson [of sd] by (simp add: sessionOfJson_def sessionToJson_def)

text \<open>
  The profiles carry arbitrary JSON arrays; a session is well formed when those arrays are
  JSON values of their own.
\<close>

definition wfAssetProfile :: "AssetProfile \<Rightarrow> bool" where
  "wfAssetProfile p \<longleftrightarrow> (\<forall>xs \<in> {ap_keyInformationLink p, ap_keyWord p, ap_transferRestriction p, ap_ledgerRequirements p}.
     pred_option (\<lambda>ys. \<forall>y \<in> set ys. wfJson y) xs)"

definition wfSession :: "SessionData \<Rightarrow> bool" where
  "wfSession sd \<longleftrightarrow> pred_option wfAssetProfile (sd_assetProfile sd)
     \<and> pred_option (\<lambda>p. wfAssetProfile (pp_assetProfile p)) (sd_payloadProfile sd)"

lemma pred_option_map_option: "pred_option P (map_option f x) = pred_option (\<lambda>y. P (f y)) x"
  by (cases x) simp_all

lemma pred_option_always [simp]: "pred_option (\<lambda>y. True) x"
  by (cases x) simp_all

lemma wfJson_assetProfileToJson [simp]: "wfAssetProfile p \<Longrightarrow> wfJson (assetProfileToJson p)"
  unfolding assetProfileToJson_def
  by (rule wfJson_optFields) (simp_all add: pred_option_map_option wfAssetProfile_def)

lemma wfJson_payloadProfileToJson [simp]:
  "wfAssetProfile (pp_assetProfile p) \<Longrightarrow> wfJson (payloadProfileToJson p)"
  unfolding payloadProfileToJson_def
  by (rule wfJson_optFields) (simp_all add: pred_option_map_option)

lemma wfJson_actionsToJson [simp]: "wfJson (actionsToJson as)"
  by (simp add: actionsToJson_def)

lemma wfJson_sessionToJson: "wfSession sd \<Longrightarrow> wfJson (sessionToJson sd)"
  unfolding sessionToJson_def
  by (rule wfJson_optFields [OF sessionFields_distinct])
     (auto simp: sessionFields_def pred_option_map_option wfSession_def pred_option_def)

lemma parseSession_stringifySession [simp]:
  "wfSession sd \<Longrightarrow> parseSession (stringifySession sd) = Some sd"
  by (simp add: parseSession_def stringifySession_def wfJson_sessionToJson)

end
