(* ===== verification/Messages.thy ===== *)
theory Messages
  imports Session
begin

text \<open>
  The messages of the protocol as the OpenAPI model declares them, their JSON texts, the local
  log record, and the calls of the gateway's HTTP interface. A property that the code compares
  with \<open>undefined\<close> is an option; optional properties of the interfaces that no sender sets
  and no receiver reads are left out.
\<close>

section \<open>Message types\<close>

datatype SatpMessageType =
    InitializationRequest
  | InitializationResponse
  | TransferCommenceRequest
  | TransferCommenceResponse
  | LockEvidenceRequest
  | LockEvidenceResponse
  | CommitPreparationRequest
  | CommitPreparationResponse
  | CommitFinalRequest
  | CommitFinalResponse
  | TransferCompleteRequest

fun satpMessageType :: "SatpMessageType \<Rightarrow> string" where
  "satpMessageType InitializationRequest = ''urn:ietf:satp:msgtype:init-transfer-msg''"
| "satpMessageType InitializationResponse = ''urn:ietf:satp:msgtype:init-transfer-ack-msg''"
| "satpMessageType TransferCommenceRequest = ''urn:ietf:satp:msgtype:transfer-commence-msg''"
| "satpMessageType TransferCommenceResponse = ''urn:ietf:satp:msgtype:transfer-commence-ack-msg''"
| "satpMessageType LockEvidenceRequest = ''urn:ietf:satp:msgtype:lock-evidence-req-msg''"
| "satpMessageType LockEvidenceResponse = ''urn:ietf:satp:msgtype:lock-evidence-ack-msg''"
| "satpMessageType CommitPreparationRequest = ''urn:ietf:satp:msgtype:commit-prepare-msg''"
| "satpMessageType CommitPreparationResponse = ''urn:ietf:satp:msgtype:commit-ack-msg''"
| "satpMessageType CommitFinalRequest = ''urn:ietf:satp:msgtype:commit-final-msg''"
| "satpMessageType CommitFinalResponse = ''urn:ietf:satp:msgtype:commit-final-ack-msg''"
| "satpMessageType TransferCompleteRequest = ''urn:ietf:satp:msgtype:commit-transfer-complete-msg''"

section \<open>Log records\<close>

record LocalLog =
  ll_sessionID :: string
  ll_type :: string
  ll_key :: "string option"
  ll_operation :: string
  ll_timestamp :: "string option"
  ll_data :: "string option"

text \<open>
  \<open>JSON.stringify(localLog, ["sessionID", "type", "key", "operation", "timestamp", "data"])\<close>:
  the order of the columns of the table, so that a row read back has the same text.
\<close>

definition localLogToJson :: "LocalLog \<Rightarrow> json" where
  "localLogToJson l = JObj (optFields [
     (''sessionID'', Some (JStr (ll_sessionID l))),
     (''type'', Some (JStr (ll_type l))),
     (''key'', map_option JStr (ll_key l)),
     (''operation'', Some (JStr (ll_operation l))),
     (''timestamp'', map_option JStr (ll_timestamp l)),
     (''data'', map_option JStr (ll_data l))])"

record IRemoteLog =
  rl_key :: string
  rl_hash :: string
  rl_signature :: string
  rl_signerPubKey :: string

definition remoteLogToJson :: "IRemoteLog \<Rightarrow> json" where
  "remoteLogToJson l = JObj [
     (''key'', JStr (rl_key l)),
     (''hash'', JStr (rl_hash l)),
     (''signature'', JStr (rl_signature l)),
     (''signerPubKey'', JStr (rl_signerPubKey l))]"

definition remoteLogOfJson :: "json \<Rightarrow> IRemoteLog option" where
  "remoteLogOfJson j =
    (case (field ''key'' asStr j, field ''hash'' asStr j, field ''signature'' asStr j, field ''signerPubKey'' asStr j) of
       (Some k, Some h, Some s, Some p) \<Rightarrow> Some \<lparr>rl_key = k, rl_hash = h, rl_signature = s, rl_signerPubKey = p\<rparr>
     | _ \<Rightarrow> None)"

section \<open>Messages\<close>

record ClientV1Request =
  crq_version :: string
  crq_loggingProfile :: string
  crq_accessControlProfile :: string
  crq_assetControlProfile :: string
  crq_applicationProfile :: string
  crq_assetProfile :: AssetProfile
  crq_payloadProfile :: PayloadProfile
  crq_sourceGatewayDltSystem :: string
  crq_recipientGatewayDltSystem :: string
  crq_recipientGatewayPubkey :: string
  crq_originatorPubkey :: string
  crq_beneficiaryPubkey :: string
  crq_clientIdentityPubkey :: string
  crq_serverIdentityPubkey :: string
  crq_clientDltSystem :: string
  crq_serverDltSystem :: string
  crq_clientGatewayConfiguration_apiHost :: string
  crq_serverGatewayConfiguration_apiHost :: string
  crq_maxRetries :: int
  crq_maxTimeout :: int
  crq_sourceLedgerAssetID :: string
  crq_recipientLedgerAssetID :: string

record TransferInitializationV1Request =
  tiq_messageType :: string
  tiq_sessionID :: string
  tiq_version :: "string option"
  tiq_payloadProfile :: PayloadProfile
  tiq_applicationProfile :: string
  tiq_loggingProfile :: string
  tiq_accessControlProfile :: string
  tiq_signature :: string
  tiq_sourceGatewayPubkey :: string
  tiq_sourceGatewayDltSystem :: string
  tiq_recipientGatewayPubkey :: string
  tiq_recipientGatewayDltSystem :: string
  tiq_sequenceNumber :: int
  tiq_sourceBasePath :: string
  tiq_recipientBasePath :: string
  tiq_maxRetries :: int
  tiq_maxTimeout :: int
  tiq_backupGatewaysAllowed :: "string list"
  tiq_recipientLedgerAssetID :: string
  tiq_sourceLedgerAssetID :: string

record TransferInitializationV1Response =
  tir_messageType :: string
  tir_sessionID :: string
  tir_initialRequestMessageHash :: string
  tir_timeStamp :: string
  tir_processedTimeStamp :: string
  tir_serverIdentityPubkey :: string
  tir_sequenceNumber :: int
  tir_signature :: string
  tir_backupGatewaysAllowed :: "string list"

record TransferCommenceV1Request =
  tcq_messageType :: string
  tcq_originatorPubkey :: string
  tcq_beneficiaryPubkey :: string
  tcq_senderDltSystem :: string
  tcq_recipientDltSystem :: string
  tcq_sessionID :: string
  tcq_clientIdentityPubkey :: string
  tcq_serverIdentityPubkey :: string
  tcq_hashAssetProfile :: string
  tcq_hashPrevMessage :: string
  tcq_signature :: string
  tcq_sequenceNumber :: int

record TransferCommenceV1Response =
  tcr_sessionID :: string
  tcr_messageType :: string
  tcr_clientIdentityPubkey :: string
  tcr_serverIdentityPubkey :: string
  tcr_hashCommenceRequest :: string
  tcr_signature :: string
  tcr_sequenceNumber :: int

record LockEvidenceV1Request =
  leq_sessionID :: string
  leq_messageType :: string
  leq_clientIdentityPubkey :: string
  leq_serverIdentityPubkey :: string
  leq_lockEvidenceClaim :: "string option"
  leq_lockEvidenceExpiration :: string
  leq_hashCommenceAckRequest :: string
  leq_signature :: string
  leq_sequenceNumber :: int

record LockEvidenceV1Response =
  ler_sessionID :: string
  ler_messageType :: string
  ler_clientIdentityPubkey :: string
  ler_serverIdentityPubkey :: string
  ler_hashLockEvidenceRequest :: string
  ler_signature :: string
  ler_sequenceNumber :: int

record CommitPreparationV1Request =
  cpq_sessionID :: string
  cpq_messageType :: string
  cpq_clientIdentityPubkey :: string
  cpq_serverIdentityPubkey :: string
  cpq_hashLockEvidenceAck :: string
  cpq_signature :: string
  cpq_sequenceNumber :: int

record CommitPreparationV1Response =
  cpr_sessionID :: string
  cpr_messageType :: string
  cpr_clientIdentityPubkey :: string
  cpr_serverIdentityPubkey :: string
  cpr_hashCommitPrep :: string
  cpr_signature :: string
  cpr_sequenceNumber :: int

record CommitFinalV1Request =
  cfq_sessionID :: string
  cfq_messageType :: string
  cfq_clientIdentityPubkey :: string
  cfq_serverIdentityPubkey :: string
  cfq_commitFinalClaim :: "string option"
  cfq_hashCommitPrepareAck :: string
  cfq_signature :: string
  cfq_sequenceNumber :: int

record CommitFinalV1Response =
  cfr_sessionID :: string
  cfr_messageType :: string
  cfr_clientIdentityPubkey :: string
  cfr_serverIdentityPubkey :: string
  cfr_commitAcknowledgementClaim :: "string option"
  cfr_hashCommitFinal :: string
  cfr_signature :: string
  cfr_sequenceNumber :: int

record TransferCompleteV1Request =
  tpq_sessionID :: string
  tpq_messageType :: string
  tpq_clientIdentityPubkey :: string
  tpq_serverIdentityPubkey :: string
  tpq_hashCommitFinalAck :: string
  tpq_hashTransferCommence :: string
  tpq_signature :: string
  tpq_sequenceNumber :: int

record RecoverV1Message =
  rec_sessionID :: string
  rec_odapPhase :: string
  rec_sequenceNumber :: int
  rec_lastLogEntryTimestamp :: "string option"
  rec_isBackup :: bool
  rec_newBasePath :: string
  rec_newGatewayPubKey :: "string option"
  rec_signature :: string

record RecoverUpdateV1Message =
  rup_sessionID :: string
  rup_recoveredLogs :: "LocalLog list"
  rup_signature :: string

record RecoverUpdateAckV1Message =
  rua_sessionID :: string
  rua_success :: bool
  rua_changedEntriesHash :: "string list"
  rua_signature :: string

record RecoverSuccessV1Message =
  rsu_sessionID :: string
  rsu_success :: bool
  rsu_signature :: string

record RollbackV1Message =
  rbk_sessionID :: string
  rbk_success :: bool
  rbk_actionPerformed :: "RollbackAction list"
  rbk_proofs :: "string list"
  rbk_signature :: string

record RollbackAckV1Message =
  rba_sessionID :: string
  rba_success :: bool
  rba_signature :: string

section \<open>Message texts\<close>

text \<open>
  \<open>JSON.stringify\<close> of a message lists its properties in the order in which the sender's object
  literal names them; a property that is \<open>undefined\<close> is left out. A receiver that parses and
  prints the body again obtains the same text.
\<close>

definition transferInitializationRequestToJson :: "TransferInitializationV1Request \<Rightarrow> json" where
  "transferInitializationRequestToJson m = JObj (optFields [
     (''messageType'', Some (JStr (tiq_messageType m))),
     (''sessionID'', Some (JStr (tiq_sessionID m))),
     (''version'', map_option JStr (tiq_version m)),
     (''payloadProfile'', Some (payloadProfileToJson (tiq_payloadProfile m))),
     (''applicationProfile'', Some (JStr (tiq_applicationProfile m))),
     (''loggingProfile'', Some (JStr (tiq_loggingProfile m))),
     (''accessControlProfile'', Some (JStr (tiq_accessControlProfile m))),
     (''signature'', Some (JStr (tiq_signature m))),
     (''sourceGatewayPubkey'', Some (JStr (tiq_sourceGatewayPubkey m))),
     (''sourceGatewayDltSystem'', Some (JStr (tiq_sourceGatewayDltSystem m))),
     (''recipientGatewayPubkey'', Some (JStr (tiq_recipientGatewayPubkey m))),
     (''recipientGatewayDltSystem'', Some (JStr (tiq_recipientGatewayDltSystem m))),
     (''sequenceNumber'', Some (JNum (tiq_sequenceNumber m))),
     (''sourceBasePath'', Some (JStr (tiq_sourceBasePath m))),
     (''recipientBasePath'', Some (JStr (tiq_recipientBasePath m))),
     (''maxRetries'', Some (JNum (tiq_maxRetries m))),
     (''maxTimeout'', Some (JNum (tiq_maxTimeout m))),
     (''backupGatewaysAllowed'', Some (strsToJson (tiq_backupGatewaysAllowed m))),
     (''recipientLedgerAssetID'', Some (JStr (tiq_recipientLedgerAssetID m))),
     (''sourceLedgerAssetID'', Some (JStr (tiq_sourceLedgerAssetID m)))])"

definition transferInitializationResponseToJson :: "TransferInitializationV1Response \<Rightarrow> json" where
  "transferInitializationResponseToJson m = JObj (optFields [
     (''messageType'', Some (JStr (tir_messageType m))),
     (''sessionID'', Some (JStr (tir_sessionID m))),
     (''initialRequestMessageHash'', Some (JStr (tir_initialRequestMessageHash m))),
     (''timeStamp'', Some (JStr (tir_timeStamp m))),
     (''processedTimeStamp'', Some (JStr (tir_processedTimeStamp m))),
     (''serverIdentityPubkey'', Some (JStr (tir_serverIdentityPubkey m))),
     (''sequenceNumber'', Some (JNum (tir_sequenceNumber m))),
     (''signature'', Some (JStr (tir_signature m))),
     (''backupGatewaysAllowed'', Some (strsToJson (tir_backupGatewaysAllowed m)))])"

definition transferCommenceRequestToJson :: "TransferCommenceV1Request \<Rightarrow> json" where
  "transferCommenceRequestToJson m = JObj (optFields [
     (''messageType'', Some (JStr (tcq_messageType m))),
     (''originatorPubkey'', Some (JStr (tcq_originatorPubkey m))),
     (''beneficiaryPubkey'', Some (JStr (tcq_beneficiaryPubkey m))),
     (''senderDltSystem'', Some (JStr (tcq_senderDltSystem m))),
     (''recipientDltSystem'', Some (JStr (tcq_recipientDltSystem m))),
     (''sessionID'', Some (JStr (tcq_sessionID m))),
     (''clientIdentityPubkey'', Some (JStr (tcq_clientIdentityPubkey m))),
     (''serverIdentityPubkey'', Some (JStr (tcq_serverIdentityPubkey m))),
     (''hashAssetProfile'', Some (JStr (tcq_hashAssetProfile m))),
     (''hashPrevMessage'', Some (JStr (tcq_hashPrevMessage m))),
     (''signature'', Some (JStr (tcq_signature m))),
     (''sequenceNumber'', Some (JNum (tcq_sequenceNumber m)))])"

definition transferCommenceResponseToJson :: "TransferCommenceV1Response \<Rightarrow> json" where
  "transferCommenceResponseToJson m = JObj (optFields [
     (''sessionID'', Some (JStr (tcr_sessionID m))),
     (''messageType'', Some (JStr (tcr_messageType m))),
     (''clientIdentityPubkey'', Some (JStr (tcr_clientIdentityPubkey m))),
     (''serverIdentityPubkey'', Some (JStr (tcr_serverIdentityPubkey m))),
     (''hashCommenceRequest'', Some (JStr (tcr_hashCommenceRequest m))),
     (''signature'', Some (JStr (tcr_signature m))),
     (''sequenceNumber'', Some (JNum (tcr_sequenceNumber m)))])"

definition lockEvidenceRequestToJson :: "LockEvidenceV1Request \<Rightarrow> json" where
  "lockEvidenceRequestToJson m = JObj (optFields [
     (''sessionID'', Some (JStr (leq_sessionID m))),
     (''messageType'', Some (JStr (leq_messageType m))),
     (''clientIdentityPubkey'', Some (JStr (leq_clientIdentityPubkey m))),
     (''serverIdentityPubkey'', Some (JStr (leq_serverIdentityPubkey m))),
     (''lockEvidenceClaim'', map_option JStr (leq_lockEvidenceClaim m)),
     (''lockEvidenceExpiration'', Some (JStr (leq_lockEvidenceExpiration m))),
     (''hashCommenceAckRequest'', Some (JStr (leq_hashCommenceAckRequest m))),
     (''signature'', Some (JStr (leq_signature m))),
     (''sequenceNumber'', Some (JNum (leq_sequenceNumber m)))])"

definition lockEvidenceResponseToJson :: "LockEvidenceV1Response \<Rightarrow> json" where
  "lockEvidenceResponseToJson m = JObj (optFields [
     (''sessionID'', Some (JStr (ler_sessionID m))),
     (''messageType'', Some (JStr (ler_messageType m))),
     (''clientIdentityPubkey'', Some (JStr (ler_clientIdentityPubkey m))),
     (''serverIdentityPubkey'', Some (JStr (ler_serverIdentityPubkey m))),
     (''hashLockEvidenceRequest'', Some (JStr (ler_hashLockEvidenceRequest m))),
     (''signature'', Some (JStr (ler_signature m))),
     (''sequenceNumber'', Some (JNum (ler_sequenceNumber m)))])"

definition commitPreparationRequestToJson :: "CommitPreparationV1Request \<Rightarrow> json" where
  "commitPreparationRequestToJson m = JObj (optFields [
     (''sessionID'', Some (JStr (cpq_sessionID m))),
     (''messageType'', Some (JStr (cpq_messageType m))),
     (''clientIdentityPubkey'', Some (JStr (cpq_clientIdentityPubkey m))),
     (''serverIdentityPubkey'', Some (JStr (cpq_serverIdentityPubkey m))),
     (''hashLockEvidenceAck'', Some (JStr (cpq_hashLockEvidenceAck m))),
     (''signature'', Some (JStr (cpq_signature m))),
     (''sequenceNumber'', Some (JNum (cpq_sequenceNumber m)))])"

definition commitPreparationResponseToJson :: "CommitPreparationV1Response \<Rightarrow> json" where
  "commitPreparationResponseToJson m = JObj (optFields [
     (''sessionID'', Some (JStr (cpr_sessionID m))),
     (''messageType'', Some (JStr (cpr_messageType m))),
     (''clientIdentityPubkey'', Some (JStr (cpr_clientIdentityPubkey m))),
     (''serverIdentityPubkey'', Some (JStr (cpr_serverIdentityPubkey m))),
     (''hashCommitPrep'', Some (JStr (cpr_hashCommitPrep m))),
     (''signature'', Some (JStr (cpr_signature m))),
     (''sequenceNumber'', Some (JNum (cpr_sequenceNumber m)))])"

definition commitFinalRequestToJson :: "CommitFinalV1Request \<Rightarrow> json" where
  "commitFinalRequestToJson m = JObj (optFields [
     (''sessionID'', Some (JStr (cfq_sessionID m))),
     (''messageType'', Some (JStr (cfq_messageType m))),
     (''clientIdentityPubkey'', Some (JStr (cfq_clientIdentityPubkey m))),
     (''serverIdentityPubkey'', Some (JStr (cfq_serverIdentityPubkey m))),
     (''commitFinalClaim'', map_option JStr (cfq_commitFinalClaim m)),
     (''hashCommitPrepareAck'', Some (JStr (cfq_hashCommitPrepareAck m))),
     (''signature'', Some (JStr (cfq_signature m))),
     (''sequenceNumber'', Some (JNum (cfq_sequenceNumber m)))])"

definition commitFinalResponseToJson :: "CommitFinalV1Response \<Rightarrow> json" where
  "commitFinalResponseToJson m = JObj (optFields [
     (''sessionID'', Some (JStr (cfr_sessionID m))),
     (''messageType'', Some (JStr (cfr_messageType m))),
     (''clientIdentityPubkey'', Some (JStr (cfr_clientIdentityPubkey m))),
     (''serverIdentityPubkey'', Some (JStr (cfr_serverIdentityPubkey m))),
     (''commitAcknowledgementClaim'', map_option JStr (cfr_commitAcknowledgementClaim m)),
     (''hashCommitFinal'', Some (JStr (cfr_hashCommitFinal m))),
     (''signature'', Some (JStr (cfr_signature m))),
     (''sequenceNumber'', Some (JNum (cfr_sequenceNumber m)))])"

definition transferCompleteRequestToJson :: "TransferCompleteV1Request \<Rightarrow> json" where
  "transferCompleteRequestToJson m = JObj (optFields [
     (''sessionID'', Some (JStr (tpq_sessionID m))),
     (''messageType'', Some (JStr (tpq_messageType m))),
     (''clientIdentityPubkey'', Some (JStr (tpq_clientIdentityPubkey m))),
     (''serverIdentityPubkey'', Some (JStr (tpq_serverIdentityPubkey m))),
     (''hashCommitFinalAck'', Some (JStr (tpq_hashCommitFinalAck m))),
     (''hashTransferCommence'', Some (JStr (tpq_hashTransferCommence m))),
     (''signature'', Some (JStr (tpq_signature m))),
     (''sequenceNumber'', Some (JNum (tpq_sequenceNumber m)))])"

definition recoverToJson :: "RecoverV1Message \<Rightarrow> json" where
  "recoverToJson m = JObj (optFields [
     (''sessionID'', Some (JStr (rec_sessionID m))),
     (''odapPhase'', Some (JStr (rec_odapPhase m))),
     (''sequenceNumber'', Some (JNum (rec_sequenceNumber m))),
     (''lastLogEntryTimestamp'', map_option JStr (rec_lastLogEntryTimestamp m)),
     (''isBackup'', Some (JBool (rec_isBackup m))),
     (''newBasePath'', Some (JStr (rec_newBasePath m))),
     (''newGatewayPubKey'', map_option JStr (rec_newGatewayPubKey m)),
     (''signature'', Some (JStr (rec_signature m)))])"

definition recoverUpdateToJson :: "RecoverUpdateV1Message \<Rightarrow> json" where
  "recoverUpdateToJson m = JObj (optFields [
     (''sessionID'', Some (JStr (rup_sessionID m))),
     (''recoveredLogs'', Some (JArr (map localLogToJson (rup_recoveredLogs m)))),
     (''signature'', Some (JStr (rup_signature m)))])"

definition recoverUpdateAckToJson :: "RecoverUpdateAckV1Message \<Rightarrow> json" where
  "recoverUpdateAckToJson m = JObj (optFields [
     (''sessionID'', Some (JStr (rua_sessionID m))),
     (''success'', Some (JBool (rua_success m))),
     (''changedEntriesHash'', Some (strsToJson (rua_changedEntriesHash m))),
     (''signature'', Some (JStr (rua_signature m)))])"

definition recoverSuccessToJson :: "RecoverSuccessV1Message \<Rightarrow> json" where
  "recoverSuccessToJson m = JObj (optFields [
     (''sessionID'', Some (JStr (rsu_sessionID m))),
     (''success'', Some (JBool (rsu_success m))),
     (''signature'', Some (JStr (rsu_signature m)))])"

definition rollbackToJson :: "RollbackV1Message \<Rightarrow> json" where
  "rollbackToJson m = JObj (optFields [
     (''sessionID'', Some (JStr (rbk_sessionID m))),
     (''success'', Some (JBool (rbk_success m))),
     (''actionPerformed'', Some (actionsToJson (rbk_actionPerformed m))),
     (''proofs'', Some (strsToJson (rbk_proofs m))),
     (''signature'', Some (JStr (rbk_signature m)))])"

definition rollbackAckToJson :: "RollbackAckV1Message \<Rightarrow> json" where
  "rollbackAckToJson m = JObj (optFields [
     (''sessionID'', Some (JStr (rba_sessionID m))),
     (''success'', Some (JBool (rba_success m))),
     (''signature'', Some (JStr (rba_signature m)))])"
section \<open>Calls of the HTTP interface\<close>

datatype satp_call =
    Phase1TransferInitiationRequest TransferInitializationV1Request
  | Phase1TransferInitiationResponse TransferInitializationV1Response
  | Phase2TransferCommenceRequest TransferCommenceV1Request
  | Phase2TransferCommenceResponse TransferCommenceV1Response
  | Phase2LockEvidenceRequest LockEvidenceV1Request
  | Phase2LockEvidenceResponse LockEvidenceV1Response
  | Phase3CommitPreparationRequest CommitPreparationV1Request
  | Phase3CommitPreparationResponse CommitPreparationV1Response
  | Phase3CommitFinalRequest CommitFinalV1Request
  | Phase3CommitFinalResponse CommitFinalV1Response
  | Phase3TransferCompleteRequest TransferCompleteV1Request
  | ClientRequest ClientV1Request
  | RecoverMessage RecoverV1Message
  | RecoverUpdateMessage RecoverUpdateV1Message
  | RecoverUpdateAckMessage RecoverUpdateAckV1Message
  | RecoverSuccessMessage RecoverSuccessV1Message
  | RollbackMessage RollbackV1Message
  | RollbackAckMessage RollbackAckV1Message

section \<open>Facts\<close>

lemma satpMessageType_inject [simp]: "satpMessageType a = satpMessageType b \<longleftrightarrow> a = b"
  by (cases a; cases b) simp_all

lemma remoteLog_round [simp]: "remoteLogOfJson (remoteLogToJson l) = Some l"
  by (cases l) (simp add: remoteLogOfJson_def remoteLogToJson_def field_def jget_def)

lemma wfJson_remoteLogToJson [simp]: "wfJson (remoteLogToJson l)"
  by (simp add: remoteLogToJson_def)

lemma wfJson_localLogToJson [simp]: "wfJson (localLogToJson l)"
  unfolding localLogToJson_def by (rule wfJson_optFields) (simp_all add: pred_option_map_option)

end
