(* ===== verification/Signer.thy ===== *)
theory Signer
  imports Messages
begin

text \<open>
  \<open>JsObjectSigner\<close> of the common package and the two wrappers of the gateway. The hash
  functions, the canonical printer and the elliptic curve are libraries: they are the record
  \<open>crypto\<close>, in which a library call that may throw returns an option.
\<close>

section \<open>Libraries\<close>

record crypto =
  sha256 :: "string \<Rightarrow> string"
  sha256Undefined :: string
  stableStringify :: "json \<Rightarrow> string"
  sha3Hex :: "string \<Rightarrow> string"
  ecdsaSign :: "byte list \<Rightarrow> byte list \<Rightarrow> byte list option"
  ecdsaVerify :: "byte list \<Rightarrow> byte list \<Rightarrow> byte list \<Rightarrow> bool option"

section \<open>The signer\<close>

record JsObjectSigner =
  privateKey :: "byte list"
  signatureFunc :: "(json \<Rightarrow> byte list \<Rightarrow> byte list option) option"
  verifySignatureFunc :: "(json \<Rightarrow> byte list \<Rightarrow> byte list \<Rightarrow> bool option) option"
  hashFunc :: "(json \<Rightarrow> string) option"

text \<open>A private key is given as hexadecimal text or as bytes; an empty text is falsy.\<close>

datatype privateKeyOption = KeyText string | KeyBytes "byte list"

definition newJsObjectSigner ::
  "privateKeyOption \<Rightarrow> (json \<Rightarrow> byte list \<Rightarrow> byte list option) option
    \<Rightarrow> (json \<Rightarrow> byte list \<Rightarrow> byte list \<Rightarrow> bool option) option \<Rightarrow> (json \<Rightarrow> string) option \<Rightarrow> JsObjectSigner option" where
  "newJsObjectSigner k sf vf hf =
    (let mk = (\<lambda>bs. Some \<lparr>privateKey = bs, signatureFunc = sf, verifySignatureFunc = vf, hashFunc = hf\<rparr>)
     in case k of
       KeyText s \<Rightarrow> if s = [] then None else mk (hexToBytes s)
     | KeyBytes bs \<Rightarrow> mk bs)"

definition dataHash :: "crypto \<Rightarrow> json \<Rightarrow> string" where
  "dataHash C d = sha3Hex C (stableStringify C d)"

definition signMsg :: "crypto \<Rightarrow> JsObjectSigner \<Rightarrow> json \<Rightarrow> byte list option" where
  "signMsg C sg msg = (case signatureFunc sg of
      Some f \<Rightarrow> f msg (privateKey sg)
    | None \<Rightarrow>
       let hashMsg = (case hashFunc sg of Some h \<Rightarrow> h msg | None \<Rightarrow> dataHash C msg)
       in ecdsaSign C (hexToBytes hashMsg) (privateKey sg))"

definition verifyMsg :: "crypto \<Rightarrow> JsObjectSigner \<Rightarrow> json \<Rightarrow> byte list \<Rightarrow> byte list \<Rightarrow> bool option" where
  "verifyMsg C sg msg sig pub = (case verifySignatureFunc sg of
      Some f \<Rightarrow> f msg sig pub
    | None \<Rightarrow> ecdsaVerify C sig (hexToBytes (dataHash C msg)) pub)"

section \<open>The gateway's wrappers\<close>

text \<open>The signer of a gateway is built from the hexadecimal private key and nothing else.\<close>

definition gatewaySigner :: "string \<Rightarrow> JsObjectSigner" where
  "gatewaySigner privKey = \<lparr>privateKey = hexToBytes privKey, signatureFunc = None,
     verifySignatureFunc = None, hashFunc = None\<rparr>"

text \<open>\<open>bufArray2HexStr(gateway.sign(msg))\<close>\<close>

definition signHex :: "crypto \<Rightarrow> string \<Rightarrow> string \<Rightarrow> string option" where
  "signHex C privKey msg = map_option bufArray2HexStr (signMsg C (gatewaySigner privKey) (JStr msg))"

text \<open>
  \<open>verifySignature(obj, pubKey)\<close>: the signature property is blanked in place, the object is
  printed, and the signature checked against the text. \<open>blanked\<close> is the object with its
  signature property set to the empty text.
\<close>

definition verifySignature :: "crypto \<Rightarrow> string \<Rightarrow> json \<Rightarrow> string \<Rightarrow> string \<Rightarrow> bool option" where
  "verifySignature C privKey blanked sig pubKey =
     verifyMsg C (gatewaySigner privKey) (JStr (stringify blanked)) (hexToBytes sig) (hexToBytes pubKey)"

section \<open>Contract of the curve\<close>

text \<open>
  What the documentation of the curve library promises of a key pair: signing a digest with the
  private key succeeds, and the signature verifies under the public key.
\<close>

definition keyPair :: "crypto \<Rightarrow> string \<Rightarrow> string \<Rightarrow> bool" where
  "keyPair C privKey pubKey \<longleftrightarrow> (\<forall>m. \<exists>sig.
     ecdsaSign C (hexToBytes (sha3Hex C m)) (hexToBytes privKey) = Some sig
     \<and> ecdsaVerify C sig (hexToBytes (sha3Hex C m)) (hexToBytes pubKey) = Some True)"

text \<open>
  The interface the protocol relies on: a text signed by the holder of a key verifies under the
  matching public key, whoever runs the verification.
\<close>

locale signatures =
  fixes sgn :: "string \<Rightarrow> string \<Rightarrow> string option"
    and vrf :: "json \<Rightarrow> string \<Rightarrow> string \<Rightarrow> bool option"
    and pair :: "string \<Rightarrow> string \<Rightarrow> bool"
  assumes signs: "pair sk pk \<Longrightarrow> \<exists>s. sgn sk (stringify j) = Some s"
    and verifies: "pair sk pk \<Longrightarrow> sgn sk (stringify j) = Some s \<Longrightarrow> vrf j s pk = Some True"
begin

lemma signed_and_verified:
  "pair sk pk \<Longrightarrow> \<exists>s. sgn sk (stringify j) = Some s \<and> vrf j s pk = Some True"
  using signs verifies by blast

lemma never_rejected:
  "pair sk pk \<Longrightarrow> sgn sk (stringify j) = Some s \<Longrightarrow> vrf j s pk \<noteq> Some False \<and> vrf j s pk \<noteq> None"
  using verifies by simp

end

lemma signHex_alt:
  "signHex C privKey msg = map_option bufArray2HexStr
     (ecdsaSign C (hexToBytes (dataHash C (JStr msg))) (hexToBytes privKey))"
  by (simp add: signHex_def signMsg_def gatewaySigner_def)

lemma verifySignature_alt:
  "verifySignature C privKey j sig pubKey =
     ecdsaVerify C (hexToBytes sig) (hexToBytes (dataHash C (JStr (stringify j)))) (hexToBytes pubKey)"
  by (simp add: verifySignature_def verifyMsg_def gatewaySigner_def)

interpretation ecdsa: signatures "signHex C" "verifySignature C me" "keyPair C" for C me
proof
  fix sk pk j s
  assume "keyPair C sk pk"
  then show "\<exists>s. signHex C sk (stringify j) = Some s"
    by (auto simp: keyPair_def signHex_alt dataHash_def)
next
  fix sk pk j s
  assume kp: "keyPair C sk pk" and sg: "signHex C sk (stringify j) = Some s"
  let ?d = "hexToBytes (sha3Hex C (stableStringify C (JStr (stringify j))))"
  from kp obtain b where "ecdsaSign C ?d (hexToBytes sk) = Some b"
    "ecdsaVerify C b ?d (hexToBytes pk) = Some True"
    unfolding keyPair_def by blast
  with sg show "verifySignature C me j s pk = Some True"
    by (auto simp: signHex_alt verifySignature_alt dataHash_def)
qed

text \<open>Verification does not depend on the verifying gateway's own key.\<close>

lemma verifySignature_any_verifier: "verifySignature C a j s pk = verifySignature C b j s pk"
  by (simp add: verifySignature_alt)

end
