(* ===== verification/JS_Buffer.thy ===== *)
theory JS_Buffer
  imports JS_Lib
begin

text \<open>
  Buffers of texts: UTF-8 and base 64, as \<open>Buffer.from\<close> and \<open>toString\<close> convert them, with their round
  trips.
\<close>

section \<open>Base 64\<close>

text \<open>\<open>Buffer.from(text)\<close> encodes in UTF-8; characters are limited to one byte here.\<close>

definition utf8Char :: "char \<Rightarrow> byte list" where
  "utf8Char c = (let n = of_char c :: nat in
     if n < 128 then [word_of_nat n] else [word_of_nat (192 + n div 64), word_of_nat (128 + n mod 64)])"

definition utf8Encode :: "string \<Rightarrow> byte list" where
  "utf8Encode s = concat (map utf8Char s)"

fun utf8Decode :: "byte list \<Rightarrow> string option" where
  "utf8Decode [] = Some []"
| "utf8Decode [a] = (if unat a < 128 then Some [char_of (unat a)] else None)"
| "utf8Decode (a # b # r) =
    (if unat a < 128 then map_option (\<lambda>t. char_of (unat a) # t) (utf8Decode (b # r))
     else if 194 \<le> unat a \<and> unat a \<le> 195 \<and> 128 \<le> unat b \<and> unat b < 192
     then map_option (\<lambda>t. char_of ((unat a - 192) * 64 + (unat b - 128)) # t) (utf8Decode r)
     else None)"

definition b64Char :: "nat \<Rightarrow> char" where
  "b64Char n = (if n < 26 then char_of (65 + n) else if n < 52 then char_of (71 + n)
     else if n < 62 then char_of (n - 4) else if n = 62 then CHR ''+'' else CHR ''/'')"

definition b64Val :: "char \<Rightarrow> nat option" where
  "b64Val c = (let n = of_char c :: nat in
     if 65 \<le> n \<and> n \<le> 90 then Some (n - 65) else if 97 \<le> n \<and> n \<le> 122 then Some (n - 71)
     else if 48 \<le> n \<and> n \<le> 57 then Some (n + 4) else if n = 43 then Some 62 else if n = 47 then Some 63 else None)"

fun base64 :: "byte list \<Rightarrow> string" where
  "base64 [] = []"
| "base64 [a] = (let x = unat a in [b64Char (x div 4), b64Char (x mod 4 * 16), CHR ''='', CHR ''=''])"
| "base64 [a, b] = (let x = unat a; y = unat b in
     [b64Char (x div 4), b64Char (x mod 4 * 16 + y div 16), b64Char (y mod 16 * 4), CHR ''=''])"
| "base64 (a # b # c # r) = (let x = unat a; y = unat b; z = unat c in
     [b64Char (x div 4), b64Char (x mod 4 * 16 + y div 16), b64Char (y mod 16 * 4 + z div 64), b64Char (z mod 64)]
     @ base64 r)"

text \<open>The decoder reads groups of four characters and stops at the padding.\<close>

fun unbase64 :: "string \<Rightarrow> byte list" where
  "unbase64 (w # x # y # z # r) = (case (b64Val w, b64Val x, b64Val y, b64Val z) of
     (Some p, Some q, Some s, Some t) \<Rightarrow>
       word_of_nat (p * 4 + q div 16) # word_of_nat (q mod 16 * 16 + s div 4) # word_of_nat (s mod 4 * 64 + t) # unbase64 r
   | (Some p, Some q, Some s, None) \<Rightarrow> [word_of_nat (p * 4 + q div 16), word_of_nat (q mod 16 * 16 + s div 4)]
   | (Some p, Some q, None, _) \<Rightarrow> [word_of_nat (p * 4 + q div 16)]
   | _ \<Rightarrow> [])"
| "unbase64 _ = []"

text \<open>
  The alphabet for addresses, without padding (RFC 7515). The decoder of \<open>Buffer\<close> reads both alphabets, and a
  text whose padding is missing as if it were there.
\<close>

definition urlChar :: "char \<Rightarrow> char" where
  "urlChar c = (if c = CHR ''+'' then CHR ''-'' else if c = CHR ''/'' then CHR ''_'' else c)"

definition base64url :: "byte list \<Rightarrow> string" where
  "base64url bs = map urlChar (filter (\<lambda>c. c \<noteq> CHR ''='') (base64 bs))"

definition plainChar :: "char \<Rightarrow> char" where
  "plainChar c = (if c = CHR ''-'' then CHR ''+'' else if c = CHR ''_'' then CHR ''/'' else c)"

definition bytesOfBase64 :: "string \<Rightarrow> byte list" where
  "bytesOfBase64 s = unbase64 (map plainChar s @ replicate ((4 - length s mod 4) mod 4) (CHR ''=''))"

section \<open>Round trips\<close>

lemma unat_byte_less: "unat (a :: byte) < 256"
  using unsigned_less [of a] by simp

lemma of_char_less: "(of_char c :: nat) < 256"
  using nat_of_char_less_256 by simp

lemma unat_word_of_nat_byte: "n < 256 \<Longrightarrow> unat (word_of_nat n :: byte) = n"
  by (simp add: unsigned_of_nat take_bit_nat_eq_self)

lemma utf8Decode_utf8Char: "utf8Decode (utf8Char c @ bs) = map_option ((#) c) (utf8Decode bs)"
proof -
  define n where "n = (of_char c :: nat)"
  have c: "c = char_of n" and n: "n < 256" using of_char_less [of c] by (simp_all add: n_def)
  show ?thesis
  proof (cases "n < 128")
    case True
    with c show ?thesis by (cases bs) (simp_all add: utf8Char_def Let_def unat_word_of_nat_byte)
  next
    case False
    with n have d: "2 \<le> n div 64" "n div 64 < 4" by simp_all
    have m: "n mod 64 < 64" "n div 64 * 64 + n mod 64 = n" by simp_all
    have "unat (word_of_nat (192 + n div 64) :: byte) = 192 + n div 64"
      "unat (word_of_nat (128 + n mod 64) :: byte) = 128 + n mod 64"
      using d m by (intro unat_word_of_nat_byte; simp)+
    moreover have "utf8Char c = [word_of_nat (192 + n div 64), word_of_nat (128 + n mod 64)]"
      using False by (simp add: utf8Char_def Let_def n_def)
    ultimately show ?thesis using d m c by (simp del: of_nat_add)
  qed
qed

lemma utf8_round [simp]: "utf8Decode (utf8Encode s) = Some s"
  by (induction s) (simp_all add: utf8Encode_def utf8Decode_utf8Char)

lemma b64Val_b64Char [simp]:
  assumes "n < 64"
  shows "b64Val (b64Char n) = Some n"
proof -
  consider "n < 26" | "26 \<le> n" "n < 52" | "52 \<le> n" "n < 62" | "n = 62" | "n = 63"
    using assms by linarith
  then show ?thesis by cases (auto simp: b64Val_def b64Char_def Let_def)
qed

lemma b64Val_pad [simp]: "b64Val (CHR ''='') = None"
  by (simp add: b64Val_def)

text \<open>Splitting three bytes into four sextets and back.\<close>

lemma sextets:
  fixes x y z :: nat
  assumes "x < 256" "y < 256" "z < 256"
  shows "x div 4 < 64" "x mod 4 * 16 + y div 16 < 64" "y mod 16 * 4 + z div 64 < 64"
    "x div 4 * 4 + (x mod 4 * 16 + y div 16) div 16 = x"
    "(x mod 4 * 16 + y div 16) mod 16 * 16 + (y mod 16 * 4 + z div 64) div 4 = y"
    "(y mod 16 * 4 + z div 64) mod 4 * 64 + z mod 64 = z"
proof -
  have q: "y div 16 < 16" "z div 64 < 4" using assms by simp_all
  have m: "x mod 4 < 4" "y mod 16 < 16" "z mod 64 < 64" by simp_all
  show "x div 4 < 64" using assms by simp
  show "x mod 4 * 16 + y div 16 < 64" "y mod 16 * 4 + z div 64 < 64" using q m by linarith+
  have "(x mod 4 * 16 + y div 16) div 16 = x mod 4" "(x mod 4 * 16 + y div 16) mod 16 = y div 16"
    "(y mod 16 * 4 + z div 64) div 4 = y mod 16" "(y mod 16 * 4 + z div 64) mod 4 = z div 64"
    using q by simp_all
  then show "x div 4 * 4 + (x mod 4 * 16 + y div 16) div 16 = x"
    "(x mod 4 * 16 + y div 16) mod 16 * 16 + (y mod 16 * 4 + z div 64) div 4 = y"
    "(y mod 16 * 4 + z div 64) mod 4 * 64 + z mod 64 = z"
    by simp_all
qed

lemma base64_round [simp]: "unbase64 (base64 bs) = bs"
proof (induction bs rule: base64.induct)
  case (2 a)
  from sextets [OF unat_byte_less [of a], of 0 0] show ?case by (simp add: Let_def)
next
  case (3 a b)
  from sextets [OF unat_byte_less [of a] unat_byte_less [of b], of 0] show ?case by (simp add: Let_def)
next
  case (4 a b c r)
  from sextets [OF unat_byte_less [of a] unat_byte_less [of b] unat_byte_less [of c]] 4
  show ?case by (simp add: Let_def)
qed simp

lemma plainChar_urlChar: "c \<notin> {CHR ''-'', CHR ''_''} \<Longrightarrow> plainChar (urlChar c) = c"
  by (auto simp: plainChar_def urlChar_def)

lemma b64Char_plain:
  assumes "n < 64"
  shows "b64Char n \<noteq> CHR ''='' \<and> plainChar (urlChar (b64Char n)) = b64Char n"
proof -
  have "b64Val (b64Char n) = Some n" using assms by simp
  moreover have "b64Val CHR ''-'' = None" "b64Val CHR ''_'' = None" "b64Val CHR ''='' = None" by (simp_all add: b64Val_def)
  ultimately have "b64Char n \<notin> {CHR ''='', CHR ''-'', CHR ''_''}" by (metis empty_iff insert_iff option.distinct(1))
  then show ?thesis using plainChar_urlChar [of "b64Char n"] by simp
qed

lemma base64url_padded:
  "map plainChar (base64url bs) @ replicate ((4 - length (base64url bs) mod 4) mod 4) (CHR ''='') = base64 bs"
proof (induction bs rule: base64.induct)
  case (2 a)
  from sextets [OF unat_byte_less [of a], of 0 0] b64Char_plain show ?case
    by (simp add: base64url_def Let_def numeral_2_eq_2)
next
  case (3 a b)
  from sextets [OF unat_byte_less [of a] unat_byte_less [of b], of 0] b64Char_plain show ?case
    by (simp add: base64url_def Let_def)
next
  case (4 a b c r)
  have z: "unat c mod 64 < 64" by simp
  from sextets [OF unat_byte_less [of a] unat_byte_less [of b] unat_byte_less [of c]] z b64Char_plain 4 show ?case
    by (simp add: base64url_def Let_def)
qed (simp add: base64url_def)

lemma base64url_round [simp]: "bytesOfBase64 (base64url bs) = bs"
  using base64url_padded [of bs] base64_round [of bs] by (simp add: bytesOfBase64_def)

end
