(* ===== verification/Logs.thy ===== *)
theory Logs
  imports Signer JS_Buffer
begin

text \<open>
  The log repositories. The local repository is a table of an SQL database with the columns and
  the primary key of the migration; the remote repository is a second table of that kind, or an
  object store that keeps the JSON text of a log in base 64. What SQL leaves open (which of
  several rows with the same timestamp is returned, the order of groups, a query builder used
  without a table) is the record \<open>sqlEngine\<close>.
\<close>

section \<open>Tables\<close>

record sqlEngine =
  pickRow :: "LocalLog list \<Rightarrow> LocalLog"
  groupOrder :: "string list \<Rightarrow> string list"
  delWithoutTable :: "string \<Rightarrow> LocalLog list \<Rightarrow> LocalLog list option"

text \<open>\<open>open\<close> is False once the connection pool was destroyed: every later query is rejected.\<close>

record LocalRepository =
  lr_open :: bool
  lr_rows :: "LocalLog list"

record RemoteRepository =
  rr_open :: bool
  rr_rows :: "IRemoteLog list"

subsection \<open>Local repository\<close>

definition readById :: "string \<Rightarrow> LocalRepository \<Rightarrow> LocalLog option" where
  "readById logKey r = find (\<lambda>l. ll_key l = Some logKey) (lr_rows r)"

text \<open>The rows whose timestamp no other row exceeds; a row of the table has a timestamp.\<close>

definition latestRows :: "LocalLog list \<Rightarrow> LocalLog list" where
  "latestRows ls = filter (\<lambda>l. \<forall>l' \<in> set ls. \<not> textLess (the (ll_timestamp l)) (the (ll_timestamp l'))) ls"

definition readLastestLog :: "sqlEngine \<Rightarrow> string \<Rightarrow> LocalRepository \<Rightarrow> LocalLog option" where
  "readLastestLog Q sessionID r =
    (case filter (\<lambda>l. ll_sessionID l = sessionID) (lr_rows r) of
       [] \<Rightarrow> None
     | l # ls \<Rightarrow> Some (pickRow Q (latestRows (l # ls))))"

text \<open>\<open>like "%proof%"\<close>: SQLite compares letters without their case.\<close>

definition lowerChar :: "char \<Rightarrow> char" where
  "lowerChar c = (let n = of_char c :: nat in if 65 \<le> n \<and> n \<le> 90 then char_of (n + 32) else c)"

definition likeProof :: "string \<Rightarrow> bool" where
  "likeProof t = matches ''proof'' (map lowerChar t)"

definition readLogsMoreRecentThanTimestamp :: "string \<Rightarrow> LocalRepository \<Rightarrow> LocalLog list" where
  "readLogsMoreRecentThanTimestamp timestamp r =
     filter (\<lambda>l. textLess timestamp (the (ll_timestamp l)) \<and> \<not> likeProof (ll_type l)) (lr_rows r)"

text \<open>Every column of the table is \<open>notNullable\<close> and \<open>key\<close> is its primary key.\<close>

definition create :: "LocalLog \<Rightarrow> LocalRepository \<Rightarrow> LocalRepository option" where
  "create l r =
    (if lr_open r \<and> ll_key l \<noteq> None \<and> ll_timestamp l \<noteq> None \<and> ll_data l \<noteq> None
        \<and> (\<forall>l' \<in> set (lr_rows r). ll_key l' \<noteq> ll_key l)
     then Some (r\<lparr>lr_rows := lr_rows r @ [l]\<rparr>) else None)"

definition deleteBySessionId :: "sqlEngine \<Rightarrow> string \<Rightarrow> LocalRepository \<Rightarrow> LocalRepository option" where
  "deleteBySessionId Q sessionID r =
    (if lr_open r then map_option (\<lambda>ls. r\<lparr>lr_rows := ls\<rparr>) (delWithoutTable Q sessionID (lr_rows r)) else None)"

text \<open>One row per session: a row with the greatest timestamp among those not of type \<open>proof\<close>.\<close>

definition readLogsNotProofs :: "sqlEngine \<Rightarrow> LocalRepository \<Rightarrow> LocalLog list" where
  "readLogsNotProofs Q r =
    (let ls = filter (\<lambda>l. ll_type l \<noteq> ''proof'') (lr_rows r)
     in map (\<lambda>s. pickRow Q (latestRows (filter (\<lambda>l. ll_sessionID l = s) ls)))
          (groupOrder Q (remdups (map ll_sessionID ls))))"

definition reset :: "LocalRepository \<Rightarrow> LocalRepository" where
  "reset r = r\<lparr>lr_rows := []\<rparr>"

definition destroy :: "LocalRepository \<Rightarrow> LocalRepository" where
  "destroy r = r\<lparr>lr_open := False\<rparr>"

subsection \<open>Remote repository in a database\<close>

definition remoteReadById :: "string \<Rightarrow> RemoteRepository \<Rightarrow> IRemoteLog option" where
  "remoteReadById logKey r = find (\<lambda>l. rl_key l = logKey) (rr_rows r)"

definition remoteCreate :: "IRemoteLog \<Rightarrow> RemoteRepository \<Rightarrow> RemoteRepository option" where
  "remoteCreate l r =
    (if rr_open r \<and> (\<forall>l' \<in> set (rr_rows r). rl_key l' \<noteq> rl_key l)
     then Some (r\<lparr>rr_rows := rr_rows r @ [l]\<rparr>) else None)"

definition remoteReset :: "RemoteRepository \<Rightarrow> RemoteRepository" where
  "remoteReset r = r\<lparr>rr_rows := []\<rparr>"

definition remoteDestroy :: "RemoteRepository \<Rightarrow> RemoteRepository" where
  "remoteDestroy r = r\<lparr>rr_open := False\<rparr>"

subsection \<open>Remote repository in an object store\<close>

definition ipfsEncode :: "IRemoteLog \<Rightarrow> string" where
  "ipfsEncode l = base64 (utf8Encode (stringify (remoteLogToJson l)))"

definition ipfsDecode :: "string \<Rightarrow> IRemoteLog option" where
  "ipfsDecode v = Option.bind (utf8Decode (unbase64 v)) (\<lambda>t. Option.bind (parse t) remoteLogOfJson)"

section \<open>The object store keeps a log's text\<close>

lemma ipfs_round [simp]: "ipfsDecode (ipfsEncode l) = Some l"
  by (simp add: ipfsDecode_def ipfsEncode_def)

section \<open>Write-once stores\<close>

text \<open>
  The contract of a log table towards the gateway: a stored log is found under its key, it is
  never overwritten, and a second log with the same key is refused.
\<close>

locale log_store =
  fixes lookup :: "'k \<Rightarrow> 's \<Rightarrow> 'v option"
    and insert :: "'v \<Rightarrow> 's \<Rightarrow> 's option"
    and keyOf :: "'v \<Rightarrow> 'k"
  assumes inserted: "insert v s = Some s' \<Longrightarrow> lookup (keyOf v) s' = Some v"
    and kept: "insert v s = Some s' \<Longrightarrow> lookup k s = Some u \<Longrightarrow> lookup k s' = Some u"
    and refused: "lookup (keyOf v) s = Some u \<Longrightarrow> insert v s = None"
begin

fun insertAll :: "'v list \<Rightarrow> 's \<Rightarrow> 's option" where
  "insertAll [] s = Some s"
| "insertAll (v # vs) s = Option.bind (insert v s) (insertAll vs)"

lemma lookup_stable: "insertAll vs s = Some s' \<Longrightarrow> lookup k s = Some u \<Longrightarrow> lookup k s' = Some u"
  by (induction vs arbitrary: s) (auto simp: bind_eq_Some_conv dest: kept)

lemma lookup_inserted:
  "insertAll vs s = Some s' \<Longrightarrow> v \<in> set vs \<Longrightarrow> lookup (keyOf v) s' = Some v"
proof (induction vs arbitrary: s)
  case (Cons x xs)
  then obtain s1 where s1: "insert x s = Some s1" "insertAll xs s1 = Some s'"
    by (auto simp: bind_eq_Some_conv)
  show ?case
  proof (cases "v = x")
    case True
    with s1 inserted lookup_stable show ?thesis by blast
  next
    case False
    with Cons s1 show ?thesis by auto
  qed
qed simp

lemma inserted_keys_distinct: "insertAll vs s = Some s' \<Longrightarrow> distinct (map keyOf vs)"
proof (induction vs arbitrary: s)
  case (Cons x xs)
  then obtain s1 where s1: "insert x s = Some s1" "insertAll xs s1 = Some s'"
    by (auto simp: bind_eq_Some_conv)
  have "keyOf x \<notin> keyOf ` set xs"
  proof
    assume "keyOf x \<in> keyOf ` set xs"
    then obtain y where y: "y \<in> set xs" "keyOf y = keyOf x" by auto
    then obtain as bs where xs: "xs = as @ y # bs" by (meson split_list)
    have "\<exists>s2 s3. insertAll as s1 = Some s2 \<and> insert y s2 = Some s3"
      using s1(2) unfolding xs
      by (induction as arbitrary: s1) (auto simp: bind_eq_Some_conv)
    then obtain s2 s3 where "insertAll as s1 = Some s2" "insert y s2 = Some s3" by blast
    moreover from this have "lookup (keyOf x) s2 = Some x"
      using inserted [OF s1(1)] lookup_stable by blast
    ultimately show False using refused y(2) by fastforce
  qed
  with Cons s1 show ?case by auto
qed simp

end

lemma find_append: "find P (xs @ ys) = (case find P xs of None \<Rightarrow> find P ys | r \<Rightarrow> r)"
  by (induction xs) auto

lemma find_None_all: "(\<forall>x \<in> set xs. \<not> P x) \<Longrightarrow> find P xs = None"
  by (simp add: find_None_iff)

interpretation local_store: log_store readById create "\<lambda>l. the (ll_key l)"
proof
  fix v :: LocalLog and s s'
  assume "create v s = Some s'"
  then show "readById (the (ll_key v)) s' = Some v"
    by (auto simp: create_def readById_def find_append find_None_all split: if_splits)
next
  fix v :: LocalLog and s s' k u
  assume "create v s = Some s'" "readById k s = Some u"
  then show "readById k s' = Some u"
    by (auto simp: create_def readById_def find_append split: if_splits)
next
  fix v :: LocalLog and s u
  assume "readById (the (ll_key v)) s = Some u"
  then have "u \<in> set (lr_rows s)" "ll_key u = Some (the (ll_key v))"
    by (auto simp: readById_def find_Some_iff in_set_conv_nth)
  then show "create v s = None" by (auto simp: create_def)
qed

interpretation remote_store: log_store remoteReadById remoteCreate rl_key
proof
  fix v :: IRemoteLog and s s'
  assume "remoteCreate v s = Some s'"
  then show "remoteReadById (rl_key v) s' = Some v"
    by (auto simp: remoteCreate_def remoteReadById_def find_append find_None_all split: if_splits)
next
  fix v :: IRemoteLog and s s' k u
  assume "remoteCreate v s = Some s'" "remoteReadById k s = Some u"
  then show "remoteReadById k s' = Some u"
    by (auto simp: remoteCreate_def remoteReadById_def find_append split: if_splits)
next
  fix v :: IRemoteLog and s u
  assume "remoteReadById (rl_key v) s = Some u"
  then have "u \<in> set (rr_rows s)" "rl_key u = rl_key v"
    by (auto simp: remoteReadById_def find_Some_iff in_set_conv_nth)
  then show "remoteCreate v s = None" by (auto simp: remoteCreate_def)
qed

end
