(* ===== verification/Gateway.thy ===== *)
theory Gateway
  imports Logs
begin

text \<open>
  The gateway itself: its configuration and session map, the world it runs in (shared remote
  database, clock, everything outside), the libraries and services it calls as the record
  \<open>env\<close>, and the methods of \<open>PluginSatpGateway\<close> every helper uses: signing, logging, reading
  logs back, and sending a request.

  The world of one gateway contains what the rest of the system does in between: a request
  (\<open>e_post\<close>) and a timer (\<open>e_wait\<close>) are functions on the whole world, because the peer
  calls the gateway back before it answers.
\<close>

section \<open>Errors\<close>

text \<open>One constructor for each kind of error the code throws.\<close>

datatype satp_error =
    SessionError
  | WrongMessageType
  | WrongSequenceNumber
  | WrongPreviousHash
  | WrongServerIdentity
  | WrongClientIdentity
  | SignatureFailed
  | CryptoError
  | DltNotSupported
  | AssetExpired
  | WrongAssetProfileHash
  | InvalidClaim
  | WrongClaimHash
  | ClaimSignatureFailed
  | RemoteLogError
  | RemoteStatusError
  | DatabaseError
  | TypeError
  | LedgerRejected
  | LedgerStatus
  | LedgerOutUndefined
  | LedgerReceiptUndefined
  | LedgerConfigUndefined
  | AssetUndefined
  | BackupNotAllowed
  | InvalidLogTimestamp
  | InvalidRecoveredLog
  | RecoveredLogHash
  | RecoverNotSuccessful
  | InvalidLog
  | JsonSyntax
  | InvalidStep
  | MessageFailed string
  | TimeoutExceeded string

section \<open>State\<close>

text \<open>The connection to a Besu or a Fabric ledger; the API client is present when a path was given.\<close>

record besuConfig =
  besuApi :: "string option"
  besuContractName :: "string option"
  besuWeb3SigningCredential :: "json option"
  besuKeychainId :: "string option"

record fabricConfig =
  fabricApi :: "string option"
  fabricSigningCredential :: "json option"
  fabricChannelName :: "string option"
  fabricContractName :: "string option"

datatype ledgerGateway = BesuSatpGateway besuConfig | FabricSatpGateway fabricConfig

datatype remoteKind = KnexRemoteLogRepository | IPFSRemoteLogRepository string

record gateway =
  pubKey :: string
  privKey :: string
  supportedDltIDs :: "string list"
  backupGatewaysAllowed :: "string list"
  ledgerKind :: ledgerGateway
  remoteRepository :: "remoteKind option"
  localRepository :: "LocalRepository option"
  sessions :: "string \<rightharpoonup> SessionData"

text \<open>
  \<open>w_remote\<close> is the database both gateways log to, \<open>w_now\<close> the clock in milliseconds and
  \<open>w_ext\<close> whatever else there is: ledgers, object stores, other gateways.
\<close>

record 'x world =
  w_self :: gateway
  w_remote :: RemoteRepository
  w_now :: int
  w_ext :: 'x

datatype http_result = HttpResponse int | HttpError "int option" | HttpPending

datatype invocationType = Send | Call

record besuInvocation =
  bi_contractName :: "string option"
  bi_invocationType :: invocationType
  bi_methodName :: string
  bi_gas :: int
  bi_params :: "json list"
  bi_signingCredential :: "json option"
  bi_keychainId :: "string option"

record fabricTransaction =
  ft_signingCredential :: "json option"
  ft_channelName :: "string option"
  ft_contractName :: "string option"
  ft_invocationType :: invocationType
  ft_methodName :: string
  ft_params :: "json list"

text \<open>
  The services. A call that may be rejected returns an option; \<open>e_parseDate\<close> is
  \<open>Date.parse\<close>, which the language leaves to the implementation for most texts and which
  gives \<open>NaN\<close> (None) for the others; \<open>e_tick\<close> is the time that passes at a reading of the clock.
\<close>

record 'x env =
  e_crypto :: crypto
  e_sql :: sqlEngine
  e_timezone :: timezone
  e_parseDate :: "string \<Rightarrow> int option"
  e_tick :: "int \<Rightarrow> int"
  e_wait :: "int \<Rightarrow> 'x world \<Rightarrow> 'x world"
  e_post :: "string \<Rightarrow> satp_call \<Rightarrow> 'x world \<Rightarrow> http_result \<times> 'x world"
  e_setObjectV1 :: "string \<Rightarrow> string \<Rightarrow> string \<Rightarrow> 'x \<Rightarrow> int option \<times> 'x"
  e_getObjectV1 :: "string \<Rightarrow> string \<Rightarrow> 'x \<Rightarrow> string option"
  e_invokeContractV1 :: "string \<Rightarrow> besuInvocation \<Rightarrow> 'x \<Rightarrow> (int \<times> json) option \<times> 'x"
  e_runTransactionV1 :: "string \<Rightarrow> fabricTransaction \<Rightarrow> 'x \<Rightarrow> json option \<times> 'x"
  e_getTransactionReceiptByTxIDV1 :: "string \<Rightarrow> fabricTransaction \<Rightarrow> 'x \<Rightarrow> json option \<times> 'x"

type_synonym ('x, 'a) gact = "('x world, satp_error, 'a) act"

section \<open>Construction\<close>

record gatewayOptions =
  go_instanceId :: string
  go_dltIDs :: "string list"
  go_keyPair :: "(byte list \<times> byte list) option"
  go_backupGatewaysAllowed :: "string list option"
  go_ipfsPath :: "string option"

definition isBlank :: "string \<Rightarrow> bool" where
  "isBlank s = list_all isSpace s"

text \<open>
  The constructor. \<open>generated\<close> is the key pair of \<open>Secp256k1Keys.generateKeyPairsBuffer()\<close>,
  public key first, and \<open>database\<close> the table that \<open>options.knexLocalConfig\<close> connects to, which holds
  what an earlier gateway wrote; a blank instance id and an empty private key are refused.
\<close>

definition newGateway ::
  "byte list \<times> byte list \<Rightarrow> LocalRepository \<Rightarrow> ledgerGateway \<Rightarrow> gatewayOptions \<Rightarrow> gateway option" where
  "newGateway generated database kind o' =
    (if isBlank (go_instanceId o') then None
     else let keyPairs = (case go_keyPair o' of Some kp \<Rightarrow> kp | None \<Rightarrow> generated);
              priv = bufArray2HexStr (snd keyPairs)
          in case newJsObjectSigner (KeyText priv) None None None of
               None \<Rightarrow> None
             | Some _ \<Rightarrow> Some \<lparr>
                 pubKey = bufArray2HexStr (fst keyPairs),
                 privKey = priv,
                 supportedDltIDs = go_dltIDs o',
                 backupGatewaysAllowed = (case go_backupGatewaysAllowed o' of Some gs \<Rightarrow> gs | None \<Rightarrow> []),
                 ledgerKind = kind,
                 remoteRepository = Some (case go_ipfsPath o' of
                     Some path \<Rightarrow> IPFSRemoteLogRepository path
                   | None \<Rightarrow> KnexRemoteLogRepository),
                 localRepository = Some database,
                 sessions = Map.empty\<rparr>)"

section \<open>Sessions, clock, signatures\<close>

definition setSession :: "string \<Rightarrow> SessionData \<Rightarrow> 'x world \<Rightarrow> 'x world" where
  "setSession sessionID sd w = w\<lparr>w_self := (w_self w)\<lparr>sessions := (sessions (w_self w))(sessionID \<mapsto> sd)\<rparr>\<rparr>"

text \<open>
  Session objects are shared with the map, so that assigning to a property of one is a change
  of the map at once: each group of assignments is one \<open>putSession\<close>.
\<close>

definition putSession :: "string \<Rightarrow> SessionData \<Rightarrow> ('x, unit) gact" where
  "putSession sessionID sd = modifyA (setSession sessionID sd)"

definition deleteSession :: "string \<Rightarrow> ('x, unit) gact" where
  "deleteSession sessionID =
     modifyA (\<lambda>w. w\<lparr>w_self := (w_self w)\<lparr>sessions := (sessions (w_self w))(sessionID := None)\<rparr>\<rparr>)"

definition session :: "'x world \<Rightarrow> string \<Rightarrow> SessionData option" where
  "session w sessionID = sessions (w_self w) sessionID"

text \<open>\<open>sessions.get(sessionID)\<close>, with the error thrown when there is none\<close>

definition getSession :: "string \<Rightarrow> ('x, SessionData) gact" where
  "getSession sessionID = bindA (getsA (\<lambda>w. session w sessionID)) (\<lambda>s.
     case s of None \<Rightarrow> throwE SessionError | Some sd \<Rightarrow> ret sd)"

text \<open>Reading the clock takes time.\<close>

definition dateNow :: "'x env \<Rightarrow> ('x, int) gact" where
  "dateNow E = (\<lambda>w. (Returns (w_now w), w\<lparr>w_now := w_now w + e_tick E (w_now w)\<rparr>))"

definition isClientGateway :: "string \<Rightarrow> ('x, bool) gact" where
  "isClientGateway sessionID = bindA (getSession sessionID) (\<lambda>sd.
     getsA (\<lambda>w. sd_sourceGatewayPubkey sd = Some (pubKey (w_self w))))"

definition signA :: "'x env \<Rightarrow> json \<Rightarrow> ('x, string) gact" where
  "signA E j = bindA (getsA (\<lambda>w. signHex (e_crypto E) (privKey (w_self w)) (stringify j))) (\<lambda>s.
     case s of None \<Rightarrow> throwE CryptoError | Some sig \<Rightarrow> ret sig)"

text \<open>\<open>if (!verifySignature(obj, pubKey)) throw e\<close>\<close>

definition verifyA :: "'x env \<Rightarrow> json \<Rightarrow> string \<Rightarrow> string \<Rightarrow> satp_error \<Rightarrow> ('x, unit) gact" where
  "verifyA E blanked sig pk e =
     bindA (getsA (\<lambda>w. verifySignature (e_crypto E) (privKey (w_self w)) blanked sig pk)) (\<lambda>r.
       case r of None \<Rightarrow> throwE CryptoError | Some b \<Rightarrow> ensure b e)"

definition hashJson :: "'x env \<Rightarrow> json \<Rightarrow> string" where
  "hashJson E j = sha256 (e_crypto E) (stringify j)"

section \<open>Logging\<close>

definition getSatpLogKey :: "string \<Rightarrow> string \<Rightarrow> string \<Rightarrow> string" where
  "getSatpLogKey sessionID type operation = sessionID @ ''-'' @ type @ ''-'' @ operation"

definition storeInDatabase :: "LocalLog \<Rightarrow> ('x, unit) gact" where
  "storeInDatabase l = (\<lambda>w. case localRepository (w_self w) of
      None \<Rightarrow> (Returns (), w)
    | Some r \<Rightarrow> (case create l r of
        None \<Rightarrow> (Throws DatabaseError, w)
      | Some r' \<Rightarrow> (Returns (), w\<lparr>w_self := (w_self w)\<lparr>localRepository := Some r'\<rparr>\<rparr>)))"

text \<open>
  \<open>remoteRepository.create(log)\<close>. An SQL insert resolves to a list of row ids, whose \<open>status\<close>
  is undefined; the object store answers with a status.
\<close>

definition createRemote :: "'x env \<Rightarrow> IRemoteLog \<Rightarrow> ('x, int option) gact" where
  "createRemote E l = (\<lambda>w. case remoteRepository (w_self w) of
      None \<Rightarrow> (Throws TypeError, w)
    | Some KnexRemoteLogRepository \<Rightarrow> (case remoteCreate l (w_remote w) of
        None \<Rightarrow> (Throws DatabaseError, w)
      | Some r' \<Rightarrow> (Returns None, w\<lparr>w_remote := r'\<rparr>))
    | Some (IPFSRemoteLogRepository path) \<Rightarrow> (case e_setObjectV1 E path (rl_key l) (ipfsEncode l) (w_ext w) of
        (None, x') \<Rightarrow> (Throws RemoteLogError, w\<lparr>w_ext := x'\<rparr>)
      | (Some status, x') \<Rightarrow> (Returns (Some status), w\<lparr>w_ext := x'\<rparr>)))"

definition storeRemoteLog :: "'x env \<Rightarrow> string \<Rightarrow> string \<Rightarrow> ('x, unit) gact" where
  "storeRemoteLog E key hash =
     bindA (getsA (\<lambda>w. \<lparr>rl_key = key, rl_hash = hash, rl_signature = '''', rl_signerPubKey = pubKey (w_self w)\<rparr>)) (\<lambda>remoteLog.
     bindA (signA E (remoteLogToJson remoteLog)) (\<lambda>sig.
     bindA (createRemote E (remoteLog\<lparr>rl_signature := sig\<rparr>)) (\<lambda>status.
       ensure (case status of None \<Rightarrow> True | Some n \<Rightarrow> \<not> (n < 200 \<and> n > 299)) RemoteStatusError)))"

text \<open>The log record a caller passes: session, type, operation and data.\<close>

definition mkLog :: "string \<Rightarrow> string \<Rightarrow> string \<Rightarrow> string option \<Rightarrow> LocalLog" where
  "mkLog sessionID type operation data = \<lparr>ll_sessionID = sessionID, ll_type = type, ll_key = None,
     ll_operation = operation, ll_timestamp = None, ll_data = data\<rparr>"

definition stampLog :: "int \<Rightarrow> LocalLog \<Rightarrow> LocalLog" where
  "stampLog now l = l\<lparr>ll_key := Some (getSatpLogKey (ll_sessionID l) (ll_type l) (ll_operation l)),
     ll_timestamp := Some (intToString now)\<rparr>"

definition storeLog :: "'x env \<Rightarrow> LocalLog \<Rightarrow> ('x, unit) gact" where
  "storeLog E l =
     bindA (dateNow E) (\<lambda>now.
     let localLog = stampLog now l in
     thenA (storeInDatabase localLog)
       (storeRemoteLog E (the (ll_key localLog)) (hashJson E (localLogToJson localLog))))"

definition storeProof :: "'x env \<Rightarrow> LocalLog \<Rightarrow> ('x, unit) gact" where
  "storeProof E l = (case ll_data l of
      None \<Rightarrow> ret ()
    | Some data \<Rightarrow>
        bindA (dateNow E) (\<lambda>now.
        let localLog = stampLog now l in
        thenA (storeInDatabase localLog)
          (storeRemoteLog E (the (ll_key localLog)) (sha256 (e_crypto E) data))))"

text \<open>\<open>storeLog({sessionID, type, operation, data: JSON.stringify(sessionData)})\<close>\<close>

definition logSession :: "'x env \<Rightarrow> string \<Rightarrow> string \<Rightarrow> string \<Rightarrow> SessionData \<Rightarrow> ('x, unit) gact" where
  "logSession E sessionID type operation sd =
     storeLog E (mkLog sessionID type operation (Some (stringifySession sd)))"

section \<open>Reading logs\<close>

definition queryLocal :: "(LocalRepository \<Rightarrow> 'a) \<Rightarrow> ('x, 'a option) gact" where
  "queryLocal f = (\<lambda>w. case localRepository (w_self w) of
      None \<Rightarrow> (Returns None, w)
    | Some r \<Rightarrow> if lr_open r then (Returns (Some (f r)), w) else (Throws DatabaseError, w))"

definition getLogFromDatabase :: "string \<Rightarrow> ('x, LocalLog option) gact" where
  "getLogFromDatabase logKey = bindA (queryLocal (readById logKey)) (\<lambda>r. ret (Option.bind r id))"

definition getLastLogFromDatabase :: "'x env \<Rightarrow> string \<Rightarrow> ('x, LocalLog option) gact" where
  "getLastLogFromDatabase E sessionID =
     bindA (queryLocal (readLastestLog (e_sql E) sessionID)) (\<lambda>r. ret (Option.bind r id))"

definition getLogsMoreRecentThanTimestamp :: "string \<Rightarrow> ('x, LocalLog list) gact" where
  "getLogsMoreRecentThanTimestamp timestamp =
     bindA (queryLocal (readLogsMoreRecentThanTimestamp timestamp)) (\<lambda>r.
       case r of None \<Rightarrow> throwE DatabaseError | Some logs \<Rightarrow> ret logs)"

definition readRemote :: "'x env \<Rightarrow> string \<Rightarrow> ('x, IRemoteLog option) gact" where
  "readRemote E logKey = (\<lambda>w. case remoteRepository (w_self w) of
      None \<Rightarrow> (Returns None, w)
    | Some KnexRemoteLogRepository \<Rightarrow>
        if rr_open (w_remote w) then (Returns (remoteReadById logKey (w_remote w)), w) else (Throws DatabaseError, w)
    | Some (IPFSRemoteLogRepository path) \<Rightarrow> (case e_getObjectV1 E path logKey (w_ext w) of
        None \<Rightarrow> (Throws RemoteLogError, w)
      | Some v \<Rightarrow> (case ipfsDecode v of None \<Rightarrow> (Throws RemoteLogError, w) | Some l \<Rightarrow> (Returns (Some l), w))))"

definition blankedRemote :: "IRemoteLog \<Rightarrow> json" where
  "blankedRemote l = remoteLogToJson (l\<lparr>rl_signature := ''''\<rparr>)"

definition getLogFromRemote :: "'x env \<Rightarrow> string \<Rightarrow> ('x, IRemoteLog) gact" where
  "getLogFromRemote E logKey = rethrowAs RemoteLogError (
     bindA (readRemote E logKey) (\<lambda>r. case r of
         None \<Rightarrow> throwE RemoteLogError
       | Some log \<Rightarrow>
           thenA (verifyA E (blankedRemote log) (rl_signature log) (rl_signerPubKey log) RemoteLogError)
             (ret log)))"

definition deleteDatabaseEntries :: "'x env \<Rightarrow> string \<Rightarrow> ('x, unit) gact" where
  "deleteDatabaseEntries E sessionID = (\<lambda>w. case localRepository (w_self w) of
      None \<Rightarrow> (Returns (), w)
    | Some r \<Rightarrow> (case deleteBySessionId (e_sql E) sessionID r of
        None \<Rightarrow> (Throws DatabaseError, w)
      | Some r' \<Rightarrow> (Returns (), w\<lparr>w_self := (w_self w)\<lparr>localRepository := Some r'\<rparr>\<rparr>)))"

definition updateLastMessageReceivedTimestamp :: "'x env \<Rightarrow> string \<Rightarrow> ('x, unit) gact" where
  "updateLastMessageReceivedTimestamp E sessionID =
     bindA (getSession sessionID) (\<lambda>sd.
     bindA (dateNow E) (\<lambda>now.
       putSession sessionID (sd\<lparr>sd_lastMessageReceivedTimestamp := Some (dateToString (e_timezone E) now)\<rparr>)))"

section \<open>Requests\<close>

text \<open>
  The loop of \<open>makeRequest\<close>. The promise is the same in every round, so that each round sees
  the same result; the loop leaves with the response, if there is one.
\<close>

function retryLoop ::
  "(string \<Rightarrow> ('x, unit) gact) \<Rightarrow> string \<Rightarrow> http_result \<Rightarrow> string \<Rightarrow> int \<Rightarrow> int \<Rightarrow> ('x, int option) gact" where
  "retryLoop revert sessionID result message maxRetries numberOfTries =
    (if numberOfTries < maxRetries then
       (case result of
          HttpPending \<Rightarrow> never
        | HttpResponse status \<Rightarrow> ret (Some status)
        | HttpError status \<Rightarrow>
            if (status = None \<or> status = Some 500) \<and> \<not> matches ''Rollback'' message
            then thenA (revert sessionID) (throwE (MessageFailed message))
            else retryLoop revert sessionID result message maxRetries (numberOfTries + 1))
     else ret None)"
  by pat_completeness auto
termination
  by (relation "measure (\<lambda>(_, _, _, _, m, n). nat (m - n))") auto

declare retryLoop.simps [simp del]

text \<open>\<open>new Date().getTime() - parseInt(last) > maxTimeout\<close>; comparisons with \<open>NaN\<close> are false.\<close>

definition timedOut :: "int \<Rightarrow> string \<Rightarrow> int \<Rightarrow> bool" where
  "timedOut now stamp maxTimeout = (case parseInt stamp of None \<Rightarrow> False | Some l \<Rightarrow> now - l > maxTimeout)"

text \<open>
  \<open>makeRequest\<close>, with \<open>Revert\<close> as an argument because \<open>Revert\<close> sends a request itself. The
  request is on its way before \<open>makeRequest\<close> looks at the session; the first look happens
  before the peer can react.
\<close>

definition postA :: "'x env \<Rightarrow> string \<Rightarrow> satp_call \<Rightarrow> ('x, http_result) gact" where
  "postA E basePath call = (\<lambda>w. case e_post E basePath call w of (r, w') \<Rightarrow> (Returns r, w'))"

definition awaitTimeout ::
  "'x env \<Rightarrow> (string \<Rightarrow> ('x, unit) gact) \<Rightarrow> string \<Rightarrow> int \<Rightarrow> string \<Rightarrow> ('x, unit) gact" where
  "awaitTimeout E revert sessionID maxTimeout message =
     thenA (modifyA (e_wait E maxTimeout)) (
     bindA (getSession sessionID) (\<lambda>sd.
     thenA (ensure (sd_lastMessageReceivedTimestamp sd \<noteq> None \<and> sd_maxTimeout sd \<noteq> None) SessionError) (
     bindA (dateNow E) (\<lambda>now.
       if timedOut now (the (sd_lastMessageReceivedTimestamp sd)) (the (sd_maxTimeout sd))
       then thenA (revert sessionID) (throwE (TimeoutExceeded message))
       else ret ()))))"

definition makeRequestWith ::
  "'x env \<Rightarrow> (string \<Rightarrow> ('x, unit) gact) \<Rightarrow> string \<Rightarrow> string \<Rightarrow> satp_call \<Rightarrow> string \<Rightarrow> ('x, unit) gact" where
  "makeRequestWith E revert sessionID basePath call message =
     bindA (getsA (\<lambda>w. session w sessionID)) (\<lambda>before.
     bindA (postA E basePath call) (\<lambda>result.
     case before of
       None \<Rightarrow> throwE SessionError
     | Some sd \<Rightarrow>
         thenA (ensure (sd_maxTimeout sd \<noteq> None \<and> sd_maxRetries sd \<noteq> None) SessionError) (
         bindA (retryLoop revert sessionID result message (the (sd_maxRetries sd)) 0) (\<lambda>response.
           if response = Some 200 then ret ()
           else if \<not> matches ''Rollback'' message
           then awaitTimeout E revert sessionID (the (sd_maxTimeout sd)) message
           else ret ()))))"

end
