(* ===== verification/Ledgers.thy ===== *)
theory Ledgers
  imports Gateway
begin

text \<open>
  The two ledger gateways: how an asset is locked, unlocked, created and deleted on a Besu or a
  Fabric ledger, which proofs are logged, and how a session is rolled back. The ledger
  connectors are services of the environment; a method of a class that the other class
  overrides is dispatched on \<open>ledgerKind\<close>.
\<close>

section \<open>Connections\<close>

record besuOptions =
  bo_besuPath :: "string option"
  bo_besuContractName :: "string option"
  bo_besuWeb3SigningCredential :: "json option"
  bo_besuKeychainId :: "string option"

record fabricOptions =
  fo_fabricPath :: "string option"
  fo_fabricSigningCredential :: "json option"
  fo_fabricChannelName :: "string option"
  fo_fabricContractName :: "string option"

text \<open>None is the error for missing parameters; without a path nothing is set.\<close>

definition defineBesuConnection :: "besuOptions \<Rightarrow> besuConfig option" where
  "defineBesuConnection o' =
    (if bo_besuPath o' = None then Some \<lparr>besuApi = None, besuContractName = None,
         besuWeb3SigningCredential = None, besuKeychainId = None\<rparr>
     else if bo_besuContractName o' = None \<or> bo_besuWeb3SigningCredential o' = None \<or> bo_besuKeychainId o' = None
     then None
     else Some \<lparr>besuApi = bo_besuPath o', besuContractName = bo_besuContractName o',
         besuWeb3SigningCredential = bo_besuWeb3SigningCredential o', besuKeychainId = bo_besuKeychainId o'\<rparr>)"

definition defineFabricConnection :: "fabricOptions \<Rightarrow> fabricConfig option" where
  "defineFabricConnection o' =
    (if fo_fabricPath o' = None then Some \<lparr>fabricApi = None, fabricSigningCredential = None,
         fabricChannelName = None, fabricContractName = None\<rparr>
     else if fo_fabricSigningCredential o' = None \<or> fo_fabricChannelName o' = None \<or> fo_fabricContractName o' = None
     then None
     else Some \<lparr>fabricApi = fo_fabricPath o', fabricSigningCredential = fo_fabricSigningCredential o',
         fabricChannelName = fo_fabricChannelName o', fabricContractName = fo_fabricContractName o'\<rparr>)"

text \<open>An optional argument as an element of a JSON array.\<close>

definition optJson :: "string option \<Rightarrow> json" where
  "optJson a = (case a of None \<Rightarrow> JNull | Some s \<Rightarrow> JStr s)"

text \<open>\<open>x.k\<close>, which throws when \<open>x\<close> is \<open>null\<close>\<close>

definition propertyA :: "string \<Rightarrow> json \<Rightarrow> ('x, json option) gact" where
  "propertyA k j = (if j = JNull then throwE TypeError else ret (jget k j))"

definition orElse :: "'a option \<Rightarrow> 'a option \<Rightarrow> 'a option" where
  "orElse a b = (case a of None \<Rightarrow> b | Some x \<Rightarrow> Some x)"

definition pushTo :: "'a \<Rightarrow> 'a list option \<Rightarrow> 'a list option" where
  "pushTo x xs = map_option (\<lambda>ys. ys @ [x]) xs"

text \<open>\<open>rollbackActionsPerformed.push(action); rollbackProofs.push(proof)\<close>\<close>

definition pushRollback :: "RollbackAction \<Rightarrow> string \<Rightarrow> SessionData \<Rightarrow> SessionData" where
  "pushRollback action proof' sd = sd\<lparr>
     sd_rollbackActionsPerformed := pushTo action (sd_rollbackActionsPerformed sd),
     sd_rollbackProofs := pushTo proof' (sd_rollbackProofs sd)\<rparr>"

definition rollbackListsDefined :: "SessionData \<Rightarrow> bool" where
  "rollbackListsDefined sd \<longleftrightarrow> sd_rollbackActionsPerformed sd \<noteq> None \<and> sd_rollbackProofs sd \<noteq> None"

section \<open>Besu\<close>

definition besuInvoke ::
  "'x env \<Rightarrow> besuConfig \<Rightarrow> string \<Rightarrow> invocationType \<Rightarrow> string \<Rightarrow> json list \<Rightarrow> ('x, int \<times> json) gact" where
  "besuInvoke E c path ty methodName params = (\<lambda>w.
     case e_invokeContractV1 E path \<lparr>bi_contractName = besuContractName c, bi_invocationType = ty,
            bi_methodName = methodName, bi_gas = 1000000, bi_params = params,
            bi_signingCredential = besuWeb3SigningCredential c, bi_keychainId = besuKeychainId c\<rparr> (w_ext w) of
       (None, x') \<Rightarrow> (Throws LedgerRejected, w\<lparr>w_ext := x'\<rparr>)
     | (Some r, x') \<Rightarrow> (Returns r, w\<lparr>w_ext := x'\<rparr>))"

text \<open>The checks on a response and the receipt in it, printed.\<close>

definition besuReceipt :: "int \<times> json \<Rightarrow> ('x, string) gact" where
  "besuReceipt response =
     thenA (ensure (fst response = 200) LedgerStatus) (
     bindA (propertyA ''out'' (snd response)) (\<lambda>out. case out of
         None \<Rightarrow> throwE LedgerOutUndefined
       | Some o' \<Rightarrow> (case jget ''transactionReceipt'' o' of
           None \<Rightarrow> throwE LedgerReceiptUndefined
         | Some receipt \<Rightarrow> ret (stringify receipt))))"

text \<open>\<open>let proof = ""; if (besuApi != undefined) { ... }\<close>\<close>

definition besuSend :: "'x env \<Rightarrow> besuConfig \<Rightarrow> string \<Rightarrow> json list \<Rightarrow> ('x, string) gact" where
  "besuSend E c methodName params = (case besuApi c of
      None \<Rightarrow> ret ''''
    | Some path \<Rightarrow> bindA (besuInvoke E c path Send methodName params) besuReceipt)"

definition besuCreateAsset :: "'x env \<Rightarrow> besuConfig \<Rightarrow> string \<Rightarrow> string option \<Rightarrow> ('x, string) gact" where
  "besuCreateAsset E c sessionID assetId =
     bindA (getSession sessionID) (\<lambda>sd.
     let assetId' = orElse assetId (sd_recipientLedgerAssetID sd) in
     thenA (logSession E sessionID ''exec'' ''create-asset'' sd) (
     bindA (besuSend E c ''createAsset'' [optJson assetId', JNum 100]) (\<lambda>besuCreateAssetProof.
     let sd' = sd\<lparr>sd_commitAcknowledgementClaim := Some besuCreateAssetProof\<rparr> in
     thenA (putSession sessionID sd') (
     thenA (storeProof E (mkLog sessionID ''proof'' ''create'' (Some besuCreateAssetProof))) (
     thenA (logSession E sessionID ''done'' ''create-asset'' sd')
       (ret besuCreateAssetProof))))))"

definition besuLockAsset :: "'x env \<Rightarrow> besuConfig \<Rightarrow> string \<Rightarrow> string option \<Rightarrow> ('x, string) gact" where
  "besuLockAsset E c sessionID assetId =
     bindA (getSession sessionID) (\<lambda>sd.
     thenA (ensure (rollbackListsDefined sd) SessionError) (
     let assetId' = orElse assetId (sd_sourceLedgerAssetID sd) in
     thenA (logSession E sessionID ''exec-rollback'' ''lock-asset'' sd) (
     bindA (besuSend E c ''lockAsset'' [optJson assetId']) (\<lambda>besuLockAssetProof.
     let sd' = pushRollback LOCK besuLockAssetProof sd in
     thenA (putSession sessionID sd') (
     thenA (storeProof E (mkLog sessionID ''proof-rollback'' ''lock'' (Some besuLockAssetProof))) (
     thenA (logSession E sessionID ''done-rollback'' ''lock-asset'' sd')
       (ret besuLockAssetProof)))))))"

definition besuUnlockAsset :: "'x env \<Rightarrow> besuConfig \<Rightarrow> string \<Rightarrow> string option \<Rightarrow> ('x, string) gact" where
  "besuUnlockAsset E c sessionID assetId =
     bindA (getSession sessionID) (\<lambda>sd.
     thenA (ensure (rollbackListsDefined sd) SessionError) (
     thenA (logSession E sessionID ''exec-rollback'' ''unlock-asset'' sd) (
     bindA (besuSend E c ''lockAsset'' [optJson assetId]) (\<lambda>besuUnlockAssetProof.
     let sd' = pushRollback LOCK besuUnlockAssetProof sd in
     thenA (putSession sessionID sd') (
     thenA (storeProof E (mkLog sessionID ''proof-rollback'' ''unlock'' (Some besuUnlockAssetProof))) (
     thenA (logSession E sessionID ''done-rollback'' ''unlock-asset'' sd')
       (ret besuUnlockAssetProof)))))))"

text \<open>The asset is locked first, and the result of that call is not looked at.\<close>

definition besuDeleteAssetToRollback :: "'x env \<Rightarrow> besuConfig \<Rightarrow> string \<Rightarrow> string option \<Rightarrow> ('x, string) gact" where
  "besuDeleteAssetToRollback E c sessionID assetID =
     bindA (getSession sessionID) (\<lambda>sd.
     thenA (ensure (rollbackListsDefined sd) SessionError) (
     let assetID' = orElse assetID (sd_sourceLedgerAssetID sd) in
     thenA (logSession E sessionID ''exec-rollback'' ''delete-asset'' sd) (
     bindA (case besuApi c of
         None \<Rightarrow> ret ''''
       | Some path \<Rightarrow>
           thenA (besuInvoke E c path Send ''lockAsset'' [optJson assetID'])
             (bindA (besuInvoke E c path Send ''deleteAsset'' [optJson assetID']) besuReceipt))
       (\<lambda>besuDeleteAssetProof.
     let sd' = pushRollback DELETE besuDeleteAssetProof sd in
     thenA (putSession sessionID sd') (
     thenA (storeProof E (mkLog sessionID ''proof-rollback'' ''delete'' (Some besuDeleteAssetProof))) (
     thenA (logSession E sessionID ''done-rollback'' ''delete-asset'' sd')
       (ret besuDeleteAssetProof)))))))"

text \<open>\<open>new Promise(() => ...)\<close>: the executor never resolves.\<close>

definition besuDeleteAsset :: "string \<Rightarrow> string option \<Rightarrow> ('x, string) gact" where
  "besuDeleteAsset sessionID assetID = never"

definition besuCreateAssetToRollback :: "string \<Rightarrow> string option \<Rightarrow> ('x, string) gact" where
  "besuCreateAssetToRollback sessionID assetID = never"

text \<open>\<open>x == true\<close> for a JSON value\<close>

definition equalsTrue :: "json option \<Rightarrow> bool" where
  "equalsTrue j = (case j of
     Some (JBool b) \<Rightarrow> b | Some (JNum n) \<Rightarrow> n = 1 | Some (JStr s) \<Rightarrow> parse s = Some (JNum 1) | _ \<Rightarrow> False)"

definition besuCallOutput :: "'x env \<Rightarrow> besuConfig \<Rightarrow> string \<Rightarrow> string \<Rightarrow> ('x, bool) gact" where
  "besuCallOutput E c methodName besuAssetID = (case besuApi c of
      None \<Rightarrow> throwE AssetUndefined
    | Some path \<Rightarrow> bindA (besuInvoke E c path Call methodName [JStr besuAssetID]) (\<lambda>response.
        bindA (propertyA ''callOutput'' (snd response)) (\<lambda>v. ret (equalsTrue v))))"

definition besuAssetExists :: "'x env \<Rightarrow> besuConfig \<Rightarrow> string \<Rightarrow> ('x, bool) gact" where
  "besuAssetExists E c besuAssetID = besuCallOutput E c ''isPresent'' besuAssetID"

definition isBesuAssetLocked :: "'x env \<Rightarrow> besuConfig \<Rightarrow> string \<Rightarrow> ('x, bool) gact" where
  "isBesuAssetLocked E c besuAssetID = besuCallOutput E c ''isAssetLocked'' besuAssetID"

definition besuRollback :: "'x env \<Rightarrow> besuConfig \<Rightarrow> string \<Rightarrow> ('x, unit) gact" where
  "besuRollback E c sessionID =
     bindA (getSession sessionID) (\<lambda>sd.
     thenA (ensure (sd_step sd \<noteq> None \<and> sd_lastSequenceNumber sd \<noteq> None) SessionError) (
     thenA (putSession sessionID (sd\<lparr>sd_rollback := Some True\<rparr>)) (
     if besuApi c = None \<or> besuContractName c = None \<or> besuKeychainId c = None
        \<or> besuWeb3SigningCredential c = None
        \<or> sd_sourceLedgerAssetID sd = None \<or> sd_recipientLedgerAssetID sd = None
     then ret ()
     else let source = the (sd_sourceLedgerAssetID sd); recipient = the (sd_recipientLedgerAssetID sd) in
       bindA (isClientGateway sessionID) (\<lambda>client.
       if client then
         bindA (besuAssetExists E c source) (\<lambda>present.
         if present then
           bindA (isBesuAssetLocked E c source) (\<lambda>locked.
             if locked then thenA (besuUnlockAsset E c sessionID (Some source)) (ret ()) else ret ())
         else thenA (besuCreateAsset E c sessionID (Some source)) (ret ()))
       else
         bindA (besuAssetExists E c recipient) (\<lambda>present.
         if present then thenA (besuDeleteAssetToRollback E c sessionID (Some recipient)) (ret ())
         else ret ())))))"

section \<open>Fabric\<close>

definition fabricRun ::
  "'x env \<Rightarrow> fabricConfig \<Rightarrow> string \<Rightarrow> string \<Rightarrow> json list \<Rightarrow> ('x, json) gact" where
  "fabricRun E c path methodName params = (\<lambda>w.
     case e_runTransactionV1 E path \<lparr>ft_signingCredential = fabricSigningCredential c,
            ft_channelName = fabricChannelName c, ft_contractName = fabricContractName c,
            ft_invocationType = Send, ft_methodName = methodName, ft_params = params\<rparr> (w_ext w) of
       (None, x') \<Rightarrow> (Throws LedgerRejected, w\<lparr>w_ext := x'\<rparr>)
     | (Some r, x') \<Rightarrow> (Returns r, w\<lparr>w_ext := x'\<rparr>))"

definition fabricReceipt :: "'x env \<Rightarrow> fabricConfig \<Rightarrow> string \<Rightarrow> json option \<Rightarrow> ('x, json) gact" where
  "fabricReceipt E c path transactionId = (\<lambda>w.
     case e_getTransactionReceiptByTxIDV1 E path \<lparr>ft_signingCredential = fabricSigningCredential c,
            ft_channelName = fabricChannelName c, ft_contractName = Some ''qscc'',
            ft_invocationType = Call, ft_methodName = ''GetBlockByTxID'',
            ft_params = [optJson (fabricChannelName c), (case transactionId of None \<Rightarrow> JNull | Some t \<Rightarrow> t)]\<rparr> (w_ext w) of
       (None, x') \<Rightarrow> (Throws LedgerRejected, w\<lparr>w_ext := x'\<rparr>)
     | (Some r, x') \<Rightarrow> (Returns r, w\<lparr>w_ext := x'\<rparr>))"

text \<open>A transaction and the block that holds it, printed: the proof of the action.\<close>

definition fabricSend :: "'x env \<Rightarrow> fabricConfig \<Rightarrow> string \<Rightarrow> json list \<Rightarrow> ('x, string) gact" where
  "fabricSend E c methodName params = (case fabricApi c of
      None \<Rightarrow> ret ''''
    | Some path \<Rightarrow>
        bindA (fabricRun E c path methodName params) (\<lambda>data.
        bindA (propertyA ''transactionId'' data) (\<lambda>transactionId.
        bindA (fabricReceipt E c path transactionId) (\<lambda>receipt. ret (stringify receipt)))))"

definition fabricLockAsset :: "'x env \<Rightarrow> fabricConfig \<Rightarrow> string \<Rightarrow> string option \<Rightarrow> ('x, string) gact" where
  "fabricLockAsset E c sessionID assetId =
     bindA (getSession sessionID) (\<lambda>sd.
     let assetId' = orElse assetId (sd_sourceLedgerAssetID sd) in
     thenA (logSession E sessionID ''exec'' ''lock-asset'' sd) (
     bindA (fabricSend E c ''LockAsset'' [optJson assetId']) (\<lambda>fabricLockAssetProof.
     let sd' = sd\<lparr>sd_lockEvidenceClaim := Some fabricLockAssetProof\<rparr> in
     thenA (putSession sessionID sd') (
     thenA (storeProof E (mkLog sessionID ''proof'' ''lock'' (Some fabricLockAssetProof))) (
     thenA (logSession E sessionID ''done'' ''lock-asset'' sd')
       (ret fabricLockAssetProof))))))"

definition fabricUnlockAsset :: "'x env \<Rightarrow> fabricConfig \<Rightarrow> string \<Rightarrow> string option \<Rightarrow> ('x, string) gact" where
  "fabricUnlockAsset E c sessionID assetId =
     bindA (getSession sessionID) (\<lambda>sd.
     thenA (ensure (rollbackListsDefined sd) SessionError) (
     thenA (logSession E sessionID ''exec-rollback'' ''unlock-asset'' sd) (
     bindA (fabricSend E c ''UnlockAsset'' [optJson assetId]) (\<lambda>fabricUnlockAssetProof.
     let sd' = pushRollback UNLOCK fabricUnlockAssetProof sd in
     thenA (putSession sessionID sd') (
     thenA (storeProof E (mkLog sessionID ''proof-rollback'' ''unlock'' (Some fabricUnlockAssetProof))) (
     thenA (logSession E sessionID ''done-rollback'' ''unlock-asset'' sd')
       (ret fabricUnlockAssetProof)))))))"

definition fabricDeleteAsset :: "'x env \<Rightarrow> fabricConfig \<Rightarrow> string \<Rightarrow> string option \<Rightarrow> ('x, string) gact" where
  "fabricDeleteAsset E c sessionID assetId =
     bindA (getSession sessionID) (\<lambda>sd.
     let assetId' = orElse assetId (sd_sourceLedgerAssetID sd) in
     thenA (logSession E sessionID ''exec'' ''delete-asset'' sd) (
     bindA (fabricSend E c ''DeleteAsset'' [optJson assetId']) (\<lambda>fabricDeleteAssetProof.
     let sd' = sd\<lparr>sd_commitFinalClaim := Some fabricDeleteAssetProof\<rparr> in
     thenA (putSession sessionID sd') (
     thenA (storeProof E (mkLog sessionID ''proof'' ''delete'' (Some fabricDeleteAssetProof))) (
     thenA (logSession E sessionID ''done'' ''delete-asset'' sd')
       (ret fabricDeleteAssetProof))))))"

definition fabricCreateAssetToRollback :: "'x env \<Rightarrow> fabricConfig \<Rightarrow> string \<Rightarrow> string option \<Rightarrow> ('x, string) gact" where
  "fabricCreateAssetToRollback E c sessionID assetID =
     bindA (getSession sessionID) (\<lambda>sd.
     thenA (ensure (fabricChannelName c \<noteq> None \<and> fabricContractName c \<noteq> None
        \<and> fabricSigningCredential c \<noteq> None \<and> rollbackListsDefined sd) SessionError) (
     let assetID' = orElse assetID (sd_recipientLedgerAssetID sd) in
     thenA (logSession E sessionID ''exec-rollback'' ''create-asset'' sd) (
     bindA (fabricSend E c ''CreateAsset'' [optJson assetID', JStr ''19'']) (\<lambda>fabricCreateAssetProof.
     let sd' = pushRollback CREATE fabricCreateAssetProof sd in
     thenA (putSession sessionID sd') (
     thenA (storeProof E (mkLog sessionID ''proof-rollback'' ''create'' (Some fabricCreateAssetProof))) (
     thenA (logSession E sessionID ''done-rollback'' ''create-asset'' sd')
       (ret fabricCreateAssetProof)))))))"

definition fabricCreateAsset :: "string \<Rightarrow> string option \<Rightarrow> ('x, string) gact" where
  "fabricCreateAsset sessionID assetID = never"

definition fabricDeleteAssetToRollback :: "string \<Rightarrow> string option \<Rightarrow> ('x, string) gact" where
  "fabricDeleteAssetToRollback sessionID assetID = never"

definition fabricFunctionOutput :: "'x env \<Rightarrow> fabricConfig \<Rightarrow> string \<Rightarrow> string \<Rightarrow> ('x, bool) gact" where
  "fabricFunctionOutput E c methodName fabricAssetID =
     thenA (ensure (fabricContractName c \<noteq> None \<and> fabricChannelName c \<noteq> None
        \<and> fabricSigningCredential c \<noteq> None) LedgerConfigUndefined) (
     case fabricApi c of
       None \<Rightarrow> throwE AssetUndefined
     | Some path \<Rightarrow> bindA (fabricRun E c path methodName [JStr fabricAssetID]) (\<lambda>data.
         bindA (propertyA ''functionOutput'' data) (\<lambda>v. ret (v = Some (JStr ''true'')))))"

definition fabricAssetExists :: "'x env \<Rightarrow> fabricConfig \<Rightarrow> string \<Rightarrow> ('x, bool) gact" where
  "fabricAssetExists E c fabricAssetID = fabricFunctionOutput E c ''AssetExists'' fabricAssetID"

definition isFabricAssetLocked :: "'x env \<Rightarrow> fabricConfig \<Rightarrow> string \<Rightarrow> ('x, bool) gact" where
  "isFabricAssetLocked E c fabricAssetID = fabricFunctionOutput E c ''IsAssetLocked'' fabricAssetID"

definition fabricRollback :: "'x env \<Rightarrow> fabricConfig \<Rightarrow> string \<Rightarrow> ('x, unit) gact" where
  "fabricRollback E c sessionID =
     bindA (getSession sessionID) (\<lambda>sd.
     thenA (ensure (sd_step sd \<noteq> None \<and> sd_lastSequenceNumber sd \<noteq> None) SessionError) (
     thenA (putSession sessionID (sd\<lparr>sd_rollback := Some True\<rparr>)) (
     if fabricApi c = None \<or> fabricContractName c = None \<or> fabricChannelName c = None
        \<or> fabricSigningCredential c = None
        \<or> sd_sourceLedgerAssetID sd = None \<or> sd_recipientLedgerAssetID sd = None
     then ret ()
     else let source = the (sd_sourceLedgerAssetID sd); recipient = the (sd_recipientLedgerAssetID sd) in
       bindA (isClientGateway sessionID) (\<lambda>client.
       if client then
         bindA (fabricAssetExists E c source) (\<lambda>present.
         if present then
           bindA (isFabricAssetLocked E c source) (\<lambda>locked.
             if locked then thenA (fabricUnlockAsset E c sessionID (Some source)) (ret ()) else ret ())
         else thenA (fabricCreateAssetToRollback E c sessionID (Some source)) (ret ()))
       else
         bindA (fabricAssetExists E c source) (\<lambda>present.
         if present then thenA (fabricDeleteAsset E c sessionID (Some recipient)) (ret ())
         else ret ())))))"

section \<open>Dispatch on the class of the gateway\<close>

definition kindA :: "('x, ledgerGateway) gact" where
  "kindA = getsA (\<lambda>w. ledgerKind (w_self w))"

definition lockAsset :: "'x env \<Rightarrow> string \<Rightarrow> ('x, string) gact" where
  "lockAsset E sessionID = bindA kindA (\<lambda>k. case k of
     BesuSatpGateway c \<Rightarrow> besuLockAsset E c sessionID None
   | FabricSatpGateway c \<Rightarrow> fabricLockAsset E c sessionID None)"

definition createAsset :: "'x env \<Rightarrow> string \<Rightarrow> ('x, string) gact" where
  "createAsset E sessionID = bindA kindA (\<lambda>k. case k of
     BesuSatpGateway c \<Rightarrow> besuCreateAsset E c sessionID None
   | FabricSatpGateway c \<Rightarrow> fabricCreateAsset sessionID None)"

definition deleteAsset :: "'x env \<Rightarrow> string \<Rightarrow> ('x, string) gact" where
  "deleteAsset E sessionID = bindA kindA (\<lambda>k. case k of
     BesuSatpGateway c \<Rightarrow> besuDeleteAsset sessionID None
   | FabricSatpGateway c \<Rightarrow> fabricDeleteAsset E c sessionID None)"

definition rollback :: "'x env \<Rightarrow> string \<Rightarrow> ('x, unit) gact" where
  "rollback E sessionID = bindA kindA (\<lambda>k. case k of
     BesuSatpGateway c \<Rightarrow> besuRollback E c sessionID
   | FabricSatpGateway c \<Rightarrow> fabricRollback E c sessionID)"

end
