(* ===== verification/Rollback.thy ===== *)
theory Rollback
  imports Ledgers
begin

text \<open>
  Rolling a transfer back and telling the peer: \<open>rollback.ts\<close>, \<open>rollback-ack.ts\<close>, \<open>Revert\<close>
  and the request method every sender uses. A sender returns its message when it is asked not
  to send it (\<open>remote\<close> is False), and nothing otherwise.
\<close>

section \<open>The peer of a session\<close>

text \<open>\<open>isClientGateway(id) ? sessionData.recipientBasePath : sessionData.sourceBasePath\<close>\<close>

definition peerBasePath :: "string \<Rightarrow> SessionData \<Rightarrow> ('x, string) gact" where
  "peerBasePath sessionID sd = bindA (isClientGateway sessionID) (\<lambda>client.
     ret (the (if client then sd_recipientBasePath sd else sd_sourceBasePath sd)))"

text \<open>The key the peer signs with, by the session data; undefined is an error.\<close>

definition peerPubKey :: "string \<Rightarrow> ('x, string) gact" where
  "peerPubKey sessionID =
     bindA (getSession sessionID) (\<lambda>sd.
     bindA (isClientGateway sessionID) (\<lambda>client.
       case (if client then sd_recipientGatewayPubkey sd else sd_sourceGatewayPubkey sd) of
         None \<Rightarrow> throwE SessionError
       | Some pk \<Rightarrow> ret pk))"

definition timeoutsDefined :: "SessionData \<Rightarrow> bool" where
  "timeoutsDefined sd \<longleftrightarrow> sd_maxTimeout sd \<noteq> None \<and> sd_maxRetries sd \<noteq> None"

definition basePathsDefined :: "SessionData \<Rightarrow> bool" where
  "basePathsDefined sd \<longleftrightarrow> sd_sourceBasePath sd \<noteq> None \<and> sd_recipientBasePath sd \<noteq> None"

section \<open>Rollback messages\<close>

text \<open>
  \<open>sendRollbackMessage\<close>. Its request can not call \<open>Revert\<close> again, because its name contains
  \<open>Rollback\<close>; the argument given for \<open>Revert\<close> is therefore never run.
\<close>

definition sendRollbackMessage :: "'x env \<Rightarrow> string \<Rightarrow> bool \<Rightarrow> ('x, RollbackV1Message option) gact" where
  "sendRollbackMessage E sessionID remote =
     bindA (getSession sessionID) (\<lambda>sd.
     thenA (ensure (timeoutsDefined sd \<and> basePathsDefined sd \<and> rollbackListsDefined sd) SessionError) (
     let rollbackMessage = \<lparr>rbk_sessionID = sessionID, rbk_success = True,
           rbk_actionPerformed = the (sd_rollbackActionsPerformed sd),
           rbk_proofs = the (sd_rollbackProofs sd), rbk_signature = ''''\<rparr> in
     bindA (signA E (rollbackToJson rollbackMessage)) (\<lambda>signature.
     let m = rollbackMessage\<lparr>rbk_signature := signature\<rparr> in
     if \<not> remote then ret (Some m)
     else bindA (peerBasePath sessionID sd) (\<lambda>basePath.
       thenA (makeRequestWith E (\<lambda>_. never) sessionID basePath (RollbackMessage m) ''Rollback'')
         (ret None)))))"

definition checkValidRollbackMessage :: "'x env \<Rightarrow> RollbackV1Message \<Rightarrow> ('x, unit) gact" where
  "checkValidRollbackMessage E response =
     bindA (peerPubKey (rbk_sessionID response)) (\<lambda>pk.
       verifyA E (rollbackToJson (response\<lparr>rbk_signature := ''''\<rparr>)) (rbk_signature response) pk SignatureFailed)"

section \<open>Revert and requests\<close>

definition Revert :: "'x env \<Rightarrow> string \<Rightarrow> ('x, unit) gact" where
  "Revert E sessionID =
     thenA (rollback E sessionID) (thenA (sendRollbackMessage E sessionID True) (ret ()))"

definition makeRequest :: "'x env \<Rightarrow> string \<Rightarrow> string \<Rightarrow> satp_call \<Rightarrow> string \<Rightarrow> ('x, unit) gact" where
  "makeRequest E = makeRequestWith E (Revert E)"

definition sendRollbackAckMessage :: "'x env \<Rightarrow> string \<Rightarrow> bool \<Rightarrow> ('x, RollbackAckV1Message option) gact" where
  "sendRollbackAckMessage E sessionID remote =
     bindA (getSession sessionID) (\<lambda>sd.
     thenA (ensure (timeoutsDefined sd \<and> basePathsDefined sd \<and> rollbackListsDefined sd) SessionError) (
     let rollbackAckMessage = \<lparr>rba_sessionID = sessionID, rba_success = True, rba_signature = ''''\<rparr> in
     bindA (signA E (rollbackAckToJson rollbackAckMessage)) (\<lambda>signature.
     let m = rollbackAckMessage\<lparr>rba_signature := signature\<rparr> in
     if \<not> remote then ret (Some m)
     else bindA (peerBasePath sessionID sd) (\<lambda>basePath.
       thenA (makeRequest E sessionID basePath (RollbackAckMessage m) ''RollbackAck'')
         (ret None)))))"

definition checkValidRollbackAckMessage :: "'x env \<Rightarrow> RollbackAckV1Message \<Rightarrow> ('x, unit) gact" where
  "checkValidRollbackAckMessage E response =
     bindA (peerPubKey (rba_sessionID response)) (\<lambda>pk.
       verifyA E (rollbackAckToJson (response\<lparr>rba_signature := ''''\<rparr>)) (rba_signature response) pk SignatureFailed)"

section \<open>Shared by the senders and the checks\<close>

text \<open>The end of every sender: return the message, or send it and return nothing.\<close>

definition deliver :: "'x env \<Rightarrow> string \<Rightarrow> bool \<Rightarrow> string \<Rightarrow> satp_call \<Rightarrow> string \<Rightarrow> 'm \<Rightarrow> ('x, 'm option) gact" where
  "deliver E sessionID remote basePath call name m =
     (if \<not> remote then ret (Some m)
      else thenA (makeRequest E sessionID basePath call name) (ret None))"

text \<open>\<open>++sessionData.lastSequenceNumber\<close>\<close>

definition bumpSequence :: "SessionData \<Rightarrow> SessionData" where
  "bumpSequence sd = sd\<lparr>sd_lastSequenceNumber := map_option (\<lambda>n. n + 1) (sd_lastSequenceNumber sd)\<rparr>"

text \<open>
  The claim in a message is compared with the signed hash the peer logged remotely, and that
  log must verify under the peer's key.
\<close>

definition checkClaim :: "'x env \<Rightarrow> string \<Rightarrow> string \<Rightarrow> string \<Rightarrow> string \<Rightarrow> ('x, unit) gact" where
  "checkClaim E sessionID operation claim pk =
     bindA (getLogFromRemote E (getSatpLogKey sessionID ''proof'' operation)) (\<lambda>retrievedClaim.
     thenA (ensure (sha256 (e_crypto E) claim = rl_hash retrievedClaim) WrongClaimHash)
       (verifyA E (blankedRemote retrievedClaim) (rl_signature retrievedClaim) pk ClaimSignatureFailed))"

text \<open>A request named after a rollback never reverts.\<close>

lemma retryLoop_rollback:
  "matches ''Rollback'' message \<Longrightarrow>
     retryLoop rv sessionID result message maxRetries n = retryLoop rv' sessionID result message maxRetries n"
proof (induction rv sessionID result message maxRetries n rule: retryLoop.induct)
  case (1 rv sessionID result message maxRetries n)
  then show ?case by (subst (1 2) retryLoop.simps) (simp split: http_result.split)
qed

lemma makeRequestWith_rollback:
  assumes "matches ''Rollback'' message"
  shows "makeRequestWith E rv sessionID basePath call message = makeRequestWith E rv' sessionID basePath call message"
  unfolding makeRequestWith_def retryLoop_rollback [OF assms, of rv _ _ _ _ rv'] using assms
  by (simp cong: option.case_cong if_cong)

end
