(* ===== verification/Client_Helper.thy ===== *)
theory Client_Helper
  imports Rollback
begin

text \<open>
  \<open>ClientGatewayHelper\<close>: the client gateway's six requests and its checks of the five
  responses. The object literal of each request is a definition of its own, so that what is
  signed, hashed and sent is the same term.
\<close>

section \<open>Transfer initialization\<close>

definition initializationRequestMessage :: "gateway \<Rightarrow> SessionData \<Rightarrow> TransferInitializationV1Request" where
  "initializationRequestMessage g sd = \<lparr>
     tiq_messageType = satpMessageType InitializationRequest,
     tiq_sessionID = the (sd_id sd),
     tiq_version = sd_version sd,
     tiq_payloadProfile = the (sd_payloadProfile sd),
     tiq_applicationProfile = the (sd_applicationProfile sd),
     tiq_loggingProfile = the (sd_loggingProfile sd),
     tiq_accessControlProfile = the (sd_accessControlProfile sd),
     tiq_signature = '''',
     tiq_sourceGatewayPubkey = pubKey g,
     tiq_sourceGatewayDltSystem = the (sd_sourceGatewayDltSystem sd),
     tiq_recipientGatewayPubkey = the (sd_recipientGatewayPubkey sd),
     tiq_recipientGatewayDltSystem = the (sd_recipientGatewayDltSystem sd),
     tiq_sequenceNumber = the (sd_lastSequenceNumber sd),
     tiq_sourceBasePath = the (sd_sourceBasePath sd),
     tiq_recipientBasePath = the (sd_recipientBasePath sd),
     tiq_maxRetries = the (sd_maxRetries sd),
     tiq_maxTimeout = the (sd_maxTimeout sd),
     tiq_backupGatewaysAllowed = the (sd_allowedSourceBackupGateways sd),
     tiq_recipientLedgerAssetID = the (sd_recipientLedgerAssetID sd),
     tiq_sourceLedgerAssetID = the (sd_sourceLedgerAssetID sd)\<rparr>"

definition sendTransferInitializationRequest ::
  "'x env \<Rightarrow> string \<Rightarrow> bool \<Rightarrow> ('x, TransferInitializationV1Request option) gact" where
  "sendTransferInitializationRequest E sessionID remote =
     bindA (getSession sessionID) (\<lambda>sd.
     thenA (ensure (sd_id sd \<noteq> None \<and> sd_step sd \<noteq> None \<and> sd_version sd \<noteq> None
        \<and> timeoutsDefined sd \<and> sd_payloadProfile sd \<noteq> None \<and> sd_loggingProfile sd \<noteq> None
        \<and> basePathsDefined sd \<and> sd_accessControlProfile sd \<noteq> None \<and> sd_applicationProfile sd \<noteq> None
        \<and> sd_lastSequenceNumber sd \<noteq> None \<and> sd_sourceLedgerAssetID sd \<noteq> None
        \<and> sd_sourceGatewayDltSystem sd \<noteq> None \<and> sd_recipientGatewayPubkey sd \<noteq> None
        \<and> sd_recipientLedgerAssetID sd \<noteq> None \<and> sd_recipientGatewayDltSystem sd \<noteq> None
        \<and> sd_allowedSourceBackupGateways sd \<noteq> None) SessionError) (
     bindA (getsA w_self) (\<lambda>g.
     thenA (ensure (the (sd_recipientGatewayDltSystem sd) \<in> set (supportedDltIDs g)) DltNotSupported) (
     let m0 = initializationRequestMessage g sd in
     bindA (signA E (transferInitializationRequestToJson m0)) (\<lambda>messageSignature.
     let m = m0\<lparr>tiq_signature := messageSignature\<rparr>;
         sd' = sd\<lparr>sd_initializationRequestMessageHash := Some (hashJson E (transferInitializationRequestToJson m)),
                  sd_clientSignatureInitializationRequestMessage := Some messageSignature\<rparr> in
     thenA (putSession sessionID sd') (
     thenA (logSession E sessionID ''init'' ''validate'' sd')
       (deliver E sessionID remote (the (sd_recipientBasePath sd))
          (Phase1TransferInitiationRequest m) ''TransferInitializationRequest'' m)))))))"

definition checkValidInitializationResponse :: "'x env \<Rightarrow> TransferInitializationV1Response \<Rightarrow> ('x, unit) gact" where
  "checkValidInitializationResponse E response =
     bindA (getSession (tir_sessionID response)) (\<lambda>sd.
     thenA (ensure (tir_messageType response = satpMessageType InitializationResponse) WrongMessageType) (
     thenA (ensure (sd_lastSequenceNumber sd = Some (tir_sequenceNumber response)) WrongSequenceNumber) (
     thenA (ensure (sd_initializationRequestMessageHash sd = Some (tir_initialRequestMessageHash response)) WrongPreviousHash) (
     thenA (ensure (sd_recipientGatewayPubkey sd = Some (tir_serverIdentityPubkey response)) WrongServerIdentity) (
     thenA (verifyA E (transferInitializationResponseToJson (response\<lparr>tir_signature := ''''\<rparr>)) (tir_signature response)
        (the (sd_recipientGatewayPubkey sd)) SignatureFailed)
     (putSession (tir_sessionID response) (sd\<lparr>
        sd_id := Some (tir_sessionID response),
        sd_recipientGatewayPubkey := Some (tir_serverIdentityPubkey response),
        sd_initializationResponseMessageHash := Some (hashJson E (transferInitializationResponseToJson response)),
        sd_serverSignatureInitializationResponseMessage := Some (tir_signature response),
        sd_allowedRecipientBackupGateways := Some (tir_backupGatewaysAllowed response),
        sd_step := Some 3\<rparr>)))))))"

section \<open>Transfer commence\<close>

definition transferCommenceRequestMessage :: "'x env \<Rightarrow> string \<Rightarrow> SessionData \<Rightarrow> TransferCommenceV1Request" where
  "transferCommenceRequestMessage E sessionID sd = \<lparr>
     tcq_messageType = satpMessageType TransferCommenceRequest,
     tcq_originatorPubkey = ''sessionData.originatorPubkey'',
     tcq_beneficiaryPubkey = ''sessionData.beneficiaryPubkey'',
     tcq_senderDltSystem = the (sd_sourceGatewayDltSystem sd),
     tcq_recipientDltSystem = the (sd_recipientGatewayDltSystem sd),
     tcq_sessionID = sessionID,
     tcq_clientIdentityPubkey = the (sd_sourceGatewayPubkey sd),
     tcq_serverIdentityPubkey = the (sd_recipientGatewayPubkey sd),
     tcq_hashAssetProfile = hashJson E (assetProfileToJson (the (sd_assetProfile sd))),
     tcq_hashPrevMessage = the (sd_initializationResponseMessageHash sd),
     tcq_signature = '''',
     tcq_sequenceNumber = the (sd_lastSequenceNumber sd)\<rparr>"

definition sendTransferCommenceRequest ::
  "'x env \<Rightarrow> string \<Rightarrow> bool \<Rightarrow> ('x, TransferCommenceV1Request option) gact" where
  "sendTransferCommenceRequest E sessionID remote =
     bindA (getSession sessionID) (\<lambda>sd.
     thenA (ensure (sd_step sd \<noteq> None \<and> timeoutsDefined sd \<and> sd_assetProfile sd \<noteq> None
        \<and> sd_recipientBasePath sd \<noteq> None \<and> sd_lastSequenceNumber sd \<noteq> None
        \<and> sd_sourceGatewayPubkey sd \<noteq> None \<and> sd_recipientGatewayPubkey sd \<noteq> None
        \<and> sd_sourceGatewayDltSystem sd \<noteq> None \<and> sd_recipientGatewayDltSystem sd \<noteq> None
        \<and> sd_initializationResponseMessageHash sd \<noteq> None) SessionError) (
     let sd1 = bumpSequence sd; m0 = transferCommenceRequestMessage E sessionID sd1 in
     thenA (putSession sessionID sd1) (
     bindA (signA E (transferCommenceRequestToJson m0)) (\<lambda>messageSignature.
     let m = m0\<lparr>tcq_signature := messageSignature\<rparr>;
         sd' = sd1\<lparr>sd_transferCommenceMessageRequestHash := Some (hashJson E (transferCommenceRequestToJson m)),
                   sd_clientSignatureTransferCommenceRequestMessage := Some messageSignature\<rparr> in
     thenA (putSession sessionID sd') (
     thenA (logSession E sessionID ''init'' ''commence'' sd')
       (deliver E sessionID remote (the (sd_recipientBasePath sd))
          (Phase2TransferCommenceRequest m) ''TransferCommenceRequest'' m))))))"

definition checkValidTransferCommenceResponse :: "'x env \<Rightarrow> TransferCommenceV1Response \<Rightarrow> ('x, unit) gact" where
  "checkValidTransferCommenceResponse E response =
     bindA (getSession (tcr_sessionID response)) (\<lambda>sd.
     thenA (ensure (tcr_messageType response = satpMessageType TransferCommenceResponse) WrongMessageType) (
     thenA (ensure (sd_lastSequenceNumber sd = Some (tcr_sequenceNumber response)) WrongSequenceNumber) (
     thenA (ensure (sd_transferCommenceMessageRequestHash sd = Some (tcr_hashCommenceRequest response)) WrongPreviousHash) (
     thenA (ensure (sd_recipientGatewayPubkey sd = Some (tcr_serverIdentityPubkey response)) WrongServerIdentity) (
     thenA (ensure (sd_sourceGatewayPubkey sd = Some (tcr_clientIdentityPubkey response)) WrongClientIdentity) (
     thenA (verifyA E (transferCommenceResponseToJson (response\<lparr>tcr_signature := ''''\<rparr>)) (tcr_signature response)
        (the (sd_recipientGatewayPubkey sd)) SignatureFailed)
     (putSession (tcr_sessionID response) (sd\<lparr>
        sd_transferCommenceMessageResponseHash := Some (hashJson E (transferCommenceResponseToJson response)),
        sd_serverSignatureTransferCommenceResponseMessage := Some (tcr_signature response),
        sd_step := Some 5\<rparr>))))))))"

section \<open>Lock evidence\<close>

definition lockEvidenceRequestMessage :: "string \<Rightarrow> string \<Rightarrow> SessionData \<Rightarrow> LockEvidenceV1Request" where
  "lockEvidenceRequestMessage expiration sessionID sd = \<lparr>
     leq_sessionID = sessionID,
     leq_messageType = satpMessageType LockEvidenceRequest,
     leq_clientIdentityPubkey = the (sd_sourceGatewayPubkey sd),
     leq_serverIdentityPubkey = the (sd_recipientGatewayPubkey sd),
     leq_lockEvidenceClaim = sd_lockEvidenceClaim sd,
     leq_lockEvidenceExpiration = expiration,
     leq_hashCommenceAckRequest = the (sd_transferCommenceMessageResponseHash sd),
     leq_signature = '''',
     leq_sequenceNumber = the (sd_lastSequenceNumber sd)\<rparr>"

text \<open>\<open>new Date().setDate(new Date().getDate() + 1).toString()\<close>: the milliseconds, as digits.\<close>

definition dayFromNow :: "'x env \<Rightarrow> ('x, string) gact" where
  "dayFromNow E =
     bindA (dateNow E) (\<lambda>t0. bindA (dateNow E) (\<lambda>t1.
       ret (intToString (setDate (e_timezone E) t0 (getDate (e_timezone E) t1 + 1)))))"

definition sendLockEvidenceRequest ::
  "'x env \<Rightarrow> string \<Rightarrow> bool \<Rightarrow> ('x, LockEvidenceV1Request option) gact" where
  "sendLockEvidenceRequest E sessionID remote =
     bindA (getSession sessionID) (\<lambda>sd.
     thenA (ensure (sd_step sd \<noteq> None \<and> timeoutsDefined sd \<and> sd_lockEvidenceClaim sd \<noteq> None
        \<and> sd_recipientBasePath sd \<noteq> None \<and> sd_lastSequenceNumber sd \<noteq> None
        \<and> sd_sourceGatewayPubkey sd \<noteq> None \<and> sd_recipientGatewayPubkey sd \<noteq> None
        \<and> sd_transferCommenceMessageResponseHash sd \<noteq> None) SessionError) (
     bindA (dayFromNow E) (\<lambda>expiration.
     let sd1 = bumpSequence sd; m0 = lockEvidenceRequestMessage expiration sessionID sd1 in
     thenA (putSession sessionID sd1) (
     bindA (signA E (lockEvidenceRequestToJson m0)) (\<lambda>messageSignature.
     let m = m0\<lparr>leq_signature := messageSignature\<rparr>;
         sd' = sd1\<lparr>sd_lockEvidenceRequestMessageHash := Some (hashJson E (lockEvidenceRequestToJson m)),
                   sd_clientSignatureLockEvidenceRequestMessage := Some messageSignature\<rparr> in
     thenA (putSession sessionID sd') (
     thenA (logSession E sessionID ''init'' ''lock'' sd')
       (deliver E sessionID remote (the (sd_recipientBasePath sd))
          (Phase2LockEvidenceRequest m) ''LockEvidenceRequest'' m)))))))"

definition checkValidLockEvidenceResponse :: "'x env \<Rightarrow> LockEvidenceV1Response \<Rightarrow> ('x, unit) gact" where
  "checkValidLockEvidenceResponse E response =
     bindA (getSession (ler_sessionID response)) (\<lambda>sd.
     thenA (ensure (ler_messageType response = satpMessageType LockEvidenceResponse) WrongMessageType) (
     thenA (ensure (sd_lastSequenceNumber sd = Some (ler_sequenceNumber response)) WrongSequenceNumber) (
     thenA (ensure (sd_lockEvidenceRequestMessageHash sd = Some (ler_hashLockEvidenceRequest response)) WrongPreviousHash) (
     thenA (ensure (sd_recipientGatewayPubkey sd = Some (ler_serverIdentityPubkey response)) WrongServerIdentity) (
     thenA (ensure (sd_sourceGatewayPubkey sd = Some (ler_clientIdentityPubkey response)) WrongClientIdentity) (
     thenA (verifyA E (lockEvidenceResponseToJson (response\<lparr>ler_signature := ''''\<rparr>)) (ler_signature response)
        (the (sd_recipientGatewayPubkey sd)) SignatureFailed)
     (putSession (ler_sessionID response) (sd\<lparr>
        sd_lockEvidenceResponseMessageHash := Some (hashJson E (lockEvidenceResponseToJson response)),
        sd_serverSignatureLockEvidenceResponseMessage := Some (ler_signature response),
        sd_step := Some 7\<rparr>))))))))"

section \<open>Commit preparation\<close>

definition commitPrepareRequestMessage :: "string \<Rightarrow> SessionData \<Rightarrow> CommitPreparationV1Request" where
  "commitPrepareRequestMessage sessionID sd = \<lparr>
     cpq_sessionID = sessionID,
     cpq_messageType = satpMessageType CommitPreparationRequest,
     cpq_clientIdentityPubkey = the (sd_sourceGatewayPubkey sd),
     cpq_serverIdentityPubkey = the (sd_recipientGatewayPubkey sd),
     cpq_hashLockEvidenceAck = the (sd_lockEvidenceResponseMessageHash sd),
     cpq_signature = '''',
     cpq_sequenceNumber = the (sd_lastSequenceNumber sd)\<rparr>"

definition sendCommitPreparationRequest ::
  "'x env \<Rightarrow> string \<Rightarrow> bool \<Rightarrow> ('x, CommitPreparationV1Request option) gact" where
  "sendCommitPreparationRequest E sessionID remote =
     bindA (getSession sessionID) (\<lambda>sd.
     thenA (ensure (sd_step sd \<noteq> None \<and> timeoutsDefined sd \<and> sd_recipientBasePath sd \<noteq> None
        \<and> sd_lastSequenceNumber sd \<noteq> None \<and> sd_sourceGatewayPubkey sd \<noteq> None
        \<and> sd_recipientGatewayPubkey sd \<noteq> None \<and> sd_lockEvidenceResponseMessageHash sd \<noteq> None) SessionError) (
     let sd1 = bumpSequence sd; m0 = commitPrepareRequestMessage sessionID sd1 in
     thenA (putSession sessionID sd1) (
     bindA (signA E (commitPreparationRequestToJson m0)) (\<lambda>messageSignature.
     let m = m0\<lparr>cpq_signature := messageSignature\<rparr>;
         sd' = sd1\<lparr>sd_commitPrepareRequestMessageHash := Some (hashJson E (commitPreparationRequestToJson m)),
                   sd_clientSignatureCommitPreparationRequestMessage := Some messageSignature\<rparr> in
     thenA (putSession sessionID sd') (
     thenA (logSession E sessionID ''init'' ''prepare'' sd')
       (deliver E sessionID remote (the (sd_recipientBasePath sd))
          (Phase3CommitPreparationRequest m) ''CommitPreparationRequest'' m))))))"

definition checkValidCommitPreparationResponse :: "'x env \<Rightarrow> CommitPreparationV1Response \<Rightarrow> ('x, unit) gact" where
  "checkValidCommitPreparationResponse E response =
     bindA (getSession (cpr_sessionID response)) (\<lambda>sd.
     thenA (ensure (cpr_messageType response = satpMessageType CommitPreparationResponse) WrongMessageType) (
     thenA (ensure (sd_lastSequenceNumber sd = Some (cpr_sequenceNumber response)) WrongSequenceNumber) (
     thenA (ensure (sd_commitPrepareRequestMessageHash sd = Some (cpr_hashCommitPrep response)) WrongPreviousHash) (
     thenA (ensure (sd_recipientGatewayPubkey sd = Some (cpr_serverIdentityPubkey response)) WrongServerIdentity) (
     thenA (ensure (sd_sourceGatewayPubkey sd = Some (cpr_clientIdentityPubkey response)) WrongClientIdentity) (
     thenA (verifyA E (commitPreparationResponseToJson (response\<lparr>cpr_signature := ''''\<rparr>)) (cpr_signature response)
        (the (sd_recipientGatewayPubkey sd)) SignatureFailed)
     (putSession (cpr_sessionID response) (sd\<lparr>
        sd_commitPrepareResponseMessageHash := Some (hashJson E (commitPreparationResponseToJson response)),
        sd_serverSignatureCommitPreparationResponseMessage := Some (cpr_signature response),
        sd_step := Some 9\<rparr>))))))))"

section \<open>Commit final\<close>

definition commitFinalRequestMessage :: "string \<Rightarrow> SessionData \<Rightarrow> CommitFinalV1Request" where
  "commitFinalRequestMessage sessionID sd = \<lparr>
     cfq_sessionID = sessionID,
     cfq_messageType = satpMessageType CommitFinalRequest,
     cfq_clientIdentityPubkey = the (sd_sourceGatewayPubkey sd),
     cfq_serverIdentityPubkey = the (sd_recipientGatewayPubkey sd),
     cfq_commitFinalClaim = sd_commitFinalClaim sd,
     cfq_hashCommitPrepareAck = the (sd_commitPrepareResponseMessageHash sd),
     cfq_signature = '''',
     cfq_sequenceNumber = the (sd_lastSequenceNumber sd)\<rparr>"

definition sendCommitFinalRequest ::
  "'x env \<Rightarrow> string \<Rightarrow> bool \<Rightarrow> ('x, CommitFinalV1Request option) gact" where
  "sendCommitFinalRequest E sessionID remote =
     bindA (getSession sessionID) (\<lambda>sd.
     thenA (ensure (sd_step sd \<noteq> None \<and> timeoutsDefined sd \<and> sd_commitFinalClaim sd \<noteq> None
        \<and> sd_recipientBasePath sd \<noteq> None \<and> sd_lastSequenceNumber sd \<noteq> None
        \<and> sd_sourceGatewayPubkey sd \<noteq> None \<and> sd_recipientGatewayPubkey sd \<noteq> None
        \<and> sd_commitPrepareResponseMessageHash sd \<noteq> None) SessionError) (
     let sd1 = bumpSequence sd; m0 = commitFinalRequestMessage sessionID sd1 in
     thenA (putSession sessionID sd1) (
     bindA (signA E (commitFinalRequestToJson m0)) (\<lambda>messageSignature.
     let m = m0\<lparr>cfq_signature := messageSignature\<rparr>;
         sd' = sd1\<lparr>sd_commitFinalRequestMessageHash := Some (hashJson E (commitFinalRequestToJson m)),
                   sd_clientSignatureCommitFinalRequestMessage := Some messageSignature\<rparr> in
     thenA (putSession sessionID sd') (
     thenA (logSession E sessionID ''init'' ''final'' sd')
       (deliver E sessionID remote (the (sd_recipientBasePath sd))
          (Phase3CommitFinalRequest m) ''CommitFinalRequest'' m))))))"

definition checkValidCommitFinalResponse :: "'x env \<Rightarrow> CommitFinalV1Response \<Rightarrow> ('x, unit) gact" where
  "checkValidCommitFinalResponse E response =
     bindA (getSession (cfr_sessionID response)) (\<lambda>sd.
     thenA (ensure (cfr_messageType response = satpMessageType CommitFinalResponse) WrongMessageType) (
     thenA (ensure (sd_lastSequenceNumber sd = Some (cfr_sequenceNumber response)) WrongSequenceNumber) (
     thenA (ensure (cfr_commitAcknowledgementClaim response \<noteq> None) InvalidClaim) (
     thenA (ensure (sd_commitFinalRequestMessageHash sd = Some (cfr_hashCommitFinal response)) WrongPreviousHash) (
     thenA (ensure (sd_recipientGatewayPubkey sd = Some (cfr_serverIdentityPubkey response)) WrongServerIdentity) (
     thenA (ensure (sd_sourceGatewayPubkey sd = Some (cfr_clientIdentityPubkey response)) WrongClientIdentity) (
     thenA (verifyA E (commitFinalResponseToJson (response\<lparr>cfr_signature := ''''\<rparr>)) (cfr_signature response)
        (the (sd_recipientGatewayPubkey sd)) SignatureFailed) (
     thenA (checkClaim E (cfr_sessionID response) ''create'' (the (cfr_commitAcknowledgementClaim response))
        (cfr_serverIdentityPubkey response))
     (putSession (cfr_sessionID response) (sd\<lparr>
        sd_commitAcknowledgementClaim := cfr_commitAcknowledgementClaim response,
        sd_commitFinalResponseMessageHash := Some (hashJson E (commitFinalResponseToJson response)),
        sd_serverSignatureCommitFinalResponseMessage := Some (cfr_signature response),
        sd_step := Some 11\<rparr>))))))))))"

section \<open>Transfer complete\<close>

definition transferCompleteRequestMessage :: "string \<Rightarrow> SessionData \<Rightarrow> TransferCompleteV1Request" where
  "transferCompleteRequestMessage sessionID sd = \<lparr>
     tpq_sessionID = sessionID,
     tpq_messageType = satpMessageType TransferCompleteRequest,
     tpq_clientIdentityPubkey = the (sd_sourceGatewayPubkey sd),
     tpq_serverIdentityPubkey = the (sd_recipientGatewayPubkey sd),
     tpq_hashCommitFinalAck = the (sd_commitFinalResponseMessageHash sd),
     tpq_hashTransferCommence = the (sd_transferCommenceMessageRequestHash sd),
     tpq_signature = '''',
     tpq_sequenceNumber = the (sd_lastSequenceNumber sd)\<rparr>"

definition sendTransferCompleteRequest ::
  "'x env \<Rightarrow> string \<Rightarrow> bool \<Rightarrow> ('x, TransferCompleteV1Request option) gact" where
  "sendTransferCompleteRequest E sessionID remote =
     bindA (getSession sessionID) (\<lambda>sd.
     thenA (ensure (sd_step sd \<noteq> None \<and> timeoutsDefined sd \<and> sd_recipientBasePath sd \<noteq> None
        \<and> sd_lastSequenceNumber sd \<noteq> None \<and> sd_sourceGatewayPubkey sd \<noteq> None
        \<and> sd_recipientGatewayPubkey sd \<noteq> None \<and> sd_commitFinalResponseMessageHash sd \<noteq> None
        \<and> sd_transferCommenceMessageRequestHash sd \<noteq> None) SessionError) (
     let sd1 = bumpSequence sd; m0 = transferCompleteRequestMessage sessionID sd1 in
     thenA (putSession sessionID sd1) (
     bindA (signA E (transferCompleteRequestToJson m0)) (\<lambda>messageSignature.
     let m = m0\<lparr>tpq_signature := messageSignature\<rparr>;
         sd' = sd1\<lparr>sd_transferCompleteMessageHash := Some (hashJson E (transferCompleteRequestToJson m)),
                   sd_clientSignatureTransferCompleteMessage := Some messageSignature\<rparr> in
     thenA (putSession sessionID sd') (
     thenA (logSession E sessionID ''init'' ''complete'' sd')
       (deliver E sessionID remote (the (sd_recipientBasePath sd))
          (Phase3TransferCompleteRequest m) ''TransferCompleteRequest'' m))))))"

end
