(* ===== verification/Server_Helper.thy ===== *)
theory Server_Helper
  imports Client_Helper
begin

text \<open>
  \<open>ServerGatewayHelper\<close>: the server gateway's checks of the six requests and its five
  responses. The checks log before and after they run, so that a rejected request leaves an
  \<open>exec\<close> entry behind.
\<close>

section \<open>Transfer initialization\<close>

definition transferInitializationResponse :: "gateway \<Rightarrow> string \<Rightarrow> SessionData \<Rightarrow> TransferInitializationV1Response" where
  "transferInitializationResponse g sessionID sd = \<lparr>
     tir_messageType = satpMessageType InitializationResponse,
     tir_sessionID = sessionID,
     tir_initialRequestMessageHash = the (sd_initializationRequestMessageHash sd),
     tir_timeStamp = the (sd_initializationRequestMessageRcvTimeStamp sd),
     tir_processedTimeStamp = the (sd_initializationRequestMessageProcessedTimeStamp sd),
     tir_serverIdentityPubkey = pubKey g,
     tir_sequenceNumber = the (sd_lastSequenceNumber sd),
     tir_signature = '''',
     tir_backupGatewaysAllowed = backupGatewaysAllowed g\<rparr>"

definition sendTransferInitializationResponse ::
  "'x env \<Rightarrow> string \<Rightarrow> bool \<Rightarrow> ('x, TransferInitializationV1Response option) gact" where
  "sendTransferInitializationResponse E sessionID remote =
     bindA (getSession sessionID) (\<lambda>sd.
     thenA (ensure (sd_step sd \<noteq> None \<and> timeoutsDefined sd \<and> sd_sourceBasePath sd \<noteq> None
        \<and> sd_lastSequenceNumber sd \<noteq> None \<and> sd_initializationRequestMessageHash sd \<noteq> None
        \<and> sd_initializationRequestMessageRcvTimeStamp sd \<noteq> None
        \<and> sd_initializationRequestMessageProcessedTimeStamp sd \<noteq> None) SessionError) (
     bindA (getsA w_self) (\<lambda>g.
     let m0 = transferInitializationResponse g sessionID sd in
     bindA (signA E (transferInitializationResponseToJson m0)) (\<lambda>signature.
     let m = m0\<lparr>tir_signature := signature\<rparr>;
         sd' = sd\<lparr>sd_initializationResponseMessageHash := Some (hashJson E (transferInitializationResponseToJson m)),
                  sd_serverSignatureInitializationResponseMessage := Some signature\<rparr> in
     thenA (putSession sessionID sd') (
     thenA (logSession E sessionID ''ack'' ''validate'' sd')
       (deliver E sessionID remote (the (sd_sourceBasePath sd))
          (Phase1TransferInitiationResponse m) ''TransferInitializationResponse'' m))))))"

text \<open>
  The session is replaced by a new one and logged before anything of the request is checked.
  \<open>new Date() >= new Date(expiryDate)\<close> is false for a date that does not parse.
\<close>

definition acceptedSession ::
  "'x env \<Rightarrow> gateway \<Rightarrow> TransferInitializationV1Request \<Rightarrow> string \<Rightarrow> string \<Rightarrow> SessionData \<Rightarrow> SessionData" where
  "acceptedSession E g request received processed sd = sd\<lparr>
     sd_version := tiq_version request,
     sd_maxRetries := Some (tiq_maxRetries request),
     sd_maxTimeout := Some (tiq_maxTimeout request),
     sd_allowedSourceBackupGateways := Some (tiq_backupGatewaysAllowed request),
     sd_allowedRecipientBackupGateways := Some (backupGatewaysAllowed g),
     sd_sourceBasePath := Some (tiq_sourceBasePath request),
     sd_recipientBasePath := Some (tiq_recipientBasePath request),
     sd_lastSequenceNumber := Some (tiq_sequenceNumber request),
     sd_loggingProfile := Some (tiq_loggingProfile request),
     sd_accessControlProfile := Some (tiq_accessControlProfile request),
     sd_payloadProfile := Some (tiq_payloadProfile request),
     sd_applicationProfile := Some (tiq_applicationProfile request),
     sd_assetProfile := Some (pp_assetProfile (tiq_payloadProfile request)),
     sd_sourceGatewayPubkey := Some (tiq_sourceGatewayPubkey request),
     sd_sourceGatewayDltSystem := Some (tiq_sourceGatewayDltSystem request),
     sd_recipientGatewayPubkey := Some (tiq_recipientGatewayPubkey request),
     sd_recipientGatewayDltSystem := Some (tiq_recipientGatewayDltSystem request),
     sd_rollbackActionsPerformed := Some [],
     sd_rollbackProofs := Some [],
     sd_lastMessageReceivedTimestamp := Some received,
     sd_recipientLedgerAssetID := Some (tiq_recipientLedgerAssetID request),
     sd_sourceLedgerAssetID := Some (tiq_sourceLedgerAssetID request),
     sd_initializationRequestMessageHash := Some (hashJson E (transferInitializationRequestToJson request)),
     sd_clientSignatureInitializationRequestMessage := Some (tiq_signature request),
     sd_initializationRequestMessageProcessedTimeStamp := Some processed\<rparr>"

definition openedSession :: "string \<Rightarrow> string \<Rightarrow> SessionData" where
  "openedSession sessionID recvTimestamp = emptySession\<lparr>sd_id := Some sessionID, sd_step := Some 2,
     sd_initializationRequestMessageRcvTimeStamp := Some recvTimestamp\<rparr>"

definition checkValidInitializationRequest :: "'x env \<Rightarrow> TransferInitializationV1Request \<Rightarrow> ('x, unit) gact" where
  "checkValidInitializationRequest E request =
     bindA (dateNow E) (\<lambda>recv.
     let sessionID = tiq_sessionID request; sd = openedSession sessionID (intToString recv) in
     thenA (putSession sessionID sd) (
     thenA (logSession E sessionID ''exec'' ''validate'' sd) (
     thenA (ensure (tiq_messageType request = satpMessageType InitializationRequest) WrongMessageType) (
     thenA (verifyA E (transferInitializationRequestToJson (request\<lparr>tiq_signature := ''''\<rparr>)) (tiq_signature request)
        (tiq_sourceGatewayPubkey request) SignatureFailed) (
     bindA (getsA w_self) (\<lambda>g.
     thenA (ensure (tiq_sourceGatewayDltSystem request \<in> set (supportedDltIDs g)) DltNotSupported) (
     bindA (dateNow E) (\<lambda>now.
     thenA (ensure (case e_parseDate E (ap_expirationDate (pp_assetProfile (tiq_payloadProfile request))) of
                      None \<Rightarrow> True | Some expiry \<Rightarrow> now < expiry) AssetExpired) (
     bindA (dateNow E) (\<lambda>received.
     bindA (dateNow E) (\<lambda>processed.
     let sd' = acceptedSession E g request (dateToString (e_timezone E) received) (intToString processed) sd in
     thenA (putSession sessionID sd')
       (logSession E sessionID ''done'' ''validate'' sd'))))))))))))"

section \<open>Transfer commence\<close>

definition transferCommenceResponse :: "string \<Rightarrow> SessionData \<Rightarrow> TransferCommenceV1Response" where
  "transferCommenceResponse sessionID sd = \<lparr>
     tcr_sessionID = sessionID,
     tcr_messageType = satpMessageType TransferCommenceResponse,
     tcr_clientIdentityPubkey = the (sd_sourceGatewayPubkey sd),
     tcr_serverIdentityPubkey = the (sd_recipientGatewayPubkey sd),
     tcr_hashCommenceRequest = the (sd_transferCommenceMessageRequestHash sd),
     tcr_signature = '''',
     tcr_sequenceNumber = the (sd_lastSequenceNumber sd)\<rparr>"

definition sendTransferCommenceResponse ::
  "'x env \<Rightarrow> string \<Rightarrow> bool \<Rightarrow> ('x, TransferCommenceV1Response option) gact" where
  "sendTransferCommenceResponse E sessionID remote =
     bindA (getSession sessionID) (\<lambda>sd.
     thenA (ensure (sd_step sd \<noteq> None \<and> timeoutsDefined sd \<and> sd_sourceBasePath sd \<noteq> None
        \<and> sd_lastSequenceNumber sd \<noteq> None \<and> sd_sourceGatewayPubkey sd \<noteq> None
        \<and> sd_recipientGatewayPubkey sd \<noteq> None \<and> sd_transferCommenceMessageRequestHash sd \<noteq> None) SessionError) (
     let sd1 = bumpSequence sd; m0 = transferCommenceResponse sessionID sd1 in
     thenA (putSession sessionID sd1) (
     bindA (signA E (transferCommenceResponseToJson m0)) (\<lambda>signature.
     let m = m0\<lparr>tcr_signature := signature\<rparr>;
         sd' = sd1\<lparr>sd_transferCommenceMessageResponseHash := Some (hashJson E (transferCommenceResponseToJson m)),
                   sd_serverSignatureTransferCommenceResponseMessage := Some signature\<rparr> in
     thenA (putSession sessionID sd') (
     thenA (logSession E sessionID ''ack'' ''commence'' sd')
       (deliver E sessionID remote (the (sd_sourceBasePath sd))
          (Phase2TransferCommenceResponse m) ''TransferCommenceResponse'' m))))))"

text \<open>\<open>SHA256(JSON.stringify(sessionData.assetProfile))\<close>, where the profile may be undefined\<close>

definition assetProfileHash :: "'x env \<Rightarrow> SessionData \<Rightarrow> string" where
  "assetProfileHash E sd = (case sd_assetProfile sd of
      None \<Rightarrow> sha256Undefined (e_crypto E)
    | Some p \<Rightarrow> hashJson E (assetProfileToJson p))"

definition checkValidtransferCommenceRequest :: "'x env \<Rightarrow> TransferCommenceV1Request \<Rightarrow> ('x, unit) gact" where
  "checkValidtransferCommenceRequest E request =
     (let sessionID = tcq_sessionID request in
     bindA (getSession sessionID) (\<lambda>sd.
     thenA (ensure (sd_lastSequenceNumber sd \<noteq> None) SessionError) (
     thenA (logSession E sessionID ''exec'' ''commence'' sd) (
     thenA (ensure (tcq_messageType request = satpMessageType TransferCommenceRequest) WrongMessageType) (
     thenA (ensure (tcq_sequenceNumber request = the (sd_lastSequenceNumber sd) + 1) WrongSequenceNumber) (
     thenA (ensure (sd_initializationResponseMessageHash sd = Some (tcq_hashPrevMessage request)) WrongPreviousHash) (
     thenA (ensure (sd_recipientGatewayPubkey sd = Some (tcq_serverIdentityPubkey request)) WrongServerIdentity) (
     thenA (ensure (sd_sourceGatewayPubkey sd = Some (tcq_clientIdentityPubkey request)) WrongClientIdentity) (
     thenA (ensure (assetProfileHash E sd = tcq_hashAssetProfile request) WrongAssetProfileHash) (
     thenA (verifyA E (transferCommenceRequestToJson (request\<lparr>tcq_signature := ''''\<rparr>)) (tcq_signature request)
        (tcq_clientIdentityPubkey request) SignatureFailed) (
     let sd' = sd\<lparr>
        sd_transferCommenceMessageRequestHash := Some (hashJson E (transferCommenceRequestToJson request)),
        sd_clientSignatureTransferCommenceRequestMessage := Some (tcq_signature request),
        sd_originatorPubkey := Some (tcq_originatorPubkey request),
        sd_beneficiaryPubkey := Some (tcq_beneficiaryPubkey request)\<rparr> in
     thenA (putSession sessionID sd') (
     thenA (logSession E sessionID ''done'' ''commence'' sd')
       (putSession sessionID (sd'\<lparr>sd_step := Some 4\<rparr>))))))))))))))"

section \<open>Lock evidence\<close>

definition lockEvidenceResponseMessage :: "string \<Rightarrow> SessionData \<Rightarrow> LockEvidenceV1Response" where
  "lockEvidenceResponseMessage sessionID sd = \<lparr>
     ler_sessionID = sessionID,
     ler_messageType = satpMessageType LockEvidenceResponse,
     ler_clientIdentityPubkey = the (sd_sourceGatewayPubkey sd),
     ler_serverIdentityPubkey = the (sd_recipientGatewayPubkey sd),
     ler_hashLockEvidenceRequest = the (sd_lockEvidenceRequestMessageHash sd),
     ler_signature = '''',
     ler_sequenceNumber = the (sd_lastSequenceNumber sd)\<rparr>"

definition sendLockEvidenceResponse ::
  "'x env \<Rightarrow> string \<Rightarrow> bool \<Rightarrow> ('x, LockEvidenceV1Response option) gact" where
  "sendLockEvidenceResponse E sessionID remote =
     bindA (getSession sessionID) (\<lambda>sd.
     thenA (ensure (sd_step sd \<noteq> None \<and> timeoutsDefined sd \<and> sd_sourceBasePath sd \<noteq> None
        \<and> sd_lastSequenceNumber sd \<noteq> None \<and> sd_sourceGatewayPubkey sd \<noteq> None
        \<and> sd_recipientGatewayPubkey sd \<noteq> None \<and> sd_lockEvidenceRequestMessageHash sd \<noteq> None) SessionError) (
     let sd1 = bumpSequence sd; m0 = lockEvidenceResponseMessage sessionID sd1 in
     thenA (putSession sessionID sd1) (
     bindA (signA E (lockEvidenceResponseToJson m0)) (\<lambda>signature.
     let m = m0\<lparr>ler_signature := signature\<rparr>;
         sd' = sd1\<lparr>sd_lockEvidenceResponseMessageHash := Some (hashJson E (lockEvidenceResponseToJson m)),
                   sd_serverSignatureLockEvidenceResponseMessage := Some signature\<rparr> in
     thenA (putSession sessionID sd') (
     thenA (logSession E sessionID ''ack'' ''lock'' sd')
       (deliver E sessionID remote (the (sd_sourceBasePath sd))
          (Phase2LockEvidenceResponse m) ''LockEvidenceResponse'' m))))))"

text \<open>\<open>new Date() > new Date(lockEvidenceExpiration)\<close> is false for a date that does not parse.\<close>

definition checkValidLockEvidenceRequest :: "'x env \<Rightarrow> LockEvidenceV1Request \<Rightarrow> ('x, unit) gact" where
  "checkValidLockEvidenceRequest E request =
     (let sessionID = leq_sessionID request in
     bindA (getSession sessionID) (\<lambda>sd.
     thenA (ensure (sd_step sd \<noteq> None \<and> sd_lastSequenceNumber sd \<noteq> None) SessionError) (
     thenA (logSession E sessionID ''exec'' ''lock'' sd) (
     thenA (ensure (leq_messageType request = satpMessageType LockEvidenceRequest) WrongMessageType) (
     thenA (ensure (leq_sequenceNumber request = the (sd_lastSequenceNumber sd) + 1) WrongSequenceNumber) (
     thenA (ensure (sd_transferCommenceMessageResponseHash sd = Some (leq_hashCommenceAckRequest request)) WrongPreviousHash) (
     thenA (ensure (sd_recipientGatewayPubkey sd = Some (leq_serverIdentityPubkey request)) WrongServerIdentity) (
     thenA (ensure (sd_sourceGatewayPubkey sd = Some (leq_clientIdentityPubkey request)) WrongClientIdentity) (
     thenA (ensure (leq_lockEvidenceClaim request \<noteq> None) InvalidClaim) (
     bindA (dateNow E) (\<lambda>now.
     thenA (ensure (case e_parseDate E (leq_lockEvidenceExpiration request) of
                      None \<Rightarrow> True | Some expiry \<Rightarrow> now \<le> expiry) InvalidClaim) (
     thenA (verifyA E (lockEvidenceRequestToJson (request\<lparr>leq_signature := ''''\<rparr>)) (leq_signature request)
        (leq_clientIdentityPubkey request) SignatureFailed) (
     thenA (checkClaim E sessionID ''lock'' (the (leq_lockEvidenceClaim request)) (leq_clientIdentityPubkey request)) (
     let sd' = sd\<lparr>
        sd_lockEvidenceRequestMessageHash := Some (hashJson E (lockEvidenceRequestToJson request)),
        sd_clientSignatureLockEvidenceRequestMessage := Some (leq_signature request),
        sd_lockEvidenceClaim := leq_lockEvidenceClaim request\<rparr> in
     thenA (putSession sessionID sd') (
     thenA (logSession E sessionID ''done'' ''lock'' sd')
       (putSession sessionID (sd'\<lparr>sd_step := Some 6\<rparr>)))))))))))))))))"

section \<open>Commit preparation\<close>

definition commitPreparationResponseMessage :: "string \<Rightarrow> SessionData \<Rightarrow> CommitPreparationV1Response" where
  "commitPreparationResponseMessage sessionID sd = \<lparr>
     cpr_sessionID = sessionID,
     cpr_messageType = satpMessageType CommitPreparationResponse,
     cpr_clientIdentityPubkey = the (sd_sourceGatewayPubkey sd),
     cpr_serverIdentityPubkey = the (sd_recipientGatewayPubkey sd),
     cpr_hashCommitPrep = the (sd_commitPrepareRequestMessageHash sd),
     cpr_signature = '''',
     cpr_sequenceNumber = the (sd_lastSequenceNumber sd)\<rparr>"

definition sendCommitPreparationResponse ::
  "'x env \<Rightarrow> string \<Rightarrow> bool \<Rightarrow> ('x, CommitPreparationV1Response option) gact" where
  "sendCommitPreparationResponse E sessionID remote =
     bindA (getSession sessionID) (\<lambda>sd.
     thenA (ensure (sd_step sd \<noteq> None \<and> timeoutsDefined sd \<and> sd_sourceBasePath sd \<noteq> None
        \<and> sd_lastSequenceNumber sd \<noteq> None \<and> sd_sourceGatewayPubkey sd \<noteq> None
        \<and> sd_recipientGatewayPubkey sd \<noteq> None \<and> sd_commitPrepareRequestMessageHash sd \<noteq> None) SessionError) (
     let sd1 = bumpSequence sd; m0 = commitPreparationResponseMessage sessionID sd1 in
     thenA (putSession sessionID sd1) (
     bindA (signA E (commitPreparationResponseToJson m0)) (\<lambda>signature.
     let m = m0\<lparr>cpr_signature := signature\<rparr>;
         sd' = sd1\<lparr>sd_commitPrepareResponseMessageHash := Some (hashJson E (commitPreparationResponseToJson m)),
                   sd_serverSignatureCommitPreparationResponseMessage := Some signature\<rparr> in
     thenA (putSession sessionID sd') (
     thenA (logSession E sessionID ''ack'' ''prepare'' sd')
       (deliver E sessionID remote (the (sd_sourceBasePath sd))
          (Phase3CommitPreparationResponse m) ''CommitPreparationResponse'' m))))))"

text \<open>Unlike the other checks, this one logs the \<open>exec\<close> entry after the comparisons.\<close>

definition checkValidCommitPreparationRequest :: "'x env \<Rightarrow> CommitPreparationV1Request \<Rightarrow> ('x, unit) gact" where
  "checkValidCommitPreparationRequest E request =
     (let sessionID = cpq_sessionID request in
     bindA (getSession sessionID) (\<lambda>sd.
     thenA (ensure (sd_step sd \<noteq> None \<and> sd_lastSequenceNumber sd \<noteq> None) SessionError) (
     thenA (ensure (cpq_messageType request = satpMessageType CommitPreparationRequest) WrongMessageType) (
     thenA (ensure (cpq_sequenceNumber request = the (sd_lastSequenceNumber sd) + 1) WrongSequenceNumber) (
     thenA (ensure (sd_lockEvidenceResponseMessageHash sd = Some (cpq_hashLockEvidenceAck request)) WrongPreviousHash) (
     thenA (ensure (sd_recipientGatewayPubkey sd = Some (cpq_serverIdentityPubkey request)) WrongServerIdentity) (
     thenA (ensure (sd_sourceGatewayPubkey sd = Some (cpq_clientIdentityPubkey request)) WrongClientIdentity) (
     thenA (logSession E sessionID ''exec'' ''prepare'' sd) (
     thenA (verifyA E (commitPreparationRequestToJson (request\<lparr>cpq_signature := ''''\<rparr>)) (cpq_signature request)
        (cpq_clientIdentityPubkey request) SignatureFailed) (
     let sd' = sd\<lparr>
        sd_commitPrepareRequestMessageHash := Some (hashJson E (commitPreparationRequestToJson request)),
        sd_clientSignatureCommitPreparationRequestMessage := Some (cpq_signature request)\<rparr> in
     thenA (putSession sessionID sd') (
     thenA (logSession E sessionID ''done'' ''prepare'' sd')
       (putSession sessionID (sd'\<lparr>sd_step := Some 8\<rparr>)))))))))))))"

section \<open>Commit final\<close>

definition commitFinalResponseMessage :: "string \<Rightarrow> SessionData \<Rightarrow> CommitFinalV1Response" where
  "commitFinalResponseMessage sessionID sd = \<lparr>
     cfr_sessionID = sessionID,
     cfr_messageType = satpMessageType CommitFinalResponse,
     cfr_clientIdentityPubkey = the (sd_sourceGatewayPubkey sd),
     cfr_serverIdentityPubkey = the (sd_recipientGatewayPubkey sd),
     cfr_commitAcknowledgementClaim = sd_commitAcknowledgementClaim sd,
     cfr_hashCommitFinal = the (sd_commitFinalRequestMessageHash sd),
     cfr_signature = '''',
     cfr_sequenceNumber = the (sd_lastSequenceNumber sd)\<rparr>"

definition sendCommitFinalResponse ::
  "'x env \<Rightarrow> string \<Rightarrow> bool \<Rightarrow> ('x, CommitFinalV1Response option) gact" where
  "sendCommitFinalResponse E sessionID remote =
     bindA (getSession sessionID) (\<lambda>sd.
     thenA (ensure (sd_step sd \<noteq> None \<and> timeoutsDefined sd \<and> sd_sourceBasePath sd \<noteq> None
        \<and> sd_lastSequenceNumber sd \<noteq> None \<and> sd_sourceGatewayPubkey sd \<noteq> None
        \<and> sd_recipientGatewayPubkey sd \<noteq> None \<and> sd_commitAcknowledgementClaim sd \<noteq> None
        \<and> sd_commitFinalRequestMessageHash sd \<noteq> None) SessionError) (
     let sd1 = bumpSequence sd; m0 = commitFinalResponseMessage sessionID sd1 in
     thenA (putSession sessionID sd1) (
     bindA (signA E (commitFinalResponseToJson m0)) (\<lambda>signature.
     let m = m0\<lparr>cfr_signature := signature\<rparr>;
         sd' = sd1\<lparr>sd_commitFinalResponseMessageHash := Some (hashJson E (commitFinalResponseToJson m)),
                   sd_serverSignatureCommitFinalResponseMessage := Some signature\<rparr> in
     thenA (putSession sessionID sd') (
     thenA (logSession E sessionID ''ack'' ''final'' sd')
       (deliver E sessionID remote (the (sd_sourceBasePath sd))
          (Phase3CommitFinalResponse m) ''CommitFinalResponse'' m))))))"

definition checkValidCommitFinalRequest :: "'x env \<Rightarrow> CommitFinalV1Request \<Rightarrow> ('x, unit) gact" where
  "checkValidCommitFinalRequest E request =
     (let sessionID = cfq_sessionID request in
     bindA (getSession sessionID) (\<lambda>sd.
     thenA (ensure (sd_id sd \<noteq> None \<and> sd_step sd \<noteq> None \<and> sd_lastSequenceNumber sd \<noteq> None) SessionError) (
     thenA (logSession E sessionID ''exec'' ''final'' sd) (
     thenA (ensure (cfq_messageType request = satpMessageType CommitFinalRequest) WrongMessageType) (
     thenA (ensure (cfq_sequenceNumber request = the (sd_lastSequenceNumber sd) + 1) WrongSequenceNumber) (
     thenA (ensure (cfq_commitFinalClaim request \<noteq> None) InvalidClaim) (
     thenA (ensure (sd_recipientGatewayPubkey sd = Some (cfq_serverIdentityPubkey request)) WrongServerIdentity) (
     thenA (ensure (sd_sourceGatewayPubkey sd = Some (cfq_clientIdentityPubkey request)) WrongClientIdentity) (
     thenA (ensure (sd_commitPrepareResponseMessageHash sd = Some (cfq_hashCommitPrepareAck request)) WrongPreviousHash) (
     thenA (verifyA E (commitFinalRequestToJson (request\<lparr>cfq_signature := ''''\<rparr>)) (cfq_signature request)
        (cfq_clientIdentityPubkey request) SignatureFailed) (
     thenA (checkClaim E sessionID ''delete'' (the (cfq_commitFinalClaim request)) (cfq_clientIdentityPubkey request)) (
     let sd' = sd\<lparr>
        sd_commitFinalClaim := cfq_commitFinalClaim request,
        sd_commitFinalRequestMessageHash := Some (hashJson E (commitFinalRequestToJson request)),
        sd_clientSignatureCommitFinalRequestMessage := Some (cfq_signature request)\<rparr> in
     thenA (putSession sessionID sd') (
     thenA (logSession E sessionID ''done'' ''final'' sd')
       (putSession sessionID (sd'\<lparr>sd_step := Some 10\<rparr>)))))))))))))))"

section \<open>Transfer complete\<close>

text \<open>The identities and the hash of the commence request in the message are not compared.\<close>

definition checkValidTransferCompleteRequest :: "'x env \<Rightarrow> TransferCompleteV1Request \<Rightarrow> ('x, unit) gact" where
  "checkValidTransferCompleteRequest E request =
     (let sessionID = tpq_sessionID request in
     bindA (getSession sessionID) (\<lambda>sd.
     thenA (ensure (sd_step sd \<noteq> None \<and> sd_lastSequenceNumber sd \<noteq> None) SessionError) (
     thenA (logSession E sessionID ''exec'' ''complete'' sd) (
     thenA (ensure (tpq_messageType request = satpMessageType TransferCompleteRequest) WrongMessageType) (
     thenA (ensure (tpq_sequenceNumber request = the (sd_lastSequenceNumber sd) + 1) WrongSequenceNumber) (
     thenA (ensure (sd_commitFinalResponseMessageHash sd = Some (tpq_hashCommitFinalAck request)) WrongPreviousHash) (
     thenA (verifyA E (transferCompleteRequestToJson (request\<lparr>tpq_signature := ''''\<rparr>)) (tpq_signature request)
        (tpq_clientIdentityPubkey request) SignatureFailed) (
     let sd' = sd\<lparr>
        sd_transferCompleteMessageHash := Some (hashJson E (transferCompleteRequestToJson request)),
        sd_clientSignatureTransferCompleteMessage := Some (tpq_signature request)\<rparr> in
     thenA (putSession sessionID sd')
       (logSession E sessionID ''done'' ''complete'' sd')))))))))"

end
