(* ===== verification/Recovery.thy ===== *)
theory Recovery
  imports Server_Helper
begin

text \<open>
  Crash recovery: the four recovery messages, reading the open sessions back from the local
  log, and resuming a session at the step it was in.
\<close>

section \<open>Recover\<close>

definition sendRecoverMessage :: "'x env \<Rightarrow> string \<Rightarrow> bool \<Rightarrow> bool \<Rightarrow> ('x, RecoverV1Message option) gact" where
  "sendRecoverMessage E sessionID backup remote =
     bindA (getSession sessionID) (\<lambda>sd.
     thenA (ensure (timeoutsDefined sd \<and> basePathsDefined sd \<and> sd_lastSequenceNumber sd \<noteq> None
        \<and> sd_lastLogEntryTimestamp sd \<noteq> None) SessionError) (
     let recoverMessage = \<lparr>rec_sessionID = sessionID, rec_odapPhase = ''sessionData.odapPhase'',
           rec_sequenceNumber = the (sd_lastSequenceNumber sd),
           rec_lastLogEntryTimestamp = sd_lastLogEntryTimestamp sd,
           rec_isBackup = backup, rec_newBasePath = '''',
           rec_newGatewayPubKey = sd_sourceGatewayPubkey sd, rec_signature = ''''\<rparr> in
     bindA (signA E (recoverToJson recoverMessage)) (\<lambda>signature.
     let m = recoverMessage\<lparr>rec_signature := signature\<rparr> in
     if \<not> remote then ret (Some m)
     else bindA (peerBasePath sessionID sd) (\<lambda>basePath.
       thenA (makeRequest E sessionID basePath (RecoverMessage m) ''Recover'') (ret None)))))"

text \<open>
  \<open>!key || !allowed?.includes(key)\<close>, negated: the key is a non-empty text of the list. Both
  sides look into the backup gateways of the source.
\<close>

definition backupAllowed :: "SessionData \<Rightarrow> string option \<Rightarrow> bool" where
  "backupAllowed sd key = (case (key, sd_allowedSourceBackupGateways sd) of
      (Some k, Some allowed) \<Rightarrow> k \<noteq> [] \<and> k \<in> set allowed
    | _ \<Rightarrow> False)"

text \<open>
  \<open>checkValidRecoverMessage\<close>. The key of a backup gateway is written into the session before it
  is looked up among the allowed ones.
\<close>

definition checkValidRecoverMessage :: "'x env \<Rightarrow> RecoverV1Message \<Rightarrow> ('x, unit) gact" where
  "checkValidRecoverMessage E response =
     (let sessionID = rec_sessionID response in
     bindA (getSession sessionID) (\<lambda>sd.
     bindA (isClientGateway sessionID) (\<lambda>client.
     bindA (if client then
         if rec_isBackup response \<and> sd_recipientGatewayPubkey sd \<noteq> rec_newGatewayPubKey response then
           let sd' = sd\<lparr>sd_recipientGatewayPubkey := rec_newGatewayPubKey response\<rparr> in
           thenA (putSession sessionID sd') (
           thenA (ensure (backupAllowed sd' (sd_recipientGatewayPubkey sd')) BackupNotAllowed)
             (ret (sd', sd_recipientGatewayPubkey sd')))
         else ret (sd, sd_recipientGatewayPubkey sd)
       else
         if rec_isBackup response \<and> sd_sourceGatewayPubkey sd \<noteq> rec_newGatewayPubKey response then
           let sd' = sd\<lparr>sd_sourceGatewayPubkey := rec_newGatewayPubKey response\<rparr> in
           thenA (putSession sessionID sd') (
           thenA (ensure (backupAllowed sd' (sd_sourceGatewayPubkey sd')) BackupNotAllowed)
             (ret (sd', sd_sourceGatewayPubkey sd')))
         else ret (sd, sd_sourceGatewayPubkey sd))
       (\<lambda>(sd', pk).
     thenA (ensure (pk \<noteq> None) SessionError) (
     thenA (ensure (rec_lastLogEntryTimestamp response \<noteq> None) InvalidLogTimestamp) (
     thenA (verifyA E (recoverToJson (response\<lparr>rec_signature := ''''\<rparr>)) (rec_signature response) (the pk) SignatureFailed)
       (putSession sessionID (sd'\<lparr>sd_lastLogEntryTimestamp := rec_lastLogEntryTimestamp response\<rparr>))))))))"

section \<open>Recover update\<close>

definition sendRecoverUpdateMessage :: "'x env \<Rightarrow> string \<Rightarrow> bool \<Rightarrow> ('x, RecoverUpdateV1Message option) gact" where
  "sendRecoverUpdateMessage E sessionID remote =
     bindA (getSession sessionID) (\<lambda>sd.
     thenA (ensure (timeoutsDefined sd \<and> basePathsDefined sd \<and> sd_lastSequenceNumber sd \<noteq> None
        \<and> sd_lastLogEntryTimestamp sd \<noteq> None) SessionError) (
     bindA (getLogsMoreRecentThanTimestamp (the (sd_lastLogEntryTimestamp sd))) (\<lambda>recoveredLogs.
     let recoverUpdateMessage = \<lparr>rup_sessionID = sessionID, rup_recoveredLogs = recoveredLogs, rup_signature = ''''\<rparr> in
     bindA (signA E (recoverUpdateToJson recoverUpdateMessage)) (\<lambda>signature.
     let m = recoverUpdateMessage\<lparr>rup_signature := signature\<rparr> in
     if \<not> remote then ret (Some m)
     else bindA (peerBasePath sessionID sd) (\<lambda>basePath.
       thenA (makeRequest E sessionID basePath (RecoverUpdateMessage m) ''RecoverUpdate'') (ret None))))))"

text \<open>
  The loop over the received logs: each must have the hash the peer logged remotely, and the
  data of a log that is newer than the ones before replaces the session, except that the
  gateway keeps its own key in it. \<open>parseInt(a) > parseInt(b)\<close> is false when one is \<open>NaN\<close>.
\<close>

definition newerThan :: "string \<Rightarrow> string \<Rightarrow> bool" where
  "newerThan a b = (case (parseInt a, parseInt b) of (Some x, Some y) \<Rightarrow> x > y | _ \<Rightarrow> False)"

definition adoptLog :: "string \<Rightarrow> string \<Rightarrow> ('x, unit) gact" where
  "adoptLog sessionID data =
     (case parseSession data of
        None \<Rightarrow> throwE JsonSyntax
      | Some sd \<Rightarrow>
          bindA (isClientGateway sessionID) (\<lambda>client.
          bindA (getsA (\<lambda>w. pubKey (w_self w))) (\<lambda>pk.
            putSession sessionID (if client then sd\<lparr>sd_sourceGatewayPubkey := Some pk\<rparr>
              else sd\<lparr>sd_recipientGatewayPubkey := Some pk\<rparr>))))"

fun checkRecoveredLogs :: "'x env \<Rightarrow> string \<Rightarrow> string \<Rightarrow> LocalLog list \<Rightarrow> ('x, unit) gact" where
  "checkRecoveredLogs E sessionID maxTimestamp [] = ret ()"
| "checkRecoveredLogs E sessionID maxTimestamp (recLog # rest) =
     (case ll_key recLog of
        None \<Rightarrow> throwE InvalidRecoveredLog
      | Some key \<Rightarrow>
          bindA (getLogFromRemote E key) (\<lambda>ipfsLog.
          thenA (ensure (rl_hash ipfsLog = hashJson E (localLogToJson recLog)) RecoveredLogHash) (
          thenA (ensure (ll_data recLog \<noteq> None \<and> ll_timestamp recLog \<noteq> None) InvalidRecoveredLog) (
            if newerThan (the (ll_timestamp recLog)) maxTimestamp
            then thenA (adoptLog sessionID (the (ll_data recLog)))
                   (checkRecoveredLogs E sessionID (the (ll_timestamp recLog)) rest)
            else checkRecoveredLogs E sessionID maxTimestamp rest))))"

definition checkValidRecoverUpdateMessage :: "'x env \<Rightarrow> RecoverUpdateV1Message \<Rightarrow> ('x, unit) gact" where
  "checkValidRecoverUpdateMessage E response =
     bindA (peerPubKey (rup_sessionID response)) (\<lambda>pk.
     thenA (verifyA E (recoverUpdateToJson (response\<lparr>rup_signature := ''''\<rparr>)) (rup_signature response) pk SignatureFailed)
       (checkRecoveredLogs E (rup_sessionID response) ''0'' (rup_recoveredLogs response)))"

section \<open>Recover update acknowledgement and success\<close>

definition sendRecoverUpdateAckMessage :: "'x env \<Rightarrow> string \<Rightarrow> bool \<Rightarrow> ('x, RecoverUpdateAckV1Message option) gact" where
  "sendRecoverUpdateAckMessage E sessionID remote =
     bindA (getSession sessionID) (\<lambda>sd.
     thenA (ensure (timeoutsDefined sd \<and> basePathsDefined sd \<and> sd_lastSequenceNumber sd \<noteq> None) SessionError) (
     let recoverUpdateMessage = \<lparr>rua_sessionID = sessionID, rua_success = True, rua_changedEntriesHash = [],
           rua_signature = ''''\<rparr> in
     bindA (signA E (recoverUpdateAckToJson recoverUpdateMessage)) (\<lambda>signature.
     let m = recoverUpdateMessage\<lparr>rua_signature := signature\<rparr> in
     if \<not> remote then ret (Some m)
     else bindA (peerBasePath sessionID sd) (\<lambda>basePath.
       thenA (makeRequest E sessionID basePath (RecoverUpdateAckMessage m) ''RecoverUpdateAck'') (ret None)))))"

definition checkValidRecoverUpdateAckMessage :: "'x env \<Rightarrow> RecoverUpdateAckV1Message \<Rightarrow> ('x, unit) gact" where
  "checkValidRecoverUpdateAckMessage E response =
     bindA (peerPubKey (rua_sessionID response)) (\<lambda>pk.
       verifyA E (recoverUpdateAckToJson (response\<lparr>rua_signature := ''''\<rparr>)) (rua_signature response) pk SignatureFailed)"

definition sendRecoverSuccessMessage :: "'x env \<Rightarrow> string \<Rightarrow> bool \<Rightarrow> ('x, RecoverSuccessV1Message option) gact" where
  "sendRecoverSuccessMessage E sessionID remote =
     bindA (getSession sessionID) (\<lambda>sd.
     thenA (ensure (timeoutsDefined sd \<and> basePathsDefined sd) SessionError) (
     let recoverSuccessMessage = \<lparr>rsu_sessionID = sessionID, rsu_success = True, rsu_signature = ''''\<rparr> in
     bindA (signA E (recoverSuccessToJson recoverSuccessMessage)) (\<lambda>signature.
     let m = recoverSuccessMessage\<lparr>rsu_signature := signature\<rparr> in
     if \<not> remote then ret (Some m)
     else bindA (peerBasePath sessionID sd) (\<lambda>basePath.
       thenA (makeRequest E sessionID basePath (RecoverSuccessMessage m) ''RecoverSuccess'') (ret None)))))"

definition checkValidRecoverSuccessMessage :: "'x env \<Rightarrow> RecoverSuccessV1Message \<Rightarrow> ('x, unit) gact" where
  "checkValidRecoverSuccessMessage E response =
     bindA (peerPubKey (rsu_sessionID response)) (\<lambda>pk.
     thenA (ensure (rsu_success response) RecoverNotSuccessful)
       (verifyA E (recoverSuccessToJson (response\<lparr>rsu_signature := ''''\<rparr>)) (rsu_signature response) pk SignatureFailed))"

section \<open>Open sessions\<close>

text \<open>One logged session: parse it, take the key of a backup gateway, store it, tell the peer.\<close>

definition recoverLog :: "'x env \<Rightarrow> bool \<Rightarrow> LocalLog \<Rightarrow> ('x, unit) gact" where
  "recoverLog E remote log =
     (case ll_data log of
        None \<Rightarrow> throwE InvalidLog
      | Some data \<Rightarrow> (case parseSession data of
          None \<Rightarrow> throwE JsonSyntax
        | Some parsed \<Rightarrow>
            bindA (getsA (\<lambda>w. pubKey (w_self w))) (\<lambda>pk.
            let sd = parsed\<lparr>sd_lastLogEntryTimestamp := ll_timestamp log\<rparr>;
                amIBackup = (Some pk \<noteq> sd_sourceGatewayPubkey sd \<and> Some pk \<noteq> sd_recipientGatewayPubkey sd);
                sd' = (if amIBackup then sd\<lparr>sd_sourceGatewayPubkey := Some pk\<rparr> else sd) in
            thenA (putSession (ll_sessionID log) sd') (
              if remote then thenA (sendRecoverMessage E (ll_sessionID log) amIBackup True) (ret ()) else ret ()))))"

definition recoverOpenSessions :: "'x env \<Rightarrow> bool \<Rightarrow> ('x, unit) gact" where
  "recoverOpenSessions E remote =
     bindA (queryLocal (readLogsNotProofs (e_sql E))) (\<lambda>r. case r of
         None \<Rightarrow> throwE DatabaseError
       | Some logs \<Rightarrow> forEachA (recoverLog E remote) logs)"

section \<open>Resuming\<close>

text \<open>
  \<open>resumeSatpSession\<close>. When the last entry was written by the server, the client goes on with the
  next step. The result of the sender is the message, when it is not sent.
\<close>

datatype resumed =
    NoMessage
  | ResumedCall satp_call

definition resumedBy :: "('m \<Rightarrow> satp_call) \<Rightarrow> ('x, 'm option) gact \<Rightarrow> ('x, resumed) gact" where
  "resumedBy c m = bindA m (\<lambda>r. ret (case r of None \<Rightarrow> NoMessage | Some x \<Rightarrow> ResumedCall (c x)))"

definition resumeStep :: "'x env \<Rightarrow> string \<Rightarrow> bool \<Rightarrow> int \<Rightarrow> ('x, resumed) gact" where
  "resumeStep E sessionID remote step =
    (if step = 1 then resumedBy Phase1TransferInitiationRequest (sendTransferInitializationRequest E sessionID remote)
     else if step = 2 then resumedBy Phase1TransferInitiationResponse (sendTransferInitializationResponse E sessionID remote)
     else if step = 3 then resumedBy Phase2TransferCommenceRequest (sendTransferCommenceRequest E sessionID remote)
     else if step = 4 then resumedBy Phase2TransferCommenceResponse (sendTransferCommenceResponse E sessionID remote)
     else if step = 5 then resumedBy Phase2LockEvidenceRequest (sendLockEvidenceRequest E sessionID remote)
     else if step = 6 then resumedBy Phase2LockEvidenceResponse (sendLockEvidenceResponse E sessionID remote)
     else if step = 7 then resumedBy Phase3CommitPreparationRequest (sendCommitPreparationRequest E sessionID remote)
     else if step = 8 then resumedBy Phase3CommitPreparationResponse (sendCommitPreparationResponse E sessionID remote)
     else if step = 9 then resumedBy Phase3CommitFinalRequest (sendCommitFinalRequest E sessionID remote)
     else if step = 10 then resumedBy Phase3CommitFinalResponse (sendCommitFinalResponse E sessionID remote)
     else if step = 11 then resumedBy Phase3TransferCompleteRequest (sendTransferCompleteRequest E sessionID remote)
     else thenA (deleteSession sessionID) (throwE InvalidStep))"

definition resumeSatpSession :: "'x env \<Rightarrow> string \<Rightarrow> bool \<Rightarrow> ('x, resumed) gact" where
  "resumeSatpSession E sessionID remote =
     bindA (getSession sessionID) (\<lambda>sd.
     thenA (ensure (sd_step sd \<noteq> None \<and> sd_lastSequenceNumber sd \<noteq> None) SessionError) (
     if sd_rollback sd = Some True then
       thenA (rollback E sessionID) (thenA (sendRollbackAckMessage E sessionID True) (ret NoMessage))
     else
       bindA (isClientGateway sessionID) (\<lambda>client.
       let step = (if client \<and> the (sd_step sd) mod 2 = 0 then the (sd_step sd) + 1 else the (sd_step sd)) in
       thenA (putSession sessionID (sd\<lparr>sd_step := Some step\<rparr>))
         (resumeStep E sessionID remote step))))"

end
