(* ===== verification/Handlers.thy ===== *)
theory Handlers
  imports Recovery
begin

text \<open>
  The entry points of a gateway: what each received message does, how a client request opens a
  session, and the HTTP endpoints in front of them.
\<close>

section \<open>Server side\<close>

definition onTransferInitiationRequestReceived :: "'x env \<Rightarrow> TransferInitializationV1Request \<Rightarrow> ('x, unit) gact" where
  "onTransferInitiationRequestReceived E request =
     thenA (checkValidInitializationRequest E request) (
     thenA (sendTransferInitializationResponse E (tiq_sessionID request) True) (ret ()))"

definition onTransferCommenceRequestReceived :: "'x env \<Rightarrow> TransferCommenceV1Request \<Rightarrow> ('x, unit) gact" where
  "onTransferCommenceRequestReceived E request =
     thenA (updateLastMessageReceivedTimestamp E (tcq_sessionID request)) (
     thenA (checkValidtransferCommenceRequest E request) (
     thenA (sendTransferCommenceResponse E (tcq_sessionID request) True) (ret ())))"

definition onLockEvidenceRequestReceived :: "'x env \<Rightarrow> LockEvidenceV1Request \<Rightarrow> ('x, unit) gact" where
  "onLockEvidenceRequestReceived E request =
     thenA (updateLastMessageReceivedTimestamp E (leq_sessionID request)) (
     thenA (checkValidLockEvidenceRequest E request) (
     thenA (sendLockEvidenceResponse E (leq_sessionID request) True) (ret ())))"

definition onCommitPrepareRequestReceived :: "'x env \<Rightarrow> CommitPreparationV1Request \<Rightarrow> ('x, unit) gact" where
  "onCommitPrepareRequestReceived E request =
     thenA (updateLastMessageReceivedTimestamp E (cpq_sessionID request)) (
     thenA (checkValidCommitPreparationRequest E request) (
     thenA (sendCommitPreparationResponse E (cpq_sessionID request) True) (ret ())))"

definition onCommitFinalRequestReceived :: "'x env \<Rightarrow> CommitFinalV1Request \<Rightarrow> ('x, unit) gact" where
  "onCommitFinalRequestReceived E request =
     thenA (updateLastMessageReceivedTimestamp E (cfq_sessionID request)) (
     thenA (checkValidCommitFinalRequest E request) (
     thenA (createAsset E (cfq_sessionID request)) (
     thenA (sendCommitFinalResponse E (cfq_sessionID request) True) (ret ()))))"

definition onTransferCompleteRequestReceived :: "'x env \<Rightarrow> TransferCompleteV1Request \<Rightarrow> ('x, unit) gact" where
  "onTransferCompleteRequestReceived E request =
     thenA (updateLastMessageReceivedTimestamp E (tpq_sessionID request))
       (checkValidTransferCompleteRequest E request)"

section \<open>Client side\<close>

definition onTransferInitiationResponseReceived :: "'x env \<Rightarrow> TransferInitializationV1Response \<Rightarrow> ('x, unit) gact" where
  "onTransferInitiationResponseReceived E request =
     thenA (updateLastMessageReceivedTimestamp E (tir_sessionID request)) (
     thenA (checkValidInitializationResponse E request) (
     thenA (sendTransferCommenceRequest E (tir_sessionID request) True) (ret ())))"

definition onTransferCommenceResponseReceived :: "'x env \<Rightarrow> TransferCommenceV1Response \<Rightarrow> ('x, unit) gact" where
  "onTransferCommenceResponseReceived E request =
     thenA (updateLastMessageReceivedTimestamp E (tcr_sessionID request)) (
     thenA (checkValidTransferCommenceResponse E request) (
     thenA (lockAsset E (tcr_sessionID request)) (
     thenA (sendLockEvidenceRequest E (tcr_sessionID request) True) (ret ()))))"

definition onLockEvidenceResponseReceived :: "'x env \<Rightarrow> LockEvidenceV1Response \<Rightarrow> ('x, unit) gact" where
  "onLockEvidenceResponseReceived E request =
     thenA (updateLastMessageReceivedTimestamp E (ler_sessionID request)) (
     thenA (checkValidLockEvidenceResponse E request) (
     thenA (sendCommitPreparationRequest E (ler_sessionID request) True) (ret ())))"

definition onCommitPrepareResponseReceived :: "'x env \<Rightarrow> CommitPreparationV1Response \<Rightarrow> ('x, unit) gact" where
  "onCommitPrepareResponseReceived E request =
     thenA (updateLastMessageReceivedTimestamp E (cpr_sessionID request)) (
     thenA (checkValidCommitPreparationResponse E request) (
     thenA (deleteAsset E (cpr_sessionID request)) (
     thenA (sendCommitFinalRequest E (cpr_sessionID request) True) (ret ()))))"

definition onCommitFinalResponseReceived :: "'x env \<Rightarrow> CommitFinalV1Response \<Rightarrow> ('x, unit) gact" where
  "onCommitFinalResponseReceived E request =
     thenA (updateLastMessageReceivedTimestamp E (cfr_sessionID request)) (
     thenA (checkValidCommitFinalResponse E request) (
     thenA (sendTransferCompleteRequest E (cfr_sessionID request) True) (ret ())))"

section \<open>Recovery and rollback\<close>

definition onRecoverMessageReceived :: "'x env \<Rightarrow> RecoverV1Message \<Rightarrow> ('x, unit) gact" where
  "onRecoverMessageReceived E request =
     thenA (updateLastMessageReceivedTimestamp E (rec_sessionID request)) (
     thenA (checkValidRecoverMessage E request) (
     thenA (sendRecoverUpdateMessage E (rec_sessionID request) True) (ret ())))"

definition onRecoverUpdateMessageReceived :: "'x env \<Rightarrow> RecoverUpdateV1Message \<Rightarrow> ('x, unit) gact" where
  "onRecoverUpdateMessageReceived E request =
     thenA (updateLastMessageReceivedTimestamp E (rup_sessionID request)) (
     thenA (checkValidRecoverUpdateMessage E request) (
     thenA (sendRecoverUpdateAckMessage E (rup_sessionID request) True) (ret ())))"

definition onRecoverUpdateAckMessageReceived :: "'x env \<Rightarrow> RecoverUpdateAckV1Message \<Rightarrow> ('x, unit) gact" where
  "onRecoverUpdateAckMessageReceived E request =
     thenA (updateLastMessageReceivedTimestamp E (rua_sessionID request)) (
     thenA (checkValidRecoverUpdateAckMessage E request) (
     thenA (sendRecoverSuccessMessage E (rua_sessionID request) True) (ret ())))"

definition onRecoverSuccessMessageReceived :: "'x env \<Rightarrow> RecoverSuccessV1Message \<Rightarrow> ('x, unit) gact" where
  "onRecoverSuccessMessageReceived E request =
     thenA (updateLastMessageReceivedTimestamp E (rsu_sessionID request)) (
     thenA (checkValidRecoverSuccessMessage E request) (
     thenA (resumeSatpSession E (rsu_sessionID request) True) (ret ())))"

definition onRollbackMessageReceived :: "'x env \<Rightarrow> RollbackV1Message \<Rightarrow> ('x, unit) gact" where
  "onRollbackMessageReceived E request =
     thenA (updateLastMessageReceivedTimestamp E (rbk_sessionID request)) (
     thenA (checkValidRollbackMessage E request) (
     thenA (rollback E (rbk_sessionID request)) (
     thenA (sendRollbackAckMessage E (rbk_sessionID request) True) (ret ()))))"

definition onRollbackAckMessageReceived :: "'x env \<Rightarrow> RollbackAckV1Message \<Rightarrow> ('x, unit) gact" where
  "onRollbackAckMessageReceived E request =
     thenA (updateLastMessageReceivedTimestamp E (rba_sessionID request))
       (checkValidRollbackAckMessage E request)"

section \<open>Client request\<close>

text \<open>\<open>uuid\<close> is the result of \<open>uuidV4()\<close> and \<open>rnd\<close> that of \<open>randomInt(4294967295)\<close>.\<close>

definition configuredSession :: "gateway \<Rightarrow> ClientV1Request \<Rightarrow> string \<Rightarrow> int \<Rightarrow> int \<Rightarrow> SessionData" where
  "configuredSession g request uuid rnd now = emptySession\<lparr>
     sd_id := Some uuid,
     sd_step := Some 1,
     sd_version := Some (crq_version request),
     sd_lastSequenceNumber := Some rnd,
     sd_sourceBasePath := Some (crq_clientGatewayConfiguration_apiHost request),
     sd_recipientBasePath := Some (crq_serverGatewayConfiguration_apiHost request),
     sd_allowedSourceBackupGateways := Some (backupGatewaysAllowed g),
     sd_allowedRecipientBackupGateways := Some [],
     sd_payloadProfile := Some (crq_payloadProfile request),
     sd_loggingProfile := Some (crq_loggingProfile request),
     sd_accessControlProfile := Some (crq_accessControlProfile request),
     sd_applicationProfile := Some (crq_applicationProfile request),
     sd_assetProfile := Some (pp_assetProfile (crq_payloadProfile request)),
     sd_originatorPubkey := Some (crq_originatorPubkey request),
     sd_beneficiaryPubkey := Some (crq_beneficiaryPubkey request),
     sd_sourceGatewayPubkey := Some (pubKey g),
     sd_sourceGatewayDltSystem := Some (crq_sourceGatewayDltSystem request),
     sd_recipientGatewayPubkey := Some (crq_recipientGatewayPubkey request),
     sd_recipientGatewayDltSystem := Some (crq_recipientGatewayDltSystem request),
     sd_rollbackActionsPerformed := Some [],
     sd_rollbackProofs := Some [],
     sd_lastMessageReceivedTimestamp := Some (intToString now),
     sd_sourceLedgerAssetID := Some (crq_sourceLedgerAssetID request),
     sd_recipientLedgerAssetID := Some (crq_recipientLedgerAssetID request),
     sd_maxRetries := Some (crq_maxRetries request),
     sd_maxTimeout := Some (crq_maxTimeout request)\<rparr>"

definition configureOdapSession :: "'x env \<Rightarrow> string \<Rightarrow> int \<Rightarrow> ClientV1Request \<Rightarrow> ('x, string) gact" where
  "configureOdapSession E uuid rnd request =
     bindA (getsA w_self) (\<lambda>g.
     bindA (dateNow E) (\<lambda>now.
     thenA (putSession uuid (configuredSession g request uuid rnd now)) (ret uuid)))"

definition runSatp :: "'x env \<Rightarrow> string \<Rightarrow> int \<Rightarrow> ClientV1Request \<Rightarrow> ('x, unit) gact" where
  "runSatp E uuid rnd request =
     bindA (configureOdapSession E uuid rnd request) (\<lambda>sessionID.
     thenA (sendTransferInitializationRequest E sessionID True) (ret ()))"

section \<open>Endpoints\<close>

text \<open>
  \<open>handleRequest\<close> of an endpoint: status 200 when the gateway's method resolves, 500 when it
  throws, and no answer when it never settles.
\<close>

definition respond :: "('x, unit) gact \<Rightarrow> 'x world \<Rightarrow> int option \<times> 'x world" where
  "respond m w = (case m w of
      (Returns _, w') \<Rightarrow> (Some 200, w')
    | (Throws _, w') \<Rightarrow> (Some 500, w')
    | (Pending, w') \<Rightarrow> (None, w'))"

definition transferInitiationRequestEndpointV1 :: "'x env \<Rightarrow> TransferInitializationV1Request \<Rightarrow> 'x world \<Rightarrow> int option \<times> 'x world" where
  "transferInitiationRequestEndpointV1 E body = respond (onTransferInitiationRequestReceived E body)"

definition transferCommenceRequestEndpointV1 :: "'x env \<Rightarrow> TransferCommenceV1Request \<Rightarrow> 'x world \<Rightarrow> int option \<times> 'x world" where
  "transferCommenceRequestEndpointV1 E body = respond (onTransferCommenceRequestReceived E body)"

definition lockEvidenceRequestEndpointV1 :: "'x env \<Rightarrow> LockEvidenceV1Request \<Rightarrow> 'x world \<Rightarrow> int option \<times> 'x world" where
  "lockEvidenceRequestEndpointV1 E body = respond (onLockEvidenceRequestReceived E body)"

definition commitPreparationRequestEndpointV1 :: "'x env \<Rightarrow> CommitPreparationV1Request \<Rightarrow> 'x world \<Rightarrow> int option \<times> 'x world" where
  "commitPreparationRequestEndpointV1 E body = respond (onCommitPrepareRequestReceived E body)"

definition commitFinalRequestEndpointV1 :: "'x env \<Rightarrow> CommitFinalV1Request \<Rightarrow> 'x world \<Rightarrow> int option \<times> 'x world" where
  "commitFinalRequestEndpointV1 E body = respond (onCommitFinalRequestReceived E body)"

definition transferCompleteRequestEndpointV1 :: "'x env \<Rightarrow> TransferCompleteV1Request \<Rightarrow> 'x world \<Rightarrow> int option \<times> 'x world" where
  "transferCompleteRequestEndpointV1 E body = respond (onTransferCompleteRequestReceived E body)"

definition transferInitiationResponseEndpointV1 :: "'x env \<Rightarrow> TransferInitializationV1Response \<Rightarrow> 'x world \<Rightarrow> int option \<times> 'x world" where
  "transferInitiationResponseEndpointV1 E body = respond (onTransferInitiationResponseReceived E body)"

definition transferCommenceResponseEndpointV1 :: "'x env \<Rightarrow> TransferCommenceV1Response \<Rightarrow> 'x world \<Rightarrow> int option \<times> 'x world" where
  "transferCommenceResponseEndpointV1 E body = respond (onTransferCommenceResponseReceived E body)"

definition lockEvidenceResponseEndpointV1 :: "'x env \<Rightarrow> LockEvidenceV1Response \<Rightarrow> 'x world \<Rightarrow> int option \<times> 'x world" where
  "lockEvidenceResponseEndpointV1 E body = respond (onLockEvidenceResponseReceived E body)"

definition commitPreparationResponseEndpointV1 :: "'x env \<Rightarrow> CommitPreparationV1Response \<Rightarrow> 'x world \<Rightarrow> int option \<times> 'x world" where
  "commitPreparationResponseEndpointV1 E body = respond (onCommitPrepareResponseReceived E body)"

definition commitFinalResponseEndpointV1 :: "'x env \<Rightarrow> CommitFinalV1Response \<Rightarrow> 'x world \<Rightarrow> int option \<times> 'x world" where
  "commitFinalResponseEndpointV1 E body = respond (onCommitFinalResponseReceived E body)"

definition recoverMessageEndpointV1 :: "'x env \<Rightarrow> RecoverV1Message \<Rightarrow> 'x world \<Rightarrow> int option \<times> 'x world" where
  "recoverMessageEndpointV1 E body = respond (onRecoverMessageReceived E body)"

definition recoverUpdateMessageEndpointV1 :: "'x env \<Rightarrow> RecoverUpdateV1Message \<Rightarrow> 'x world \<Rightarrow> int option \<times> 'x world" where
  "recoverUpdateMessageEndpointV1 E body = respond (onRecoverUpdateMessageReceived E body)"

definition recoverUpdateAckMessageEndpointV1 :: "'x env \<Rightarrow> RecoverUpdateAckV1Message \<Rightarrow> 'x world \<Rightarrow> int option \<times> 'x world" where
  "recoverUpdateAckMessageEndpointV1 E body = respond (onRecoverUpdateAckMessageReceived E body)"

definition recoverSuccessMessageEndpointV1 :: "'x env \<Rightarrow> RecoverSuccessV1Message \<Rightarrow> 'x world \<Rightarrow> int option \<times> 'x world" where
  "recoverSuccessMessageEndpointV1 E body = respond (onRecoverSuccessMessageReceived E body)"

definition rollbackMessageEndpointV1 :: "'x env \<Rightarrow> RollbackV1Message \<Rightarrow> 'x world \<Rightarrow> int option \<times> 'x world" where
  "rollbackMessageEndpointV1 E body = respond (onRollbackMessageReceived E body)"

definition rollbackAckMessageEndpointV1 :: "'x env \<Rightarrow> RollbackAckV1Message \<Rightarrow> 'x world \<Rightarrow> int option \<times> 'x world" where
  "rollbackAckMessageEndpointV1 E body = respond (onRollbackAckMessageReceived E body)"

text \<open>\<open>uuid\<close> and \<open>rnd\<close> are the values the client request draws.\<close>

definition clientRequestEndpointV1 ::
  "'x env \<Rightarrow> string \<Rightarrow> int \<Rightarrow> ClientV1Request \<Rightarrow> 'x world \<Rightarrow> int option \<times> 'x world" where
  "clientRequestEndpointV1 E uuid rnd body = respond (runSatp E uuid rnd body)"

text \<open>The web services of a gateway: a call of the HTTP interface reaches the endpoint of its name.\<close>

fun handleRequest :: "'x env \<Rightarrow> string \<Rightarrow> int \<Rightarrow> satp_call \<Rightarrow> 'x world \<Rightarrow> int option \<times> 'x world" where
  "handleRequest E uuid rnd (Phase1TransferInitiationRequest m) = transferInitiationRequestEndpointV1 E m"
| "handleRequest E uuid rnd (Phase2TransferCommenceRequest m) = transferCommenceRequestEndpointV1 E m"
| "handleRequest E uuid rnd (Phase2LockEvidenceRequest m) = lockEvidenceRequestEndpointV1 E m"
| "handleRequest E uuid rnd (Phase3CommitPreparationRequest m) = commitPreparationRequestEndpointV1 E m"
| "handleRequest E uuid rnd (Phase3CommitFinalRequest m) = commitFinalRequestEndpointV1 E m"
| "handleRequest E uuid rnd (Phase3TransferCompleteRequest m) = transferCompleteRequestEndpointV1 E m"
| "handleRequest E uuid rnd (ClientRequest m) = clientRequestEndpointV1 E uuid rnd m"
| "handleRequest E uuid rnd (Phase1TransferInitiationResponse m) = transferInitiationResponseEndpointV1 E m"
| "handleRequest E uuid rnd (Phase2TransferCommenceResponse m) = transferCommenceResponseEndpointV1 E m"
| "handleRequest E uuid rnd (Phase2LockEvidenceResponse m) = lockEvidenceResponseEndpointV1 E m"
| "handleRequest E uuid rnd (Phase3CommitPreparationResponse m) = commitPreparationResponseEndpointV1 E m"
| "handleRequest E uuid rnd (Phase3CommitFinalResponse m) = commitFinalResponseEndpointV1 E m"
| "handleRequest E uuid rnd (RecoverMessage m) = recoverMessageEndpointV1 E m"
| "handleRequest E uuid rnd (RecoverUpdateMessage m) = recoverUpdateMessageEndpointV1 E m"
| "handleRequest E uuid rnd (RecoverUpdateAckMessage m) = recoverUpdateAckMessageEndpointV1 E m"
| "handleRequest E uuid rnd (RecoverSuccessMessage m) = recoverSuccessMessageEndpointV1 E m"
| "handleRequest E uuid rnd (RollbackMessage m) = rollbackMessageEndpointV1 E m"
| "handleRequest E uuid rnd (RollbackAckMessage m) = rollbackAckMessageEndpointV1 E m"

text \<open>The method behind each endpoint, and the session a message is about.\<close>

fun dispatch :: "'x env \<Rightarrow> string \<Rightarrow> int \<Rightarrow> satp_call \<Rightarrow> ('x, unit) gact" where
  "dispatch E uuid rnd (Phase1TransferInitiationRequest m) = onTransferInitiationRequestReceived E m"
| "dispatch E uuid rnd (Phase2TransferCommenceRequest m) = onTransferCommenceRequestReceived E m"
| "dispatch E uuid rnd (Phase2LockEvidenceRequest m) = onLockEvidenceRequestReceived E m"
| "dispatch E uuid rnd (Phase3CommitPreparationRequest m) = onCommitPrepareRequestReceived E m"
| "dispatch E uuid rnd (Phase3CommitFinalRequest m) = onCommitFinalRequestReceived E m"
| "dispatch E uuid rnd (Phase3TransferCompleteRequest m) = onTransferCompleteRequestReceived E m"
| "dispatch E uuid rnd (ClientRequest m) = runSatp E uuid rnd m"
| "dispatch E uuid rnd (Phase1TransferInitiationResponse m) = onTransferInitiationResponseReceived E m"
| "dispatch E uuid rnd (Phase2TransferCommenceResponse m) = onTransferCommenceResponseReceived E m"
| "dispatch E uuid rnd (Phase2LockEvidenceResponse m) = onLockEvidenceResponseReceived E m"
| "dispatch E uuid rnd (Phase3CommitPreparationResponse m) = onCommitPrepareResponseReceived E m"
| "dispatch E uuid rnd (Phase3CommitFinalResponse m) = onCommitFinalResponseReceived E m"
| "dispatch E uuid rnd (RecoverMessage m) = onRecoverMessageReceived E m"
| "dispatch E uuid rnd (RecoverUpdateMessage m) = onRecoverUpdateMessageReceived E m"
| "dispatch E uuid rnd (RecoverUpdateAckMessage m) = onRecoverUpdateAckMessageReceived E m"
| "dispatch E uuid rnd (RecoverSuccessMessage m) = onRecoverSuccessMessageReceived E m"
| "dispatch E uuid rnd (RollbackMessage m) = onRollbackMessageReceived E m"
| "dispatch E uuid rnd (RollbackAckMessage m) = onRollbackAckMessageReceived E m"

fun callSession :: "string \<Rightarrow> satp_call \<Rightarrow> string" where
  "callSession uuid (Phase1TransferInitiationRequest m) = tiq_sessionID m"
| "callSession uuid (Phase2TransferCommenceRequest m) = tcq_sessionID m"
| "callSession uuid (Phase2LockEvidenceRequest m) = leq_sessionID m"
| "callSession uuid (Phase3CommitPreparationRequest m) = cpq_sessionID m"
| "callSession uuid (Phase3CommitFinalRequest m) = cfq_sessionID m"
| "callSession uuid (Phase3TransferCompleteRequest m) = tpq_sessionID m"
| "callSession uuid (ClientRequest m) = uuid"
| "callSession uuid (Phase1TransferInitiationResponse m) = tir_sessionID m"
| "callSession uuid (Phase2TransferCommenceResponse m) = tcr_sessionID m"
| "callSession uuid (Phase2LockEvidenceResponse m) = ler_sessionID m"
| "callSession uuid (Phase3CommitPreparationResponse m) = cpr_sessionID m"
| "callSession uuid (Phase3CommitFinalResponse m) = cfr_sessionID m"
| "callSession uuid (RecoverMessage m) = rec_sessionID m"
| "callSession uuid (RecoverUpdateMessage m) = rup_sessionID m"
| "callSession uuid (RecoverUpdateAckMessage m) = rua_sessionID m"
| "callSession uuid (RecoverSuccessMessage m) = rsu_sessionID m"
| "callSession uuid (RollbackMessage m) = rbk_sessionID m"
| "callSession uuid (RollbackAckMessage m) = rba_sessionID m"

lemmas endpoint_defs =
  transferInitiationRequestEndpointV1_def transferCommenceRequestEndpointV1_def
  lockEvidenceRequestEndpointV1_def commitPreparationRequestEndpointV1_def
  commitFinalRequestEndpointV1_def transferCompleteRequestEndpointV1_def
  clientRequestEndpointV1_def transferInitiationResponseEndpointV1_def
  transferCommenceResponseEndpointV1_def lockEvidenceResponseEndpointV1_def
  commitPreparationResponseEndpointV1_def commitFinalResponseEndpointV1_def
  recoverMessageEndpointV1_def recoverUpdateMessageEndpointV1_def
  recoverUpdateAckMessageEndpointV1_def recoverSuccessMessageEndpointV1_def
  rollbackMessageEndpointV1_def rollbackAckMessageEndpointV1_def

lemma handleRequest_dispatch: "handleRequest E uuid rnd call = respond (dispatch E uuid rnd call)"
  by (cases call) (simp_all add: endpoint_defs)

end
