(* ===== verification/Frame.thy ===== *)
theory Frame
  imports Handlers
begin

text \<open>
  What a run of a gateway can change. The locale \<open>gateway_frame\<close> collects the elementary changes
  of the world that the code makes while it works on one session: the entry of that session in
  the map, a row in the local or the remote log, the clock, and the world outside. A preorder
  that contains these changes, and that the peer and the timer respect, contains every run of
  every method; the properties are interpretations of it.
\<close>

section \<open>Environment\<close>

text \<open>Whatever happens during a request or a timer follows the relation, and time does not go back.\<close>

definition frameEnv :: "('x world \<Rightarrow> 'x world \<Rightarrow> bool) \<Rightarrow> 'x env \<Rightarrow> bool" where
  "frameEnv R E \<longleftrightarrow> (\<forall>b c w. R w (snd (e_post E b c w))) \<and> (\<forall>d w. R w (e_wait E d w)) \<and> (\<forall>t. 0 \<le> e_tick E t)"

text \<open>
  The same for one session: the clock is read, the ledgers and the object store are called, and
  the requests that may be sent are a set of calls that contains every call about the session but
  the messages of the recovery protocol.
\<close>

fun recoveryCall :: "satp_call \<Rightarrow> bool" where
  "recoveryCall (RecoverMessage m) = True"
| "recoveryCall (RecoverUpdateMessage m) = True"
| "recoveryCall (RecoverUpdateAckMessage m) = True"
| "recoveryCall (RecoverSuccessMessage m) = True"
| "recoveryCall _ = False"

definition plainCalls :: "string \<Rightarrow> satp_call set" where
  "plainCalls sessionID = {c. callSession '''' c = sessionID \<and> \<not> recoveryCall c}"

lemma in_plainCalls: "c \<in> plainCalls sessionID \<longleftrightarrow> callSession '''' c = sessionID \<and> \<not> recoveryCall c"
  by (simp add: plainCalls_def)

definition sessionEnv :: "('x world \<Rightarrow> 'x world \<Rightarrow> bool) \<Rightarrow> satp_call set \<Rightarrow> string \<Rightarrow> 'x env \<Rightarrow> bool" where
  "sessionEnv R calls sessionID E \<longleftrightarrow> plainCalls sessionID \<subseteq> calls
     \<and> (\<forall>b c w. c \<in> calls \<longrightarrow> R w (snd (e_post E b c w)))
     \<and> (\<forall>d w. R w (e_wait E d w))
     \<and> (\<forall>w. R w (w\<lparr>w_now := w_now w + e_tick E (w_now w)\<rparr>))
     \<and> (\<forall>p k v w. R w (w\<lparr>w_ext := snd (e_setObjectV1 E p k v (w_ext w))\<rparr>))
     \<and> (\<forall>p i w. R w (w\<lparr>w_ext := snd (e_invokeContractV1 E p i (w_ext w))\<rparr>))
     \<and> (\<forall>p t w. R w (w\<lparr>w_ext := snd (e_runTransactionV1 E p t (w_ext w))\<rparr>))
     \<and> (\<forall>p t w. R w (w\<lparr>w_ext := snd (e_getTransactionReceiptByTxIDV1 E p t (w_ext w))\<rparr>))"

lemma sessionEnv_plain: "sessionEnv R calls s E \<Longrightarrow> callSession '''' c = s \<Longrightarrow> \<not> recoveryCall c \<Longrightarrow> c \<in> calls"
  by (auto simp: sessionEnv_def plainCalls_def)

text \<open>
  The vocabulary of the log: type and operation of every entry the gateways write. With it, the
  text of a key tells the session, the type and the operation.
\<close>

definition messageOperations :: "string list" where
  "messageOperations = [''validate'', ''commence'', ''lock'', ''prepare'', ''final'', ''complete'']"

definition assetOperations :: "string list" where
  "assetOperations = [''lock-asset'', ''create-asset'', ''delete-asset'']"

definition logEntries :: "(string \<times> string) list" where
  "logEntries = concat
    [map (Pair ''init'') messageOperations,
     map (Pair ''exec'') (messageOperations @ assetOperations),
     map (Pair ''done'') (messageOperations @ assetOperations),
     map (Pair ''ack'') (butlast messageOperations),
     map (Pair ''proof'') [''lock'', ''create'', ''delete''],
     map (Pair ''exec-rollback'') (''unlock-asset'' # assetOperations),
     map (Pair ''done-rollback'') (''unlock-asset'' # assetOperations),
     map (Pair ''proof-rollback'') [''lock'', ''unlock'', ''create'', ''delete'']]"

lemma logEntries_intros [follows_intros]:
  "(''init'', ''validate'') \<in> set logEntries" "(''init'', ''commence'') \<in> set logEntries"
  "(''init'', ''lock'') \<in> set logEntries" "(''init'', ''prepare'') \<in> set logEntries"
  "(''init'', ''final'') \<in> set logEntries" "(''init'', ''complete'') \<in> set logEntries"
  "(''exec'', ''validate'') \<in> set logEntries" "(''exec'', ''commence'') \<in> set logEntries"
  "(''exec'', ''lock'') \<in> set logEntries" "(''exec'', ''prepare'') \<in> set logEntries"
  "(''exec'', ''final'') \<in> set logEntries" "(''exec'', ''complete'') \<in> set logEntries"
  "(''exec'', ''lock-asset'') \<in> set logEntries" "(''exec'', ''create-asset'') \<in> set logEntries"
  "(''exec'', ''delete-asset'') \<in> set logEntries" "(''done'', ''validate'') \<in> set logEntries"
  "(''done'', ''commence'') \<in> set logEntries" "(''done'', ''lock'') \<in> set logEntries"
  "(''done'', ''prepare'') \<in> set logEntries" "(''done'', ''final'') \<in> set logEntries"
  "(''done'', ''complete'') \<in> set logEntries" "(''done'', ''lock-asset'') \<in> set logEntries"
  "(''done'', ''create-asset'') \<in> set logEntries" "(''done'', ''delete-asset'') \<in> set logEntries"
  "(''ack'', ''validate'') \<in> set logEntries" "(''ack'', ''commence'') \<in> set logEntries"
  "(''ack'', ''lock'') \<in> set logEntries" "(''ack'', ''prepare'') \<in> set logEntries"
  "(''ack'', ''final'') \<in> set logEntries" "(''proof'', ''lock'') \<in> set logEntries"
  "(''proof'', ''create'') \<in> set logEntries" "(''proof'', ''delete'') \<in> set logEntries"
  "(''exec-rollback'', ''lock-asset'') \<in> set logEntries" "(''exec-rollback'', ''unlock-asset'') \<in> set logEntries"
  "(''exec-rollback'', ''create-asset'') \<in> set logEntries" "(''exec-rollback'', ''delete-asset'') \<in> set logEntries"
  "(''done-rollback'', ''lock-asset'') \<in> set logEntries" "(''done-rollback'', ''unlock-asset'') \<in> set logEntries"
  "(''done-rollback'', ''create-asset'') \<in> set logEntries" "(''done-rollback'', ''delete-asset'') \<in> set logEntries"
  "(''proof-rollback'', ''lock'') \<in> set logEntries" "(''proof-rollback'', ''unlock'') \<in> set logEntries"
  "(''proof-rollback'', ''create'') \<in> set logEntries" "(''proof-rollback'', ''delete'') \<in> set logEntries"
  by (simp_all add: logEntries_def messageOperations_def assetOperations_def)

definition keyEnd :: "string \<times> string \<Rightarrow> string" where
  "keyEnd e = ''-'' @ fst e @ ''-'' @ snd e"

lemma keyEnds_apart:
  "list_all (\<lambda>e. list_all (\<lambda>e'. prefix (rev (keyEnd e)) (rev (keyEnd e')) \<longrightarrow> e = e') logEntries) logEntries"
  by code_simp

lemma logKey_inj:
  assumes "(t1, o1) \<in> set logEntries" "(t2, o2) \<in> set logEntries" "getSatpLogKey s1 t1 o1 = getSatpLogKey s2 t2 o2"
  shows "(s1, t1, o1) = (s2, t2, o2)"
proof -
  have eq: "s1 @ keyEnd (t1, o1) = s2 @ keyEnd (t2, o2)"
    using assms(3) by (simp add: getSatpLogKey_def keyEnd_def)
  then have "suffix (keyEnd (t1, o1)) (keyEnd (t2, o2)) \<or> suffix (keyEnd (t2, o2)) (keyEnd (t1, o1))"
    by (metis suffixI suffix_same_cases)
  then have "(t1, o1) = (t2, o2)"
    using keyEnds_apart assms(1,2) by (auto simp: list_all_iff suffix_to_prefix)
  with eq show ?thesis by simp
qed

definition ownRow :: "string \<Rightarrow> LocalLog \<Rightarrow> bool" where
  "ownRow sessionID l \<longleftrightarrow> ll_sessionID l = sessionID \<and> (ll_type l, ll_operation l) \<in> set logEntries
     \<and> ll_key l = Some (getSatpLogKey (ll_sessionID l) (ll_type l) (ll_operation l))"

lemma ownRow_stampLog:
  "ll_sessionID l = sessionID \<Longrightarrow> (ll_type l, ll_operation l) \<in> set logEntries \<Longrightarrow> ownRow sessionID (stampLog now l)"
  by (simp add: ownRow_def stampLog_def)

text \<open>The messages of a session name it; the initiation request names the one its session data does.\<close>

lemma message_session [simp]:
  "tiq_sessionID (initializationRequestMessage g sd) = the (sd_id sd)"
  "tcq_sessionID (transferCommenceRequestMessage E s sd) = s"
  "leq_sessionID (lockEvidenceRequestMessage t s sd) = s"
  "cpq_sessionID (commitPrepareRequestMessage s sd) = s"
  "cfq_sessionID (commitFinalRequestMessage s sd) = s"
  "tpq_sessionID (transferCompleteRequestMessage s sd) = s"
  "tir_sessionID (transferInitializationResponse g s sd) = s"
  "tcr_sessionID (transferCommenceResponse s sd) = s"
  "ler_sessionID (lockEvidenceResponseMessage s sd) = s"
  "cpr_sessionID (commitPreparationResponseMessage s sd) = s"
  "cfr_sessionID (commitFinalResponseMessage s sd) = s"
  by (simp_all add: initializationRequestMessage_def transferCommenceRequestMessage_def lockEvidenceRequestMessage_def
      commitPrepareRequestMessage_def commitFinalRequestMessage_def transferCompleteRequestMessage_def
      transferInitializationResponse_def transferCommenceResponse_def lockEvidenceResponseMessage_def
      commitPreparationResponseMessage_def commitFinalResponseMessage_def)

section \<open>The interface\<close>

locale gateway_frame = run_preorder R
  for R :: "'x world \<Rightarrow> 'x world \<Rightarrow> bool" +
  fixes sessionID :: string
  assumes put: "R w (setSession sessionID sd w)"
    and removed: "R w (w\<lparr>w_self := (w_self w)\<lparr>sessions := (sessions (w_self w))(sessionID := None)\<rparr>\<rparr>)"
    and logged: "localRepository (w_self w) = Some r \<Longrightarrow> create l r = Some r' \<Longrightarrow> ownRow sessionID l \<Longrightarrow>
          R w (w\<lparr>w_self := (w_self w)\<lparr>localRepository := Some r'\<rparr>\<rparr>)"
    and loggedRemotely: "remoteCreate rl (w_remote w) = Some rr' \<Longrightarrow> R w (w\<lparr>w_remote := rr'\<rparr>)"
begin

subsection \<open>Elementary actions\<close>

lemma follows_putSession [follows_intros]: "follows R (putSession sessionID sd)"
  by (simp add: follows_def putSession_def modifyA_def put)

lemma follows_deleteSession [follows_intros]: "follows R (deleteSession sessionID)"
  by (simp add: follows_def deleteSession_def modifyA_def removed)

lemma follows_prod [follows_intros]: "(\<And>a b. follows R (f a b)) \<Longrightarrow> follows R (case p of (a, b) \<Rightarrow> f a b)"
  by (cases p) simp

lemma follows_ledger [follows_intros]:
  "(\<And>c. follows R (f c)) \<Longrightarrow> (\<And>c. follows R (g c)) \<Longrightarrow>
     follows R (case k of BesuSatpGateway c \<Rightarrow> f c | FabricSatpGateway c \<Rightarrow> g c)"
  by (cases k) simp_all

lemma follows_getSession [follows_intros]: "follows R (getSession s)"
  unfolding getSession_def by (intro follows_intros)

lemma follows_isClientGateway [follows_intros]: "follows R (isClientGateway s)"
  unfolding isClientGateway_def by (intro follows_intros)

lemma follows_kindA [follows_intros]: "follows R kindA"
  unfolding kindA_def by (intro follows_intros)

lemma follows_signA [follows_intros]: "follows R (signA E j)"
  unfolding signA_def by (intro follows_intros)

lemma follows_verifyA [follows_intros]: "follows R (verifyA E j s pk e)"
  unfolding verifyA_def by (intro follows_intros)

lemma follows_dateNow [follows_intros]: "sessionEnv R calls sessionID E \<Longrightarrow> follows R (dateNow E)"
  by (simp add: follows_def dateNow_def sessionEnv_def)

lemma follows_storeInDatabase: "ownRow sessionID l \<Longrightarrow> follows R (storeInDatabase l)"
  unfolding follows_def storeInDatabase_def
  by (auto simp: stays intro: logged split: option.split)

lemma follows_createRemote [follows_intros]: "sessionEnv R calls sessionID E \<Longrightarrow> follows R (createRemote E l)"
  unfolding follows_def createRemote_def
  by (auto simp: stays sessionEnv_def intro: loggedRemotely split: option.split remoteKind.split prod.split) (metis snd_conv)+

lemma follows_storeRemoteLog [follows_intros]: "sessionEnv R calls sessionID E \<Longrightarrow> follows R (storeRemoteLog E k h)"
  unfolding storeRemoteLog_def by (intro follows_intros)

lemma follows_storeLog [follows_intros]:
  "sessionEnv R calls sessionID E \<Longrightarrow> ll_sessionID l = sessionID \<Longrightarrow> (ll_type l, ll_operation l) \<in> set logEntries \<Longrightarrow> follows R (storeLog E l)"
  unfolding storeLog_def Let_def
  by (intro follows_intros follows_storeInDatabase ownRow_stampLog)

lemma follows_storeProof [follows_intros]:
  "sessionEnv R calls sessionID E \<Longrightarrow> ll_sessionID l = sessionID \<Longrightarrow> (ll_type l, ll_operation l) \<in> set logEntries \<Longrightarrow> follows R (storeProof E l)"
  unfolding storeProof_def Let_def
  by (intro follows_intros follows_storeInDatabase ownRow_stampLog)

lemma follows_logSession [follows_intros]: "sessionEnv R calls sessionID E \<Longrightarrow> (t, op') \<in> set logEntries \<Longrightarrow> follows R (logSession E sessionID t op' sd)"
  unfolding logSession_def by (rule follows_storeLog) (simp_all add: mkLog_def)

lemma follows_proofOf [follows_intros]:
  "sessionEnv R calls sessionID E \<Longrightarrow> (t, op') \<in> set logEntries \<Longrightarrow> follows R (storeProof E (mkLog sessionID t op' d))"
  by (rule follows_storeProof) (simp_all add: mkLog_def)

lemma follows_queryLocal [follows_intros]: "follows R (queryLocal f)"
  by (simp add: follows_def queryLocal_def stays split: option.split)

lemma follows_readRemote [follows_intros]: "follows R (readRemote E k)"
  by (simp add: follows_def readRemote_def stays split: option.split remoteKind.split)

lemma follows_getLogFromRemote [follows_intros]: "follows R (getLogFromRemote E k)"
  unfolding getLogFromRemote_def by (intro follows_intros)

lemma follows_getLogsMoreRecent [follows_intros]: "follows R (getLogsMoreRecentThanTimestamp t)"
  unfolding getLogsMoreRecentThanTimestamp_def by (intro follows_intros)

lemma follows_updateLast [follows_intros]:
  "sessionEnv R calls sessionID E \<Longrightarrow> follows R (updateLastMessageReceivedTimestamp E sessionID)"
  unfolding updateLastMessageReceivedTimestamp_def by (intro follows_intros)

subsection \<open>Requests\<close>

lemma follows_postA [follows_intros]: "sessionEnv R calls sessionID E \<Longrightarrow> c \<in> calls \<Longrightarrow> follows R (postA E b c)"
  by (simp add: follows_def postA_def sessionEnv_def split_def)

lemma follows_wait [follows_intros]: "sessionEnv R calls sessionID E \<Longrightarrow> follows R (modifyA (e_wait E d))"
  by (simp add: follows_def modifyA_def sessionEnv_def)

lemma follows_retryLoop [follows_intros]:
  "(\<And>s. follows R (rv s)) \<Longrightarrow> follows R (retryLoop rv s result message m n)"
proof (induction rv s result message m n rule: retryLoop.induct)
  case (1 rv s result message m n)
  show ?case
  proof (cases result)
    case (HttpError st)
    with 1 show ?thesis
      by (subst retryLoop.simps) (auto intro!: follows_ret follows_thenA follows_throwE)
  qed (subst retryLoop.simps; simp add: follows_ret follows_never)+
qed

lemma follows_makeRequestWith [follows_intros]:
  "sessionEnv R calls sessionID E \<Longrightarrow> c \<in> calls \<Longrightarrow> (\<And>s. follows R (rv s)) \<Longrightarrow> follows R (makeRequestWith E rv s b c message)"
  unfolding makeRequestWith_def awaitTimeout_def by (intro follows_intros)


subsection \<open>Ledgers\<close>

lemma follows_besuInvoke [follows_intros]: "sessionEnv R calls sessionID E \<Longrightarrow> follows R (besuInvoke E c p ty m ps)"
  unfolding follows_def besuInvoke_def sessionEnv_def by (auto split: prod.split option.split) (metis snd_conv)+

lemma follows_fabricRun [follows_intros]: "sessionEnv R calls sessionID E \<Longrightarrow> follows R (fabricRun E c p m ps)"
  unfolding follows_def fabricRun_def sessionEnv_def by (auto split: prod.split option.split) (metis snd_conv)+

lemma follows_fabricReceipt [follows_intros]: "sessionEnv R calls sessionID E \<Longrightarrow> follows R (fabricReceipt E c p t)"
  unfolding follows_def fabricReceipt_def sessionEnv_def by (auto split: prod.split option.split) (metis snd_conv)+

lemma follows_propertyA [follows_intros]: "follows R (propertyA k j)"
  unfolding propertyA_def Let_def by (intro follows_intros)

lemma follows_besuReceipt [follows_intros]: "follows R (besuReceipt r)"
  unfolding besuReceipt_def Let_def by (intro follows_intros)

lemma follows_besuSend [follows_intros]: "sessionEnv R calls sessionID E \<Longrightarrow> follows R (besuSend E c m ps)"
  unfolding besuSend_def Let_def by (intro follows_intros)

lemma follows_fabricSend [follows_intros]: "sessionEnv R calls sessionID E \<Longrightarrow> follows R (fabricSend E c m ps)"
  unfolding fabricSend_def Let_def by (intro follows_intros)

lemma follows_besuCallOutput [follows_intros]: "sessionEnv R calls sessionID E \<Longrightarrow> follows R (besuCallOutput E c m a)"
  unfolding besuCallOutput_def Let_def by (intro follows_intros)

lemma follows_besuAssetExists [follows_intros]: "sessionEnv R calls sessionID E \<Longrightarrow> follows R (besuAssetExists E c a)"
  unfolding besuAssetExists_def Let_def by (intro follows_intros)

lemma follows_isBesuAssetLocked [follows_intros]: "sessionEnv R calls sessionID E \<Longrightarrow> follows R (isBesuAssetLocked E c a)"
  unfolding isBesuAssetLocked_def Let_def by (intro follows_intros)

lemma follows_fabricFunctionOutput [follows_intros]: "sessionEnv R calls sessionID E \<Longrightarrow> follows R (fabricFunctionOutput E c m a)"
  unfolding fabricFunctionOutput_def Let_def by (intro follows_intros)

lemma follows_fabricAssetExists [follows_intros]: "sessionEnv R calls sessionID E \<Longrightarrow> follows R (fabricAssetExists E c a)"
  unfolding fabricAssetExists_def Let_def by (intro follows_intros)

lemma follows_isFabricAssetLocked [follows_intros]: "sessionEnv R calls sessionID E \<Longrightarrow> follows R (isFabricAssetLocked E c a)"
  unfolding isFabricAssetLocked_def Let_def by (intro follows_intros)

lemma follows_besuDeleteAsset [follows_intros]: "follows R (besuDeleteAsset s a)"
  unfolding besuDeleteAsset_def Let_def by (intro follows_intros)

lemma follows_besuCreateAssetToRollback [follows_intros]: "follows R (besuCreateAssetToRollback s a)"
  unfolding besuCreateAssetToRollback_def Let_def by (intro follows_intros)

lemma follows_fabricCreateAsset [follows_intros]: "follows R (fabricCreateAsset s a)"
  unfolding fabricCreateAsset_def Let_def by (intro follows_intros)

lemma follows_fabricDeleteAssetToRollback [follows_intros]: "follows R (fabricDeleteAssetToRollback s a)"
  unfolding fabricDeleteAssetToRollback_def Let_def by (intro follows_intros)

lemma follows_besuCreateAsset [follows_intros]: "sessionEnv R calls sessionID E \<Longrightarrow> follows R (besuCreateAsset E c sessionID a)"
  unfolding besuCreateAsset_def Let_def by (intro follows_intros)

lemma follows_besuLockAsset [follows_intros]: "sessionEnv R calls sessionID E \<Longrightarrow> follows R (besuLockAsset E c sessionID a)"
  unfolding besuLockAsset_def Let_def by (intro follows_intros)

lemma follows_besuUnlockAsset [follows_intros]: "sessionEnv R calls sessionID E \<Longrightarrow> follows R (besuUnlockAsset E c sessionID a)"
  unfolding besuUnlockAsset_def Let_def by (intro follows_intros)

lemma follows_besuDeleteAssetToRollback [follows_intros]: "sessionEnv R calls sessionID E \<Longrightarrow> follows R (besuDeleteAssetToRollback E c sessionID a)"
  unfolding besuDeleteAssetToRollback_def Let_def by (intro follows_intros)

lemma follows_besuRollback [follows_intros]: "sessionEnv R calls sessionID E \<Longrightarrow> follows R (besuRollback E c sessionID)"
  unfolding besuRollback_def Let_def by (intro follows_intros)

lemma follows_fabricLockAsset [follows_intros]: "sessionEnv R calls sessionID E \<Longrightarrow> follows R (fabricLockAsset E c sessionID a)"
  unfolding fabricLockAsset_def Let_def by (intro follows_intros)

lemma follows_fabricUnlockAsset [follows_intros]: "sessionEnv R calls sessionID E \<Longrightarrow> follows R (fabricUnlockAsset E c sessionID a)"
  unfolding fabricUnlockAsset_def Let_def by (intro follows_intros)

lemma follows_fabricDeleteAsset [follows_intros]: "sessionEnv R calls sessionID E \<Longrightarrow> follows R (fabricDeleteAsset E c sessionID a)"
  unfolding fabricDeleteAsset_def Let_def by (intro follows_intros)

lemma follows_fabricCreateAssetToRollback [follows_intros]: "sessionEnv R calls sessionID E \<Longrightarrow> follows R (fabricCreateAssetToRollback E c sessionID a)"
  unfolding fabricCreateAssetToRollback_def Let_def by (intro follows_intros)

lemma follows_fabricRollback [follows_intros]: "sessionEnv R calls sessionID E \<Longrightarrow> follows R (fabricRollback E c sessionID)"
  unfolding fabricRollback_def Let_def by (intro follows_intros)

lemma follows_lockAsset [follows_intros]: "sessionEnv R calls sessionID E \<Longrightarrow> follows R (lockAsset E sessionID)"
  unfolding lockAsset_def Let_def by (intro follows_intros)

lemma follows_createAsset [follows_intros]: "sessionEnv R calls sessionID E \<Longrightarrow> follows R (createAsset E sessionID)"
  unfolding createAsset_def Let_def by (intro follows_intros)

lemma follows_deleteAsset [follows_intros]: "sessionEnv R calls sessionID E \<Longrightarrow> follows R (deleteAsset E sessionID)"
  unfolding deleteAsset_def Let_def by (intro follows_intros)

lemma follows_rollback [follows_intros]: "sessionEnv R calls sessionID E \<Longrightarrow> follows R (rollback E sessionID)"
  unfolding rollback_def Let_def by (intro follows_intros)

subsection \<open>Rollback and requests\<close>

lemma follows_peerBasePath [follows_intros]: "follows R (peerBasePath s sd)"
  unfolding peerBasePath_def Let_def by (intro follows_intros)

lemma follows_peerPubKey [follows_intros]: "follows R (peerPubKey s)"
  unfolding peerPubKey_def Let_def by (intro follows_intros)

lemma follows_sendRollbackMessage [follows_intros]:
  assumes E: "sessionEnv R calls sessionID E"
  shows "follows R (sendRollbackMessage E sessionID r)"
  unfolding sendRollbackMessage_def Let_def by (rule follows_intros E sessionEnv_plain [OF E] | simp)+

lemma follows_checkValidRollbackMessage [follows_intros]: "follows R (checkValidRollbackMessage E m)"
  unfolding checkValidRollbackMessage_def Let_def by (intro follows_intros)

lemma follows_Revert: "sessionEnv R calls sessionID E \<Longrightarrow> follows R (Revert E sessionID)"
  unfolding Revert_def by (intro follows_intros)

text \<open>\<open>Revert\<close> is only ever called with the session of the request.\<close>

lemma retryLoop_revert_at:
  "retryLoop rv s result message m n = retryLoop (\<lambda>_. rv s) s result message m n"
proof (induction rv s result message m n rule: retryLoop.induct)
  case (1 rv s result message m n)
  then show ?case by (subst (1 2) retryLoop.simps) (simp split: http_result.split)
qed

lemma makeRequestWith_revert_at:
  "makeRequestWith E rv s b c message = makeRequestWith E (\<lambda>_. rv s) s b c message"
  unfolding makeRequestWith_def awaitTimeout_def by (subst retryLoop_revert_at) (rule refl)

lemma follows_makeRequest [follows_intros]:
  "sessionEnv R calls sessionID E \<Longrightarrow> c \<in> calls \<Longrightarrow> follows R (makeRequest E sessionID b c message)"
  unfolding makeRequest_def by (subst makeRequestWith_revert_at) (intro follows_intros follows_Revert)

lemma follows_deliver [follows_intros]: "sessionEnv R calls sessionID E \<Longrightarrow> c \<in> calls \<Longrightarrow> follows R (deliver E sessionID r b c n m)"
  unfolding deliver_def Let_def by (intro follows_intros)

lemma follows_sendRollbackAckMessage [follows_intros]:
  assumes E: "sessionEnv R calls sessionID E"
  shows "follows R (sendRollbackAckMessage E sessionID r)"
  unfolding sendRollbackAckMessage_def Let_def by (rule follows_intros E sessionEnv_plain [OF E] | simp)+

lemma follows_checkValidRollbackAckMessage [follows_intros]: "follows R (checkValidRollbackAckMessage E m)"
  unfolding checkValidRollbackAckMessage_def Let_def by (intro follows_intros)

lemma follows_checkClaim [follows_intros]: "follows R (checkClaim E s op' c pk)"
  unfolding checkClaim_def Let_def by (intro follows_intros)

subsection \<open>Client helper\<close>

lemma follows_dayFromNow [follows_intros]: "sessionEnv R calls sessionID E \<Longrightarrow> follows R (dayFromNow E)"
  unfolding dayFromNow_def Let_def by (intro follows_intros)

lemma follows_sendTransferInitializationRequest [follows_intros]:
  assumes E: "sessionEnv R UNIV sessionID E"
  shows "follows R (sendTransferInitializationRequest E sessionID r)"
  unfolding sendTransferInitializationRequest_def Let_def by (rule follows_intros E UNIV_I)+

lemma sendTransferInitializationRequest_own:
  assumes "sessionEnv R calls sessionID E" "session w sessionID = Some sd" "sd_id sd = Some sessionID"
  shows "R w (snd (sendTransferInitializationRequest E sessionID r w))"
proof -
  have known: "follows R (k sd) \<Longrightarrow> R w (snd (bindA (getSession sessionID) k w))"
    for k :: "SessionData \<Rightarrow> ('x, TransferInitializationV1Request option) gact"
    using assms(2) by (simp add: follows_def bindA_def getSession_def getsA_def ret_def)
  show ?thesis
    unfolding sendTransferInitializationRequest_def Let_def
    by (rule known) (rule follows_intros assms(1) sessionEnv_plain [OF assms(1)] | simp add: assms(3))+
qed

lemma follows_sendTransferCommenceRequest [follows_intros]:
  assumes E: "sessionEnv R calls sessionID E"
  shows "follows R (sendTransferCommenceRequest E sessionID r)"
  unfolding sendTransferCommenceRequest_def Let_def by (rule follows_intros E sessionEnv_plain [OF E] | simp)+

lemma follows_sendLockEvidenceRequest [follows_intros]:
  assumes E: "sessionEnv R calls sessionID E"
  shows "follows R (sendLockEvidenceRequest E sessionID r)"
  unfolding sendLockEvidenceRequest_def Let_def by (rule follows_intros E sessionEnv_plain [OF E] | simp)+

lemma follows_sendCommitPreparationRequest [follows_intros]:
  assumes E: "sessionEnv R calls sessionID E"
  shows "follows R (sendCommitPreparationRequest E sessionID r)"
  unfolding sendCommitPreparationRequest_def Let_def by (rule follows_intros E sessionEnv_plain [OF E] | simp)+

lemma follows_sendCommitFinalRequest [follows_intros]:
  assumes E: "sessionEnv R calls sessionID E"
  shows "follows R (sendCommitFinalRequest E sessionID r)"
  unfolding sendCommitFinalRequest_def Let_def by (rule follows_intros E sessionEnv_plain [OF E] | simp)+

lemma follows_sendTransferCompleteRequest [follows_intros]:
  assumes E: "sessionEnv R calls sessionID E"
  shows "follows R (sendTransferCompleteRequest E sessionID r)"
  unfolding sendTransferCompleteRequest_def Let_def by (rule follows_intros E sessionEnv_plain [OF E] | simp)+

lemma follows_checkValidInitializationResponse [follows_intros]:
  assumes s: "tir_sessionID m = sessionID"
  shows "follows R (checkValidInitializationResponse E m)"
  unfolding checkValidInitializationResponse_def Let_def s by (rule follows_intros assms)+

lemma follows_checkValidTransferCommenceResponse [follows_intros]:
  assumes s: "tcr_sessionID m = sessionID"
  shows "follows R (checkValidTransferCommenceResponse E m)"
  unfolding checkValidTransferCommenceResponse_def Let_def s by (rule follows_intros assms)+

lemma follows_checkValidLockEvidenceResponse [follows_intros]:
  assumes s: "ler_sessionID m = sessionID"
  shows "follows R (checkValidLockEvidenceResponse E m)"
  unfolding checkValidLockEvidenceResponse_def Let_def s by (rule follows_intros assms)+

lemma follows_checkValidCommitPreparationResponse [follows_intros]:
  assumes s: "cpr_sessionID m = sessionID"
  shows "follows R (checkValidCommitPreparationResponse E m)"
  unfolding checkValidCommitPreparationResponse_def Let_def s by (rule follows_intros assms)+

lemma follows_checkValidCommitFinalResponse [follows_intros]:
  assumes s: "cfr_sessionID m = sessionID"
  shows "follows R (checkValidCommitFinalResponse E m)"
  unfolding checkValidCommitFinalResponse_def Let_def s by (rule follows_intros assms)+

subsection \<open>Server helper\<close>

lemma follows_sendTransferInitializationResponse [follows_intros]:
  assumes E: "sessionEnv R calls sessionID E"
  shows "follows R (sendTransferInitializationResponse E sessionID r)"
  unfolding sendTransferInitializationResponse_def Let_def by (rule follows_intros E sessionEnv_plain [OF E] | simp)+

lemma follows_sendTransferCommenceResponse [follows_intros]:
  assumes E: "sessionEnv R calls sessionID E"
  shows "follows R (sendTransferCommenceResponse E sessionID r)"
  unfolding sendTransferCommenceResponse_def Let_def by (rule follows_intros E sessionEnv_plain [OF E] | simp)+

lemma follows_sendLockEvidenceResponse [follows_intros]:
  assumes E: "sessionEnv R calls sessionID E"
  shows "follows R (sendLockEvidenceResponse E sessionID r)"
  unfolding sendLockEvidenceResponse_def Let_def by (rule follows_intros E sessionEnv_plain [OF E] | simp)+

lemma follows_sendCommitPreparationResponse [follows_intros]:
  assumes E: "sessionEnv R calls sessionID E"
  shows "follows R (sendCommitPreparationResponse E sessionID r)"
  unfolding sendCommitPreparationResponse_def Let_def by (rule follows_intros E sessionEnv_plain [OF E] | simp)+

lemma follows_sendCommitFinalResponse [follows_intros]:
  assumes E: "sessionEnv R calls sessionID E"
  shows "follows R (sendCommitFinalResponse E sessionID r)"
  unfolding sendCommitFinalResponse_def Let_def by (rule follows_intros E sessionEnv_plain [OF E] | simp)+

lemma follows_checkValidInitializationRequest [follows_intros]:
  assumes "sessionEnv R calls sessionID E" and s: "tiq_sessionID m = sessionID"
  shows "follows R (checkValidInitializationRequest E m)"
  unfolding checkValidInitializationRequest_def Let_def s by (rule follows_intros assms)+

lemma follows_checkValidtransferCommenceRequest [follows_intros]:
  assumes "sessionEnv R calls sessionID E" and s: "tcq_sessionID m = sessionID"
  shows "follows R (checkValidtransferCommenceRequest E m)"
  unfolding checkValidtransferCommenceRequest_def Let_def s by (rule follows_intros assms)+

lemma follows_checkValidLockEvidenceRequest [follows_intros]:
  assumes "sessionEnv R calls sessionID E" and s: "leq_sessionID m = sessionID"
  shows "follows R (checkValidLockEvidenceRequest E m)"
  unfolding checkValidLockEvidenceRequest_def Let_def s by (rule follows_intros assms)+

lemma follows_checkValidCommitPreparationRequest [follows_intros]:
  assumes "sessionEnv R calls sessionID E" and s: "cpq_sessionID m = sessionID"
  shows "follows R (checkValidCommitPreparationRequest E m)"
  unfolding checkValidCommitPreparationRequest_def Let_def s by (rule follows_intros assms)+

lemma follows_checkValidCommitFinalRequest [follows_intros]:
  assumes "sessionEnv R calls sessionID E" and s: "cfq_sessionID m = sessionID"
  shows "follows R (checkValidCommitFinalRequest E m)"
  unfolding checkValidCommitFinalRequest_def Let_def s by (rule follows_intros assms)+

lemma follows_checkValidTransferCompleteRequest [follows_intros]:
  assumes "sessionEnv R calls sessionID E" and s: "tpq_sessionID m = sessionID"
  shows "follows R (checkValidTransferCompleteRequest E m)"
  unfolding checkValidTransferCompleteRequest_def Let_def s by (rule follows_intros assms)+

subsection \<open>Recovery\<close>

lemma follows_sendRecoverMessage [follows_intros]:
  assumes E: "sessionEnv R UNIV sessionID E"
  shows "follows R (sendRecoverMessage E sessionID b r)"
  unfolding sendRecoverMessage_def Let_def by (rule follows_intros E UNIV_I)+

lemma follows_sendRecoverUpdateMessage [follows_intros]:
  assumes E: "sessionEnv R UNIV sessionID E"
  shows "follows R (sendRecoverUpdateMessage E sessionID r)"
  unfolding sendRecoverUpdateMessage_def Let_def by (rule follows_intros E UNIV_I)+

lemma follows_sendRecoverUpdateAckMessage [follows_intros]:
  assumes E: "sessionEnv R UNIV sessionID E"
  shows "follows R (sendRecoverUpdateAckMessage E sessionID r)"
  unfolding sendRecoverUpdateAckMessage_def Let_def by (rule follows_intros E UNIV_I)+

lemma follows_sendRecoverSuccessMessage [follows_intros]:
  assumes E: "sessionEnv R UNIV sessionID E"
  shows "follows R (sendRecoverSuccessMessage E sessionID r)"
  unfolding sendRecoverSuccessMessage_def Let_def by (rule follows_intros E UNIV_I)+

lemma follows_checkValidRecoverMessage [follows_intros]:
  assumes s: "rec_sessionID m = sessionID"
  shows "follows R (checkValidRecoverMessage E m)"
  unfolding checkValidRecoverMessage_def Let_def s by (rule follows_intros assms)+

lemma follows_adoptLog [follows_intros]: "follows R (adoptLog sessionID d)"
  unfolding adoptLog_def Let_def by (intro follows_intros)

lemma follows_checkRecoveredLogs [follows_intros]: "follows R (checkRecoveredLogs E sessionID t logs)"
proof (induction logs arbitrary: t)
  case Nil
  show ?case unfolding checkRecoveredLogs.simps by (rule follows_ret)
next
  case (Cons l logs)
  then show ?case unfolding checkRecoveredLogs.simps by (intro follows_intros)
qed

lemma follows_checkValidRecoverUpdateMessage [follows_intros]:
  assumes s: "rup_sessionID m = sessionID"
  shows "follows R (checkValidRecoverUpdateMessage E m)"
  unfolding checkValidRecoverUpdateMessage_def Let_def s by (rule follows_intros assms)+

lemma follows_checkValidRecoverUpdateAckMessage [follows_intros]: "follows R (checkValidRecoverUpdateAckMessage E m)"
  unfolding checkValidRecoverUpdateAckMessage_def Let_def by (intro follows_intros)

lemma follows_checkValidRecoverSuccessMessage [follows_intros]: "follows R (checkValidRecoverSuccessMessage E m)"
  unfolding checkValidRecoverSuccessMessage_def Let_def by (intro follows_intros)

lemma follows_resumedBy [follows_intros]: "follows R m \<Longrightarrow> follows R (resumedBy c m)"
  unfolding resumedBy_def by (intro follows_intros)

lemma follows_resumeStep [follows_intros]: "sessionEnv R UNIV sessionID E \<Longrightarrow> follows R (resumeStep E sessionID r n)"
  unfolding resumeStep_def Let_def by (intro follows_intros)

lemma follows_resumeSatpSession [follows_intros]: "sessionEnv R UNIV sessionID E \<Longrightarrow> follows R (resumeSatpSession E sessionID r)"
  unfolding resumeSatpSession_def Let_def by (intro follows_intros)

subsection \<open>Handlers\<close>

lemma follows_onTransferInitiationRequestReceived [follows_intros]:
  assumes "sessionEnv R calls sessionID E" and s: "tiq_sessionID m = sessionID"
  shows "follows R (onTransferInitiationRequestReceived E m)"
  unfolding onTransferInitiationRequestReceived_def Let_def s by (rule follows_intros assms)+

lemma follows_onTransferCommenceRequestReceived [follows_intros]:
  assumes "sessionEnv R calls sessionID E" and s: "tcq_sessionID m = sessionID"
  shows "follows R (onTransferCommenceRequestReceived E m)"
  unfolding onTransferCommenceRequestReceived_def Let_def s by (rule follows_intros assms)+

lemma follows_onLockEvidenceRequestReceived [follows_intros]:
  assumes "sessionEnv R calls sessionID E" and s: "leq_sessionID m = sessionID"
  shows "follows R (onLockEvidenceRequestReceived E m)"
  unfolding onLockEvidenceRequestReceived_def Let_def s by (rule follows_intros assms)+

lemma follows_onCommitPrepareRequestReceived [follows_intros]:
  assumes "sessionEnv R calls sessionID E" and s: "cpq_sessionID m = sessionID"
  shows "follows R (onCommitPrepareRequestReceived E m)"
  unfolding onCommitPrepareRequestReceived_def Let_def s by (rule follows_intros assms)+

lemma follows_onCommitFinalRequestReceived [follows_intros]:
  assumes "sessionEnv R calls sessionID E" and s: "cfq_sessionID m = sessionID"
  shows "follows R (onCommitFinalRequestReceived E m)"
  unfolding onCommitFinalRequestReceived_def Let_def s by (rule follows_intros assms)+

lemma follows_onTransferCompleteRequestReceived [follows_intros]:
  assumes "sessionEnv R calls sessionID E" and s: "tpq_sessionID m = sessionID"
  shows "follows R (onTransferCompleteRequestReceived E m)"
  unfolding onTransferCompleteRequestReceived_def Let_def s by (rule follows_intros assms)+

lemma follows_onTransferInitiationResponseReceived [follows_intros]:
  assumes "sessionEnv R calls sessionID E" and s: "tir_sessionID m = sessionID"
  shows "follows R (onTransferInitiationResponseReceived E m)"
  unfolding onTransferInitiationResponseReceived_def Let_def s by (rule follows_intros assms)+

lemma follows_onTransferCommenceResponseReceived [follows_intros]:
  assumes "sessionEnv R calls sessionID E" and s: "tcr_sessionID m = sessionID"
  shows "follows R (onTransferCommenceResponseReceived E m)"
  unfolding onTransferCommenceResponseReceived_def Let_def s by (rule follows_intros assms)+

lemma follows_onLockEvidenceResponseReceived [follows_intros]:
  assumes "sessionEnv R calls sessionID E" and s: "ler_sessionID m = sessionID"
  shows "follows R (onLockEvidenceResponseReceived E m)"
  unfolding onLockEvidenceResponseReceived_def Let_def s by (rule follows_intros assms)+

lemma follows_onCommitPrepareResponseReceived [follows_intros]:
  assumes "sessionEnv R calls sessionID E" and s: "cpr_sessionID m = sessionID"
  shows "follows R (onCommitPrepareResponseReceived E m)"
  unfolding onCommitPrepareResponseReceived_def Let_def s by (rule follows_intros assms)+

lemma follows_onCommitFinalResponseReceived [follows_intros]:
  assumes "sessionEnv R calls sessionID E" and s: "cfr_sessionID m = sessionID"
  shows "follows R (onCommitFinalResponseReceived E m)"
  unfolding onCommitFinalResponseReceived_def Let_def s by (rule follows_intros assms)+

lemma follows_onRecoverMessageReceived [follows_intros]:
  assumes "sessionEnv R UNIV sessionID E" and s: "rec_sessionID m = sessionID"
  shows "follows R (onRecoverMessageReceived E m)"
  unfolding onRecoverMessageReceived_def Let_def s by (rule follows_intros assms)+

lemma follows_onRecoverUpdateMessageReceived [follows_intros]:
  assumes "sessionEnv R UNIV sessionID E" and s: "rup_sessionID m = sessionID"
  shows "follows R (onRecoverUpdateMessageReceived E m)"
  unfolding onRecoverUpdateMessageReceived_def Let_def s by (rule follows_intros assms)+

lemma follows_onRecoverUpdateAckMessageReceived [follows_intros]:
  assumes "sessionEnv R UNIV sessionID E" and s: "rua_sessionID m = sessionID"
  shows "follows R (onRecoverUpdateAckMessageReceived E m)"
  unfolding onRecoverUpdateAckMessageReceived_def Let_def s by (rule follows_intros assms)+

lemma follows_onRecoverSuccessMessageReceived [follows_intros]:
  assumes "sessionEnv R UNIV sessionID E" and s: "rsu_sessionID m = sessionID"
  shows "follows R (onRecoverSuccessMessageReceived E m)"
  unfolding onRecoverSuccessMessageReceived_def Let_def s by (rule follows_intros assms)+

lemma follows_onRollbackMessageReceived [follows_intros]:
  assumes "sessionEnv R calls sessionID E" and s: "rbk_sessionID m = sessionID"
  shows "follows R (onRollbackMessageReceived E m)"
  unfolding onRollbackMessageReceived_def Let_def s by (rule follows_intros assms)+

lemma follows_onRollbackAckMessageReceived [follows_intros]:
  assumes "sessionEnv R calls sessionID E" and s: "rba_sessionID m = sessionID"
  shows "follows R (onRollbackAckMessageReceived E m)"
  unfolding onRollbackAckMessageReceived_def Let_def s by (rule follows_intros assms)+

lemma follows_configureOdapSession [follows_intros]:
  "sessionEnv R calls sessionID E \<Longrightarrow> follows R (configureOdapSession E sessionID rnd request)"
  unfolding configureOdapSession_def by (intro follows_intros)

lemma follows_runSatp [follows_intros]:
  assumes E: "sessionEnv R calls sessionID E"
  shows "follows R (runSatp E sessionID rnd request)"
proof (unfold follows_def, rule allI)
  fix w
  define w1 where "w1 = snd (configureOdapSession E sessionID rnd request w)"
  have run: "configureOdapSession E sessionID rnd request w = (Returns sessionID, w1)"
    by (simp add: w1_def configureOdapSession_def dateNow_def putSession_def thenA_def bindA_def getsA_def modifyA_def ret_def)
  have "session w1 sessionID \<noteq> None" "sd_id (the (session w1 sessionID)) = Some sessionID"
    by (simp_all add: w1_def configureOdapSession_def dateNow_def putSession_def thenA_def bindA_def getsA_def modifyA_def
        ret_def session_def setSession_def configuredSession_def)
  then have "R w1 (snd (sendTransferInitializationRequest E sessionID True w1))"
    using sendTransferInitializationRequest_own [OF E] by auto
  moreover have "R w w1"
    by (rule followsD [OF follows_configureOdapSession [OF E] run])
  moreover have "snd (runSatp E sessionID rnd request w) = snd (sendTransferInitializationRequest E sessionID True w1)"
    using run by (simp add: runSatp_def bindA_def thenA_def ret_def split: prod.split outcome.split)
  ultimately show "R w (snd (runSatp E sessionID rnd request w))" using chain by simp
qed

text \<open>The whole interface: a call about the session follows the relation.\<close>

lemma follows_dispatch:
  "sessionEnv R calls sessionID E \<Longrightarrow> callSession uuid call = sessionID \<Longrightarrow> calls = UNIV \<or> \<not> recoveryCall call \<Longrightarrow>
     follows R (dispatch E uuid rnd call)"
  by (cases call) (auto intro: follows_intros)

lemma handleRequest_follows:
  assumes "sessionEnv R calls sessionID E" "callSession uuid call = sessionID" "calls = UNIV \<or> \<not> recoveryCall call"
    "handleRequest E uuid rnd call w = (status, w')"
  shows "R w w'"
proof -
  have "R w (snd (dispatch E uuid rnd call w))"
    using follows_dispatch [OF assms(1-3)] by (simp add: follows_def)
  moreover have "w' = snd (dispatch E uuid rnd call w)"
    using assms(4) by (auto simp: handleRequest_dispatch respond_def split: prod.splits outcome.splits)
  ultimately show ?thesis by simp
qed

lemma follows_recoverLog:
  assumes "sessionEnv R UNIV sessionID E" and s: "ll_sessionID log = sessionID"
  shows "follows R (recoverLog E remote log)"
  unfolding recoverLog_def Let_def s by (rule follows_intros assms)+

end

section \<open>All sessions\<close>

text \<open>A relation that admits the changes of every session also contains the recovery of all sessions.\<close>

locale all_sessions_frame =
  fixes R :: "'x world \<Rightarrow> 'x world \<Rightarrow> bool"
  assumes frame: "gateway_frame R s"
    and later: "0 \<le> d \<Longrightarrow> R w (w\<lparr>w_now := w_now w + d\<rparr>)"
    and outside: "R w (w\<lparr>w_ext := x\<rparr>)"
begin

sublocale any: gateway_frame R s for s
  by (rule frame)

lemma session_env: "frameEnv R E \<Longrightarrow> sessionEnv R UNIV s E"
  by (simp add: frameEnv_def sessionEnv_def later outside)

lemma follows_storeRemoteLog: "follows R (storeRemoteLog E k h)"
proof -
  have "follows R (createRemote E l)" for l
    unfolding follows_def createRemote_def
    by (auto simp: any.stays outside intro: any.loggedRemotely split: option.split remoteKind.split prod.split)
  then show ?thesis
    unfolding storeRemoteLog_def
    by (intro any.follows_bindA any.follows_getsA any.follows_signA any.follows_ensure)
qed

lemma follows_recoverOpenSessions:
  assumes "frameEnv R E"
  shows "follows R (recoverOpenSessions E remote)"
  unfolding recoverOpenSessions_def
  by (intro any.follows_bindA any.follows_queryLocal any.follows_option any.follows_throwE
      any.follows_forEachA any.follows_recoverLog [OF session_env [OF assms] refl])

lemma handleRequest_in:
  "frameEnv R E \<Longrightarrow> handleRequest E uuid rnd call w = (status, w') \<Longrightarrow> R w w'"
  using any.handleRequest_follows [OF session_env _ disjI1] by blast

end

section \<open>Interpretations\<close>

text \<open>Only the session of the message changes.\<close>

definition otherSessionsSame :: "string \<Rightarrow> 'x world \<Rightarrow> 'x world \<Rightarrow> bool" where
  "otherSessionsSame sessionID w w' \<longleftrightarrow> (\<forall>s. s \<noteq> sessionID \<longrightarrow> session w' s = session w s)"

interpretation isolation: gateway_frame "otherSessionsSame s" s for s
  by unfold_locales (auto simp: otherSessionsSame_def session_def setSession_def)

text \<open>Keys, allow lists, the ledger connection and the kind of remote log never change.\<close>

definition configuration :: "gateway \<Rightarrow> string \<times> string \<times> string list \<times> string list \<times> ledgerGateway \<times> remoteKind option" where
  "configuration g = (pubKey g, privKey g, supportedDltIDs g, backupGatewaysAllowed g, ledgerKind g, remoteRepository g)"

definition sameConfiguration :: "'x world \<Rightarrow> 'x world \<Rightarrow> bool" where
  "sameConfiguration w w' \<longleftrightarrow> configuration (w_self w') = configuration (w_self w)"

interpretation config: all_sessions_frame sameConfiguration
  by unfold_locales (auto simp: sameConfiguration_def configuration_def setSession_def)

text \<open>Both logs only grow, and what one message adds locally belongs to its session.\<close>

definition localRows :: "'x world \<Rightarrow> LocalLog list" where
  "localRows w = (case localRepository (w_self w) of None \<Rightarrow> [] | Some r \<Rightarrow> lr_rows r)"

definition logsGrow :: "(LocalLog \<Rightarrow> bool) \<Rightarrow> 'x world \<Rightarrow> 'x world \<Rightarrow> bool" where
  "logsGrow P w w' \<longleftrightarrow> (\<exists>ls rs. localRows w' = localRows w @ ls \<and> (\<forall>l \<in> set ls. P l)
     \<and> rr_rows (w_remote w') = rr_rows (w_remote w) @ rs)"

lemma logsGrow_refl: "logsGrow P w w"
  by (auto simp: logsGrow_def)

lemma logsGrow_trans: "logsGrow P w w' \<Longrightarrow> logsGrow P w' w'' \<Longrightarrow> logsGrow P w w''"
  by (auto simp: logsGrow_def)

lemma logsGrow_weaken: "logsGrow P w w' \<Longrightarrow> (\<And>l. P l \<Longrightarrow> Q l) \<Longrightarrow> logsGrow Q w w'"
  by (auto simp: logsGrow_def)

lemma logsGrow_create:
  "localRepository (w_self w) = Some r \<Longrightarrow> create l r = Some r' \<Longrightarrow> P l \<Longrightarrow>
     logsGrow P w (w\<lparr>w_self := (w_self w)\<lparr>localRepository := Some r'\<rparr>\<rparr>)"
  by (auto simp: logsGrow_def localRows_def create_def split: if_splits)

lemma logsGrow_remoteCreate: "remoteCreate l (w_remote w) = Some r' \<Longrightarrow> logsGrow P w (w\<lparr>w_remote := r'\<rparr>)"
  by (auto simp: logsGrow_def localRows_def remoteCreate_def split: if_splits)

lemma logsGrow_same:
  "localRepository (w_self w') = localRepository (w_self w) \<Longrightarrow> w_remote w' = w_remote w \<Longrightarrow> logsGrow P w w'"
  by (auto simp: logsGrow_def localRows_def)

interpretation growth: gateway_frame "logsGrow (ownRow s)" s for s
  by unfold_locales
     (auto intro: logsGrow_refl logsGrow_trans logsGrow_create logsGrow_remoteCreate
        simp: setSession_def logsGrow_same)

interpretation appendOnly: all_sessions_frame "logsGrow (\<lambda>_. True)"
  by unfold_locales
     (auto intro: logsGrow_refl logsGrow_trans logsGrow_create logsGrow_remoteCreate
        simp: setSession_def logsGrow_same)

text \<open>The clock does not go back.\<close>

definition timePasses :: "'x world \<Rightarrow> 'x world \<Rightarrow> bool" where
  "timePasses w w' \<longleftrightarrow> w_now w \<le> w_now w'"

interpretation clock: all_sessions_frame timePasses
  by unfold_locales (auto simp: timePasses_def setSession_def)

text \<open>
  The invariant of the local log: keys are unique, and each is made of the session, the type and
  the operation of its row.
\<close>

definition wfRows :: "LocalLog list \<Rightarrow> bool" where
  "wfRows ls \<longleftrightarrow> distinct (map ll_key ls)
     \<and> (\<forall>l \<in> set ls. ownRow (ll_sessionID l) l \<and> ll_data l \<noteq> None \<and> ll_timestamp l \<noteq> None)"

definition wfLog :: "'x world \<Rightarrow> bool" where
  "wfLog w \<longleftrightarrow> wfRows (localRows w)"

lemma wfRows_create:
  "create l r = Some r' \<Longrightarrow> wfRows (lr_rows r) \<Longrightarrow> ownRow s l \<Longrightarrow> wfRows (lr_rows r')"
proof -
  assume c: "create l r = Some r'" and wf: "wfRows (lr_rows r)" and own: "ownRow s l"
  from c have r': "lr_rows r' = lr_rows r @ [l]" "ll_data l \<noteq> None" "ll_timestamp l \<noteq> None"
    and fresh: "ll_key l \<notin> ll_key ` set (lr_rows r)"
    by (auto simp: create_def split: if_splits)
  have "ownRow (ll_sessionID l) l" using own by (simp add: ownRow_def)
  with wf r' fresh show ?thesis by (simp add: wfRows_def)
qed

interpretation logInvariant: all_sessions_frame "keeps wfLog"
  by unfold_locales
     (auto simp: keeps_def wfLog_def localRows_def setSession_def intro: wfRows_create)

section \<open>Reachable states\<close>

text \<open>
  A gateway receives calls, recovers its sessions, and time passes; in between, other gateways
  write to the shared remote log and the rest of the world changes.
\<close>

inductive gatewayStep :: "'x env \<Rightarrow> 'x world \<Rightarrow> 'x world \<Rightarrow> bool" for E where
  received: "handleRequest E uuid rnd call w = (status, w') \<Longrightarrow> gatewayStep E w w'"
| recovered: "recoverOpenSessions E remote w = (r, w') \<Longrightarrow> gatewayStep E w w'"
| elapsed: "0 \<le> d \<Longrightarrow> gatewayStep E w (w\<lparr>w_now := w_now w + d\<rparr>)"
| remotely: "remoteCreate l (w_remote w) = Some r \<Longrightarrow> gatewayStep E w (w\<lparr>w_remote := r\<rparr>)"
| outsideStep: "gatewayStep E w (w\<lparr>w_ext := x\<rparr>)"

inductive reachable :: "'x env \<Rightarrow> 'x world \<Rightarrow> 'x world \<Rightarrow> bool" for E where
  start: "reachable E w w"
| step: "reachable E w w' \<Longrightarrow> gatewayStep E w' w'' \<Longrightarrow> reachable E w w''"

context all_sessions_frame
begin

lemma gatewayStep_in:
  assumes "frameEnv R E" "gatewayStep E w w'"
  shows "R w w'"
  using assms(2)
proof cases
  case (received uuid rnd call status)
  with assms(1) show ?thesis by (rule handleRequest_in)
next
  case (recovered remote r)
  with follows_recoverOpenSessions [OF assms(1)] show ?thesis by (rule followsD)
qed (simp_all add: later any.loggedRemotely outside)

lemma reachable_in:
  assumes "frameEnv R E" "reachable E w w'"
  shows "R w w'"
  using assms(2)
proof (induction rule: reachable.induct)
  case (start w)
  show ?case by (rule any.stays)
next
  case (step w w' w'')
  then show ?case using gatewayStep_in [OF assms(1)] any.chain by blast
qed

end

end
