(* ===== verification/Runs.thy ===== *)
theory Runs
  imports Frame
begin

text \<open>
  Rules for reasoning about single runs: what a run that returns has done (inversion rules, in
  \<open>returns\<close>), what logging leaves alone, and when logging succeeds.
\<close>

section \<open>Inversion\<close>

lemma getSession_Returns [returns]:
  "getSession sid w = (Returns sd, w') \<longleftrightarrow> session w sid = Some sd \<and> w' = w"
  by (auto simp: getSession_def returns split: option.splits)

lemma putSession_Returns [returns]: "putSession sid sd w = (Returns b, w') \<longleftrightarrow> w' = setSession sid sd w"
  by (auto simp: putSession_def returns)

lemma isClientGateway_Returns [returns]:
  "isClientGateway sid w = (Returns b, w') \<longleftrightarrow>
     (\<exists>sd. session w sid = Some sd \<and> b = (sd_sourceGatewayPubkey sd = Some (pubKey (w_self w))) \<and> w' = w)"
  by (auto simp: isClientGateway_def returns)

lemma dateNow_Returns [returns]:
  "dateNow E w = (Returns t, w') \<longleftrightarrow> t = w_now w \<and> w' = w\<lparr>w_now := w_now w + e_tick E (w_now w)\<rparr>"
  by (auto simp: dateNow_def)

text \<open>A signature is valid for an object when it verifies against its text.\<close>

definition validSignature :: "crypto \<Rightarrow> json \<Rightarrow> string \<Rightarrow> string \<Rightarrow> bool" where
  "validSignature C j sig pk \<longleftrightarrow> verifySignature C '''' j sig pk = Some True"

lemma verifyA_Returns [returns]:
  "verifyA E j sig pk e w = (Returns b, w') \<longleftrightarrow> validSignature (e_crypto E) j sig pk \<and> w' = w"
  using verifySignature_any_verifier [of "e_crypto E" "privKey (w_self w)" j sig pk "''''"]
  by (auto simp: verifyA_def validSignature_def returns split: option.splits)

lemma signA_Returns [returns]:
  "signA E j w = (Returns s, w') \<longleftrightarrow> signHex (e_crypto E) (privKey (w_self w)) (stringify j) = Some s \<and> w' = w"
  by (auto simp: signA_def returns split: option.splits)

lemma getLogFromRemote_Returns [returns]:
  "getLogFromRemote E k w = (Returns l, w') \<longleftrightarrow> readRemote E k w = (Returns (Some l), w)
     \<and> validSignature (e_crypto E) (blankedRemote l) (rl_signature l) (rl_signerPubKey l) \<and> w' = w"
proof -
  have "readRemote E k w = (r, t) \<Longrightarrow> t = w" for r t
    by (auto simp: readRemote_def split: option.splits remoteKind.splits if_splits)
  then show ?thesis by (fastforce simp: getLogFromRemote_def returns split: option.splits)
qed

text \<open>The claim of a message is the one that the holder of the key logged remotely.\<close>

definition claimLogged :: "'x env \<Rightarrow> 'x world \<Rightarrow> string \<Rightarrow> string \<Rightarrow> string \<Rightarrow> string \<Rightarrow> bool" where
  "claimLogged E w sid op' claim pk \<longleftrightarrow> (\<exists>l. readRemote E (getSatpLogKey sid ''proof'' op') w = (Returns (Some l), w)
     \<and> rl_hash l = sha256 (e_crypto E) claim
     \<and> validSignature (e_crypto E) (blankedRemote l) (rl_signature l) (rl_signerPubKey l)
     \<and> validSignature (e_crypto E) (blankedRemote l) (rl_signature l) pk)"

lemma checkClaim_Returns [returns]:
  "checkClaim E sid op' claim pk w = (Returns b, w') \<longleftrightarrow> claimLogged E w sid op' claim pk \<and> w' = w"
  by (auto simp: checkClaim_def claimLogged_def returns)

section \<open>Forward execution\<close>

text \<open>Equations that run the first action of a sequence, in \<open>runs\<close>.\<close>

named_theorems runs

lemma bindA_run: "m s = (Returns a, t) \<Longrightarrow> bindA m k s = k a t"
  by (simp add: bindA_def)

lemma thenA_run: "m s = (Returns a, t) \<Longrightarrow> thenA m k s = k t"
  by (simp add: thenA_def bindA_def)

lemma bindA_throws: "m s = (Throws e, t) \<Longrightarrow> bindA m k s = (Throws e, t)"
  by (simp add: bindA_def)

lemma thenA_throws: "m s = (Throws e, t) \<Longrightarrow> thenA m k s = (Throws e, t)"
  by (simp add: thenA_def bindA_def)

lemma ret_run [runs]: "ret a s = (Returns a, s)"
  by (simp add: ret_def)

lemma throwE_run [runs]: "throwE e s = (Throws e, s)"
  by (simp add: throwE_def)

lemma never_run [runs]: "never s = (Pending, s)"
  by (simp add: never_def)

lemma bindA_base_run [runs]:
  "bindA (ret a) k s = k a s" "bindA (throwE e) k s = (Throws e, s)" "bindA never k s = (Pending, s)"
  "bindA (getsA f) k s = k (f s) s" "bindA (bindA m l) k s = bindA m (\<lambda>x. bindA (l x) k) s"
  "bindA (thenA m m') k s = thenA m (bindA m' k) s"
  by (simp_all add: bindA_assoc thenA_def throwE_def never_def) (simp_all add: bindA_def getsA_def)

lemma thenA_base_run [runs]:
  "thenA (ret a) k' s = k' s" "thenA (throwE e) k' s = (Throws e, s)" "thenA never k' s = (Pending, s)"
  "thenA (modifyA g) k' s = k' (g s)" "thenA (ensure c e) k' s = (if c then k' s else (Throws e, s))"
  "thenA (bindA m l) k' s = bindA m (\<lambda>x. thenA (l x) k') s" "thenA (thenA m m') k' s = thenA m (thenA m' k') s"
  by (simp_all add: thenA_def bindA_assoc ensure_def throwE_def never_def) (simp_all add: bindA_def modifyA_def)

lemma getSession_run [runs]:
  "bindA (getSession sid) k w = (case session w sid of None \<Rightarrow> (Throws SessionError, w) | Some sd \<Rightarrow> k sd w)"
  by (auto simp: getSession_def runs split: option.split)

lemma isClientGateway_run [runs]:
  "bindA (isClientGateway sid) k w = (case session w sid of None \<Rightarrow> (Throws SessionError, w)
     | Some sd \<Rightarrow> k (sd_sourceGatewayPubkey sd = Some (pubKey (w_self w))) w)"
  by (auto simp: isClientGateway_def runs split: option.split)

lemma putSession_run [runs]: "thenA (putSession sid sd) k w = k (setSession sid sd w)"
  by (simp add: putSession_def runs)

lemma putSession_last [runs]: "putSession sid sd w = (Returns (), setSession sid sd w)"
  by (simp add: putSession_def modifyA_def)

lemma dateNow_run [runs]:
  "bindA (dateNow E) k w = k (w_now w) (w\<lparr>w_now := w_now w + e_tick E (w_now w)\<rparr>)"
  by (simp add: bindA_def dateNow_def)

lemma signA_run [runs]:
  "bindA (signA E j) k w = (case signHex (e_crypto E) (privKey (w_self w)) (stringify j) of
     None \<Rightarrow> (Throws CryptoError, w) | Some s \<Rightarrow> k s w)"
  by (auto simp: signA_def runs split: option.split)

lemma verifyA_run: "validSignature (e_crypto E) j sig pk \<Longrightarrow> verifyA E j sig pk e w = (Returns (), w)"
  using verifyA_Returns [of E j sig pk e w "()" w] by simp

lemma thenA_verifyA_run: "validSignature (e_crypto E) j sig pk \<Longrightarrow> thenA (verifyA E j sig pk e) k w = k w"
  using verifyA_run by (rule thenA_run)

lemma checkClaim_run: "claimLogged E w sid op' claim pk \<Longrightarrow> thenA (checkClaim E sid op' claim pk) k w = k w"
  using checkClaim_Returns [of E sid op' claim pk w "()" w] by (auto intro: thenA_run)

section \<open>Sessions\<close>

lemma session_setSession [simp]: "session (setSession s sd w) = (session w)(s \<mapsto> sd)"
  by (auto simp: session_def setSession_def)

lemma session_w_now [simp]: "session (w\<lparr>w_now := t\<rparr>) = session w"
  by (rule ext) (simp add: session_def)

lemma setSession_simps [simp]:
  "w_remote (setSession s sd w) = w_remote w" "w_now (setSession s sd w) = w_now w" "w_ext (setSession s sd w) = w_ext w"
  "pubKey (w_self (setSession s sd w)) = pubKey (w_self w)" "privKey (w_self (setSession s sd w)) = privKey (w_self w)"
  "supportedDltIDs (w_self (setSession s sd w)) = supportedDltIDs (w_self w)"
  "backupGatewaysAllowed (w_self (setSession s sd w)) = backupGatewaysAllowed (w_self w)"
  "ledgerKind (w_self (setSession s sd w)) = ledgerKind (w_self w)"
  "remoteRepository (w_self (setSession s sd w)) = remoteRepository (w_self w)"
  "localRepository (w_self (setSession s sd w)) = localRepository (w_self w)"
  by (simp_all add: setSession_def)

section \<open>Logging leaves the sessions alone\<close>

definition quietly :: "'x world \<Rightarrow> 'x world \<Rightarrow> bool" where
  "quietly w w' \<longleftrightarrow> session w' = session w \<and> configuration (w_self w') = configuration (w_self w)"

interpretation quiet: run_preorder quietly
  by unfold_locales (auto simp: quietly_def)

lemma quiet_dateNow: "follows quietly (dateNow E)"
  by (simp add: follows_def dateNow_def quietly_def)

lemma quiet_storeInDatabase: "follows quietly (storeInDatabase l)"
  by (auto simp: follows_def storeInDatabase_def quietly_def session_def configuration_def fun_eq_iff split: option.split)

lemma quiet_createRemote: "follows quietly (createRemote E l)"
  by (auto simp: follows_def createRemote_def quietly_def session_def fun_eq_iff
      split: option.split remoteKind.split prod.split)

lemma quiet_signA: "follows quietly (signA E j)"
  unfolding signA_def by (intro quiet.follows_bindA quiet.follows_getsA quiet.follows_option quiet.follows_throwE quiet.follows_ret)

lemma quiet_storeRemoteLog: "follows quietly (storeRemoteLog E k h)"
  unfolding storeRemoteLog_def
  by (intro quiet.follows_bindA quiet.follows_getsA quiet_signA quiet_createRemote quiet.follows_ensure)

lemma quiet_storeLog: "follows quietly (storeLog E l)"
  unfolding storeLog_def Let_def
  by (intro quiet.follows_bindA quiet.follows_thenA quiet_dateNow quiet_storeInDatabase quiet_storeRemoteLog)

lemma quiet_storeProof: "follows quietly (storeProof E l)"
  unfolding storeProof_def Let_def
  by (intro quiet.follows_bindA quiet.follows_thenA quiet.follows_option quiet.follows_ret quiet_dateNow
      quiet_storeInDatabase quiet_storeRemoteLog)

lemma quiet_logSession: "follows quietly (logSession E s t op' sd)"
  unfolding logSession_def by (rule quiet_storeLog)

lemmas quiet_logs = quiet_storeLog [THEN followsD] quiet_storeProof [THEN followsD] quiet_logSession [THEN followsD]

lemma logSession_session: "logSession E s t op' sd w = (r, w') \<Longrightarrow> session w' = session w"
  by (drule quiet_logs(3)) (simp add: quietly_def)

lemma storeProof_session: "storeProof E l w = (r, w') \<Longrightarrow> session w' = session w"
  by (drule quiet_logs(2)) (simp add: quietly_def)

lemma logSession_config:
  "logSession E s t op' sd w = (r, w') \<Longrightarrow> configuration (w_self w') = configuration (w_self w)"
  by (drule quiet_logs(3)) (simp add: quietly_def)

text \<open>A log entry that was written, and what it leaves alone.\<close>

definition loggedAs :: "'x env \<Rightarrow> string \<Rightarrow> string \<Rightarrow> string \<Rightarrow> SessionData \<Rightarrow> 'x world \<Rightarrow> 'x world \<Rightarrow> bool" where
  "loggedAs E s t op' sd w w' \<longleftrightarrow> logSession E s t op' sd w = (Returns (), w')"

lemma logSessionE:
  assumes "logSession E s t op' sd w = (Returns b, w')"
  obtains "session w' = session w" "configuration (w_self w') = configuration (w_self w)" "loggedAs E s t op' sd w w'"
  using assms logSession_session [OF assms] logSession_config [OF assms] by (simp add: loggedAs_def)

section \<open>When logging succeeds\<close>

text \<open>
  The local table is open and has no row with the key, the remote log is the database and has
  none either, and the gateway can sign.
\<close>

definition canSign :: "'x env \<Rightarrow> gateway \<Rightarrow> bool" where
  "canSign E g \<longleftrightarrow> (\<forall>j. signHex (e_crypto E) (privKey g) (stringify j) \<noteq> None)"

definition logReady :: "'x env \<Rightarrow> string \<Rightarrow> 'x world \<Rightarrow> bool" where
  "logReady E key w \<longleftrightarrow>
     (case localRepository (w_self w) of None \<Rightarrow> True
      | Some r \<Rightarrow> lr_open r \<and> (\<forall>l \<in> set (lr_rows r). ll_key l \<noteq> Some key))
     \<and> remoteRepository (w_self w) = Some KnexRemoteLogRepository
     \<and> rr_open (w_remote w) \<and> (\<forall>l \<in> set (rr_rows (w_remote w)). rl_key l \<noteq> key)
     \<and> canSign E (w_self w)"

text \<open>The remote entry a gateway writes for a key and a hash, and the world after an entry.\<close>

definition remoteEntry :: "'x env \<Rightarrow> gateway \<Rightarrow> string \<Rightarrow> string \<Rightarrow> IRemoteLog" where
  "remoteEntry E g key hash =
    (let l = \<lparr>rl_key = key, rl_hash = hash, rl_signature = '''', rl_signerPubKey = pubKey g\<rparr>
     in l\<lparr>rl_signature := the (signHex (e_crypto E) (privKey g) (stringify (remoteLogToJson l)))\<rparr>)"

definition addRow :: "LocalLog \<Rightarrow> gateway \<Rightarrow> gateway" where
  "addRow l g = g\<lparr>localRepository := map_option (\<lambda>r. r\<lparr>lr_rows := lr_rows r @ [l]\<rparr>) (localRepository g)\<rparr>"

definition entryWorld :: "'x env \<Rightarrow> LocalLog \<Rightarrow> string \<Rightarrow> 'x world \<Rightarrow> 'x world" where
  "entryWorld E l hash w = w\<lparr>w_now := w_now w + e_tick E (w_now w), w_self := addRow l (w_self w),
     w_remote := (w_remote w)\<lparr>rr_rows := rr_rows (w_remote w) @ [remoteEntry E (w_self w) (the (ll_key l)) hash]\<rparr>\<rparr>"

lemma storeInDatabase_ready:
  assumes "case localRepository (w_self w) of None \<Rightarrow> True
      | Some r \<Rightarrow> lr_open r \<and> (\<forall>l' \<in> set (lr_rows r). ll_key l' \<noteq> ll_key l)"
    "ll_key l \<noteq> None" "ll_timestamp l \<noteq> None" "ll_data l \<noteq> None"
  shows "storeInDatabase l w = (Returns (), w\<lparr>w_self := addRow l (w_self w)\<rparr>)"
  using assms by (auto simp: storeInDatabase_def create_def addRow_def split: option.splits)

lemma storeRemoteLog_ready:
  assumes "remoteRepository (w_self w) = Some KnexRemoteLogRepository" "rr_open (w_remote w)"
    "\<forall>l \<in> set (rr_rows (w_remote w)). rl_key l \<noteq> key" "canSign E (w_self w)"
  shows "storeRemoteLog E key hash w = (Returns (),
     w\<lparr>w_remote := (w_remote w)\<lparr>rr_rows := rr_rows (w_remote w) @ [remoteEntry E (w_self w) key hash]\<rparr>\<rparr>)"
proof -
  let ?l = "\<lparr>rl_key = key, rl_hash = hash, rl_signature = '''', rl_signerPubKey = pubKey (w_self w)\<rparr>"
  obtain s where "signHex (e_crypto E) (privKey (w_self w)) (stringify (remoteLogToJson ?l)) = Some s"
    using assms(4) unfolding canSign_def by blast
  with assms(1-3) show ?thesis
    by (simp add: storeRemoteLog_def createRemote_def remoteCreate_def remoteEntry_def Let_def returns)
qed

lemma stampLog_simps [simp]:
  "ll_key (stampLog now l) = Some (getSatpLogKey (ll_sessionID l) (ll_type l) (ll_operation l))"
  "ll_timestamp (stampLog now l) = Some (intToString now)" "ll_data (stampLog now l) = ll_data l"
  "ll_sessionID (stampLog now l) = ll_sessionID l" "ll_type (stampLog now l) = ll_type l"
  "ll_operation (stampLog now l) = ll_operation l"
  by (simp_all add: stampLog_def)

lemma mkLog_simps [simp]:
  "ll_sessionID (mkLog s t op' d) = s" "ll_type (mkLog s t op' d) = t" "ll_operation (mkLog s t op' d) = op'"
  "ll_data (mkLog s t op' d) = d"
  by (simp_all add: mkLog_def)

lemma addRow_simps [simp]:
  "pubKey (addRow l g) = pubKey g" "privKey (addRow l g) = privKey g" "sessions (addRow l g) = sessions g"
  "supportedDltIDs (addRow l g) = supportedDltIDs g" "backupGatewaysAllowed (addRow l g) = backupGatewaysAllowed g"
  "ledgerKind (addRow l g) = ledgerKind g" "remoteRepository (addRow l g) = remoteRepository g"
  by (simp_all add: addRow_def)

lemma remoteEntry_addRow [simp]: "remoteEntry E (addRow l g) k h = remoteEntry E g k h"
  by (simp add: remoteEntry_def)

lemma storeLog_ready:
  assumes "logReady E (getSatpLogKey (ll_sessionID l) (ll_type l) (ll_operation l)) w" "ll_data l \<noteq> None"
  shows "storeLog E l w = (Returns (),
     entryWorld E (stampLog (w_now w) l) (hashJson E (localLogToJson (stampLog (w_now w) l))) w)"
proof -
  let ?l = "stampLog (w_now w) l" and ?w1 = "w\<lparr>w_now := w_now w + e_tick E (w_now w)\<rparr>"
  have "storeInDatabase ?l ?w1 = (Returns (), ?w1\<lparr>w_self := addRow ?l (w_self w)\<rparr>)"
    using assms by (subst storeInDatabase_ready) (auto simp: logReady_def split: option.splits)
  then show ?thesis
    using assms by (simp add: storeLog_def Let_def returns entryWorld_def storeRemoteLog_ready logReady_def canSign_def)
qed

lemma storeProof_ready:
  assumes "logReady E (getSatpLogKey (ll_sessionID l) (ll_type l) (ll_operation l)) w" "ll_data l = Some d"
  shows "storeProof E l w = (Returns (), entryWorld E (stampLog (w_now w) l) (sha256 (e_crypto E) d) w)"
proof -
  let ?l = "stampLog (w_now w) l" and ?w1 = "w\<lparr>w_now := w_now w + e_tick E (w_now w)\<rparr>"
  have "storeInDatabase ?l ?w1 = (Returns (), ?w1\<lparr>w_self := addRow ?l (w_self w)\<rparr>)"
    using assms by (subst storeInDatabase_ready) (auto simp: logReady_def split: option.splits)
  then show ?thesis
    using assms by (simp add: storeProof_def Let_def returns entryWorld_def storeRemoteLog_ready logReady_def canSign_def)
qed

lemma logSession_run:
  assumes "logReady E (getSatpLogKey s t op') w"
  shows "logSession E s t op' sd w = (Returns (), entryWorld E (stampLog (w_now w) (mkLog s t op' (Some (stringifySession sd))))
      (hashJson E (localLogToJson (stampLog (w_now w) (mkLog s t op' (Some (stringifySession sd)))))) w)"
  using assms by (simp add: logSession_def storeLog_ready)

text \<open>A second entry with the same key is refused before anything is sent to the remote log.\<close>

lemma storeLog_duplicate:
  assumes "localRepository (w_self w) = Some r" "l' \<in> set (lr_rows r)"
    "ll_key l' = Some (getSatpLogKey (ll_sessionID l) (ll_type l) (ll_operation l))"
  shows "storeLog E l w = (Throws DatabaseError, w\<lparr>w_now := w_now w + e_tick E (w_now w)\<rparr>)"
proof -
  have "create (stampLog (w_now w) l) r = None" using assms by (auto simp: create_def)
  with assms(1) show ?thesis
    by (simp add: storeLog_def Let_def thenA_def bindA_def dateNow_def storeInDatabase_def)
qed

text \<open>Logging under one key leaves another key free.\<close>

lemma logReady_entryWorld [simp]:
  "logReady E key w \<Longrightarrow> ll_key l = Some key' \<Longrightarrow> key' \<noteq> key \<Longrightarrow> logReady E key (entryWorld E l h w)"
  by (auto simp: logReady_def entryWorld_def addRow_def remoteEntry_def canSign_def Let_def split: option.splits)

lemma logReady_setSession [simp]: "logReady E key (setSession s sd w) = logReady E key w"
  by (simp add: logReady_def canSign_def)

lemma logReady_w_now [simp]: "logReady E key (w\<lparr>w_now := t\<rparr>) = logReady E key w"
  by (simp add: logReady_def canSign_def)

lemma session_entryWorld [simp]: "session (entryWorld E l h w) = session w"
  by (simp add: session_def entryWorld_def fun_eq_iff)

lemma entryWorld_simps [simp]:
  "pubKey (w_self (entryWorld E l h w)) = pubKey (w_self w)"
  "privKey (w_self (entryWorld E l h w)) = privKey (w_self w)"
  "supportedDltIDs (w_self (entryWorld E l h w)) = supportedDltIDs (w_self w)"
  "backupGatewaysAllowed (w_self (entryWorld E l h w)) = backupGatewaysAllowed (w_self w)"
  "ledgerKind (w_self (entryWorld E l h w)) = ledgerKind (w_self w)"
  "remoteRepository (w_self (entryWorld E l h w)) = remoteRepository (w_self w)"
  "w_ext (entryWorld E l h w) = w_ext w"
  by (simp_all add: entryWorld_def)

lemma getSatpLogKey_eq [simp]:
  "getSatpLogKey s t op1 = getSatpLogKey s t' op2 \<longleftrightarrow> t @ ''-'' @ op1 = t' @ ''-'' @ op2"
  by (simp add: getSatpLogKey_def)

end
