(* ===== verification/Requests.thy ===== *)
theory Requests
  imports Runs
begin

text \<open>
  Sending a request: the retry loop in closed form, the outcomes of \<open>makeRequest\<close>, and when its
  timeout can fire.
\<close>

section \<open>The retry loop\<close>

text \<open>
  The promise is awaited again in every round, so that the rounds after the first can not see a
  different result: the loop is a single look at it.
\<close>

definition lookOnce ::
  "(string \<Rightarrow> ('x, unit) gact) \<Rightarrow> string \<Rightarrow> http_result \<Rightarrow> string \<Rightarrow> ('x, int option) gact" where
  "lookOnce revert sessionID result message = (case result of
      HttpPending \<Rightarrow> never
    | HttpResponse status \<Rightarrow> ret (Some status)
    | HttpError status \<Rightarrow>
        if (status = None \<or> status = Some 500) \<and> \<not> matches ''Rollback'' message
        then thenA (revert sessionID) (throwE (MessageFailed message))
        else ret None)"

lemma retryLoop_closed:
  "retryLoop rv sid result message m n = (if n < m then lookOnce rv sid result message else ret None)"
proof (induction rv sid result message m n rule: retryLoop.induct)
  case (1 rv sid result message m n)
  then show ?case
    by (subst retryLoop.simps) (auto simp: lookOnce_def split: http_result.split)
qed

section \<open>Outcomes\<close>

lemma postA_eq: "postA E b c w = (Returns (fst (e_post E b c w)), snd (e_post E b c w))"
  by (simp add: postA_def split_def)

text \<open>What follows the single post, for a session whose limits are set.\<close>

lemma makeRequestWith_after:
  assumes "session w sid = Some sd" "timeoutsDefined sd"
  shows "makeRequestWith E rv sid b c message w =
     bindA (if 0 < the (sd_maxRetries sd) then lookOnce rv sid (fst (e_post E b c w)) message else ret None)
       (\<lambda>response. if response = Some 200 then ret ()
          else if \<not> matches ''Rollback'' message then awaitTimeout E rv sid (the (sd_maxTimeout sd)) message
          else ret ()) (snd (e_post E b c w))"
proof -
  have "makeRequestWith E rv sid b c message w =
    thenA (ensure (sd_maxTimeout sd \<noteq> None \<and> sd_maxRetries sd \<noteq> None) SessionError)
      (bindA (retryLoop rv sid (fst (e_post E b c w)) message (the (sd_maxRetries sd)) 0)
       (\<lambda>response. if response = Some 200 then ret ()
          else if \<not> matches ''Rollback'' message then awaitTimeout E rv sid (the (sd_maxTimeout sd)) message
          else ret ())) (snd (e_post E b c w))"
    unfolding makeRequestWith_def using assms(1) by (simp only: runs bindA_run [of "postA _ _ _", OF postA_eq] option.case)
  also have "\<dots> = bindA (if 0 < the (sd_maxRetries sd) then lookOnce rv sid (fst (e_post E b c w)) message else ret None)
       (\<lambda>response. if response = Some 200 then ret ()
          else if \<not> matches ''Rollback'' message then awaitTimeout E rv sid (the (sd_maxTimeout sd)) message
          else ret ()) (snd (e_post E b c w))"
    using assms(2) by (simp only: runs retryLoop_closed timeoutsDefined_def if_True simp_thms)
  finally show ?thesis .
qed

lemma makeRequest_ok:
  assumes "session w sid = Some sd" "timeoutsDefined sd" "0 < the (sd_maxRetries sd)"
    "e_post E b c w = (HttpResponse 200, w')"
  shows "makeRequest E sid b c message w = (Returns (), w')"
  using assms by (simp add: makeRequest_def makeRequestWith_after lookOnce_def runs)

lemma deliver_ok:
  assumes "session w sid = Some sd" "timeoutsDefined sd" "0 < the (sd_maxRetries sd)"
    "e_post E b c w = (HttpResponse 200, w')"
  shows "deliver E sid True b c message m w = (Returns None, w')"
  using makeRequest_ok [OF assms] by (simp add: deliver_def returns)

end
