(* ===== verification/Checks.thy ===== *)
theory Checks
  imports Requests
begin

text \<open>
  What the checks of the two helpers decide: for each message, the exact conditions under which
  it is accepted and the session it leaves behind.
\<close>

section \<open>Checks of the client\<close>

lemma checkValidInitializationResponse_iff:
  "checkValidInitializationResponse E m w = (Returns (), w') \<longleftrightarrow>
    (\<exists>sd. session w (tir_sessionID m) = Some sd
      \<and> tir_messageType m = satpMessageType InitializationResponse
      \<and> sd_lastSequenceNumber sd = Some (tir_sequenceNumber m)
      \<and> sd_initializationRequestMessageHash sd = Some (tir_initialRequestMessageHash m)
      \<and> sd_recipientGatewayPubkey sd = Some (tir_serverIdentityPubkey m)
      \<and> validSignature (e_crypto E) (transferInitializationResponseToJson (m\<lparr>tir_signature := ''''\<rparr>))
          (tir_signature m) (tir_serverIdentityPubkey m)
      \<and> w' = setSession (tir_sessionID m) (sd\<lparr>
          sd_id := Some (tir_sessionID m),
          sd_initializationResponseMessageHash := Some (hashJson E (transferInitializationResponseToJson m)),
          sd_serverSignatureInitializationResponseMessage := Some (tir_signature m),
          sd_allowedRecipientBackupGateways := Some (tir_backupGatewaysAllowed m),
          sd_step := Some 3\<rparr>) w)"
proof -
  have same: "sd_recipientGatewayPubkey sd = Some k \<Longrightarrow> sd\<lparr>sd_recipientGatewayPubkey := Some k\<rparr> = sd" for sd :: SessionData and k
    by (cases sd) simp
  show ?thesis
    unfolding checkValidInitializationResponse_def
    by (auto simp: returns same)
qed

lemma checkValidTransferCommenceResponse_iff:
  "checkValidTransferCommenceResponse E m w = (Returns (), w') \<longleftrightarrow>
    (\<exists>sd. session w (tcr_sessionID m) = Some sd
      \<and> tcr_messageType m = satpMessageType TransferCommenceResponse
      \<and> sd_lastSequenceNumber sd = Some (tcr_sequenceNumber m)
      \<and> sd_transferCommenceMessageRequestHash sd = Some (tcr_hashCommenceRequest m)
      \<and> sd_recipientGatewayPubkey sd = Some (tcr_serverIdentityPubkey m)
      \<and> sd_sourceGatewayPubkey sd = Some (tcr_clientIdentityPubkey m)
      \<and> validSignature (e_crypto E) (transferCommenceResponseToJson (m\<lparr>tcr_signature := ''''\<rparr>))
          (tcr_signature m) (tcr_serverIdentityPubkey m)
      \<and> w' = setSession (tcr_sessionID m) (sd\<lparr>
          sd_transferCommenceMessageResponseHash := Some (hashJson E (transferCommenceResponseToJson m)),
          sd_serverSignatureTransferCommenceResponseMessage := Some (tcr_signature m),
          sd_step := Some 5\<rparr>) w)"
  unfolding checkValidTransferCommenceResponse_def by (auto simp: returns)

lemma checkValidLockEvidenceResponse_iff:
  "checkValidLockEvidenceResponse E m w = (Returns (), w') \<longleftrightarrow>
    (\<exists>sd. session w (ler_sessionID m) = Some sd
      \<and> ler_messageType m = satpMessageType LockEvidenceResponse
      \<and> sd_lastSequenceNumber sd = Some (ler_sequenceNumber m)
      \<and> sd_lockEvidenceRequestMessageHash sd = Some (ler_hashLockEvidenceRequest m)
      \<and> sd_recipientGatewayPubkey sd = Some (ler_serverIdentityPubkey m)
      \<and> sd_sourceGatewayPubkey sd = Some (ler_clientIdentityPubkey m)
      \<and> validSignature (e_crypto E) (lockEvidenceResponseToJson (m\<lparr>ler_signature := ''''\<rparr>))
          (ler_signature m) (ler_serverIdentityPubkey m)
      \<and> w' = setSession (ler_sessionID m) (sd\<lparr>
          sd_lockEvidenceResponseMessageHash := Some (hashJson E (lockEvidenceResponseToJson m)),
          sd_serverSignatureLockEvidenceResponseMessage := Some (ler_signature m),
          sd_step := Some 7\<rparr>) w)"
  unfolding checkValidLockEvidenceResponse_def by (auto simp: returns)

lemma checkValidCommitPreparationResponse_iff:
  "checkValidCommitPreparationResponse E m w = (Returns (), w') \<longleftrightarrow>
    (\<exists>sd. session w (cpr_sessionID m) = Some sd
      \<and> cpr_messageType m = satpMessageType CommitPreparationResponse
      \<and> sd_lastSequenceNumber sd = Some (cpr_sequenceNumber m)
      \<and> sd_commitPrepareRequestMessageHash sd = Some (cpr_hashCommitPrep m)
      \<and> sd_recipientGatewayPubkey sd = Some (cpr_serverIdentityPubkey m)
      \<and> sd_sourceGatewayPubkey sd = Some (cpr_clientIdentityPubkey m)
      \<and> validSignature (e_crypto E) (commitPreparationResponseToJson (m\<lparr>cpr_signature := ''''\<rparr>))
          (cpr_signature m) (cpr_serverIdentityPubkey m)
      \<and> w' = setSession (cpr_sessionID m) (sd\<lparr>
          sd_commitPrepareResponseMessageHash := Some (hashJson E (commitPreparationResponseToJson m)),
          sd_serverSignatureCommitPreparationResponseMessage := Some (cpr_signature m),
          sd_step := Some 9\<rparr>) w)"
  unfolding checkValidCommitPreparationResponse_def by (auto simp: returns)

lemma checkValidCommitFinalResponse_iff:
  "checkValidCommitFinalResponse E m w = (Returns (), w') \<longleftrightarrow>
    (\<exists>sd claim. session w (cfr_sessionID m) = Some sd
      \<and> cfr_messageType m = satpMessageType CommitFinalResponse
      \<and> sd_lastSequenceNumber sd = Some (cfr_sequenceNumber m)
      \<and> sd_commitFinalRequestMessageHash sd = Some (cfr_hashCommitFinal m)
      \<and> sd_recipientGatewayPubkey sd = Some (cfr_serverIdentityPubkey m)
      \<and> sd_sourceGatewayPubkey sd = Some (cfr_clientIdentityPubkey m)
      \<and> validSignature (e_crypto E) (commitFinalResponseToJson (m\<lparr>cfr_signature := ''''\<rparr>))
          (cfr_signature m) (cfr_serverIdentityPubkey m)
      \<and> cfr_commitAcknowledgementClaim m = Some claim
      \<and> claimLogged E w (cfr_sessionID m) ''create'' claim (cfr_serverIdentityPubkey m)
      \<and> w' = setSession (cfr_sessionID m) (sd\<lparr>
          sd_commitAcknowledgementClaim := Some claim,
          sd_commitFinalResponseMessageHash := Some (hashJson E (commitFinalResponseToJson m)),
          sd_serverSignatureCommitFinalResponseMessage := Some (cfr_signature m),
          sd_step := Some 11\<rparr>) w)"
  unfolding checkValidCommitFinalResponse_def by (auto simp: returns)

section \<open>Checks of the server\<close>

text \<open>The server logs an \<open>exec\<close> entry before and a \<open>done\<close> entry after its checks.\<close>

lemma loggedAs_returns: "logSession E s t op' sd w = (Returns b, w') \<longleftrightarrow> loggedAs E s t op' sd w w'"
  by (simp add: loggedAs_def)

lemma plus_one_iff: "x = Some (n - 1) \<longleftrightarrow> (\<exists>k. x = Some k \<and> n = k + 1)" for n :: int
  by auto

lemma checkValidtransferCommenceRequest_iff:
  "checkValidtransferCommenceRequest E m w = (Returns (), w') \<longleftrightarrow>
    (\<exists>sd w1 w2 sd'. session w (tcq_sessionID m) = Some sd
      \<and> loggedAs E (tcq_sessionID m) ''exec'' ''commence'' sd w w1
      \<and> tcq_messageType m = satpMessageType TransferCommenceRequest
      \<and> sd_lastSequenceNumber sd = Some (tcq_sequenceNumber m - 1)
      \<and> sd_initializationResponseMessageHash sd = Some (tcq_hashPrevMessage m)
      \<and> sd_recipientGatewayPubkey sd = Some (tcq_serverIdentityPubkey m)
      \<and> sd_sourceGatewayPubkey sd = Some (tcq_clientIdentityPubkey m)
      \<and> assetProfileHash E sd = tcq_hashAssetProfile m
      \<and> validSignature (e_crypto E) (transferCommenceRequestToJson (m\<lparr>tcq_signature := ''''\<rparr>))
          (tcq_signature m) (tcq_clientIdentityPubkey m)
      \<and> sd' = sd\<lparr>sd_transferCommenceMessageRequestHash := Some (hashJson E (transferCommenceRequestToJson m)),
          sd_clientSignatureTransferCommenceRequestMessage := Some (tcq_signature m),
          sd_originatorPubkey := Some (tcq_originatorPubkey m),
          sd_beneficiaryPubkey := Some (tcq_beneficiaryPubkey m)\<rparr>
      \<and> loggedAs E (tcq_sessionID m) ''done'' ''commence'' sd' (setSession (tcq_sessionID m) sd' w1) w2
      \<and> w' = setSession (tcq_sessionID m) (sd'\<lparr>sd_step := Some 4\<rparr>) w2)"
  unfolding checkValidtransferCommenceRequest_def Let_def
  by (auto simp: returns loggedAs_returns plus_one_iff) blast+

lemma checkValidLockEvidenceRequest_iff:
  "checkValidLockEvidenceRequest E m w = (Returns (), w') \<longleftrightarrow>
    (\<exists>sd w1 w2 sd' claim. session w (leq_sessionID m) = Some sd \<and> sd_step sd \<noteq> None
      \<and> loggedAs E (leq_sessionID m) ''exec'' ''lock'' sd w w1
      \<and> leq_messageType m = satpMessageType LockEvidenceRequest
      \<and> sd_lastSequenceNumber sd = Some (leq_sequenceNumber m - 1)
      \<and> sd_transferCommenceMessageResponseHash sd = Some (leq_hashCommenceAckRequest m)
      \<and> sd_recipientGatewayPubkey sd = Some (leq_serverIdentityPubkey m)
      \<and> sd_sourceGatewayPubkey sd = Some (leq_clientIdentityPubkey m)
      \<and> leq_lockEvidenceClaim m = Some claim
      \<and> (case e_parseDate E (leq_lockEvidenceExpiration m) of None \<Rightarrow> True | Some t \<Rightarrow> w_now w1 \<le> t)
      \<and> validSignature (e_crypto E) (lockEvidenceRequestToJson (m\<lparr>leq_signature := ''''\<rparr>))
          (leq_signature m) (leq_clientIdentityPubkey m)
      \<and> claimLogged E (w1\<lparr>w_now := w_now w1 + e_tick E (w_now w1)\<rparr>) (leq_sessionID m) ''lock'' claim
          (leq_clientIdentityPubkey m)
      \<and> sd' = sd\<lparr>sd_lockEvidenceRequestMessageHash := Some (hashJson E (lockEvidenceRequestToJson m)),
          sd_clientSignatureLockEvidenceRequestMessage := Some (leq_signature m),
          sd_lockEvidenceClaim := Some claim\<rparr>
      \<and> loggedAs E (leq_sessionID m) ''done'' ''lock'' sd'
          (setSession (leq_sessionID m) sd' (w1\<lparr>w_now := w_now w1 + e_tick E (w_now w1)\<rparr>)) w2
      \<and> w' = setSession (leq_sessionID m) (sd'\<lparr>sd_step := Some 6\<rparr>) w2)"
  unfolding checkValidLockEvidenceRequest_def Let_def
  by (auto simp: returns loggedAs_returns plus_one_iff) blast+

lemma checkValidCommitPreparationRequest_iff:
  "checkValidCommitPreparationRequest E m w = (Returns (), w') \<longleftrightarrow>
    (\<exists>sd w1 w2 sd'. session w (cpq_sessionID m) = Some sd \<and> sd_step sd \<noteq> None
      \<and> cpq_messageType m = satpMessageType CommitPreparationRequest
      \<and> sd_lastSequenceNumber sd = Some (cpq_sequenceNumber m - 1)
      \<and> sd_lockEvidenceResponseMessageHash sd = Some (cpq_hashLockEvidenceAck m)
      \<and> sd_recipientGatewayPubkey sd = Some (cpq_serverIdentityPubkey m)
      \<and> sd_sourceGatewayPubkey sd = Some (cpq_clientIdentityPubkey m)
      \<and> loggedAs E (cpq_sessionID m) ''exec'' ''prepare'' sd w w1
      \<and> validSignature (e_crypto E) (commitPreparationRequestToJson (m\<lparr>cpq_signature := ''''\<rparr>))
          (cpq_signature m) (cpq_clientIdentityPubkey m)
      \<and> sd' = sd\<lparr>sd_commitPrepareRequestMessageHash := Some (hashJson E (commitPreparationRequestToJson m)),
          sd_clientSignatureCommitPreparationRequestMessage := Some (cpq_signature m)\<rparr>
      \<and> loggedAs E (cpq_sessionID m) ''done'' ''prepare'' sd' (setSession (cpq_sessionID m) sd' w1) w2
      \<and> w' = setSession (cpq_sessionID m) (sd'\<lparr>sd_step := Some 8\<rparr>) w2)"
  unfolding checkValidCommitPreparationRequest_def Let_def
  by (auto simp: returns loggedAs_returns plus_one_iff) blast+

lemma checkValidCommitFinalRequest_iff:
  "checkValidCommitFinalRequest E m w = (Returns (), w') \<longleftrightarrow>
    (\<exists>sd w1 w2 sd' claim. session w (cfq_sessionID m) = Some sd \<and> sd_id sd \<noteq> None \<and> sd_step sd \<noteq> None
      \<and> loggedAs E (cfq_sessionID m) ''exec'' ''final'' sd w w1
      \<and> cfq_messageType m = satpMessageType CommitFinalRequest
      \<and> sd_lastSequenceNumber sd = Some (cfq_sequenceNumber m - 1)
      \<and> sd_commitPrepareResponseMessageHash sd = Some (cfq_hashCommitPrepareAck m)
      \<and> sd_recipientGatewayPubkey sd = Some (cfq_serverIdentityPubkey m)
      \<and> sd_sourceGatewayPubkey sd = Some (cfq_clientIdentityPubkey m)
      \<and> validSignature (e_crypto E) (commitFinalRequestToJson (m\<lparr>cfq_signature := ''''\<rparr>))
          (cfq_signature m) (cfq_clientIdentityPubkey m)
      \<and> cfq_commitFinalClaim m = Some claim
      \<and> claimLogged E w1 (cfq_sessionID m) ''delete'' claim (cfq_clientIdentityPubkey m)
      \<and> sd' = sd\<lparr>sd_commitFinalClaim := Some claim,
          sd_commitFinalRequestMessageHash := Some (hashJson E (commitFinalRequestToJson m)),
          sd_clientSignatureCommitFinalRequestMessage := Some (cfq_signature m)\<rparr>
      \<and> loggedAs E (cfq_sessionID m) ''done'' ''final'' sd' (setSession (cfq_sessionID m) sd' w1) w2
      \<and> w' = setSession (cfq_sessionID m) (sd'\<lparr>sd_step := Some 10\<rparr>) w2)"
  unfolding checkValidCommitFinalRequest_def Let_def
  by (auto simp: returns loggedAs_returns plus_one_iff) blast+

lemma checkValidTransferCompleteRequest_iff:
  "checkValidTransferCompleteRequest E m w = (Returns (), w') \<longleftrightarrow>
    (\<exists>sd w1 sd'. session w (tpq_sessionID m) = Some sd \<and> sd_step sd \<noteq> None
      \<and> loggedAs E (tpq_sessionID m) ''exec'' ''complete'' sd w w1
      \<and> tpq_messageType m = satpMessageType TransferCompleteRequest
      \<and> sd_lastSequenceNumber sd = Some (tpq_sequenceNumber m - 1)
      \<and> sd_commitFinalResponseMessageHash sd = Some (tpq_hashCommitFinalAck m)
      \<and> validSignature (e_crypto E) (transferCompleteRequestToJson (m\<lparr>tpq_signature := ''''\<rparr>))
          (tpq_signature m) (tpq_clientIdentityPubkey m)
      \<and> sd' = sd\<lparr>sd_transferCompleteMessageHash := Some (hashJson E (transferCompleteRequestToJson m)),
          sd_clientSignatureTransferCompleteMessage := Some (tpq_signature m)\<rparr>
      \<and> loggedAs E (tpq_sessionID m) ''done'' ''complete'' sd' (setSession (tpq_sessionID m) sd' w1) w')"
  unfolding checkValidTransferCompleteRequest_def Let_def
  by (auto simp: returns loggedAs_returns plus_one_iff)

end
