(* ===== verification/Scenario.thy ===== *)
theory Scenario
  imports Checks
begin

text \<open>
  A concrete environment and two concrete gateways, on which the theorems are applied: a curve
  whose signatures are the key itself, a hash that marks its text, a peer that answers 200, a
  ledger that accepts everything. They satisfy the contracts that the theorems assume of the
  libraries and services.
\<close>

section \<open>Services\<close>

definition demoCrypto :: crypto where
  "demoCrypto = \<lparr>sha256 = (\<lambda>s. CHR ''#'' # s), sha256Undefined = ''#'', stableStringify = (\<lambda>_. ''''), sha3Hex = (\<lambda>_. ''00''),
     ecdsaSign = (\<lambda>d k. Some k), ecdsaVerify = (\<lambda>s d k. Some (s = k))\<rparr>"

definition demoReceipt :: json where
  "demoReceipt = JObj [(''out'', JObj [(''transactionReceipt'', JStr ''receipt'')])]"

definition demoEnv :: "unit env" where
  "demoEnv = \<lparr>
     e_crypto = demoCrypto,
     e_sql = \<lparr>pickRow = hd, groupOrder = (\<lambda>xs. xs), delWithoutTable = (\<lambda>_ _. None)\<rparr>,
     e_timezone = \<lparr>localTZA = (\<lambda>_ _. 0), tzName = (\<lambda>_. '' (UTC)'')\<rparr>,
     e_parseDate = (\<lambda>_. None),
     e_tick = (\<lambda>_. 1),
     e_wait = (\<lambda>d w. w\<lparr>w_now := w_now w + max 0 d\<rparr>),
     e_post = (\<lambda>_ _ w. (HttpResponse 200, w)),
     e_setObjectV1 = (\<lambda>_ _ _ x. (Some 200, x)),
     e_getObjectV1 = (\<lambda>_ _ _. None),
     e_invokeContractV1 = (\<lambda>_ _ x. (Some (200, demoReceipt), x)),
     e_runTransactionV1 = (\<lambda>_ _ x. (Some (JObj [(''transactionId'', JStr ''tx'')]), x)),
     e_getTransactionReceiptByTxIDV1 = (\<lambda>_ _ x. (Some (JStr ''block''), x))\<rparr>"

section \<open>Gateways\<close>

definition demoFabric :: fabricConfig where
  "demoFabric = \<lparr>fabricApi = Some ''fabric'', fabricSigningCredential = Some (JStr ''id''),
     fabricChannelName = Some ''channel'', fabricContractName = Some ''contract''\<rparr>"

definition demoBesu :: besuConfig where
  "demoBesu = \<lparr>besuApi = Some ''besu'', besuContractName = Some ''contract'',
     besuWeb3SigningCredential = Some (JStr ''id''), besuKeychainId = Some ''keychain''\<rparr>"

definition demoGateway :: "string \<Rightarrow> ledgerGateway \<Rightarrow> gateway" where
  "demoGateway key kind = \<lparr>pubKey = key, privKey = key, supportedDltIDs = [''DLT1'', ''DLT2''],
     backupGatewaysAllowed = [], ledgerKind = kind, remoteRepository = Some KnexRemoteLogRepository,
     localRepository = Some \<lparr>lr_open = True, lr_rows = []\<rparr>, sessions = Map.empty\<rparr>"

definition demoWorld :: "string \<Rightarrow> ledgerGateway \<Rightarrow> unit world" where
  "demoWorld key kind = \<lparr>w_self = demoGateway key kind, w_remote = \<lparr>rr_open = True, rr_rows = []\<rparr>,
     w_now = 0, w_ext = ()\<rparr>"

definition clientWorld :: "unit world" where
  "clientWorld = demoWorld ''aa'' (FabricSatpGateway demoFabric)"

definition serverWorld :: "unit world" where
  "serverWorld = demoWorld ''bb'' (BesuSatpGateway demoBesu)"

section \<open>They meet the contracts\<close>

lemma demoEnv_simps [simp]:
  "e_crypto demoEnv = demoCrypto" "e_parseDate demoEnv s = None" "e_tick demoEnv t = 1"
  "e_wait demoEnv d w = w\<lparr>w_now := w_now w + max 0 d\<rparr>" "e_post demoEnv b c w = (HttpResponse 200, w)"
  "e_sql demoEnv = \<lparr>pickRow = hd, groupOrder = (\<lambda>xs. xs), delWithoutTable = (\<lambda>_ _. None)\<rparr>"
  "e_invokeContractV1 demoEnv p i x = (Some (200, demoReceipt), x)"
  "e_runTransactionV1 demoEnv p ft x = (Some (JObj [(''transactionId'', JStr ''tx'')]), x)"
  "e_getTransactionReceiptByTxIDV1 demoEnv p ft x = (Some (JStr ''block''), x)"
  by (simp_all add: demoEnv_def)

lemma demo_keyPair [simp]: "keyPair demoCrypto k k"
  by (simp add: keyPair_def demoCrypto_def)

lemma demo_signHex [simp]: "signHex demoCrypto k m = Some (bufArray2HexStr (hexToBytes k))"
  by (simp add: signHex_alt demoCrypto_def)

lemma demo_canSign [simp]: "canSign demoEnv g"
  by (simp add: canSign_def)

lemma demo_validSignature [simp]: "validSignature demoCrypto j s k \<longleftrightarrow> hexToBytes s = hexToBytes k"
  by (simp add: validSignature_def verifySignature_alt demoCrypto_def)

lemma frameEnv_demo:
  assumes "run_preorder R" "\<And>w d. 0 \<le> d \<Longrightarrow> R w (w\<lparr>w_now := w_now w + d\<rparr>)"
  shows "frameEnv R demoEnv"
  using assms by (simp add: frameEnv_def run_preorder.stays)

lemma demo_logReady [simp]: "logReady demoEnv k (demoWorld key kind)"
  by (simp add: logReady_def demoWorld_def demoGateway_def)

lemma demoWorld_simps [simp]:
  "pubKey (w_self (demoWorld k g)) = k" "privKey (w_self (demoWorld k g)) = k"
  "supportedDltIDs (w_self (demoWorld k g)) = [''DLT1'', ''DLT2'']" "ledgerKind (w_self (demoWorld k g)) = g"
  "backupGatewaysAllowed (w_self (demoWorld k g)) = []" "w_now (demoWorld k g) = 0"
  "session (demoWorld k g) = Map.empty" "localRows (demoWorld k g) = []"
  by (simp_all add: demoWorld_def demoGateway_def session_def localRows_def fun_eq_iff)

section \<open>A session in progress\<close>

text \<open>A session of the two gateways in which every message of the protocol has been exchanged once.\<close>

definition demoSession :: SessionData where
  "demoSession = emptySession\<lparr>
     sd_id := Some ''s'', sd_step := Some 8, sd_lastSequenceNumber := Some 7, sd_maxRetries := Some 3, sd_maxTimeout := Some 10,
     sd_sourceBasePath := Some ''client'', sd_recipientBasePath := Some ''server'',
     sd_sourceGatewayPubkey := Some ''aa'', sd_recipientGatewayPubkey := Some ''bb'',
     sd_sourceLedgerAssetID := Some ''A'', sd_recipientLedgerAssetID := Some ''B'',
     sd_allowedSourceBackupGateways := Some [],
     sd_transferCommenceMessageRequestHash := Some ''h3'', sd_transferCommenceMessageResponseHash := Some ''h4'',
     sd_lockEvidenceRequestMessageHash := Some ''h5'', sd_lockEvidenceResponseMessageHash := Some ''h6'',
     sd_commitPrepareRequestMessageHash := Some ''h7'', sd_commitPrepareResponseMessageHash := Some ''h8'',
     sd_commitFinalRequestMessageHash := Some ''h9'', sd_commitFinalResponseMessageHash := Some ''h10'',
     sd_rollbackActionsPerformed := Some [], sd_rollbackProofs := Some [],
     sd_lastMessageReceivedTimestamp := Some ''0'', sd_lastLogEntryTimestamp := Some ''0''\<rparr>"

lemma demoSession_simps [simp]:
  "sd_id demoSession = Some ''s''" "sd_step demoSession = Some 8" "sd_lastSequenceNumber demoSession = Some 7"
  "sd_maxRetries demoSession = Some 3" "sd_maxTimeout demoSession = Some 10"
  "sd_sourceBasePath demoSession = Some ''client''" "sd_recipientBasePath demoSession = Some ''server''"
  "sd_sourceGatewayPubkey demoSession = Some ''aa''" "sd_recipientGatewayPubkey demoSession = Some ''bb''"
  "sd_sourceLedgerAssetID demoSession = Some ''A''" "sd_recipientLedgerAssetID demoSession = Some ''B''"
  "sd_allowedSourceBackupGateways demoSession = Some []"
  "sd_transferCommenceMessageRequestHash demoSession = Some ''h3''"
  "sd_transferCommenceMessageResponseHash demoSession = Some ''h4''"
  "sd_lockEvidenceRequestMessageHash demoSession = Some ''h5''"
  "sd_lockEvidenceResponseMessageHash demoSession = Some ''h6''"
  "sd_commitPrepareRequestMessageHash demoSession = Some ''h7''"
  "sd_commitPrepareResponseMessageHash demoSession = Some ''h8''"
  "sd_commitFinalRequestMessageHash demoSession = Some ''h9''"
  "sd_commitFinalResponseMessageHash demoSession = Some ''h10''"
  "sd_rollbackActionsPerformed demoSession = Some []" "sd_rollbackProofs demoSession = Some []"
  "sd_lastMessageReceivedTimestamp demoSession = Some ''0''" "sd_lastLogEntryTimestamp demoSession = Some ''0''"
  "sd_rollback demoSession = None" "sd_commitFinalClaim demoSession = None" "sd_lockEvidenceClaim demoSession = None"
  by (simp_all add: demoSession_def emptySession_def)

definition inSession :: "unit world \<Rightarrow> unit world" where
  "inSession w = setSession ''s'' demoSession w"

lemma inSession_session [simp]: "session (inSession w) ''s'' = Some demoSession"
  by (simp add: inSession_def)

end
