(* ===== verification/Gateway_Properties.thy ===== *)
theory Gateway_Properties
  imports Scenario
begin

text \<open>
  Properties of the gateway as a whole: what a message may change, the logs, signatures, and
  the method that sends requests.
\<close>

section \<open>Frame and invariants\<close>

definition demoRollbackAck :: RollbackAckV1Message where
  "demoRollbackAck = \<lparr>rba_sessionID = ''a'', rba_success = True, rba_signature = ''bb''\<rparr>"

text \<open>
  The logs are append only: whatever happens to a gateway, the rows of its local log and of
  the shared remote log stay in place, in order.
\<close>

theorem logs_append_only:
  assumes "frameEnv (logsGrow (\<lambda>_. True)) E" "reachable E w w'"
  shows "prefix (localRows w) (localRows w') \<and> prefix (rr_rows (w_remote w)) (rr_rows (w_remote w'))"
  using appendOnly.reachable_in [OF assms] by (auto simp: logsGrow_def)

theorem logs_append_only_witness:
  "prefix (localRows clientWorld)
     (localRows (snd (handleRequest demoEnv ''u'' 7 (RollbackAckMessage demoRollbackAck) clientWorld)))"
proof -
  have "frameEnv (logsGrow (\<lambda>_. True)) demoEnv"
    by (rule frameEnv_demo) (unfold_locales; auto intro: logsGrow_refl logsGrow_trans logsGrow_same)+
  moreover have "reachable demoEnv clientWorld
      (snd (handleRequest demoEnv ''u'' 7 (RollbackAckMessage demoRollbackAck) clientWorld))"
    by (rule reachable.step [OF reachable.start], rule gatewayStep.received, rule surjective_pairing)
  ultimately show ?thesis using logs_append_only by blast
qed

lemma newGateway_database: "newGateway generated database kind opts = Some g \<Longrightarrow> localRepository g = Some database"
  by (auto simp: newGateway_def Let_def split: if_splits option.splits)

text \<open>
  C7. The local log refuses exactly duplicates: in every state that a gateway reaches from a
  database with well-formed rows, a new one or what earlier gateways left, an entry of the log's
  vocabulary is refused if and only if the table has a row of the same session, type and
  operation. Different entries never collide, although the key is one text.
\<close>

theorem log_refuses_exactly_duplicates:
  assumes "frameEnv (keeps wfLog) E" "newGateway generated database kind opts = Some (w_self w)"
    "wfRows (lr_rows database)" "reachable E w w'" "localRepository (w_self w') = Some r" "lr_open r"
    "(ll_type l, ll_operation l) \<in> set logEntries" "ll_data l \<noteq> None"
  shows "create (stampLog t l) r = None \<longleftrightarrow>
    (\<exists>row \<in> set (lr_rows r).
       (ll_sessionID row, ll_type row, ll_operation row) = (ll_sessionID l, ll_type l, ll_operation l))"
proof -
  from newGateway_database [OF assms(2)] assms(3) have "wfLog w" by (simp add: wfLog_def localRows_def)
  with logInvariant.reachable_in [OF assms(1,4)] assms(5) have wf: "wfRows (lr_rows r)"
    by (simp add: keeps_def wfLog_def localRows_def)
  have "ll_key row = ll_key (stampLog t l) \<longleftrightarrow>
      (ll_sessionID row, ll_type row, ll_operation row) = (ll_sessionID l, ll_type l, ll_operation l)"
    if "row \<in> set (lr_rows r)" for row
  proof -
    have "ownRow (ll_sessionID row) row" using wf that by (simp add: wfRows_def)
    then show ?thesis using logKey_inj [OF _ assms(7)] by (auto simp: ownRow_def stampLog_def)
  qed
  with assms(6,8) show ?thesis by (auto simp: create_def stampLog_def)
qed

definition demoOptions :: gatewayOptions where
  "demoOptions = \<lparr>go_instanceId = ''gw'', go_dltIDs = [''DLT1''], go_keyPair = Some ([1], [1]),
     go_backupGatewaysAllowed = None, go_ipfsPath = None\<rparr>"

text \<open>A database in which an earlier gateway left an entry; a crash may have followed.\<close>

definition demoLogDatabase :: LocalRepository where
  "demoLogDatabase = \<lparr>lr_open = True, lr_rows = [stampLog 5 (mkLog ''a'' ''exec'' ''lock'' (Some ''d''))]\<rparr>"

definition restartedWorld :: "unit world" where
  "restartedWorld = clientWorld\<lparr>w_self :=
     the (newGateway ([2], [2]) demoLogDatabase (FabricSatpGateway demoFabric) demoOptions)\<rparr>"

lemma restarted: "newGateway ([2], [2]) demoLogDatabase (FabricSatpGateway demoFabric) demoOptions = Some (w_self restartedWorld)"
  "localRepository (w_self restartedWorld) = Some demoLogDatabase"
  by (simp_all add: restartedWorld_def newGateway_def demoOptions_def isBlank_def isSpace_def newJsObjectSigner_def Let_def
      bufArray2HexStr_def byteToHex_def)

theorem log_refuses_exactly_duplicates_witness:
  "create (stampLog 9 (mkLog ''a'' ''exec'' ''lock'' (Some ''new''))) demoLogDatabase = None
    \<and> create (stampLog 9 (mkLog ''a'' ''done'' ''lock'' (Some ''new''))) demoLogDatabase \<noteq> None"
proof -
  have E: "frameEnv (keeps wfLog) demoEnv"
    by (rule frameEnv_demo) (unfold_locales; auto simp: keeps_def wfLog_def localRows_def)+
  have wf: "wfRows (lr_rows demoLogDatabase)"
    by (simp add: demoLogDatabase_def wfRows_def ownRow_def stampLog_def mkLog_def logEntries_intros)
  have opened: "lr_open demoLogDatabase" by (simp add: demoLogDatabase_def)
  note refused = log_refuses_exactly_duplicates [OF E restarted(1) wf reachable.start restarted(2) opened]
  show ?thesis
    using refused [of "mkLog ''a'' ''exec'' ''lock'' (Some ''new'')" 9] refused [of "mkLog ''a'' ''done'' ''lock'' (Some ''new'')" 9]
    by (simp add: mkLog_def logEntries_intros demoLogDatabase_def stampLog_def)
qed

text \<open>
  The configuration is immutable: keys, supported ledgers, the backup gateways, the ledger
  connection and the kind of the remote log of a gateway are those of its construction in every
  state it reaches.
\<close>

theorem configuration_constant:
  assumes "frameEnv sameConfiguration E" "reachable E w w'"
  shows "configuration (w_self w') = configuration (w_self w)"
  using config.reachable_in [OF assms] by (simp add: sameConfiguration_def)

theorem configuration_constant_witness:
  "configuration (w_self (snd (handleRequest demoEnv ''u'' 7 (RollbackAckMessage demoRollbackAck) clientWorld)))
     = configuration (w_self clientWorld)"
proof -
  have "frameEnv sameConfiguration demoEnv"
    by (rule frameEnv_demo) (unfold_locales; auto simp: sameConfiguration_def)+
  moreover have "reachable demoEnv clientWorld
      (snd (handleRequest demoEnv ''u'' 7 (RollbackAckMessage demoRollbackAck) clientWorld))"
    by (rule reachable.step [OF reachable.start], rule gatewayStep.received, rule surjective_pairing)
  ultimately show ?thesis by (rule configuration_constant)
qed

section \<open>Logging\<close>

lemma remoteEntry_valid:
  assumes "keyPair (e_crypto E) (privKey g) (pubKey g)"
  shows "validSignature (e_crypto E) (blankedRemote (remoteEntry E g key h)) (rl_signature (remoteEntry E g key h)) (pubKey g)"
proof -
  let ?l = "\<lparr>rl_key = key, rl_hash = h, rl_signature = '''', rl_signerPubKey = pubKey g\<rparr>"
  obtain s where "signHex (e_crypto E) (privKey g) (stringify (remoteLogToJson ?l)) = Some s"
    "verifySignature (e_crypto E) '''' (remoteLogToJson ?l) s (pubKey g) = Some True"
    using ecdsa.signed_and_verified [OF assms] by blast
  then show ?thesis by (simp add: validSignature_def remoteEntry_def blankedRemote_def)
qed

lemma remoteEntry_simps [simp]:
  "rl_key (remoteEntry E g k h) = k" "rl_hash (remoteEntry E g k h) = h" "rl_signerPubKey (remoteEntry E g k h) = pubKey g"
  by (simp_all add: remoteEntry_def Let_def)

lemma readRemote_entryWorld:
  assumes "logReady E key w" "ll_key l = Some key"
  shows "readRemote E key (entryWorld E l h w) = (Returns (Some (remoteEntry E (w_self w) key h)), entryWorld E l h w)"
  using assms
  by (simp add: readRemote_def logReady_def entryWorld_def remoteReadById_def find_append find_None_all)

text \<open>
  C8. What is logged can be read back and verified: a successful \<open>storeLog\<close> leaves, under the
  key of the entry, the stamped row in the local table and remotely the hash of exactly that row,
  signed by the gateway, which is what recovery compares a received log with.
\<close>

theorem storeLog_then_read:
  assumes "logReady E (getSatpLogKey (ll_sessionID l) (ll_type l) (ll_operation l)) w" "ll_data l \<noteq> None"
    "localRepository (w_self w) \<noteq> None" "keyPair (e_crypto E) (privKey (w_self w)) (pubKey (w_self w))"
  shows "\<exists>w' key row rl. storeLog E l w = (Returns (), w') \<and> row = stampLog (w_now w) l \<and> ll_key row = Some key
    \<and> getLogFromDatabase key w' = (Returns (Some row), w')
    \<and> getLogFromRemote E key w' = (Returns rl, w')
    \<and> rl_hash rl = hashJson E (localLogToJson row) \<and> rl_signerPubKey rl = pubKey (w_self w)"
proof -
  define key where "key = getSatpLogKey (ll_sessionID l) (ll_type l) (ll_operation l)"
  define row where "row = stampLog (w_now w) l"
  define w' where "w' = entryWorld E row (hashJson E (localLogToJson row)) w"
  let ?rl = "remoteEntry E (w_self w) key (hashJson E (localLogToJson row))"
  have run: "storeLog E l w = (Returns (), w')"
    using storeLog_ready [OF assms(1,2)] by (simp add: w'_def row_def)
  have row: "ll_key row = Some key" by (simp add: row_def key_def)
  have "getLogFromRemote E key w' = (Returns ?rl, w')"
    using readRemote_entryWorld [OF assms(1) [folded key_def] row] remoteEntry_valid [OF assms(4)]
    by (simp add: returns w'_def)
  moreover have "getLogFromDatabase key w' = (Returns (Some row), w')"
    using assms(1,3) row
    by (auto simp: getLogFromDatabase_def queryLocal_def returns w'_def entryWorld_def addRow_def readById_def
        logReady_def find_append find_None_all simp flip: key_def)
  ultimately show ?thesis using run row row_def by (auto intro!: exI)
qed

theorem storeLog_then_read_witness:
  "\<exists>w' key row rl. storeLog demoEnv (mkLog ''a'' ''init'' ''lock'' (Some ''d'')) clientWorld = (Returns (), w')
    \<and> row = stampLog (w_now clientWorld) (mkLog ''a'' ''init'' ''lock'' (Some ''d'')) \<and> ll_key row = Some key
    \<and> getLogFromDatabase key w' = (Returns (Some row), w')
    \<and> getLogFromRemote demoEnv key w' = (Returns rl, w')
    \<and> rl_hash rl = hashJson demoEnv (localLogToJson row) \<and> rl_signerPubKey rl = pubKey (w_self clientWorld)"
  by (rule storeLog_then_read) (simp_all add: clientWorld_def, simp add: demoWorld_def demoGateway_def)

text \<open>
  Write once: after an entry was stored, no later state of the gateway accepts another entry
  for the same session, type and operation; the attempt is refused by the local table and
  reaches neither log.
\<close>

theorem entry_written_once:
  assumes "frameEnv (logsGrow (\<lambda>_. True)) E" "localRepository (w_self w) \<noteq> None"
    "storeLog E l w = (Returns (), w1)" "reachable E w1 w2" "localRepository (w_self w2) = Some r"
    "(ll_sessionID l', ll_type l', ll_operation l') = (ll_sessionID l, ll_type l, ll_operation l)"
  shows "storeLog E l' w2 = (Throws DatabaseError, w2\<lparr>w_now := w_now w2 + e_tick E (w_now w2)\<rparr>)"
proof -
  let ?row = "stampLog (w_now w) l"
  have "?row \<in> set (localRows w1)"
  proof -
    obtain w0 where w0: "storeInDatabase ?row (w\<lparr>w_now := w_now w + e_tick E (w_now w)\<rparr>) = (Returns (), w0)"
      "storeRemoteLog E (the (ll_key ?row)) (hashJson E (localLogToJson ?row)) w0 = (Returns (), w1)"
      using assms(3) by (auto simp: storeLog_def Let_def returns)
    have "?row \<in> set (localRows w0)"
      using w0(1) assms(2) by (auto simp: storeInDatabase_def create_def localRows_def split: option.splits if_splits)
    moreover have "logsGrow (\<lambda>_. True) w0 w1"
      by (rule followsD [OF appendOnly.follows_storeRemoteLog w0(2)])
    ultimately show ?thesis by (auto simp: logsGrow_def)
  qed
  with appendOnly.reachable_in [OF assms(1,4)] have "?row \<in> set (localRows w2)" by (auto simp: logsGrow_def)
  then show ?thesis
    using assms(5,6) by (intro storeLog_duplicate [of _ r ?row]) (simp_all add: localRows_def)
qed

theorem entry_written_once_witness:
  "\<exists>w1 w2. storeLog demoEnv (mkLog ''a'' ''exec'' ''lock'' (Some ''new''))  w1 = (Throws DatabaseError, w2)"
proof -
  let ?l = "mkLog ''a'' ''exec'' ''lock'' (Some ''d'')"
  obtain w1 where w1: "storeLog demoEnv ?l clientWorld = (Returns (), w1)" "localRepository (w_self w1) \<noteq> None"
    using storeLog_ready [of demoEnv ?l clientWorld]
    by (auto simp: clientWorld_def) (auto simp: entryWorld_def addRow_def demoWorld_def demoGateway_def)
  then obtain r where "localRepository (w_self w1) = Some r" by blast
  moreover have "frameEnv (logsGrow (\<lambda>_. True)) demoEnv"
    by (rule frameEnv_demo) (unfold_locales; auto intro: logsGrow_refl logsGrow_trans logsGrow_same)+
  ultimately show ?thesis
    using entry_written_once [OF _ _ w1(1) reachable.start, of r "mkLog ''a'' ''exec'' ''lock'' (Some ''new'')"]
    by (auto simp: clientWorld_def demoWorld_def demoGateway_def)
qed

text \<open>
  A failure status of the remote log is never noticed: the guard \<open>status < 200 && status > 299\<close>
  is unsatisfiable, so that no answer of the remote log makes \<open>storeRemoteLog\<close> throw its error.
\<close>

theorem remote_status_never_checked:
  "fst (storeRemoteLog E key hash w) \<noteq> Throws RemoteStatusError"
proof -
  have signed: "fst (signA E j w) \<noteq> Throws RemoteStatusError" for j
    by (auto simp: signA_def bindA_def getsA_def ret_def throwE_def split: option.splits)
  have created: "fst (createRemote E l u) \<noteq> Throws RemoteStatusError" for l u
    by (auto simp: createRemote_def split: option.splits remoteKind.splits prod.splits)
  have guard: "(case status of None \<Rightarrow> True | Some n \<Rightarrow> \<not> (n < 200 \<and> n > 299)) = True" for status :: "int option"
    by (auto split: option.split)
  show ?thesis
    unfolding storeRemoteLog_def guard
    using signed created
    by (auto simp: runs ensure_def bindA_def getsA_def ret_def split: prod.split outcome.split)
      (metis fst_conv)+
qed

section \<open>The object store\<close>

text \<open>What the object store promises: a value that was set is the value that is read.\<close>

definition objectStore :: "'x env \<Rightarrow> string \<Rightarrow> bool" where
  "objectStore E path \<longleftrightarrow> (\<forall>k v x. \<exists>n x'. e_setObjectV1 E path k v x = (Some n, x') \<and> e_getObjectV1 E path k x' = Some v)"

text \<open>
  A log that goes through the object store comes back unchanged: what \<open>storeRemoteLog\<close> writes, as the
  base 64 text of its JSON, \<open>getLogFromRemote\<close> reads back, decodes, and verifies.
\<close>

theorem object_store_roundtrip:
  assumes "objectStore E path" "remoteRepository (w_self w) = Some (IPFSRemoteLogRepository path)"
    "keyPair (e_crypto E) (privKey (w_self w)) (pubKey (w_self w))"
  shows "\<exists>w'. storeRemoteLog E key hash w = (Returns (), w')
    \<and> getLogFromRemote E key w' = (Returns (remoteEntry E (w_self w) key hash), w')
    \<and> rl_hash (remoteEntry E (w_self w) key hash) = hash"
proof -
  let ?l = "remoteEntry E (w_self w) key hash"
  let ?b = "\<lparr>rl_key = key, rl_hash = hash, rl_signature = '''', rl_signerPubKey = pubKey (w_self w)\<rparr>"
  obtain s where s: "signHex (e_crypto E) (privKey (w_self w)) (stringify (remoteLogToJson ?b)) = Some s"
    using ecdsa.signs [OF assms(3)] by blast
  then have l: "?b\<lparr>rl_signature := s\<rparr> = ?l" by (simp add: remoteEntry_def)
  obtain n x' where x': "e_setObjectV1 E path key (ipfsEncode ?l) (w_ext w) = (Some n, x')"
    "e_getObjectV1 E path key x' = Some (ipfsEncode ?l)"
    using assms(1) unfolding objectStore_def by blast
  have "storeRemoteLog E key hash w = (Returns (), w\<lparr>w_ext := x'\<rparr>)"
    using assms(2) s x'(1) l by (simp add: storeRemoteLog_def createRemote_def returns)
  moreover have "getLogFromRemote E key (w\<lparr>w_ext := x'\<rparr>) = (Returns ?l, w\<lparr>w_ext := x'\<rparr>)"
    using assms(2) x'(2) remoteEntry_valid [OF assms(3)] by (simp add: returns readRemote_def)
  ultimately show ?thesis by auto
qed

text \<open>A store in memory.\<close>

definition storeEnv :: "(string \<rightharpoonup> string) env" where
  "storeEnv = \<lparr>
     e_crypto = demoCrypto, e_sql = e_sql demoEnv, e_timezone = e_timezone demoEnv, e_parseDate = (\<lambda>_. None),
     e_tick = (\<lambda>_. 1), e_wait = (\<lambda>d w. w), e_post = (\<lambda>_ _ w. (HttpResponse 200, w)),
     e_setObjectV1 = (\<lambda>_ k v x. (Some 200, x(k \<mapsto> v))), e_getObjectV1 = (\<lambda>_ k x. x k),
     e_invokeContractV1 = (\<lambda>_ _ x. (None, x)), e_runTransactionV1 = (\<lambda>_ _ x. (None, x)),
     e_getTransactionReceiptByTxIDV1 = (\<lambda>_ _ x. (None, x))\<rparr>"

definition storeWorld :: "(string \<rightharpoonup> string) world" where
  "storeWorld = \<lparr>w_self = (demoGateway ''aa'' (FabricSatpGateway demoFabric))\<lparr>remoteRepository := Some (IPFSRemoteLogRepository ''ipfs'')\<rparr>,
     w_remote = \<lparr>rr_open = True, rr_rows = []\<rparr>, w_now = 0, w_ext = Map.empty\<rparr>"

theorem object_store_roundtrip_witness:
  "\<exists>w'. storeRemoteLog storeEnv ''k'' ''h'' storeWorld = (Returns (), w')
    \<and> (\<exists>l. getLogFromRemote storeEnv ''k'' w' = (Returns l, w') \<and> rl_hash l = ''h'')"
proof -
  have "objectStore storeEnv ''ipfs''" by (simp add: objectStore_def storeEnv_def)
  moreover have "keyPair (e_crypto storeEnv) (privKey (w_self storeWorld)) (pubKey (w_self storeWorld))"
    by (simp add: storeWorld_def demoGateway_def storeEnv_def)
  ultimately show ?thesis
    using object_store_roundtrip [of storeEnv "''ipfs''" storeWorld "''k''" "''h''"] by (auto simp: storeWorld_def)
qed

end
