(* ===== verification/Effects.thy ===== *)
theory Effects
  imports Scenario
begin

text \<open>
  What happens before a handler acts: the timestamp it leaves in the session, checks that fail
  without a trace, logging that leaves ledgers and peers alone, and log keys that are used up.
\<close>

section \<open>The timestamp of the last message\<close>

definition touched :: "'x env \<Rightarrow> 'x world \<Rightarrow> SessionData \<Rightarrow> SessionData" where
  "touched E w sd = sd\<lparr>sd_lastMessageReceivedTimestamp := Some (dateToString (e_timezone E) (w_now w))\<rparr>"

definition ticked :: "'x env \<Rightarrow> 'x world \<Rightarrow> 'x world" where
  "ticked E w = w\<lparr>w_now := w_now w + e_tick E (w_now w)\<rparr>"

lemma updateLast_eq:
  "updateLastMessageReceivedTimestamp E sid w = (case session w sid of
     None \<Rightarrow> (Throws SessionError, w)
   | Some sd \<Rightarrow> (Returns (), setSession sid (touched E w sd) (ticked E w)))"
  by (simp add: updateLastMessageReceivedTimestamp_def runs touched_def ticked_def split: option.split)

lemma updateLast_run [runs]:
  "thenA (updateLastMessageReceivedTimestamp E sid) k w = (case session w sid of
     None \<Rightarrow> (Throws SessionError, w)
   | Some sd \<Rightarrow> k (setSession sid (touched E w sd) (ticked E w)))"
  by (simp add: updateLast_eq thenA_run thenA_throws split: option.split)

lemma touched_simps [simp]:
  "sd_id (touched E w sd) = sd_id sd"
  "sd_step (touched E w sd) = sd_step sd"
  "sd_version (touched E w sd) = sd_version sd"
  "sd_lastSequenceNumber (touched E w sd) = sd_lastSequenceNumber sd"
  "sd_loggingProfile (touched E w sd) = sd_loggingProfile sd"
  "sd_accessControlProfile (touched E w sd) = sd_accessControlProfile sd"
  "sd_applicationProfile (touched E w sd) = sd_applicationProfile sd"
  "sd_payloadProfile (touched E w sd) = sd_payloadProfile sd"
  "sd_assetProfile (touched E w sd) = sd_assetProfile sd"
  "sd_allowedSourceBackupGateways (touched E w sd) = sd_allowedSourceBackupGateways sd"
  "sd_allowedRecipientBackupGateways (touched E w sd) = sd_allowedRecipientBackupGateways sd"
  "sd_sourceBasePath (touched E w sd) = sd_sourceBasePath sd"
  "sd_recipientBasePath (touched E w sd) = sd_recipientBasePath sd"
  "sd_originatorPubkey (touched E w sd) = sd_originatorPubkey sd"
  "sd_beneficiaryPubkey (touched E w sd) = sd_beneficiaryPubkey sd"
  "sd_sourceGatewayPubkey (touched E w sd) = sd_sourceGatewayPubkey sd"
  "sd_sourceGatewayDltSystem (touched E w sd) = sd_sourceGatewayDltSystem sd"
  "sd_recipientGatewayPubkey (touched E w sd) = sd_recipientGatewayPubkey sd"
  "sd_recipientGatewayDltSystem (touched E w sd) = sd_recipientGatewayDltSystem sd"
  "sd_initializationRequestMessageHash (touched E w sd) = sd_initializationRequestMessageHash sd"
  "sd_initializationResponseMessageHash (touched E w sd) = sd_initializationResponseMessageHash sd"
  "sd_initializationRequestMessageRcvTimeStamp (touched E w sd) = sd_initializationRequestMessageRcvTimeStamp sd"
  "sd_initializationRequestMessageProcessedTimeStamp (touched E w sd) = sd_initializationRequestMessageProcessedTimeStamp sd"
  "sd_clientSignatureInitializationRequestMessage (touched E w sd) = sd_clientSignatureInitializationRequestMessage sd"
  "sd_serverSignatureInitializationResponseMessage (touched E w sd) = sd_serverSignatureInitializationResponseMessage sd"
  "sd_transferCommenceMessageRequestHash (touched E w sd) = sd_transferCommenceMessageRequestHash sd"
  "sd_transferCommenceMessageResponseHash (touched E w sd) = sd_transferCommenceMessageResponseHash sd"
  "sd_clientSignatureTransferCommenceRequestMessage (touched E w sd) = sd_clientSignatureTransferCommenceRequestMessage sd"
  "sd_serverSignatureTransferCommenceResponseMessage (touched E w sd) = sd_serverSignatureTransferCommenceResponseMessage sd"
  "sd_lockEvidenceRequestMessageHash (touched E w sd) = sd_lockEvidenceRequestMessageHash sd"
  "sd_lockEvidenceResponseMessageHash (touched E w sd) = sd_lockEvidenceResponseMessageHash sd"
  "sd_clientSignatureLockEvidenceRequestMessage (touched E w sd) = sd_clientSignatureLockEvidenceRequestMessage sd"
  "sd_serverSignatureLockEvidenceResponseMessage (touched E w sd) = sd_serverSignatureLockEvidenceResponseMessage sd"
  "sd_lockEvidenceClaim (touched E w sd) = sd_lockEvidenceClaim sd"
  "sd_commitPrepareRequestMessageHash (touched E w sd) = sd_commitPrepareRequestMessageHash sd"
  "sd_commitPrepareResponseMessageHash (touched E w sd) = sd_commitPrepareResponseMessageHash sd"
  "sd_clientSignatureCommitPreparationRequestMessage (touched E w sd) = sd_clientSignatureCommitPreparationRequestMessage sd"
  "sd_serverSignatureCommitPreparationResponseMessage (touched E w sd) = sd_serverSignatureCommitPreparationResponseMessage sd"
  "sd_commitFinalRequestMessageHash (touched E w sd) = sd_commitFinalRequestMessageHash sd"
  "sd_commitFinalResponseMessageHash (touched E w sd) = sd_commitFinalResponseMessageHash sd"
  "sd_commitFinalClaim (touched E w sd) = sd_commitFinalClaim sd"
  "sd_commitFinalClaimFormat (touched E w sd) = sd_commitFinalClaimFormat sd"
  "sd_commitAcknowledgementClaim (touched E w sd) = sd_commitAcknowledgementClaim sd"
  "sd_commitAcknowledgementClaimFormat (touched E w sd) = sd_commitAcknowledgementClaimFormat sd"
  "sd_clientSignatureCommitFinalRequestMessage (touched E w sd) = sd_clientSignatureCommitFinalRequestMessage sd"
  "sd_serverSignatureCommitFinalResponseMessage (touched E w sd) = sd_serverSignatureCommitFinalResponseMessage sd"
  "sd_transferCompleteMessageHash (touched E w sd) = sd_transferCompleteMessageHash sd"
  "sd_clientSignatureTransferCompleteMessage (touched E w sd) = sd_clientSignatureTransferCompleteMessage sd"
  "sd_maxRetries (touched E w sd) = sd_maxRetries sd"
  "sd_recipientLedgerAssetID (touched E w sd) = sd_recipientLedgerAssetID sd"
  "sd_sourceLedgerAssetID (touched E w sd) = sd_sourceLedgerAssetID sd"
  "sd_maxTimeout (touched E w sd) = sd_maxTimeout sd"
  "sd_lastLogEntryTimestamp (touched E w sd) = sd_lastLogEntryTimestamp sd"
  "sd_unlockAssetClaim (touched E w sd) = sd_unlockAssetClaim sd"
  "sd_recreateAssetClaim (touched E w sd) = sd_recreateAssetClaim sd"
  "sd_deleteAssetClaim (touched E w sd) = sd_deleteAssetClaim sd"
  "sd_rollback (touched E w sd) = sd_rollback sd"
  "sd_rollbackMessageHash (touched E w sd) = sd_rollbackMessageHash sd"
  "sd_rollbackProofs (touched E w sd) = sd_rollbackProofs sd"
  "sd_rollbackActionsPerformed (touched E w sd) = sd_rollbackActionsPerformed sd"
  by (simp_all add: touched_def)

lemma ticked_simps [simp]:
  "w_self (ticked E w) = w_self w" "w_remote (ticked E w) = w_remote w" "w_ext (ticked E w) = w_ext w"
  "session (ticked E w) = session w"
  by (simp_all add: ticked_def)

section \<open>Checks that fail without a trace\<close>

text \<open>An action that either goes on in the same world or throws there.\<close>

definition pureCheck :: "('s, 'e, 'a) act \<Rightarrow> bool" where
  "pureCheck m \<longleftrightarrow> (\<forall>s. (\<exists>a. m s = (Returns a, s)) \<or> (\<exists>e. m s = (Throws e, s)))"

lemma pureCheck_ensure: "pureCheck (ensure c e)"
  by (auto simp: pureCheck_def ensure_def runs)

lemma pureCheck_verifyA: "pureCheck (verifyA E j sig pk e)"
  by (auto simp: pureCheck_def verifyA_def runs ensure_def split: option.split)

lemma pureCheck_getLogFromRemote: "pureCheck (getLogFromRemote E k)"
  by (auto simp: pureCheck_def getLogFromRemote_def rethrowAs_def bindA_def thenA_def readRemote_def verifyA_def
      getsA_def ret_def throwE_def ensure_def split: option.splits remoteKind.splits prod.splits outcome.splits)

text \<open>A sequence of such checks before an action: the action runs, or the sequence throws in place.\<close>

lemma pureCheck_then:
  assumes "pureCheck m" "(\<exists>r u. k s = (Returns r, u)) \<or> (\<exists>e. k s = (Throws e, s))"
  shows "(\<exists>r u. thenA m k s = (Returns r, u)) \<or> (\<exists>e. thenA m k s = (Throws e, s))"
  using assms unfolding pureCheck_def by (metis thenA_run thenA_throws)

lemma getSession_then:
  assumes "\<And>sd. (\<exists>r u. k sd s = (Returns r, u)) \<or> (\<exists>e. k sd s = (Throws e, s))"
  shows "(\<exists>r u. bindA (getSession sid) k s = (Returns r, u)) \<or> (\<exists>e. bindA (getSession sid) k s = (Throws e, s))"
  using assms by (auto simp: runs split: option.split)

lemma putSession_returns:
  "(\<exists>r u. putSession sid sd s = (Returns r, u)) \<or> (\<exists>e. putSession sid sd s = (Throws e, s))"
  by (simp add: runs)

lemma pureCheck_thenA: "pureCheck m \<Longrightarrow> pureCheck k \<Longrightarrow> pureCheck (thenA m k)"
  unfolding pureCheck_def by (metis thenA_run thenA_throws)

lemma pureCheck_bindA: "pureCheck m \<Longrightarrow> (\<And>a. pureCheck (k a)) \<Longrightarrow> pureCheck (bindA m k)"
  unfolding pureCheck_def by (metis bindA_run bindA_throws)

lemma pureCheck_checkClaim: "pureCheck (checkClaim E sid op' c pk)"
  unfolding checkClaim_def
  by (intro pureCheck_bindA pureCheck_thenA pureCheck_getLogFromRemote pureCheck_ensure pureCheck_verifyA)

lemmas pureChecks = getSession_then pureCheck_then pureCheck_ensure pureCheck_verifyA pureCheck_checkClaim putSession_returns

lemma client_checks_fail_in_place:
  "checkValidTransferCommenceResponse E m1 w = (r1, w1) \<Longrightarrow> r1 = Returns () \<or> (\<exists>e. r1 = Throws e \<and> w1 = w)"
  "checkValidCommitPreparationResponse E m2 w = (r2, w2) \<Longrightarrow> r2 = Returns () \<or> (\<exists>e. r2 = Throws e \<and> w2 = w)"
proof -
  have "(\<exists>r u. checkValidTransferCommenceResponse E m1 w = (Returns r, u))
      \<or> (\<exists>e. checkValidTransferCommenceResponse E m1 w = (Throws e, w))"
    unfolding checkValidTransferCommenceResponse_def by (intro pureChecks)
  then show "checkValidTransferCommenceResponse E m1 w = (r1, w1) \<Longrightarrow> r1 = Returns () \<or> (\<exists>e. r1 = Throws e \<and> w1 = w)"
    by auto
  have "(\<exists>r u. checkValidCommitPreparationResponse E m2 w = (Returns r, u))
      \<or> (\<exists>e. checkValidCommitPreparationResponse E m2 w = (Throws e, w))"
    unfolding checkValidCommitPreparationResponse_def by (intro pureChecks)
  then show "checkValidCommitPreparationResponse E m2 w = (r2, w2) \<Longrightarrow> r2 = Returns () \<or> (\<exists>e. r2 = Throws e \<and> w2 = w)"
    by auto
qed

section \<open>Logging leaves ledgers and peers alone\<close>

text \<open>With the remote log in the database, nothing outside the gateway changes.\<close>

definition stillOutside :: "'x world \<Rightarrow> 'x world \<Rightarrow> bool" where
  "stillOutside w w' \<longleftrightarrow> (remoteRepository (w_self w) = Some KnexRemoteLogRepository \<longrightarrow>
     w_ext w' = w_ext w \<and> remoteRepository (w_self w') = Some KnexRemoteLogRepository)"

interpretation still: run_preorder stillOutside
  by unfold_locales (auto simp: stillOutside_def)

lemma still_pureCheck: "pureCheck m \<Longrightarrow> follows stillOutside m"
  unfolding follows_def pureCheck_def by (metis snd_conv still.stays)

lemma still_putSession: "follows stillOutside (putSession s sd)"
  by (simp add: follows_def runs stillOutside_def)

lemma still_getSession: "follows stillOutside (getSession s)"
  unfolding getSession_def by (intro still.follows_bindA still.follows_getsA still.follows_option still.follows_throwE still.follows_ret)

lemma still_dateNow: "follows stillOutside (dateNow E)"
  by (simp add: follows_def dateNow_def stillOutside_def)

lemma still_storeInDatabase: "follows stillOutside (storeInDatabase l)"
  by (simp add: follows_def storeInDatabase_def stillOutside_def split: option.split)

lemma still_createRemote: "follows stillOutside (createRemote E l)"
  by (auto simp: follows_def createRemote_def stillOutside_def split: option.split remoteKind.split prod.split)

lemma still_signA: "follows stillOutside (signA E j)"
  unfolding signA_def by (intro still.follows_bindA still.follows_getsA still.follows_option still.follows_throwE still.follows_ret)

lemma still_storeRemoteLog: "follows stillOutside (storeRemoteLog E k h)"
  unfolding storeRemoteLog_def
  by (intro still.follows_bindA still.follows_getsA still_signA still_createRemote still.follows_ensure)

lemma still_storeLog: "follows stillOutside (storeLog E l)"
  unfolding storeLog_def Let_def
  by (intro still.follows_bindA still.follows_thenA still_dateNow still_storeInDatabase still_storeRemoteLog)

lemma still_logSession: "follows stillOutside (logSession E s t op' sd)"
  unfolding logSession_def by (rule still_storeLog)

lemma still_storeProof: "follows stillOutside (storeProof E l)"
  unfolding storeProof_def Let_def
  by (intro still.follows_option still.follows_bindA still.follows_thenA still.follows_ret still_dateNow
      still_storeInDatabase still_storeRemoteLog)

lemma still_verifyA: "follows stillOutside (verifyA E j sig pk e)"
  by (rule still_pureCheck [OF pureCheck_verifyA])

lemma still_checkClaim: "follows stillOutside (checkClaim E sid op' c pk)"
  by (rule still_pureCheck [OF pureCheck_checkClaim])

lemma still_updateLast: "follows stillOutside (updateLastMessageReceivedTimestamp E sid)"
  unfolding updateLastMessageReceivedTimestamp_def
  by (intro still.follows_bindA still_getSession still_dateNow still_putSession)

lemmas still_intros = still.follows_bindA still.follows_thenA still.follows_ensure still.follows_ret still.follows_throwE
  still_getSession still_putSession still_dateNow still_logSession still_verifyA still_checkClaim

lemma still_checkValidCommitFinalRequest: "follows stillOutside (checkValidCommitFinalRequest E m)"
  unfolding checkValidCommitFinalRequest_def Let_def by (intro still_intros)

lemma still_checkValidLockEvidenceRequest: "follows stillOutside (checkValidLockEvidenceRequest E m)"
  unfolding checkValidLockEvidenceRequest_def Let_def by (intro still_intros)

text \<open>The remote row that a written entry leaves behind.\<close>

lemma logSession_remote:
  assumes "logSession E s t op' sd w = (Returns b, w')" "remoteRepository (w_self w) = Some KnexRemoteLogRepository"
  shows "\<exists>e. rr_rows (w_remote w') = rr_rows (w_remote w) @ [e] \<and> rl_key e = getSatpLogKey s t op'
    \<and> rr_open (w_remote w') \<and> rr_open (w_remote w) \<and> remoteRepository (w_self w') = Some KnexRemoteLogRepository"
  using assms
  by (auto simp: logSession_def storeLog_def storeInDatabase_def storeRemoteLog_def createRemote_def remoteCreate_def
      Let_def returns split: option.splits if_splits)

section \<open>Log keys that are used up\<close>

definition keyUsed :: "string \<Rightarrow> 'x world \<Rightarrow> bool" where
  "keyUsed key w \<longleftrightarrow> (\<exists>l \<in> set (localRows w). ll_key l = Some key)"

lemma keyUsed_grow: "logsGrow P w w' \<Longrightarrow> keyUsed key w \<Longrightarrow> keyUsed key w'"
  by (auto simp: logsGrow_def keyUsed_def)

lemma keyUsed_follows: "follows (logsGrow P) m \<Longrightarrow> m w = (r, w') \<Longrightarrow> keyUsed key w \<Longrightarrow> keyUsed key w'"
  by (drule (1) followsD [of "logsGrow P"]) (rule keyUsed_grow)

lemma keyUsed_reachable:
  "frameEnv (logsGrow (\<lambda>_. True)) E \<Longrightarrow> reachable E w w' \<Longrightarrow> keyUsed key w \<Longrightarrow> keyUsed key w'"
  by (rule keyUsed_grow [OF appendOnly.reachable_in])

lemma keyUsed_simps [simp]:
  "keyUsed key (setSession s sd w) = keyUsed key w" "keyUsed key (ticked E w) = keyUsed key w"
  by (simp_all add: keyUsed_def localRows_def)

lemma logSession_uses_key:
  assumes "logSession E s t op' sd w = (Returns b, w')" "localRepository (w_self w) \<noteq> None"
  shows "keyUsed (getSatpLogKey s t op') w'"
proof -
  let ?row = "stampLog (w_now w) (mkLog s t op' (Some (stringifySession sd)))"
  obtain w0 where w0: "storeInDatabase ?row (ticked E w) = (Returns (), w0)"
    "storeRemoteLog E (the (ll_key ?row)) (hashJson E (localLogToJson ?row)) w0 = (Returns (), w')"
    using assms(1) by (auto simp: logSession_def storeLog_def Let_def returns ticked_def)
  have "keyUsed (getSatpLogKey s t op') w0"
    using w0(1) assms(2)
    by (auto simp: storeInDatabase_def create_def keyUsed_def localRows_def split: option.splits if_splits)
  with keyUsed_follows [OF appendOnly.follows_storeRemoteLog w0(2)] show ?thesis .
qed

lemma logSession_key_used:
  assumes "keyUsed (getSatpLogKey s t op') w"
  shows "logSession E s t op' sd w = (Throws DatabaseError, ticked E w)"
proof -
  obtain r l where "localRepository (w_self w) = Some r" "l \<in> set (lr_rows r)" "ll_key l = Some (getSatpLogKey s t op')"
    using assms by (cases "localRepository (w_self w)") (auto simp: keyUsed_def localRows_def)
  then show ?thesis unfolding logSession_def ticked_def by (intro storeLog_duplicate) simp_all
qed

lemma thenA_logSession_key_used:
  "keyUsed (getSatpLogKey s t op') w \<Longrightarrow> thenA (logSession E s t op' sd) k w = (Throws DatabaseError, ticked E w)"
  by (simp add: thenA_def bindA_def logSession_key_used)

section \<open>Runs that log\<close>

text \<open>The world after a session or a proof was logged under a free key.\<close>

definition sessionLogged :: "'x env \<Rightarrow> string \<Rightarrow> string \<Rightarrow> string \<Rightarrow> SessionData \<Rightarrow> 'x world \<Rightarrow> 'x world" where
  "sessionLogged E s t op' sd w =
    (let l = stampLog (w_now w) (mkLog s t op' (Some (stringifySession sd)))
     in entryWorld E l (hashJson E (localLogToJson l)) w)"

definition proofLogged :: "'x env \<Rightarrow> string \<Rightarrow> string \<Rightarrow> string \<Rightarrow> string \<Rightarrow> 'x world \<Rightarrow> 'x world" where
  "proofLogged E s t op' d w =
     entryWorld E (stampLog (w_now w) (mkLog s t op' (Some d))) (sha256 (e_crypto E) d) w"

lemma logSession_ready: "logReady E (getSatpLogKey s t op') w \<Longrightarrow>
    logSession E s t op' sd w = (Returns (), sessionLogged E s t op' sd w)"
  by (simp add: logSession_run sessionLogged_def Let_def)

lemma thenA_logSession_ready: "logReady E (getSatpLogKey s t op') w \<Longrightarrow>
    thenA (logSession E s t op' sd) k w = k (sessionLogged E s t op' sd w)"
  by (rule thenA_run [OF logSession_ready])

lemma thenA_storeProof_ready: "logReady E (getSatpLogKey s t op') w \<Longrightarrow>
    thenA (storeProof E (mkLog s t op' (Some d))) k w = k (proofLogged E s t op' d w)"
  unfolding proofLogged_def by (rule thenA_run, rule storeProof_ready) simp_all

lemmas ready_runs = logSession_ready thenA_logSession_ready thenA_storeProof_ready

lemma sessionLogged_simps [simp]:
  "session (sessionLogged E s t op' sd w) = session w" "w_ext (sessionLogged E s t op' sd w) = w_ext w"
  "pubKey (w_self (sessionLogged E s t op' sd w)) = pubKey (w_self w)"
  "privKey (w_self (sessionLogged E s t op' sd w)) = privKey (w_self w)"
  "supportedDltIDs (w_self (sessionLogged E s t op' sd w)) = supportedDltIDs (w_self w)"
  "backupGatewaysAllowed (w_self (sessionLogged E s t op' sd w)) = backupGatewaysAllowed (w_self w)"
  "ledgerKind (w_self (sessionLogged E s t op' sd w)) = ledgerKind (w_self w)"
  "remoteRepository (w_self (sessionLogged E s t op' sd w)) = remoteRepository (w_self w)"
  by (simp_all add: sessionLogged_def Let_def)

lemma proofLogged_simps [simp]:
  "session (proofLogged E s t op' d w) = session w" "w_ext (proofLogged E s t op' d w) = w_ext w"
  "pubKey (w_self (proofLogged E s t op' d w)) = pubKey (w_self w)"
  "privKey (w_self (proofLogged E s t op' d w)) = privKey (w_self w)"
  "supportedDltIDs (w_self (proofLogged E s t op' d w)) = supportedDltIDs (w_self w)"
  "backupGatewaysAllowed (w_self (proofLogged E s t op' d w)) = backupGatewaysAllowed (w_self w)"
  "ledgerKind (w_self (proofLogged E s t op' d w)) = ledgerKind (w_self w)"
  "remoteRepository (w_self (proofLogged E s t op' d w)) = remoteRepository (w_self w)"
  by (simp_all add: proofLogged_def)

lemma logReady_logged [simp]:
  "logReady E key w \<Longrightarrow> getSatpLogKey s t op' \<noteq> key \<Longrightarrow> logReady E key (sessionLogged E s t op' sd w)"
  "logReady E key w \<Longrightarrow> getSatpLogKey s t op' \<noteq> key \<Longrightarrow> logReady E key (proofLogged E s t op' d w)"
  by (simp_all add: sessionLogged_def proofLogged_def Let_def)

lemma logReady_ticked [simp]: "logReady E key (ticked E' w) = logReady E key w"
  by (simp add: ticked_def)

text \<open>A claim that is in the remote log stays there.\<close>

lemma claimLogged_knex:
  assumes "remoteRepository (w_self w) = Some KnexRemoteLogRepository"
  shows "claimLogged E w sid op' claim pk \<longleftrightarrow> rr_open (w_remote w) \<and>
    (\<exists>l. remoteReadById (getSatpLogKey sid ''proof'' op') (w_remote w) = Some l
       \<and> rl_hash l = sha256 (e_crypto E) claim
       \<and> validSignature (e_crypto E) (blankedRemote l) (rl_signature l) (rl_signerPubKey l)
       \<and> validSignature (e_crypto E) (blankedRemote l) (rl_signature l) pk)"
  using assms by (auto simp: claimLogged_def readRemote_def)

lemma claimLogged_world [simp]:
  "claimLogged E (setSession s sd w) sid op' claim pk = claimLogged E w sid op' claim pk"
  "claimLogged E (ticked E' w) sid op' claim pk = claimLogged E w sid op' claim pk"
  by (simp_all add: claimLogged_def readRemote_def ticked_def split: option.split remoteKind.split)

lemma claimLogged_sessionLogged:
  assumes "remoteRepository (w_self w) = Some KnexRemoteLogRepository" "t @ ''-'' @ op1 \<noteq> ''proof-'' @ op2"
  shows "claimLogged E (sessionLogged E' s t op1 sd w) s op2 claim pk = claimLogged E w s op2 claim pk"
proof -
  have "remoteReadById (getSatpLogKey s ''proof'' op2) (w_remote (sessionLogged E' s t op1 sd w))
      = remoteReadById (getSatpLogKey s ''proof'' op2) (w_remote w)"
    using assms(2) by (simp add: sessionLogged_def entryWorld_def Let_def remoteReadById_def find_append remoteEntry_def
        split: option.split)
  moreover have "rr_open (w_remote (sessionLogged E' s t op1 sd w)) = rr_open (w_remote w)"
    by (simp add: sessionLogged_def entryWorld_def Let_def)
  ultimately show ?thesis using assms(1) by (simp add: claimLogged_knex)
qed

end
