(* ===== verification/Asset_Properties.thy ===== *)
theory Asset_Properties
  imports Effects
begin

text \<open>
  Safety of the assets: when a gateway locks, deletes or creates an asset on its ledger, and how
  often.
\<close>

section \<open>When an asset is touched\<close>

text \<open>What the client compares an acknowledgement with.\<close>

definition commenceAcknowledged :: "'x env \<Rightarrow> SessionData \<Rightarrow> TransferCommenceV1Response \<Rightarrow> bool" where
  "commenceAcknowledged E sd m \<longleftrightarrow> tcr_messageType m = satpMessageType TransferCommenceResponse
     \<and> sd_lastSequenceNumber sd = Some (tcr_sequenceNumber m)
     \<and> sd_transferCommenceMessageRequestHash sd = Some (tcr_hashCommenceRequest m)
     \<and> sd_recipientGatewayPubkey sd = Some (tcr_serverIdentityPubkey m)
     \<and> sd_sourceGatewayPubkey sd = Some (tcr_clientIdentityPubkey m)
     \<and> validSignature (e_crypto E) (transferCommenceResponseToJson (m\<lparr>tcr_signature := ''''\<rparr>))
         (tcr_signature m) (tcr_serverIdentityPubkey m)"

definition commitPrepared :: "'x env \<Rightarrow> SessionData \<Rightarrow> CommitPreparationV1Response \<Rightarrow> bool" where
  "commitPrepared E sd m \<longleftrightarrow> cpr_messageType m = satpMessageType CommitPreparationResponse
     \<and> sd_lastSequenceNumber sd = Some (cpr_sequenceNumber m)
     \<and> sd_commitPrepareRequestMessageHash sd = Some (cpr_hashCommitPrep m)
     \<and> sd_recipientGatewayPubkey sd = Some (cpr_serverIdentityPubkey m)
     \<and> sd_sourceGatewayPubkey sd = Some (cpr_clientIdentityPubkey m)
     \<and> validSignature (e_crypto E) (commitPreparationResponseToJson (m\<lparr>cpr_signature := ''''\<rparr>))
         (cpr_signature m) (cpr_serverIdentityPubkey m)"

lemma commence_response_checked:
  assumes "session w (tcr_sessionID m) = Some sd"
  shows "if commenceAcknowledged E sd m
    then checkValidTransferCommenceResponse E m w = (Returns (), setSession (tcr_sessionID m) (sd\<lparr>
        sd_transferCommenceMessageResponseHash := Some (hashJson E (transferCommenceResponseToJson m)),
        sd_serverSignatureTransferCommenceResponseMessage := Some (tcr_signature m), sd_step := Some 5\<rparr>) w)
    else \<exists>e. checkValidTransferCommenceResponse E m w = (Throws e, w)"
proof (cases "commenceAcknowledged E sd m")
  case True
  then show ?thesis
    using assms by (simp add: checkValidTransferCommenceResponse_iff commenceAcknowledged_def)
next
  case False
  then have "checkValidTransferCommenceResponse E m w \<noteq> (Returns (), u)" for u
    using assms by (auto simp: checkValidTransferCommenceResponse_iff commenceAcknowledged_def)
  with False show ?thesis
    using client_checks_fail_in_place(1) [of E m w] by (cases "checkValidTransferCommenceResponse E m w") auto
qed

lemma preparation_response_checked:
  assumes "session w (cpr_sessionID m) = Some sd"
  shows "if commitPrepared E sd m
    then checkValidCommitPreparationResponse E m w = (Returns (), setSession (cpr_sessionID m) (sd\<lparr>
        sd_commitPrepareResponseMessageHash := Some (hashJson E (commitPreparationResponseToJson m)),
        sd_serverSignatureCommitPreparationResponseMessage := Some (cpr_signature m), sd_step := Some 9\<rparr>) w)
    else \<exists>e. checkValidCommitPreparationResponse E m w = (Throws e, w)"
proof (cases "commitPrepared E sd m")
  case True
  then show ?thesis
    using assms by (simp add: checkValidCommitPreparationResponse_iff commitPrepared_def)
next
  case False
  then have "checkValidCommitPreparationResponse E m w \<noteq> (Returns (), u)" for u
    using assms by (auto simp: checkValidCommitPreparationResponse_iff commitPrepared_def)
  with False show ?thesis
    using client_checks_fail_in_place(2) [of E m w] by (cases "checkValidCommitPreparationResponse E m w") auto
qed

text \<open>
  The source asset is locked exactly when the commence acknowledgement fits the session: its
  type, its sequence number, the hash of the request it answers, both identities and the server's
  signature. Otherwise the gateway throws with nothing done but the timestamp of the message: no
  ledger call, no log entry, no message.
\<close>

theorem asset_locked_only_if_acknowledged:
  assumes "session w (tcr_sessionID m) = Some sd" "w0 = setSession (tcr_sessionID m) (touched E w sd) (ticked E w)"
  shows "if commenceAcknowledged E sd m
    then onTransferCommenceResponseReceived E m w =
      thenA (lockAsset E (tcr_sessionID m)) (thenA (sendLockEvidenceRequest E (tcr_sessionID m) True) (ret ()))
        (setSession (tcr_sessionID m) ((touched E w sd)\<lparr>
          sd_transferCommenceMessageResponseHash := Some (hashJson E (transferCommenceResponseToJson m)),
          sd_serverSignatureTransferCommenceResponseMessage := Some (tcr_signature m), sd_step := Some 5\<rparr>) w0)
    else \<exists>e. onTransferCommenceResponseReceived E m w = (Throws e, w0)"
proof -
  have same: "commenceAcknowledged E (touched E w sd) m = commenceAcknowledged E sd m"
    by (simp add: commenceAcknowledged_def)
  have run: "onTransferCommenceResponseReceived E m w =
      thenA (checkValidTransferCommenceResponse E m)
        (thenA (lockAsset E (tcr_sessionID m)) (thenA (sendLockEvidenceRequest E (tcr_sessionID m) True) (ret ()))) w0"
    using assms(1) by (simp add: onTransferCommenceResponseReceived_def updateLast_run assms(2))
  have "session w0 (tcr_sessionID m) = Some (touched E w sd)" by (simp add: assms(2))
  from commence_response_checked [OF this, of E] show ?thesis
    unfolding run same by (auto simp: thenA_run thenA_throws split: if_splits)
qed

definition demoCommenceResponse :: TransferCommenceV1Response where
  "demoCommenceResponse = \<lparr>tcr_sessionID = ''s'', tcr_messageType = satpMessageType TransferCommenceResponse,
     tcr_clientIdentityPubkey = ''aa'', tcr_serverIdentityPubkey = ''bb'', tcr_hashCommenceRequest = ''h3'',
     tcr_signature = ''bb'', tcr_sequenceNumber = 7\<rparr>"

theorem asset_locked_only_if_acknowledged_witness:
  "commenceAcknowledged demoEnv demoSession demoCommenceResponse
    \<and> (\<exists>w1. onTransferCommenceResponseReceived demoEnv demoCommenceResponse (inSession clientWorld) =
      thenA (lockAsset demoEnv ''s'') (thenA (sendLockEvidenceRequest demoEnv ''s'' True) (ret ())) w1)
    \<and> (\<exists>e w1. onTransferCommenceResponseReceived demoEnv (demoCommenceResponse\<lparr>tcr_signature := ''cc''\<rparr>)
         (inSession clientWorld) = (Throws e, w1))"
proof -
  have acc: "commenceAcknowledged demoEnv demoSession demoCommenceResponse"
    by (simp add: commenceAcknowledged_def demoCommenceResponse_def)
  have rej: "\<not> commenceAcknowledged demoEnv demoSession (demoCommenceResponse\<lparr>tcr_signature := ''cc''\<rparr>)"
    by (simp add: commenceAcknowledged_def demoCommenceResponse_def hexDigitVal_def)
  have "tcr_sessionID demoCommenceResponse = ''s''" by (simp add: demoCommenceResponse_def)
  with acc rej show ?thesis
    using asset_locked_only_if_acknowledged [OF _ refl, of "inSession clientWorld" demoCommenceResponse demoSession demoEnv]
      asset_locked_only_if_acknowledged [OF _ refl, of "inSession clientWorld" "demoCommenceResponse\<lparr>tcr_signature := ''cc''\<rparr>"
        demoSession demoEnv]
    by auto
qed

text \<open>
  C3. The source asset is deleted exactly when the commit preparation acknowledgement fits the
  session, under the same conditions; otherwise nothing is done.
\<close>

theorem asset_deleted_only_if_prepared:
  assumes "session w (cpr_sessionID m) = Some sd" "w0 = setSession (cpr_sessionID m) (touched E w sd) (ticked E w)"
  shows "if commitPrepared E sd m
    then onCommitPrepareResponseReceived E m w =
      thenA (deleteAsset E (cpr_sessionID m)) (thenA (sendCommitFinalRequest E (cpr_sessionID m) True) (ret ()))
        (setSession (cpr_sessionID m) ((touched E w sd)\<lparr>
          sd_commitPrepareResponseMessageHash := Some (hashJson E (commitPreparationResponseToJson m)),
          sd_serverSignatureCommitPreparationResponseMessage := Some (cpr_signature m), sd_step := Some 9\<rparr>) w0)
    else \<exists>e. onCommitPrepareResponseReceived E m w = (Throws e, w0)"
proof -
  have same: "commitPrepared E (touched E w sd) m = commitPrepared E sd m"
    by (simp add: commitPrepared_def)
  have run: "onCommitPrepareResponseReceived E m w =
      thenA (checkValidCommitPreparationResponse E m)
        (thenA (deleteAsset E (cpr_sessionID m)) (thenA (sendCommitFinalRequest E (cpr_sessionID m) True) (ret ()))) w0"
    using assms(1) by (simp add: onCommitPrepareResponseReceived_def updateLast_run assms(2))
  have "session w0 (cpr_sessionID m) = Some (touched E w sd)" by (simp add: assms(2))
  from preparation_response_checked [OF this, of E] show ?thesis
    unfolding run same by (auto simp: thenA_run thenA_throws split: if_splits)
qed

definition demoPreparationResponse :: CommitPreparationV1Response where
  "demoPreparationResponse = \<lparr>cpr_sessionID = ''s'', cpr_messageType = satpMessageType CommitPreparationResponse,
     cpr_clientIdentityPubkey = ''aa'', cpr_serverIdentityPubkey = ''bb'', cpr_hashCommitPrep = ''h7'',
     cpr_signature = ''bb'', cpr_sequenceNumber = 7\<rparr>"

theorem asset_deleted_only_if_prepared_witness:
  "commitPrepared demoEnv demoSession demoPreparationResponse
    \<and> (\<exists>w1. onCommitPrepareResponseReceived demoEnv demoPreparationResponse (inSession clientWorld) =
      thenA (deleteAsset demoEnv ''s'') (thenA (sendCommitFinalRequest demoEnv ''s'' True) (ret ())) w1)
    \<and> (\<exists>e w1. onCommitPrepareResponseReceived demoEnv (demoPreparationResponse\<lparr>cpr_sequenceNumber := 6\<rparr>)
         (inSession clientWorld) = (Throws e, w1))"
proof -
  have acc: "commitPrepared demoEnv demoSession demoPreparationResponse"
    by (simp add: commitPrepared_def demoPreparationResponse_def)
  have rej: "\<not> commitPrepared demoEnv demoSession (demoPreparationResponse\<lparr>cpr_sequenceNumber := 6\<rparr>)"
    by (simp add: commitPrepared_def demoPreparationResponse_def)
  have "cpr_sessionID demoPreparationResponse = ''s''" by (simp add: demoPreparationResponse_def)
  with acc rej show ?thesis
    using asset_deleted_only_if_prepared [OF _ refl, of "inSession clientWorld" demoPreparationResponse demoSession demoEnv]
      asset_deleted_only_if_prepared [OF _ refl, of "inSession clientWorld" "demoPreparationResponse\<lparr>cpr_sequenceNumber := 6\<rparr>"
        demoSession demoEnv]
    by auto
qed

text \<open>The claim of a deletion, as the client logged it.\<close>

lemma claim_in_log:
  assumes "claimLogged E w1 sid op' claim pk" "remoteRepository (w_self w1) = Some KnexRemoteLogRepository"
    "rr_rows (w_remote w1) = rr_rows (w_remote w) @ [e]" "rl_key e \<noteq> getSatpLogKey sid ''proof'' op'"
  shows "\<exists>l \<in> set (rr_rows (w_remote w)). rl_key l = getSatpLogKey sid ''proof'' op'
    \<and> rl_hash l = sha256 (e_crypto E) claim
    \<and> validSignature (e_crypto E) (blankedRemote l) (rl_signature l) pk"
proof -
  obtain l where l: "remoteReadById (getSatpLogKey sid ''proof'' op') (w_remote w1) = Some l"
    "rl_hash l = sha256 (e_crypto E) claim" "validSignature (e_crypto E) (blankedRemote l) (rl_signature l) pk"
    using assms(1) claimLogged_knex [OF assms(2)] by blast
  from l(1) have "l \<in> set (rr_rows (w_remote w1))" "rl_key l = getSatpLogKey sid ''proof'' op'"
    by (auto simp: remoteReadById_def find_Some_iff in_set_conv_nth)
  with l assms(3,4) show ?thesis by auto
qed

text \<open>
  C2. The recipient ledger is only touched when the source asset is gone: if handling a commit
  final request succeeds, or changes anything outside the gateway, then the request carried the
  next sequence number, the hash of the acknowledged preparation, both identities and a valid
  signature of the client, and its claim is the deletion proof that the client had signed and
  logged remotely before.
\<close>

theorem asset_created_only_if_deleted:
  assumes "remoteRepository (w_self w) = Some KnexRemoteLogRepository"
    "onCommitFinalRequestReceived E m w = (r, w')" "r = Returns () \<or> w_ext w' \<noteq> w_ext w"
  shows "\<exists>sd claim. session w (cfq_sessionID m) = Some sd
    \<and> cfq_messageType m = satpMessageType CommitFinalRequest
    \<and> sd_lastSequenceNumber sd = Some (cfq_sequenceNumber m - 1)
    \<and> sd_commitPrepareResponseMessageHash sd = Some (cfq_hashCommitPrepareAck m)
    \<and> sd_recipientGatewayPubkey sd = Some (cfq_serverIdentityPubkey m)
    \<and> sd_sourceGatewayPubkey sd = Some (cfq_clientIdentityPubkey m)
    \<and> validSignature (e_crypto E) (commitFinalRequestToJson (m\<lparr>cfq_signature := ''''\<rparr>))
        (cfq_signature m) (cfq_clientIdentityPubkey m)
    \<and> cfq_commitFinalClaim m = Some claim
    \<and> (\<exists>l \<in> set (rr_rows (w_remote w)). rl_key l = getSatpLogKey (cfq_sessionID m) ''proof'' ''delete''
        \<and> rl_hash l = sha256 (e_crypto E) claim
        \<and> validSignature (e_crypto E) (blankedRemote l) (rl_signature l) (cfq_clientIdentityPubkey m))"
proof -
  let ?sid = "cfq_sessionID m"
  obtain sd where sd: "session w ?sid = Some sd"
    using assms(2,3) by (cases "session w ?sid") (auto simp: onCommitFinalRequestReceived_def updateLast_run)
  define w0 where "w0 = setSession ?sid (touched E w sd) (ticked E w)"
  have run: "onCommitFinalRequestReceived E m w = thenA (checkValidCommitFinalRequest E m)
      (thenA (createAsset E ?sid) (thenA (sendCommitFinalResponse E ?sid True) (ret ()))) w0"
    using sd by (simp add: onCommitFinalRequestReceived_def updateLast_run w0_def)
  obtain r1 w1 where r1: "checkValidCommitFinalRequest E m w0 = (r1, w1)" by fastforce
  have ext: "w_ext w1 = w_ext w"
    using followsD [OF still_checkValidCommitFinalRequest r1] assms(1) by (simp add: stillOutside_def w0_def)
  have "r1 = Returns ()"
    using assms(2,3) ext unfolding run by (cases r1) (auto simp: thenA_def bindA_def r1)
  with r1 have "checkValidCommitFinalRequest E m w0 = (Returns (), w1)" by simp
  then obtain w2 claim where c: "loggedAs E ?sid ''exec'' ''final'' (touched E w sd) w0 w2"
      "cfq_messageType m = satpMessageType CommitFinalRequest"
      "sd_lastSequenceNumber sd = Some (cfq_sequenceNumber m - 1)"
      "sd_commitPrepareResponseMessageHash sd = Some (cfq_hashCommitPrepareAck m)"
      "sd_recipientGatewayPubkey sd = Some (cfq_serverIdentityPubkey m)"
      "sd_sourceGatewayPubkey sd = Some (cfq_clientIdentityPubkey m)"
      "validSignature (e_crypto E) (commitFinalRequestToJson (m\<lparr>cfq_signature := ''''\<rparr>))
         (cfq_signature m) (cfq_clientIdentityPubkey m)"
      "cfq_commitFinalClaim m = Some claim"
      "claimLogged E w2 ?sid ''delete'' claim (cfq_clientIdentityPubkey m)"
    unfolding checkValidCommitFinalRequest_iff by (auto simp: w0_def)
  have "remoteRepository (w_self w0) = Some KnexRemoteLogRepository" using assms(1) by (simp add: w0_def)
  from logSession_remote [OF c(1) [unfolded loggedAs_def] this] obtain e where
    e: "rr_rows (w_remote w2) = rr_rows (w_remote w) @ [e]" "rl_key e = getSatpLogKey ?sid ''exec'' ''final''"
      "remoteRepository (w_self w2) = Some KnexRemoteLogRepository"
    by (auto simp: w0_def)
  from claim_in_log [OF c(9) e(3,1)] e(2) sd c(2-8) show ?thesis by auto
qed

definition demoCommitFinal :: CommitFinalV1Request where
  "demoCommitFinal = \<lparr>cfq_sessionID = ''s'', cfq_messageType = satpMessageType CommitFinalRequest,
     cfq_clientIdentityPubkey = ''aa'', cfq_serverIdentityPubkey = ''bb'', cfq_commitFinalClaim = Some ''gone'',
     cfq_hashCommitPrepareAck = ''h8'', cfq_signature = ''aa'', cfq_sequenceNumber = 8\<rparr>"

text \<open>The server in its session, with the client's deletion proof in the remote log.\<close>

definition demoDeleted :: "unit world" where
  "demoDeleted = (inSession serverWorld)\<lparr>w_remote := \<lparr>rr_open = True, rr_rows = [
     \<lparr>rl_key = getSatpLogKey ''s'' ''proof'' ''delete'', rl_hash = ''#gone'', rl_signature = ''aa'',
      rl_signerPubKey = ''aa''\<rparr>]\<rparr>\<rparr>"

lemma demoDeleted_simps [simp]:
  "session demoDeleted ''s'' = Some demoSession" "remoteRepository (w_self demoDeleted) = Some KnexRemoteLogRepository"
  "ledgerKind (w_self demoDeleted) = BesuSatpGateway demoBesu" "localRepository (w_self demoDeleted) \<noteq> None"
  by (simp_all add: demoDeleted_def inSession_def session_def setSession_def serverWorld_def demoWorld_def demoGateway_def)

lemma demoDeleted_logReady [simp]: "logReady demoEnv k demoDeleted \<longleftrightarrow> k \<noteq> getSatpLogKey ''s'' ''proof'' ''delete''"
  by (auto simp: demoDeleted_def logReady_def inSession_def serverWorld_def demoWorld_def demoGateway_def setSession_def)

lemma demoDeleted_claim [simp]: "claimLogged demoEnv demoDeleted ''s'' ''delete'' ''gone'' ''aa''"
  by (simp add: claimLogged_def readRemote_def remoteReadById_def) (simp add: demoDeleted_def demoCrypto_def)

lemma unit_ext [simp]: "w\<lparr>w_ext := x\<rparr> = w" for w :: "unit world"
  by (cases w) simp

lemma demo_besuSend: "bindA (besuSend demoEnv demoBesu mth ps) k w = k (stringify (JStr ''receipt'')) w"
  by (simp add: besuSend_def demoBesu_def besuInvoke_def besuReceipt_def demoReceipt_def propertyA_def jget_def
      bindA_def thenA_def ensure_def ret_def)

lemma demo_deliver:
  assumes "session w s = Some sd" "timeoutsDefined sd" "0 < the (sd_maxRetries sd)"
  shows "thenA (deliver demoEnv s True b c n m) k w = k w"
  using assms by (intro thenA_run [OF deliver_ok]) simp_all

lemma demo_commit_final_runs: "\<exists>w'. onCommitFinalRequestReceived demoEnv demoCommitFinal demoDeleted = (Returns (), w')"
  by (simp add: onCommitFinalRequestReceived_def checkValidCommitFinalRequest_def createAsset_def kindA_def besuCreateAsset_def
      sendCommitFinalResponse_def demoCommitFinal_def Let_def runs ready_runs thenA_verifyA_run checkClaim_run
      claimLogged_sessionLogged demo_besuSend demo_deliver timeoutsDefined_def bumpSequence_def)

theorem asset_created_only_if_deleted_witness:
  "\<exists>sd claim. session demoDeleted (cfq_sessionID demoCommitFinal) = Some sd
    \<and> cfq_commitFinalClaim demoCommitFinal = Some claim
    \<and> (\<exists>l \<in> set (rr_rows (w_remote demoDeleted)). rl_hash l = sha256 (e_crypto demoEnv) claim)"
proof -
  obtain w' where "onCommitFinalRequestReceived demoEnv demoCommitFinal demoDeleted = (Returns (), w')"
    using demo_commit_final_runs by blast
  from asset_created_only_if_deleted [OF demoDeleted_simps(2) this] show ?thesis by auto
qed

section \<open>How often an asset is touched\<close>

text \<open>An action whose first log entry is used up throws before the ledger is called.\<close>

definition refusedInPlace :: "'x world \<Rightarrow> ('x, 'a) gact \<Rightarrow> bool" where
  "refusedInPlace w m \<longleftrightarrow> (\<exists>e t. m w = (Throws e, w\<lparr>w_now := t\<rparr>))"

text \<open>
  An action that logs under a key before it reaches out: whenever it did not throw, or changed
  anything outside the gateway, the key is used up, and once the key is used up it is refused.
\<close>

definition logsFirst :: "string \<Rightarrow> ('x, 'a) gact \<Rightarrow> bool" where
  "logsFirst key m \<longleftrightarrow> (\<forall>w. (keyUsed key w \<longrightarrow> refusedInPlace w m)
     \<and> (localRepository (w_self w) \<noteq> None \<longrightarrow>
          keyUsed key (snd (m w)) \<or> (\<exists>e. fst (m w) = Throws e) \<and> w_ext (snd (m w)) = w_ext w))"

lemma logsFirstD:
  assumes "logsFirst key m"
  shows "keyUsed key w \<Longrightarrow> refusedInPlace w m"
    and "m w = (out, w') \<Longrightarrow> localRepository (w_self w) \<noteq> None \<Longrightarrow> (\<forall>e. out \<noteq> Throws e) \<or> w_ext w' \<noteq> w_ext w \<Longrightarrow>
      keyUsed key w'"
proof -
  show "keyUsed key w \<Longrightarrow> refusedInPlace w m" using assms by (simp add: logsFirst_def)
  assume "m w = (out, w')" "localRepository (w_self w) \<noteq> None" "(\<forall>e. out \<noteq> Throws e) \<or> w_ext w' \<noteq> w_ext w"
  with assms show "keyUsed key w'" unfolding logsFirst_def by (metis fst_conv snd_conv)
qed

lemma same_time: "\<exists>t. w = w\<lparr>w_now := t\<rparr>"
  by (rule exI [of _ "w_now w"]) simp

lemma logsFirst_getSession: "(\<And>sd. logsFirst key (k sd)) \<Longrightarrow> logsFirst key (bindA (getSession sid) k)"
  unfolding logsFirst_def
proof (intro allI conjI impI)
  fix w
  assume k: "\<And>sd. \<forall>w. (keyUsed key w \<longrightarrow> refusedInPlace w (k sd))
    \<and> (localRepository (w_self w) \<noteq> None \<longrightarrow>
         keyUsed key (snd (k sd w)) \<or> (\<exists>e. fst (k sd w) = Throws e) \<and> w_ext (snd (k sd w)) = w_ext w)"
  show "refusedInPlace w (bindA (getSession sid) k)" if "keyUsed key w"
    using k that by (cases "session w sid") (auto simp: runs refusedInPlace_def same_time)
  show "keyUsed key (snd (bindA (getSession sid) k w))
      \<or> (\<exists>e. fst (bindA (getSession sid) k w) = Throws e) \<and> w_ext (snd (bindA (getSession sid) k w)) = w_ext w"
    if "localRepository (w_self w) \<noteq> None"
    using k that by (cases "session w sid") (auto simp: runs)
qed

lemma logsFirst_ensure: "logsFirst key k \<Longrightarrow> logsFirst key (thenA (ensure c e) k)"
  by (cases c) (auto simp: logsFirst_def runs refusedInPlace_def same_time)

text \<open>The entry is in the local table before anything is sent to the object store.\<close>

lemma logSession_or_nothing:
  assumes "logSession E s t op' sd w = (out, w')" "localRepository (w_self w) \<noteq> None"
  shows "keyUsed (getSatpLogKey s t op') w' \<or> (\<exists>e. out = Throws e) \<and> w_ext w' = w_ext w"
proof -
  let ?row = "stampLog (w_now w) (mkLog s t op' (Some (stringifySession sd)))"
  obtain r where r: "localRepository (w_self w) = Some r" using assms(2) by blast
  show ?thesis
  proof (cases "create ?row r")
    case None
    with assms(1) r show ?thesis
      by (auto simp: logSession_def storeLog_def dateNow_def storeInDatabase_def Let_def runs thenA_def bindA_def)
  next
    case (Some r')
    define w0 where "w0 = (ticked E w)\<lparr>w_self := (w_self w)\<lparr>localRepository := Some r'\<rparr>\<rparr>"
    have "storeRemoteLog E (getSatpLogKey s t op') (hashJson E (localLogToJson ?row)) w0 = (out, w')"
      using assms(1) r Some
      by (simp add: logSession_def storeLog_def dateNow_def storeInDatabase_def Let_def thenA_def bindA_def w0_def ticked_def)
    moreover have "keyUsed (getSatpLogKey s t op') w0"
      using Some by (auto simp: w0_def create_def keyUsed_def localRows_def split: if_splits)
    ultimately show ?thesis using keyUsed_follows [OF appendOnly.follows_storeRemoteLog] by blast
  qed
qed

lemma logsFirst_logSession:
  assumes "follows (logsGrow (\<lambda>_. True)) k"
  shows "logsFirst (getSatpLogKey s t op') (thenA (logSession E s t op' sd) k)"
  unfolding logsFirst_def
proof (intro allI conjI impI)
  fix w
  show "refusedInPlace w (thenA (logSession E s t op' sd) k)" if "keyUsed (getSatpLogKey s t op') w"
    using that by (auto simp: thenA_logSession_key_used refusedInPlace_def ticked_def)
  assume repo: "localRepository (w_self w) \<noteq> None"
  obtain out w' where run: "logSession E s t op' sd w = (out, w')" by fastforce
  from logSession_or_nothing [OF this repo] keyUsed_follows [OF assms]
  show "keyUsed (getSatpLogKey s t op') (snd (thenA (logSession E s t op' sd) k w))
      \<or> (\<exists>e. fst (thenA (logSession E s t op' sd) k w) = Throws e) \<and> w_ext (snd (thenA (logSession E s t op' sd) k w)) = w_ext w"
    by (cases out; cases "k w'") (auto simp: thenA_def bindA_def run)
qed

text \<open>
  The methods that change a ledger, with the entry each begins with. Those that never settle
  (\<open>new Promise(() => ...)\<close>) are left out.
\<close>

definition ledgerMethods ::
  "'x env \<Rightarrow> ledgerGateway \<Rightarrow> string \<Rightarrow> ((string \<times> string) \<times> (string option \<Rightarrow> ('x, string) gact)) list" where
  "ledgerMethods E kind sid = (case kind of
      BesuSatpGateway c \<Rightarrow>
        [((''exec'', ''create-asset''), besuCreateAsset E c sid),
         ((''exec-rollback'', ''lock-asset''), besuLockAsset E c sid),
         ((''exec-rollback'', ''unlock-asset''), besuUnlockAsset E c sid),
         ((''exec-rollback'', ''delete-asset''), besuDeleteAssetToRollback E c sid)]
    | FabricSatpGateway c \<Rightarrow>
        [((''exec'', ''lock-asset''), fabricLockAsset E c sid),
         ((''exec-rollback'', ''unlock-asset''), fabricUnlockAsset E c sid),
         ((''exec'', ''delete-asset''), fabricDeleteAsset E c sid),
         ((''exec-rollback'', ''create-asset''), fabricCreateAssetToRollback E c sid)])"

lemma ledgerMethods_log_first:
  assumes "frameEnv (logsGrow (\<lambda>_. True)) E" "((t, op'), m) \<in> set (ledgerMethods E kind sid)"
  shows "logsFirst (getSatpLogKey sid t op') (m a)"
proof -
  note E = appendOnly.session_env [OF assms(1)]
  note rest = logsFirst_getSession logsFirst_ensure logsFirst_logSession appendOnly.any.follows_bindA
    appendOnly.any.follows_thenA appendOnly.any.follows_besuSend [OF E] appendOnly.any.follows_fabricSend [OF E]
    appendOnly.any.follows_putSession appendOnly.any.follows_proofOf [OF E] appendOnly.any.follows_logSession [OF E]
    appendOnly.any.follows_ret appendOnly.any.follows_option appendOnly.any.follows_besuInvoke [OF E]
    appendOnly.any.follows_besuReceipt logEntries_intros
  have "logsFirst (getSatpLogKey sid ''exec'' ''create-asset'') (besuCreateAsset E c sid a)"
    "logsFirst (getSatpLogKey sid ''exec-rollback'' ''lock-asset'') (besuLockAsset E c sid a)"
    "logsFirst (getSatpLogKey sid ''exec-rollback'' ''unlock-asset'') (besuUnlockAsset E c sid a)"
    "logsFirst (getSatpLogKey sid ''exec-rollback'' ''delete-asset'') (besuDeleteAssetToRollback E c sid a)"
    "logsFirst (getSatpLogKey sid ''exec'' ''lock-asset'') (fabricLockAsset E f sid a)"
    "logsFirst (getSatpLogKey sid ''exec-rollback'' ''unlock-asset'') (fabricUnlockAsset E f sid a)"
    "logsFirst (getSatpLogKey sid ''exec'' ''delete-asset'') (fabricDeleteAsset E f sid a)"
    "logsFirst (getSatpLogKey sid ''exec-rollback'' ''create-asset'') (fabricCreateAssetToRollback E f sid a)" for c f
    unfolding besuCreateAsset_def besuLockAsset_def besuUnlockAsset_def besuDeleteAssetToRollback_def fabricLockAsset_def
      fabricUnlockAsset_def fabricDeleteAsset_def fabricCreateAssetToRollback_def Let_def
    by (intro rest)+
  with assms(2) show ?thesis by (auto simp: ledgerMethods_def split: ledgerGateway.splits)
qed

text \<open>
  C4. A ledger method of a gateway (on Besu the creation, the lock, and for rollbacks the unlock and
  the deletion; on Fabric the lock, the deletion, and for rollbacks the unlock and the creation)
  gets through to the ledger at most once per session: once a call did not throw, or threw after
  it had changed anything outside the gateway, every later call of this method for the session, with
  any asset, in any later state of the gateway, throws, and nothing but the clock changes. Different
  methods are not excluded by each other: \<open>besuUnlockAsset\<close> has its own entry, although its
  transaction is \<open>lockAsset\<close> of the contract again.
\<close>

theorem ledger_method_once:
  assumes "frameEnv (logsGrow (\<lambda>_. True)) E" "localRepository (w_self w) \<noteq> None"
    "(entry, m) \<in> set (ledgerMethods E kind sid)" "m a w = (out, w1)"
    "(\<forall>e. out \<noteq> Throws e) \<or> w_ext w1 \<noteq> w_ext w" "reachable E w1 w2"
  shows "\<exists>e t. m a' w2 = (Throws e, w2\<lparr>w_now := t\<rparr>)"
proof -
  obtain t op' where entry: "entry = (t, op')" by fastforce
  note first = ledgerMethods_log_first [OF assms(1) assms(3) [unfolded entry]]
  have "keyUsed (getSatpLogKey sid t op') w1" by (rule logsFirstD(2) [OF first assms(4,2,5)])
  then have "keyUsed (getSatpLogKey sid t op') w2" by (rule keyUsed_reachable [OF assms(1,6)])
  from logsFirstD(1) [OF first this] show ?thesis by (simp add: refusedInPlace_def)
qed

lemma demo_createAsset_runs: "\<exists>p w'. besuCreateAsset demoEnv demoBesu ''s'' None demoDeleted = (Returns p, w')"
  by (simp add: besuCreateAsset_def Let_def runs ready_runs demo_besuSend)

lemma demo_frames:
  "frameEnv (logsGrow (\<lambda>_. True)) demoEnv" "frameEnv sameConfiguration demoEnv"
  by (rule frameEnv_demo; unfold_locales; auto intro: logsGrow_refl logsGrow_trans logsGrow_same simp: sameConfiguration_def)+

theorem ledger_method_once_witness:
  "\<exists>p w1. besuCreateAsset demoEnv demoBesu ''s'' None demoDeleted = (Returns p, w1)
    \<and> (\<exists>e t. besuCreateAsset demoEnv demoBesu ''s'' (Some ''other'') w1 = (Throws e, w1\<lparr>w_now := t\<rparr>))"
proof -
  obtain p w1 where run: "besuCreateAsset demoEnv demoBesu ''s'' None demoDeleted = (Returns p, w1)"
    using demo_createAsset_runs by blast
  have "((''exec'', ''create-asset''), besuCreateAsset demoEnv demoBesu ''s'') \<in> set (ledgerMethods demoEnv (BesuSatpGateway demoBesu) ''s'')"
    by (simp add: ledgerMethods_def)
  from ledger_method_once [OF demo_frames(1) demoDeleted_simps(4) this run _ reachable.start] run show ?thesis by blast
qed

lemma commit_final_uses_key:
  assumes "frameEnv (logsGrow (\<lambda>_. True)) E" "localRepository (w_self w) \<noteq> None"
    "onCommitFinalRequestReceived E m w = (Returns (), w1)"
  shows "keyUsed (getSatpLogKey (cfq_sessionID m) ''exec'' ''final'') w1"
proof -
  let ?sid = "cfq_sessionID m" and ?key = "getSatpLogKey (cfq_sessionID m) ''exec'' ''final''"
  note E = appendOnly.session_env [OF assms(1)]
  obtain sd where sd: "session w ?sid = Some sd"
    using assms(3) by (cases "session w ?sid") (auto simp: onCommitFinalRequestReceived_def updateLast_run)
  define w0 where "w0 = setSession ?sid (touched E w sd) (ticked E w)"
  obtain wc where check: "checkValidCommitFinalRequest E m w0 = (Returns (), wc)"
    and rest: "thenA (createAsset E ?sid) (thenA (sendCommitFinalResponse E ?sid True) (ret ())) wc = (Returns (), w1)"
    using assms(3) sd by (auto simp: onCommitFinalRequestReceived_def updateLast_run w0_def thenA_Returns [of "checkValidCommitFinalRequest E m"])
  obtain sa wa sb wb where "logSession E ?sid ''exec'' ''final'' sa w0 = (Returns (), wa)"
    and second: "logSession E ?sid ''done'' ''final'' sb (setSession ?sid sb wa) = (Returns (), wb)"
    and wc: "\<exists>sc. wc = setSession ?sid sc wb"
    using check unfolding checkValidCommitFinalRequest_iff loggedAs_def by blast
  from logSession_uses_key [OF this(1)] have "keyUsed ?key (setSession ?sid sb wa)" using assms(2) by (simp add: w0_def)
  with keyUsed_follows [OF appendOnly.any.follows_logSession [OF E logEntries_intros(20)] second] wc have "keyUsed ?key wc" by auto
  moreover have "follows (logsGrow (\<lambda>_. True)) (thenA (createAsset E ?sid) (thenA (sendCommitFinalResponse E ?sid True) (ret ())))"
    by (intro appendOnly.any.follows_thenA appendOnly.any.follows_createAsset [OF E]
        appendOnly.any.follows_sendCommitFinalResponse [OF E] appendOnly.any.follows_ret)
  ultimately show ?thesis using rest keyUsed_follows by blast
qed

text \<open>
  A session is committed at most once: after a commit final request was answered with 200, every
  later commit final request for the same session, a replay of it or a different one, is answered
  with 500, without a ledger call, a message or a log entry.
\<close>

theorem commit_final_handled_once:
  assumes "frameEnv (logsGrow (\<lambda>_. True)) E" "localRepository (w_self w) \<noteq> None"
    "handleRequest E u rnd (Phase3CommitFinalRequest m) w = (Some 200, w1)" "reachable E w1 w2"
    "cfq_sessionID m' = cfq_sessionID m"
  shows "\<exists>w3. handleRequest E u' rnd' (Phase3CommitFinalRequest m') w2 = (Some 500, w3)
    \<and> w_ext w3 = w_ext w2 \<and> w_remote w3 = w_remote w2 \<and> localRows w3 = localRows w2"
proof -
  have "onCommitFinalRequestReceived E m w = (Returns (), w1)"
    using assms(3) by (auto simp: endpoint_defs respond_def split: prod.splits outcome.splits)
  from keyUsed_reachable [OF assms(1,4) commit_final_uses_key [OF assms(1,2) this]]
  have used: "keyUsed (getSatpLogKey (cfq_sessionID m') ''exec'' ''final'') w2" by (simp add: assms(5))
  have "\<exists>e w3. onCommitFinalRequestReceived E m' w2 = (Throws e, w3)
      \<and> w_ext w3 = w_ext w2 \<and> w_remote w3 = w_remote w2 \<and> localRows w3 = localRows w2"
    using used
    by (auto simp: onCommitFinalRequestReceived_def checkValidCommitFinalRequest_def Let_def runs
        thenA_logSession_key_used localRows_def split: option.split)
  then show ?thesis by (auto simp: endpoint_defs respond_def)
qed

theorem commit_final_handled_once_witness:
  "\<exists>w1 w3. handleRequest demoEnv '''' 0 (Phase3CommitFinalRequest demoCommitFinal) demoDeleted = (Some 200, w1)
    \<and> handleRequest demoEnv '''' 0 (Phase3CommitFinalRequest demoCommitFinal) w1 = (Some 500, w3)"
proof -
  obtain w1 where "handleRequest demoEnv '''' 0 (Phase3CommitFinalRequest demoCommitFinal) demoDeleted = (Some 200, w1)"
    using demo_commit_final_runs by (auto simp: endpoint_defs respond_def)
  with commit_final_handled_once [OF demo_frames(1) demoDeleted_simps(4) this reachable.start refl] show ?thesis by blast
qed

end
