(* ===== verification/Ledger_Properties.thy ===== *)
theory Ledger_Properties
  imports Asset_Properties
begin

text \<open>
  The two kinds of ledger: which directions of a transfer can complete, and what a rollback does to
  the asset.
\<close>

section \<open>Directions\<close>

text \<open>
  Only transfers from Fabric to Besu complete. A Fabric recipient never answers a commit final
  request with success and a Besu source never answers a preparation acknowledgement with success,
  because the methods that would create and delete the asset return promises that never settle.
\<close>

theorem only_fabric_to_besu:
  "(fst (handleRequest E u rnd (Phase3CommitFinalRequest m) w) = Some 200 \<longrightarrow>
      (\<exists>c. ledgerKind (w_self w) = BesuSatpGateway c))
   \<and> (fst (handleRequest E u' rnd' (Phase3CommitPreparationResponse m') w) = Some 200 \<longrightarrow>
      (\<exists>c. ledgerKind (w_self w) = FabricSatpGateway c))"
proof (intro conjI impI)
  assume "fst (handleRequest E u rnd (Phase3CommitFinalRequest m) w) = Some 200"
  then obtain wc p wd where "checkValidCommitFinalRequest E m wc = (Returns (), wd)"
      "ledgerKind (w_self wc) = ledgerKind (w_self w)" "createAsset E (cfq_sessionID m) wd = (Returns p, snd (createAsset E (cfq_sessionID m) wd))"
    by (auto simp: endpoint_defs respond_def onCommitFinalRequestReceived_def updateLast_run returns
        split: prod.splits outcome.splits option.splits) 
  moreover from this(1) have "ledgerKind (w_self wd) = ledgerKind (w_self wc)"
    unfolding checkValidCommitFinalRequest_iff loggedAs_def by (auto dest!: logSession_config simp: configuration_def)
  ultimately show "\<exists>c. ledgerKind (w_self w) = BesuSatpGateway c"
    by (cases "ledgerKind (w_self w)") (auto simp: createAsset_def kindA_def runs fabricCreateAsset_def)
next
  assume "fst (handleRequest E u' rnd' (Phase3CommitPreparationResponse m') w) = Some 200"
  then obtain wc p wd where "checkValidCommitPreparationResponse E m' wc = (Returns (), wd)"
      "ledgerKind (w_self wc) = ledgerKind (w_self w)" "deleteAsset E (cpr_sessionID m') wd = (Returns p, snd (deleteAsset E (cpr_sessionID m') wd))"
    by (auto simp: endpoint_defs respond_def onCommitPrepareResponseReceived_def updateLast_run returns
        split: prod.splits outcome.splits option.splits)
  moreover from this(1) have "ledgerKind (w_self wd) = ledgerKind (w_self wc)"
    unfolding checkValidCommitPreparationResponse_iff by auto
  ultimately show "\<exists>c. ledgerKind (w_self w) = FabricSatpGateway c"
    by (cases "ledgerKind (w_self w)") (auto simp: deleteAsset_def kindA_def runs besuDeleteAsset_def)
qed

theorem only_fabric_to_besu_witness:
  "\<exists>c. ledgerKind (w_self demoDeleted) = BesuSatpGateway c"
proof -
  have "fst (handleRequest demoEnv '''' 0 (Phase3CommitFinalRequest demoCommitFinal) demoDeleted) = Some 200"
    using demo_commit_final_runs by (auto simp: endpoint_defs respond_def)
  with only_fabric_to_besu [of demoEnv "''''" 0 demoCommitFinal demoDeleted] show ?thesis by blast
qed

lemma ledgerCall_session: "besuSend E c mth ps w = (r, w') \<Longrightarrow> session w' = session w"
proof -
  have "besuInvoke E c path ty mth ps w = (r, w') \<Longrightarrow> session w' = session w" for path ty r w'
    by (auto simp: besuInvoke_def session_def fun_eq_iff split: prod.splits option.splits)
  moreover have "besuReceipt resp u = (r, w') \<Longrightarrow> w' = u" for resp u r w'
    by (auto simp: besuReceipt_def propertyA_def thenA_def bindA_def ensure_def ret_def throwE_def
        split: if_splits option.splits)
  ultimately show "besuSend E c mth ps w = (r, w') \<Longrightarrow> session w' = session w"
    by (fastforce simp: besuSend_def bindA_def ret_def split: option.splits prod.splits outcome.splits)
qed

lemma besuLockAsset_no_claim:
  assumes "besuLockAsset E c sid a w = (Returns p, w')" "session w sid = Some sd"
  shows "session w' sid = Some (pushRollback LOCK p sd)"
  using assms unfolding besuLockAsset_def Let_def
  by (auto simp: returns dest!: logSession_session storeProof_session ledgerCall_session)

text \<open>
  A Besu source can not prove its lock: the lock proof is recorded among the rollback actions and
  not as the lock evidence claim, so that the handler that locks the asset on Besu and sends the
  evidence never succeeds, unless the claim was there before.
\<close>

theorem besu_source_without_evidence:
  assumes "ledgerKind (w_self w) = BesuSatpGateway c" "session w (tcr_sessionID m) = Some sd"
    "sd_lockEvidenceClaim sd = None"
  shows "fst (handleRequest E u rnd (Phase2TransferCommenceResponse m) w) \<noteq> Some 200"
proof
  let ?sid = "tcr_sessionID m"
  let ?w0 = "setSession ?sid (touched E w sd) (ticked E w)"
  assume "fst (handleRequest E u rnd (Phase2TransferCommenceResponse m) w) = Some 200"
  then obtain wd p we wf x where check: "checkValidTransferCommenceResponse E m ?w0 = (Returns (), wd)"
    and lock: "lockAsset E ?sid wd = (Returns p, we)"
    and send: "sendLockEvidenceRequest E ?sid True we = (Returns x, wf)"
    using assms(2)
    by (auto simp: endpoint_defs respond_def onTransferCommenceResponseReceived_def updateLast_run returns
        split: prod.splits outcome.splits option.splits)
  from check obtain sd1 where wd: "wd = setSession ?sid sd1 ?w0" "sd_lockEvidenceClaim sd1 = None"
    using assms(3) unfolding checkValidTransferCommenceResponse_iff by auto
  with lock assms(1) have "besuLockAsset E c ?sid None wd = (Returns p, we)"
    by (simp add: lockAsset_def kindA_def runs)
  from besuLockAsset_no_claim [OF this] wd have "session we ?sid = Some (pushRollback LOCK p sd1)" by simp
  with send wd(2) show False
    by (simp add: sendLockEvidenceRequest_def getSession_run thenA_Returns ensure_Returns pushRollback_def)
qed

theorem besu_source_without_evidence_witness:
  "fst (handleRequest demoEnv '''' 0 (Phase2TransferCommenceResponse demoCommenceResponse) (inSession serverWorld)) \<noteq> Some 200"
  by (rule besu_source_without_evidence [of _ demoBesu _ demoSession])
    (simp_all add: demoCommenceResponse_def inSession_def serverWorld_def)

section \<open>Besu rollback\<close>

text \<open>
  Unlocking on Besu locks: the contract method that \<open>unlockAsset\<close> calls is \<open>lockAsset\<close>, and what
  it adds to the rollback actions of the session is a lock.
\<close>

theorem besu_unlock_locks:
  assumes "besuUnlockAsset E c sid a w = (Returns p, w')" "session w sid = Some sd" "besuApi c = Some path"
    "remoteRepository (w_self w) = Some KnexRemoteLogRepository"
  shows "session w' sid = Some (pushRollback LOCK p sd)
    \<and> (\<exists>r. e_invokeContractV1 E path \<lparr>bi_contractName = besuContractName c, bi_invocationType = Send,
          bi_methodName = ''lockAsset'', bi_gas = 1000000, bi_params = [optJson a],
          bi_signingCredential = besuWeb3SigningCredential c, bi_keychainId = besuKeychainId c\<rparr> (w_ext w) = (Some r, w_ext w'))"
proof -
  let ?sd = "pushRollback LOCK p sd"
  from assms(1,2) obtain w1 w2 w3 where
    l1: "logSession E sid ''exec-rollback'' ''unlock-asset'' sd w = (Returns (), w1)" and
    s: "besuSend E c ''lockAsset'' [optJson a] w1 = (Returns p, w2)" and
    pr: "storeProof E (mkLog sid ''proof-rollback'' ''unlock'' (Some p)) (setSession sid ?sd w2) = (Returns (), w3)" and
    l2: "logSession E sid ''done-rollback'' ''unlock-asset'' ?sd w3 = (Returns (), w')"
    unfolding besuUnlockAsset_def Let_def by (auto simp: returns)
  have "session w' sid = Some ?sd"
    using logSession_session [OF l2] storeProof_session [OF pr] by simp
  moreover
  have k1: "w_ext w1 = w_ext w" "remoteRepository (w_self w1) = Some KnexRemoteLogRepository"
    using followsD [OF still_logSession l1] assms(4) by (simp_all add: stillOutside_def)
  obtain r where r: "besuInvoke E c path Send ''lockAsset'' [optJson a] w1 = (Returns r, w2)"
    using s assms(3) by (auto simp: besuSend_def besuReceipt_def propertyA_def returns split: if_splits option.splits)
  then have k2: "remoteRepository (w_self w2) = Some KnexRemoteLogRepository"
    using k1(2) by (auto simp: besuInvoke_def split: prod.splits option.splits)
  have "w_ext w3 = w_ext w2" "remoteRepository (w_self w3) = Some KnexRemoteLogRepository"
    using followsD [OF still_storeProof pr] k2 by (simp_all add: stillOutside_def)
  then have "w_ext w' = w_ext w2" using followsD [OF still_logSession l2] by (simp add: stillOutside_def)
  with r k1 have "e_invokeContractV1 E path \<lparr>bi_contractName = besuContractName c, bi_invocationType = Send,
          bi_methodName = ''lockAsset'', bi_gas = 1000000, bi_params = [optJson a],
          bi_signingCredential = besuWeb3SigningCredential c, bi_keychainId = besuKeychainId c\<rparr> (w_ext w) = (Some r, w_ext w')"
    by (auto simp: besuInvoke_def split: prod.splits option.splits)
  ultimately show ?thesis by blast
qed

theorem besu_unlock_locks_witness:
  "\<exists>p w'. besuUnlockAsset demoEnv demoBesu ''s'' (Some ''A'') (inSession serverWorld) = (Returns p, w')
    \<and> session w' ''s'' = Some (pushRollback LOCK p demoSession)"
proof -
  obtain p w' where run: "besuUnlockAsset demoEnv demoBesu ''s'' (Some ''A'') (inSession serverWorld) = (Returns p, w')"
    by (simp add: besuUnlockAsset_def Let_def runs ready_runs demo_besuSend rollbackListsDefined_def inSession_def serverWorld_def)
  with besu_unlock_locks [OF run inSession_session, of "''besu''"] show ?thesis
    by (auto simp: demoBesu_def inSession_def serverWorld_def demoWorld_def demoGateway_def)
qed

section \<open>Fabric rollback\<close>

text \<open>
  What the chaincode of the asset promises of its transactions: the two queries answer without a
  change, unlocking an asset that exists unlocks it, creating one that does not exist leaves it
  there unlocked, and the receipt of a transaction can be read.
\<close>

definition assetChaincode :: "'x env \<Rightarrow> string \<Rightarrow> ('x \<Rightarrow> string \<Rightarrow> bool) \<Rightarrow> ('x \<Rightarrow> string \<Rightarrow> bool) \<Rightarrow> bool" where
  "assetChaincode E path present locked \<longleftrightarrow>
     (\<forall>t x a. ft_methodName t = ''AssetExists'' \<and> ft_params t = [JStr a] \<longrightarrow> e_runTransactionV1 E path t x =
        (Some (JObj [(''functionOutput'', JStr (if present x a then ''true'' else ''false''))]), x))
   \<and> (\<forall>t x a. ft_methodName t = ''IsAssetLocked'' \<and> ft_params t = [JStr a] \<longrightarrow> e_runTransactionV1 E path t x =
        (Some (JObj [(''functionOutput'', JStr (if locked x a then ''true'' else ''false''))]), x))
   \<and> (\<forall>t x a. ft_methodName t = ''UnlockAsset'' \<and> ft_params t = [JStr a] \<and> present x a \<longrightarrow>
        (\<exists>i x'. e_runTransactionV1 E path t x = (Some (JObj [(''transactionId'', JStr i)]), x')
           \<and> present x' a \<and> \<not> locked x' a))
   \<and> (\<forall>t x a n. ft_methodName t = ''CreateAsset'' \<and> ft_params t = [JStr a, JStr n] \<and> \<not> present x a \<longrightarrow>
        (\<exists>i x'. e_runTransactionV1 E path t x = (Some (JObj [(''transactionId'', JStr i)]), x')
           \<and> present x' a \<and> \<not> locked x' a))
   \<and> (\<forall>t x. \<exists>block. e_getTransactionReceiptByTxIDV1 E path t x = (Some block, x))"

definition fabricConnected :: "fabricConfig \<Rightarrow> string \<Rightarrow> bool" where
  "fabricConnected c path \<longleftrightarrow> fabricApi c = Some path \<and> fabricContractName c \<noteq> None \<and> fabricChannelName c \<noteq> None
     \<and> fabricSigningCredential c \<noteq> None"

lemma fabricQueries_run:
  assumes "assetChaincode E path present locked" "fabricConnected c path"
  shows "bindA (fabricAssetExists E c a) k w = k (present (w_ext w) a) w"
    and "bindA (isFabricAssetLocked E c a) k w = k (locked (w_ext w) a) w"
  using assms
  by (auto simp: fabricAssetExists_def isFabricAssetLocked_def fabricFunctionOutput_def fabricConnected_def assetChaincode_def
      fabricRun_def propertyA_def jget_def bindA_def thenA_def ensure_def ret_def)

lemma fabricSend_run:
  assumes "assetChaincode E path present locked" "fabricConnected c path"
    "\<And>t. ft_methodName t = mth \<Longrightarrow> ft_params t = ps \<Longrightarrow>
       \<exists>i x'. e_runTransactionV1 E path t (w_ext w) = (Some (JObj [(''transactionId'', JStr i)]), x') \<and> Q x'"
  obtains pr x' where "\<And>k :: string \<Rightarrow> ('x, 'a) gact. bindA (fabricSend E c mth ps) k w = k pr (w\<lparr>w_ext := x'\<rparr>)" "Q x'"
proof -
  let ?t = "\<lparr>ft_signingCredential = fabricSigningCredential c, ft_channelName = fabricChannelName c,
    ft_contractName = fabricContractName c, ft_invocationType = Send, ft_methodName = mth, ft_params = ps\<rparr>"
  obtain i x' where run: "e_runTransactionV1 E path ?t (w_ext w) = (Some (JObj [(''transactionId'', JStr i)]), x')" "Q x'"
    using assms(3) [of ?t] by auto
  let ?q = "\<lparr>ft_signingCredential = fabricSigningCredential c, ft_channelName = fabricChannelName c,
    ft_contractName = Some ''qscc'', ft_invocationType = Call, ft_methodName = ''GetBlockByTxID'',
    ft_params = [optJson (fabricChannelName c), JStr i]\<rparr>"
  obtain block where "e_getTransactionReceiptByTxIDV1 E path ?q x' = (Some block, x')"
    using assms(1) unfolding assetChaincode_def by blast
  with run assms(2) have "bindA (fabricSend E c mth ps) k w = k (stringify block) (w\<lparr>w_ext := x'\<rparr>)" for k :: "string \<Rightarrow> ('x, 'a) gact"
    by (simp add: fabricConnected_def fabricSend_def fabricRun_def fabricReceipt_def propertyA_def jget_def bindA_def ret_def)
  with run(2) that show thesis by blast
qed

lemma w_ext_update_simps [simp]:
  "session (w\<lparr>w_ext := x\<rparr>) = session w" "logReady E key (w\<lparr>w_ext := x\<rparr>) = logReady E key w"
  by (simp_all add: session_def logReady_def fun_eq_iff)

definition rollbackReady :: "'x env \<Rightarrow> string \<Rightarrow> 'x world \<Rightarrow> bool" where
  "rollbackReady E sid w \<longleftrightarrow> (\<forall>t op'. t \<in> {''exec-rollback'', ''proof-rollback'', ''done-rollback''} \<longrightarrow>
     logReady E (getSatpLogKey sid t op') w)"

lemma fabricUnlockAsset_run:
  assumes "assetChaincode E path present locked" "fabricConnected c path" "rollbackReady E sid w"
    "session w sid = Some sd" "rollbackListsDefined sd" "present (w_ext w) a"
  shows "\<exists>pr w'. fabricUnlockAsset E c sid (Some a) w = (Returns pr, w') \<and> session w' sid = Some (pushRollback UNLOCK pr sd)
    \<and> present (w_ext w') a \<and> \<not> locked (w_ext w') a"
proof -
  let ?w1 = "sessionLogged E sid ''exec-rollback'' ''unlock-asset'' sd w"
  obtain pr x' where "\<And>k :: string \<Rightarrow> ('a, string) gact. bindA (fabricSend E c ''UnlockAsset'' [JStr a]) k ?w1 = k pr (?w1\<lparr>w_ext := x'\<rparr>)"
    "present x' a \<and> \<not> locked x' a"
    by (rule fabricSend_run [OF assms(1,2), of "''UnlockAsset''" "[JStr a]" ?w1 "\<lambda>x. present x a \<and> \<not> locked x a"])
      (use assms(1,6) in \<open>auto simp: assetChaincode_def\<close>)
  with assms(3-5) show ?thesis
    by (simp add: fabricUnlockAsset_def Let_def runs ready_runs rollbackReady_def optJson_def)
qed

lemma fabricCreateAssetToRollback_run:
  assumes "assetChaincode E path present locked" "fabricConnected c path" "rollbackReady E sid w"
    "session w sid = Some sd" "rollbackListsDefined sd" "\<not> present (w_ext w) a"
  shows "\<exists>pr w'. fabricCreateAssetToRollback E c sid (Some a) w = (Returns pr, w') \<and> session w' sid = Some (pushRollback CREATE pr sd)
    \<and> present (w_ext w') a \<and> \<not> locked (w_ext w') a"
proof -
  let ?w1 = "sessionLogged E sid ''exec-rollback'' ''create-asset'' sd w"
  obtain pr x' where "\<And>k :: string \<Rightarrow> ('a, string) gact. bindA (fabricSend E c ''CreateAsset'' [JStr a, JStr ''19'']) k ?w1 = k pr (?w1\<lparr>w_ext := x'\<rparr>)"
    "present x' a \<and> \<not> locked x' a"
    by (rule fabricSend_run [OF assms(1,2), of "''CreateAsset''" "[JStr a, JStr ''19'']" ?w1 "\<lambda>x. present x a \<and> \<not> locked x a"])
      (use assms(1,6) in \<open>auto simp: assetChaincode_def\<close>)
  with assms(2-5) show ?thesis
    by (simp add: fabricCreateAssetToRollback_def Let_def runs ready_runs rollbackReady_def optJson_def orElse_def fabricConnected_def)
qed

text \<open>
  C11. The rollback of a Fabric source restores the asset: whether it was still unlocked, locked, or
  already deleted, afterwards it is on the ledger and unlocked, and the session is marked.
\<close>

theorem fabric_source_rollback_restores:
  assumes "assetChaincode E path present locked" "fabricConnected c path" "ledgerKind (w_self w) = FabricSatpGateway c"
    "rollbackReady E sid w" "session w sid = Some sd" "sd_step sd \<noteq> None" "sd_lastSequenceNumber sd \<noteq> None"
    "rollbackListsDefined sd" "sd_sourceGatewayPubkey sd = Some (pubKey (w_self w))"
    "sd_sourceLedgerAssetID sd = Some a" "sd_recipientLedgerAssetID sd \<noteq> None"
  shows "\<exists>w' sd'. rollback E sid w = (Returns (), w') \<and> present (w_ext w') a \<and> \<not> locked (w_ext w') a
    \<and> session w' sid = Some sd' \<and> sd_rollback sd' = Some True"
proof -
  let ?sd = "sd\<lparr>sd_rollback := Some True\<rparr>"
  let ?w = "setSession sid ?sd w"
  have ready: "rollbackReady E sid ?w" "session ?w sid = Some ?sd" "rollbackListsDefined ?sd"
    using assms(4,8) by (simp_all add: rollbackReady_def rollbackListsDefined_def)
  note unlock = fabricUnlockAsset_run [OF assms(1,2) ready, of a] and recreate = fabricCreateAssetToRollback_run [OF assms(1,2) ready, of a]
  have mark: "sd_rollback (pushRollback x p ?sd) = Some True" for x p by (simp add: pushRollback_def)
  have run: "rollback E sid w =
      (if present (w_ext w) a then if locked (w_ext w) a then thenA (fabricUnlockAsset E c sid (Some a)) (ret ()) ?w else ret () ?w
       else thenA (fabricCreateAssetToRollback E c sid (Some a)) (ret ()) ?w)"
    using assms(2,3,5-11)
    by (auto simp: rollback_def kindA_def fabricRollback_def runs fabricQueries_run [OF assms(1,2)] Let_def fabricConnected_def)
  show ?thesis
  proof (cases "present (w_ext w) a")
    case True
    then show ?thesis using run unlock mark by (cases "locked (w_ext w) a") (auto simp: thenA_run runs)
  next
    case False
    then show ?thesis using run recreate mark by (auto simp: thenA_run runs)
  qed
qed

text \<open>A ledger that holds the assets it was given, each with the state of its lock.\<close>

type_synonym assetLedger = "string \<rightharpoonup> bool"

definition chaincodeRun :: "fabricTransaction \<Rightarrow> assetLedger \<Rightarrow> json option \<times> assetLedger" where
  "chaincodeRun t x = (let answer = (\<lambda>b. Some (JObj [(''functionOutput'', JStr (if b then ''true'' else ''false''))]));
       done' = Some (JObj [(''transactionId'', JStr ''tx'')])
     in case ft_params t of
       JStr a # _ \<Rightarrow>
         if ft_methodName t = ''AssetExists'' then (answer (x a \<noteq> None), x)
         else if ft_methodName t = ''IsAssetLocked'' then (answer (x a = Some True), x)
         else if ft_methodName t = ''LockAsset'' then (done', x(a \<mapsto> True))
         else if ft_methodName t = ''DeleteAsset'' then (done', x(a := None))
         else (done', x(a \<mapsto> False))
     | _ \<Rightarrow> (None, x))"

definition chainEnv :: "assetLedger env" where
  "chainEnv = \<lparr>
     e_crypto = demoCrypto, e_sql = e_sql demoEnv, e_timezone = e_timezone demoEnv, e_parseDate = (\<lambda>_. None),
     e_tick = (\<lambda>_. 1), e_wait = (\<lambda>d w. w), e_post = (\<lambda>_ _ w. (HttpResponse 200, w)),
     e_setObjectV1 = (\<lambda>_ _ _ x. (None, x)), e_getObjectV1 = (\<lambda>_ _ _. None), e_invokeContractV1 = (\<lambda>_ _ x. (None, x)),
     e_runTransactionV1 = (\<lambda>_. chaincodeRun),
     e_getTransactionReceiptByTxIDV1 = (\<lambda>_ _ x. (Some (JStr ''block''), x))\<rparr>"

definition chainWorld :: "string \<Rightarrow> assetLedger \<Rightarrow> assetLedger world" where
  "chainWorld key x = setSession ''s'' demoSession
     \<lparr>w_self = demoGateway key (FabricSatpGateway demoFabric), w_remote = \<lparr>rr_open = True, rr_rows = []\<rparr>, w_now = 0, w_ext = x\<rparr>"

lemma chain_contract: "assetChaincode chainEnv path (\<lambda>x a. x a \<noteq> None) (\<lambda>x a. x a = Some True)"
  by (auto simp: assetChaincode_def chainEnv_def chaincodeRun_def Let_def)

lemma chain_connected: "fabricConnected demoFabric ''fabric''"
  by (simp add: fabricConnected_def demoFabric_def)

lemma chainWorld_simps [simp]:
  "session (chainWorld key x) ''s'' = Some demoSession" "pubKey (w_self (chainWorld key x)) = key" "w_ext (chainWorld key x) = x"
  "ledgerKind (w_self (chainWorld key x)) = FabricSatpGateway demoFabric" "logReady chainEnv k (chainWorld key x)"
  by (simp_all add: chainWorld_def demoGateway_def logReady_def canSign_def chainEnv_def)

theorem fabric_source_rollback_restores_witness:
  "\<exists>w'. rollback chainEnv ''s'' (chainWorld ''aa'' [''A'' \<mapsto> True]) = (Returns (), w') \<and> w_ext w' ''A'' = Some False"
  using fabric_source_rollback_restores [OF chain_contract chain_connected, of "chainWorld ''aa'' [''A'' \<mapsto> True]" "''s''" demoSession "''A''"]
  by (auto simp: rollbackReady_def rollbackListsDefined_def)

text \<open>
  The rollback of a Fabric recipient looks for the wrong asset: it asks the ledger for the asset
  of the source, and when that is unknown there it ends without deleting the asset that the
  transfer created, whether or not it exists.
\<close>

theorem fabric_recipient_rollback_keeps:
  assumes "assetChaincode E path present locked" "fabricConnected c path" "ledgerKind (w_self w) = FabricSatpGateway c"
    "session w sid = Some sd" "sd_step sd \<noteq> None" "sd_lastSequenceNumber sd \<noteq> None"
    "sd_sourceGatewayPubkey sd \<noteq> Some (pubKey (w_self w))"
    "sd_sourceLedgerAssetID sd = Some a" "sd_recipientLedgerAssetID sd = Some b" "\<not> present (w_ext w) a"
  shows "rollback E sid w = (Returns (), setSession sid (sd\<lparr>sd_rollback := Some True\<rparr>) w)"
  using assms(2-10)
  by (auto simp: rollback_def kindA_def fabricRollback_def runs fabricQueries_run [OF assms(1,2)] Let_def fabricConnected_def)

theorem fabric_recipient_rollback_keeps_witness:
  "\<exists>w'. rollback chainEnv ''s'' (chainWorld ''bb'' [''B'' \<mapsto> False]) = (Returns (), w') \<and> w_ext w' ''B'' = Some False"
  using fabric_recipient_rollback_keeps [OF chain_contract chain_connected, of "chainWorld ''bb'' [''B'' \<mapsto> False]" "''s''" demoSession "''A''" "''B''"]
  by simp

end
