(* ===== verification/Request_Properties.thy ===== *)
theory Request_Properties
  imports Effects
begin

text \<open>Sending a request to the peer: the outcomes of \<open>makeRequest\<close>, its retries and its timeout.\<close>

section \<open>Outcomes\<close>

text \<open>
  \<open>makeRequest\<close> sends one request and decides on its result: an answer 200 is success; an error
  without an answer or with status 500 rolls the session back and throws; any other answer or error
  waits for the timeout; a request that is never answered is waited for forever.
\<close>

theorem makeRequest_outcomes:
  assumes "session w sid = Some sd" "timeoutsDefined sd" "0 < the (sd_maxRetries sd)"
    "e_post E b c w = (result, w1)" "\<not> matches ''Rollback'' message"
  shows "makeRequest E sid b c message w = (case result of
      HttpPending \<Rightarrow> (Pending, w1)
    | HttpResponse n \<Rightarrow> if n = 200 then (Returns (), w1) else awaitTimeout E (Revert E) sid (the (sd_maxTimeout sd)) message w1
    | HttpError status \<Rightarrow>
        if status = None \<or> status = Some 500 then thenA (Revert E sid) (throwE (MessageFailed message)) w1
        else awaitTimeout E (Revert E) sid (the (sd_maxTimeout sd)) message w1)"
  unfolding makeRequest_def makeRequestWith_after [OF assms(1,2)]
  using assms(3-5) by (auto simp: lookOnce_def runs split: http_result.split)

theorem makeRequest_outcomes_witness:
  "makeRequest demoEnv ''s'' ''server''
     (RecoverSuccessMessage \<lparr>rsu_sessionID = ''s'', rsu_success = True, rsu_signature = ''aa''\<rparr>) ''Recover'' (inSession clientWorld) = (Returns (), inSession clientWorld)"
  using makeRequest_outcomes [of "inSession clientWorld" "''s''" demoSession demoEnv "''server''"
      "RecoverSuccessMessage \<lparr>rsu_sessionID = ''s'', rsu_success = True, rsu_signature = ''aa''\<rparr>" "HttpResponse 200"
      "inSession clientWorld" "''Recover''"]
  by (simp add: timeoutsDefined_def)

text \<open>
  The number of retries makes no difference: the loop awaits the promise of the first request again,
  and two loops that have any round left behave alike.
\<close>

theorem retries_make_no_difference:
  assumes "n < m" "n' < m'"
  shows "retryLoop revert sid result message m n = retryLoop revert sid result message m' n'"
  using assms by (simp add: retryLoop_closed)

theorem retries_make_no_difference_witness:
  "retryLoop (Revert demoEnv) ''s'' (HttpError (Some 404)) ''Recover'' 5 0
     = retryLoop (Revert demoEnv) ''s'' (HttpError (Some 404)) ''Recover'' 1 0"
  by (rule retries_make_no_difference) simp_all

text \<open>
  A rollback message can not trigger another rollback: the request of \<open>sendRollbackMessage\<close>, for
  which the model leaves \<open>Revert\<close> out, is the request the gateway's own \<open>makeRequest\<close> sends.
\<close>

theorem rollback_message_never_reverts:
  "makeRequestWith E (\<lambda>_. never) sid b c ''Rollback'' = makeRequest E sid b c ''Rollback''"
  unfolding makeRequest_def by (rule makeRequestWith_rollback) simp

section \<open>Timeout\<close>

text \<open>
  The timeout works for the first request only. Against a timestamp in milliseconds, as the client
  writes it when it opens the session, the session is rolled back when the limit is exceeded. The
  textual date that every received message leaves in the session does not parse as a number: then
  the wait ends as if the message had been delivered, however late it is.
\<close>

theorem request_timeout:
  assumes "session (e_wait E d w) sid = Some sd" "sd_maxTimeout sd = Some limit"
    "sd_lastMessageReceivedTimestamp sd = Some stamp"
  shows "(stamp = intToString t \<longrightarrow> awaitTimeout E rv sid d message w =
      (if w_now (e_wait E d w) - t > limit
       then thenA (rv sid) (throwE (TimeoutExceeded message)) (ticked E (e_wait E d w))
       else (Returns (), ticked E (e_wait E d w))))
    \<and> (stamp = dateToString z t \<longrightarrow> awaitTimeout E rv sid d message w = (Returns (), ticked E (e_wait E d w)))"
  using assms by (auto simp: awaitTimeout_def runs timedOut_def parseInt_dateToString ticked_def)

theorem request_timeout_witness:
  "awaitTimeout demoEnv (Revert demoEnv) ''s'' 100 ''Recover''
      (setSession ''s'' (touched demoEnv clientWorld demoSession) clientWorld)
    = (Returns (), ticked demoEnv (e_wait demoEnv 100 (setSession ''s'' (touched demoEnv clientWorld demoSession) clientWorld)))"
  using request_timeout [of demoEnv 100 "setSession ''s'' (touched demoEnv clientWorld demoSession) clientWorld" "''s''"
      "touched demoEnv clientWorld demoSession" 10 "dateToString (e_timezone demoEnv) 0" 0 "Revert demoEnv" "''Recover''"
      "e_timezone demoEnv"]
  by (simp add: touched_def clientWorld_def)

end
