(* ===== verification/Message_Properties.thy ===== *)
theory Message_Properties
  imports Effects
begin

text \<open>
  Authenticity of messages: what a signature proves, and three messages that act on a session
  without authority.
\<close>

section \<open>Signatures\<close>

text \<open>
  Sign and verify: whoever holds a key pair can sign every object, the signature travels as the
  hexadecimal text of its bytes, and every gateway verifies it under the public key.
\<close>

theorem signed_objects_verify:
  assumes "keyPair C sk pk"
  shows "\<exists>bytes. signHex C sk (stringify j) = Some (bufArray2HexStr bytes)
    \<and> hexToBytes (bufArray2HexStr bytes) = bytes
    \<and> (\<forall>verifier. verifySignature C verifier j (bufArray2HexStr bytes) pk = Some True)"
proof -
  obtain s where s: "signHex C sk (stringify j) = Some s" using ecdsa.signs [OF assms] by blast
  then obtain bytes where "s = bufArray2HexStr bytes" by (auto simp: signHex_def)
  with s ecdsa.verifies [OF assms s] show ?thesis by auto
qed

theorem signed_objects_verify_witness:
  "\<exists>bytes. signHex demoCrypto ''aa'' (stringify JNull) = Some (bufArray2HexStr bytes)
    \<and> (\<forall>verifier. verifySignature demoCrypto verifier JNull (bufArray2HexStr bytes) ''aa'' = Some True)"
  using signed_objects_verify [OF demo_keyPair, of "''aa''" JNull] by blast

text \<open>A curve whose signatures are the key and the digest.\<close>

definition plainCrypto :: crypto where
  "plainCrypto = \<lparr>sha256 = id, sha256Undefined = [], stableStringify = stringify, sha3Hex = (\<lambda>_. ''00''),
     ecdsaSign = (\<lambda>d k. Some (k @ d)), ecdsaVerify = (\<lambda>s d k. Some (s = k @ d))\<rparr>"

text \<open>
  A signer with a hash function of its own does not accept its own signatures: \<open>sign\<close> uses the
  function, \<open>verify\<close> always uses the built-in hash. There is a curve on which a key pair verifies
  what the default signer signs and refuses what a signer with another hash signs.
\<close>

theorem custom_hash_not_verified:
  "\<exists>C h sk pk sg msg sig. keyPair C sk pk
    \<and> newJsObjectSigner (KeyText sk) None None (Some h) = Some sg
    \<and> signMsg C sg msg = Some sig \<and> verifyMsg C sg msg sig (hexToBytes pk) = Some False"
proof -
  let ?sg = "\<lparr>privateKey = hexToBytes ''aa'', signatureFunc = None, verifySignatureFunc = None, hashFunc = Some (\<lambda>_. ''01'')\<rparr>"
  have "keyPair plainCrypto ''aa'' ''aa''" by (simp add: keyPair_def plainCrypto_def)
  moreover have "newJsObjectSigner (KeyText ''aa'') None None (Some (\<lambda>_. ''01'')) = Some ?sg"
    by (simp add: newJsObjectSigner_def)
  moreover have "signMsg plainCrypto ?sg JNull = Some (hexToBytes ''aa'' @ [1])"
    by (simp add: signMsg_def plainCrypto_def hexDigitVal_def)
  moreover have "verifyMsg plainCrypto ?sg JNull (hexToBytes ''aa'' @ [1]) (hexToBytes ''aa'') = Some False"
    by (simp add: verifyMsg_def plainCrypto_def dataHash_def hexDigitVal_def)
  ultimately show ?thesis by blast
qed

section \<open>Agreement\<close>

text \<open>Two different texts with the same hash.\<close>

definition collision :: "crypto \<Rightarrow> string \<Rightarrow> string \<Rightarrow> bool" where
  "collision C s t \<longleftrightarrow> s \<noteq> t \<and> sha256 C s = sha256 C t"

lemma hashJson_same:
  assumes "hashJson E i = hashJson E j" "wfJson i" "wfJson j"
  shows "i = j \<or> collision (e_crypto E) (stringify i) (stringify j)"
proof -
  have "stringify i = stringify j \<longleftrightarrow> i = j" using assms(2,3) parse_stringify by (metis option.inject)
  with assms(1) show ?thesis by (auto simp: hashJson_def collision_def)
qed

lemma wfJson_commitPreparationRequest: "wfJson (commitPreparationRequestToJson m)"
  unfolding commitPreparationRequestToJson_def by (rule wfJson_optFields) simp_all

lemma commitPreparationRequestToJson_inject: "commitPreparationRequestToJson m = commitPreparationRequestToJson m' \<longleftrightarrow> m = m'"
  by (cases m; cases m') (auto simp: commitPreparationRequestToJson_def optFields.simps)

text \<open>
  C5. Both gateways agree on the commit preparation: when the client accepts the acknowledgement, after
  which it deletes its asset, the request that the server had checked and logged is the one that
  the client sent, or the two requests are an actual collision of SHA-256: their JSON texts differ and
  have the same hash.
\<close>

theorem preparation_exchange_agrees:
  assumes "sendCommitPreparationRequest E sid False w = (Returns (Some sent), w1)"
    "checkValidCommitPreparationRequest E received v = (Returns (), v1)" "cpq_sessionID received = sid"
    "sendCommitPreparationResponse E sid False v1 = (Returns (Some response), v2)"
    "checkValidCommitPreparationResponse E response w1 = (Returns (), w2)"
  shows "received = sent \<or> collision (e_crypto E) (stringify (commitPreparationRequestToJson received))
      (stringify (commitPreparationRequestToJson sent))"
proof -
  have client: "session w1 sid = Some sd \<Longrightarrow> sd_commitPrepareRequestMessageHash sd = Some (hashJson E (commitPreparationRequestToJson sent))" for sd
    using assms(1) unfolding sendCommitPreparationRequest_def Let_def
    by (auto simp: returns deliver_def dest!: logSession_session)
  obtain sd where sd: "session v1 sid = Some sd"
    "sd_commitPrepareRequestMessageHash sd = Some (hashJson E (commitPreparationRequestToJson received))"
    using assms(2,3) unfolding checkValidCommitPreparationRequest_iff by auto
  have "cpr_hashCommitPrep response = hashJson E (commitPreparationRequestToJson received) \<and> cpr_sessionID response = sid"
    using assms(4) sd unfolding sendCommitPreparationResponse_def Let_def
    by (auto simp: returns deliver_def commitPreparationResponseMessage_def bumpSequence_def)
  with assms(5) client have "hashJson E (commitPreparationRequestToJson received) = hashJson E (commitPreparationRequestToJson sent)"
    unfolding checkValidCommitPreparationResponse_iff by auto
  then show ?thesis
    using hashJson_same [OF _ wfJson_commitPreparationRequest wfJson_commitPreparationRequest]
    by (metis commitPreparationRequestToJson_inject)
qed

lemma demo_signature: "bufArray2HexStr (hexToBytes ''aa'') = ''aa''" "bufArray2HexStr (hexToBytes ''bb'') = ''bb''"
  by code_simp+

theorem preparation_exchange_agrees_witness:
  "\<exists>sent received w1 v1. sendCommitPreparationRequest demoEnv ''s'' False (inSession clientWorld) = (Returns (Some sent), w1)
    \<and> checkValidCommitPreparationRequest demoEnv received (inSession serverWorld) = (Returns (), v1) \<and> received = sent"
proof -
  have inj: "\<not> collision (e_crypto demoEnv) s t" for s t by (simp add: demoCrypto_def collision_def)
  obtain sent w1 where sent: "sendCommitPreparationRequest demoEnv ''s'' False (inSession clientWorld) = (Returns (Some sent), w1)"
    "session w1 ''s'' = Some (bumpSequence demoSession\<lparr>
       sd_commitPrepareRequestMessageHash := Some (hashJson demoEnv (commitPreparationRequestToJson sent)),
       sd_clientSignatureCommitPreparationRequestMessage := Some ''aa''\<rparr>)"
    and fields: "cpq_sessionID sent = ''s''" "cpq_messageType sent = satpMessageType CommitPreparationRequest"
      "cpq_sequenceNumber sent = 8" "cpq_hashLockEvidenceAck sent = ''h6''" "cpq_serverIdentityPubkey sent = ''bb''"
      "cpq_clientIdentityPubkey sent = ''aa''" "cpq_signature sent = ''aa''"
    by (simp add: sendCommitPreparationRequest_def Let_def runs ready_runs timeoutsDefined_def deliver_def inSession_def
        clientWorld_def commitPrepareRequestMessage_def bumpSequence_def demo_signature del: hexToBytes.simps)
  obtain v1 where v1: "checkValidCommitPreparationRequest demoEnv sent (inSession serverWorld) = (Returns (), v1)"
    "session v1 ''s'' = Some (demoSession\<lparr>
       sd_commitPrepareRequestMessageHash := Some (hashJson demoEnv (commitPreparationRequestToJson sent)),
       sd_clientSignatureCommitPreparationRequestMessage := Some ''aa'', sd_step := Some 8\<rparr>)"
    "privKey (w_self v1) = ''bb''" "logReady demoEnv (getSatpLogKey ''s'' ''ack'' ''prepare'') v1"
    using fields by (simp add: checkValidCommitPreparationRequest_def Let_def runs ready_runs thenA_verifyA_run inSession_def serverWorld_def)
  have "\<exists>response v2. sendCommitPreparationResponse demoEnv ''s'' False v1 = (Returns (Some response), v2)
      \<and> cpr_sessionID response = ''s'' \<and> cpr_messageType response = satpMessageType CommitPreparationResponse
      \<and> cpr_sequenceNumber response = 8 \<and> cpr_hashCommitPrep response = hashJson demoEnv (commitPreparationRequestToJson sent)
      \<and> cpr_serverIdentityPubkey response = ''bb'' \<and> cpr_clientIdentityPubkey response = ''aa'' \<and> cpr_signature response = ''bb''"
    using v1 by (simp add: sendCommitPreparationResponse_def Let_def runs ready_runs timeoutsDefined_def deliver_def
        commitPreparationResponseMessage_def bumpSequence_def demo_signature del: hexToBytes.simps)
  then obtain response v2 where v2: "sendCommitPreparationResponse demoEnv ''s'' False v1 = (Returns (Some response), v2)"
    and r: "cpr_sessionID response = ''s''" "cpr_messageType response = satpMessageType CommitPreparationResponse"
      "cpr_sequenceNumber response = 8" "cpr_hashCommitPrep response = hashJson demoEnv (commitPreparationRequestToJson sent)"
      "cpr_serverIdentityPubkey response = ''bb''" "cpr_clientIdentityPubkey response = ''aa''" "cpr_signature response = ''bb''"
    by blast
  have "\<exists>w2. checkValidCommitPreparationResponse demoEnv response w1 = (Returns (), w2)"
    using r sent(2) by (simp add: checkValidCommitPreparationResponse_iff bumpSequence_def)
  with preparation_exchange_agrees [OF sent(1) v1(1) fields(1) v2] inj sent(1) v1(1) show ?thesis by blast
qed

section \<open>Messages without authority\<close>

text \<open>The requests that a client sends once a session is open.\<close>

fun laterRequest :: "satp_call \<Rightarrow> bool" where
  "laterRequest (Phase2TransferCommenceRequest m) = True"
| "laterRequest (Phase2LockEvidenceRequest m) = True"
| "laterRequest (Phase3CommitPreparationRequest m) = True"
| "laterRequest (Phase3CommitFinalRequest m) = True"
| "laterRequest (Phase3TransferCompleteRequest m) = True"
| "laterRequest _ = False"

lemma opened_session_refuses:
  assumes "laterRequest call" "session w (callSession '''' call) = Some sd" "sd_lastSequenceNumber sd = None"
  shows "\<exists>e w'. dispatch E u rnd call w = (Throws e, w')"
  using assms
  by (cases call)
    (auto simp: onTransferCommenceRequestReceived_def onLockEvidenceRequestReceived_def onCommitPrepareRequestReceived_def
      onCommitFinalRequestReceived_def onTransferCompleteRequestReceived_def checkValidtransferCommenceRequest_def
      checkValidLockEvidenceRequest_def checkValidCommitPreparationRequest_def checkValidCommitFinalRequest_def
      checkValidTransferCompleteRequest_def updateLast_run Let_def runs)

text \<open>
  C12. Anyone can reset a session of a recipient gateway: an initiation request for a session that was
  opened before, whatever else it contains and whoever signed it, is answered with 500, but the
  session is by then replaced by an empty one, and the next request of the real client for the
  session is answered with 500, however far the transfer had come.
\<close>

theorem initiation_resets_session:
  assumes "keyUsed (getSatpLogKey (tiq_sessionID m) ''exec'' ''validate'') w"
  shows "\<exists>w'. handleRequest E u rnd (Phase1TransferInitiationRequest m) w = (Some 500, w')
    \<and> session w' (tiq_sessionID m) = Some (openedSession (tiq_sessionID m) (intToString (w_now w)))
    \<and> (\<forall>call. laterRequest call \<and> callSession '''' call = tiq_sessionID m \<longrightarrow>
          fst (handleRequest E u' rnd' call w') = Some 500)"
proof -
  let ?sid = "tiq_sessionID m"
  let ?sd = "openedSession ?sid (intToString (w_now w))"
  define w' where "w' = ticked E (setSession ?sid ?sd (ticked E w))"
  have "onTransferInitiationRequestReceived E m w = (Throws DatabaseError, w')"
    using assms
    by (simp add: onTransferInitiationRequestReceived_def checkValidInitializationRequest_def Let_def runs
        thenA_logSession_key_used w'_def ticked_def [symmetric])
  moreover have opened: "session w' ?sid = Some ?sd" by (simp add: w'_def)
  moreover have "fst (handleRequest E u' rnd' call w') = Some 500"
    if "laterRequest call" "callSession '''' call = ?sid" for call
  proof -
    have "sd_lastSequenceNumber ?sd = None" by (simp add: openedSession_def emptySession_def)
    with opened_session_refuses [OF that(1), of w' ?sd E u' rnd'] opened that(2)
    obtain e w'' where "dispatch E u' rnd' call w' = (Throws e, w'')" by auto
    then show ?thesis by (simp add: handleRequest_dispatch respond_def)
  qed
  ultimately show ?thesis by (auto simp: endpoint_defs respond_def)
qed

text \<open>A request of an unknown gateway, for the session of the two.\<close>

definition demoInitiation :: TransferInitializationV1Request where
  "demoInitiation = \<lparr>tiq_messageType = ''nonsense'', tiq_sessionID = ''s'', tiq_version = None,
     tiq_payloadProfile = \<lparr>pp_assetProfile = \<lparr>ap_issuer = None, ap_assetCode = None, ap_assetCodeType = None,
       ap_issuanceDate = None, ap_expirationDate = '''', ap_verificationEndPoint = None, ap_digitalSignature = None,
       ap_prospectusLink = None, ap_keyInformationLink = None, ap_keyWord = None, ap_transferRestriction = None,
       ap_ledgerRequirements = None\<rparr>, pp_capabilities = None\<rparr>,
     tiq_applicationProfile = '''', tiq_loggingProfile = '''', tiq_accessControlProfile = '''', tiq_signature = '''',
     tiq_sourceGatewayPubkey = ''ee'', tiq_sourceGatewayDltSystem = '''', tiq_recipientGatewayPubkey = '''',
     tiq_recipientGatewayDltSystem = '''', tiq_sequenceNumber = 0, tiq_sourceBasePath = '''', tiq_recipientBasePath = '''',
     tiq_maxRetries = 0, tiq_maxTimeout = 0, tiq_backupGatewaysAllowed = [], tiq_recipientLedgerAssetID = '''',
     tiq_sourceLedgerAssetID = ''''\<rparr>"

lemma demo_validated: "keyUsed (getSatpLogKey ''s'' ''exec'' ''validate'')
    (sessionLogged demoEnv ''s'' ''exec'' ''validate'' demoSession (inSession serverWorld))"
  by (simp add: keyUsed_def localRows_def sessionLogged_def entryWorld_def addRow_def Let_def
      inSession_def setSession_def serverWorld_def demoWorld_def demoGateway_def)

theorem initiation_resets_session_witness:
  "\<exists>w'. handleRequest demoEnv '''' 0 (Phase1TransferInitiationRequest demoInitiation)
      (sessionLogged demoEnv ''s'' ''exec'' ''validate'' demoSession (inSession serverWorld)) = (Some 500, w')
    \<and> (\<exists>t. session w' ''s'' = Some (openedSession ''s'' t))"
proof -
  have "tiq_sessionID demoInitiation = ''s''" by (simp add: demoInitiation_def)
  with initiation_resets_session [of demoInitiation _ demoEnv "''''" 0 "''''" 0] demo_validated show ?thesis by metis
qed

text \<open>
  A transfer can be completed by anyone: a transfer complete request is verified under the key it
  carries, and that key is not compared with the client of the session. A stranger with any key pair
  who knows the sequence number and the last hash is answered with 200.
\<close>

theorem complete_accepted_from_anyone:
  assumes "keyPair (e_crypto E) sk stranger" "session w (tpq_sessionID m) = Some sd" "sd_step sd \<noteq> None"
    "sd_lastSequenceNumber sd = Some n" "sd_commitFinalResponseMessageHash sd = Some h"
    "logReady E (getSatpLogKey (tpq_sessionID m) ''exec'' ''complete'') w"
    "logReady E (getSatpLogKey (tpq_sessionID m) ''done'' ''complete'') w"
    "tpq_messageType m = satpMessageType TransferCompleteRequest" "tpq_clientIdentityPubkey m = stranger"
    "tpq_hashCommitFinalAck m = h" "tpq_sequenceNumber m = n + 1"
  shows "\<exists>signature w'. handleRequest E u rnd (Phase3TransferCompleteRequest (m\<lparr>tpq_signature := signature\<rparr>)) w = (Some 200, w')"
proof -
  obtain s where s: "validSignature (e_crypto E) (transferCompleteRequestToJson (m\<lparr>tpq_signature := ''''\<rparr>)) s stranger"
    using ecdsa.signed_and_verified [OF assms(1)] by (auto simp: validSignature_def)
  have "\<exists>w'. onTransferCompleteRequestReceived E (m\<lparr>tpq_signature := s\<rparr>) w = (Returns (), w')"
    using assms s
    by (simp add: onTransferCompleteRequestReceived_def checkValidTransferCompleteRequest_def Let_def runs ready_runs
        thenA_verifyA_run)
  then show ?thesis by (auto simp: endpoint_defs respond_def intro!: exI [of _ s])
qed

definition demoComplete :: TransferCompleteV1Request where
  "demoComplete = \<lparr>tpq_sessionID = ''s'', tpq_messageType = satpMessageType TransferCompleteRequest,
     tpq_clientIdentityPubkey = ''ee'', tpq_serverIdentityPubkey = ''bb'', tpq_hashCommitFinalAck = ''h10'',
     tpq_hashTransferCommence = ''h3'', tpq_signature = '''', tpq_sequenceNumber = 8\<rparr>"

theorem complete_accepted_from_anyone_witness:
  "sd_sourceGatewayPubkey demoSession \<noteq> Some (tpq_clientIdentityPubkey demoComplete)
    \<and> (\<exists>signature w'. handleRequest demoEnv '''' 0 (Phase3TransferCompleteRequest (demoComplete\<lparr>tpq_signature := signature\<rparr>))
         (inSession serverWorld) = (Some 200, w'))"
proof
  show "\<exists>signature w'. handleRequest demoEnv '''' 0 (Phase3TransferCompleteRequest (demoComplete\<lparr>tpq_signature := signature\<rparr>))
         (inSession serverWorld) = (Some 200, w')"
    by (rule complete_accepted_from_anyone [of _ "''ee''" "''ee''" _ _ demoSession 7 "''h10''"])
      (simp_all add: demoComplete_def inSession_def serverWorld_def)
qed (simp add: demoComplete_def)

text \<open>
  The list of allowed backup gateways can be bypassed: a recover message of a backup gateway that is
  not on the list is refused, but its key is by then the key of the session, and the same message,
  sent again, is accepted.
\<close>

theorem recover_bypasses_allow_list:
  assumes "session w (rec_sessionID m) = Some sd" "sd_sourceGatewayPubkey sd \<noteq> Some (pubKey (w_self w))"
    "rec_isBackup m" "rec_newGatewayPubKey m = Some stranger" "sd_sourceGatewayPubkey sd \<noteq> Some stranger"
    "stranger \<noteq> pubKey (w_self w)" "\<not> backupAllowed sd (Some stranger)" "rec_lastLogEntryTimestamp m \<noteq> None"
    "validSignature (e_crypto E) (recoverToJson (m\<lparr>rec_signature := ''''\<rparr>)) (rec_signature m) stranger"
  shows "\<exists>w1 w2 sd2. checkValidRecoverMessage E m w = (Throws BackupNotAllowed, w1)
    \<and> checkValidRecoverMessage E m w1 = (Returns (), w2)
    \<and> session w2 (rec_sessionID m) = Some sd2 \<and> sd_sourceGatewayPubkey sd2 = Some stranger"
  using assms
  by (auto simp: checkValidRecoverMessage_def Let_def runs backupAllowed_def thenA_verifyA_run split: option.splits)

definition demoRecover :: RecoverV1Message where
  "demoRecover = \<lparr>rec_sessionID = ''s'', rec_odapPhase = '''', rec_sequenceNumber = 7, rec_lastLogEntryTimestamp = Some ''0'',
     rec_isBackup = True, rec_newBasePath = '''', rec_newGatewayPubKey = Some ''ee'', rec_signature = ''ee''\<rparr>"

theorem recover_bypasses_allow_list_witness:
  "\<exists>w1 w2. checkValidRecoverMessage demoEnv demoRecover (inSession serverWorld) = (Throws BackupNotAllowed, w1)
    \<and> checkValidRecoverMessage demoEnv demoRecover w1 = (Returns (), w2)"
  using recover_bypasses_allow_list [of "inSession serverWorld" demoRecover demoSession "''ee''" demoEnv]
  by (auto simp: demoRecover_def inSession_def serverWorld_def backupAllowed_def)

end
