(* ===== verification/Recovery_Properties.thy ===== *)
theory Recovery_Properties
  imports Effects
begin

text \<open>
  Crash recovery: the sessions that are read back from the log, the logs that a peer sends, and
  resuming a session.
\<close>

section \<open>Reading sessions back\<close>

text \<open>The session a logged row stands for, at the gateway with the given key.\<close>

definition restored :: "string \<Rightarrow> LocalLog \<Rightarrow> SessionData \<Rightarrow> SessionData" where
  "restored pk l parsed = (let sd = parsed\<lparr>sd_lastLogEntryTimestamp := ll_timestamp l\<rparr> in
     if sd_sourceGatewayPubkey sd \<noteq> Some pk \<and> sd_recipientGatewayPubkey sd \<noteq> Some pk
     then sd\<lparr>sd_sourceGatewayPubkey := Some pk\<rparr> else sd)"

lemma recoverLog_run:
  assumes "ll_data l = Some d" "parseSession d = Some sd"
  shows "recoverLog E False l w = (Returns (), setSession (ll_sessionID l) (restored (pubKey (w_self w)) l sd) w)"
  using assms by (auto simp: recoverLog_def restored_def Let_def runs)











lemma demo_wfSession: "wfSession demoSession"
  by (simp add: wfSession_def demoSession_def emptySession_def)




text \<open>
  What was logged is what is recovered: once a session was logged, its row is found in the local
  log, and recovering that row at the same gateway, in whatever state it is by then, gives back
  exactly the session, with the time of the entry.
\<close>

theorem logged_session_recovered:
  assumes "wfSession sd" "logReady E (getSatpLogKey sid t op') w" "localRepository (w_self w) \<noteq> None"
    "sd_sourceGatewayPubkey sd = Some pk \<or> sd_recipientGatewayPubkey sd = Some pk"
  shows "\<exists>row w'. logSession E sid t op' sd w = (Returns (), w')
    \<and> getLogFromDatabase (getSatpLogKey sid t op') w' = (Returns (Some row), w')
    \<and> (\<forall>w2. pubKey (w_self w2) = pk \<longrightarrow> recoverLog E False row w2 =
         (Returns (), setSession sid (sd\<lparr>sd_lastLogEntryTimestamp := Some (intToString (w_now w))\<rparr>) w2))"
proof -
  let ?row = "stampLog (w_now w) (mkLog sid t op' (Some (stringifySession sd)))"
  let ?w' = "sessionLogged E sid t op' sd w"
  have "getLogFromDatabase (getSatpLogKey sid t op') ?w' = (Returns (Some ?row), ?w')"
    using assms(2,3)
    by (auto simp: getLogFromDatabase_def queryLocal_def returns sessionLogged_def entryWorld_def addRow_def readById_def
        logReady_def find_append find_None_all Let_def)
  moreover have "recoverLog E False ?row w2 = (Returns (), setSession sid (restored pk ?row sd) w2)" if "pubKey (w_self w2) = pk" for w2
    using recoverLog_run [of ?row _ sd E w2] assms(1) that by simp
  moreover have "restored pk ?row sd = sd\<lparr>sd_lastLogEntryTimestamp := Some (intToString (w_now w))\<rparr>"
    using assms(4) by (auto simp: restored_def Let_def)
  ultimately show ?thesis using logSession_ready [OF assms(2), of sd] by auto
qed

theorem logged_session_recovered_witness:
  "\<exists>row w'. logSession demoEnv ''s'' ''init'' ''lock'' demoSession clientWorld = (Returns (), w')
    \<and> recoverLog demoEnv False row clientWorld =
        (Returns (), setSession ''s'' (demoSession\<lparr>sd_lastLogEntryTimestamp := Some (intToString 0)\<rparr>) clientWorld)"
proof -
  have "localRepository (w_self clientWorld) \<noteq> None" "w_now clientWorld = 0" "pubKey (w_self clientWorld) = ''aa''"
    "logReady demoEnv (getSatpLogKey ''s'' ''init'' ''lock'') clientWorld"
    by (simp_all add: clientWorld_def) (simp add: demoWorld_def demoGateway_def)
  with logged_session_recovered [OF demo_wfSession, of demoEnv "''s''" "''init''" "''lock''" clientWorld "''aa''"]
  show ?thesis by auto
qed

section \<open>Logs received from a peer\<close>

text \<open>A received row is authentic when its hash is in the remote log, under its key and with a valid signature.\<close>

definition authentic :: "'x env \<Rightarrow> 'x world \<Rightarrow> LocalLog \<Rightarrow> bool" where
  "authentic E w row \<longleftrightarrow> (\<exists>key l. ll_key row = Some key \<and> fst (readRemote E key w) = Returns (Some l)
     \<and> validSignature (e_crypto E) (blankedRemote l) (rl_signature l) (rl_signerPubKey l)
     \<and> rl_hash l = hashJson E (localLogToJson row))"

lemma authentic_setSession [simp]: "authentic E (setSession s sd w) row = authentic E w row"
proof -
  have "fst (readRemote E key (setSession s sd w)) = fst (readRemote E key w)" for key
    by (auto simp: readRemote_def split: option.split remoteKind.split)
  then show ?thesis by (simp add: authentic_def)
qed








text \<open>The loop stops at a row that is not authentic or not complete.\<close>

definition acceptable :: "'x env \<Rightarrow> 'x world \<Rightarrow> LocalLog \<Rightarrow> bool" where
  "acceptable E w row \<longleftrightarrow> authentic E w row \<and> ll_data row \<noteq> None \<and> ll_timestamp row \<noteq> None"

lemma acceptable_setSession [simp]: "acceptable E (setSession s sd w) row = acceptable E w row"
  by (simp add: acceptable_def)









definition demoLogged :: "unit world" where
  "demoLogged = sessionLogged demoEnv ''s'' ''init'' ''commence'' demoSession ((inSession clientWorld)\<lparr>w_now := 5\<rparr>)"



section \<open>Resuming\<close>

text \<open>
  A recovered session goes on where it stopped: the gateway sends the message of its own step again,
  and a client whose last entry was the server's goes on with the next step. A session that is
  marked for rollback is rolled back and acknowledged instead, and one in no known step is dropped.
\<close>

theorem session_resumed:
  assumes "session w sid = Some sd" "sd_step sd = Some n" "sd_lastSequenceNumber sd \<noteq> None"
    "step = (if sd_sourceGatewayPubkey sd = Some (pubKey (w_self w)) \<and> even n then n + 1 else n)"
  shows "resumeSatpSession E sid remote w =
    (if sd_rollback sd = Some True
     then thenA (rollback E sid) (thenA (sendRollbackAckMessage E sid True) (ret NoMessage)) w
     else if step \<in> {1..11} then resumeStep E sid remote step (setSession sid (sd\<lparr>sd_step := Some step\<rparr>) w)
     else (Throws InvalidStep, snd (deleteSession sid (setSession sid (sd\<lparr>sd_step := Some step\<rparr>) w))))"
proof -
  have out: "resumeStep E sid remote step u = (Throws InvalidStep, snd (deleteSession sid u))" if "step \<notin> {1..11}" for u
    using that by (auto simp: resumeStep_def deleteSession_def modifyA_def thenA_def bindA_def throwE_def)
  have "resumeSatpSession E sid remote w =
    (if sd_rollback sd = Some True
     then thenA (rollback E sid) (thenA (sendRollbackAckMessage E sid True) (ret NoMessage)) w
     else resumeStep E sid remote step (setSession sid (sd\<lparr>sd_step := Some step\<rparr>) w))"
    using assms by (auto simp: resumeSatpSession_def Let_def runs even_iff_mod_2_eq_zero)
  with out show ?thesis by auto
qed

theorem session_resumed_witness:
  "resumeSatpSession demoEnv ''s'' False (inSession clientWorld)
     = resumeStep demoEnv ''s'' False 9 (setSession ''s'' (demoSession\<lparr>sd_step := Some 9\<rparr>) (inSession clientWorld))"
  using session_resumed [of "inSession clientWorld" "''s''" demoSession 8 9 demoEnv False]
  by (simp add: inSession_def clientWorld_def)

text \<open>An action that throws before anything outside the gateway or in the remote log changes.\<close>

definition refusedSince :: "'x world \<Rightarrow> 'x world \<Rightarrow> ('x, 'a) gact \<Rightarrow> bool" where
  "refusedSince w u m \<longleftrightarrow> (w_ext u = w_ext w \<and> w_remote u = w_remote w \<longrightarrow>
     (\<exists>e w'. m u = (Throws e, w') \<and> w_ext w' = w_ext w \<and> w_remote w' = w_remote w))"

lemma refused_intros:
  "refusedSince w u k1 \<Longrightarrow> refusedSince w u (thenA (ensure c e) k1)"
  "(\<And>sd. refusedSince w u (k2 sd)) \<Longrightarrow> refusedSince w u (bindA (getSession sid) k2)"
  "(\<And>g. refusedSince w u (k3 g)) \<Longrightarrow> refusedSince w u (bindA (getsA f) k3)"
  "(\<And>s. refusedSince w u (k4 s)) \<Longrightarrow> refusedSince w u (bindA (signA E j) k4)"
  "refusedSince w (setSession sid sd u) k5 \<Longrightarrow> refusedSince w u (thenA (putSession sid sd) k5)"
  "(\<And>t. refusedSince w (ticked E (ticked E u)) (k6 t)) \<Longrightarrow> refusedSince w u (bindA (dayFromNow E) k6)"
  "refusedSince w u m \<Longrightarrow> refusedSince w u (bindA m k7)"
  "keyUsed (getSatpLogKey sid t op') u \<Longrightarrow> refusedSince w u (thenA (logSession E sid t op' sd) k8)"
  unfolding refusedSince_def
  by (auto simp: runs dayFromNow_def bindA_throws thenA_logSession_key_used ticked_def split: option.split)

lemma sends_refused:
  "keyUsed (getSatpLogKey sid ''init'' ''validate'') u \<Longrightarrow> refusedSince w u (sendTransferInitializationRequest E sid r)"
  "keyUsed (getSatpLogKey sid ''init'' ''commence'') u \<Longrightarrow> refusedSince w u (sendTransferCommenceRequest E sid r)"
  "keyUsed (getSatpLogKey sid ''init'' ''lock'') u \<Longrightarrow> refusedSince w u (sendLockEvidenceRequest E sid r)"
  "keyUsed (getSatpLogKey sid ''init'' ''prepare'') u \<Longrightarrow> refusedSince w u (sendCommitPreparationRequest E sid r)"
  "keyUsed (getSatpLogKey sid ''init'' ''final'') u \<Longrightarrow> refusedSince w u (sendCommitFinalRequest E sid r)"
  "keyUsed (getSatpLogKey sid ''init'' ''complete'') u \<Longrightarrow> refusedSince w u (sendTransferCompleteRequest E sid r)"
  unfolding sendTransferInitializationRequest_def sendTransferCommenceRequest_def sendLockEvidenceRequest_def
    sendCommitPreparationRequest_def sendCommitFinalRequest_def sendTransferCompleteRequest_def Let_def
  by (intro refused_intros(1-6,8); simp)+

text \<open>The log entry that the client writes before it sends the message of a step.\<close>

definition clientOperation :: "int \<Rightarrow> string" where
  "clientOperation step = (if step = 1 then ''validate'' else if step = 3 then ''commence'' else if step = 5 then ''lock''
     else if step = 7 then ''prepare'' else if step = 9 then ''final'' else ''complete'')"

lemma resumeStep_refused:
  assumes "step \<in> {1, 3, 5, 7, 9, 11}" "keyUsed (getSatpLogKey sid ''init'' (clientOperation step)) u"
  shows "refusedSince w u (resumeStep E sid remote step)"
  using assms
  by (auto simp: resumeStep_def resumedBy_def clientOperation_def intro!: refused_intros(7) sends_refused)

text \<open>
  A client that crashed after it logged its message can not resume: the message is logged again under
  the same key, which the log refuses, so that resuming throws and nothing is sent, at every step
  of the client.
\<close>

theorem resume_after_logging_fails:
  assumes "session w sid = Some sd" "sd_step sd = Some step" "step \<in> {1, 3, 5, 7, 9, 11}" "sd_rollback sd \<noteq> Some True"
    "keyUsed (getSatpLogKey sid ''init'' (clientOperation step)) w"
  shows "\<exists>e w'. resumeSatpSession E sid remote w = (Throws e, w') \<and> w_ext w' = w_ext w \<and> w_remote w' = w_remote w"
proof -
  have "resumeSatpSession E sid remote w =
    (if sd_lastSequenceNumber sd \<noteq> None then resumeStep E sid remote step (setSession sid (sd\<lparr>sd_step := Some step\<rparr>) w)
     else (Throws SessionError, w))"
    using assms(1-4) by (auto simp: resumeSatpSession_def Let_def runs)
  moreover have "refusedSince w (setSession sid (sd\<lparr>sd_step := Some step\<rparr>) w) (resumeStep E sid remote step)"
    using assms(3,5) by (intro resumeStep_refused) simp_all
  ultimately show ?thesis by (auto simp: refusedSince_def)
qed

theorem resume_after_logging_fails_witness:
  "\<exists>e w'. resumeSatpSession demoEnv ''s'' True (setSession ''s'' (demoSession\<lparr>sd_step := Some 3\<rparr>) demoLogged) = (Throws e, w')"
proof -
  have "keyUsed (getSatpLogKey ''s'' ''init'' (clientOperation 3)) (setSession ''s'' (demoSession\<lparr>sd_step := Some 3\<rparr>) demoLogged)"
    by (simp add: clientOperation_def keyUsed_def localRows_def demoLogged_def sessionLogged_def entryWorld_def addRow_def Let_def
        inSession_def setSession_def clientWorld_def demoWorld_def demoGateway_def)
  with resume_after_logging_fails [of "setSession ''s'' (demoSession\<lparr>sd_step := Some 3\<rparr>) demoLogged" "''s''"
      "demoSession\<lparr>sd_step := Some 3\<rparr>" 3 demoEnv True] show ?thesis by auto
qed

end
