(* ===== verification/Network.thy ===== *)
theory Network
  imports Effects
begin

text \<open>
  Two gateways that talk to each other. A request of one is handled by the endpoints of the
  other, which call back before they answer; the depth of these nested calls is the fuel of the
  environment. Both write to the same remote log, and each has its own ledger.
\<close>

section \<open>The two-gateway world\<close>

record 'l net =
  n_peer :: gateway
  n_mine :: 'l
  n_theirs :: 'l

text \<open>The same world, seen by the other gateway.\<close>

definition swap :: "'l net world \<Rightarrow> 'l net world" where
  "swap w = w\<lparr>w_self := n_peer (w_ext w),
     w_ext := \<lparr>n_peer = w_self w, n_mine = n_theirs (w_ext w), n_theirs = n_mine (w_ext w)\<rparr>\<rparr>"

text \<open>Libraries and ledger connectors; no object store is deployed.\<close>

record 'l services =
  s_crypto :: crypto
  s_sql :: sqlEngine
  s_timezone :: timezone
  s_parseDate :: "string \<Rightarrow> int option"
  s_tick :: "int \<Rightarrow> int"
  s_invoke :: "string \<Rightarrow> besuInvocation \<Rightarrow> 'l \<Rightarrow> (int \<times> json) option \<times> 'l"
  s_run :: "string \<Rightarrow> fabricTransaction \<Rightarrow> 'l \<Rightarrow> json option \<times> 'l"
  s_receipt :: "string \<Rightarrow> fabricTransaction \<Rightarrow> 'l \<Rightarrow> json option \<times> 'l"

definition onLedger :: "('l \<Rightarrow> 'r \<times> 'l) \<Rightarrow> 'l net \<Rightarrow> 'r \<times> 'l net" where
  "onLedger f x = (case f (n_mine x) of (r, l) \<Rightarrow> (r, x\<lparr>n_mine := l\<rparr>))"

text \<open>The answer of an endpoint, as the HTTP client of the caller sees it.\<close>

definition httpResult :: "int option \<Rightarrow> http_result" where
  "httpResult status = (case status of
      None \<Rightarrow> HttpPending
    | Some n \<Rightarrow> if 200 \<le> n \<and> n < 300 then HttpResponse n else HttpError (Some n))"

definition netBase :: "'l services \<Rightarrow> (string \<Rightarrow> satp_call \<Rightarrow> 'l net world \<Rightarrow> http_result \<times> 'l net world) \<Rightarrow> 'l net env" where
  "netBase V post = \<lparr>
     e_crypto = s_crypto V,
     e_sql = s_sql V,
     e_timezone = s_timezone V,
     e_parseDate = s_parseDate V,
     e_tick = s_tick V,
     e_wait = (\<lambda>d w. w\<lparr>w_now := w_now w + max 0 d\<rparr>),
     e_post = post,
     e_setObjectV1 = (\<lambda>_ _ _ x. (None, x)),
     e_getObjectV1 = (\<lambda>_ _ _. None),
     e_invokeContractV1 = (\<lambda>p i. onLedger (s_invoke V p i)),
     e_runTransactionV1 = (\<lambda>p t. onLedger (s_run V p t)),
     e_getTransactionReceiptByTxIDV1 = (\<lambda>p t. onLedger (s_receipt V p t))\<rparr>"

text \<open>With no fuel left, a request is never answered.\<close>

primrec netEnv :: "'l services \<Rightarrow> nat \<Rightarrow> 'l net env" where
  "netEnv V 0 = netBase V (\<lambda>_ _ w. (HttpPending, w))"
| "netEnv V (Suc n) = netBase V (\<lambda>_ call w.
     (case handleRequest (netEnv V n) '''' 0 call (swap w) of (status, w') \<Rightarrow> (httpResult status, swap w')))"

section \<open>Elementary facts\<close>

lemma swap_swap [simp]: "swap (swap w) = w"
  by (simp add: swap_def)

lemma swap_simps [simp]:
  "w_remote (swap w) = w_remote w" "w_now (swap w) = w_now w" "w_self (swap w) = n_peer (w_ext w)"
  "n_peer (w_ext (swap w)) = w_self w" "n_mine (w_ext (swap w)) = n_theirs (w_ext w)"
  "n_theirs (w_ext (swap w)) = n_mine (w_ext w)"
  by (simp_all add: swap_def)

lemma netEnv_simps [simp]:
  "e_crypto (netEnv V n) = s_crypto V" "e_sql (netEnv V n) = s_sql V" "e_timezone (netEnv V n) = s_timezone V"
  "e_parseDate (netEnv V n) = s_parseDate V" "e_tick (netEnv V n) = s_tick V"
  "e_invokeContractV1 (netEnv V n) = (\<lambda>p i. onLedger (s_invoke V p i))"
  "e_runTransactionV1 (netEnv V n) = (\<lambda>p t. onLedger (s_run V p t))"
  "e_getTransactionReceiptByTxIDV1 (netEnv V n) = (\<lambda>p t. onLedger (s_receipt V p t))"
  by (cases n; simp add: netBase_def)+

lemma hashJson_netEnv: "hashJson (netEnv V n) j = sha256 (s_crypto V) (stringify j)"
  by (simp add: hashJson_def)

lemma post_netEnv: "e_post (netEnv V (Suc n)) b call w =
    (case handleRequest (netEnv V n) '''' 0 call (swap w) of (status, w') \<Rightarrow> (httpResult status, swap w'))"
  by (simp add: netBase_def)

declare netEnv.simps [simp del]

section \<open>Success\<close>

text \<open>A run that returns, in a world where \<open>Q\<close> holds.\<close>

definition succeeds :: "(satp_error, unit) outcome \<times> 'x world \<Rightarrow> ('x world \<Rightarrow> bool) \<Rightarrow> bool" where
  "succeeds r Q \<longleftrightarrow> (\<exists>w'. r = (Returns (), w') \<and> Q w')"

lemma succeedsI: "Q w' \<Longrightarrow> succeeds (Returns (), w') Q"
  by (simp add: succeeds_def)

lemma succeeds_mono: "succeeds r P \<Longrightarrow> (\<And>u. P u \<Longrightarrow> Q u) \<Longrightarrow> succeeds r Q"
  by (auto simp: succeeds_def)

text \<open>A message arrives: the peer's handler runs in the swapped world.\<close>

lemma net_deliver:
  assumes "session w sid = Some sd" "sd_maxTimeout sd \<noteq> None" "sd_maxRetries sd \<noteq> None" "0 < the (sd_maxRetries sd)"
    and "succeeds (dispatch (netEnv V n) '''' 0 call (swap w)) P" "\<And>u. P u \<Longrightarrow> Q (swap u)"
  shows "succeeds (thenA (deliver (netEnv V (Suc n)) sid True b call name m) (ret ()) w) Q"
proof -
  obtain u where u: "dispatch (netEnv V n) '''' 0 call (swap w) = (Returns (), u)" "Q (swap u)"
    using assms(5,6) by (auto simp: succeeds_def)
  have "e_post (netEnv V (Suc n)) b call w = (HttpResponse 200, swap u)"
    by (simp only: post_netEnv handleRequest_dispatch respond_def u prod.case outcome.case httpResult_def) simp
  with assms(1-4) have "deliver (netEnv V (Suc n)) sid True b call name m w = (Returns None, swap u)"
    by (intro deliver_ok) (simp_all add: timeoutsDefined_def)
  with u(2) show ?thesis by (simp add: thenA_run ret_run succeeds_def)
qed

section \<open>Two gateways that know each other\<close>

text \<open>What is fixed of a gateway: its class, its public key, and the ledgers it supports.\<close>

record party =
  p_kind :: ledgerGateway
  p_key :: string
  p_dlts :: "string list"
  p_backups :: "string list"

definition isParty :: "'l services \<Rightarrow> party \<Rightarrow> gateway \<Rightarrow> bool" where
  "isParty V p g \<longleftrightarrow> ledgerKind g = p_kind p \<and> pubKey g = p_key p \<and> supportedDltIDs g = p_dlts p
     \<and> backupGatewaysAllowed g = p_backups p
     \<and> remoteRepository g = Some KnexRemoteLogRepository \<and> keyPair (s_crypto V) (privKey g) (p_key p)"

definition conn :: "'l services \<Rightarrow> party \<Rightarrow> party \<Rightarrow> 'l net world \<Rightarrow> bool" where
  "conn V p q w \<longleftrightarrow> isParty V p (w_self w) \<and> isParty V q (n_peer (w_ext w))"

definition peerSession :: "'l net world \<Rightarrow> string \<Rightarrow> SessionData option" where
  "peerSession w = sessions (n_peer (w_ext w))"

definition ledgerSet :: "'l \<Rightarrow> 'l net world \<Rightarrow> 'l net world" where
  "ledgerSet l w = w\<lparr>w_ext := (w_ext w)\<lparr>n_mine := l\<rparr>\<rparr>"

lemma ledgerSet_simps [simp]:
  "w_self (ledgerSet l w) = w_self w" "w_remote (ledgerSet l w) = w_remote w" "w_now (ledgerSet l w) = w_now w"
  "n_peer (w_ext (ledgerSet l w)) = n_peer (w_ext w)" "n_mine (w_ext (ledgerSet l w)) = l"
  "n_theirs (w_ext (ledgerSet l w)) = n_theirs (w_ext w)" "session (ledgerSet l w) = session w"
  by (simp_all add: ledgerSet_def session_def fun_eq_iff)

lemma session_swap [simp]: "session (swap w) = peerSession w"
  by (rule ext) (simp add: session_def peerSession_def)

lemma peerSession_simps [simp]:
  "peerSession (swap w) = session w" "peerSession (setSession s sd w) = peerSession w"
  "peerSession (ticked E w) = peerSession w" "peerSession (w\<lparr>w_now := i\<rparr>) = peerSession w"
  "peerSession (sessionLogged E s t op' sd w) = peerSession w" "peerSession (proofLogged E s t op' d w) = peerSession w"
  "peerSession (ledgerSet l w) = peerSession w"
  by (simp_all add: peerSession_def session_def fun_eq_iff)

lemma conn_swap [simp]: "conn V p q (swap w) = conn V q p w"
  by (auto simp: conn_def)

lemma isParty_fields: "isParty V p g \<Longrightarrow> ledgerKind g' = ledgerKind g \<Longrightarrow> pubKey g' = pubKey g \<Longrightarrow> privKey g' = privKey g \<Longrightarrow>
    supportedDltIDs g' = supportedDltIDs g \<Longrightarrow> backupGatewaysAllowed g' = backupGatewaysAllowed g \<Longrightarrow>
    remoteRepository g' = remoteRepository g \<Longrightarrow> isParty V p g'"
  by (simp add: isParty_def)

lemma conn_simps [simp]:
  "conn V p q w \<Longrightarrow> conn V p q (setSession s sd w)" "conn V p q w \<Longrightarrow> conn V p q (ticked E w)"
  "conn V p q w \<Longrightarrow> conn V p q (w\<lparr>w_now := t\<rparr>)" "conn V p q w \<Longrightarrow> conn V p q (sessionLogged E s t' op' sd w)"
  "conn V p q w \<Longrightarrow> conn V p q (proofLogged E s t' op' d w)" "conn V p q w \<Longrightarrow> conn V p q (ledgerSet l w)"
  by (auto simp: conn_def intro: isParty_fields)

lemma connD:
  assumes "conn V p q w"
  shows "ledgerKind (w_self w) = p_kind p" "pubKey (w_self w) = p_key p" "supportedDltIDs (w_self w) = p_dlts p"
    "backupGatewaysAllowed (w_self w) = p_backups p"
    "remoteRepository (w_self w) = Some KnexRemoteLogRepository" "keyPair (s_crypto V) (privKey (w_self w)) (p_key p)"
  using assms by (simp_all add: conn_def isParty_def)

section \<open>The log entries of a transfer\<close>

text \<open>Type and operation of every entry, in the order in which the two gateways write them.\<close>

definition transferKeys :: "(string \<times> string) list" where
  "transferKeys = [(''init'', ''validate''), (''exec'', ''validate''), (''done'', ''validate''), (''ack'', ''validate''),
     (''init'', ''commence''), (''exec'', ''commence''), (''done'', ''commence''), (''ack'', ''commence''),
     (''exec'', ''lock-asset''), (''proof'', ''lock''), (''done'', ''lock-asset''),
     (''init'', ''lock''), (''exec'', ''lock''), (''done'', ''lock''), (''ack'', ''lock''),
     (''init'', ''prepare''), (''exec'', ''prepare''), (''done'', ''prepare''), (''ack'', ''prepare''),
     (''exec'', ''delete-asset''), (''proof'', ''delete''), (''done'', ''delete-asset''),
     (''init'', ''final''), (''exec'', ''final''), (''done'', ''final''),
     (''exec'', ''create-asset''), (''proof'', ''create''), (''done'', ''create-asset''), (''ack'', ''final''),
     (''init'', ''complete''), (''exec'', ''complete''), (''done'', ''complete'')]"

definition entryKey :: "string \<Rightarrow> string \<times> string \<Rightarrow> string" where
  "entryKey sid = (\<lambda>(t, op'). getSatpLogKey sid t op')"

definition keyIndex :: "string \<Rightarrow> string \<Rightarrow> nat" where
  "keyIndex t op' = length (takeWhile (\<lambda>k. k \<noteq> (t, op')) transferKeys)"

definition readyAt :: "'l services \<Rightarrow> string \<Rightarrow> 'l net world \<Rightarrow> bool" where
  "readyAt V key w \<longleftrightarrow> logReady (netEnv V 0) key w"

text \<open>Neither gateway has written the entries from the \<open>n\<close>-th on, and both can.\<close>

definition freeFrom :: "'l services \<Rightarrow> string \<Rightarrow> nat \<Rightarrow> 'l net world \<Rightarrow> bool" where
  "freeFrom V sid n w \<longleftrightarrow> (\<forall>k \<in> set (drop n transferKeys). readyAt V (entryKey sid k) w \<and> readyAt V (entryKey sid k) (swap w))"

lemma transferKeys_distinct: "distinct (map (entryKey sid) transferKeys)"
  by (simp add: transferKeys_def entryKey_def)

lemma keyIndex_simps [simp]:
  "keyIndex ''init'' ''validate'' = 0" "keyIndex ''exec'' ''validate'' = 1" "keyIndex ''done'' ''validate'' = 2"
  "keyIndex ''ack'' ''validate'' = 3" "keyIndex ''init'' ''commence'' = 4" "keyIndex ''exec'' ''commence'' = 5"
  "keyIndex ''done'' ''commence'' = 6" "keyIndex ''ack'' ''commence'' = 7" "keyIndex ''exec'' ''lock-asset'' = 8"
  "keyIndex ''proof'' ''lock'' = 9" "keyIndex ''done'' ''lock-asset'' = 10" "keyIndex ''init'' ''lock'' = 11"
  "keyIndex ''exec'' ''lock'' = 12" "keyIndex ''done'' ''lock'' = 13" "keyIndex ''ack'' ''lock'' = 14"
  "keyIndex ''init'' ''prepare'' = 15" "keyIndex ''exec'' ''prepare'' = 16" "keyIndex ''done'' ''prepare'' = 17"
  "keyIndex ''ack'' ''prepare'' = 18" "keyIndex ''exec'' ''delete-asset'' = 19" "keyIndex ''proof'' ''delete'' = 20"
  "keyIndex ''done'' ''delete-asset'' = 21" "keyIndex ''init'' ''final'' = 22" "keyIndex ''exec'' ''final'' = 23"
  "keyIndex ''done'' ''final'' = 24" "keyIndex ''exec'' ''create-asset'' = 25" "keyIndex ''proof'' ''create'' = 26"
  "keyIndex ''done'' ''create-asset'' = 27" "keyIndex ''ack'' ''final'' = 28" "keyIndex ''init'' ''complete'' = 29"
  "keyIndex ''exec'' ''complete'' = 30" "keyIndex ''done'' ''complete'' = 31"
  by (simp_all add: keyIndex_def transferKeys_def)

lemma length_transferKeys [simp]: "length transferKeys = 32"
  by (simp add: transferKeys_def)

lemma nth_keyIndex: "keyIndex t op' < 32 \<Longrightarrow> transferKeys ! keyIndex t op' = (t, op')"
  using nth_length_takeWhile [of "\<lambda>k. k \<noteq> (t, op')" transferKeys] by (simp add: keyIndex_def)

lemma logReady_net [simp]: "logReady (netEnv V n) key w = readyAt V key w"
  by (simp add: readyAt_def logReady_def canSign_def)

lemma readyAt_world [simp]:
  "readyAt V key (setSession s sd w) = readyAt V key w" "readyAt V key (ticked E w) = readyAt V key w"
  "readyAt V key (w\<lparr>w_now := t\<rparr>) = readyAt V key w" "readyAt V key (ledgerSet l w) = readyAt V key w"
  by (simp_all add: readyAt_def logReady_def canSign_def del: logReady_net)

lemma readyAt_swapped [simp]:
  "readyAt V key (swap (setSession s sd w)) = readyAt V key (swap w)" "readyAt V key (swap (ticked E w)) = readyAt V key (swap w)"
  "readyAt V key (swap (w\<lparr>w_now := t\<rparr>)) = readyAt V key (swap w)" "readyAt V key (swap (ledgerSet l w)) = readyAt V key (swap w)"
  by (simp_all add: readyAt_def logReady_def canSign_def del: logReady_net)

lemma readyAt_logged:
  assumes "getSatpLogKey s t op' \<noteq> key"
  shows "readyAt V key w \<Longrightarrow> readyAt V key (sessionLogged (netEnv V n) s t op' sd w)"
    "readyAt V key w \<Longrightarrow> readyAt V key (proofLogged (netEnv V n) s t op' d w)"
    "readyAt V key (swap w) \<Longrightarrow> readyAt V key (swap (sessionLogged (netEnv V n) s t op' sd w))"
    "readyAt V key (swap w) \<Longrightarrow> readyAt V key (swap (proofLogged (netEnv V n) s t op' d w))"
proof -
  show "readyAt V key w \<Longrightarrow> readyAt V key (sessionLogged (netEnv V n) s t op' sd w)"
    "readyAt V key w \<Longrightarrow> readyAt V key (proofLogged (netEnv V n) s t op' d w)"
    using assms logReady_logged [of "netEnv V n" key w s t op'] by simp_all
  show "readyAt V key (swap w) \<Longrightarrow> readyAt V key (swap (sessionLogged (netEnv V n) s t op' sd w))"
    "readyAt V key (swap w) \<Longrightarrow> readyAt V key (swap (proofLogged (netEnv V n) s t op' d w))"
    using assms by (simp_all add: readyAt_def logReady_def canSign_def sessionLogged_def proofLogged_def entryWorld_def
        remoteEntry_def Let_def split: option.splits del: logReady_net)
qed

lemma freeFrom_world [simp]:
  "freeFrom V sid n (setSession s sd w) = freeFrom V sid n w" "freeFrom V sid n (ticked E w) = freeFrom V sid n w"
  "freeFrom V sid n (w\<lparr>w_now := t\<rparr>) = freeFrom V sid n w" "freeFrom V sid n (ledgerSet l w) = freeFrom V sid n w"
  "freeFrom V sid n (swap w) = freeFrom V sid n w"
  by (auto simp: freeFrom_def)

lemma ready_from [simp]: "freeFrom V sid (keyIndex t op') w \<Longrightarrow> keyIndex t op' < 32 \<Longrightarrow> readyAt V (getSatpLogKey sid t op') w"
  using nth_keyIndex [of t op'] Cons_nth_drop_Suc [of "keyIndex t op'" transferKeys]
  by (auto simp: freeFrom_def entryKey_def split: prod.splits) (metis list.set_intros(1) old.prod.case)

lemma key_used_up:
  assumes "keyIndex t op' < m" "k \<in> set (drop m transferKeys)"
  shows "getSatpLogKey sid t op' \<noteq> entryKey sid k"
proof
  assume eq: "getSatpLogKey sid t op' = entryKey sid k"
  obtain j where j: "m \<le> j" "j < 32" "k = transferKeys ! j"
    using assms(2) by (auto simp: in_set_conv_nth) (metis add.commute le_add1 less_diff_conv)
  have i: "transferKeys ! keyIndex t op' = (t, op')" using assms(1) j(1,2) by (intro nth_keyIndex) simp
  have "map (entryKey sid) transferKeys ! keyIndex t op' = map (entryKey sid) transferKeys ! j"
    using eq i j assms(1) by (simp add: entryKey_def)
  with nth_eq_iff_index_eq [OF transferKeys_distinct, of "keyIndex t op'" sid j] j assms(1) show False by simp
qed

lemma freeFrom_logged [simp]:
  assumes "freeFrom V sid (keyIndex t op') w" "keyIndex t op' < m"
  shows "freeFrom V sid m (sessionLogged (netEnv V n) sid t op' sd w)" "freeFrom V sid m (proofLogged (netEnv V n) sid t op' d w)"
  using assms set_drop_subset_set_drop [of "keyIndex t op'" m transferKeys] key_used_up [OF assms(2)]
  by (auto simp: freeFrom_def intro!: readyAt_logged)

lemma sessionLogged_world [simp]:
  "w_now (sessionLogged E s t op' sd w) = w_now w + e_tick E (w_now w)"
  "w_now (proofLogged E s t op' d w) = w_now w + e_tick E (w_now w)" "w_now (ticked E w) = w_now w + e_tick E (w_now w)"
  by (simp_all add: sessionLogged_def proofLogged_def entryWorld_def ticked_def Let_def)

text \<open>The keys of the remote log, in the order of its rows.\<close>

definition remoteKeys :: "'x world \<Rightarrow> string list" where
  "remoteKeys w = map rl_key (rr_rows (w_remote w))"

lemma remoteKeys_simps [simp]:
  "remoteKeys (setSession s sd w) = remoteKeys w" "remoteKeys (ticked E w) = remoteKeys w"
  "remoteKeys (w\<lparr>w_now := i\<rparr>) = remoteKeys w"
  "remoteKeys (sessionLogged E s t op' sd w) = remoteKeys w @ [entryKey s (t, op')]"
  "remoteKeys (proofLogged E s t op' d w) = remoteKeys w @ [entryKey s (t, op')]"
  by (simp_all add: remoteKeys_def sessionLogged_def proofLogged_def entryWorld_def remoteEntry_def entryKey_def Let_def)

lemma remoteKeys_net [simp]: "remoteKeys (ledgerSet l w) = remoteKeys w" "remoteKeys (swap w) = remoteKeys w"
  by (simp_all add: remoteKeys_def)

section \<open>Signatures and claims\<close>

definition sigOf :: "'l services \<Rightarrow> string \<Rightarrow> json \<Rightarrow> string" where
  "sigOf V key j = the (signHex (s_crypto V) key (stringify j))"

lemma sigOf_signs: "keyPair (s_crypto V) sk pk \<Longrightarrow> signHex (s_crypto V) sk (stringify j) = Some (sigOf V sk j)"
  using ecdsa.signs [of "s_crypto V" sk pk j] by (auto simp: sigOf_def)

lemma sigOf_verifies: "keyPair (s_crypto V) sk pk \<Longrightarrow> validSignature (s_crypto V) j (sigOf V sk j) pk"
  using ecdsa.verifies [OF _ sigOf_signs] by (simp add: validSignature_def)

text \<open>The proof of an action is in the remote log, signed by the holder of the key.\<close>

definition claimAt :: "'l services \<Rightarrow> string \<Rightarrow> string \<Rightarrow> string \<Rightarrow> string \<Rightarrow> 'l net world \<Rightarrow> bool" where
  "claimAt V sid op' claim pk w \<longleftrightarrow> rr_open (w_remote w) \<and>
    (\<exists>l. remoteReadById (getSatpLogKey sid ''proof'' op') (w_remote w) = Some l
       \<and> rl_hash l = sha256 (s_crypto V) claim
       \<and> validSignature (s_crypto V) (blankedRemote l) (rl_signature l) (rl_signerPubKey l)
       \<and> validSignature (s_crypto V) (blankedRemote l) (rl_signature l) pk)"

lemma claimLogged_net: "conn V p q w \<Longrightarrow> claimLogged (netEnv V n) w sid op' claim pk = claimAt V sid op' claim pk w"
  by (simp add: claimLogged_knex connD claimAt_def)

lemma remoteReadById_stays:
  "remoteReadById k r = Some l \<Longrightarrow> remoteReadById k (r\<lparr>rr_rows := rr_rows r @ xs\<rparr>) = Some l"
  by (simp add: remoteReadById_def find_append)

lemma claimAt_world [simp]:
  "claimAt V sid op' c pk (setSession s sd w) = claimAt V sid op' c pk w" "claimAt V sid op' c pk (ticked E w) = claimAt V sid op' c pk w"
  "claimAt V sid op' c pk (w\<lparr>w_now := i\<rparr>) = claimAt V sid op' c pk w" "claimAt V sid op' c pk (swap w) = claimAt V sid op' c pk w"
  "claimAt V sid op' c pk (ledgerSet l w) = claimAt V sid op' c pk w"
  by (simp_all add: claimAt_def)

lemma claimAt_logged [simp]:
  "claimAt V sid op' c pk w \<Longrightarrow> claimAt V sid op' c pk (sessionLogged E s t op2 sd w)"
  "claimAt V sid op' c pk w \<Longrightarrow> claimAt V sid op' c pk (proofLogged E s t op2 d w)"
  by (auto simp: claimAt_def sessionLogged_def proofLogged_def entryWorld_def Let_def remoteReadById_stays)

lemma claimAt_proofLogged:
  assumes "conn V p q w" "readyAt V (getSatpLogKey sid ''proof'' op') w"
  shows "claimAt V sid op' c (p_key p) (proofLogged (netEnv V n) sid ''proof'' op' c w)"
proof -
  have r: "rr_open (w_remote w)" "\<forall>l \<in> set (rr_rows (w_remote w)). rl_key l \<noteq> getSatpLogKey sid ''proof'' op'"
    using assms(2) by (simp_all add: readyAt_def logReady_def del: logReady_net)
  let ?e = "remoteEntry (netEnv V n) (w_self w) (getSatpLogKey sid ''proof'' op') (sha256 (s_crypto V) c)"
  have "remoteReadById (getSatpLogKey sid ''proof'' op') ((w_remote w)\<lparr>rr_rows := rr_rows (w_remote w) @ [?e]\<rparr>) = Some ?e"
  proof -
    have "find (\<lambda>l. rl_key l = getSatpLogKey sid ''proof'' op') (rr_rows (w_remote w)) = None"
      using r(2) by (simp add: find_None_iff)
    then show ?thesis by (simp add: remoteReadById_def find_append remoteEntry_def)
  qed
  moreover have "validSignature (s_crypto V) (blankedRemote ?e) (rl_signature ?e) (p_key p)"
    using sigOf_verifies [OF connD(6) [OF assms(1)]] by (simp add: remoteEntry_def blankedRemote_def sigOf_def)
  ultimately show ?thesis
    using r(1) connD(2) [OF assms(1)]
    by (simp add: claimAt_def proofLogged_def entryWorld_def) (simp add: remoteEntry_def)
qed

section \<open>Ledger transactions\<close>

text \<open>A transaction with its receipt, as a step of the ledger with the proof it yields.\<close>

definition fabricTransacts :: "'l services \<Rightarrow> fabricConfig \<Rightarrow> string \<Rightarrow> json list \<Rightarrow> 'l \<Rightarrow> string \<Rightarrow> 'l \<Rightarrow> bool" where
  "fabricTransacts V c methodName params l proof' l' \<longleftrightarrow> (\<exists>path data l1 receipt. fabricApi c = Some path
     \<and> s_run V path \<lparr>ft_signingCredential = fabricSigningCredential c, ft_channelName = fabricChannelName c,
         ft_contractName = fabricContractName c, ft_invocationType = Send, ft_methodName = methodName, ft_params = params\<rparr> l
       = (Some data, l1) \<and> data \<noteq> JNull
     \<and> s_receipt V path \<lparr>ft_signingCredential = fabricSigningCredential c, ft_channelName = fabricChannelName c,
         ft_contractName = Some ''qscc'', ft_invocationType = Call, ft_methodName = ''GetBlockByTxID'',
         ft_params = [optJson (fabricChannelName c), (case jget ''transactionId'' data of None \<Rightarrow> JNull | Some t \<Rightarrow> t)]\<rparr> l1
       = (Some receipt, l')
     \<and> proof' = stringify receipt)"

definition besuTransacts :: "'l services \<Rightarrow> besuConfig \<Rightarrow> string \<Rightarrow> json list \<Rightarrow> 'l \<Rightarrow> string \<Rightarrow> 'l \<Rightarrow> bool" where
  "besuTransacts V c methodName params l proof' l' \<longleftrightarrow> (\<exists>path data out receipt. besuApi c = Some path
     \<and> s_invoke V path \<lparr>bi_contractName = besuContractName c, bi_invocationType = Send, bi_methodName = methodName,
         bi_gas = 1000000, bi_params = params, bi_signingCredential = besuWeb3SigningCredential c,
         bi_keychainId = besuKeychainId c\<rparr> l = (Some (200, data), l')
     \<and> data \<noteq> JNull \<and> jget ''out'' data = Some out \<and> jget ''transactionReceipt'' out = Some receipt
     \<and> proof' = stringify receipt)"

lemma fabricSend_net:
  assumes "fabricTransacts V c methodName params (n_mine (w_ext w)) pf l'"
  shows "bindA (fabricSend (netEnv V n) c methodName params) k w = k pf (ledgerSet l' w)"
  using assms
  by (auto simp: fabricTransacts_def fabricSend_def fabricRun_def fabricReceipt_def propertyA_def onLedger_def ledgerSet_def
      bindA_def ret_def)

lemma besuSend_net:
  assumes "besuTransacts V c methodName params (n_mine (w_ext w)) pf l'"
  shows "bindA (besuSend (netEnv V n) c methodName params) k w = k pf (ledgerSet l' w)"
  using assms
  by (auto simp: besuTransacts_def besuSend_def besuInvoke_def besuReceipt_def propertyA_def onLedger_def ledgerSet_def
      bindA_def thenA_def ensure_def ret_def)

section \<open>The end of a transfer\<close>

text \<open>
  The two ledgers, and the two sessions: both hold the proofs of deletion and creation and the hash
  of the message that completes the transfer.
\<close>

definition transferred :: "string \<Rightarrow> string \<Rightarrow> string \<Rightarrow> 'l \<Rightarrow> 'l \<Rightarrow> 'l net world \<Rightarrow> bool" where
  "transferred sid pD pC l m w \<longleftrightarrow> n_mine (w_ext w) = l \<and> n_theirs (w_ext w) = m
     \<and> (\<exists>a b h. session w sid = Some a \<and> peerSession w sid = Some b
        \<and> sd_commitFinalClaim a = Some pD \<and> sd_commitFinalClaim b = Some pD
        \<and> sd_commitAcknowledgementClaim a = Some pC \<and> sd_commitAcknowledgementClaim b = Some pC
        \<and> sd_transferCompleteMessageHash a = Some h \<and> sd_transferCompleteMessageHash b = Some h)"

text \<open>The entries from the \<open>k\<close>-th on were added to the remote log, in their order.\<close>

definition wrote :: "string \<Rightarrow> nat \<Rightarrow> 'x world \<Rightarrow> 'x world \<Rightarrow> bool" where
  "wrote sid k w w' \<longleftrightarrow> remoteKeys w' = remoteKeys w @ map (entryKey sid) (drop k transferKeys)"

lemma hash_net [simp]: "hashJson (netEnv V n) j = sha256 (s_crypto V) (stringify j)"
  by (rule hashJson_netEnv)

text \<open>The rules that execute a handler in the network.\<close>

lemmas net_runs = Let_def runs ready_runs thenA_verifyA_run checkClaim_run claimLogged_net connD
  sigOf_signs sigOf_verifies timeoutsDefined_def basePathsDefined_def bumpSequence_def

lemma complete_request_accepted:
  assumes "conn V q p w" "freeFrom V sid 30 w" "session w sid = Some b" "peerSession w sid = Some a"
    and "tpq_sessionID m = sid" "tpq_messageType m = satpMessageType TransferCompleteRequest"
    and "sd_step b \<noteq> None" "sd_lastSequenceNumber b = Some s" "tpq_sequenceNumber m = s + 1"
    and "sd_commitFinalResponseMessageHash b = Some (tpq_hashCommitFinalAck m)"
    and "validSignature (s_crypto V) (transferCompleteRequestToJson (m\<lparr>tpq_signature := ''''\<rparr>)) (tpq_signature m) (tpq_clientIdentityPubkey m)"
    and "sd_transferCompleteMessageHash a = Some (sha256 (s_crypto V) (stringify (transferCompleteRequestToJson m)))"
    and "sd_commitFinalClaim a = Some pD" "sd_commitFinalClaim b = Some pD"
    and "sd_commitAcknowledgementClaim a = Some pC" "sd_commitAcknowledgementClaim b = Some pC"
  shows "succeeds (onTransferCompleteRequestReceived (netEnv V n) m w)
    (\<lambda>u. transferred sid pD pC (n_theirs (w_ext w)) (n_mine (w_ext w)) (swap u) \<and> wrote sid 30 w u)"
  using assms
  by (simp add: onTransferCompleteRequestReceived_def checkValidTransferCompleteRequest_def net_runs
      succeeds_def transferred_def wrote_def) (simp add: transferKeys_def)

text \<open>What a session keeps from its beginning: a client \<open>p\<close>, a server \<open>q\<close>, and the two assets.\<close>

definition settled :: "party \<Rightarrow> party \<Rightarrow> string \<Rightarrow> string \<Rightarrow> SessionData \<Rightarrow> bool" where
  "settled p q A B sd \<longleftrightarrow> sd_id sd \<noteq> None \<and> sd_step sd \<noteq> None \<and> sd_maxTimeout sd \<noteq> None \<and> sd_maxRetries sd \<noteq> None
     \<and> 0 < the (sd_maxRetries sd) \<and> sd_sourceBasePath sd \<noteq> None \<and> sd_recipientBasePath sd \<noteq> None
     \<and> sd_sourceGatewayPubkey sd = Some (p_key p) \<and> sd_recipientGatewayPubkey sd = Some (p_key q)
     \<and> sd_sourceLedgerAssetID sd = Some A \<and> sd_recipientLedgerAssetID sd = Some B"

lemma dropKeys:
  "drop (Suc 0) transferKeys = [(''exec'', ''validate''), (''done'', ''validate''), (''ack'', ''validate'')] @ drop 4 transferKeys"
  "drop 4 transferKeys = (''init'', ''commence'') # drop 5 transferKeys"
  "drop 5 transferKeys = [(''exec'', ''commence''), (''done'', ''commence''), (''ack'', ''commence'')] @ drop 8 transferKeys"
  "drop 8 transferKeys = [(''exec'', ''lock-asset''), (''proof'', ''lock''), (''done'', ''lock-asset''), (''init'', ''lock'')] @ drop 12 transferKeys"
  "drop 12 transferKeys = [(''exec'', ''lock''), (''done'', ''lock''), (''ack'', ''lock'')] @ drop 15 transferKeys"
  "drop 15 transferKeys = (''init'', ''prepare'') # drop 16 transferKeys"
  "drop 16 transferKeys = [(''exec'', ''prepare''), (''done'', ''prepare''), (''ack'', ''prepare'')] @ drop 19 transferKeys"
  "drop 19 transferKeys = [(''exec'', ''delete-asset''), (''proof'', ''delete''), (''done'', ''delete-asset''), (''init'', ''final'')] @ drop 23 transferKeys"
  "drop 23 transferKeys = [(''exec'', ''final''), (''done'', ''final''), (''exec'', ''create-asset''), (''proof'', ''create''),
     (''done'', ''create-asset''), (''ack'', ''final'')] @ drop 29 transferKeys"
  "drop 29 transferKeys = (''init'', ''complete'') # drop 30 transferKeys"
  by (simp_all add: transferKeys_def)

lemma final_response_completes:
  assumes c: "conn V p q w" and "freeFrom V sid 29 w" "session w sid = Some a" "peerSession w sid = Some b"
    and "settled p q A B a" "settled p q A B b"
    and "cfr_sessionID m = sid" "cfr_messageType m = satpMessageType CommitFinalResponse"
    and "sd_lastSequenceNumber a = Some (cfr_sequenceNumber m)" "sd_lastSequenceNumber b = Some (cfr_sequenceNumber m)"
    and "cfr_commitAcknowledgementClaim m = Some pC" "claimAt V sid ''create'' pC (p_key q) w"
    and "sd_commitFinalRequestMessageHash a = Some (cfr_hashCommitFinal m)"
    and "cfr_serverIdentityPubkey m = p_key q" "cfr_clientIdentityPubkey m = p_key p"
    and "validSignature (s_crypto V) (commitFinalResponseToJson (m\<lparr>cfr_signature := ''''\<rparr>)) (cfr_signature m) (p_key q)"
    and "sd_transferCommenceMessageRequestHash a \<noteq> None"
    and "sd_commitFinalResponseMessageHash b = Some (sha256 (s_crypto V) (stringify (commitFinalResponseToJson m)))"
    and "sd_commitFinalClaim a = Some pD" "sd_commitFinalClaim b = Some pD" "sd_commitAcknowledgementClaim b = Some pC"
  shows "succeeds (onCommitFinalResponseReceived (netEnv V (Suc n)) m w)
    (\<lambda>u. transferred sid pD pC (n_mine (w_ext w)) (n_theirs (w_ext w)) u \<and> wrote sid 29 w u)"
  using assms connD [OF c]
  apply (simp add: onCommitFinalResponseReceived_def checkValidCommitFinalResponse_def sendTransferCompleteRequest_def
      net_runs claimLogged_net [where p = p and q = q] sigOf_signs [OF connD(6) [OF c]] settled_def)
  apply (rule net_deliver, simp, simp, simp, simp, simp)
   apply (rule complete_request_accepted [where p = p and q = q and b = b and sid = sid and s = "cfr_sequenceNumber m"
       and pD = pD and pC = pC])
  apply (simp add: transferCompleteRequestMessage_def sigOf_verifies [OF connD(6) [OF c]])+
  apply (auto simp: wrote_def dropKeys)
  done

lemma final_request_accepted:
  assumes c: "conn V q p w" and "freeFrom V sid 23 w" "session w sid = Some b" "peerSession w sid = Some a"
    and "settled p q A B a" "settled p q A B b"
    and "cfq_sessionID m = sid" "cfq_messageType m = satpMessageType CommitFinalRequest"
    and "sd_lastSequenceNumber b = Some s" "cfq_sequenceNumber m = s + 1" "sd_lastSequenceNumber a = Some (s + 1)"
    and "cfq_commitFinalClaim m = Some pD" "claimAt V sid ''delete'' pD (p_key p) w"
    and "cfq_serverIdentityPubkey m = p_key q" "cfq_clientIdentityPubkey m = p_key p"
    and "sd_commitPrepareResponseMessageHash b = Some (cfq_hashCommitPrepareAck m)"
    and "validSignature (s_crypto V) (commitFinalRequestToJson (m\<lparr>cfq_signature := ''''\<rparr>)) (cfq_signature m) (p_key p)"
    and "sd_commitFinalRequestMessageHash a = Some (sha256 (s_crypto V) (stringify (commitFinalRequestToJson m)))"
    and "sd_commitFinalClaim a = Some pD" "sd_transferCommenceMessageRequestHash a \<noteq> None"
    and "p_kind q = BesuSatpGateway cB" "besuTransacts V cB ''createAsset'' [JStr B, JNum 100] (n_mine (w_ext w)) pC m1"
  shows "succeeds (onCommitFinalRequestReceived (netEnv V (Suc (Suc n))) m w)
    (\<lambda>u. transferred sid pD pC (n_theirs (w_ext w)) m1 (swap u) \<and> wrote sid 23 w u)"
  using assms connD [OF c]
  apply (simp add: onCommitFinalRequestReceived_def checkValidCommitFinalRequest_def createAsset_def kindA_def besuCreateAsset_def
      sendCommitFinalResponse_def net_runs claimLogged_net [where p = q and q = p] sigOf_signs [OF connD(6) [OF c]] settled_def
      orElse_def optJson_def besuSend_net [where pf = pC and l' = m1])
  apply (rule net_deliver, simp, simp, simp, simp, simp)
   apply (rule final_response_completes [where p = p and q = q and a = a and sid = sid and A = A and B = B
       and pD = pD and pC = pC])
  apply (simp add: commitFinalResponseMessage_def settled_def claimAt_proofLogged [where p = q and q = p] sigOf_verifies [OF connD(6) [OF c]])+
  apply (auto simp: wrote_def dropKeys)
  done

lemma prepare_response_completes:
  assumes c: "conn V p q w" and "freeFrom V sid 19 w" "session w sid = Some a" "peerSession w sid = Some b"
    and "settled p q A B a" "settled p q A B b"
    and "cpr_sessionID m = sid" "cpr_messageType m = satpMessageType CommitPreparationResponse"
    and "sd_lastSequenceNumber a = Some (cpr_sequenceNumber m)" "sd_lastSequenceNumber b = Some (cpr_sequenceNumber m)"
    and "sd_commitPrepareRequestMessageHash a = Some (cpr_hashCommitPrep m)"
    and "cpr_serverIdentityPubkey m = p_key q" "cpr_clientIdentityPubkey m = p_key p"
    and "validSignature (s_crypto V) (commitPreparationResponseToJson (m\<lparr>cpr_signature := ''''\<rparr>)) (cpr_signature m) (p_key q)"
    and "sd_transferCommenceMessageRequestHash a \<noteq> None"
    and "sd_commitPrepareResponseMessageHash b = Some (sha256 (s_crypto V) (stringify (commitPreparationResponseToJson m)))"
    and "p_kind p = FabricSatpGateway cF" "fabricTransacts V cF ''DeleteAsset'' [JStr A] (n_mine (w_ext w)) pD l2"
    and "p_kind q = BesuSatpGateway cB" "besuTransacts V cB ''createAsset'' [JStr B, JNum 100] (n_theirs (w_ext w)) pC m1"
  shows "succeeds (onCommitPrepareResponseReceived (netEnv V (Suc (Suc (Suc n)))) m w)
    (\<lambda>u. transferred sid pD pC l2 m1 u \<and> wrote sid 19 w u)"
  using assms connD [OF c]
  apply (simp add: onCommitPrepareResponseReceived_def checkValidCommitPreparationResponse_def deleteAsset_def kindA_def
      fabricDeleteAsset_def sendCommitFinalRequest_def net_runs sigOf_signs [OF connD(6) [OF c]] settled_def
      orElse_def optJson_def fabricSend_net [where pf = pD and l' = l2])
  apply (rule net_deliver, simp, simp, simp, simp, simp)
   apply (rule final_request_accepted [where p = p and q = q and b = b and sid = sid and A = A and B = B
       and s = "cpr_sequenceNumber m" and pD = pD and pC = pC and cB = cB and ?m1.0 = m1])
  apply (simp add: commitFinalRequestMessage_def settled_def claimAt_proofLogged [where p = p and q = q] sigOf_verifies [OF connD(6) [OF c]])+
  apply (auto simp: wrote_def dropKeys)
  done

lemma prepare_request_accepted:
  assumes c: "conn V q p w" and "freeFrom V sid 16 w" "session w sid = Some b" "peerSession w sid = Some a"
    and "settled p q A B a" "settled p q A B b"
    and "cpq_sessionID m = sid" "cpq_messageType m = satpMessageType CommitPreparationRequest"
    and "sd_lastSequenceNumber b = Some s" "cpq_sequenceNumber m = s + 1" "sd_lastSequenceNumber a = Some (s + 1)"
    and "cpq_serverIdentityPubkey m = p_key q" "cpq_clientIdentityPubkey m = p_key p"
    and "sd_lockEvidenceResponseMessageHash b = Some (cpq_hashLockEvidenceAck m)"
    and "validSignature (s_crypto V) (commitPreparationRequestToJson (m\<lparr>cpq_signature := ''''\<rparr>)) (cpq_signature m) (p_key p)"
    and "sd_commitPrepareRequestMessageHash a = Some (sha256 (s_crypto V) (stringify (commitPreparationRequestToJson m)))"
    and "sd_transferCommenceMessageRequestHash a \<noteq> None"
    and "p_kind p = FabricSatpGateway cF" "fabricTransacts V cF ''DeleteAsset'' [JStr A] (n_theirs (w_ext w)) pD l2"
    and "p_kind q = BesuSatpGateway cB" "besuTransacts V cB ''createAsset'' [JStr B, JNum 100] (n_mine (w_ext w)) pC m1"
  shows "succeeds (onCommitPrepareRequestReceived (netEnv V (Suc (Suc (Suc (Suc n))))) m w)
    (\<lambda>u. transferred sid pD pC l2 m1 (swap u) \<and> wrote sid 16 w u)"
  using assms connD [OF c]
  apply (simp add: onCommitPrepareRequestReceived_def checkValidCommitPreparationRequest_def
      sendCommitPreparationResponse_def net_runs sigOf_signs [OF connD(6) [OF c]] settled_def)
  apply (rule net_deliver, simp, simp, simp, simp, simp)
   apply (rule prepare_response_completes [where p = p and q = q and a = a and sid = sid and A = A and B = B
       and pD = pD and pC = pC and cF = cF and cB = cB and ?m1.0 = m1 and ?l2.0 = l2])
  apply (simp add: commitPreparationResponseMessage_def settled_def sigOf_verifies [OF connD(6) [OF c]])+
  apply (auto simp: wrote_def dropKeys)
  done

lemma lock_response_completes:
  assumes c: "conn V p q w" and "freeFrom V sid 15 w" "session w sid = Some a" "peerSession w sid = Some b"
    and "settled p q A B a" "settled p q A B b"
    and "ler_sessionID m = sid" "ler_messageType m = satpMessageType LockEvidenceResponse"
    and "sd_lastSequenceNumber a = Some (ler_sequenceNumber m)" "sd_lastSequenceNumber b = Some (ler_sequenceNumber m)"
    and "sd_lockEvidenceRequestMessageHash a = Some (ler_hashLockEvidenceRequest m)"
    and "ler_serverIdentityPubkey m = p_key q" "ler_clientIdentityPubkey m = p_key p"
    and "validSignature (s_crypto V) (lockEvidenceResponseToJson (m\<lparr>ler_signature := ''''\<rparr>)) (ler_signature m) (p_key q)"
    and "sd_transferCommenceMessageRequestHash a \<noteq> None"
    and "sd_lockEvidenceResponseMessageHash b = Some (sha256 (s_crypto V) (stringify (lockEvidenceResponseToJson m)))"
    and "p_kind p = FabricSatpGateway cF" "fabricTransacts V cF ''DeleteAsset'' [JStr A] (n_mine (w_ext w)) pD l2"
    and "p_kind q = BesuSatpGateway cB" "besuTransacts V cB ''createAsset'' [JStr B, JNum 100] (n_theirs (w_ext w)) pC m1"
  shows "succeeds (onLockEvidenceResponseReceived (netEnv V (Suc (Suc (Suc (Suc (Suc n)))))) m w)
    (\<lambda>u. transferred sid pD pC l2 m1 u \<and> wrote sid 15 w u)"
  using assms connD [OF c]
  apply (simp add: onLockEvidenceResponseReceived_def checkValidLockEvidenceResponse_def
      sendCommitPreparationRequest_def net_runs sigOf_signs [OF connD(6) [OF c]] settled_def)
  apply (rule net_deliver, simp, simp, simp, simp, simp)
   apply (rule prepare_request_accepted [where p = p and q = q and b = b and sid = sid and A = A and B = B
       and s = "ler_sequenceNumber m" and pD = pD and pC = pC and cF = cF and cB = cB and ?m1.0 = m1 and ?l2.0 = l2])
  apply (simp add: commitPrepareRequestMessage_def settled_def sigOf_verifies [OF connD(6) [OF c]])+
  apply (auto simp: wrote_def dropKeys)
  done

lemma lock_request_accepted:
  assumes c: "conn V q p w" and "freeFrom V sid 12 w" "session w sid = Some b" "peerSession w sid = Some a"
    and "settled p q A B a" "settled p q A B b"
    and "leq_sessionID m = sid" "leq_messageType m = satpMessageType LockEvidenceRequest"
    and "sd_lastSequenceNumber b = Some s" "leq_sequenceNumber m = s + 1" "sd_lastSequenceNumber a = Some (s + 1)"
    and "leq_serverIdentityPubkey m = p_key q" "leq_clientIdentityPubkey m = p_key p"
    and "sd_transferCommenceMessageResponseHash b = Some (leq_hashCommenceAckRequest m)"
    and "leq_lockEvidenceClaim m = Some pL" "claimAt V sid ''lock'' pL (p_key p) w"
    and "s_parseDate V (leq_lockEvidenceExpiration m) = None"
    and "validSignature (s_crypto V) (lockEvidenceRequestToJson (m\<lparr>leq_signature := ''''\<rparr>)) (leq_signature m) (p_key p)"
    and "sd_lockEvidenceRequestMessageHash a = Some (sha256 (s_crypto V) (stringify (lockEvidenceRequestToJson m)))"
    and "sd_transferCommenceMessageRequestHash a \<noteq> None"
    and "p_kind p = FabricSatpGateway cF" "fabricTransacts V cF ''DeleteAsset'' [JStr A] (n_theirs (w_ext w)) pD l2"
    and "p_kind q = BesuSatpGateway cB" "besuTransacts V cB ''createAsset'' [JStr B, JNum 100] (n_mine (w_ext w)) pC m1"
  shows "succeeds (onLockEvidenceRequestReceived (netEnv V (Suc (Suc (Suc (Suc (Suc (Suc n))))))) m w)
    (\<lambda>u. transferred sid pD pC l2 m1 (swap u) \<and> wrote sid 12 w u)"
  using assms connD [OF c]
  apply (simp add: onLockEvidenceRequestReceived_def checkValidLockEvidenceRequest_def
      sendLockEvidenceResponse_def net_runs claimLogged_net [where p = q and q = p] sigOf_signs [OF connD(6) [OF c]] settled_def)
  apply (rule net_deliver, simp, simp, simp, simp, simp)
   apply (rule lock_response_completes [where p = p and q = q and a = a and sid = sid and A = A and B = B
       and pD = pD and pC = pC and cF = cF and cB = cB and ?m1.0 = m1 and ?l2.0 = l2])
  apply (simp add: lockEvidenceResponseMessage_def settled_def sigOf_verifies [OF connD(6) [OF c]])+
  apply (auto simp: wrote_def dropKeys)
  done

text \<open>
  The expiration of a lock is printed in digits; a text of digits as long as the current time in
  milliseconds is no date for \<open>Date.parse\<close>.
\<close>

definition digitsAreNoDate :: "'l services \<Rightarrow> int \<Rightarrow> bool" where
  "digitsAreNoDate V t \<longleftrightarrow> (\<forall>t0 t1. t \<le> t0 \<longrightarrow> t \<le> t1 \<longrightarrow>
     s_parseDate V (intToString (setDate (s_timezone V) t0 (getDate (s_timezone V) t1 + 1))) = None)"

definition clockForward :: "'l services \<Rightarrow> bool" where
  "clockForward V \<longleftrightarrow> (\<forall>t. 0 \<le> s_tick V t)"

lemma clock_later [simp]: "clockForward V \<Longrightarrow> t \<le> t' \<Longrightarrow> t \<le> t' + s_tick V x"
  by (simp add: clockForward_def add_increasing2)

lemma dayFromNow_net: "bindA (dayFromNow (netEnv V n)) k w =
    k (intToString (setDate (s_timezone V) (w_now w) (getDate (s_timezone V) (w_now w + s_tick V (w_now w)) + 1)))
      (ticked (netEnv V n) (ticked (netEnv V n) w))"
  by (simp add: dayFromNow_def runs) (simp add: ticked_def)

lemma commence_response_completes:
  assumes c: "conn V p q w" and "freeFrom V sid 8 w" "session w sid = Some a" "peerSession w sid = Some b"
    and "settled p q A B a" "settled p q A B b"
    and "tcr_sessionID m = sid" "tcr_messageType m = satpMessageType TransferCommenceResponse"
    and "sd_lastSequenceNumber a = Some (tcr_sequenceNumber m)" "sd_lastSequenceNumber b = Some (tcr_sequenceNumber m)"
    and "sd_transferCommenceMessageRequestHash a = Some (tcr_hashCommenceRequest m)"
    and "tcr_serverIdentityPubkey m = p_key q" "tcr_clientIdentityPubkey m = p_key p"
    and "validSignature (s_crypto V) (transferCommenceResponseToJson (m\<lparr>tcr_signature := ''''\<rparr>)) (tcr_signature m) (p_key q)"
    and "sd_transferCommenceMessageResponseHash b = Some (sha256 (s_crypto V) (stringify (transferCommenceResponseToJson m)))"
    and "clockForward V" "digitsAreNoDate V t" "t \<le> w_now w"
    and "p_kind p = FabricSatpGateway cF" "fabricTransacts V cF ''LockAsset'' [JStr A] (n_mine (w_ext w)) pL l1"
    and "fabricTransacts V cF ''DeleteAsset'' [JStr A] l1 pD l2"
    and "p_kind q = BesuSatpGateway cB" "besuTransacts V cB ''createAsset'' [JStr B, JNum 100] (n_theirs (w_ext w)) pC m1"
  shows "succeeds (onTransferCommenceResponseReceived (netEnv V (Suc (Suc (Suc (Suc (Suc (Suc (Suc n)))))))) m w)
    (\<lambda>u. transferred sid pD pC l2 m1 u \<and> wrote sid 8 w u)"
  using assms connD [OF c]
  apply (simp add: onTransferCommenceResponseReceived_def checkValidTransferCommenceResponse_def lockAsset_def kindA_def
      fabricLockAsset_def sendLockEvidenceRequest_def net_runs dayFromNow_net sigOf_signs [OF connD(6) [OF c]] settled_def
      orElse_def optJson_def fabricSend_net [where pf = pL and l' = l1])
  apply (rule net_deliver, simp, simp, simp, simp, simp)
   apply (rule lock_request_accepted [where p = p and q = q and b = b and sid = sid and A = A and B = B and pL = pL
       and s = "tcr_sequenceNumber m" and pD = pD and pC = pC and cF = cF and cB = cB and ?m1.0 = m1 and ?l2.0 = l2])
  apply (simp add: lockEvidenceRequestMessage_def settled_def digitsAreNoDate_def claimAt_proofLogged [where p = p and q = q]
      sigOf_verifies [OF connD(6) [OF c]])+
  apply (auto simp: wrote_def dropKeys)
  done

lemma commence_request_accepted:
  assumes c: "conn V q p w" and "freeFrom V sid 5 w" "session w sid = Some b" "peerSession w sid = Some a"
    and "settled p q A B a" "settled p q A B b"
    and "tcq_sessionID m = sid" "tcq_messageType m = satpMessageType TransferCommenceRequest"
    and "sd_lastSequenceNumber b = Some s" "tcq_sequenceNumber m = s + 1" "sd_lastSequenceNumber a = Some (s + 1)"
    and "tcq_serverIdentityPubkey m = p_key q" "tcq_clientIdentityPubkey m = p_key p"
    and "sd_initializationResponseMessageHash b = Some (tcq_hashPrevMessage m)"
    and "sd_assetProfile b = Some profile" "tcq_hashAssetProfile m = sha256 (s_crypto V) (stringify (assetProfileToJson profile))"
    and "validSignature (s_crypto V) (transferCommenceRequestToJson (m\<lparr>tcq_signature := ''''\<rparr>)) (tcq_signature m) (p_key p)"
    and "sd_transferCommenceMessageRequestHash a = Some (sha256 (s_crypto V) (stringify (transferCommenceRequestToJson m)))"
    and "clockForward V" "digitsAreNoDate V t" "t \<le> w_now w"
    and "p_kind p = FabricSatpGateway cF" "fabricTransacts V cF ''LockAsset'' [JStr A] (n_theirs (w_ext w)) pL l1"
    and "fabricTransacts V cF ''DeleteAsset'' [JStr A] l1 pD l2"
    and "p_kind q = BesuSatpGateway cB" "besuTransacts V cB ''createAsset'' [JStr B, JNum 100] (n_mine (w_ext w)) pC m1"
  shows "succeeds (onTransferCommenceRequestReceived (netEnv V (Suc (Suc (Suc (Suc (Suc (Suc (Suc (Suc n))))))))) m w)
    (\<lambda>u. transferred sid pD pC l2 m1 (swap u) \<and> wrote sid 5 w u)"
  using assms connD [OF c]
  apply (simp add: onTransferCommenceRequestReceived_def checkValidtransferCommenceRequest_def assetProfileHash_def
      sendTransferCommenceResponse_def net_runs sigOf_signs [OF connD(6) [OF c]] settled_def)
  apply (rule net_deliver, simp, simp, simp, simp, simp)
   apply (rule commence_response_completes [where p = p and q = q and a = a and sid = sid and A = A and B = B and pL = pL
       and pD = pD and pC = pC and cF = cF and cB = cB and ?m1.0 = m1 and ?l1.0 = l1 and ?l2.0 = l2 and t = t])
  apply (simp add: transferCommenceResponse_def settled_def sigOf_verifies [OF connD(6) [OF c]])+
  apply (auto simp: wrote_def dropKeys)
  done

lemma init_response_completes:
  assumes c: "conn V p q w" and "freeFrom V sid 4 w" "session w sid = Some a" "peerSession w sid = Some b"
    and "settled p q A B a" "settled p q A B b"
    and "tir_sessionID m = sid" "tir_messageType m = satpMessageType InitializationResponse"
    and "sd_lastSequenceNumber a = Some (tir_sequenceNumber m)" "sd_lastSequenceNumber b = Some (tir_sequenceNumber m)"
    and "sd_initializationRequestMessageHash a = Some (tir_initialRequestMessageHash m)"
    and "tir_serverIdentityPubkey m = p_key q"
    and "validSignature (s_crypto V) (transferInitializationResponseToJson (m\<lparr>tir_signature := ''''\<rparr>)) (tir_signature m) (p_key q)"
    and "sd_initializationResponseMessageHash b = Some (sha256 (s_crypto V) (stringify (transferInitializationResponseToJson m)))"
    and "sd_assetProfile a = Some profile" "sd_assetProfile b = Some profile"
    and "sd_sourceGatewayDltSystem a \<noteq> None" "sd_recipientGatewayDltSystem a \<noteq> None"
    and "clockForward V" "digitsAreNoDate V t" "t \<le> w_now w"
    and "p_kind p = FabricSatpGateway cF" "fabricTransacts V cF ''LockAsset'' [JStr A] (n_mine (w_ext w)) pL l1"
    and "fabricTransacts V cF ''DeleteAsset'' [JStr A] l1 pD l2"
    and "p_kind q = BesuSatpGateway cB" "besuTransacts V cB ''createAsset'' [JStr B, JNum 100] (n_theirs (w_ext w)) pC m1"
  shows "succeeds (onTransferInitiationResponseReceived (netEnv V (Suc (Suc (Suc (Suc (Suc (Suc (Suc (Suc (Suc n)))))))))) m w)
    (\<lambda>u. transferred sid pD pC l2 m1 u \<and> wrote sid 4 w u)"
  using assms connD [OF c]
  apply (simp add: onTransferInitiationResponseReceived_def checkValidInitializationResponse_def
      sendTransferCommenceRequest_def net_runs sigOf_signs [OF connD(6) [OF c]] settled_def)
  apply (rule net_deliver, simp, simp, simp, simp, simp)
   apply (rule commence_request_accepted [where p = p and q = q and b = b and sid = sid and A = A and B = B and pL = pL
       and s = "tir_sequenceNumber m" and profile = profile
       and pD = pD and pC = pC and cF = cF and cB = cB and ?m1.0 = m1 and ?l1.0 = l1 and ?l2.0 = l2 and t = t])
  apply (simp add: transferCommenceRequestMessage_def settled_def sigOf_verifies [OF connD(6) [OF c]])+
  apply (auto simp: wrote_def dropKeys)
  done

text \<open>The asset has not expired at the \<open>k\<close>-th reading of the clock from \<open>t\<close> on.\<close>

definition clock :: "'l services \<Rightarrow> int \<Rightarrow> int" where
  "clock V t = t + s_tick V t"

definition notExpired :: "'l services \<Rightarrow> PayloadProfile \<Rightarrow> int \<Rightarrow> bool" where
  "notExpired V profile now \<longleftrightarrow> (case s_parseDate V (ap_expirationDate (pp_assetProfile profile)) of
     None \<Rightarrow> True | Some expiry \<Rightarrow> now < expiry)"

lemma init_request_accepted:
  assumes c: "conn V q p w" and "freeFrom V sid 1 w" "peerSession w sid = Some a" "settled p q A B a"
    and "tiq_sessionID m = sid" "tiq_messageType m = satpMessageType InitializationRequest"
    and "sd_lastSequenceNumber a = Some (tiq_sequenceNumber m)"
    and "tiq_sourceGatewayPubkey m = p_key p" "tiq_recipientGatewayPubkey m = p_key q"
    and "validSignature (s_crypto V) (transferInitializationRequestToJson (m\<lparr>tiq_signature := ''''\<rparr>)) (tiq_signature m) (p_key p)"
    and "tiq_sourceGatewayDltSystem m \<in> set (p_dlts q)" "notExpired V (tiq_payloadProfile m) (clock V (clock V (w_now w)))"
    and "0 < tiq_maxRetries m" "tiq_sourceLedgerAssetID m = A" "tiq_recipientLedgerAssetID m = B"
    and "sd_initializationRequestMessageHash a = Some (sha256 (s_crypto V) (stringify (transferInitializationRequestToJson m)))"
    and "sd_assetProfile a = Some (pp_assetProfile (tiq_payloadProfile m))"
    and "sd_sourceGatewayDltSystem a \<noteq> None" "sd_recipientGatewayDltSystem a \<noteq> None"
    and "clockForward V" "digitsAreNoDate V t" "t \<le> w_now w"
    and "p_kind p = FabricSatpGateway cF" "fabricTransacts V cF ''LockAsset'' [JStr A] (n_theirs (w_ext w)) pL l1"
    and "fabricTransacts V cF ''DeleteAsset'' [JStr A] l1 pD l2"
    and "p_kind q = BesuSatpGateway cB" "besuTransacts V cB ''createAsset'' [JStr B, JNum 100] (n_mine (w_ext w)) pC m1"
  shows "succeeds (onTransferInitiationRequestReceived (netEnv V (Suc (Suc (Suc (Suc (Suc (Suc (Suc (Suc (Suc (Suc n))))))))))) m w)
    (\<lambda>u. transferred sid pD pC l2 m1 (swap u) \<and> wrote sid 1 w u)"
  using assms connD [OF c]
  apply (simp add: onTransferInitiationRequestReceived_def checkValidInitializationRequest_def notExpired_def [symmetric] clock_def
      openedSession_def acceptedSession_def sendTransferInitializationResponse_def net_runs sigOf_signs [OF connD(6) [OF c]] settled_def)
  apply (rule net_deliver, simp, simp, simp, simp, simp)
   apply (rule init_response_completes [where p = p and q = q and a = a and sid = sid and A = A and B = B and pL = pL
       and profile = "pp_assetProfile (tiq_payloadProfile m)"
       and pD = pD and pC = pC and cF = cF and cB = cB and ?m1.0 = m1 and ?l1.0 = l1 and ?l2.0 = l2 and t = t])
  apply (simp add: transferInitializationResponse_def connD [OF c] settled_def sigOf_verifies [OF connD(6) [OF c]])+
  apply (auto simp: wrote_def dropKeys)
  done

text \<open>A client request that fits the two gateways.\<close>

definition fits :: "'l services \<Rightarrow> party \<Rightarrow> party \<Rightarrow> int \<Rightarrow> ClientV1Request \<Rightarrow> bool" where
  "fits V p q now request \<longleftrightarrow> crq_recipientGatewayPubkey request = p_key q
     \<and> crq_recipientGatewayDltSystem request \<in> set (p_dlts p) \<and> crq_sourceGatewayDltSystem request \<in> set (p_dlts q)
     \<and> 0 < crq_maxRetries request \<and> notExpired V (crq_payloadProfile request) ((clock V ^^ 4) now)"

lemma runSatp_completes:
  assumes c: "conn V p q w" and "freeFrom V sid 0 w" "fits V p q (w_now w) request"
    and "clockForward V" "digitsAreNoDate V t" "t \<le> w_now w"
    and "p_kind p = FabricSatpGateway cF"
    and "fabricTransacts V cF ''LockAsset'' [JStr (crq_sourceLedgerAssetID request)] (n_mine (w_ext w)) pL l1"
    and "fabricTransacts V cF ''DeleteAsset'' [JStr (crq_sourceLedgerAssetID request)] l1 pD l2"
    and "p_kind q = BesuSatpGateway cB"
    and "besuTransacts V cB ''createAsset'' [JStr (crq_recipientLedgerAssetID request), JNum 100] (n_theirs (w_ext w)) pC m1"
  shows "succeeds (runSatp (netEnv V (Suc (Suc (Suc (Suc (Suc (Suc (Suc (Suc (Suc (Suc (Suc n)))))))))))) sid rnd request w)
    (\<lambda>u. transferred sid pD pC l2 m1 u \<and> wrote sid 0 w u)"
  using assms connD [OF c]
  apply (simp add: runSatp_def configureOdapSession_def configuredSession_def fits_def eval_nat_numeral
      sendTransferInitializationRequest_def net_runs sigOf_signs [OF connD(6) [OF c]])
  apply (rule net_deliver, simp, simp, simp, simp, simp)
   apply (rule init_request_accepted [where p = p and q = q and sid = sid and A = "crq_sourceLedgerAssetID request"
       and B = "crq_recipientLedgerAssetID request" and pL = pL
       and pD = pD and pC = pC and cF = cF and cB = cB and ?m1.0 = m1 and ?l1.0 = l1 and ?l2.0 = l2 and t = t])
  apply (simp add: initializationRequestMessage_def connD [OF c] settled_def clock_def sigOf_verifies [OF connD(6) [OF c]])+
  apply (auto simp: wrote_def transferKeys_def)
  done

end
