(* ===== verification/Network_Properties.thy ===== *)
theory Network_Properties
  imports Network
begin

text \<open>
  What two connected gateways do together: an undisturbed transfer completes, and the handling of
  one session leaves every other session of both alone. The examples run a pair of gateways in
  front of ledgers that record their transactions.
\<close>

section \<open>Transfers complete\<close>

text \<open>
  C1. A transfer completes. Two gateways, a Fabric source and a Besu recipient, whose key pairs
  sign, whose logs are open and which are connected to each other, have not used the session's log
  keys. The client request names the recipient's key and ledgers both sides support, allows a retry,
  and its asset has not expired; the clock does not go back. If the two ledgers accept the lock, the
  deletion and the creation, the request is answered with 200 after eleven nested messages. Then the
  source ledger has locked and deleted the asset, the recipient ledger has created it, both sessions
  hold both proofs and the hash of the completion, and the remote log has grown by the 32 entries of
  the protocol in their order.
\<close>

theorem transfer_completes:
  assumes "conn V p q w" "freeFrom V sid 0 w" "fits V p q (w_now w) request"
    and "clockForward V" "digitsAreNoDate V (w_now w)" "11 \<le> n"
    and "p_kind p = FabricSatpGateway cF"
    and "fabricTransacts V cF ''LockAsset'' [JStr (crq_sourceLedgerAssetID request)] (n_mine (w_ext w)) pL l1"
    and "fabricTransacts V cF ''DeleteAsset'' [JStr (crq_sourceLedgerAssetID request)] l1 pD l2"
    and "p_kind q = BesuSatpGateway cB"
    and "besuTransacts V cB ''createAsset'' [JStr (crq_recipientLedgerAssetID request), JNum 100] (n_theirs (w_ext w)) pC m1"
  shows "\<exists>w'. handleRequest (netEnv V n) sid rnd (ClientRequest request) w = (Some 200, w')
    \<and> transferred sid pD pC l2 m1 w'
    \<and> remoteKeys w' = remoteKeys w @ map (entryKey sid) transferKeys"
proof -
  obtain k where n: "n = 11 + k" using assms(6) le_iff_add by blast
  have "succeeds (runSatp (netEnv V (11 + k)) sid rnd request w) (\<lambda>u. transferred sid pD pC l2 m1 u \<and> wrote sid 0 w u)"
    using runSatp_completes [OF assms(1-5) order_refl assms(7-11), of k rnd] by (simp add: eval_nat_numeral)
  then show ?thesis by (auto simp: n succeeds_def endpoint_defs respond_def wrote_def)
qed

section \<open>A pair of gateways\<close>

text \<open>Ledgers that record the methods of their transactions.\<close>

definition recordingServices :: "string list services" where
  "recordingServices = \<lparr>s_crypto = demoCrypto,
     s_sql = \<lparr>pickRow = hd, groupOrder = (\<lambda>xs. xs), delWithoutTable = (\<lambda>_ _. None)\<rparr>,
     s_timezone = \<lparr>localTZA = (\<lambda>_ _. 0), tzName = (\<lambda>_. '' (UTC)'')\<rparr>,
     s_parseDate = (\<lambda>_. None), s_tick = (\<lambda>_. 1),
     s_invoke = (\<lambda>_ i l. (Some (200, demoReceipt), l @ [bi_methodName i])),
     s_run = (\<lambda>_ t l. (Some (JObj [(''transactionId'', JStr ''tx'')]), l @ [ft_methodName t])),
     s_receipt = (\<lambda>_ _ l. (Some (JStr ''block''), l))\<rparr>"

definition demoParty :: "string \<Rightarrow> ledgerGateway \<Rightarrow> party" where
  "demoParty key kind = \<lparr>p_kind = kind, p_key = key, p_dlts = [''DLT1'', ''DLT2''], p_backups = []\<rparr>"

definition pairWorld :: "string list net world" where
  "pairWorld = \<lparr>w_self = demoGateway ''aa'' (FabricSatpGateway demoFabric), w_remote = \<lparr>rr_open = True, rr_rows = []\<rparr>, w_now = 0,
     w_ext = \<lparr>n_peer = demoGateway ''bb'' (BesuSatpGateway demoBesu), n_mine = [], n_theirs = []\<rparr>\<rparr>"

definition demoProfile :: AssetProfile where
  "demoProfile = \<lparr>ap_issuer = None, ap_assetCode = None, ap_assetCodeType = None, ap_issuanceDate = None,
     ap_expirationDate = ''never'', ap_verificationEndPoint = None, ap_digitalSignature = None, ap_prospectusLink = None,
     ap_keyInformationLink = None, ap_keyWord = None, ap_transferRestriction = None, ap_ledgerRequirements = None\<rparr>"

definition demoRequest :: ClientV1Request where
  "demoRequest = \<lparr>crq_version = ''0.0.0'', crq_loggingProfile = ''log'', crq_accessControlProfile = ''acl'',
     crq_assetControlProfile = ''asset'', crq_applicationProfile = ''app'', crq_assetProfile = demoProfile,
     crq_payloadProfile = \<lparr>pp_assetProfile = demoProfile, pp_capabilities = None\<rparr>, crq_sourceGatewayDltSystem = ''DLT2'',
     crq_recipientGatewayDltSystem = ''DLT1'', crq_recipientGatewayPubkey = ''bb'', crq_originatorPubkey = ''o'',
     crq_beneficiaryPubkey = ''b'', crq_clientIdentityPubkey = '''', crq_serverIdentityPubkey = '''',
     crq_clientDltSystem = ''DLT2'', crq_serverDltSystem = ''DLT1'', crq_clientGatewayConfiguration_apiHost = ''client'',
     crq_serverGatewayConfiguration_apiHost = ''server'', crq_maxRetries = 5, crq_maxTimeout = 5000,
     crq_sourceLedgerAssetID = ''A'', crq_recipientLedgerAssetID = ''B''\<rparr>"

lemma pairWorld_conn:
  "conn recordingServices (demoParty ''aa'' (FabricSatpGateway demoFabric)) (demoParty ''bb'' (BesuSatpGateway demoBesu)) pairWorld"
  by (simp add: conn_def isParty_def pairWorld_def demoParty_def demoGateway_def recordingServices_def)

lemma pairWorld_free: "freeFrom recordingServices sid 0 pairWorld"
  by (simp add: freeFrom_def readyAt_def logReady_def canSign_def pairWorld_def demoGateway_def recordingServices_def
      del: logReady_net)

lemma demo_clock: "clockForward recordingServices" "digitsAreNoDate recordingServices t"
  by (simp_all add: clockForward_def digitsAreNoDate_def recordingServices_def)

lemma demo_ledgers:
  "fabricTransacts recordingServices demoFabric ''LockAsset'' ps l (stringify (JStr ''block'')) (l @ [''LockAsset''])"
  "fabricTransacts recordingServices demoFabric ''DeleteAsset'' ps l (stringify (JStr ''block'')) (l @ [''DeleteAsset''])"
  "besuTransacts recordingServices demoBesu ''createAsset'' ps l (stringify (JStr ''receipt'')) (l @ [''createAsset''])"
  by (simp_all add: fabricTransacts_def besuTransacts_def recordingServices_def demoFabric_def demoBesu_def demoReceipt_def jget_def)

lemma demo_fits:
  "fits recordingServices (demoParty ''aa'' (FabricSatpGateway demoFabric)) (demoParty ''bb'' (BesuSatpGateway demoBesu)) t demoRequest"
  by (simp add: fits_def demoParty_def demoRequest_def notExpired_def recordingServices_def)

theorem transfer_completes_witness:
  "\<exists>w'. handleRequest (netEnv recordingServices 11) ''s'' 7 (ClientRequest demoRequest) pairWorld = (Some 200, w')
    \<and> n_mine (w_ext w') = [''LockAsset'', ''DeleteAsset''] \<and> n_theirs (w_ext w') = [''createAsset'']
    \<and> length (remoteKeys w') = 32"
proof -
  have "remoteKeys pairWorld = []" "n_mine (w_ext pairWorld) = []" "n_theirs (w_ext pairWorld) = []"
    by (simp_all add: remoteKeys_def pairWorld_def)
  then show ?thesis
    using transfer_completes [OF pairWorld_conn pairWorld_free demo_fits demo_clock order_refl _ demo_ledgers(1,2) _ demo_ledgers(3),
        of "''s''" 7]
    by (auto simp: demoParty_def transferred_def)
qed

section \<open>Sessions are isolated\<close>

text \<open>
  What one call may change on the two gateways: the entry of its session in either session map, and
  rows of its session at the end of either local log.
\<close>

definition onlySession :: "string \<Rightarrow> 'l net world \<Rightarrow> 'l net world \<Rightarrow> bool" where
  "onlySession sid w w' \<longleftrightarrow> otherSessionsSame sid w w' \<and> otherSessionsSame sid (swap w) (swap w')
     \<and> logsGrow (ownRow sid) w w' \<and> logsGrow (ownRow sid) (swap w) (swap w')"

lemma onlySession_swap: "onlySession sid (swap w) (swap w') = onlySession sid w w'"
  by (auto simp: onlySession_def)

lemma swap_parts [simp]:
  "localRows (swap (w\<lparr>w_self := g\<rparr>)) = localRows (swap w)" "localRows (swap (w\<lparr>w_now := t\<rparr>)) = localRows (swap w)"
  "localRows (swap (w\<lparr>w_remote := rr\<rparr>)) = localRows (swap w)" "peerSession (w\<lparr>w_self := g\<rparr>) = peerSession w"
  "peerSession (w\<lparr>w_remote := rr\<rparr>) = peerSession w"
  by (simp_all add: localRows_def peerSession_def)

interpretation pair: gateway_frame "onlySession sid" sid for sid
proof unfold_locales
  fix w :: "'l net world" and r r' l rl rr'
  show "onlySession sid w (w\<lparr>w_self := (w_self w)\<lparr>localRepository := Some r'\<rparr>\<rparr>)"
    if "localRepository (w_self w) = Some r" "create l r = Some r'" "ownRow sid l"
    using that by (simp add: onlySession_def otherSessionsSame_def session_def logsGrow_create)
      (simp add: logsGrow_def)
  show "onlySession sid w (w\<lparr>w_remote := rr'\<rparr>)" if "remoteCreate rl (w_remote w) = Some rr'"
    using that
    by (auto simp: onlySession_def otherSessionsSame_def session_def logsGrow_def localRows_def remoteCreate_def
        split: if_splits)
qed (auto simp: onlySession_def otherSessionsSame_def setSession_def session_def logsGrow_same
    intro: logsGrow_refl logsGrow_trans)

lemma onlySession_ledger: "onlySession sid w (w\<lparr>w_ext := snd (onLedger f (w_ext w))\<rparr>)"
  by (simp add: onlySession_def otherSessionsSame_def session_def peerSession_def onLedger_def logsGrow_def localRows_def
      split: prod.split)

lemma onlySession_clock: "onlySession sid w (w\<lparr>w_now := t\<rparr>)"
  by (simp add: onlySession_def otherSessionsSame_def session_def logsGrow_def localRows_def)

text \<open>Each level of nested calls hands the session on.\<close>

lemma netEnv_pair: "sessionEnv (onlySession sid) (plainCalls sid) sid (netEnv V n)"
proof (induction n)
  case 0
  show ?case by (simp add: sessionEnv_def netEnv.simps netBase_def onlySession_ledger onlySession_clock pair.stays)
next
  case (Suc n)
  have "onlySession sid w (snd (e_post (netEnv V (Suc n)) b c w))" if "c \<in> plainCalls sid" for b c w
  proof -
    obtain status u where u: "handleRequest (netEnv V n) '''' 0 c (swap w) = (status, u)" by fastforce
    with pair.handleRequest_follows [OF Suc] that have "onlySession sid (swap w) u" by (auto simp: in_plainCalls)
    then have "onlySession sid w (swap u)" using onlySession_swap [of sid w "swap u"] by simp
    then show ?thesis by (simp add: post_netEnv u)
  qed
  then show ?case
    by (simp add: sessionEnv_def netEnv.simps netBase_def onlySession_ledger onlySession_clock pair.stays)
qed

text \<open>
  C6. Session isolation: on two gateways connected to each other, a call of the HTTP interface and
  all the calls it leads to, to any depth, leave every other session of both gateways as it was, and
  what they add to either local log belongs to the session of the call, whatever the call
  contains, however it ends and whatever the ledgers answer. The four messages of the recovery
  protocol are excepted: they adopt logs whose data may name another session.
\<close>

theorem sessions_isolated:
  assumes "handleRequest (netEnv V n) uuid rnd call w = (status, w')" "\<not> recoveryCall call" "s \<noteq> callSession uuid call"
  shows "session w' s = session w s \<and> peerSession w' s = peerSession w s
    \<and> (\<exists>mine theirs. localRows w' = localRows w @ mine \<and> localRows (swap w') = localRows (swap w) @ theirs
        \<and> list_all (\<lambda>l. ll_sessionID l = callSession uuid call) (mine @ theirs))"
proof -
  have "onlySession (callSession uuid call) w w'"
    using pair.handleRequest_follows [OF netEnv_pair refl _ assms(1)] assms(2) by blast
  with assms(3) show ?thesis
    by (fastforce simp: onlySession_def otherSessionsSame_def logsGrow_def ownRow_def list_all_iff)
qed

lemma demo_transfer_with:
  "\<exists>w'. handleRequest (netEnv recordingServices 11) ''s'' 7 (ClientRequest demoRequest)
      (setSession ''b'' emptySession pairWorld) = (Some 200, w') \<and> session w' ''s'' \<noteq> None"
proof -
  let ?w = "setSession ''b'' emptySession pairWorld"
  have "freeFrom recordingServices ''s'' 0 ?w" using pairWorld_free by (simp add: freeFrom_def)
  from runSatp_completes [OF conn_simps(1) [OF pairWorld_conn] this demo_fits demo_clock order_refl _ demo_ledgers(1,2) _
      demo_ledgers(3), of 0 7]
  show ?thesis by (auto simp: demoParty_def succeeds_def transferred_def endpoint_defs respond_def eval_nat_numeral)
qed

theorem sessions_isolated_witness:
  "\<exists>w'. handleRequest (netEnv recordingServices 11) ''s'' 7 (ClientRequest demoRequest)
      (setSession ''b'' emptySession pairWorld) = (Some 200, w')
    \<and> session w' ''b'' = Some emptySession \<and> session w' ''s'' \<noteq> None"
proof -
  let ?w = "setSession ''b'' emptySession pairWorld"
  obtain w' where "handleRequest (netEnv recordingServices 11) ''s'' 7 (ClientRequest demoRequest) ?w = (Some 200, w')"
    "session w' ''s'' \<noteq> None"
    using demo_transfer_with by blast
  with sessions_isolated [OF this(1), of "''b''"] show ?thesis by auto
qed

end
