(* ===== verification/JS_Map.thy ===== *)
theory JS_Map
  imports Main
begin

text \<open>
  The JavaScript \<open>Map\<close>: an association list in insertion order. Setting a key that is present
  changes its value in place, a new key goes to the end, and a deleted key that is set again goes
  to the end as well. The laws the clients rely on are an interface, with the lemmas on the usual
  ways to fill a map proved from it.
\<close>

section \<open>Operations\<close>

type_synonym ('k, 'v) jsmap = "('k \<times> 'v) list"

fun mapSet :: "'k \<Rightarrow> 'v \<Rightarrow> ('k, 'v) jsmap \<Rightarrow> ('k, 'v) jsmap" where
  "mapSet k v [] = [(k, v)]"
| "mapSet k v (e # es) = (if fst e = k then (k, v) # es else e # mapSet k v es)"

definition mapDelete :: "'k \<Rightarrow> ('k, 'v) jsmap \<Rightarrow> ('k, 'v) jsmap" where
  "mapDelete k m = filter (\<lambda>e. fst e \<noteq> k) m"

definition mapKeys :: "('k, 'v) jsmap \<Rightarrow> 'k list" where
  "mapKeys m = map fst m"

definition mapValues :: "('k, 'v) jsmap \<Rightarrow> 'v list" where
  "mapValues m = map snd m"

text \<open>Every key once.\<close>

definition wfMap :: "('k, 'v) jsmap \<Rightarrow> bool" where
  "wfMap m \<longleftrightarrow> distinct (map fst m)"

section \<open>The contract of a dictionary\<close>

locale dictionary =
  fixes lookup :: "'m \<Rightarrow> 'k \<Rightarrow> 'v option"
    and update :: "'k \<Rightarrow> 'v \<Rightarrow> 'm \<Rightarrow> 'm"
    and delete :: "'k \<Rightarrow> 'm \<Rightarrow> 'm"
    and empty :: 'm
    and invar :: "'m \<Rightarrow> bool"
  assumes invar_empty: "invar empty"
    and invar_update: "invar m \<Longrightarrow> invar (update k v m)"
    and invar_delete: "invar m \<Longrightarrow> invar (delete k m)"
    and lookup_empty: "lookup empty k = None"
    and lookup_update: "lookup (update k v m) l = (if l = k then Some v else lookup m l)"
    and lookup_delete: "lookup (delete k m) l = (if l = k then None else lookup m l)"
begin

lemma lookup_update_same: "lookup (update k v m) k = Some v"
  by (simp add: lookup_update)

lemma lookup_update_other: "l \<noteq> k \<Longrightarrow> lookup (update k v m) l = lookup m l"
  by (simp add: lookup_update)

text \<open>Filling a map without overwriting: the first entry of a key stays.\<close>

lemma first_entry_stays:
  "lookup (foldl (\<lambda>m (k, v). if lookup m k = None then update k v m else m) m es) l
    = (case lookup m l of Some v \<Rightarrow> Some v | None \<Rightarrow> map_of es l)"
proof (induction es arbitrary: m)
  case (Cons e es)
  obtain k v where e: "e = (k, v)" by (cases e)
  show ?case
  proof (cases "lookup m k")
    case None
    then show ?thesis using Cons.IH by (auto simp: e lookup_update split: option.split)
  next
    case (Some v')
    then show ?thesis using Cons.IH by (auto simp: e split: option.split)
  qed
qed (simp split: option.split)

text \<open>Filling a map with overwriting: the last entry of a key stays.\<close>

lemma last_entry_stays:
  "lookup (foldl (\<lambda>m (k, v). update k v m) m es) l
    = (case map_of (rev es) l of Some v \<Rightarrow> Some v | None \<Rightarrow> lookup m l)"
  by (induction es arbitrary: m) (auto simp: lookup_update map_add_def split: option.split)

lemma invar_filled: "invar m \<Longrightarrow> invar (foldl (\<lambda>m (k, v). update k v m) m es)"
  by (induction es arbitrary: m) (auto intro: invar_update)

end

section \<open>The map keeps the contract\<close>

lemma mapSet_keys: "fst ` set (mapSet k v m) = insert k (fst ` set m)"
  by (induction k v m rule: mapSet.induct) auto

lemma map_of_mapSet: "map_of (mapSet k v m) l = (if l = k then Some v else map_of m l)"
  by (induction k v m rule: mapSet.induct) auto

lemma map_of_mapDelete: "map_of (mapDelete k m) l = (if l = k then None else map_of m l)"
  by (induction m) (auto simp: mapDelete_def)

lemma wfMap_mapSet: "wfMap m \<Longrightarrow> wfMap (mapSet k v m)"
proof (induction k v m rule: mapSet.induct)
  case (2 k v e es)
  then show ?case using mapSet_keys [of k v es] by (auto simp: wfMap_def)
qed (simp add: wfMap_def)

lemma wfMap_mapDelete: "wfMap m \<Longrightarrow> wfMap (mapDelete k m)"
  by (auto simp: wfMap_def mapDelete_def distinct_map intro: inj_on_subset)

interpretation jsmap: dictionary map_of mapSet mapDelete "[]" wfMap
proof unfold_locales
  show "wfMap []" by (simp add: wfMap_def)
qed (simp_all add: map_of_mapSet map_of_mapDelete wfMap_mapSet wfMap_mapDelete)

text \<open>A new key goes to the end.\<close>

lemma mapSet_new: "map_of m k = None \<Longrightarrow> mapSet k v m = m @ [(k, v)]"
  by (induction k v m rule: mapSet.induct) (auto split: if_splits)

lemma mapKeys_mapSet: "mapKeys (mapSet k v m) = (if k \<in> set (mapKeys m) then mapKeys m else mapKeys m @ [k])"
  by (induction k v m rule: mapSet.induct) (auto simp: mapKeys_def)

lemma mapDelete_new [simp]: "map_of m k = None \<Longrightarrow> mapDelete k m = m"
  by (induction m) (auto simp: mapDelete_def split: if_splits)

end
