(* ===== verification/JS_Array.thy ===== *)
theory JS_Array
  imports Main "HOL-Library.Sublist"
begin

text \<open>
  Arrays that are changed while \<open>forEach\<close> runs over them. The pruning of a state and the removal of
  plugins from the registry both call \<open>splice(i, 1)\<close> for the element at hand: the next element
  moves to its index and is passed over. The effect of such a loop is a structural recursion, whose
  properties are proved here for both clients.
\<close>

section \<open>Removal by index\<close>

text \<open>\<open>array.splice(i, 1)\<close>\<close>

definition spliceAt :: "nat \<Rightarrow> 'a list \<Rightarrow> 'a list" where
  "spliceAt i xs = take i xs @ drop (Suc i) xs"

lemma spliceAt_middle: "length pre = i \<Longrightarrow> spliceAt i (pre @ x # xs) = pre @ xs"
  by (auto simp: spliceAt_def)

text \<open>
  \<open>xs.forEach((x, i) => { if (out(x)) { xs.splice(i, 1); count++; } })\<close>: the number of rounds is fixed
  before the first one, and an index beyond the end of the array is skipped.
\<close>

primrec spliceLoop :: "('a \<Rightarrow> bool) \<Rightarrow> nat \<Rightarrow> nat \<Rightarrow> 'a list \<times> nat \<Rightarrow> 'a list \<times> nat" where
  "spliceLoop out 0 i s = s"
| "spliceLoop out (Suc n) i s = (case s of (xs, d) \<Rightarrow>
     if i < length xs \<and> out (xs ! i) then spliceLoop out n (Suc i) (spliceAt i xs, Suc d)
     else spliceLoop out n (Suc i) (xs, d))"

section \<open>The recursion behind the loop\<close>

fun skipOut :: "('a \<Rightarrow> bool) \<Rightarrow> 'a list \<Rightarrow> 'a list" where
  "skipOut out [] = []"
| "skipOut out [x] = (if out x then [] else [x])"
| "skipOut out (x # y # ys) = (if out x then y # skipOut out ys else x # skipOut out (y # ys))"

fun twoInARow :: "('a \<Rightarrow> bool) \<Rightarrow> 'a list \<Rightarrow> bool" where
  "twoInARow out (x # y # ys) = (out x \<and> out y \<or> twoInARow out (y # ys))"
| "twoInARow out _ = False"

lemma skipOut_subseq: "subseq (skipOut out xs) xs"
  by (induction out xs rule: skipOut.induct) auto

lemma skipOut_set: "set (skipOut out xs) \<subseteq> set xs"
  by (induction out xs rule: skipOut.induct) auto

lemma skipOut_keeps_inside: "filter (\<lambda>x. \<not> out x) (skipOut out xs) = filter (\<lambda>x. \<not> out x) xs"
  by (induction out xs rule: skipOut.induct) auto

lemma skipOut_leaves_half: "2 * length (filter out (skipOut out xs)) \<le> length (filter out xs)"
  by (induction out xs rule: skipOut.induct) auto

lemma skipOut_all_inside: "\<forall>x \<in> set xs. \<not> out x \<Longrightarrow> skipOut out xs = xs"
  by (induction out xs rule: skipOut.induct) auto

lemma skipOut_map: "skipOut out (map f xs) = map f (skipOut (out \<circ> f) xs)"
  by (induction "out \<circ> f" xs rule: skipOut.induct) auto

lemma twoInARow_map: "twoInARow out (map f xs) = twoInARow (out \<circ> f) xs"
  by (induction "out \<circ> f" xs rule: twoInARow.induct) auto

lemma twoInARow_filter: "filter out xs = [] \<Longrightarrow> \<not> twoInARow out xs"
  by (induction out xs rule: twoInARow.induct) (auto split: if_splits)

text \<open>The recursion is the filter exactly when no two elements in a row are to be removed.\<close>

lemma skipOut_exact: "skipOut out xs = filter (\<lambda>x. \<not> out x) xs \<longleftrightarrow> \<not> twoInARow out xs"
proof (induction out xs rule: skipOut.induct)
  case (3 out x y ys)
  have tail: "twoInARow out (y # ys) \<longleftrightarrow> twoInARow out ys" if "\<not> out y"
    using that by (cases ys) auto
  have "z # zs \<noteq> filter (\<lambda>x. \<not> out x) vs" if "out z" for z zs vs
    using that by (metis (mono_tags, lifting) filter_eq_Cons_iff)
  then show ?case using 3 tail by auto
qed auto

text \<open>Repeating the recursion removes everything, and each round halves what is left.\<close>

lemma skipOut_twice_leaves_quarter:
  "4 * length (filter out (skipOut out (skipOut out xs))) \<le> length (filter out xs)"
  using skipOut_leaves_half [of out xs] skipOut_leaves_half [of out "skipOut out xs"] by linarith

section \<open>The loop is the recursion\<close>

lemma spliceLoop_past_end: "length xs \<le> i \<Longrightarrow> spliceLoop out n i (xs, d) = (xs, d)"
  by (induction n arbitrary: i) simp_all

lemma skipOut_length: "length (skipOut out xs) \<le> length xs"
  by (induction out xs rule: skipOut.induct) auto

lemma spliceLoop_skips:
  assumes "length xs \<le> n" "i = length pre"
  shows "spliceLoop out n i (pre @ xs, d) = (pre @ skipOut out xs, d + (length xs - length (skipOut out xs)))"
  using assms
proof (induction out xs arbitrary: n i pre d rule: skipOut.induct)
  case (1 out)
  then show ?case by (simp add: spliceLoop_past_end)
next
  case (2 out x)
  then obtain m where "n = Suc m" by (cases n) auto
  with 2 show ?case by (auto simp: nth_append spliceAt_middle spliceLoop_past_end)
next
  case (3 out x y ys)
  then obtain m where n: "n = Suc m" by (cases n) auto
  show ?case
  proof (cases "out x")
    case True
    have "spliceLoop out m (Suc i) ((pre @ [y]) @ ys, Suc d) = ((pre @ [y]) @ skipOut out ys, Suc d + (length ys - length (skipOut out ys)))"
      using 3 n True by (intro 3(1)) auto
    with True n 3(4) skipOut_length [of out ys] show ?thesis by (simp add: nth_append spliceAt_middle)
  next
    case False
    have "spliceLoop out m (Suc i) ((pre @ [x]) @ y # ys, d)
        = ((pre @ [x]) @ skipOut out (y # ys), d + (length (y # ys) - length (skipOut out (y # ys))))"
      using 3 n False by (intro 3(2)) auto
    with False n 3(4) show ?thesis by (simp add: nth_append)
  qed
qed

end
