(* ===== verification/JS_Values.thy ===== *)
theory JS_Values
  imports Signer JS_Map JS_Array JS_Buffer
begin

text \<open>
  JavaScript values as the view plugin handles them. A view travels as JSON text and is rebuilt
  from whatever \<open>JSON.parse\<close> returns, without a check of the types: a property of a rebuilt
  object is any JSON value or \<open>undefined\<close>. This theory has the operations the plugin applies to
  such values (property access, truthiness, \<open>BigInt\<close>, \<open>Number\<close>, iteration, \<open>JSON.parse\<close>,
  \<open>Buffer.from\<close>) and the results they give, thrown errors included.

  As elsewhere in the development numbers are integers: \<open>Number\<close> reads the integer literals of
  the language, and a text with a fraction or an exponent, which is no unix timestamp, counts as
  no number.
\<close>

section \<open>Results\<close>

text \<open>
  \<open>LibraryError\<close> is an exception of a cryptographic library, \<open>RequestError\<close> a request that the HTTP
  client rejects, \<open>InvalidResponse\<close> an answer of a ledger node that its library rejects. An HTTP error carries its status code and whether its text may be shown.
\<close>

datatype jsError =
    TypeError
  | SyntaxError
  | LibraryError
  | RequestError
  | InvalidResponse
  | HttpError int bool
  | ErrorMsg string

type_synonym 'a result = "jsError + 'a"

definition bindR :: "'a result \<Rightarrow> ('a \<Rightarrow> 'b result) \<Rightarrow> 'b result" where
  "bindR r k = (case r of Inl e \<Rightarrow> Inl e | Inr a \<Rightarrow> k a)"

text \<open>\<open>for (const x of xs) ys.push(f(x))\<close>: the first throw ends the loop.\<close>

primrec mapR :: "('a \<Rightarrow> 'b result) \<Rightarrow> 'a list \<Rightarrow> 'b list result" where
  "mapR f [] = Inr []"
| "mapR f (x # xs) = bindR (f x) (\<lambda>y. bindR (mapR f xs) (\<lambda>ys. Inr (y # ys)))"

primrec foldR :: "('s \<Rightarrow> 'a \<Rightarrow> 's result) \<Rightarrow> 's \<Rightarrow> 'a list \<Rightarrow> 's result" where
  "foldR f s [] = Inr s"
| "foldR f s (x # xs) = bindR (f s x) (\<lambda>s'. foldR f s' xs)"

lemma bindR_simps [simp]: "bindR (Inl e) k = Inl e" "bindR (Inr a) k = k a"
  by (simp_all add: bindR_def)

lemma bindR_Inr: "bindR r k = Inr b \<longleftrightarrow> (\<exists>a. r = Inr a \<and> k a = Inr b)"
  by (cases r) simp_all

lemma bindR_assoc: "bindR (bindR r k) l = bindR r (\<lambda>x. bindR (k x) l)"
  by (cases r) simp_all

lemma mapR_Inr: "(\<And>x. x \<in> set xs \<Longrightarrow> f x = Inr (g x)) \<Longrightarrow> mapR f xs = Inr (map g xs)"
  by (induction xs) simp_all

lemma mapR_cong [fundef_cong]:
  "xs = ys \<Longrightarrow> (\<And>x. x \<in> set ys \<Longrightarrow> f x = g x) \<Longrightarrow> mapR f xs = mapR g ys"
proof (induction xs arbitrary: ys)
  case (Cons x xs)
  then show ?case by (cases ys) simp_all
qed simp

lemma mapR_map: "mapR f (map g xs) = mapR (f \<circ> g) xs"
  by (induction xs) simp_all

lemma mapR_length: "mapR f xs = Inr ys \<Longrightarrow> length ys = length xs"
  by (induction xs arbitrary: ys) (auto simp: bindR_Inr)

lemma mapR_nth: "mapR f xs = Inr ys \<Longrightarrow> i < length xs \<Longrightarrow> f (xs ! i) = Inr (ys ! i)"
proof (induction xs arbitrary: ys i)
  case (Cons x xs)
  then show ?case by (cases i) (auto simp: bindR_Inr)
qed simp

lemma foldR_append: "foldR f s (xs @ ys) = bindR (foldR f s xs) (\<lambda>s'. foldR f s' ys)"
  by (induction xs arbitrary: s) (simp_all add: bindR_assoc)

text \<open>An invariant of the body is an invariant of the loop.\<close>

lemma foldR_invariant:
  assumes "foldR f s xs = Inr t" "P s" "\<And>u x v. x \<in> set xs \<Longrightarrow> P u \<Longrightarrow> f u x = Inr v \<Longrightarrow> P v"
  shows "P t"
  using assms
proof (induction xs arbitrary: s)
  case (Cons x xs)
  from Cons.prems(1) obtain u where u: "f s x = Inr u" "foldR f u xs = Inr t" by (auto simp: bindR_Inr)
  have "P u" using Cons.prems(2) u(1) by (intro Cons.prems(3) [of x s u]) simp_all
  then show ?case using Cons.prems(3) by (intro Cons.IH [OF u(2)]) auto
qed simp

text \<open>A loop whose body never throws while an invariant holds does not throw.\<close>

lemma foldR_runs:
  assumes "P s" "\<And>u x. x \<in> set xs \<Longrightarrow> P u \<Longrightarrow> \<exists>v. f u x = Inr v \<and> P v"
  shows "\<exists>t. foldR f s xs = Inr t \<and> P t"
  using assms
proof (induction xs arbitrary: s)
  case (Cons x xs)
  obtain v where "f s x = Inr v" "P v" using Cons.prems(2) [of x s] Cons.prems(1) by auto
  then show ?case using Cons.IH [of v] Cons.prems(2) by auto
qed simp

section \<open>Values\<close>

text \<open>\<open>None\<close> is \<open>undefined\<close>.\<close>

type_synonym jsv = "json option"

text \<open>\<open>v.k\<close>. None of the property names the plugin reads is a method of a built-in prototype.\<close>

definition jprop :: "string \<Rightarrow> jsv \<Rightarrow> jsv result" where
  "jprop k v = (case v of
      None \<Rightarrow> Inl TypeError
    | Some JNull \<Rightarrow> Inl TypeError
    | Some (JObj fs) \<Rightarrow> Inr (map_of fs k)
    | Some _ \<Rightarrow> Inr None)"

definition truthy :: "jsv \<Rightarrow> bool" where
  "truthy v = (case v of
      None \<Rightarrow> False
    | Some j \<Rightarrow> (case j of JNull \<Rightarrow> False | JBool b \<Rightarrow> b | JNum n \<Rightarrow> n \<noteq> 0 | JStr s \<Rightarrow> s \<noteq> [] | _ \<Rightarrow> True))"

text \<open>\<open>v == undefined\<close>\<close>

definition isNullish :: "jsv \<Rightarrow> bool" where
  "isNullish v \<longleftrightarrow> v = None \<or> v = Some JNull"

text \<open>\<open>String(v)\<close>; an array joins its elements with commas and prints \<open>null\<close> as nothing.\<close>

fun jsText :: "json \<Rightarrow> string"
  and joinTexts :: "json list \<Rightarrow> string" where
  "jsText JNull = ''null''"
| "jsText (JBool b) = (if b then ''true'' else ''false'')"
| "jsText (JNum i) = intToString i"
| "jsText (JStr s) = s"
| "jsText (JArr xs) = joinTexts xs"
| "jsText (JObj fs) = ''[object Object]''"
| "joinTexts [] = []"
| "joinTexts [x] = (if x = JNull then [] else jsText x)"
| "joinTexts (x # y # xs) = (if x = JNull then [] else jsText x) @ CHR '','' # joinTexts (y # xs)"

text \<open>
  The integer a text denotes: white space around it is ignored, no text at all is zero, a sign may
  stand before decimal digits, and \<open>0x\<close>, \<open>0o\<close>, \<open>0b\<close> select another radix.
\<close>

definition trimSpaces :: "string \<Rightarrow> string" where
  "trimSpaces s = rev (dropWhile isSpace (rev (dropWhile isSpace s)))"

definition radixVal :: "nat \<Rightarrow> string \<Rightarrow> int option" where
  "radixVal b s = (if s \<noteq> [] \<and> (\<forall>c \<in> set s. \<exists>v \<in> set_option (hexDigitVal c). v < b)
     then Some (foldl (\<lambda>acc c. int b * acc + int (the (hexDigitVal c))) 0 s) else None)"

definition decimalVal :: "string \<Rightarrow> int option" where
  "decimalVal s = (if s \<noteq> [] \<and> (\<forall>c \<in> set s. isDigit c) then Some (int (digitsVal 0 s)) else None)"

definition stringToBigInt :: "string \<Rightarrow> int option" where
  "stringToBigInt s = (let t = trimSpaces s; p = take 2 t in
     if t = [] then Some 0
     else if p = ''0x'' \<or> p = ''0X'' then radixVal 16 (drop 2 t)
     else if p = ''0o'' \<or> p = ''0O'' then radixVal 8 (drop 2 t)
     else if p = ''0b'' \<or> p = ''0B'' then radixVal 2 (drop 2 t)
     else if hd t = CHR ''-'' then map_option uminus (decimalVal (tl t))
     else if hd t = CHR ''+'' then decimalVal (tl t)
     else decimalVal t)"

definition bigInt :: "jsv \<Rightarrow> int result" where
  "bigInt v = (case v of
      None \<Rightarrow> Inl TypeError
    | Some j \<Rightarrow> (case j of
        JNull \<Rightarrow> Inl TypeError
      | JBool b \<Rightarrow> Inr (if b then 1 else 0)
      | JNum n \<Rightarrow> Inr n
      | _ \<Rightarrow> (case stringToBigInt (jsText j) of None \<Rightarrow> Inl SyntaxError | Some n \<Rightarrow> Inr n)))"

text \<open>\<open>Number(v)\<close>; \<open>None\<close> is \<open>NaN\<close>.\<close>

definition jsNumber :: "jsv \<Rightarrow> int option" where
  "jsNumber v = (case v of
      None \<Rightarrow> None
    | Some j \<Rightarrow> (case j of
        JNull \<Rightarrow> Some 0
      | JBool b \<Rightarrow> Some (if b then 1 else 0)
      | JNum n \<Rightarrow> Some n
      | _ \<Rightarrow> stringToBigInt (jsText j)))"

text \<open>\<open>for (const x of v)\<close> and \<open>v.forEach\<close>\<close>

definition iterate :: "jsv \<Rightarrow> json list result" where
  "iterate v = (case v of
      Some (JArr xs) \<Rightarrow> Inr xs
    | Some (JStr s) \<Rightarrow> Inr (map (\<lambda>c. JStr [c]) s)
    | _ \<Rightarrow> Inl TypeError)"

definition elementsOf :: "jsv \<Rightarrow> json list result" where
  "elementsOf v = (case v of Some (JArr xs) \<Rightarrow> Inr xs | _ \<Rightarrow> Inl TypeError)"

text \<open>\<open>JSON.parse(v)\<close>\<close>

definition parseJ :: "jsv \<Rightarrow> json result" where
  "parseJ v = (case v of
      None \<Rightarrow> Inl SyntaxError
    | Some j \<Rightarrow> (case parse (jsText j) of None \<Rightarrow> Inl SyntaxError | Some r \<Rightarrow> Inr r))"

text \<open>
  \<open>new Uint8Array(Buffer.from(v, "hex"))\<close>: a text is read as hexadecimal, the numbers of an array
  are taken as bytes, anything else is refused.
\<close>

definition bufferFromHex :: "jsv \<Rightarrow> byte list result" where
  "bufferFromHex v = (case v of
      Some (JStr s) \<Rightarrow> Inr (hexToBytes s)
    | Some (JArr xs) \<Rightarrow> Inr (map (\<lambda>x. word_of_int (case jsNumber (Some x) of None \<Rightarrow> 0 | Some n \<Rightarrow> n)) xs)
    | _ \<Rightarrow> Inl TypeError)"

section \<open>Reading back what was printed\<close>

lemma trimSpaces_digits: "\<forall>c \<in> set s. \<not> isSpace c \<Longrightarrow> trimSpaces s = s"
proof -
  assume s: "\<forall>c \<in> set s. \<not> isSpace c"
  then have "dropWhile isSpace s = s" "dropWhile isSpace (rev s) = rev s"
    by (auto simp: dropWhile_eq_self_iff hd_in_set) (metis hd_in_set rev_is_Nil_conv set_rev)
  then show ?thesis by (simp add: trimSpaces_def)
qed

lemma digits_no_prefix:
  assumes "\<forall>c \<in> set s. isDigit c" "p \<in> {CHR ''x'', CHR ''X'', CHR ''o'', CHR ''O'', CHR ''b'', CHR ''B''}"
  shows "take 2 s \<noteq> [CHR ''0'', p]"
proof
  assume "take 2 s = [CHR ''0'', p]"
  then have "p \<in> set s" by (metis in_set_takeD list.set_intros(1,2))
  with assms show False by (auto simp: isDigit_def)
qed

lemma stringToBigInt_natToString [simp]: "stringToBigInt (natToString n) = Some (int n)"
proof -
  have d: "\<forall>c \<in> set (natToString n). isDigit c" by (rule natToString_digits)
  then have "trimSpaces (natToString n) = natToString n"
    using isDigit_not_space by (blast intro: trimSpaces_digits)
  moreover have "hd (natToString n) \<noteq> CHR ''-''" "hd (natToString n) \<noteq> CHR ''+''"
    using isDigit_not_sign [OF hd_natToString_digit] by blast+
  ultimately show ?thesis
    using digits_no_prefix [OF d] d by (simp add: stringToBigInt_def Let_def decimalVal_def)
qed

lemma stringToBigInt_intToString [simp]: "stringToBigInt (intToString i) = Some i"
proof (cases "i < 0")
  case True
  have d: "\<forall>c \<in> set (natToString (nat (- i))). isDigit c" by (rule natToString_digits)
  then have "\<forall>c \<in> set (intToString i). \<not> isSpace c"
    using isDigit_not_space True by (auto simp: intToString_def isSpace_def)
  then have "trimSpaces (intToString i) = intToString i" by (rule trimSpaces_digits)
  with True d show ?thesis
    by (simp add: stringToBigInt_def Let_def intToString_def decimalVal_def numeral_2_eq_2)
qed (simp add: intToString_def)

lemma bigInt_simps [simp]:
  "bigInt (Some (JNum n)) = Inr n"
  "bigInt (Some (JStr s)) = (case stringToBigInt s of None \<Rightarrow> Inl SyntaxError | Some n \<Rightarrow> Inr n)"
  by (simp_all add: bigInt_def)

lemma jsNumber_simps [simp]:
  "jsNumber (Some (JNum n)) = Some n" "jsNumber (Some (JStr s)) = stringToBigInt s"
  by (simp_all add: jsNumber_def)

lemma stringToBigInt_Nil [simp]: "stringToBigInt [] = Some 0"
  by (simp add: stringToBigInt_def trimSpaces_def)

text \<open>Whatever \<open>BigInt\<close> accepts, \<open>Number\<close> reads as the same integer.\<close>

lemma jsNumber_bigInt: "bigInt v = Inr n \<Longrightarrow> jsNumber v = Some n"
  by (auto simp: bigInt_def jsNumber_def split: option.splits json.splits)

lemma parseJ_stringify [simp]: "wfJson j \<Longrightarrow> parseJ (Some (JStr (stringify j))) = Inr j"
  by (simp add: parseJ_def)

lemma jprop_JObj [simp]: "jprop k (Some (JObj fs)) = Inr (map_of fs k)"
  by (simp add: jprop_def)

lemma iterate_JArr [simp]: "iterate (Some (JArr xs)) = Inr xs"
  by (simp add: iterate_def)

lemma elementsOf_JArr [simp]: "elementsOf (Some (JArr xs)) = Inr xs"
  by (simp add: elementsOf_def)

lemma bufferFromHex_JStr [simp]: "bufferFromHex (Some (JStr s)) = Inr (hexToBytes s)"
  by (simp add: bufferFromHex_def)

end
