(* ===== verification/Bungee_View.thy ===== *)
theory Bungee_View
  imports JS_Values
begin

text \<open>
  The view-creation half of the Bungee plugin (\<open>view-creation/*.ts\<close>, \<open>utils.ts\<close>): proofs,
  transactions, states, snapshots and views, the JSON texts of these objects, the pruning of a
  state to a time frame, and the reconstruction of a view from its text.

  The properties of an object are printed in the order in which the constructor creates them;
  fields with an initialiser come first. A property that is \<open>undefined\<close> is not printed. The Merkle
  tree is a library: \<open>root xs\<close> is the root of the tree over the leaves \<open>xs\<close>.
\<close>

section \<open>Proofs and transactions\<close>

record Proof =
  pf_creator :: jsv
  pf_mspid :: json
  pf_signature :: json

definition orUndefinedText :: "jsv \<Rightarrow> json" where
  "orUndefinedText v = (if truthy v then the v else JStr ''undefined'')"

definition newProof :: "jsv \<Rightarrow> jsv \<Rightarrow> jsv \<Rightarrow> Proof" where
  "newProof creator mspid signature =
    \<lparr>pf_creator = creator, pf_mspid = orUndefinedText mspid, pf_signature = orUndefinedText signature\<rparr>"

definition proofToJson :: "Proof \<Rightarrow> json" where
  "proofToJson p = JObj (optFields [(''creator'', pf_creator p), (''mspid'', Some (pf_mspid p)),
     (''signature'', Some (pf_signature p))])"

record TransactionProof =
  tp_endorsements :: "Proof list"
  tp_transactionCreator :: Proof
  tp_hash :: jsv

definition newTransactionProof :: "Proof \<Rightarrow> jsv \<Rightarrow> TransactionProof" where
  "newTransactionProof creator hash =
    \<lparr>tp_endorsements = [], tp_transactionCreator = creator, tp_hash = hash\<rparr>"

definition transactionProofToJson :: "TransactionProof \<Rightarrow> json" where
  "transactionProofToJson p = JObj (optFields [
     (''endorsements'', Some (JArr (map proofToJson (tp_endorsements p)))),
     (''transactionCreator'', Some (proofToJson (tp_transactionCreator p))),
     (''hash'', tp_hash p)])"

definition setCreatorOfProof :: "Proof \<Rightarrow> TransactionProof \<Rightarrow> TransactionProof" where
  "setCreatorOfProof c p = p\<lparr>tp_transactionCreator := c\<rparr>"

text \<open>
  The optional properties of a transaction (\<open>stateId\<close>, \<open>payload\<close>, \<open>target\<close>) are created by their
  setters; \<open>tx_set\<close> has them in the order of the assignments.
\<close>

record Transaction =
  tx_id :: jsv
  tx_timeStamp :: jsv
  tx_proof :: TransactionProof
  tx_set :: "(string \<times> jsv) list"

definition newTransaction :: "jsv \<Rightarrow> jsv \<Rightarrow> TransactionProof \<Rightarrow> Transaction" where
  "newTransaction i ts p = \<lparr>tx_id = i, tx_timeStamp = ts, tx_proof = p, tx_set = []\<rparr>"

definition addEndorser :: "Proof \<Rightarrow> Transaction \<Rightarrow> Transaction" where
  "addEndorser e t = t\<lparr>tx_proof := (tx_proof t)\<lparr>tp_endorsements := tp_endorsements (tx_proof t) @ [e]\<rparr>\<rparr>"

definition setStateId :: "jsv \<Rightarrow> Transaction \<Rightarrow> Transaction" where
  "setStateId v t = t\<lparr>tx_set := mapSet ''stateId'' v (tx_set t)\<rparr>"

definition setTarget :: "jsv \<Rightarrow> Transaction \<Rightarrow> Transaction" where
  "setTarget v t = t\<lparr>tx_set := mapSet ''target'' v (tx_set t)\<rparr>"

definition setPayload :: "jsv \<Rightarrow> Transaction \<Rightarrow> Transaction" where
  "setPayload v t = t\<lparr>tx_set := mapSet ''payload'' v (tx_set t)\<rparr>"

definition transactionToJson :: "Transaction \<Rightarrow> json" where
  "transactionToJson t = JObj (optFields ([(''id'', tx_id t), (''timeStamp'', tx_timeStamp t),
     (''proof'', Some (transactionProofToJson (tx_proof t)))] @ tx_set t))"

definition getTxJson :: "Transaction \<Rightarrow> string" where
  "getTxJson t = stringify (JObj (optFields [(''Id'', tx_id t), (''TimeStamp'', tx_timeStamp t)]))"

section \<open>States\<close>

record StateProof =
  sp_blocks :: "json list"
  sp_value :: jsv
  sp_version :: jsv
  sp_stateID :: jsv

definition newStateProof :: "jsv \<Rightarrow> jsv \<Rightarrow> jsv \<Rightarrow> StateProof" where
  "newStateProof value version i = \<lparr>sp_blocks = [], sp_value = value, sp_version = version, sp_stateID = i\<rparr>"

definition addBlock :: "json \<Rightarrow> StateProof \<Rightarrow> StateProof" where
  "addBlock b p = p\<lparr>sp_blocks := sp_blocks p @ [b]\<rparr>"

definition stateProofToJson :: "StateProof \<Rightarrow> json" where
  "stateProofToJson p = JObj (optFields [(''blocks'', Some (JArr (sp_blocks p))), (''value'', sp_value p),
     (''version'', sp_version p), (''stateID'', sp_stateID p)])"

record State =
  st_stateProof :: "StateProof list"
  st_id :: jsv
  st_version :: nat
  st_values :: jsv
  st_transactions :: "Transaction list"

definition newState :: "jsv \<Rightarrow> jsv \<Rightarrow> Transaction list \<Rightarrow> State" where
  "newState i values txs = \<lparr>st_stateProof = [], st_id = i, st_version = length txs,
     st_values = values, st_transactions = txs\<rparr>"

definition setStateProof :: "StateProof list \<Rightarrow> State \<Rightarrow> State" where
  "setStateProof ps s = s\<lparr>st_stateProof := ps\<rparr>"

definition stateToJson :: "State \<Rightarrow> json" where
  "stateToJson s = JObj (optFields [
     (''stateProof'', Some (JArr (map stateProofToJson (st_stateProof s)))),
     (''id'', st_id s), (''version'', Some (JNum (int (st_version s)))), (''values'', st_values s),
     (''transactions'', Some (JArr (map transactionToJson (st_transactions s))))])"

definition getStateJson :: "State \<Rightarrow> string" where
  "getStateJson s = stringify (JObj (optFields [
     (''id'', st_id s), (''version'', Some (JStr (natToString (st_version s)))), (''values'', st_values s),
     (''transactions'', Some (JArr (map (JStr \<circ> getTxJson) (st_transactions s)))),
     (''proofs'', Some (JArr (map (JStr \<circ> stringify \<circ> transactionProofToJson \<circ> tx_proof) (st_transactions s))))]))"

definition getInitialTime :: "State \<Rightarrow> jsv" where
  "getInitialTime s = (case st_transactions s of [] \<Rightarrow> Some (JStr '''') | t # _ \<Rightarrow> tx_timeStamp t)"

definition getFinalTime :: "State \<Rightarrow> jsv" where
  "getFinalTime s = (if st_transactions s = [] then Some (JStr '''') else tx_timeStamp (last (st_transactions s)))"

text \<open>\<open>this.values?.splice(index, 1)\<close>\<close>

definition spliceValues :: "nat \<Rightarrow> jsv \<Rightarrow> jsv result" where
  "spliceValues i v = (case v of
      Some (JArr xs) \<Rightarrow> Inr (Some (JArr (spliceAt i xs)))
    | None \<Rightarrow> Inr v
    | Some JNull \<Rightarrow> Inr v
    | Some _ \<Rightarrow> Inl TypeError)"

text \<open>
  The body of \<open>pruneState\<close> runs under \<open>forEach\<close>, which fixes the number of rounds before the first
  one and skips an index that has fallen off the end, while the callback removes elements from the
  array it is called for. \<open>pruneFrom lo hi n i\<close> is the remaining \<open>n\<close> rounds from index \<open>i\<close> on.
\<close>

primrec pruneFrom :: "int \<Rightarrow> int \<Rightarrow> nat \<Rightarrow> nat \<Rightarrow> Transaction list \<times> jsv \<Rightarrow> (Transaction list \<times> jsv) result" where
  "pruneFrom lo hi 0 i s = Inr s"
| "pruneFrom lo hi (Suc n) i s = (case s of (txs, vs) \<Rightarrow>
     if i < length txs
     then bindR (bigInt (tx_timeStamp (txs ! i))) (\<lambda>t.
       if t < lo \<or> hi < t
       then bindR (spliceValues i vs) (\<lambda>vs'. pruneFrom lo hi n (Suc i) (spliceAt i txs, vs'))
       else pruneFrom lo hi n (Suc i) (txs, vs))
     else pruneFrom lo hi n (Suc i) (txs, vs))"

definition pruneState :: "jsv \<Rightarrow> jsv \<Rightarrow> State \<Rightarrow> State result" where
  "pruneState tI tF s =
    bindR (bigInt tI) (\<lambda>lo. bindR (bigInt tF) (\<lambda>hi.
    bindR (pruneFrom lo hi (length (st_transactions s)) 0 (st_transactions s, st_values s)) (\<lambda>(txs, vs).
    Inr (s\<lparr>st_transactions := txs, st_values := vs\<rparr>))))"

section \<open>Snapshots\<close>

record Snapshot =
  sn_tI :: string
  sn_tF :: string
  sn_id :: jsv
  sn_participant :: jsv
  sn_stateBins :: "State list"

definition newSnapshot :: "jsv \<Rightarrow> jsv \<Rightarrow> State list \<Rightarrow> Snapshot" where
  "newSnapshot i participant bins = \<lparr>sn_tI = '''', sn_tF = '''', sn_id = i, sn_participant = participant,
     sn_stateBins = bins\<rparr>"

text \<open>A comparison with \<open>NaN\<close> is false.\<close>

definition widen :: "int \<times> int \<Rightarrow> State \<Rightarrow> int \<times> int" where
  "widen = (\<lambda>(ti, tf) bin.
     (case jsNumber (getInitialTime bin) of Some a \<Rightarrow> if a < ti then a else ti | None \<Rightarrow> ti,
      case jsNumber (getFinalTime bin) of Some b \<Rightarrow> if tf < b then b else tf | None \<Rightarrow> tf))"

definition update_TI_TF :: "Snapshot \<Rightarrow> Snapshot" where
  "update_TI_TF s = (case foldl widen (999999999999999, 0) (sn_stateBins s) of (ti, tf) \<Rightarrow>
     s\<lparr>sn_tF := intToString tf, sn_tI := intToString ti\<rparr>)"

definition pruneStates :: "jsv \<Rightarrow> jsv \<Rightarrow> Snapshot \<Rightarrow> Snapshot result" where
  "pruneStates tI tF s = bindR (mapR (pruneState tI tF) (sn_stateBins s)) (\<lambda>bins. Inr (s\<lparr>sn_stateBins := bins\<rparr>))"

text \<open>\<open>||\<close> does not evaluate its second operand when the first holds.\<close>

primrec keptStates :: "int \<Rightarrow> int \<Rightarrow> State list \<Rightarrow> State list result" where
  "keptStates lo hi [] = Inr []"
| "keptStates lo hi (s # ss) =
     bindR (bigInt (getInitialTime s)) (\<lambda>a.
     bindR (if hi < a then Inr True else bindR (bigInt (getFinalTime s)) (\<lambda>b. Inr (b < lo))) (\<lambda>out.
     bindR (keptStates lo hi ss) (\<lambda>r. Inr (if out then r else s # r))))"

definition filterStates :: "jsv \<Rightarrow> jsv \<Rightarrow> Snapshot \<Rightarrow> Snapshot result" where
  "filterStates tI tF s = bindR (bigInt tF) (\<lambda>hi. bindR (bigInt tI) (\<lambda>lo.
     bindR (keptStates lo hi (sn_stateBins s)) (\<lambda>bins. Inr (s\<lparr>sn_stateBins := bins\<rparr>))))"

text \<open>\<open>===\<close>: two arrays or objects are never the same object here.\<close>

definition strictEq :: "jsv \<Rightarrow> jsv \<Rightarrow> bool" where
  "strictEq a b \<longleftrightarrow> a = b \<and> (case a of Some (JArr _) \<Rightarrow> False | Some (JObj _) \<Rightarrow> False | _ \<Rightarrow> True)"

definition removeState :: "jsv \<Rightarrow> Snapshot \<Rightarrow> Snapshot" where
  "removeState i s = update_TI_TF (s\<lparr>sn_stateBins := filter (\<lambda>b. \<not> strictEq (st_id b) i) (sn_stateBins s)\<rparr>)"

definition snapshotToJson :: "Snapshot \<Rightarrow> json" where
  "snapshotToJson s = JObj (optFields [(''tI'', Some (JStr (sn_tI s))), (''tF'', Some (JStr (sn_tF s))),
     (''id'', sn_id s), (''participant'', sn_participant s),
     (''stateBins'', Some (JArr (map stateToJson (sn_stateBins s))))])"

definition getSnapshotJson :: "Snapshot \<Rightarrow> string" where
  "getSnapshotJson s = stringify (JObj (optFields [(''id'', sn_id s), (''participant'', sn_participant s),
     (''stateBins'', Some (JArr (map stateToJson (sn_stateBins s))))]))"

section \<open>Views\<close>

record ViewProof =
  transactionsMerkleRoot :: string
  statesMerkleRoot :: string

record View =
  vw_oldVersionsMetadata :: "json list"
  vw_creator :: jsv
  vw_key :: jsv
  vw_tI :: jsv
  vw_tF :: jsv
  vw_snapshot :: Snapshot
  vw_participant :: jsv
  vw_viewProof :: ViewProof
  vw_policy :: jsv

type_synonym merkle = "string list \<Rightarrow> byte list"

definition stateLeaf :: "State \<Rightarrow> string" where
  "stateLeaf s = stringify (JArr (map stateProofToJson (st_stateProof s)))"

definition transactionLeaf :: "Transaction \<Rightarrow> string" where
  "transactionLeaf t = stringify (transactionProofToJson (tx_proof t))"

definition generateViewProof :: "merkle \<Rightarrow> Snapshot \<Rightarrow> ViewProof" where
  "generateViewProof root s = \<lparr>
     transactionsMerkleRoot = bufArray2HexStr (root (map transactionLeaf (concat (map st_transactions (sn_stateBins s))))),
     statesMerkleRoot = bufArray2HexStr (root (map stateLeaf (sn_stateBins s)))\<rparr>"

definition newView :: "merkle \<Rightarrow> string \<Rightarrow> jsv \<Rightarrow> jsv \<Rightarrow> jsv \<Rightarrow> Snapshot \<Rightarrow> jsv \<Rightarrow> View result" where
  "newView root uuid creator tI tF snapshot i =
    bindR (pruneStates tI tF snapshot) (\<lambda>s. Inr \<lparr>
      vw_oldVersionsMetadata = [], vw_creator = creator,
      vw_key = (if truthy i then i else Some (JStr uuid)),
      vw_tI = tI, vw_tF = tF, vw_snapshot = s, vw_participant = sn_participant snapshot,
      vw_viewProof = generateViewProof root s, vw_policy = None\<rparr>)"

definition addPrevVersionMetadata :: "json \<Rightarrow> View \<Rightarrow> View" where
  "addPrevVersionMetadata m v = v\<lparr>vw_oldVersionsMetadata := vw_oldVersionsMetadata v @ [m]\<rparr>"

definition updateViewProof :: "merkle \<Rightarrow> View \<Rightarrow> View" where
  "updateViewProof root v = v\<lparr>vw_viewProof := generateViewProof root (vw_snapshot v)\<rparr>"

definition getAllTransactions :: "View \<Rightarrow> Transaction list" where
  "getAllTransactions v = concat (map st_transactions (sn_stateBins (vw_snapshot v)))"

definition viewProofToJson :: "ViewProof \<Rightarrow> json" where
  "viewProofToJson p = JObj [(''transactionsMerkleRoot'', JStr (transactionsMerkleRoot p)),
     (''statesMerkleRoot'', JStr (statesMerkleRoot p))]"

definition viewToJson :: "View \<Rightarrow> json" where
  "viewToJson v = JObj (optFields [
     (''oldVersionsMetadata'', Some (JArr (vw_oldVersionsMetadata v))), (''creator'', vw_creator v),
     (''key'', vw_key v), (''tI'', vw_tI v), (''tF'', vw_tF v),
     (''snapshot'', Some (snapshotToJson (vw_snapshot v))), (''participant'', vw_participant v),
     (''viewProof'', Some (viewProofToJson (vw_viewProof v))), (''policy'', vw_policy v)])"

definition getViewStr :: "View \<Rightarrow> string" where
  "getViewStr v = stringify (JObj (optFields [(''tI'', vw_tI v), (''tF'', vw_tF v),
     (''snapshot'', Some (snapshotToJson (vw_snapshot v)))]))"

text \<open>The metadata of a view (\<open>IViewMetadata\<close>), in the property order of the object literals that build it.\<close>

definition viewMetadata :: "View \<Rightarrow> jsv \<Rightarrow> json" where
  "viewMetadata v signature = JObj (optFields [(''viewId'', vw_key v), (''creator'', vw_creator v),
     (''viewProof'', Some (viewProofToJson (vw_viewProof v))), (''signature'', signature), (''policy'', vw_policy v)])"

section \<open>Privacy policies\<close>

definition pruneStatePolicy :: "View \<Rightarrow> string list \<Rightarrow> View" where
  "pruneStatePolicy v args = (let i = (case args of [] \<Rightarrow> None | a # _ \<Rightarrow> Some (JStr a)) in
     v\<lparr>vw_snapshot := update_TI_TF (removeState i (vw_snapshot v))\<rparr>)"

definition getPrivacyPolicy :: "string \<Rightarrow> (View \<Rightarrow> string list \<Rightarrow> View) option" where
  "getPrivacyPolicy opts = (if opts = ''pruneState'' then Some pruneStatePolicy else None)"

section \<open>Views from text\<close>

definition proofOf :: "jsv \<Rightarrow> Proof result" where
  "proofOf v = bindR (jprop ''creator'' v) (\<lambda>c. bindR (jprop ''mspid'' v) (\<lambda>m.
     bindR (jprop ''signature'' v) (\<lambda>s. Inr (newProof c m s))))"

definition transactionOf :: "json \<Rightarrow> Transaction result" where
  "transactionOf t =
    bindR (jprop ''proof'' (Some t)) (\<lambda>p.
    bindR (jprop ''transactionCreator'' p) (\<lambda>tc.
    bindR (proofOf tc) (\<lambda>creator.
    bindR (jprop ''hash'' p) (\<lambda>h.
    bindR (jprop ''id'' (Some t)) (\<lambda>i.
    bindR (jprop ''timeStamp'' (Some t)) (\<lambda>ts.
    let tx = newTransaction i ts (newTransactionProof creator h) in
    bindR (jprop ''endorsements'' p) (\<lambda>es.
    if isNullish es then Inr tx
    else bindR (iterate es) (\<lambda>xs.
      foldR (\<lambda>u e. bindR (proofOf (Some e)) (\<lambda>q. Inr (addEndorser q u))) tx xs))))))))"

definition stateProofOf :: "json \<Rightarrow> StateProof result" where
  "stateProofOf p =
    bindR (jprop ''value'' (Some p)) (\<lambda>v. bindR (jprop ''version'' (Some p)) (\<lambda>n.
    bindR (jprop ''stateID'' (Some p)) (\<lambda>i. bindR (jprop ''blocks'' (Some p)) (\<lambda>bs.
    bindR (elementsOf bs) (\<lambda>xs. Inr (foldl (\<lambda>q b. addBlock b q) (newStateProof v n i) xs))))))"

definition stateOf :: "json \<Rightarrow> State result" where
  "stateOf s =
    bindR (jprop ''transactions'' (Some s)) (\<lambda>ts. bindR (iterate ts) (\<lambda>xs.
    bindR (mapR transactionOf xs) (\<lambda>txs.
    bindR (jprop ''id'' (Some s)) (\<lambda>i. bindR (jprop ''values'' (Some s)) (\<lambda>vs.
    bindR (jprop ''stateProof'' (Some s)) (\<lambda>sp. bindR (iterate sp) (\<lambda>ps.
    bindR (mapR stateProofOf ps) (\<lambda>proofs.
    Inr (setStateProof proofs (newState i vs txs))))))))))"

text \<open>\<open>s == v\<close> for a text \<open>s\<close>\<close>

definition looseEqText :: "string \<Rightarrow> jsv \<Rightarrow> bool" where
  "looseEqText s v = (case v of
      None \<Rightarrow> False
    | Some j \<Rightarrow> (case j of
        JNull \<Rightarrow> False
      | JStr t \<Rightarrow> s = t
      | JNum n \<Rightarrow> stringToBigInt s = Some n
      | JBool b \<Rightarrow> stringToBigInt s = Some (if b then 1 else 0)
      | _ \<Rightarrow> s = jsText j))"

definition viewOf :: "merkle \<Rightarrow> string \<Rightarrow> json \<Rightarrow> View result" where
  "viewOf root uuid j =
    (let view = Some j in
    bindR (jprop ''snapshot'' view) (\<lambda>sn.
    bindR (jprop ''stateBins'' sn) (\<lambda>sb.
    bindR (iterate sb) (\<lambda>xs.
    bindR (mapR stateOf xs) (\<lambda>bins.
    bindR (jprop ''id'' sn) (\<lambda>i. bindR (jprop ''participant'' sn) (\<lambda>pa.
    let snapshotNew = update_TI_TF (newSnapshot i pa bins) in
    bindR (jprop ''creator'' view) (\<lambda>c. bindR (jprop ''tI'' view) (\<lambda>tI. bindR (jprop ''tF'' view) (\<lambda>tF.
    bindR (jprop ''key'' view) (\<lambda>k.
    bindR (newView root uuid c tI tF snapshotNew k) (\<lambda>v.
    bindR (jprop ''oldVersionsMetadata'' view) (\<lambda>om. bindR (iterate om) (\<lambda>ms.
    bindR (jprop ''policy'' view) (\<lambda>po.
    let viewNew = (foldl (\<lambda>u m. addPrevVersionMetadata m u) v ms)\<lparr>vw_policy := po, vw_creator := c\<rparr> in
    bindR (jprop ''viewProof'' view) (\<lambda>vp.
    bindR (jprop ''statesMerkleRoot'' vp) (\<lambda>sr.
    if \<not> looseEqText (statesMerkleRoot (vw_viewProof viewNew)) sr
    then Inl (ErrorMsg ''Error Parsing view. States root does not match'')
    else bindR (jprop ''transactionsMerkleRoot'' vp) (\<lambda>tr.
      if \<not> looseEqText (transactionsMerkleRoot (vw_viewProof viewNew)) tr
      then Inl (ErrorMsg ''Error Parsing view. Transactions root does not match'')
      else Inr viewNew))))))))))))))))))"

definition deserializeView :: "merkle \<Rightarrow> string \<Rightarrow> string \<Rightarrow> View result" where
  "deserializeView root uuid viewStr =
    bindR (parseJ (Some (JStr viewStr))) (\<lambda>outer.
    bindR (jprop ''view'' (Some outer)) (\<lambda>text.
    bindR (parseJ text) (viewOf root uuid)))"

end
