(* ===== verification/Bungee_Merge.thy ===== *)
theory Bungee_Merge
  imports Bungee_View
begin

text \<open>
  The view-merging half of the Bungee plugin (\<open>view-merging/*.ts\<close>): extended states, integrated
  views and merge policies. An integrated view is a map from state ids to extended states, and an
  extended state a map from view ids to the state that view has. Keys are compared by value.
\<close>

section \<open>Extended states and integrated views\<close>

type_synonym ExtendedState = "(jsv, State) jsmap"

definition setState :: "jsv \<Rightarrow> State \<Rightarrow> ExtendedState \<Rightarrow> ExtendedState" where
  "setState viewId s e = (if map_of e viewId = None then mapSet viewId s e else e)"

record IMergePolicyValue =
  mp_policy :: string
  mp_policyHash :: "string option"

record IntegratedViewProof = ViewProof +
  viewsMerkleRoot :: string

record IntegratedView =
  iv_viewsMetadata :: "json list"
  iv_stateList :: "(jsv, ExtendedState) jsmap"
  iv_id :: string
  iv_tI :: jsv
  iv_tF :: jsv
  iv_participants :: "jsv list"
  iv_privacyPolicy :: IMergePolicyValue
  iv_integratedViewProof :: IntegratedViewProof

definition getAllStates :: "IntegratedView \<Rightarrow> State list" where
  "getAllStates v = concat (map mapValues (mapValues (iv_stateList v)))"

definition getAllTransactionsIV :: "IntegratedView \<Rightarrow> Transaction list" where
  "getAllTransactionsIV v = concat (map (\<lambda>e. concat (map st_transactions (mapValues e))) (mapValues (iv_stateList v)))"

definition generateIntegratedViewProof :: "merkle \<Rightarrow> IntegratedView \<Rightarrow> IntegratedViewProof" where
  "generateIntegratedViewProof root v = \<lparr>
     transactionsMerkleRoot = bufArray2HexStr (root (map transactionLeaf (getAllTransactionsIV v))),
     statesMerkleRoot = bufArray2HexStr (root (map stateLeaf (getAllStates v))),
     viewsMerkleRoot = bufArray2HexStr (root (map stringify (iv_viewsMetadata v)))\<rparr>"

definition setIntegratedViewProof :: "merkle \<Rightarrow> IntegratedView \<Rightarrow> IntegratedView" where
  "setIntegratedViewProof root v = v\<lparr>iv_integratedViewProof := generateIntegratedViewProof root v\<rparr>"

text \<open>The proof of a new view is computed from the empty lists.\<close>

definition newIntegratedView :: "merkle \<Rightarrow> string \<Rightarrow> string \<Rightarrow> string option \<Rightarrow> IntegratedView" where
  "newIntegratedView root uuid policy hash = setIntegratedViewProof root \<lparr>
     iv_viewsMetadata = [], iv_stateList = [], iv_id = uuid, iv_tI = Some (JStr ''-1''), iv_tF = Some (JStr ''-1''),
     iv_participants = [], iv_privacyPolicy = \<lparr>mp_policy = policy, mp_policyHash = hash\<rparr>,
     iv_integratedViewProof = \<lparr>transactionsMerkleRoot = '''', statesMerkleRoot = '''', viewsMerkleRoot = ''''\<rparr>\<rparr>"

definition getExtendedState :: "jsv \<Rightarrow> IntegratedView \<Rightarrow> ExtendedState option" where
  "getExtendedState i v = map_of (iv_stateList v) i"

definition getState :: "jsv \<Rightarrow> jsv \<Rightarrow> IntegratedView \<Rightarrow> State option" where
  "getState i viewId v = Option.bind (getExtendedState i v) (\<lambda>e. map_of e viewId)"

definition createExtendedState :: "jsv \<Rightarrow> IntegratedView \<Rightarrow> IntegratedView" where
  "createExtendedState i v = (if getExtendedState i v = None
     then v\<lparr>iv_stateList := mapSet i [] (iv_stateList v)\<rparr> else v)"

text \<open>The extended state is changed in place.\<close>

definition addStateInExtendedState :: "jsv \<Rightarrow> jsv \<Rightarrow> State \<Rightarrow> IntegratedView \<Rightarrow> IntegratedView" where
  "addStateInExtendedState i viewId s v = (case getExtendedState i v of
      None \<Rightarrow> v
    | Some e \<Rightarrow> v\<lparr>iv_stateList := mapSet i (setState viewId s e) (iv_stateList v)\<rparr>)"

definition isParticipant :: "jsv \<Rightarrow> IntegratedView \<Rightarrow> bool" where
  "isParticipant p v = list_ex (strictEq p) (iv_participants v)"

definition addParticipant :: "jsv \<Rightarrow> IntegratedView \<Rightarrow> IntegratedView" where
  "addParticipant p v = v\<lparr>iv_participants := iv_participants v @ [p]\<rparr>"

definition addIncludedViewMetadata :: "json \<Rightarrow> IntegratedView \<Rightarrow> IntegratedView" where
  "addIncludedViewMetadata m v = v\<lparr>iv_viewsMetadata := iv_viewsMetadata v @ [m]\<rparr>"

text \<open>A \<open>Map\<close> has no enumerable property: \<open>JSON.stringify\<close> prints it as the empty object.\<close>

definition stateListToJson :: "(jsv, ExtendedState) jsmap \<Rightarrow> json" where
  "stateListToJson _ = JObj []"

definition integratedViewToJson :: "IntegratedView \<Rightarrow> json" where
  "integratedViewToJson v = JObj (optFields [
     (''viewsMetadata'', Some (JArr (iv_viewsMetadata v))),
     (''stateList'', Some (stateListToJson (iv_stateList v))), (''id'', Some (JStr (iv_id v))),
     (''tI'', iv_tI v), (''tF'', iv_tF v),
     (''participants'', Some (JArr (map (\<lambda>p. case p of None \<Rightarrow> JNull | Some j \<Rightarrow> j) (iv_participants v)))),
     (''privacyPolicy'', Some (JObj (optFields [(''policy'', Some (JStr (mp_policy (iv_privacyPolicy v)))),
        (''policyHash'', map_option JStr (mp_policyHash (iv_privacyPolicy v)))]))),
     (''integratedViewProof'', Some (JObj [
        (''transactionsMerkleRoot'', JStr (transactionsMerkleRoot (iv_integratedViewProof v))),
        (''statesMerkleRoot'', JStr (statesMerkleRoot (iv_integratedViewProof v))),
        (''viewsMerkleRoot'', JStr (viewsMerkleRoot (iv_integratedViewProof v)))]))])"

section \<open>Merge policies\<close>

text \<open>A policy is called with the arguments of the request; a missing one is \<open>undefined\<close>.\<close>

definition argAt :: "nat \<Rightarrow> string list \<Rightarrow> jsv" where
  "argAt n args = (if n < length args then Some (JStr (args ! n)) else None)"

definition mergePruneState :: "IntegratedView \<Rightarrow> string list \<Rightarrow> IntegratedView" where
  "mergePruneState v args = v\<lparr>iv_stateList := mapDelete (argAt 0 args) (iv_stateList v)\<rparr>"

definition pruneStateFromView :: "IntegratedView \<Rightarrow> string list \<Rightarrow> IntegratedView" where
  "pruneStateFromView v args = (case getExtendedState (argAt 0 args) v of
      None \<Rightarrow> v
    | Some e \<Rightarrow> v\<lparr>iv_stateList := mapSet (argAt 0 args) (mapDelete (argAt 1 args) e) (iv_stateList v)\<rparr>)"

definition getMergePolicy :: "string \<Rightarrow> (IntegratedView \<Rightarrow> string list \<Rightarrow> IntegratedView) option" where
  "getMergePolicy opts =
    (if opts = ''NONE'' then None
     else if opts = ''pruneState'' then Some mergePruneState
     else if opts = ''pruneStateFromView'' then Some pruneStateFromView
     else None)"

section \<open>The merge loop\<close>

text \<open>
  The body of the two nested loops of \<open>mergeViews\<close>. The lower end of the time frame of the
  integrated view is taken from a state that begins before it or before the epoch; the upper end
  from a state that ends after it or before the epoch.
\<close>

definition mergeState :: "View \<Rightarrow> IntegratedView \<Rightarrow> State \<Rightarrow> IntegratedView result" where
  "mergeState view iv s =
    (let iv1 = (if getExtendedState (st_id s) iv = None then createExtendedState (st_id s) iv else iv);
         iv2 = addStateInExtendedState (st_id s) (vw_key view) s iv1
     in bindR (bigInt (getInitialTime s)) (\<lambda>a. bindR (bigInt (iv_tI iv2)) (\<lambda>ti.
        let iv3 = (if a < ti \<or> a < 0 then iv2\<lparr>iv_tI := getInitialTime s\<rparr> else iv2)
        in bindR (bigInt (getFinalTime s)) (\<lambda>b. bindR (bigInt (iv_tF iv3)) (\<lambda>tf.
           Inr (if tf < b \<or> b < 0 then iv3\<lparr>iv_tF := getFinalTime s\<rparr> else iv3))))))"

definition mergeView :: "IntegratedView \<Rightarrow> View \<times> jsv \<Rightarrow> IntegratedView result" where
  "mergeView iv = (\<lambda>(view, signature).
    let iv1 = (if isParticipant (vw_participant view) iv then iv else addParticipant (vw_participant view) iv);
        iv2 = addIncludedViewMetadata (viewMetadata view signature) iv1
    in foldR (mergeState view) iv2 (sn_stateBins (vw_snapshot view)))"

end
