(* ===== verification/JS_Async.thy ===== *)
theory JS_Async
  imports JS_Values
begin

text \<open>
  What the asynchronous methods of the plugins share: results as actions, property access that may
  throw, loops over arrays, the argument check of the common package and the exception handler of the
  endpoints; what they leave alone, and when they end.
\<close>

section \<open>Actions\<close>

definition liftR :: "'a result \<Rightarrow> ('w, jsError, 'a) act" where
  "liftR r = (case r of Inl e \<Rightarrow> throwE e | Inr a \<Rightarrow> ret a)"

definition propA :: "string \<Rightarrow> jsv \<Rightarrow> ('w, jsError, jsv) act" where
  "propA k v = liftR (jprop k v)"

primrec mapA :: "('a \<Rightarrow> ('w, jsError, 'b) act) \<Rightarrow> 'a list \<Rightarrow> ('w, jsError, 'b list) act" where
  "mapA f [] = ret []"
| "mapA f (x # xs) = bindA (f x) (\<lambda>y. bindA (mapA f xs) (\<lambda>ys. ret (y # ys)))"

definition jsTextV :: "jsv \<Rightarrow> string" where
  "jsTextV v = (case v of None \<Rightarrow> ''undefined'' | Some j \<Rightarrow> jsText j)"

text \<open>The fields \<open>...v\<close> of an object, and an assignment to a field; a field that is \<open>undefined\<close> is none.\<close>

definition fieldsOf :: "jsv \<Rightarrow> (string \<times> json) list" where
  "fieldsOf v = (case v of Some (JObj fs) \<Rightarrow> fs | _ \<Rightarrow> [])"

definition setField :: "string \<Rightarrow> jsv \<Rightarrow> (string \<times> json) list \<Rightarrow> (string \<times> json) list" where
  "setField k v fs = (case v of None \<Rightarrow> filter (\<lambda>(l, x). l \<noteq> k) fs | Some j \<Rightarrow> upsert k j fs)"

text \<open>\<open>Number.MAX_SAFE_INTEGER\<close>\<close>

definition maxSafeInteger :: int where
  "maxSafeInteger = 9007199254740991"

text \<open>\<open>Checks.truthy\<close>\<close>

definition checkTruthy :: "jsv \<Rightarrow> string \<Rightarrow> ('w, jsError, unit) act" where
  "checkTruthy v subject = ensure (truthy v)
     (ErrorMsg (CHR 0x22 # subject @ CHR 0x22 # '' is falsy, need a truthy value.''))"

section \<open>Errors that are caught\<close>

text \<open>\<open>try { m } catch (e) { h(e) }\<close> and \<open>try { m } finally { f }\<close> for an \<open>f\<close> that does not fail.\<close>

definition catchA :: "('w, 'e, 'a) act \<Rightarrow> ('e \<Rightarrow> ('w, 'e, 'a) act) \<Rightarrow> ('w, 'e, 'a) act" where
  "catchA m h = (\<lambda>w. case m w of (Throws e, w') \<Rightarrow> h e w' | r \<Rightarrow> r)"

definition finallyA :: "('w, 'e, 'a) act \<Rightarrow> ('w \<Rightarrow> 'w) \<Rightarrow> ('w, 'e, 'a) act" where
  "finallyA m f = (\<lambda>w. case m w of (Pending, w') \<Rightarrow> (Pending, w') | (r, w') \<Rightarrow> (r, f w'))"

lemma wp_catchA [wp_simps]:
  "wp (catchA m h) Q w = wp m (\<lambda>r w'. case r of Throws e \<Rightarrow> wp (h e) Q w' | _ \<Rightarrow> Q r w') w"
  by (simp add: wp_def catchA_def split: prod.split outcome.split)

lemma wp_finallyA [wp_simps]:
  "wp (finallyA m f) Q w = wp m (\<lambda>r w'. Q r (if r = Pending then w' else f w')) w"
  by (auto simp: wp_def finallyA_def split: prod.split outcome.split)

lemma liftR_Returns: "liftR r w = (Returns a, w') \<longleftrightarrow> r = Inr a \<and> w' = w"
  by (auto simp: liftR_def ret_def throwE_def split: sum.splits)

section \<open>Preorders\<close>

context run_preorder
begin

lemma follows_catchA [follows_intros]: "follows R m \<Longrightarrow> (\<And>e. follows R (h e)) \<Longrightarrow> follows R (catchA m h)"
  unfolding follows_def catchA_def by (auto split: prod.split outcome.split) (metis chain snd_conv)+

lemma follows_finallyA: "follows R m \<Longrightarrow> (\<And>w. R w (f w)) \<Longrightarrow> follows R (finallyA m f)"
  unfolding follows_def finallyA_def by (auto split: prod.split outcome.split) (metis chain snd_conv)+

lemma follows_liftR [follows_intros]: "follows R (liftR r)"
  by (simp add: liftR_def follows_ret follows_throwE split: sum.split)

lemma follows_propA [follows_intros]: "follows R (propA k v)"
  by (simp add: propA_def follows_liftR)

lemma follows_split [follows_intros]: "(\<And>a b. follows R (f a b)) \<Longrightarrow> follows R (case p of (a, b) \<Rightarrow> f a b)"
  by (cases p) simp

lemma follows_modifyA: "(\<And>w. R w (f w)) \<Longrightarrow> follows R (modifyA f)"
  by (simp add: follows_def modifyA_def)

end

section \<open>Methods that end\<close>

text \<open>
  A method that does not leave its caller waiting for ever.
\<close>

named_theorems settles_intros

definition settlesA :: "('w, 'e, 'a) act \<Rightarrow> bool" where
  "settlesA m \<longleftrightarrow> (\<forall>w. fst (m w) \<noteq> Pending)"

lemma settlesA_basic [settles_intros]:
  "settlesA (ret a)" "settlesA (throwE e)" "settlesA (getsA f)" "settlesA (modifyA g)" "settlesA (ensure c e)" "settlesA (liftR r)"
  by (auto simp: settlesA_def ret_def throwE_def getsA_def modifyA_def ensure_def liftR_def split: sum.split)

lemma settlesA_bindA [settles_intros]: "settlesA m \<Longrightarrow> (\<And>a. settlesA (k a)) \<Longrightarrow> settlesA (bindA m k)"
  by (auto simp: settlesA_def bindA_def split: prod.split outcome.split) (metis fst_conv)

lemma settlesA_thenA [settles_intros]: "settlesA m \<Longrightarrow> settlesA k \<Longrightarrow> settlesA (thenA m k)"
  by (simp add: thenA_def settlesA_bindA)

lemma settlesA_catchA [settles_intros]: "settlesA m \<Longrightarrow> (\<And>e. settlesA (h e)) \<Longrightarrow> settlesA (catchA m h)"
  by (auto simp: settlesA_def catchA_def split: prod.split outcome.split) (metis fst_conv)

lemma settlesA_rethrowAs [settles_intros]: "settlesA m \<Longrightarrow> settlesA (rethrowAs e m)"
  by (auto simp: settlesA_def rethrowAs_def split: prod.split outcome.split) (metis fst_conv)

lemma settlesA_propA [settles_intros]: "settlesA (propA k v)"
  by (simp add: propA_def settlesA_basic)

lemma settlesA_finallyA [settles_intros]: "settlesA m \<Longrightarrow> settlesA (finallyA m f)"
  by (auto simp: settlesA_def finallyA_def split: prod.split outcome.split) (metis fst_conv)

lemma settlesA_forEachA [settles_intros]: "(\<And>x. settlesA (body x)) \<Longrightarrow> settlesA (forEachA body xs)"
  by (induction xs) (simp_all add: settles_intros)

lemma settlesA_cases [settles_intros]:
  "settlesA m \<Longrightarrow> settlesA m' \<Longrightarrow> settlesA (if c then m else m')"
  "settlesA m \<Longrightarrow> (\<And>a. settlesA (k a)) \<Longrightarrow> settlesA (case x of None \<Rightarrow> m | Some a \<Rightarrow> k a)"
  "(\<And>a b. settlesA (f a b)) \<Longrightarrow> settlesA (case p of (a, b) \<Rightarrow> f a b)"
  by (auto split: option.split prod.split)

section \<open>Requests and loops\<close>

text \<open>
  \<open>Promise.all(xs.map(f))\<close>: every call is made, and the whole is rejected when one is. The calls are in
  flight at the same time; which of several errors is reported is not specified here.
\<close>

primrec allA :: "('a \<Rightarrow> ('w, 'e, 'b) act) \<Rightarrow> 'a list \<Rightarrow> ('w, 'e, 'b list) act" where
  "allA f [] = ret []"
| "allA f (x # xs) = (\<lambda>w. case f x w of
      (Returns y, w') \<Rightarrow> bindA (allA f xs) (\<lambda>ys. ret (y # ys)) w'
    | (Throws e, w') \<Rightarrow> (case allA f xs w' of (Pending, w'') \<Rightarrow> (Pending, w'') | (_, w'') \<Rightarrow> (Throws e, w''))
    | (Pending, w') \<Rightarrow> (Pending, snd (allA f xs w')))"

text \<open>The answer to a request: a status and the data, or a rejected promise.\<close>

datatype 'd response = Rejected | Response int 'd

text \<open>
  \<open>do { body } while (more)\<close>: the body turns the local variables into new ones and says whether to go on.
  A loop that exceeds its fuel does not return.
\<close>

fun doWhileA :: "nat \<Rightarrow> ('s \<Rightarrow> ('w, 'e, 's \<times> bool) act) \<Rightarrow> 's \<Rightarrow> ('w, 'e, 's) act" where
  "doWhileA 0 body s = never"
| "doWhileA (Suc fuel) body s = bindA (body s) (\<lambda>(s', more). if more then doWhileA fuel body s' else ret s')"

text \<open>A loop whose rounds all ask for another one does not return, and leaves what every round leaves.\<close>

lemma doWhileA_forever:
  assumes "\<And>s w. I s w \<Longrightarrow> wp (body s) (\<lambda>r w'. case r of Returns p \<Rightarrow> snd p \<and> I (fst p) w' | _ \<Rightarrow> K w') w"
    and "\<And>s w. I s w \<Longrightarrow> K w" "I s w"
  shows "wp (doWhileA fuel body s) (\<lambda>r w'. (\<forall>a. r \<noteq> Returns a) \<and> K w') w"
  using assms(3)
proof (induction fuel arbitrary: s w)
  case 0
  then show ?case using assms(2) by (simp add: wp_never)
next
  case (Suc fuel)
  have "wp (body s) (\<lambda>r w'. case r of Returns p \<Rightarrow> snd p \<and> I (fst p) w' | _ \<Rightarrow> K w') w" using assms(1) Suc.prems .
  then show ?case unfolding doWhileA.simps wp_bindA
    by (rule wp_mono) (auto split: outcome.splits intro: Suc.IH)
qed

section \<open>Answers of endpoints\<close>

text \<open>
  \<open>handleRestEndpointException\<close>: the status of the answer, and whether a body is sent; an answer
  without a body is never finished.
\<close>

definition handleRestEndpointException :: "jsError \<Rightarrow> int \<times> bool" where
  "handleRestEndpointException e = (case e of HttpError status expose \<Rightarrow> (status, expose) | _ \<Rightarrow> (500, True))"

definition endpointStatus :: "(jsError, 'a) outcome \<Rightarrow> (int \<times> bool) option" where
  "endpointStatus r = (case r of
      Returns _ \<Rightarrow> Some (200, True) | Throws e \<Rightarrow> Some (handleRestEndpointException e) | Pending \<Rightarrow> None)"

end
