(* ===== verification/Bungee_Plugin.thy ===== *)
theory Bungee_Plugin
  imports Bungee_Merge JS_Async
begin

text \<open>
  \<open>PluginBungeeHermes\<close> (\<open>plugin-bungee-hermes.ts\<close>): construction, strategies, generating, processing
  and merging views, the verification of signatures and Merkle roots, and the six endpoints of
  \<open>web-services/\<close> with the exception handler of the core package.

  Strategies talk to ledger connectors and run in a world \<open>'w\<close>. Identifiers drawn by \<open>uuidV4\<close> are
  arguments. \<open>bl_policySource\<close> is the text of a policy function, which the code hashes.
\<close>

section \<open>The plugin\<close>

record bungeeLib =
  bl_crypto :: crypto
  bl_merkle :: merkle
  bl_policySource :: "string \<Rightarrow> string"

type_synonym 'w strategy = "string list \<Rightarrow> json \<Rightarrow> ('w, jsError, (jsv, State) jsmap) act"

record 'w PluginBungeeHermes =
  bp_instanceId :: string
  bp_privKeyBungee :: string
  bp_pubKeyBungee :: string
  bp_bungeeSigner :: JsObjectSigner
  bp_strategies :: "(string, 'w strategy) jsmap"

record IKeyPair =
  kp_publicKey :: "byte list"
  kp_privateKey :: "byte list"

text \<open>\<open>generated\<close> is the pair that \<open>Secp256k1Keys.generateKeyPairsBuffer()\<close> would return.\<close>

definition newPluginBungeeHermes :: "string \<Rightarrow> IKeyPair option \<Rightarrow> IKeyPair \<Rightarrow> 'w PluginBungeeHermes result" where
  "newPluginBungeeHermes instanceId given generated =
    (if instanceId = ''''
     then Inl (ErrorMsg (CHR 0x22 # ''PluginBungeeHermes#constructor() options.instanceId''
            @ CHR 0x22 # '' is falsy, need a truthy value.''))
     else
       let kp = (case given of Some k \<Rightarrow> k | None \<Rightarrow> generated);
           priv = bufArray2HexStr (kp_privateKey kp)
       in case newJsObjectSigner (KeyText priv) None None None of
            None \<Rightarrow> Inl LibraryError
          | Some sg \<Rightarrow> Inr \<lparr>bp_instanceId = instanceId, bp_privKeyBungee = priv,
              bp_pubKeyBungee = bufArray2HexStr (kp_publicKey kp), bp_bungeeSigner = sg, bp_strategies = []\<rparr>)"

definition addStrategy :: "string \<Rightarrow> 'w strategy \<Rightarrow> 'w PluginBungeeHermes \<Rightarrow> 'w PluginBungeeHermes result" where
  "addStrategy i f b = (if map_of (bp_strategies b) i = None
     then Inr (b\<lparr>bp_strategies := mapSet i f (bp_strategies b)\<rparr>)
     else Inl (ErrorMsg (''Strategy '' @ i @ '' already exists.'')))"

definition getStrategy :: "string \<Rightarrow> 'w PluginBungeeHermes \<Rightarrow> 'w strategy option" where
  "getStrategy i b = map_of (bp_strategies b) i"

definition getAvailableStrategies :: "'w PluginBungeeHermes \<Rightarrow> string list" where
  "getAvailableStrategies b = mapKeys (bp_strategies b)"

definition signB :: "bungeeLib \<Rightarrow> 'w PluginBungeeHermes \<Rightarrow> string \<Rightarrow> string result" where
  "signB L b msg = (case signMsg (bl_crypto L) (bp_bungeeSigner b) (JStr msg) of
      None \<Rightarrow> Inl LibraryError | Some sig \<Rightarrow> Inr (bufArray2HexStr sig))"

definition verifyViewSignature :: "bungeeLib \<Rightarrow> 'w PluginBungeeHermes \<Rightarrow> jsv \<Rightarrow> json \<Rightarrow> jsv \<Rightarrow> bool result" where
  "verifyViewSignature L b signature view pubKey =
    bindR (bufferFromHex signature) (\<lambda>sig. bindR (bufferFromHex pubKey) (\<lambda>pub.
    case verifyMsg (bl_crypto L) (bp_bungeeSigner b) view sig pub of
      None \<Rightarrow> Inl LibraryError | Some r \<Rightarrow> Inr r))"

definition verifyMerkleProof :: "bungeeLib \<Rightarrow> string list \<Rightarrow> string \<Rightarrow> bool" where
  "verifyMerkleProof L input root \<longleftrightarrow> bufArray2HexStr (bl_merkle L input) = root"

section \<open>Creating a view\<close>

text \<open>The participant is a property of the network details, which the request schema requires to be an object.\<close>

definition generateSnapshot ::
  "string \<Rightarrow> 'w PluginBungeeHermes \<Rightarrow> string list \<Rightarrow> string \<Rightarrow> json \<Rightarrow> ('w, jsError, Snapshot) act" where
  "generateSnapshot uuid b stateIds strategyId networkDetails = (case getStrategy strategyId b of
      None \<Rightarrow> throwE (ErrorMsg (''Strategy '' @ strategyId @ '' is undefined/unsupported''))
    | Some f \<Rightarrow> bindA (f stateIds networkDetails) (\<lambda>ledgerStates.
        let states = map snd (filter (\<lambda>(k, _). k \<in> set (map (Some \<circ> JStr) stateIds) \<or> stateIds = []) ledgerStates) in
        bindA (liftR (jprop ''participant'' (Some networkDetails))) (\<lambda>participant.
        ret (update_TI_TF (newSnapshot (Some (JStr uuid)) participant states)))))"

text \<open>
  Nothing is generated when the frame misses the snapshot. The snapshot of the new view is pruned
  once more after the constructor has pruned it and computed the proof.
\<close>

definition generateView ::
  "bungeeLib \<Rightarrow> string \<Rightarrow> 'w PluginBungeeHermes \<Rightarrow> Snapshot \<Rightarrow> string \<Rightarrow> string \<Rightarrow> jsv \<Rightarrow> (View \<times> string) option result" where
  "generateView L uuid b snapshot tI tF i =
    bindR (bigInt (Some (JStr tI))) (\<lambda>lo. bindR (bigInt (Some (JStr (sn_tF snapshot)))) (\<lambda>stf.
    if stf < lo then Inr None
    else bindR (bigInt (Some (JStr tF))) (\<lambda>hi. bindR (bigInt (Some (JStr (sn_tI snapshot)))) (\<lambda>sti.
      if hi < sti \<or> hi < lo then Inr None
      else bindR (newView (bl_merkle L) uuid (Some (JStr (bp_pubKeyBungee b))) (Some (JStr tI)) (Some (JStr tF)) snapshot i) (\<lambda>view.
        bindR (pruneStates (Some (JStr tI)) (Some (JStr tF)) (vw_snapshot view)) (\<lambda>s.
        let view' = view\<lparr>vw_snapshot := s\<rparr> in
        bindR (signB L b (stringify (viewToJson view'))) (\<lambda>sig. Inr (Some (view', sig)))))))))"

record CreateViewRequest =
  cv_stateIds :: "string list option"
  cv_tI :: "string option"
  cv_tF :: "string option"
  cv_viewID :: "string option"
  cv_strategyId :: string
  cv_networkDetails :: json

record CreateViewResponse =
  vr_view :: "string option"
  vr_signature :: "string option"

text \<open>\<open>x ? x : d\<close>\<close>

definition orDefault :: "string option \<Rightarrow> string \<Rightarrow> string" where
  "orDefault x d = (case x of Some s \<Rightarrow> if s = '''' then d else s | None \<Rightarrow> d)"

definition onCreateView ::
  "bungeeLib \<Rightarrow> string \<Rightarrow> string \<Rightarrow> 'w PluginBungeeHermes \<Rightarrow> CreateViewRequest \<Rightarrow> ('w, jsError, CreateViewResponse) act" where
  "onCreateView L uuidS uuidV b req =
    (let ti = orDefault (cv_tI req) ''0'';
         tf = orDefault (cv_tF req) (intToString maxSafeInteger);
         stateIds = (case cv_stateIds req of None \<Rightarrow> [] | Some xs \<Rightarrow> xs)
     in bindA (generateSnapshot uuidS b stateIds (cv_strategyId req) (cv_networkDetails req)) (\<lambda>snapshot.
        bindA (liftR (generateView L uuidV b snapshot ti tf (map_option JStr (cv_viewID req)))) (\<lambda>r.
        ret (case r of
            None \<Rightarrow> \<lparr>vr_view = None, vr_signature = None\<rparr>
          | Some (v, sig) \<Rightarrow> \<lparr>vr_view = Some (stringify (viewToJson v)), vr_signature = Some sig\<rparr>))))"

section \<open>Processing a view\<close>

definition setPrivacyPolicy :: "bungeeLib \<Rightarrow> string \<Rightarrow> View \<Rightarrow> View" where
  "setPrivacyPolicy L policy v = v\<lparr>vw_policy := Some (JObj [(''policy'', JStr policy),
     (''policyHash'', JStr (dataHash (bl_crypto L) (JStr (bl_policySource L policy))))])\<rparr>"

definition processView :: "bungeeLib \<Rightarrow> View \<Rightarrow> string \<Rightarrow> string list \<Rightarrow> View" where
  "processView L v policy args = (case getPrivacyPolicy policy of
      None \<Rightarrow> v
    | Some f \<Rightarrow> updateViewProof (bl_merkle L) (setPrivacyPolicy L policy (f v args)))"

record ProcessViewRequest =
  pv_serializedView :: string
  pv_policyId :: string
  pv_policyArguments :: "string list"

definition invalidSignature :: jsError where
  "invalidSignature = ErrorMsg ''At least one of they views does not include a valid signature''"

text \<open>The creator the text of a view names, with the text itself and the signature beside it.\<close>

definition signedParts :: "string \<Rightarrow> (jsv \<times> json \<times> jsv) result" where
  "signedParts serialized =
    bindR (parseJ (Some (JStr serialized))) (\<lambda>parsed.
    bindR (jprop ''signature'' (Some parsed)) (\<lambda>sig.
    bindR (jprop ''view'' (Some parsed)) (\<lambda>view.
    bindR (parseJ view) (\<lambda>inner.
    bindR (jprop ''creator'' (Some inner)) (\<lambda>creator.
    Inr (sig, the view, creator))))))"

definition onProcessView ::
  "bungeeLib \<Rightarrow> string \<Rightarrow> string \<Rightarrow> 'w PluginBungeeHermes \<Rightarrow> ProcessViewRequest \<Rightarrow> CreateViewResponse result" where
  "onProcessView L uuidD uuidN b req =
    bindR (deserializeView (bl_merkle L) uuidD (pv_serializedView req)) (\<lambda>view.
    bindR (signedParts (pv_serializedView req)) (\<lambda>(sig, text, creator).
    if isNullish sig then Inl (ErrorMsg ''Provided view does not include signature.'')
    else bindR (verifyViewSignature L b sig text creator) (\<lambda>ok.
      if \<not> ok then Inl invalidSignature
      else
        let prev = viewMetadata view sig;
            view' = (addPrevVersionMetadata prev (processView L view (pv_policyId req) (pv_policyArguments req)))
              \<lparr>vw_creator := Some (JStr (bp_pubKeyBungee b)), vw_key := Some (JStr uuidN)\<rparr>;
            text' = stringify (viewToJson view')
        in bindR (signB L b text') (\<lambda>s. Inr \<lparr>vr_view = Some text', vr_signature = Some s\<rparr>))))"

section \<open>Merging views\<close>

text \<open>The views are different objects, so that \<open>views.indexOf(view)\<close> is the position of the loop.\<close>

definition withSignatures :: "View list \<Rightarrow> jsv list \<Rightarrow> (View \<times> jsv) list" where
  "withSignatures views sigs =
    map (\<lambda>i. (views ! i, if i < length sigs then sigs ! i else None)) [0..<length views]"

definition mergeViews ::
  "bungeeLib \<Rightarrow> string \<Rightarrow> 'w PluginBungeeHermes \<Rightarrow> View list \<Rightarrow> jsv list \<Rightarrow> string \<Rightarrow> string list \<Rightarrow> (IntegratedView \<times> string) result" where
  "mergeViews L uuid b views sigs privacyPolicy args =
    (let policy = getMergePolicy privacyPolicy;
         hash = (case policy of None \<Rightarrow> None
                 | Some _ \<Rightarrow> Some (dataHash (bl_crypto L) (JStr (bl_policySource L privacyPolicy))));
         iv0 = newIntegratedView (bl_merkle L) uuid privacyPolicy hash
     in bindR (foldR mergeView iv0 (withSignatures views sigs)) (\<lambda>iv.
        let iv1 = (case policy of None \<Rightarrow> iv | Some f \<Rightarrow> f iv args);
            iv2 = setIntegratedViewProof (bl_merkle L) iv1
        in bindR (signB L b (stringify (integratedViewToJson iv2))) (\<lambda>s. Inr (iv2, s))))"

record MergeViewsRequest =
  mv_serializedViews :: "string list"
  mv_mergePolicy :: string
  mv_policyArguments :: "string list option"

record MergeViewsResponse =
  mr_integratedView :: string
  mr_signature :: string

text \<open>\<open>uuids i\<close> is the identifier drawn for the \<open>i\<close>-th view, if it needs one.\<close>

definition acceptView :: "bungeeLib \<Rightarrow> 'w PluginBungeeHermes \<Rightarrow> string \<times> string \<Rightarrow> (View \<times> jsv) result" where
  "acceptView L b = (\<lambda>(uuid, serialized).
    bindR (signedParts serialized) (\<lambda>(sig, text, creator).
    bindR (verifyViewSignature L b sig text creator) (\<lambda>ok.
    if \<not> ok then Inl invalidSignature
    else bindR (deserializeView (bl_merkle L) uuid serialized) (\<lambda>view. Inr (view, sig)))))"

definition onMergeViews ::
  "bungeeLib \<Rightarrow> (nat \<Rightarrow> string) \<Rightarrow> string \<Rightarrow> 'w PluginBungeeHermes \<Rightarrow> MergeViewsRequest \<Rightarrow> MergeViewsResponse result" where
  "onMergeViews L uuids uuid b req =
    (let texts = mv_serializedViews req in
     if length texts \<le> 1 then Inl (ErrorMsg ''Must provide more than 1 view'')
     else bindR (mapR (acceptView L b) (zip (map uuids [0..<length texts]) texts)) (\<lambda>accepted.
       bindR (mergeViews L uuid b (map fst accepted) (map snd accepted) (mv_mergePolicy req)
           (case mv_policyArguments req of None \<Rightarrow> [] | Some xs \<Rightarrow> xs)) (\<lambda>(iv, s).
       Inr \<lparr>mr_integratedView = stringify (JObj [(''integratedView'', integratedViewToJson iv), (''signature'', JStr s)]),
            mr_signature = s\<rparr>)))"

section \<open>Endpoints\<close>

definition createViewEndpoint where
  "createViewEndpoint L u v b req w = (case onCreateView L u v b req w of (r, w') \<Rightarrow> (endpointStatus r, w'))"

definition processViewEndpoint where
  "processViewEndpoint L u v b req = (case onProcessView L u v b req of
      Inl e \<Rightarrow> (handleRestEndpointException e, None) | Inr r \<Rightarrow> ((200, True), Some r))"

definition mergeViewsEndpoint where
  "mergeViewsEndpoint L us u b req = (case onMergeViews L us u b req of
      Inl e \<Rightarrow> (handleRestEndpointException e, None) | Inr r \<Rightarrow> ((200, True), Some r))"

definition verifyMerkleRootEndpoint :: "bungeeLib \<Rightarrow> string list \<Rightarrow> string \<Rightarrow> int \<times> json" where
  "verifyMerkleRootEndpoint L input root = (200, JObj [(''result'', JBool (verifyMerkleProof L input root))])"

definition getPublicKeyEndpoint :: "'w PluginBungeeHermes \<Rightarrow> int \<times> json" where
  "getPublicKeyEndpoint b = (200, JStr (bp_pubKeyBungee b))"

definition getAvailableStrategiesEndpoint :: "'w PluginBungeeHermes \<Rightarrow> int \<times> json" where
  "getAvailableStrategiesEndpoint b = (200, strsToJson (getAvailableStrategies b))"

end
