(* ===== verification/Bungee_Prune.thy ===== *)
theory Bungee_Prune
  imports Bungee_Plugin
begin

text \<open>
  What pruning a state to a time frame does: the loop over the shrinking array is equal to a
  structural recursion that, after a transaction it removes, keeps the next one without looking at
  it. Transactions inside the frame always stay, in their order, together with their values; of
  those outside at most half stay, and none exactly when no two of them are neighbours.
\<close>

section \<open>The loop\<close>

definition timed :: "Transaction \<Rightarrow> bool" where
  "timed t \<longleftrightarrow> (\<exists>n. bigInt (tx_timeStamp t) = Inr n)"

definition timeOf :: "Transaction \<Rightarrow> int" where
  "timeOf t = (case bigInt (tx_timeStamp t) of Inr n \<Rightarrow> n | Inl _ \<Rightarrow> 0)"

definition outside :: "int \<Rightarrow> int \<Rightarrow> Transaction \<Rightarrow> bool" where
  "outside lo hi t \<longleftrightarrow> timeOf t < lo \<or> hi < timeOf t"

lemma timed_bigInt: "timed t \<Longrightarrow> bigInt (tx_timeStamp t) = Inr (timeOf t)"
  by (auto simp: timed_def timeOf_def)

text \<open>A state whose values and transactions belong together.\<close>

definition aligned :: "State \<Rightarrow> bool" where
  "aligned s \<longleftrightarrow> (\<forall>t \<in> set (st_transactions s). timed t)
     \<and> (case st_values s of Some (JArr vs) \<Rightarrow> length vs = length (st_transactions s) | _ \<Rightarrow> False)"

definition valuesOf :: "State \<Rightarrow> json list" where
  "valuesOf s = (case st_values s of Some (JArr vs) \<Rightarrow> vs | _ \<Rightarrow> [])"

lemma alignedD:
  assumes "aligned s"
  shows "\<forall>t \<in> set (st_transactions s). timed t" "st_values s = Some (JArr (valuesOf s))"
    "length (valuesOf s) = length (st_transactions s)"
  using assms by (auto simp: aligned_def valuesOf_def split: option.splits json.splits)

text \<open>The pairs of a transaction and its value.\<close>

definition history :: "State \<Rightarrow> (Transaction \<times> json) list" where
  "history s = zip (st_transactions s) (valuesOf s)"

definition withHistory :: "(Transaction \<times> json) list \<Rightarrow> State \<Rightarrow> State" where
  "withHistory h s = s\<lparr>st_transactions := map fst h, st_values := Some (JArr (map snd h))\<rparr>"

lemma withHistory_simps [simp]:
  "st_transactions (withHistory h s) = map fst h" "valuesOf (withHistory h s) = map snd h"
  "history (withHistory h s) = h" "st_id (withHistory h s) = st_id s"
  "st_version (withHistory h s) = st_version s" "st_stateProof (withHistory h s) = st_stateProof s"
  by (simp_all add: withHistory_def valuesOf_def history_def zip_map_fst_snd)

lemma withHistory_history: "aligned s \<Longrightarrow> withHistory (history s) s = s"
  using alignedD [of s] by (simp add: withHistory_def history_def)

lemma history_fst: "aligned s \<Longrightarrow> map fst (history s) = st_transactions s"
  using alignedD(3) [of s] by (simp add: history_def)

lemma pruneFrom_past_end: "length txs \<le> i \<Longrightarrow> pruneFrom lo hi n i (txs, v) = Inr (txs, v)"
  by (induction n arbitrary: i) simp_all

lemma pruneFrom_skips:
  assumes "length h \<le> n" "i = length pre" "\<forall>p \<in> set h. timed (fst p)"
  shows "pruneFrom lo hi n i (map fst (pre @ h), Some (JArr (map snd (pre @ h))))
    = Inr (map fst (pre @ skipOut (outside lo hi \<circ> fst) h), Some (JArr (map snd (pre @ skipOut (outside lo hi \<circ> fst) h))))"
  using assms
proof (induction "outside lo hi \<circ> (fst :: Transaction \<times> json \<Rightarrow> Transaction)" h arbitrary: n i pre rule: skipOut.induct)
  case 1
  then show ?case by (simp add: pruneFrom_past_end)
next
  case (2 x)
  then obtain m where n: "n = Suc m" by (cases n) auto
  have "bigInt (tx_timeStamp (fst x)) = Inr (timeOf (fst x))" using 2 by (simp add: timed_bigInt)
  then show ?case using n 2
    by (auto simp: nth_append outside_def spliceValues_def spliceAt_middle pruneFrom_past_end)
next
  case (3 x y ys)
  then obtain m where n: "n = Suc m" by (cases n) auto
  have x: "bigInt (tx_timeStamp (fst x)) = Inr (timeOf (fst x))" using 3 by (simp add: timed_bigInt)
  show ?case
  proof (cases "outside lo hi (fst x)")
    case True
    have "pruneFrom lo hi m (Suc i) (map fst ((pre @ [y]) @ ys), Some (JArr (map snd ((pre @ [y]) @ ys))))
      = Inr (map fst ((pre @ [y]) @ skipOut (outside lo hi \<circ> fst) ys),
             Some (JArr (map snd ((pre @ [y]) @ skipOut (outside lo hi \<circ> fst) ys))))"
      using 3 n True by (intro 3(1)) auto
    with True x n 3(4) show ?thesis
      by (auto simp: nth_append outside_def spliceValues_def spliceAt_middle)
  next
    case False
    have "pruneFrom lo hi m (Suc i) (map fst ((pre @ [x]) @ (y # ys)), Some (JArr (map snd ((pre @ [x]) @ (y # ys)))))
      = Inr (map fst ((pre @ [x]) @ skipOut (outside lo hi \<circ> fst) (y # ys)),
             Some (JArr (map snd ((pre @ [x]) @ skipOut (outside lo hi \<circ> fst) (y # ys)))))"
      using 3 n False by (intro 3(2)) auto
    with False x n 3(4) show ?thesis by (auto simp: nth_append outside_def)
  qed
qed

text \<open>What \<open>pruneState\<close> returns, for a frame given as numbers.\<close>

definition prunedTo :: "int \<Rightarrow> int \<Rightarrow> State \<Rightarrow> State" where
  "prunedTo lo hi s = withHistory (skipOut (outside lo hi \<circ> fst) (history s)) s"

lemma pruneState_prunedTo:
  assumes "aligned s" "bigInt tI = Inr lo" "bigInt tF = Inr hi"
  shows "pruneState tI tF s = Inr (prunedTo lo hi s)"
proof -
  note a = alignedD [OF assms(1)]
  have f: "map fst (history s) = st_transactions s" "map snd (history s) = valuesOf s"
    using a(3) by (simp_all add: history_def)
  have t: "\<forall>p \<in> set (history s). timed (fst p)"
    using a(1) by (auto simp: history_def dest: set_zip_leftD)
  have "pruneFrom lo hi (length (st_transactions s)) 0 (st_transactions s, st_values s)
      = Inr (map fst (skipOut (outside lo hi \<circ> fst) (history s)),
             Some (JArr (map snd (skipOut (outside lo hi \<circ> fst) (history s)))))"
    using pruneFrom_skips [of "history s" "length (st_transactions s)" 0 "[]" lo hi] a(2,3) f t
    by (simp add: history_def)
  with assms show ?thesis by (simp add: pruneState_def prunedTo_def withHistory_def)
qed

lemma aligned_prunedTo: "aligned s \<Longrightarrow> aligned (prunedTo lo hi s)"
proof -
  assume a: "aligned s"
  have "\<forall>p \<in> set (skipOut (outside lo hi \<circ> fst) (history s)). timed (fst p)"
    using skipOut_set [of "outside lo hi \<circ> fst" "history s"] alignedD(1) [OF a]
    by (auto simp: history_def dest!: subsetD dest: set_zip_leftD)
  then show ?thesis by (auto simp: aligned_def prunedTo_def withHistory_def)
qed

lemma prunedTo_transactions:
  "aligned s \<Longrightarrow> st_transactions (prunedTo lo hi s) = skipOut (outside lo hi) (st_transactions s)"
  by (simp add: prunedTo_def skipOut_map [symmetric] history_fst)

lemma prunedTo_simps [simp]:
  "st_id (prunedTo lo hi s) = st_id s" "st_version (prunedTo lo hi s) = st_version s"
  "st_stateProof (prunedTo lo hi s) = st_stateProof s"
  by (simp_all add: prunedTo_def)

section \<open>Snapshots\<close>

definition prunedSnapshot :: "int \<Rightarrow> int \<Rightarrow> Snapshot \<Rightarrow> Snapshot" where
  "prunedSnapshot lo hi s = s\<lparr>sn_stateBins := map (prunedTo lo hi) (sn_stateBins s)\<rparr>"

definition alignedBins :: "Snapshot \<Rightarrow> bool" where
  "alignedBins s \<longleftrightarrow> (\<forall>b \<in> set (sn_stateBins s). aligned b)"

lemma prunedSnapshot_simps [simp]:
  "sn_stateBins (prunedSnapshot lo hi s) = map (prunedTo lo hi) (sn_stateBins s)"
  "sn_tI (prunedSnapshot lo hi s) = sn_tI s" "sn_tF (prunedSnapshot lo hi s) = sn_tF s"
  "sn_id (prunedSnapshot lo hi s) = sn_id s" "sn_participant (prunedSnapshot lo hi s) = sn_participant s"
  by (simp_all add: prunedSnapshot_def)

lemma alignedBins_pruned: "alignedBins s \<Longrightarrow> alignedBins (prunedSnapshot lo hi s)"
  by (auto simp: alignedBins_def aligned_prunedTo)

lemma pruneStates_prunedSnapshot:
  assumes "alignedBins s" "bigInt tI = Inr lo" "bigInt tF = Inr hi"
  shows "pruneStates tI tF s = Inr (prunedSnapshot lo hi s)"
proof -
  have "mapR (pruneState tI tF) (sn_stateBins s) = Inr (map (prunedTo lo hi) (sn_stateBins s))"
    using assms by (intro mapR_Inr pruneState_prunedTo) (auto simp: alignedBins_def)
  then show ?thesis by (simp add: pruneStates_def prunedSnapshot_def)
qed

text \<open>When pruning is exact once, a second time changes nothing.\<close>

lemma prunedTo_stable:
  assumes "aligned s" "\<not> twoInARow (outside lo hi) (st_transactions s)"
  shows "prunedTo lo hi (prunedTo lo hi s) = prunedTo lo hi s"
proof -
  let ?o = "outside lo hi \<circ> fst" and ?h = "history s"
  have "\<not> twoInARow ?o ?h"
    using assms twoInARow_map [of "outside lo hi" fst ?h] by (simp add: history_fst)
  then have "skipOut ?o ?h = filter (\<lambda>x. \<not> ?o x) ?h" using skipOut_exact [of ?o ?h] by blast
  then have "skipOut ?o (skipOut ?o ?h) = skipOut ?o ?h"
    by (intro skipOut_all_inside) simp
  then show ?thesis by (simp add: prunedTo_def) (simp add: withHistory_def)
qed

end
