(* ===== verification/Bungee_Roundtrip.thy ===== *)
theory Bungee_Roundtrip
  imports Bungee_Prune
begin

text \<open>
  Reading a view back from its text. Proofs, state proofs and values come back as they were; a
  transaction loses the properties set after its construction, the version of a state becomes the
  number of its remaining transactions, and the view is pruned again before its roots are compared
  with the printed ones.
\<close>

section \<open>Objects\<close>

definition wfLeaf :: "jsv \<Rightarrow> bool" where
  "wfLeaf v = pred_option wfJson v"

definition wfProof :: "Proof \<Rightarrow> bool" where
  "wfProof p \<longleftrightarrow> truthy (Some (pf_mspid p)) \<and> truthy (Some (pf_signature p))
     \<and> wfLeaf (pf_creator p) \<and> wfJson (pf_mspid p) \<and> wfJson (pf_signature p)"

definition wfTransaction :: "Transaction \<Rightarrow> bool" where
  "wfTransaction t \<longleftrightarrow> wfProof (tp_transactionCreator (tx_proof t))
     \<and> (\<forall>e \<in> set (tp_endorsements (tx_proof t)). wfProof e)
     \<and> distinct (map fst (tx_set t)) \<and> set (map fst (tx_set t)) \<subseteq> {''stateId'', ''target'', ''payload''}
     \<and> wfLeaf (tx_id t) \<and> wfLeaf (tx_timeStamp t) \<and> wfLeaf (tp_hash (tx_proof t)) \<and> (\<forall>f \<in> set (tx_set t). wfLeaf (snd f))"

definition wfStateProof :: "StateProof \<Rightarrow> bool" where
  "wfStateProof p \<longleftrightarrow> (\<forall>b \<in> set (sp_blocks p). wfJson b)
     \<and> wfLeaf (sp_value p) \<and> wfLeaf (sp_version p) \<and> wfLeaf (sp_stateID p)"

definition wfState :: "State \<Rightarrow> bool" where
  "wfState s \<longleftrightarrow> aligned s \<and> (\<forall>t \<in> set (st_transactions s). wfTransaction t)
     \<and> (\<forall>p \<in> set (st_stateProof s). wfStateProof p) \<and> wfLeaf (st_id s) \<and> wfLeaf (st_values s)"

definition wfSnapshot :: "Snapshot \<Rightarrow> bool" where
  "wfSnapshot s \<longleftrightarrow> (\<forall>b \<in> set (sn_stateBins s). wfState b) \<and> wfLeaf (sn_id s) \<and> wfLeaf (sn_participant s)"

definition plain :: "Transaction \<Rightarrow> Transaction" where
  "plain t = t\<lparr>tx_set := []\<rparr>"

definition reread :: "State \<Rightarrow> State" where
  "reread s = s\<lparr>st_version := length (st_transactions s), st_transactions := map plain (st_transactions s)\<rparr>"

lemma orUndefinedText_truthy: "truthy (Some (orUndefinedText v))"
  by (cases v) (simp_all add: orUndefinedText_def, simp_all add: truthy_def)

lemma wfLeaf_simps [simp]: "wfLeaf None" "wfLeaf (Some j) \<longleftrightarrow> wfJson j"
  by (simp_all add: wfLeaf_def)

lemma orUndefinedText_wf: "wfLeaf v \<Longrightarrow> wfJson (orUndefinedText v)"
  by (cases v) (auto simp: orUndefinedText_def truthy_def)

lemma wfProof_newProof [simp]: "wfLeaf c \<Longrightarrow> wfLeaf m \<Longrightarrow> wfLeaf s \<Longrightarrow> wfProof (newProof c m s)"
  by (simp add: wfProof_def newProof_def orUndefinedText_truthy orUndefinedText_wf)

lemma jprop_optFields:
  "distinct (map fst fs) \<Longrightarrow> jprop k (Some (JObj (optFields fs))) = Inr (case map_of fs k of Some v \<Rightarrow> v | None \<Rightarrow> None)"
  by (simp add: map_of_optFields)

lemma proofOf_proofToJson: "wfProof p \<Longrightarrow> proofOf (Some (proofToJson p)) = Inr p"
  by (cases p) (simp add: proofOf_def proofToJson_def map_of_optFields newProof_def wfProof_def orUndefinedText_def)

lemma addEndorsers_back:
  "\<forall>e \<in> set es. wfProof e \<Longrightarrow>
    foldR (\<lambda>u e. bindR (proofOf (Some e)) (\<lambda>q. Inr (addEndorser q u))) t (map proofToJson es)
    = Inr (t\<lparr>tx_proof := (tx_proof t)\<lparr>tp_endorsements := tp_endorsements (tx_proof t) @ es\<rparr>\<rparr>)"
  by (induction es arbitrary: t) (simp_all add: proofOf_proofToJson addEndorser_def)

lemma transactionOf_transactionToJson:
  assumes "wfTransaction t"
  shows "transactionOf (transactionToJson t) = Inr (plain t)"
proof -
  let ?fs = "[(''id'', tx_id t), (''timeStamp'', tx_timeStamp t),
     (''proof'', Some (transactionProofToJson (tx_proof t)))] @ tx_set t"
  have d: "distinct (map fst ?fs)" using assms by (auto simp: wfTransaction_def)
  have j: "jprop k (Some (transactionToJson t)) = Inr (case map_of ?fs k of Some v \<Rightarrow> v | None \<Rightarrow> None)" for k
    using jprop_optFields [OF d] by (simp add: transactionToJson_def)
  have e: "isNullish (Some (JArr xs)) = False" for xs by (simp add: isNullish_def)
  have eq: "plain t = \<lparr>tx_id = tx_id t, tx_timeStamp = tx_timeStamp t, tx_proof = \<lparr>
      tp_endorsements = tp_endorsements (tx_proof t), tp_transactionCreator = tp_transactionCreator (tx_proof t),
      tp_hash = tp_hash (tx_proof t)\<rparr>, tx_set = []\<rparr>"
    by (simp add: plain_def)
  show ?thesis using assms
    by (simp add: transactionOf_def j transactionProofToJson_def map_of_optFields wfTransaction_def e
        proofOf_proofToJson addEndorsers_back newTransaction_def newTransactionProof_def eq)
qed

lemma addBlocks_back: "foldl (\<lambda>q b. addBlock b q) p bs = p\<lparr>sp_blocks := sp_blocks p @ bs\<rparr>"
  by (induction bs arbitrary: p) (simp_all add: addBlock_def)

lemma stateProofOf_stateProofToJson: "stateProofOf (stateProofToJson p) = Inr p"
  by (cases p) (simp add: stateProofOf_def stateProofToJson_def map_of_optFields addBlocks_back newStateProof_def)

lemma stateOf_stateToJson:
  assumes "\<forall>t \<in> set (st_transactions s). wfTransaction t"
  shows "stateOf (stateToJson s) = Inr (reread s)"
proof -
  have "mapR transactionOf (map transactionToJson (st_transactions s)) = Inr (map plain (st_transactions s))"
    using mapR_Inr [of "st_transactions s" "transactionOf \<circ> transactionToJson" plain] assms
    by (simp add: transactionOf_transactionToJson mapR_map)
  moreover have "mapR stateProofOf (map stateProofToJson (st_stateProof s)) = Inr (st_stateProof s)"
    using mapR_Inr [of "st_stateProof s" "stateProofOf \<circ> stateProofToJson" "\<lambda>x. x"]
    by (simp add: stateProofOf_stateProofToJson mapR_map)
  ultimately show ?thesis
    by (cases s) (simp add: stateOf_def stateToJson_def map_of_optFields newState_def setStateProof_def reread_def)
qed

section \<open>Printed objects have no property twice\<close>

lemma wfJson_proof: "wfProof p \<Longrightarrow> wfJson (proofToJson p)"
  unfolding proofToJson_def by (rule wfJson_optFields) (auto simp: wfProof_def wfLeaf_def)

lemma wfJson_transactionProof:
  "wfProof (tp_transactionCreator p) \<Longrightarrow> \<forall>e \<in> set (tp_endorsements p). wfProof e \<Longrightarrow> wfLeaf (tp_hash p) \<Longrightarrow>
    wfJson (transactionProofToJson p)"
  unfolding transactionProofToJson_def by (rule wfJson_optFields) (auto simp: wfJson_proof wfLeaf_def)

lemma wfJson_transaction: "wfTransaction t \<Longrightarrow> wfJson (transactionToJson t)"
  unfolding transactionToJson_def
  by (rule wfJson_optFields) (auto simp: wfTransaction_def wfJson_transactionProof wfLeaf_def)

lemma wfJson_stateProof: "wfStateProof p \<Longrightarrow> wfJson (stateProofToJson p)"
  unfolding stateProofToJson_def by (rule wfJson_optFields) (auto simp: wfStateProof_def wfLeaf_def)

lemma wfJson_state: "wfState s \<Longrightarrow> wfJson (stateToJson s)"
  unfolding stateToJson_def
  by (rule wfJson_optFields) (auto simp: wfState_def wfJson_stateProof wfJson_transaction wfLeaf_def)

lemma wfJson_snapshot: "wfSnapshot s \<Longrightarrow> wfJson (snapshotToJson s)"
  unfolding snapshotToJson_def
  by (rule wfJson_optFields) (auto simp: wfSnapshot_def wfJson_state wfLeaf_def)

lemma wfJson_view:
  "wfSnapshot (vw_snapshot v) \<Longrightarrow> \<forall>m \<in> set (vw_oldVersionsMetadata v). wfJson m \<Longrightarrow> wfLeaf (vw_creator v) \<Longrightarrow> wfLeaf (vw_key v) \<Longrightarrow>
    wfLeaf (vw_tI v) \<Longrightarrow> wfLeaf (vw_tF v) \<Longrightarrow> wfLeaf (vw_participant v) \<Longrightarrow> wfLeaf (vw_policy v) \<Longrightarrow> wfJson (viewToJson v)"
  unfolding viewToJson_def
  by (rule wfJson_optFields) (auto simp: wfJson_snapshot viewProofToJson_def wfLeaf_def)

lemma wfState_prunedTo:
  assumes "wfState s"
  shows "wfState (prunedTo lo hi s)"
proof -
  let ?h = "skipOut (outside lo hi \<circ> fst) (history s)"
  have a: "aligned s" using assms by (simp add: wfState_def)
  have "\<forall>p \<in> set ?h. fst p \<in> set (st_transactions s) \<and> snd p \<in> set (valuesOf s)"
    using skipOut_set [of "outside lo hi \<circ> fst" "history s"] by (auto simp: history_def dest!: subsetD dest: set_zip_leftD set_zip_rightD)
  moreover have "wfJson (JArr (valuesOf s))" using assms alignedD(2) [OF a] by (simp add: wfState_def)
  ultimately show ?thesis using assms aligned_prunedTo [OF a, of lo hi]
    by (auto simp: wfState_def prunedTo_def) (auto simp: withHistory_def)
qed

lemma wfSnapshot_pruned: "wfSnapshot s \<Longrightarrow> wfSnapshot (prunedSnapshot lo hi s)"
  by (auto simp: wfSnapshot_def wfState_prunedTo)

lemma wfSnapshot_aligned: "wfSnapshot s \<Longrightarrow> alignedBins s"
  by (simp add: wfSnapshot_def wfState_def alignedBins_def)

section \<open>Views\<close>

definition rereadSnapshot :: "Snapshot \<Rightarrow> Snapshot" where
  "rereadSnapshot s = update_TI_TF (newSnapshot (sn_id s) (sn_participant s) (map reread (sn_stateBins s)))"

text \<open>The view that is built from the text of \<open>v\<close>, before its roots are compared.\<close>

definition rereadView :: "merkle \<Rightarrow> string \<Rightarrow> int \<Rightarrow> int \<Rightarrow> View \<Rightarrow> View" where
  "rereadView root uuid lo hi v = (let s = prunedSnapshot lo hi (rereadSnapshot (vw_snapshot v)) in
     v\<lparr>vw_key := (if truthy (vw_key v) then vw_key v else Some (JStr uuid)), vw_snapshot := s,
       vw_participant := sn_participant (vw_snapshot v), vw_viewProof := generateViewProof root s\<rparr>)"

lemma addMetadata_back:
  "foldl (\<lambda>u m. addPrevVersionMetadata m u) v ms = v\<lparr>vw_oldVersionsMetadata := vw_oldVersionsMetadata v @ ms\<rparr>"
  by (induction ms arbitrary: v) (simp_all add: addPrevVersionMetadata_def)

lemma aligned_reread: "aligned s \<Longrightarrow> aligned (reread s)"
  by (auto simp: aligned_def reread_def plain_def timed_def split: option.splits json.splits)

lemma update_TI_TF_simps [simp]:
  "sn_stateBins (update_TI_TF s) = sn_stateBins s" "sn_id (update_TI_TF s) = sn_id s"
  "sn_participant (update_TI_TF s) = sn_participant s"
  by (simp_all add: update_TI_TF_def split: prod.split)

lemma newSnapshot_participant [simp]: "sn_participant (newSnapshot i p bins) = p"
  by (simp add: newSnapshot_def)

lemma rereadSnapshot_simps [simp]:
  "sn_stateBins (rereadSnapshot s) = map reread (sn_stateBins s)"
  "sn_participant (rereadSnapshot s) = sn_participant s" "sn_id (rereadSnapshot s) = sn_id s"
  by (simp_all add: rereadSnapshot_def newSnapshot_def)

lemma looseEqText_JStr [simp]: "looseEqText s (Some (JStr t)) \<longleftrightarrow> s = t"
  by (simp add: looseEqText_def)

lemma viewOf_viewToJson:
  fixes root :: merkle and uuid :: string
  assumes "wfSnapshot (vw_snapshot v)" "bigInt (vw_tI v) = Inr lo" "bigInt (vw_tF v) = Inr hi"
  defines "v' \<equiv> rereadView root uuid lo hi v"
  shows "viewOf root uuid (viewToJson v) =
    (if statesMerkleRoot (vw_viewProof v') \<noteq> statesMerkleRoot (vw_viewProof v)
     then Inl (ErrorMsg ''Error Parsing view. States root does not match'')
     else if transactionsMerkleRoot (vw_viewProof v') \<noteq> transactionsMerkleRoot (vw_viewProof v)
     then Inl (ErrorMsg ''Error Parsing view. Transactions root does not match'')
     else Inr v')"
proof -
  let ?sn = "vw_snapshot v"
  have bins: "mapR stateOf (map stateToJson (sn_stateBins ?sn)) = Inr (map reread (sn_stateBins ?sn))"
    using mapR_Inr [of "sn_stateBins ?sn" "stateOf \<circ> stateToJson" reread] assms(1)
    by (simp add: stateOf_stateToJson mapR_map wfSnapshot_def wfState_def)
  have "alignedBins (rereadSnapshot ?sn)"
    using assms(1) by (auto simp: alignedBins_def wfSnapshot_def wfState_def aligned_reread)
  then have pruned: "pruneStates (vw_tI v) (vw_tF v) (rereadSnapshot ?sn) = Inr (prunedSnapshot lo hi (rereadSnapshot ?sn))"
    using assms(2,3) by (rule pruneStates_prunedSnapshot)
  have eq: "v' = \<lparr>vw_oldVersionsMetadata = vw_oldVersionsMetadata v, vw_creator = vw_creator v,
      vw_key = (if truthy (vw_key v) then vw_key v else Some (JStr uuid)), vw_tI = vw_tI v, vw_tF = vw_tF v,
      vw_snapshot = prunedSnapshot lo hi (rereadSnapshot ?sn), vw_participant = sn_participant ?sn,
      vw_viewProof = generateViewProof root (prunedSnapshot lo hi (rereadSnapshot ?sn)), vw_policy = vw_policy v\<rparr>"
    by (simp add: v'_def rereadView_def Let_def)
  show ?thesis
    unfolding viewOf_def viewToJson_def snapshotToJson_def viewProofToJson_def
    by (simp add: map_of_optFields bins newView_def rereadSnapshot_def [symmetric] pruned addMetadata_back eq)
qed

text \<open>The text a created or processed view is sent as.\<close>

definition serializeView :: "string \<Rightarrow> string \<Rightarrow> string" where
  "serializeView view signature = stringify (JObj [(''view'', JStr view), (''signature'', JStr signature)])"

lemma parseJ_serializeView [simp]:
  "parseJ (Some (JStr (serializeView view sig))) = Inr (JObj [(''view'', JStr view), (''signature'', JStr sig)])"
  unfolding serializeView_def by (rule parseJ_stringify) simp

lemma deserializeView_serializeView:
  "wfJson (viewToJson v) \<Longrightarrow>
    deserializeView root uuid (serializeView (stringify (viewToJson v)) sig) = viewOf root uuid (viewToJson v)"
  by (simp add: deserializeView_def)

lemma signedParts_serializeView:
  assumes "wfJson (viewToJson v)"
  shows "signedParts (serializeView (stringify (viewToJson v)) sig)
    = Inr (Some (JStr sig), JStr (stringify (viewToJson v)), vw_creator v)"
proof -
  have "jprop ''creator'' (Some (viewToJson v)) = Inr (vw_creator v)"
    by (simp add: viewToJson_def map_of_optFields)
  with assms show ?thesis by (simp add: signedParts_def)
qed

section \<open>Roots\<close>

lemma stateLeaf_prunedTo [simp]: "stateLeaf (prunedTo lo hi s) = stateLeaf s"
  by (simp add: stateLeaf_def)

lemma stateLeaf_reread [simp]: "stateLeaf (reread s) = stateLeaf s"
  by (simp add: stateLeaf_def reread_def)

lemma transactionLeaf_plain [simp]: "transactionLeaf (plain t) = transactionLeaf t"
  by (simp add: transactionLeaf_def plain_def)

lemma outside_plain [simp]: "outside lo hi (plain t) = outside lo hi t"
  by (simp add: outside_def timeOf_def plain_def)

text \<open>Neither pruning nor rereading changes the root of the states.\<close>

lemma statesRoot_rereadView:
  "statesMerkleRoot (vw_viewProof (rereadView root uuid lo hi v)) = statesMerkleRoot (generateViewProof root (vw_snapshot v))"
  by (simp add: rereadView_def Let_def generateViewProof_def comp_def)

lemma prunedTo_reread_leaves:
  assumes "aligned s"
  shows "map transactionLeaf (st_transactions (prunedTo lo hi (reread s)))
    = map transactionLeaf (skipOut (outside lo hi) (st_transactions s))"
proof -
  have "st_transactions (prunedTo lo hi (reread s)) = skipOut (outside lo hi) (map plain (st_transactions s))"
    using prunedTo_transactions [OF aligned_reread [OF assms]] by (simp add: reread_def)
  then show ?thesis by (simp add: skipOut_map comp_def)
qed

end
