(* ===== verification/Bungee_Properties.thy ===== *)
theory Bungee_Properties
  imports Bungee_Roundtrip Scenario
begin

text \<open>
  Properties of view creation and processing: what pruning keeps, how much of what lies outside
  the frame may survive, and when the text of a created view can be read back and processed.
\<close>

section \<open>Generated views\<close>

text \<open>What a generated view is, for a snapshot whose states are in order.\<close>

lemma generateView_cases:
  assumes "generateView L uuid b sn tI tF i = Inr (Some (v, sig))" "alignedBins sn"
  obtains lo hi where
    "stringToBigInt tI = Some lo" "stringToBigInt tF = Some hi"
    "vw_snapshot v = prunedSnapshot lo hi (prunedSnapshot lo hi sn)"
    "vw_viewProof v = generateViewProof (bl_merkle L) (prunedSnapshot lo hi sn)"
    "vw_tI v = Some (JStr tI)" "vw_tF v = Some (JStr tF)" "vw_creator v = Some (JStr (bp_pubKeyBungee b))"
    "vw_oldVersionsMetadata v = []" "vw_policy v = None" "vw_participant v = sn_participant sn"
    "vw_key v = (if truthy i then i else Some (JStr uuid))"
    "signB L b (stringify (viewToJson v)) = Inr sig"
proof -
  let ?I = "Some (JStr tI)" and ?F = "Some (JStr tF)"
  from assms(1) obtain lo hi where n: "bigInt ?I = Inr lo" "bigInt ?F = Inr hi"
    unfolding generateView_def by (auto simp: bindR_Inr simp del: bigInt_simps split: if_splits)
  have p: "pruneStates ?I ?F sn = Inr (prunedSnapshot lo hi sn)"
    using assms(2) n by (rule pruneStates_prunedSnapshot)
  have q: "pruneStates ?I ?F (prunedSnapshot lo hi sn) = Inr (prunedSnapshot lo hi (prunedSnapshot lo hi sn))"
    using alignedBins_pruned [OF assms(2)] n by (rule pruneStates_prunedSnapshot)
  have s: "stringToBigInt tI = Some lo" "stringToBigInt tF = Some hi"
    using n by (auto split: option.splits)
  show ?thesis
    using assms(1) unfolding generateView_def
    by (intro that [of lo hi]) (auto simp: bindR_Inr newView_def p q s Let_def split: if_splits)
qed

text \<open>
  C13. Pruning a state to a time frame leaves what \<open>skipOut\<close> leaves of its transactions and their
  values, and nothing else of the state changes: the transactions inside the frame, in their order
  and with their values, and of those outside every one that follows a removed one, which the loop
  passes over. So exactly those outside are removed if and only if no two neighbouring transactions
  lie outside.
\<close>

theorem pruned_to_frame_iff:
  assumes "aligned s" "bigInt tI = Inr lo" "bigInt tF = Inr hi"
  shows "\<exists>s'. pruneState tI tF s = Inr s' \<and> aligned s' \<and> subseq (history s') (history s)
    \<and> s' = withHistory (skipOut (outside lo hi \<circ> fst) (history s)) s
    \<and> st_transactions s' = skipOut (outside lo hi) (st_transactions s)
    \<and> filter (\<lambda>t. \<not> outside lo hi t) (st_transactions s') = filter (\<lambda>t. \<not> outside lo hi t) (st_transactions s)
    \<and> (st_transactions s' = filter (\<lambda>t. \<not> outside lo hi t) (st_transactions s)
        \<longleftrightarrow> \<not> twoInARow (outside lo hi) (st_transactions s))"
proof (intro exI conjI)
  show "pruneState tI tF s = Inr (prunedTo lo hi s)" using assms by (rule pruneState_prunedTo)
  show "aligned (prunedTo lo hi s)" using assms(1) by (rule aligned_prunedTo)
  show "subseq (history (prunedTo lo hi s)) (history s)" by (simp add: prunedTo_def skipOut_subseq)
  show "prunedTo lo hi s = withHistory (skipOut (outside lo hi \<circ> fst) (history s)) s" by (simp add: prunedTo_def)
qed (simp_all add: prunedTo_transactions [OF assms(1)] skipOut_keeps_inside skipOut_exact)

definition demoTx :: "string \<Rightarrow> int \<Rightarrow> Transaction" where
  "demoTx i n = newTransaction (Some (JStr i)) (Some (JStr (intToString n)))
     (newTransactionProof (newProof (Some (JStr ''creator'')) None None) (Some (JStr i)))"

definition demoState :: State where
  "demoState = newState (Some (JStr ''asset'')) (Some (JArr [JStr ''v1'', JStr ''v2'', JStr ''v3'', JStr ''v4'']))
     [demoTx ''a'' 1, demoTx ''b'' 2, demoTx ''c'' 3, demoTx ''d'' 10]"

lemma demoTx_time [simp]: "bigInt (tx_timeStamp (demoTx i n)) = Inr n" "timeOf (demoTx i n) = n" "timed (demoTx i n)"
  by (simp_all add: demoTx_def newTransaction_def timeOf_def timed_def)

lemma aligned_demoState: "aligned demoState"
  by (simp add: aligned_def demoState_def newState_def)

theorem pruned_to_frame_iff_witness:
  "\<exists>s'. pruneState (Some (JStr ''5'')) (Some (JStr ''20'')) demoState = Inr s' \<and> aligned s'
    \<and> st_transactions s' \<noteq> [demoTx ''d'' 10]"
proof -
  have "bigInt (Some (JStr ''5'')) = Inr 5" "bigInt (Some (JStr ''20'')) = Inr 20" by code_simp+
  from pruned_to_frame_iff [OF aligned_demoState this] show ?thesis
    by (auto simp: demoState_def newState_def outside_def)
qed

text \<open>
  A generated view holds, in each state, at most a quarter of the transactions the snapshot
  had outside the frame, and all of those inside.
\<close>

theorem view_leftovers_bounded:
  assumes "generateView L uuid b sn tI tF i = Inr (Some (v, sig))" "alignedBins sn" "k < length (sn_stateBins sn)"
  shows "\<exists>lo hi. stringToBigInt tI = Some lo \<and> stringToBigInt tF = Some hi
    \<and> length (sn_stateBins (vw_snapshot v)) = length (sn_stateBins sn)
    \<and> 4 * length (filter (outside lo hi) (st_transactions (sn_stateBins (vw_snapshot v) ! k)))
        \<le> length (filter (outside lo hi) (st_transactions (sn_stateBins sn ! k)))
    \<and> filter (\<lambda>t. \<not> outside lo hi t) (st_transactions (sn_stateBins (vw_snapshot v) ! k))
        = filter (\<lambda>t. \<not> outside lo hi t) (st_transactions (sn_stateBins sn ! k))"
proof -
  obtain lo hi where f: "stringToBigInt tI = Some lo" "stringToBigInt tF = Some hi"
    "vw_snapshot v = prunedSnapshot lo hi (prunedSnapshot lo hi sn)"
    using generateView_cases [OF assms(1,2)] by metis
  have a: "aligned (sn_stateBins sn ! k)" using assms(2,3) by (simp add: alignedBins_def)
  have "st_transactions (sn_stateBins (vw_snapshot v) ! k)
      = skipOut (outside lo hi) (skipOut (outside lo hi) (st_transactions (sn_stateBins sn ! k)))"
    using assms(3) a by (simp add: f(3) prunedTo_transactions aligned_prunedTo)
  then show ?thesis using f assms(3) skipOut_twice_leaves_quarter
    by (intro exI [of _ lo] exI [of _ hi]) (simp add: skipOut_keeps_inside)
qed

section \<open>Signatures\<close>

text \<open>A plugin as its constructor leaves it, with a key pair of the curve.\<close>

definition signsWith :: "bungeeLib \<Rightarrow> 'w PluginBungeeHermes \<Rightarrow> bool" where
  "signsWith L b \<longleftrightarrow> bp_bungeeSigner b = gatewaySigner (bp_privKeyBungee b)
     \<and> keyPair (bl_crypto L) (bp_privKeyBungee b) (bp_pubKeyBungee b)"

lemma newPlugin_signer:
  "newPluginBungeeHermes instanceId kp gen = Inr b \<Longrightarrow> bp_bungeeSigner b = gatewaySigner (bp_privKeyBungee b)"
  by (auto simp: newPluginBungeeHermes_def newJsObjectSigner_def gatewaySigner_def Let_def split: if_splits option.splits)

lemma signB_signHex: "signsWith L b \<Longrightarrow>
    signB L b msg = (case signHex (bl_crypto L) (bp_privKeyBungee b) msg of None \<Rightarrow> Inl LibraryError | Some s \<Rightarrow> Inr s)"
  by (auto simp: signB_def signHex_def signsWith_def split: option.split)

lemma signB_succeeds: "signsWith L b \<Longrightarrow> \<exists>s. signB L b (stringify j) = Inr s"
  using ecdsa.signs [of "bl_crypto L" "bp_privKeyBungee b" "bp_pubKeyBungee b" j]
  by (auto simp: signB_signHex signsWith_def split: option.splits)

lemma signB_verifies:
  assumes "signsWith L b" "signsWith L b'" "signB L b (stringify j) = Inr s"
  shows "verifyViewSignature L b' (Some (JStr s)) (JStr (stringify j)) (Some (JStr (bp_pubKeyBungee b))) = Inr True"
proof -
  have "signHex (bl_crypto L) (bp_privKeyBungee b) (stringify j) = Some s"
    using assms(1,3) by (auto simp: signB_signHex split: option.splits)
  moreover have "keyPair (bl_crypto L) (bp_privKeyBungee b) (bp_pubKeyBungee b)" using assms(1) by (simp add: signsWith_def)
  ultimately have "verifySignature (bl_crypto L) (bp_privKeyBungee b') j s (bp_pubKeyBungee b) = Some True"
    by (intro ecdsa.verifies)
  with assms(2) show ?thesis by (simp add: verifyViewSignature_def verifySignature_def signsWith_def)
qed

section \<open>Reading a created view\<close>

text \<open>The transactions over which the Merkle root is taken, after each of the prunings.\<close>

definition prunedLeaves :: "nat \<Rightarrow> int \<Rightarrow> int \<Rightarrow> Snapshot \<Rightarrow> string list" where
  "prunedLeaves n lo hi s =
     map transactionLeaf (concat (map (\<lambda>b. (skipOut (outside lo hi) ^^ n) (st_transactions b)) (sn_stateBins s)))"

lemma root_once:
  "alignedBins s \<Longrightarrow> transactionsMerkleRoot (generateViewProof root (prunedSnapshot lo hi s))
    = bufArray2HexStr (root (prunedLeaves 1 lo hi s))"
proof -
  assume a: "alignedBins s"
  have "concat (map (st_transactions \<circ> prunedTo lo hi) (sn_stateBins s))
      = concat (map (\<lambda>b. skipOut (outside lo hi) (st_transactions b)) (sn_stateBins s))"
    using a by (intro arg_cong [where f = concat] map_cong) (auto simp: alignedBins_def prunedTo_transactions)
  then show ?thesis by (simp add: generateViewProof_def prunedLeaves_def)
qed

lemma root_thrice:
  assumes "wfSnapshot s" "vw_snapshot v = prunedSnapshot lo hi (prunedSnapshot lo hi s)"
  shows "transactionsMerkleRoot (vw_viewProof (rereadView root uuid lo hi v)) = bufArray2HexStr (root (prunedLeaves 3 lo hi s))"
proof -
  have "map transactionLeaf (st_transactions (prunedTo lo hi (reread (prunedTo lo hi (prunedTo lo hi b)))))
      = map transactionLeaf ((skipOut (outside lo hi) ^^ 3) (st_transactions b))" if "b \<in> set (sn_stateBins s)" for b
  proof -
    have a: "aligned b" using assms(1) that by (simp add: wfSnapshot_def wfState_def)
    show ?thesis
      using prunedTo_reread_leaves [OF aligned_prunedTo [OF aligned_prunedTo [OF a]]] a
      by (simp add: prunedTo_transactions aligned_prunedTo numeral_3_eq_3)
  qed
  then have "concat (map (map transactionLeaf \<circ> (\<lambda>b. st_transactions (prunedTo lo hi (reread (prunedTo lo hi (prunedTo lo hi b)))))) (sn_stateBins s))
      = concat (map (map transactionLeaf \<circ> (\<lambda>b. (skipOut (outside lo hi) ^^ 3) (st_transactions b))) (sn_stateBins s))"
    by (intro arg_cong [where f = concat] map_cong) simp_all
  then show ?thesis
    by (simp add: rereadView_def Let_def generateViewProof_def assms(2) prunedLeaves_def map_concat comp_def)
qed

lemma bufArray2HexStr_inject [simp]: "bufArray2HexStr a = bufArray2HexStr b \<longleftrightarrow> a = b"
  by (metis hexToBytes_bufArray2HexStr)

lemma statesRoot_pruned:
  "statesMerkleRoot (generateViewProof root (prunedSnapshot lo hi s)) = statesMerkleRoot (generateViewProof root s)"
  by (simp add: generateViewProof_def comp_def)

lemma created_wfJson:
  assumes "generateView L uuid b sn tI tF i = Inr (Some (v, sig))" "wfSnapshot sn" "wfLeaf i"
  shows "wfJson (viewToJson v)"
proof (rule generateView_cases [OF assms(1) wfSnapshot_aligned [OF assms(2)]])
  fix lo hi
  assume f: "vw_snapshot v = prunedSnapshot lo hi (prunedSnapshot lo hi sn)" "vw_participant v = sn_participant sn"
    "vw_tI v = Some (JStr tI)" "vw_tF v = Some (JStr tF)" "vw_creator v = Some (JStr (bp_pubKeyBungee b))"
    "vw_oldVersionsMetadata v = []" "vw_policy v = None" "vw_key v = (if truthy i then i else Some (JStr uuid))"
  show ?thesis
    by (rule wfJson_view) (use assms(2,3) in \<open>simp_all add: f wfSnapshot_pruned\<close>, simp add: wfSnapshot_def)
qed

lemma read_created:
  assumes "generateView L uuid b sn tI tF i = Inr (Some (v, sig))" "wfSnapshot sn" "wfLeaf i"
    "stringToBigInt tI = Some lo" "stringToBigInt tF = Some hi"
  shows "deserializeView (bl_merkle L) u (serializeView (stringify (viewToJson v)) s) =
    (if bl_merkle L (prunedLeaves 3 lo hi sn) = bl_merkle L (prunedLeaves 1 lo hi sn)
     then Inr (rereadView (bl_merkle L) u lo hi v)
     else Inl (ErrorMsg ''Error Parsing view. Transactions root does not match''))"
proof -
  have f: "vw_snapshot v = prunedSnapshot lo hi (prunedSnapshot lo hi sn)"
    "vw_viewProof v = generateViewProof (bl_merkle L) (prunedSnapshot lo hi sn)"
    "vw_tI v = Some (JStr tI)" "vw_tF v = Some (JStr tF)"
    using generateView_cases [OF assms(1) wfSnapshot_aligned [OF assms(2)]] assms(4,5) by (metis option.inject)+
  have "wfSnapshot (vw_snapshot v)" using assms(2) by (simp add: f(1) wfSnapshot_pruned)
  moreover have "bigInt (vw_tI v) = Inr lo" "bigInt (vw_tF v) = Inr hi" using assms(4,5) by (simp_all add: f)
  ultimately have "viewOf (bl_merkle L) u (viewToJson v) =
    (if transactionsMerkleRoot (vw_viewProof (rereadView (bl_merkle L) u lo hi v)) \<noteq> transactionsMerkleRoot (vw_viewProof v)
     then Inl (ErrorMsg ''Error Parsing view. Transactions root does not match'')
     else Inr (rereadView (bl_merkle L) u lo hi v))"
    by (simp add: viewOf_viewToJson statesRoot_rereadView) (simp add: f statesRoot_pruned)
  with assms(2) created_wfJson [OF assms(1-3)] show ?thesis
    by (simp add: deserializeView_serializeView root_thrice [OF assms(2) f(1)] f(2) root_once wfSnapshot_aligned)
qed

lemma generateView_runs:
  assumes "alignedBins sn" "signsWith L b" "stringToBigInt tI = Some lo" "stringToBigInt tF = Some hi"
    "stringToBigInt (sn_tI sn) = Some sti" "stringToBigInt (sn_tF sn) = Some stf" "lo \<le> stf" "sti \<le> hi" "lo \<le> hi"
  shows "\<exists>v sig. generateView L uuid b sn tI tF i = Inr (Some (v, sig))"
proof -
  have "bigInt (Some (JStr tI)) = Inr lo" "bigInt (Some (JStr tF)) = Inr hi" using assms(3,4) by simp_all
  note p = pruneStates_prunedSnapshot [OF _ this]
  from assms show ?thesis unfolding generateView_def
    by (auto simp: newView_def p alignedBins_pruned signB_succeeds bindR_Inr Let_def)
qed

text \<open>
  The text of a created view can be read back if and only if the Merkle root over its
  transactions pruned once, which was computed when the view was made, equals the root over its
  transactions pruned three times, which the reader computes; otherwise the view is refused.
\<close>

theorem created_view_readable_iff:
  assumes "generateView L uuid b sn tI tF i = Inr (Some (v, sig))" "wfSnapshot sn" "wfLeaf i"
    "stringToBigInt tI = Some lo" "stringToBigInt tF = Some hi"
  shows "deserializeView (bl_merkle L) u (serializeView (stringify (viewToJson v)) sig) =
    (if bl_merkle L (prunedLeaves 3 lo hi sn) = bl_merkle L (prunedLeaves 1 lo hi sn)
     then Inr (rereadView (bl_merkle L) u lo hi v)
     else Inl (ErrorMsg ''Error Parsing view. Transactions root does not match''))"
  using assms by (rule read_created)

definition demoLib :: bungeeLib where
  "demoLib = \<lparr>bl_crypto = demoCrypto, bl_merkle = (\<lambda>xs. [word_of_nat (length xs)]), bl_policySource = (\<lambda>p. p)\<rparr>"

definition demoPlugin :: "unit PluginBungeeHermes" where
  "demoPlugin = \<lparr>bp_instanceId = ''bungee'', bp_privKeyBungee = ''aa'', bp_pubKeyBungee = ''aa'',
     bp_bungeeSigner = gatewaySigner ''aa'', bp_strategies = []\<rparr>"

definition demoSnapshot :: Snapshot where
  "demoSnapshot = update_TI_TF (newSnapshot (Some (JStr ''snapshot'')) (Some (JStr ''org'')) [demoState])"

lemma demoPlugin_signs: "signsWith demoLib demoPlugin"
  by (simp add: signsWith_def demoLib_def demoPlugin_def)

lemma wfTransaction_demoTx [simp]: "wfTransaction (demoTx i n)"
  by (simp add: wfTransaction_def demoTx_def newTransaction_def newTransactionProof_def)

lemma wfSnapshot_demo: "wfSnapshot demoSnapshot"
  using aligned_demoState by (simp add: wfSnapshot_def wfState_def demoSnapshot_def newSnapshot_def) (simp add: demoState_def newState_def)

lemma demoSnapshot_frame: "stringToBigInt (sn_tI demoSnapshot) = Some 1" "stringToBigInt (sn_tF demoSnapshot) = Some 10"
  by (simp_all add: demoSnapshot_def update_TI_TF_def newSnapshot_def widen_def demoState_def newState_def
      getInitialTime_def getFinalTime_def demoTx_def newTransaction_def)

lemma demo_generated:
  assumes "stringToBigInt tI = Some lo" "lo \<le> 10" "i = None \<or> i = Some (JStr ''view'')"
  shows "\<exists>v sig. generateView demoLib ''uuid'' demoPlugin demoSnapshot tI ''20'' i = Inr (Some (v, sig))"
proof -
  have "stringToBigInt ''20'' = Some 20" by code_simp
  then show ?thesis
    using generateView_runs [OF wfSnapshot_aligned [OF wfSnapshot_demo] demoPlugin_signs assms(1) _ demoSnapshot_frame, of "''20''" 20]
      assms(2) by simp
qed

lemma demo_numerals: "stringToBigInt ''5'' = Some 5" "stringToBigInt ''3'' = Some 3" "stringToBigInt ''20'' = Some 20"
  by code_simp+

lemma demo_leaves:
  "length (prunedLeaves n lo hi demoSnapshot) = length ((skipOut (outside lo hi) ^^ n) [demoTx ''a'' 1, demoTx ''b'' 2, demoTx ''c'' 3, demoTx ''d'' 10])"
  by (simp add: prunedLeaves_def demoSnapshot_def newSnapshot_def demoState_def newState_def)

text \<open>Three transactions before the frame: the view cannot be read back.\<close>

theorem created_view_readable_iff_witness:
  "\<exists>v sig. generateView demoLib ''uuid'' demoPlugin demoSnapshot ''5'' ''20'' None = Inr (Some (v, sig))
    \<and> deserializeView (bl_merkle demoLib) ''u'' (serializeView (stringify (viewToJson v)) sig)
      = Inl (ErrorMsg ''Error Parsing view. Transactions root does not match'')"
proof -
  obtain v sig where g: "generateView demoLib ''uuid'' demoPlugin demoSnapshot ''5'' ''20'' None = Inr (Some (v, sig))"
    using demo_generated [OF demo_numerals(1), of None] by auto
  have "bl_merkle demoLib (prunedLeaves 3 5 20 demoSnapshot) \<noteq> bl_merkle demoLib (prunedLeaves 1 5 20 demoSnapshot)"
    by (simp add: demoLib_def demo_leaves numeral_3_eq_3 outside_def)
  then show ?thesis
    using g created_view_readable_iff [OF g wfSnapshot_demo _ demo_numerals(1,3), of "''u''"] by auto
qed

theorem view_leftovers_bounded_witness:
  "\<exists>v sig. generateView demoLib ''uuid'' demoPlugin demoSnapshot ''5'' ''20'' None = Inr (Some (v, sig))
    \<and> 4 * length (filter (outside 5 20) (st_transactions (sn_stateBins (vw_snapshot v) ! 0))) \<le> 3"
proof -
  obtain v sig where g: "generateView demoLib ''uuid'' demoPlugin demoSnapshot ''5'' ''20'' None = Inr (Some (v, sig))"
    using demo_generated [OF demo_numerals(1), of None] by auto
  have "sn_stateBins demoSnapshot = [demoState]" by (simp add: demoSnapshot_def newSnapshot_def)
  moreover have "length (filter (outside 5 20) (st_transactions demoState)) = 3"
    by (simp add: demoState_def newState_def outside_def)
  ultimately show ?thesis
    using g view_leftovers_bounded [OF g wfSnapshot_aligned [OF wfSnapshot_demo], of 0] by (simp add: demo_numerals)
qed

section \<open>Processing a created view\<close>

text \<open>Without two neighbours outside the frame, pruning settles after one round.\<close>

lemma skipOut_settled:
  assumes "\<not> twoInARow out xs"
  shows "(skipOut out ^^ Suc n) xs = filter (\<lambda>x. \<not> out x) xs"
proof (induction n)
  case 0
  then show ?case using assms by (simp add: skipOut_exact)
next
  case (Suc n)
  have "skipOut out (filter (\<lambda>x. \<not> out x) xs) = filter (\<lambda>x. \<not> out x) xs" by (intro skipOut_all_inside) simp
  with Suc show ?case by simp
qed

definition exactFrame :: "int \<Rightarrow> int \<Rightarrow> Snapshot \<Rightarrow> bool" where
  "exactFrame lo hi s \<longleftrightarrow> (\<forall>b \<in> set (sn_stateBins s). \<not> twoInARow (outside lo hi) (st_transactions b))"

lemma prunedLeaves_settled: "exactFrame lo hi s \<Longrightarrow> prunedLeaves (Suc n) lo hi s = prunedLeaves (Suc m) lo hi s"
  unfolding prunedLeaves_def
  by (intro arg_cong [where f = "map transactionLeaf"] arg_cong [where f = concat] map_cong refl)
    (auto simp: exactFrame_def skipOut_settled simp del: funpow.simps)

lemma processed_ids:
  "map st_id (sn_stateBins (vw_snapshot (processView L v ''pruneState'' [i])))
    = filter (\<lambda>k. k \<noteq> Some (JStr i)) (map st_id (sn_stateBins (vw_snapshot v)))"
  by (simp add: processView_def getPrivacyPolicy_def pruneStatePolicy_def removeState_def updateViewProof_def
      setPrivacyPolicy_def filter_map comp_def) (rule arg_cong [where f = "map st_id"], auto simp: strictEq_def intro!: filter_cong)

text \<open>
  C14. A view that one plugin creates can be processed by another: if no two neighbouring
  transactions lie outside the frame, the processing plugin reads the view, accepts its signature,
  removes the state it is asked to remove and no other, and returns a view under its own key whose
  proof belongs to its content and which records the metadata of the original.
\<close>

theorem created_view_processed:
  assumes "generateView L uuid b sn tI tF i = Inr (Some (v, sig))" "wfSnapshot sn" "wfLeaf i"
    and "stringToBigInt tI = Some lo" "stringToBigInt tF = Some hi" "exactFrame lo hi sn"
    and "truthy (vw_key v)" "signsWith L b" "signsWith L b'"
  shows "\<exists>v' sig'. onProcessView L u1 u2 b' \<lparr>pv_serializedView = serializeView (stringify (viewToJson v)) sig,
        pv_policyId = ''pruneState'', pv_policyArguments = [k]\<rparr>
      = Inr \<lparr>vr_view = Some (stringify (viewToJson v')), vr_signature = Some sig'\<rparr>
    \<and> signB L b' (stringify (viewToJson v')) = Inr sig'
    \<and> vw_creator v' = Some (JStr (bp_pubKeyBungee b')) \<and> vw_key v' = Some (JStr u2)
    \<and> map st_id (sn_stateBins (vw_snapshot v')) = filter (\<lambda>i. i \<noteq> Some (JStr k)) (map st_id (sn_stateBins sn))
    \<and> vw_viewProof v' = generateViewProof (bl_merkle L) (vw_snapshot v')
    \<and> vw_oldVersionsMetadata v' = [viewMetadata v (Some (JStr sig))]"
proof -
  let ?r = "rereadView (bl_merkle L) u1 lo hi v"
  have f: "vw_snapshot v = prunedSnapshot lo hi (prunedSnapshot lo hi sn)"
    "vw_viewProof v = generateViewProof (bl_merkle L) (prunedSnapshot lo hi sn)"
    "vw_creator v = Some (JStr (bp_pubKeyBungee b))" "vw_oldVersionsMetadata v = []" "vw_policy v = None"
    "signB L b (stringify (viewToJson v)) = Inr sig"
    using generateView_cases [OF assms(1) wfSnapshot_aligned [OF assms(2)]] assms(4,5) by (metis option.inject)+
  have leaves: "prunedLeaves 3 lo hi sn = prunedLeaves 1 lo hi sn"
    using prunedLeaves_settled [OF assms(6), of 2 0] by (simp del: funpow.simps add: numeral_2_eq_2 numeral_3_eq_3)
  have read: "deserializeView (bl_merkle L) u1 (serializeView (stringify (viewToJson v)) sig) = Inr ?r"
    using read_created [OF assms(1-5)] leaves by simp
  have proof_kept: "vw_viewProof ?r = vw_viewProof v"
    using root_thrice [OF assms(2) f(1)] statesRoot_rereadView [of "bl_merkle L" u1 lo hi v] leaves assms(2)
    by (simp add: f statesRoot_pruned root_once wfSnapshot_aligned)
  have meta: "viewMetadata ?r s = viewMetadata v s" for s
    using assms(7) proof_kept by (simp add: viewMetadata_def) (simp add: rereadView_def Let_def)
  let ?v = "(addPrevVersionMetadata (viewMetadata v (Some (JStr sig))) (processView L ?r ''pruneState'' [k]))
      \<lparr>vw_creator := Some (JStr (bp_pubKeyBungee b')), vw_key := Some (JStr u2)\<rparr>"
  obtain sig' where sig': "signB L b' (stringify (viewToJson ?v)) = Inr sig'" using signB_succeeds [OF assms(9)] by blast
  have "onProcessView L u1 u2 b' \<lparr>pv_serializedView = serializeView (stringify (viewToJson v)) sig,
        pv_policyId = ''pruneState'', pv_policyArguments = [k]\<rparr>
      = Inr \<lparr>vr_view = Some (stringify (viewToJson ?v)), vr_signature = Some sig'\<rparr>"
    by (simp add: onProcessView_def read signedParts_serializeView created_wfJson [OF assms(1-3)] isNullish_def f(3)
        signB_verifies [OF assms(8,9) f(6)] meta Let_def sig')
  moreover have "map st_id (sn_stateBins (vw_snapshot ?v)) = filter (\<lambda>i. i \<noteq> Some (JStr k)) (map st_id (sn_stateBins sn))"
    by (simp add: addPrevVersionMetadata_def processed_ids rereadView_def Let_def f(1) comp_def reread_def)
  moreover have "vw_viewProof ?v = generateViewProof (bl_merkle L) (vw_snapshot ?v)"
    by (simp add: addPrevVersionMetadata_def processView_def getPrivacyPolicy_def updateViewProof_def)
  moreover have "vw_oldVersionsMetadata ?v = [viewMetadata v (Some (JStr sig))]"
    by (simp add: addPrevVersionMetadata_def processView_def getPrivacyPolicy_def updateViewProof_def setPrivacyPolicy_def
        pruneStatePolicy_def rereadView_def Let_def f(4))
  ultimately show ?thesis using sig' by (intro exI [of _ ?v] exI [of _ sig']) simp
qed

theorem created_view_processed_witness:
  "\<exists>v sig v' sig'. generateView demoLib ''uuid'' demoPlugin demoSnapshot ''2'' ''20'' (Some (JStr ''view'')) = Inr (Some (v, sig))
    \<and> onProcessView demoLib ''u1'' ''u2'' demoPlugin \<lparr>pv_serializedView = serializeView (stringify (viewToJson v)) sig,
        pv_policyId = ''pruneState'', pv_policyArguments = [''asset'']\<rparr>
      = Inr \<lparr>vr_view = Some (stringify (viewToJson v')), vr_signature = Some sig'\<rparr>
    \<and> sn_stateBins (vw_snapshot v') = []"
proof -
  have n: "stringToBigInt ''2'' = Some 2" by code_simp
  obtain v sig where g: "generateView demoLib ''uuid'' demoPlugin demoSnapshot ''2'' ''20'' (Some (JStr ''view'')) = Inr (Some (v, sig))"
    using demo_generated [OF n, of "Some (JStr ''view'')"] by auto
  have bins: "sn_stateBins demoSnapshot = [demoState]" "st_id demoState = Some (JStr ''asset'')"
    by (simp_all add: demoSnapshot_def newSnapshot_def demoState_def newState_def)
  have e: "exactFrame 2 20 demoSnapshot"
    by (simp add: exactFrame_def bins) (simp add: demoState_def newState_def outside_def)
  have k: "truthy (vw_key v)"
    by (rule generateView_cases [OF g wfSnapshot_aligned [OF wfSnapshot_demo]]) (simp add: truthy_def)
  show ?thesis
    using g created_view_processed [OF g wfSnapshot_demo _ n demo_numerals(3) e k demoPlugin_signs demoPlugin_signs, of "''u1''" "''u2''" "''asset''"]
    by (auto simp: bins)
qed

end
