(* ===== verification/Bungee_Strategies.thy ===== *)
theory Bungee_Strategies
  imports Bungee_Plugin
begin

text \<open>
  The ledger strategies of the Bungee plugin (\<open>strategy/*.ts\<close>): the states of the requested assets,
  or of all assets, are collected through the connector of the ledger, with one transaction per
  log entry or history record, and a state proof that names the blocks.

  The connector's client and the hash of web3 are parameters: \<open>api_call path op req\<close> is the answer
  to a call of operation \<open>op\<close> at the base path, \<open>None\<close> when the client rejects it.
\<close>

section \<open>Calls of a connector\<close>

record 'w apis =
  api_call :: "jsv \<Rightarrow> string \<Rightarrow> json \<Rightarrow> 'w \<Rightarrow> (int \<times> jsv) option \<times> 'w"
  api_keccak256 :: "jsv \<Rightarrow> string"

definition callApi :: "'w apis \<Rightarrow> jsv \<Rightarrow> string \<Rightarrow> json \<Rightarrow> ('w, jsError, int \<times> jsv) act" where
  "callApi A path op req w = (case api_call A path op req w of
      (None, w') \<Rightarrow> (Throws RequestError, w') | (Some r, w') \<Rightarrow> (Returns r, w'))"

definition statusOk :: "int \<Rightarrow> bool" where
  "statusOk s \<longleftrightarrow> 200 \<le> s \<and> s < 300"

text \<open>
  A call whose answer must have a good status and a truthy property; \<open>who\<close> and \<open>what\<close> are the
  texts of the two errors.
\<close>

definition fetchField :: "'w apis \<Rightarrow> jsv \<Rightarrow> string \<Rightarrow> json \<Rightarrow> (int \<Rightarrow> string) \<Rightarrow> string \<Rightarrow> string \<Rightarrow> ('w, jsError, jsv) act" where
  "fetchField A path op req who what k =
    bindA (callApi A path op req) (\<lambda>(status, data).
    if \<not> statusOk status then throwE (ErrorMsg (who status @ jsTextV data))
    else bindA (propA k data) (\<lambda>v. if truthy v then ret v else throwE (ErrorMsg what)))"

definition withTag :: "string \<Rightarrow> string \<Rightarrow> int \<Rightarrow> string" where
  "withTag tag what status = tag @ what @ intToString status @ '': ''"

section \<open>States of an EVM ledger\<close>

definition orNull :: "jsv \<Rightarrow> json" where
  "orNull v = (case v of None \<Rightarrow> JNull | Some j \<Rightarrow> j)"

text \<open>\<open>values[values.length - 1]\<close>\<close>

definition lastValue :: "jsv list \<Rightarrow> jsv" where
  "lastValue vs = (if vs = [] then None else last vs)"

definition stateProofFor :: "State \<Rightarrow> jsv \<Rightarrow> StateProof" where
  "stateProofFor s value = newStateProof value (map_option JNum (parseInt (natToString (st_version s)))) (st_id s)"

text \<open>One entry per block hash, in the order of the transactions.\<close>

fun evmBlocks :: "jsv list \<Rightarrow> json list \<Rightarrow> StateProof \<Rightarrow> StateProof result" where
  "evmBlocks seen [] p = Inr p"
| "evmBlocks seen (b # bs) p =
    bindR (jprop ''hash'' (Some b)) (\<lambda>h.
    if list_ex (strictEq h) seen then evmBlocks seen bs p
    else bindR (jprop ''miner'' (Some b)) (\<lambda>m.
      evmBlocks (seen @ [h]) bs (addBlock (JObj (optFields [(''blockHash'', h), (''blockCreator'', m),
        (''blockSigners'', Some (JArr []))])) p)))"

definition evmState :: "json \<Rightarrow> Transaction list \<times> jsv list \<times> (jsv, json) jsmap \<Rightarrow> State result" where
  "evmState key = (\<lambda>(txs, values, blocks).
    let state = newState (Some key) (Some (JArr (map orNull values))) txs in
    bindR (evmBlocks [] (mapValues blocks) (stateProofFor state (lastValue values))) (\<lambda>p.
    Inr (setStateProof [p] state)))"

text \<open>One log entry with its transaction and its block; \<open>JSON.stringify(undefined)\<close> is \<open>undefined\<close>.\<close>

definition evmRecord ::
  "json \<Rightarrow> jsv \<Rightarrow> jsv \<Rightarrow> jsv \<Rightarrow> json \<Rightarrow> Transaction list \<times> jsv list \<times> (jsv, json) jsmap \<Rightarrow> (Transaction list \<times> jsv list \<times> (jsv, json) jsmap) result" where
  "evmRecord key address tx blk log = (\<lambda>(txs, values, blocks).
    bindR (jprop ''from'' tx) (\<lambda>from'.
    bindR (jprop ''transactionHash'' (Some log)) (\<lambda>h.
    bindR (jprop ''timestamp'' blk) (\<lambda>ts.
    bindR (jprop ''input'' tx) (\<lambda>inp.
    bindR (jprop ''data'' (Some log)) (\<lambda>d.
    let t = setPayload (if truthy inp then inp else Some (JStr ''''))
             (setTarget address (setStateId (Some key)
               (newTransaction h ts (newTransactionProof (newProof from' None None) h))))
    in Inr (txs @ [t], values @ [map_option (JStr \<circ> stringify) d], mapSet h (orNull blk) blocks)))))))"

primrec evmRecords ::
  "(json \<Rightarrow> ('w, jsError, jsv) act) \<Rightarrow> (json \<Rightarrow> ('w, jsError, jsv) act) \<Rightarrow> json \<Rightarrow> jsv \<Rightarrow> json list
    \<Rightarrow> Transaction list \<times> jsv list \<times> (jsv, json) jsmap
    \<Rightarrow> ('w, jsError, Transaction list \<times> jsv list \<times> (jsv, json) jsmap) act" where
  "evmRecords getTx getBlock key address [] s = ret s"
| "evmRecords getTx getBlock key address (l # ls) s =
    bindA (getTx l) (\<lambda>tx. bindA (getBlock l) (\<lambda>blk.
    bindA (liftR (evmRecord key address tx blk l s)) (evmRecords getTx getBlock key address ls)))"

definition evmStates ::
  "(json \<Rightarrow> ('w, jsError, Transaction list \<times> jsv list \<times> (jsv, json) jsmap) act) \<Rightarrow> json list \<Rightarrow> (jsv, State) jsmap
    \<Rightarrow> ('w, jsError, (jsv, State) jsmap) act" where
  "evmStates info keys m = bindA (mapA (\<lambda>k. bindA (info k) (\<lambda>r. bindA (liftR (evmState k r)) (\<lambda>s. ret (Some k, s)))) keys)
     (\<lambda>kss. ret (foldl (\<lambda>m (k, s). mapSet k s m) m kss))"

subsection \<open>Besu\<close>

definition besuTag :: string where "besuTag = ''StrategyBesu#''"

definition besuAssetsKey :: "'w apis \<Rightarrow> jsv \<Rightarrow> jsv \<Rightarrow> ('w, jsError, jsv) act" where
  "besuAssetsKey A path net =
    bindA (propA ''contractName'' net) (\<lambda>cn. bindA (propA ''keychainId'' net) (\<lambda>kc.
    bindA (propA ''signingCredential'' net) (\<lambda>sc.
    fetchField A path ''invokeContractV1''
      (JObj (optFields [(''contractName'', cn), (''keychainId'', kc), (''invocationType'', Some (JStr ''CALL'')),
         (''methodName'', Some (JStr ''getAllAssetsIDs'')), (''params'', Some (JArr [])),
         (''signingCredential'', sc), (''gas'', Some (JNum 1000000))]))
      (withTag besuTag ''getAllAssetsKey: BesuAPI error with status '')
      (besuTag @ ''getAllAssetsKey: contract '' @ jsTextV cn @ '' method getAllAssetsIDs output is falsy'')
      ''callOutput'')))"

definition besuInfoByKey ::
  "'w apis \<Rightarrow> jsv \<Rightarrow> jsv \<Rightarrow> json \<Rightarrow> ('w, jsError, Transaction list \<times> jsv list \<times> (jsv, json) jsmap) act" where
  "besuInfoByKey A path net key =
    bindA (propA ''contractAddress'' net) (\<lambda>address.
    bindA (fetchField A path ''getPastLogsV1''
      (JObj (optFields [(''fromBlock'', Some (JStr ''earliest'')), (''toBlock'', Some (JStr ''latest'')),
         (''address'', address),
         (''topics'', Some (JArr [JArr [JNull], JArr [JStr (api_keccak256 A (Some key))]]))]))
      (withTag besuTag ''getAllInfoByKey: BesuAPI getPastLogsV1 error with status '')
      (besuTag @ ''getAllInfoByKey: BesuAPI getPastLogsV1 API call successfull but output data is falsy'')
      ''logs'') (\<lambda>logs.
    bindA (liftR (iterate logs)) (\<lambda>ls.
    evmRecords
      (\<lambda>l. bindA (propA ''transactionHash'' (Some l)) (\<lambda>h. fetchField A path ''getTransactionV1''
        (JObj (optFields [(''transactionHash'', h)]))
        (withTag besuTag ''getAllInfoByKey: BesuAPI getTransactionV1 error with status '')
        (besuTag @ ''getAllInfoByKey: BesuAPI getTransactionV1 call successfull but output data is falsy'')
        ''transaction''))
      (\<lambda>l. bindA (propA ''blockHash'' (Some l)) (\<lambda>h. fetchField A path ''getBlockV1''
        (JObj (optFields [(''blockHashOrBlockNumber'', h)]))
        (withTag besuTag ''getAllInfoByKey: BesuAPI getBlockV1 error with status '')
        (besuTag @ ''getAllInfoByKey: BesuAPI getBlockV1 call successfull but output data is falsy'')
        ''block''))
      key address ls ([], [], []))))"

definition strategyBesu :: "'w apis \<Rightarrow> 'w strategy" where
  "strategyBesu A stateIds networkDetails =
    (let net = Some networkDetails in
     thenA (checkTruthy net (besuTag @ ''generateLedgerStates() networkDetails''))
     (bindA (propA ''connectorApiPath'' net) (\<lambda>path.
      bindA (if stateIds = [] then bindA (besuAssetsKey A path net) (\<lambda>v. liftR (iterate v))
             else ret (map JStr stateIds)) (\<lambda>keys.
      evmStates (besuInfoByKey A path net) keys []))))"

subsection \<open>Ethereum\<close>

definition ethTag :: string where "ethTag = ''StrategyEthereum#''"

definition ethereumAssetsKey :: "'w apis \<Rightarrow> jsv \<Rightarrow> jsv \<Rightarrow> ('w, jsError, jsv) act" where
  "ethereumAssetsKey A path net =
    bindA (propA ''contractName'' net) (\<lambda>cn. bindA (propA ''keychainId'' net) (\<lambda>kc.
    bindA (propA ''signingCredential'' net) (\<lambda>sc.
    fetchField A path ''invokeContractV1''
      (JObj (optFields [(''contract'', Some (JObj (optFields [(''contractName'', cn), (''keychainId'', kc)]))),
         (''invocationType'', Some (JStr ''CALL'')), (''methodName'', Some (JStr ''getAllAssetsIDs'')),
         (''params'', Some (JArr [])), (''signingCredential'', sc)]))
      (withTag ethTag ''getAllAssetsKey: EthereumAPI error with status '')
      (ethTag @ ''getAllAssetsKey: contract '' @ jsTextV cn @ '' method getAllAssetsIDs output is falsy'')
      ''callOutput'')))"

definition web3Request :: "string \<Rightarrow> jsv \<Rightarrow> json" where
  "web3Request methodName arg = JObj [(''methodName'', JStr methodName), (''params'', JArr [orNull arg])]"

definition ethereumInfoByKey ::
  "'w apis \<Rightarrow> jsv \<Rightarrow> jsv \<Rightarrow> json \<Rightarrow> ('w, jsError, Transaction list \<times> jsv list \<times> (jsv, json) jsmap) act" where
  "ethereumInfoByKey A path net key =
    bindA (propA ''contractAddress'' net) (\<lambda>address.
    bindA (fetchField A path ''invokeWeb3EthMethodV1''
      (web3Request ''getPastLogs'' (Some (JObj (optFields [(''fromBlock'', Some (JStr ''earliest'')),
         (''toBlock'', Some (JStr ''latest'')), (''address'', address),
         (''topics'', Some (JArr [JNull, JStr (api_keccak256 A (Some key))]))]))))
      (withTag ethTag ''getAllInfoByKey: BesuAPI getPastLogsV1 error with status '')
      (ethTag @ ''getAllInfoByKey: BesuAPI getPastLogsV1 API call successfull but output data is falsy'')
      ''data'') (\<lambda>logs.
    bindA (liftR (iterate logs)) (\<lambda>ls.
    evmRecords
      (\<lambda>l. bindA (propA ''transactionHash'' (Some l)) (\<lambda>h. fetchField A path ''invokeWeb3EthMethodV1''
        (web3Request ''getTransaction'' h)
        (withTag ethTag ''getAllInfoByKey: EthereumAPI invokeWeb3EthMethodV1 getTransaction error with status '')
        (ethTag @ ''getAllInfoByKey: EthereumAPI invokeWeb3EthMethodV1 getTransaction successfull but output data is falsy'')
        ''data''))
      (\<lambda>l. bindA (propA ''blockHash'' (Some l)) (\<lambda>h. fetchField A path ''invokeWeb3EthMethodV1''
        (web3Request ''getBlock'' h)
        (withTag ethTag ''getAllInfoByKey: EthereumAPI invokeWeb3EthMethodV1 getBlock error with status '')
        (ethTag @ ''getAllInfoByKey: EthereumAPI invokeWeb3EthMethodV1 getBlock successfull but output data is falsy'')
        ''data''))
      key address ls ([], [], []))))"

definition strategyEthereum :: "'w apis \<Rightarrow> 'w strategy" where
  "strategyEthereum A stateIds networkDetails =
    (let net = Some networkDetails in
     thenA (checkTruthy net (ethTag @ ''generateLedgerStates() networkDetails''))
     (bindA (propA ''connectorApiPath'' net) (\<lambda>path.
      bindA (if stateIds = [] then bindA (ethereumAssetsKey A path net) (\<lambda>v. liftR (iterate v))
             else ret (map JStr stateIds)) (\<lambda>keys.
      evmStates (ethereumInfoByKey A path net) keys []))))"

section \<open>States of a Fabric ledger\<close>

subsection \<open>Buffers\<close>

text \<open>
  \<open>Buffer.from(v)\<close>: the UTF-8 bytes of a text, the numbers of an array, or the bytes of a printed
  buffer.
\<close>

definition toByte :: "json \<Rightarrow> byte" where
  "toByte x = word_of_int (case jsNumber (Some x) of None \<Rightarrow> 0 | Some n \<Rightarrow> n)"

definition bufferFrom :: "jsv \<Rightarrow> byte list result" where
  "bufferFrom v = (case v of
      Some (JStr s) \<Rightarrow> Inr (utf8Encode s)
    | Some (JArr xs) \<Rightarrow> Inr (map toByte xs)
    | Some (JObj fs) \<Rightarrow> (case (map_of fs ''type'', map_of fs ''data'') of
        (Some (JStr t), Some (JArr xs)) \<Rightarrow> if t = ''Buffer'' then Inr (map toByte xs) else Inl TypeError
      | _ \<Rightarrow> Inl TypeError)
    | _ \<Rightarrow> Inl TypeError)"

subsection \<open>Requests\<close>

definition fabricTag :: string where "fabricTag = ''StrategyFabric#''"

definition runRequest :: "jsv \<Rightarrow> jsv \<Rightarrow> jsv \<Rightarrow> string \<Rightarrow> jsv list \<Rightarrow> json" where
  "runRequest sc ch cn methodName params = JObj (optFields [(''signingCredential'', sc), (''channelName'', ch),
     (''contractName'', cn), (''methodName'', Some (JStr methodName)),
     (''invocationType'', Some (JStr ''FabricContractInvocationType.CALL'')),
     (''params'', Some (JArr (map orNull params)))])"

definition receiptRequest :: "jsv \<Rightarrow> jsv \<Rightarrow> jsv \<Rightarrow> json" where
  "receiptRequest sc ch txId = JObj (optFields [(''signingCredential'', sc), (''channelName'', ch),
     (''contractName'', Some (JStr ''qscc'')),
     (''invocationType'', Some (JStr ''FabricContractInvocationType.CALL'')),
     (''methodName'', Some (JStr ''GetBlockByTxID'')), (''params'', Some (JArr [orNull ch, orNull txId]))])"

text \<open>A run of a contract method whose function output must be truthy.\<close>

definition fabricOutput :: "'w apis \<Rightarrow> jsv \<Rightarrow> jsv \<Rightarrow> string \<Rightarrow> string \<Rightarrow> jsv list \<Rightarrow> ('w, jsError, jsv) act" where
  "fabricOutput A path net who methodName params =
    bindA (propA ''signingCredential'' net) (\<lambda>sc. bindA (propA ''channelName'' net) (\<lambda>ch.
    bindA (propA ''contractName'' net) (\<lambda>cn.
    fetchField A path ''runTransactionV1'' (runRequest sc ch cn methodName params)
      (\<lambda>_. fabricTag @ who @ '': FabricAPI error with status 500: '')
      (fabricTag @ who @ '': contract '' @ jsTextV cn @ '' method '' @ methodName @ '' invocation output is falsy'')
      ''functionOutput'')))"

definition fabricAssetsKey :: "'w apis \<Rightarrow> jsv \<Rightarrow> jsv \<Rightarrow> ('w, jsError, jsv) act" where
  "fabricAssetsKey A path net = fabricOutput A path net ''getAllAssetsKey'' ''GetAllAssetsKey'' []"

definition txOfHistory :: "json \<Rightarrow> Transaction result" where
  "txOfHistory t =
    bindR (jprop ''value'' (Some t)) (\<lambda>v.
    bindR (jprop ''txId'' v) (\<lambda>i.
    bindR (jprop ''timestamp'' v) (\<lambda>s. bindR (jprop ''seconds'' s) (\<lambda>ts.
    Inr (setPayload (map_option (JStr \<circ> stringify) v)
      (newTransaction i ts (newTransactionProof (newProof (Some (JStr '''')) None None) i)))))))"

text \<open>The history of a key comes with its newest entry first.\<close>

definition txsStringToTxs :: "jsv \<Rightarrow> Transaction list result" where
  "txsStringToTxs txString =
    bindR (parseJ txString) (\<lambda>j. bindR (iterate (Some j)) (\<lambda>xs.
    bindR (mapR txOfHistory xs) (\<lambda>txs. Inr (rev txs))))"

definition fabricTxByKey :: "'w apis \<Rightarrow> jsv \<Rightarrow> jsv \<Rightarrow> json \<Rightarrow> ('w, jsError, Transaction list) act" where
  "fabricTxByKey A path net key =
    bindA (fabricOutput A path net ''getAllTxByKey'' ''GetAllTxByKey'' [Some key]) (\<lambda>out. liftR (txsStringToTxs out))"

definition fabricTxReceipt :: "'w apis \<Rightarrow> jsv \<Rightarrow> jsv \<Rightarrow> jsv \<Rightarrow> ('w, jsError, json) act" where
  "fabricTxReceipt A path net txId =
    bindA (propA ''signingCredential'' net) (\<lambda>sc. bindA (propA ''channelName'' net) (\<lambda>ch.
    bindA (callApi A path ''getTransactionReceiptByTxIDV1'' (receiptRequest sc ch txId)) (\<lambda>(status, data).
    if statusOk status then
      (if truthy data then liftR (parseJ (map_option (JStr \<circ> stringify) data))
       else throwE (ErrorMsg (fabricTag @ ''fabricGetTxReceiptByTxIDV1: contract qscc method GetBlockByTxID invocation output is falsy'')))
    else throwE (ErrorMsg (fabricTag @ ''fabricGetTxReceiptByTxIDV1: FabricAPI error with status 500: '' @ jsTextV data)))))"

text \<open>\<open>v[0]\<close>\<close>

definition jfirst :: "jsv \<Rightarrow> jsv result" where
  "jfirst v = (case v of
      None \<Rightarrow> Inl TypeError
    | Some JNull \<Rightarrow> Inl TypeError
    | Some (JArr xs) \<Rightarrow> Inr (case xs of [] \<Rightarrow> None | x # _ \<Rightarrow> Some x)
    | Some (JStr s) \<Rightarrow> Inr (case s of [] \<Rightarrow> None | c # _ \<Rightarrow> Some (JStr [c]))
    | Some (JObj fs) \<Rightarrow> Inr (map_of fs ''0'')
    | Some _ \<Rightarrow> Inr None)"

definition blockSigner :: "json \<Rightarrow> string result" where
  "blockSigner sig =
    bindR (jprop ''signature_header'' (Some sig)) (\<lambda>h. bindR (jprop ''creator'' h) (\<lambda>c.
    bindR (jprop ''mspid'' c) (\<lambda>m. bindR (jprop ''id_bytes'' c) (\<lambda>ib. bindR (jprop ''data'' ib) (\<lambda>d.
    bindR (bufferFrom d) (\<lambda>i.
    bindR (jprop ''signature'' (Some sig)) (\<lambda>s. bindR (jprop ''data'' s) (\<lambda>sd. bindR (bufferFrom sd) (\<lambda>sb.
    Inr (stringify (JObj [(''creator'', JObj (optFields [(''mspid'', m), (''id'', Some (JStr (bufArray2HexStr i)))])),
      (''signature'', JStr (bufArray2HexStr sb))])))))))))))"

text \<open>The hash of the block and its signers.\<close>

definition decodeBlock :: "jsv \<Rightarrow> (string \<times> string list) result" where
  "decodeBlock data =
    bindR (parseJ (map_option (JStr \<circ> stringify) data)) (\<lambda>j. bindR (jprop ''decodedBlock'' (Some j)) (\<lambda>block.
    bindR (jprop ''metadata'' block) (\<lambda>m1. bindR (jprop ''metadata'' m1) (\<lambda>m2. bindR (jfirst m2) (\<lambda>m3.
    bindR (jprop ''signatures'' m3) (\<lambda>ss. bindR (iterate ss) (\<lambda>xs.
    bindR (mapR blockSigner xs) (\<lambda>sigs.
    bindR (jprop ''header'' block) (\<lambda>hd'. bindR (jprop ''data_hash'' hd') (\<lambda>dh. bindR (jprop ''data'' dh) (\<lambda>d.
    bindR (bufferFrom d) (\<lambda>h. Inr (bufArray2HexStr h, sigs)))))))))))))"

definition fabricBlock :: "'w apis \<Rightarrow> jsv \<Rightarrow> jsv \<Rightarrow> jsv \<Rightarrow> ('w, jsError, string \<times> string list) act" where
  "fabricBlock A path net txId =
    bindA (propA ''signingCredential'' net) (\<lambda>sc.
    bindA (propA ''keychainRef'' sc) (\<lambda>kr. bindA (propA ''keychainId'' sc) (\<lambda>ki.
    bindA (propA ''channelName'' net) (\<lambda>ch.
    bindA (callApi A path ''getBlockV1'' (JObj (optFields [(''channelName'', ch),
      (''gatewayOptions'', Some (JObj (optFields [(''identity'', kr),
         (''wallet'', Some (JObj [(''keychain'', JObj (optFields [(''keychainId'', ki), (''keychainRef'', kr)]))]))]))),
      (''query'', Some (JObj (optFields [(''transactionId'', txId)]))), (''skipDecode'', Some (JBool False))])))
    (\<lambda>(status, data).
    if \<not> statusOk status
    then throwE (ErrorMsg (withTag fabricTag ''fabricGetTxReceiptByTxIDV1: FabricAPI getBlockV1 error with status '' status @ jsTextV data))
    else if \<not> truthy data
    then throwE (ErrorMsg (fabricTag @ ''fabricGetBlockByTxID: getBlockV1 API call output data is falsy''))
    else liftR (decodeBlock data))))))"

subsection \<open>States\<close>

definition endorserOf :: "json \<Rightarrow> Proof result" where
  "endorserOf e =
    bindR (jprop ''signature'' (Some e)) (\<lambda>s. bindR (bufferFrom s) (\<lambda>b.
    bindR (jprop ''mspid'' (Some e)) (\<lambda>m. bindR (jprop ''endorserID'' (Some e)) (\<lambda>i.
    Inr (newProof i m (Some (JStr (base64 b))))))))"

text \<open>The receipt of a transaction gives its creator, its target, its endorsements and the value written.\<close>

definition fabricRecord :: "json \<Rightarrow> Transaction \<Rightarrow> json \<Rightarrow> (Transaction \<times> string) result" where
  "fabricRecord key tx receipt =
    bindR (jprop ''transactionCreator'' (Some receipt)) (\<lambda>tc.
    bindR (jprop ''creatorID'' tc) (\<lambda>c. bindR (jprop ''mspid'' tc) (\<lambda>m.
    bindR (jprop ''rwsetWriteData'' (Some receipt)) (\<lambda>rw. bindR (parseJ rw) (\<lambda>w.
    bindR (jprop ''Value'' (Some w)) (\<lambda>v.
    if isNullish v then Inl TypeError else
    bindR (jprop ''channelID'' (Some receipt)) (\<lambda>ch. bindR (jprop ''chainCodeName'' (Some receipt)) (\<lambda>cc.
    bindR (jprop ''transactionEndorsement'' (Some receipt)) (\<lambda>es. bindR (iterate es) (\<lambda>xs.
    bindR (mapR endorserOf xs) (\<lambda>proofs.
    let tx1 = tx\<lparr>tx_proof := setCreatorOfProof (newProof c m None) (tx_proof tx)\<rparr>;
        tx2 = setTarget (Some (JStr (jsTextV ch @ '': '' @ jsTextV cc))) (setStateId (Some key) tx1)
    in Inr (foldl (\<lambda>t p. addEndorser p t) tx2 proofs, jsTextV v))))))))))))"

definition fabricReceipts :: "'w apis \<Rightarrow> jsv \<Rightarrow> jsv \<Rightarrow> json \<Rightarrow> Transaction list \<Rightarrow> ('w, jsError, (Transaction \<times> string \<times> json) list) act" where
  "fabricReceipts A path net key = mapA (\<lambda>tx.
     bindA (fabricTxReceipt A path net (tx_id tx)) (\<lambda>receipt.
     bindA (liftR (fabricRecord key tx receipt)) (\<lambda>(tx', v). ret (tx', v, receipt))))"

definition fabricState :: "'w apis \<Rightarrow> jsv \<Rightarrow> jsv \<Rightarrow> json \<Rightarrow> ('w, jsError, jsv \<times> State) act" where
  "fabricState A path net key =
    bindA (fabricTxByKey A path net key) (\<lambda>txs.
    bindA (fabricReceipts A path net key txs) (\<lambda>recs.
    if txs = [] then throwE TypeError else
    bindA (fabricBlock A path net (tx_id (last txs))) (\<lambda>(hash, signers).
    let state = newState (Some key) (Some (JArr (map (JStr \<circ> fst \<circ> snd) recs))) (map fst recs) in
    bindA (liftR (bindR (jprop ''blockMetaData'' (Some (snd (snd (last recs))))) (\<lambda>bm.
      bindR (jprop ''mspid'' bm) (\<lambda>m. bindR (jprop ''blockCreatorID'' bm) (\<lambda>i. Inr (m, i)))))) (\<lambda>(m, i).
    let p = addBlock (JObj [(''blockHash'', JStr hash),
              (''blockCreator'', JStr (stringify (JObj (optFields [(''mspid'', m), (''id'', i)])))),
              (''blockSigners'', strsToJson signers)])
            (stateProofFor state (lastValue (map (Some \<circ> JStr \<circ> fst \<circ> snd) recs)))
    in ret (Some key, setStateProof [p] state)))))"

text \<open>\<open>s.split(",")\<close>\<close>

fun splitComma :: "string \<Rightarrow> string list" where
  "splitComma [] = [[]]"
| "splitComma (c # s) = (if c = CHR '','' then [] # splitComma s
     else (case splitComma s of [] \<Rightarrow> [[c]] | p # ps \<Rightarrow> (c # p) # ps))"

definition strategyFabric :: "'w apis \<Rightarrow> 'w strategy" where
  "strategyFabric A stateIds networkDetails =
    (let net = Some networkDetails in
     thenA (checkTruthy net (fabricTag @ ''generateLedgerStates() networkDetails''))
     (bindA (propA ''connectorApiPath'' net) (\<lambda>path.
      bindA (if stateIds = []
             then bindA (fabricAssetsKey A path net) (\<lambda>v. case v of
                Some (JStr s) \<Rightarrow> ret (splitComma s) | _ \<Rightarrow> throwE TypeError)
             else ret stateIds) (\<lambda>keys.
      bindA (mapA (\<lambda>k. fabricState A path net (JStr k)) keys) (\<lambda>kss.
      ret (foldl (\<lambda>m (k, s). mapSet k s m) [] kss))))))"

end
