(* ===== verification/Bungee_Merge_Properties.thy ===== *)
theory Bungee_Merge_Properties
  imports Bungee_Properties Bungee_Strategies
begin

text \<open>
  Properties of merging views: the integrated view implements a map from a state and a view to the
  state that view has, only signed views are merged, and the time frame of the result.
\<close>

section \<open>The abstract integrated view\<close>

text \<open>
  What an integrated view stands for: a partial function of a state id and a view id. Adding a
  state is an insertion that does not overwrite.
\<close>

definition absStates :: "IntegratedView \<Rightarrow> (jsv \<times> jsv) \<Rightarrow> State option" where
  "absStates iv = (\<lambda>(i, k). getState i k iv)"

definition putAbsent :: "('k \<rightharpoonup> 'v) \<Rightarrow> 'k \<times> 'v \<Rightarrow> ('k \<rightharpoonup> 'v)" where
  "putAbsent m = (\<lambda>(k, v). if m k = None then m(k \<mapsto> v) else m)"

interpretation partial: dictionary "\<lambda>m k. m k" "\<lambda>k v m. m(k \<mapsto> v)" "\<lambda>k m. m(k := None)" Map.empty "\<lambda>_. True"
  by unfold_locales auto

lemma putAbsent_entries: "foldl putAbsent Map.empty es = map_of es"
proof -
  have eq: "putAbsent = (\<lambda>m (k, v). if m k = None then m(k \<mapsto> v) else m)" by (simp add: putAbsent_def fun_eq_iff)
  show ?thesis using partial.first_entry_stays [of Map.empty es] by (intro ext) (simp add: eq)
qed

definition entries :: "View list \<Rightarrow> ((jsv \<times> jsv) \<times> State) list" where
  "entries views = concat (map (\<lambda>v. map (\<lambda>s. ((st_id s, vw_key v), s)) (sn_stateBins (vw_snapshot v))) views)"

section \<open>One step refines one insertion\<close>

definition added :: "View \<Rightarrow> State \<Rightarrow> IntegratedView \<Rightarrow> IntegratedView" where
  "added view s iv = addStateInExtendedState (st_id s) (vw_key view) s
     (if getExtendedState (st_id s) iv = None then createExtendedState (st_id s) iv else iv)"

lemma absStates_added: "absStates (added view s iv) = putAbsent (absStates iv) ((st_id s, vw_key view), s)"
  by (auto simp: absStates_def putAbsent_def added_def getState_def addStateInExtendedState_def createExtendedState_def
      getExtendedState_def setState_def map_of_mapSet fun_eq_iff split: option.splits)

lemma added_frame [simp]:
  "iv_tI (added view s iv) = iv_tI iv" "iv_tF (added view s iv) = iv_tF iv"
  "iv_viewsMetadata (added view s iv) = iv_viewsMetadata iv" "iv_participants (added view s iv) = iv_participants iv"
  by (simp_all add: added_def addStateInExtendedState_def createExtendedState_def split: option.split)

lemma mergeState_Inr:
  "mergeState view iv s = Inr iv' \<longleftrightarrow> (\<exists>a ti b tf.
     bigInt (getInitialTime s) = Inr a \<and> bigInt (iv_tI iv) = Inr ti \<and> bigInt (getFinalTime s) = Inr b \<and> bigInt (iv_tF iv) = Inr tf
     \<and> iv' = (added view s iv)\<lparr>iv_tI := (if a < ti \<or> a < 0 then getInitialTime s else iv_tI iv),
                iv_tF := (if tf < b \<or> b < 0 then getFinalTime s else iv_tF iv)\<rparr>)"
proof -
  have "mergeState view iv s = bindR (bigInt (getInitialTime s)) (\<lambda>a. bindR (bigInt (iv_tI iv)) (\<lambda>ti.
      bindR (bigInt (getFinalTime s)) (\<lambda>b. bindR (bigInt (iv_tF iv)) (\<lambda>tf.
      Inr ((added view s iv)\<lparr>iv_tI := (if a < ti \<or> a < 0 then getInitialTime s else iv_tI iv),
        iv_tF := (if tf < b \<or> b < 0 then getFinalTime s else iv_tF iv)\<rparr>)))))"
  proof -
    have *: "addStateInExtendedState (st_id s) (vw_key view) s
        (if getExtendedState (st_id s) iv = None then createExtendedState (st_id s) iv else iv) = added view s iv"
      by (simp add: added_def)
    have "iv_tI (added view s iv) = iv_tI iv" "iv_tF (added view s iv) = iv_tF iv"
      by (simp_all add: added_def addStateInExtendedState_def createExtendedState_def split: option.split)
    then show ?thesis
      unfolding mergeState_def Let_def *
      by (cases "added view s iv") (auto intro!: arg_cong2 [where f = bindR] ext)
  qed
  then show ?thesis by (simp only: bindR_Inr sum.inject eq_commute [of _ iv']) blast
qed

lemma absStates_update [simp]:
  "absStates (iv\<lparr>iv_tI := t\<rparr>) = absStates iv" "absStates (iv\<lparr>iv_tF := t\<rparr>) = absStates iv"
  "absStates (iv\<lparr>iv_viewsMetadata := ms\<rparr>) = absStates iv" "absStates (iv\<lparr>iv_participants := ps\<rparr>) = absStates iv"
  "absStates (iv\<lparr>iv_integratedViewProof := p\<rparr>) = absStates iv"
  by (simp_all add: absStates_def getState_def getExtendedState_def fun_eq_iff)

lemma absStates_mergeState:
  "mergeState view iv s = Inr iv' \<Longrightarrow> absStates iv' = putAbsent (absStates iv) ((st_id s, vw_key view), s)"
  by (auto simp: mergeState_Inr absStates_added)

lemma absStates_mergeStates:
  "foldR (mergeState view) iv ss = Inr iv' \<Longrightarrow>
    absStates iv' = foldl putAbsent (absStates iv) (map (\<lambda>s. ((st_id s, vw_key view), s)) ss)"
  by (induction ss arbitrary: iv) (auto simp: bindR_Inr dest!: absStates_mergeState)

lemma absStates_mergeView:
  "mergeView iv (view, sig) = Inr iv' \<Longrightarrow> absStates iv' = foldl putAbsent (absStates iv) (entries [view])"
  by (auto simp: mergeView_def Let_def entries_def addIncludedViewMetadata_def addParticipant_def dest!: absStates_mergeStates split: if_splits)

lemma absStates_mergeViews:
  "foldR mergeView iv vs = Inr iv' \<Longrightarrow> absStates iv' = foldl putAbsent (absStates iv) (entries (map fst vs))"
proof (induction vs arbitrary: iv)
  case (Cons x xs)
  obtain view sig where x: "x = (view, sig)" by (cases x)
  from Cons.prems obtain u where u: "mergeView iv (view, sig) = Inr u" "foldR mergeView u xs = Inr iv'"
    by (auto simp: bindR_Inr x)
  show ?case using Cons.IH [OF u(2)] absStates_mergeView [OF u(1)] by (simp add: x entries_def)
qed (simp add: entries_def)

text \<open>Every view leaves its metadata, with the signature it came with.\<close>

lemma mergeStates_metadata:
  "foldR (mergeState view) iv ss = Inr iv' \<Longrightarrow> iv_viewsMetadata iv' = iv_viewsMetadata iv"
  by (induction ss arbitrary: iv) (auto simp: bindR_Inr mergeState_Inr)

lemma mergeViews_metadata:
  "foldR mergeView iv vs = Inr iv' \<Longrightarrow> iv_viewsMetadata iv' = iv_viewsMetadata iv @ map (\<lambda>(v, sig). viewMetadata v sig) vs"
proof (induction vs arbitrary: iv)
  case (Cons x xs)
  then show ?case
    by (auto simp: bindR_Inr mergeView_def Let_def addIncludedViewMetadata_def addParticipant_def
        dest!: mergeStates_metadata split: prod.splits if_splits)
qed simp

lemma withSignatures_fst [simp]: "map fst (withSignatures views sigs) = views"
  by (simp add: withSignatures_def comp_def map_nth)

lemma absStates_new [simp]: "absStates (newIntegratedView root uuid policy hash) = Map.empty"
  by (simp add: absStates_def getState_def getExtendedState_def newIntegratedView_def setIntegratedViewProof_def fun_eq_iff)

text \<open>The effect of a policy on the abstract map.\<close>

definition absPolicy :: "string \<Rightarrow> string list \<Rightarrow> ((jsv \<times> jsv) \<rightharpoonup> State) \<Rightarrow> ((jsv \<times> jsv) \<rightharpoonup> State)" where
  "absPolicy policy args m = (\<lambda>(i, k).
     if policy = ''pruneState'' \<and> i = argAt 0 args \<or> policy = ''pruneStateFromView'' \<and> i = argAt 0 args \<and> k = argAt 1 args
     then None else m (i, k))"

lemma absStates_policy:
  "absStates (case getMergePolicy policy of None \<Rightarrow> iv | Some f \<Rightarrow> f iv args) = absPolicy policy args (absStates iv)"
  by (auto simp: getMergePolicy_def absPolicy_def absStates_def getState_def getExtendedState_def mergePruneState_def
      pruneStateFromView_def map_of_mapDelete map_of_mapSet fun_eq_iff split: option.split)

lemma mergeViews_Inr:
  assumes "mergeViews L uuid b views sigs policy args = Inr (iv, s)"
  obtains hash iv0 where
    "foldR mergeView (newIntegratedView (bl_merkle L) uuid policy hash) (withSignatures views sigs) = Inr iv0"
    "iv = setIntegratedViewProof (bl_merkle L) (case getMergePolicy policy of None \<Rightarrow> iv0 | Some f \<Rightarrow> f iv0 args)"
    "signB L b (stringify (integratedViewToJson iv)) = Inr s"
  using assms by (auto simp: mergeViews_def Let_def bindR_Inr)

text \<open>Views whose states have readable times are merged without an error.\<close>

definition dated :: "State \<Rightarrow> bool" where
  "dated s \<longleftrightarrow> (\<exists>a. bigInt (getInitialTime s) = Inr a) \<and> (\<exists>b. bigInt (getFinalTime s) = Inr b)"

definition datedFrame :: "IntegratedView \<Rightarrow> bool" where
  "datedFrame iv \<longleftrightarrow> (\<exists>a. bigInt (iv_tI iv) = Inr a) \<and> (\<exists>b. bigInt (iv_tF iv) = Inr b)"

lemma mergeState_runs:
  assumes "dated s" "datedFrame iv"
  shows "\<exists>iv'. mergeState view iv s = Inr iv' \<and> datedFrame iv'"
proof -
  from assms obtain a b ti tf where "bigInt (getInitialTime s) = Inr a" "bigInt (iv_tI iv) = Inr ti"
    "bigInt (getFinalTime s) = Inr b" "bigInt (iv_tF iv) = Inr tf" by (auto simp: dated_def datedFrame_def)
  then show ?thesis by (simp add: mergeState_Inr) (simp add: datedFrame_def)
qed

lemma mergeView_runs:
  assumes "\<forall>s \<in> set (sn_stateBins (vw_snapshot (fst x))). dated s" "datedFrame iv"
  shows "\<exists>iv'. mergeView iv x = Inr iv' \<and> datedFrame iv'"
proof (cases x)
  case (Pair v sig)
  show ?thesis using assms unfolding Pair mergeView_def
    by (auto simp: Let_def intro!: foldR_runs mergeState_runs)
      (auto simp: datedFrame_def addIncludedViewMetadata_def addParticipant_def)
qed

lemma mergeViews_runs:
  assumes "signsWith L b" "\<forall>v \<in> set views. \<forall>s \<in> set (sn_stateBins (vw_snapshot v)). dated s"
  shows "\<exists>iv s. mergeViews L uuid b views sigs policy args = Inr (iv, s)"
proof -
  have d: "datedFrame (newIntegratedView (bl_merkle L) uuid policy hash)" for hash
    by (auto simp: datedFrame_def newIntegratedView_def setIntegratedViewProof_def stringToBigInt_def trimSpaces_def
        isSpace_def decimalVal_def isDigit_def)
  have "set views = fst ` set (withSignatures views sigs)" by (metis withSignatures_fst set_map)
  then have "\<exists>iv. foldR mergeView (newIntegratedView (bl_merkle L) uuid policy hash) (withSignatures views sigs) = Inr iv \<and> datedFrame iv" for hash
    using assms(2) d by (intro foldR_runs mergeView_runs) auto
  then show ?thesis
    using signB_succeeds [OF assms(1)] by (fastforce simp: mergeViews_def Let_def bindR_Inr)
qed

text \<open>
  C15. The integrated view refines the abstract merge: the state it has for a state id and a view id
  is the first one with that id in a merged view with that key, less what the merge policy removes.
\<close>

theorem merged_states:
  assumes "mergeViews L uuid b views sigs policy args = Inr (iv, s)"
  shows "absStates iv = absPolicy policy args (map_of (entries views))"
proof (rule mergeViews_Inr [OF assms])
  fix hash iv0
  assume *: "foldR mergeView (newIntegratedView (bl_merkle L) uuid policy hash) (withSignatures views sigs) = Inr iv0"
    "iv = setIntegratedViewProof (bl_merkle L) (case getMergePolicy policy of None \<Rightarrow> iv0 | Some f \<Rightarrow> f iv0 args)"
  have "absStates iv0 = map_of (entries views)"
    using absStates_mergeViews [OF *(1)] by (simp add: putAbsent_entries)
  with *(2) show ?thesis by (simp add: setIntegratedViewProof_def absStates_policy)
qed

definition demoView :: "string \<Rightarrow> State list \<Rightarrow> View" where
  "demoView key bins = \<lparr>vw_oldVersionsMetadata = [], vw_creator = Some (JStr ''aa''), vw_key = Some (JStr key),
     vw_tI = Some (JStr ''0''), vw_tF = Some (JStr ''20''),
     vw_snapshot = newSnapshot (Some (JStr ''snapshot'')) (Some (JStr ''org'')) bins, vw_participant = Some (JStr ''org''),
     vw_viewProof = \<lparr>transactionsMerkleRoot = '''', statesMerkleRoot = ''''\<rparr>, vw_policy = None\<rparr>"

lemma demo_times [simp]: "bigInt (getInitialTime demoState) = Inr 1" "bigInt (getFinalTime demoState) = Inr 10"
  by (simp_all add: demoState_def newState_def getInitialTime_def getFinalTime_def)

lemma minusOne [simp]: "stringToBigInt ''-1'' = Some (-1)"
  by code_simp

lemma demo_merged:
  "\<exists>iv s. mergeViews demoLib ''uuid'' demoPlugin [demoView ''v'' [demoState], demoView ''w'' [demoState]] [] ''NONE'' [] = Inr (iv, s)"
proof (rule mergeViews_runs [OF demoPlugin_signs])
  show "\<forall>v \<in> set [demoView ''v'' [demoState], demoView ''w'' [demoState]]. \<forall>s \<in> set (sn_stateBins (vw_snapshot v)). dated s"
    by (simp add: demoView_def newSnapshot_def dated_def)
qed

theorem merged_states_witness:
  "\<exists>iv s. mergeViews demoLib ''uuid'' demoPlugin [demoView ''v'' [demoState], demoView ''w'' [demoState]] [] ''NONE'' [] = Inr (iv, s)
    \<and> getState (Some (JStr ''asset'')) (Some (JStr ''w'')) iv = Some demoState"
proof -
  obtain iv s where m: "mergeViews demoLib ''uuid'' demoPlugin [demoView ''v'' [demoState], demoView ''w'' [demoState]] [] ''NONE'' [] = Inr (iv, s)"
    using demo_merged by blast
  have "absStates iv (Some (JStr ''asset''), Some (JStr ''w'')) = Some demoState"
    by (simp add: merged_states [OF m] absPolicy_def entries_def demoView_def newSnapshot_def) (simp add: demoState_def newState_def)
  with m show ?thesis by (auto simp: absStates_def)
qed

section \<open>The time frame of the result\<close>

definition finalOf :: "State \<Rightarrow> int" where
  "finalOf s = (case bigInt (getFinalTime s) of Inr n \<Rightarrow> n | Inl _ \<Rightarrow> 0)"

text \<open>States that begin and end after the epoch.\<close>

definition afterEpoch :: "State \<Rightarrow> bool" where
  "afterEpoch s \<longleftrightarrow> (\<forall>a. bigInt (getInitialTime s) = Inr a \<longrightarrow> 0 \<le> a) \<and> (\<forall>b. bigInt (getFinalTime s) = Inr b \<longrightarrow> 0 \<le> b)"

text \<open>The lower end as it was set first, the upper end the latest of the final times seen.\<close>

definition frameOf :: "State list \<Rightarrow> IntegratedView \<Rightarrow> bool" where
  "frameOf ss iv \<longleftrightarrow> iv_tI iv = Some (JStr ''-1'') \<and> (\<exists>m. bigInt (iv_tF iv) = Inr m \<and> -1 \<le> m
     \<and> (\<forall>s \<in> set ss. finalOf s \<le> m) \<and> (m = -1 \<or> m \<in> finalOf ` set ss))"

lemma frameOf_mergeState:
  assumes "frameOf ss iv" "mergeState view iv s = Inr iv'" "afterEpoch s"
  shows "frameOf (ss @ [s]) iv'"
proof -
  from assms(1) obtain m where m: "iv_tI iv = Some (JStr ''-1'')" "bigInt (iv_tF iv) = Inr m" "-1 \<le> m"
    "\<forall>s \<in> set ss. finalOf s \<le> m" "m = -1 \<or> m \<in> finalOf ` set ss" by (auto simp: frameOf_def)
  from assms(2,3) m(1,2) obtain a b where b: "bigInt (getFinalTime s) = Inr b" "0 \<le> b" "finalOf s = b"
    "bigInt (getInitialTime s) = Inr a" "0 \<le> a"
    "iv' = (added view s iv)\<lparr>iv_tF := (if m < b then getFinalTime s else iv_tF iv)\<rparr>"
    by (auto simp: mergeState_Inr afterEpoch_def finalOf_def)
  show ?thesis
  proof (cases "m < b")
    case True
    then have "\<forall>t \<in> set ss. finalOf t \<le> b" using m(4) by fastforce
    with True m(1) b show ?thesis by (simp add: frameOf_def)
  qed (use m b in \<open>auto simp: frameOf_def\<close>)
qed

lemma frameOf_mergeStates:
  "foldR (mergeState view) iv ss = Inr iv' \<Longrightarrow> frameOf ts iv \<Longrightarrow> \<forall>s \<in> set ss. afterEpoch s \<Longrightarrow> frameOf (ts @ ss) iv'"
proof (induction ss arbitrary: ts iv)
  case (Cons s ss)
  from Cons.prems obtain u where u: "mergeState view iv s = Inr u" "foldR (mergeState view) u ss = Inr iv'"
    by (auto simp: bindR_Inr)
  have "frameOf (ts @ [s]) u" using Cons.prems by (intro frameOf_mergeState [OF _ u(1)]) auto
  then show ?case using Cons.IH [OF u(2), of "ts @ [s]"] Cons.prems by simp
qed simp

lemma frameOf_mergeViews:
  "foldR mergeView iv vs = Inr iv' \<Longrightarrow> frameOf ts iv \<Longrightarrow>
    \<forall>v \<in> fst ` set vs. \<forall>s \<in> set (sn_stateBins (vw_snapshot v)). afterEpoch s \<Longrightarrow>
    frameOf (ts @ concat (map (\<lambda>v. sn_stateBins (vw_snapshot (fst v))) vs)) iv'"
proof (induction vs arbitrary: ts iv)
  case (Cons x vs)
  obtain view sig where x: "x = (view, sig)" by (cases x)
  from Cons.prems obtain u where u: "mergeView iv (view, sig) = Inr u" "foldR mergeView u vs = Inr iv'"
    by (auto simp: bindR_Inr x)
  have "frameOf (ts @ sn_stateBins (vw_snapshot view)) u"
    using u(1) Cons.prems(2,3) unfolding mergeView_def
    by (auto simp: Let_def x intro!: frameOf_mergeStates) (auto simp: frameOf_def addIncludedViewMetadata_def addParticipant_def)
  then show ?case using Cons.IH [OF u(2), of "ts @ sn_stateBins (vw_snapshot view)"] Cons.prems by (simp add: x)
qed simp

lemma policy_frame:
  "iv_tI (case getMergePolicy p of None \<Rightarrow> iv | Some f \<Rightarrow> f iv args) = iv_tI iv"
  "iv_tF (case getMergePolicy p of None \<Rightarrow> iv | Some f \<Rightarrow> f iv args) = iv_tF iv"
  by (simp_all add: getMergePolicy_def mergePruneState_def pruneStateFromView_def split: option.split)

text \<open>
  For states after the epoch, the upper end of the time frame of an integrated view is the
  latest final time of the merged states, but its lower end is never set: it keeps the value
  \<open>-1\<close> that the constructor gives it as an invalid one.
\<close>

theorem merged_frame:
  assumes "mergeViews L uuid b views sigs policy args = Inr (iv, s)"
    and "\<forall>v \<in> set views. \<forall>s \<in> set (sn_stateBins (vw_snapshot v)). afterEpoch s"
  shows "iv_tI iv = Some (JStr ''-1'')
    \<and> (\<exists>m. bigInt (iv_tF iv) = Inr m \<and> (\<forall>v \<in> set views. \<forall>s \<in> set (sn_stateBins (vw_snapshot v)). finalOf s \<le> m)
        \<and> (m = -1 \<or> (\<exists>v \<in> set views. \<exists>s \<in> set (sn_stateBins (vw_snapshot v)). finalOf s = m)))"
proof (rule mergeViews_Inr [OF assms(1)])
  fix hash iv0
  let ?new = "newIntegratedView (bl_merkle L) uuid policy hash"
  assume *: "foldR mergeView ?new (withSignatures views sigs) = Inr iv0"
    "iv = setIntegratedViewProof (bl_merkle L) (case getMergePolicy policy of None \<Rightarrow> iv0 | Some f \<Rightarrow> f iv0 args)"
  have "frameOf [] ?new" by (simp add: frameOf_def newIntegratedView_def setIntegratedViewProof_def)
  moreover have "set views = fst ` set (withSignatures views sigs)" by (metis withSignatures_fst set_map)
  ultimately have "frameOf (concat (map (\<lambda>v. sn_stateBins (vw_snapshot (fst v))) (withSignatures views sigs))) iv0"
    using frameOf_mergeViews [OF *(1), of "[]"] assms(2) by simp
  moreover have "map (\<lambda>v. sn_stateBins (vw_snapshot (fst v))) (withSignatures views sigs)
      = map (\<lambda>v. sn_stateBins (vw_snapshot v)) (map fst (withSignatures views sigs))"
    by (simp del: withSignatures_fst)
  ultimately have "frameOf (concat (map (\<lambda>v. sn_stateBins (vw_snapshot v)) views)) iv0"
    by (simp only: withSignatures_fst)
  then show ?thesis unfolding *(2)
    by (auto simp: frameOf_def setIntegratedViewProof_def policy_frame)
qed

theorem merged_frame_witness:
  "\<exists>iv s. mergeViews demoLib ''uuid'' demoPlugin [demoView ''v'' [demoState], demoView ''w'' [demoState]] [] ''NONE'' [] = Inr (iv, s)
    \<and> iv_tI iv = Some (JStr ''-1'') \<and> bigInt (iv_tF iv) = Inr 10"
proof -
  obtain iv s where m: "mergeViews demoLib ''uuid'' demoPlugin [demoView ''v'' [demoState], demoView ''w'' [demoState]] [] ''NONE'' [] = Inr (iv, s)"
    using demo_merged by blast
  have "afterEpoch demoState" "finalOf demoState = 10" by (simp_all add: afterEpoch_def finalOf_def)
  with m show ?thesis
    using merged_frame [OF m] by (auto simp: demoView_def newSnapshot_def)
qed

end
