(* ===== verification/Bungee_Strategy_Properties.thy ===== *)
theory Bungee_Strategy_Properties
  imports Bungee_Merge_Properties
begin

text \<open>
  The states a ledger strategy returns are well formed: they belong to the key they are stored
  under, have one value per transaction, and everything in them can be printed. The proofs follow
  the calls of the connector with a predicate on the values an action can return.
\<close>

section \<open>Values an action can return\<close>

named_theorems yields_intros

definition yields :: "('a \<Rightarrow> bool) \<Rightarrow> ('w, jsError, 'a) act \<Rightarrow> bool" where
  "yields P m \<longleftrightarrow> (\<forall>w a w'. m w = (Returns a, w') \<longrightarrow> P a)"

lemma yieldsD: "yields P m \<Longrightarrow> m w = (Returns a, w') \<Longrightarrow> P a"
  by (auto simp: yields_def)

lemma yields_ret [yields_intros]: "P a \<Longrightarrow> yields P (ret a)"
  by (simp add: yields_def ret_def)

lemma yields_throwE [yields_intros]: "yields P (throwE e)"
  by (simp add: yields_def throwE_def)

lemma yields_bindA: "yields P m \<Longrightarrow> (\<And>a. P a \<Longrightarrow> yields Q (k a)) \<Longrightarrow> yields Q (bindA m k)"
  unfolding yields_def bindA_def by (auto split: prod.splits outcome.splits) blast

lemma yields_thenA [yields_intros]: "yields Q k \<Longrightarrow> yields Q (thenA m k)"
  unfolding thenA_def by (rule yields_bindA [of "\<lambda>_. True"]) (simp_all add: yields_def)

lemma yields_liftR: "(\<And>a. r = Inr a \<Longrightarrow> P a) \<Longrightarrow> yields P (liftR r)"
  by (cases r) (simp_all add: liftR_def yields_ret yields_throwE)

lemma yields_if [yields_intros]: "(c \<Longrightarrow> yields P m) \<Longrightarrow> (\<not> c \<Longrightarrow> yields P m') \<Longrightarrow> yields P (if c then m else m')"
  by simp

lemma yields_mapA: "(\<And>x. x \<in> set xs \<Longrightarrow> yields (P x) (f x)) \<Longrightarrow> yields (list_all2 P xs) (mapA f xs)"
proof (induction xs)
  case (Cons x xs)
  have "yields (P x) (f x)" "yields (list_all2 P xs) (mapA f xs)" using Cons by simp_all
  then show ?case
    by (auto intro!: yields_bindA [of "P x"] yields_bindA [of "list_all2 P xs"] yields_ret)
qed (simp add: yields_ret)

section \<open>Answers that can be printed\<close>

text \<open>An answer of the connector is an object, and an object has no property twice.\<close>

definition saneApi :: "'w apis \<Rightarrow> bool" where
  "saneApi A \<longleftrightarrow> (\<forall>path op req w status v w'. api_call A path op req w = (Some (status, v), w') \<longrightarrow> wfLeaf v)"

lemma wfLeaf_jprop: "wfLeaf v \<Longrightarrow> jprop k v = Inr u \<Longrightarrow> wfLeaf u"
  by (auto simp: jprop_def wfLeaf_def pred_option_def dest!: map_of_SomeD split: option.splits json.splits)

lemma wfLeaf_iterate: "wfLeaf v \<Longrightarrow> iterate v = Inr xs \<Longrightarrow> \<forall>x \<in> set xs. wfJson x"
  by (auto simp: iterate_def split: option.splits json.splits)

lemma yields_propA: "wfLeaf v \<Longrightarrow> yields wfLeaf (propA k v)"
  unfolding propA_def by (rule yields_liftR) (rule wfLeaf_jprop)

lemma yields_callApi: "saneApi A \<Longrightarrow> yields (\<lambda>(_, v). wfLeaf v) (callApi A path op req)"
  unfolding saneApi_def by (auto simp: yields_def callApi_def split: prod.splits option.splits) blast

lemma yields_fetchField: "saneApi A \<Longrightarrow> yields wfLeaf (fetchField A path op req who what k)"
  unfolding fetchField_def
  by (rule yields_bindA [OF yields_callApi])
    (auto intro!: yields_bindA [OF yields_propA] yields_intros)

section \<open>States of an EVM ledger\<close>

definition wfEvm :: "Transaction list \<times> jsv list \<times> (jsv, json) jsmap \<Rightarrow> bool" where
  "wfEvm = (\<lambda>(txs, vals, blocks). length vals = length txs \<and> (\<forall>t \<in> set txs. wfTransaction t)
     \<and> (\<forall>v \<in> set vals. wfLeaf v) \<and> (\<forall>b \<in> set (mapValues blocks). wfJson b))"

lemma mapValues_mapSet: "set (mapValues (mapSet k v m)) \<subseteq> insert v (set (mapValues m))"
  by (induction k v m rule: mapSet.induct) (auto simp: mapValues_def)

lemma wfJson_orNull [simp]: "wfLeaf v \<Longrightarrow> wfJson (orNull v)"
  by (cases v) (simp_all add: orNull_def)

lemma wfEvm_evmRecord:
  assumes "evmRecord key address tx blk log s = Inr s'" "wfEvm s" "wfJson key" "wfLeaf address" "wfLeaf tx" "wfLeaf blk" "wfJson log"
  shows "wfEvm s'"
proof -
  obtain txs vals blocks where s: "s = (txs, vals, blocks)" by (cases s)
  from assms(1) obtain f h ts inp d where p: "jprop ''from'' tx = Inr f" "jprop ''transactionHash'' (Some log) = Inr h"
    "jprop ''timestamp'' blk = Inr ts" "jprop ''input'' tx = Inr inp" "jprop ''data'' (Some log) = Inr d"
    and s': "s' = (txs @ [setPayload (if truthy inp then inp else Some (JStr ''''))
         (setTarget address (setStateId (Some key) (newTransaction h ts (newTransactionProof (newProof f None None) h))))],
       vals @ [map_option (JStr \<circ> stringify) d], mapSet h (orNull blk) blocks)"
    by (auto simp: evmRecord_def s bindR_Inr Let_def)
  have "wfLeaf f" "wfLeaf h" "wfLeaf ts" "wfLeaf inp" "wfLeaf d"
    using p assms(5-7) wfLeaf_jprop [of "Some log"] by (auto intro: wfLeaf_jprop)
  then have "wfTransaction (setPayload (if truthy inp then inp else Some (JStr ''''))
         (setTarget address (setStateId (Some key) (newTransaction h ts (newTransactionProof (newProof f None None) h)))))"
    using assms(3,4)
    by (auto simp: wfTransaction_def setPayload_def setTarget_def setStateId_def newTransaction_def newTransactionProof_def)
  moreover have "wfLeaf (map_option (JStr \<circ> stringify) d)" by (cases d) simp_all
  ultimately show ?thesis
    using assms(2,6) mapValues_mapSet [of h "orNull blk" blocks] by (auto simp: wfEvm_def s s')
qed

lemma yields_evmRecords:
  assumes "\<And>l. wfJson l \<Longrightarrow> yields wfLeaf (getTx l)" "\<And>l. wfJson l \<Longrightarrow> yields wfLeaf (getBlock l)"
    "wfJson key" "wfLeaf address" "\<forall>l \<in> set ls. wfJson l" "wfEvm s"
  shows "yields wfEvm (evmRecords getTx getBlock key address ls s)"
  using assms(5,6)
proof (induction ls arbitrary: s)
  case (Cons l ls)
  have "yields wfLeaf (getTx l)" "yields wfLeaf (getBlock l)" using assms(1,2) Cons.prems by simp_all
  then show ?case using Cons assms(3,4)
    by (auto intro!: yields_bindA [of wfLeaf] yields_bindA [of wfEvm] yields_liftR Cons.IH dest: wfEvm_evmRecord)
qed (simp add: yields_ret)

text \<open>The state built from what was collected for a key.\<close>

definition evmStateOk :: "jsv \<Rightarrow> State \<Rightarrow> bool" where
  "evmStateOk k s \<longleftrightarrow> st_id s = k \<and> st_version s = length (st_transactions s)
     \<and> (\<exists>vs. st_values s = Some (JArr vs) \<and> length vs = length (st_transactions s)) \<and> wfJson (stateToJson s)
     \<and> ((\<forall>t \<in> set (st_transactions s). timed t) \<longrightarrow> wfState s)"

lemma evmBlocks_wf:
  "evmBlocks seen bs p = Inr q \<Longrightarrow> \<forall>b \<in> set bs. wfJson b \<Longrightarrow> wfStateProof p \<Longrightarrow> wfStateProof q"
proof (induction seen bs p rule: evmBlocks.induct)
  case (2 seen b bs p)
  from "2.prems"(1) obtain h where h: "jprop ''hash'' (Some b) = Inr h" by (auto simp: bindR_Inr)
  have wh: "wfLeaf h" using h "2.prems"(2) by (intro wfLeaf_jprop [OF _ h]) simp
  show ?case
  proof (cases "list_ex (strictEq h) seen")
    case True
    then show ?thesis using 2 h by simp
  next
    case False
    with "2.prems"(1) h obtain m where m: "jprop ''miner'' (Some b) = Inr m"
      "evmBlocks (seen @ [h]) bs (addBlock (JObj (optFields [(''blockHash'', h), (''blockCreator'', m), (''blockSigners'', Some (JArr []))])) p) = Inr q"
      by (auto simp: bindR_Inr)
    have "wfLeaf m" using "2.prems"(2) by (intro wfLeaf_jprop [OF _ m(1)]) simp
    with wh have "wfJson (JObj (optFields [(''blockHash'', h), (''blockCreator'', m), (''blockSigners'', Some (JArr []))]))"
      by (intro wfJson_optFields) (auto simp: wfLeaf_def)
    then show ?thesis using "2.IH"(2) [OF False m(2)] "2.prems"(2,3) by (simp add: wfStateProof_def addBlock_def)
  qed
qed simp

lemma parseInt_natToString [simp]: "parseInt (natToString n) = Some (int n)"
  using parseInt_intToString [of "int n"] by (simp add: intToString_def)

lemma evmState_ok:
  assumes "evmState key r = Inr s" "wfEvm r" "wfJson key"
  shows "evmStateOk (Some key) s"
proof -
  obtain txs vals blocks where r: "r = (txs, vals, blocks)" by (cases r)
  let ?s = "newState (Some key) (Some (JArr (map orNull vals))) txs"
  from assms(1) obtain p where p: "evmBlocks [] (mapValues blocks) (stateProofFor ?s (lastValue vals)) = Inr p"
    "s = setStateProof [p] ?s"
    by (auto simp: evmState_def r Let_def bindR_Inr)
  have "wfLeaf (lastValue vals)" using assms(2) by (simp add: lastValue_def wfEvm_def r)
  then have "wfStateProof (stateProofFor ?s (lastValue vals))"
    using assms(3) by (simp add: wfStateProof_def stateProofFor_def newStateProof_def newState_def)
  then have "wfStateProof p" using evmBlocks_wf [OF p(1)] assms(2) by (simp add: wfEvm_def r)
  moreover have "wfJson (stateToJson s)"
    unfolding stateToJson_def using assms(2,3) calculation
    by (intro wfJson_optFields)
      (auto simp: p(2) setStateProof_def newState_def wfEvm_def r wfJson_transaction wfJson_stateProof wfLeaf_def)
  ultimately show ?thesis using assms(2,3)
    by (auto simp: evmStateOk_def wfState_def aligned_def p(2) setStateProof_def newState_def wfEvm_def r)
qed

lemma mapSet_subset: "set (mapSet k v m) \<subseteq> insert (k, v) (set m)"
  by (induction k v m rule: mapSet.induct) auto

lemma filled_subset: "set (foldl (\<lambda>m (k, s). mapSet k s m) m es) \<subseteq> set m \<union> set es"
proof (induction es arbitrary: m)
  case (Cons e es)
  obtain k s where e: "e = (k, s)" by (cases e)
  show ?case using Cons.IH [of "mapSet k s m"] mapSet_subset [of k s m] by (auto simp: e)
qed simp

definition statesOk :: "(jsv, State) jsmap \<Rightarrow> bool" where
  "statesOk m \<longleftrightarrow> (\<forall>e \<in> set m. evmStateOk (fst e) (snd e))"

lemma yields_evmStates:
  assumes "\<And>k. wfJson k \<Longrightarrow> yields wfEvm (info k)" "\<forall>k \<in> set keys. wfJson k"
  shows "yields statesOk (evmStates info keys [])"
proof -
  let ?f = "\<lambda>k. bindA (info k) (\<lambda>r. bindA (liftR (evmState k r)) (\<lambda>s. ret (Some k, s)))"
  have one: "yields (\<lambda>e. evmStateOk (fst e) (snd e)) (?f k)" if "wfJson k" for k
  proof (rule yields_bindA [OF assms(1) [OF that]])
    fix r
    assume "wfEvm r"
    then have "yields (evmStateOk (Some k)) (liftR (evmState k r))"
      using that by (intro yields_liftR evmState_ok)
    then show "yields (\<lambda>e. evmStateOk (fst e) (snd e)) (bindA (liftR (evmState k r)) (\<lambda>s. ret (Some k, s)))"
      by (rule yields_bindA) (simp add: yields_ret)
  qed
  have "yields (list_all2 (\<lambda>_ e. evmStateOk (fst e) (snd e)) keys) (mapA ?f keys)"
    by (rule yields_mapA, rule one, rule bspec [OF assms(2)])
  then show ?thesis unfolding evmStates_def
  proof (rule yields_bindA)
    fix es
    assume "list_all2 (\<lambda>_ e. evmStateOk (fst e) (snd e)) keys es"
    then have "statesOk es"
      by (induction keys es rule: list_all2_induct) (simp_all add: statesOk_def)
    then show "yields statesOk (ret (foldl (\<lambda>m (k, s). mapSet k s m) [] es))"
      using filled_subset [of "[]" es] by (intro yields_ret) (auto simp: statesOk_def)
  qed
qed

lemma wfEvm_empty [simp]: "wfEvm ([], [], [])"
  by (simp add: wfEvm_def mapValues_def)

lemma yields_besuInfo:
  assumes "saneApi A" "wfLeaf net" "wfJson key"
  shows "yields wfEvm (besuInfoByKey A path net key)"
  unfolding besuInfoByKey_def
  by (rule yields_bindA [OF yields_propA [OF assms(2)]], rule yields_bindA [OF yields_fetchField [OF assms(1)]],
      rule yields_bindA [of "\<lambda>xs. \<forall>x \<in> set xs. wfJson x"], rule yields_liftR, erule (1) wfLeaf_iterate,
      rule yields_evmRecords)
    (auto intro!: yields_bindA [OF yields_propA] yields_fetchField assms)

lemma yields_ethereumInfo:
  assumes "saneApi A" "wfLeaf net" "wfJson key"
  shows "yields wfEvm (ethereumInfoByKey A path net key)"
  unfolding ethereumInfoByKey_def
  by (rule yields_bindA [OF yields_propA [OF assms(2)]], rule yields_bindA [OF yields_fetchField [OF assms(1)]],
      rule yields_bindA [of "\<lambda>xs. \<forall>x \<in> set xs. wfJson x"], rule yields_liftR, erule (1) wfLeaf_iterate,
      rule yields_evmRecords)
    (auto intro!: yields_bindA [OF yields_propA] yields_fetchField assms)

lemma yields_keys:
  assumes "yields wfLeaf all"
  shows "yields (\<lambda>ks. \<forall>k \<in> set ks. wfJson k) (if ids = [] then bindA all (\<lambda>v. liftR (iterate v)) else ret (map JStr ids))"
proof (cases "ids = []")
  case True
  have "yields (\<lambda>ks. \<forall>k \<in> set ks. wfJson k) (bindA all (\<lambda>v. liftR (iterate v)))"
    using wfLeaf_iterate by (intro yields_bindA [OF assms] yields_liftR) blast
  with True show ?thesis by simp
qed (simp add: yields_ret)

lemma yields_strategyBesu:
  assumes "saneApi A" "wfJson net"
  shows "yields statesOk (strategyBesu A ids net)"
proof -
  have n: "wfLeaf (Some net)" using assms(2) by simp
  have "yields wfLeaf (besuAssetsKey A path (Some net))" for path
    unfolding besuAssetsKey_def by (intro yields_bindA [OF yields_propA [OF n]] yields_fetchField assms)
  then show ?thesis unfolding strategyBesu_def Let_def
    by (intro yields_thenA yields_bindA [OF yields_propA [OF n]] yields_bindA [OF yields_keys]
        yields_evmStates yields_besuInfo assms n) auto
qed

lemma yields_strategyEthereum:
  assumes "saneApi A" "wfJson net"
  shows "yields statesOk (strategyEthereum A ids net)"
proof -
  have n: "wfLeaf (Some net)" using assms(2) by simp
  have "yields wfLeaf (ethereumAssetsKey A path (Some net))" for path
    unfolding ethereumAssetsKey_def by (intro yields_bindA [OF yields_propA [OF n]] yields_fetchField assms)
  then show ?thesis unfolding strategyEthereum_def Let_def
    by (intro yields_thenA yields_bindA [OF yields_propA [OF n]] yields_bindA [OF yields_keys]
        yields_evmStates yields_ethereumInfo assms n) auto
qed

text \<open>
  C16. The states that the EVM strategies return are well typed, for every connector whose answers are
  JSON: each is stored under its own id, its version is the number of its transactions, there is one
  value per transaction, and it is printed to JSON text that parses back. Under the further condition
  that its time stamps are integers, it has the shape that pruning and reading a view rely on.
\<close>

theorem evm_states_well_formed:
  assumes "saneApi A" "wfJson net" "f = strategyBesu A \<or> f = strategyEthereum A"
    and "f ids net w = (Returns m, w')" "(k, s) \<in> set m"
  shows "st_id s = k \<and> st_version s = length (st_transactions s)
    \<and> (\<exists>vs. st_values s = Some (JArr vs) \<and> length vs = length (st_transactions s))
    \<and> parse (stringify (stateToJson s)) = Some (stateToJson s)
    \<and> ((\<forall>t \<in> set (st_transactions s). timed t) \<longrightarrow> wfState s)"
proof -
  have "yields statesOk (f ids net)" using assms(1-3) yields_strategyBesu yields_strategyEthereum by blast
  then have "statesOk m" using assms(4) by (rule yieldsD)
  with assms(5) show ?thesis by (force simp: statesOk_def evmStateOk_def)
qed

definition demoApi :: "unit apis" where
  "demoApi = \<lparr>api_call = (\<lambda>path op req w. (Some (200, Some (
      if op = ''getPastLogsV1'' then JObj [(''logs'', JArr [JObj [(''transactionHash'', JStr ''0x1''), (''blockHash'', JStr ''0xb''), (''data'', JStr ''0xd'')]])]
      else if op = ''getTransactionV1'' then JObj [(''transaction'', JObj [(''from'', JStr ''alice''), (''input'', JStr ''0x2'')])]
      else JObj [(''block'', JObj [(''hash'', JStr ''0xb''), (''miner'', JStr ''carol''), (''timestamp'', JStr ''7'')])])), w)),
    api_keccak256 = (\<lambda>_. ''0xk'')\<rparr>"

definition demoNetwork :: json where
  "demoNetwork = JObj [(''connectorApiPath'', JStr ''http''), (''participant'', JStr ''org''), (''contractAddress'', JStr ''0xc'')]"

definition demoCollected :: "(jsv, State) jsmap option" where
  "demoCollected = (case strategyBesu demoApi [''asset''] demoNetwork () of (Returns m, _) \<Rightarrow> Some m | _ \<Rightarrow> None)"

lemma demo_collected:
  "map_option (map fst) demoCollected = Some [Some (JStr ''asset'')]"
  "map_option (map (map tx_timeStamp \<circ> st_transactions \<circ> snd)) demoCollected = Some [[Some (JStr ''7'')]]"
  by code_simp+

theorem evm_states_well_formed_witness:
  "\<exists>s w'. strategyBesu demoApi [''asset''] demoNetwork () = (Returns [(Some (JStr ''asset''), s)], w') \<and> wfState s \<and> st_version s = 1"
proof -
  obtain m where m: "demoCollected = Some m" using demo_collected(1) by (cases demoCollected) simp_all
  have "map fst m = [Some (JStr ''asset'')]" "map (map tx_timeStamp \<circ> st_transactions \<circ> snd) m = [[Some (JStr ''7'')]]"
    using demo_collected unfolding m option.map option.inject by this
  then obtain s where "m = [(Some (JStr ''asset''), s)]" "map tx_timeStamp (st_transactions s) = [Some (JStr ''7'')]"
    by (cases m) auto
  with m have s: "demoCollected = Some [(Some (JStr ''asset''), s)]" "map tx_timeStamp (st_transactions s) = [Some (JStr ''7'')]"
    by simp_all
  obtain r w' where rw: "strategyBesu demoApi [''asset''] demoNetwork () = (r, w')" by (rule prod.exhaust)
  then have run: "strategyBesu demoApi [''asset''] demoNetwork () = (Returns [(Some (JStr ''asset''), s)], w')"
    using s(1) by (cases r) (simp_all add: demoCollected_def)
  have "bigInt (Some (JStr ''7'')) = Inr 7" by code_simp
  then have "\<forall>t \<in> set (st_transactions s). timed t"
    using s(2) by (auto simp: timed_def map_eq_Cons_conv)
  moreover have "saneApi demoApi" "wfJson demoNetwork" by (simp_all add: saneApi_def demoApi_def demoNetwork_def)
  moreover have "length (st_transactions s) = 1" using s(2) by (metis length_map length_Cons list.size(3) One_nat_def)
  ultimately show ?thesis
    using run evm_states_well_formed [of demoApi demoNetwork "strategyBesu demoApi" "[''asset'']" "()" "[(Some (JStr ''asset''), s)]" w' "Some (JStr ''asset'')" s]
    by auto
qed

section \<open>Merging only what is signed\<close>

lemma withSignatures_zip [simp]: "withSignatures (map fst vs) (map snd vs) = vs"
  by (auto simp: withSignatures_def intro: nth_equalityI)

lemma acceptView_Inr:
  "acceptView L b (u, t) = Inr x \<Longrightarrow> \<exists>text creator. signedParts t = Inr (snd x, text, creator)
    \<and> verifyViewSignature L b (snd x) text creator = Inr True \<and> deserializeView (bl_merkle L) u t = Inr (fst x)"
  by (auto simp: acceptView_def bindR_Inr split: if_splits)

lemma policy_metadata: "iv_viewsMetadata (case getMergePolicy p of None \<Rightarrow> iv | Some f \<Rightarrow> f iv args) = iv_viewsMetadata iv"
  by (simp add: getMergePolicy_def mergePruneState_def pruneStateFromView_def split: option.split)

text \<open>The two Merkle roots that the text of a view states, of its states and of its transactions.\<close>

definition statedRoots :: "string \<Rightarrow> (jsv \<times> jsv) result" where
  "statedRoots viewStr =
    bindR (parseJ (Some (JStr viewStr))) (\<lambda>outer.
    bindR (jprop ''view'' (Some outer)) (\<lambda>text.
    bindR (parseJ text) (\<lambda>j.
    bindR (jprop ''viewProof'' (Some j)) (\<lambda>vp.
    bindR (jprop ''statesMerkleRoot'' vp) (\<lambda>sr.
    bindR (jprop ''transactionsMerkleRoot'' vp) (\<lambda>tr. Inr (sr, tr)))))))"

text \<open>The stated roots are those of the states and of the transactions the view was read with.\<close>

definition rootsMatch :: "merkle \<Rightarrow> string \<Rightarrow> View \<Rightarrow> bool" where
  "rootsMatch root viewStr v = (case statedRoots viewStr of
      Inl e \<Rightarrow> False
    | Inr (sr, tr) \<Rightarrow>
        looseEqText (bufArray2HexStr (root (map stateLeaf (sn_stateBins (vw_snapshot v))))) sr
        \<and> looseEqText (bufArray2HexStr (root (map transactionLeaf (getAllTransactions v)))) tr)"

lemma deserializeView_roots:
  assumes "deserializeView root uuid t = Inr v"
  shows "rootsMatch root t v"
proof -
  obtain outer vt j where j: "parseJ (Some (JStr t)) = Inr outer" "jprop ''view'' (Some outer) = Inr vt"
    "parseJ vt = Inr j" "viewOf root uuid j = Inr v"
    using assms by (auto simp: deserializeView_def bindR_Inr)
  from j(4) show ?thesis
    unfolding viewOf_def Let_def
    by (auto simp: bindR_Inr rootsMatch_def statedRoots_def j(1-3) newView_def addMetadata_back getAllTransactions_def
        generateViewProof_def split: if_splits)
qed

text \<open>
  C17. A merge request succeeds only with at least two views, each of which carries a signature
  that verifies under the key its own text names and states the Merkle roots of exactly the states and
  transactions it is read with; the signed result lists the metadata of exactly these views, in
  order, with their signatures.
\<close>

theorem merge_only_signed:
  assumes "onMergeViews L uuids uuid b req = Inr r"
  shows "\<exists>vs iv. 2 \<le> length (mv_serializedViews req) \<and> length vs = length (mv_serializedViews req)
    \<and> (\<forall>i < length vs. \<exists>text creator. signedParts (mv_serializedViews req ! i) = Inr (snd (vs ! i), text, creator)
        \<and> verifyViewSignature L b (snd (vs ! i)) text creator = Inr True
        \<and> deserializeView (bl_merkle L) (uuids i) (mv_serializedViews req ! i) = Inr (fst (vs ! i))
        \<and> rootsMatch (bl_merkle L) (mv_serializedViews req ! i) (fst (vs ! i)))
    \<and> iv_viewsMetadata iv = map (\<lambda>(v, sig). viewMetadata v sig) vs
    \<and> signB L b (stringify (integratedViewToJson iv)) = Inr (mr_signature r)"
proof -
  let ?texts = "mv_serializedViews req"
  from assms obtain vs iv where two: "\<not> length ?texts \<le> 1"
    and acc: "mapR (acceptView L b) (zip (map uuids [0..<length ?texts]) ?texts) = Inr vs"
    and mer: "mergeViews L uuid b (map fst vs) (map snd vs) (mv_mergePolicy req)
        (case mv_policyArguments req of None \<Rightarrow> [] | Some xs \<Rightarrow> xs) = Inr (iv, mr_signature r)"
    by (auto simp: onMergeViews_def Let_def bindR_Inr split: if_splits)
  have len: "length vs = length ?texts" using mapR_length [OF acc] by simp
  have each: "\<exists>text creator. signedParts (?texts ! i) = Inr (snd (vs ! i), text, creator)
        \<and> verifyViewSignature L b (snd (vs ! i)) text creator = Inr True
        \<and> deserializeView (bl_merkle L) (uuids i) (?texts ! i) = Inr (fst (vs ! i))
        \<and> rootsMatch (bl_merkle L) (?texts ! i) (fst (vs ! i))" if "i < length vs" for i
    using acceptView_Inr [of L b "uuids i" "?texts ! i" "vs ! i"] deserializeView_roots mapR_nth [OF acc, of i] that len
    by fastforce
  obtain hash iv0 where f: "foldR mergeView (newIntegratedView (bl_merkle L) uuid (mv_mergePolicy req) hash) vs = Inr iv0"
    "iv_viewsMetadata iv = iv_viewsMetadata iv0" "signB L b (stringify (integratedViewToJson iv)) = Inr (mr_signature r)"
  proof (rule mergeViews_Inr [OF mer])
    fix hash iv0
    assume *: "foldR mergeView (newIntegratedView (bl_merkle L) uuid (mv_mergePolicy req) hash) (withSignatures (map fst vs) (map snd vs)) = Inr iv0"
      "iv = setIntegratedViewProof (bl_merkle L) (case getMergePolicy (mv_mergePolicy req) of None \<Rightarrow> iv0
         | Some f \<Rightarrow> f iv0 (case mv_policyArguments req of None \<Rightarrow> [] | Some xs \<Rightarrow> xs))"
      "signB L b (stringify (integratedViewToJson iv)) = Inr (mr_signature r)"
    show thesis
      using *(1,3) by (intro that [of hash iv0]) (simp_all add: *(2) setIntegratedViewProof_def policy_metadata)
  qed
  have "iv_viewsMetadata iv = map (\<lambda>(v, sig). viewMetadata v sig) vs"
    using mergeViews_metadata [OF f(1)] f(2) by (simp add: newIntegratedView_def setIntegratedViewProof_def)
  with two len each f(3) show ?thesis by (intro exI [of _ vs] exI [of _ iv]) auto
qed

lemma dated_aligned: "aligned s \<Longrightarrow> dated s"
proof -
  assume "aligned s"
  then have t: "\<forall>t \<in> set (st_transactions s). timed t" by (simp add: aligned_def)
  show ?thesis
  proof (cases "st_transactions s")
    case Nil
    then show ?thesis by (simp add: dated_def getInitialTime_def getFinalTime_def)
  next
    case (Cons a as)
    with t have "timed a" "timed (last (a # as))" using last_in_set [of "a # as"] by (auto simp del: last.simps)
    with Cons show ?thesis by (simp add: dated_def timed_def getInitialTime_def getFinalTime_def del: last.simps)
  qed
qed

text \<open>A created view is accepted by the merge, and its states are in order.\<close>

lemma acceptView_created:
  assumes "generateView L uuid b sn tI tF i = Inr (Some (v, sig))" "wfSnapshot sn" "wfLeaf i"
    and "stringToBigInt tI = Some lo" "stringToBigInt tF = Some hi" "exactFrame lo hi sn"
    and "signsWith L b" "signsWith L b'"
  shows "acceptView L b' (u, serializeView (stringify (viewToJson v)) sig) = Inr (rereadView (bl_merkle L) u lo hi v, Some (JStr sig))"
    and "\<forall>s \<in> set (sn_stateBins (vw_snapshot (rereadView (bl_merkle L) u lo hi v))). dated s"
proof -
  have f: "vw_snapshot v = prunedSnapshot lo hi (prunedSnapshot lo hi sn)"
    "vw_creator v = Some (JStr (bp_pubKeyBungee b))" "signB L b (stringify (viewToJson v)) = Inr sig"
    using generateView_cases [OF assms(1) wfSnapshot_aligned [OF assms(2)]] assms(4,5) by (metis option.inject)+
  have leaves: "prunedLeaves 3 lo hi sn = prunedLeaves 1 lo hi sn"
    using prunedLeaves_settled [OF assms(6), of 2 0] by (simp del: funpow.simps add: numeral_2_eq_2 numeral_3_eq_3)
  show "acceptView L b' (u, serializeView (stringify (viewToJson v)) sig) = Inr (rereadView (bl_merkle L) u lo hi v, Some (JStr sig))"
    using read_created [OF assms(1-5), of u sig] leaves
    by (simp add: acceptView_def signedParts_serializeView created_wfJson [OF assms(1-3)] f(2) signB_verifies [OF assms(7,8) f(3)])
  show "\<forall>s \<in> set (sn_stateBins (vw_snapshot (rereadView (bl_merkle L) u lo hi v))). dated s"
    using wfSnapshot_aligned [OF assms(2)]
    by (auto simp: rereadView_def Let_def f(1) alignedBins_def intro!: dated_aligned aligned_prunedTo aligned_reread)
qed

theorem merge_only_signed_witness:
  "\<exists>t r (vs :: (View \<times> jsv) list). onMergeViews demoLib (\<lambda>_. ''u'') ''uuid'' demoPlugin
      \<lparr>mv_serializedViews = [t, t], mv_mergePolicy = ''NONE'', mv_policyArguments = None\<rparr> = Inr r
    \<and> length vs = 2 \<and> (\<exists>text creator. signedParts t = Inr (snd (vs ! 1), text, creator)
        \<and> verifyViewSignature demoLib demoPlugin (snd (vs ! 1)) text creator = Inr True)
    \<and> rootsMatch (bl_merkle demoLib) t (fst (vs ! 1))"
proof -
  have n: "stringToBigInt ''2'' = Some 2" by code_simp
  obtain v sig where g: "generateView demoLib ''uuid'' demoPlugin demoSnapshot ''2'' ''20'' (Some (JStr ''view'')) = Inr (Some (v, sig))"
    using demo_generated [OF n, of "Some (JStr ''view'')"] by auto
  have e: "exactFrame 2 20 demoSnapshot"
    by (simp add: exactFrame_def demoSnapshot_def newSnapshot_def) (simp add: demoState_def newState_def outside_def)
  let ?t = "serializeView (stringify (viewToJson v)) sig" and ?v = "rereadView (bl_merkle demoLib) ''u'' 2 20 v"
  let ?req = "\<lparr>mv_serializedViews = [?t, ?t], mv_mergePolicy = ''NONE'', mv_policyArguments = None\<rparr>"
  note acc = acceptView_created [OF g wfSnapshot_demo _ n demo_numerals(3) e demoPlugin_signs demoPlugin_signs, of "''u''"]
  have "\<exists>iv s. mergeViews demoLib ''uuid'' demoPlugin [?v, ?v] [Some (JStr sig), Some (JStr sig)] ''NONE'' [] = Inr (iv, s)"
    using acc(2) by (intro mergeViews_runs demoPlugin_signs) simp
  then obtain r where r: "onMergeViews demoLib (\<lambda>_. ''u'') ''uuid'' demoPlugin ?req = Inr r"
    using acc(1) by (auto simp: onMergeViews_def)
  obtain vs where vs: "length vs = length [?t, ?t]"
    "\<forall>i < length vs. \<exists>text creator. signedParts ([?t, ?t] ! i) = Inr (snd (vs ! i), text, creator)
      \<and> verifyViewSignature demoLib demoPlugin (snd (vs ! i)) text creator = Inr True
      \<and> deserializeView (bl_merkle demoLib) ''u'' ([?t, ?t] ! i) = Inr (fst (vs ! i))
      \<and> rootsMatch (bl_merkle demoLib) ([?t, ?t] ! i) (fst (vs ! i))"
    using merge_only_signed [OF r] unfolding MergeViewsRequest.select_convs by blast
  have "length vs = 2" "\<exists>text creator. signedParts ?t = Inr (snd (vs ! 1), text, creator)
      \<and> verifyViewSignature demoLib demoPlugin (snd (vs ! 1)) text creator = Inr True"
    "rootsMatch (bl_merkle demoLib) ?t (fst (vs ! 1))"
    using vs(1) spec [OF vs(2), of 1] by auto
  with r show ?thesis by (intro exI [of _ ?t] exI [of _ r] exI [of _ vs]) simp
qed

end
