(* ===== verification/Plugin_Registry.thy ===== *)
theory Plugin_Registry
  imports JS_Values
begin

text \<open>
  The plugin registry of the core package (\<open>plugin-registry.ts\<close>), the consortium repository
  (\<open>consortium-repository.ts\<close>) and the finality test of consensus algorithms
  (\<open>consensus-has-transaction-finality.ts\<close>), with the argument checks of the common package.
\<close>

section \<open>Argument checks\<close>

text \<open>\<open>Checks.nonBlankString\<close> and \<open>Strings.isNonBlank\<close>, for a text.\<close>

definition isNonBlank :: "string \<Rightarrow> bool" where
  "isNonBlank s \<longleftrightarrow> trimSpaces s \<noteq> []"

definition checkNonBlank :: "string \<Rightarrow> string \<Rightarrow> unit result" where
  "checkNonBlank s subject = (if isNonBlank s then Inr ()
     else Inl (ErrorMsg (CHR 0x22 # subject @ CHR 0x22 # '' is a blank string. Need non-blank.'')))"

definition falsyError :: "string \<Rightarrow> jsError" where
  "falsyError subject = ErrorMsg (CHR 0x22 # subject @ CHR 0x22 # '' is falsy, need a truthy value.'')"

section \<open>The registry\<close>

text \<open>What the registry asks of a plugin; \<open>pl_keychainId\<close> is defined for keychain plugins only.\<close>

record plugin =
  pl_instanceId :: string
  pl_packageName :: string
  pl_keychainId :: "string option"

type_synonym registry = "plugin list"

definition newPluginRegistry :: "plugin list option \<Rightarrow> registry" where
  "newPluginRegistry plugins = (case plugins of None \<Rightarrow> [] | Some ps \<Rightarrow> ps)"

definition findOneById :: "string \<Rightarrow> registry \<Rightarrow> plugin option result" where
  "findOneById i r = bindR (checkNonBlank i ''instanceId'') (\<lambda>_. Inr (find (\<lambda>p. pl_instanceId p = i) r))"

definition orElseThrow :: "'a option \<Rightarrow> string \<Rightarrow> 'a result" where
  "orElseThrow x msg = (case x of None \<Rightarrow> Inl (ErrorMsg msg) | Some a \<Rightarrow> Inr a)"

definition getOneById :: "string \<Rightarrow> registry \<Rightarrow> plugin result" where
  "getOneById i r = bindR (checkNonBlank i ''instanceId'') (\<lambda>_. bindR (findOneById i r) (\<lambda>x.
     orElseThrow x (''Plugin '' @ i @ '' not present in registry'')))"

definition findOneByPackageName :: "string \<Rightarrow> registry \<Rightarrow> plugin option" where
  "findOneByPackageName n r = find (\<lambda>p. pl_packageName p = n) r"

definition getOneByPackageName :: "string \<Rightarrow> registry \<Rightarrow> plugin result" where
  "getOneByPackageName n r = orElseThrow (findOneByPackageName n r) (''Plugin '' @ n @ '' not present in registry'')"

definition findManyByPackageName :: "string \<Rightarrow> registry \<Rightarrow> plugin list" where
  "findManyByPackageName n r = filter (\<lambda>p. pl_packageName p = n) r"

definition findOneByKeychainId :: "string \<Rightarrow> registry \<Rightarrow> plugin result" where
  "findOneByKeychainId i r =
    (if \<not> isNonBlank i then Inl (ErrorMsg ''PluginRegistry#findOneByKeychainId() need keychainId arg as non-blank string.'')
     else orElseThrow (find (\<lambda>p. pl_keychainId p = Some i) (filter (\<lambda>p. pl_keychainId p \<noteq> None) r))
       (''PluginRegistry#findOneByKeychainId() No keychain found for ID '' @ i))"

definition hasByPackageName :: "string \<Rightarrow> registry \<Rightarrow> bool" where
  "hasByPackageName n r \<longleftrightarrow> findOneByPackageName n r \<noteq> None"

text \<open>The plugins are removed from the array \<open>forEach\<close> runs over.\<close>

definition deleteByPackageName :: "string \<Rightarrow> registry \<Rightarrow> registry \<times> nat" where
  "deleteByPackageName n r = spliceLoop (\<lambda>p. pl_packageName p = n) (length r) 0 (r, 0)"

definition addPlugin :: "plugin \<Rightarrow> bool \<Rightarrow> registry \<Rightarrow> (registry \<times> nat) result" where
  "addPlugin p replaceOnConflict r =
    (if hasByPackageName (pl_packageName p) r \<and> \<not> replaceOnConflict
     then Inl (ErrorMsg (''PluginRegistry#add() already have plugin: '' @ pl_packageName p))
     else let (r', n) = (if replaceOnConflict then deleteByPackageName (pl_packageName p) r else (r, 0))
          in Inr (r' @ [p], n))"

section \<open>Finality\<close>

definition familiesWithTxFinality :: "string list" where
  "familiesWithTxFinality = [''org.hyperledger.cactus.consensusalgorithm.PROOF_OF_AUTHORITY'',
     ''org.hyperledger.cactus.consensusalgorithm.PROOF_OF_STAKE'']"

definition familiesWithOutTxFinality :: "string list" where
  "familiesWithOutTxFinality = [''org.hyperledger.cactus.consensusalgorithm.PROOF_OF_WORK'']"

definition consensusHasTransactionFinality :: "string \<Rightarrow> bool result" where
  "consensusHasTransactionFinality f =
    (if f \<notin> set familiesWithTxFinality \<and> f \<notin> set familiesWithOutTxFinality then Inl (HttpError 400 True)
     else Inr (f \<in> set familiesWithTxFinality))"

section \<open>Removal\<close>

lemma deleteByPackageName_skips:
  "deleteByPackageName n r = (skipOut (\<lambda>p. pl_packageName p = n) r, length r - length (skipOut (\<lambda>p. pl_packageName p = n) r))"
  using spliceLoop_skips [of r "length r" 0 "[]" "\<lambda>p. pl_packageName p = n" 0] by (simp add: deleteByPackageName_def)

lemma package_deleted_len: "length (fst (deleteByPackageName n r)) + snd (deleteByPackageName n r) = length r"
  using skipOut_length [of "\<lambda>p. pl_packageName p = n" r] by (simp add: deleteByPackageName_skips)

lemma findOneByPackageName_None: "findOneByPackageName n r = None \<longleftrightarrow> filter (\<lambda>p. pl_packageName p = n) r = []"
  by (auto simp: findOneByPackageName_def find_None_iff filter_empty_conv)

text \<open>
  C18. Deleting a package from the registry reports the number of plugins it removed, keeps every
  plugin of another package in its place, removes at least half of those of the package, and leaves
  none of them exactly when no two stood next to each other; otherwise the package is still
  found afterwards. Such registries are built by the constructor, which takes any list of plugins.
\<close>

theorem package_deleted_iff:
  "length (fst (deleteByPackageName n r)) + snd (deleteByPackageName n r) = length r
   \<and> filter (\<lambda>p. pl_packageName p \<noteq> n) (fst (deleteByPackageName n r)) = filter (\<lambda>p. pl_packageName p \<noteq> n) r
   \<and> (findOneByPackageName n (fst (deleteByPackageName n r)) = None \<longleftrightarrow> \<not> twoInARow (\<lambda>p. pl_packageName p = n) r)
   \<and> 2 * length (findManyByPackageName n (fst (deleteByPackageName n r))) \<le> length (findManyByPackageName n r)"
proof -
  let ?out = "\<lambda>p. pl_packageName p = n"
  have keep: "filter (\<lambda>p. \<not> ?out p) (skipOut ?out r) = filter (\<lambda>p. \<not> ?out p) r" by (rule skipOut_keeps_inside)
  have "filter ?out (skipOut ?out r) = [] \<longleftrightarrow> skipOut ?out r = filter (\<lambda>p. \<not> ?out p) r"
  proof
    assume "filter ?out (skipOut ?out r) = []"
    then have "filter (\<lambda>p. \<not> ?out p) (skipOut ?out r) = skipOut ?out r" by (auto simp: filter_empty_conv)
    with keep show "skipOut ?out r = filter (\<lambda>p. \<not> ?out p) r" by simp
  qed (simp add: filter_empty_conv)
  then have "filter ?out (skipOut ?out r) = [] \<longleftrightarrow> \<not> twoInARow ?out r" by (simp add: skipOut_exact)
  then show ?thesis
    using skipOut_length [of ?out r] skipOut_leaves_half [of ?out r] keep
    by (simp add: deleteByPackageName_skips findOneByPackageName_None findManyByPackageName_def)
qed

section \<open>Registries filled by registration\<close>

text \<open>The registries that registration and removal produce from the empty one.\<close>

inductive registered :: "registry \<Rightarrow> bool" where
  empty: "registered (newPluginRegistry None)"
| added: "registered r \<Longrightarrow> addPlugin p rep r = Inr (r', n) \<Longrightarrow> registered r'"
| deleted: "registered r \<Longrightarrow> deleteByPackageName k r = (r', n) \<Longrightarrow> registered r'"

lemma distinct_one: "distinct (map f xs) \<Longrightarrow> \<not> twoInARow (\<lambda>x. f x = k) xs"
proof (induction xs)
  case (Cons x xs)
  then show ?case by (cases xs) auto
qed simp

lemma delete_distinct:
  "distinct (map pl_packageName r) \<Longrightarrow> fst (deleteByPackageName n r) = filter (\<lambda>p. pl_packageName p \<noteq> n) r"
  using skipOut_exact [of "\<lambda>p. pl_packageName p = n" r] by (simp add: deleteByPackageName_skips distinct_one)

lemma addPlugin_result:
  assumes "distinct (map pl_packageName r)" "addPlugin p rep r = Inr (r', n)"
  shows "r' = filter (\<lambda>q. pl_packageName q \<noteq> pl_packageName p) r @ [p]"
proof (cases rep)
  case True
  with assms delete_distinct [OF assms(1), of "pl_packageName p"] show ?thesis
    by (auto simp: addPlugin_def split: prod.splits if_splits)
next
  case False
  with assms(2) have "filter (\<lambda>q. pl_packageName q = pl_packageName p) r = []" "r' = r @ [p]"
    by (auto simp: addPlugin_def hasByPackageName_def findOneByPackageName_None split: if_splits)
  then show ?thesis by (auto simp: filter_empty_conv intro: filter_True [symmetric])
qed

lemma registered_distinct: "registered r \<Longrightarrow> distinct (map pl_packageName r)"
proof (induction rule: registered.induct)
  case empty
  then show ?case by (simp add: newPluginRegistry_def)
next
  case (added r p rep r' n)
  then show ?case using addPlugin_result [of r p rep r' n] by (auto simp: distinct_map_filter)
next
  case (deleted r k r' n)
  then show ?case using delete_distinct [of r k] by (simp add: distinct_map_filter)
qed

text \<open>
  A registry filled by registration has at most one plugin of each package, although the
  documentation of \<open>ICactusPlugin\<close> speaks of several instances of a package in one registry:
  registering a plugin puts it at the end, in the place of the one of its package, where it is found
  by package name, and a second instance of a package is refused unless it is to replace the first.
\<close>

theorem one_plugin_per_package:
  assumes "registered r"
  shows "distinct (map pl_packageName r)
    \<and> (\<forall>p rep. case addPlugin p rep r of
         Inr (r', n) \<Rightarrow> r' = filter (\<lambda>q. pl_packageName q \<noteq> pl_packageName p) r @ [p]
           \<and> findOneByPackageName (pl_packageName p) r' = Some p \<and> length r' + n = length r + 1
       | Inl e \<Rightarrow> \<not> rep \<and> (\<exists>q \<in> set r. pl_packageName q = pl_packageName p))"
proof (intro conjI allI)
  show d: "distinct (map pl_packageName r)" using assms by (rule registered_distinct)
  fix p rep
  show "case addPlugin p rep r of
         Inr (r', n) \<Rightarrow> r' = filter (\<lambda>q. pl_packageName q \<noteq> pl_packageName p) r @ [p]
           \<and> findOneByPackageName (pl_packageName p) r' = Some p \<and> length r' + n = length r + 1
       | Inl e \<Rightarrow> \<not> rep \<and> (\<exists>q \<in> set r. pl_packageName q = pl_packageName p)"
  proof (cases "addPlugin p rep r")
    case (Inl e)
    then show ?thesis
      by (auto simp: addPlugin_def hasByPackageName_def findOneByPackageName_None filter_empty_conv Let_def split: if_splits prod.splits)
  next
    case (Inr x)
    obtain r' n where x: "x = (r', n)" by (cases x)
    have r': "r' = filter (\<lambda>q. pl_packageName q \<noteq> pl_packageName p) r @ [p]" using d Inr x by (intro addPlugin_result) simp_all
    have "find (\<lambda>q. pl_packageName q = pl_packageName p) (filter (\<lambda>q. pl_packageName q \<noteq> pl_packageName p) r @ [p]) = Some p"
      by (induction r) auto
    moreover have "length r' + n = length r + 1"
      using Inr x package_deleted_len [of "pl_packageName p" r]
      by (auto simp: addPlugin_def Let_def split: if_splits prod.splits)
    ultimately show ?thesis using Inr x r' by (simp add: findOneByPackageName_def)
  qed
qed

definition demoConnector :: "string \<Rightarrow> plugin" where
  "demoConnector i = \<lparr>pl_instanceId = i, pl_packageName = ''connector-besu'', pl_keychainId = None\<rparr>"

theorem one_plugin_per_package_witness:
  "registered [demoConnector ''a''] \<and> distinct (map pl_packageName [demoConnector ''a''])
    \<and> (\<exists>e. addPlugin (demoConnector ''b'') False [demoConnector ''a''] = Inl e)"
proof -
  have "addPlugin (demoConnector ''a'') False (newPluginRegistry None) = Inr ([demoConnector ''a''], 0)"
    by (simp add: addPlugin_def newPluginRegistry_def hasByPackageName_def findOneByPackageName_def)
  then have r: "registered [demoConnector ''a'']" using registered.added [OF registered.empty] by blast
  have "addPlugin (demoConnector ''b'') False [demoConnector ''a'']
      = Inl (ErrorMsg ''PluginRegistry#add() already have plugin: connector-besu'')"
    by (simp add: addPlugin_def hasByPackageName_def findOneByPackageName_def demoConnector_def)
  with r one_plugin_per_package [OF r] show ?thesis by blast
qed

end
