(* ===== verification/Keychain_Memory.thy ===== *)
theory Keychain_Memory
  imports Plugin_Registry
begin

text \<open>
  The in-memory keychain (\<open>plugin-keychain-memory.ts\<close>) with its HTTP endpoints (\<open>web-services/\<close>) and
  its remote procedure service (\<open>crpc-services/\<close>). The backend is a map of texts; every operation
  publishes an event to its observers, and a write stores the number of entries in the exporter.
\<close>

section \<open>The plugin\<close>

datatype keychainEvent =
    GotEvent string string
  | HasEvent string bool
  | SetEvent string string
  | DeletedEvent string

record PluginKeychainMemory =
  kc_instanceId :: string
  kc_keychainId :: string
  kc_backend :: "(string, string) jsmap"
  kc_keyCount :: nat
  kc_published :: "keychainEvent list"

definition newPluginKeychainMemory :: "string \<Rightarrow> string \<Rightarrow> (string, string) jsmap option \<Rightarrow> PluginKeychainMemory result" where
  "newPluginKeychainMemory instanceId keychainId backend =
    (if keychainId = '''' then Inl (falsyError ''PluginKeychainMemory#constructor() arg options.keychainId'')
     else if instanceId = '''' then Inl (falsyError ''PluginKeychainMemory#constructor() options.instanceId'')
     else bindR (checkNonBlank keychainId ''PluginKeychainMemory#constructor() options.keychainId'') (\<lambda>_.
       Inr \<lparr>kc_instanceId = instanceId, kc_keychainId = keychainId,
         kc_backend = (case backend of None \<Rightarrow> [] | Some m \<Rightarrow> m), kc_keyCount = 0, kc_published = []\<rparr>))"

definition publish :: "keychainEvent \<Rightarrow> PluginKeychainMemory \<Rightarrow> PluginKeychainMemory" where
  "publish e k = k\<lparr>kc_published := kc_published k @ [e]\<rparr>"

text \<open>A value that is the empty text is falsy, and counts as not found.\<close>

definition keychainGet :: "string \<Rightarrow> PluginKeychainMemory \<Rightarrow> string result \<times> PluginKeychainMemory" where
  "keychainGet key k = (case map_of (kc_backend k) key of
      Some v \<Rightarrow> if v \<noteq> '''' then (Inr v, publish (GotEvent key v) k)
        else (Inl (ErrorMsg (''Keychain entry for '' @ CHR 0x22 # key @ CHR 0x22 # '' not found.'')), k)
    | None \<Rightarrow> (Inl (ErrorMsg (''Keychain entry for '' @ CHR 0x22 # key @ CHR 0x22 # '' not found.'')), k))"

definition keychainHas :: "string \<Rightarrow> PluginKeychainMemory \<Rightarrow> bool \<times> PluginKeychainMemory" where
  "keychainHas key k = (let b = map_of (kc_backend k) key \<noteq> None in (b, publish (HasEvent key b) k))"

definition setTotalKeyCounter :: "nat \<Rightarrow> PluginKeychainMemory \<Rightarrow> PluginKeychainMemory" where
  "setTotalKeyCounter n k = k\<lparr>kc_keyCount := n\<rparr>"

definition keychainSet :: "string \<Rightarrow> string \<Rightarrow> PluginKeychainMemory \<Rightarrow> PluginKeychainMemory" where
  "keychainSet key v k = (let m = mapSet key v (kc_backend k) in
     setTotalKeyCounter (length m) (publish (SetEvent key v) (k\<lparr>kc_backend := m\<rparr>)))"

definition keychainDelete :: "string \<Rightarrow> PluginKeychainMemory \<Rightarrow> PluginKeychainMemory" where
  "keychainDelete key k = (let m = mapDelete key (kc_backend k) in
     setTotalKeyCounter (length m) (publish (DeletedEvent key) (k\<lparr>kc_backend := m\<rparr>)))"

section \<open>Requests\<close>

datatype keychainRequest =
    GetRequest string
  | HasRequest string
  | SetRequest string string
  | DeleteRequest string

datatype keychainReply = Value string | Present bool | Done | NotFound

text \<open>
  The four endpoints of \<open>web-services/\<close>. An error of the plugin becomes the answer 500, whatever its
  text. The answers carry the key of the request beside what is returned here.
\<close>

definition getKeychainEntryEndpoint :: "string \<Rightarrow> PluginKeychainMemory \<Rightarrow> keychainReply \<times> PluginKeychainMemory" where
  "getKeychainEntryEndpoint key k = (case keychainGet key k of
     (Inr v, k') \<Rightarrow> (Value v, k') | (Inl e, k') \<Rightarrow> (NotFound, k'))"

definition hasKeychainEntryEndpoint :: "string \<Rightarrow> PluginKeychainMemory \<Rightarrow> keychainReply \<times> PluginKeychainMemory" where
  "hasKeychainEntryEndpoint key k = (case keychainHas key k of (b, k') \<Rightarrow> (Present b, k'))"

definition setKeychainEntryEndpoint :: "string \<Rightarrow> string \<Rightarrow> PluginKeychainMemory \<Rightarrow> keychainReply \<times> PluginKeychainMemory" where
  "setKeychainEntryEndpoint key v k = (Done, keychainSet key v k)"

definition deleteKeychainEntryEndpoint :: "string \<Rightarrow> PluginKeychainMemory \<Rightarrow> keychainReply \<times> PluginKeychainMemory" where
  "deleteKeychainEntryEndpoint key k = (Done, keychainDelete key k)"

fun keychainEndpoint :: "keychainRequest \<Rightarrow> PluginKeychainMemory \<Rightarrow> keychainReply \<times> PluginKeychainMemory" where
  "keychainEndpoint (GetRequest key) k = getKeychainEntryEndpoint key k"
| "keychainEndpoint (HasRequest key) k = hasKeychainEntryEndpoint key k"
| "keychainEndpoint (SetRequest key v) k = setKeychainEntryEndpoint key v k"
| "keychainEndpoint (DeleteRequest key) k = deleteKeychainEntryEndpoint key k"

lemmas endpoint_defs = getKeychainEntryEndpoint_def hasKeychainEntryEndpoint_def setKeychainEntryEndpoint_def
  deleteKeychainEntryEndpoint_def

subsection \<open>Remote procedure calls\<close>

text \<open>
  The service of \<open>crpc-services/\<close> refuses a request without its inner message, and a missing or
  blank key, with the code \<open>InvalidArgument\<close>; the endpoints do not. \<open>fld\<close> is the name of the
  inner message.
\<close>

definition crpcKey :: "string \<Rightarrow> string option \<Rightarrow> string result" where
  "crpcKey fld key = (case key of
      None \<Rightarrow> Inl (ErrorMsg (''req.'' @ fld @ '' falsy.''))
    | Some k \<Rightarrow> if k = '''' then Inl (ErrorMsg (''req.'' @ fld @ ''.key falsy.''))
        else if \<not> isNonBlank k then Inl (ErrorMsg (''req.'' @ fld @ ''.key wasn'' @ CHR 0x27 # ''t non-blank string.''))
        else Inr k)"

definition deleteKeychainEntryV1 :: "string option \<Rightarrow> PluginKeychainMemory \<Rightarrow> string result \<times> PluginKeychainMemory" where
  "deleteKeychainEntryV1 req k = (case crpcKey ''deleteKeychainEntryRequestV1PB'' req of
      Inl e \<Rightarrow> (Inl e, k) | Inr key \<Rightarrow> (Inr key, keychainDelete key k))"

definition getKeychainEntryV1 :: "string option \<Rightarrow> PluginKeychainMemory \<Rightarrow> (string \<times> string) result \<times> PluginKeychainMemory" where
  "getKeychainEntryV1 req k = (case crpcKey ''getKeychainEntryRequestV1PB'' req of
      Inl e \<Rightarrow> (Inl e, k)
    | Inr key \<Rightarrow> (case keychainGet key k of (r, k') \<Rightarrow> (bindR r (\<lambda>v. Inr (key, v)), k')))"

definition hasKeychainEntryV1 :: "string option \<Rightarrow> PluginKeychainMemory \<Rightarrow> (string \<times> bool) result \<times> PluginKeychainMemory" where
  "hasKeychainEntryV1 req k = (case crpcKey ''hasKeychainEntryRequestV1PB'' req of
      Inl e \<Rightarrow> (Inl e, k)
    | Inr key \<Rightarrow> (case keychainHas key k of (b, k') \<Rightarrow> (Inr (key, b), k')))"

definition setKeychainEntryV1 :: "(string \<times> string) option \<Rightarrow> PluginKeychainMemory \<Rightarrow> string result \<times> PluginKeychainMemory" where
  "setKeychainEntryV1 req k = (case crpcKey ''setKeychainEntryRequestV1PB'' (map_option fst req) of
      Inl e \<Rightarrow> (Inl e, k) | Inr key \<Rightarrow> (Inr key, keychainSet key (snd (the req)) k))"

text \<open>A sequence of requests to the endpoints.\<close>

primrec serve :: "keychainRequest list \<Rightarrow> PluginKeychainMemory \<Rightarrow> keychainReply list \<times> PluginKeychainMemory" where
  "serve [] k = ([], k)"
| "serve (c # cs) k = (case keychainEndpoint c k of (r, k1) \<Rightarrow> (case serve cs k1 of (rs, k2) \<Rightarrow> (r # rs, k2)))"

section \<open>The keychain is a dictionary\<close>

lemma keychain_simps [simp]:
  "kc_backend (keychainSet key v k) = mapSet key v (kc_backend k)"
  "kc_backend (keychainDelete key k) = mapDelete key (kc_backend k)"
  "kc_backend (snd (keychainGet key k)) = kc_backend k" "kc_backend (snd (keychainHas key k)) = kc_backend k"
  "kc_keyCount (snd (keychainGet key k)) = kc_keyCount k" "kc_keyCount (snd (keychainHas key k)) = kc_keyCount k"
  by (simp_all add: keychainSet_def keychainDelete_def keychainGet_def keychainHas_def publish_def setTotalKeyCounter_def
      Let_def split: option.split)

definition emptyKeychain :: PluginKeychainMemory where
  "emptyKeychain = \<lparr>kc_instanceId = ''i'', kc_keychainId = ''k'', kc_backend = [], kc_keyCount = 0, kc_published = []\<rparr>"

text \<open>A \<open>Map\<close> has every key once.\<close>

definition wfKeychain :: "PluginKeychainMemory \<Rightarrow> bool" where
  "wfKeychain k \<longleftrightarrow> wfMap (kc_backend k)"

interpretation keychain: dictionary "\<lambda>k. map_of (kc_backend k)" keychainSet keychainDelete emptyKeychain wfKeychain
proof unfold_locales
  show "wfKeychain emptyKeychain" by (simp add: wfKeychain_def emptyKeychain_def wfMap_def)
qed (simp_all add: wfKeychain_def wfMap_mapSet wfMap_mapDelete map_of_mapSet map_of_mapDelete, simp add: emptyKeychain_def)

section \<open>Refinement of a partial map\<close>

text \<open>The abstract store: a partial function, looked up, asked, changed and restricted at a key.\<close>

fun absKeychain :: "keychainRequest \<Rightarrow> (string \<rightharpoonup> string) \<Rightarrow> keychainReply \<times> (string \<rightharpoonup> string)" where
  "absKeychain (GetRequest key) m = (case m key of Some v \<Rightarrow> Value v | None \<Rightarrow> NotFound, m)"
| "absKeychain (HasRequest key) m = (Present (key \<in> dom m), m)"
| "absKeychain (SetRequest key v) m = (Done, m(key \<mapsto> v))"
| "absKeychain (DeleteRequest key) m = (Done, m |` (- {key}))"

primrec absServe :: "keychainRequest list \<Rightarrow> (string \<rightharpoonup> string) \<Rightarrow> keychainReply list \<times> (string \<rightharpoonup> string)" where
  "absServe [] m = ([], m)"
| "absServe (c # cs) m = (case absKeychain c m of (r, m1) \<Rightarrow> (case absServe cs m1 of (rs, m2) \<Rightarrow> (r # rs, m2)))"

text \<open>The one answer in which the keychain differs: an empty value is reported as not found.\<close>

definition emptyNotFound :: "keychainReply \<Rightarrow> keychainReply" where
  "emptyNotFound r = (if r = Value '''' then NotFound else r)"

definition isWrite :: "keychainRequest \<Rightarrow> bool" where
  "isWrite c = (case c of SetRequest key v \<Rightarrow> True | DeleteRequest key \<Rightarrow> True | _ \<Rightarrow> False)"

lemma endpoint_refines:
  assumes "absKeychain c (map_of (kc_backend k)) = (r, m)"
  shows "fst (keychainEndpoint c k) = emptyNotFound r \<and> map_of (kc_backend (snd (keychainEndpoint c k))) = m"
proof (cases c)
  case (GetRequest key)
  with assms show ?thesis by (auto simp: endpoint_defs keychainGet_def publish_def emptyNotFound_def split: option.splits)
next
  case (HasRequest key)
  with assms show ?thesis by (auto simp: endpoint_defs keychainHas_def publish_def Let_def emptyNotFound_def)
next
  case (SetRequest key v)
  with assms show ?thesis by (auto simp: endpoint_defs map_of_mapSet fun_eq_iff emptyNotFound_def)
next
  case (DeleteRequest key)
  have "map_of (mapDelete key (kc_backend k)) = map_of (kc_backend k) |` (- {key})"
    by (rule ext) (simp add: map_of_mapDelete restrict_map_def)
  with DeleteRequest assms show ?thesis by (auto simp: endpoint_defs emptyNotFound_def)
qed

lemma endpoint_count:
  "kc_keyCount (snd (keychainEndpoint c k)) = (if isWrite c then length (kc_backend (snd (keychainEndpoint c k))) else kc_keyCount k)"
  by (cases c) (auto simp: isWrite_def endpoint_defs keychainSet_def keychainDelete_def keychainGet_def keychainHas_def
      publish_def setTotalKeyCounter_def Let_def split: option.split)

lemma endpoint_same_keys: "\<not> isWrite c \<Longrightarrow> kc_backend (snd (keychainEndpoint c k)) = kc_backend k"
  by (cases c) (simp_all add: isWrite_def endpoint_defs keychainGet_def keychainHas_def publish_def Let_def split: option.split)

lemma serve_refines:
  "absServe cs (map_of (kc_backend k)) = (rs, m) \<Longrightarrow>
     fst (serve cs k) = map emptyNotFound rs \<and> map_of (kc_backend (snd (serve cs k))) = m"
proof (induction cs arbitrary: k rs m)
  case (Cons c cs)
  obtain r m1 where c: "absKeychain c (map_of (kc_backend k)) = (r, m1)" by fastforce
  obtain q k1 where k1: "keychainEndpoint c k = (q, k1)" by fastforce
  obtain rs2 m2 where cs: "absServe cs m1 = (rs2, m2)" by fastforce
  from endpoint_refines [OF c] have "q = emptyNotFound r" "map_of (kc_backend k1) = m1" by (simp_all add: k1)
  with Cons.IH [of k1 rs2 m2] Cons.prems c cs show ?case by (auto simp: k1 split_def)
qed simp

lemma serve_wf: "wfKeychain k \<Longrightarrow> wfKeychain (snd (serve cs k))"
proof (induction cs arbitrary: k)
  case (Cons c cs)
  have "wfKeychain (snd (keychainEndpoint c k))"
  proof (cases "isWrite c")
    case True
    then show ?thesis using keychain.invar_update [OF Cons.prems] keychain.invar_delete [OF Cons.prems]
      by (cases c) (simp_all add: isWrite_def endpoint_defs)
  next
    case False
    with Cons.prems show ?thesis by (simp add: wfKeychain_def endpoint_same_keys)
  qed
  with Cons.IH show ?case by (simp add: split_def)
qed simp

lemma serve_count:
  "kc_keyCount (snd (serve cs k)) = (if list_ex isWrite cs then length (kc_backend (snd (serve cs k))) else kc_keyCount k)"
proof (induction cs arbitrary: k)
  case (Cons c cs)
  have "kc_backend (snd (serve cs k')) = kc_backend k'" if "\<not> list_ex isWrite cs" for k'
    using that by (induction cs arbitrary: k') (simp_all add: endpoint_same_keys split_def)
  with Cons.IH show ?case by (simp add: endpoint_count split_def)
qed simp

text \<open>
  C19. A keychain refines a partial map, from its construction, with any entries it is given, and
  for every sequence of requests: its answers are those of the partial map, except that a value that
  is the empty text is answered as not found, and it ends in a state that stands for the
  map's. The exported number of keys is the number of entries once something was written or deleted,
  and 0 before, also when the keychain was constructed with entries.
\<close>

theorem keychain_refines_map:
  assumes "newPluginKeychainMemory instanceId keychainId (Some entries) = Inr k" "wfMap entries"
    and "absServe cs (map_of entries) = (rs, m)"
  shows "fst (serve cs k) = map emptyNotFound rs \<and> map_of (kc_backend (snd (serve cs k))) = m
    \<and> kc_keyCount (snd (serve cs k)) = (if list_ex isWrite cs then card (dom m) else 0)"
proof -
  have k: "kc_backend k = entries" "kc_keyCount k = 0"
    using assms(1) by (auto simp: newPluginKeychainMemory_def bindR_Inr split: if_splits)
  have m: "map_of (kc_backend (snd (serve cs k))) = m" and rs: "fst (serve cs k) = map emptyNotFound rs"
    using serve_refines [of cs k rs m] assms(3) k(1) by simp_all
  have "wfMap (kc_backend (snd (serve cs k)))"
    using serve_wf [of k cs] assms(2) k(1) by (simp add: wfKeychain_def)
  then have "length (kc_backend (snd (serve cs k))) = card (dom m)"
    by (simp add: m [symmetric] wfMap_def dom_map_of_conv_image_fst distinct_card flip: set_map)
  with m rs k(2) show ?thesis by (simp add: serve_count)
qed

theorem keychain_refines_map_witness:
  "\<exists>k. newPluginKeychainMemory ''i'' ''k'' (Some [(''a'', ''1'')]) = Inr k
    \<and> fst (serve [GetRequest ''a'', SetRequest ''b'' '''', HasRequest ''b'', GetRequest ''b'', DeleteRequest ''a'', GetRequest ''a''] k)
      = [Value ''1'', Done, Present True, NotFound, Done, NotFound]"
proof -
  let ?cs = "[GetRequest ''a'', SetRequest ''b'' '''', HasRequest ''b'', GetRequest ''b'', DeleteRequest ''a'', GetRequest ''a'']"
  obtain k where k: "newPluginKeychainMemory ''i'' ''k'' (Some [(''a'', ''1'')]) = Inr k"
    by (simp add: newPluginKeychainMemory_def checkNonBlank_def isNonBlank_def trimSpaces_def isSpace_def)
  have "wfMap [(''a'', ''1'')]" by (simp add: wfMap_def)
  moreover have "fst (absServe ?cs (map_of [(''a'', ''1'')]))
      = [Value ''1'', Done, Present True, Value '''', Done, NotFound]"
    by (simp add: restrict_map_def)
  then obtain m where "absServe ?cs (map_of [(''a'', ''1'')]) = ([Value ''1'', Done, Present True, Value '''', Done, NotFound], m)"
    by (metis prod.collapse)
  ultimately show ?thesis using keychain_refines_map [OF k] k by (fastforce simp: emptyNotFound_def)
qed

end
