(* ===== verification/Evm.thy ===== *)
theory Evm
  imports Prelude "HOL-Library.Word"
begin

text \<open>
  What the hash time lock contracts rely on: the words of the virtual machine, Ether accounts, the
  interface of a ledger that holds funds in escrow, and the theory of that interface.

  A call of a contract either returns a new ledger or reverts with a reason, which leaves the ledger
  as it was. Every value the contracts pass to \<open>abi.encode\<close> is of a static type, whose encoding is one
  32-byte word, so the argument of \<open>keccak256\<close> is a list of words; the hash itself is a parameter, as
  is the answer of an account to a plain transfer. \<open>transfer\<close> hands the recipient too little gas for
  a call that changes storage, so it does not enter the contract again. Balances are natural numbers:
  the Ether in existence is far from \<open>2 ^ 256\<close>.
\<close>

section \<open>Words and calls\<close>

type_synonym address = "160 word"
type_synonym uint256 = "256 word"
type_synonym bytes32 = "256 word"

type_synonym 'a reverting = "string + 'a"

record evm =
  keccak256 :: "uint256 list \<Rightarrow> bytes32"
  accepts :: "address \<Rightarrow> bool"
  self :: address

definition addressWord :: "address \<Rightarrow> uint256" where
  "addressWord a = ucast a"

lemma unat_uint256_less [simp]: "unat (x :: uint256) < 2 ^ 256"
  using unsigned_less [of x, where ?'a = nat] by simp

section \<open>The status of a swap\<close>

definition INIT :: uint256 where "INIT = 0"
definition ACTIVE :: uint256 where "ACTIVE = 1"
definition REFUNDED :: uint256 where "REFUNDED = 2"
definition WITHDRAWN :: uint256 where "WITHDRAWN = 3"
definition EXPIRED :: uint256 where "EXPIRED = 4"

lemmas status_defs = INIT_def ACTIVE_def REFUNDED_def WITHDRAWN_def EXPIRED_def

lemma status_distinct [simp]:
  "ACTIVE \<noteq> INIT" "REFUNDED \<noteq> INIT" "WITHDRAWN \<noteq> INIT" "REFUNDED \<noteq> ACTIVE" "WITHDRAWN \<noteq> ACTIVE"
  "WITHDRAWN \<noteq> REFUNDED" "INIT \<noteq> ACTIVE" "INIT \<noteq> REFUNDED" "INIT \<noteq> WITHDRAWN" "ACTIVE \<noteq> REFUNDED"
  "ACTIVE \<noteq> WITHDRAWN" "REFUNDED \<noteq> WITHDRAWN" "EXPIRED \<noteq> ACTIVE" "EXPIRED \<noteq> INIT"
  by (simp_all add: status_defs)

definition settledStatus :: "uint256 \<Rightarrow> bool" where
  "settledStatus n \<longleftrightarrow> n = REFUNDED \<or> n = WITHDRAWN"

lemma settledStatus_simps [simp]:
  "settledStatus REFUNDED" "settledStatus WITHDRAWN" "\<not> settledStatus INIT" "\<not> settledStatus ACTIVE"
  by (simp_all add: settledStatus_def)

section \<open>Funds in escrow\<close>

text \<open>
  The contract with the ledger: a step changes the amount in escrow of one swap at most, and what the
  contract holds changes by no less than that. It follows that the escrow is covered.
\<close>

locale escrow =
  fixes initial :: "'s \<Rightarrow> bool"
    and step :: "'s \<Rightarrow> 's \<Rightarrow> bool"
    and amount :: "'s \<Rightarrow> 'i::finite \<Rightarrow> nat"
    and held :: "'s \<Rightarrow> nat"
  assumes nothing_held: "initial s \<Longrightarrow> amount s = (\<lambda>_. 0)"
    and one_swap: "step s t \<Longrightarrow> \<exists>i a. amount t = (amount s)(i := a) \<and> held s + a \<le> held t + amount s i"
begin

lemma total_update: "(\<Sum>j \<in> UNIV. (f(i := a)) j) + f i = (\<Sum>j \<in> UNIV. f j) + a"
  for f :: "'i \<Rightarrow> nat"
proof -
  have "(\<Sum>j \<in> UNIV. (f(i := a)) j) = a + (\<Sum>j \<in> UNIV - {i}. f j)"
    by (subst sum.remove [of UNIV i]) (auto intro: sum.cong)
  then show ?thesis by (subst (2) sum.remove [of UNIV i]) auto
qed

lemma funded_step:
  assumes "step s t" and "(\<Sum>i \<in> UNIV. amount s i) \<le> held s"
  shows "(\<Sum>i \<in> UNIV. amount t i) \<le> held t"
proof -
  obtain i a where a: "amount t = (amount s)(i := a)" "held s + a \<le> held t + amount s i"
    using one_swap [OF assms(1)] by blast
  then show ?thesis using assms(2) total_update [of "amount s" i a] by simp
qed

lemma funded: "reaches initial step s \<Longrightarrow> (\<Sum>i \<in> UNIV. amount s i) \<le> held s"
  by (induction rule: reaches.induct) (simp_all add: nothing_held funded_step)

lemma each_funded: "reaches initial step s \<Longrightarrow> amount s i \<le> held s"
  using funded [of s] member_le_sum [of i UNIV "amount s"] by fastforce

end

text \<open>
  With the status of the swaps and the number of times each was paid out: a swap is opened at most
  once, then settled at most once, and only settling pays.
\<close>

locale settlement = escrow initial step amount held
  for initial :: "'s \<Rightarrow> bool" and step :: "'s \<Rightarrow> 's \<Rightarrow> bool" and amount :: "'s \<Rightarrow> 'i::finite \<Rightarrow> nat"
    and held :: "'s \<Rightarrow> nat" +
  fixes status :: "'s \<Rightarrow> 'i \<Rightarrow> uint256" and payouts :: "'s \<Rightarrow> 'i \<Rightarrow> nat"
  assumes fresh: "initial s \<Longrightarrow> status s i = INIT \<and> payouts s i = 0"
    and moves: "step s t \<Longrightarrow>
        (status t i = status s i \<and> payouts t i = payouts s i)
      \<or> (status s i = INIT \<and> status t i = ACTIVE \<and> payouts t i = payouts s i)
      \<or> (status s i = ACTIVE \<and> settledStatus (status t i) \<and> payouts t i = Suc (payouts s i))"
begin

lemma known_status: "reaches initial step s \<Longrightarrow> status s i \<in> {INIT, ACTIVE, REFUNDED, WITHDRAWN}"
proof (induction rule: reaches.induct)
  case (steps s t)
  then show ?case using moves [OF steps.hyps(2), of i] by (auto simp: settledStatus_def)
qed (simp add: fresh)

lemma paid_once: "reaches initial step s \<Longrightarrow> payouts s i = (if settledStatus (status s i) then 1 else 0)"
proof (induction rule: reaches.induct)
  case (steps s t)
  then show ?case using moves [OF steps.hyps(2), of i] by auto
qed (simp add: fresh)

lemma settled_stays: "step s t \<Longrightarrow> settledStatus (status s i) \<Longrightarrow> status t i = status s i"
  using moves [of s t i] by auto

lemma settled_forever: "step\<^sup>*\<^sup>* s t \<Longrightarrow> settledStatus (status s i) \<Longrightarrow> status t i = status s i"
  by (induction rule: rtranclp_induct) (simp_all add: settled_stays)

end

end
