(* ===== verification/HashTimeLock.thy ===== *)
theory HashTimeLock
  imports Evm
begin

text \<open>
  The hash time locks for Ether: \<open>HashTimeLock.sol\<close> and \<open>PrivateHashTimeLock.sol\<close> of the package
  cactus-plugin-htlc-eth-besu. The two contracts differ in how a swap is opened and in the test of
  the secret; \<open>refund\<close>, \<open>getStatus\<close>, \<open>getSingleStatus\<close> and \<open>contractExists\<close> are the same code in both
  and are one definition here, over a record of locks that the private contract extends.
\<close>

section \<open>State\<close>

record LockContract =
  lc_inputAmount :: uint256
  lc_outputAmount :: uint256
  lc_expiration :: uint256
  lc_status :: uint256
  lc_hashLock :: bytes32
  lc_sender :: address
  lc_receiver :: address
  lc_outputNetwork :: string
  lc_outputAddress :: string

text \<open>The struct \<open>PrivateEnhancing\<close>; the lock's \<open>hashSecret\<close> is \<^const>\<open>lc_hashLock\<close>.\<close>

record PrivateLockContract = LockContract +
  lc_generator :: uint256
  lc_modulus :: uint256

text \<open>\<open>NewContract\<close> carries the fields of the lock that was stored.\<close>

datatype 'c lockEvent =
    NewContract bytes32 'c
  | Withdraw bytes32 bytes32 bytes32 address address
  | Refund bytes32 bytes32 address address

record 'c ledger =
  contracts :: "bytes32 \<Rightarrow> 'c"
  balances :: "address \<Rightarrow> nat"
  timestamp :: uint256
  events :: "'c lockEvent list"

text \<open>The value of a mapping at a key that was never written.\<close>

definition noLock :: LockContract where
  "noLock = \<lparr>lc_inputAmount = 0, lc_outputAmount = 0, lc_expiration = 0, lc_status = 0, lc_hashLock = 0,
     lc_sender = 0, lc_receiver = 0, lc_outputNetwork = '''', lc_outputAddress = ''''\<rparr>"

definition noPrivateLock :: PrivateLockContract where
  "noPrivateLock = LockContract.extend noLock \<lparr>lc_generator = 0, lc_modulus = 0\<rparr>"

definition emit :: "'c lockEvent \<Rightarrow> 'c ledger \<Rightarrow> 'c ledger" where
  "emit e s = s\<lparr>events := events s @ [e]\<rparr>"

definition setLock :: "bytes32 \<Rightarrow> 'c \<Rightarrow> 'c ledger \<Rightarrow> 'c ledger" where
  "setLock i c s = s\<lparr>contracts := (contracts s)(i := c)\<rparr>"

section \<open>Ether\<close>

text \<open>The value of a call, moved before the body of a payable function runs.\<close>

definition payIn :: "evm \<Rightarrow> address \<Rightarrow> uint256 \<Rightarrow> 'c ledger \<Rightarrow> 'c ledger reverting" where
  "payIn E from v s =
     (if balances s from < unat v then Inl ''insufficient funds''
      else let b = (balances s)(from := balances s from - unat v)
           in Inr (s\<lparr>balances := b(self E := b (self E) + unat v)\<rparr>))"

text \<open>\<open>to.transfer(v)\<close>; the contract itself has no function that receives a plain transfer.\<close>

definition transferTo :: "evm \<Rightarrow> address \<Rightarrow> uint256 \<Rightarrow> 'c ledger \<Rightarrow> 'c ledger reverting" where
  "transferTo E to v s =
     (if to = self E \<or> \<not> accepts E to \<or> balances s (self E) < unat v then Inl ''''
      else Inr (s\<lparr>balances := (balances s)(self E := balances s (self E) - unat v, to := balances s to + unat v)\<rparr>))"

section \<open>Opening a swap\<close>

definition swapId :: "evm \<Rightarrow> address \<Rightarrow> address \<Rightarrow> uint256 \<Rightarrow> bytes32 \<Rightarrow> uint256 \<Rightarrow> bytes32" where
  "swapId E sender receiver inputAmount hashLock expiration =
     keccak256 E [addressWord sender, addressWord receiver, inputAmount, hashLock, expiration]"

definition newContract ::
  "evm \<Rightarrow> address \<Rightarrow> uint256 \<Rightarrow> uint256 \<Rightarrow> uint256 \<Rightarrow> bytes32 \<Rightarrow> address \<Rightarrow> string \<Rightarrow> string
     \<Rightarrow> LockContract ledger \<Rightarrow> LockContract ledger reverting" where
  "newContract E sender inputAmount outputAmount expiration hashLock receiver outputNetwork outputAddress s =
     (if \<not> timestamp s < expiration then Inl ''INVALID_TIME''
      else if \<not> 0 < inputAmount then Inl ''INVALID_AMOUNT''
      else let i = swapId E sender receiver inputAmount hashLock expiration in
      if lc_status (contracts s i) \<noteq> INIT then Inl ''SWAP_EXISTS''
      else let c = \<lparr>lc_inputAmount = inputAmount, lc_outputAmount = outputAmount, lc_expiration = expiration,
             lc_status = ACTIVE, lc_hashLock = hashLock, lc_sender = sender, lc_receiver = receiver,
             lc_outputNetwork = outputNetwork, lc_outputAddress = outputAddress\<rparr>
           in Inr (emit (NewContract i c) (setLock i c s)))"

definition newPrivateContract ::
  "evm \<Rightarrow> address \<Rightarrow> uint256 \<Rightarrow> uint256 \<Rightarrow> uint256 \<Rightarrow> bytes32 \<Rightarrow> address \<Rightarrow> string \<Rightarrow> string
     \<Rightarrow> uint256 \<Rightarrow> uint256 \<Rightarrow> PrivateLockContract ledger \<Rightarrow> PrivateLockContract ledger reverting" where
  "newPrivateContract E sender inputAmount outputAmount expiration hashLock receiver outputNetwork outputAddress
       generator modulus s =
     (if \<not> timestamp s < expiration then Inl ''INVALID_TIME''
      else if \<not> 0 < inputAmount then Inl ''INVALID_AMOUNT''
      else let i = swapId E sender receiver inputAmount hashLock expiration in
      if lc_status (contracts s i) \<noteq> INIT then Inl ''SWAP_EXISTS''
      else if \<not> 0 < generator then Inl ''''
      else if \<not> 0 < modulus then Inl ''''
      else let c = \<lparr>lc_inputAmount = inputAmount, lc_outputAmount = outputAmount, lc_expiration = expiration,
             lc_status = ACTIVE, lc_hashLock = hashLock, lc_sender = sender, lc_receiver = receiver,
             lc_outputNetwork = outputNetwork, lc_outputAddress = outputAddress,
             lc_generator = generator, lc_modulus = modulus\<rparr>
           in Inr (emit (NewContract i c) (setLock i c s)))"

section \<open>Settling a swap\<close>

text \<open>The ends of \<open>withdraw\<close> and \<open>refund\<close>: the status is written before the transfer.\<close>

definition payReceiver ::
  "evm \<Rightarrow> bytes32 \<Rightarrow> bytes32 \<Rightarrow> 'a LockContract_scheme ledger \<Rightarrow> 'a LockContract_scheme ledger reverting" where
  "payReceiver E i secret s =
     (let c = contracts s i in
      case transferTo E (lc_receiver c) (lc_inputAmount c) (setLock i (c\<lparr>lc_status := WITHDRAWN\<rparr>) s) of
        Inl e \<Rightarrow> Inl e
      | Inr s' \<Rightarrow> Inr (emit (Withdraw i secret (lc_hashLock c) (lc_sender c) (lc_receiver c)) s'))"

definition withdraw ::
  "evm \<Rightarrow> bytes32 \<Rightarrow> bytes32 \<Rightarrow> LockContract ledger \<Rightarrow> LockContract ledger reverting" where
  "withdraw E i secret s =
     (let c = contracts s i in
      if lc_status c \<noteq> ACTIVE then Inl ''SWAP_NOT_ACTIVE''
      else if \<not> timestamp s < lc_expiration c then Inl ''INVALID_TIME''
      else if lc_hashLock c \<noteq> keccak256 E [secret] then Inl ''INVALID_SECRET''
      else payReceiver E i secret s)"

text \<open>The compiler checks \<open>base ** exponent\<close> for overflow, before the remainder is taken.\<close>

definition calculateHashSecret :: "uint256 \<Rightarrow> uint256 \<Rightarrow> uint256 \<Rightarrow> bytes32 reverting" where
  "calculateHashSecret base exponent modulus =
     (if \<not> 0 < modulus then Inl ''Modulus cannot be 0''
      else if \<not> 0 < base then Inl ''base cannot be 0''
      else if \<not> 0 < exponent then Inl ''exponent_1 cannot be 0''
      else if 2 ^ 256 \<le> unat base ^ unat exponent then Inl ''Panic(0x11)''
      else Inr (word_of_nat (unat base ^ unat exponent) mod modulus))"

definition privateWithdraw ::
  "evm \<Rightarrow> bytes32 \<Rightarrow> bytes32 \<Rightarrow> PrivateLockContract ledger \<Rightarrow> PrivateLockContract ledger reverting" where
  "privateWithdraw E i secret s =
     (let c = contracts s i in
      if lc_status c \<noteq> ACTIVE then Inl ''SWAP_NOT_ACTIVE''
      else if \<not> timestamp s < lc_expiration c then Inl ''INVALID_TIME''
      else case calculateHashSecret (lc_generator c) secret (lc_modulus c) of
        Inl e \<Rightarrow> Inl e
      | Inr h \<Rightarrow> if lc_hashLock c \<noteq> h then Inl ''INVALID_SECRET'' else payReceiver E i secret s)"

definition refund ::
  "evm \<Rightarrow> bytes32 \<Rightarrow> 'a LockContract_scheme ledger \<Rightarrow> 'a LockContract_scheme ledger reverting" where
  "refund E i s =
     (let c = contracts s i in
      if lc_status c \<noteq> ACTIVE then Inl ''SWAP_NOT_ACTIVE''
      else if \<not> lc_expiration c \<le> timestamp s then Inl ''INVALID_TIME''
      else case transferTo E (lc_sender c) (lc_inputAmount c) (setLock i (c\<lparr>lc_status := REFUNDED\<rparr>) s) of
        Inl e \<Rightarrow> Inl e
      | Inr s' \<Rightarrow> Inr (emit (Refund i (lc_hashLock c) (lc_sender c) (lc_receiver c)) s'))"

section \<open>Queries\<close>

definition getSingleStatus :: "bytes32 \<Rightarrow> 'a LockContract_scheme ledger \<Rightarrow> uint256" where
  "getSingleStatus i s = (let c = contracts s i in
     if lc_status c = ACTIVE \<and> lc_expiration c < timestamp s then EXPIRED else lc_status c)"

definition getStatus :: "bytes32 list \<Rightarrow> 'a LockContract_scheme ledger \<Rightarrow> uint256 list" where
  "getStatus ids s = map (\<lambda>i. getSingleStatus i s) ids"

definition contractExists :: "bytes32 \<Rightarrow> 'a LockContract_scheme ledger \<Rightarrow> bool" where
  "contractExists i s \<longleftrightarrow> lc_status (contracts s i) \<noteq> INIT"

end
