(* ===== verification/Swap_Ledger.thy ===== *)
theory Swap_Ledger
  imports HashTimeLock
begin

text \<open>
  The specification of a ledger of time-locked swaps as a step relation, and the proof that the two
  Ether contracts implement it. \<open>ok c secret\<close> says that the secret opens the lock \<open>c\<close>; it is the hash
  test of \<open>HashTimeLock.sol\<close> or the exponentiation test of \<open>PrivateHashTimeLock.sol\<close>. The rest of the
  chain may do anything that does not take Ether from the contract, and time does not go back.
\<close>

section \<open>The specification\<close>

definition moveEther :: "address \<Rightarrow> address \<Rightarrow> uint256 \<Rightarrow> (address \<Rightarrow> nat) \<Rightarrow> address \<Rightarrow> nat" where
  "moveEther from to v b = b(from := b from - unat v, to := b to + unat v)"

inductive swapStep ::
  "evm \<Rightarrow> ('a LockContract_scheme \<Rightarrow> bytes32 \<Rightarrow> bool) \<Rightarrow> 'a LockContract_scheme ledger \<Rightarrow> 'a LockContract_scheme ledger \<Rightarrow> bool"
  for E :: evm and ok :: "'a LockContract_scheme \<Rightarrow> bytes32 \<Rightarrow> bool" where
  opened: "lc_status (contracts s i) = INIT \<Longrightarrow> lc_status c = ACTIVE \<Longrightarrow> timestamp s < lc_expiration c
    \<Longrightarrow> 0 < lc_inputAmount c \<Longrightarrow> lc_sender c \<noteq> self E \<Longrightarrow> unat (lc_inputAmount c) \<le> balances s (lc_sender c)
    \<Longrightarrow> swapStep E ok s (s\<lparr>contracts := (contracts s)(i := c),
          balances := moveEther (lc_sender c) (self E) (lc_inputAmount c) (balances s),
          events := events s @ [NewContract i c]\<rparr>)"
| withdrawn: "c = contracts s i \<Longrightarrow> lc_status c = ACTIVE \<Longrightarrow> timestamp s < lc_expiration c \<Longrightarrow> ok c secret
    \<Longrightarrow> lc_receiver c \<noteq> self E \<Longrightarrow> unat (lc_inputAmount c) \<le> balances s (self E)
    \<Longrightarrow> swapStep E ok s (s\<lparr>contracts := (contracts s)(i := c\<lparr>lc_status := WITHDRAWN\<rparr>),
          balances := moveEther (self E) (lc_receiver c) (lc_inputAmount c) (balances s),
          events := events s @ [Withdraw i secret (lc_hashLock c) (lc_sender c) (lc_receiver c)]\<rparr>)"
| refunded: "c = contracts s i \<Longrightarrow> lc_status c = ACTIVE \<Longrightarrow> lc_expiration c \<le> timestamp s
    \<Longrightarrow> lc_sender c \<noteq> self E \<Longrightarrow> unat (lc_inputAmount c) \<le> balances s (self E)
    \<Longrightarrow> swapStep E ok s (s\<lparr>contracts := (contracts s)(i := c\<lparr>lc_status := REFUNDED\<rparr>),
          balances := moveEther (self E) (lc_sender c) (lc_inputAmount c) (balances s),
          events := events s @ [Refund i (lc_hashLock c) (lc_sender c) (lc_receiver c)]\<rparr>)"
| elsewhere: "balances s (self E) \<le> b (self E) \<Longrightarrow> timestamp s \<le> now
    \<Longrightarrow> swapStep E ok s (s\<lparr>balances := b, timestamp := now\<rparr>)"

definition freshLedger :: "'a LockContract_scheme ledger \<Rightarrow> bool" where
  "freshLedger s \<longleftrightarrow> (\<forall>i. lc_status (contracts s i) = INIT) \<and> events s = []"

definition lockStatus :: "'a LockContract_scheme ledger \<Rightarrow> bytes32 \<Rightarrow> uint256" where
  "lockStatus s i = lc_status (contracts s i)"

definition activeAmount :: "'a LockContract_scheme ledger \<Rightarrow> bytes32 \<Rightarrow> nat" where
  "activeAmount s i = (if lockStatus s i = ACTIVE then unat (lc_inputAmount (contracts s i)) else 0)"

fun settles :: "bytes32 \<Rightarrow> 'c lockEvent \<Rightarrow> bool" where
  "settles i (NewContract j c) = False"
| "settles i (Withdraw j x h a b) = (j = i)"
| "settles i (Refund j h a b) = (j = i)"

definition payouts :: "'c ledger \<Rightarrow> bytes32 \<Rightarrow> nat" where
  "payouts s i = length (filter (settles i) (events s))"

interpretation swaps: settlement freshLedger "swapStep E ok" activeAmount "\<lambda>s. balances s (self E)" lockStatus payouts
  for E :: evm and ok :: "'a LockContract_scheme \<Rightarrow> bytes32 \<Rightarrow> bool"
proof unfold_locales
  fix s t :: "'a LockContract_scheme ledger"
  assume "swapStep E ok s t"
  then show "\<exists>i a. activeAmount t = (activeAmount s)(i := a)
      \<and> balances s (self E) + a \<le> balances t (self E) + activeAmount s i"
  proof cases
    case (opened i c)
    then show ?thesis
      by (intro exI [of _ i] exI [of _ "unat (lc_inputAmount c)"])
        (auto simp: activeAmount_def lockStatus_def moveEther_def fun_eq_iff)
  next
    case (withdrawn c i secret)
    then show ?thesis
      by (intro exI [of _ i] exI [of _ 0]) (auto simp: activeAmount_def lockStatus_def moveEther_def fun_eq_iff)
  next
    case (refunded c i)
    then show ?thesis
      by (intro exI [of _ i] exI [of _ 0]) (auto simp: activeAmount_def lockStatus_def moveEther_def fun_eq_iff)
  next
    case (elsewhere b now)
    then show ?thesis
      by (intro exI [of _ 0] exI [of _ "activeAmount s 0"]) (auto simp: activeAmount_def lockStatus_def fun_eq_iff)
  qed
next
  fix s t :: "'a LockContract_scheme ledger" and i
  assume "swapStep E ok s t"
  then show "(lockStatus t i = lockStatus s i \<and> payouts t i = payouts s i)
      \<or> (lockStatus s i = INIT \<and> lockStatus t i = ACTIVE \<and> payouts t i = payouts s i)
      \<or> (lockStatus s i = ACTIVE \<and> settledStatus (lockStatus t i) \<and> payouts t i = Suc (payouts s i))"
    by cases (auto simp: lockStatus_def payouts_def)
qed (auto simp: freshLedger_def activeAmount_def lockStatus_def payouts_def)

text \<open>The terms of an opened swap never change; the events tell how it was settled.\<close>

lemma terms_kept:
  assumes "swapStep E ok s t" "lc_status (contracts s i) \<noteq> INIT"
  shows "contracts t i = (contracts s i)\<lparr>lc_status := lc_status (contracts t i)\<rparr>"
  using assms by cases auto

definition settledBy :: "('a LockContract_scheme \<Rightarrow> bytes32 \<Rightarrow> bool) \<Rightarrow> 'a LockContract_scheme ledger \<Rightarrow> 'a LockContract_scheme lockEvent \<Rightarrow> bool" where
  "settledBy ok s e = (case e of
      NewContract i c \<Rightarrow> lc_status (contracts s i) \<noteq> INIT
    | Withdraw i secret h a b \<Rightarrow> (let c = contracts s i in
        lc_status c = WITHDRAWN \<and> h = lc_hashLock c \<and> a = lc_sender c \<and> b = lc_receiver c
        \<and> ok (c\<lparr>lc_status := ACTIVE\<rparr>) secret)
    | Refund i h a b \<Rightarrow> (let c = contracts s i in
        lc_status c = REFUNDED \<and> h = lc_hashLock c \<and> a = lc_sender c \<and> b = lc_receiver c))"

lemma status_again: "lc_status c = n \<Longrightarrow> c\<lparr>lc_status := n\<rparr> = c"
  by (cases c) simp

lemma settledBy_stays:
  assumes "swapStep E ok s t" "settledBy ok s e" "e \<in> set (events s)"
  shows "settledBy ok t e"
  using assms by cases (cases e; force simp: settledBy_def Let_def)+

lemma settledBy_new:
  assumes "swapStep E ok s t" "e \<in> set (events t)" "e \<notin> set (events s)"
  shows "settledBy ok t e"
  using assms by cases (auto simp: settledBy_def Let_def status_again)

lemma events_true: "reaches freshLedger (swapStep E ok) s \<Longrightarrow> e \<in> set (events s) \<Longrightarrow> settledBy ok s e"
proof (induction rule: reaches.induct)
  case (steps s t)
  then show ?case using settledBy_stays settledBy_new by blast
qed (simp add: freshLedger_def)

lemma withdrawal_logged:
  assumes "reaches freshLedger (swapStep E ok) s" "lc_status (contracts s i) = WITHDRAWN"
  shows "\<exists>secret h a b. Withdraw i secret h a b \<in> set (events s)"
  using assms
proof (induction rule: reaches.induct)
  case (steps s t)
  from steps.hyps(2) show ?case using steps.IH steps.prems by cases (fastforce split: if_splits)+
qed (simp add: freshLedger_def)

section \<open>The contracts implement it\<close>

text \<open>
  The steps of a ledger with one of the contracts: a call by an account other than the contract, in
  a payable function with its value, or anything else that happens on the chain.
\<close>

definition opensNative :: "evm \<Rightarrow> LockContract \<Rightarrow> bytes32 \<Rightarrow> bool" where
  "opensNative E c secret \<longleftrightarrow> lc_hashLock c = keccak256 E [secret]"

definition opensPrivate :: "PrivateLockContract \<Rightarrow> bytes32 \<Rightarrow> bool" where
  "opensPrivate c secret \<longleftrightarrow> calculateHashSecret (lc_generator c) secret (lc_modulus c) = Inr (lc_hashLock c)"

inductive htlcStep :: "evm \<Rightarrow> LockContract ledger \<Rightarrow> LockContract ledger \<Rightarrow> bool"
  for E :: evm where
  htlc_newContract: "a \<noteq> self E \<Longrightarrow> payIn E a v s = Inr s'
    \<Longrightarrow> newContract E a v out exp h r net addr s' = Inr t \<Longrightarrow> htlcStep E s t"
| htlc_withdraw: "withdraw E i secret s = Inr t \<Longrightarrow> htlcStep E s t"
| htlc_refund: "refund E i s = Inr t \<Longrightarrow> htlcStep E s t"
| htlc_elsewhere: "balances s (self E) \<le> b (self E) \<Longrightarrow> timestamp s \<le> now
    \<Longrightarrow> htlcStep E s (s\<lparr>balances := b, timestamp := now\<rparr>)"

inductive privateStep :: "evm \<Rightarrow> PrivateLockContract ledger \<Rightarrow> PrivateLockContract ledger \<Rightarrow> bool"
  for E :: evm where
  private_newContract: "a \<noteq> self E \<Longrightarrow> payIn E a v s = Inr s'
    \<Longrightarrow> newPrivateContract E a v out exp h r net addr g m s' = Inr t \<Longrightarrow> privateStep E s t"
| private_withdraw: "privateWithdraw E i secret s = Inr t \<Longrightarrow> privateStep E s t"
| private_refund: "refund E i s = Inr t \<Longrightarrow> privateStep E s t"
| private_elsewhere: "balances s (self E) \<le> b (self E) \<Longrightarrow> timestamp s \<le> now
    \<Longrightarrow> privateStep E s (s\<lparr>balances := b, timestamp := now\<rparr>)"

lemmas ledger_defs = emit_def setLock_def moveEther_def Let_def

lemma payIn_Inr:
  "a \<noteq> self E \<Longrightarrow> payIn E a v s = Inr s' \<longleftrightarrow>
     unat v \<le> balances s a \<and> s' = s\<lparr>balances := moveEther a (self E) v (balances s)\<rparr>"
  by (auto simp: payIn_def ledger_defs)

lemma payReceiver_Inr:
  "payReceiver E i secret s = Inr t \<longleftrightarrow> (let c = contracts s i in
     lc_receiver c \<noteq> self E \<and> accepts E (lc_receiver c) \<and> unat (lc_inputAmount c) \<le> balances s (self E)
     \<and> t = s\<lparr>contracts := (contracts s)(i := c\<lparr>lc_status := WITHDRAWN\<rparr>),
          balances := moveEther (self E) (lc_receiver c) (lc_inputAmount c) (balances s),
          events := events s @ [Withdraw i secret (lc_hashLock c) (lc_sender c) (lc_receiver c)]\<rparr>)"
  by (auto simp: payReceiver_def transferTo_def ledger_defs)

lemma refund_Inr:
  "refund E i s = Inr t \<longleftrightarrow> (let c = contracts s i in
     lc_status c = ACTIVE \<and> lc_expiration c \<le> timestamp s
     \<and> lc_sender c \<noteq> self E \<and> accepts E (lc_sender c) \<and> unat (lc_inputAmount c) \<le> balances s (self E)
     \<and> t = s\<lparr>contracts := (contracts s)(i := c\<lparr>lc_status := REFUNDED\<rparr>),
          balances := moveEther (self E) (lc_sender c) (lc_inputAmount c) (balances s),
          events := events s @ [Refund i (lc_hashLock c) (lc_sender c) (lc_receiver c)]\<rparr>)"
  by (auto simp: refund_def transferTo_def ledger_defs)

lemma withdraw_Inr:
  "withdraw E i secret s = Inr t \<longleftrightarrow> lc_status (contracts s i) = ACTIVE
     \<and> timestamp s < lc_expiration (contracts s i) \<and> opensNative E (contracts s i) secret
     \<and> payReceiver E i secret s = Inr t"
  by (auto simp: withdraw_def opensNative_def Let_def)

lemma privateWithdraw_Inr:
  "privateWithdraw E i secret s = Inr t \<longleftrightarrow> lc_status (contracts s i) = ACTIVE
     \<and> timestamp s < lc_expiration (contracts s i) \<and> opensPrivate (contracts s i) secret
     \<and> payReceiver E i secret s = Inr t"
  by (auto simp: privateWithdraw_def opensPrivate_def Let_def split: sum.splits)

lemma newContract_Inr:
  assumes "newContract E a v out exp h r net addr s = Inr t"
  shows "\<exists>i c. lc_status (contracts s i) = INIT \<and> lc_status c = ACTIVE \<and> timestamp s < lc_expiration c
    \<and> 0 < lc_inputAmount c \<and> lc_sender c = a \<and> lc_inputAmount c = v
    \<and> t = s\<lparr>contracts := (contracts s)(i := c), events := events s @ [NewContract i c]\<rparr>"
proof (intro exI conjI)
  let ?i = "swapId E a r v h exp"
  let ?c = "\<lparr>lc_inputAmount = v, lc_outputAmount = out, lc_expiration = exp, lc_status = ACTIVE, lc_hashLock = h,
    lc_sender = a, lc_receiver = r, lc_outputNetwork = net, lc_outputAddress = addr\<rparr>"
  show "t = s\<lparr>contracts := (contracts s)(?i := ?c), events := events s @ [NewContract ?i ?c]\<rparr>"
    using assms by (simp add: newContract_def ledger_defs split: if_splits)
qed (use assms in \<open>simp_all add: newContract_def ledger_defs split: if_splits\<close>)

lemma newPrivateContract_Inr:
  assumes "newPrivateContract E a v out exp h r net addr g m s = Inr t"
  shows "\<exists>i c. lc_status (contracts s i) = INIT \<and> lc_status c = ACTIVE \<and> timestamp s < lc_expiration c
    \<and> 0 < lc_inputAmount c \<and> lc_sender c = a \<and> lc_inputAmount c = v
    \<and> t = s\<lparr>contracts := (contracts s)(i := c), events := events s @ [NewContract i c]\<rparr>"
proof (intro exI conjI)
  let ?i = "swapId E a r v h exp"
  let ?c = "\<lparr>lc_inputAmount = v, lc_outputAmount = out, lc_expiration = exp, lc_status = ACTIVE, lc_hashLock = h,
    lc_sender = a, lc_receiver = r, lc_outputNetwork = net, lc_outputAddress = addr, lc_generator = g, lc_modulus = m\<rparr>"
  show "t = s\<lparr>contracts := (contracts s)(?i := ?c), events := events s @ [NewContract ?i ?c]\<rparr>"
    using assms by (simp add: newPrivateContract_def ledger_defs split: if_splits)
qed (use assms in \<open>simp_all add: newPrivateContract_def ledger_defs split: if_splits\<close>)

text \<open>A call with its value, followed by a stored lock, is a step that opens a swap.\<close>

lemma opened_step:
  assumes "a \<noteq> self E" "payIn E a v s = Inr s'"
    and "\<exists>i c. lc_status (contracts s' i) = INIT \<and> lc_status c = ACTIVE \<and> timestamp s' < lc_expiration c
      \<and> 0 < lc_inputAmount c \<and> lc_sender c = a \<and> lc_inputAmount c = v
      \<and> t = s'\<lparr>contracts := (contracts s')(i := c), events := events s' @ [NewContract i c]\<rparr>"
  shows "swapStep E ok s t"
proof -
  from assms(3) obtain i c where c: "lc_status (contracts s' i) = INIT" "lc_status c = ACTIVE" "timestamp s' < lc_expiration c"
      "0 < lc_inputAmount c" "lc_sender c = a" "lc_inputAmount c = v"
      "t = s'\<lparr>contracts := (contracts s')(i := c), events := events s' @ [NewContract i c]\<rparr>" by blast
  with assms(1,2) have t: "t = s\<lparr>contracts := (contracts s)(i := c),
      balances := moveEther (lc_sender c) (self E) (lc_inputAmount c) (balances s),
      events := events s @ [NewContract i c]\<rparr>" by (simp add: payIn_Inr)
  show ?thesis unfolding t using assms(1,2) c by (intro swapStep.opened) (simp_all add: payIn_Inr)
qed

lemma refunded_step: "refund E i s = Inr t \<Longrightarrow> swapStep E ok s t"
  by (auto simp: refund_Inr Let_def intro: swapStep.refunded)

lemma withdrawn_step:
  "lc_status (contracts s i) = ACTIVE \<Longrightarrow> timestamp s < lc_expiration (contracts s i) \<Longrightarrow> ok (contracts s i) secret
    \<Longrightarrow> payReceiver E i secret s = Inr t \<Longrightarrow> swapStep E ok s t"
  by (auto simp: payReceiver_Inr Let_def intro: swapStep.withdrawn)

lemma htlcStep_implements: "htlcStep E s t \<Longrightarrow> swapStep E (opensNative E) s t"
  by (induction rule: htlcStep.induct)
    (auto simp: withdraw_Inr intro: opened_step newContract_Inr refunded_step withdrawn_step swapStep.elsewhere)

lemma privateStep_implements: "privateStep E s t \<Longrightarrow> swapStep E opensPrivate s t"
  by (induction rule: privateStep.induct)
    (auto simp: privateWithdraw_Inr intro: opened_step newPrivateContract_Inr refunded_step withdrawn_step swapStep.elsewhere)

lemma reaches_mono: "reaches init step s \<Longrightarrow> (\<And>u v. step u v \<Longrightarrow> step' u v) \<Longrightarrow> reaches init step' s"
  by (induction rule: reaches.induct) (auto intro: reaches.intros)

lemma htlc_reaches: "reaches freshLedger (htlcStep E) s \<Longrightarrow> reaches freshLedger (swapStep E (opensNative E)) s"
  by (erule reaches_mono) (rule htlcStep_implements)

lemma private_reaches: "reaches freshLedger (privateStep E) s \<Longrightarrow> reaches freshLedger (swapStep E opensPrivate) s"
  by (erule reaches_mono) (rule privateStep_implements)

end
