(* ===== verification/Swap_Properties.thy ===== *)
theory Swap_Properties
  imports Swap_Ledger
begin

text \<open>
  The properties of the Ether swaps: they are funded, each is settled once, by the deadline's side it
  falls on, whoever is entitled can settle it, a secret revealed on one ledger settles the swap on the
  other, and the private variant accepts one of 255 secrets whenever it accepts any.
\<close>

section \<open>Facts about reachable ledgers\<close>

lemma sender_elsewhere:
  "reaches freshLedger (swapStep E ok) s \<Longrightarrow> lc_status (contracts s i) = ACTIVE \<Longrightarrow> lc_sender (contracts s i) \<noteq> self E"
proof (induction rule: reaches.induct)
  case (steps s t)
  from steps.hyps(2) show ?case using steps.IH steps.prems by cases (auto split: if_splits)
qed (simp add: freshLedger_def)

lemma active_funded:
  assumes "reaches freshLedger (swapStep E ok) s" "lc_status (contracts s i) = ACTIVE"
  shows "unat (lc_inputAmount (contracts s i)) \<le> balances s (self E)"
  using swaps.each_funded [OF assms(1), of i] assms(2) by (simp add: activeAmount_def lockStatus_def)

text \<open>A withdrawal whose conditions hold goes through.\<close>

lemma withdraw_succeeds:
  assumes "reaches freshLedger (swapStep E (opensNative E)) s" "lc_status (contracts s i) = ACTIVE"
    and "timestamp s < lc_expiration (contracts s i)" "keccak256 E [secret] = lc_hashLock (contracts s i)"
    and "accepts E (lc_receiver (contracts s i))" "lc_receiver (contracts s i) \<noteq> self E"
  shows "\<exists>t. withdraw E i secret s = Inr t \<and> lockStatus t i = WITHDRAWN
    \<and> balances t (lc_receiver (contracts s i)) = balances s (lc_receiver (contracts s i)) + unat (lc_inputAmount (contracts s i))"
  using assms active_funded [OF assms(1,2)]
  by (simp add: withdraw_Inr payReceiver_Inr opensNative_def Let_def moveEther_def lockStatus_def)

lemma refund_succeeds:
  assumes "reaches freshLedger (swapStep E ok) s" "lc_status (contracts s i) = ACTIVE"
    and "lc_expiration (contracts s i) \<le> timestamp s" "accepts E (lc_sender (contracts s i))"
  shows "\<exists>t. refund E i s = Inr t \<and> lockStatus t i = REFUNDED
    \<and> balances t (lc_sender (contracts s i)) = balances s (lc_sender (contracts s i)) + unat (lc_inputAmount (contracts s i))"
  using assms active_funded [OF assms(1,2)] sender_elsewhere [OF assms(1,2)]
  by (simp add: refund_Inr Let_def moveEther_def lockStatus_def)

section \<open>A concrete ledger\<close>

definition demoEvm :: evm where
  "demoEvm = \<lparr>keccak256 = (\<lambda>ws. last ws + 1000), accepts = (\<lambda>a. True), self = 99\<rparr>"

definition demoFresh :: "LockContract ledger" where
  "demoFresh = \<lparr>contracts = (\<lambda>_. noLock), balances = (\<lambda>_. 50), timestamp = 10, events = []\<rparr>"

definition demoLock :: LockContract where
  "demoLock = \<lparr>lc_inputAmount = 5, lc_outputAmount = 7, lc_expiration = 20, lc_status = ACTIVE, lc_hashLock = 1042,
     lc_sender = 1, lc_receiver = 2, lc_outputNetwork = ''B'', lc_outputAddress = ''x''\<rparr>"

definition demoOpen :: "LockContract ledger" where
  "demoOpen = demoFresh\<lparr>contracts := (\<lambda>_. noLock)(1020 := demoLock),
     balances := (\<lambda>_. 50)(1 := 45, 99 := 55), events := [NewContract 1020 demoLock]\<rparr>"

lemmas demo_ledger_defs = demoEvm_def demoFresh_def demoLock_def demoOpen_def noLock_def

lemma demoFresh_reached: "reaches freshLedger (htlcStep demoEvm) demoFresh"
  by (rule reaches.starts) (simp add: freshLedger_def demo_ledger_defs status_defs)

lemma demoOpen_step: "htlcStep demoEvm demoFresh demoOpen"
proof (rule htlc_newContract)
  show "payIn demoEvm 1 5 demoFresh = Inr (demoFresh\<lparr>balances := (\<lambda>_. 50)(1 := 45, 99 := 55)\<rparr>)"
    by (simp add: payIn_def demo_ledger_defs Let_def fun_eq_iff)
  show "newContract demoEvm 1 5 7 20 1042 2 ''B'' ''x'' (demoFresh\<lparr>balances := (\<lambda>_. 50)(1 := 45, 99 := 55)\<rparr>) = Inr demoOpen"
    by (simp add: newContract_def swapId_def demo_ledger_defs ledger_defs INIT_def)
qed (simp add: demoEvm_def)

lemma demoOpen_reached: "reaches freshLedger (htlcStep demoEvm) demoOpen"
  by (rule reaches.steps [OF demoFresh_reached demoOpen_step])

definition demoClosed :: "LockContract ledger" where
  "demoClosed = demoOpen\<lparr>contracts := (\<lambda>_. noLock)(1020 := demoLock\<lparr>lc_status := WITHDRAWN\<rparr>),
     balances := (\<lambda>_. 50)(1 := 45, 2 := 55),
     events := [NewContract 1020 demoLock, Withdraw 1020 42 1042 1 2]\<rparr>"

lemma demoClosed_step: "htlcStep demoEvm demoOpen demoClosed"
  by (rule htlc_withdraw [of _ 1020 42])
    (simp add: withdraw_Inr opensNative_def payReceiver_Inr demo_ledger_defs demoClosed_def moveEther_def fun_eq_iff)

lemma demoClosed_reached: "reaches freshLedger (htlcStep demoEvm) demoClosed"
  by (rule reaches.steps [OF demoOpen_reached demoClosed_step])

section \<open>The private lock\<close>

text \<open>The power must fit a word, which bounds its exponent.\<close>

lemma calculateHashSecret_Inr:
  "calculateHashSecret g x m = Inr h \<longleftrightarrow> 0 < m \<and> 0 < g \<and> 0 < x \<and> unat g ^ unat x < 2 ^ 256
     \<and> h = word_of_nat (unat g ^ unat x) mod m"
  by (auto simp: calculateHashSecret_def not_le)

lemma exponent_bounded:
  assumes "calculateHashSecret g x m = Inr h" "g \<noteq> 1"
  shows "unat x < 256"
proof -
  have "unat g \<noteq> 0" "unat g \<noteq> 1"
    using assms word_unat_eq_iff [of g 1] by (auto simp: calculateHashSecret_Inr unat_eq_0)
  then have "(2::nat) ^ unat x \<le> unat g ^ unat x" by (intro power_mono) auto
  then have "(2::nat) ^ unat x < 2 ^ 256" using assms(1) by (simp add: calculateHashSecret_Inr)
  then show ?thesis using power_less_imp_less_exp [of "2::nat" "unat x" 256] by simp
qed

lemma small_exponent:
  assumes "calculateHashSecret g x m = Inr h"
  shows "\<exists>k \<in> {1..255}. calculateHashSecret g (word_of_nat k) m = Inr h"
proof (cases "g = 1")
  case True
  then have "calculateHashSecret g (word_of_nat 1) m = Inr h" using assms by (simp add: calculateHashSecret_Inr)
  then show ?thesis by (intro bexI [of _ 1]) simp_all
next
  case False
  have "0 < unat x" using assms by (simp add: calculateHashSecret_Inr unat_gt_0 word_gt_0)
  then show ?thesis
    using exponent_bounded [OF assms False] assms by (intro bexI [of _ "unat x"]) simp_all
qed

definition demoPrivate :: "PrivateLockContract ledger" where
  "demoPrivate = \<lparr>contracts = (\<lambda>_. LockContract.extend (demoLock\<lparr>lc_hashLock := 23\<rparr>) \<lparr>lc_generator = 11, lc_modulus = 109\<rparr>),
     balances = (\<lambda>_. 50), timestamp = 10, events = []\<rparr>"

section \<open>Properties\<close>

text \<open>
  C20. In every state the native contract can reach, whatever the other accounts of the chain do, the
  Ether the contract holds covers the amounts of all active swaps together.
\<close>

theorem swaps_funded:
  assumes "reaches freshLedger (htlcStep E) s"
  shows "(\<Sum>i \<in> UNIV. activeAmount s i) \<le> balances s (self E)"
  using assms by (intro swaps.funded [OF htlc_reaches])

theorem swaps_funded_witness: "(\<Sum>i \<in> UNIV. activeAmount demoOpen i) \<le> balances demoOpen (self demoEvm)"
  by (rule swaps_funded [OF demoOpen_reached])

text \<open>
  C21. Each swap is paid out at most once: exactly one settling event stands in the log when its status is
  final and none before; a withdrawal in the log names the receiver and a secret whose hash is the hash
  lock, a refund names the sender.
\<close>

theorem swap_settled_once:
  assumes "reaches freshLedger (htlcStep E) s"
  shows "length (filter (settles i) (events s)) = (if settledStatus (lc_status (contracts s i)) then 1 else 0)
    \<and> (\<forall>secret h a b. Withdraw i secret h a b \<in> set (events s) \<longrightarrow> lc_status (contracts s i) = WITHDRAWN
        \<and> b = lc_receiver (contracts s i) \<and> keccak256 E [secret] = lc_hashLock (contracts s i))
    \<and> (\<forall>h a b. Refund i h a b \<in> set (events s) \<longrightarrow> lc_status (contracts s i) = REFUNDED
        \<and> a = lc_sender (contracts s i))"
  using swaps.paid_once [OF htlc_reaches [OF assms], of i] events_true [OF htlc_reaches [OF assms]]
  by (fastforce simp: payouts_def lockStatus_def settledBy_def opensNative_def Let_def)

theorem swap_settled_once_witness:
  "length (filter (settles 1020) (events demoClosed)) = 1
    \<and> keccak256 demoEvm [42] = lc_hashLock (contracts demoClosed 1020)"
  using swap_settled_once [OF demoClosed_reached, of 1020] by (simp add: demoClosed_def demo_ledger_defs)

text \<open>
  A step that ends an active swap is decided by the deadline: before it the receiver is paid the whole
  amount for a secret with the right hash, from it on the sender gets the amount back.
\<close>

theorem deadline_decides:
  assumes "htlcStep E s t" "lc_status (contracts s i) = ACTIVE" "lc_status (contracts t i) \<noteq> ACTIVE"
  shows "if timestamp s < lc_expiration (contracts s i)
    then lc_status (contracts t i) = WITHDRAWN
      \<and> balances t (lc_receiver (contracts s i)) = balances s (lc_receiver (contracts s i)) + unat (lc_inputAmount (contracts s i))
      \<and> (\<exists>secret. keccak256 E [secret] = lc_hashLock (contracts s i)
          \<and> Withdraw i secret (lc_hashLock (contracts s i)) (lc_sender (contracts s i)) (lc_receiver (contracts s i)) \<in> set (events t))
    else lc_status (contracts t i) = REFUNDED
      \<and> balances t (lc_sender (contracts s i)) = balances s (lc_sender (contracts s i)) + unat (lc_inputAmount (contracts s i))"
  using htlcStep_implements [OF assms(1)] assms(2,3)
  by cases (auto simp: moveEther_def opensNative_def not_less split: if_splits)

theorem deadline_decides_witness:
  "lc_status (contracts demoClosed 1020) = WITHDRAWN \<and> balances demoClosed 2 = balances demoOpen 2 + 5"
  using deadline_decides [OF demoClosed_step, of 1020] by (simp add: demoClosed_def demo_ledger_defs)

text \<open>
  C27. Nobody who is entitled to an active swap can be kept from it: in every reachable state, before the
  deadline a withdrawal with the secret pays a receiver that takes Ether, and from the deadline on a
  refund pays a sender that does.
\<close>

theorem swap_can_be_settled:
  assumes "reaches freshLedger (htlcStep E) s" "lc_status (contracts s i) = ACTIVE"
  shows "(timestamp s < lc_expiration (contracts s i) \<and> keccak256 E [secret] = lc_hashLock (contracts s i)
      \<and> accepts E (lc_receiver (contracts s i)) \<and> lc_receiver (contracts s i) \<noteq> self E
      \<longrightarrow> (\<exists>t. withdraw E i secret s = Inr t \<and> lc_status (contracts t i) = WITHDRAWN
        \<and> balances t (lc_receiver (contracts s i))
            = balances s (lc_receiver (contracts s i)) + unat (lc_inputAmount (contracts s i))))
    \<and> (lc_expiration (contracts s i) \<le> timestamp s \<and> accepts E (lc_sender (contracts s i))
      \<longrightarrow> (\<exists>t. refund E i s = Inr t \<and> lc_status (contracts t i) = REFUNDED
        \<and> balances t (lc_sender (contracts s i))
            = balances s (lc_sender (contracts s i)) + unat (lc_inputAmount (contracts s i))))"
  using withdraw_succeeds [OF htlc_reaches [OF assms(1)] assms(2), of secret]
    refund_succeeds [OF htlc_reaches [OF assms(1)] assms(2)]
  by (simp add: lockStatus_def)

theorem swap_can_be_settled_witness:
  "\<exists>t. withdraw demoEvm 1020 42 demoOpen = Inr t \<and> balances t 2 = 55"
  using swap_can_be_settled [OF demoOpen_reached, of 1020 42] by (auto simp: demo_ledger_defs)

text \<open>
  Atomicity across two ledgers: when two swaps have the same hash lock and one of them was withdrawn,
  the log of its ledger shows a secret with which the other, while it is active and before its own
  deadline, can be withdrawn as well.
\<close>

theorem revealed_secret_settles_other:
  assumes "reaches freshLedger (htlcStep A) a" "reaches freshLedger (htlcStep B) b"
    and "keccak256 A = keccak256 B" "lc_hashLock (contracts a i) = lc_hashLock (contracts b j)"
    and "lc_status (contracts b j) = WITHDRAWN"
    and "lc_status (contracts a i) = ACTIVE" "timestamp a < lc_expiration (contracts a i)"
    and "accepts A (lc_receiver (contracts a i))" "lc_receiver (contracts a i) \<noteq> self A"
  shows "\<exists>secret h x y t. Withdraw j secret h x y \<in> set (events b) \<and> withdraw A i secret a = Inr t
    \<and> balances t (lc_receiver (contracts a i)) = balances a (lc_receiver (contracts a i)) + unat (lc_inputAmount (contracts a i))"
proof -
  obtain secret h x y where w: "Withdraw j secret h x y \<in> set (events b)"
    using withdrawal_logged [OF htlc_reaches [OF assms(2)] assms(5)] by blast
  then have "keccak256 B [secret] = lc_hashLock (contracts b j)"
    using events_true [OF htlc_reaches [OF assms(2)] w] by (simp add: settledBy_def opensNative_def Let_def)
  then have "keccak256 A [secret] = lc_hashLock (contracts a i)" using assms(3,4) by simp
  then show ?thesis
    using withdraw_succeeds [OF htlc_reaches [OF assms(1)] assms(6,7) _ assms(8,9)] w by blast
qed

theorem revealed_secret_settles_other_witness:
  "\<exists>secret h x y t. Withdraw 1020 secret h x y \<in> set (events demoClosed) \<and> withdraw demoEvm 1020 secret demoOpen = Inr t
    \<and> balances t 2 = 55"
  using revealed_secret_settles_other [OF demoOpen_reached demoClosed_reached, of 1020 1020]
  by (simp add: demoClosed_def demo_ledger_defs)

text \<open>
  C28. The secret of a private swap is one of 255: the contract computes the power without a modulus in 256
  bits, so whenever some secret withdraws a swap, one of the numbers from 1 to 255 does too, with the
  same effect on all balances.
\<close>

theorem private_secret_guessable:
  assumes "privateWithdraw E i secret s = Inr t"
  shows "\<exists>k \<in> {1..255}. \<exists>t'. privateWithdraw E i (word_of_nat k) s = Inr t' \<and> balances t' = balances t"
proof -
  have w: "calculateHashSecret (lc_generator (contracts s i)) secret (lc_modulus (contracts s i)) = Inr (lc_hashLock (contracts s i))"
    using assms by (simp add: privateWithdraw_Inr opensPrivate_def)
  show ?thesis using small_exponent [OF w] assms
    by (auto simp: privateWithdraw_Inr opensPrivate_def payReceiver_Inr Let_def)
qed

theorem private_secret_guessable_witness:
  "\<exists>k \<in> {1..255}. \<exists>t'. privateWithdraw demoEvm 1020 (word_of_nat k) demoPrivate = Inr t' \<and> balances t' 2 = 55"
proof -
  have "\<exists>t. privateWithdraw demoEvm 1020 3 demoPrivate = Inr t \<and> balances t 2 = 55"
    by (simp add: privateWithdraw_Inr opensPrivate_def calculateHashSecret_def payReceiver_Inr moveEther_def
      demoPrivate_def demo_ledger_defs LockContract.defs)
  then obtain t where "privateWithdraw demoEvm 1020 3 demoPrivate = Inr t" "balances t 2 = 55" by blast
  then show ?thesis using private_secret_guessable [of demoEvm 1020 3 demoPrivate t] by metis
qed

end
