(* ===== verification/Token_Swap.thy ===== *)
theory Token_Swap
  imports HashTimeLock
begin

text \<open>
  The hash time lock for tokens: \<open>HashedTimeLockContract.sol\<close> of the package
  cactus-plugin-htlc-eth-besu-erc20, with its proofs. The token contracts are a parameter: a call of
  \<open>transferFrom\<close> or \<open>transfer\<close> reverts (None) or returns a truth value and a new state of the
  tokens. They are taken not to call the time lock back. The first argument of an operation is the address of the
  token, the second the caller.
\<close>

section \<open>State\<close>

record 'w erc20 =
  tk_transferFrom :: "address \<Rightarrow> address \<Rightarrow> address \<Rightarrow> address \<Rightarrow> uint256 \<Rightarrow> 'w \<Rightarrow> (bool \<times> 'w) option"
  tk_transfer :: "address \<Rightarrow> address \<Rightarrow> address \<Rightarrow> uint256 \<Rightarrow> 'w \<Rightarrow> (bool \<times> 'w) option"
  tk_balanceOf :: "address \<Rightarrow> address \<Rightarrow> 'w \<Rightarrow> nat"

record TokenLock = LockContract +
  lc_tokenAddress :: address

datatype tokenEvent =
    TokenNewContract bytes32 TokenLock
  | TokenWithdraw bytes32 bytes32 bytes32 address address address
  | TokenRefund bytes32 bytes32 address address address

record 'w tokenLedger =
  tokenLocks :: "bytes32 \<Rightarrow> TokenLock"
  tokens :: 'w
  tokenTime :: uint256
  tokenEvents :: "tokenEvent list"

section \<open>Operations\<close>

definition tokenSwapId :: "evm \<Rightarrow> address \<Rightarrow> address \<Rightarrow> uint256 \<Rightarrow> bytes32 \<Rightarrow> uint256 \<Rightarrow> address \<Rightarrow> bytes32" where
  "tokenSwapId E sender receiver inputAmount hashLock expiration tokenAddress =
     keccak256 E [addressWord sender, addressWord receiver, inputAmount, hashLock, expiration, addressWord tokenAddress]"

definition tokenNewContract ::
  "'w erc20 \<Rightarrow> evm \<Rightarrow> address \<Rightarrow> uint256 \<Rightarrow> uint256 \<Rightarrow> uint256 \<Rightarrow> bytes32 \<Rightarrow> address \<Rightarrow> address \<Rightarrow> string \<Rightarrow> string
     \<Rightarrow> 'w tokenLedger \<Rightarrow> 'w tokenLedger reverting" where
  "tokenNewContract T E sender inputAmount outputAmount expiration hashLock tokenAddress receiver outputNetwork
       outputAddress s =
     (if \<not> tokenTime s < expiration then Inl ''INVALID_TIME''
      else if \<not> 0 < inputAmount then Inl ''INVALID_AMOUNT''
      else case tk_transferFrom T tokenAddress (self E) sender (self E) inputAmount (tokens s) of
        None \<Rightarrow> Inl ''''
      | Some (_, w) \<Rightarrow>
          (let i = tokenSwapId E sender receiver inputAmount hashLock expiration tokenAddress in
           if lc_status (tokenLocks s i) \<noteq> INIT then Inl ''SWAP_EXISTS''
           else let c = \<lparr>lc_inputAmount = inputAmount, lc_outputAmount = outputAmount, lc_expiration = expiration,
                  lc_status = ACTIVE, lc_hashLock = hashLock, lc_sender = sender, lc_receiver = receiver,
                  lc_outputNetwork = outputNetwork, lc_outputAddress = outputAddress, lc_tokenAddress = tokenAddress\<rparr>
                in Inr (s\<lparr>tokens := w, tokenLocks := (tokenLocks s)(i := c),
                     tokenEvents := tokenEvents s @ [TokenNewContract i c]\<rparr>)))"

definition tokenWithdraw :: "'w erc20 \<Rightarrow> evm \<Rightarrow> bytes32 \<Rightarrow> bytes32 \<Rightarrow> 'w tokenLedger \<Rightarrow> 'w tokenLedger reverting" where
  "tokenWithdraw T E i secret s =
     (let c = tokenLocks s i in
      if lc_status c \<noteq> ACTIVE then Inl ''SWAP_NOT_ACTIVE''
      else if \<not> tokenTime s < lc_expiration c then Inl ''INVALID_TIME''
      else if lc_hashLock c \<noteq> keccak256 E [secret] then Inl ''INVALID_SECRET''
      else case tk_transfer T (lc_tokenAddress c) (self E) (lc_receiver c) (lc_inputAmount c) (tokens s) of
        None \<Rightarrow> Inl ''''
      | Some (_, w) \<Rightarrow> Inr (s\<lparr>tokens := w, tokenLocks := (tokenLocks s)(i := c\<lparr>lc_status := WITHDRAWN\<rparr>),
          tokenEvents := tokenEvents s
            @ [TokenWithdraw i secret (lc_hashLock c) (lc_tokenAddress c) (lc_sender c) (lc_receiver c)]\<rparr>))"

definition tokenRefund :: "'w erc20 \<Rightarrow> evm \<Rightarrow> bytes32 \<Rightarrow> 'w tokenLedger \<Rightarrow> 'w tokenLedger reverting" where
  "tokenRefund T E i s =
     (let c = tokenLocks s i in
      if lc_status c \<noteq> ACTIVE then Inl ''SWAP_NOT_ACTIVE''
      else if \<not> lc_expiration c \<le> tokenTime s then Inl ''INVALID_TIME''
      else case tk_transfer T (lc_tokenAddress c) (self E) (lc_sender c) (lc_inputAmount c) (tokens s) of
        None \<Rightarrow> Inl ''''
      | Some (_, w) \<Rightarrow> Inr (s\<lparr>tokens := w, tokenLocks := (tokenLocks s)(i := c\<lparr>lc_status := REFUNDED\<rparr>),
          tokenEvents := tokenEvents s
            @ [TokenRefund i (lc_hashLock c) (lc_tokenAddress c) (lc_sender c) (lc_receiver c)]\<rparr>))"

definition tokenSingleStatus :: "bytes32 \<Rightarrow> 'w tokenLedger \<Rightarrow> uint256" where
  "tokenSingleStatus i s = (let c = tokenLocks s i in
     if lc_status c = ACTIVE \<and> lc_expiration c < tokenTime s then EXPIRED else lc_status c)"

definition tokenStatus :: "bytes32 list \<Rightarrow> 'w tokenLedger \<Rightarrow> uint256 list" where
  "tokenStatus ids s = map (\<lambda>i. tokenSingleStatus i s) ids"

section \<open>Steps\<close>

text \<open>The contract never approves a spender, so nothing else lowers its balance of a token.\<close>

inductive tokenStep :: "'w erc20 \<Rightarrow> evm \<Rightarrow> 'w tokenLedger \<Rightarrow> 'w tokenLedger \<Rightarrow> bool"
  for T :: "'w erc20" and E :: evm where
  token_newContract: "a \<noteq> self E \<Longrightarrow> tokenNewContract T E a v out exp h k r net addr s = Inr t \<Longrightarrow> tokenStep T E s t"
| token_withdraw: "tokenWithdraw T E i secret s = Inr t \<Longrightarrow> tokenStep T E s t"
| token_refund: "tokenRefund T E i s = Inr t \<Longrightarrow> tokenStep T E s t"
| token_elsewhere: "(\<forall>k. tk_balanceOf T k (self E) (tokens s) \<le> tk_balanceOf T k (self E) w) \<Longrightarrow> tokenTime s \<le> now
    \<Longrightarrow> tokenStep T E s (s\<lparr>tokens := w, tokenTime := now\<rparr>)"

text \<open>
  A token whose \<open>transferFrom\<close> and \<open>transfer\<close> move the amount or revert, as the token standard
  recommends and the common implementations do: the truth value returned carries no information.
\<close>

definition revertingTokens :: "'w erc20 \<Rightarrow> address \<Rightarrow> bool" where
  "revertingTokens T a \<longleftrightarrow>
     (\<forall>k from v w b w' k'. from \<noteq> a \<longrightarrow> tk_transferFrom T k a from a v w = Some (b, w')
        \<longrightarrow> tk_balanceOf T k' a w + (if k' = k then unat v else 0) \<le> tk_balanceOf T k' a w')
   \<and> (\<forall>k to v w b w' k'. tk_transfer T k a to v w = Some (b, w')
        \<longrightarrow> tk_balanceOf T k' a w \<le> tk_balanceOf T k' a w' + (if k' = k then unat v else 0))"

definition freshTokens :: "'w tokenLedger \<Rightarrow> bool" where
  "freshTokens s \<longleftrightarrow> (\<forall>i. lc_status (tokenLocks s i) = INIT) \<and> tokenEvents s = []"

definition tokenAmount :: "address \<Rightarrow> 'w tokenLedger \<Rightarrow> bytes32 \<Rightarrow> nat" where
  "tokenAmount k s i = (let c = tokenLocks s i in
     if lc_status c = ACTIVE \<and> lc_tokenAddress c = k then unat (lc_inputAmount c) else 0)"

lemma tokenNewContract_Inr:
  assumes "tokenNewContract T E a v out exp h k r net addr s = Inr t"
  shows "\<exists>i b w c. tk_transferFrom T k (self E) a (self E) v (tokens s) = Some (b, w)
    \<and> lc_status (tokenLocks s i) = INIT \<and> lc_status c = ACTIVE \<and> lc_tokenAddress c = k \<and> lc_inputAmount c = v
    \<and> tokens t = w \<and> tokenLocks t = (tokenLocks s)(i := c)"
proof (cases "tk_transferFrom T k (self E) a (self E) v (tokens s)")
  case (Some p)
  let ?c = "\<lparr>lc_inputAmount = v, lc_outputAmount = out, lc_expiration = exp, lc_status = ACTIVE, lc_hashLock = h,
    lc_sender = a, lc_receiver = r, lc_outputNetwork = net, lc_outputAddress = addr, lc_tokenAddress = k\<rparr>"
  from Some show ?thesis using assms
    by (intro exI [of _ "tokenSwapId E a r v h exp k"] exI [of _ "fst p"] exI [of _ "snd p"] exI [of _ ?c])
      (auto simp: tokenNewContract_def Let_def split: if_splits prod.splits)
qed (use assms in \<open>simp add: tokenNewContract_def split: if_splits\<close>)

lemma tokenWithdraw_Inr:
  assumes "tokenWithdraw T E i secret s = Inr t"
  shows "\<exists>b w. lc_status (tokenLocks s i) = ACTIVE
    \<and> tk_transfer T (lc_tokenAddress (tokenLocks s i)) (self E) (lc_receiver (tokenLocks s i))
        (lc_inputAmount (tokenLocks s i)) (tokens s) = Some (b, w)
    \<and> tokens t = w \<and> tokenLocks t = (tokenLocks s)(i := (tokenLocks s i)\<lparr>lc_status := WITHDRAWN\<rparr>)"
  using assms
  by (cases "tk_transfer T (lc_tokenAddress (tokenLocks s i)) (self E) (lc_receiver (tokenLocks s i))
        (lc_inputAmount (tokenLocks s i)) (tokens s)")
    (auto simp: tokenWithdraw_def Let_def split: if_splits prod.splits)

lemma tokenRefund_Inr:
  assumes "tokenRefund T E i s = Inr t"
  shows "\<exists>b w. lc_status (tokenLocks s i) = ACTIVE
    \<and> tk_transfer T (lc_tokenAddress (tokenLocks s i)) (self E) (lc_sender (tokenLocks s i))
        (lc_inputAmount (tokenLocks s i)) (tokens s) = Some (b, w)
    \<and> tokens t = w \<and> tokenLocks t = (tokenLocks s)(i := (tokenLocks s i)\<lparr>lc_status := REFUNDED\<rparr>)"
  using assms
  by (cases "tk_transfer T (lc_tokenAddress (tokenLocks s i)) (self E) (lc_sender (tokenLocks s i))
        (lc_inputAmount (tokenLocks s i)) (tokens s)")
    (auto simp: tokenRefund_def Let_def split: if_splits prod.splits)

text \<open>A payment out of the contract, by either operation, closes the swap it pays.\<close>

lemma paid_out:
  assumes "revertingTokens T (self E)" "lc_status c = ACTIVE" "c = tokenLocks s i" "settledStatus n"
    and "tk_transfer T (lc_tokenAddress c) (self E) to (lc_inputAmount c) (tokens s) = Some (b, tokens t)"
    and "tokenLocks t = (tokenLocks s)(i := c\<lparr>lc_status := n\<rparr>)"
  shows "\<exists>i x. tokenAmount k t = (tokenAmount k s)(i := x)
    \<and> tk_balanceOf T k (self E) (tokens s) + x \<le> tk_balanceOf T k (self E) (tokens t) + tokenAmount k s i"
proof -
  have n: "n \<noteq> ACTIVE" using assms(4) by (auto simp: settledStatus_def)
  have "tk_balanceOf T k (self E) (tokens s)
      \<le> tk_balanceOf T k (self E) (tokens t) + (if k = lc_tokenAddress c then unat (lc_inputAmount c) else 0)"
    using assms(1,5) unfolding revertingTokens_def by blast
  then show ?thesis
    using assms(2,3,6) n by (intro exI [of _ i] exI [of _ 0]) (auto simp: tokenAmount_def Let_def fun_eq_iff)
qed

interpretation token_swaps: escrow freshTokens "\<lambda>s t. revertingTokens T (self E) \<and> tokenStep T E s t" "tokenAmount k"
    "\<lambda>s. tk_balanceOf T k (self E) (tokens s)"
  for T :: "'w erc20" and E :: evm and k :: address
proof unfold_locales
  fix s t :: "'w tokenLedger"
  assume "revertingTokens T (self E) \<and> tokenStep T E s t"
  then have r: "revertingTokens T (self E)" and st: "tokenStep T E s t" by simp_all
  from st show "\<exists>i a. tokenAmount k t = (tokenAmount k s)(i := a)
      \<and> tk_balanceOf T k (self E) (tokens s) + a \<le> tk_balanceOf T k (self E) (tokens t) + tokenAmount k s i"
  proof cases
    case (token_newContract a v out exp h k' rc net addr)
    then obtain i b w c where c: "tk_transferFrom T k' (self E) a (self E) v (tokens s) = Some (b, w)"
        "lc_status (tokenLocks s i) = INIT" "lc_status c = ACTIVE" "lc_tokenAddress c = k'" "lc_inputAmount c = v"
        "tokens t = w" "tokenLocks t = (tokenLocks s)(i := c)"
      using tokenNewContract_Inr [OF token_newContract(2)] by blast
    have "tk_balanceOf T k (self E) (tokens s) + (if k = k' then unat v else 0) \<le> tk_balanceOf T k (self E) w"
      using r token_newContract(1) c(1) unfolding revertingTokens_def by blast
    then show ?thesis using c(2-7)
      by (intro exI [of _ i] exI [of _ "if k = k' then unat v else 0"]) (auto simp: tokenAmount_def Let_def fun_eq_iff)
  next
    case (token_withdraw i secret)
    from tokenWithdraw_Inr [OF this] obtain b w where w: "lc_status (tokenLocks s i) = ACTIVE"
        "tk_transfer T (lc_tokenAddress (tokenLocks s i)) (self E) (lc_receiver (tokenLocks s i))
          (lc_inputAmount (tokenLocks s i)) (tokens s) = Some (b, w)"
        "tokens t = w" "tokenLocks t = (tokenLocks s)(i := (tokenLocks s i)\<lparr>lc_status := WITHDRAWN\<rparr>)" by blast
    show ?thesis by (rule paid_out [OF r w(1) refl _ w(2) [folded w(3)] w(4)]) simp
  next
    case (token_refund i)
    from tokenRefund_Inr [OF this] obtain b w where w: "lc_status (tokenLocks s i) = ACTIVE"
        "tk_transfer T (lc_tokenAddress (tokenLocks s i)) (self E) (lc_sender (tokenLocks s i))
          (lc_inputAmount (tokenLocks s i)) (tokens s) = Some (b, w)"
        "tokens t = w" "tokenLocks t = (tokenLocks s)(i := (tokenLocks s i)\<lparr>lc_status := REFUNDED\<rparr>)" by blast
    show ?thesis by (rule paid_out [OF r w(1) refl _ w(2) [folded w(3)] w(4)]) simp
  next
    case (token_elsewhere w now)
    then show ?thesis
      by (intro exI [of _ 0] exI [of _ "tokenAmount k s 0"]) (auto simp: tokenAmount_def Let_def fun_eq_iff)
  qed
qed (auto simp: freshTokens_def tokenAmount_def Let_def)

section \<open>A token that reports failure by its result\<close>

text \<open>
  A token with balances and no allowances, one state for each address of a token: a transfer that is not
  covered returns false and moves nothing. The token standard allows this, and requires callers to
  handle it.
\<close>

type_synonym tokenBalances = "address \<Rightarrow> address \<Rightarrow> nat"

definition moveTokens :: "address \<Rightarrow> address \<Rightarrow> address \<Rightarrow> uint256 \<Rightarrow> tokenBalances \<Rightarrow> bool \<times> tokenBalances" where
  "moveTokens k from to v w =
     (if w k from < unat v then (False, w)
      else let b = (w k)(from := w k from - unat v) in (True, w(k := b(to := b to + unat v))))"

definition quietToken :: "tokenBalances erc20" where
  "quietToken = \<lparr>tk_transferFrom = (\<lambda>k caller from to v w. Some (moveTokens k from to v w)),
     tk_transfer = (\<lambda>k caller to v w. Some (moveTokens k caller to v w)), tk_balanceOf = (\<lambda>k a w. w k a)\<rparr>"

definition strictToken :: "tokenBalances erc20" where
  "strictToken = \<lparr>tk_transferFrom = (\<lambda>k caller from to v w. case moveTokens k from to v w of (b, w') \<Rightarrow> if b then Some (b, w') else None),
     tk_transfer = (\<lambda>k caller to v w. case moveTokens k caller to v w of (b, w') \<Rightarrow> if b then Some (b, w') else None),
     tk_balanceOf = (\<lambda>k a w. w k a)\<rparr>"

lemma strictToken_reverting: "revertingTokens strictToken a"
  by (auto simp: revertingTokens_def strictToken_def moveTokens_def Let_def split: if_splits)

definition tokenEvm :: evm where
  "tokenEvm = \<lparr>keccak256 = (\<lambda>ws. last ws + 1000), accepts = (\<lambda>a. True), self = 99\<rparr>"

definition noTokenLock :: TokenLock where
  "noTokenLock = LockContract.extend noLock \<lparr>lc_tokenAddress = 0\<rparr>"

text \<open>The contract holds 5 tokens of the token 7, which belong to somebody else's swap.\<close>

definition tokenDemo :: "tokenBalances tokenLedger" where
  "tokenDemo = \<lparr>tokenLocks = (\<lambda>_. noTokenLock), tokens = (\<lambda>_ _. 0)(7 := (\<lambda>_. 0)(99 := 5)), tokenTime = 10, tokenEvents = []\<rparr>"

lemmas token_demo_defs = quietToken_def strictToken_def tokenEvm_def tokenDemo_def noTokenLock_def noLock_def LockContract.defs
  moveTokens_def

section \<open>Properties\<close>

text \<open>
  With tokens that revert when they cannot move an amount, the tokens the contract holds of each kind
  cover all active swaps in that kind, in every reachable state.
\<close>

theorem token_swaps_funded:
  assumes "revertingTokens T (self E)" "reaches freshTokens (tokenStep T E) s"
  shows "(\<Sum>i \<in> UNIV. tokenAmount k s i) \<le> tk_balanceOf T k (self E) (tokens s)"
proof (rule token_swaps.funded)
  show "reaches freshTokens (\<lambda>s t. revertingTokens T (self E) \<and> tokenStep T E s t) s"
    using assms by simp
qed

theorem token_swaps_funded_witness:
  "(\<Sum>i \<in> UNIV. tokenAmount 7 tokenDemo i) \<le> tk_balanceOf strictToken 7 (self tokenEvm) (tokens tokenDemo)"
proof (rule token_swaps_funded [OF strictToken_reverting])
  show "reaches freshTokens (tokenStep strictToken tokenEvm) tokenDemo"
    by (rule reaches.starts) (simp add: freshTokens_def token_demo_defs INIT_def)
qed

text \<open>
  The contract ignores what \<open>transferFrom\<close> and \<open>transfer\<close> return. With a token that reports a failed
  transfer by its result, an account without any tokens opens a swap and withdraws it at once to an
  account of its choice: the tokens paid come out of the other swaps.
\<close>

theorem unpaid_swap_drains:
  assumes "tokenTime s < exp" "0 < v"
    and "tk_transferFrom T k (self E) a (self E) v (tokens s) = Some (False, tokens s)"
    and "tk_transfer T k (self E) r v (tokens s) = Some (b, w)"
    and "lc_status (tokenLocks s (tokenSwapId E a r v (keccak256 E [secret]) exp k)) = INIT"
  shows "\<exists>t u. tokenNewContract T E a v out exp (keccak256 E [secret]) k r net addr s = Inr t
    \<and> tokenWithdraw T E (tokenSwapId E a r v (keccak256 E [secret]) exp k) secret t = Inr u \<and> tokens u = w"
  using assms by (simp add: tokenNewContract_def tokenWithdraw_def Let_def)

theorem unpaid_swap_drains_witness:
  "\<exists>t u. tokenNewContract quietToken tokenEvm 1 5 0 20 1042 7 2 ''B'' ''x'' tokenDemo = Inr t
    \<and> tokenWithdraw quietToken tokenEvm (tokenSwapId tokenEvm 1 2 5 1042 20 7) 42 t = Inr u
    \<and> tk_balanceOf quietToken 7 (self tokenEvm) (tokens u) = 0 \<and> tk_balanceOf quietToken 7 2 (tokens u) = 5"
proof -
  let ?w = "(\<lambda>_ _. 0)(7 := (\<lambda>_. 0)(99 := 0, 2 := 5)) :: tokenBalances"
  have h: "keccak256 tokenEvm [42] = 1042" by (simp add: tokenEvm_def)
  have "\<exists>t u. tokenNewContract quietToken tokenEvm 1 5 0 20 (keccak256 tokenEvm [42]) 7 2 ''B'' ''x'' tokenDemo = Inr t
    \<and> tokenWithdraw quietToken tokenEvm (tokenSwapId tokenEvm 1 2 5 (keccak256 tokenEvm [42]) 20 7) 42 t = Inr u \<and> tokens u = ?w"
  proof (rule unpaid_swap_drains)
    show "tk_transferFrom quietToken 7 (self tokenEvm) 1 (self tokenEvm) 5 (tokens tokenDemo) = Some (False, tokens tokenDemo)"
      by (simp add: token_demo_defs)
    show "tk_transfer quietToken 7 (self tokenEvm) 2 5 (tokens tokenDemo) = Some (True, ?w)"
      by (simp add: token_demo_defs)
  qed (simp_all add: token_demo_defs INIT_def)
  then obtain t u where tu: "tokenNewContract quietToken tokenEvm 1 5 0 20 1042 7 2 ''B'' ''x'' tokenDemo = Inr t"
      "tokenWithdraw quietToken tokenEvm (tokenSwapId tokenEvm 1 2 5 1042 20 7) 42 t = Inr u" "tokens u = ?w"
    unfolding h by blast
  have "tk_balanceOf quietToken 7 (self tokenEvm) ?w = 0" "tk_balanceOf quietToken 7 2 ?w = 5"
    by (simp_all add: quietToken_def tokenEvm_def)
  then show ?thesis using tu by metis
qed

end
