(* ===== verification/Connector_World.thy ===== *)
theory Connector_World
  imports JS_Async Keychain_Memory
begin

text \<open>
  What the ledger connectors share: a world with the registry of plugins, the keychains and the library for the ledger, with the
  operations on them. Keychains are the in-memory plugin, found by the registry; the object of a plugin is identified by its instance.
\<close>

section \<open>The world of a connector\<close>

text \<open>
  \<open>cw_keychains\<close> has the keychain plugin of each instance, \<open>cw_transactions\<close> the counter of the exporter,
  \<open>cw_ext\<close> the node and the clock.
\<close>

record 'x connectorWorld =
  cw_registry :: registry
  cw_keychains :: "string \<Rightarrow> PluginKeychainMemory"
  cw_transactions :: nat
  cw_ext :: 'x

type_synonym ('x, 'm, 'a) cact = "(('x, 'm) connectorWorld_scheme, jsError, 'a) act"

text \<open>A call of the library.\<close>

definition web3A :: "('x \<Rightarrow> 'a option \<times> 'x) \<Rightarrow> ('x, 'm, 'a) cact" where
  "web3A f = (\<lambda>w. case f (cw_ext w) of
      (None, x) \<Rightarrow> (Throws LibraryError, w\<lparr>cw_ext := x\<rparr>)
    | (Some a, x) \<Rightarrow> (Returns a, w\<lparr>cw_ext := x\<rparr>))"

text \<open>The keychain plugin of an identifier, and its three operations.\<close>

definition keychainFor :: "string \<Rightarrow> ('x, 'm, string) cact" where
  "keychainFor i = (\<lambda>w. liftR (bindR (findOneByKeychainId i (cw_registry w)) (\<lambda>p. Inr (pl_instanceId p))) w)"

definition keychainHasA :: "string \<Rightarrow> string \<Rightarrow> ('x, 'm, bool) cact" where
  "keychainHasA k key = (\<lambda>w. case keychainHas key (cw_keychains w k) of
      (b, k') \<Rightarrow> (Returns b, w\<lparr>cw_keychains := (cw_keychains w)(k := k')\<rparr>))"

definition keychainGetA :: "string \<Rightarrow> string \<Rightarrow> ('x, 'm, string) cact" where
  "keychainGetA k key = (\<lambda>w. case keychainGet key (cw_keychains w k) of
      (r, k') \<Rightarrow> liftR r (w\<lparr>cw_keychains := (cw_keychains w)(k := k')\<rparr>))"

definition keychainSetA :: "string \<Rightarrow> string \<Rightarrow> string \<Rightarrow> ('x, 'm, unit) cact" where
  "keychainSetA k key v = modifyA (\<lambda>w. w\<lparr>cw_keychains := (cw_keychains w)(k := keychainSet key v (cw_keychains w k))\<rparr>)"

section \<open>Artifacts and answers\<close>

text \<open>A Web3 contract object: its interface and its address.\<close>

type_synonym contract = "json \<times> jsv"

text \<open>\<open>contractJSON.networks = { [networkId]: { address } }\<close>\<close>

definition setNetworks :: "int \<Rightarrow> jsv \<Rightarrow> json \<Rightarrow> json result" where
  "setNetworks networkId address j = (case j of
      JObj fs \<Rightarrow> Inr (JObj (upsert ''networks'' (JObj [(intToString networkId, JObj (optFields [(''address'', address)]))]) fs))
    | JArr xs \<Rightarrow> Inr j
    | _ \<Rightarrow> Inl TypeError)"

text \<open>The status of the answer; the body of a good answer is what the connector returned.\<close>

definition answer500 :: "(jsError, 'a) outcome \<Rightarrow> int option" where
  "answer500 r = (case r of Returns _ \<Rightarrow> Some 200 | Throws _ \<Rightarrow> Some 500 | Pending \<Rightarrow> None)"

end
