(* ===== verification/Besu_Connector.thy ===== *)
theory Besu_Connector
  imports Connector_World
begin

text \<open>
  The Besu ledger connector (\<open>plugin-ledger-connector-besu.ts\<close> with \<open>model-type-guards.ts\<close>, \<open>impl/\<close> and
  the endpoints of \<open>web-services/\<close>), on which the time lock plugins, the gateways and the view plugin
  run their transactions. The web3 library and the Besu node behind it are the record \<open>web3\<close>: a call
  that may be rejected returns an option, and the state \<open>'x\<close> of the node, which holds the clock too,
  changes with every call. The keychains are in \<open>Connector_World\<close>.
\<close>

section \<open>Requests\<close>

text \<open>A credential of another type than the three the connector knows keeps its type.\<close>

datatype Web3SigningCredential =
    CactusKeychainRef string string string
  | PrivateKeyHex string string
  | NoCredential
  | OtherCredential string

datatype ReceiptType = NodeTxPoolAck | LedgerBlockAck | OtherReceiptType string

datatype EthContractInvocationType = SendInvocation | CallInvocation | OtherInvocation string

record BesuPrivateTransactionConfig =
  pc_privateFrom :: string
  pc_privateFor :: "json list"

record BesuTransactionConfig =
  tc_rawTransaction :: "string option"
  tc_from :: jsv
  tc_to :: jsv
  tc_value :: jsv
  tc_gas :: jsv
  tc_gasPrice :: jsv
  tc_nonce :: jsv
  tc_data :: jsv

record ConsistencyStrategy =
  cs_receiptType :: ReceiptType
  cs_timeoutMs :: "int option"
  cs_blockConfirmations :: int

record RunTransactionRequest =
  rt_web3SigningCredential :: Web3SigningCredential
  rt_transactionConfig :: BesuTransactionConfig
  rt_consistencyStrategy :: ConsistencyStrategy
  rt_privateTransactionConfig :: "BesuPrivateTransactionConfig option"

record DeployContractRequest =
  dc_contractName :: string
  dc_contractAbi :: json
  dc_constructorArgs :: "json list"
  dc_web3SigningCredential :: Web3SigningCredential
  dc_bytecode :: string
  dc_keychainId :: string
  dc_gas :: jsv
  dc_gasPrice :: jsv
  dc_timeoutMs :: "int option"
  dc_privateTransactionConfig :: "BesuPrivateTransactionConfig option"

record InvokeContractRequest =
  ic_contractName :: string
  ic_signingCredential :: Web3SigningCredential
  ic_invocationType :: EthContractInvocationType
  ic_methodName :: string
  ic_params :: "json list"
  ic_contractAbi :: jsv
  ic_contractAddress :: jsv
  ic_value :: jsv
  ic_gas :: jsv
  ic_gasPrice :: jsv
  ic_nonce :: jsv
  ic_timeoutMs :: "int option"
  ic_keychainId :: "string option"
  ic_privateTransactionConfig :: "BesuPrivateTransactionConfig option"

record SignTransactionRequest =
  st_keychainId :: string
  st_keychainRef :: string
  st_transactionHash :: string

record GetBesuRecordRequest =
  gr_invokeCall :: "InvokeContractRequest option"
  gr_transactionHash :: "string option"

text \<open>\<open>isWeb3SigningCredentialNone\<close> and \<open>isWeb3SigningCredentialPrivateKeyHex\<close>\<close>

definition isWeb3SigningCredentialNone :: "Web3SigningCredential \<Rightarrow> bool" where
  "isWeb3SigningCredentialNone c \<longleftrightarrow> c = NoCredential"

definition isWeb3SigningCredentialPrivateKeyHex :: "Web3SigningCredential \<Rightarrow> bool" where
  "isWeb3SigningCredentialPrivateKeyHex c = (case c of PrivateKeyHex a s \<Rightarrow> True | _ \<Rightarrow> False)"

text \<open>\<open>(c as ...).ethAccount\<close>\<close>

definition ethAccount :: "Web3SigningCredential \<Rightarrow> jsv" where
  "ethAccount c = (case c of
      CactusKeychainRef a k i \<Rightarrow> Some (JStr a) | PrivateKeyHex a s \<Rightarrow> Some (JStr a) | _ \<Rightarrow> None)"

section \<open>Web3 and the world of a connector\<close>

record 'x web3 =
  w3_now :: "'x \<Rightarrow> int"
  w3_setTimeout :: "int \<Rightarrow> 'x \<Rightarrow> 'x"
  w3_getId :: "'x \<Rightarrow> int option \<times> 'x"
  w3_validContract :: "json \<Rightarrow> jsv \<Rightarrow> bool"
  w3_methods :: "json \<Rightarrow> string list"
  w3_encodeABI :: "contract \<Rightarrow> string \<Rightarrow> json list \<Rightarrow> string option"
  w3_encodeDeploy :: "json \<Rightarrow> string \<Rightarrow> json list \<Rightarrow> string option"
  w3_call :: "contract \<Rightarrow> string \<Rightarrow> json list \<Rightarrow> 'x \<Rightarrow> jsv option \<times> 'x"
  w3_estimateGas :: "BesuTransactionConfig \<Rightarrow> 'x \<Rightarrow> json option \<times> 'x"
  w3_signTransaction :: "BesuTransactionConfig \<Rightarrow> string \<Rightarrow> 'x \<Rightarrow> string option option \<times> 'x"
  w3_sendSignedTransaction :: "string \<Rightarrow> 'x \<Rightarrow> (jsError + json) option \<times> 'x"
  w3_getTransactionReceipt :: "jsv \<Rightarrow> 'x \<Rightarrow> jsv option \<times> 'x"
  w3_getBlockNumber :: "'x \<Rightarrow> int option \<times> 'x"
  w3_getTransaction :: "string \<Rightarrow> 'x \<Rightarrow> jsv option \<times> 'x"
  w3_getBalance :: "string \<Rightarrow> jsv \<Rightarrow> 'x \<Rightarrow> json option \<times> 'x"
  w3_getPastLogs :: "json \<Rightarrow> 'x \<Rightarrow> json option \<times> 'x"
  w3_getBlock :: "json \<Rightarrow> 'x \<Rightarrow> jsv option \<times> 'x"
  w3_generateAndSendRawTransaction :: "json \<Rightarrow> 'x \<Rightarrow> jsv option \<times> 'x"
  w3_waitForTransactionReceipt :: "jsv \<Rightarrow> 'x \<Rightarrow> jsv option \<times> 'x"
  w3_privCall :: "json \<Rightarrow> json \<Rightarrow> 'x \<Rightarrow> jsv option \<times> 'x"
  w3_polls :: nat

text \<open>
  \<open>bw_contracts\<close> is the property \<open>contracts\<close> of the connector, \<open>bw_quorum\<close> says whether \<open>onPluginInit\<close> has run.
\<close>

record 'x besuWorld = "'x connectorWorld" +
  bw_contracts :: "string \<rightharpoonup> contract"
  bw_quorum :: bool

type_synonym ('x, 'a) bact = "('x besuWorld, jsError, 'a) act"

definition onPluginInit :: "('x, unit) bact" where
  "onPluginInit = modifyA (\<lambda>w. w\<lparr>bw_quorum := True\<rparr>)"

section \<open>Waiting for a receipt\<close>

text \<open>\<open>x || y\<close> for a number\<close>

definition orNumber :: "int option \<Rightarrow> int \<Rightarrow> int" where
  "orNumber x y = (case x of None \<Rightarrow> y | Some n \<Rightarrow> if n = 0 then y else n)"

text \<open>\<open>confirmationCount >= n\<close>; \<open>NaN\<close> is \<open>None\<close>.\<close>

definition countReached :: "int option \<Rightarrow> int \<Rightarrow> bool" where
  "countReached c n = (case c of None \<Rightarrow> False | Some k \<Rightarrow> n \<le> k)"

text \<open>
  The loop of \<open>pollForTxReceipt\<close>, with a bound on its rounds: \<open>tries\<close>, the last receipt and the last
  number of confirmations are its variables. The \<open>continue\<close> of the source goes to the test of the loop.
\<close>

fun pollLoop ::
  "'x web3 \<Rightarrow> nat \<Rightarrow> jsv \<Rightarrow> int \<Rightarrow> int \<Rightarrow> int \<Rightarrow> nat \<Rightarrow> jsv \<Rightarrow> int option \<Rightarrow> ('x, jsv \<times> nat) bact" where
  "pollLoop W 0 txHash startedAt timeoutMs n tries txReceipt confirmationCount = never"
| "pollLoop W (Suc fuel) txHash startedAt timeoutMs n tries txReceipt confirmationCount =
     bindA (getsA (\<lambda>w. w3_now W (cw_ext w))) (\<lambda>now.
     thenA (if tries > 0 then modifyA (\<lambda>w. w\<lparr>cw_ext := w3_setTimeout W 1000 (cw_ext w)\<rparr>) else ret ()) (
     if now \<ge> startedAt + timeoutMs then ret (txReceipt, tries + 1)
     else bindA (web3A (w3_getTransactionReceipt W txHash)) (\<lambda>r.
       if \<not> truthy r then
         (if countReached confirmationCount n then pollLoop W fuel txHash startedAt timeoutMs n (tries + 1) r confirmationCount
          else ret (r, tries + 1))
       else bindA (web3A (w3_getBlockNumber W)) (\<lambda>latestBlockNo.
         bindA (propA ''blockNumber'' r) (\<lambda>b.
         let c = map_option (\<lambda>m. latestBlockNo - m) (jsNumber b) in
         if countReached c n then pollLoop W fuel txHash startedAt timeoutMs n (tries + 1) r c
         else ret (r, tries + 1))))))"

definition pollForTxReceipt :: "'x web3 \<Rightarrow> jsv \<Rightarrow> ConsistencyStrategy \<Rightarrow> ('x, json) bact" where
  "pollForTxReceipt W txHash cs =
     (let timeoutMs = orNumber (cs_timeoutMs cs) maxSafeInteger in
      bindA (getsA (\<lambda>w. w3_now W (cw_ext w))) (\<lambda>startedAt.
      bindA (pollLoop W (w3_polls W) txHash startedAt timeoutMs (cs_blockConfirmations cs) 0 None (Some 0)) (\<lambda>(txReceipt, tries).
      if truthy txReceipt then ret (the txReceipt)
      else throwE (ErrorMsg (''PluginLedgerConnectorBesu#pollForTxReceipt() Timed out '' @ intToString timeoutMs
        @ ''ms, polls='' @ natToString tries)))))"

section \<open>Transactions\<close>

text \<open>A response is the receipt it holds.\<close>

definition getTxReceipt :: "'x web3 \<Rightarrow> RunTransactionRequest \<Rightarrow> jsError + json \<Rightarrow> ('x, json) bact" where
  "getTxReceipt W req txPoolReceipt = (case txPoolReceipt of
      Inl e \<Rightarrow> throwE e
    | Inr receipt \<Rightarrow>
        let cs = rt_consistencyStrategy req in
        thenA (modifyA (\<lambda>w. w\<lparr>cw_transactions := cw_transactions w + 1\<rparr>)) (
        if cs_receiptType cs = NodeTxPoolAck \<and> cs_blockConfirmations cs > 0
        then throwE (ErrorMsg ''PluginLedgerConnectorBesu#getTxReceipt() Conflicting parameters for consistency strategy: Cannot wait for >0 block confirmations AND only wait  for the tx pool ACK at the same time.'')
        else (case cs_receiptType cs of
            NodeTxPoolAck \<Rightarrow> ret receipt
          | LedgerBlockAck \<Rightarrow> bindA (propA ''transactionHash'' (Some receipt)) (\<lambda>txHash. pollForTxReceipt W txHash cs)
          | OtherReceiptType s \<Rightarrow> throwE (ErrorMsg (''PluginLedgerConnectorBesu#getTxReceipt() Unrecognized ReceiptType: '' @ s)))))"

definition transactSigned :: "'x web3 \<Rightarrow> RunTransactionRequest \<Rightarrow> ('x, json) bact" where
  "transactSigned W req = (case tc_rawTransaction (rt_transactionConfig req) of
      Some rawTx \<Rightarrow> if rawTx \<noteq> ''''
        then bindA (web3A (w3_sendSignedTransaction W rawTx)) (getTxReceipt W req)
        else throwE (falsyError ''PluginLedgerConnectorBesu#transactSigned():req.transactionConfig.rawTransaction'')
    | None \<Rightarrow> throwE (falsyError ''PluginLedgerConnectorBesu#transactSigned():req.transactionConfig.rawTransaction''))"

definition getPrivateTxReceipt :: "'x web3 \<Rightarrow> jsv \<Rightarrow> ('x, json) bact" where
  "getPrivateTxReceipt W txHash =
     bindA (getsA bw_quorum) (\<lambda>q.
     if \<not> q then throwE (ErrorMsg ''PluginLedgerConnectorBesu#getPrivateTxReceipt() Web3 Quorum client not initialized.'')
     else bindA (web3A (w3_waitForTransactionReceipt W txHash)) (\<lambda>receipt.
       if truthy receipt then ret (the receipt)
       else throwE (ErrorMsg ''priv.getTransactionReceipt provided no receipt.'')))"

definition transactPrivate :: "'x web3 \<Rightarrow> json \<Rightarrow> ('x, json) bact" where
  "transactPrivate W options =
     bindA (getsA bw_quorum) (\<lambda>q.
     if \<not> q then throwE (ErrorMsg ''PluginLedgerConnectorBesu#transactPrivate() Web3 EEA client not initialized.'')
     else bindA (web3A (w3_generateAndSendRawTransaction W options)) (\<lambda>txHash.
       if truthy txHash then getPrivateTxReceipt W txHash
       else throwE (ErrorMsg ''PluginLedgerConnectorBesu#transactPrivate() eea.sendRawTransaction provided no tx hash.'')))"

definition privateOptions :: "BesuTransactionConfig \<Rightarrow> string \<Rightarrow> BesuPrivateTransactionConfig \<Rightarrow> json" where
  "privateOptions c secret pc = JObj (optFields [(''nonce'', tc_nonce c), (''gasPrice'', tc_gasPrice c), (''gasLimit'', tc_gas c),
     (''to'', tc_to c), (''value'', tc_value c), (''data'', tc_data c), (''privateKey'', Some (JStr secret)),
     (''privateFrom'', Some (JStr (pc_privateFrom pc))), (''privateFor'', Some (JArr (pc_privateFor pc))),
     (''restriction'', Some (JStr ''restricted''))])"

definition transactPrivateKey :: "'x web3 \<Rightarrow> RunTransactionRequest \<Rightarrow> string \<Rightarrow> ('x, json) bact" where
  "transactPrivateKey W req secret = (let c = rt_transactionConfig req in
     case rt_privateTransactionConfig req of
       Some pc \<Rightarrow> transactPrivate W (privateOptions c secret pc)
     | None \<Rightarrow> bindA (web3A (w3_signTransaction W c secret)) (\<lambda>raw.
         if raw \<notin> {None, Some ''''} then transactSigned W (req\<lparr>rt_transactionConfig := c\<lparr>tc_rawTransaction := raw\<rparr>\<rparr>)
         else throwE (ErrorMsg ''PluginLedgerConnectorBesu#transactPrivateKey() Failed to sign eth transaction. signedTransaction.rawTransaction is blank after .signTransaction().'')))"

definition transactCactusKeychainRef ::
  "'x web3 \<Rightarrow> RunTransactionRequest \<Rightarrow> string \<Rightarrow> string \<Rightarrow> string \<Rightarrow> ('x, json) bact" where
  "transactCactusKeychainRef W req account keychainEntryKey keychainId =
     bindA (keychainFor keychainId) (\<lambda>k.
     bindA (keychainGetA k keychainEntryKey) (\<lambda>privateKeyHex.
     transactPrivateKey W (req\<lparr>rt_web3SigningCredential := PrivateKeyHex account privateKeyHex,
       rt_consistencyStrategy := \<lparr>cs_receiptType = NodeTxPoolAck, cs_timeoutMs = Some 60000, cs_blockConfirmations = 0\<rparr>\<rparr>)
       privateKeyHex))"

definition transact :: "'x web3 \<Rightarrow> RunTransactionRequest \<Rightarrow> ('x, json) bact" where
  "transact W req = (case rt_web3SigningCredential req of
      CactusKeychainRef account key i \<Rightarrow> transactCactusKeychainRef W req account key i
    | PrivateKeyHex account secret \<Rightarrow> transactPrivateKey W req secret
    | NoCredential \<Rightarrow> if tc_rawTransaction (rt_transactionConfig req) \<notin> {None, Some ''''}
        then transactSigned W req
        else throwE (ErrorMsg ''PluginLedgerConnectorBesu#transact() Expected pre-signed raw transaction  since signing credential is specified asWeb3SigningCredentialType.NONE'')
    | OtherCredential s \<Rightarrow> throwE (ErrorMsg (''PluginLedgerConnectorBesu#transact() Unrecognized Web3SigningCredentialType: '' @ s
        @ '' Supported ones are: CACTUS_KEYCHAIN_REF;GETH_KEYCHAIN_PASSWORD;PRIVATE_KEY_HEX;NONE'')))"

section \<open>Deploying contracts\<close>

definition noConfig :: BesuTransactionConfig where
  "noConfig = \<lparr>tc_rawTransaction = None, tc_from = None, tc_to = None, tc_value = None, tc_gas = None,
     tc_gasPrice = None, tc_nonce = None, tc_data = None\<rparr>"

text \<open>The strategy of the transactions the connector makes up itself.\<close>

definition poolAck :: "int option \<Rightarrow> ConsistencyStrategy" where
  "poolAck timeoutMs = \<lparr>cs_receiptType = NodeTxPoolAck, cs_timeoutMs = Some (orNumber timeoutMs 60000), cs_blockConfirmations = 0\<rparr>"

text \<open>\<open>new this.web3.eth.Contract(abi, address)\<close>\<close>

definition newContractA :: "'x web3 \<Rightarrow> jsv \<Rightarrow> jsv \<Rightarrow> ('x, contract) bact" where
  "newContractA W abi address = (case abi of
      None \<Rightarrow> throwE LibraryError
    | Some a \<Rightarrow> if w3_validContract W a address then ret (a, address) else throwE LibraryError)"

definition rememberContract :: "string \<Rightarrow> contract \<Rightarrow> ('x, unit) bact" where
  "rememberContract name c = modifyA (\<lambda>w. w\<lparr>bw_contracts := (bw_contracts w)(name \<mapsto> c)\<rparr>)"

text \<open>
  The record of a deployment: the contract object of the name is kept, and the address is written to
  the keychain entry of the name.
\<close>

definition recordDeployment :: "'x web3 \<Rightarrow> string \<Rightarrow> string \<Rightarrow> int \<Rightarrow> jsv \<Rightarrow> ('x, unit) bact" where
  "recordDeployment W k name networkId contractAddress =
     bindA (keychainGetA k name) (\<lambda>contractStr.
     bindA (liftR (parseJ (Some (JStr contractStr)))) (\<lambda>contractJSON.
     bindA (propA ''abi'' (Some contractJSON)) (\<lambda>abi.
     bindA (newContractA W abi contractAddress) (\<lambda>contract.
     thenA (rememberContract name contract) (
     bindA (liftR (setNetworks networkId contractAddress contractJSON)) (\<lambda>contractJSON'.
     keychainSetA k name (stringify contractJSON')))))))"

text \<open>The end of \<open>deployContract\<close>, once the transaction has a receipt.\<close>

definition afterDeploy :: "'x web3 \<Rightarrow> string \<Rightarrow> string \<Rightarrow> int \<Rightarrow> json \<Rightarrow> ('x, json) bact" where
  "afterDeploy W k name networkId receipt =
     bindA (keychainHasA k name) (\<lambda>keychainHasContract.
     if \<not> keychainHasContract then throwE (HttpError 400 True)
     else bindA (propA ''status'' (Some receipt)) (\<lambda>status.
       bindA (propA ''contractAddress'' (Some receipt)) (\<lambda>contractAddress.
       if truthy status \<and> truthy contractAddress
       then thenA (recordDeployment W k name networkId contractAddress) (ret receipt)
       else ret receipt)))"

definition deployContract :: "'x web3 \<Rightarrow> DeployContractRequest \<Rightarrow> ('x, json) bact" where
  "deployContract W req =
     (if isWeb3SigningCredentialNone (dc_web3SigningCredential req) then throwE (HttpError 400 True)
      else if dc_keychainId req = '''' \<or> dc_contractName req = '''' then throwE (HttpError 400 True)
      else bindA (keychainFor (dc_keychainId req)) (\<lambda>k.
        thenA (keychainHasA k (dc_contractName req)) (
        bindA (web3A (w3_getId W)) (\<lambda>networkId.
        thenA (newContractA W (Some (dc_contractAbi req)) None) (
        case w3_encodeDeploy W (dc_contractAbi req) (dc_bytecode req) (dc_constructorArgs req) of
          None \<Rightarrow> throwE LibraryError
        | Some abi \<Rightarrow>
          let data = (if take 2 abi = ''0x'' then abi else ''0x'' @ abi) in
          bindA (transact W \<lparr>rt_web3SigningCredential = dc_web3SigningCredential req,
              rt_transactionConfig = noConfig\<lparr>tc_data := Some (JStr data), tc_from := ethAccount (dc_web3SigningCredential req),
                tc_gas := dc_gas req, tc_gasPrice := dc_gasPrice req\<rparr>,
              rt_consistencyStrategy = poolAck (dc_timeoutMs req),
              rt_privateTransactionConfig = dc_privateTransactionConfig req\<rparr>) (\<lambda>receipt.
          afterDeploy W k (dc_contractName req) networkId receipt))))))"

section \<open>Invoking contracts\<close>

text \<open>\<open>methods\<close> of a Web3 contract is an object, so the second check of the source always passes.\<close>

definition isSafeToCallContractMethod :: "'x web3 \<Rightarrow> contract option \<Rightarrow> string \<Rightarrow> ('x, contract \<times> bool) bact" where
  "isSafeToCallContractMethod W contract name = (case contract of
      None \<Rightarrow> throwE (falsyError ''PluginLedgerConnectorBesu#isSafeToCallContractMethod():contract'')
    | Some c \<Rightarrow> thenA (liftR (checkNonBlank name ''PluginLedgerConnectorBesu#isSafeToCallContractMethod():name''))
        (ret (c, name \<in> set (w3_methods W (fst c)))))"

definition invalidMethod :: "string \<Rightarrow> jsError" where
  "invalidMethod name = ErrorMsg (''Invalid method name provided in request. '' @ name
     @ '' does not exist on the Web3 contract object'' @ CHR 0x27 # ''s '' @ CHR 0x22 # ''methods'' @ CHR 0x22 # '' property.'')"

text \<open>\<open>methodRef(...req.params)\<close>: the data of the call, unless the library refuses the arguments\<close>

definition methodData :: "'x web3 \<Rightarrow> contract \<Rightarrow> string \<Rightarrow> json list \<Rightarrow> ('x, string) bact" where
  "methodData W c name params = (case w3_encodeABI W c name params of None \<Rightarrow> throwE LibraryError | Some d \<Rightarrow> ret d)"

text \<open>\<open>typeof contractAbi === "string" ? JSON.parse(contractAbi) : contractAbi\<close>\<close>

definition readAbi :: "json \<Rightarrow> json result" where
  "readAbi a = (case a of JStr s \<Rightarrow> parseJ (Some a) | _ \<Rightarrow> Inr a)"

text \<open>
  \<open>contractJSON.networks[networkId].address\<close> as the source tests it, part by part for \<open>undefined\<close>; and
  as it reads it afterwards.
\<close>

definition knownAddress :: "int \<Rightarrow> json \<Rightarrow> jsv result" where
  "knownAddress networkId j =
     bindR (jprop ''networks'' (Some j)) (\<lambda>ns.
     if ns = None then Inr None else bindR (jprop (intToString networkId) ns) (\<lambda>n.
     if n = None then Inr None else jprop ''address'' n))"

definition networkAddress :: "int \<Rightarrow> json \<Rightarrow> jsv result" where
  "networkAddress networkId j =
     bindR (jprop ''networks'' (Some j)) (\<lambda>ns. bindR (jprop (intToString networkId) ns) (jprop ''address''))"

text \<open>
  The contract of a keychain entry. \<open>has\<close> is called and its promise, which is truthy, is not awaited. An
  entry without an address for the network is deployed first and written back.
\<close>

definition deployFromKeychain :: "'x web3 \<Rightarrow> InvokeContractRequest \<Rightarrow> string \<Rightarrow> int \<Rightarrow> json \<Rightarrow> ('x, json) bact" where
  "deployFromKeychain W req k networkId contractJSON =
     (if isWeb3SigningCredentialNone (ic_signingCredential req)
      then throwE (ErrorMsg ''PluginLedgerConnectorBesu#invokeContract() Cannot deploy contract with pre-signed TX'')
      else bindA (propA ''bytecode'' (Some contractJSON)) (\<lambda>bytecode.
        bindA (transact W \<lparr>rt_web3SigningCredential = ic_signingCredential req,
            rt_transactionConfig = noConfig\<lparr>tc_data := Some (JStr (''0x'' @ jsTextV bytecode)),
              tc_from := ethAccount (ic_signingCredential req), tc_gas := ic_gas req, tc_gasPrice := ic_gasPrice req\<rparr>,
            rt_consistencyStrategy = poolAck (ic_timeoutMs req),
            rt_privateTransactionConfig = ic_privateTransactionConfig req\<rparr>) (\<lambda>receipt.
        bindA (propA ''contractAddress'' (Some receipt)) (\<lambda>address.
        bindA (liftR (setNetworks networkId address contractJSON)) (\<lambda>contractJSON'.
        thenA (keychainSetA k (ic_contractName req) (stringify contractJSON')) (ret contractJSON'))))))"

definition loadFromKeychain :: "'x web3 \<Rightarrow> InvokeContractRequest \<Rightarrow> string \<Rightarrow> ('x, unit) bact" where
  "loadFromKeychain W req keychainId =
     bindA (web3A (w3_getId W)) (\<lambda>networkId.
     bindA (keychainFor keychainId) (\<lambda>k.
     thenA (keychainHasA k (ic_contractName req)) (
     bindA (keychainGetA k (ic_contractName req)) (\<lambda>contractStr.
     bindA (liftR (parseJ (Some (JStr contractStr)))) (\<lambda>contractJSON.
     bindA (liftR (knownAddress networkId contractJSON)) (\<lambda>known.
     bindA (if known = None then deployFromKeychain W req k networkId contractJSON else ret contractJSON) (\<lambda>contractJSON'.
     bindA (propA ''abi'' (Some contractJSON')) (\<lambda>abi.
     bindA (liftR (networkAddress networkId contractJSON')) (\<lambda>address.
     bindA (newContractA W abi address) (\<lambda>contract.
     rememberContract (ic_contractName req) contract))))))))))"

definition contractInstance :: "'x web3 \<Rightarrow> InvokeContractRequest \<Rightarrow> ('x, contract option) bact" where
  "contractInstance W req =
     thenA (case ic_keychainId req of
         Some i \<Rightarrow> loadFromKeychain W req i
       | None \<Rightarrow> ensure (\<not> isNullish (ic_contractAbi req) \<or> \<not> isNullish (ic_contractAddress req))
           (ErrorMsg ''PluginLedgerConnectorBesu#invokeContract() Cannot invoke a contract without contract instance, the keychainId param is needed'')) (
     if isNullish (ic_contractAbi req) then getsA (\<lambda>w. bw_contracts w (ic_contractName req))
     else bindA (liftR (readAbi (the (ic_contractAbi req)))) (\<lambda>abi.
       bindA (newContractA W (Some abi) (ic_contractAddress req)) (\<lambda>c. ret (Some c))))"

text \<open>A call of a private transaction; the key of a keychain reference is read from its keychain.\<close>

definition callPrivate :: "'x web3 \<Rightarrow> InvokeContractRequest \<Rightarrow> contract \<Rightarrow> string \<Rightarrow> BesuPrivateTransactionConfig \<Rightarrow> ('x, jsv) bact" where
  "callPrivate W req c data pc =
     bindA (case ic_signingCredential req of
         CactusKeychainRef account key i \<Rightarrow>
           bindA (keychainFor i) (\<lambda>k. bindA (keychainGetA k key) (\<lambda>s. ret (Some (JStr s))))
       | PrivateKeyHex account secret \<Rightarrow> ret (Some (JStr secret))
       | _ \<Rightarrow> ret None) (\<lambda>privKey.
     let fnParams = JObj (optFields [(''to'', snd c), (''data'', Some (JStr data)), (''privateFrom'', Some (JStr (pc_privateFrom pc))),
           (''privateKey'', privKey), (''privateFor'', Some (JArr (pc_privateFor pc)))]) in
     bindA (getsA bw_quorum) (\<lambda>q.
     if \<not> q then throwE (ErrorMsg ''InvalidState: web3Quorum not initialized.'')
     else web3A (w3_privCall W fnParams (JObj (optFields [(''to'', snd c), (''data'', Some (JStr data))])))))"

definition sendMethod :: "'x web3 \<Rightarrow> InvokeContractRequest \<Rightarrow> contract \<Rightarrow> string \<Rightarrow> ('x, json) bact" where
  "sendMethod W req c data =
     (if isWeb3SigningCredentialNone (ic_signingCredential req)
      then throwE (ErrorMsg ''PluginLedgerConnectorBesu#invokeContract() Cannot deploy contract with pre-signed TX'')
      else let tc = noConfig\<lparr>tc_to := snd c, tc_data := Some (JStr data)\<rparr> in
      bindA (if isNullish (ic_gas req) then bindA (web3A (w3_estimateGas W tc)) (\<lambda>g. ret (Some g)) else ret (ic_gas req)) (\<lambda>gas.
      transact W \<lparr>rt_web3SigningCredential = ic_signingCredential req,
        rt_transactionConfig = tc\<lparr>tc_from := ethAccount (ic_signingCredential req), tc_gas := gas,
          tc_gasPrice := ic_gasPrice req, tc_value := ic_value req, tc_nonce := ic_nonce req\<rparr>,
        rt_consistencyStrategy = poolAck (ic_timeoutMs req),
        rt_privateTransactionConfig = ic_privateTransactionConfig req\<rparr>))"

definition invokeContract :: "'x web3 \<Rightarrow> InvokeContractRequest \<Rightarrow> ('x, json) bact" where
  "invokeContract W req =
     bindA (contractInstance W req) (\<lambda>instance.
     bindA (isSafeToCallContractMethod W instance (ic_methodName req)) (\<lambda>(c, isSafeToCall).
     if \<not> isSafeToCall then throwE (invalidMethod (ic_methodName req))
     else bindA (methodData W c (ic_methodName req) (ic_params req)) (\<lambda>data.
       case ic_invocationType req of
         CallInvocation \<Rightarrow>
           bindA (case ic_privateTransactionConfig req of
               Some pc \<Rightarrow> callPrivate W req c data pc
             | None \<Rightarrow> web3A (w3_call W c (ic_methodName req) (ic_params req))) (\<lambda>callOutput.
           ret (JObj (optFields [(''success'', Some (JBool True)), (''callOutput'', callOutput)])))
       | SendInvocation \<Rightarrow>
           bindA (sendMethod W req c data) (\<lambda>receipt.
           bindA (propA ''status'' (Some receipt)) (\<lambda>success.
           ret (JObj (optFields [(''success'', success), (''out'', Some (JObj [(''transactionReceipt'', receipt)]))]))))
       | OtherInvocation s \<Rightarrow>
           throwE (ErrorMsg (''PluginLedgerConnectorBesu#invokeContract() Unsupported invocation type '' @ s)))))"

section \<open>Queries\<close>

definition signTransaction ::
  "'x web3 \<Rightarrow> crypto \<Rightarrow> (string \<Rightarrow> byte list option) \<Rightarrow> SignTransactionRequest \<Rightarrow> ('x, string option) bact" where
  "signTransaction W C privateKeyAs req =
     bindA (web3A (w3_getTransaction W (st_transactionHash req))) (\<lambda>transaction.
     if \<not> truthy transaction then ret None
     else bindA (keychainFor (st_keychainId req)) (\<lambda>k.
       bindA (keychainGetA k (st_keychainRef req)) (\<lambda>pem.
       case privateKeyAs pem of
         None \<Rightarrow> throwE LibraryError
       | Some pkRaw \<Rightarrow> bindA (propA ''input'' transaction) (\<lambda>input.
           case newJsObjectSigner (KeyBytes pkRaw) None None None of
             None \<Rightarrow> throwE LibraryError
           | Some sg \<Rightarrow> (case input of
               None \<Rightarrow> throwE TypeError
             | Some j \<Rightarrow> (case signMsg C sg j of
                 None \<Rightarrow> throwE LibraryError
               | Some sig \<Rightarrow> ret (Some (bufArray2HexStr sig))))))))"

definition getBalance :: "'x web3 \<Rightarrow> string \<Rightarrow> jsv \<Rightarrow> ('x, json) bact" where
  "getBalance W address defaultBlock =
     bindA (web3A (w3_getBalance W address defaultBlock)) (\<lambda>b. ret (JObj [(''balance'', b)]))"

definition getTransaction :: "'x web3 \<Rightarrow> string \<Rightarrow> ('x, json) bact" where
  "getTransaction W h = bindA (web3A (w3_getTransaction W h)) (\<lambda>t. ret (JObj (optFields [(''transaction'', t)])))"

definition getPastLogs :: "'x web3 \<Rightarrow> json \<Rightarrow> ('x, json) bact" where
  "getPastLogs W req = bindA (web3A (w3_getPastLogs W req)) (\<lambda>logs. ret (JObj [(''logs'', logs)]))"

definition isBlockNumber :: "jsv \<Rightarrow> bool" where
  "isBlockNumber v = (case v of Some (JStr s) \<Rightarrow> True | Some (JNum n) \<Rightarrow> True | _ \<Rightarrow> False)"

definition getBlockV1Impl :: "'x web3 \<Rightarrow> jsv \<Rightarrow> ('x, jsv) bact" where
  "getBlockV1Impl W b =
     (if isBlockNumber b then web3A (w3_getBlock W (the b))
      else throwE (ErrorMsg (''Input was not a block number: '' @ jsTextV b)))"

definition getBlock :: "'x web3 \<Rightarrow> jsv \<Rightarrow> ('x, json) bact" where
  "getBlock W b = bindA (getBlockV1Impl W b) (\<lambda>block. ret (JObj (optFields [(''block'', block)])))"

definition recordOfCall :: "'x web3 \<Rightarrow> InvokeContractRequest \<Rightarrow> ('x, json) bact" where
  "recordOfCall W req =
     bindA (if truthy (ic_contractAbi req) then liftR (readAbi (the (ic_contractAbi req))) else ret (JArr [])) (\<lambda>abi.
     bindA (newContractA W (Some abi) (ic_contractAddress req)) (\<lambda>instance.
     bindA (isSafeToCallContractMethod W (Some instance) (ic_methodName req)) (\<lambda>(c, isSafeToCall).
     if \<not> isSafeToCall then throwE (invalidMethod (ic_methodName req))
     else thenA (methodData W c (ic_methodName req) (ic_params req)) (
       if ic_invocationType req = CallInvocation
       then bindA (web3A (w3_call W c (ic_methodName req) (ic_params req))) (\<lambda>callOutput.
         ret (JObj (optFields [(''callOutput'', callOutput)])))
       else throwE (ErrorMsg (''PluginLedgerConnectorBesu#getBesuRecord() Unsupported invocation type ''
         @ (case ic_invocationType req of SendInvocation \<Rightarrow> ''SEND'' | OtherInvocation s \<Rightarrow> s | CallInvocation \<Rightarrow> ''CALL'')))))))"

definition getBesuRecord :: "'x web3 \<Rightarrow> GetBesuRecordRequest \<Rightarrow> ('x, json) bact" where
  "getBesuRecord W req =
     bindA (case gr_transactionHash req of
         Some h \<Rightarrow> if h \<noteq> '''' then
             bindA (web3A (w3_getTransaction W h)) (\<lambda>transaction.
             bindA (propA ''input'' transaction) (\<lambda>input. ret (if truthy input then input else None)))
           else ret None
       | None \<Rightarrow> ret None) (\<lambda>input.
     if input \<noteq> None then ret (JObj (optFields [(''transactionInputData'', input)]))
     else (case gr_invokeCall req of
         Some call \<Rightarrow> recordOfCall W call
       | None \<Rightarrow> ret (JObj [])))"

section \<open>Endpoints\<close>

definition deployContractEndpoint where
  "deployContractEndpoint W req w = (case deployContract W req w of (r, w') \<Rightarrow> (endpointStatus r, w'))"

definition invokeContractEndpoint where
  "invokeContractEndpoint W req w = (case invokeContract W req w of (r, w') \<Rightarrow> (answer500 r, w'))"

definition runTransactionEndpoint where
  "runTransactionEndpoint W req w = (case transact W req w of (r, w') \<Rightarrow> (answer500 r, w'))"

definition signTransactionEndpoint where
  "signTransactionEndpoint W C conv req w = (case signTransaction W C conv req w of
      (Returns (Some s), w') \<Rightarrow> (Some 200, w')
    | (Returns None, w') \<Rightarrow> (Some 404, w')
    | (Throws e, w') \<Rightarrow> (Some (500 :: int), w')
    | (Pending, w') \<Rightarrow> (None, w'))"

definition getBesuRecordEndpoint where
  "getBesuRecordEndpoint W req w = (case getBesuRecord W req w of (r, w') \<Rightarrow> (answer500 r, w'))"

definition getBalanceEndpoint where
  "getBalanceEndpoint W a b w = (case getBalance W a b w of (r, w') \<Rightarrow> (answer500 r, w'))"

definition getTransactionEndpoint where
  "getTransactionEndpoint W h w = (case getTransaction W h w of (r, w') \<Rightarrow> (answer500 r, w'))"

definition getPastLogsEndpoint where
  "getPastLogsEndpoint W req w = (case getPastLogs W req w of (r, w') \<Rightarrow> (answer500 r, w'))"

definition getBlockEndpoint where
  "getBlockEndpoint W b w = (case getBlock W b w of (r, w') \<Rightarrow> (answer500 r, w'))"

end
