(* ===== verification/HTLC_Plugin.thy ===== *)
theory HTLC_Plugin
  imports Besu_Connector
begin

text \<open>
  The two time lock plugins, for Ether (\<open>plugin-htlc-eth-besu.ts\<close>) and for tokens
  (\<open>plugin-htlc-eth-besu-erc20.ts\<close>), with their endpoints. The plugins have no state of their own: they find the
  Besu connector in the registry and run its operations. The interface and the code of the compiled
  contract, which come with the package as a JSON artifact, are a parameter.
\<close>

section \<open>Requests\<close>

record InitializeRequest =
  ir_connectorId :: string
  ir_keychainId :: string
  ir_constructorArgs :: "json list"
  ir_web3SigningCredential :: Web3SigningCredential
  ir_gas :: jsv

record NewContractObj =
  nc_contractAddress :: string
  nc_inputAmount :: jsv
  nc_outputAmount :: json
  nc_expiration :: json
  nc_hashLock :: string
  nc_receiver :: jsv
  nc_outputNetwork :: string
  nc_outputAddress :: string
  nc_connectorId :: string
  nc_web3SigningCredential :: Web3SigningCredential
  nc_keychainId :: string
  nc_gas :: jsv

record NewTokenContractRequest = NewContractObj +
  nc_tokenAddress :: string

record WithdrawReq =
  wr_id :: string
  wr_secret :: string
  wr_web3SigningCredential :: Web3SigningCredential
  wr_connectorId :: string
  wr_keychainId :: string
  wr_gas :: jsv

record RefundReq =
  rr_id :: string
  rr_web3SigningCredential :: Web3SigningCredential
  rr_connectorId :: string
  rr_keychainId :: string
  rr_gas :: jsv

record GetStatusRequest =
  gs_ids :: "string list"
  gs_web3SigningCredential :: Web3SigningCredential
  gs_connectorId :: string
  gs_keychainId :: string

record GetSingleStatusRequest =
  ss_id :: string
  ss_web3SigningCredential :: Web3SigningCredential
  ss_connectorId :: string
  ss_keychainId :: string

record artifact =
  art_abi :: json
  art_bytecode :: string

section \<open>The connector\<close>

text \<open>
  \<open>pluginRegistry.plugins.find(plugin => plugin.getInstanceId() == id) as PluginLedgerConnectorBesu\<close>:
  nothing found, and a plugin without the operations of the connector, are a type error when the
  operation is called. The registry refuses a second plugin of a package, so there is one connector.
\<close>

definition besuPackage :: string where
  "besuPackage = ''@hyperledger/cactus-plugin-ledger-connector-besu''"

definition withConnector :: "string \<Rightarrow> ('x, 'a) bact \<Rightarrow> ('x, 'a) bact" where
  "withConnector i m = (\<lambda>w. case find (\<lambda>p. pl_instanceId p = i) (cw_registry w) of
      None \<Rightarrow> (Throws TypeError, w)
    | Some p \<Rightarrow> if pl_packageName p = besuPackage then m w else (Throws TypeError, w))"

definition estimatedGas :: json where
  "estimatedGas = JNum 6721975"

text \<open>\<open>x || this.estimatedGas\<close>\<close>

definition orGas :: "jsv \<Rightarrow> jsv" where
  "orGas g = (if truthy g then g else Some estimatedGas)"

definition jsOrNull :: "jsv \<Rightarrow> json" where
  "jsOrNull v = (case v of None \<Rightarrow> JNull | Some j \<Rightarrow> j)"

text \<open>The names of the compiled contracts.\<close>

definition etherContractName :: string where
  "etherContractName = ''HashTimeLock''"

definition tokenContractName :: string where
  "tokenContractName = ''HashedTimeLockContract''"

section \<open>Calls of the contract\<close>

text \<open>The request of a \<open>Send\<close> and of a \<open>Call\<close> with the properties the plugins leave out.\<close>

definition contractCall ::
  "string \<Rightarrow> Web3SigningCredential \<Rightarrow> EthContractInvocationType \<Rightarrow> string \<Rightarrow> json list \<Rightarrow> jsv \<Rightarrow> string \<Rightarrow> InvokeContractRequest" where
  "contractCall name credential ty methodName params gas keychainId = \<lparr>ic_contractName = name,
     ic_signingCredential = credential, ic_invocationType = ty, ic_methodName = methodName, ic_params = params,
     ic_contractAbi = None, ic_contractAddress = None, ic_value = None, ic_gas = gas, ic_gasPrice = None, ic_nonce = None,
     ic_timeoutMs = None, ic_keychainId = Some keychainId, ic_privateTransactionConfig = None\<rparr>"

definition newContractCall :: "NewContractObj \<Rightarrow> InvokeContractRequest" where
  "newContractCall r = (contractCall etherContractName (nc_web3SigningCredential r) SendInvocation ''newContract''
     [nc_outputAmount r, nc_expiration r, JStr (nc_hashLock r), jsOrNull (nc_receiver r), JStr (nc_outputNetwork r),
      JStr (nc_outputAddress r)] (orGas (nc_gas r)) (nc_keychainId r))
     \<lparr>ic_contractAddress := Some (JStr (nc_contractAddress r)), ic_value := nc_inputAmount r\<rparr>"

definition newTokenContractCall :: "NewTokenContractRequest \<Rightarrow> InvokeContractRequest" where
  "newTokenContractCall r = (contractCall tokenContractName (nc_web3SigningCredential r) SendInvocation ''newContract''
     [jsOrNull (nc_inputAmount r), nc_outputAmount r, nc_expiration r, JStr (nc_hashLock r), JStr (nc_tokenAddress r),
      jsOrNull (nc_receiver r), JStr (nc_outputNetwork r), JStr (nc_outputAddress r)] (orGas (nc_gas r)) (nc_keychainId r))
     \<lparr>ic_contractAddress := Some (JStr (nc_contractAddress r))\<rparr>"

definition withdrawCall :: "string \<Rightarrow> WithdrawReq \<Rightarrow> InvokeContractRequest" where
  "withdrawCall name r = contractCall name (wr_web3SigningCredential r) SendInvocation ''withdraw''
     [JStr (wr_id r), JStr (wr_secret r)] (orGas (wr_gas r)) (wr_keychainId r)"

definition refundCall :: "string \<Rightarrow> RefundReq \<Rightarrow> InvokeContractRequest" where
  "refundCall name r = contractCall name (rr_web3SigningCredential r) SendInvocation ''refund''
     [JStr (rr_id r)] (orGas (rr_gas r)) (rr_keychainId r)"

definition getStatusCall :: "string \<Rightarrow> GetStatusRequest \<Rightarrow> InvokeContractRequest" where
  "getStatusCall name r = contractCall name (gs_web3SigningCredential r) CallInvocation ''getStatus''
     [JArr (map JStr (gs_ids r))] None (gs_keychainId r)"

definition getSingleStatusCall :: "string \<Rightarrow> GetSingleStatusRequest \<Rightarrow> InvokeContractRequest" where
  "getSingleStatusCall name r = contractCall name (ss_web3SigningCredential r) CallInvocation ''getSingleStatus''
     [JStr (ss_id r)] None (ss_keychainId r)"

definition initializeCall :: "string \<Rightarrow> artifact \<Rightarrow> InitializeRequest \<Rightarrow> DeployContractRequest" where
  "initializeCall name art r = \<lparr>dc_contractName = name, dc_contractAbi = art_abi art,
     dc_constructorArgs = ir_constructorArgs r, dc_web3SigningCredential = ir_web3SigningCredential r,
     dc_bytecode = art_bytecode art, dc_keychainId = ir_keychainId r, dc_gas = orGas (ir_gas r), dc_gasPrice = None,
     dc_timeoutMs = None, dc_privateTransactionConfig = None\<rparr>"

section \<open>PluginHtlcEthBesu\<close>

definition etherInitialize :: "'x web3 \<Rightarrow> artifact \<Rightarrow> InitializeRequest \<Rightarrow> ('x, json) bact" where
  "etherInitialize W art r = withConnector (ir_connectorId r) (deployContract W (initializeCall etherContractName art r))"

definition etherNewContract :: "'x web3 \<Rightarrow> NewContractObj \<Rightarrow> ('x, json) bact" where
  "etherNewContract W r = withConnector (nc_connectorId r) (invokeContract W (newContractCall r))"

definition etherGetSingleStatus :: "'x web3 \<Rightarrow> GetSingleStatusRequest \<Rightarrow> ('x, json) bact" where
  "etherGetSingleStatus W r = withConnector (ss_connectorId r) (invokeContract W (getSingleStatusCall etherContractName r))"

definition etherGetStatus :: "'x web3 \<Rightarrow> GetStatusRequest \<Rightarrow> ('x, json) bact" where
  "etherGetStatus W r = withConnector (gs_connectorId r) (invokeContract W (getStatusCall etherContractName r))"

definition etherRefund :: "'x web3 \<Rightarrow> RefundReq \<Rightarrow> ('x, json) bact" where
  "etherRefund W r = withConnector (rr_connectorId r) (invokeContract W (refundCall etherContractName r))"

definition etherWithdraw :: "'x web3 \<Rightarrow> WithdrawReq \<Rightarrow> ('x, json) bact" where
  "etherWithdraw W r = withConnector (wr_connectorId r) (invokeContract W (withdrawCall etherContractName r))"

text \<open>
  The endpoints. \<open>result.transactionReceipt?.status === false\<close> answers 400; the result of a deployment is
  its receipt here.
\<close>

definition failedReceipt :: "jsv \<Rightarrow> bool" where
  "failedReceipt receipt \<longleftrightarrow> (\<exists>fs \<in> set_option receipt. jget ''status'' fs = Some (JBool False))"

definition sendAnswer :: "(jsError, json) outcome \<Rightarrow> int option" where
  "sendAnswer r = (case r of
      Returns result \<Rightarrow> Some (if failedReceipt (jget ''transactionReceipt'' result) then 400 else 200)
    | Throws e \<Rightarrow> Some 500 | Pending \<Rightarrow> None)"

definition callAnswer :: "(jsError, json) outcome \<Rightarrow> int option" where
  "callAnswer r = (case r of
      Returns result \<Rightarrow> Some (if jprop ''callOutput'' (Some result) = Inr None then 400 else 200)
    | Throws e \<Rightarrow> Some 500 | Pending \<Rightarrow> None)"

definition etherInitializeEndpoint where
  "etherInitializeEndpoint W art req w = (case etherInitialize W art req w of (r, w') \<Rightarrow>
     (case r of Returns receipt \<Rightarrow> Some (if failedReceipt (Some receipt) then 400 else 200 :: int)
       | Throws e \<Rightarrow> Some 500 | Pending \<Rightarrow> None, w'))"

definition etherNewContractEndpoint where
  "etherNewContractEndpoint W req w = (case etherNewContract W req w of (r, w') \<Rightarrow> (sendAnswer r, w'))"

definition etherRefundEndpoint where
  "etherRefundEndpoint W req w = (case etherRefund W req w of (r, w') \<Rightarrow> (sendAnswer r, w'))"

definition etherWithdrawEndpoint where
  "etherWithdrawEndpoint W req w = (case etherWithdraw W req w of (r, w') \<Rightarrow> (sendAnswer r, w'))"

definition etherGetStatusEndpoint where
  "etherGetStatusEndpoint W req w = (case etherGetStatus W req w of (r, w') \<Rightarrow> (callAnswer r, w'))"

definition etherGetSingleStatusEndpoint where
  "etherGetSingleStatusEndpoint W req w = (case etherGetSingleStatus W req w of (r, w') \<Rightarrow> (callAnswer r, w'))"

section \<open>PluginHtlcEthBesuErc20\<close>

definition tokenInitialize :: "'x web3 \<Rightarrow> artifact \<Rightarrow> InitializeRequest \<Rightarrow> ('x, json) bact" where
  "tokenInitialize W art r = withConnector (ir_connectorId r) (deployContract W (initializeCall tokenContractName art r))"

definition tokenNewSwap :: "'x web3 \<Rightarrow> NewTokenContractRequest \<Rightarrow> ('x, json) bact" where
  "tokenNewSwap W r = withConnector (nc_connectorId r) (invokeContract W (newTokenContractCall r))"

definition tokenRefundSwap :: "'x web3 \<Rightarrow> RefundReq \<Rightarrow> ('x, json) bact" where
  "tokenRefundSwap W r = withConnector (rr_connectorId r) (invokeContract W (refundCall tokenContractName r))"

definition tokenWithdrawSwap :: "'x web3 \<Rightarrow> WithdrawReq \<Rightarrow> ('x, json) bact" where
  "tokenWithdrawSwap W r = withConnector (wr_connectorId r) (invokeContract W (withdrawCall tokenContractName r))"

definition tokenGetSingleStatus :: "'x web3 \<Rightarrow> GetSingleStatusRequest \<Rightarrow> ('x, json) bact" where
  "tokenGetSingleStatus W r = withConnector (ss_connectorId r) (invokeContract W (getSingleStatusCall tokenContractName r))"

definition tokenGetStatus :: "'x web3 \<Rightarrow> GetStatusRequest \<Rightarrow> ('x, json) bact" where
  "tokenGetStatus W r = withConnector (gs_connectorId r) (invokeContract W (getStatusCall tokenContractName r))"

text \<open>Every endpoint of the token plugin answers 400 to an error and 200 to anything else.\<close>

definition answer400 :: "(jsError, json) outcome \<Rightarrow> int option" where
  "answer400 r = (case r of Returns _ \<Rightarrow> Some 200 | Throws _ \<Rightarrow> Some 400 | Pending \<Rightarrow> None)"

definition tokenInitializeEndpoint where
  "tokenInitializeEndpoint W art req w = (case tokenInitialize W art req w of (r, w') \<Rightarrow> (answer400 r, w'))"

definition tokenNewContractEndpoint where
  "tokenNewContractEndpoint W req w = (case tokenNewSwap W req w of (r, w') \<Rightarrow> (answer400 r, w'))"

definition tokenRefundEndpoint where
  "tokenRefundEndpoint W req w = (case tokenRefundSwap W req w of (r, w') \<Rightarrow> (answer400 r, w'))"

definition tokenWithdrawEndpoint where
  "tokenWithdrawEndpoint W req w = (case tokenWithdrawSwap W req w of (r, w') \<Rightarrow> (answer400 r, w'))"

definition tokenGetStatusEndpoint where
  "tokenGetStatusEndpoint W req w = (case tokenGetStatus W req w of (r, w') \<Rightarrow> (answer400 r, w'))"

definition tokenGetSingleStatusEndpoint where
  "tokenGetSingleStatusEndpoint W req w = (case tokenGetSingleStatus W req w of (r, w') \<Rightarrow> (answer400 r, w'))"

end
