(* ===== verification/HTLC_Coordinator.thy ===== *)
theory HTLC_Coordinator
  imports HTLC_Plugin
begin

text \<open>
  The coordinator of hash time locks (\<open>plugin-htlc-coordinator-besu.ts\<close>) with its endpoints. A token
  swap runs on the token plugin the registry has, an Ether swap on a plugin created for the request.
  The cases of a \<open>switch\<close> that do not return fall through to the next one, as in the source.
\<close>

section \<open>Requests\<close>

datatype HtlcPackage = Besu | BesuErc20 | OtherPackage string

definition packageText :: "HtlcPackage \<Rightarrow> string" where
  "packageText p = (case p of Besu \<Rightarrow> ''BESU'' | BesuErc20 \<Rightarrow> ''BESU_ERC20'' | OtherPackage s \<Rightarrow> s)"

record OwnHTLCRequest =
  ow_htlcPackage :: HtlcPackage
  ow_connectorInstanceId :: string
  ow_keychainId :: string
  ow_constructorArgs :: "json list"
  ow_web3SigningCredential :: Web3SigningCredential
  ow_inputAmount :: json
  ow_outputAmount :: json
  ow_expiration :: json
  ow_hashLock :: string
  ow_tokenAddress :: string
  ow_receiver :: string
  ow_outputNetwork :: string
  ow_outputAddress :: string
  ow_gas :: jsv

record CounterpartyHTLCRequest =
  cp_htlcPackage :: HtlcPackage
  cp_connectorInstanceId :: string
  cp_keychainId :: string
  cp_htlcId :: string
  cp_web3SigningCredential :: Web3SigningCredential

record WithdrawCounterpartyRequest =
  wc_htlcPackage :: HtlcPackage
  wc_connectorInstanceId :: string
  wc_keychainId :: string
  wc_web3SigningCredential :: Web3SigningCredential
  wc_htlcId :: string
  wc_secret :: string

section \<open>Finding the plugins\<close>

text \<open>
  \<open>pluginRegistry.plugins.find(plugin => plugin.getPackageName() == ...)\<close>; without the plugin the call
  of its operation is a type error.
\<close>

definition erc20Package :: string where
  "erc20Package = ''@hyperledger/cactus-plugin-htlc-eth-besu-erc20''"

definition coordinatorPackage :: string where
  "coordinatorPackage = ''@hyperledger/cactus-plugin-htlc-coordinator-besu''"

definition withPackage :: "string \<Rightarrow> ('x, 'a) bact \<Rightarrow> ('x, 'a) bact" where
  "withPackage n m = (\<lambda>w. if findOneByPackageName n (cw_registry w) = None then (Throws TypeError, w) else m w)"

text \<open>\<open>factoryHTLC.create({ instanceId: uuidv4(), pluginRegistry })\<close>\<close>

definition newPluginHtlcEthBesu :: "string \<Rightarrow> unit result" where
  "newPluginHtlcEthBesu instanceId =
     (if instanceId = '''' then Inl (falsyError ''PluginHtlcEthBesu#constructor() opts.instanceId'')
      else checkNonBlank instanceId ''PluginHtlcEthBesu#constructor() opts.instanceId'')"

definition withEtherPlugin :: "string \<Rightarrow> ('x, 'a) bact \<Rightarrow> ('x, 'a) bact" where
  "withEtherPlugin uuid m = thenA (liftR (newPluginHtlcEthBesu uuid)) m"

text \<open>\<open>x == true\<close>\<close>

definition looseTrue :: "jsv \<Rightarrow> bool" where
  "looseTrue v \<longleftrightarrow> jsNumber v = Some 1"

text \<open>\<open>res.transactionReceipt?.status == true && res.transactionReceipt?.contractAddress != undefined\<close>\<close>

definition deployedAt :: "json \<Rightarrow> jsv" where
  "deployedAt receipt =
     (if looseTrue (jget ''status'' receipt) \<and> \<not> isNullish (jget ''contractAddress'' receipt)
      then jget ''contractAddress'' receipt else None)"

definition unrecognizedPackage :: "string \<Rightarrow> HtlcPackage \<Rightarrow> jsError" where
  "unrecognizedPackage fn p = ErrorMsg (''PluginHTLCCoordinatorBesu#'' @ fn @ ''() Unrecognized HTLC Package: ''
     @ packageText p @ '' Supported ones are: BESU;BESU_ERC20'')"

section \<open>Operations\<close>

definition ownInitialize :: "OwnHTLCRequest \<Rightarrow> InitializeRequest" where
  "ownInitialize r = \<lparr>ir_connectorId = ow_connectorInstanceId r, ir_keychainId = ow_keychainId r,
     ir_constructorArgs = ow_constructorArgs r, ir_web3SigningCredential = ow_web3SigningCredential r, ir_gas = ow_gas r\<rparr>"

definition ownNewContract :: "OwnHTLCRequest \<Rightarrow> json \<Rightarrow> NewContractObj" where
  "ownNewContract r address = \<lparr>nc_contractAddress = jsText address, nc_inputAmount = Some (ow_inputAmount r),
     nc_outputAmount = ow_outputAmount r, nc_expiration = ow_expiration r, nc_hashLock = ow_hashLock r,
     nc_receiver = Some (JStr (ow_receiver r)), nc_outputNetwork = ow_outputNetwork r,
     nc_outputAddress = ow_outputAddress r, nc_connectorId = ow_connectorInstanceId r,
     nc_web3SigningCredential = ow_web3SigningCredential r, nc_keychainId = ow_keychainId r, nc_gas = ow_gas r\<rparr>"

definition ownNewTokenContract :: "OwnHTLCRequest \<Rightarrow> json \<Rightarrow> NewTokenContractRequest" where
  "ownNewTokenContract r address = NewContractObj.extend (ownNewContract r address) \<lparr>nc_tokenAddress = ow_tokenAddress r\<rparr>"

text \<open>\<open>connector.getInstanceId()\<close>, when the request is put together\<close>

definition connectorNamed :: "string \<Rightarrow> ('x, unit) bact" where
  "connectorNamed i = (\<lambda>w. if find (\<lambda>p. pl_instanceId p = i) (cw_registry w) = None then (Throws TypeError, w) else (Returns (), w))"

definition ownHTLCBesu :: "'x web3 \<Rightarrow> artifact \<Rightarrow> string \<Rightarrow> OwnHTLCRequest \<Rightarrow> ('x, json) bact" where
  "ownHTLCBesu W art uuid r =
     withEtherPlugin uuid (
     thenA (connectorNamed (ow_connectorInstanceId r)) (
     bindA (etherInitialize W art (ownInitialize r)) (\<lambda>receipt.
     case deployedAt receipt of
       Some address \<Rightarrow> etherNewContract W (ownNewContract r address)
     | None \<Rightarrow> throwE (unrecognizedPackage ''ownHTLC'' (ow_htlcPackage r)))))"

definition ownHTLCErc20 :: "'x web3 \<Rightarrow> artifact \<Rightarrow> artifact \<Rightarrow> string \<Rightarrow> OwnHTLCRequest \<Rightarrow> ('x, json) bact" where
  "ownHTLCErc20 W art tokenArt uuid r =
     thenA (connectorNamed (ow_connectorInstanceId r)) (
     bindA (withPackage erc20Package (tokenInitialize W tokenArt (ownInitialize r))) (\<lambda>receipt.
     case deployedAt receipt of
       Some address \<Rightarrow> tokenNewSwap W (ownNewTokenContract r address)
     | None \<Rightarrow> ownHTLCBesu W art uuid r))"

definition ownHTLC :: "'x web3 \<Rightarrow> artifact \<Rightarrow> artifact \<Rightarrow> string \<Rightarrow> OwnHTLCRequest \<Rightarrow> ('x, json) bact" where
  "ownHTLC W art tokenArt uuid r = (case ow_htlcPackage r of
      BesuErc20 \<Rightarrow> ownHTLCErc20 W art tokenArt uuid r
    | Besu \<Rightarrow> ownHTLCBesu W art uuid r
    | OtherPackage s \<Rightarrow> throwE (unrecognizedPackage ''ownHTLC'' (ow_htlcPackage r)))"

definition counterpartyStatus :: "CounterpartyHTLCRequest \<Rightarrow> GetSingleStatusRequest" where
  "counterpartyStatus r = \<lparr>ss_id = cp_htlcId r, ss_web3SigningCredential = cp_web3SigningCredential r,
     ss_connectorId = cp_connectorInstanceId r, ss_keychainId = cp_keychainId r\<rparr>"

definition counterpartyHTLC :: "'x web3 \<Rightarrow> string \<Rightarrow> CounterpartyHTLCRequest \<Rightarrow> ('x, json) bact" where
  "counterpartyHTLC W uuid r = (case cp_htlcPackage r of
      BesuErc20 \<Rightarrow> withPackage erc20Package (tokenGetSingleStatus W (counterpartyStatus r))
    | Besu \<Rightarrow> withEtherPlugin uuid (etherGetSingleStatus W (counterpartyStatus r))
    | OtherPackage s \<Rightarrow> throwE (unrecognizedPackage ''counterpartyHTLC'' (cp_htlcPackage r)))"

definition counterpartyWithdraw :: "WithdrawCounterpartyRequest \<Rightarrow> WithdrawReq" where
  "counterpartyWithdraw r = \<lparr>wr_id = wc_htlcId r, wr_secret = wc_secret r, wr_web3SigningCredential = wc_web3SigningCredential r,
     wr_connectorId = wc_connectorInstanceId r, wr_keychainId = wc_keychainId r, wr_gas = None\<rparr>"

text \<open>An exception of the token plugin, whatever it is, becomes \<open>WithdrawCounterpartyTxReverted\<close>.\<close>

definition txReverted :: jsError where
  "txReverted = ErrorMsg ''EVM tx reverted:''"

definition withdrawCounterparty :: "'x web3 \<Rightarrow> string \<Rightarrow> WithdrawCounterpartyRequest \<Rightarrow> ('x, json) bact" where
  "withdrawCounterparty W uuid r = (case wc_htlcPackage r of
      BesuErc20 \<Rightarrow> rethrowAs txReverted (withPackage erc20Package (tokenWithdrawSwap W (counterpartyWithdraw r)))
    | Besu \<Rightarrow> withEtherPlugin uuid (etherWithdraw W (counterpartyWithdraw r))
    | OtherPackage s \<Rightarrow> throwE (unrecognizedPackage ''withdrawCounterparty'' (wc_htlcPackage r)))"

section \<open>Endpoints\<close>

definition ownHTLCEndpoint where
  "ownHTLCEndpoint W art tokenArt uuid req w =
     (case withPackage coordinatorPackage (ownHTLC W art tokenArt uuid req) w of (r, w') \<Rightarrow> (answer500 r, w'))"

definition counterpartyHTLCEndpoint where
  "counterpartyHTLCEndpoint W uuid req w =
     (case withPackage coordinatorPackage (counterpartyHTLC W uuid req) w of (r, w') \<Rightarrow> (answer500 r, w'))"

definition withdrawCounterpartyEndpoint where
  "withdrawCounterpartyEndpoint W uuid req w =
     (case withPackage coordinatorPackage (withdrawCounterparty W uuid req) w of (r, w') \<Rightarrow>
       (case r of Returns _ \<Rightarrow> Some 200 | Throws e \<Rightarrow> Some (if e = txReverted then 400 else 500 :: int) | Pending \<Rightarrow> None, w'))"

end
