(* ===== verification/Connector_Frame.thy ===== *)
theory Connector_Frame
  imports Connector_World
begin

text \<open>
  What the operations that the ledger connectors share leave alone, and the artifacts of contracts in their
  keychains.
\<close>

section \<open>Relations that the operations follow\<close>

locale world_frame = run_preorder R
  for R :: "('x, 'm) connectorWorld_scheme \<Rightarrow> ('x, 'm) connectorWorld_scheme \<Rightarrow> bool" +
  assumes library: "R w (w\<lparr>cw_ext := x\<rparr>)"
    and counted: "R w (w\<lparr>cw_transactions := n\<rparr>)"
    and looked_up: "kc_backend k' = kc_backend (cw_keychains w k) \<Longrightarrow> R w (w\<lparr>cw_keychains := (cw_keychains w)(k := k')\<rparr>)"
begin

lemma follows_web3A [follows_intros]: "follows R (web3A f)"
  by (simp add: follows_def web3A_def library split: prod.split option.split)

lemma follows_keychainFor [follows_intros]: "follows R (keychainFor i)"
  by (simp add: keychainFor_def follows_def liftR_def ret_def throwE_def stays split: sum.split)

lemma follows_keychainHasA [follows_intros]: "follows R (keychainHasA k key)"
  by (simp add: follows_def keychainHasA_def keychainHas_def publish_def Let_def looked_up)

lemma follows_keychainGetA [follows_intros]: "follows R (keychainGetA k key)"
  by (auto simp: follows_def keychainGetA_def keychainGet_def publish_def liftR_def ret_def throwE_def looked_up stays split: option.split)

lemma follows_wait [follows_intros]: "follows R (modifyA (\<lambda>w. w\<lparr>cw_ext := f (cw_ext w)\<rparr>))"
  by (simp add: follows_def modifyA_def library)

lemma follows_count [follows_intros]: "follows R (modifyA (\<lambda>w. w\<lparr>cw_transactions := f w\<rparr>))"
  by (simp add: follows_def modifyA_def counted)

end

section \<open>Contract entries of a keychain\<close>

lemma map_of_upsert: "map_of (upsert k v fs) l = (if l = k then Some v else map_of fs l)"
  by (induction fs) auto

lemma upsert_keys: "fst ` set (upsert k v fs) = insert k (fst ` set fs)"
  by (induction fs) auto

lemma upsert_distinct: "distinct (map fst fs) \<Longrightarrow> distinct (map fst (upsert k v fs))"
proof (induction fs)
  case (Cons f fs)
  have "fst f \<noteq> k \<Longrightarrow> fst f \<notin> fst ` set (upsert k v fs)" using Cons.prems by (simp add: upsert_keys)
  then show ?case using Cons by auto
qed simp

lemma upsert_values: "\<forall>f \<in> set fs. P (snd f) \<Longrightarrow> P v \<Longrightarrow> \<forall>f \<in> set (upsert k v fs). P (snd f)"
  by (induction fs) auto

lemma wfJson_upsert: "wfJson (JObj fs) \<Longrightarrow> wfJson v \<Longrightarrow> wfJson (JObj (upsert k v fs))"
  using upsert_distinct [of fs k v] upsert_values [of fs wfJson v k] by simp

lemmas run_defs = bindA_def thenA_def ret_def throwE_def getsA_def modifyA_def liftR_def web3A_def ensure_def

text \<open>The entry of a contract that is deployed at an address of a network.\<close>

definition deployedEntry :: "int \<Rightarrow> string \<Rightarrow> (string \<times> json) list \<Rightarrow> (string \<times> json) list" where
  "deployedEntry n a fs = upsert ''networks'' (JObj [(intToString n, JObj [(''address'', JStr a)])]) fs"

definition hasEntry :: "string \<Rightarrow> string \<Rightarrow> (string \<times> json) list \<Rightarrow> ('x, 'm) connectorWorld_scheme \<Rightarrow> bool" where
  "hasEntry k name fs w \<longleftrightarrow> wfJson (JObj fs) \<and> map_of (kc_backend (cw_keychains w k)) name = Some (stringify (JObj fs))"

text \<open>No plugin and no entry of a keychain changes.\<close>

definition sameEntries :: "('x, 'm) connectorWorld_scheme \<Rightarrow> ('x, 'm) connectorWorld_scheme \<Rightarrow> bool" where
  "sameEntries w w' \<longleftrightarrow> cw_registry w' = cw_registry w \<and> (\<forall>k. kc_backend (cw_keychains w' k) = kc_backend (cw_keychains w k))"

interpretation entries: world_frame sameEntries
  by unfold_locales (auto simp: sameEntries_def)

lemma hasEntry_sameEntries: "sameEntries w w' \<Longrightarrow> hasEntry k name fs w' = hasEntry k name fs w"
  by (simp add: sameEntries_def hasEntry_def)

lemma hasEntry_ext [simp]: "hasEntry k name fs (w\<lparr>cw_ext := x\<rparr>) = hasEntry k name fs w"
  by (simp add: hasEntry_def)

context world_frame
begin

lemma keychainGetA_entry:
  assumes "hasEntry k name fs w"
  shows "\<exists>w'. keychainGetA k name w = (Returns (stringify (JObj fs)), w') \<and> R w w' \<and> cw_ext w' = cw_ext w
    \<and> cw_transactions w' = cw_transactions w"
  using assms by (simp add: keychainGetA_def keychainGet_def hasEntry_def liftR_def ret_def publish_def looked_up)

lemma keychainHasA_run:
  "\<exists>b w'. keychainHasA k name w = (Returns b, w') \<and> R w w' \<and> cw_ext w' = cw_ext w
    \<and> cw_transactions w' = cw_transactions w"
  by (simp add: keychainHasA_def keychainHas_def publish_def looked_up Let_def)

end

lemma wf_deployedEntry: "wfJson (JObj fs) \<Longrightarrow> wfJson (JObj (deployedEntry n a fs))"
  unfolding deployedEntry_def by (rule wfJson_upsert) simp_all

lemma deployedEntry_abi [simp]: "map_of (deployedEntry n a fs) ''abi'' = map_of fs ''abi''"
  by (simp add: deployedEntry_def map_of_upsert)

lemma setNetworks_entry: "setNetworks n (Some (JStr a)) (JObj fs) = Inr (JObj (deployedEntry n a fs))"
  by (simp add: setNetworks_def deployedEntry_def optFields.simps)

lemma keychainFor_Returns:
  "keychainFor i w = (Returns k, w') \<longleftrightarrow> (\<exists>p. findOneByKeychainId i (cw_registry w) = Inr p \<and> k = pl_instanceId p) \<and> w' = w"
  by (auto simp: keychainFor_def liftR_Returns bindR_Inr)

end
