(* ===== verification/Besu_Frame.thy ===== *)
theory Besu_Frame
  imports Besu_Connector Connector_Frame
begin

text \<open>
  What the operations of the Besu connector leave alone: a transaction changes no keychain entry, no
  known contract and no plugin; no operation at all changes the registry.
\<close>

section \<open>Transactions\<close>

definition sameStore :: "'x besuWorld \<Rightarrow> 'x besuWorld \<Rightarrow> bool" where
  "sameStore w w' \<longleftrightarrow> cw_registry w' = cw_registry w \<and> bw_contracts w' = bw_contracts w
     \<and> (\<forall>k. kc_backend (cw_keychains w' k) = kc_backend (cw_keychains w k))"

definition sameRegistry :: "'x besuWorld \<Rightarrow> 'x besuWorld \<Rightarrow> bool" where
  "sameRegistry w w' \<longleftrightarrow> cw_registry w' = cw_registry w"

text \<open>The transactions follow what the primitive operations of a connector follow.\<close>

locale connector_frame = world_frame R
  for R :: "'x besuWorld \<Rightarrow> 'x besuWorld \<Rightarrow> bool"
begin

lemma follows_newContractA [follows_intros]: "follows R (newContractA W abi a)"
  by (simp add: newContractA_def follows_intros split: option.split)

lemma follows_pollLoop [follows_intros]: "follows R (pollLoop W fuel h s t n tries rc cc)"
  by (induction fuel arbitrary: tries rc cc) (auto simp: Let_def intro!: follows_intros)

lemma follows_pollForTxReceipt [follows_intros]: "follows R (pollForTxReceipt W h cs)"
  by (auto simp: pollForTxReceipt_def Let_def split: prod.split intro!: follows_intros)

lemma follows_getTxReceipt [follows_intros]: "follows R (getTxReceipt W req r)"
  by (auto simp: getTxReceipt_def Let_def split: sum.split ReceiptType.split intro!: follows_intros)

lemma follows_transactSigned [follows_intros]: "follows R (transactSigned W req)"
  by (auto simp: transactSigned_def intro!: follows_intros)

lemma follows_transactPrivate [follows_intros]: "follows R (transactPrivate W j)"
  by (auto simp: transactPrivate_def getPrivateTxReceipt_def intro!: follows_intros)

lemma follows_transactPrivateKey [follows_intros]: "follows R (transactPrivateKey W req secret)"
  by (auto simp: transactPrivateKey_def Let_def intro!: follows_intros)

lemma follows_transact [follows_intros]: "follows R (transact W req)"
  by (auto simp: transact_def transactCactusKeychainRef_def split: Web3SigningCredential.split intro!: follows_intros)

end

interpretation store: connector_frame sameStore
  by unfold_locales (auto simp: sameStore_def)

text \<open>With writing to the keychain and the table of contracts allowed, the whole connector follows.\<close>

locale connector_writes = connector_frame R
  for R :: "'x besuWorld \<Rightarrow> 'x besuWorld \<Rightarrow> bool" +
  assumes remembered: "R w (w\<lparr>bw_contracts := cs\<rparr>)"
    and written: "R w (w\<lparr>cw_keychains := ks\<rparr>)"
begin

lemma follows_rememberContract [follows_intros]: "follows R (rememberContract name c)"
  by (simp add: follows_def rememberContract_def modifyA_def remembered)

lemma follows_keychainSetA [follows_intros]: "follows R (keychainSetA k key v)"
  by (simp add: follows_def keychainSetA_def modifyA_def written)

lemma follows_recordDeployment [follows_intros]: "follows R (recordDeployment W k name n a)"
  by (auto simp: recordDeployment_def intro!: follows_intros)

lemma follows_deployContract [follows_intros]: "follows R (deployContract W req)"
  by (auto simp: deployContract_def afterDeploy_def Let_def intro!: follows_intros)

lemma follows_loadFromKeychain [follows_intros]: "follows R (loadFromKeychain W req i)"
  by (auto simp: loadFromKeychain_def deployFromKeychain_def intro!: follows_intros)

lemma follows_contractInstance [follows_intros]: "follows R (contractInstance W req)"
  by (auto simp: contractInstance_def intro!: follows_intros)

lemma follows_isSafe [follows_intros]: "follows R (isSafeToCallContractMethod W c name)"
  by (auto simp: isSafeToCallContractMethod_def intro!: follows_intros)

lemma follows_callPrivate [follows_intros]: "follows R (callPrivate W req c data pc)"
  by (auto simp: callPrivate_def Let_def split: Web3SigningCredential.split intro!: follows_intros)

lemma follows_sendMethod [follows_intros]: "follows R (sendMethod W req c data)"
  by (auto simp: sendMethod_def Let_def intro!: follows_intros)

lemma follows_invokeContract: "follows R (invokeContract W req)"
  by (auto simp: invokeContract_def methodData_def split: EthContractInvocationType.split prod.split intro!: follows_intros)

end

interpretation plugins: connector_writes sameRegistry
  by unfold_locales (auto simp: sameRegistry_def)

end
