(* ===== verification/Besu_Polling.thy ===== *)
theory Besu_Polling
  imports Besu_Connector
begin

text \<open>
  The loop that waits for the receipt of a transaction: it ends when the clock runs, and its test of
  the confirmations is the wrong way round.
\<close>

section \<open>Rounds of the loop\<close>

text \<open>Time does not go back, and a timer takes at least its time.\<close>

definition clockRuns :: "'x web3 \<Rightarrow> bool" where
  "clockRuns W \<longleftrightarrow> (\<forall>ms x. w3_now W x + ms \<le> w3_now W (w3_setTimeout W ms x))
     \<and> (\<forall>h x. w3_now W x \<le> w3_now W (snd (w3_getTransactionReceipt W h x)))
     \<and> (\<forall>x. w3_now W x \<le> w3_now W (snd (w3_getBlockNumber W x)))"

lemma clockRunsD:
  assumes "clockRuns W"
  shows "w3_now W x + ms \<le> w3_now W (w3_setTimeout W ms x)"
    "w3_getTransactionReceipt W h x = (r, x') \<Longrightarrow> w3_now W x \<le> w3_now W x'"
    "w3_getBlockNumber W x = (b, x') \<Longrightarrow> w3_now W x \<le> w3_now W x'"
  using assms by (auto simp: clockRuns_def) (metis snd_conv)+

text \<open>What one round does, up to the point where it returns, throws or goes on.\<close>

datatype round = Stops jsv | Fails jsError | GoesOn jsv "int option"

definition pollRound :: "'x web3 \<Rightarrow> jsv \<Rightarrow> int \<Rightarrow> int \<Rightarrow> nat \<Rightarrow> jsv \<Rightarrow> int option \<Rightarrow> 'x \<Rightarrow> round \<times> 'x" where
  "pollRound W txHash deadline n tries txReceipt confirmationCount x =
     (let x1 = (if tries > 0 then w3_setTimeout W 1000 x else x) in
      if w3_now W x \<ge> deadline then (Stops txReceipt, x1)
      else case w3_getTransactionReceipt W txHash x1 of
        (None, x2) \<Rightarrow> (Fails LibraryError, x2)
      | (Some r, x2) \<Rightarrow>
          if \<not> truthy r then (if countReached confirmationCount n then GoesOn r confirmationCount else Stops r, x2)
          else (case w3_getBlockNumber W x2 of
              (None, x3) \<Rightarrow> (Fails LibraryError, x3)
            | (Some latest, x3) \<Rightarrow> (case jprop ''blockNumber'' r of
                Inl e \<Rightarrow> (Fails e, x3)
              | Inr b \<Rightarrow> let c = map_option (\<lambda>m. latest - m) (jsNumber b)
                         in (if countReached c n then GoesOn r c else Stops r, x3))))"

lemma pollLoop_round:
  "pollLoop W (Suc fuel) h s t n tries rc cc w =
    (case pollRound W h (s + t) n tries rc cc (cw_ext w) of
       (Stops r, x) \<Rightarrow> (Returns (r, tries + 1), w\<lparr>cw_ext := x\<rparr>)
     | (Fails e, x) \<Rightarrow> (Throws e, w\<lparr>cw_ext := x\<rparr>)
     | (GoesOn r c, x) \<Rightarrow> pollLoop W fuel h s t n (tries + 1) r c (w\<lparr>cw_ext := x\<rparr>))"
  by (simp add: pollRound_def bindA_def thenA_def getsA_def modifyA_def ret_def throwE_def web3A_def propA_def liftR_def Let_def
      split: prod.split option.split outcome.split sum.split)

declare pollLoop.simps(2) [simp del]

lemma pollRound_clock:
  assumes "clockRuns W" "pollRound W h d n tries rc cc x = (GoesOn r c, x')"
  shows "w3_now W x < d" "w3_now W x + (if tries > 0 then 1000 else 0) \<le> w3_now W x'"
proof -
  define x1 where "x1 = (if tries > 0 then w3_setTimeout W 1000 x else x)"
  have 1: "w3_now W x + (if tries > 0 then 1000 else 0) \<le> w3_now W x1"
    using clockRunsD(1) [OF assms(1)] by (simp add: x1_def)
  have "w3_now W x < d \<and> w3_now W x1 \<le> w3_now W x'"
    using assms(2) clockRunsD(2,3) [OF assms(1)] unfolding pollRound_def x1_def [symmetric]
    by (auto simp: Let_def split: if_splits prod.splits option.splits sum.splits)
      (meson order.trans)
  with 1 show "w3_now W x < d" "w3_now W x + (if tries > 0 then 1000 else 0) \<le> w3_now W x'" by auto
qed

section \<open>Termination\<close>

lemma pollLoop_ends:
  assumes "clockRuns W" "0 < fuel" "0 < tries"
    and "s + t - w3_now W (cw_ext w) \<le> 1000 * (int fuel - 1)"
  shows "fst (pollLoop W fuel h s t n tries rc cc w) \<noteq> Pending"
  using assms(2-)
proof (induction fuel arbitrary: tries rc cc w)
  case (Suc fuel)
  show ?case
  proof (cases "pollRound W h (s + t) n tries rc cc (cw_ext w)")
    case (Pair o' x)
    show ?thesis
    proof (cases o')
      case (GoesOn r c)
      then have c: "w3_now W (cw_ext w) < s + t" "w3_now W (cw_ext w) + 1000 \<le> w3_now W x"
        using pollRound_clock [OF assms(1), of h "s + t" n tries rc cc "cw_ext w" r c x] Pair Suc.prems(2) by auto
      then have "0 < fuel" using Suc.prems(3) by (cases fuel) auto
      then have "fst (pollLoop W fuel h s t n (tries + 1) r c (w\<lparr>cw_ext := x\<rparr>)) \<noteq> Pending"
        using c Suc.prems(3) by (intro Suc.IH) auto
      then show ?thesis using Pair GoesOn by (simp add: pollLoop_round)
    qed (use Pair in \<open>simp_all add: pollLoop_round\<close>)
  qed
qed simp

lemma pollLoop_ends_first:
  assumes "clockRuns W" "1 < fuel" "s + t - w3_now W (cw_ext w) \<le> 1000 * (int fuel - 2)"
  shows "fst (pollLoop W fuel h s t n 0 rc cc w) \<noteq> Pending"
proof -
  obtain f where f: "fuel = Suc f" "0 < f" using assms(2) by (cases fuel) auto
  show ?thesis
  proof (cases "pollRound W h (s + t) n 0 rc cc (cw_ext w)")
    case (Pair o' x)
    show ?thesis
    proof (cases o')
      case (GoesOn r c)
      then have "w3_now W (cw_ext w) \<le> w3_now W x"
        using pollRound_clock [OF assms(1), of h "s + t" n 0 rc cc "cw_ext w" r c x] Pair by auto
      then have "fst (pollLoop W f h s t n 1 r c (w\<lparr>cw_ext := x\<rparr>)) \<noteq> Pending"
        using assms f by (intro pollLoop_ends) auto
      then show ?thesis using Pair GoesOn f by (simp add: pollLoop_round)
    qed (use Pair f in \<open>simp_all add: pollLoop_round\<close>)
  qed
qed

lemma pollLoop_more:
  "fst (pollLoop W fuel h s t n tries rc cc w) \<noteq> Pending
    \<Longrightarrow> pollLoop W (fuel + k) h s t n tries rc cc w = pollLoop W fuel h s t n tries rc cc w"
proof (induction fuel arbitrary: tries rc cc w)
  case 0
  then show ?case by (simp add: never_def)
next
  case (Suc fuel)
  then show ?case by (simp add: pollLoop_round split: prod.splits round.splits)
qed

lemma enough_rounds:
  fixes t :: int
  assumes "nat (t div 1000) + 3 \<le> m"
  shows "t \<le> 1000 * (int m - 2)"
proof -
  define q where "q = t div 1000"
  have "t < 1000 * q + 1000" unfolding q_def by presburger
  moreover have "q + 3 \<le> int m" using assms unfolding q_def [symmetric] by linarith
  ultimately show ?thesis by (simp add: algebra_simps)
qed

lemma pollLoop_polls: "pollLoop (W\<lparr>w3_polls := m\<rparr>) fuel h s t n tries rc cc = pollLoop W fuel h s t n tries rc cc"
proof (induction fuel arbitrary: tries rc cc)
  case (Suc fuel)
  then show ?case by (simp add: pollLoop.simps(2) cong: if_cong)
qed simp

text \<open>The whole method, in terms of its loop.\<close>

lemma pollForTxReceipt_loop:
  "pollForTxReceipt W h cs w =
    (case pollLoop W (w3_polls W) h (w3_now W (cw_ext w)) (orNumber (cs_timeoutMs cs) maxSafeInteger)
        (cs_blockConfirmations cs) 0 None (Some 0) w of
       (Returns (r, tries), w') \<Rightarrow> if truthy r then (Returns (the r), w')
         else (Throws (ErrorMsg (''PluginLedgerConnectorBesu#pollForTxReceipt() Timed out ''
           @ intToString (orNumber (cs_timeoutMs cs) maxSafeInteger) @ ''ms, polls='' @ natToString tries)), w')
     | (Throws e, w') \<Rightarrow> (Throws e, w')
     | (Pending, w') \<Rightarrow> (Pending, w'))"
  by (simp add: pollForTxReceipt_def Let_def bindA_def getsA_def ret_def throwE_def split: prod.split outcome.split)

text \<open>
  While the receipt is there and has the confirmations asked for, the loop goes on: it stops by the
  deadline only, with the receipt it found.
\<close>

lemma confirmed_round:
  assumes "\<And>x. \<exists>x'. w3_getTransactionReceipt W h x = (Some (Some r), x')"
    and "\<And>x. \<exists>k x'. w3_getBlockNumber W x = (Some k, x') \<and> n \<le> k - b"
    and "jprop ''blockNumber'' (Some r) = Inr v" "jsNumber v = Some b" "truthy (Some r)"
    and "pollRound W h d n tries rc cc x = (o', x')"
  shows "(d \<le> w3_now W x \<and> o' = Stops rc) \<or> (w3_now W x < d \<and> (\<exists>c. o' = GoesOn (Some r) c))"
proof (cases "d \<le> w3_now W x")
  case False
  define x1 where "x1 = (if tries > 0 then w3_setTimeout W 1000 x else x)"
  obtain x2 where x2: "w3_getTransactionReceipt W h x1 = (Some (Some r), x2)" using assms(1) by blast
  obtain k x3 where x3: "w3_getBlockNumber W x2 = (Some k, x3)" "n \<le> k - b" using assms(2) by blast
  show ?thesis using assms(3-6) False x2 x3
    unfolding pollRound_def x1_def [symmetric] by (auto simp: Let_def countReached_def)
qed (use assms(6) in \<open>simp add: pollRound_def Let_def\<close>)

lemma pollRound_stop_clock:
  assumes "clockRuns W" "pollRound W h d n tries rc cc x = (Stops rc, x')" "d \<le> w3_now W x"
  shows "d \<le> w3_now W x'"
  using assms clockRunsD(1) [OF assms(1), of x 1000] by (auto simp: pollRound_def Let_def split: if_splits)

lemma confirmed_loop:
  assumes "clockRuns W" "\<And>x. \<exists>x'. w3_getTransactionReceipt W h x = (Some (Some r), x')"
    and "\<And>x. \<exists>k x'. w3_getBlockNumber W x = (Some k, x') \<and> n \<le> k - b"
    and "jprop ''blockNumber'' (Some r) = Inr v" "jsNumber v = Some b" "truthy (Some r)"
    and "rc = Some r \<or> w3_now W (cw_ext w) < s + t"
    and "fst (pollLoop W fuel h s t n tries rc cc w) \<noteq> Pending"
  shows "\<exists>m w'. pollLoop W fuel h s t n tries rc cc w = (Returns (Some r, m), w') \<and> s + t \<le> w3_now W (cw_ext w')"
  using assms(7-)
proof (induction fuel arbitrary: tries rc cc w)
  case (Suc fuel)
  obtain o' x where o: "pollRound W h (s + t) n tries rc cc (cw_ext w) = (o', x)" by (cases "pollRound W h (s + t) n tries rc cc (cw_ext w)")
  show ?case
  proof (cases "s + t \<le> w3_now W (cw_ext w)")
    case True
    then have r: "o' = Stops rc" using confirmed_round [OF assms(2-6) o] by auto
    then show ?thesis using True Suc.prems(1) o pollRound_stop_clock [OF assms(1), of h "s + t" n tries rc cc "cw_ext w" x]
      by (auto simp: pollLoop_round)
  next
    case False
    then obtain c where "o' = GoesOn (Some r) c" using confirmed_round [OF assms(2-6) o] by auto
    then show ?thesis using Suc.IH [of "Some r" "w\<lparr>cw_ext := x\<rparr>" "tries + 1" c] Suc.prems(2) o by (simp add: pollLoop_round)
  qed
qed (simp add: never_def)

section \<open>A node for examples\<close>

text \<open>The state is the clock; every transaction is in block 100, and the latest block is given.\<close>

definition demoNode :: "int \<Rightarrow> int web3" where
  "demoNode latest = \<lparr>w3_now = id, w3_setTimeout = (\<lambda>ms x. x + ms), w3_getId = (\<lambda>x. (Some 1337, x)),
     w3_validContract = (\<lambda>abi a. True), w3_methods = (\<lambda>abi. []), w3_encodeABI = (\<lambda>c n ps. Some n),
     w3_encodeDeploy = (\<lambda>abi b ps. Some b), w3_call = (\<lambda>c n ps x. (Some None, x)), w3_estimateGas = (\<lambda>c x. (Some (JNum 1), x)),
     w3_signTransaction = (\<lambda>c k x. (Some (Some ''raw''), x)), w3_sendSignedTransaction = (\<lambda>r x. (Some (Inr (JObj [])), x)),
     w3_getTransactionReceipt = (\<lambda>h x. (Some (Some (JObj [(''blockNumber'', JNum 100)])), x)),
     w3_getBlockNumber = (\<lambda>x. (Some latest, x)), w3_getTransaction = (\<lambda>h x. (Some None, x)),
     w3_getBalance = (\<lambda>a b x. (Some (JStr ''0''), x)), w3_getPastLogs = (\<lambda>r x. (Some (JArr []), x)), w3_getBlock = (\<lambda>b x. (Some None, x)),
     w3_generateAndSendRawTransaction = (\<lambda>j x. (Some None, x)), w3_waitForTransactionReceipt = (\<lambda>h x. (Some None, x)),
     w3_privCall = (\<lambda>p c x. (Some None, x)), w3_polls = 9\<rparr>"

lemma demoNode_clock: "clockRuns (demoNode latest)"
  by (simp add: clockRuns_def demoNode_def)

definition besuDemo :: "int besuWorld" where
  "besuDemo = \<lparr>cw_registry = [], cw_keychains = (\<lambda>_. \<lparr>kc_instanceId = '''', kc_keychainId = '''', kc_backend = [],
     kc_keyCount = 0, kc_published = []\<rparr>), cw_transactions = 0, cw_ext = 0, bw_contracts = Map.empty, bw_quorum = False\<rparr>"

definition twoConfirmations :: ConsistencyStrategy where
  "twoConfirmations = \<lparr>cs_receiptType = LedgerBlockAck, cs_timeoutMs = Some 3000, cs_blockConfirmations = 2\<rparr>"

lemmas poll_demo_defs = demoNode_def besuDemo_def twoConfirmations_def orNumber_def

section \<open>Properties\<close>

text \<open>
  The wait for a receipt ends: when the clock runs, with a timeout of \<open>T\<close> milliseconds no more than
  \<open>T / 1000 + 3\<close> rounds are needed, and a larger bound on the rounds gives the same result.
\<close>

theorem poll_terminates:
  assumes "clockRuns W" "n = nat (orNumber (cs_timeoutMs cs) maxSafeInteger div 1000) + 3" "n \<le> m"
  shows "fst (pollForTxReceipt (W\<lparr>w3_polls := m\<rparr>) h cs w) \<noteq> Pending
    \<and> pollForTxReceipt (W\<lparr>w3_polls := m\<rparr>) h cs w = pollForTxReceipt (W\<lparr>w3_polls := n\<rparr>) h cs w"
proof -
  let ?t = "orNumber (cs_timeoutMs cs) maxSafeInteger"
  let ?loop = "\<lambda>f. pollLoop W f h (w3_now W (cw_ext w)) ?t (cs_blockConfirmations cs) 0 None (Some 0) w"
  have "?t \<le> 1000 * (int n - 2)" using assms(2) by (intro enough_rounds) simp
  then have "fst (?loop n) \<noteq> Pending" using assms(1,2) by (intro pollLoop_ends_first) auto
  moreover from this have "?loop m = ?loop n" using pollLoop_more [of W n] assms(3) by (metis le_add_diff_inverse)
  ultimately show ?thesis by (auto simp: pollForTxReceipt_loop pollLoop_polls split: prod.splits outcome.splits)
qed

theorem poll_terminates_witness:
  "fst (pollForTxReceipt (demoNode 105\<lparr>w3_polls := 9\<rparr>) (Some (JStr ''h'')) twoConfirmations besuDemo) \<noteq> Pending"
  by (rule poll_terminates [OF demoNode_clock refl, THEN conjunct1]) (simp add: twoConfirmations_def orNumber_def)

text \<open>
  The test of the confirmations is inverted: a receipt with fewer confirmations than asked for is
  returned at once, after a single poll, and when there is no receipt yet the method gives up after a
  single poll with the message of a timeout, however long the timeout.
\<close>

theorem unconfirmed_receipt_returned:
  assumes "0 < w3_polls W" "0 < orNumber (cs_timeoutMs cs) maxSafeInteger" "0 < cs_blockConfirmations cs"
    and "w3_getTransactionReceipt W h (cw_ext w) = (Some r, x)"
  shows "(\<not> truthy r \<longrightarrow> fst (pollForTxReceipt W h cs w) = Throws (ErrorMsg
        (''PluginLedgerConnectorBesu#pollForTxReceipt() Timed out '' @ intToString (orNumber (cs_timeoutMs cs) maxSafeInteger)
          @ ''ms, polls='' @ natToString 1)))
    \<and> (\<forall>receipt v b k y. r = Some receipt \<and> truthy r \<and> jprop ''blockNumber'' r = Inr v \<and> jsNumber v = Some b
        \<and> w3_getBlockNumber W x = (Some k, y) \<and> k - b < cs_blockConfirmations cs
      \<longrightarrow> fst (pollForTxReceipt W h cs w) = Returns receipt)"
proof -
  obtain f where "w3_polls W = Suc f" using assms(1) by (cases "w3_polls W") auto
  then show ?thesis using assms(2-)
    by (auto simp: pollForTxReceipt_loop pollLoop_round pollRound_def countReached_def Let_def)
qed

theorem unconfirmed_receipt_returned_witness:
  "fst (pollForTxReceipt (demoNode 100) (Some (JStr ''h'')) twoConfirmations besuDemo) = Returns (JObj [(''blockNumber'', JNum 100)])"
  using unconfirmed_receipt_returned [of "demoNode 100" twoConfirmations "Some (JStr ''h'')" besuDemo]
  by (simp add: poll_demo_defs truthy_def jprop_def jsNumber_def)

text \<open>
  A transaction that has the confirmations asked for from the first poll on is reported when the
  timeout has passed and not before.
\<close>

theorem confirmed_receipt_waits:
  assumes "clockRuns W" "0 < orNumber (cs_timeoutMs cs) maxSafeInteger"
    and "nat (orNumber (cs_timeoutMs cs) maxSafeInteger div 1000) + 3 \<le> w3_polls W"
    and "\<And>x. \<exists>x'. w3_getTransactionReceipt W h x = (Some (Some r), x')"
    and "\<And>x. \<exists>k x'. w3_getBlockNumber W x = (Some k, x') \<and> cs_blockConfirmations cs \<le> k - b"
    and "jprop ''blockNumber'' (Some r) = Inr v" "jsNumber v = Some b" "truthy (Some r)"
  shows "\<exists>w'. pollForTxReceipt W h cs w = (Returns r, w')
    \<and> w3_now W (cw_ext w) + orNumber (cs_timeoutMs cs) maxSafeInteger \<le> w3_now W (cw_ext w')"
proof -
  let ?t = "orNumber (cs_timeoutMs cs) maxSafeInteger"
  let ?loop = "pollLoop W (w3_polls W) h (w3_now W (cw_ext w)) ?t (cs_blockConfirmations cs) 0 None (Some 0) w"
  have "?t \<le> 1000 * (int (w3_polls W) - 2)" using assms(3) by (rule enough_rounds)
  then have "fst ?loop \<noteq> Pending" using assms(1,3) by (intro pollLoop_ends_first) auto
  then obtain m w' where "?loop = (Returns (Some r, m), w')" "w3_now W (cw_ext w) + ?t \<le> w3_now W (cw_ext w')"
    using confirmed_loop [OF assms(1,4-8), of None w "w3_now W (cw_ext w)" ?t "w3_polls W" 0 "Some 0"] assms(2) by auto
  then show ?thesis using assms(8) by (simp add: pollForTxReceipt_loop)
qed

theorem confirmed_receipt_waits_witness:
  "\<exists>w'. pollForTxReceipt (demoNode 105) (Some (JStr ''h'')) twoConfirmations besuDemo = (Returns (JObj [(''blockNumber'', JNum 100)]), w')
    \<and> 3000 \<le> w3_now (demoNode 105) (cw_ext w')"
  using confirmed_receipt_waits [OF demoNode_clock, of twoConfirmations 105 "Some (JStr ''h'')" "JObj [(''blockNumber'', JNum 100)]" 100
      "Some (JNum 100)" besuDemo]
  by (simp add: poll_demo_defs truthy_def jprop_def jsNumber_def)

end
