(* ===== verification/HTLC_Properties.thy ===== *)
theory HTLC_Properties
  imports HTLC_Coordinator Besu_Frame Besu_Polling
begin

text \<open>
  Properties of the connector and the time lock plugins together: a deployment is found again through
  the keychain and decides where every later request goes; a failed deployment of a token swap locks
  Ether instead; a failed transaction is answered like a good one.
\<close>

section \<open>Contract entries of a keychain\<close>

lemma hasEntry_same: "sameStore w w' \<Longrightarrow> hasEntry k name fs w' = hasEntry k name fs w"
  by (simp add: sameStore_def hasEntry_def)

lemma deployedEntry_known:
  "knownAddress n (JObj (deployedEntry n a fs)) = Inr (Some (JStr a))"
  "networkAddress n (JObj (deployedEntry n a fs)) = Inr (Some (JStr a))"
  "jprop ''abi'' (Some (JObj (deployedEntry n a fs))) = jprop ''abi'' (Some (JObj fs))"
  by (simp_all add: knownAddress_def networkAddress_def jprop_def deployedEntry_def map_of_upsert)

lemma recordDeployment_entry:
  assumes "hasEntry k name fs w" "recordDeployment W k name n (Some (JStr a)) w = (Returns (), w')"
  shows "\<exists>abi. jprop ''abi'' (Some (JObj fs)) = Inr (Some abi) \<and> w3_validContract W abi (Some (JStr a))
    \<and> hasEntry k name (deployedEntry n a fs) w' \<and> cw_registry w' = cw_registry w"
proof -
  obtain w1 where w1: "keychainGetA k name w = (Returns (stringify (JObj fs)), w1)" "sameStore w w1"
    using store.keychainGetA_entry [OF assms(1)] by blast
  have "wfJson (JObj fs)" using assms(1) by (simp only: hasEntry_def)
  then show ?thesis using assms(2) w1 wf_deployedEntry [of fs n a]
    by (cases "map_of fs ''abi''")
      (auto simp: recordDeployment_def run_defs propA_def newContractA_def rememberContract_def keychainSetA_def keychainSet_def
        publish_def setTotalKeyCounter_def Let_def hasEntry_def map_of_mapSet sameStore_def jprop_def setNetworks_entry
        simp del: wfJson.simps stringify.simps split: if_splits)
qed

text \<open>An entry with an address is used as it is; the address in the request is not looked at.\<close>

lemma contractInstance_entry:
  assumes "hasEntry k name (deployedEntry n a fs) w"
    and "findOneByKeychainId i (cw_registry w) = Inr p" "k = pl_instanceId p"
    and "w3_getId W (cw_ext w) = (Some n, x)"
    and "jprop ''abi'' (Some (JObj fs)) = Inr (Some abi)" "w3_validContract W abi (Some (JStr a))"
    and "ic_keychainId req = Some i" "ic_contractName req = name" "ic_contractAbi req = None"
  shows "\<exists>w'. contractInstance W req w = (Returns (Some (abi, Some (JStr a))), w') \<and> cw_transactions w' = cw_transactions w"
proof -
  let ?w = "w\<lparr>cw_ext := x\<rparr>"
  obtain b w1 where w1: "keychainHasA k name ?w = (Returns b, w1)" "sameStore ?w w1" "cw_transactions w1 = cw_transactions ?w"
    using store.keychainHasA_run by blast
  have "hasEntry k name (deployedEntry n a fs) w1"
    using assms(1) hasEntry_same [OF w1(2)] by simp
  then obtain w2 where w2: "keychainGetA k name w1 = (Returns (stringify (JObj (deployedEntry n a fs))), w2)"
      "cw_transactions w2 = cw_transactions w1"
    using store.keychainGetA_entry by blast
  have "wfJson (JObj (deployedEntry n a fs))" using assms(1) by (simp only: hasEntry_def)
  then show ?thesis using assms w1 w2
    by (simp add: contractInstance_def loadFromKeychain_def run_defs keychainFor_def propA_def newContractA_def
        rememberContract_def deployedEntry_known isNullish_def del: wfJson.simps stringify.simps)
qed

section \<open>Deployments\<close>

lemma afterDeploy_returns: "afterDeploy W k name n r w = (Returns receipt, w') \<Longrightarrow> r = receipt"
  by (auto simp: afterDeploy_def bindA_Returns thenA_Returns throwE_def ret_def split: if_splits)

lemma afterDeploy_records:
  assumes "afterDeploy W k name n r w = (Returns receipt, w')"
    and "jprop ''status'' (Some receipt) = Inr st" "truthy st"
    and "jprop ''contractAddress'' (Some receipt) = Inr (Some (JStr a))" "a \<noteq> ''''"
  shows "\<exists>b w1. keychainHasA k name w = (Returns b, w1)
    \<and> recordDeployment W k name n (Some (JStr a)) w1 = (Returns (), w')"
proof -
  have "truthy (Some (JStr a))" using assms(5) by (simp add: truthy_def)
  then show ?thesis using assms(1-4) afterDeploy_returns [OF assms(1)]
    by (auto simp: afterDeploy_def bindA_Returns thenA_Returns propA_def liftR_Returns throwE_def ret_def split: if_splits)
qed

text \<open>A deployment that succeeds is recorded in the keychain; up to then no entry changes.\<close>

lemma deployContract_records:
  assumes "deployContract W req w = (Returns receipt, w')"
    and "jprop ''status'' (Some receipt) = Inr st" "truthy st"
    and "jprop ''contractAddress'' (Some receipt) = Inr (Some (JStr a))" "a \<noteq> ''''"
  shows "\<exists>p n x x' w1. findOneByKeychainId (dc_keychainId req) (cw_registry w) = Inr p \<and> w3_getId W x = (Some n, x')
    \<and> sameStore w w1 \<and> recordDeployment W (pl_instanceId p) (dc_contractName req) n (Some (JStr a)) w1 = (Returns (), w')"
proof -
  let ?name = "dc_contractName req"
  have ne: "\<not> isWeb3SigningCredentialNone (dc_web3SigningCredential req)" "\<not> (dc_keychainId req = '''' \<or> ?name = '''')"
    using assms(1) by (auto simp: deployContract_def throwE_def split: if_splits)
  from assms(1) obtain p b1 w1 n w2 c w3 t r w4 where
      p: "findOneByKeychainId (dc_keychainId req) (cw_registry w) = Inr p"
      and w1: "keychainHasA (pl_instanceId p) ?name w = (Returns b1, w1)" and w2: "web3A (w3_getId W) w1 = (Returns n, w2)"
      and w3: "newContractA W (Some (dc_contractAbi req)) None w2 = (Returns c, w3)"
      and w4: "transact W t w3 = (Returns r, w4)" and rest: "afterDeploy W (pl_instanceId p) ?name n r w4 = (Returns receipt, w')"
    unfolding deployContract_def using ne
    by (auto simp: bindA_Returns thenA_Returns keychainFor_Returns Let_def throwE_def split: option.splits)
  from afterDeploy_records [OF rest assms(2-5)] obtain b2 w5 where
      w5: "keychainHasA (pl_instanceId p) ?name w4 = (Returns b2, w5)"
      and r: "recordDeployment W (pl_instanceId p) ?name n (Some (JStr a)) w5 = (Returns (), w')" by blast
  have "sameStore w w5"
    using followsD [OF store.follows_keychainHasA w1] followsD [OF store.follows_web3A w2]
      followsD [OF store.follows_newContractA w3] followsD [OF store.follows_transact w4]
      followsD [OF store.follows_keychainHasA w5] by (auto simp: sameStore_def)
  moreover have "\<exists>x x'. w3_getId W x = (Some n, x')" using w2 by (auto simp: web3A_def split: prod.splits option.splits)
  ultimately show ?thesis using p r by blast
qed

text \<open>
  The whole path: after a deployment through a keychain, a request for the same name and keychain runs on
  the deployed contract, and no further transaction is needed to find it.
\<close>

lemma deployed_then_found:
  assumes "deployContract W req w = (Returns receipt, w1)"
    and "jprop ''status'' (Some receipt) = Inr st" "truthy st"
    and "jprop ''contractAddress'' (Some receipt) = Inr (Some (JStr a))" "a \<noteq> ''''"
    and "findOneByKeychainId (dc_keychainId req) (cw_registry w) = Inr p"
    and "hasEntry (pl_instanceId p) (dc_contractName req) fs w"
    and "\<And>x. \<exists>x'. w3_getId W x = (Some n, x')"
    and "ic_keychainId call = Some (dc_keychainId req)" "ic_contractName call = dc_contractName req" "ic_contractAbi call = None"
  shows "\<exists>abi w2. contractInstance W call w1 = (Returns (Some (abi, Some (JStr a))), w2) \<and> cw_transactions w2 = cw_transactions w1"
proof -
  obtain p' n' x x' w0 where r: "findOneByKeychainId (dc_keychainId req) (cw_registry w) = Inr p'" "w3_getId W x = (Some n', x')"
      "sameStore w w0" "recordDeployment W (pl_instanceId p') (dc_contractName req) n' (Some (JStr a)) w0 = (Returns (), w1)"
    using deployContract_records [OF assms(1-5)] by blast
  have e: "p' = p" "n' = n" using r(1,2) assms(6) assms(8) [of x] by auto
  have "hasEntry (pl_instanceId p) (dc_contractName req) fs w0" using assms(7) hasEntry_same [OF r(3)] by simp
  from recordDeployment_entry [OF this r(4) [unfolded e]] obtain abi
    where abi: "jprop ''abi'' (Some (JObj fs)) = Inr (Some abi)" "w3_validContract W abi (Some (JStr a))"
      "hasEntry (pl_instanceId p) (dc_contractName req) (deployedEntry n a fs) w1" "cw_registry w1 = cw_registry w0" by blast
  obtain y where "w3_getId W (cw_ext w1) = (Some n, y)" using assms(8) by blast
  moreover have "findOneByKeychainId (dc_keychainId req) (cw_registry w1) = Inr p"
    using abi(4) r(3) assms(6) by (simp add: sameStore_def)
  ultimately show ?thesis using contractInstance_entry [OF abi(3) _ refl _ abi(1,2) assms(9-11)] by blast
qed

section \<open>Examples\<close>

text \<open>
  A registry with the connector, the token plugin and a keychain that has the artifact of the Ether lock;
  the node answers every transaction with the same receipt.
\<close>

definition htlcNode :: "json \<Rightarrow> int web3" where
  "htlcNode receipt = (demoNode 100)\<lparr>w3_sendSignedTransaction := (\<lambda>r x. (Some (Inr receipt), x)),
     w3_methods := (\<lambda>abi. [''newContract'', ''withdraw'', ''refund''])\<rparr>"

definition goodReceipt :: json where
  "goodReceipt = JObj [(''status'', JBool True), (''contractAddress'', JStr ''0xAB'')]"

definition failedTx :: json where
  "failedTx = JObj [(''status'', JBool False)]"

definition htlcEntry :: "(string \<times> json) list" where
  "htlcEntry = [(''abi'', JArr [])]"

definition htlcWorld :: "int besuWorld" where
  "htlcWorld = besuDemo\<lparr>
     cw_registry := [\<lparr>pl_instanceId = ''besu'', pl_packageName = besuPackage, pl_keychainId = None\<rparr>,
       \<lparr>pl_instanceId = ''erc20'', pl_packageName = erc20Package, pl_keychainId = None\<rparr>,
       \<lparr>pl_instanceId = ''kc'', pl_packageName = ''keychain'', pl_keychainId = Some ''K''\<rparr>],
     cw_keychains := (\<lambda>_. \<lparr>kc_instanceId = ''kc'', kc_keychainId = ''K'',
       kc_backend = [(''HashTimeLock'', stringify (JObj htlcEntry)), (''HashedTimeLockContract'', stringify (JObj htlcEntry))],
       kc_keyCount = 2, kc_published = []\<rparr>)\<rparr>"

definition htlcArtifact :: artifact where
  "htlcArtifact = \<lparr>art_abi = JArr [], art_bytecode = ''60''\<rparr>"

definition demoInitialize :: InitializeRequest where
  "demoInitialize = \<lparr>ir_connectorId = ''besu'', ir_keychainId = ''K'', ir_constructorArgs = [],
     ir_web3SigningCredential = PrivateKeyHex ''0x1'' ''k'', ir_gas = None\<rparr>"

definition demoSwap :: NewContractObj where
  "demoSwap = \<lparr>nc_contractAddress = ''0xCD'', nc_inputAmount = Some (JNum 5), nc_outputAmount = JNum 7, nc_expiration = JNum 20,
     nc_hashLock = ''h'', nc_receiver = Some (JStr ''0x2''), nc_outputNetwork = ''B'', nc_outputAddress = ''x'',
     nc_connectorId = ''besu'', nc_web3SigningCredential = PrivateKeyHex ''0x1'' ''k'', nc_keychainId = ''K'', nc_gas = None\<rparr>"

definition demoWithdraw :: WithdrawReq where
  "demoWithdraw = \<lparr>wr_id = ''i'', wr_secret = ''s'', wr_web3SigningCredential = PrivateKeyHex ''0x1'' ''k'',
     wr_connectorId = ''besu'', wr_keychainId = ''K'', wr_gas = None\<rparr>"

definition demoOwn :: OwnHTLCRequest where
  "demoOwn = \<lparr>ow_htlcPackage = BesuErc20, ow_connectorInstanceId = ''besu'', ow_keychainId = ''K'', ow_constructorArgs = [],
     ow_web3SigningCredential = PrivateKeyHex ''0x1'' ''k'', ow_inputAmount = JNum 5, ow_outputAmount = JNum 7, ow_expiration = JNum 20,
     ow_hashLock = ''h'', ow_tokenAddress = ''0x9'', ow_receiver = ''0x2'', ow_outputNetwork = ''B'', ow_outputAddress = ''x'', ow_gas = None\<rparr>"

lemmas connector_defs = run_defs withConnector_def deployContract_def initializeCall_def keychainFor_def findOneByKeychainId_def
  isNonBlank_def trimSpaces_def isSpace_def orElseThrow_def keychainHasA_def keychainHas_def publish_def newContractA_def
  transact_def transactPrivateKey_def transactSigned_def getTxReceipt_def poolAck_def afterDeploy_def propA_def
  recordDeployment_def keychainGetA_def keychainGet_def rememberContract_def keychainSetA_def keychainSet_def
  setTotalKeyCounter_def isWeb3SigningCredentialNone_def bindR_def Let_def

lemmas htlc_demo_defs = htlcNode_def demoNode_def htlcWorld_def besuDemo_def htlcArtifact_def besuPackage_def erc20Package_def

lemma htlcEntry_abi [simp]: "map_of htlcEntry ''abi'' = Some (JArr [])"
  by (simp add: htlcEntry_def)

lemma wf_htlcEntry [simp]: "wfJson (JObj htlcEntry)"
  by (simp add: htlcEntry_def)

lemma stringify_htlcEntry [simp]: "stringify (JObj htlcEntry) \<noteq> ''''"
  by (simp add: htlcEntry_def)

lemmas demo_run = connector_defs htlc_demo_defs etherContractName_def tokenContractName_def goodReceipt_def failedTx_def
  jprop_def truthy_def setNetworks_entry

lemma demo_deployed: "fst (etherInitialize (htlcNode goodReceipt) htlcArtifact demoInitialize htlcWorld) = Returns goodReceipt"
  by (simp add: etherInitialize_def demo_run demoInitialize_def del: stringify.simps wfJson.simps)

text \<open>A node that mines the code \<open>60\<close> and fails every other transaction.\<close>

definition pickyNode :: "int web3" where
  "pickyNode = (htlcNode failedTx)\<lparr>w3_signTransaction := (\<lambda>c k x. (Some (Some (jsTextV (tc_data c))), x)),
     w3_sendSignedTransaction := (\<lambda>r x. (Some (Inr (if r = ''0x60'' then goodReceipt else failedTx)), x))\<rparr>"

definition tokenArtifact :: artifact where
  "tokenArtifact = \<lparr>art_abi = JArr [], art_bytecode = ''70''\<rparr>"

lemma demo_token_failed:
  "fst (tokenInitialize pickyNode tokenArtifact (ownInitialize demoOwn) htlcWorld) = Returns failedTx"
  "fst (etherInitialize pickyNode htlcArtifact (ownInitialize demoOwn)
     (snd (tokenInitialize pickyNode tokenArtifact (ownInitialize demoOwn) htlcWorld))) = Returns goodReceipt"
  by (simp_all add: tokenInitialize_def etherInitialize_def demo_run pickyNode_def tokenArtifact_def ownInitialize_def demoOwn_def
      jsTextV_def del: stringify.simps wfJson.simps)

text \<open>The same registry when the Ether contract is deployed already.\<close>

definition deployedWorld :: "int besuWorld" where
  "deployedWorld = htlcWorld\<lparr>cw_keychains := (\<lambda>_. \<lparr>kc_instanceId = ''kc'', kc_keychainId = ''K'',
     kc_backend = [(''HashTimeLock'', stringify (JObj (deployedEntry 1337 ''0xAB'' htlcEntry)))],
     kc_keyCount = 1, kc_published = []\<rparr>)\<rparr>"

lemma demo_instance:
  "\<exists>w. contractInstance (htlcNode failedTx) (withdrawCall etherContractName demoWithdraw) deployedWorld
     = (Returns (Some (JArr [], Some (JStr ''0xAB''))), w)"
proof -
  have "hasEntry ''kc'' ''HashTimeLock'' (deployedEntry 1337 ''0xAB'' htlcEntry) deployedWorld"
    unfolding hasEntry_def using wf_deployedEntry [OF wf_htlcEntry] by (simp add: deployedWorld_def del: wfJson.simps stringify.simps)
  moreover have "findOneByKeychainId ''K'' (cw_registry deployedWorld)
      = Inr \<lparr>pl_instanceId = ''kc'', pl_packageName = ''keychain'', pl_keychainId = Some ''K''\<rparr>"
    by (simp add: deployedWorld_def htlcWorld_def findOneByKeychainId_def isNonBlank_def trimSpaces_def isSpace_def orElseThrow_def)
  moreover have "w3_getId (htlcNode failedTx) (cw_ext deployedWorld) = (Some 1337, cw_ext deployedWorld)"
      "w3_validContract (htlcNode failedTx) (JArr []) (Some (JStr ''0xAB''))"
    by (simp_all add: htlcNode_def demoNode_def)
  moreover have "ic_keychainId (withdrawCall etherContractName demoWithdraw) = Some ''K''"
      "ic_contractName (withdrawCall etherContractName demoWithdraw) = ''HashTimeLock''"
      "ic_contractAbi (withdrawCall etherContractName demoWithdraw) = None"
    by (simp_all add: withdrawCall_def contractCall_def demoWithdraw_def etherContractName_def)
  moreover have "jprop ''abi'' (Some (JObj htlcEntry)) = Inr (Some (JArr []))" by (simp add: jprop_def)
  ultimately show ?thesis using contractInstance_entry by fastforce
qed

lemma demo_withdraw_failed: "\<exists>j. fst (etherWithdraw (htlcNode failedTx) demoWithdraw deployedWorld) = Returns j"
proof -
  obtain w where w: "contractInstance (htlcNode failedTx) (withdrawCall etherContractName demoWithdraw) deployedWorld
     = (Returns (Some (JArr [], Some (JStr ''0xAB''))), w)" using demo_instance by blast
  let ?call = "withdrawCall etherContractName demoWithdraw"
  have call: "ic_methodName ?call = ''withdraw''" "ic_invocationType ?call = SendInvocation"
      "ic_signingCredential ?call = PrivateKeyHex ''0x1'' ''k''" "\<not> isNullish (ic_gas ?call)"
      "ic_timeoutMs ?call = None" "ic_privateTransactionConfig ?call = None"
    by (simp_all add: withdrawCall_def contractCall_def demoWithdraw_def orGas_def estimatedGas_def isNullish_def truthy_def)
  have "\<exists>j. fst (invokeContract (htlcNode failedTx) ?call deployedWorld) = Returns j"
    using w call by (simp add: invokeContract_def run_defs isSafeToCallContractMethod_def checkNonBlank_def methodData_def sendMethod_def
        isWeb3SigningCredentialNone_def transact_def transactPrivateKey_def transactSigned_def getTxReceipt_def poolAck_def
        propA_def jprop_def htlcNode_def demoNode_def failedTx_def isNonBlank_def trimSpaces_def isSpace_def)
  then show ?thesis
    by (simp add: etherWithdraw_def withConnector_def demoWithdraw_def deployedWorld_def htlcWorld_def besuPackage_def)
qed

section \<open>Properties\<close>

text \<open>
  The last deployment through a keychain takes all requests: once the Ether plugin has deployed a contract
  at an address, a request to open a swap and a request to withdraw one, through the same keychain, run
  on the contract at that address. The request to open a swap names a contract, which is not looked at, and
  a swap in an earlier contract cannot be withdrawn this way.
\<close>

theorem last_deployment_takes_requests:
  assumes "etherInitialize W art ir w = (Returns receipt, w1)"
    and "jprop ''status'' (Some receipt) = Inr st" "truthy st"
    and "jprop ''contractAddress'' (Some receipt) = Inr (Some (JStr a))" "a \<noteq> ''''"
    and "findOneByKeychainId (ir_keychainId ir) (cw_registry w) = Inr p" "hasEntry (pl_instanceId p) etherContractName fs w"
    and "\<And>x. \<exists>x'. w3_getId W x = (Some n, x')"
    and "nc_keychainId nc = ir_keychainId ir" "wr_keychainId wr = ir_keychainId ir"
  shows "(\<exists>abi w2. contractInstance W (newContractCall nc) w1 = (Returns (Some (abi, Some (JStr a))), w2))
    \<and> (\<exists>abi w2. contractInstance W (withdrawCall etherContractName wr) w1 = (Returns (Some (abi, Some (JStr a))), w2))"
proof -
  have d: "deployContract W (initializeCall etherContractName art ir) w = (Returns receipt, w1)"
    using assms(1) by (auto simp: etherInitialize_def withConnector_def split: option.splits if_splits)
  have "\<exists>abi w2. contractInstance W call w1 = (Returns (Some (abi, Some (JStr a))), w2)"
    if "ic_keychainId call = Some (ir_keychainId ir)" "ic_contractName call = etherContractName" "ic_contractAbi call = None" for call
    using deployed_then_found [OF d assms(2-5) _ _ assms(8), of p fs call] assms(6,7) that by (auto simp: initializeCall_def)
  then show ?thesis using assms(9,10) by (simp add: newContractCall_def withdrawCall_def contractCall_def)
qed

theorem last_deployment_takes_requests_witness:
  "\<exists>abi w2. contractInstance (htlcNode goodReceipt) (newContractCall demoSwap)
     (snd (etherInitialize (htlcNode goodReceipt) htlcArtifact demoInitialize htlcWorld)) = (Returns (Some (abi, Some (JStr ''0xAB''))), w2)"
proof -
  let ?r = "etherInitialize (htlcNode goodReceipt) htlcArtifact demoInitialize htlcWorld"
  have "?r = (Returns goodReceipt, snd ?r)" using demo_deployed by (metis prod.collapse)
  moreover have "findOneByKeychainId (ir_keychainId demoInitialize) (cw_registry htlcWorld)
      = Inr \<lparr>pl_instanceId = ''kc'', pl_packageName = ''keychain'', pl_keychainId = Some ''K''\<rparr>" by code_simp
  moreover have "hasEntry ''kc'' etherContractName htlcEntry htlcWorld"
    by (simp add: hasEntry_def htlcWorld_def besuDemo_def etherContractName_def htlcEntry_def)
  ultimately show ?thesis
    using last_deployment_takes_requests [of "htlcNode goodReceipt" htlcArtifact demoInitialize htlcWorld goodReceipt "snd ?r"
        "Some (JBool True)" "''0xAB''" _ htlcEntry 1337 demoSwap demoWithdraw]
    by (simp add: goodReceipt_def jprop_def truthy_def htlcNode_def demoNode_def demoSwap_def demoInitialize_def demoWithdraw_def)
qed

text \<open>
  When the deployment of a token swap fails, the coordinator goes on with the case of the Ether swap: it
  deploys the Ether contract and opens a swap there that locks the amount of the tokens as Ether.
\<close>

theorem failed_token_swap_locks_ether:
  assumes "ow_htlcPackage r = BesuErc20" "findOneByPackageName erc20Package (cw_registry w) \<noteq> None" "isNonBlank uuid"
    and "tokenInitialize W tokenArt (ownInitialize r) w = (Returns receipt, w1)" "deployedAt receipt = None"
    and "etherInitialize W art (ownInitialize r) w1 = (Returns receipt', w2)" "deployedAt receipt' = Some address"
  shows "ownHTLC W art tokenArt uuid r w = etherNewContract W (ownNewContract r address) w2
    \<and> ic_value (newContractCall (ownNewContract r address)) = Some (ow_inputAmount r)"
proof -
  obtain c where reg: "find (\<lambda>p. pl_instanceId p = ow_connectorInstanceId r) (cw_registry w) = Some c"
    using assms(4) by (auto simp: tokenInitialize_def withConnector_def ownInitialize_def split: option.splits)
  obtain q where tok: "findOneByPackageName erc20Package (cw_registry w) = Some q" using assms(2) by auto
  have f: "follows sameRegistry (tokenInitialize W tokenArt (ownInitialize r))"
    using plugins.follows_deployContract
    by (auto simp: tokenInitialize_def withConnector_def follows_def sameRegistry_def split: option.split)
  have "cw_registry w1 = cw_registry w" using followsD [OF f assms(4)] by (auto simp: sameRegistry_def)
  moreover have "uuid \<noteq> ''''" using assms(3) by (auto simp: isNonBlank_def trimSpaces_def)
  ultimately show ?thesis using assms reg tok
    by (simp add: ownHTLC_def ownHTLCErc20_def ownHTLCBesu_def withEtherPlugin_def newPluginHtlcEthBesu_def checkNonBlank_def
        connectorNamed_def withPackage_def run_defs newContractCall_def contractCall_def ownNewContract_def)
qed

theorem failed_token_swap_locks_ether_witness:
  "\<exists>w2. ownHTLC pickyNode htlcArtifact tokenArtifact ''u'' demoOwn htlcWorld
     = etherNewContract pickyNode (ownNewContract demoOwn (JStr ''0xAB'')) w2"
proof -
  let ?t = "tokenInitialize pickyNode tokenArtifact (ownInitialize demoOwn) htlcWorld"
  let ?e = "etherInitialize pickyNode htlcArtifact (ownInitialize demoOwn) (snd ?t)"
  have "?t = (Returns failedTx, snd ?t)" "?e = (Returns goodReceipt, snd ?e)"
    using demo_token_failed by (metis prod.collapse)+
  moreover have "isNonBlank ''u''" "ow_htlcPackage demoOwn = BesuErc20" "deployedAt failedTx = None"
      "deployedAt goodReceipt = Some (JStr ''0xAB'')" "findOneByPackageName erc20Package (cw_registry htlcWorld) \<noteq> None"
    by code_simp+
  ultimately show ?thesis
    using failed_token_swap_locks_ether [of demoOwn htlcWorld "''u''" pickyNode tokenArtifact failedTx "snd ?t" htlcArtifact] by blast
qed

text \<open>
  The endpoint of the Ether plugin that withdraws a swap answers 200 whenever the connector returns, whatever the
  status of the transaction: it looks for the receipt in the result, and the connector puts it into the
  property \<open>out\<close> of the result.
\<close>

theorem failed_withdrawal_answered_200:
  assumes "etherWithdraw W r w = (Returns result, w')"
  shows "etherWithdrawEndpoint W r w = (Some 200, w')
    \<and> (\<exists>receipt. jprop ''out'' (Some result) = Inr (Some (JObj [(''transactionReceipt'', receipt)]))
        \<and> jprop ''success'' (Some result) = jprop ''status'' (Some receipt))"
proof -
  have "invokeContract W (withdrawCall etherContractName r) w = (Returns result, w')"
    using assms by (auto simp: etherWithdraw_def withConnector_def split: option.splits if_splits)
  then obtain receipt success where s: "jprop ''status'' (Some receipt) = Inr success"
      "result = JObj (optFields [(''success'', success), (''out'', Some (JObj [(''transactionReceipt'', receipt)]))])"
    by (auto simp: invokeContract_def bindA_Returns propA_def liftR_Returns withdrawCall_def contractCall_def throwE_def ret_def
        split: if_splits prod.splits)
  have "jget ''transactionReceipt'' result = None" "jprop ''out'' (Some result) = Inr (Some (JObj [(''transactionReceipt'', receipt)]))"
      "jprop ''success'' (Some result) = Inr success"
    using s(2) by (cases success; simp add: jget_def jprop_def optFields.simps)+
  then show ?thesis using s(1) assms by (simp add: etherWithdrawEndpoint_def sendAnswer_def failedReceipt_def)
qed

theorem failed_withdrawal_answered_200_witness:
  "fst (etherWithdrawEndpoint (htlcNode failedTx) demoWithdraw deployedWorld) = Some 200"
proof -
  let ?r = "etherWithdraw (htlcNode failedTx) demoWithdraw deployedWorld"
  obtain j where "fst ?r = Returns j" using demo_withdraw_failed by blast
  then have "?r = (Returns j, snd ?r)" by (metis prod.collapse)
  from failed_withdrawal_answered_200 [OF this] show ?thesis by simp
qed

end
