(* ===== verification/Postgres.thy ===== *)
theory Postgres
  imports JS_Async
begin

text \<open>
  A session with a PostgreSQL server, over any tables: statements, transactions, and what becomes of a query.

  The driver sends one query at a time, in the order in which the methods ask for them, and answers
  come back in that order. A query fails when the server refuses it, or when the connection is lost,
  before or after the statement took effect; the server then rolls an open transaction back, and
  the driver refuses all further queries.
\<close>

section \<open>Statements\<close>

text \<open>A statement gives a result and the new tables, or an error.\<close>

type_synonym ('t, 'r) query = "'t \<Rightarrow> ('r \<times> 't) option"

text \<open>The statements of a transaction as one statement.\<close>

definition andThen :: "('t, 'a) query \<Rightarrow> ('a \<Rightarrow> ('t, 'b) query) \<Rightarrow> ('t, 'b) query" where
  "andThen f k = (\<lambda>t. case f t of None \<Rightarrow> None | Some (a, t') \<Rightarrow> k a t')"

primrec eachOf :: "('a \<Rightarrow> ('t, unit) query) \<Rightarrow> 'a list \<Rightarrow> ('t, unit) query" where
  "eachOf f [] = (\<lambda>t. Some ((), t))"
| "eachOf f (x # xs) = andThen (f x) (\<lambda>_. eachOf f xs)"

text \<open>The type \<open>integer\<close> has 32 bits; \<open>NaN\<close> and larger numbers are errors.\<close>

definition int4 :: "int option \<Rightarrow> int option" where
  "int4 x = (case x of Some i \<Rightarrow> if - (2 ^ 31) \<le> i \<and> i < 2 ^ 31 then Some i else None | None \<Rightarrow> None)"

section \<open>Sessions\<close>

text \<open>
  The connection: the tables, their state when the open transaction began, whether a statement of it
  failed, whether the connection is open, and whether it was ever opened.
\<close>

record 't pg =
  pg_tables :: 't
  pg_saved :: "'t option"
  pg_aborted :: bool
  pg_alive :: bool
  pg_used :: bool

definition closedPg :: "'t \<Rightarrow> 't pg" where
  "closedPg t = \<lparr>pg_tables = t, pg_saved = None, pg_aborted = False, pg_alive = False, pg_used = False\<rparr>"

definition pgRun :: "('t, 'r) query \<Rightarrow> 't pg \<Rightarrow> 'r option \<times> 't pg" where
  "pgRun f g = (if pg_aborted g then (None, g) else case f (pg_tables g) of
      None \<Rightarrow> (None, g\<lparr>pg_aborted := pg_saved g \<noteq> None\<rparr>)
    | Some (r, t) \<Rightarrow> (Some r, g\<lparr>pg_tables := t\<rparr>))"

text \<open>A second \<open>BEGIN\<close>, and \<open>COMMIT\<close> and \<open>ROLLBACK\<close> without a transaction, are warnings.\<close>

definition pgBegin :: "'t pg \<Rightarrow> unit option \<times> 't pg" where
  "pgBegin g = (if pg_aborted g then (None, g)
     else (Some (), g\<lparr>pg_saved := (case pg_saved g of None \<Rightarrow> Some (pg_tables g) | Some t \<Rightarrow> Some t)\<rparr>))"

definition pgRollback :: "'t pg \<Rightarrow> unit option \<times> 't pg" where
  "pgRollback g = (Some (), g\<lparr>pg_tables := (case pg_saved g of None \<Rightarrow> pg_tables g | Some t \<Rightarrow> t), pg_saved := None,
     pg_aborted := False\<rparr>)"

definition pgCommit :: "'t pg \<Rightarrow> unit option \<times> 't pg" where
  "pgCommit g = (if pg_aborted g then pgRollback g else (Some (), g\<lparr>pg_saved := None\<rparr>))"

definition pgLose :: "'t pg \<Rightarrow> 't pg" where
  "pgLose g = (snd (pgRollback g))\<lparr>pg_alive := False\<rparr>"

definition pgRefuse :: "'t pg \<Rightarrow> 't pg" where
  "pgRefuse g = g\<lparr>pg_aborted := pg_aborted g \<or> pg_saved g \<noteq> None\<rparr>"

text \<open>What becomes of a query that is sent: its answer and the session afterwards.\<close>

datatype fault = Answered | Refused | LostBefore | LostAfter

definition pgAsk :: "fault \<Rightarrow> ('t pg \<Rightarrow> 'r option \<times> 't pg) \<Rightarrow> 't pg \<Rightarrow> 'r option \<times> 't pg" where
  "pgAsk ft f g = (if \<not> pg_alive g then (None, g) else case ft of
      Answered \<Rightarrow> f g
    | Refused \<Rightarrow> (None, pgRefuse g)
    | LostBefore \<Rightarrow> (None, pgLose g)
    | LostAfter \<Rightarrow> (None, pgLose (snd (f g))))"

section \<open>Laws\<close>

text \<open>A session without a transaction; one inside a transaction; one whose transaction can only be rolled back.\<close>

definition idle :: "'t \<Rightarrow> 't pg \<Rightarrow> bool" where
  "idle t g \<longleftrightarrow> pg_saved g = None \<and> \<not> pg_aborted g \<and> pg_tables g = t"

definition inside :: "'t \<Rightarrow> 't \<Rightarrow> 't pg \<Rightarrow> bool" where
  "inside t0 t g \<longleftrightarrow> pg_alive g \<and> pg_saved g = Some t0 \<and> \<not> pg_aborted g \<and> pg_tables g = t"

definition broken :: "'t \<Rightarrow> 't pg \<Rightarrow> bool" where
  "broken t0 g \<longleftrightarrow> (if pg_alive g then pg_saved g = Some t0 else idle t0 g)"

lemmas session_defs = idle_def inside_def broken_def pgAsk_def pgRun_def pgBegin_def pgCommit_def pgRollback_def pgLose_def pgRefuse_def

lemma ask_idle: "idle t g \<Longrightarrow> pgAsk ft (pgRun f) g = (a, g') \<Longrightarrow> (\<exists>t'. idle t' g' \<and> (t' = t \<or> (\<exists>r. f t = Some (r, t'))))
    \<and> (\<forall>r. a = Some r \<longrightarrow> pg_alive g \<and> pg_alive g' \<and> (\<exists>t'. f t = Some (r, t') \<and> idle t' g'))"
  by (cases ft) (auto simp: session_defs split: option.splits if_splits)

lemma ask_begin: "idle t g \<Longrightarrow> pgAsk ft pgBegin g = (a, g') \<Longrightarrow> case a of None \<Rightarrow> broken t g' \<or> idle t g' | Some _ \<Rightarrow> inside t t g'"
  by (cases ft) (auto simp: session_defs split: option.splits if_splits)

lemma ask_inside: "inside t0 t g \<Longrightarrow> pgAsk ft (pgRun f) g = (a, g') \<Longrightarrow>
    case a of None \<Rightarrow> broken t0 g' | Some r \<Rightarrow> (\<exists>t'. f t = Some (r, t') \<and> inside t0 t' g')"
  by (cases ft) (auto simp: session_defs split: option.splits if_splits)

lemma ask_commit: "inside t0 t g \<Longrightarrow> pgAsk ft pgCommit g = (a, g') \<Longrightarrow>
    case a of None \<Rightarrow> broken t0 g' \<or> (idle t g' \<and> \<not> pg_alive g') | Some _ \<Rightarrow> idle t g' \<and> pg_alive g'"
  by (cases ft) (auto simp: session_defs split: option.splits if_splits)

lemma ask_rollback: "pgAsk ft pgRollback g = (a, g') \<Longrightarrow> ft \<noteq> Refused \<Longrightarrow>
    (broken t0 g \<or> idle t0 g \<longrightarrow> idle t0 g') \<and> (idle t g \<and> \<not> pg_alive g \<longrightarrow> g' = g)"
  by (cases ft) (auto simp: session_defs split: option.splits if_splits)

end
