(* ===== verification/Persistence_Db.thy ===== *)
theory Persistence_Db
  imports Postgres JS_Map
begin

text \<open>
  The database of the Ethereum persistence plugin: the tables, views and procedures of
  \<open>src/main/sql/schema.sql\<close>, with the row types of \<open>db-client/database.types.ts\<close>. One plugin writes to the
  database. Columns that only record when a row was written, and that nothing reads, are left out.

  A number of the language that may be \<open>NaN\<close> is an optional integer; the type \<open>numeric\<close> of the database
  has that value too, and it is equal to itself there. The position of a row stands for the UUID the
  database generates for it, since no row is ever deleted; times are seconds.
\<close>

section \<open>Tables\<close>

type_synonym num = "int option"

record blockRow =
  br_number :: num
  br_created_at :: int
  br_hash :: string
  br_number_of_tx :: nat

record txRow =
  xr_id :: nat
  xr_index :: num
  xr_hash :: string
  xr_block_number :: num
  xr_from :: string
  xr_to :: string
  xr_eth_value :: num
  xr_method_signature :: string
  xr_method_name :: string

record transferRow =
  fr_transaction_id :: nat
  fr_sender :: string
  fr_recipient :: string
  fr_value :: int

record tokenMetadata =
  tm_address :: string
  tm_name :: string
  tm_symbol :: string
  tm_total_supply :: num

record tokenERC721 =
  te_account_address :: string
  te_token_address :: string
  te_uri :: string
  te_token_id :: int
  te_last_owner_change :: int

record pluginStatus =
  ps_name :: string
  ps_last_instance_id :: string
  ps_is_schema_initialized :: bool

record balanceRow =
  ba_account :: string
  ba_token :: string
  ba_balance :: int

text \<open>\<open>t_schema\<close>: the script was run, so that the tables exist; \<open>t_token_erc20\<close> is the materialized view.\<close>

record tables =
  t_schema :: bool
  t_plugin_status :: "pluginStatus list"
  t_block :: "blockRow list"
  t_transaction :: "txRow list"
  t_token_transfer :: "transferRow list"
  t_token_metadata_erc20 :: "tokenMetadata list"
  t_token_metadata_erc721 :: "tokenMetadata list"
  t_token_erc721 :: "tokenERC721 list"
  t_token_erc20 :: "balanceRow list"

definition noTables :: tables where
  "noTables = \<lparr>t_schema = False, t_plugin_status = [], t_block = [], t_transaction = [], t_token_transfer = [],
     t_token_metadata_erc20 = [], t_token_metadata_erc721 = [], t_token_erc721 = [], t_token_erc20 = []\<rparr>"

section \<open>Statements\<close>

text \<open>
  A statement gives a result and the new tables, or an error. Its constraints are the ones of the
  schema: primary and unique keys, foreign keys, and values that the type of a column refuses.
\<close>

type_synonym 'r statement = "(tables, 'r) query"

definition onTables :: "'r statement \<Rightarrow> 'r statement" where
  "onTables f t = (if t_schema t then f t else None)"

definition selectAll :: "(tables \<Rightarrow> 'r) \<Rightarrow> 'r statement" where
  "selectAll f = onTables (\<lambda>t. Some (f t, t))"

text \<open>
  The script itself: it creates an index without \<open>IF NOT EXISTS\<close> (line 332), and all its statements are
  one implicit transaction.
\<close>

definition schemaSql :: "unit statement" where
  "schemaSql t = (if t_schema t then None else Some ((), t\<lparr>t_schema := True\<rparr>))"

definition insertBlock :: "num \<Rightarrow> int option \<Rightarrow> string \<Rightarrow> nat \<Rightarrow> unit statement" where
  "insertBlock number created_at h n = onTables (\<lambda>t. case created_at of
      None \<Rightarrow> None
    | Some c \<Rightarrow> if (\<exists>b \<in> set (t_block t). br_number b = number \<or> br_hash b = h) then None
        else Some ((), t\<lparr>t_block := t_block t @ [\<lparr>br_number = number, br_created_at = c, br_hash = h, br_number_of_tx = n\<rparr>]\<rparr>))"

definition insertTransaction :: "txRow \<Rightarrow> nat statement" where
  "insertTransaction x = onTables (\<lambda>t.
     if (\<exists>y \<in> set (t_transaction t). xr_hash y = xr_hash x) \<or> (\<forall>b \<in> set (t_block t). br_number b \<noteq> xr_block_number x) then None
     else let i = length (t_transaction t) in Some (i, t\<lparr>t_transaction := t_transaction t @ [x\<lparr>xr_id := i\<rparr>]\<rparr>))"

definition insertTransfer :: "transferRow \<Rightarrow> unit statement" where
  "insertTransfer f = onTables (\<lambda>t.
     if (\<forall>x \<in> set (t_transaction t). xr_id x \<noteq> fr_transaction_id f) then None
     else Some ((), t\<lparr>t_token_transfer := t_token_transfer t @ [f]\<rparr>))"

definition insertMetadataERC20 :: "tokenMetadata \<Rightarrow> unit statement" where
  "insertMetadataERC20 m = onTables (\<lambda>t.
     if tm_address m \<in> tm_address ` set (t_token_metadata_erc20 t) then None
     else Some ((), t\<lparr>t_token_metadata_erc20 := t_token_metadata_erc20 t @ [m]\<rparr>))"

definition insertMetadataERC721 :: "tokenMetadata \<Rightarrow> unit statement" where
  "insertMetadataERC721 m = onTables (\<lambda>t.
     if tm_address m \<in> tm_address ` set (t_token_metadata_erc721 t) then None
     else Some ((), t\<lparr>t_token_metadata_erc721 := t_token_metadata_erc721 t @ [m]\<rparr>))"

text \<open>An update in place of the row with the key, or a new row (\<open>ON CONFLICT ... DO UPDATE\<close>).\<close>

definition sameToken :: "tokenERC721 \<Rightarrow> tokenERC721 \<Rightarrow> bool" where
  "sameToken e f \<longleftrightarrow> te_token_address e = te_token_address f \<and> te_token_id e = te_token_id f"

definition upsertERC721 :: "tokenERC721 \<Rightarrow> unit statement" where
  "upsertERC721 e = onTables (\<lambda>t.
     if te_token_address e \<notin> tm_address ` set (t_token_metadata_erc721 t) then None
     else if (\<exists>f \<in> set (t_token_erc721 t). sameToken e f)
     then Some ((), t\<lparr>t_token_erc721 := map (\<lambda>f. if sameToken e f then f\<lparr>te_account_address := te_account_address e\<rparr> else f) (t_token_erc721 t)\<rparr>)
     else Some ((), t\<lparr>t_token_erc721 := t_token_erc721 t @ [e]\<rparr>))"

definition upsertStatus :: "pluginStatus \<Rightarrow> unit statement" where
  "upsertStatus p = onTables (\<lambda>t.
     if ps_name p \<in> ps_name ` set (t_plugin_status t)
     then Some ((), t\<lparr>t_plugin_status := map (\<lambda>q. if ps_name q = ps_name p then p else q) (t_plugin_status t)\<rparr>)
     else Some ((), t\<lparr>t_plugin_status := t_plugin_status t @ [p]\<rparr>))"

section \<open>Views and procedures\<close>

text \<open>The views that join each token transfer with its transaction, its block and the token called.\<close>

record historyRow =
  hr_token :: string
  hr_created_at :: int
  hr_sender :: string
  hr_recipient :: string
  hr_value :: int

definition tokenHistory :: "tokenMetadata list \<Rightarrow> tables \<Rightarrow> historyRow list" where
  "tokenHistory tokens t =
     [\<lparr>hr_token = xr_to x, hr_created_at = br_created_at b, hr_sender = fr_sender f, hr_recipient = fr_recipient f, hr_value = fr_value f\<rparr>.
       x \<leftarrow> t_transaction t, b \<leftarrow> filter (\<lambda>b. br_number b = xr_block_number x) (t_block t),
       f \<leftarrow> filter (\<lambda>f. fr_transaction_id f = xr_id x) (t_token_transfer t),
       m \<leftarrow> filter (\<lambda>m. tm_address m = xr_to x) tokens]"

definition erc20_token_history_view :: "tables \<Rightarrow> historyRow list" where
  "erc20_token_history_view t = tokenHistory (t_token_metadata_erc20 t) t"

definition erc721_token_history_view :: "tables \<Rightarrow> historyRow list" where
  "erc721_token_history_view t = tokenHistory (t_token_metadata_erc721 t) t"

text \<open>
  The query of the view \<open>token_erc20\<close>: the sums received and the negated sums sent, one row per account
  and token each; their \<open>UNION\<close>, which removes duplicate rows; and the sum of these per account and
  token, where it is not negative.
\<close>

definition sumBy :: "(historyRow \<Rightarrow> string) \<Rightarrow> string \<Rightarrow> string \<Rightarrow> historyRow list \<Rightarrow> int" where
  "sumBy who a k h = sum_list (map hr_value (filter (\<lambda>r. who r = a \<and> hr_token r = k) h))"

definition groupSums :: "(historyRow \<Rightarrow> string) \<Rightarrow> int \<Rightarrow> historyRow list \<Rightarrow> balanceRow list" where
  "groupSums who sign h = map (\<lambda>(a, k). \<lparr>ba_account = a, ba_token = k, ba_balance = sign * sumBy who a k h\<rparr>)
     (remdups (map (\<lambda>r. (who r, hr_token r)) h))"

definition token_erc20_query :: "tables \<Rightarrow> balanceRow list" where
  "token_erc20_query t =
     (let h = erc20_token_history_view t;
          balances = remdups (groupSums hr_recipient 1 h @ groupSums hr_sender (- 1) h)
      in filter (\<lambda>b. ba_balance b \<ge> 0) (map (\<lambda>(a, k). \<lparr>ba_account = a, ba_token = k,
           ba_balance = sum_list (map ba_balance (filter (\<lambda>b. ba_account b = a \<and> ba_token b = k) balances))\<rparr>)
         (remdups (map (\<lambda>b. (ba_account b, ba_token b)) balances))))"

definition refreshERC20 :: "unit statement" where
  "refreshERC20 = onTables (\<lambda>t. Some ((), t\<lparr>t_token_erc20 := token_erc20_query t\<rparr>))"

text \<open>
  \<open>DISTINCT ON (token_address, token_id) ... ORDER BY token_address, token_id, created_at DESC\<close>: one of the
  latest transfers per token. Which of several with the same time is left open by the language, and
  is the parameter \<open>pick\<close>.
\<close>

definition latestTransfers :: "(historyRow list \<Rightarrow> historyRow) \<Rightarrow> historyRow list \<Rightarrow> historyRow list" where
  "latestTransfers pick h = map (\<lambda>(k, i).
       let rows = filter (\<lambda>r. hr_token r = k \<and> hr_value r = i) h
       in pick (filter (\<lambda>r. \<forall>s \<in> set rows. hr_created_at s \<le> hr_created_at r) rows))
     (remdups (map (\<lambda>r. (hr_token r, hr_value r)) h))"

definition applyTransfer :: "tokenERC721 list \<Rightarrow> historyRow \<Rightarrow> tokenERC721 list" where
  "applyTransfer es r =
     (let here = (\<lambda>e. te_token_address e = hr_token r \<and> te_token_id e = hr_value r)
      in if (\<exists>e \<in> set es. here e)
         then map (\<lambda>e. if here e \<and> te_last_owner_change e < hr_created_at r
             then e\<lparr>te_account_address := hr_recipient r, te_last_owner_change := hr_created_at r\<rparr> else e) es
         else es @ [\<lparr>te_account_address = hr_recipient r, te_token_address = hr_token r, te_uri = '''', te_token_id = hr_value r,
           te_last_owner_change = hr_created_at r\<rparr>])"

definition update_issued_erc721_tokens :: "(historyRow list \<Rightarrow> historyRow) \<Rightarrow> num \<Rightarrow> unit statement" where
  "update_issued_erc721_tokens pick n = onTables (\<lambda>t. case find (\<lambda>b. br_number b = n) (t_block t) of
      None \<Rightarrow> None
    | Some b \<Rightarrow> Some ((), t\<lparr>t_token_erc721 := foldl applyTransfer (t_token_erc721 t)
        (latestTransfers pick (filter (\<lambda>r. hr_created_at r \<ge> br_created_at b) (erc721_token_history_view t)))\<rparr>))"

text \<open>
  \<open>get_missing_blocks_in_range\<close>; the parameters have the type \<open>integer\<close> of 32 bits, so that \<open>NaN\<close> and larger
  numbers are errors.
\<close>

definition get_missing_blocks_in_range :: "num \<Rightarrow> num \<Rightarrow> int list statement" where
  "get_missing_blocks_in_range a b = onTables (\<lambda>t. case (int4 a, int4 b) of
      (Some m, Some n) \<Rightarrow> Some (filter (\<lambda>i. \<forall>r \<in> set (t_block t). br_number r \<noteq> Some i) [m..n], t)
    | _ \<Rightarrow> None)"

end
