(* ===== verification/JS_Set.thy ===== *)
theory JS_Set
  imports JS_Async
begin

text \<open>
  The JavaScript \<open>Set\<close> as the language defines it: the list of its elements in the order of insertion, in
  which a deleted element leaves an empty place. A \<open>for ... of\<close> loop walks over the places and so visits
  the elements that are added while it runs, and not those that are deleted before their turn.
\<close>

section \<open>Operations\<close>

type_synonym 'a jsset = "'a option list"

definition setElems :: "'a jsset \<Rightarrow> 'a set" where
  "setElems s = {a. Some a \<in> set s}"

definition setAdd :: "'a \<Rightarrow> 'a jsset \<Rightarrow> 'a jsset" where
  "setAdd a s = (if Some a \<in> set s then s else s @ [Some a])"

definition setDelete :: "'a \<Rightarrow> 'a jsset \<Rightarrow> 'a jsset" where
  "setDelete a s = map (\<lambda>p. if p = Some a then None else p) s"

definition setSize :: "'a jsset \<Rightarrow> nat" where
  "setSize s = length (filter (\<lambda>p. p \<noteq> None) s)"

text \<open>
  \<open>for (const a of s) { acc = await body(acc, a) }\<close>, from place \<open>i\<close>. The bound on the places is not a part of
  the language; a loop that exceeds it does not return.
\<close>

fun forOfSet :: "nat \<Rightarrow> ('w \<Rightarrow> 'a jsset) \<Rightarrow> ('b \<Rightarrow> 'a \<Rightarrow> ('w, 'e, 'b) act) \<Rightarrow> nat \<Rightarrow> 'b \<Rightarrow> ('w, 'e, 'b) act" where
  "forOfSet 0 s body i acc = never"
| "forOfSet (Suc fuel) s body i acc = (\<lambda>w.
     if i < length (s w)
     then (case s w ! i of
         None \<Rightarrow> forOfSet fuel s body (Suc i) acc w
       | Some a \<Rightarrow> bindA (body acc a) (\<lambda>acc'. forOfSet fuel s body (Suc i) acc') w)
     else (Returns acc, w))"

section \<open>Laws\<close>

lemma setElems_Nil [simp]: "setElems [] = {}"
  by (simp add: setElems_def)

lemma setElems_add [simp]: "setElems (setAdd a s) = insert a (setElems s)"
  by (auto simp: setElems_def setAdd_def)

lemma setElems_delete [simp]: "setElems (setDelete a s) = setElems s - {a}"
  by (auto simp: setElems_def setDelete_def image_iff split: if_splits)

lemma setSize_zero [simp]: "setSize s = 0 \<longleftrightarrow> setElems s = {}"
  by (auto simp: setSize_def setElems_def filter_empty_conv) (metis option.exhaust)

lemma length_setDelete [simp]: "length (setDelete a s) = length s"
  by (simp add: setDelete_def)

lemma length_setAdd: "length (setAdd a s) \<le> Suc (length s)"
  by (simp add: setAdd_def)

lemma length_setAdd_ge: "length s \<le> length (setAdd a s)"
  by (simp add: setAdd_def)

text \<open>
  The loop ends when its fuel exceeds the number of places that there are and may still be added: \<open>room\<close>
  bounds the places, and the body neither raises it nor removes a place.
\<close>

lemma forOfSet_ends:
  assumes "\<And>acc a w. fst (body acc a w) \<noteq> Pending" "\<And>acc a w. room (snd (body acc a w)) \<le> room w"
    and "\<And>acc a w. length (s w) \<le> length (s (snd (body acc a w)))" "\<And>w. length (s w) \<le> room w"
    and "i \<le> length (s w)" "room w < fuel + i"
  shows "fst (forOfSet fuel s body i acc w) \<noteq> Pending"
  using assms(5,6)
proof (induction fuel arbitrary: i acc w)
  case 0
  then show ?case using assms(4) [of w] by simp
next
  case (Suc fuel)
  have "fst (forOfSet fuel s body (Suc i) acc' (snd (body acc a w))) \<noteq> Pending" if "i < length (s w)" for acc' a
    using Suc.prems assms(2) [of acc a w] assms(3) [of w acc a] that by (intro Suc.IH) linarith+
  moreover have "fst (forOfSet fuel s body (Suc i) acc w) \<noteq> Pending" if "i < length (s w)"
    using Suc.prems that by (intro Suc.IH) linarith+
  ultimately show ?case using assms(1) by (auto simp: bindA_def split: option.split prod.split outcome.split) (metis fst_conv snd_conv)+
qed

end
