(* ===== verification/Persistence_Client.thy ===== *)
theory Persistence_Client
  imports Persistence_Db JS_Set
begin

text \<open>
  The connection of the Ethereum persistence plugin to its database, and the methods of
  \<open>PostgresDatabaseClient\<close> (\<open>db-client/db-client.ts\<close>), over the state of the whole plugin.

  The plugin calls \<open>addFailedBlock\<close> without waiting for it: the
  answer to its query is on its way (\<open>pw_floating\<close>) until the plugin waits for something else.
\<close>

section \<open>State of the plugin\<close>

datatype TokenTypeV1 = ERC20 | ERC721

record MonitoredToken =
  mt_type :: TokenTypeV1
  mt_name :: string
  mt_symbol :: string

record TrackedOperationV1 =
  to_startAt :: string
  to_operation :: string

text \<open>A floating answer is the number of a block and whether its row was found.\<close>

record 'x persistWorld =
  pw_pg :: "tables pg"
  pw_dbConnected :: bool
  pw_instanceId :: string
  pw_isConnected :: bool
  pw_webServices :: bool
  pw_monitoredTokens :: "(string, MonitoredToken) jsmap"
  pw_failedBlocks :: "num jsset"
  pw_lastSeenBlock :: num
  pw_trackedOperations :: "(string, TrackedOperationV1) jsmap"
  pw_monitor :: bool
  pw_floating :: "(num \<times> bool) list"
  pw_ext :: 'x

type_synonym ('x, 'a) pact = "('x persistWorld, jsError, 'a) act"

text \<open>What the database decides: faults, the choices of SQL, the clock of the server.\<close>

record 'x database =
  db_fault :: "'x \<Rightarrow> fault \<times> 'x"
  db_connects :: "'x \<Rightarrow> bool \<times> 'x"
  db_pick :: "historyRow list \<Rightarrow> historyRow"
  db_now :: "'x \<Rightarrow> int"

section \<open>Waiting\<close>

text \<open>The end of \<open>addFailedBlock\<close>, when the answer has come back.\<close>

definition deliver1 :: "num \<times> bool \<Rightarrow> num jsset \<Rightarrow> num jsset" where
  "deliver1 a s = (if snd a then setDelete (fst a) s else setAdd (fst a) s)"

definition deliverAnswers :: "nat \<Rightarrow> 'x persistWorld \<Rightarrow> 'x persistWorld" where
  "deliverAnswers n w = w\<lparr>pw_failedBlocks := fold deliver1 (take n (pw_floating w)) (pw_failedBlocks w),
     pw_floating := drop n (pw_floating w)\<rparr>"

text \<open>\<open>await this.client.query(...)\<close>: all earlier answers come first.\<close>

definition pgQuery :: "'x database \<Rightarrow> (tables pg \<Rightarrow> 'r option \<times> tables pg) \<Rightarrow> ('x, 'r) pact" where
  "pgQuery D f = (\<lambda>w. case db_fault D (pw_ext w) of (ft, x) \<Rightarrow>
     case pgAsk ft f (pw_pg w) of (a, g) \<Rightarrow>
       ((case a of Some r \<Rightarrow> Returns r | None \<Rightarrow> Throws LibraryError),
        deliverAnswers (length (pw_floating w)) (w\<lparr>pw_pg := g, pw_ext := x\<rparr>)))"

text \<open>A server does not refuse to roll back.\<close>

definition pgQueryRollback :: "'x database \<Rightarrow> ('x, unit) pact" where
  "pgQueryRollback D = pgQuery (D\<lparr>db_fault := (\<lambda>x. case db_fault D x of (ft, x') \<Rightarrow> (if ft = Refused then Answered else ft, x'))\<rparr>)
     pgRollback"

section \<open>PostgresDatabaseClient\<close>

definition assertConnected :: "('x, unit) pact" where
  "assertConnected = bindA (getsA pw_dbConnected) (\<lambda>c.
     ensure c (ErrorMsg ''PostgresDatabaseClient method called before connecting to the DB!''))"

definition dbQuery :: "'x database \<Rightarrow> 'r statement \<Rightarrow> ('x, 'r) pact" where
  "dbQuery D f = thenA assertConnected (pgQuery D (pgRun f))"

text \<open>The driver refuses to open a connection a second time.\<close>

definition dbConnect :: "'x database \<Rightarrow> ('x, unit) pact" where
  "dbConnect D = (\<lambda>w. if pg_used (pw_pg w) then (Throws LibraryError, w)
     else case db_connects D (pw_ext w) of (ok, x) \<Rightarrow>
       let w' = deliverAnswers (length (pw_floating w)) (w\<lparr>pw_pg := (pw_pg w)\<lparr>pg_used := True, pg_alive := ok\<rparr>, pw_ext := x\<rparr>)
       in if ok then (Returns (), w'\<lparr>pw_dbConnected := True\<rparr>) else (Throws LibraryError, w'))"

definition dbShutdown :: "('x, unit) pact" where
  "dbShutdown = modifyA (\<lambda>w. deliverAnswers (length (pw_floating w)) (w\<lparr>pw_pg := pgLose (pw_pg w), pw_dbConnected := False\<rparr>))"

definition getPluginStatus :: "'x database \<Rightarrow> string \<Rightarrow> ('x, pluginStatus) pact" where
  "getPluginStatus D name = bindA (dbQuery D (selectAll (\<lambda>t. filter (\<lambda>p. ps_name p = name) (t_plugin_status t)))) (\<lambda>rows.
     case rows of [p] \<Rightarrow> ret p
     | _ \<Rightarrow> throwE (ErrorMsg (''Could not read status of plugin #'' @ name @ '' from the DB'')))"

definition initializePlugin :: "'x database \<Rightarrow> string \<Rightarrow> string \<Rightarrow> ('x, unit) pact" where
  "initializePlugin D name instanceId =
     thenA assertConnected (
     bindA (catchA (bindA (getPluginStatus D name) (\<lambda>p. ret (ps_is_schema_initialized p))) (\<lambda>e. ret False)) (\<lambda>isSchemaInitialized.
     thenA (if isSchemaInitialized then ret () else pgQuery D (pgRun schemaSql)) (
     pgQuery D (pgRun (upsertStatus \<lparr>ps_name = name, ps_last_instance_id = instanceId, ps_is_schema_initialized = True\<rparr>)))))"

definition getTokenMetadataERC20 :: "'x database \<Rightarrow> ('x, tokenMetadata list) pact" where
  "getTokenMetadataERC20 D = dbQuery D (selectAll t_token_metadata_erc20)"

definition getTokenMetadataERC721 :: "'x database \<Rightarrow> ('x, tokenMetadata list) pact" where
  "getTokenMetadataERC721 D = dbQuery D (selectAll t_token_metadata_erc721)"

definition insertTokenMetadataERC20 :: "'x database \<Rightarrow> tokenMetadata \<Rightarrow> ('x, unit) pact" where
  "insertTokenMetadataERC20 D m = dbQuery D (insertMetadataERC20 m)"

definition insertTokenMetadataERC721 :: "'x database \<Rightarrow> tokenMetadata \<Rightarrow> ('x, unit) pact" where
  "insertTokenMetadataERC721 D m = dbQuery D (insertMetadataERC721 m)"

text \<open>The time of a new row is the default of its column, the time of the server.\<close>

definition upsertTokenERC721 :: "'x database \<Rightarrow> string \<Rightarrow> string \<Rightarrow> string \<Rightarrow> int \<Rightarrow> ('x, unit) pact" where
  "upsertTokenERC721 D account token uri i = bindA (getsA (\<lambda>w. db_now D (pw_ext w))) (\<lambda>now.
     dbQuery D (upsertERC721 \<lparr>te_account_address = account, te_token_address = token, te_uri = uri, te_token_id = i,
       te_last_owner_change = now\<rparr>))"

definition getTokenERC20 :: "'x database \<Rightarrow> ('x, balanceRow list) pact" where
  "getTokenERC20 D = dbQuery D (selectAll t_token_erc20)"

definition getTokenERC721 :: "'x database \<Rightarrow> ('x, tokenERC721 list) pact" where
  "getTokenERC721 D = dbQuery D (selectAll t_token_erc721)"

definition syncTokenBalanceERC20 :: "'x database \<Rightarrow> ('x, unit) pact" where
  "syncTokenBalanceERC20 D = dbQuery D refreshERC20"

definition syncTokenBalanceERC721 :: "'x database \<Rightarrow> num \<Rightarrow> ('x, unit) pact" where
  "syncTokenBalanceERC721 D fromBlockNumber = dbQuery D (update_issued_erc721_tokens (db_pick D) fromBlockNumber)"

definition blockRows :: "num \<Rightarrow> tables \<Rightarrow> blockRow list" where
  "blockRows n t = filter (\<lambda>b. br_number b = n) (t_block t)"

definition dbGetBlock :: "'x database \<Rightarrow> num \<Rightarrow> ('x, blockRow) pact" where
  "dbGetBlock D n = bindA (dbQuery D (selectAll (blockRows n))) (\<lambda>rows.
     case rows of [b] \<Rightarrow> ret b
     | _ \<Rightarrow> throwE (ErrorMsg (''Could not read block #'' @ (case n of Some i \<Rightarrow> intToString i | None \<Rightarrow> ''NaN'') @ '' from the DB'')))"

subsection \<open>Blocks\<close>

record BlockDataTransferInput =
  ti_sender :: string
  ti_recipient :: string
  ti_value :: int

record BlockDataTransactionInput =
  tx_index :: num
  tx_hash :: string
  tx_from :: string
  tx_to :: string
  tx_eth_value :: num
  tx_method_signature :: string
  tx_method_name :: string
  tx_token_transfers :: "BlockDataTransferInput list"

record InsertBlockDataInput =
  ib_number :: num
  ib_created_at :: "int option"
  ib_hash :: string
  ib_number_of_tx :: nat
  ib_transactions :: "BlockDataTransactionInput list"

definition txRowOf :: "num \<Rightarrow> BlockDataTransactionInput \<Rightarrow> txRow" where
  "txRowOf n x = \<lparr>xr_id = 0, xr_index = tx_index x, xr_hash = tx_hash x, xr_block_number = n, xr_from = tx_from x, xr_to = tx_to x,
     xr_eth_value = tx_eth_value x, xr_method_signature = tx_method_signature x, xr_method_name = tx_method_name x\<rparr>"

definition transferRowOf :: "nat \<Rightarrow> BlockDataTransferInput \<Rightarrow> transferRow" where
  "transferRowOf i f = \<lparr>fr_transaction_id = i, fr_sender = ti_sender f, fr_recipient = ti_recipient f, fr_value = ti_value f\<rparr>"

definition insertTxData :: "'x database \<Rightarrow> num \<Rightarrow> BlockDataTransactionInput \<Rightarrow> ('x, unit) pact" where
  "insertTxData D n x = bindA (pgQuery D (pgRun (insertTransaction (txRowOf n x)))) (\<lambda>i.
     forEachA (\<lambda>f. pgQuery D (pgRun (insertTransfer (transferRowOf i f)))) (tx_token_transfers x))"

text \<open>An insertion that succeeds reports one row, so that the tests of the row count never fail.\<close>

definition insertBlockData :: "'x database \<Rightarrow> InsertBlockDataInput \<Rightarrow> ('x, unit) pact" where
  "insertBlockData D i =
     thenA assertConnected (catchA
       (thenA (pgQuery D pgBegin) (
        thenA (pgQuery D (pgRun (insertBlock (ib_number i) (ib_created_at i) (ib_hash i) (ib_number_of_tx i)))) (
        thenA (forEachA (insertTxData D (ib_number i)) (ib_transactions i)) (
        pgQuery D pgCommit))))
       (\<lambda>e. thenA (pgQueryRollback D) (
        throwE (ErrorMsg ''Could not insert block data into the database - transaction reverted''))))"

definition getMissingBlocksInRange :: "'x database \<Rightarrow> num \<Rightarrow> num \<Rightarrow> ('x, int list) pact" where
  "getMissingBlocksInRange D a b =
     thenA (ensure (case (a, b) of (Some m, Some n) \<Rightarrow> m \<le> n | _ \<Rightarrow> False)
       (ErrorMsg (CHR 0x22 # ''getMissingBlocksInRange startBlockNumber larger than endBlockNumber'' @ CHR 0x22
         # '' is falsy, need a truthy value.''))) (
     dbQuery D (get_missing_blocks_in_range a b))"

end
