(* ===== verification/Persistence_Ethereum.thy ===== *)
theory Persistence_Ethereum
  imports Persistence_Client
begin

text \<open>
  The Ethereum persistence plugin (\<open>plugin-persistence-ethereum.ts\<close>), with its token clients
  (\<open>token-client\<close>), \<open>utils.ts\<close> and its endpoint. It copies the blocks of a ledger into the database, keeps
  the numbers of the blocks it could not store, and updates the token balances when there are none.

  The client of the Ethereum connector and the libraries for addresses and contract interfaces are
  parameters. Public methods run one after the other; the mutexes then never wait.
\<close>

section \<open>The ledger and the libraries\<close>

record TransactionInfo =
  in_hash :: string
  in_from :: "string option"
  in_to :: "string option"
  in_value :: string
  in_input :: string

record 'l TransactionReceipt =
  rc_to :: "string option"
  rc_logs :: "'l list"
  rc_transactionIndex :: string

record BlockData =
  bk_number :: string
  bk_timestamp :: "string + int"
  bk_hash :: "string option"
  bk_transactions :: "TransactionInfo list"

record LogDescription =
  ld_name :: string
  ld_from :: "string option"
  ld_to :: "string option"
  ld_value :: "int option"
  ld_tokenId :: "int option"

datatype blockRef = BlockNo num | Latest

text \<open>
  An answer of the connector: a status and the data, or a rejected promise. \<open>api_delivered\<close> is the number of
  floating answers of the database that come back while the plugin waits for the connector. \<open>lb_tokens\<close>
  bounds the number of tokens of a contract that are looked for.
\<close>

record ('x, 'l) ledgerApi =
  api_getTransactionReceipt :: "string \<Rightarrow> 'x \<Rightarrow> 'l TransactionReceipt option response \<times> 'x"
  api_getBlock :: "blockRef \<Rightarrow> bool \<Rightarrow> 'x \<Rightarrow> BlockData option response \<times> 'x"
  api_invokeContract :: "TokenTypeV1 \<Rightarrow> string \<Rightarrow> string \<Rightarrow> int list \<Rightarrow> 'x \<Rightarrow> (bool \<times> jsv) response \<times> 'x"
  api_watchBlocks :: bool
  api_delivered :: "'x \<Rightarrow> nat"
  lb_toChecksumAddress :: "string \<Rightarrow> string option"
  lb_isAddress :: "string \<Rightarrow> bool"
  lb_parseTransaction :: "TokenTypeV1 \<Rightarrow> string \<Rightarrow> string \<Rightarrow> string option"
  lb_parseLog :: "TokenTypeV1 \<Rightarrow> 'l \<Rightarrow> LogDescription option"
  lb_uuid :: "'x \<Rightarrow> string \<times> 'x"
  lb_dateNow :: "'x \<Rightarrow> int"
  lb_tokens :: nat

definition apiCall :: "('x, 'l) ledgerApi \<Rightarrow> ('x \<Rightarrow> 'd response \<times> 'x) \<Rightarrow> ('x, int \<times> 'd) pact" where
  "apiCall L f = (\<lambda>w. case f (pw_ext w) of (r, x) \<Rightarrow>
     ((case r of Rejected \<Rightarrow> Throws RequestError | Response status d \<Rightarrow> Returns (status, d)),
      deliverAnswers (api_delivered L x) (w\<lparr>pw_ext := x\<rparr>)))"

section \<open>Numbers and addresses\<close>

text \<open>\<open>parseInt(s, radix)\<close> with an explicit radix of 10 or 16.\<close>

definition signed :: "(string \<Rightarrow> nat option) \<Rightarrow> string \<Rightarrow> int option" where
  "signed magnitude s = (case dropWhile isSpace s of
     [] \<Rightarrow> None
   | c # r \<Rightarrow> if c = CHR ''-'' then map_option (\<lambda>n. - int n) (magnitude r)
              else if c = CHR ''+'' then map_option int (magnitude r)
              else map_option int (magnitude (c # r)))"

definition decimalMagnitude :: "string \<Rightarrow> nat option" where
  "decimalMagnitude s = (case takeWhile isDigit s of [] \<Rightarrow> None | ds \<Rightarrow> Some (digitsVal 0 ds))"

definition hexMagnitude :: "string \<Rightarrow> nat option" where
  "hexMagnitude s = (let r = (if take 2 s = ''0x'' \<or> take 2 s = ''0X'' then drop 2 s else s) in
     case takeWhile (\<lambda>c. hexDigitVal c \<noteq> None) r of [] \<Rightarrow> None | ds \<Rightarrow> Some (hexDigitsVal 0 ds))"

text \<open>
  A number is the nearest one with a mantissa of 53 bits, the even one of two that are equally near; below
  two to the 53 it is exact. \<open>excessBits\<close> is the number of bits beyond the mantissa.
\<close>

fun excessBits :: "nat \<Rightarrow> nat" where
  "excessBits n = (if n < 2 ^ 53 then 0 else Suc (excessBits (n div 2)))"

declare excessBits.simps [simp del]

definition toDouble :: "int \<Rightarrow> int" where
  "toDouble n = (let a = nat \<bar>n\<bar>; e = excessBits a; q = a div 2 ^ e; r = a mod 2 ^ e;
       m = (if 2 ^ e < 2 * r \<or> (2 ^ e = 2 * r \<and> odd q) then q + 1 else q)
     in sgn n * int (m * 2 ^ e))"

definition parseInt10 :: "string \<Rightarrow> num" where
  "parseInt10 s = map_option toDouble (signed decimalMagnitude s)"

definition parseInt16 :: "string \<Rightarrow> num" where
  "parseInt16 s = map_option toDouble (signed hexMagnitude s)"

definition normalizeAddress :: "('x, 'l) ledgerApi \<Rightarrow> string option \<Rightarrow> string result" where
  "normalizeAddress L address = (if address \<in> {None, Some ''''} then Inr ''''
     else case lb_toChecksumAddress L (the address) of
       None \<Rightarrow> Inl LibraryError
     | Some c \<Rightarrow> if lb_isAddress L c then Inr c
         else Inl (ErrorMsg (''Provided address '' @ the address @ '' is not a valid ethereum address!'')))"

section \<open>Token clients\<close>

definition joined :: "int list \<Rightarrow> string" where
  "joined is = (case map intToString is of [] \<Rightarrow> '''' | t # ts \<Rightarrow> t @ concat (map (\<lambda>u. CHR '','' # u) ts))"

definition quoted :: "string \<Rightarrow> string" where
  "quoted s = CHR 0x27 # s @ [CHR 0x27]"

text \<open>The client of a contract: the constructor refuses an empty address.\<close>

definition newTokenClient :: "string \<Rightarrow> ('x, unit) pact" where
  "newTokenClient address = ensure (address \<noteq> '''')
     (ErrorMsg (CHR 0x22 # ''TokenClient#constructor() arg address'' @ CHR 0x22 # '' is falsy, need a truthy value.''))"

definition callContractMethod :: "('x, 'l) ledgerApi \<Rightarrow> TokenTypeV1 \<Rightarrow> string \<Rightarrow> string \<Rightarrow> int list \<Rightarrow> ('x, jsv) pact" where
  "callContractMethod L ty address methodName args =
     rethrowAs (ErrorMsg (''Calling contract method '' @ methodName @ '' with args '' @ quoted (joined args) @ '' failed''))
       (bindA (apiCall L (api_invokeContract L ty address methodName args)) (\<lambda>(status, success, callOutput).
        if status \<noteq> 200 \<or> \<not> success then throwE (ErrorMsg (jsTextV callOutput)) else ret callOutput))"

definition tokenText :: "('x, 'l) ledgerApi \<Rightarrow> TokenTypeV1 \<Rightarrow> string \<Rightarrow> string \<Rightarrow> int list \<Rightarrow> ('x, string) pact" where
  "tokenText L ty address methodName args = bindA (callContractMethod L ty address methodName args) (\<lambda>v.
     case v of Some (JStr s) \<Rightarrow> ret s
     | _ \<Rightarrow> throwE (ErrorMsg (''Unexpected response type received for method '' @ quoted methodName @ '': '' @ jsTextV v)))"

section \<open>Operations in progress\<close>

definition addTrackedOperation :: "('x, 'l) ledgerApi \<Rightarrow> string \<Rightarrow> string \<Rightarrow> 'x persistWorld \<Rightarrow> 'x persistWorld" where
  "addTrackedOperation L i operation w = (if map_of (pw_trackedOperations w) i \<noteq> None then w
     else w\<lparr>pw_trackedOperations := mapSet i \<lparr>to_startAt = intToString (lb_dateNow L (pw_ext w)), to_operation = operation\<rparr>
       (pw_trackedOperations w)\<rparr>)"

definition removeTrackedOperation :: "string \<Rightarrow> 'x persistWorld \<Rightarrow> 'x persistWorld" where
  "removeTrackedOperation i w = w\<lparr>pw_trackedOperations := mapDelete i (pw_trackedOperations w)\<rparr>"

definition newUuid :: "('x, 'l) ledgerApi \<Rightarrow> ('x, string) pact" where
  "newUuid L = (\<lambda>w. case lb_uuid L (pw_ext w) of (i, x) \<Rightarrow> (Returns i, w\<lparr>pw_ext := x\<rparr>))"

text \<open>\<open>const operationId = uuidv4(); this.addTrackedOperation(...); try { m } finally { this.removeTrackedOperation(...) }\<close>\<close>

definition tracked :: "('x, 'l) ledgerApi \<Rightarrow> string \<Rightarrow> ('x, 'a) pact \<Rightarrow> ('x, 'a) pact" where
  "tracked L operation m = bindA (newUuid L) (\<lambda>i.
     thenA (modifyA (addTrackedOperation L i operation)) (finallyA m (removeTrackedOperation i)))"

section \<open>Blocks\<close>

definition getTransactionReceipt :: "('x, 'l) ledgerApi \<Rightarrow> string \<Rightarrow> ('x, 'l TransactionReceipt option) pact" where
  "getTransactionReceipt L txId = bindA (apiCall L (api_getTransactionReceipt L txId)) (\<lambda>(status, d).
     if status = 200 then ret d
     else throwE (ErrorMsg (''Could not get transaction receipt for transaction ID '' @ txId)))"

definition refText :: "blockRef \<Rightarrow> string" where
  "refText r = (case r of Latest \<Rightarrow> ''latest'' | BlockNo None \<Rightarrow> ''NaN'' | BlockNo (Some i) \<Rightarrow> intToString i)"

definition getBlockFromLedger :: "('x, 'l) ledgerApi \<Rightarrow> blockRef \<Rightarrow> bool \<Rightarrow> ('x, BlockData option) pact" where
  "getBlockFromLedger L r full = bindA (apiCall L (api_getBlock L r full)) (\<lambda>(status, d).
     if status = 200 then ret d
     else throwE (ErrorMsg (''Could not get block with number '' @ refText r @ '' from the ledger'')))"

definition decodeTokenMethodName :: "('x, 'l) ledgerApi \<Rightarrow> TransactionInfo \<Rightarrow> TokenTypeV1 \<Rightarrow> string" where
  "decodeTokenMethodName L tx ty = (case lb_parseTransaction L ty (in_input tx) (in_value tx) of None \<Rightarrow> '''' | Some name \<Rightarrow> name)"

definition transferOf :: "('x, 'l) ledgerApi \<Rightarrow> TokenTypeV1 \<Rightarrow> LogDescription \<Rightarrow> BlockDataTransferInput result" where
  "transferOf L ty t =
     bindR (normalizeAddress L (ld_from t)) (\<lambda>sender.
     bindR (normalizeAddress L (ld_to t)) (\<lambda>recipient.
     case (case ty of ERC20 \<Rightarrow> ld_value t | ERC721 \<Rightarrow> ld_tokenId t) of
       None \<Rightarrow> Inl TypeError
     | Some v \<Rightarrow> Inr \<lparr>ti_sender = sender, ti_recipient = recipient, ti_value = v\<rparr>))"

definition decodeTokenTransfers :: "('x, 'l) ledgerApi \<Rightarrow> 'l TransactionReceipt \<Rightarrow> TokenTypeV1 \<Rightarrow> BlockDataTransferInput list result" where
  "decodeTokenTransfers L txReceipt ty =
     bindR (mapR (\<lambda>l. case lb_parseLog L ty l of None \<Rightarrow> Inl LibraryError | Some d \<Rightarrow> Inr d) (rc_logs txReceipt)) (\<lambda>logs.
     mapR (transferOf L ty) (filter (\<lambda>d. ld_name d = ''Transfer'') logs))"

text \<open>The part of \<open>parseBlockTransaction\<close> after the receipt has come.\<close>

definition transactionInput ::
  "('x, 'l) ledgerApi \<Rightarrow> (string, MonitoredToken) jsmap \<Rightarrow> TransactionInfo \<Rightarrow> 'l TransactionReceipt \<Rightarrow> BlockDataTransactionInput result" where
  "transactionInput L tokens tx txReceipt =
     bindR (normalizeAddress L (rc_to txReceipt)) (\<lambda>target.
     bindR (case map_of tokens target of
         None \<Rightarrow> Inr ('''', [])
       | Some m \<Rightarrow> bindR (decodeTokenTransfers L txReceipt (mt_type m)) (\<lambda>fs. Inr (decodeTokenMethodName L tx (mt_type m), fs))) (\<lambda>(name, fs).
     bindR (normalizeAddress L (in_from tx)) (\<lambda>sender.
     bindR (normalizeAddress L (in_to tx)) (\<lambda>recipient.
     Inr \<lparr>tx_index = parseInt10 (rc_transactionIndex txReceipt), tx_hash = in_hash tx, tx_from = sender, tx_to = recipient,
       tx_eth_value = parseInt10 (in_value tx), tx_method_signature = take 10 (in_input tx), tx_method_name = name,
       tx_token_transfers = fs\<rparr>))))"

definition parseBlockTransaction :: "('x, 'l) ledgerApi \<Rightarrow> TransactionInfo \<Rightarrow> ('x, BlockDataTransactionInput) pact" where
  "parseBlockTransaction L tx = bindA (getTransactionReceipt L (in_hash tx)) (\<lambda>rc. case rc of
      None \<Rightarrow> throwE TypeError
    | Some txReceipt \<Rightarrow> bindA (getsA pw_monitoredTokens) (\<lambda>tokens. liftR (transactionInput L tokens tx txReceipt)))"

definition errorText :: "jsError \<Rightarrow> string" where
  "errorText e = (case e of ErrorMsg m \<Rightarrow> ''Error: '' @ m | TypeError \<Rightarrow> ''TypeError'' | _ \<Rightarrow> ''Error'')"

text \<open>The time of a block in seconds; a date beyond the range of the language is invalid.\<close>

definition blockTime :: "string + int \<Rightarrow> int option" where
  "blockTime t = (case (case t of Inl s \<Rightarrow> parseInt10 s | Inr i \<Rightarrow> Some i) of
      None \<Rightarrow> None
    | Some i \<Rightarrow> if \<bar>i * 1000\<bar> \<le> 8640000000000000 then Some i else None)"

definition blockInput :: "BlockData \<Rightarrow> BlockDataTransactionInput list \<Rightarrow> InsertBlockDataInput" where
  "blockInput block transactions = \<lparr>ib_number = parseInt10 (bk_number block), ib_created_at = blockTime (bk_timestamp block),
     ib_hash = (case bk_hash block of None \<Rightarrow> '''' | Some h \<Rightarrow> h), ib_number_of_tx = length transactions, ib_transactions = transactions\<rparr>"

definition parseAndStoreBlockData :: "('x, 'l) ledgerApi \<Rightarrow> 'x database \<Rightarrow> BlockData \<Rightarrow> ('x, unit) pact" where
  "parseAndStoreBlockData L D block = catchA
     (bindA (allA (parseBlockTransaction L) (bk_transactions block)) (\<lambda>transactions.
      insertBlockData D (blockInput block transactions)))
     (\<lambda>e. throwE (ErrorMsg (''Parsing block #'' @ bk_number block @ '' failed: '' @ errorText e)))"

text \<open>The data of a block that is not there is \<open>null\<close>.\<close>

definition storeFromLedger :: "('x, 'l) ledgerApi \<Rightarrow> 'x database \<Rightarrow> num \<Rightarrow> ('x, unit) pact" where
  "storeFromLedger L D n = bindA (getBlockFromLedger L (BlockNo n) True) (\<lambda>b. case b of
      None \<Rightarrow> throwE TypeError
    | Some block \<Rightarrow> parseAndStoreBlockData L D block)"

section \<open>Failed blocks\<close>

text \<open>
  \<open>this.addFailedBlock(n)\<close>, which no caller waits for: the query is sent, its answer is floating. A client that
  is not connected refuses before any waiting. The number of the row is compared as text, which a number
  prints differently from \<open>1e21\<close> on.
\<close>

definition addFailedBlock :: "'x database \<Rightarrow> num \<Rightarrow> ('x, unit) pact" where
  "addFailedBlock D n = (\<lambda>w.
     if \<not> pw_dbConnected w then (Returns (), w\<lparr>pw_failedBlocks := setAdd n (pw_failedBlocks w)\<rparr>)
     else case db_fault D (pw_ext w) of (ft, x) \<Rightarrow>
       case pgAsk ft (pgRun (selectAll (blockRows n))) (pw_pg w) of (a, g) \<Rightarrow>
         let found = (case a of Some [b] \<Rightarrow> (case n of Some i \<Rightarrow> \<bar>i\<bar> < 10 ^ 21 | None \<Rightarrow> True) | _ \<Rightarrow> False)
         in (Returns (), w\<lparr>pw_pg := g, pw_ext := x, pw_floating := pw_floating w @ [(n, found)]\<rparr>))"

definition isLedgerInSync :: "'x persistWorld \<Rightarrow> bool" where
  "isLedgerInSync w \<longleftrightarrow> setSize (pw_failedBlocks w) = 0"

definition retryBlock :: "('x, 'l) ledgerApi \<Rightarrow> 'x database \<Rightarrow> num list \<Rightarrow> num \<Rightarrow> ('x, num list) pact" where
  "retryBlock L D blocksRestored n = catchA
     (thenA (storeFromLedger L D n) (
      thenA (modifyA (\<lambda>w. w\<lparr>pw_failedBlocks := setDelete n (pw_failedBlocks w)\<rparr>)) (
      ret (blocksRestored @ [n]))))
     (\<lambda>e. ret blocksRestored)"

text \<open>
  The loop visits at most the places of the set and one more for each floating answer, which is its
  fuel (\<open>settlesA_syncFailedBlocks\<close>).
\<close>

definition syncFailedBlocks :: "('x, 'l) ledgerApi \<Rightarrow> 'x database \<Rightarrow> ('x, num list) pact" where
  "syncFailedBlocks L D = tracked L ''syncFailedBlocks''
     (bindA (getsA (\<lambda>w. Suc (length (pw_failedBlocks w) + length (pw_floating w)))) (\<lambda>fuel.
      forOfSet fuel pw_failedBlocks (retryBlock L D) 0 []))"

section \<open>Synchronization\<close>

text \<open>\<open>Math.min\<close>\<close>

definition numMin :: "num list \<Rightarrow> num \<Rightarrow> num" where
  "numMin ns n = foldr (\<lambda>a b. case (a, b) of (Some i, Some j) \<Rightarrow> Some (min i j) | _ \<Rightarrow> None) ns n"

definition syncTokenBalances :: "('x, 'l) ledgerApi \<Rightarrow> 'x database \<Rightarrow> num \<Rightarrow> ('x, unit) pact" where
  "syncTokenBalances L D fromBlockNumber =
     bindA (syncFailedBlocks L D) (\<lambda>blocksRestored.
     bindA (getsA isLedgerInSync) (\<lambda>inSync.
     if inSync then thenA (syncTokenBalanceERC20 D) (syncTokenBalanceERC721 D (numMin blocksRestored fromBlockNumber))
     else ret ()))"

definition syncBlocks :: "('x, 'l) ledgerApi \<Rightarrow> 'x database \<Rightarrow> num \<Rightarrow> num \<Rightarrow> ('x, unit) pact" where
  "syncBlocks L D startBlockNumber endBlockNumber =
     bindA (getMissingBlocksInRange D startBlockNumber endBlockNumber) (
     forEachA (\<lambda>n. catchA (storeFromLedger L D (Some n)) (\<lambda>e. addFailedBlock D (Some n))))"

text \<open>\<open>blockNumber - previousBlockNumber > 1\<close>, and the numbers in between.\<close>

definition gapBetween :: "num \<Rightarrow> num \<Rightarrow> (int \<times> int) option" where
  "gapBetween previous n = (case (previous, n) of
      (Some p, Some b) \<Rightarrow> if b - p > 1 then Some (p + 1, b - 1) else None
    | _ \<Rightarrow> None)"

definition pushNewBlock :: "('x, 'l) ledgerApi \<Rightarrow> 'x database \<Rightarrow> BlockData \<Rightarrow> ('x, unit) pact" where
  "pushNewBlock L D block =
     bindA (getsA pw_lastSeenBlock) (\<lambda>previousBlockNumber.
     let blockNumber = parseInt10 (bk_number block) in
     thenA (modifyA (\<lambda>w. w\<lparr>pw_lastSeenBlock := blockNumber\<rparr>)) (
     thenA (catchA (parseAndStoreBlockData L D block) (\<lambda>e. addFailedBlock D blockNumber)) (
     thenA (case gapBetween previousBlockNumber blockNumber of
         None \<Rightarrow> ret ()
       | Some (gapFrom, gapTo) \<Rightarrow> catchA (syncBlocks L D (Some gapFrom) (Some gapTo))
           (\<lambda>e. forEachA (\<lambda>i. addFailedBlock D (Some i)) [gapFrom..gapTo - 1])) (
     catchA (syncTokenBalances L D previousBlockNumber) (\<lambda>e. ret ())))))"

definition syncAll :: "('x, 'l) ledgerApi \<Rightarrow> 'x database \<Rightarrow> ('x, num) pact" where
  "syncAll L D = tracked L ''syncAll''
     (thenA (syncFailedBlocks L D) (
      bindA (getBlockFromLedger L Latest False) (\<lambda>b. case b of
        None \<Rightarrow> throwE TypeError
      | Some block \<Rightarrow> let blockNumber = parseInt10 (bk_number block) in
          thenA (syncBlocks L D (Some 1) blockNumber) (
          thenA (syncTokenBalances L D (Some 1)) (ret blockNumber)))))"

section \<open>The monitor\<close>

definition startMonitor :: "('x, 'l) ledgerApi \<Rightarrow> 'x database \<Rightarrow> ('x, unit) pact" where
  "startMonitor L D = bindA (syncAll L D) (\<lambda>n.
     thenA (modifyA (\<lambda>w. w\<lparr>pw_lastSeenBlock := n\<rparr>)) (
     thenA (ensure (api_watchBlocks L) (ErrorMsg ''Could not get a valid blocks observable in startMonitor'')) (
     modifyA (\<lambda>w. w\<lparr>pw_monitor := True\<rparr>))))"

text \<open>The callbacks of the subscription, which are called while it is active.\<close>

definition onNext :: "('x, 'l) ledgerApi \<Rightarrow> 'x database \<Rightarrow> BlockData option \<Rightarrow> ('x, unit) pact" where
  "onNext L D blockData = (case blockData of
      None \<Rightarrow> ret ()
    | Some block \<Rightarrow> catchA (pushNewBlock L D block) (\<lambda>e. ret ()))"

definition stopMonitor :: "('x, unit) pact" where
  "stopMonitor = modifyA (\<lambda>w. w\<lparr>pw_monitor := False\<rparr>)"

section \<open>Tokens\<close>

definition monitoredToken :: "('x, 'l) ledgerApi \<Rightarrow> TokenTypeV1 \<Rightarrow> (string, MonitoredToken) jsmap \<Rightarrow> tokenMetadata
    \<Rightarrow> (string, MonitoredToken) jsmap result" where
  "monitoredToken L ty m token = bindR (normalizeAddress L (Some (tm_address token))) (\<lambda>a.
     Inr (mapSet a \<lparr>mt_type = ty, mt_name = tm_name token, mt_symbol = tm_symbol token\<rparr> m))"

definition refreshMonitoredTokens :: "('x, 'l) ledgerApi \<Rightarrow> 'x database \<Rightarrow> ('x, (string, MonitoredToken) jsmap) pact" where
  "refreshMonitoredTokens L D =
     bindA (getTokenMetadataERC20 D) (\<lambda>erc20.
     bindA (liftR (foldR (monitoredToken L ERC20) [] erc20)) (\<lambda>m.
     bindA (getTokenMetadataERC721 D) (\<lambda>erc721.
     bindA (liftR (foldR (monitoredToken L ERC721) m erc721)) (\<lambda>newTokensMap.
     thenA (modifyA (\<lambda>w. w\<lparr>pw_monitoredTokens := newTokensMap\<rparr>)) (ret newTokensMap)))))"

definition syncSingleERC721Token :: "('x, 'l) ledgerApi \<Rightarrow> 'x database \<Rightarrow> int \<Rightarrow> string \<Rightarrow> ('x, bool) pact" where
  "syncSingleERC721Token L D tokenId address =
     bindA (catchA (bindA (tokenText L ERC721 address ''ownerOf'' [tokenId]) (\<lambda>s. ret (Some s))) (\<lambda>e. ret None)) (\<lambda>owner.
     case owner of
       None \<Rightarrow> ret False
     | Some ownerAddress \<Rightarrow>
         if parseInt16 ownerAddress = Some 0 then ret False
         else thenA (catchA
             (bindA (liftR (normalizeAddress L (Some ownerAddress))) (\<lambda>checkedOwnerAddress.
              bindA (tokenText L ERC721 address ''tokenURI'' [tokenId]) (\<lambda>tokenUri.
              bindA (liftR (normalizeAddress L (Some address))) (\<lambda>token.
              upsertTokenERC721 D checkedOwnerAddress token tokenUri tokenId))))
             (\<lambda>e. ret ())) (ret True))"

fun tokenLoop :: "('x, 'l) ledgerApi \<Rightarrow> 'x database \<Rightarrow> nat \<Rightarrow> string \<Rightarrow> int \<Rightarrow> ('x, int) pact" where
  "tokenLoop L D 0 address tokenId = never"
| "tokenLoop L D (Suc fuel) address tokenId = bindA (syncSingleERC721Token L D tokenId address) (\<lambda>more.
     if more then tokenLoop L D fuel address (tokenId + 1) else ret (tokenId - 1))"

definition syncERC721TokensForContract :: "('x, 'l) ledgerApi \<Rightarrow> 'x database \<Rightarrow> string \<Rightarrow> ('x, int) pact" where
  "syncERC721TokensForContract L D address = thenA (newTokenClient address) (tokenLoop L D (lb_tokens L) address 1)"

definition syncERC721Tokens :: "('x, 'l) ledgerApi \<Rightarrow> 'x database \<Rightarrow> ('x, unit) pact" where
  "syncERC721Tokens L D = tracked L ''syncERC721Tokens'' (catchA
     (bindA (getsA pw_monitoredTokens) (\<lambda>tokens.
      bindA (liftR (mapR (\<lambda>(a, t). normalizeAddress L (Some a)) (filter (\<lambda>(a, t). mt_type t = ERC721) tokens))) (
      forEachA (\<lambda>a. catchA (bindA (syncERC721TokensForContract L D a) (\<lambda>n. ret ())) (\<lambda>e. ret ())))))
     (\<lambda>e. ret ()))"

definition addTokenERC20 :: "('x, 'l) ledgerApi \<Rightarrow> 'x database \<Rightarrow> string \<Rightarrow> ('x, unit) pact" where
  "addTokenERC20 L D address =
     bindA (liftR (normalizeAddress L (Some address))) (\<lambda>checkedAddress.
     thenA (newTokenClient checkedAddress) (
     thenA (rethrowAs (ErrorMsg ''Could not store ERC20 token metadata information'')
       (bindA (tokenText L ERC20 checkedAddress ''name'' []) (\<lambda>name.
        bindA (tokenText L ERC20 checkedAddress ''symbol'' []) (\<lambda>sym.
        bindA (tokenText L ERC20 checkedAddress ''totalSupply'' []) (\<lambda>supply.
        insertTokenMetadataERC20 D \<lparr>tm_address = checkedAddress, tm_name = name, tm_symbol = sym, tm_total_supply = parseInt10 supply\<rparr>))))) (
     bindA (refreshMonitoredTokens L D) (\<lambda>m. ret ()))))"

definition addTokenERC721 :: "('x, 'l) ledgerApi \<Rightarrow> 'x database \<Rightarrow> string \<Rightarrow> ('x, unit) pact" where
  "addTokenERC721 L D address =
     bindA (liftR (normalizeAddress L (Some address))) (\<lambda>checkedAddress.
     thenA (newTokenClient checkedAddress) (
     thenA (rethrowAs (ErrorMsg ''Could not store ERC721 token metadata information'')
       (bindA (tokenText L ERC721 checkedAddress ''name'' []) (\<lambda>name.
        bindA (tokenText L ERC721 checkedAddress ''symbol'' []) (\<lambda>sym.
        insertTokenMetadataERC721 D \<lparr>tm_address = checkedAddress, tm_name = name, tm_symbol = sym, tm_total_supply = None\<rparr>)))) (
     bindA (refreshMonitoredTokens L D) (\<lambda>m. ret ()))))"

section \<open>Life of the plugin\<close>

definition newPersistence :: "string \<Rightarrow> tables \<Rightarrow> 'x \<Rightarrow> 'x persistWorld" where
  "newPersistence instanceId t x = \<lparr>pw_pg = closedPg t,
     pw_dbConnected = False, pw_instanceId = instanceId, pw_isConnected = False, pw_webServices = False, pw_monitoredTokens = [],
     pw_failedBlocks = [], pw_lastSeenBlock = Some 0, pw_trackedOperations = [], pw_monitor = False, pw_floating = [], pw_ext = x\<rparr>"

text \<open>The constructor, which refuses an empty instance id or connection string.\<close>

definition newPluginPersistenceEthereum :: "string \<Rightarrow> string \<Rightarrow> tables \<Rightarrow> 'x \<Rightarrow> 'x persistWorld result" where
  "newPluginPersistenceEthereum instanceId connectionString t x =
     (let falsy = (\<lambda>arg. Inl (ErrorMsg (CHR 0x22 # ''PluginPersistenceEthereum#constructor() '' @ arg @ CHR 0x22 # '' is falsy, need a truthy value.''))) in
     if instanceId = '''' then falsy ''options.instanceId''
     else if connectionString = '''' then falsy ''options.connectionString''
     else Inr (newPersistence instanceId t x))"

definition initPersistence :: "('x, 'l) ledgerApi \<Rightarrow> 'x database \<Rightarrow> ('x, unit) pact" where
  "initPersistence L D =
     thenA (dbConnect D) (
     bindA (getsA pw_instanceId) (\<lambda>i.
     thenA (initializePlugin D ''PluginPersistenceEthereum'' i) (
     thenA (refreshMonitoredTokens L D) (
     modifyA (\<lambda>w. w\<lparr>pw_isConnected := True\<rparr>)))))"

definition shutdownPersistence :: "('x, unit) pact" where
  "shutdownPersistence = thenA stopMonitor (thenA dbShutdown (modifyA (\<lambda>w. w\<lparr>pw_isConnected := False\<rparr>)))"

definition registerWebServices :: "('x, unit) pact" where
  "registerWebServices = modifyA (\<lambda>w. w\<lparr>pw_webServices := True\<rparr>)"

record StatusResponseV1 =
  sr_instanceId :: string
  sr_connected :: bool
  sr_webServicesRegistered :: bool
  sr_monitoredTokensCount :: nat
  sr_operationsRunning :: "TrackedOperationV1 list"
  sr_monitorRunning :: bool
  sr_lastSeenBlock :: num

definition persistenceStatus :: "'x persistWorld \<Rightarrow> StatusResponseV1" where
  "persistenceStatus w = \<lparr>sr_instanceId = pw_instanceId w, sr_connected = pw_isConnected w, sr_webServicesRegistered = pw_webServices w,
     sr_monitoredTokensCount = length (pw_monitoredTokens w), sr_operationsRunning = mapValues (pw_trackedOperations w),
     sr_monitorRunning = pw_monitor w, sr_lastSeenBlock = pw_lastSeenBlock w\<rparr>"

definition statusEndpoint :: "'x persistWorld \<Rightarrow> int \<times> StatusResponseV1" where
  "statusEndpoint w = (200, persistenceStatus w)"

end
