(* ===== verification/Persistence_Frame.thy ===== *)
theory Persistence_Frame
  imports Persistence_Ethereum
begin

text \<open>
  The lemma library of the persistence plugin: what every method leaves alone, and that storing a block
  is atomic whatever happens to the connection.
\<close>

section \<open>Preorders\<close>

context run_preorder
begin

lemma follows_allA [follows_intros]: "(\<And>x. follows R (f x)) \<Longrightarrow> follows R (allA f xs)"
proof (induction xs)
  case (Cons x xs)
  have "R w (snd (allA f xs w'))" if "R w w'" for w w'
    using Cons that chain by (auto simp: follows_def)
  moreover have "R w (snd (f x w))" for w using Cons.prems by (simp add: follows_def)
  ultimately show ?case
    by (auto simp: follows_def bindA_def ret_def split: prod.split outcome.split) (metis snd_conv)+
qed (simp add: follows_ret)

lemma follows_forOfSet [follows_intros]:
  "(\<And>acc a. follows R (body acc a)) \<Longrightarrow> follows R (forOfSet fuel s body i acc)"
proof (induction fuel arbitrary: i acc)
  case (Suc fuel)
  then have "R w (snd (bindA (body acc a) (forOfSet fuel s body (Suc i)) w))" for a w
    using follows_bindA [of "body acc a" "forOfSet fuel s body (Suc i)"] by (simp add: follows_def)
  then show ?case using Suc stays by (auto simp: follows_def split: option.split)
qed (simp add: follows_never)

end

section \<open>Steps of the database\<close>

text \<open>A step that only touches the connection and the environment, and may deliverAnswers floating answers.\<close>

definition dbStep :: "'x persistWorld \<Rightarrow> 'x persistWorld \<Rightarrow> bool" where
  "dbStep w w' \<longleftrightarrow> (\<exists>k g x. w' = (deliverAnswers k w)\<lparr>pw_pg := g, pw_ext := x\<rparr>)"

lemma deliverAnswers_0 [simp]: "deliverAnswers 0 w = w"
  by (simp add: deliverAnswers_def)

lemma deliverAnswers_deliver: "deliverAnswers j (deliverAnswers k w) = deliverAnswers (k + j) w"
proof -
  have "take (k + j) xs = take k xs @ take j (drop k xs)" for xs :: "(num \<times> bool) list" by (rule take_add)
  then show ?thesis by (simp add: deliverAnswers_def add.commute)
qed

lemma deliverAnswers_update [simp]:
  "deliverAnswers k (w\<lparr>pw_pg := g\<rparr>) = (deliverAnswers k w)\<lparr>pw_pg := g\<rparr>"
  "deliverAnswers k (w\<lparr>pw_ext := x\<rparr>) = (deliverAnswers k w)\<lparr>pw_ext := x\<rparr>"
  by (simp_all add: deliverAnswers_def)

interpretation db: run_preorder dbStep
proof
  show "dbStep w w" for w :: "'x persistWorld"
    unfolding dbStep_def by (rule exI [of _ 0]) (rule exI [of _ "pw_pg w"], rule exI [of _ "pw_ext w"], simp)
next
  fix w w' w'' :: "'x persistWorld"
  assume "dbStep w w'" "dbStep w' w''"
  then obtain k g x j h y where "w' = (deliverAnswers k w)\<lparr>pw_pg := g, pw_ext := x\<rparr>" "w'' = (deliverAnswers j w')\<lparr>pw_pg := h, pw_ext := y\<rparr>"
    unfolding dbStep_def by blast
  then have "w'' = (deliverAnswers (k + j) w)\<lparr>pw_pg := h, pw_ext := y\<rparr>" by (simp add: deliverAnswers_deliver)
  then show "dbStep w w''" unfolding dbStep_def by blast
qed

lemma dbStep_pgQuery [follows_intros]: "follows dbStep (pgQuery D f)"
  unfolding follows_def pgQuery_def dbStep_def by (auto split: prod.split)

lemma dbStep_apiCall [follows_intros]: "follows dbStep (apiCall L f)"
proof -
  have "\<exists>k g y. (deliverAnswers n w)\<lparr>pw_ext := x\<rparr> = (deliverAnswers k w)\<lparr>pw_pg := g, pw_ext := y\<rparr>" for n x and w :: "'x persistWorld"
    by (rule exI [of _ n], rule exI [of _ "pw_pg w"]) (auto simp: deliverAnswers_def)
  then show ?thesis unfolding follows_def apiCall_def dbStep_def by (auto split: prod.split)
qed

lemma dbStep_assertConnected [follows_intros]: "follows dbStep assertConnected"
  by (simp add: assertConnected_def db.follows_bindA db.follows_getsA db.follows_ensure)

lemma dbStep_dbQuery [follows_intros]: "follows dbStep (dbQuery D f)"
  by (simp add: dbQuery_def db.follows_thenA dbStep_assertConnected dbStep_pgQuery)

lemma dbStep_insertBlockData [follows_intros]: "follows dbStep (insertBlockData D i)"
  unfolding insertBlockData_def insertTxData_def pgQueryRollback_def
  by (intro db.follows_thenA db.follows_catchA db.follows_bindA db.follows_forEachA db.follows_throwE
      dbStep_assertConnected dbStep_pgQuery)

section \<open>Transactions\<close>

definition txStatement :: "num \<Rightarrow> BlockDataTransactionInput \<Rightarrow> unit statement" where
  "txStatement n x = andThen (insertTransaction (txRowOf n x)) (\<lambda>i.
     eachOf (\<lambda>f. insertTransfer (transferRowOf i f)) (tx_token_transfers x))"

definition blockStatement :: "InsertBlockDataInput \<Rightarrow> unit statement" where
  "blockStatement i = andThen (insertBlock (ib_number i) (ib_created_at i) (ib_hash i) (ib_number_of_tx i)) (\<lambda>_.
     eachOf (txStatement (ib_number i)) (ib_transactions i))"

text \<open>What a run does to the session, by its outcome.\<close>

definition triple :: "(tables pg \<Rightarrow> bool) \<Rightarrow> ('x, 'a) pact \<Rightarrow> ('a \<Rightarrow> tables pg \<Rightarrow> bool) \<Rightarrow> (tables pg \<Rightarrow> bool) \<Rightarrow> bool" where
  "triple P m Q E \<longleftrightarrow> (\<forall>w. P (pw_pg w) \<longrightarrow> (case m w of
      (Returns a, w') \<Rightarrow> Q a (pw_pg w') | (Throws _, w') \<Rightarrow> E (pw_pg w') | (Pending, _) \<Rightarrow> False))"

lemma triple_bindA: "triple P m Q E \<Longrightarrow> (\<And>a. triple (Q a) (k a) S E) \<Longrightarrow> triple P (bindA m k) S E"
  unfolding triple_def bindA_def by (fastforce split: prod.splits outcome.splits)

lemma triple_thenA: "triple P m (\<lambda>_. Q) E \<Longrightarrow> triple Q k S E \<Longrightarrow> triple P (thenA m k) S E"
  unfolding thenA_def by (rule triple_bindA)

lemma triple_query:
  assumes "\<And>ft g a g'. P g \<Longrightarrow> pgAsk ft f g = (a, g') \<Longrightarrow> (case a of None \<Rightarrow> E g' | Some r \<Rightarrow> Q r g')"
  shows "triple P (pgQuery D f) Q E"
  unfolding triple_def pgQuery_def using assms by (fastforce simp: deliverAnswers_def split: prod.splits option.splits)

text \<open>Inside a transaction, a method performs a statement or breaks the transaction.\<close>

definition performs :: "tables \<Rightarrow> ('x, 'a) pact \<Rightarrow> 'a statement \<Rightarrow> bool" where
  "performs t0 m f \<longleftrightarrow> (\<forall>t. triple (inside t0 t) m (\<lambda>r g. \<exists>t'. f t = Some (r, t') \<and> inside t0 t' g) (broken t0))"

lemma performs_query: "performs t0 (pgQuery D (pgRun f)) f"
  unfolding performs_def by (auto intro!: triple_query dest: ask_inside)

lemma performs_bindA:
  fixes m :: "('x, 'a) pact"
  shows "performs t0 m f \<Longrightarrow> (\<And>a. performs t0 (k a) (h a)) \<Longrightarrow> performs t0 (bindA m k) (andThen f h)"
  unfolding performs_def
proof
  fix t
  assume m: "\<forall>t. triple (inside t0 t) m (\<lambda>r g. \<exists>t'. f t = Some (r, t') \<and> inside t0 t' g) (broken t0)"
    and k: "\<And>a. \<forall>t. triple (inside t0 t) (k a) (\<lambda>r g. \<exists>t'. h a t = Some (r, t') \<and> inside t0 t' g) (broken t0)"
  show "triple (inside t0 t) (bindA m k) (\<lambda>r g. \<exists>t'. andThen f h t = Some (r, t') \<and> inside t0 t' g) (broken t0)"
  proof (rule triple_bindA)
    show "triple (inside t0 t) m (\<lambda>r g. \<exists>t'. f t = Some (r, t') \<and> inside t0 t' g) (broken t0)" using m by blast
    show "triple (\<lambda>g. \<exists>t'. f t = Some (a, t') \<and> inside t0 t' g) (k a) (\<lambda>r g. \<exists>t'. andThen f h t = Some (r, t') \<and> inside t0 t' g) (broken t0)" for a
      unfolding triple_def
    proof (intro allI impI, elim exE conjE)
      fix w :: "'x persistWorld" and t'
      assume f: "f t = Some (a, t')" and i: "inside t0 t' (pw_pg w)"
      have "triple (inside t0 t') (k a) (\<lambda>r g. \<exists>u. h a t' = Some (r, u) \<and> inside t0 u g) (broken t0)" using k by blast
      from this [unfolded triple_def, rule_format, OF i]
      show "case k a w of (Returns b, w') \<Rightarrow> \<exists>t'. andThen f h t = Some (b, t') \<and> inside t0 t' (pw_pg w')
          | (Throws _, w') \<Rightarrow> broken t0 (pw_pg w') | (Pending, _) \<Rightarrow> False"
        using f by (auto simp: andThen_def split: prod.splits outcome.splits)
    qed
  qed
qed

lemma performs_thenA: "performs t0 m f \<Longrightarrow> performs t0 k h \<Longrightarrow> performs t0 (thenA m k) (andThen f (\<lambda>_. h))"
  unfolding thenA_def by (rule performs_bindA)

lemma performs_ret: "performs t0 (ret ()) (\<lambda>t. Some ((), t))"
  by (simp add: performs_def triple_def ret_def)

lemma performs_forEachA: "(\<And>x. performs t0 (body x) (f x)) \<Longrightarrow> performs t0 (forEachA body xs) (eachOf f xs)"
  by (induction xs) (simp_all add: performs_ret performs_thenA)

lemma performs_insertTxData: "performs t0 (insertTxData D n x) (txStatement n x)"
  unfolding insertTxData_def txStatement_def by (intro performs_bindA performs_query performs_forEachA)

text \<open>
  The end of a transaction: it was committed, or it was rolled back, or the connection was lost when the
  commit had taken effect.
\<close>

definition afterInsert :: "InsertBlockDataInput \<Rightarrow> tables \<Rightarrow> tables pg \<Rightarrow> bool" where
  "afterInsert i t g \<longleftrightarrow> idle t g \<or> (\<exists>t'. blockStatement i t = Some ((), t') \<and> idle t' g \<and> \<not> pg_alive g)"

lemma triple_mono: "triple P m Q E \<Longrightarrow> (\<And>a g. Q a g \<Longrightarrow> Q' a g) \<Longrightarrow> (\<And>g. E g \<Longrightarrow> E' g) \<Longrightarrow> triple P m Q' E'"
  unfolding triple_def by (fastforce split: prod.splits outcome.splits)

lemma triple_catchA: "triple P m Q F \<Longrightarrow> (\<And>e. triple F (h e) Q E) \<Longrightarrow> triple P (catchA m h) Q E"
  unfolding triple_def catchA_def by (fastforce split: prod.splits outcome.splits)

lemma triple_transaction:
  "triple (idle t) (thenA (pgQuery D pgBegin) (
        thenA (pgQuery D (pgRun (insertBlock (ib_number i) (ib_created_at i) (ib_hash i) (ib_number_of_tx i)))) (
        thenA (forEachA (insertTxData D (ib_number i)) (ib_transactions i)) (pgQuery D pgCommit))))
     (\<lambda>_ g. \<exists>t'. blockStatement i t = Some ((), t') \<and> idle t' g \<and> pg_alive g)
     (\<lambda>g. broken t g \<or> afterInsert i t g)"
proof (rule triple_thenA)
  show "triple (idle t) (pgQuery D pgBegin) (\<lambda>_. inside t t) (\<lambda>g. broken t g \<or> afterInsert i t g)"
    using ask_begin by (intro triple_query) (fastforce simp: afterInsert_def split: option.splits)
next
  have p: "performs t (thenA (pgQuery D (pgRun (insertBlock (ib_number i) (ib_created_at i) (ib_hash i) (ib_number_of_tx i))))
      (forEachA (insertTxData D (ib_number i)) (ib_transactions i))) (blockStatement i)"
    unfolding blockStatement_def by (intro performs_thenA performs_query performs_forEachA performs_insertTxData)
  have c: "triple (inside t t') (pgQuery D pgCommit) (\<lambda>_ g. idle t' g \<and> pg_alive g) (\<lambda>g. broken t g \<or> (idle t' g \<and> \<not> pg_alive g))" for t'
    by (rule triple_query) (use ask_commit in \<open>fastforce split: option.splits\<close>)
  have "triple (inside t t) (thenA (thenA (pgQuery D (pgRun (insertBlock (ib_number i) (ib_created_at i) (ib_hash i) (ib_number_of_tx i))))
      (forEachA (insertTxData D (ib_number i)) (ib_transactions i))) (pgQuery D pgCommit))
     (\<lambda>_ g. \<exists>t'. blockStatement i t = Some ((), t') \<and> idle t' g \<and> pg_alive g) (\<lambda>g. broken t g \<or> afterInsert i t g)"
  proof (rule triple_thenA)
    show "triple (inside t t) (thenA (pgQuery D (pgRun (insertBlock (ib_number i) (ib_created_at i) (ib_hash i) (ib_number_of_tx i))))
        (forEachA (insertTxData D (ib_number i)) (ib_transactions i)))
      (\<lambda>_ g. \<exists>t'. blockStatement i t = Some ((), t') \<and> inside t t' g) (\<lambda>g. broken t g \<or> afterInsert i t g)"
      using p unfolding performs_def by (auto elim!: allE [of _ t] triple_mono)
    show "triple (\<lambda>g. \<exists>t'. blockStatement i t = Some ((), t') \<and> inside t t' g) (pgQuery D pgCommit)
        (\<lambda>_ g. \<exists>t'. blockStatement i t = Some ((), t') \<and> idle t' g \<and> pg_alive g) (\<lambda>g. broken t g \<or> afterInsert i t g)"
    proof (rule triple_query)
      fix ft g a g'
      assume "\<exists>t'. blockStatement i t = Some ((), t') \<and> inside t t' g" and q: "pgAsk ft pgCommit g = (a, g')"
      then obtain t' where "blockStatement i t = Some ((), t')" "inside t t' g" by blast
      with ask_commit [OF this(2) q]
      show "case a of None \<Rightarrow> broken t g' \<or> afterInsert i t g' | Some r \<Rightarrow> \<exists>t'. blockStatement i t = Some ((), t') \<and> idle t' g' \<and> pg_alive g'"
        by (auto simp: afterInsert_def split: option.splits)
    qed
  qed
  then show "triple (inside t t) (thenA (pgQuery D (pgRun (insertBlock (ib_number i) (ib_created_at i) (ib_hash i) (ib_number_of_tx i)))) (
        thenA (forEachA (insertTxData D (ib_number i)) (ib_transactions i)) (pgQuery D pgCommit)))
     (\<lambda>_ g. \<exists>t'. blockStatement i t = Some ((), t') \<and> idle t' g \<and> pg_alive g) (\<lambda>g. broken t g \<or> afterInsert i t g)"
    by (simp add: thenA_def bindA_assoc)
qed

lemma triple_rollback: "triple (\<lambda>g. broken t g \<or> afterInsert i t g)
    (thenA (pgQueryRollback D) (throwE e)) Q (afterInsert i t)"
proof (rule triple_thenA)
  have r: "triple (\<lambda>g. broken t g \<or> afterInsert i t g) (pgQuery D' pgRollback) (\<lambda>_. afterInsert i t) (afterInsert i t)"
    if "\<And>x. fst (db_fault D' x) \<noteq> Refused" for D' :: "'x database"
    unfolding triple_def pgQuery_def
  proof (intro allI impI)
    fix w :: "'x persistWorld"
    assume b: "broken t (pw_pg w) \<or> afterInsert i t (pw_pg w)"
    obtain ft x a g where q: "db_fault D' (pw_ext w) = (ft, x)" "pgAsk ft pgRollback (pw_pg w) = (a, g)" by (metis surj_pair)
    moreover have "ft \<noteq> Refused" using that [of "pw_ext w"] q(1) by simp
    ultimately have "afterInsert i t g" using ask_rollback [OF q(2)] b by (auto simp: afterInsert_def)
    then show "case (case db_fault D' (pw_ext w) of (ft, x) \<Rightarrow> case pgAsk ft pgRollback (pw_pg w) of (a, g) \<Rightarrow>
          ((case a of None \<Rightarrow> Throws LibraryError | Some r \<Rightarrow> Returns r), deliverAnswers (length (pw_floating w)) (w\<lparr>pw_pg := g, pw_ext := x\<rparr>))) of
        (Returns a, w') \<Rightarrow> afterInsert i t (pw_pg w') | (Throws _, w') \<Rightarrow> afterInsert i t (pw_pg w') | (Pending, _) \<Rightarrow> False"
      using q by (simp add: deliverAnswers_def split: option.split)
  qed
  show "triple (\<lambda>g. broken t g \<or> afterInsert i t g) (pgQueryRollback D) (\<lambda>_. afterInsert i t) (afterInsert i t)"
    unfolding pgQueryRollback_def by (rule r) (simp split: prod.split)
qed (simp add: triple_def throwE_def)

lemma triple_insertBlockData:
  "triple (idle t) (insertBlockData D i) (\<lambda>_ g. \<exists>t'. blockStatement i t = Some ((), t') \<and> idle t' g \<and> pg_alive g) (afterInsert i t)"
  unfolding insertBlockData_def
proof (rule triple_thenA)
  show "triple (idle t) assertConnected (\<lambda>_. idle t) (afterInsert i t)"
    by (simp add: triple_def assertConnected_def bindA_def getsA_def ensure_def ret_def throwE_def afterInsert_def)
qed (rule triple_catchA [OF triple_transaction triple_rollback])

end
