(* ===== verification/Persistence_Sync.thy ===== *)
theory Persistence_Sync
  imports Persistence_Frame
begin

text \<open>
  What the synchronization methods of the persistence plugin preserve: no block they know of is lost,
  whatever the ledger and the connection to the database do, and every loop ends.
\<close>

section \<open>Accounted blocks\<close>

definition stored :: "num \<Rightarrow> tables \<Rightarrow> bool" where
  "stored n t \<longleftrightarrow> (\<exists>b \<in> set (t_block t). br_number b = n)"

text \<open>A block is accounted for when it is stored, on the list of failed blocks, or about to be put on it.\<close>

definition accounted :: "num \<Rightarrow> 'x persistWorld \<Rightarrow> bool" where
  "accounted n w \<longleftrightarrow> stored n (pg_tables (pw_pg w)) \<or> n \<in> setElems (pw_failedBlocks w) \<or> (n, False) \<in> set (pw_floating w)"

text \<open>Between two methods: no open transaction, and a floating answer that found a block is true.\<close>

definition sound :: "'x persistWorld \<Rightarrow> bool" where
  "sound w \<longleftrightarrow> idle (pg_tables (pw_pg w)) (pw_pg w) \<and> (\<forall>n. (n, True) \<in> set (pw_floating w) \<longrightarrow> stored n (pg_tables (pw_pg w)))"

text \<open>The connector answers a request for a block with that block.\<close>

definition honestLedger :: "('x, 'l) ledgerApi \<Rightarrow> bool" where
  "honestLedger L \<longleftrightarrow> (\<forall>n full x status b x'. api_getBlock L (BlockNo n) full x = (Response status (Some b), x') \<longrightarrow> parseInt10 (bk_number b) = n)"

definition secure :: "('x, 'l) ledgerApi \<Rightarrow> 'x persistWorld \<Rightarrow> 'x persistWorld \<Rightarrow> bool" where
  "secure L w w' \<longleftrightarrow> (honestLedger L \<and> sound w \<longrightarrow> sound w' \<and> (\<forall>n. accounted n w \<longrightarrow> accounted n w'))"

lemma secure_preorder: "run_preorder (secure L)"
  by unfold_locales (auto simp: secure_def)

section \<open>Steps\<close>

lemma delivered_elem:
  "n \<in> setElems s \<or> (n, False) \<in> set as \<Longrightarrow> n \<in> setElems (fold deliver1 as s) \<or> (n, True) \<in> set as"
proof (induction as arbitrary: s)
  case (Cons a as)
  obtain m found where a: "a = (m, found)" by (cases a)
  have "n \<in> setElems (deliver1 a s) \<or> (n, False) \<in> set as \<or> (n, True) = a"
    using Cons.prems by (auto simp: a deliver1_def)
  then show ?case using Cons.IH [of "deliver1 a s"] by auto
qed simp

lemma dbStep_keeps:
  assumes "dbStep w w'" "sound w" "idle t' (pw_pg w')" "\<And>n. stored n (pg_tables (pw_pg w)) \<Longrightarrow> stored n t'"
  shows "sound w' \<and> (\<forall>n. accounted n w \<longrightarrow> accounted n w')"
proof -
  obtain k g x where w': "w' = (deliverAnswers k w)\<lparr>pw_pg := g, pw_ext := x\<rparr>" using assms(1) unfolding dbStep_def by blast
  have t': "pg_tables g = t'" "idle t' g" using assms(3) by (auto simp: w' idle_def)
  have "sound w'"
    using assms(2,4) t' by (auto simp: w' sound_def deliverAnswers_def dest: in_set_dropD)
  moreover have "accounted n w'" if a: "accounted n w" for n
  proof (cases "stored n (pg_tables (pw_pg w))")
    case True
    then show ?thesis using assms(4) t' by (simp add: w' accounted_def)
  next
    case False
    then have "(n, True) \<notin> set (take k (pw_floating w))" using assms(2) by (auto simp: sound_def dest: in_set_takeD)
    moreover have "set (pw_floating w) = set (take k (pw_floating w)) \<union> set (drop k (pw_floating w))"
      by (metis append_take_drop_id set_append)
    ultimately show ?thesis
      using a False delivered_elem [of n "pw_failedBlocks w" "take k (pw_floating w)"] t'
      by (auto simp: w' accounted_def deliverAnswers_def)
  qed
  ultimately show ?thesis by blast
qed

lemma dbStep_secure:
  fixes m :: "('x, 'a) pact"
  assumes "follows dbStep m"
    and "\<And>w r w' t. m w = (r, w') \<Longrightarrow> idle t (pw_pg w) \<Longrightarrow> \<exists>t'. idle t' (pw_pg w') \<and> (\<forall>n. stored n t \<longrightarrow> stored n t')"
  shows "follows (secure L) m"
  unfolding follows_def secure_def
proof (intro allI impI)
  fix w :: "'x persistWorld"
  assume s: "honestLedger L \<and> sound w"
  have d: "dbStep w (snd (m w))" using assms(1) by (simp add: follows_def)
  obtain t' where "idle t' (pw_pg (snd (m w)))" "\<forall>n. stored n (pg_tables (pw_pg w)) \<longrightarrow> stored n t'"
    using assms(2) [of w "fst (m w)" "snd (m w)" "pg_tables (pw_pg w)"] s by (auto simp: sound_def)
  then show "sound (snd (m w)) \<and> (\<forall>n. accounted n w \<longrightarrow> accounted n (snd (m w)))"
    using dbStep_keeps [OF d] s by blast
qed

text \<open>Statements that leave a part of the tables alone, in particular the blocks.\<close>

definition keepsField :: "(tables \<Rightarrow> 'c) \<Rightarrow> 'r statement \<Rightarrow> bool" where
  "keepsField p f \<longleftrightarrow> (\<forall>t r t'. f t = Some (r, t') \<longrightarrow> p t' = p t)"

abbreviation keepsBlocks :: "'r statement \<Rightarrow> bool" where
  "keepsBlocks \<equiv> keepsField t_block"

lemma keeps_andThen: "keepsField p f \<Longrightarrow> (\<And>a. keepsField p (k a)) \<Longrightarrow> keepsField p (andThen f k)"
  by (fastforce simp: keepsField_def andThen_def split: option.splits)

lemma keeps_eachOf: "(\<And>x. keepsField p (f x)) \<Longrightarrow> keepsField p (eachOf f xs)"
  by (induction xs) (simp_all add: keepsField_def [of p "\<lambda>t. Some ((), t)"] keeps_andThen)

lemma keeps_tx:
  assumes "\<And>t xs. p (t\<lparr>t_transaction := xs\<rparr>) = p t" "\<And>t xs. p (t\<lparr>t_token_transfer := xs\<rparr>) = p t"
  shows "keepsField p (txStatement n x)"
  unfolding txStatement_def
  by (intro keeps_andThen keeps_eachOf)
    (auto simp: keepsField_def insertTransaction_def insertTransfer_def onTables_def Let_def assms split: if_splits)

lemma blockStatement_stores:
  assumes "blockStatement i t = Some (r, t')"
  shows "\<exists>b. t_block t' = t_block t @ [b] \<and> br_number b = ib_number i \<and> \<not> stored (ib_number i) t"
proof -
  obtain t1 where t1: "insertBlock (ib_number i) (ib_created_at i) (ib_hash i) (ib_number_of_tx i) t = Some ((), t1)"
      "eachOf (txStatement (ib_number i)) (ib_transactions i) t1 = Some (r, t')"
    using assms by (auto simp: blockStatement_def andThen_def split: option.splits)
  have "t_block t' = t_block t1"
    using keeps_eachOf [of t_block "txStatement (ib_number i)", OF keeps_tx] t1(2) by (auto simp: keepsField_def)
  then show ?thesis using t1(1) by (auto simp: insertBlock_def onTables_def stored_def split: option.splits if_splits)
qed

section \<open>Interfaces\<close>

text \<open>
  A relation that the primitive steps of a retry follow, and, in the extensions, the steps that store
  blocks and put them on the list, and those of the monitor; every synchronization method then follows
  it too.
\<close>

locale retry_frame = run_preorder R
  for R :: "'x persistWorld \<Rightarrow> 'x persistWorld \<Rightarrow> bool" +
  fixes L :: "('x, 'l) ledgerApi" and D :: "'x database"
  assumes environment: "R w (w\<lparr>pw_ext := x\<rparr>)"
    and tracking: "R w (w\<lparr>pw_trackedOperations := ops\<rparr>)"
    and retries: "follows R (retryBlock L D acc n)"
begin

lemma follows_tracked [follows_intros]: "follows R m \<Longrightarrow> follows R (tracked L name m)"
  unfolding tracked_def
  by (intro follows_bindA follows_thenA follows_finallyA follows_modifyA)
    (auto simp: follows_def newUuid_def addTrackedOperation_def removeTrackedOperation_def environment tracking stays split: prod.split)

lemma follows_syncFailedBlocks: "follows R (syncFailedBlocks L D)"
  unfolding syncFailedBlocks_def by (intro follows_tracked follows_bindA follows_getsA follows_forOfSet retries)

end

locale sync_frame = retry_frame R L D
  for R :: "'x persistWorld \<Rightarrow> 'x persistWorld \<Rightarrow> bool" and L :: "('x, 'l) ledgerApi" and D :: "'x database" +
  assumes calls: "follows R (getBlockFromLedger L r full)"
    and stores: "follows R (parseAndStoreBlockData L D block)"
    and fails: "follows R (addFailedBlock D n)"
    and refreshes: "follows R (syncTokenBalanceERC20 D)"
    and updates: "follows R (syncTokenBalanceERC721 D m)"
    and counts: "follows R (getMissingBlocksInRange D a b)"
begin

lemma follows_storeFromLedger: "follows R (storeFromLedger L D n)"
  unfolding storeFromLedger_def by (intro follows_bindA follows_option follows_throwE calls stores)

lemma follows_syncBlocks: "follows R (syncBlocks L D a b)"
  unfolding syncBlocks_def by (intro follows_bindA follows_forEachA follows_catchA counts follows_storeFromLedger fails)

lemma follows_syncTokenBalances: "follows R (syncTokenBalances L D m)"
  unfolding syncTokenBalances_def
  by (intro follows_bindA follows_thenA follows_getsA follows_if follows_ret follows_syncFailedBlocks refreshes updates)

end

locale monitor_frame = sync_frame R L D
  for R :: "'x persistWorld \<Rightarrow> 'x persistWorld \<Rightarrow> bool" and L :: "('x, 'l) ledgerApi" and D :: "'x database" +
  assumes sees: "R w (w\<lparr>pw_lastSeenBlock := m\<rparr>)"
    and monitors: "R w (w\<lparr>pw_monitor := c\<rparr>)"
begin

lemma follows_pushNewBlock: "follows R (pushNewBlock L D block)"
  unfolding pushNewBlock_def Let_def
  by (intro follows_bindA follows_thenA follows_getsA follows_modifyA follows_catchA follows_option follows_split follows_ret
      follows_forEachA stores fails sees follows_syncBlocks follows_syncTokenBalances)

lemma follows_syncAll: "follows R (syncAll L D)"
  unfolding syncAll_def Let_def
  by (intro follows_tracked follows_bindA follows_thenA follows_option follows_throwE follows_ret follows_syncFailedBlocks
      calls follows_syncBlocks follows_syncTokenBalances)

lemma follows_startMonitor: "follows R (startMonitor L D)"
  unfolding startMonitor_def
  by (intro follows_bindA follows_thenA follows_ensure follows_modifyA follows_syncAll sees monitors)

lemma follows_onNext: "follows R (onNext L D b)"
  unfolding onNext_def by (intro follows_option follows_ret follows_catchA follows_pushNewBlock)

end

section \<open>No block is lost\<close>

interpretation sec: run_preorder "secure L" for L
  by (rule secure_preorder)

lemma secure_pgQuery:
  assumes "keepsBlocks f"
  shows "follows (secure L) (pgQuery D (pgRun f))"
proof (rule dbStep_secure [OF dbStep_pgQuery])
  fix w r w' t
  assume q: "pgQuery D (pgRun f) w = (r, w')" and i: "idle t (pw_pg w)"
  obtain ft x a g where g: "db_fault D (pw_ext w) = (ft, x)" "pgAsk ft (pgRun f) (pw_pg w) = (a, g)" by (metis surj_pair)
  then have "pw_pg w' = g" using q by (auto simp: pgQuery_def deliverAnswers_def)
  then show "\<exists>t'. idle t' (pw_pg w') \<and> (\<forall>n. stored n t \<longrightarrow> stored n t')"
    using ask_idle [OF i g(2)] assms by (force simp: keepsField_def stored_def)
qed

lemma secure_dbQuery: "keepsBlocks f \<Longrightarrow> follows (secure L) (dbQuery D f)"
  unfolding dbQuery_def assertConnected_def
  by (intro sec.follows_thenA sec.follows_bindA sec.follows_getsA sec.follows_ensure secure_pgQuery)

lemma secure_apiCall: "follows (secure L) (apiCall L' f)"
proof (rule dbStep_secure [OF dbStep_apiCall])
  fix w r w' t
  assume "apiCall L' f w = (r, w')" "idle t (pw_pg w)"
  then show "\<exists>t'. idle t' (pw_pg w') \<and> (\<forall>n. stored n t \<longrightarrow> stored n t')"
    by (auto simp: apiCall_def deliverAnswers_def split: prod.splits)
qed

lemma insertBlockData_result:
  assumes "insertBlockData D i w = (r, w')" "idle t (pw_pg w)"
  shows "r \<noteq> Pending" "\<exists>t'. idle t' (pw_pg w') \<and> (t' = t \<or> blockStatement i t = Some ((), t')) \<and> (r = Returns () \<longrightarrow> blockStatement i t = Some ((), t'))"
proof -
  have "case r of Returns a \<Rightarrow> (\<exists>t'. blockStatement i t = Some ((), t') \<and> idle t' (pw_pg w') \<and> pg_alive (pw_pg w'))
      | Throws _ \<Rightarrow> afterInsert i t (pw_pg w') | Pending \<Rightarrow> False"
    using triple_insertBlockData [of t D i, unfolded triple_def, rule_format, OF assms(2)] assms(1) by simp
  then show "r \<noteq> Pending" "\<exists>t'. idle t' (pw_pg w') \<and> (t' = t \<or> blockStatement i t = Some ((), t')) \<and> (r = Returns () \<longrightarrow> blockStatement i t = Some ((), t'))"
    by (cases r; auto simp: afterInsert_def)+
qed

lemma secure_insertBlockData: "follows (secure L) (insertBlockData D i)"
proof (rule dbStep_secure [OF dbStep_insertBlockData])
  fix w r w' t
  assume "insertBlockData D i w = (r, w')" "idle t (pw_pg w)"
  then show "\<exists>t'. idle t' (pw_pg w') \<and> (\<forall>n. stored n t \<longrightarrow> stored n t')"
    using insertBlockData_result(2) blockStatement_stores by (fastforce simp: stored_def)
qed

lemma secure_parse: "follows (secure L) (parseBlockTransaction L' tx)"
  unfolding parseBlockTransaction_def getTransactionReceipt_def
  by (intro sec.follows_bindA sec.follows_split sec.follows_if sec.follows_option sec.follows_ret sec.follows_throwE
      sec.follows_getsA sec.follows_liftR secure_apiCall)

lemma secure_parseAndStore: "follows (secure L) (parseAndStoreBlockData L' D block)"
  unfolding parseAndStoreBlockData_def
  by (intro sec.follows_catchA sec.follows_bindA sec.follows_allA sec.follows_throwE secure_parse secure_insertBlockData)

lemma secure_getBlock: "follows (secure L) (getBlockFromLedger L' r full)"
  unfolding getBlockFromLedger_def
  by (intro sec.follows_bindA sec.follows_split sec.follows_if sec.follows_ret sec.follows_throwE secure_apiCall)

text \<open>A block that was stored without an error is in the database.\<close>

lemma sound_idle: "sound w \<Longrightarrow> idle (pg_tables (pw_pg w)) (pw_pg w)"
  by (simp add: sound_def)

lemma secureD: "follows (secure L) m \<Longrightarrow> m w = (r, w') \<Longrightarrow> honestLedger L \<Longrightarrow> sound w \<Longrightarrow> sound w' \<and> (\<forall>n. accounted n w \<longrightarrow> accounted n w')"
  using followsD by (fastforce simp: secure_def)

lemma honest_exists: "honestLedger (L\<lparr>api_getBlock := \<lambda>r full x. (Rejected, x)\<rparr>)"
  by (simp add: honestLedger_def)

lemma sound_parse: "sound w \<Longrightarrow> allA (parseBlockTransaction L) txs w = (r, w') \<Longrightarrow> sound w'"
proof -
  assume "sound w" "allA (parseBlockTransaction L) txs w = (r, w')"
  moreover have "follows (secure (L\<lparr>api_getBlock := \<lambda>r full x. (Rejected, x)\<rparr>)) (allA (parseBlockTransaction L) txs)"
    by (intro sec.follows_allA secure_parse)
  ultimately show ?thesis using secureD honest_exists by blast
qed

lemma parseAndStore_stores:
  assumes "sound w" "parseAndStoreBlockData L D block w = (Returns u, w')"
  shows "stored (parseInt10 (bk_number block)) (pg_tables (pw_pg w'))"
proof -
  obtain txs w1 where p: "allA (parseBlockTransaction L) (bk_transactions block) w = (Returns txs, w1)"
      "insertBlockData D (blockInput block txs) w1 = (Returns (), w')"
    using assms(2) by (auto simp: parseAndStoreBlockData_def catchA_def throwE_def bindA_Returns split: prod.splits outcome.splits)
  obtain t' where "idle t' (pw_pg w')" "blockStatement (blockInput block txs) (pg_tables (pw_pg w1)) = Some ((), t')"
    using insertBlockData_result(2) [OF p(2) sound_idle [OF sound_parse [OF assms(1) p(1)]]] by blast
  then show ?thesis using blockStatement_stores by (fastforce simp: idle_def stored_def blockInput_def)
qed

lemma storeFromLedger_stores:
  assumes "honestLedger L" "sound w" "storeFromLedger L D n w = (Returns u, w')"
  shows "stored n (pg_tables (pw_pg w'))"
proof -
  obtain block w1 where b: "getBlockFromLedger L (BlockNo n) True w = (Returns (Some block), w1)" "parseAndStoreBlockData L D block w1 = (Returns (), w')"
    using assms(3) by (auto simp: storeFromLedger_def bindA_Returns throwE_def split: option.splits)
  obtain x where "api_getBlock L (BlockNo n) True (pw_ext w) = (Response 200 (Some block), x)"
    using b(1) by (auto simp: getBlockFromLedger_def bindA_Returns apiCall_def ret_def throwE_def split: prod.splits response.splits if_splits)
  then have "parseInt10 (bk_number block) = n" using assms(1) by (fastforce simp: honestLedger_def)
  moreover have "sound w1" using secureD [OF secure_getBlock b(1) assms(1,2)] by blast
  ultimately show ?thesis using parseAndStore_stores [OF _ b(2)] by blast
qed

lemma secure_storeFromLedger: "follows (secure L) (storeFromLedger L D n)"
  unfolding storeFromLedger_def
  by (intro sec.follows_bindA sec.follows_option sec.follows_throwE secure_getBlock secure_parseAndStore)

lemma secure_retryBlock:
  fixes L :: "('x, 'l) ledgerApi"
  shows "follows (secure L) (retryBlock L D acc n)"
  unfolding follows_def secure_def
proof (intro allI impI)
  fix w :: "'x persistWorld"
  assume a: "honestLedger L \<and> sound w"
  obtain r w1 where m: "storeFromLedger L D n w = (r, w1)" by (cases "storeFromLedger L D n w")
  have s: "sound w1 \<and> (\<forall>n. accounted n w \<longrightarrow> accounted n w1)" using secureD [OF secure_storeFromLedger m] a by blast
  show "sound (snd (retryBlock L D acc n w)) \<and> (\<forall>m. accounted m w \<longrightarrow> accounted m (snd (retryBlock L D acc n w)))"
  proof (cases r)
    case (Returns u)
    then have "stored n (pg_tables (pw_pg w1))" using storeFromLedger_stores a m by blast
    then show ?thesis using s Returns m
      by (auto simp: retryBlock_def catchA_def thenA_def bindA_def modifyA_def ret_def sound_def accounted_def)
  qed (use s m in \<open>simp_all add: retryBlock_def catchA_def thenA_def bindA_def ret_def\<close>)
qed

lemma addFailedBlock_run:
  assumes "sound w" "addFailedBlock D n w = (r, w')"
  shows "r = Returns () \<and> sound w' \<and> accounted n w' \<and> (\<forall>m. accounted m w \<longrightarrow> accounted m w')"
proof (cases "pw_dbConnected w")
  case True
  obtain ft x a g where q: "db_fault D (pw_ext w) = (ft, x)" "pgAsk ft (pgRun (selectAll (blockRows n))) (pw_pg w) = (a, g)"
    by (metis surj_pair)
  have f: "selectAll (blockRows n) t = Some (r, t') \<Longrightarrow> r = blockRows n t \<and> t' = t" for t r t'
    by (auto simp: selectAll_def onTables_def split: if_splits)
  have t: "idle (pg_tables (pw_pg w)) g" using ask_idle [OF sound_idle [OF assms(1)] q(2), THEN conjunct1] f by auto
  have "stored n (pg_tables (pw_pg w))" if a: "a = Some [b]" for b
  proof -
    obtain t' where "selectAll (blockRows n) (pg_tables (pw_pg w)) = Some ([b], t')"
      using ask_idle [OF sound_idle [OF assms(1)] q(2), THEN conjunct2] a by auto
    then have "blockRows n (pg_tables (pw_pg w)) = [b]" using f by fastforce
    then have "b \<in> set (blockRows n (pg_tables (pw_pg w)))" by simp
    then show ?thesis by (auto simp: blockRows_def stored_def)
  qed
  note found = this
  have "pg_tables g = pg_tables (pw_pg w)" using t by (simp add: idle_def)
  moreover define hit where "hit = (case a of Some [b] \<Rightarrow> (case n of Some i \<Rightarrow> \<bar>i\<bar> < 10 ^ 21 | None \<Rightarrow> True) | _ \<Rightarrow> False)"
  moreover have "hit \<Longrightarrow> stored n (pg_tables (pw_pg w))"
    using found by (auto simp: hit_def split: option.splits list.splits)
  moreover have "r = Returns ()" "w' = w\<lparr>pw_pg := g, pw_ext := x, pw_floating := pw_floating w @ [(n, hit)]\<rparr>"
    using assms(2) True by (simp_all add: addFailedBlock_def q Let_def hit_def)
  ultimately show ?thesis using t assms(1) by (cases hit) (auto simp: sound_def accounted_def)
qed (use assms in \<open>auto simp: addFailedBlock_def sound_def accounted_def\<close>)

lemma keepsBlocks_balances:
  "keepsBlocks refreshERC20" "keepsBlocks (update_issued_erc721_tokens pick n)" "keepsBlocks (get_missing_blocks_in_range a b)"
  by (auto simp: keepsField_def refreshERC20_def update_issued_erc721_tokens_def get_missing_blocks_in_range_def onTables_def
      split: if_splits option.splits prod.splits)

interpretation accounting: monitor_frame "secure L" L D for L :: "('x, 'l) ledgerApi" and D
proof unfold_locales
  show "follows (secure L) (addFailedBlock D n)" for n
    unfolding follows_def secure_def using addFailedBlock_run [OF _ surjective_pairing] by blast
  show "follows (secure L) (getMissingBlocksInRange D a b)" for a b
    unfolding getMissingBlocksInRange_def by (intro sec.follows_thenA sec.follows_ensure secure_dbQuery keepsBlocks_balances)
  show "follows (secure L) (syncTokenBalanceERC20 D)" "follows (secure L) (syncTokenBalanceERC721 D m)" for m
    unfolding syncTokenBalanceERC20_def syncTokenBalanceERC721_def by (intro secure_dbQuery keepsBlocks_balances)+
qed (simp_all add: secure_retryBlock secure_getBlock secure_parseAndStore secure_def sound_def accounted_def)

section \<open>Every loop ends\<close>

text \<open>The places of the list and the floating answers bound the loop over the list.\<close>

lemma settlesA_allA [settles_intros]: "(\<And>x. settlesA (f x)) \<Longrightarrow> settlesA (allA f xs)"
proof (induction xs)
  case (Cons x xs)
  then have "fst (f x w) \<noteq> Pending" "fst (allA f xs w) \<noteq> Pending" "fst (bindA (allA f xs) (\<lambda>ys. ret (y # ys)) w) \<noteq> Pending" for w y
    using settlesA_bindA [of "allA f xs" "\<lambda>ys. ret (y # ys)"] by (auto simp: settlesA_def ret_def)
  then show ?case by (auto simp: settlesA_def split: prod.split outcome.split) (metis fst_conv)+
qed (simp add: settlesA_basic)

lemma settlesA_primitives [settles_intros]:
  "settlesA (pgQuery D f)" "settlesA (apiCall L g)" "settlesA (addFailedBlock D n)" "settlesA (newUuid L)"
  by (auto simp: settlesA_def pgQuery_def apiCall_def addFailedBlock_def newUuid_def Let_def split: prod.split option.split response.split)

lemma settlesA_dbQuery [settles_intros]: "settlesA (dbQuery D f)"
  unfolding dbQuery_def assertConnected_def by (intro settles_intros)

lemma settlesA_parseAndStore [settles_intros]: "settlesA (parseAndStoreBlockData L D block)"
  unfolding parseAndStoreBlockData_def insertBlockData_def insertTxData_def pgQueryRollback_def assertConnected_def
    parseBlockTransaction_def getTransactionReceipt_def
  by (intro settles_intros)

lemma settlesA_storeFromLedger [settles_intros]: "settlesA (storeFromLedger L D n)" "settlesA (getBlockFromLedger L r full)"
  unfolding storeFromLedger_def getBlockFromLedger_def by (intro settles_intros)+

lemma settlesA_retryBlock: "settlesA (retryBlock L D acc n)"
  unfolding retryBlock_def by (intro settles_intros)

definition roomy :: "'x persistWorld \<Rightarrow> 'x persistWorld \<Rightarrow> bool" where
  "roomy w w' \<longleftrightarrow> length (pw_failedBlocks w) \<le> length (pw_failedBlocks w')
     \<and> length (pw_failedBlocks w') + length (pw_floating w') \<le> length (pw_failedBlocks w) + length (pw_floating w)"

lemma delivered_length: "length s \<le> length (fold deliver1 as s) \<and> length (fold deliver1 as s) \<le> length s + length as"
proof (induction as arbitrary: s)
  case (Cons a as)
  have "length s \<le> length (deliver1 a s) \<and> length (deliver1 a s) \<le> Suc (length s)"
    by (simp add: deliver1_def setAdd_def)
  then show ?case using Cons.IH [of "deliver1 a s"] by simp
qed simp

interpretation room: run_preorder roomy
  by unfold_locales (auto simp: roomy_def)

lemma dbStep_roomy: "dbStep w w' \<Longrightarrow> roomy w w'"
proof -
  assume "dbStep w w'"
  then obtain k g x where "w' = (deliverAnswers k w)\<lparr>pw_pg := g, pw_ext := x\<rparr>" unfolding dbStep_def by blast
  then show ?thesis using delivered_length [of "pw_failedBlocks w" "take k (pw_floating w)"]
    by (auto simp: roomy_def deliverAnswers_def)
qed

lemma dbStep_storeFromLedger: "follows dbStep (storeFromLedger L D n)"
  unfolding storeFromLedger_def getBlockFromLedger_def parseAndStoreBlockData_def parseBlockTransaction_def getTransactionReceipt_def
  by (intro db.follows_bindA db.follows_split db.follows_if db.follows_ret db.follows_throwE db.follows_option db.follows_catchA
      db.follows_allA db.follows_getsA db.follows_liftR dbStep_apiCall dbStep_insertBlockData)

lemma room_retryBlock: "follows roomy (retryBlock L D acc n)"
proof -
  have "follows roomy (storeFromLedger L D n)"
    using dbStep_storeFromLedger dbStep_roomy by (fastforce simp: follows_def)
  then show ?thesis unfolding retryBlock_def
    by (intro room.follows_catchA room.follows_thenA room.follows_ret room.follows_modifyA) (simp_all add: roomy_def)
qed

lemma settlesA_syncFailedBlocks [settles_intros]:
  fixes L :: "('x, 'l) ledgerApi"
  shows "settlesA (syncFailedBlocks L D)"
proof -
  let ?room = "\<lambda>w. length (pw_failedBlocks w) + length (pw_floating w)"
  have "fst (forOfSet (Suc (?room w)) pw_failedBlocks (retryBlock L D) 0 [] w) \<noteq> Pending" for w :: "'x persistWorld"
  proof (rule forOfSet_ends [where room = ?room])
    show "fst (retryBlock L D acc n w) \<noteq> Pending" for acc n w using settlesA_retryBlock [of L D acc n] by (simp add: settlesA_def)
    show "?room (snd (retryBlock L D acc n w)) \<le> ?room w"
        "length (pw_failedBlocks w) \<le> length (pw_failedBlocks (snd (retryBlock L D acc n w)))" for acc n w
      using room_retryBlock [of L D acc n] by (auto simp: follows_def roomy_def)
  qed simp_all
  then have m: "settlesA (bindA (getsA (\<lambda>w. Suc (?room w))) (\<lambda>fuel. forOfSet fuel pw_failedBlocks (retryBlock L D) 0 []))"
    by (simp add: settlesA_def bindA_def getsA_def)
  show ?thesis unfolding syncFailedBlocks_def tracked_def
    by (intro settlesA_bindA [OF settlesA_primitives(4)] settlesA_thenA settlesA_basic settlesA_finallyA m)
qed

lemma settlesA_syncTokenBalances [settles_intros]: "settlesA (syncTokenBalances L D n)"
  unfolding syncTokenBalances_def syncTokenBalanceERC20_def syncTokenBalanceERC721_def by (intro settles_intros)

lemma settlesA_syncBlocks [settles_intros]: "settlesA (syncBlocks L D a b)"
  unfolding syncBlocks_def getMissingBlocksInRange_def by (intro settles_intros)

section \<open>Ranges of blocks\<close>

text \<open>A loop whose body achieves something that later rounds keep.\<close>

lemma forEachA_achieves:
  assumes "\<And>x w r w'. body x w = (r, w') \<Longrightarrow> I w \<Longrightarrow> I w' \<and> A x w' \<and> (\<forall>y. A y w \<longrightarrow> A y w')"
    and "forEachA body xs w = (Returns u, w')" "I w"
  shows "I w' \<and> (\<forall>x \<in> set xs. A x w') \<and> (\<forall>y. A y w \<longrightarrow> A y w')"
  using assms(2,3)
proof (induction xs arbitrary: w)
  case (Cons x xs)
  obtain v w1 where "body x w = (Returns v, w1)" "forEachA body xs w1 = (Returns u, w')"
    using Cons.prems(1) by (auto simp: thenA_Returns)
  then show ?case using Cons.IH [of w1] assms(1) [of x w "Returns v" w1] Cons.prems(2) by auto
qed (auto simp: ret_def)

lemma syncBlock_run:
  assumes "honestLedger L" "sound w" "catchA (storeFromLedger L D n) (\<lambda>e. addFailedBlock D n) w = (r, w')"
  shows "r = Returns () \<and> sound w' \<and> accounted n w' \<and> (\<forall>m. accounted m w \<longrightarrow> accounted m w')"
proof -
  obtain q w1 where q: "storeFromLedger L D n w = (q, w1)" by (cases "storeFromLedger L D n w")
  have s: "sound w1 \<and> (\<forall>m. accounted m w \<longrightarrow> accounted m w1)" using secureD [OF secure_storeFromLedger q] assms(1,2) by blast
  show ?thesis
  proof (cases q)
    case (Returns u)
    then show ?thesis using assms(3) s q storeFromLedger_stores [OF assms(1,2)]
      by (auto simp: catchA_def accounted_def)
  next
    case (Throws e)
    then have "addFailedBlock D n w1 = (r, w')" using assms(3) q by (simp add: catchA_def)
    then show ?thesis using addFailedBlock_run s by blast
  next
    case Pending
    then show ?thesis using settlesA_storeFromLedger(1) [of L D n] q by (metis settlesA_def fst_conv)
  qed
qed

lemma missing_run:
  assumes "sound w" "getMissingBlocksInRange D (Some a) (Some b) w = (Returns ms, w')"
  shows "sound w' \<and> (\<forall>m. accounted m w \<longrightarrow> accounted m w') \<and> (\<forall>i. a \<le> i \<and> i \<le> b \<longrightarrow> i \<in> set ms \<or> accounted (Some i) w')"
proof -
  let ?L = "undefined\<lparr>api_getBlock := \<lambda>r full x. (Rejected, x)\<rparr> :: ('a, unit) ledgerApi"
  have q: "pgQuery D (pgRun (get_missing_blocks_in_range (Some a) (Some b))) w = (Returns ms, w')"
    using assms(2) by (auto simp: getMissingBlocksInRange_def dbQuery_def assertConnected_def thenA_Returns bindA_Returns ensure_def
        throwE_def ret_def getsA_def split: if_splits)
  obtain ft x g where g: "db_fault D (pw_ext w) = (ft, x)" "pgAsk ft (pgRun (get_missing_blocks_in_range (Some a) (Some b))) (pw_pg w) = (Some ms, g)" "pw_pg w' = g"
    using q by (auto simp: pgQuery_def deliverAnswers_def split: prod.splits option.splits)
  obtain t' where t': "get_missing_blocks_in_range (Some a) (Some b) (pg_tables (pw_pg w)) = Some (ms, t')" "idle t' g"
    using ask_idle [OF sound_idle [OF assms(1)] g(2), THEN conjunct2] by auto
  have e: "t' = pg_tables (pw_pg w)" "ms = filter (\<lambda>i. \<forall>r \<in> set (t_block t'). br_number r \<noteq> Some i) [a..b]"
    using t'(1) by (auto simp: get_missing_blocks_in_range_def onTables_def int4_def split: if_splits option.splits)
  then have "\<forall>i. a \<le> i \<and> i \<le> b \<longrightarrow> i \<in> set ms \<or> accounted (Some i) w'"
    using t'(2) g(3) by (auto simp: accounted_def stored_def idle_def)
  moreover have "sound w' \<and> (\<forall>m. accounted m w \<longrightarrow> accounted m w')"
    using secureD [OF accounting.counts assms(2), of ?L] honest_exists assms(1) by blast
  ultimately show ?thesis by blast
qed

lemma syncBlocks_run:
  assumes "honestLedger L" "sound w" "syncBlocks L D (Some a) (Some b) w = (Returns u, w')" "a \<le> i" "i \<le> b"
  shows "accounted (Some i) w'"
proof -
  obtain ms w1 where m: "getMissingBlocksInRange D (Some a) (Some b) w = (Returns ms, w1)"
      "forEachA (\<lambda>n. catchA (storeFromLedger L D (Some n)) (\<lambda>e. addFailedBlock D (Some n))) ms w1 = (Returns u, w')"
    using assms(3) by (auto simp: syncBlocks_def bindA_Returns)
  have "sound w' \<and> (\<forall>x \<in> set ms. accounted (Some x) w') \<and> (\<forall>y. accounted (Some y) w1 \<longrightarrow> accounted (Some y) w')"
  proof (rule forEachA_achieves [OF _ m(2), where I = sound and A = "\<lambda>x. accounted (Some x)"])
    show "sound w1" using missing_run [OF assms(2) m(1)] by blast
  qed (use syncBlock_run [OF assms(1)] in blast)
  then show ?thesis using missing_run [OF assms(2) m(1)] assms(4,5) by blast
qed

section \<open>The monitor\<close>

text \<open>No step but the first of \<open>pushNewBlock\<close> changes the number of the last block.\<close>

definition sameSeen :: "'x persistWorld \<Rightarrow> 'x persistWorld \<Rightarrow> bool" where
  "sameSeen w w' \<longleftrightarrow> pw_lastSeenBlock w' = pw_lastSeenBlock w"

interpretation seenp: run_preorder sameSeen
  by unfold_locales (auto simp: sameSeen_def)

lemma dbStep_sameSeen: "follows dbStep m \<Longrightarrow> follows sameSeen m"
proof -
  assume m: "follows dbStep m"
  have "sameSeen w w'" if "dbStep w w'" for w w' :: "'a persistWorld"
    using that by (auto simp: dbStep_def sameSeen_def deliverAnswers_def)
  then show ?thesis using m by (simp add: follows_def)
qed

interpretation seen: sync_frame sameSeen L D for L :: "('x, 'l) ledgerApi" and D
proof unfold_locales
  show "follows sameSeen (retryBlock L D acc n)" for acc n
    unfolding retryBlock_def
    by (intro seenp.follows_catchA seenp.follows_thenA seenp.follows_ret seenp.follows_modifyA dbStep_sameSeen dbStep_storeFromLedger)
      (simp_all add: sameSeen_def)
  show "follows sameSeen (getBlockFromLedger L r full)" for r full
    unfolding getBlockFromLedger_def
    by (intro dbStep_sameSeen db.follows_bindA db.follows_split db.follows_if db.follows_ret db.follows_throwE dbStep_apiCall)
  show "follows sameSeen (parseAndStoreBlockData L D block)" for block
    unfolding parseAndStoreBlockData_def parseBlockTransaction_def getTransactionReceipt_def
    by (intro dbStep_sameSeen db.follows_catchA db.follows_allA db.follows_bindA db.follows_split db.follows_if db.follows_ret
        db.follows_throwE db.follows_option db.follows_getsA db.follows_liftR dbStep_apiCall dbStep_insertBlockData)
  show "follows sameSeen (addFailedBlock D n)" for n
    by (auto simp: follows_def addFailedBlock_def sameSeen_def Let_def split: prod.split)
  show "follows sameSeen (syncTokenBalanceERC20 D)" "follows sameSeen (syncTokenBalanceERC721 D m)"
      "follows sameSeen (getMissingBlocksInRange D a b)" for m a b
    unfolding syncTokenBalanceERC20_def syncTokenBalanceERC721_def getMissingBlocksInRange_def
    by (intro dbStep_sameSeen db.follows_thenA db.follows_ensure dbStep_dbQuery)+
qed (simp_all add: sameSeen_def)

end
