(* ===== verification/Persistence_Properties.thy ===== *)
theory Persistence_Properties
  imports Persistence_Sync
begin

text \<open>
  Properties of the Ethereum persistence plugin: storing a block is atomic, the monitor loses no block but
  the last one of a gap, the balances are those of the stored transfers, and what goes wrong
  with blocks that failed.
\<close>

section \<open>Numbers\<close>

lemma toDouble_exact: "\<bar>i\<bar> < 2 ^ 53 \<Longrightarrow> toDouble i = i"
proof -
  assume i: "\<bar>i\<bar> < 2 ^ 53"
  then have "excessBits (nat \<bar>i\<bar>) = 0" by (subst excessBits.simps) (simp add: nat_less_iff)
  then show ?thesis by (simp add: toDouble_def Let_def sgn_mult_abs)
qed

section \<open>Pushing a block\<close>

lemma seen_returns: "follows sameSeen m \<Longrightarrow> m w = (r, w') \<Longrightarrow> pw_lastSeenBlock w' = pw_lastSeenBlock w"
  by (drule (1) followsD) (simp add: sameSeen_def)

lemma tokenBalances_run:
  assumes "honestLedger L" "sound w" "catchA (syncTokenBalances L D p) (\<lambda>e. ret ()) w = (r, w')"
  shows "r = Returns () \<and> sound w' \<and> pw_lastSeenBlock w' = pw_lastSeenBlock w \<and> (\<forall>m. accounted m w \<longrightarrow> accounted m w')"
proof -
  have "settlesA (catchA (syncTokenBalances L D p) (\<lambda>e. ret ()))" by (intro settles_intros)
  then have "r \<noteq> Pending" using assms(3) by (metis settlesA_def fst_conv)
  moreover have "r \<noteq> Throws e" for e
    using assms(3) by (auto simp: catchA_def ret_def split: prod.splits outcome.splits)
  moreover have f: "follows (secure L) (catchA (syncTokenBalances L D p) (\<lambda>e. ret ()))"
      "follows sameSeen (catchA (syncTokenBalances L D p) (\<lambda>e. ret ()))"
    by (intro sec.follows_catchA sec.follows_ret accounting.follows_syncTokenBalances
        seenp.follows_catchA seenp.follows_ret seen.follows_syncTokenBalances)+
  ultimately show ?thesis using secureD [OF f(1) assms(3,1,2)] seen_returns [OF f(2) assms(3)] by (cases r) auto
qed

lemma addFailedBlocks_run:
  assumes "sound w" "forEachA (\<lambda>i. addFailedBlock D (Some i)) is w = (r, w')"
  shows "r = Returns () \<and> sound w' \<and> (\<forall>i \<in> set is. accounted (Some i) w') \<and> (\<forall>m. accounted m w \<longrightarrow> accounted m w')"
  using assms
proof (induction "is" arbitrary: w)
  case (Cons i "is")
  obtain q w1 where q: "addFailedBlock D (Some i) w = (q, w1)" by (cases "addFailedBlock D (Some i) w")
  note a = addFailedBlock_run [OF Cons.prems(1) q]
  then have "forEachA (\<lambda>i. addFailedBlock D (Some i)) is w1 = (r, w')"
    using Cons.prems(2) q by (auto simp: thenA_def bindA_def)
  then show ?case using Cons.IH [of w1] a by auto
qed (simp add: ret_def)

lemma gap_run:
  assumes "honestLedger L" "sound w"
    and "catchA (syncBlocks L D (Some a) (Some b)) (\<lambda>e. forEachA (\<lambda>i. addFailedBlock D (Some i)) [a..b - 1]) w = (r, w')"
  shows "r = Returns () \<and> sound w' \<and> (\<forall>m. accounted m w \<longrightarrow> accounted m w') \<and> (\<forall>i. a \<le> i \<and> i < b \<longrightarrow> accounted (Some i) w')"
proof -
  obtain q w1 where q: "syncBlocks L D (Some a) (Some b) w = (q, w1)" by (cases "syncBlocks L D (Some a) (Some b) w")
  have s: "sound w1 \<and> (\<forall>m. accounted m w \<longrightarrow> accounted m w1)" using secureD [OF accounting.follows_syncBlocks q assms(1,2)] .
  show ?thesis
  proof (cases q)
    case (Returns u)
    then show ?thesis using syncBlocks_run [OF assms(1,2)] q s assms(3) by (auto simp: catchA_def)
  next
    case (Throws e)
    then have "forEachA (\<lambda>i. addFailedBlock D (Some i)) [a..b - 1] w1 = (r, w')" using assms(3) q by (simp add: catchA_def)
    then show ?thesis using addFailedBlocks_run [of w1 D] s by auto
  next
    case Pending
    then show ?thesis using settlesA_syncBlocks [of L D "Some a" "Some b"] q by (metis settlesA_def fst_conv)
  qed
qed

lemma storeOrFail_run:
  assumes "sound w" "catchA (parseAndStoreBlockData L D block) (\<lambda>e. addFailedBlock D (parseInt10 (bk_number block))) w = (r, w')" "honestLedger L"
  shows "r = Returns () \<and> sound w' \<and> accounted (parseInt10 (bk_number block)) w' \<and> (\<forall>m. accounted m w \<longrightarrow> accounted m w')"
proof -
  obtain q w1 where q: "parseAndStoreBlockData L D block w = (q, w1)" by (cases "parseAndStoreBlockData L D block w")
  have s: "sound w1 \<and> (\<forall>m. accounted m w \<longrightarrow> accounted m w1)" using secureD [OF secure_parseAndStore q assms(3,1)] .
  show ?thesis
  proof (cases q)
    case (Returns u)
    then show ?thesis using parseAndStore_stores [OF assms(1)] q s assms(2) by (auto simp: catchA_def accounted_def)
  next
    case (Throws e)
    then have "addFailedBlock D (parseInt10 (bk_number block)) w1 = (r, w')" using assms(2) q by (simp add: catchA_def)
    then show ?thesis using addFailedBlock_run s by blast
  next
    case Pending
    then show ?thesis using settlesA_parseAndStore [of L D block] q by (metis settlesA_def fst_conv)
  qed
qed

lemma pushNewBlock_run:
  assumes "honestLedger L" "sound w" "pw_lastSeenBlock w = Some p" "parseInt10 (bk_number block) = Some n" "pushNewBlock L D block w = (r, w')"
  shows "r = Returns () \<and> sound w' \<and> pw_lastSeenBlock w' = Some n \<and> (\<forall>m. accounted m w \<longrightarrow> accounted m w')
    \<and> accounted (Some n) w' \<and> (\<forall>i. p < i \<and> i \<le> n \<and> i \<noteq> n - 1 \<longrightarrow> accounted (Some i) w')"
proof -
  let ?w0 = "w\<lparr>pw_lastSeenBlock := Some n\<rparr>"
  let ?store = "catchA (parseAndStoreBlockData L D block) (\<lambda>e. addFailedBlock D (Some n))"
  let ?gap = "case gapBetween (Some p) (Some n) of None \<Rightarrow> ret () | Some (a, b) \<Rightarrow>
     catchA (syncBlocks L D (Some a) (Some b)) (\<lambda>e. forEachA (\<lambda>i. addFailedBlock D (Some i)) [a..b - 1])"
  have w0: "sound ?w0" "\<And>m. accounted m ?w0 \<longleftrightarrow> accounted m w" using assms(2) by (simp_all add: sound_def accounted_def)
  obtain q1 w1 where q1: "?store ?w0 = (q1, w1)" by (cases "?store ?w0")
  have s1: "q1 = Returns () \<and> sound w1 \<and> accounted (Some n) w1 \<and> (\<forall>m. accounted m ?w0 \<longrightarrow> accounted m w1)"
    using storeOrFail_run [of ?w0 L D block q1 w1] q1 w0 assms(1,4) by simp
  have "follows sameSeen ?store" by (intro seenp.follows_catchA seen.stores seen.fails)
  then have l1: "pw_lastSeenBlock w1 = Some n" using seen_returns [of ?store ?w0 q1 w1] q1 by simp
  obtain q2 w2 where q2: "?gap w1 = (q2, w2)" by (cases "?gap w1")
  have s2: "q2 = Returns () \<and> sound w2 \<and> (\<forall>m. accounted m w1 \<longrightarrow> accounted m w2) \<and> (\<forall>i. p < i \<and> i < n - 1 \<longrightarrow> accounted (Some i) w2)"
    using q2 s1 gap_run [of L w1 D "p + 1" "n - 1" q2 w2] assms(1) by (auto simp: gapBetween_def ret_def split: if_splits)
  have "follows sameSeen ?gap"
    by (intro seenp.follows_option seenp.follows_split seenp.follows_ret seenp.follows_catchA seenp.follows_forEachA
        seen.follows_syncBlocks seen.fails)
  then have l2: "pw_lastSeenBlock w2 = Some n" using seen_returns [of ?gap w1 q2 w2] q2 l1 by simp
  have "catchA (syncTokenBalances L D (Some p)) (\<lambda>e. ret ()) w2 = (r, w')"
    using assms(3-5) q1 q2 s1 s2 by (simp add: pushNewBlock_def Let_def bindA_def thenA_def getsA_def modifyA_def)
  note this [THEN tokenBalances_run [OF assms(1) s2 [THEN conjunct2, THEN conjunct1]]]
  moreover have "i = n \<or> i < n - 1" if "i \<le> n" "i \<noteq> n - 1" for i using that by linarith
  ultimately show ?thesis using s1 s2 l2 w0(2) by metis
qed

section \<open>Runs of the monitor\<close>

lemma onNext_run:
  assumes "honestLedger L" "sound w" "pw_lastSeenBlock w = Some p" "parseInt10 (bk_number block) = Some n"
    and "onNext L D (Some block) w = (r, w')"
  shows "r = Returns () \<and> sound w' \<and> pw_lastSeenBlock w' = Some n \<and> (\<forall>m. accounted m w \<longrightarrow> accounted m w')
    \<and> accounted (Some n) w' \<and> (\<forall>i. p < i \<and> i \<le> n \<and> i \<noteq> n - 1 \<longrightarrow> accounted (Some i) w')"
proof -
  obtain q v where q: "pushNewBlock L D block w = (q, v)" by (cases "pushNewBlock L D block w")
  note run = pushNewBlock_run [OF assms(1-4) q]
  then have "(r, w') = (q, v)" using assms(5) q by (simp add: onNext_def catchA_def)
  then show ?thesis using run by simp
qed

text \<open>The callback of the subscription for one block after the other.\<close>

definition monitorRun :: "('x, 'l) ledgerApi \<Rightarrow> 'x database \<Rightarrow> BlockData list \<Rightarrow> ('x, unit) pact" where
  "monitorRun L D = forEachA (\<lambda>block. onNext L D (Some block))"

text \<open>
  C22. While the monitor runs, no block is lost but the ones before a gap's end: whatever blocks are
  pushed to it, in any order and also repeated, every pushed block and every block between the last one
  seen before and the highest one pushed is stored, or on the list of failed blocks, or on its way to it; the
  exception is a block before a pushed one that was not pushed itself. This holds whatever fails in the database
  and in the requests to the connector, on the condition that an answer to the request for a block is that
  block. The callback never throws, leaves no transaction open and forgets no block that was accounted for.
\<close>

theorem monitored_blocks_accounted:
  assumes "honestLedger L" "sound w" "pw_lastSeenBlock w = Some p"
    and "map (\<lambda>b. parseInt10 (bk_number b)) blocks = map Some ns"
    and "monitorRun L D blocks w = (r, w')"
  shows "r = Returns () \<and> sound w' \<and> pw_lastSeenBlock w' = Some (last (p # ns)) \<and> (\<forall>m. accounted m w \<longrightarrow> accounted m w')
    \<and> (\<forall>i \<in> set ns. accounted (Some i) w')
    \<and> (\<forall>i. p < i \<and> i \<le> Max (set (p # ns)) \<longrightarrow> accounted (Some i) w' \<or> (i \<notin> set ns \<and> i + 1 \<in> set ns))"
  using assms(2-5)
proof (induction blocks arbitrary: w p ns)
  case Nil
  then show ?case by (auto simp: monitorRun_def ret_def)
next
  case (Cons b bs)
  obtain n ms where ns: "ns = n # ms" "parseInt10 (bk_number b) = Some n" "map (\<lambda>b. parseInt10 (bk_number b)) bs = map Some ms"
    using Cons.prems(3) by (cases ns) auto
  obtain q w1 where q: "onNext L D (Some b) w = (q, w1)" by (cases "onNext L D (Some b) w")
  note one = onNext_run [OF assms(1) Cons.prems(1,2) ns(2) q]
  then have run: "monitorRun L D bs w1 = (r, w')" using Cons.prems(4) q by (simp add: monitorRun_def thenA_def bindA_def)
  note rest = Cons.IH [OF _ _ ns(3) run]
  have pushed: "\<forall>i \<in> set ns. accounted (Some i) w'" using rest one ns(1) by auto
  have "accounted (Some i) w' \<or> (i \<notin> set ns \<and> i + 1 \<in> set ns)" if i: "p < i" "i \<le> Max (set (p # ns))" for i
  proof (cases "n < i")
    case True
    have "\<exists>m \<in> set (p # ns). i \<le> m" using i(2) Max_in [of "set (p # ns)"] by blast
    with True i(1) have "\<exists>m \<in> set ms. i \<le> m" unfolding ns(1) by auto
    then have "i \<le> Max (set (n # ms))" by (auto intro: order_trans Max_ge)
    with rest one True ns(1) show ?thesis by auto
  next
    case False
    show ?thesis
    proof (cases "i \<in> set ns")
      case True
      with pushed show ?thesis by blast
    next
      case other: False
      show ?thesis
      proof (cases "i = n - 1")
        case True
        with other ns(1) show ?thesis by simp
      next
        case far: False
        with False i(1) one have "accounted (Some i) w1" by simp
        with rest one show ?thesis by blast
      qed
    qed
  qed
  with pushed show ?case using rest one ns(1) by auto
qed

subsection \<open>A small world\<close>

text \<open>
  A ledger with a block 3 and no transactions, and a database that answers every query, or one whose
  connection is lost at the first.
\<close>

definition demoBlock :: "string \<Rightarrow> BlockData" where
  "demoBlock n = \<lparr>bk_number = n, bk_timestamp = Inr 1700000000, bk_hash = Some (''0x'' @ n), bk_transactions = []\<rparr>"

definition demoLedger :: "(unit, LogDescription) ledgerApi" where
  "demoLedger = \<lparr>api_getTransactionReceipt = (\<lambda>h x. (Rejected, x)),
     api_getBlock = (\<lambda>r full x. (case r of
        BlockNo n \<Rightarrow> if n = Some 3 then Response 200 (Some (demoBlock ''3'')) else Rejected
      | Latest \<Rightarrow> Response 200 (Some (demoBlock ''3'')), x)),
     api_invokeContract = (\<lambda>ty a m is x. (Rejected, x)), api_watchBlocks = True, api_delivered = (\<lambda>x. 0),
     lb_toChecksumAddress = Some, lb_isAddress = (\<lambda>a. True), lb_parseTransaction = (\<lambda>ty i v. None), lb_parseLog = (\<lambda>ty l. Some l),
     lb_uuid = (\<lambda>x. (''id'', x)), lb_dateNow = (\<lambda>x. 0), lb_tokens = 5\<rparr>"

definition demoDatabase :: "fault \<Rightarrow> unit database" where
  "demoDatabase ft = \<lparr>db_fault = (\<lambda>x. (ft, x)), db_connects = (\<lambda>x. (True, x)), db_pick = hd, db_now = (\<lambda>x. 0)\<rparr>"

definition demoTables :: tables where
  "demoTables = noTables\<lparr>t_schema := True, t_block := [\<lparr>br_number = Some 1, br_created_at = 0, br_hash = ''0x1'', br_number_of_tx = 0\<rparr>]\<rparr>"

definition demoPersist :: "unit persistWorld" where
  "demoPersist = (newPersistence ''i'' demoTables ())\<lparr>pw_pg := \<lparr>pg_tables = demoTables, pg_saved = None, pg_aborted = False,
     pg_alive = True, pg_used = True\<rparr>, pw_dbConnected := True, pw_isConnected := True, pw_lastSeenBlock := Some 1\<rparr>"

lemma demo_numbers: "parseInt10 ''2'' = Some 2" "parseInt10 ''3'' = Some 3" "parseInt10 ''5'' = Some 5"
proof -
  have "signed decimalMagnitude ''2'' = Some 2" "signed decimalMagnitude ''3'' = Some 3" "signed decimalMagnitude ''5'' = Some 5"
    by code_simp+
  then show "parseInt10 ''2'' = Some 2" "parseInt10 ''3'' = Some 3" "parseInt10 ''5'' = Some 5"
    by (simp_all add: parseInt10_def toDouble_exact)
qed

lemma demo_honest: "honestLedger demoLedger"
  using demo_numbers by (auto simp: honestLedger_def demoLedger_def demoBlock_def)

lemma demo_sound: "sound demoPersist"
  by (simp add: sound_def idle_def demoPersist_def newPersistence_def)

theorem monitored_blocks_accounted_witness:
  "accounted (Some 3) (snd (monitorRun demoLedger (demoDatabase LostAfter) [demoBlock ''2'', demoBlock ''5'', demoBlock ''2''] demoPersist))
     \<and> accounted (Some 5) (snd (monitorRun demoLedger (demoDatabase LostAfter) [demoBlock ''2'', demoBlock ''5'', demoBlock ''2''] demoPersist))"
proof -
  let ?m = "monitorRun demoLedger (demoDatabase LostAfter) [demoBlock ''2'', demoBlock ''5'', demoBlock ''2''] demoPersist"
  have p: "pw_lastSeenBlock demoPersist = Some 1" by (simp add: demoPersist_def)
  have ns: "map (\<lambda>b. parseInt10 (bk_number b)) [demoBlock ''2'', demoBlock ''5'', demoBlock ''2''] = map Some [2, 5, 2]"
    using demo_numbers by (simp add: demoBlock_def)
  note run = monitored_blocks_accounted [OF demo_honest demo_sound p ns surjective_pairing [of ?m]]
  then have "accounted (Some 5) (snd ?m)" by simp
  moreover have "\<forall>i. 1 < i \<and> i \<le> Max (set [1, 2, 5, 2]) \<longrightarrow> accounted (Some i) (snd ?m) \<or> (i \<notin> set [2, 5, 2] \<and> i + 1 \<in> set [2, 5, 2])"
    using run by blast
  from this [rule_format, of 3] have "accounted (Some 3) (snd ?m)" by simp
  ultimately show ?thesis by blast
qed
section \<open>Atomicity\<close>

text \<open>
  C23. Storing a block is atomic, whatever becomes of the connection: when \<open>insertBlockData\<close> returns, the block, all its
  transactions and all their token transfers are in the database; when it throws, none of them is, and no
  transaction is left open, unless the connection was lost when the commit had taken effect. It
  always settles.
\<close>

theorem insert_atomic:
  assumes "idle t (pw_pg w)" "insertBlockData D i w = (r, w')"
  shows "case r of
      Returns _ \<Rightarrow> \<exists>t'. blockStatement i t = Some ((), t') \<and> idle t' (pw_pg w')
    | Throws _ \<Rightarrow> idle t (pw_pg w') \<or> (\<exists>t'. blockStatement i t = Some ((), t') \<and> idle t' (pw_pg w') \<and> \<not> pg_alive (pw_pg w'))
    | Pending \<Rightarrow> False"
  using triple_insertBlockData [of t D i, unfolded triple_def, rule_format, OF assms(1)] assms(2)
  by (auto simp: afterInsert_def split: outcome.splits)

definition demoInput :: InsertBlockDataInput where
  "demoInput = \<lparr>ib_number = Some 2, ib_created_at = Some 5, ib_hash = ''0x2'', ib_number_of_tx = 1, ib_transactions =
     [\<lparr>tx_index = Some 0, tx_hash = ''0xt'', tx_from = ''a'', tx_to = ''k'', tx_eth_value = Some 0, tx_method_signature = '''',
       tx_method_name = '''', tx_token_transfers = [\<lparr>ti_sender = ''a'', ti_recipient = ''b'', ti_value = 7\<rparr>]\<rparr>]\<rparr>"

lemma demo_insert: "fst (insertBlockData (demoDatabase Answered) demoInput demoPersist) = Returns ()"
  by (simp add: insertBlockData_def insertTxData_def pgQuery_def demoDatabase_def demoInput_def demoPersist_def demoTables_def noTables_def
      assertConnected_def thenA_def bindA_def catchA_def getsA_def ensure_def ret_def deliverAnswers_def newPersistence_def session_defs
      insertBlock_def insertTransaction_def insertTransfer_def onTables_def txRowOf_def transferRowOf_def Let_def)

theorem insert_atomic_witness:
  "\<exists>t'. blockStatement demoInput demoTables = Some ((), t')
     \<and> idle t' (pw_pg (snd (insertBlockData (demoDatabase Answered) demoInput demoPersist)))"
proof -
  have i: "idle demoTables (pw_pg demoPersist)" by (simp add: idle_def demoPersist_def)
  show ?thesis using insert_atomic [OF i surjective_pairing, of demoInput "demoDatabase Answered"] demo_insert by simp
qed

section \<open>Termination\<close>

text \<open>
  The loop over the list of failed blocks ends, although blocks are added to and deleted from the list while it
  runs, and so do the methods that call it: none of them leaves its caller waiting for ever.
\<close>

theorem syncFailedBlocks_ends:
  "fst (syncFailedBlocks L D w) \<noteq> Pending \<and> fst (syncTokenBalances L D n w) \<noteq> Pending
    \<and> fst (pushNewBlock L D block w) \<noteq> Pending \<and> fst (syncAll L D w) \<noteq> Pending \<and> fst (startMonitor L D w) \<noteq> Pending"
proof -
  have "settlesA (pushNewBlock L D block)"
    unfolding pushNewBlock_def Let_def by (intro settles_intros)
  moreover have a: "settlesA (syncAll L D)"
    unfolding syncAll_def tracked_def Let_def by (intro settles_intros)
  moreover have "settlesA (startMonitor L D)"
    unfolding startMonitor_def by (intro settles_intros a)
  ultimately show ?thesis
    using settlesA_syncFailedBlocks [of L D] settlesA_syncTokenBalances [of L D n] by (simp add: settlesA_def)
qed

section \<open>The last block of a gap\<close>

context run_preorder
begin

lemma follows_forEachA_set: "(\<And>x. x \<in> set xs \<Longrightarrow> follows R (body x)) \<Longrightarrow> follows R (forEachA body xs)"
  by (induction xs) (simp_all add: follows_ret follows_thenA)

end

lemma bindA_getsA: "bindA (getsA f) k w = k (f w) w"
  by (simp add: bindA_def getsA_def)

lemma thenA_modifyA: "thenA (modifyA f) m w = m (f w)"
  by (simp add: thenA_def bindA_def modifyA_def)

text \<open>Without a connection, a block that is not known stays unknown, except through \<open>addFailedBlock\<close>.\<close>

definition unknown :: "num \<Rightarrow> 'x persistWorld \<Rightarrow> bool" where
  "unknown m w \<longleftrightarrow> \<not> pg_alive (pw_pg w) \<and> \<not> accounted m w"

definition staysUnknown :: "num \<Rightarrow> 'x persistWorld \<Rightarrow> 'x persistWorld \<Rightarrow> bool" where
  "staysUnknown m w w' \<longleftrightarrow> (unknown m w \<longrightarrow> unknown m w')"

interpretation unk: run_preorder "staysUnknown m" for m
  by unfold_locales (auto simp: staysUnknown_def)

lemma delivered_not: "m \<notin> setElems s \<Longrightarrow> (m, False) \<notin> set as \<Longrightarrow> m \<notin> setElems (fold deliver1 as s)"
proof (induction as arbitrary: s)
  case (Cons a as)
  have "m \<notin> setElems (deliver1 a s)" using Cons.prems by (cases a) (auto simp: deliver1_def)
  then show ?case using Cons by simp
qed simp

lemma unknown_deliver: "unknown m w \<Longrightarrow> unknown m ((deliverAnswers k w)\<lparr>pw_ext := x\<rparr>)"
  using delivered_not [of m "pw_failedBlocks w" "take k (pw_floating w)"]
  by (auto simp: unknown_def accounted_def deliverAnswers_def dest: in_set_takeD in_set_dropD)

lemma deliverAnswers_same [simp]: "(deliverAnswers k w)\<lparr>pw_pg := pw_pg w, pw_ext := x\<rparr> = (deliverAnswers k w)\<lparr>pw_ext := x\<rparr>"
  by (simp add: deliverAnswers_def)

lemma dead_query:
  assumes "\<not> pg_alive (pw_pg w)"
  shows "\<exists>x. pgQuery D f w = (Throws LibraryError, (deliverAnswers (length (pw_floating w)) w)\<lparr>pw_ext := x\<rparr>)"
  using assms by (cases "db_fault D (pw_ext w)") (auto simp: pgQuery_def pgAsk_def)

lemma unk_pgQuery: "follows (staysUnknown m) (pgQuery D f)"
  unfolding follows_def staysUnknown_def
proof (intro allI impI)
  fix w :: "'a persistWorld"
  assume u: "unknown m w"
  then obtain x where "pgQuery D f w = (Throws LibraryError, (deliverAnswers (length (pw_floating w)) w)\<lparr>pw_ext := x\<rparr>)"
    using dead_query unfolding unknown_def by blast
  then show "unknown m (snd (pgQuery D f w))" using unknown_deliver [OF u] by simp
qed

lemma unk_apiCall: "follows (staysUnknown m) (apiCall L f)"
  unfolding follows_def staysUnknown_def by (auto simp: apiCall_def unknown_deliver split: prod.split)

lemma unk_dbQuery: "follows (staysUnknown m) (dbQuery D f)"
  unfolding dbQuery_def assertConnected_def
  by (intro unk.follows_thenA unk.follows_bindA unk.follows_getsA unk.follows_ensure unk_pgQuery)

lemma unk_parseAndStore: "follows (staysUnknown m) (parseAndStoreBlockData L D block)"
  unfolding parseAndStoreBlockData_def parseBlockTransaction_def getTransactionReceipt_def insertBlockData_def insertTxData_def
    pgQueryRollback_def assertConnected_def
  by (intro unk.follows_catchA unk.follows_allA unk.follows_bindA unk.follows_thenA unk.follows_split unk.follows_if unk.follows_ret
      unk.follows_throwE unk.follows_option unk.follows_getsA unk.follows_liftR unk.follows_forEachA unk.follows_ensure unk_apiCall unk_pgQuery)

interpretation unkr: retry_frame "staysUnknown m" L D for m and L :: "('x, 'l) ledgerApi" and D
proof unfold_locales
  show "follows (staysUnknown m) (retryBlock L D acc n)" for acc n
    unfolding retryBlock_def storeFromLedger_def getBlockFromLedger_def
    by (intro unk.follows_catchA unk.follows_bindA unk.follows_thenA unk.follows_split unk.follows_if unk.follows_ret
        unk.follows_throwE unk.follows_option unk.follows_modifyA unk_apiCall unk_parseAndStore)
      (simp add: staysUnknown_def unknown_def accounted_def)
qed (simp_all add: staysUnknown_def unknown_def accounted_def)

lemma unk_balances: "follows (staysUnknown m) (syncTokenBalances L D n)"
  unfolding syncTokenBalances_def syncTokenBalanceERC20_def syncTokenBalanceERC721_def
  by (intro unk.follows_bindA unk.follows_thenA unk.follows_getsA unk.follows_if unk.follows_ret unkr.follows_syncFailedBlocks unk_dbQuery)

lemma unk_addFailedBlock: "n \<noteq> m \<Longrightarrow> follows (staysUnknown m) (addFailedBlock D n)"
  by (auto simp: follows_def staysUnknown_def unknown_def accounted_def addFailedBlock_def pgAsk_def Let_def split: prod.split)

lemma unk_missing:
  assumes "unknown m w" "syncBlocks L D a b w = (r, w')"
  shows "unknown m w' \<and> (\<exists>e. r = Throws e)"
proof -
  have "\<exists>e w1. getMissingBlocksInRange D a b w = (Throws e, w1) \<and> unknown m w1"
  proof -
    have "follows (staysUnknown m) (getMissingBlocksInRange D a b)"
      unfolding getMissingBlocksInRange_def by (intro unk.follows_thenA unk.follows_ensure unk_dbQuery)
    then have "unknown m (snd (getMissingBlocksInRange D a b w))" using assms(1) by (simp add: follows_def staysUnknown_def)
    moreover obtain x where "pgQuery D (pgRun (get_missing_blocks_in_range a b)) w = (Throws LibraryError, x)"
      using dead_query assms(1) unfolding unknown_def by blast
    then have "\<exists>e. fst (getMissingBlocksInRange D a b w) = Throws e"
      by (simp add: getMissingBlocksInRange_def dbQuery_def assertConnected_def thenA_def bindA_def getsA_def ensure_def ret_def throwE_def)
    ultimately show ?thesis by (metis prod.collapse)
  qed
  then show ?thesis using assms(2) by (auto simp: syncBlocks_def bindA_def)
qed

text \<open>
  The last block of a gap is lost when the connection to the database is down. The monitor receives block \<open>n\<close>
  after block \<open>p\<close> and cannot ask for the blocks in between; it then puts them on the list of failed
  blocks, but its loop stops one before the last. Block \<open>n - 1\<close> is not stored and not on the list, and
  the last block seen is \<open>n\<close>, so that it is not missed later either.
\<close>

theorem gap_end_lost:
  assumes "\<not> pg_alive (pw_pg w)" "\<not> accounted (Some (n - 1)) w"
    and "pw_lastSeenBlock w = Some p" "parseInt10 (bk_number block) = Some n" "p + 1 < n"
  shows "\<not> accounted (Some (n - 1)) (snd (pushNewBlock L D block w)) \<and> pw_lastSeenBlock (snd (pushNewBlock L D block w)) = Some n"
proof -
  let ?w0 = "w\<lparr>pw_lastSeenBlock := Some n\<rparr>" and ?m = "Some (n - 1)"
  let ?gap = "catchA (syncBlocks L D (Some (p + 1)) (Some (n - 1))) (\<lambda>e. forEachA (\<lambda>i. addFailedBlock D (Some i)) [p + 1..n - 1 - 1])"
  let ?rest = "thenA (catchA (parseAndStoreBlockData L D block) (\<lambda>e. addFailedBlock D (Some n)))
    (thenA ?gap (catchA (syncTokenBalances L D (Some p)) (\<lambda>e. ret ())))"
  have g: "gapBetween (Some p) (Some n) = Some (p + 1, n - 1)" using assms(5) by (simp add: gapBetween_def)
  have run: "pushNewBlock L D block w = ?rest ?w0"
    unfolding pushNewBlock_def Let_def assms(4) bindA_getsA thenA_modifyA assms(3) g by simp
  have each: "follows (staysUnknown ?m) (forEachA (\<lambda>i. addFailedBlock D (Some i)) [a..n - 1 - 1])" for a
    by (rule unk.follows_forEachA_set) (auto intro: unk_addFailedBlock)
  have gap: "follows (staysUnknown ?m) ?gap"
    unfolding follows_def staysUnknown_def
  proof (intro allI impI)
    fix v :: "'a persistWorld"
    assume "unknown ?m v"
    then obtain e v1 where "syncBlocks L D (Some (p + 1)) (Some (n - 1)) v = (Throws e, v1)" "unknown ?m v1"
      using unk_missing by (metis prod.collapse)
    then show "unknown ?m (snd (?gap v))"
      using each [of "p + 1"] by (simp add: catchA_def follows_def staysUnknown_def)
  qed
  have "follows (staysUnknown ?m) ?rest"
    by (rule unk.follows_thenA [OF unk.follows_catchA [OF unk_parseAndStore unk_addFailedBlock]
        unk.follows_thenA [OF gap unk.follows_catchA [OF unk_balances unk.follows_ret]]]) simp
  moreover have "unknown ?m ?w0" using assms(1,2) by (simp add: unknown_def accounted_def)
  moreover have "follows sameSeen ?rest"
    by (intro seenp.follows_thenA seenp.follows_catchA seen.stores seen.fails seen.follows_syncBlocks seen.follows_syncTokenBalances
        seenp.follows_forEachA seenp.follows_ret)
  then have "pw_lastSeenBlock (snd (?rest ?w0)) = Some n" by (simp add: follows_def sameSeen_def)
  ultimately show ?thesis unfolding run by (simp add: follows_def staysUnknown_def unknown_def)
qed

definition deadPersist :: "unit persistWorld" where
  "deadPersist = demoPersist\<lparr>pw_pg := (pw_pg demoPersist)\<lparr>pg_alive := False\<rparr>\<rparr>"

theorem gap_end_lost_witness:
  "\<not> accounted (Some 4) (snd (pushNewBlock demoLedger (demoDatabase Answered) (demoBlock ''5'') deadPersist))"
proof -
  have "\<not> accounted (Some (5 - 1)) deadPersist" "\<not> pg_alive (pw_pg deadPersist)" "pw_lastSeenBlock deadPersist = Some 1"
    by (simp_all add: deadPersist_def demoPersist_def newPersistence_def accounted_def stored_def demoTables_def noTables_def)
  moreover have "parseInt10 (bk_number (demoBlock ''5'')) = Some 5" using demo_numbers by (simp add: demoBlock_def)
  ultimately show ?thesis using gap_end_lost [of deadPersist 5 1 "demoBlock ''5''" demoLedger "demoDatabase Answered"] by simp
qed

section \<open>A stored block on the list\<close>

text \<open>A block that is stored and on the list, with no answer under way that takes it from the list.\<close>

definition stuckAt :: "num \<Rightarrow> 'x persistWorld \<Rightarrow> bool" where
  "stuckAt n w \<longleftrightarrow> sound w \<and> stored n (pg_tables (pw_pg w)) \<and> n \<in> setElems (pw_failedBlocks w) \<and> (n, True) \<notin> set (pw_floating w)"

definition balances :: "tables \<Rightarrow> balanceRow list \<times> tokenERC721 list" where
  "balances t = (t_token_erc20 t, t_token_erc721 t)"

definition staysStuck :: "num \<Rightarrow> 'x persistWorld \<Rightarrow> 'x persistWorld \<Rightarrow> bool" where
  "staysStuck n w w' \<longleftrightarrow> (stuckAt n w \<longrightarrow> stuckAt n w' \<and> balances (pg_tables (pw_pg w')) = balances (pg_tables (pw_pg w)))"

interpretation stk: run_preorder "staysStuck n" for n
  by unfold_locales (auto simp: staysStuck_def)

lemma delivered_stays: "n \<in> setElems s \<Longrightarrow> (n, True) \<notin> set as \<Longrightarrow> n \<in> setElems (fold deliver1 as s)"
proof (induction as arbitrary: s)
  case (Cons a as)
  have "n \<in> setElems (deliver1 a s)" using Cons.prems by (cases a) (auto simp: deliver1_def)
  then show ?case using Cons by simp
qed simp

lemma dbStep_stuck:
  assumes "dbStep w w'" "stuckAt n w" "idle t' (pw_pg w')" "t' = pg_tables (pw_pg w) \<or> blockStatement i (pg_tables (pw_pg w)) = Some ((), t')"
  shows "stuckAt n w' \<and> balances (pg_tables (pw_pg w')) = balances (pg_tables (pw_pg w))"
proof -
  obtain k g x where w': "w' = (deliverAnswers k w)\<lparr>pw_pg := g, pw_ext := x\<rparr>" using assms(1) unfolding dbStep_def by blast
  have "keepsField balances (blockStatement i)"
    unfolding blockStatement_def
    by (intro keeps_andThen keeps_eachOf keeps_tx) (auto simp: keepsField_def insertBlock_def onTables_def balances_def split: if_splits option.splits)
  then have b: "balances t' = balances (pg_tables (pw_pg w))" using assms(4) by (auto simp: keepsField_def)
  have m: "stored j t'" if "stored j (pg_tables (pw_pg w))" for j
    using assms(4) that blockStatement_stores by (fastforce simp: stored_def)
  have "pg_tables (pw_pg w') = t'" using assms(3) by (simp add: idle_def)
  moreover have "sound w'" using dbStep_keeps [OF assms(1) _ assms(3) m] assms(2) by (simp add: stuckAt_def)
  moreover have "n \<in> setElems (pw_failedBlocks w')" "(n, True) \<notin> set (pw_floating w')"
    using assms(2) delivered_stays [of n "pw_failedBlocks w" "take k (pw_floating w)"]
    by (auto simp: w' stuckAt_def deliverAnswers_def dest: in_set_takeD in_set_dropD)
  ultimately show ?thesis using b m assms(2) by (auto simp: stuckAt_def)
qed

lemma stk_apiCall: "follows (staysStuck n) (apiCall L f)"
  unfolding follows_def staysStuck_def
proof (intro allI impI)
  fix w :: "'a persistWorld"
  assume s: "stuckAt n w"
  have "pw_pg (snd (apiCall L f w)) = pw_pg w" by (simp add: apiCall_def deliverAnswers_def split: prod.split)
  then show "stuckAt n (snd (apiCall L f w)) \<and> balances (pg_tables (pw_pg (snd (apiCall L f w)))) = balances (pg_tables (pw_pg w))"
    using dbStep_stuck [of w "snd (apiCall L f w)" n "pg_tables (pw_pg w)"] s dbStep_apiCall [of L f]
    by (auto simp: follows_def stuckAt_def sound_def)
qed

lemma stk_insertBlockData: "follows (staysStuck n) (insertBlockData D i)"
  unfolding follows_def staysStuck_def
proof (intro allI impI)
  fix w :: "'a persistWorld"
  assume s: "stuckAt n w"
  then obtain t' where "idle t' (pw_pg (snd (insertBlockData D i w)))"
      "t' = pg_tables (pw_pg w) \<or> blockStatement i (pg_tables (pw_pg w)) = Some ((), t')"
    using insertBlockData_result(2) [of D i w "fst (insertBlockData D i w)" "snd (insertBlockData D i w)" "pg_tables (pw_pg w)"] by (auto simp: stuckAt_def sound_def)
  then show "stuckAt n (snd (insertBlockData D i w))
      \<and> balances (pg_tables (pw_pg (snd (insertBlockData D i w)))) = balances (pg_tables (pw_pg w))"
    using dbStep_stuck [of w "snd (insertBlockData D i w)" n t' i] s dbStep_insertBlockData [of D i] by (auto simp: follows_def)
qed

lemma stk_getBlock: "follows (staysStuck n) (getBlockFromLedger L r full)"
  unfolding getBlockFromLedger_def
  by (intro stk.follows_bindA stk.follows_split stk.follows_if stk.follows_ret stk.follows_throwE stk_apiCall)

lemma stk_parse: "follows (staysStuck n) (allA (parseBlockTransaction L) txs)"
  unfolding parseBlockTransaction_def getTransactionReceipt_def
  by (intro stk.follows_allA stk.follows_bindA stk.follows_split stk.follows_if stk.follows_ret stk.follows_throwE stk.follows_option
      stk.follows_getsA stk.follows_liftR stk_apiCall)

lemma stk_storeFromLedger: "follows (staysStuck n) (storeFromLedger L D k)"
  unfolding storeFromLedger_def parseAndStoreBlockData_def
  by (intro stk.follows_bindA stk.follows_option stk.follows_throwE stk.follows_catchA stk_getBlock stk_parse stk_insertBlockData)

text \<open>It is never stored again.\<close>

lemma stuck_not_stored_again:
  assumes "honestLedger L" "stuckAt n w"
  shows "storeFromLedger L D n w \<noteq> (Returns u, w')"
proof
  assume "storeFromLedger L D n w = (Returns u, w')"
  then obtain block w1 where b: "getBlockFromLedger L (BlockNo n) True w = (Returns (Some block), w1)" "parseAndStoreBlockData L D block w1 = (Returns (), w')"
    by (auto simp: storeFromLedger_def bindA_Returns throwE_def split: option.splits)
  obtain x where "api_getBlock L (BlockNo n) True (pw_ext w) = (Response 200 (Some block), x)"
    using b(1) by (auto simp: getBlockFromLedger_def bindA_Returns apiCall_def ret_def throwE_def split: prod.splits response.splits if_splits)
  then have n: "parseInt10 (bk_number block) = n" using assms(1) by (fastforce simp: honestLedger_def)
  obtain txs w2 where p: "allA (parseBlockTransaction L) (bk_transactions block) w1 = (Returns txs, w2)"
      "insertBlockData D (blockInput block txs) w2 = (Returns (), w')"
    using b(2) by (auto simp: parseAndStoreBlockData_def catchA_def throwE_def bindA_Returns split: prod.splits outcome.splits)
  have "stuckAt n w2" using followsD [OF stk_getBlock b(1)] followsD [OF stk_parse p(1)] assms(2) by (auto simp: staysStuck_def)
  moreover from this obtain t' where "blockStatement (blockInput block txs) (pg_tables (pw_pg w2)) = Some ((), t')"
    using insertBlockData_result(2) [OF p(2)] by (auto simp: stuckAt_def sound_def)
  ultimately show False using blockStatement_stores n by (fastforce simp: stuckAt_def blockInput_def)
qed

definition staysStuckIf :: "('x, 'l) ledgerApi \<Rightarrow> num \<Rightarrow> 'x persistWorld \<Rightarrow> 'x persistWorld \<Rightarrow> bool" where
  "staysStuckIf L n w w' \<longleftrightarrow> (honestLedger L \<longrightarrow> staysStuck n w w')"

lemma stuck_retryBlock:
  fixes L :: "('x, 'l) ledgerApi"
  shows "follows (staysStuckIf L n) (retryBlock L D acc k)"
  unfolding follows_def staysStuckIf_def
proof (intro allI impI)
  fix w :: "'x persistWorld"
  assume h: "honestLedger L"
  obtain q w1 where q: "storeFromLedger L D k w = (q, w1)" by (cases "storeFromLedger L D k w")
  have s: "staysStuck n w w1" using followsD [OF stk_storeFromLedger q] .
  show "staysStuck n w (snd (retryBlock L D acc k w))"
  proof (cases q)
    case (Returns u)
    then have "stuckAt n w \<Longrightarrow> k \<noteq> n" using stuck_not_stored_again [OF h] q by blast
    then show ?thesis using s q Returns
      by (auto simp: retryBlock_def catchA_def thenA_def bindA_def modifyA_def ret_def staysStuck_def stuckAt_def sound_def)
  qed (use s q in \<open>simp_all add: retryBlock_def catchA_def thenA_def bindA_def ret_def\<close>)
qed

interpretation stuckr: retry_frame "staysStuckIf L n" L D for n and L :: "('x, 'l) ledgerApi" and D
  by unfold_locales (auto simp: staysStuckIf_def staysStuck_def stuckAt_def sound_def stuck_retryBlock)

text \<open>
  A block that is stored and on the list of failed blocks stays on the list, and no balance is updated any more:
  every retry fails since the block cannot be inserted a second time, so that the ledger never counts as in
  sync. Synchronizing a range of blocks stores a block of the list without taking it from the list.
\<close>

theorem stored_block_stuck:
  assumes "honestLedger L" "stuckAt n w" "syncTokenBalances L D m w = (Returns u, w')"
  shows "stuckAt n w' \<and> \<not> isLedgerInSync w' \<and> balances (pg_tables (pw_pg w')) = balances (pg_tables (pw_pg w))"
proof -
  obtain ns w1 where r: "syncFailedBlocks L D w = (Returns ns, w1)"
      "(if isLedgerInSync w1 then thenA (syncTokenBalanceERC20 D) (syncTokenBalanceERC721 D (numMin ns m)) else ret ()) w1 = (Returns u, w')"
    using assms(3) by (auto simp: syncTokenBalances_def bindA_Returns bindA_getsA)
  have "staysStuck n w w1" using followsD [OF stuckr.follows_syncFailedBlocks r(1)] assms(1) by (simp add: staysStuckIf_def)
  moreover have "\<not> isLedgerInSync v" if "stuckAt n v" for v :: "'a persistWorld"
    using that by (auto simp: isLedgerInSync_def stuckAt_def)
  ultimately show ?thesis using r(2) assms(2) by (auto simp: staysStuck_def ret_def split: if_splits)
qed

definition stuckPersist :: "unit persistWorld" where
  "stuckPersist = demoPersist\<lparr>pw_failedBlocks := [Some (Some 1)]\<rparr>"

lemma demo_retry: "fst (syncTokenBalances demoLedger (demoDatabase Answered) (Some 1) stuckPersist) = Returns ()"
  by (simp add: syncTokenBalances_def syncFailedBlocks_def tracked_def newUuid_def addTrackedOperation_def removeTrackedOperation_def
      retryBlock_def storeFromLedger_def getBlockFromLedger_def apiCall_def demoLedger_def stuckPersist_def demoPersist_def newPersistence_def
      bindA_def thenA_def catchA_def finallyA_def modifyA_def getsA_def ret_def deliverAnswers_def isLedgerInSync_def setSize_def)

theorem stored_block_stuck_witness:
  "\<not> isLedgerInSync (snd (syncTokenBalances demoLedger (demoDatabase Answered) (Some 1) stuckPersist))"
proof -
  let ?m = "syncTokenBalances demoLedger (demoDatabase Answered) (Some 1) stuckPersist"
  have "stuckAt (Some 1) stuckPersist"
    using demo_sound by (simp add: stuckAt_def stuckPersist_def sound_def stored_def demoPersist_def newPersistence_def demoTables_def
        noTables_def setElems_def)
  moreover have "?m = (Returns (), snd ?m)" using demo_retry by (metis prod.collapse)
  ultimately show ?thesis using stored_block_stuck [OF demo_honest] by blast
qed

section \<open>Balances\<close>

lemma addFailedBlock_floats:
  assumes "sound w" "pw_dbConnected w" "\<not> stored n (pg_tables (pw_pg w))"
  shows "\<exists>g x. addFailedBlock D n w = (Returns (), w\<lparr>pw_pg := g, pw_ext := x, pw_floating := pw_floating w @ [(n, False)]\<rparr>)"
proof -
  obtain ft x a g where q: "db_fault D (pw_ext w) = (ft, x)" "pgAsk ft (pgRun (selectAll (blockRows n))) (pw_pg w) = (a, g)"
    by (metis surj_pair)
  have "a \<noteq> Some [b]" for b
  proof
    assume "a = Some [b]"
    then obtain t' where "selectAll (blockRows n) (pg_tables (pw_pg w)) = Some ([b], t')"
      using ask_idle [OF sound_idle [OF assms(1)] q(2), THEN conjunct2] by auto
    then have "b \<in> set (blockRows n (pg_tables (pw_pg w)))" by (auto simp: selectAll_def onTables_def split: if_splits)
    then show False using assms(3) by (auto simp: blockRows_def stored_def)
  qed
  then show ?thesis using q assms(2) by (auto simp: addFailedBlock_def Let_def split: option.splits list.splits)
qed

lemma forOfSet_none: "setElems (s w) = {} \<Longrightarrow> length (s w) < fuel + i \<Longrightarrow> forOfSet fuel s body i acc w = (Returns acc, w) \<or> length (s w) < i"
proof (induction fuel arbitrary: i)
  case (Suc fuel)
  have "s w ! i = None" if "i < length (s w)"
    using Suc.prems(1) nth_mem [OF that] by (cases "s w ! i") (auto simp: setElems_def)
  then show ?case using Suc.IH [of "Suc i"] Suc.prems by auto
qed simp

lemma syncFailedBlocks_none:
  assumes "setElems (pw_failedBlocks w) = {}"
  shows "\<exists>x ops. syncFailedBlocks L D w = (Returns [], w\<lparr>pw_ext := x, pw_trackedOperations := ops\<rparr>)"
proof -
  obtain i x where u: "lb_uuid L (pw_ext w) = (i, x)" by (cases "lb_uuid L (pw_ext w)")
  let ?v = "addTrackedOperation L i ''syncFailedBlocks'' (w\<lparr>pw_ext := x\<rparr>)"
  have v: "pw_failedBlocks ?v = pw_failedBlocks w" "pw_floating ?v = pw_floating w" by (simp_all add: addTrackedOperation_def)
  have "bindA (getsA (\<lambda>w. Suc (length (pw_failedBlocks w) + length (pw_floating w)))) (\<lambda>fuel. forOfSet fuel pw_failedBlocks (retryBlock L D) 0 []) ?v
      = (Returns [], ?v)"
    using forOfSet_none [of pw_failedBlocks ?v "Suc (length (pw_failedBlocks ?v) + length (pw_floating ?v))" 0 "retryBlock L D" "[]"] assms v
    by (simp add: bindA_getsA del: forOfSet.simps)
  then have "syncFailedBlocks L D w = (Returns [], removeTrackedOperation i ?v)"
    unfolding syncFailedBlocks_def tracked_def
    using u by (subst bindA_def) (simp add: newUuid_def thenA_modifyA finallyA_def)
  then show ?thesis by (simp add: removeTrackedOperation_def addTrackedOperation_def) blast
qed

lemma syncTokenBalances_none:
  assumes "setElems (pw_failedBlocks w) = {}"
  shows "\<exists>x ops. syncTokenBalances L D p w
    = thenA (syncTokenBalanceERC20 D) (syncTokenBalanceERC721 D p) (w\<lparr>pw_ext := x, pw_trackedOperations := ops\<rparr>)"
proof -
  obtain x ops where "syncFailedBlocks L D w = (Returns [], w\<lparr>pw_ext := x, pw_trackedOperations := ops\<rparr>)"
    using syncFailedBlocks_none [OF assms] by blast
  then have "syncTokenBalances L D p w
      = thenA (syncTokenBalanceERC20 D) (syncTokenBalanceERC721 D p) (w\<lparr>pw_ext := x, pw_trackedOperations := ops\<rparr>)"
    using assms by (simp add: syncTokenBalances_def bindA_def getsA_def isLedgerInSync_def numMin_def)
  then show ?thesis by blast
qed

text \<open>
  The balances are updated although a block has just failed. The monitor does not wait for \<open>addFailedBlock\<close>, which first
  queries the database; with no other block on the list, the test for failed blocks comes before the new one is
  put on it. The block is on the list as soon as the answer has come back.
\<close>

theorem balances_updated_out_of_sync:
  assumes "pw_lastSeenBlock w = previous" "parseInt10 (bk_number block) = n" "gapBetween previous n = None"
    and "parseAndStoreBlockData L D block (w\<lparr>pw_lastSeenBlock := n\<rparr>) = (Throws e, w1)"
    and "setElems (pw_failedBlocks w1) = {}" "pw_floating w1 = []" "\<not> stored n (pg_tables (pw_pg w1))" "pw_dbConnected w1" "sound w1"
  shows "\<exists>w2. pushNewBlock L D block w
      = catchA (thenA (syncTokenBalanceERC20 D) (syncTokenBalanceERC721 D previous)) (\<lambda>e. ret ()) w2
    \<and> pw_floating w2 = [(n, False)] \<and> isLedgerInSync w2 \<and> \<not> isLedgerInSync (deliverAnswers 1 w2)"
proof -
  obtain g x where f: "addFailedBlock D n w1 = (Returns (), w1\<lparr>pw_pg := g, pw_ext := x, pw_floating := [(n, False)]\<rparr>)"
    using addFailedBlock_floats [OF assms(9,8,7), of D] assms(6) by auto
  let ?v = "w1\<lparr>pw_pg := g, pw_ext := x, pw_floating := [(n, False)]\<rparr>"
  have "pushNewBlock L D block w = catchA (syncTokenBalances L D previous) (\<lambda>e. ret ()) ?v"
    unfolding pushNewBlock_def Let_def bindA_getsA thenA_modifyA assms(1-3)
    using assms(4) f by (simp add: thenA_def bindA_def catchA_def ret_def)
  moreover obtain y ops where "syncTokenBalances L D previous ?v
      = thenA (syncTokenBalanceERC20 D) (syncTokenBalanceERC721 D previous) (?v\<lparr>pw_ext := y, pw_trackedOperations := ops\<rparr>)"
    using syncTokenBalances_none [of ?v L D previous] assms(5) by auto
  ultimately have "pushNewBlock L D block w
      = catchA (thenA (syncTokenBalanceERC20 D) (syncTokenBalanceERC721 D previous)) (\<lambda>e. ret ()) (?v\<lparr>pw_ext := y, pw_trackedOperations := ops\<rparr>)"
    by (simp add: catchA_def)
  then show ?thesis
    using assms(5) by (intro exI [of _ "?v\<lparr>pw_ext := y, pw_trackedOperations := ops\<rparr>"])
      (simp add: isLedgerInSync_def deliverAnswers_def deliver1_def)
qed

definition brokenBlock :: BlockData where
  "brokenBlock = (demoBlock ''2'')\<lparr>bk_transactions := [\<lparr>in_hash = ''0xt'', in_from = None, in_to = None, in_value = ''0'', in_input = ''''\<rparr>]\<rparr>"

lemma demo_broken:
  "\<exists>e. parseAndStoreBlockData demoLedger D brokenBlock (demoPersist\<lparr>pw_lastSeenBlock := Some 2\<rparr>)
     = (Throws e, demoPersist\<lparr>pw_lastSeenBlock := Some 2\<rparr>)"
  by (simp add: parseAndStoreBlockData_def brokenBlock_def parseBlockTransaction_def getTransactionReceipt_def apiCall_def demoLedger_def
      demoPersist_def newPersistence_def catchA_def bindA_def throwE_def ret_def deliverAnswers_def)

theorem balances_updated_out_of_sync_witness:
  "\<exists>w2. pushNewBlock demoLedger (demoDatabase Answered) brokenBlock demoPersist
      = catchA (thenA (syncTokenBalanceERC20 (demoDatabase Answered)) (syncTokenBalanceERC721 (demoDatabase Answered) (Some 1))) (\<lambda>e. ret ()) w2
    \<and> \<not> isLedgerInSync (deliverAnswers 1 w2)"
proof -
  let ?w = "demoPersist\<lparr>pw_lastSeenBlock := Some 2\<rparr>"
  obtain e where "parseAndStoreBlockData demoLedger (demoDatabase Answered) brokenBlock ?w = (Throws e, ?w)"
    using demo_broken by blast
  moreover have "pw_lastSeenBlock demoPersist = Some 1" "gapBetween (Some 1) (Some 2) = None" "setElems (pw_failedBlocks ?w) = {}"
      "pw_floating ?w = []" "\<not> stored (Some 2) (pg_tables (pw_pg ?w))" "pw_dbConnected ?w" "sound ?w"
    by (simp_all add: demoPersist_def newPersistence_def gapBetween_def stored_def demoTables_def noTables_def sound_def idle_def)
  moreover have "parseInt10 (bk_number brokenBlock) = Some 2" using demo_numbers by (simp add: brokenBlock_def demoBlock_def)
  ultimately show ?thesis using balances_updated_out_of_sync [of demoPersist "Some 1" brokenBlock "Some 2"] by blast
qed

text \<open>The sums of the view.\<close>

lemma groupSums_set:
  "set (groupSums who sign h) = {\<lparr>ba_account = who r, ba_token = hr_token r, ba_balance = sign * sumBy who (who r) (hr_token r) h\<rparr> | r. r \<in> set h}"
  by (auto simp: groupSums_def)

lemma groupSums_keys: "(\<lambda>b. (ba_account b, ba_token b)) ` set (groupSums who sign h) = (\<lambda>r. (who r, hr_token r)) ` set h"
  by (simp add: groupSums_def image_image case_prod_beta)

lemma groupSums_distinct: "distinct (map (\<lambda>b. (ba_account b, ba_token b)) (groupSums who sign h))"
  by (simp add: groupSums_def o_def case_prod_beta)


lemma groupSums_total:
  "sum_list (map ba_balance (filter (\<lambda>b. ba_account b = a \<and> ba_token b = k) (groupSums who sign h))) = sign * sumBy who a k h"
proof -
  have e: "filter (\<lambda>p. p = (a, k)) (remdups ps) = (if (a, k) \<in> set ps then [(a, k)] else [])" for ps :: "(string \<times> string) list"
    by (induction ps) auto
  have "filter (\<lambda>b. ba_account b = a \<and> ba_token b = k) (groupSums who sign h)
      = map (\<lambda>(a, k). \<lparr>ba_account = a, ba_token = k, ba_balance = sign * sumBy who a k h\<rparr>)
          (filter (\<lambda>p. p = (a, k)) (remdups (map (\<lambda>r. (who r, hr_token r)) h)))"
    by (auto simp: groupSums_def filter_map o_def case_prod_beta prod_eq_iff intro!: arg_cong [where f = "map _"] filter_cong)
  moreover have "sumBy who a k h = 0" if "(a, k) \<notin> set (map (\<lambda>r. (who r, hr_token r)) h)"
  proof -
    have "filter (\<lambda>r. who r = a \<and> hr_token r = k) h = []" using that by (auto simp: filter_empty_conv)
    then show ?thesis by (simp add: sumBy_def)
  qed
  ultimately show ?thesis by (simp add: e)
qed

lemma remdups_append_split: "remdups (xs @ ys) = filter (\<lambda>x. x \<notin> set ys) (remdups xs) @ remdups ys"
  by (induction xs) auto

lemma sumBy_nonneg: "\<forall>r \<in> set h. 0 \<le> hr_value r \<Longrightarrow> 0 \<le> sumBy who a k h"
  by (auto simp: sumBy_def intro!: sum_list_nonneg)

lemma union_total:
  assumes "\<forall>r \<in> set h. 0 \<le> hr_value r"
  shows "sum_list (map ba_balance (filter (\<lambda>b. ba_account b = a \<and> ba_token b = k)
      (remdups (groupSums hr_recipient 1 h @ groupSums hr_sender (- 1) h)))) = sumBy hr_recipient a k h - sumBy hr_sender a k h"
proof -
  let ?R = "groupSums hr_recipient 1 h" and ?S = "groupSums hr_sender (- 1) h" and ?P = "\<lambda>b. ba_account b = a \<and> ba_token b = k"
  have "remdups (?R @ ?S) = filter (\<lambda>b. b \<notin> set ?S) ?R @ ?S"
    using groupSums_distinct by (simp add: remdups_append_split distinct_map distinct_remdups_id)
  moreover have "ba_balance b = 0" if "b \<in> set ?R" "b \<in> set ?S" for b
  proof (rule order_antisym)
    show "ba_balance b \<le> 0" using that(2) sumBy_nonneg [OF assms] by (auto simp: groupSums_set)
    show "0 \<le> ba_balance b" using that(1) sumBy_nonneg [OF assms] by (auto simp: groupSums_set)
  qed
  then have "sum_list (map ba_balance (filter (\<lambda>b. b \<notin> set ?S) (filter ?P ?R))) = sum_list (map ba_balance (filter ?P ?R))"
    by (intro sum_list_map_filter) auto
  then have "sum_list (map ba_balance (filter ?P (filter (\<lambda>b. b \<notin> set ?S) ?R))) = sumBy hr_recipient a k h"
    unfolding filter_filter by (simp add: groupSums_total conj_commute [of "_ \<notin> set ?S"])
  ultimately show ?thesis by (simp add: groupSums_total)
qed

text \<open>
  C25. The view of the balances is what the transfers say: one row for every account that sent or received a token, with
  the sum received minus the sum sent, where this is not negative. The \<open>UNION\<close> of the two sums, which removes
  equal rows, drops nothing but zeros.
\<close>

theorem erc20_balances:
  assumes "h = erc20_token_history_view t" "\<forall>r \<in> set h. 0 \<le> hr_value r"
  shows "set (token_erc20_query t) = {\<lparr>ba_account = a, ba_token = k, ba_balance = sumBy hr_recipient a k h - sumBy hr_sender a k h\<rparr> | a k.
      (\<exists>r \<in> set h. hr_token r = k \<and> (hr_recipient r = a \<or> hr_sender r = a)) \<and> sumBy hr_sender a k h \<le> sumBy hr_recipient a k h}
    \<and> distinct (map (\<lambda>b. (ba_account b, ba_token b)) (token_erc20_query t))"
proof -
  let ?B = "remdups (groupSums hr_recipient 1 h @ groupSums hr_sender (- 1) h)"
  let ?row = "\<lambda>(a, k). \<lparr>ba_account = a, ba_token = k, ba_balance = sumBy hr_recipient a k h - sumBy hr_sender a k h\<rparr>"
  let ?keys = "remdups (map (\<lambda>b. (ba_account b, ba_token b)) ?B)"
  have q: "token_erc20_query t = filter (\<lambda>b. 0 \<le> ba_balance b) (map ?row ?keys)"
    unfolding token_erc20_query_def Let_def assms(1) [symmetric] using union_total [OF assms(2)] by simp
  have "set ?keys = {(a, k). \<exists>r \<in> set h. hr_token r = k \<and> (hr_recipient r = a \<or> hr_sender r = a)}"
    by (auto simp: image_Un groupSums_keys)
  then have "set (token_erc20_query t) = {?row (a, k) | a k.
      (\<exists>r \<in> set h. hr_token r = k \<and> (hr_recipient r = a \<or> hr_sender r = a)) \<and> sumBy hr_sender a k h \<le> sumBy hr_recipient a k h}"
    unfolding q by (auto simp: image_iff)
  moreover have "distinct (map (\<lambda>b. (ba_account b, ba_token b)) (map ?row ?keys))" by (simp add: o_def case_prod_beta)
  then have "distinct (map (\<lambda>b. (ba_account b, ba_token b)) (token_erc20_query t))" unfolding q by (rule distinct_map_filter)
  ultimately show ?thesis by simp
qed

definition transferTables :: tables where
  "transferTables = demoTables\<lparr>t_token_metadata_erc20 := [\<lparr>tm_address = ''k'', tm_name = ''n'', tm_symbol = ''s'', tm_total_supply = Some 10\<rparr>],
     t_transaction := [\<lparr>xr_id = 0, xr_index = Some 0, xr_hash = ''0xt'', xr_block_number = Some 1, xr_from = ''a'', xr_to = ''k'',
       xr_eth_value = Some 0, xr_method_signature = '''', xr_method_name = ''''\<rparr>],
     t_token_transfer := [\<lparr>fr_transaction_id = 0, fr_sender = ''a'', fr_recipient = ''b'', fr_value = 7\<rparr>,
       \<lparr>fr_transaction_id = 0, fr_sender = ''b'', fr_recipient = ''a'', fr_value = 3\<rparr>]\<rparr>"

theorem erc20_balances_witness:
  "\<lparr>ba_account = ''b'', ba_token = ''k'', ba_balance = 4\<rparr> \<in> set (token_erc20_query transferTables)"
proof -
  have h: "erc20_token_history_view transferTables = [\<lparr>hr_token = ''k'', hr_created_at = 0, hr_sender = ''a'', hr_recipient = ''b'', hr_value = 7\<rparr>,
      \<lparr>hr_token = ''k'', hr_created_at = 0, hr_sender = ''b'', hr_recipient = ''a'', hr_value = 3\<rparr>]" (is "_ = ?h")
    by (simp add: erc20_token_history_view_def tokenHistory_def transferTables_def demoTables_def noTables_def)
  have "sumBy hr_recipient ''b'' ''k'' ?h = 7" "sumBy hr_sender ''b'' ''k'' ?h = 3" by (simp_all add: sumBy_def)
  then show ?thesis
    using erc20_balances [OF h [symmetric], THEN conjunct1] by (simp add: exI [of _ "''b''"])
qed

section \<open>Starting the monitor\<close>

lemma tracked_Returns:
  "tracked L name m w = (Returns a, w') \<longleftrightarrow> (\<exists>i x w1. lb_uuid L (pw_ext w) = (i, x)
     \<and> m (addTrackedOperation L i name (w\<lparr>pw_ext := x\<rparr>)) = (Returns a, w1) \<and> w' = removeTrackedOperation i w1)"
  by (auto simp: tracked_def bindA_Returns newUuid_def thenA_modifyA finallyA_def split: prod.splits outcome.splits)

lemma tracking_keeps [simp]:
  "sound (addTrackedOperation L i name w) = sound w" "sound (removeTrackedOperation i w) = sound w"
  "accounted n (addTrackedOperation L i name w) = accounted n w" "accounted n (removeTrackedOperation i w) = accounted n w"
  "sound (w\<lparr>pw_ext := x\<rparr>) = sound w"
  by (simp_all add: addTrackedOperation_def removeTrackedOperation_def sound_def accounted_def)

lemma syncBlocks_range: "syncBlocks L D a n w = (Returns u, w') \<Longrightarrow> \<exists>m k. a = Some m \<and> n = Some k \<and> m \<le> k"
  by (cases a; cases n) (auto simp: syncBlocks_def getMissingBlocksInRange_def bindA_Returns thenA_Returns ensure_def throwE_def split: if_splits)

text \<open>The connector answers the request for the latest block with the block of this number.\<close>

definition namedLatest :: "('x, 'l) ledgerApi \<Rightarrow> int \<Rightarrow> bool" where
  "namedLatest L k \<longleftrightarrow> (\<exists>x b x'. api_getBlock L Latest False x = (Response 200 (Some b), x') \<and> parseInt10 (bk_number b) = Some k)"

lemma getLatest_run:
  "getBlockFromLedger L Latest False w = (Returns (Some b), w') \<Longrightarrow> parseInt10 (bk_number b) = Some k \<Longrightarrow> namedLatest L k"
  by (auto simp: getBlockFromLedger_def apiCall_def namedLatest_def bindA_Returns ret_def throwE_def
      split: prod.splits response.splits if_splits)

lemma syncAll_run:
  assumes "honestLedger L" "sound w" "syncAll L D w = (Returns n, w')"
  shows "sound w' \<and> (\<exists>k. n = Some k \<and> 1 \<le> k \<and> namedLatest L k \<and> (\<forall>i. 1 \<le> i \<and> i \<le> k \<longrightarrow> accounted (Some i) w'))"
proof -
  obtain j x w1 b w2 w3 w4 w5 u v where s: "lb_uuid L (pw_ext w) = (j, x)"
      "syncFailedBlocks L D (addTrackedOperation L j ''syncAll'' (w\<lparr>pw_ext := x\<rparr>)) = (Returns u, w1)"
      "getBlockFromLedger L Latest False w1 = (Returns (Some b), w2)" "n = parseInt10 (bk_number b)"
      "syncBlocks L D (Some 1) n w2 = (Returns (), w3)" "syncTokenBalances L D (Some 1) w3 = (Returns v, w4)" "w' = removeTrackedOperation j w4"
    using assms(3) by (auto simp: syncAll_def tracked_Returns bindA_Returns thenA_Returns Let_def ret_def throwE_def split: option.splits)
  have k1: "sound w1" using secureD [OF accounting.follows_syncFailedBlocks s(2) assms(1)] assms(2) by simp
  have k2: "sound w2" using secureD [OF secure_getBlock s(3) assms(1) k1] by blast
  obtain k where k: "n = Some k" "1 \<le> k" using syncBlocks_range [OF s(5)] by auto
  have "\<forall>i. 1 \<le> i \<and> i \<le> k \<longrightarrow> accounted (Some i) w3" using syncBlocks_run [OF assms(1) k2] s(5) k(1) by blast
  moreover have "sound w3" using secureD [OF accounting.follows_syncBlocks s(5) assms(1) k2] by blast
  then have "sound w4 \<and> (\<forall>n. accounted n w3 \<longrightarrow> accounted n w4)" using secureD [OF accounting.follows_syncTokenBalances s(6) assms(1)] by blast
  moreover have "namedLatest L k" using getLatest_run [OF s(3)] k(1) s(4) by simp
  ultimately show ?thesis using k s(7) by auto
qed

text \<open>
  C24. A monitor that has started is complete: the last block seen, from which the blocks that are pushed are
  compared, is the block that the connector named as the latest of the ledger, so at least the \<open>N\<close>-th when every
  such answer names a block from the \<open>N\<close>-th on, and every block from the first to this one is stored, or on
  the list of failed blocks, or on its way to it. An answer to the request for a block must be that block.
\<close>

theorem started_monitor_complete:
  assumes "honestLedger L" "sound w" "startMonitor L D w = (Returns u, w')" "\<forall>k. namedLatest L k \<longrightarrow> N \<le> k"
  shows "\<exists>k. pw_lastSeenBlock w' = Some k \<and> namedLatest L k \<and> N \<le> k \<and> 1 \<le> k \<and> pw_monitor w' \<and> sound w'
    \<and> (\<forall>i. 1 \<le> i \<and> i \<le> k \<longrightarrow> accounted (Some i) w')"
proof -
  obtain n w1 where n: "syncAll L D w = (Returns n, w1)" "w' = w1\<lparr>pw_lastSeenBlock := n, pw_monitor := True\<rparr>"
    using assms(3) by (auto simp: startMonitor_def bindA_Returns thenA_Returns modifyA_def ensure_def ret_def throwE_def split: if_splits)
  obtain k where k: "n = Some k" "1 \<le> k" "namedLatest L k" "\<forall>i. 1 \<le> i \<and> i \<le> k \<longrightarrow> accounted (Some i) w1" and "sound w1"
    using syncAll_run [OF assms(1,2) n(1)] by blast
  then show ?thesis using assms(4) n(2) by (intro exI [of _ k]) (auto simp: sound_def accounted_def)
qed

definition fullPersist :: "unit persistWorld" where
  "fullPersist = (let t = demoTables\<lparr>t_block := map (\<lambda>(i, h). \<lparr>br_number = Some i, br_created_at = i, br_hash = h, br_number_of_tx = 0\<rparr>)
     [(1, ''0x1''), (2, ''0x2''), (3, ''0x3'')]\<rparr> in demoPersist\<lparr>pw_pg := (pw_pg demoPersist)\<lparr>pg_tables := t\<rparr>\<rparr>)"

lemma demo_started: "fst (startMonitor demoLedger (demoDatabase Answered) fullPersist) = Returns ()"
proof -
  have r: "[1..3] = [1, 2, 3 :: int]" by code_simp
  show ?thesis
    using demo_numbers(2)
    by (simp add: startMonitor_def syncAll_def syncBlocks_def getMissingBlocksInRange_def syncTokenBalances_def syncTokenBalanceERC20_def
        syncTokenBalanceERC721_def syncFailedBlocks_def tracked_def newUuid_def addTrackedOperation_def removeTrackedOperation_def
        getBlockFromLedger_def apiCall_def demoLedger_def demoBlock_def demoDatabase_def fullPersist_def demoPersist_def demoTables_def noTables_def
        newPersistence_def bindA_def thenA_def catchA_def finallyA_def modifyA_def getsA_def ret_def ensure_def deliverAnswers_def isLedgerInSync_def
        setSize_def dbQuery_def assertConnected_def pgQuery_def pgAsk_def pgRun_def get_missing_blocks_in_range_def int4_def onTables_def r
        refreshERC20_def update_issued_erc721_tokens_def numMin_def Let_def)
qed

theorem started_monitor_complete_witness:
  "pw_lastSeenBlock (snd (startMonitor demoLedger (demoDatabase Answered) fullPersist)) = Some 3"
proof -
  let ?m = "startMonitor demoLedger (demoDatabase Answered) fullPersist"
  have "sound fullPersist" by (simp add: sound_def idle_def fullPersist_def demoPersist_def newPersistence_def Let_def)
  moreover have "?m = (Returns (), snd ?m)" using demo_started by (metis prod.collapse)
  moreover have latest: "namedLatest demoLedger k \<longleftrightarrow> k = 3" for k
    using demo_numbers by (auto simp: namedLatest_def demoLedger_def demoBlock_def)
  ultimately obtain k where "pw_lastSeenBlock (snd ?m) = Some k" "namedLatest demoLedger k"
    using started_monitor_complete [OF demo_honest, of fullPersist "demoDatabase Answered" "()" "snd ?m" 3] by auto
  with latest show ?thesis by simp
qed

end
