(* ===== verification/Persistence_Fabric.thy ===== *)
theory Persistence_Fabric
  imports Persistence_Db
begin

text \<open>
  The Fabric persistence plugin (\<open>plugin-persistence-fabric.ts\<close>), its database client
  (\<open>db-client/db-client.ts\<close>) and the tables of its \<open>src/main/sql/schema.sql\<close>. It copies the blocks of a channel
  into a database, block by block: all at once, from where it stopped, or while the ledger grows.

  The client of the Fabric connector, the decoding of protocol buffers, SHA-256, and the conversion of values
  by the database driver are parameters; the list of transactions of a block is an array. Blocks are dynamic values, since the plugin reads them
  without a check.
\<close>

section \<open>Values\<close>

text \<open>
  A block number that comes from the ledger may be a text: a height of 64 bits is one in the JSON of a
  protocol buffer. Comparisons convert it, and adding one to a text appends a digit.
\<close>

type_synonym numish = "string + int"

definition numVal :: "numish \<Rightarrow> int option" where
  "numVal n = (case n of Inl s \<Rightarrow> stringToBigInt s | Inr i \<Rightarrow> Some i)"

definition numText :: "numish \<Rightarrow> string" where
  "numText n = (case n of Inl s \<Rightarrow> s | Inr i \<Rightarrow> intToString i)"

definition plusOne :: "numish \<Rightarrow> numish" where
  "plusOne n = (case n of Inl s \<Rightarrow> Inl (s @ ''1'') | Inr i \<Rightarrow> Inr (i + 1))"

definition numGreater :: "numish \<Rightarrow> numish \<Rightarrow> bool" where
  "numGreater a b = (case (numVal a, numVal b) of (Some i, Some j) \<Rightarrow> i > j | _ \<Rightarrow> False)"

definition numAtLeast :: "numish \<Rightarrow> numish \<Rightarrow> bool" where
  "numAtLeast a b = (case (numVal a, numVal b) of (Some i, Some j) \<Rightarrow> i \<ge> j | _ \<Rightarrow> False)"

text \<open>\<open>v.k1.k2\<close> and so on, where a key \<open>0\<close> may be the index of an array.\<close>

definition jstep :: "jsv \<Rightarrow> string \<Rightarrow> jsv result" where
  "jstep v k = (case v of
      Some (JArr xs) \<Rightarrow> Inr (if k = ''0'' then (case xs of [] \<Rightarrow> None | x # ys \<Rightarrow> Some x) else None)
    | _ \<Rightarrow> jprop k v)"

definition jpath :: "string list \<Rightarrow> jsv \<Rightarrow> jsv result" where
  "jpath ks v = foldR jstep v ks"

text \<open>\<open>Buffer.from(v)\<close>\<close>

definition byteOf :: "jsv \<Rightarrow> byte" where
  "byteOf x = word_of_int (case jsNumber x of None \<Rightarrow> 0 | Some n \<Rightarrow> n)"

definition bufferFromV :: "jsv \<Rightarrow> byte list result" where
  "bufferFromV v = (case v of
      Some (JStr s) \<Rightarrow> Inr (utf8Encode s)
    | Some (JArr xs) \<Rightarrow> Inr (map (\<lambda>x. byteOf (Some x)) xs)
    | Some (JObj fs) \<Rightarrow> (case map_of fs ''length'' of
          Some (JNum n) \<Rightarrow> Inr (map (\<lambda>i. byteOf (map_of fs (natToString i))) [0..<nat n])
        | Some _ \<Rightarrow> Inr []
        | None \<Rightarrow> (case (map_of fs ''type'', map_of fs ''data'') of
              (Some (JStr ty), Some (JArr xs)) \<Rightarrow> if ty = ''Buffer'' then Inr (map (\<lambda>x. byteOf (Some x)) xs) else Inl TypeError
            | _ \<Rightarrow> Inl TypeError))
    | _ \<Rightarrow> Inl TypeError)"

text \<open>\<open>Buffer.from(v).toString("hex")\<close>, unless \<open>v\<close> is \<open>undefined\<close>.\<close>

definition hexOf :: "jsv \<Rightarrow> jsv result" where
  "hexOf v = (if v = None then Inr None else bindR (bufferFromV v) (\<lambda>b. Inr (Some (JStr (bufArray2HexStr b)))))"

text \<open>\<open>v.toString()\<close>, and \<open>v.toString("hex")\<close>, which ignores its argument but for numbers.\<close>

definition toStringV :: "jsv \<Rightarrow> jsv result" where
  "toStringV v = (case v of None \<Rightarrow> Inl TypeError | Some JNull \<Rightarrow> Inl TypeError | Some j \<Rightarrow> Inr (Some (JStr (jsText j))))"

definition toStringHex :: "jsv \<Rightarrow> jsv result" where
  "toStringHex v = (case v of Some (JNum n) \<Rightarrow> Inl (ErrorMsg ''toString() radix must be between 2 and 36'') | _ \<Rightarrow> toStringV v)"

text \<open>\<open>JSON.stringify(v, null, 2)\<close>\<close>

definition indentBy :: "nat \<Rightarrow> string" where
  "indentBy n = CHR 0x0A # replicate n CHR '' ''"

fun prettyJ :: "nat \<Rightarrow> json \<Rightarrow> string"
  and prettyItems :: "nat \<Rightarrow> json list \<Rightarrow> string"
  and prettyFields :: "nat \<Rightarrow> (string \<times> json) list \<Rightarrow> string" where
  "prettyJ n (JArr (x # xs)) = ''['' @ indentBy (n + 2) @ prettyItems (n + 2) (x # xs) @ indentBy n @ '']''"
| "prettyJ n (JObj (f # fs)) = ''{'' @ indentBy (n + 2) @ prettyFields (n + 2) (f # fs) @ indentBy n @ ''}''"
| "prettyJ n j = stringify j"
| "prettyItems n [] = ''''"
| "prettyItems n [x] = prettyJ n x"
| "prettyItems n (x # y # xs) = prettyJ n x @ '','' @ indentBy n @ prettyItems n (y # xs)"
| "prettyFields n [] = ''''"
| "prettyFields n [(k, v)] = quote k @ '': '' @ prettyJ n v"
| "prettyFields n ((k, v) # f # fs) = quote k @ '': '' @ prettyJ n v @ '','' @ indentBy n @ prettyFields n (f # fs)"

definition prettyV :: "jsv \<Rightarrow> jsv" where
  "prettyV v = map_option (\<lambda>j. JStr (prettyJ 0 j)) v"

section \<open>Tables\<close>

record InsertBlockDataEntryInterface =
  fabric_block_id :: string
  fabric_block_num :: "int option"
  fabric_block_data :: string

text \<open>The other rows are polymorphic: dynamic values in the plugin, optional texts in the tables.\<close>

record 'v InsertBlockDetailsInterface =
  fd_block_id :: 'v
  fd_blocknum :: 'v
  fd_datahash :: 'v
  fd_tx_count :: nat
  fd_createdat :: 'v
  fd_prev_blockhash :: 'v
  fd_channel_id :: 'v

record 'v InsertBlockTransactionEntryInterface =
  ft_transaction_id :: 'v
  ft_block_id :: 'v
  ft_transaction_data :: 'v

record 'v InsertDetailedTransactionEntryInterface =
  dt_block_number :: 'v
  dt_block_id :: 'v
  dt_transaction_id :: 'v
  dt_createdat :: 'v
  dt_chaincodename :: 'v
  dt_status :: 'v
  dt_creator_msp_id :: 'v
  dt_endorser_msp_id :: 'v
  dt_chaincode_id :: 'v
  dt_type :: 'v
  dt_read_set :: 'v
  dt_write_set :: 'v
  dt_channel_id :: 'v
  dt_payload_extension :: 'v
  dt_creator_id_bytes :: 'v
  dt_creator_nonce :: 'v
  dt_chaincode_proposal_input :: 'v
  dt_tx_response :: 'v
  dt_payload_proposal_hash :: 'v
  dt_endorser_id_bytes :: 'v
  dt_endorser_signature :: 'v

type_synonym column = "string option"

record fabricTables =
  fx_schema :: bool
  fx_plugin_status :: "pluginStatus list"
  fabric_blocks_entry :: "InsertBlockDataEntryInterface list"
  fabric_transactions_entry :: "column InsertBlockTransactionEntryInterface list"
  fabric_blocks :: "column InsertBlockDetailsInterface list"
  fabric_transactions :: "column InsertDetailedTransactionEntryInterface list"

text \<open>The driver and the server: faults, the text a value is sent as, and the texts a column accepts.\<close>

record 'x fabricDb =
  fq_fault :: "'x \<Rightarrow> fault \<times> 'x"
  fq_connects :: "'x \<Rightarrow> bool \<times> 'x"
  fq_text :: "jsv \<Rightarrow> column"
  fq_isTimestamp :: "string \<Rightarrow> bool"
  fq_isInteger :: "string \<Rightarrow> bool"

definition onFabric :: "(fabricTables, 'r) query \<Rightarrow> (fabricTables, 'r) query" where
  "onFabric f t = (if fx_schema t then f t else None)"

definition columnFits :: "(string \<Rightarrow> bool) \<Rightarrow> column \<Rightarrow> bool" where
  "columnFits p c = (case c of None \<Rightarrow> True | Some s \<Rightarrow> p s)"

definition insertEntry :: "InsertBlockDataEntryInterface \<Rightarrow> (fabricTables, unit) query" where
  "insertEntry b = onFabric (\<lambda>t.
     if int4 (fabric_block_num b) = None \<or> fabric_block_id b \<in> fabric_block_id ` set (fabric_blocks_entry t) then None
     else Some ((), t\<lparr>fabric_blocks_entry := fabric_blocks_entry t @ [b]\<rparr>))"

definition detailsRow :: "'x fabricDb \<Rightarrow> jsv InsertBlockDetailsInterface \<Rightarrow> column InsertBlockDetailsInterface" where
  "detailsRow D b = \<lparr>fd_block_id = fq_text D (fd_block_id b), fd_blocknum = fq_text D (fd_blocknum b),
     fd_datahash = fq_text D (fd_datahash b), fd_tx_count = fd_tx_count b, fd_createdat = fq_text D (fd_createdat b),
     fd_prev_blockhash = fq_text D (fd_prev_blockhash b), fd_channel_id = fq_text D (fd_channel_id b)\<rparr>"

definition insertDetails :: "'x fabricDb \<Rightarrow> jsv InsertBlockDetailsInterface \<Rightarrow> (fabricTables, unit) query" where
  "insertDetails D b = onFabric (\<lambda>t. let r = detailsRow D b in
     if fd_block_id r = None \<or> fd_block_id r \<in> fd_block_id ` set (fabric_blocks t) \<or> \<not> columnFits (fq_isTimestamp D) (fd_createdat r) then None
     else Some ((), t\<lparr>fabric_blocks := fabric_blocks t @ [r]\<rparr>))"

definition entryRow :: "'x fabricDb \<Rightarrow> jsv InsertBlockTransactionEntryInterface \<Rightarrow> column InsertBlockTransactionEntryInterface" where
  "entryRow D e = \<lparr>ft_transaction_id = fq_text D (ft_transaction_id e), ft_block_id = fq_text D (ft_block_id e),
     ft_transaction_data = fq_text D (ft_transaction_data e)\<rparr>"

definition insertTxEntry :: "'x fabricDb \<Rightarrow> jsv InsertBlockTransactionEntryInterface \<Rightarrow> (fabricTables, unit) query" where
  "insertTxEntry D e = onFabric (\<lambda>t. let r = entryRow D e in
     if ft_transaction_id r = None \<or> ft_transaction_id r \<in> ft_transaction_id ` set (fabric_transactions_entry t) then None
     else Some ((), t\<lparr>fabric_transactions_entry := fabric_transactions_entry t @ [r]\<rparr>))"

definition detailedRow :: "'x fabricDb \<Rightarrow> jsv InsertDetailedTransactionEntryInterface \<Rightarrow> column InsertDetailedTransactionEntryInterface" where
  "detailedRow D d = (let f = fq_text D in
     \<lparr>dt_block_number = f (dt_block_number d), dt_block_id = f (dt_block_id d), dt_transaction_id = f (dt_transaction_id d),
      dt_createdat = f (dt_createdat d), dt_chaincodename = f (dt_chaincodename d), dt_status = f (dt_status d),
      dt_creator_msp_id = f (dt_creator_msp_id d), dt_endorser_msp_id = f (dt_endorser_msp_id d),
      dt_chaincode_id = f (dt_chaincode_id d), dt_type = f (dt_type d), dt_read_set = f (dt_read_set d),
      dt_write_set = f (dt_write_set d), dt_channel_id = f (dt_channel_id d), dt_payload_extension = f (dt_payload_extension d),
      dt_creator_id_bytes = f (dt_creator_id_bytes d), dt_creator_nonce = f (dt_creator_nonce d),
      dt_chaincode_proposal_input = f (dt_chaincode_proposal_input d), dt_tx_response = f (dt_tx_response d),
      dt_payload_proposal_hash = f (dt_payload_proposal_hash d), dt_endorser_id_bytes = f (dt_endorser_id_bytes d),
      dt_endorser_signature = f (dt_endorser_signature d)\<rparr>)"

definition insertDetailed :: "'x fabricDb \<Rightarrow> jsv InsertDetailedTransactionEntryInterface \<Rightarrow> (fabricTables, unit) query" where
  "insertDetailed D d = onFabric (\<lambda>t. let r = detailedRow D d in
     if dt_transaction_id r = None \<or> dt_transaction_id r \<in> dt_transaction_id ` set (fabric_transactions t)
       \<or> \<not> columnFits (fq_isTimestamp D) (dt_createdat r) \<or> \<not> columnFits (fq_isInteger D) (dt_status r)
       \<or> \<not> columnFits (\<lambda>s. length s \<le> 255) (dt_chaincodename r) \<or> \<not> columnFits (\<lambda>s. length s \<le> 800) (dt_endorser_msp_id r) then None
     else Some ((), t\<lparr>fabric_transactions := fabric_transactions t @ [r]\<rparr>))"

text \<open>The script creates what is not there.\<close>

definition fabricSchemaSql :: "(fabricTables, unit) query" where
  "fabricSchemaSql t = Some ((), t\<lparr>fx_schema := True\<rparr>)"

definition upsertFabricStatus :: "pluginStatus \<Rightarrow> (fabricTables, unit) query" where
  "upsertFabricStatus p = onFabric (\<lambda>t.
     if ps_name p \<in> ps_name ` set (fx_plugin_status t)
     then Some ((), t\<lparr>fx_plugin_status := map (\<lambda>q. if ps_name q = ps_name p then p else q) (fx_plugin_status t)\<rparr>)
     else Some ((), t\<lparr>fx_plugin_status := fx_plugin_status t @ [p]\<rparr>))"

definition selectFabric :: "(fabricTables \<Rightarrow> 'r) \<Rightarrow> (fabricTables, 'r) query" where
  "selectFabric f = onFabric (\<lambda>t. Some (f t, t))"

section \<open>State of the plugin\<close>

text \<open>A deleted place of \<open>missedBlocks\<close> is \<open>None\<close>.\<close>

record 'x fabricWorld =
  fw_pg :: "fabricTables pg"
  fw_dbConnected :: bool
  fw_clientOpen :: bool
  fw_instanceId :: string
  fw_isConnected :: bool
  fw_isWebServicesRegistered :: bool
  fw_lastSeenBlock :: numish
  fw_lastBlock :: numish
  fw_missedBlocks :: "string option list"
  fw_howManyBlocksMissing :: int
  fw_synchronizationGo :: bool
  fw_ext :: 'x

type_synonym ('x, 'a) fact = "('x fabricWorld, jsError, 'a) act"

text \<open>
  The connector: the block with a number and the information about the chain, whose height the library for
  protocol buffers reads from the answer. \<open>fl_switched\<close> says whether \<open>changeSynchronization\<close> is called
  while the plugin waits. \<open>fl_rounds\<close> is the fuel of the loops that end by what the ledger answers.
\<close>

record 'x fabricLedger =
  fl_getBlock :: "string option \<Rightarrow> 'x \<Rightarrow> jsv response \<times> 'x"
  fl_getChainInfo :: "'x \<Rightarrow> jsv response \<times> 'x"
  fl_height :: "jsv \<Rightarrow> numish option"
  fl_switched :: "'x \<Rightarrow> bool"
  fl_sha256 :: "string \<Rightarrow> string"
  fl_rounds :: nat

definition newPersistenceFabric :: "string \<Rightarrow> string \<Rightarrow> fabricTables \<Rightarrow> 'x \<Rightarrow> 'x fabricWorld result" where
  "newPersistenceFabric instanceId connectionString t x =
     (if connectionString = ''''
      then Inl (ErrorMsg (CHR 0x22 # ''PostgresDatabaseClient#constructor() arg options.connectionString'' @ CHR 0x22 # '' is falsy, need a truthy value.''))
      else Inr \<lparr>fw_pg = closedPg t, fw_dbConnected = False, fw_clientOpen = True, fw_instanceId = instanceId, fw_isConnected = False,
        fw_isWebServicesRegistered = False, fw_lastSeenBlock = Inr 0, fw_lastBlock = Inr 0, fw_missedBlocks = [],
        fw_howManyBlocksMissing = 0, fw_synchronizationGo = True, fw_ext = x\<rparr>)"

definition changeSynchronization :: "('x, bool) fact" where
  "changeSynchronization = thenA (modifyA (\<lambda>w. w\<lparr>fw_synchronizationGo := \<not> fw_synchronizationGo w\<rparr>)) (getsA fw_synchronizationGo)"

definition fabricCall :: "'x fabricLedger \<Rightarrow> ('x \<Rightarrow> 'd response \<times> 'x) \<Rightarrow> ('x, int \<times> 'd) fact" where
  "fabricCall L f = (\<lambda>w. case f (fw_ext w) of (r, x) \<Rightarrow>
     ((case r of Rejected \<Rightarrow> Throws RequestError | Response status d \<Rightarrow> Returns (status, d)),
      (if fl_switched L x then snd (changeSynchronization (w\<lparr>fw_ext := x\<rparr>)) else w\<lparr>fw_ext := x\<rparr>)))"

definition requestFabricBlock :: "'x fabricLedger \<Rightarrow> string option \<Rightarrow> ('x, int \<times> jsv) fact" where
  "requestFabricBlock L blockNumber = fabricCall L (fl_getBlock L blockNumber)"

section \<open>PostgresDatabaseClient\<close>

definition fabricQuery :: "'x fabricDb \<Rightarrow> (fabricTables, 'r) query \<Rightarrow> ('x, 'r) fact" where
  "fabricQuery D f = (\<lambda>w. case fq_fault D (fw_ext w) of (ft, x) \<Rightarrow>
     case pgAsk ft (pgRun f) (fw_pg w) of (a, g) \<Rightarrow>
       ((case a of Some r \<Rightarrow> Returns r | None \<Rightarrow> Throws LibraryError), w\<lparr>fw_pg := g, fw_ext := x\<rparr>))"

definition assertFabricConnected :: "('x, unit) fact" where
  "assertFabricConnected = bindA (getsA fw_dbConnected) (\<lambda>c.
     ensure c (ErrorMsg ''PostgresDatabaseClient method called before connecting to the DB!''))"

definition connectedQuery :: "'x fabricDb \<Rightarrow> (fabricTables, 'r) query \<Rightarrow> ('x, 'r) fact" where
  "connectedQuery D f = thenA assertFabricConnected (fabricQuery D f)"

definition connectFabricDb :: "'x fabricDb \<Rightarrow> ('x, unit) fact" where
  "connectFabricDb D = (\<lambda>w. if pg_used (fw_pg w) then (Throws LibraryError, w)
     else case fq_connects D (fw_ext w) of (ok, x) \<Rightarrow>
       let w' = w\<lparr>fw_pg := (fw_pg w)\<lparr>pg_used := True, pg_alive := ok\<rparr>, fw_ext := x\<rparr>
       in if ok then (Returns (), w'\<lparr>fw_dbConnected := True\<rparr>) else (Throws LibraryError, w'))"

definition shutdownFabricDb :: "('x, unit) fact" where
  "shutdownFabricDb = modifyA (\<lambda>w. w\<lparr>fw_pg := pgLose (fw_pg w), fw_dbConnected := False\<rparr>)"

definition getFabricPluginStatus :: "'x fabricDb \<Rightarrow> string \<Rightarrow> ('x, pluginStatus) fact" where
  "getFabricPluginStatus D name =
     bindA (connectedQuery D (selectFabric (\<lambda>t. filter (\<lambda>p. ps_name p = name) (fx_plugin_status t)))) (\<lambda>rows.
     case rows of [p] \<Rightarrow> ret p
     | _ \<Rightarrow> throwE (ErrorMsg (''Could not read status of plugin #'' @ name @ '' from the DB'')))"

definition initializeFabricPlugin :: "'x fabricDb \<Rightarrow> string \<Rightarrow> string \<Rightarrow> ('x, unit) fact" where
  "initializeFabricPlugin D name instanceId =
     thenA assertFabricConnected (
     bindA (catchA (bindA (getFabricPluginStatus D name) (\<lambda>p. ret (ps_is_schema_initialized p))) (\<lambda>e. ret False)) (\<lambda>isSchemaInitialized.
     thenA (if isSchemaInitialized then ret () else fabricQuery D fabricSchemaSql) (
     fabricQuery D (upsertFabricStatus \<lparr>ps_name = name, ps_last_instance_id = instanceId, ps_is_schema_initialized = True\<rparr>))))"

definition insertBlockDataEntry :: "'x fabricDb \<Rightarrow> InsertBlockDataEntryInterface \<Rightarrow> ('x, unit) fact" where
  "insertBlockDataEntry D b = connectedQuery D (insertEntry b)"

definition insertBlockDetails :: "'x fabricDb \<Rightarrow> jsv InsertBlockDetailsInterface \<Rightarrow> ('x, unit) fact" where
  "insertBlockDetails D b = connectedQuery D (insertDetails D b)"

definition insertBlockTransactionEntry :: "'x fabricDb \<Rightarrow> jsv InsertBlockTransactionEntryInterface \<Rightarrow> ('x, unit) fact" where
  "insertBlockTransactionEntry D e = connectedQuery D (insertTxEntry D e)"

definition insertDetailedTransactionEntry :: "'x fabricDb \<Rightarrow> jsv InsertDetailedTransactionEntryInterface \<Rightarrow> ('x, unit) fact" where
  "insertDetailedTransactionEntry D d = connectedQuery D (insertDetailed D d)"

text \<open>The maximum of no rows is \<open>null\<close>, which the plus sign makes zero.\<close>

definition maxBlock :: "fabricTables \<Rightarrow> int" where
  "maxBlock t = (case map (\<lambda>b. the (fabric_block_num b)) (fabric_blocks_entry t) of [] \<Rightarrow> 0 | n # ns \<Rightarrow> foldl max n ns)"

definition getMaxBlockNumber :: "'x fabricDb \<Rightarrow> ('x, int) fact" where
  "getMaxBlockNumber D = connectedQuery D (selectFabric maxBlock)"

definition isThisBlockInDB :: "'x fabricDb \<Rightarrow> int \<Rightarrow> ('x, nat) fact" where
  "isThisBlockInDB D n = connectedQuery D (\<lambda>t. if int4 (Some n) = None then None
     else selectFabric (\<lambda>t. length (filter (\<lambda>b. fabric_block_num b = Some n) (fabric_blocks_entry t))) t)"

section \<open>One block\<close>

text \<open>What a transaction with actions says of its execution, and what is stored without any.\<close>

record execution =
  ex_chaincodeID :: jsv
  ex_status :: jsv
  ex_read_set :: jsv
  ex_write_set :: jsv
  ex_input :: jsv
  ex_endorser_signature :: jsv
  ex_payload_proposal_hash :: jsv
  ex_endorser_id_bytes :: jsv
  ex_endorser_msp_id :: jsv
  ex_tx_response :: jsv

definition noExecution :: execution where
  "noExecution = (let none = Some (JStr '''') in \<lparr>ex_chaincodeID = None, ex_status = None, ex_read_set = none, ex_write_set = none,
     ex_input = none, ex_endorser_signature = none, ex_payload_proposal_hash = none, ex_endorser_id_bytes = none,
     ex_endorser_msp_id = none, ex_tx_response = none\<rparr>)"

text \<open>The arguments of the call, each in hexadecimal digits with a comma before it.\<close>

definition callArgs :: "jsv \<Rightarrow> jsv result" where
  "callArgs args = (if args = None then Inr None else
     bindR (iterate args) (\<lambda>inputs.
     bindR (mapR (\<lambda>i. bindR (bufferFromV (Some i)) (\<lambda>b. Inr (CHR '','' # bufArray2HexStr b))) inputs) (\<lambda>texts.
     Inr (Some (JStr (concat texts))))))"

definition executionOf :: "jsv \<Rightarrow> execution result" where
  "executionOf actions =
     bindR (jpath [''0'', ''payload''] actions) (\<lambda>payload.
     bindR (jpath [''action'', ''proposal_response_payload'', ''extension''] payload) (\<lambda>ext.
     bindR (jpath [''response'', ''status''] ext) (\<lambda>status.
     bindR (jpath [''results'', ''ns_rwset''] ext) (\<lambda>rwset.
     bindR (if rwset = None then Inr (Some (JStr ''''), Some (JStr ''''))
            else bindR (jstep rwset ''reads'') (\<lambda>r. bindR (jstep rwset ''writes'') (\<lambda>wr. Inr (prettyV r, prettyV wr)))) (\<lambda>(reads, writes).
     bindR (bindR (jpath [''chaincode_proposal_payload'', ''input'', ''chaincode_spec'', ''input'', ''args''] payload) callArgs) (\<lambda>input.
     bindR (jpath [''action'', ''endorsements'', ''0''] payload) (\<lambda>endorsement.
     bindR (bindR (jstep endorsement ''signature'') hexOf) (\<lambda>signature.
     bindR (bindR (jpath [''action'', ''proposal_response_payload'', ''proposal_hash'', ''data''] payload) toStringHex) (\<lambda>h.
     bindR (jpath [''endorser'', ''id_bytes'', ''data''] endorsement) (\<lambda>idData.
     bindR (toStringHex idData) (\<lambda>idBytes.
     bindR (jpath [''endorser'', ''mspid''] endorsement) (\<lambda>msp.
     Inr \<lparr>ex_chaincodeID = ext, ex_status = status, ex_read_set = reads, ex_write_set = writes, ex_input = input,
       ex_endorser_signature = signature, ex_payload_proposal_hash = h, ex_endorser_id_bytes = idBytes,
       ex_endorser_msp_id = msp, ex_tx_response = ext\<rparr>))))))))))))"

text \<open>\<open>v?.data.config_update\<close> and the reading of its sets, which only matters when it throws.\<close>

definition configSets :: "jsv \<Rightarrow> unit result" where
  "configSets lastUpdatePayload = (if isNullish lastUpdatePayload then Inr ()
     else bindR (jpath [''data'', ''config_update'', ''read_set''] lastUpdatePayload) (\<lambda>r.
       bindR (jpath [''data'', ''config_update'', ''write_set''] lastUpdatePayload) (\<lambda>wr. Inr ())))"

text \<open>The name of the chaincode, if the transaction has actions and their payload a response.\<close>

definition chaincodeName :: "jsv \<Rightarrow> jsv result" where
  "chaincodeName actions = (case jpath [''0'', ''payload'', ''action'', ''proposal_response_payload''] actions of
      Inl e \<Rightarrow> Inr (Some (JStr '' ''))
    | Inr checker \<Rightarrow> if checker = Some (JStr '''') then Inr (Some (JStr '' ''))
        else jpath [''extension'', ''chaincode_id'', ''name''] checker)"

definition transactionRows :: "'x fabricLedger \<Rightarrow> string \<Rightarrow> string option \<Rightarrow> json
    \<Rightarrow> (jsv InsertDetailedTransactionEntryInterface \<times> jsv InsertBlockTransactionEntryInterface) result" where
  "transactionRows L h blockNumber tx =
     bindR (bindR (jstep (Some tx) ''signature'') hexOf) (\<lambda>_.
     bindR (jpath [''payload'', ''header''] (Some tx)) (\<lambda>header.
     bindR (bindR (jpath [''channel_header'', ''extension''] header) hexOf) (\<lambda>extension.
     bindR (bindR (jpath [''signature_header'', ''nonce''] header) hexOf) (\<lambda>nonce.
     bindR (bindR (jpath [''signature_header'', ''creator'', ''id_bytes'', ''data''] header) toStringV) (\<lambda>creator.
     bindR (jpath [''payload'', ''data''] (Some tx)) (\<lambda>pdata.
     bindR (jstep pdata ''actions'') (\<lambda>actions.
     bindR (if actions = None then Inr noExecution else executionOf actions) (\<lambda>ex.
     bindR (jpath [''channel_header'', ''typeString''] header) (\<lambda>ty.
     bindR (if ty = Some (JStr ''CONFIG'')
            then bindR (bindR (jpath [''last_update'', ''payload''] pdata) configSets) (\<lambda>_. Inr (Some (JStr (fl_sha256 L (stringify tx)))))
            else jpath [''channel_header'', ''tx_id''] header) (\<lambda>txid.
     bindR (chaincodeName actions) (\<lambda>name.
     bindR (jpath [''channel_header'', ''timestamp''] header) (\<lambda>timestamp.
     bindR (jpath [''signature_header'', ''creator'', ''mspid''] header) (\<lambda>msp.
     bindR (jpath [''channel_header'', ''channel_id''] header) (\<lambda>channel.
     Inr (\<lparr>dt_block_number = map_option JStr blockNumber, dt_block_id = Some (JStr h), dt_transaction_id = txid, dt_createdat = timestamp,
        dt_chaincodename = name, dt_status = ex_status ex, dt_creator_msp_id = msp, dt_endorser_msp_id = ex_endorser_msp_id ex,
        dt_chaincode_id = Some (JStr (case ex_chaincodeID ex of None \<Rightarrow> ''undefined'' | Some c \<Rightarrow> stringify c)), dt_type = ty,
        dt_read_set = ex_read_set ex, dt_write_set = ex_write_set ex, dt_channel_id = channel, dt_payload_extension = extension,
        dt_creator_id_bytes = creator, dt_creator_nonce = nonce, dt_chaincode_proposal_input = ex_input ex,
        dt_tx_response = ex_tx_response ex, dt_payload_proposal_hash = ex_payload_proposal_hash ex,
        dt_endorser_id_bytes = ex_endorser_id_bytes ex, dt_endorser_signature = ex_endorser_signature ex\<rparr>,
       \<lparr>ft_transaction_id = txid, ft_block_id = Some (JStr h), ft_transaction_data = actions\<rparr>)))))))))))))))"

definition storeTransaction :: "'x fabricLedger \<Rightarrow> 'x fabricDb \<Rightarrow> string \<Rightarrow> string option \<Rightarrow> json \<Rightarrow> ('x, unit) fact" where
  "storeTransaction L D h blockNumber tx = bindA (liftR (transactionRows L h blockNumber tx)) (\<lambda>(d, e).
     thenA (insertDetailedTransactionEntry D d) (insertBlockTransactionEntry D e))"

text \<open>The data of a block: its hash and its transactions.\<close>

definition blockParts :: "jsv \<Rightarrow> (json \<times> string \<times> json list) result" where
  "blockParts data = (case data of
      None \<Rightarrow> Inl SyntaxError
    | Some b \<Rightarrow>
        bindR (bindR (jpath [''decodedBlock'', ''header'', ''data_hash'', ''data''] (Some b)) bufferFromV) (\<lambda>h.
        bindR (bindR (jpath [''decodedBlock'', ''data'', ''data''] (Some b)) elementsOf) (\<lambda>txs. Inr (b, bufArray2HexStr h, txs))))"

definition detailsOf :: "json \<Rightarrow> string \<Rightarrow> string option \<Rightarrow> nat \<Rightarrow> jsv InsertBlockDetailsInterface result" where
  "detailsOf b h blockNumber txLen =
     bindR (jpath [''decodedBlock'', ''data'', ''data'', ''0'', ''payload'', ''header'', ''channel_header''] (Some b)) (\<lambda>channel_header.
     bindR (jstep channel_header ''timestamp'') (\<lambda>timestamp.
     bindR (jpath [''decodedBlock'', ''header'', ''previous_hash''] (Some b)) (\<lambda>prev.
     bindR (jstep channel_header ''channel_id'') (\<lambda>channel.
     Inr \<lparr>fd_block_id = Some (JStr h), fd_blocknum = map_option JStr blockNumber, fd_datahash = Some (JStr h), fd_tx_count = txLen,
       fd_createdat = timestamp, fd_prev_blockhash = prev, fd_channel_id = channel\<rparr>))))"

text \<open>\<open>Number(blockNumber)\<close>\<close>

definition blockNumberVal :: "string option \<Rightarrow> int option" where
  "blockNumberVal blockNumber = jsNumber (map_option JStr blockNumber)"

definition raiseLastSeen :: "string option \<Rightarrow> 'x fabricWorld \<Rightarrow> 'x fabricWorld" where
  "raiseLastSeen blockNumber w = (case blockNumberVal blockNumber of
      Some n \<Rightarrow> if numGreater (Inr n) (fw_lastSeenBlock w) then w\<lparr>fw_lastSeenBlock := Inr n\<rparr> else w
    | None \<Rightarrow> w)"

definition migrateBlockNrWithTransactions :: "'x fabricLedger \<Rightarrow> 'x fabricDb \<Rightarrow> string option \<Rightarrow> ('x, bool) fact" where
  "migrateBlockNrWithTransactions L D blockNumber =
     bindA (requestFabricBlock L blockNumber) (\<lambda>(status, data).
     bindA (liftR (blockParts data)) (\<lambda>(b, h, txs).
     if txs = [] then ret False
     else thenA (forEachA (storeTransaction L D h blockNumber) txs) (
       thenA (insertBlockDataEntry D \<lparr>fabric_block_id = h, fabric_block_num = blockNumberVal blockNumber, fabric_block_data = stringify b\<rparr>) (
       thenA (modifyA (raiseLastSeen blockNumber)) (
       bindA (liftR (detailsOf b h blockNumber (length txs))) (\<lambda>d.
       thenA (insertBlockDetails D d) (
       thenA (modifyA (raiseLastSeen blockNumber)) (ret True))))))))"

section \<open>Synchronization\<close>

definition lastBlockInLedger :: "'x fabricLedger \<Rightarrow> ('x, numish) fact" where
  "lastBlockInLedger L = bindA (fabricCall L (fl_getChainInfo L)) (\<lambda>(status, functionOutput).
     bindA (liftR (bindR (parseJ functionOutput) (\<lambda>p. jstep (Some p) ''data''))) (\<lambda>d.
     case fl_height L d of None \<Rightarrow> throwE LibraryError | Some h \<Rightarrow> ret h))"

text \<open>
  The loops ask for one block in each round, the outcome of which is the variable \<open>block\<close>; a request that fails leaves
  the answer of an earlier round in it. Only its status is looked at.
\<close>

definition askBlock :: "'x fabricLedger \<Rightarrow> string \<Rightarrow> int option \<Rightarrow> ('x, bool \<times> int option) fact" where
  "askBlock L blockNumber block = catchA (bindA (requestFabricBlock L (Some blockNumber)) (\<lambda>(status, d). ret (True, Some status)))
     (\<lambda>e. ret (False, block))"

definition lastBlockRound :: "'x fabricLedger \<Rightarrow> numish \<times> int option \<Rightarrow> ('x, (numish \<times> int option) \<times> bool) fact" where
  "lastBlockRound L = (\<lambda>(temp, block). bindA (askBlock L (numText temp) block) (\<lambda>(answered, block').
     if block' = Some 200 \<and> answered
     then thenA (modifyA (\<lambda>w. w\<lparr>fw_lastBlock := temp\<rparr>)) (ret ((plusOne temp, block'), True))
     else ret ((temp, block'), False)))"

definition lastBlockInLedgerWithoutFabricProto :: "'x fabricLedger \<Rightarrow> ('x, numish) fact" where
  "lastBlockInLedgerWithoutFabricProto L = bindA (getsA fw_lastBlock) (\<lambda>temp.
     bindA (doWhileA (fl_rounds L) (lastBlockRound L) (temp, None)) (\<lambda>_. getsA fw_lastBlock))"

definition initialRound :: "'x fabricLedger \<Rightarrow> 'x fabricDb \<Rightarrow> int \<Rightarrow> int \<times> int option \<Rightarrow> ('x, (int \<times> int option) \<times> bool) fact" where
  "initialRound L D edgeOfLedger = (\<lambda>(temp, block). bindA (askBlock L (intToString temp) block) (\<lambda>(answered, block').
     if block' = Some 200 \<and> answered
     then bindA (migrateBlockNrWithTransactions L D (Some (intToString temp))) (\<lambda>_.
       thenA (modifyA (\<lambda>w. w\<lparr>fw_lastSeenBlock := Inr temp, fw_lastBlock := Inr temp\<rparr>)) (
       ret ((temp + 1, block'), \<not> temp + 1 > edgeOfLedger)))
     else ret ((temp, block'), False)))"

text \<open>The number of rounds is bounded by the edge.\<close>

definition initialBlocksSynchronization :: "'x fabricLedger \<Rightarrow> 'x fabricDb \<Rightarrow> int \<Rightarrow> ('x, string) fact" where
  "initialBlocksSynchronization L D edgeOfLedger =
     bindA (doWhileA (Suc (nat edgeOfLedger)) (initialRound L D edgeOfLedger) (0, None)) (\<lambda>_. ret ''done'')"

definition syncAllStep :: "'x fabricLedger \<Rightarrow> 'x fabricDb \<Rightarrow> int \<Rightarrow> int option \<Rightarrow> ('x, int \<times> int option) fact" where
  "syncAllStep L D temp block = bindA (getsA (\<lambda>w. numGreater (fw_lastBlock w) (fw_lastSeenBlock w))) (\<lambda>behind.
     if behind
     then bindA (askBlock L (intToString temp) block) (\<lambda>(answered, block').
       if block' = Some 200
       then bindA (migrateBlockNrWithTransactions L D (Some (intToString temp))) (\<lambda>_.
         thenA (modifyA (\<lambda>w. w\<lparr>fw_lastSeenBlock := Inr temp\<rparr>)) (ret (temp + 1, block')))
       else ret (temp, block'))
     else thenA (modifyA (\<lambda>w. w\<lparr>fw_missedBlocks := fw_missedBlocks w @ [Some (intToString temp)],
         fw_howManyBlocksMissing := fw_howManyBlocksMissing w + 1\<rparr>)) (ret (temp, block)))"

definition syncAllRound :: "'x fabricLedger \<Rightarrow> 'x fabricDb \<Rightarrow> int \<times> int option \<Rightarrow> ('x, (int \<times> int option) \<times> bool) fact" where
  "syncAllRound L D = (\<lambda>(temp, block). bindA (syncAllStep L D temp block) (\<lambda>s.
     thenA (modifyA (\<lambda>w. if fw_synchronizationGo w \<and> numAtLeast (fw_lastSeenBlock w) (fw_lastBlock w)
       then w\<lparr>fw_synchronizationGo := False\<rparr> else w)) (
     bindA (getsA fw_synchronizationGo) (\<lambda>go. ret (s, go)))))"

definition fabricSyncAll :: "'x fabricLedger \<Rightarrow> 'x fabricDb \<Rightarrow> ('x, int) fact" where
  "fabricSyncAll L D = bindA (getMaxBlockNumber D) (\<lambda>n.
     thenA (modifyA (\<lambda>w. w\<lparr>fw_lastSeenBlock := Inr n\<rparr>)) (
     bindA (lastBlockInLedger L) (\<lambda>h.
     thenA (modifyA (\<lambda>w. w\<lparr>fw_lastBlock := h, fw_synchronizationGo := True\<rparr>)) (
     bindA (doWhileA (fl_rounds L) (syncAllRound L D) (n, None)) (\<lambda>_. ret 1)))))"

definition monitorStep :: "'x fabricLedger \<Rightarrow> 'x fabricDb \<Rightarrow> int \<Rightarrow> int option \<Rightarrow> ('x, int \<times> int option) fact" where
  "monitorStep L D temp block = bindA (getsA (\<lambda>w. numGreater (fw_lastBlock w) (fw_lastSeenBlock w))) (\<lambda>behind.
     if behind
     then bindA (askBlock L (intToString temp) block) (\<lambda>(answered, block').
       if block' = Some 200
       then bindA (isThisBlockInDB D temp) (\<lambda>rowCount.
         thenA (if rowCount = 0
           then bindA (migrateBlockNrWithTransactions L D (Some (intToString temp))) (\<lambda>_. modifyA (\<lambda>w. let w' = w\<lparr>fw_lastSeenBlock := Inr temp\<rparr> in
             if numGreater (Inr temp) (fw_lastBlock w') then w'\<lparr>fw_lastBlock := Inr temp\<rparr> else w'))
           else ret ()) (ret (temp + 1, block')))
       else ret (temp, block'))
     else ret (temp, block))"

definition monitorRound :: "'x fabricLedger \<Rightarrow> 'x fabricDb \<Rightarrow> int \<times> int option \<Rightarrow> ('x, (int \<times> int option) \<times> bool) fact" where
  "monitorRound L D = (\<lambda>(temp, block). bindA (monitorStep L D temp block) (\<lambda>s.
     bindA (lastBlockInLedger L) (\<lambda>h.
     thenA (modifyA (\<lambda>w. w\<lparr>fw_lastBlock := h\<rparr>)) (
     bindA (getsA fw_synchronizationGo) (\<lambda>go. ret (s, go))))))"

definition fabricStartMonitor :: "'x fabricLedger \<Rightarrow> 'x fabricDb \<Rightarrow> ('x, string) fact" where
  "fabricStartMonitor L D = bindA (getMaxBlockNumber D) (\<lambda>n.
     thenA (modifyA (\<lambda>w. w\<lparr>fw_lastSeenBlock := Inr n, fw_synchronizationGo := True\<rparr>)) (
     bindA (lastBlockInLedger L) (\<lambda>h.
     thenA (modifyA (\<lambda>w. w\<lparr>fw_lastBlock := h\<rparr>)) (
     bindA (doWhileA (fl_rounds L) (monitorRound L D) (n, None)) (\<lambda>_. ret ''stopped'')))))"

definition getFabricBlockFromLedger :: "'x fabricLedger \<Rightarrow> string \<Rightarrow> ('x, jsv) fact" where
  "getFabricBlockFromLedger L blockNumber = bindA (requestFabricBlock L (Some blockNumber)) (\<lambda>(status, d). ret d)"

definition setLastBlockConsidered :: "int \<Rightarrow> ('x, int) fact" where
  "setLastBlockConsidered n = thenA (modifyA (\<lambda>w. w\<lparr>fw_lastBlock := Inr n\<rparr>)) (ret n)"

section \<open>Missing blocks\<close>

text \<open>The loop from the last block down to block 0.\<close>

definition downFrom :: "numish \<Rightarrow> (string \<times> int) list" where
  "downFrom n = (case numVal n of
      None \<Rightarrow> []
    | Some i \<Rightarrow> if i < 0 then [] else (numText n, i) # map (\<lambda>j. (intToString j, j)) (rev [0..i - 1]))"

definition whichBlocksAreMissingInDdSimple :: "'x fabricDb \<Rightarrow> ('x, int) fact" where
  "whichBlocksAreMissingInDdSimple D =
     thenA (modifyA (\<lambda>w. w\<lparr>fw_howManyBlocksMissing := 0\<rparr>)) (
     bindA (getsA fw_lastBlock) (\<lambda>last.
     thenA (forEachA (\<lambda>(s, i). bindA (isThisBlockInDB D i) (\<lambda>rowCount. if rowCount = 0
         then modifyA (\<lambda>w. w\<lparr>fw_missedBlocks := fw_missedBlocks w @ [Some s], fw_howManyBlocksMissing := fw_howManyBlocksMissing w + 1\<rparr>)
         else ret ())) (downFrom last)) (
     getsA fw_howManyBlocksMissing)))"

text \<open>\<open>delete missed[missed.indexOf(n)]\<close>: the first place with the number becomes empty.\<close>

fun forget :: "string option \<Rightarrow> string option list \<Rightarrow> string option list" where
  "forget n [] = []"
| "forget n (m # ms) = (if n \<noteq> None \<and> m = n then None # ms else m # forget n ms)"

definition missedAt :: "string option list \<Rightarrow> nat \<Rightarrow> string option" where
  "missedAt ms i = (if i < length ms then ms ! i else None)"

definition failedRound :: "'x fabricLedger \<Rightarrow> 'x fabricDb \<Rightarrow> nat \<Rightarrow> ('x, nat \<times> bool) fact" where
  "failedRound L D missedIndex = bindA (getsA (\<lambda>w. missedAt (fw_missedBlocks w) missedIndex)) (\<lambda>blockNumber.
     bindA (requestFabricBlock L blockNumber) (\<lambda>(status, d).
     bindA (if status = 200
         then bindA (migrateBlockNrWithTransactions L D blockNumber) (\<lambda>migrated.
           thenA (modifyA (\<lambda>w. w\<lparr>fw_missedBlocks := (if migrated then forget blockNumber (fw_missedBlocks w) else fw_missedBlocks w),
             fw_howManyBlocksMissing := fw_howManyBlocksMissing w - 1\<rparr>)) (ret (missedIndex + 1)))
         else ret missedIndex) (\<lambda>i.
     bindA (getsA fw_howManyBlocksMissing) (\<lambda>n. ret (i, \<not> n \<le> 0)))))"

definition fabricSyncFailedBlocks :: "'x fabricLedger \<Rightarrow> 'x fabricDb \<Rightarrow> ('x, int) fact" where
  "fabricSyncFailedBlocks L D = bindA (getsA fw_howManyBlocksMissing) (\<lambda>n.
     thenA (if n > 0 then bindA (doWhileA (fl_rounds L) (failedRound L D) 0) (\<lambda>_. ret ()) else ret ()) (
     getsA fw_howManyBlocksMissing))"

text \<open>\<open>this.lastBlock + 1\<close>\<close>

definition migrateNextBlock :: "'x fabricLedger \<Rightarrow> 'x fabricDb \<Rightarrow> ('x, numish) fact" where
  "migrateNextBlock L D = bindA (getsA (\<lambda>w. plusOne (fw_lastBlock w))) (\<lambda>toMigrate.
     catchA (bindA (migrateBlockNrWithTransactions L D (Some (numText toMigrate))) (\<lambda>_.
       thenA (modifyA (\<lambda>w. w\<lparr>fw_lastSeenBlock := toMigrate\<rparr>)) (ret toMigrate)))
     (\<lambda>e. ret (Inr 0)))"

section \<open>Life of the plugin\<close>

definition initPersistenceFabric :: "'x fabricDb \<Rightarrow> ('x, unit) fact" where
  "initPersistenceFabric D = thenA (connectFabricDb D) (
     bindA (getsA fw_instanceId) (\<lambda>i.
     thenA (initializeFabricPlugin D ''PluginPersistenceFabric'' i) (
     modifyA (\<lambda>w. w\<lparr>fw_isConnected := True\<rparr>))))"

definition shutdownPersistenceFabric :: "('x, unit) fact" where
  "shutdownPersistenceFabric = thenA (modifyA (\<lambda>w. w\<lparr>fw_clientOpen := False\<rparr>)) (thenA shutdownFabricDb (
     modifyA (\<lambda>w. w\<lparr>fw_isConnected := False\<rparr>)))"

record getStatusReturn =
  gs_instanceId :: string
  gs_connected :: bool
  gs_webServicesRegistered :: bool
  gs_lastSeenBlock :: numish

definition fabricStatus :: "'x fabricWorld \<Rightarrow> getStatusReturn" where
  "fabricStatus w = \<lparr>gs_instanceId = fw_instanceId w, gs_connected = fw_isConnected w,
     gs_webServicesRegistered = fw_isWebServicesRegistered w, gs_lastSeenBlock = fw_lastSeenBlock w\<rparr>"

end
