(* ===== verification/Persistence_Fabric_Properties.thy ===== *)
theory Persistence_Fabric_Properties
  imports Persistence_Fabric
begin

text \<open>
  Properties of the Fabric persistence plugin: a block counts as stored only after all its transactions
  are, but what was stored of a block that failed is in the way of every later attempt, and a
  synchronization neither ends nor resumes.
\<close>

section \<open>Runs of queries\<close>

definition grows :: "fabricTables \<Rightarrow> fabricTables \<Rightarrow> bool" where
  "grows t t' \<longleftrightarrow> set (fabric_blocks_entry t) \<subseteq> set (fabric_blocks_entry t') \<and> set (fabric_transactions t) \<subseteq> set (fabric_transactions t')
     \<and> set (fabric_transactions_entry t) \<subseteq> set (fabric_transactions_entry t') \<and> set (fabric_blocks t) \<subseteq> set (fabric_blocks t')"

lemma grows_refl [simp]: "grows t t"
  by (simp add: grows_def)

lemma grows_trans: "grows t u \<Longrightarrow> grows u v \<Longrightarrow> grows t v"
  by (auto simp: grows_def)

lemma fabricQuery_run:
  assumes "fabricQuery D f w = (r, w')" "idle t (fw_pg w)"
  shows "\<exists>t'. idle t' (fw_pg w') \<and> (t' = t \<or> (\<exists>a. f t = Some (a, t'))) \<and> (\<forall>a. r = Returns a \<longrightarrow> f t = Some (a, t')) \<and> r \<noteq> Pending"
proof -
  obtain ft x a g where q: "fq_fault D (fw_ext w) = (ft, x)" "pgAsk ft (pgRun f) (fw_pg w) = (a, g)" by (metis surj_pair)
  have "w' = w\<lparr>fw_pg := g, fw_ext := x\<rparr>" "r = (case a of Some r \<Rightarrow> Returns r | None \<Rightarrow> Throws LibraryError)"
    using assms(1) q by (simp_all add: fabricQuery_def)
  moreover have "\<exists>t'. idle t' g \<and> (t' = t \<or> (\<exists>a. f t = Some (a, t'))) \<and> (\<forall>b. a = Some b \<longrightarrow> f t = Some (b, t'))"
    using ask_idle [OF assms(2) q(2)] by (cases a) auto
  ultimately show ?thesis by (cases a) auto
qed

lemma connectedQuery_run:
  assumes "connectedQuery D f w = (r, w')" "idle t (fw_pg w)"
  shows "\<exists>t'. idle t' (fw_pg w') \<and> (t' = t \<or> (\<exists>a. f t = Some (a, t'))) \<and> (\<forall>a. r = Returns a \<longrightarrow> f t = Some (a, t')) \<and> r \<noteq> Pending"
proof (cases "fw_dbConnected w")
  case True
  then have "fabricQuery D f w = (r, w')"
    using assms(1) by (simp add: connectedQuery_def assertFabricConnected_def thenA_def bindA_def getsA_def ensure_def ret_def)
  then show ?thesis by (rule fabricQuery_run [OF _ assms(2)])
next
  case False
  then show ?thesis using assms
    by (auto simp: connectedQuery_def assertFabricConnected_def thenA_def bindA_def getsA_def ensure_def throwE_def intro: exI [of _ t])
qed

text \<open>The rows of a transaction are stored.\<close>

definition txStored :: "'x fabricLedger \<Rightarrow> 'x fabricDb \<Rightarrow> string \<Rightarrow> string option \<Rightarrow> json \<Rightarrow> fabricTables \<Rightarrow> bool" where
  "txStored L D h blockNumber tx t \<longleftrightarrow> (\<exists>d e. transactionRows L h blockNumber tx = Inr (d, e)
     \<and> detailedRow D d \<in> set (fabric_transactions t) \<and> entryRow D e \<in> set (fabric_transactions_entry t))"

lemma txStored_grows: "txStored L D h bn tx t \<Longrightarrow> grows t t' \<Longrightarrow> txStored L D h bn tx t'"
  by (auto simp: txStored_def grows_def)

text \<open>A transaction whose identifier is in the database.\<close>

definition txKnown :: "'x fabricLedger \<Rightarrow> 'x fabricDb \<Rightarrow> string \<Rightarrow> string option \<Rightarrow> json \<Rightarrow> fabricTables \<Rightarrow> bool" where
  "txKnown L D h blockNumber tx t \<longleftrightarrow> (\<exists>d e. transactionRows L h blockNumber tx = Inr (d, e)
     \<and> dt_transaction_id (detailedRow D d) \<in> dt_transaction_id ` set (fabric_transactions t))"

lemma txKnown_grows: "txKnown L D h bn tx t \<Longrightarrow> grows t t' \<Longrightarrow> txKnown L D h bn tx t'"
  by (auto simp: txKnown_def grows_def)

lemma insertDetailed_result:
  "insertDetailed D d t = Some (u, t') \<Longrightarrow> grows t t' \<and> fabric_blocks_entry t' = fabric_blocks_entry t \<and> detailedRow D d \<in> set (fabric_transactions t')
     \<and> dt_transaction_id (detailedRow D d) \<notin> dt_transaction_id ` set (fabric_transactions t)"
  by (auto simp: insertDetailed_def onFabric_def Let_def grows_def split: if_splits)

lemma insertTxEntry_result:
  "insertTxEntry D e t = Some (u, t') \<Longrightarrow> grows t t' \<and> fabric_blocks_entry t' = fabric_blocks_entry t \<and> entryRow D e \<in> set (fabric_transactions_entry t')"
  by (auto simp: insertTxEntry_def onFabric_def Let_def grows_def split: if_splits)

lemma insertEntry_result: "insertEntry b t = Some (u, t') \<Longrightarrow> grows t t' \<and> fabric_blocks_entry t' = fabric_blocks_entry t @ [b]"
  by (auto simp: insertEntry_def onFabric_def grows_def split: if_splits)

lemma insertDetails_result:
  "insertDetails D b t = Some (u, t') \<Longrightarrow> grows t t' \<and> fabric_blocks_entry t' = fabric_blocks_entry t"
  by (auto simp: insertDetails_def onFabric_def Let_def grows_def split: if_splits)

lemma storeTransaction_run:
  assumes "storeTransaction L D h bn tx w = (r, w')" "idle t (fw_pg w)"
  shows "r \<noteq> Pending \<and> (\<exists>t'. idle t' (fw_pg w') \<and> grows t t' \<and> fabric_blocks_entry t' = fabric_blocks_entry t
    \<and> (r = Returns () \<longrightarrow> txStored L D h bn tx t' \<and> \<not> txKnown L D h bn tx t))"
proof (cases "transactionRows L h bn tx")
  case (Inl e)
  then show ?thesis using assms by (auto simp: storeTransaction_def liftR_def bindA_def throwE_def intro: exI [of _ t])
next
  case (Inr p)
  obtain d e where p: "p = (d, e)" by (cases p)
  obtain r1 w1 where q: "connectedQuery D (insertDetailed D d) w = (r1, w1)" by (cases "connectedQuery D (insertDetailed D d) w")
  obtain t1 where t1: "idle t1 (fw_pg w1)" "t1 = t \<or> (\<exists>a. insertDetailed D d t = Some (a, t1))"
      "\<forall>a. r1 = Returns a \<longrightarrow> insertDetailed D d t = Some (a, t1)" "r1 \<noteq> Pending"
    using connectedQuery_run [OF q assms(2)] by blast
  have g1: "grows t t1 \<and> fabric_blocks_entry t1 = fabric_blocks_entry t" using t1(2) insertDetailed_result by fastforce
  have run: "storeTransaction L D h bn tx w = thenA (insertDetailedTransactionEntry D d) (insertBlockTransactionEntry D e) w"
    by (simp add: storeTransaction_def Inr p liftR_def bindA_def ret_def)
  show ?thesis
  proof (cases r1)
    case (Returns u)
    obtain r2 w2 where q2: "connectedQuery D (insertTxEntry D e) w1 = (r2, w2)" by (cases "connectedQuery D (insertTxEntry D e) w1")
    obtain t2 where t2: "idle t2 (fw_pg w2)" "t2 = t1 \<or> (\<exists>a. insertTxEntry D e t1 = Some (a, t2))"
        "\<forall>a. r2 = Returns a \<longrightarrow> insertTxEntry D e t1 = Some (a, t2)" "r2 \<noteq> Pending"
      using connectedQuery_run [OF q2 t1(1)] by blast
    have g2: "grows t1 t2 \<and> fabric_blocks_entry t2 = fabric_blocks_entry t1" using t2(2) insertTxEntry_result by fastforce
    have w: "(r, w') = (r2, w2)"
      using assms(1) run q q2 Returns
      by (simp add: insertDetailedTransactionEntry_def insertBlockTransactionEntry_def thenA_def bindA_def)
    have "r2 = Returns () \<longrightarrow> txStored L D h bn tx t2 \<and> \<not> txKnown L D h bn tx t"
      using t1(3) t2(3) Returns Inr p insertDetailed_result [of D d t] insertTxEntry_result [of D e t1] g2
      by (auto simp: txStored_def txKnown_def grows_def)
    then show ?thesis using w t2(1,4) g1 g2 grows_trans by auto
  next
    case (Throws x)
    then show ?thesis using assms(1) run q t1(1) g1
      by (auto simp: insertDetailedTransactionEntry_def thenA_def bindA_def)
  qed (use t1(4) in simp)
qed

lemma storeTransactions_run:
  assumes "forEachA (storeTransaction L D h bn) txs w = (r, w')" "idle t (fw_pg w)"
  shows "r \<noteq> Pending \<and> (\<exists>t'. idle t' (fw_pg w') \<and> grows t t' \<and> fabric_blocks_entry t' = fabric_blocks_entry t
    \<and> (r = Returns () \<longrightarrow> (\<forall>tx \<in> set txs. txStored L D h bn tx t' \<and> \<not> txKnown L D h bn tx t)))"
  using assms
proof (induction txs arbitrary: w t)
  case (Cons tx txs)
  obtain r1 w1 where q: "storeTransaction L D h bn tx w = (r1, w1)" by (cases "storeTransaction L D h bn tx w")
  note s = storeTransaction_run [OF q Cons.prems(2)]
  then obtain t1 where t1: "idle t1 (fw_pg w1)" "grows t t1" "fabric_blocks_entry t1 = fabric_blocks_entry t"
      "r1 = Returns () \<longrightarrow> txStored L D h bn tx t1 \<and> \<not> txKnown L D h bn tx t" by blast
  show ?case
  proof (cases r1)
    case (Returns u)
    then have "forEachA (storeTransaction L D h bn) txs w1 = (r, w')" using Cons.prems(1) q by (simp add: thenA_def bindA_def)
    then obtain t' where "r \<noteq> Pending" "idle t' (fw_pg w')" "grows t1 t'" "fabric_blocks_entry t' = fabric_blocks_entry t1"
        "r = Returns () \<longrightarrow> (\<forall>tx \<in> set txs. txStored L D h bn tx t' \<and> \<not> txKnown L D h bn tx t1)"
      using Cons.IH [OF _ t1(1)] by blast
    moreover have "txStored L D h bn tx t1" using t1(4) Returns by simp
    from this \<open>grows t1 t'\<close> have "txStored L D h bn tx t'" by (rule txStored_grows)
    moreover have "\<not> txKnown L D h bn x t" if "\<not> txKnown L D h bn x t1" for x using that txKnown_grows t1(2) by blast
    ultimately show ?thesis using t1 Returns grows_trans by (intro conjI exI [of _ t']) auto
  next
    case (Throws x)
    then show ?thesis using Cons.prems(1) q t1 by (auto simp: thenA_def bindA_def)
  qed (use s in simp)
qed (auto simp: ret_def)

section \<open>One block\<close>

lemma fabricCall_pg: "fabricCall L f w = (r, w') \<Longrightarrow> fw_pg w' = fw_pg w \<and> fw_lastSeenBlock w' = fw_lastSeenBlock w"
  by (auto simp: fabricCall_def changeSynchronization_def thenA_def bindA_def modifyA_def getsA_def split: prod.splits if_splits)

text \<open>What a run of a migration did: nothing to the entries, or the whole block.\<close>

definition migrated :: "'x fabricLedger \<Rightarrow> 'x fabricDb \<Rightarrow> string option \<Rightarrow> json \<Rightarrow> string \<Rightarrow> json list \<Rightarrow> fabricTables \<Rightarrow> fabricTables \<Rightarrow> bool" where
  "migrated L D bn b h txs t t' \<longleftrightarrow>
     fabric_blocks_entry t' = fabric_blocks_entry t @ [\<lparr>fabric_block_id = h, fabric_block_num = blockNumberVal bn, fabric_block_data = stringify b\<rparr>]
     \<and> (\<forall>tx \<in> set txs. txStored L D h bn tx t' \<and> \<not> txKnown L D h bn tx t)"

lemma migrate_tail:
  assumes "thenA (insertBlockDataEntry D e) (thenA (modifyA (raiseLastSeen bn)) (bindA (liftR (detailsOf b h bn n)) (\<lambda>d.
       thenA (insertBlockDetails D d) (thenA (modifyA (raiseLastSeen bn)) (ret True))))) w = (r, w')"
    and "idle t (fw_pg w)"
  shows "r \<noteq> Pending \<and> (\<exists>t'. idle t' (fw_pg w') \<and> grows t t'
    \<and> (fabric_blocks_entry t' = fabric_blocks_entry t \<and> (\<forall>a. r \<noteq> Returns a) \<or> fabric_blocks_entry t' = fabric_blocks_entry t @ [e]))"
proof -
  obtain r1 w1 where q: "connectedQuery D (insertEntry e) w = (r1, w1)" by (cases "connectedQuery D (insertEntry e) w")
  obtain t1 where t1: "idle t1 (fw_pg w1)" "t1 = t \<or> (\<exists>a. insertEntry e t = Some (a, t1))"
      "\<forall>a. r1 = Returns a \<longrightarrow> insertEntry e t = Some (a, t1)" "r1 \<noteq> Pending"
    using connectedQuery_run [OF q assms(2)] by blast
  have g1: "grows t t1 \<and> (fabric_blocks_entry t1 = fabric_blocks_entry t \<or> fabric_blocks_entry t1 = fabric_blocks_entry t @ [e])"
    using t1(2) insertEntry_result by fastforce
  show ?thesis
  proof (cases r1)
    case (Returns u)
    let ?w2 = "raiseLastSeen bn w1"
    have e1: "fabric_blocks_entry t1 = fabric_blocks_entry t @ [e]" using t1(3) Returns insertEntry_result by blast
    have i2: "idle t1 (fw_pg ?w2)" using t1(1) by (simp add: raiseLastSeen_def split: option.split)
    show ?thesis
    proof (cases "detailsOf b h bn n")
      case (Inl x)
      then show ?thesis using assms(1) q Returns g1 e1 i2
        by (auto simp: insertBlockDataEntry_def thenA_def bindA_def modifyA_def liftR_def throwE_def)
    next
      case (Inr d)
      obtain r3 w3 where q3: "connectedQuery D (insertDetails D d) ?w2 = (r3, w3)" by (cases "connectedQuery D (insertDetails D d) ?w2")
      obtain t3 where t3: "idle t3 (fw_pg w3)" "t3 = t1 \<or> (\<exists>a. insertDetails D d t1 = Some (a, t3))" "r3 \<noteq> Pending"
        using connectedQuery_run [OF q3 i2] by blast
      have g3: "grows t1 t3 \<and> fabric_blocks_entry t3 = fabric_blocks_entry t1" using t3(2) insertDetails_result by fastforce
      have "r = (case r3 of Returns u \<Rightarrow> Returns True | Throws x \<Rightarrow> Throws x | Pending \<Rightarrow> Pending)" "fw_pg w' = fw_pg w3"
        using assms(1) q q3 Returns Inr
        by (auto simp: insertBlockDataEntry_def insertBlockDetails_def thenA_def bindA_def modifyA_def liftR_def ret_def raiseLastSeen_def
            split: outcome.splits option.splits)
      then show ?thesis using t3 g3 g1 e1 grows_trans by (cases r3) (auto intro!: exI [of _ t3])
    qed
  next
    case (Throws x)
    then show ?thesis using assms(1) q t1(1) g1 by (auto simp: insertBlockDataEntry_def thenA_def bindA_def)
  qed (use t1(4) in simp)
qed

lemma migrate_run:
  assumes "migrateBlockNrWithTransactions L D bn w = (r, w')" "idle t (fw_pg w)"
  shows "r \<noteq> Pending \<and> (\<exists>t'. idle t' (fw_pg w') \<and> grows t t' \<and>
    (fabric_blocks_entry t' = fabric_blocks_entry t \<and> r \<noteq> Returns True
     \<or> (\<exists>b h txs. blockParts (case fst (fl_getBlock L bn (fw_ext w)) of Response s d \<Rightarrow> d | Rejected \<Rightarrow> None) = Inr (b, h, txs) \<and> migrated L D bn b h txs t t')))"
proof -
  obtain c w1 where c: "requestFabricBlock L bn w = (c, w1)" by (cases "requestFabricBlock L bn w")
  have i1: "idle t (fw_pg w1)" using fabricCall_pg c assms(2) unfolding requestFabricBlock_def by metis
  show ?thesis
  proof (cases c)
    case (Returns p)
    obtain s d where p: "p = (s, d)" by (cases p)
    have d: "fst (fl_getBlock L bn (fw_ext w)) = Response s d"
      using c Returns p by (auto simp: requestFabricBlock_def fabricCall_def split: prod.splits response.splits)
    show ?thesis
    proof (cases "blockParts d")
      case (Inl e)
      then show ?thesis using assms(1) c Returns p i1
        by (auto simp: migrateBlockNrWithTransactions_def bindA_def liftR_def throwE_def intro!: exI [of _ t])
    next
      case (Inr parts)
      obtain b h txs where parts: "parts = (b, h, txs)" by (cases parts)
      show ?thesis
      proof (cases "txs = []")
        case True
        then show ?thesis using assms(1) c Returns p i1 Inr parts
          by (auto simp: migrateBlockNrWithTransactions_def bindA_def liftR_def ret_def intro!: exI [of _ t])
      next
        case False
        let ?e = "\<lparr>fabric_block_id = h, fabric_block_num = blockNumberVal bn, fabric_block_data = stringify b\<rparr>"
        let ?tail = "thenA (insertBlockDataEntry D ?e) (thenA (modifyA (raiseLastSeen bn)) (bindA (liftR (detailsOf b h bn (length txs))) (\<lambda>d.
           thenA (insertBlockDetails D d) (thenA (modifyA (raiseLastSeen bn)) (ret True)))))"
        obtain r2 w2 where q2: "forEachA (storeTransaction L D h bn) txs w1 = (r2, w2)" by (cases "forEachA (storeTransaction L D h bn) txs w1")
        have run: "(r, w') = thenA (forEachA (storeTransaction L D h bn) txs) ?tail w1"
          using assms(1) c Returns p Inr parts False by (simp add: migrateBlockNrWithTransactions_def bindA_def liftR_def ret_def)
        obtain t2 where t2: "r2 \<noteq> Pending" "idle t2 (fw_pg w2)" "grows t t2" "fabric_blocks_entry t2 = fabric_blocks_entry t"
            "r2 = Returns () \<longrightarrow> (\<forall>tx \<in> set txs. txStored L D h bn tx t2 \<and> \<not> txKnown L D h bn tx t)"
          using storeTransactions_run [OF q2 i1] by blast
        show ?thesis
        proof (cases r2)
          case (Returns u)
          then have "?tail w2 = (r, w')" using run q2 by (simp add: thenA_def bindA_def)
          note tail = migrate_tail [OF this t2(2)]
          then obtain t3 where t3: "idle t3 (fw_pg w')" "grows t2 t3"
              "fabric_blocks_entry t3 = fabric_blocks_entry t2 \<and> (\<forall>a. r \<noteq> Returns a) \<or> fabric_blocks_entry t3 = fabric_blocks_entry t2 @ [?e]" by blast
          have "\<forall>tx \<in> set txs. txStored L D h bn tx t2 \<and> \<not> txKnown L D h bn tx t" using t2(5) Returns by simp
          then have "\<forall>tx \<in> set txs. txStored L D h bn tx t3 \<and> \<not> txKnown L D h bn tx t"
            by (blast intro: txStored_grows [OF _ t3(2)])
          then have "fabric_blocks_entry t3 = fabric_blocks_entry t \<and> r \<noteq> Returns True \<or> migrated L D bn b h txs t t3"
            using t3(3) t2(4) by (auto simp: migrated_def)
          then show ?thesis using tail t3(1,2) t2(3) d Inr parts grows_trans by (intro conjI exI [of _ t3]) auto
        next
          case (Throws x)
          then show ?thesis using run q2 t2 by (auto simp: thenA_def bindA_def intro!: exI [of _ t2])
        qed (use t2(1) in simp)
      qed
    qed
  next
    case (Throws e)
    then show ?thesis using assms(1) c i1 by (auto simp: migrateBlockNrWithTransactions_def bindA_def intro!: exI [of _ t])
  next
    case Pending
    then show ?thesis using c by (auto simp: requestFabricBlock_def fabricCall_def split: prod.splits response.splits)
  qed
qed

text \<open>
  C26. A block counts as stored only after all its transactions are: whatever becomes of the queries, a migration either
  leaves the table of blocks alone, and then it does not report success, or it adds the one entry of this
  block when the rows of all its transactions are in both tables, none of which had been there before. No row is ever removed.
\<close>

theorem fabric_entry_after_transactions:
  assumes "idle t (fw_pg w)" "fst (fl_getBlock L bn (fw_ext w)) = Response s d" "blockParts d = Inr (b, h, txs)"
    and "migrateBlockNrWithTransactions L D bn w = (r, w')"
  shows "\<exists>t'. idle t' (fw_pg w') \<and> grows t t' \<and> (fabric_blocks_entry t' = fabric_blocks_entry t \<and> r \<noteq> Returns True
    \<or> (fabric_blocks_entry t' = fabric_blocks_entry t @ [\<lparr>fabric_block_id = h, fabric_block_num = blockNumberVal bn, fabric_block_data = stringify b\<rparr>]
       \<and> list_all (\<lambda>tx. txStored L D h bn tx t' \<and> \<not> txKnown L D h bn tx t) txs))"
  using migrate_run [OF assms(4,1)] assms(2,3) by (auto simp: migrated_def list_all_iff)

text \<open>
  What was stored of a block that failed is in its way for ever: once one of its transactions is in the database, every
  later migration of the block fails, and its entry is never written.
\<close>

lemma partial_block_stuck:
  assumes "idle t (fw_pg w)" "fst (fl_getBlock L bn (fw_ext w)) = Response s d" "blockParts d = Inr (b, h, txs)"
    and "tx \<in> set txs" "txKnown L D h bn tx t" "migrateBlockNrWithTransactions L D bn w = (r, w')"
  shows "(\<exists>e. r = Throws e) \<and> (\<exists>t'. idle t' (fw_pg w') \<and> grows t t' \<and> fabric_blocks_entry t' = fabric_blocks_entry t)"
proof -
  have e: "fabric_blocks_entry t' = fabric_blocks_entry t \<and> r \<noteq> Returns True" if
      "fabric_blocks_entry t' = fabric_blocks_entry t \<and> r \<noteq> Returns True \<or> migrated L D bn b h txs t t'" for t'
    using that assms(4,5) by (auto simp: migrated_def)
  obtain t' where "r \<noteq> Pending" "idle t' (fw_pg w')" "grows t t'"
      "fabric_blocks_entry t' = fabric_blocks_entry t \<and> r \<noteq> Returns True \<or> migrated L D bn b h txs t t'"
    using migrate_run [OF assms(6,1)] assms(2,3) by auto
  moreover have "r \<noteq> Returns False"
  proof
    assume "r = Returns False"
    then show False using assms(2-4,6)
      by (auto simp: migrateBlockNrWithTransactions_def bindA_Returns thenA_Returns liftR_Returns requestFabricBlock_def fabricCall_def ret_def
          split: prod.splits response.splits if_splits)
  qed
  ultimately show ?thesis using e by (cases r) auto
qed

section \<open>Synchronizing everything\<close>

text \<open>What a step leaves alone when nobody switches the synchronization off.\<close>

definition sameControl :: "'x fabricLedger \<Rightarrow> 'x fabricWorld \<Rightarrow> 'x fabricWorld \<Rightarrow> bool" where
  "sameControl L w w' \<longleftrightarrow> ((\<forall>x. \<not> fl_switched L x) \<longrightarrow>
     fw_lastBlock w' = fw_lastBlock w \<and> fw_synchronizationGo w' = fw_synchronizationGo w)"

interpretation ctl: run_preorder "sameControl L" for L
  by unfold_locales (auto simp: sameControl_def)

lemma ctl_call: "follows (sameControl L) (fabricCall L f)"
  by (auto simp: follows_def sameControl_def fabricCall_def split: prod.split)

lemma ctl_query: "follows (sameControl L) (connectedQuery D f)"
proof -
  have "follows (sameControl L) (fabricQuery D f)"
    by (auto simp: follows_def sameControl_def fabricQuery_def split: prod.split)
  then show ?thesis unfolding connectedQuery_def assertFabricConnected_def
    by (intro ctl.follows_thenA ctl.follows_bindA ctl.follows_getsA ctl.follows_ensure)
qed

lemma ctl_migrate: "follows (sameControl L) (migrateBlockNrWithTransactions L D bn)"
proof -
  have l: "follows (sameControl L) (liftR r)" for r by (cases r) (simp_all add: liftR_def ctl.follows_ret ctl.follows_throwE)
  have m: "follows (sameControl L) (modifyA (raiseLastSeen bn))"
    by (auto simp: follows_def sameControl_def modifyA_def raiseLastSeen_def split: option.split)
  have p: "(\<And>a b. follows (sameControl L) (f a b)) \<Longrightarrow> follows (sameControl L) (case q of (a, b) \<Rightarrow> f a b)" for f q by (cases q) simp
  show ?thesis
    unfolding migrateBlockNrWithTransactions_def requestFabricBlock_def storeTransaction_def insertDetailedTransactionEntry_def
      insertBlockTransactionEntry_def insertBlockDataEntry_def insertBlockDetails_def
    by (intro ctl.follows_bindA ctl.follows_thenA ctl.follows_forEachA ctl.follows_if ctl.follows_ret p l m ctl_call ctl_query)
qed

text \<open>A migration that returns has been answered by the ledger.\<close>

lemma migrate_answered:
  "migrateBlockNrWithTransactions L D bn w = (Returns a, w') \<Longrightarrow> fst (fl_getBlock L bn (fw_ext w)) \<noteq> Rejected"
  by (auto simp: migrateBlockNrWithTransactions_def bindA_Returns requestFabricBlock_def fabricCall_def split: prod.splits response.splits)

lemma askBlock_run:
  assumes "askBlock L s block w = (r, w')" "\<forall>x. \<not> fl_switched L x"
  shows "\<exists>answered block' x. r = Returns (answered, block') \<and> w' = w\<lparr>fw_ext := x\<rparr>"
proof -
  obtain q x where "fl_getBlock L (Some s) (fw_ext w) = (q, x)" by (cases "fl_getBlock L (Some s) (fw_ext w)")
  then show ?thesis using assms
    by (intro exI [of _ "q \<noteq> Rejected"] exI [of _ "case q of Rejected \<Rightarrow> block | Response s d \<Rightarrow> Some s"] exI [of _ x])
      (auto simp: askBlock_def catchA_def bindA_def requestFabricBlock_def fabricCall_def ret_def split: response.splits)
qed

text \<open>One round of the loop, where the ledger is ahead of what was seen.\<close>

lemma syncAllRound_behind:
  assumes "\<forall>x. \<not> fl_switched L x" "numGreater (fw_lastBlock w) (fw_lastSeenBlock w)" "fw_synchronizationGo w"
    and "syncAllRound L D (temp, block) w = (r, w')"
  shows "(\<exists>block' x. r = Returns ((temp, block'), True) \<and> w' = w\<lparr>fw_ext := x\<rparr>)
    \<or> (\<exists>x q w2. migrateBlockNrWithTransactions L D (Some (intToString temp)) (w\<lparr>fw_ext := x\<rparr>) = (q, w2)
        \<and> (case q of Returns _ \<Rightarrow> fw_lastBlock w' = fw_lastBlock w \<and> fw_lastSeenBlock w' = Inr temp \<and> fw_pg w' = fw_pg w2
             \<and> (numGreater (fw_lastBlock w) (Inr temp) \<longrightarrow> (\<exists>block'. r = Returns ((temp + 1, block'), True)) \<and> fw_synchronizationGo w')
           | Throws e \<Rightarrow> r = Throws e \<and> w' = w2 | Pending \<Rightarrow> r = Pending \<and> w' = w2))"
proof -
  obtain qa wa where "askBlock L (intToString temp) block w = (qa, wa)" by (cases "askBlock L (intToString temp) block w")
  with askBlock_run [OF this assms(1)] obtain answered block' x
    where a: "askBlock L (intToString temp) block w = (Returns (answered, block'), w\<lparr>fw_ext := x\<rparr>)" by auto
  have g: "numAtLeast m n \<Longrightarrow> \<not> numGreater n m" for m n
    by (auto simp: numAtLeast_def numGreater_def split: option.splits)
  show ?thesis
  proof (cases "block' = Some 200")
    case False
    then have "r = Returns ((temp, block'), True)" "w' = w\<lparr>fw_ext := x\<rparr>"
      using assms(2-4) a g [of "fw_lastSeenBlock w" "fw_lastBlock w"]
      by (auto simp: syncAllRound_def syncAllStep_def bindA_def thenA_def getsA_def modifyA_def ret_def)
    then show ?thesis by blast
  next
    case True
    obtain q w2 where q: "migrateBlockNrWithTransactions L D (Some (intToString temp)) (w\<lparr>fw_ext := x\<rparr>) = (q, w2)"
      by (cases "migrateBlockNrWithTransactions L D (Some (intToString temp)) (w\<lparr>fw_ext := x\<rparr>)")
    have c: "fw_lastBlock w2 = fw_lastBlock w" "fw_synchronizationGo w2 = fw_synchronizationGo w"
      using followsD [OF ctl_migrate q] assms(1) by (simp_all add: sameControl_def)
    show ?thesis
      using assms(2-4) a q True c g [of "Inr temp" "fw_lastBlock w"]
      by (intro disjI2 exI [of _ x] exI [of _ q] exI [of _ w2])
        (cases q; auto simp: syncAllRound_def syncAllStep_def bindA_def thenA_def getsA_def modifyA_def ret_def)
  qed
qed

text \<open>
  The loop does not return when, as long as it goes on, its rounds keep an invariant in which the ledger is
  ahead of what was seen, whatever else becomes of the tables.
\<close>

lemma syncAll_forever:
  fixes L :: "'x fabricLedger"
  assumes "\<forall>x. \<not> fl_switched L x" "\<And>d h. fl_height L d = Some h \<Longrightarrow> G h"
    and "\<And>temp (w :: 'x fabricWorld) q w2 x. Inv temp (fw_pg w) \<Longrightarrow>
      migrateBlockNrWithTransactions L D (Some (intToString temp)) (w\<lparr>fw_ext := x\<rparr>) = (q, w2) \<Longrightarrow>
      (case q of Returns _ \<Rightarrow> Inv (temp + 1) (fw_pg w2) \<and> (\<forall>h. G h \<longrightarrow> numGreater h (Inr temp)) | _ \<Rightarrow> K (fw_pg w2))"
    and "\<And>temp g. Inv temp g \<Longrightarrow> K g"
    and "\<And>h. G h \<Longrightarrow> numGreater h (Inr n)"
    and "getMaxBlockNumber D w = (Returns n, w1)" "Inv n (fw_pg w1)"
  shows "wp (fabricSyncAll L D) (\<lambda>r w'. (\<forall>a. r \<noteq> Returns a) \<and> K (fw_pg w')) w"
proof -
  let ?w2 = "w1\<lparr>fw_lastSeenBlock := Inr n\<rparr>"
  obtain r3 w3 where q3: "lastBlockInLedger L ?w2 = (r3, w3)" by (cases "lastBlockInLedger L ?w2")
  have l: "fw_pg w3 = fw_pg w1 \<and> fw_lastSeenBlock w3 = Inr n \<and> (\<forall>h. r3 = Returns h \<longrightarrow> G h)"
  proof -
    obtain r4 w4 where q4: "fabricCall L (fl_getChainInfo L) ?w2 = (r4, w4)" by (cases "fabricCall L (fl_getChainInfo L) ?w2")
    then show ?thesis using q3 fabricCall_pg [OF q4] assms(2)
      by (auto simp: lastBlockInLedger_def bindA_def liftR_def ret_def throwE_def split: outcome.splits prod.splits sum.splits option.splits)
  qed
  let ?I = "\<lambda>s w. Inv (fst s) (fw_pg w) \<and> G (fw_lastBlock w) \<and> numGreater (fw_lastBlock w) (fw_lastSeenBlock w) \<and> fw_synchronizationGo w"
  have round: "wp (syncAllRound L D s) (\<lambda>r w'. case r of Returns p \<Rightarrow> snd p \<and> ?I (fst p) w' | _ \<Rightarrow> K (fw_pg w')) v" if i: "?I s v"
    for s and v :: "'x fabricWorld"
  proof -
    obtain temp block where s: "s = (temp, block)" by (cases s)
    obtain r w' where r: "syncAllRound L D (temp, block) v = (r, w')" by (cases "syncAllRound L D (temp, block) v")
    have "(case r of Returns p \<Rightarrow> snd p \<and> ?I (fst p) w' | _ \<Rightarrow> K (fw_pg w'))"
      using syncAllRound_behind [OF assms(1) i [THEN conjunct2, THEN conjunct2, THEN conjunct1]
          i [THEN conjunct2, THEN conjunct2, THEN conjunct2] r]
    proof (elim disjE exE conjE)
      fix x q w2
      assume m: "migrateBlockNrWithTransactions L D (Some (intToString temp)) (v\<lparr>fw_ext := x\<rparr>) = (q, w2)"
        and c: "case q of Returns _ \<Rightarrow> fw_lastBlock w' = fw_lastBlock v \<and> fw_lastSeenBlock w' = Inr temp \<and> fw_pg w' = fw_pg w2
            \<and> (numGreater (fw_lastBlock v) (Inr temp) \<longrightarrow> (\<exists>block'. r = Returns ((temp + 1, block'), True)) \<and> fw_synchronizationGo w')
          | Throws e \<Rightarrow> r = Throws e \<and> w' = w2 | Pending \<Rightarrow> r = Pending \<and> w' = w2"
      then show ?thesis using assms(3) [OF _ m] i s by (cases q) auto
    qed (use i s in auto)
    then show ?thesis using r s by (simp add: wp_def)
  qed
  have "wp (doWhileA (fl_rounds L) (syncAllRound L D) (n, None)) (\<lambda>r w'. (\<forall>a. r \<noteq> Returns a) \<and> K (fw_pg w')) v" if "?I (n, None) v"
    for v :: "'x fabricWorld"
    using that assms(4) by (intro doWhileA_forever [where I = ?I and K = "\<lambda>w. K (fw_pg w)"] round) auto
  then have "wp (doWhileA (fl_rounds L) (syncAllRound L D) (n, None)) (\<lambda>r w'. (\<forall>a. r \<noteq> Returns a) \<and> K (fw_pg w'))
      (w3\<lparr>fw_lastBlock := h, fw_synchronizationGo := True\<rparr>)" if "r3 = Returns h" for h
    using that l assms(5,7) by simp
  then show ?thesis using assms(4,6,7) q3 l
    by (auto simp: wp_def fabricSyncAll_def bindA_def thenA_def modifyA_def ret_def split: outcome.splits prod.splits)
qed

lemma getMax_run:
  assumes "getMaxBlockNumber D w = (r, w')" "idle t (fw_pg w)"
  shows "idle t (fw_pg w') \<and> (\<forall>n. r = Returns n \<longrightarrow> n = maxBlock t)"
proof -
  have "selectFabric maxBlock t = Some (a, t') \<Longrightarrow> a = maxBlock t \<and> t' = t" for a t'
    by (auto simp: selectFabric_def onFabric_def split: if_splits)
  then show ?thesis using connectedQuery_run [OF assms(1) [unfolded getMaxBlockNumber_def] assms(2)] by auto
qed

lemma syncAll_stops_early:
  assumes "getMaxBlockNumber D w = (r, w')" "\<And>n. r \<noteq> Returns n" "K (fw_pg w')"
  shows "wp (fabricSyncAll L D) (\<lambda>r w'. (\<forall>a. r \<noteq> Returns a) \<and> K (fw_pg w')) w"
proof (cases r)
  case (Returns n)
  then show ?thesis using assms(2) by blast
qed (use assms in \<open>simp_all add: wp_def fabricSyncAll_def bindA_def\<close>)

text \<open>
  On a ledger that does not grow, \<open>syncAll\<close> never succeeds. The height it compares with is the number of blocks, one more than
  the number of the last block; after the last block it asks for one that is not there, takes the
  answer of the round before for the new one, and tries to store it.
\<close>

theorem fabric_sync_never_succeeds:
  assumes "\<forall>x. \<not> fl_switched L x" "\<forall>d h. fl_height L d = Some h \<longrightarrow> numVal h = Some height"
    and "\<forall>k x. height \<le> k \<longrightarrow> fst (fl_getBlock L (Some (intToString k)) x) = Rejected"
    and "idle t (fw_pg w)" "maxBlock t < height"
  shows "fst (fabricSyncAll L D w) \<noteq> Returns n"
proof -
  obtain r w1 where m: "getMaxBlockNumber D w = (r, w1)" by (cases "getMaxBlockNumber D w")
  have b: "temp < height" if "migrateBlockNrWithTransactions L D (Some (intToString temp)) v = (Returns a, v')" for temp v a v'
    using migrate_answered [OF that] assms(3) by (metis not_less)
  have "wp (fabricSyncAll L D) (\<lambda>r w'. (\<forall>a. r \<noteq> Returns a) \<and> True) w"
  proof (cases r)
    case (Returns k)
    show ?thesis
    proof (rule syncAll_forever [where G = "\<lambda>h. numVal h = Some height" and Inv = "\<lambda>temp g. True" and n = k])
      show "getMaxBlockNumber D w = (Returns k, w1)" using m Returns by simp
      show "numVal h = Some height \<Longrightarrow> numGreater h (Inr k)" for h
        using getMax_run [OF m assms(4)] Returns assms(5) by (simp add: numGreater_def numVal_def [of "Inr _"])
    qed (use assms(1,2) b in \<open>auto simp: numGreater_def numVal_def [of "Inr _"] split: outcome.split\<close>)
  next
    case (Throws e)
    then show ?thesis by (intro syncAll_stops_early [OF m, where K = "\<lambda>_. True"]) simp_all
  next
    case Pending
    then show ?thesis by (intro syncAll_stops_early [OF m, where K = "\<lambda>_. True"]) simp_all
  qed
  then show ?thesis by (simp add: wp_def)
qed

text \<open>
  A synchronization that was interrupted or has ended is never resumed: \<open>syncAll\<close> starts with the highest block that is stored,
  not with the next one, and cannot store it again. It stores no block at all.
\<close>

theorem fabric_sync_never_resumes:
  assumes "\<forall>x. \<not> fl_switched L x" "\<forall>d h. fl_height L d = Some h \<longrightarrow> numGreater h (Inr n)" "idle t (fw_pg w)" "maxBlock t = n"
    and "\<forall>x s d. fst (fl_getBlock L (Some (intToString n)) x) = Response s d \<longrightarrow>
      (\<exists>b h txs tx. blockParts d = Inr (b, h, txs) \<and> tx \<in> set txs \<and> txKnown L D h (Some (intToString n)) tx t)"
  shows "fst (fabricSyncAll L D w) \<noteq> Returns a \<and> (\<exists>t'. idle t' (fw_pg (snd (fabricSyncAll L D w))) \<and> fabric_blocks_entry t' = fabric_blocks_entry t)"
proof -
  let ?K = "\<lambda>g. \<exists>t'. idle t' g \<and> fabric_blocks_entry t' = fabric_blocks_entry t"
  let ?Inv = "\<lambda>temp g. temp = n \<and> (\<exists>t'. idle t' g \<and> grows t t' \<and> fabric_blocks_entry t' = fabric_blocks_entry t)"
  obtain r w1 where m: "getMaxBlockNumber D w = (r, w1)" by (cases "getMaxBlockNumber D w")
  note max = getMax_run [OF m assms(3)]
  have b: "(\<forall>a. q \<noteq> Returns a) \<and> ?K (fw_pg w2)"
    if i: "?Inv temp (fw_pg v)" and q: "migrateBlockNrWithTransactions L D (Some (intToString temp)) (v\<lparr>fw_ext := x\<rparr>) = (q, w2)"
    for temp v q w2 x
  proof -
    obtain t' where t': "idle t' (fw_pg (v\<lparr>fw_ext := x\<rparr>))" "grows t t'" "fabric_blocks_entry t' = fabric_blocks_entry t" "temp = n"
      using i by auto
    show ?thesis
    proof (cases "fst (fl_getBlock L (Some (intToString n)) x)")
      case Rejected
      then show ?thesis using q t'(1,3,4) migrate_answered [of L D "Some (intToString n)" "v\<lparr>fw_ext := x\<rparr>"] migrate_run [OF q t'(1)]
        by (cases q) (auto simp: blockParts_def)
    next
      case (Response s d)
      obtain c h txs tx where p: "blockParts d = Inr (c, h, txs)" "tx \<in> set txs" "txKnown L D h (Some (intToString n)) tx t"
        using assms(5) Response by blast
      then have k: "txKnown L D h (Some (intToString n)) tx t'" using t'(2) txKnown_grows by blast
      show ?thesis using partial_block_stuck [OF t'(1) _ p(1,2) k, of s q w2] Response q t'(3,4) by auto
    qed
  qed
  have "wp (fabricSyncAll L D) (\<lambda>r w'. (\<forall>a. r \<noteq> Returns a) \<and> ?K (fw_pg w')) w"
  proof (cases r)
    case (Returns k)
    then have k: "k = n" using max assms(4) by simp
    show ?thesis
    proof (rule syncAll_forever [where G = "\<lambda>h. numGreater h (Inr n)" and Inv = ?Inv and n = n and ?w1.0 = w1])
      show "getMaxBlockNumber D w = (Returns n, w1)" using m Returns k by simp
      show "?Inv n (fw_pg w1)" using max by (auto intro: exI [of _ t])
      show "case q of Returns _ \<Rightarrow> ?Inv (temp + 1) (fw_pg w2) \<and> (\<forall>h. numGreater h (Inr n) \<longrightarrow> numGreater h (Inr temp)) | _ \<Rightarrow> ?K (fw_pg w2)"
        if "?Inv temp (fw_pg v)" "migrateBlockNrWithTransactions L D (Some (intToString temp)) (v\<lparr>fw_ext := x\<rparr>) = (q, w2)"
        for temp v q w2 x
        using b [OF that] by (cases q) auto
    qed (use assms(1,2) in auto)
  next
    case (Throws e)
    then show ?thesis using max by (intro syncAll_stops_early [OF m, where K = ?K]) auto
  next
    case Pending
    then show ?thesis using max by (intro syncAll_stops_early [OF m, where K = ?K]) auto
  qed
  then show ?thesis by (simp add: wp_def)
qed

section \<open>The first blocks\<close>

lemma askBlock_pg: "\<exists>answered block' v'. askBlock L s block v = (Returns (answered, block'), v') \<and> fw_pg v' = fw_pg v"
proof -
  obtain r v' where c: "requestFabricBlock L (Some s) v = (r, v')" by (cases "requestFabricBlock L (Some s) v")
  then have "fw_pg v' = fw_pg v" using fabricCall_pg unfolding requestFabricBlock_def by blast
  moreover have "r \<noteq> Pending" using c by (auto simp: requestFabricBlock_def fabricCall_def split: prod.splits response.splits)
  ultimately show ?thesis using c by (cases r) (auto simp: askBlock_def catchA_def bindA_def ret_def)
qed

text \<open>The fuel of \<open>initialBlocksSynchronization\<close> is enough: it ends whatever the ledger and the database answer.\<close>

lemma initial_rounds_end:
  "idle t (fw_pg v) \<Longrightarrow> edge - temp + 1 \<le> int fuel \<Longrightarrow> 0 < fuel \<Longrightarrow> fst (doWhileA fuel (initialRound L D edge) (temp, block) v) \<noteq> Pending"
proof (induction fuel arbitrary: temp block t v)
  case (Suc fuel)
  obtain answered block' v' where a: "askBlock L (intToString temp) block v = (Returns (answered, block'), v')" "fw_pg v' = fw_pg v"
    using askBlock_pg by blast
  obtain r w2 where m: "migrateBlockNrWithTransactions L D (Some (intToString temp)) v' = (r, w2)"
    by (cases "migrateBlockNrWithTransactions L D (Some (intToString temp)) v'")
  obtain t2 where t2: "r \<noteq> Pending" "idle t2 (fw_pg w2)" using migrate_run [OF m] Suc.prems(1) a(2) by metis
  have "fst (doWhileA fuel (initialRound L D edge) (temp + 1, block') (w2\<lparr>fw_lastSeenBlock := Inr temp, fw_lastBlock := Inr temp\<rparr>)) \<noteq> Pending"
    if "temp + 1 \<le> edge"
    using that Suc.prems(2) t2(2) by (intro Suc.IH) auto
  then show ?case using a(1) m t2(1)
    by (cases r) (auto simp: initialRound_def bindA_def thenA_def modifyA_def ret_def)
qed simp

lemma initial_sync_ends:
  assumes "idle t (fw_pg w)"
  shows "fst (initialBlocksSynchronization L D edge w) \<noteq> Pending"
proof -
  have "fst (doWhileA (Suc (nat edge)) (initialRound L D edge) (0, None) w) \<noteq> Pending"
    by (rule initial_rounds_end [OF assms]) auto
  then show ?thesis
    by (auto simp: initialBlocksSynchronization_def bindA_def ret_def simp del: doWhileA.simps split: prod.split outcome.split)
qed

section \<open>A small channel\<close>

definition demoChannelTx :: json where
  "demoChannelTx = JObj [(''payload'', JObj [
     (''header'', JObj [(''channel_header'', JObj [(''typeString'', JStr ''ENDORSER''), (''tx_id'', JStr ''t1''), (''timestamp'', JStr ''2024''), (''channel_id'', JStr ''c'')]),
       (''signature_header'', JObj [(''creator'', JObj [(''mspid'', JStr ''m''), (''id_bytes'', JObj [(''data'', JStr ''b'')])])])]),
     (''data'', JObj [])])]"

definition demoFabricBlock :: json where
  "demoFabricBlock = JObj [(''decodedBlock'', JObj [
     (''header'', JObj [(''data_hash'', JObj [(''data'', JArr [])])]), (''data'', JObj [(''data'', JArr [demoChannelTx])])])]"

definition demoChannel :: "unit fabricLedger" where
  "demoChannel = \<lparr>fl_getBlock = (\<lambda>n x. (if n = Some ''0'' then Response 200 (Some demoFabricBlock) else Rejected, x)),
     fl_getChainInfo = (\<lambda>x. (Response 200 (Some (JStr ''0'')), x)), fl_height = (\<lambda>d. Some (Inl ''1'')), fl_switched = (\<lambda>x. False),
     fl_sha256 = (\<lambda>s. s), fl_rounds = 5\<rparr>"

definition demoFabricDb :: "fault \<Rightarrow> unit fabricDb" where
  "demoFabricDb ft = \<lparr>fq_fault = (\<lambda>x. (ft, x)), fq_connects = (\<lambda>x. (True, x)),
     fq_text = (\<lambda>v. case v of Some (JStr s) \<Rightarrow> Some s | _ \<Rightarrow> None), fq_isTimestamp = (\<lambda>s. True), fq_isInteger = (\<lambda>s. True)\<rparr>"

definition emptyFabric :: fabricTables where
  "emptyFabric = \<lparr>fx_schema = True, fx_plugin_status = [], fabric_blocks_entry = [], fabric_transactions_entry = [], fabric_blocks = [],
     fabric_transactions = []\<rparr>"

definition demoFabricPersist :: "fabricTables \<Rightarrow> unit fabricWorld" where
  "demoFabricPersist t = \<lparr>fw_pg = (closedPg t)\<lparr>pg_alive := True, pg_used := True\<rparr>, fw_dbConnected = True, fw_clientOpen = True, fw_instanceId = ''i'',
     fw_isConnected = True, fw_isWebServicesRegistered = False, fw_lastSeenBlock = Inr 0, fw_lastBlock = Inr 0, fw_missedBlocks = [],
     fw_howManyBlocksMissing = 0, fw_synchronizationGo = True, fw_ext = ()\<rparr>"

lemma demoFabricPersist_idle: "idle t (fw_pg (demoFabricPersist t))"
  by (simp add: demoFabricPersist_def closedPg_def idle_def)

lemma demo_blockParts: "blockParts (Some demoFabricBlock) = Inr (demoFabricBlock, '''', [demoChannelTx])"
  by (simp add: blockParts_def demoFabricBlock_def jpath_def jstep_def bufferFromV_def byteOf_def bufArray2HexStr_def)

lemma demo_rows: "\<exists>d e. transactionRows demoChannel '''' bn demoChannelTx = Inr (d, e) \<and> dt_transaction_id (detailedRow (demoFabricDb ft) d) = Some ''t1''"
  by (simp add: transactionRows_def demoChannelTx_def jpath_def jstep_def jprop_def hexOf_def toStringV_def chaincodeName_def noExecution_def Let_def
      detailedRow_def demoFabricDb_def)

theorem fabric_entry_after_transactions_witness:
  "\<exists>t'. idle t' (fw_pg (snd (migrateBlockNrWithTransactions demoChannel (demoFabricDb LostAfter) (Some ''0'') (demoFabricPersist emptyFabric))))
    \<and> grows emptyFabric t' \<and> (fabric_blocks_entry t' = [] \<or> txStored demoChannel (demoFabricDb LostAfter) '''' (Some ''0'') demoChannelTx t')"
proof -
  have "fst (fl_getBlock demoChannel (Some ''0'') (fw_ext (demoFabricPersist emptyFabric))) = Response 200 (Some demoFabricBlock)"
    by (simp add: demoChannel_def)
  from fabric_entry_after_transactions [OF demoFabricPersist_idle this demo_blockParts surjective_pairing, of "demoFabricDb LostAfter"]
  show ?thesis by (auto simp: emptyFabric_def)
qed

theorem fabric_sync_never_succeeds_witness:
  "fst (fabricSyncAll demoChannel (demoFabricDb Answered) (demoFabricPersist emptyFabric)) \<noteq> Returns 1"
proof (rule fabric_sync_never_succeeds [OF _ _ _ demoFabricPersist_idle, where height = 1])
  have one: "stringToBigInt ''1'' = Some 1" by code_simp
  show "\<forall>d h. fl_height demoChannel d = Some h \<longrightarrow> numVal h = Some 1" using one by (simp add: demoChannel_def numVal_def)
  have "intToString k \<noteq> ''0''" if "1 \<le> k" for k
  proof
    assume "intToString k = ''0''"
    then have "stringToBigInt (intToString k) = stringToBigInt ''0''" by simp
    also have "\<dots> = Some 0" by code_simp
    finally show False using that by simp
  qed
  then show "\<forall>k x. 1 \<le> k \<longrightarrow> fst (fl_getBlock demoChannel (Some (intToString k)) x) = Rejected" by (simp add: demoChannel_def)
qed (simp_all add: demoChannel_def maxBlock_def emptyFabric_def)

text \<open>The tables after block 0 was stored.\<close>

definition storedFabric :: fabricTables where
  "storedFabric = emptyFabric\<lparr>fabric_blocks_entry := [\<lparr>fabric_block_id = '''', fabric_block_num = Some 0, fabric_block_data = ''''\<rparr>],
     fabric_transactions := [\<lparr>dt_block_number = Some ''0'', dt_block_id = Some '''', dt_transaction_id = Some ''t1'', dt_createdat = None,
       dt_chaincodename = None, dt_status = None, dt_creator_msp_id = None, dt_endorser_msp_id = None, dt_chaincode_id = None,
       dt_type = None, dt_read_set = None, dt_write_set = None, dt_channel_id = None, dt_payload_extension = None,
       dt_creator_id_bytes = None, dt_creator_nonce = None, dt_chaincode_proposal_input = None, dt_tx_response = None,
       dt_payload_proposal_hash = None, dt_endorser_id_bytes = None, dt_endorser_signature = None\<rparr>]\<rparr>"

theorem fabric_sync_never_resumes_witness:
  "fst (fabricSyncAll demoChannel (demoFabricDb Answered) (demoFabricPersist storedFabric)) \<noteq> Returns 1"
proof -
  have z: "intToString 0 = ''0''" by code_simp
  have "txKnown demoChannel (demoFabricDb Answered) '''' (Some ''0'') demoChannelTx storedFabric"
    using demo_rows [of "Some ''0''" Answered] unfolding txKnown_def by (fastforce simp: storedFabric_def)
  then have "\<forall>x s d. fst (fl_getBlock demoChannel (Some (intToString 0)) x) = Response s d \<longrightarrow>
      (\<exists>b h txs tx. blockParts d = Inr (b, h, txs) \<and> tx \<in> set txs \<and> txKnown demoChannel (demoFabricDb Answered) h (Some (intToString 0)) tx storedFabric)"
    using demo_blockParts z by (auto simp: demoChannel_def)
  moreover have "\<forall>d h. fl_height demoChannel d = Some h \<longrightarrow> numGreater h (Inr 0)"
  proof -
    have "stringToBigInt ''1'' = Some 1" by code_simp
    then show ?thesis by (simp add: demoChannel_def numGreater_def numVal_def)
  qed
  moreover have "maxBlock storedFabric = 0" by (simp add: maxBlock_def storedFabric_def)
  ultimately show ?thesis
    using fabric_sync_never_resumes [where L = demoChannel and n = 0 and t = storedFabric and w = "demoFabricPersist storedFabric"] demoFabricPersist_idle by (simp add: demoChannel_def)
qed

end
