(* ===== verification/Watch_Blocks.thy ===== *)
theory Watch_Blocks
  imports JS_Async
begin

text \<open>
  The watchers of new blocks of the Ethereum connector (\<open>web-services/watch-blocks-v1-endpoint.ts\<close>), one
  for each client that subscribes over a socket: one that asks the node every few seconds, and one that
  lets the node announce new headers.

  The methods are asynchronous and several may run at the same time on one watcher: a timer starts a new
  round while the last one still waits for the node, and headers arrive while earlier ones are processed. A
  method that waits is a task; a step of the relation \<open>watch_step\<close> is what happens between two waits. The node, the timer and
  the client decide which step comes next.
\<close>

section \<open>Messages\<close>

record WatchBlocksV1Options =
  wo_getBlockData :: "bool option"
  wo_lastSeenBlock :: "int option"
  wo_httpPollInterval :: "int option"

text \<open>What the client receives. An object is sent as JSON.\<close>

datatype message = NextBlock json | WatchError string

definition fullBlockProgress :: "jsv \<Rightarrow> json result" where
  "fullBlockProgress web3BlockData = bindR (jprop ''transactions'' web3BlockData) (\<lambda>ts.
     Inr (JObj [(''blockData'', JObj (setField ''transactions'' (Some (if isNullish ts then JArr [] else the ts)) (fieldsOf web3BlockData)))]))"

definition headerDataToBlockProgress :: "(string \<times> json) list \<Rightarrow> json" where
  "headerDataToBlockProgress header =
     (let sha3Uncles = (case map_of header ''sha3Uncles'' of Some (JArr xs) \<Rightarrow> Some (JStr (jsText (JArr xs))) | v \<Rightarrow> v)
      in JObj [(''blockHeader'', JObj (setField ''sha3Uncles'' sha3Uncles header))])"

text \<open>The header of a block that was asked for\<close>

definition blockHeaderOf :: "jsv \<Rightarrow> (string \<times> json) list result" where
  "blockHeaderOf web3BlockData = bindR (jprop ''sha3Uncles'' web3BlockData) (\<lambda>sha3Uncles.
     Inr (setField ''size'' None (setField ''totalDifficulty'' None (setField ''uncles'' None (setField ''transactions'' None
       (setField ''sha3Uncles'' sha3Uncles (fieldsOf web3BlockData)))))))"

definition blockProgress :: "bool \<Rightarrow> jsv \<Rightarrow> json result" where
  "blockProgress isGetBlockData web3BlockData =
     (if isGetBlockData then fullBlockProgress web3BlockData
      else bindR (blockHeaderOf web3BlockData) (\<lambda>h. Inr (headerDataToBlockProgress h)))"

section \<open>Watchers\<close>

datatype watchKind = HttpPoll | Subscription

text \<open>
  What follows \<open>emitAllSinceLastSeenBlock\<close>: nothing in a round of the timer, the subscription at the node, or the
  header, with its number, that had arrived. \<open>NaN\<close> is \<open>None\<close>.
\<close>

datatype after = RoundDone | ThenSubscribe | ThenHeader "int option" "(string \<times> json) list"

text \<open>
  The places where a method waits: for the number of the latest block; for a block on the way to a latest one;
  for its own conversion of that block; for \<open>emitAllSinceLastSeenBlock\<close> to end; for the subscription; for the
  block of a header; for its conversion; for the node to end a subscription, and for \<open>unsubscribe\<close> to end, in
  a \<open>subscribe\<close> that starts again.
\<close>

datatype task =
    AwaitLatest after
  | AwaitBlock int int after
  | HaveBlock int int json after
  | EmittedAll after
  | AwaitSubscription
  | AwaitFullBlock "int option"
  | HaveProgress "int option" json
  | AwaitUnsubscribed bool
  | AwaitRestart

text \<open>
  \<open>wb_intervals\<close> are the timers that run, by their handles, \<open>wb_streams\<close> the number of subscriptions that are open
  at the node, \<open>wb_sent\<close> the messages that went to the socket.
\<close>

record watcher =
  wb_kind :: watchKind
  wb_isGetBlockData :: bool
  wb_lastSeenBlock :: "int option"
  wb_isSubscribed :: bool
  wb_disconnected :: bool
  wb_httpPollInterval :: int
  wb_monitoringInterval :: "nat option"
  wb_nextInterval :: nat
  wb_intervals :: "nat list"
  wb_newBlocksSubscription :: bool
  wb_streams :: nat
  wb_tasks :: "task list"
  wb_sent :: "message list"

definition LAST_SEEN_LATEST_BLOCK :: int where
  "LAST_SEEN_LATEST_BLOCK = -1"

definition createWatchBlocksV1Endpoint :: "bool \<Rightarrow> WatchBlocksV1Options option \<Rightarrow> watcher" where
  "createWatchBlocksV1Endpoint supportsSubscriptions options =
     \<lparr>wb_kind = (if supportsSubscriptions then Subscription else HttpPoll),
      wb_isGetBlockData = (case options of None \<Rightarrow> False | Some opt \<Rightarrow> wo_getBlockData opt = Some True),
      wb_lastSeenBlock = Some (case options of None \<Rightarrow> LAST_SEEN_LATEST_BLOCK
        | Some opt \<Rightarrow> (case wo_lastSeenBlock opt of None \<Rightarrow> LAST_SEEN_LATEST_BLOCK | Some n \<Rightarrow> n)),
      wb_isSubscribed = False, wb_disconnected = False,
      wb_httpPollInterval = (case options of None \<Rightarrow> 5000 | Some opt \<Rightarrow> (case wo_httpPollInterval opt of None \<Rightarrow> 5000 | Some n \<Rightarrow> n)),
      wb_monitoringInterval = None, wb_nextInterval = 0, wb_intervals = [],
      wb_newBlocksSubscription = False, wb_streams = 0, wb_tasks = [], wb_sent = []\<rparr>"

definition isSubscribed :: "watcher \<Rightarrow> bool" where
  "isSubscribed w \<longleftrightarrow> \<not> wb_disconnected w \<and> wb_isSubscribed w"

definition start :: "task list \<Rightarrow> watcher \<Rightarrow> watcher" where
  "start ts w = w\<lparr>wb_tasks := wb_tasks w @ ts\<rparr>"

text \<open>A task goes on with a step, which says where the method waits next, if it does.\<close>

definition goOn :: "nat \<Rightarrow> (watcher \<Rightarrow> task list \<times> watcher) \<Rightarrow> watcher \<Rightarrow> watcher" where
  "goOn i f w = (case f w of (ts, w') \<Rightarrow> w'\<lparr>wb_tasks := take i (wb_tasks w) @ ts @ drop (Suc i) (wb_tasks w)\<rparr>)"

definition emitMessage :: "message \<Rightarrow> watcher \<Rightarrow> watcher" where
  "emitMessage m w = w\<lparr>wb_sent := wb_sent w @ [m]\<rparr>"

section \<open>Pushing all blocks since the last one\<close>

definition emitLoop :: "int \<Rightarrow> after \<Rightarrow> watcher \<Rightarrow> task list \<times> watcher" where
  "emitLoop latest a w = (case wb_lastSeenBlock w of
      None \<Rightarrow> ([EmittedAll a], w)
    | Some l \<Rightarrow> if l < latest then ([AwaitBlock latest (l + 1) a], w) else ([EmittedAll a], w))"

definition onLatest :: "int \<Rightarrow> after \<Rightarrow> watcher \<Rightarrow> task list \<times> watcher" where
  "onLatest latest a w = emitLoop latest a
     (if wb_lastSeenBlock w = Some LAST_SEEN_LATEST_BLOCK then w\<lparr>wb_lastSeenBlock := Some latest\<rparr> else w)"

definition onBlock :: "int \<Rightarrow> int \<Rightarrow> after \<Rightarrow> jsv \<Rightarrow> watcher \<Rightarrow> task list \<times> watcher" where
  "onBlock latest n a web3BlockData w = (case blockProgress (wb_isGetBlockData w) web3BlockData of
      Inl e \<Rightarrow> ([], w) | Inr p \<Rightarrow> ([HaveBlock latest n p a], w))"

definition pushBlock :: "int \<Rightarrow> int \<Rightarrow> json \<Rightarrow> after \<Rightarrow> watcher \<Rightarrow> task list \<times> watcher" where
  "pushBlock latest n p a w =
     (if isSubscribed w then emitLoop latest a ((emitMessage (NextBlock p) w)\<lparr>wb_lastSeenBlock := Some n\<rparr>) else ([EmittedAll a], w))"

section \<open>Headers\<close>

text \<open>The data of a header: of the full block, which is asked for, or of the header itself.\<close>

definition nextOfHeader :: "int option \<Rightarrow> (string \<times> json) list \<Rightarrow> watcher \<Rightarrow> task list" where
  "nextOfHeader n header w = (if wb_isGetBlockData w then [AwaitFullBlock n] else [HaveProgress n (headerDataToBlockProgress header)])"

definition headerNumber :: "(string \<times> json) list \<Rightarrow> int option" where
  "headerNumber header = jsNumber (map_of header ''number'')"

definition isMissing :: "int option \<Rightarrow> int option \<Rightarrow> bool" where
  "isMissing blockNumber lastSeen = (case (blockNumber, lastSeen) of (Some n, Some l) \<Rightarrow> n - l > 2 | _ \<Rightarrow> False)"

definition onHeader :: "(string \<times> json) list \<Rightarrow> watcher \<Rightarrow> watcher" where
  "onHeader header w = (let blockNumber = headerNumber header in
     start (if isMissing blockNumber (wb_lastSeenBlock w) then [AwaitLatest (ThenHeader blockNumber header)]
       else nextOfHeader blockNumber header w) w)"

definition onFullBlock :: "int option \<Rightarrow> jsv \<Rightarrow> watcher \<Rightarrow> task list \<times> watcher" where
  "onFullBlock n web3BlockData w = (case fullBlockProgress web3BlockData of Inl e \<Rightarrow> ([], w) | Inr p \<Rightarrow> ([HaveProgress n p], w))"

definition pushHeader :: "int option \<Rightarrow> json \<Rightarrow> watcher \<Rightarrow> task list \<times> watcher" where
  "pushHeader n p w = ([], (emitMessage (NextBlock p) w)\<lparr>wb_lastSeenBlock := n\<rparr>)"

definition afterAll :: "after \<Rightarrow> watcher \<Rightarrow> task list \<times> watcher" where
  "afterAll a w = ((case a of RoundDone \<Rightarrow> [] | ThenSubscribe \<Rightarrow> [AwaitSubscription] | ThenHeader n header \<Rightarrow> nextOfHeader n header w), w)"

section \<open>Subscribing and unsubscribing\<close>

definition onSubscription :: "watcher \<Rightarrow> task list \<times> watcher" where
  "onSubscription w = ([], w\<lparr>wb_newBlocksSubscription := True, wb_streams := wb_streams w + 1\<rparr>)"

definition clearMonitoringInterval :: "watcher \<Rightarrow> watcher" where
  "clearMonitoringInterval w = w\<lparr>wb_intervals := filter (\<lambda>h. Some h \<noteq> wb_monitoringInterval w) (wb_intervals w),
     wb_monitoringInterval := None, wb_isSubscribed := False\<rparr>"

definition afterUnsubscribe :: "bool \<Rightarrow> task list" where
  "afterUnsubscribe restart = (if restart then [AwaitRestart] else [])"

definition endSubscription :: "watcher \<Rightarrow> watcher" where
  "endSubscription w = w\<lparr>wb_newBlocksSubscription := False, wb_isSubscribed := False\<rparr>"

text \<open>\<open>unsubscribe\<close>, which a \<open>subscribe\<close> that starts again waits for\<close>

definition unsubscribe :: "bool \<Rightarrow> watcher \<Rightarrow> task list \<times> watcher" where
  "unsubscribe restart w = (case wb_kind w of
      HttpPoll \<Rightarrow> (afterUnsubscribe restart, clearMonitoringInterval w)
    | Subscription \<Rightarrow> if wb_newBlocksSubscription w then ([AwaitUnsubscribed restart], w) else (afterUnsubscribe restart, endSubscription w))"

definition onUnsubscribed :: "bool \<Rightarrow> bool \<Rightarrow> watcher \<Rightarrow> task list \<times> watcher" where
  "onUnsubscribed ok restart w = (afterUnsubscribe restart, endSubscription (if ok then w\<lparr>wb_streams := wb_streams w - 1\<rparr> else w))"

text \<open>The rest of \<open>subscribe\<close>\<close>

definition beginWatching :: "watcher \<Rightarrow> task list \<times> watcher" where
  "beginWatching w = (let w' = w\<lparr>wb_isSubscribed := True\<rparr> in case wb_kind w of
      HttpPoll \<Rightarrow> ([], w'\<lparr>wb_monitoringInterval := Some (wb_nextInterval w), wb_intervals := wb_intervals w @ [wb_nextInterval w],
        wb_nextInterval := wb_nextInterval w + 1\<rparr>)
    | Subscription \<Rightarrow> ([AwaitLatest ThenSubscribe], w'))"

definition subscribe :: "watcher \<Rightarrow> task list \<times> watcher" where
  "subscribe w = (if isSubscribed w then unsubscribe True w else beginWatching w)"

definition begins :: "(watcher \<Rightarrow> task list \<times> watcher) \<Rightarrow> watcher \<Rightarrow> watcher" where
  "begins f w = (case f w of (ts, w') \<Rightarrow> start ts w')"

section \<open>Steps\<close>

text \<open>
  What a node may answer and announce: blocks for a number, the number of the latest block in a method that
  goes on with \<open>after\<close>, and headers.
\<close>

record node =
  nd_block :: "int \<Rightarrow> jsv \<Rightarrow> bool"
  nd_latest :: "after \<Rightarrow> int \<Rightarrow> bool"
  nd_header :: "(string \<times> json) list \<Rightarrow> bool"

definition taskAt :: "nat \<Rightarrow> watcher \<Rightarrow> task option" where
  "taskAt i w = (if i < length (wb_tasks w) then Some (wb_tasks w ! i) else None)"

fun asksNode :: "task \<Rightarrow> bool" where
  "asksNode (AwaitLatest a) = True"
| "asksNode (AwaitBlock latest n a) = True"
| "asksNode AwaitSubscription = True"
| "asksNode (AwaitFullBlock n) = True"
| "asksNode t = False"

inductive watch_step :: "node \<Rightarrow> watcher \<Rightarrow> watcher \<Rightarrow> bool" for N :: node where
  subscribes: "watch_step N w (begins subscribe w)"
| unsubscribes: "watch_step N w (begins (unsubscribe False) w)"
| disconnects: "watch_step N w (begins (unsubscribe False) (w\<lparr>wb_disconnected := True\<rparr>))"
| timer: "wb_intervals w \<noteq> [] \<Longrightarrow> watch_step N w (start [AwaitLatest RoundDone] w)"
| header: "wb_streams w > 0 \<Longrightarrow> nd_header N h \<Longrightarrow> watch_step N w (onHeader h w)"
| stream_fails: "wb_streams w > 0 \<Longrightarrow> watch_step N w (begins (unsubscribe False) (emitMessage (WatchError e) w))"
| latest: "taskAt i w = Some (AwaitLatest a) \<Longrightarrow> nd_latest N a n \<Longrightarrow> watch_step N w (goOn i (onLatest n a) w)"
| block: "taskAt i w = Some (AwaitBlock m n a) \<Longrightarrow> nd_block N n b \<Longrightarrow> watch_step N w (goOn i (onBlock m n a b) w)"
| pushes: "taskAt i w = Some (HaveBlock m n p a) \<Longrightarrow> watch_step N w (goOn i (pushBlock m n p a) w)"
| emitted: "taskAt i w = Some (EmittedAll a) \<Longrightarrow> watch_step N w (goOn i (afterAll a) w)"
| subscribed: "taskAt i w = Some AwaitSubscription \<Longrightarrow> watch_step N w (goOn i onSubscription w)"
| full_block: "taskAt i w = Some (AwaitFullBlock n) \<Longrightarrow> (\<forall>k. n = Some k \<longrightarrow> nd_block N k b) \<Longrightarrow> watch_step N w (goOn i (onFullBlock n b) w)"
| pushes_header: "taskAt i w = Some (HaveProgress n p) \<Longrightarrow> watch_step N w (goOn i (pushHeader n p) w)"
| unsubscribed: "taskAt i w = Some (AwaitUnsubscribed r) \<Longrightarrow> watch_step N w (goOn i (onUnsubscribed ok r) w)"
| restarts: "taskAt i w = Some AwaitRestart \<Longrightarrow> watch_step N w (goOn i beginWatching w)"
| rejected: "taskAt i w = Some t \<Longrightarrow> asksNode t \<Longrightarrow> watch_step N w (goOn i (Pair []) w)"

inductive_cases watch_stepE: "watch_step N w w'"

end
