(* ===== verification/Ethereum_Connector.thy ===== *)
theory Ethereum_Connector
  imports Connector_World Watch_Blocks
begin

text \<open>
  The Ethereum ledger connector (\<open>plugin-ledger-connector-ethereum.ts\<close> with \<open>types\<close> and the endpoints of
  \<open>web-services\<close>). The web3 and ethers libraries and the node behind them are the record \<open>ethWeb3\<close>: the promise of a
  call is fulfilled with a result, rejected with an error, or, where the reply is \<open>None\<close>, never settled, and the state of the node, which
  holds the clock too, changes with every call. The
  watchers of new blocks are in \<open>Watch_Blocks\<close>.
\<close>

section \<open>Requests\<close>

text \<open>A credential of another type than the four the connector knows keeps its type.\<close>

datatype EthSigningCredential =
    CactiKeychainRef string string "string option"
  | GethKeychainPassword string string
  | EthPrivateKeyHex string string
  | EthNoCredential
  | EthOtherCredential string

text \<open>A request may mix the two kinds of \<open>GasTransactionConfig\<close>.\<close>

record GasTransactionConfig =
  gc_gas :: "string option"
  gc_gasPrice :: "string option"
  gc_gasLimit :: "string option"
  gc_maxFeePerGas :: "string option"
  gc_maxPriorityFeePerGas :: "string option"

record EthereumTransactionConfig =
  et_rawTransaction :: "string option"
  et_from :: "string option"
  et_to :: "string option"
  et_value :: "string option"
  et_nonce :: "string option"
  et_data :: "string option"
  et_gasConfig :: "GasTransactionConfig option"

record EthRunTransactionRequest =
  er_web3SigningCredential :: EthSigningCredential
  er_transactionConfig :: EthereumTransactionConfig
  er_timeoutMs :: "int option"

text \<open>A definition of a contract: its JSON, with an address when it is deployed, or its name in a keychain.\<close>

record ContractDefinition =
  cd_contractJSON :: jsv
  cd_contractAddress :: "string option"
  cd_contractName :: "string option"
  cd_keychainId :: "string option"

record EthDeployContractRequest =
  ed_web3SigningCredential :: EthSigningCredential
  ed_contract :: ContractDefinition
  ed_constructorArgs :: "json list"
  ed_gasConfig :: "GasTransactionConfig option"
  ed_value :: "string option"

datatype EthInvocationType = EthSend | EthCall | EthOtherInvocation string

record EthInvokeContractRequest =
  ei_contract :: ContractDefinition
  ei_methodName :: string
  ei_params :: "json list"
  ei_invocationType :: EthInvocationType
  ei_web3SigningCredential :: "EthSigningCredential option"
  ei_gasConfig :: "GasTransactionConfig option"
  ei_value :: "string option"
  ei_timeoutMs :: "int option"

record InvokeRawWeb3EthMethodRequest =
  rm_methodName :: string
  rm_params :: "json list option"

record InvokeRawWeb3EthContractRequest =
  rc_abi :: json
  rc_address :: string
  rc_invocationType :: string
  rc_invocationParams :: jsv
  rc_contractMethod :: string
  rc_contractMethodArgs :: "json list option"

text \<open>The type guards\<close>

definition isEthCredentialNone :: "EthSigningCredential \<Rightarrow> bool" where
  "isEthCredentialNone c \<longleftrightarrow> c = EthNoCredential"

definition isGasTransactionConfigLegacy :: "GasTransactionConfig \<Rightarrow> bool" where
  "isGasTransactionConfigLegacy g \<longleftrightarrow> gc_gas g \<noteq> None \<or> gc_gasPrice g \<noteq> None"

definition isGasTransactionConfigEIP1559 :: "GasTransactionConfig \<Rightarrow> bool" where
  "isGasTransactionConfigEIP1559 g \<longleftrightarrow> gc_gasLimit g \<noteq> None \<or> gc_maxFeePerGas g \<noteq> None \<or> gc_maxPriorityFeePerGas g \<noteq> None"

definition isContractJsonDefinition :: "ContractDefinition \<Rightarrow> bool" where
  "isContractJsonDefinition c \<longleftrightarrow> cd_contractJSON c \<noteq> None"

definition isDeployedContractJsonDefinition :: "ContractDefinition \<Rightarrow> bool" where
  "isDeployedContractJsonDefinition c \<longleftrightarrow> cd_contractJSON c \<noteq> None \<and> cd_contractAddress c \<noteq> None"

definition isContractKeychainDefinition :: "ContractDefinition \<Rightarrow> bool" where
  "isContractKeychainDefinition c \<longleftrightarrow> cd_contractName c \<noteq> None \<and> cd_keychainId c \<noteq> None"

definition ethAccountOf :: "EthSigningCredential \<Rightarrow> string option" where
  "ethAccountOf c = (case c of
      CactiKeychainRef a k i \<Rightarrow> Some a | GethKeychainPassword a s \<Rightarrow> Some a | EthPrivateKeyHex a s \<Rightarrow> Some a | _ \<Rightarrow> None)"

section \<open>Libraries\<close>

text \<open>A transaction of web3; the limit is a text of the request or an estimate.\<close>

record Web3Transaction =
  tx_from :: "string option"
  tx_to :: "string option"
  tx_value :: "string option"
  tx_nonce :: "string option"
  tx_data :: "string option"
  tx_maxPriorityFeePerGas :: "string option"
  tx_maxFeePerGas :: "string option"
  tx_gasLimit :: "(string + int) option"

record 'x ethWeb3 =
  e3_now :: "'x \<Rightarrow> int"
  e3_setTimeout :: "int \<Rightarrow> 'x \<Rightarrow> 'x"
  e3_getId :: "'x \<Rightarrow> int result option \<times> 'x"
  e3_validContract :: "json \<Rightarrow> jsv \<Rightarrow> bool"
  e3_methods :: "json \<Rightarrow> string list"
  e3_encodeABI :: "contract \<Rightarrow> string \<Rightarrow> json list \<Rightarrow> string option"
  e3_encodeDeploy :: "json \<Rightarrow> jsv \<Rightarrow> json list \<Rightarrow> string option"
  e3_call :: "contract \<Rightarrow> string \<Rightarrow> json list \<Rightarrow> 'x \<Rightarrow> jsv result option \<times> 'x"
  e3_pendingBaseFee :: "'x \<Rightarrow> int option result option \<times> 'x"
  e3_estimateGas :: "Web3Transaction \<Rightarrow> 'x \<Rightarrow> int result option \<times> 'x"
  e3_signTransaction :: "Web3Transaction \<Rightarrow> string \<Rightarrow> 'x \<Rightarrow> string result option \<times> 'x"
  e3_sendSignedTransaction :: "string \<Rightarrow> 'x \<Rightarrow> jsv result option \<times> 'x"
  e3_sendTransaction :: "Web3Transaction \<Rightarrow> string \<Rightarrow> 'x \<Rightarrow> string result option \<times> 'x"
  e3_getTransactionReceipt :: "string \<Rightarrow> 'x \<Rightarrow> jsv result option \<times> 'x"
  e3_ethMethods :: "string list"
  e3_ethMethod :: "string \<Rightarrow> json list \<Rightarrow> 'x \<Rightarrow> jsv result option \<times> 'x"
  e3_getFunction :: "json \<Rightarrow> string \<Rightarrow> string list option result"
  e3_isAddress :: "jsv \<Rightarrow> bool"
  e3_contractMethod :: "contract \<Rightarrow> string \<Rightarrow> json list \<Rightarrow> string \<Rightarrow> jsv \<Rightarrow> 'x \<Rightarrow> jsv result option \<times> 'x"
  e3_requestsOpen :: "'x \<Rightarrow> bool"
  e3_unsubscribes :: "nat \<Rightarrow> 'x \<Rightarrow> bool option \<times> 'x"
  e3_polls :: nat

text \<open>
  \<open>ew_provider\<close> is whether the connection is a socket, and open; \<open>ew_watchers\<close> has all watchers that were created, and
  \<open>ew_watchBlocksSubscriptions\<close> the place of one for each socket.
\<close>

datatype provider = HttpProvider string | WebSocketProvider string jsv

record 'x ethWorld = "'x connectorWorld" +
  ew_provider :: provider
  ew_connected :: bool
  ew_reconnectOptions :: jsv
  ew_watchers :: "watcher list"
  ew_watchBlocksSubscriptions :: "(string, nat) jsmap"

type_synonym ('x, 'a) eact = "('x ethWorld, jsError, 'a) act"

definition libraryA :: "('x \<Rightarrow> 'a result option \<times> 'x) \<Rightarrow> ('x, 'a) eact" where
  "libraryA f = (\<lambda>w. case f (cw_ext w) of (reply, x) \<Rightarrow>
     (case reply of None \<Rightarrow> never | Some r \<Rightarrow> liftR r) (w\<lparr>cw_ext := x\<rparr>))"

definition ethContractA :: "'x ethWeb3 \<Rightarrow> jsv \<Rightarrow> jsv \<Rightarrow> ('x, contract) eact" where
  "ethContractA W abi address = (case abi of
      None \<Rightarrow> throwE LibraryError
    | Some a \<Rightarrow> if e3_validContract W a address then ret (a, address) else throwE LibraryError)"

section \<open>Construction\<close>

record EthereumConnectorOptions =
  eo_instanceId :: string
  eo_rpcApiHttpHost :: "string option"
  eo_rpcApiWsHost :: "string option"
  eo_rpcApiWsReconnectOptions :: jsv

definition given :: "string option \<Rightarrow> bool" where
  "given s \<longleftrightarrow> s \<noteq> None \<and> s \<noteq> Some ''''"

definition createWeb3WsProvider :: "EthereumConnectorOptions \<Rightarrow> provider result" where
  "createWeb3WsProvider opts =
     (if given (eo_rpcApiWsHost opts) then Inr (WebSocketProvider (the (eo_rpcApiWsHost opts)) (eo_rpcApiWsReconnectOptions opts))
      else Inl (ErrorMsg (''Can'' @ CHR 0x27 # ''t instantiate WebSocketProvider without a valid rpcApiWsHost!'')))"

definition createWeb3Provider :: "EthereumConnectorOptions \<Rightarrow> provider result" where
  "createWeb3Provider opts =
     (if given (eo_rpcApiHttpHost opts) then Inr (HttpProvider (the (eo_rpcApiHttpHost opts)))
      else if given (eo_rpcApiWsHost opts) then createWeb3WsProvider opts
      else Inl (ErrorMsg ''Missing web3js RPC Api host (either HTTP or WS is required)''))"

definition defaultWsProviderReconnectOptions :: json where
  "defaultWsProviderReconnectOptions = JObj [(''delay'', JNum 500), (''autoReconnect'', JBool True), (''maxAttempts'', JNum 20)]"

definition newEthereumConnector ::
  "EthereumConnectorOptions \<Rightarrow> registry \<Rightarrow> (string \<Rightarrow> PluginKeychainMemory) \<Rightarrow> 'x \<Rightarrow> 'x ethWorld result" where
  "newEthereumConnector opts r ks x =
     (if eo_instanceId opts = '''' then Inl (falsyError ''PluginLedgerConnectorEthereum#constructor() options.instanceId'')
      else bindR (createWeb3Provider opts) (\<lambda>p.
        Inr \<lparr>cw_registry = r, cw_keychains = ks, cw_transactions = 0, cw_ext = x, ew_provider = p, ew_connected = True,
          ew_reconnectOptions = (if truthy (eo_rpcApiWsReconnectOptions opts) then eo_rpcApiWsReconnectOptions opts
            else Some defaultWsProviderReconnectOptions),
          ew_watchers = [], ew_watchBlocksSubscriptions = []\<rparr>))"

section \<open>Transactions\<close>

text \<open>A number is a text or a big integer; \<open>!n\<close>.\<close>

definition noNumber :: "(string + int) option \<Rightarrow> bool" where
  "noNumber n \<longleftrightarrow> n = None \<or> n = Some (Inl '''') \<or> n = Some (Inr 0)"

definition estimateMaxFeePerGas :: "'x ethWeb3 \<Rightarrow> string \<Rightarrow> ('x, string) eact" where
  "estimateMaxFeePerGas W priorityFee = bindA (libraryA (e3_pendingBaseFee W)) (\<lambda>baseFee.
     case baseFee of
       Some b \<Rightarrow> if b = 0 then throwE (ErrorMsg (''Can'' @ CHR 0x27 # ''t estimate maxFeePerGas - could not get recent baseFeePerGas''))
         else (case stringToBigInt priorityFee of None \<Rightarrow> throwE SyntaxError | Some p \<Rightarrow> ret (intToString (b + p)))
     | None \<Rightarrow> throwE (ErrorMsg (''Can'' @ CHR 0x27 # ''t estimate maxFeePerGas - could not get recent baseFeePerGas'')))"

definition plainTransaction :: "EthereumTransactionConfig \<Rightarrow> Web3Transaction" where
  "plainTransaction c = \<lparr>tx_from = et_from c, tx_to = et_to c, tx_value = et_value c, tx_nonce = et_nonce c, tx_data = et_data c,
     tx_maxPriorityFeePerGas = None, tx_maxFeePerGas = None, tx_gasLimit = None\<rparr>"

text \<open>The JSON of the configuration at the end of the message is left out.\<close>

definition applyGasConfig :: "GasTransactionConfig option \<Rightarrow> Web3Transaction \<Rightarrow> Web3Transaction result" where
  "applyGasConfig gasConfig tx = (case gasConfig of
      None \<Rightarrow> Inr tx
    | Some g \<Rightarrow> if isGasTransactionConfigLegacy g
        then (if isGasTransactionConfigEIP1559 g
          then Inl (ErrorMsg ''Detected mixed gasConfig! Use either legacy or EIP-1559 mode.'')
          else Inr (tx\<lparr>tx_maxPriorityFeePerGas := gc_gasPrice g, tx_maxFeePerGas := gc_gasPrice g, tx_gasLimit := map_option Inl (gc_gas g)\<rparr>))
        else Inr (tx\<lparr>tx_maxPriorityFeePerGas := gc_maxPriorityFeePerGas g, tx_maxFeePerGas := gc_maxFeePerGas g,
          tx_gasLimit := map_option Inl (gc_gasLimit g)\<rparr>))"

definition getTransactionFromTxConfig :: "'x ethWeb3 \<Rightarrow> EthereumTransactionConfig \<Rightarrow> ('x, Web3Transaction) eact" where
  "getTransactionFromTxConfig W c =
     bindA (liftR (applyGasConfig (et_gasConfig c) (plainTransaction c))) (\<lambda>tx.
     bindA (if given (tx_maxPriorityFeePerGas tx) \<and> \<not> given (tx_maxFeePerGas tx)
       then bindA (estimateMaxFeePerGas W (the (tx_maxPriorityFeePerGas tx))) (\<lambda>f. ret (tx\<lparr>tx_maxFeePerGas := Some f\<rparr>))
       else ret tx) (\<lambda>tx.
     if noNumber (tx_gasLimit tx)
     then bindA (libraryA (e3_estimateGas W tx)) (\<lambda>estimatedGas. ret (tx\<lparr>tx_gasLimit := Some (Inr estimatedGas)\<rparr>))
     else ret tx))"

text \<open>\<open>convertWeb3ReceiptStatusToBool\<close>; a receipt gets the status of its conversion, or \<open>true\<close>.\<close>

definition convertWeb3ReceiptStatusToBool :: "jsv \<Rightarrow> bool option" where
  "convertWeb3ReceiptStatusToBool status = (if truthy status then Some (jsTextV status = ''1'') else None)"

definition withBoolStatus :: "jsv \<Rightarrow> json result" where
  "withBoolStatus receipt = bindR (jprop ''status'' receipt) (\<lambda>status.
     Inr (JObj (setField ''status'' (Some (JBool (case convertWeb3ReceiptStatusToBool status of None \<Rightarrow> True | Some b \<Rightarrow> b))) (fieldsOf receipt))))"

text \<open>A response is the receipt it holds.\<close>

definition ethTransactSigned :: "'x ethWeb3 \<Rightarrow> string \<Rightarrow> ('x, json) eact" where
  "ethTransactSigned W rawTransaction = bindA (libraryA (e3_sendSignedTransaction W rawTransaction)) (\<lambda>receipt.
     thenA (modifyA (\<lambda>w. w\<lparr>cw_transactions := cw_transactions w + 1\<rparr>)) (liftR (withBoolStatus receipt)))"

text \<open>The loop asks once more after each second, until the time is over; \<open>e3_polls\<close> bounds its rounds.\<close>

fun ethPollLoop :: "'x ethWeb3 \<Rightarrow> nat \<Rightarrow> string \<Rightarrow> int \<Rightarrow> int \<Rightarrow> nat \<Rightarrow> ('x, jsv) eact" where
  "ethPollLoop W 0 txHash startedAt timeoutMs tries = never"
| "ethPollLoop W (Suc fuel) txHash startedAt timeoutMs tries =
     catchA (libraryA (e3_getTransactionReceipt W txHash)) (\<lambda>e.
       thenA (modifyA (\<lambda>w. w\<lparr>cw_ext := e3_setTimeout W 1000 (cw_ext w)\<rparr>)) (
       bindA (getsA (\<lambda>w. e3_now W (cw_ext w))) (\<lambda>now.
       if now \<ge> startedAt + timeoutMs
       then throwE (ErrorMsg (''PluginLedgerConnectorEthereum#pollForTxReceipt() Timed out '' @ intToString timeoutMs @ ''ms, polls='' @ natToString (tries + 1)))
       else ethPollLoop W fuel txHash startedAt timeoutMs (tries + 1))))"

definition ethPollForTxReceipt :: "'x ethWeb3 \<Rightarrow> string \<Rightarrow> int \<Rightarrow> ('x, jsv) eact" where
  "ethPollForTxReceipt W txHash timeoutMs = bindA (getsA (\<lambda>w. e3_now W (cw_ext w))) (\<lambda>startedAt.
     ethPollLoop W (e3_polls W) txHash startedAt timeoutMs 0)"

text \<open>The text of the inner error is left out.\<close>

definition transactGethKeychain :: "'x ethWeb3 \<Rightarrow> EthereumTransactionConfig \<Rightarrow> string \<Rightarrow> ('x, json) eact" where
  "transactGethKeychain W c secret = rethrowAs
     (ErrorMsg ''PluginLedgerConnectorEthereum#transactGethKeychain() Failed to invoke web3.eth.personal.sendTransaction(). InnerException: '')
     (bindA (getTransactionFromTxConfig W c) (\<lambda>tx.
      bindA (libraryA (e3_sendTransaction W tx secret)) (\<lambda>txHash.
      bindA (ethPollForTxReceipt W txHash 60000) (\<lambda>receipt. liftR (withBoolStatus receipt)))))"

definition ethTransactPrivateKey :: "'x ethWeb3 \<Rightarrow> EthereumTransactionConfig \<Rightarrow> string \<Rightarrow> ('x, json) eact" where
  "ethTransactPrivateKey W c secret =
     bindA (getTransactionFromTxConfig W c) (\<lambda>tx.
     bindA (libraryA (e3_signTransaction W tx secret)) (\<lambda>rawTransaction.
     if rawTransaction \<noteq> '''' then ethTransactSigned W rawTransaction
     else throwE (ErrorMsg ''PluginLedgerConnectorEthereum#transactPrivateKey() Failed to sign eth transaction. signedTransaction.rawTransaction is blank after .signTransaction().'')))"

text \<open>A missing identifier is refused like a blank one.\<close>

definition transactCactiKeychainRef :: "'x ethWeb3 \<Rightarrow> EthereumTransactionConfig \<Rightarrow> string \<Rightarrow> string option \<Rightarrow> ('x, json) eact" where
  "transactCactiKeychainRef W c keychainEntryKey keychainId =
     bindA (keychainFor (case keychainId of None \<Rightarrow> '''' | Some i \<Rightarrow> i)) (\<lambda>k.
     bindA (keychainGetA k keychainEntryKey) (\<lambda>privateKeyHex. ethTransactPrivateKey W c privateKeyHex))"

definition ethTransact :: "'x ethWeb3 \<Rightarrow> EthRunTransactionRequest \<Rightarrow> ('x, json) eact" where
  "ethTransact W req = (let c = er_transactionConfig req in case er_web3SigningCredential req of
      CactiKeychainRef a key i \<Rightarrow> transactCactiKeychainRef W c key i
    | GethKeychainPassword a secret \<Rightarrow> transactGethKeychain W c secret
    | EthPrivateKeyHex a secret \<Rightarrow> ethTransactPrivateKey W c secret
    | EthNoCredential \<Rightarrow> if given (et_rawTransaction c) then ethTransactSigned W (the (et_rawTransaction c))
        else throwE (ErrorMsg ''PluginLedgerConnectorEthereum#transact() Expected pre-signed raw transaction  since signing credential is specified asWeb3SigningCredentialType.NONE'')
    | EthOtherCredential s \<Rightarrow> throwE (ErrorMsg (''PluginLedgerConnectorEthereum#transact() Unrecognized Web3SigningCredentialType: '' @ s
        @ '' Supported ones are: CACTI_KEYCHAIN_REF;GETH_KEYCHAIN_PASSWORD;PRIVATE_KEY_HEX;NONE'')))"

section \<open>Invoking contracts\<close>

text \<open>\<open>abi\<close> of a contract: a text is parsed.\<close>

definition abiOf :: "string \<Rightarrow> jsv \<Rightarrow> json result" where
  "abiOf fnTag contractJSON = bindR (jprop ''abi'' contractJSON) (\<lambda>abi.
     if truthy abi then (case abi of Some (JStr s) \<Rightarrow> parseJ abi | _ \<Rightarrow> Inr (the abi))
     else Inl (ErrorMsg (fnTag @ '' Contract ABI is necessary'')))"

definition ethIsSafeToCallContractMethod :: "'x ethWeb3 \<Rightarrow> contract \<Rightarrow> string \<Rightarrow> ('x, bool) eact" where
  "ethIsSafeToCallContractMethod W c name =
     thenA (liftR (checkNonBlank name ''PluginLedgerConnectorEthereum#isSafeToCallContractMethod():name''))
       (ret (name \<in> set (e3_methods W (fst c))))"

definition noSuchMethod :: "string \<Rightarrow> jsError" where
  "noSuchMethod name = ErrorMsg (''Invalid method name provided in request. '' @ name
     @ '' does not exist on the Web3 contract object'' @ CHR 0x27 # ''s '' @ CHR 0x22 # ''methods'' @ CHR 0x22 # '' property.'')"

text \<open>A response of an invocation: \<open>success\<close> with the output, or with the response of the transaction.\<close>

definition runContractInvoke :: "'x ethWeb3 \<Rightarrow> EthInvokeContractRequest \<Rightarrow> jsv \<Rightarrow> jsv \<Rightarrow> ('x, json) eact" where
  "runContractInvoke W req contractAddress contractJSON =
     (let credential = (case ei_web3SigningCredential req of None \<Rightarrow> EthNoCredential | Some c \<Rightarrow> c); name = ei_methodName req in
      bindA (liftR (abiOf ''PluginLedgerConnectorEthereum#runContractInvoke()'' contractJSON)) (\<lambda>abi.
      bindA (ethContractA W (Some abi) contractAddress) (\<lambda>c.
      bindA (ethIsSafeToCallContractMethod W c name) (\<lambda>isSafeToCall.
      if \<not> isSafeToCall then throwE (noSuchMethod name)
      else (case e3_encodeABI W c name (ei_params req) of
          None \<Rightarrow> throwE LibraryError
        | Some data \<Rightarrow> (case ei_invocationType req of
            EthCall \<Rightarrow> bindA (libraryA (e3_call W c name (ei_params req))) (\<lambda>callOutput.
              ret (JObj (optFields [(''success'', Some (JBool True)), (''callOutput'', callOutput)])))
          | EthSend \<Rightarrow>
              if isEthCredentialNone credential
              then throwE (ErrorMsg ''PluginLedgerConnectorEthereum#runContractInvoke() Cannot deploy contract with pre-signed TX'')
              else bindA (ethTransact W \<lparr>er_web3SigningCredential = credential,
                  er_transactionConfig = \<lparr>et_rawTransaction = None, et_from = ethAccountOf credential,
                    et_to = map_option jsText contractAddress, et_value = ei_value req, et_nonce = None, et_data = Some data,
                    et_gasConfig = ei_gasConfig req\<rparr>,
                  er_timeoutMs = Some (case ei_timeoutMs req of None \<Rightarrow> 60000 | Some n \<Rightarrow> if n = 0 then 60000 else n)\<rparr>) (\<lambda>receipt.
                bindA (propA ''status'' (Some receipt)) (\<lambda>success.
                ret (JObj (optFields [(''success'', success), (''out'', Some (JObj [(''transactionReceipt'', receipt)]))]))))
          | EthOtherInvocation s \<Rightarrow>
              throwE (ErrorMsg (''PluginLedgerConnectorEthereum#runContractInvoke() Unsupported invocation type '' @ s))))))))"

text \<open>The address an artifact has for a network, unless a part on the way to it is falsy\<close>

definition deployedAddress :: "int \<Rightarrow> json \<Rightarrow> jsv result" where
  "deployedAddress networkId contractJSON =
     bindR (jprop ''networks'' (Some contractJSON)) (\<lambda>networks.
     if \<not> truthy networks then Inr None else bindR (jprop (intToString networkId) networks) (\<lambda>network.
     if \<not> truthy network then Inr None else bindR (jprop ''address'' network) (\<lambda>address.
     Inr (if truthy address then address else None))))"

text \<open>\<open>has\<close> is called and its promise, which is truthy, is not awaited.\<close>

definition artifactOf :: "string \<Rightarrow> string \<Rightarrow> ('x, json) eact" where
  "artifactOf k name = thenA (keychainHasA k name) (
     bindA (keychainGetA k name) (\<lambda>contractStr. liftR (parseJ (Some (JStr contractStr)))))"

definition invokeContractFromKeychain :: "'x ethWeb3 \<Rightarrow> EthInvokeContractRequest \<Rightarrow> string \<Rightarrow> string \<Rightarrow> ('x, json) eact" where
  "invokeContractFromKeychain W req name keychainId =
     (if name = '''' then throwE (falsyError ''PluginLedgerConnectorEthereum#invokeContract() contractName arg'')
      else if keychainId = '''' then throwE (falsyError ''PluginLedgerConnectorEthereum#invokeContract() keychainId arg'')
      else bindA (keychainFor keychainId) (\<lambda>k.
        bindA (artifactOf k name) (\<lambda>contractJSON.
        bindA (libraryA (e3_getId W)) (\<lambda>networkId.
        bindA (liftR (deployedAddress networkId contractJSON)) (\<lambda>address.
        if address = None
        then throwE (ErrorMsg (''Contract has not been deployed yet on this network (id '' @ intToString networkId @ '') - can'' @ CHR 0x27 # ''t invoke!''))
        else runContractInvoke W req address (Some contractJSON))))))"

definition ethInvokeContract :: "'x ethWeb3 \<Rightarrow> EthInvokeContractRequest \<Rightarrow> ('x, json) eact" where
  "ethInvokeContract W req = (let c = ei_contract req in
     if isDeployedContractJsonDefinition c
     then runContractInvoke W req (map_option JStr (cd_contractAddress c)) (cd_contractJSON c)
     else if isContractKeychainDefinition c then invokeContractFromKeychain W req (the (cd_contractName c)) (the (cd_keychainId c))
     else throwE (ErrorMsg ''Unknown contract definition provided: [object Object]''))"

section \<open>Deploying contracts\<close>

definition runContractDeployment ::
  "'x ethWeb3 \<Rightarrow> EthSigningCredential \<Rightarrow> jsv \<Rightarrow> GasTransactionConfig option \<Rightarrow> json list \<Rightarrow> string option \<Rightarrow> ('x, json) eact" where
  "runContractDeployment W credential contractJSON gasConfig constructorArgs val =
     bindA (propA ''abi'' contractJSON) (\<lambda>abi.
     bindA (ethContractA W abi None) (\<lambda>mockContract.
     bindA (propA ''bytecode'' contractJSON) (\<lambda>bytecode.
     case e3_encodeDeploy W (fst mockContract) bytecode constructorArgs of
       None \<Rightarrow> throwE LibraryError
     | Some data \<Rightarrow> ethTransact W \<lparr>er_web3SigningCredential = credential,
         er_transactionConfig = \<lparr>et_rawTransaction = None, et_from = ethAccountOf credential, et_to = None, et_value = val, et_nonce = None,
           et_data = Some (if take 2 data = ''0x'' then data else ''0x'' @ data), et_gasConfig = gasConfig\<rparr>,
         er_timeoutMs = None\<rparr>)))"

text \<open>The address of a contract is written into the artifact, in place of those of all networks, and the artifact back to the keychain.\<close>

definition saveAddress :: "'x ethWeb3 \<Rightarrow> string \<Rightarrow> string \<Rightarrow> json \<Rightarrow> json \<Rightarrow> ('x, json) eact" where
  "saveAddress W k name contractJSON receipt =
     bindA (propA ''status'' (Some receipt)) (\<lambda>status.
     bindA (propA ''contractAddress'' (Some receipt)) (\<lambda>contractAddress.
     if truthy status \<and> truthy contractAddress
     then bindA (libraryA (e3_getId W)) (\<lambda>networkId.
       bindA (liftR (setNetworks networkId contractAddress contractJSON)) (\<lambda>contractJSON'.
       thenA (keychainSetA k name (stringify contractJSON')) (ret receipt)))
     else ret receipt))"

definition deployContractFromKeychain :: "'x ethWeb3 \<Rightarrow> EthDeployContractRequest \<Rightarrow> string \<Rightarrow> string \<Rightarrow> ('x, json) eact" where
  "deployContractFromKeychain W req name keychainId =
     bindA (keychainFor keychainId) (\<lambda>k.
     bindA (artifactOf k name) (\<lambda>contractJSON.
     bindA (runContractDeployment W (ed_web3SigningCredential req) (Some contractJSON) (ed_gasConfig req) (ed_constructorArgs req) (ed_value req))
       (saveAddress W k name contractJSON)))"

definition ethDeployContract :: "'x ethWeb3 \<Rightarrow> EthDeployContractRequest \<Rightarrow> ('x, json) eact" where
  "ethDeployContract W req = (let c = ed_contract req in
     if isEthCredentialNone (ed_web3SigningCredential req) then throwE (ErrorMsg ''Cannot deploy contract with pre-signed TX'')
     else if isContractJsonDefinition c
     then runContractDeployment W (ed_web3SigningCredential req) (cd_contractJSON c) (ed_gasConfig req) (ed_constructorArgs req) (ed_value req)
     else if isContractKeychainDefinition c then deployContractFromKeychain W req (the (cd_contractName c)) (the (cd_keychainId c))
     else throwE (ErrorMsg ''Unknown contract definition provided: [object Object]''))"

section \<open>Methods of web3\<close>

definition invokeRawWeb3EthMethod :: "'x ethWeb3 \<Rightarrow> InvokeRawWeb3EthMethodRequest \<Rightarrow> ('x, jsv) eact" where
  "invokeRawWeb3EthMethod W args =
     thenA (liftR (checkNonBlank (rm_methodName args) ''web3.eth method string must not be empty'')) (
     if rm_methodName args \<in> set (e3_ethMethods W)
     then libraryA (e3_ethMethod W (rm_methodName args) (case rm_params args of None \<Rightarrow> [] | Some ps \<Rightarrow> ps))
     else throwE (ErrorMsg (''Invalid method name provided in request. '' @ rm_methodName args @ '' does not exist on the Web3.Eth object.'')))"

text \<open>\<open>typeof v\<close>, and \<open>Object.keys(v)\<close> of a truthy value\<close>

definition typeOf :: "json \<Rightarrow> string" where
  "typeOf j = (case j of JBool b \<Rightarrow> ''boolean'' | JNum n \<Rightarrow> ''number'' | JStr s \<Rightarrow> ''string'' | _ \<Rightarrow> ''object'')"

definition objectKeys :: "json \<Rightarrow> string list" where
  "objectKeys j = (case j of
      JObj fs \<Rightarrow> map fst fs
    | JArr xs \<Rightarrow> map natToString [0..<length xs]
    | JStr s \<Rightarrow> map natToString [0..<length s]
    | _ \<Rightarrow> [])"

definition inQuotes :: "string \<Rightarrow> string" where
  "inQuotes s = CHR 0x27 # s @ [CHR 0x27]"

definition checkArguments :: "string \<Rightarrow> string list \<Rightarrow> json list \<Rightarrow> unit result" where
  "checkArguments method inputs args =
     (if length inputs \<noteq> length args then Inl (ErrorMsg (''Incorrect number of arguments for '' @ method))
      else foldR (\<lambda>_ (i, t, a). if typeOf a = t then Inr ()
        else Inl (ErrorMsg (''Invalid type for argument '' @ natToString (i + 1) @ '' in '' @ method))) () (zip [0..<length inputs] (zip inputs args)))"

definition checkInvocationParam :: "'x ethWeb3 \<Rightarrow> json \<Rightarrow> string \<Rightarrow> unit result" where
  "checkInvocationParam W params key =
     (if key \<notin> {''from'', ''gasLimit'', ''gasPrice'', ''value''} then Inl (ErrorMsg (''Invalid key '' @ inQuotes key @ '' in invocationParams''))
      else bindR (jprop key (Some params)) (\<lambda>v.
        if key = ''from'' \<and> \<not> e3_isAddress W v then Inl (ErrorMsg (''Invalid type for '' @ inQuotes key @ '' in invocationParams''))
        else if key = ''gasLimit'' \<and> map_option typeOf v \<noteq> Some ''number'' then Inl (ErrorMsg (''Invalid type for '' @ inQuotes key @ '' in invocationParams''))
        else if key = ''gasPrice'' \<and> map_option typeOf v \<noteq> Some ''number'' then Inl (ErrorMsg (''Invalid type for '' @ inQuotes key @ ''in invocationParams''))
        else Inr ()))"

definition checkInvocationParams :: "'x ethWeb3 \<Rightarrow> jsv \<Rightarrow> unit result" where
  "checkInvocationParams W params =
     (if truthy params then foldR (\<lambda>_ key. checkInvocationParam W (the params) key) () (objectKeys (the params)) else Inr ())"

definition invokeRawWeb3EthContract :: "'x ethWeb3 \<Rightarrow> InvokeRawWeb3EthContractRequest \<Rightarrow> ('x, jsv) eact" where
  "invokeRawWeb3EthContract W req =
     (let args = (case rc_contractMethodArgs req of None \<Rightarrow> [] | Some as \<Rightarrow> as); name = rc_contractMethod req in
      thenA (ensure (rc_invocationType req \<in> {''send'', ''call'', ''encodeABI'', ''estimateGas''})
        (ErrorMsg (''Unknown invocationType ('' @ rc_invocationType req @ ''), must be specified in EthContractInvocationWeb3Method''))) (
      bindA (ethContractA W (Some (rc_abi req)) (Some (JStr (rc_address req)))) (\<lambda>c.
      bindA (ethIsSafeToCallContractMethod W c name) (\<lambda>isSafeToCall.
      if \<not> isSafeToCall then throwE (noSuchMethod name)
      else bindA (liftR (e3_getFunction W (rc_abi req) name)) (\<lambda>methodFragment. case methodFragment of
          None \<Rightarrow> throwE (ErrorMsg (''Method '' @ name @ '' not found in ABI interface.''))
        | Some inputs \<Rightarrow>
            thenA (liftR (checkArguments name inputs args)) (
            thenA (liftR (checkInvocationParams W (rc_invocationParams req))) (
            libraryA (e3_contractMethod W c name args (rc_invocationType req) (rc_invocationParams req)))))))))"

section \<open>Watchers of the clients\<close>

definition supportsSubscriptions :: "provider \<Rightarrow> bool" where
  "supportsSubscriptions p = (case p of HttpProvider h \<Rightarrow> False | WebSocketProvider h opts \<Rightarrow> True)"

text \<open>
  The handler of \<open>WatchBlocksV1.Subscribe\<close>: a new watcher begins; it is entered for its socket when its \<open>subscribe\<close> has ended, in
  place of an earlier one.
\<close>

definition addWatcher :: "WatchBlocksV1Options option \<Rightarrow> ('x, nat) eact" where
  "addWatcher options = (\<lambda>w. (Returns (length (ew_watchers w)),
     w\<lparr>ew_watchers := ew_watchers w @ [begins subscribe (createWatchBlocksV1Endpoint (supportsSubscriptions (ew_provider w)) options)]\<rparr>))"

definition enterWatcher :: "string \<Rightarrow> nat \<Rightarrow> ('x, unit) eact" where
  "enterWatcher socketId i = modifyA (\<lambda>w. w\<lparr>ew_watchBlocksSubscriptions := mapSet socketId i (ew_watchBlocksSubscriptions w)\<rparr>)"

text \<open>\<open>unsubscribe\<close> of a watcher, until it has ended, which it never does when the node does not answer\<close>

definition closeWatcher :: "'x ethWeb3 \<Rightarrow> nat \<Rightarrow> ('x, unit) eact" where
  "closeWatcher W i = (\<lambda>w. case unsubscribe False (ew_watchers w ! i) of (ts, v) \<Rightarrow>
     if ts = [] then (Returns (), w\<lparr>ew_watchers := (ew_watchers w)[i := v]\<rparr>)
     else (case e3_unsubscribes W i (cw_ext w) of
         (None, x) \<Rightarrow> (Pending, w\<lparr>cw_ext := x, ew_watchers := (ew_watchers w)[i := start ts v]\<rparr>)
       | (Some ok, x) \<Rightarrow> (Returns (), w\<lparr>cw_ext := x, ew_watchers := (ew_watchers w)[i := snd (onUnsubscribed ok False v)]\<rparr>)))"

definition removeWatchBlocksSubscriptionForSocket :: "'x ethWeb3 \<Rightarrow> string \<Rightarrow> ('x, unit) eact" where
  "removeWatchBlocksSubscriptionForSocket W socketId =
     bindA (getsA (\<lambda>w. map_of (ew_watchBlocksSubscriptions w) socketId)) (\<lambda>subscription. case subscription of
         None \<Rightarrow> ret ()
       | Some i \<Rightarrow> thenA (closeWatcher W i)
           (modifyA (\<lambda>w. w\<lparr>ew_watchBlocksSubscriptions := mapDelete socketId (ew_watchBlocksSubscriptions w)\<rparr>)))"

text \<open>Ten waits of half a second at most\<close>

fun waitForRequests :: "'x ethWeb3 \<Rightarrow> nat \<Rightarrow> ('x, unit) eact" where
  "waitForRequests W 0 = ret ()"
| "waitForRequests W (Suc n) = bindA (getsA (\<lambda>w. e3_requestsOpen W (cw_ext w))) (\<lambda>waiting.
     if waiting then thenA (modifyA (\<lambda>w. w\<lparr>cw_ext := e3_setTimeout W 500 (cw_ext w)\<rparr>)) (waitForRequests W n) else ret ())"

definition closeWeb3jsConnection :: "'x ethWeb3 \<Rightarrow> ('x, unit) eact" where
  "closeWeb3jsConnection W = bindA (getsA ew_provider) (\<lambda>p. case p of
      HttpProvider h \<Rightarrow> ret ()
    | WebSocketProvider h opts \<Rightarrow> thenA (waitForRequests W 10) (modifyA (\<lambda>w. w\<lparr>ew_connected := False\<rparr>)))"

definition shutdownEthereum :: "'x ethWeb3 \<Rightarrow> ('x, unit) eact" where
  "shutdownEthereum W = bindA (getsA (\<lambda>w. mapKeys (ew_watchBlocksSubscriptions w))) (\<lambda>ids.
     thenA (forEachA (removeWatchBlocksSubscriptionForSocket W) ids) (closeWeb3jsConnection W))"

section \<open>Endpoints\<close>

text \<open>An answer of the node that the library rejects is an error of the client.\<close>

definition ethAnswer :: "(jsError, 'a) outcome \<Rightarrow> int option" where
  "ethAnswer r = (case r of
      Returns _ \<Rightarrow> Some 200 | Throws e \<Rightarrow> Some (if e = InvalidResponse then 400 else 500) | Pending \<Rightarrow> None)"

definition ethDeployContractEndpoint where
  "ethDeployContractEndpoint W req w = (case ethDeployContract W req w of (r, w') \<Rightarrow> (ethAnswer r, w'))"

definition ethRunTransactionEndpoint where
  "ethRunTransactionEndpoint W req w = (case ethTransact W req w of (r, w') \<Rightarrow> (ethAnswer r, w'))"

definition ethInvokeContractEndpoint where
  "ethInvokeContractEndpoint W req w = (case ethInvokeContract W req w of (r, w') \<Rightarrow> (ethAnswer r, w'))"

definition invokeRawWeb3EthMethodEndpoint where
  "invokeRawWeb3EthMethodEndpoint W req w = (case invokeRawWeb3EthMethod W req w of (r, w') \<Rightarrow> (ethAnswer r, w'))"

definition invokeRawWeb3EthContractEndpoint where
  "invokeRawWeb3EthContractEndpoint W req w = (case invokeRawWeb3EthContract W req w of (r, w') \<Rightarrow> (ethAnswer r, w'))"

end
