(* ===== verification/Watch_Blocks_Properties.thy ===== *)
theory Watch_Blocks_Properties
  imports Watch_Blocks
begin

text \<open>
  Properties of the watchers of the Ethereum connector, over every interleaving of rounds, answers,
  headers and requests of the client: which blocks the client gets to see, and in which order.
\<close>

section \<open>Messages and blocks\<close>

text \<open>The message that showsBlock a block: what the node answered for its number, or a header it announced.\<close>

definition showsBlock :: "node \<Rightarrow> bool \<Rightarrow> int \<Rightarrow> message \<Rightarrow> bool" where
  "showsBlock N g i m \<longleftrightarrow> (\<exists>b p. nd_block N i b \<and> blockProgress g b = Inr p \<and> m = NextBlock p)
     \<or> (\<not> g \<and> (\<exists>h. nd_header N h \<and> headerNumber h = Some i \<and> m = NextBlock (headerDataToBlockProgress h)))"

definition seen :: "node \<Rightarrow> bool \<Rightarrow> message list \<Rightarrow> int \<Rightarrow> bool" where
  "seen N g ms i \<longleftrightarrow> (\<exists>m \<in> set ms. showsBlock N g i m)"

text \<open>All blocks after \<open>s\<close> up to \<open>x\<close> were shown, or at least the one after each, if \<open>k\<close>.\<close>

definition known :: "node \<Rightarrow> bool \<Rightarrow> bool \<Rightarrow> int \<Rightarrow> message list \<Rightarrow> int \<Rightarrow> bool" where
  "known N g k s ms x \<longleftrightarrow> (\<forall>i. s < i \<and> i \<le> x \<longrightarrow> seen N g ms i \<or> (k \<and> seen N g ms (i + 1)))"

lemma seen_mono: "seen N g ms i \<Longrightarrow> set ms \<subseteq> set ms' \<Longrightarrow> seen N g ms' i"
  by (auto simp: seen_def)

lemma known_mono: "known N g k s ms x \<Longrightarrow> set ms \<subseteq> set ms' \<Longrightarrow> y \<le> x \<Longrightarrow> known N g k s ms' y"
  unfolding known_def by (meson order_trans seen_mono)

lemma known_next:
  assumes "known N g k s ms (n - (if k then 2 else 1))" "showsBlock N g n m"
  shows "known N g k s (ms @ [m]) n"
  unfolding known_def
proof (intro allI impI)
  fix i assume i: "s < i \<and> i \<le> n"
  have n: "seen N g (ms @ [m]) n" using assms(2) by (auto simp: seen_def)
  show "seen N g (ms @ [m]) i \<or> (k \<and> seen N g (ms @ [m]) (i + 1))"
  proof (cases "i \<le> n - (if k then 2 else 1)")
    case True
    then show ?thesis using assms(1) i seen_mono [of N g ms _ "ms @ [m]"] unfolding known_def by auto
  next
    case False
    then have "i = n \<or> (k \<and> i + 1 = n)" using i by (auto split: if_splits)
    then show ?thesis using n by auto
  qed
qed

section \<open>No block is skipped\<close>

text \<open>A node that announces numbered headers and whose latest block is not before a header it announced.\<close>

definition honestNode :: "node \<Rightarrow> bool" where
  "honestNode N \<longleftrightarrow> (\<forall>h. nd_header N h \<longrightarrow> (\<exists>n \<ge> 0. headerNumber h = Some n))
     \<and> (\<forall>n h m. nd_latest N (ThenHeader (Some n) h) m \<longrightarrow> n \<le> m)"

text \<open>What holds of a task: a block it is about to push comes after blocks that are known.\<close>

definition headerOk :: "node \<Rightarrow> int option \<Rightarrow> (string \<times> json) list \<Rightarrow> bool" where
  "headerOk N n h \<longleftrightarrow> nd_header N h \<and> headerNumber h = n"

fun afterOk :: "node \<Rightarrow> bool \<Rightarrow> int \<Rightarrow> after \<Rightarrow> bool" where
  "afterOk N k m RoundDone = True"
| "afterOk N k m ThenSubscribe = k"
| "afterOk N k m (ThenHeader n h) = (k \<and> headerOk N n h \<and> the n \<le> m)"

fun taskOk :: "node \<Rightarrow> bool \<Rightarrow> bool \<Rightarrow> int \<Rightarrow> message list \<Rightarrow> task \<Rightarrow> bool" where
  "taskOk N g k s ms (AwaitLatest a) = (case a of RoundDone \<Rightarrow> True | ThenSubscribe \<Rightarrow> k | ThenHeader n h \<Rightarrow> k \<and> headerOk N n h)"
| "taskOk N g k s ms (AwaitBlock m n a) = (n \<ge> 0 \<and> known N g k s ms (n - 1) \<and> afterOk N k m a)"
| "taskOk N g k s ms (HaveBlock m n p a) = (n \<ge> 0 \<and> known N g k s ms (n - 1) \<and> afterOk N k m a \<and> showsBlock N g n (NextBlock p))"
| "taskOk N g k s ms (EmittedAll a) = (case a of RoundDone \<Rightarrow> True | ThenSubscribe \<Rightarrow> k
     | ThenHeader n h \<Rightarrow> k \<and> headerOk N n h \<and> known N g k s ms (the n - 2))"
| "taskOk N g k s ms AwaitSubscription = k"
| "taskOk N g k s ms (AwaitFullBlock n) = (k \<and> g \<and> (\<exists>i \<ge> 0. n = Some i \<and> known N g k s ms (i - 2)))"
| "taskOk N g k s ms (HaveProgress n p) = (k \<and> (\<exists>i \<ge> 0. n = Some i \<and> known N g k s ms (i - 2) \<and> showsBlock N g i (NextBlock p)))"
| "taskOk N g k s ms (AwaitUnsubscribed r) = k"
| "taskOk N g k s ms AwaitRestart = True"

lemma taskOk_mono: "taskOk N g k s ms t \<Longrightarrow> set ms \<subseteq> set ms' \<Longrightarrow> taskOk N g k s ms' t"
  by (cases t) (auto split: after.splits intro: known_mono)

text \<open>The invariant; a watcher with a subscription stays subscribed.\<close>

definition covered :: "node \<Rightarrow> bool \<Rightarrow> bool \<Rightarrow> int \<Rightarrow> watcher \<Rightarrow> bool" where
  "covered N g k s w \<longleftrightarrow> wb_isGetBlockData w = g \<and> (wb_kind w = Subscription) = k
     \<and> (\<exists>l \<ge> 0. wb_lastSeenBlock w = Some l \<and> known N g k s (wb_sent w) l)
     \<and> (\<forall>t \<in> set (wb_tasks w). taskOk N g k s (wb_sent w) t) \<and> (k \<longrightarrow> isSubscribed w)
     \<and> (\<not> k \<longrightarrow> wb_streams w = 0 \<and> \<not> wb_newBlocksSubscription w)"

definition staysSubscribed :: "node \<Rightarrow> watcher \<Rightarrow> watcher \<Rightarrow> bool" where
  "staysSubscribed N w w' \<longleftrightarrow> watch_step N w w' \<and> (wb_kind w = HttpPoll \<or> isSubscribed w')"


text \<open>One task goes on: its new state is all there is to check.\<close>

definition goesOn :: "node \<Rightarrow> bool \<Rightarrow> bool \<Rightarrow> int \<Rightarrow> watcher \<Rightarrow> task list \<times> watcher \<Rightarrow> bool" where
  "goesOn N g k s w r \<longleftrightarrow> (case r of (ts, w') \<Rightarrow> wb_isGetBlockData w' = g \<and> (wb_kind w' = Subscription) = k
     \<and> (\<exists>l \<ge> 0. wb_lastSeenBlock w' = Some l \<and> known N g k s (wb_sent w') l)
     \<and> (\<forall>t \<in> set ts. taskOk N g k s (wb_sent w') t) \<and> set (wb_sent w) \<subseteq> set (wb_sent w')
     \<and> wb_tasks w' = wb_tasks w \<and> (\<not> k \<longrightarrow> wb_streams w' = 0 \<and> \<not> wb_newBlocksSubscription w'))"

lemma covered_tasks:
  assumes "covered N g k s w" "goesOn N g k s w (ts, w')" "set us \<subseteq> set (wb_tasks w) \<union> set ts"
    and "k \<longrightarrow> isSubscribed w'"
  shows "covered N g k s (w'\<lparr>wb_tasks := us\<rparr>)"
proof -
  have "set (wb_sent w) \<subseteq> set (wb_sent w')" using assms(2) by (simp add: goesOn_def)
  then have "taskOk N g k s (wb_sent w') t" if "t \<in> set us" for t
    using that assms(1-3) taskOk_mono by (fastforce simp: covered_def goesOn_def)
  then show ?thesis using assms(2,4) by (simp add: covered_def goesOn_def isSubscribed_def)
qed

lemma covered_begins:
  assumes "covered N g k s w" "goesOn N g k s w (f w)" "k \<longrightarrow> isSubscribed (begins f w)"
  shows "covered N g k s (begins f w)"
proof -
  obtain ts w' where f: "f w = (ts, w')" by (cases "f w")
  then have "begins f w = w'\<lparr>wb_tasks := wb_tasks w' @ ts\<rparr>" by (simp add: begins_def start_def)
  moreover have "wb_tasks w' = wb_tasks w" using assms(2) f by (simp add: goesOn_def)
  ultimately show ?thesis
    using covered_tasks [OF assms(1), of ts w' "wb_tasks w' @ ts"] assms(2,3) f by (simp add: isSubscribed_def)
qed

lemma covered_goOn:
  assumes "covered N g k s w" "goesOn N g k s w (f w)" "k \<longrightarrow> isSubscribed (goOn i f w)"
  shows "covered N g k s (goOn i f w)"
proof -
  obtain ts w' where f: "f w = (ts, w')" by (cases "f w")
  let ?us = "take i (wb_tasks w) @ ts @ drop (Suc i) (wb_tasks w)"
  have "set ?us \<subseteq> set (wb_tasks w) \<union> set ts" by (auto dest: in_set_takeD in_set_dropD)
  moreover have "goOn i f w = w'\<lparr>wb_tasks := ?us\<rparr>" using f by (simp add: goOn_def)
  ultimately show ?thesis
    using covered_tasks [OF assms(1), of ts w' ?us] assms(2,3) f by (simp add: isSubscribed_def)
qed

lemma taskAt_in: "taskAt i w = Some t \<Longrightarrow> t \<in> set (wb_tasks w)"
  by (auto simp: taskAt_def split: if_splits)

lemma covered_task: "covered N g k s w \<Longrightarrow> taskAt i w = Some t \<Longrightarrow> taskOk N g k s (wb_sent w) t"
  by (auto simp: covered_def dest: taskAt_in)

text \<open>Each step, one by one.\<close>

lemma goesOn_emitLoop:
  assumes "covered N g k s w" "wb_isGetBlockData w' = g" "(wb_kind w' = Subscription) = k" "wb_lastSeenBlock w' = Some l" "l \<ge> 0"
    and "known N g k s (wb_sent w') l" "set (wb_sent w) \<subseteq> set (wb_sent w')" "wb_tasks w' = wb_tasks w"
    and "\<not> k \<longrightarrow> wb_streams w' = 0 \<and> \<not> wb_newBlocksSubscription w'" "afterOk N k m a"
  shows "goesOn N g k s w (emitLoop m a w')"
proof (cases "l < m")
  case True
  then show ?thesis using assms by (auto simp: goesOn_def emitLoop_def)
next
  case False
  have "taskOk N g k s (wb_sent w') (EmittedAll a)"
    using assms(6,10) False known_mono by (cases a) (auto intro: known_mono)
  then show ?thesis using assms False by (auto simp: goesOn_def emitLoop_def)
qed

lemma goesOn_latest:
  assumes "honestNode N" "covered N g k s w" "taskAt i w = Some (AwaitLatest a)" "nd_latest N a m"
  shows "goesOn N g k s w (onLatest m a w)"
proof -
  have "afterOk N k m a"
    using covered_task [OF assms(2,3)] assms(1,4) unfolding honestNode_def headerOk_def
    by (cases a) (auto simp: headerOk_def)
  then show ?thesis unfolding onLatest_def using assms(2)
    by (auto simp: covered_def LAST_SEEN_LATEST_BLOCK_def intro!: goesOn_emitLoop)
qed

lemma goesOn_block:
  assumes "covered N g k s w" "taskAt i w = Some (AwaitBlock m n a)" "nd_block N n b"
  shows "goesOn N g k s w (onBlock m n a b w)"
  using covered_task [OF assms(1,2)] assms(1,3)
  by (auto simp: goesOn_def onBlock_def covered_def showsBlock_def split: sum.splits)

lemma goesOn_push:
  assumes "covered N g k s w" "taskAt i w = Some (HaveBlock m n p a)"
  shows "goesOn N g k s w (pushBlock m n p a w)"
proof (cases "isSubscribed w")
  case True
  have "known N g k s (wb_sent w @ [NextBlock p]) n"
    using covered_task [OF assms] known_mono by (intro known_next) (auto intro: known_mono)
  then show ?thesis using True assms(1) covered_task [OF assms]
    by (auto simp: pushBlock_def emitMessage_def covered_def intro!: goesOn_emitLoop)
next
  case False
  then have "a = RoundDone" using assms(1) covered_task [OF assms] by (cases a) (auto simp: covered_def)
  then show ?thesis using False assms(1) by (auto simp: goesOn_def pushBlock_def covered_def)
qed

lemma nextOfHeader_ok:
  assumes "honestNode N" "covered N g k s w" "k" "headerOk N n h" "known N g k s (wb_sent w) (the n - 2)"
  shows "\<forall>t \<in> set (nextOfHeader n h w). taskOk N g k s (wb_sent w) t"
proof -
  obtain i where "n = Some i" "i \<ge> 0" using assms(1,4) by (auto simp: honestNode_def headerOk_def)
  then show ?thesis using assms by (auto simp: nextOfHeader_def covered_def showsBlock_def headerOk_def)
qed

lemma goesOn_emitted:
  assumes "honestNode N" "covered N g k s w" "taskAt i w = Some (EmittedAll a)"
  shows "goesOn N g k s w (afterAll a w)"
proof -
  have "\<forall>t \<in> set (fst (afterAll a w)). taskOk N g k s (wb_sent w) t"
    using covered_task [OF assms(2,3)] nextOfHeader_ok [OF assms(1,2)] by (auto simp: afterAll_def split: after.splits)
  then show ?thesis using assms(2) by (auto simp: goesOn_def afterAll_def covered_def)
qed

lemma goesOn_header_pushed:
  assumes "covered N g k s w" "taskAt i w = Some (HaveProgress n p)"
  shows "goesOn N g k s w (pushHeader n p w)"
proof -
  obtain j where j: "k" "n = Some j" "j \<ge> 0" "known N g k s (wb_sent w) (j - 2)" "showsBlock N g j (NextBlock p)"
    using covered_task [OF assms] by auto
  then have "known N g k s (wb_sent w @ [NextBlock p]) j" by (intro known_next) simp_all
  then show ?thesis using assms(1) j by (auto simp: goesOn_def pushHeader_def emitMessage_def covered_def)
qed

lemma covered_header:
  assumes "honestNode N" "covered N g k s w" "nd_header N h" "wb_streams w > 0"
  shows "covered N g k s (onHeader h w)"
proof -
  let ?ts = "if isMissing (headerNumber h) (wb_lastSeenBlock w) then [AwaitLatest (ThenHeader (headerNumber h) h)]
    else nextOfHeader (headerNumber h) h w"
  have k: "k" using assms(2,4) by (auto simp: covered_def)
  have h: "headerOk N (headerNumber h) h" using assms(3) by (simp add: headerOk_def)
  obtain n where "headerNumber h = Some n" using assms(1,3) by (auto simp: honestNode_def)
  moreover obtain l where "wb_lastSeenBlock w = Some l" "known N g k s (wb_sent w) l" using assms(2) by (auto simp: covered_def)
  ultimately have "known N g k s (wb_sent w) (the (headerNumber h) - 2)" if "\<not> isMissing (headerNumber h) (wb_lastSeenBlock w)"
    using that by (auto simp: isMissing_def intro: known_mono)
  then have "\<forall>t \<in> set ?ts. taskOk N g k s (wb_sent w) t"
    using nextOfHeader_ok [OF assms(1,2) k h] k h by simp
  then have "goesOn N g k s w (?ts, w)" using assms(2) by (auto simp: goesOn_def covered_def)
  from covered_begins [of N g k s w "\<lambda>w. (?ts, w)", OF assms(2) this] show ?thesis
    using assms(2) by (simp add: begins_def onHeader_def Let_def covered_def start_def isSubscribed_def)
qed

lemma goesOn_unsubscribe: "covered N g k s w \<Longrightarrow> goesOn N g k s w (unsubscribe r w)"
  by (cases "wb_kind w") (auto simp: goesOn_def covered_def unsubscribe_def clearMonitoringInterval_def endSubscription_def afterUnsubscribe_def)

lemma goesOn_beginWatching: "covered N g k s w \<Longrightarrow> goesOn N g k s w (beginWatching w)"
  by (cases "wb_kind w") (auto simp: goesOn_def covered_def beginWatching_def Let_def)

lemma goesOn_simple:
  assumes "covered N g k s w" "taskAt i w = Some t"
  shows "goesOn N g k s w ([], w)"
    and "t = AwaitSubscription \<Longrightarrow> goesOn N g k s w (onSubscription w)"
    and "t = AwaitUnsubscribed r \<Longrightarrow> goesOn N g k s w (onUnsubscribed ok r w)"
    and "t = AwaitFullBlock n \<Longrightarrow> (\<forall>j. n = Some j \<longrightarrow> nd_block N j b) \<Longrightarrow> goesOn N g k s w (onFullBlock n b w)"
  using assms(1) covered_task [OF assms]
  by (auto simp: goesOn_def covered_def onSubscription_def onUnsubscribed_def endSubscription_def afterUnsubscribe_def onFullBlock_def
      showsBlock_def blockProgress_def split: sum.splits)

lemma covered_emit: "covered N g k s w \<Longrightarrow> covered N g k s (emitMessage m w)"
  unfolding covered_def emitMessage_def isSubscribed_def
  using known_mono [of N g k s "wb_sent w" _ "wb_sent w @ [m]"] taskOk_mono [of N g k s "wb_sent w" _ "wb_sent w @ [m]"] by auto

lemma covered_step:
  assumes "honestNode N" "covered N g k s w" "staysSubscribed N w w'"
  shows "covered N g k s w'"
proof -
  have k: "k \<longrightarrow> isSubscribed w'" using assms(2,3) by (auto simp: staysSubscribed_def covered_def)
  note goOns = goesOn_latest [OF assms(1,2)] goesOn_block [OF assms(2)] goesOn_push [OF assms(2)] goesOn_emitted [OF assms(1,2)]
    goesOn_header_pushed [OF assms(2)] goesOn_simple [OF assms(2)] goesOn_beginWatching [OF assms(2)]
  from assms(3) have "watch_step N w w'" by (simp add: staysSubscribed_def)
  then show ?thesis
  proof cases
    case subscribes
    then show ?thesis using k goesOn_unsubscribe [OF assms(2)] goesOn_beginWatching [OF assms(2)]
      by (auto simp: subscribe_def intro!: covered_begins [OF assms(2)])
  next
    case unsubscribes
    then show ?thesis using k goesOn_unsubscribe [OF assms(2)] by (auto intro!: covered_begins [OF assms(2)])
  next
    case disconnects
    then have "\<not> k" using k
      by (cases "wb_kind w") (auto simp: isSubscribed_def begins_def unsubscribe_def clearMonitoringInterval_def endSubscription_def start_def split: if_splits)
    then have "covered N g k s (w\<lparr>wb_disconnected := True\<rparr>)" using assms(2) by (auto simp: covered_def)
    then show ?thesis using disconnects k goesOn_unsubscribe by (auto intro!: covered_begins)
  next
    case stream_fails
    then show ?thesis using k goesOn_unsubscribe covered_emit [OF assms(2)] by (auto intro!: covered_begins)
  next
    case timer
    have "goesOn N g k s w ([AwaitLatest RoundDone], w)" using assms(2) by (auto simp: goesOn_def covered_def)
    from covered_begins [of N g k s w "\<lambda>w. ([AwaitLatest RoundDone], w)", OF assms(2) this] show ?thesis
      using timer k by (simp add: begins_def)
  next
    case (header h)
    then show ?thesis using covered_header [OF assms(1,2)] by simp
  qed (use k goOns in \<open>auto intro!: covered_goOn [OF assms(2)]\<close>)
qed

text \<open>A watcher that starts: no task knows of a block yet.\<close>

definition freshTask :: "bool \<Rightarrow> task \<Rightarrow> bool" where
  "freshTask k t = (case t of
      AwaitLatest a \<Rightarrow> a = (if k then ThenSubscribe else RoundDone)
    | EmittedAll a \<Rightarrow> a = (if k then ThenSubscribe else RoundDone)
    | AwaitSubscription \<Rightarrow> k | AwaitRestart \<Rightarrow> True | _ \<Rightarrow> False)"

definition watchesFrom :: "watchKind \<Rightarrow> bool \<Rightarrow> int \<Rightarrow> watcher \<Rightarrow> bool" where
  "watchesFrom kind g s w \<longleftrightarrow> wb_kind w = kind \<and> wb_isGetBlockData w = g \<and> wb_lastSeenBlock w = Some s
     \<and> list_all (freshTask (kind = Subscription)) (wb_tasks w) \<and> isSubscribed w \<and> (kind = HttpPoll \<longrightarrow> wb_streams w = 0 \<and> \<not> wb_newBlocksSubscription w)"

lemma watchesFrom_covered:
  assumes "watchesFrom kind g s w" "s \<ge> 0"
  shows "covered N g (kind = Subscription) s w"
proof -
  have "taskOk N g (kind = Subscription) s (wb_sent w) t" if "freshTask (kind = Subscription) t" for t
    using that by (cases t) (simp_all add: freshTask_def split: if_splits)
  then have "\<forall>t \<in> set (wb_tasks w). taskOk N g (kind = Subscription) s (wb_sent w) t"
    using assms(1) by (auto simp: watchesFrom_def list_all_iff)
  then show ?thesis using assms by (cases kind) (auto simp: watchesFrom_def covered_def known_def)
qed

lemma reaches_covered:
  assumes "honestNode N" "s \<ge> 0" "reaches (watchesFrom kind g s) (staysSubscribed N) w"
  shows "covered N g (kind = Subscription) s w"
  using assms(3) by (rule reaches_invariant) (rule watchesFrom_covered [OF _ assms(2)], assumption, rule covered_step [OF assms(1)])

text \<open>
  C29. No block is skipped by a watcher that polls: whatever rounds overlap, requests fail, and whenever the client comes and
  goes, the client was shown every block from the first one to the last one seen. A watcher with a subscription, while it stays subscribed,
  may skip one, if it showed the next one.
\<close>

theorem watched_blocks_shown:
  assumes "honestNode N" "s \<ge> 0" "reaches (watchesFrom kind g s) (staysSubscribed N) w" "wb_lastSeenBlock w = Some l" "s < i" "i \<le> l"
  shows "seen N g (wb_sent w) i \<or> (kind = Subscription \<and> seen N g (wb_sent w) (i + 1))"
  using reaches_covered [OF assms(1-3)] assms(4-6) by (auto simp: covered_def known_def)

section \<open>One round at a time\<close>

text \<open>A poller that never has two methods under way at once.\<close>

definition oneAtATime :: "node \<Rightarrow> watcher \<Rightarrow> watcher \<Rightarrow> bool" where
  "oneAtATime N w w' \<longleftrightarrow> watch_step N w w' \<and> length (wb_tasks w') \<le> 1"

definition inOrder :: "node \<Rightarrow> bool \<Rightarrow> int \<Rightarrow> watcher \<Rightarrow> bool" where
  "inOrder N g s w \<longleftrightarrow> wb_kind w = HttpPoll \<and> wb_isGetBlockData w = g \<and> wb_streams w = 0
     \<and> (\<exists>l \<ge> s. wb_lastSeenBlock w = Some l \<and> list_all2 (showsBlock N g) [s + 1..l] (wb_sent w)
       \<and> (wb_tasks w \<noteq> [] \<longrightarrow> length (wb_tasks w) = 1 \<and> (case hd (wb_tasks w) of
            AwaitLatest a \<Rightarrow> a = RoundDone
          | AwaitBlock m n a \<Rightarrow> n = l + 1 \<and> a = RoundDone
          | HaveBlock m n p a \<Rightarrow> n = l + 1 \<and> a = RoundDone \<and> showsBlock N g n (NextBlock p)
          | EmittedAll a \<Rightarrow> a = RoundDone | AwaitRestart \<Rightarrow> True | _ \<Rightarrow> False)))"

definition pollsFrom :: "bool \<Rightarrow> int \<Rightarrow> watcher \<Rightarrow> bool" where
  "pollsFrom g s w \<longleftrightarrow> wb_kind w = HttpPoll \<and> wb_isGetBlockData w = g \<and> wb_lastSeenBlock w = Some s
     \<and> wb_tasks w = [] \<and> wb_sent w = [] \<and> wb_streams w = 0"

lemma taskAt_single: "length (wb_tasks w) = 1 \<Longrightarrow> taskAt i w = Some t \<longleftrightarrow> i = 0 \<and> wb_tasks w = [t]"
  by (cases "wb_tasks w") (auto simp: taskAt_def)

lemma goOn_single: "wb_tasks w = [t] \<Longrightarrow> f w = (ts, w') \<Longrightarrow> goOn 0 f w = w'\<lparr>wb_tasks := ts\<rparr>"
  by (simp add: goOn_def)

lemma inOrder_step:
  assumes "s \<ge> 0" "inOrder N g s w" "oneAtATime N w w'"
  shows "inOrder N g s w'"
proof -
  obtain l where l: "l \<ge> s" "wb_lastSeenBlock w = Some l" "list_all2 (showsBlock N g) [s + 1..l] (wb_sent w)"
    using assms(2) by (auto simp: inOrder_def)
  have u: "[s + 1..l + 1] = [s + 1..l] @ [l + 1]" using l(1) upto_rec2 [of "s + 1" "l + 1"] by simp
  have len: "length (wb_tasks w') \<le> 1" using assms(3) by (simp add: oneAtATime_def)
  have at: "i = 0 \<and> wb_tasks w = [t]" if "taskAt i w = Some t" for i t
  proof -
    have "wb_tasks w \<noteq> []" using taskAt_in [OF that] by auto
    then show ?thesis using assms(2) taskAt_single that by (auto simp: inOrder_def)
  qed
  from assms(3) have "watch_step N w w'" by (simp add: oneAtATime_def)
  then show ?thesis
  proof cases
    case (block i m n a b)
    from at [OF this(2)] have t: "i = 0" "wb_tasks w = [AwaitBlock m n a]" by auto
    then show ?thesis using block assms(2) l
      by (auto simp: inOrder_def goOn_def onBlock_def showsBlock_def split: sum.splits)
  next
    case (pushes i m n p a)
    from at [OF this(2)] have t: "i = 0" "wb_tasks w = [HaveBlock m n p a]" by auto
    then have "n = l + 1" "a = RoundDone" "showsBlock N g n (NextBlock p)" using assms(2) l by (auto simp: inOrder_def)
    then have "list_all2 (showsBlock N g) [s + 1..l + 1] (wb_sent w @ [NextBlock p])"
      using l(3) unfolding u by (auto intro: list_all2_appendI)
    then show ?thesis using pushes t assms(2) l \<open>n = l + 1\<close> \<open>a = RoundDone\<close>
      by (auto simp: inOrder_def goOn_def pushBlock_def emitLoop_def emitMessage_def)
  next
    case (latest i a m)
    from at [OF this(2)] have t: "i = 0" "wb_tasks w = [AwaitLatest a]" by auto
    then show ?thesis using latest assms(1,2) l
      by (auto simp: inOrder_def goOn_def onLatest_def emitLoop_def LAST_SEEN_LATEST_BLOCK_def)
  qed (use assms(2) len l in \<open>auto simp: inOrder_def goOn_def begins_def start_def subscribe_def unsubscribe_def beginWatching_def
      clearMonitoringInterval_def afterUnsubscribe_def afterAll_def Let_def dest!: at split: if_splits\<close>)
qed

text \<open>
  C30. As long as a round of the timer ends before the next one begins, the client of a poller is shown exactly the blocks
  from the first one to the last one seen, each once and in their order, whatever requests fail and however often the client comes and goes.
\<close>

theorem polls_in_order:
  assumes "s \<ge> 0" "reaches (pollsFrom g s) (oneAtATime N) w"
  shows "\<exists>l \<ge> s. wb_lastSeenBlock w = Some l \<and> list_all2 (showsBlock N g) [s + 1..l] (wb_sent w)"
proof -
  have "inOrder N g s w" using assms(2)
  proof (rule reaches_invariant)
    show "inOrder N g s v" if "pollsFrom g s v" for v using that by (simp add: pollsFrom_def inOrder_def)
  qed (rule inOrder_step [OF assms(1)])
  then show ?thesis by (auto simp: inOrder_def)
qed

section \<open>What is never shown\<close>

text \<open>From some block on, a watcher shows no earlier one.\<close>

definition announcesFrom :: "node \<Rightarrow> int \<Rightarrow> bool" where
  "announcesFrom N m \<longleftrightarrow> (\<forall>h. nd_header N h \<longrightarrow> (\<exists>n \<ge> m. headerNumber h = Some n))"

definition laterOnly :: "node \<Rightarrow> bool \<Rightarrow> int \<Rightarrow> message \<Rightarrow> bool" where
  "laterOnly N g m x \<longleftrightarrow> (\<exists>e. x = WatchError e) \<or> (\<exists>i \<ge> m. showsBlock N g i x)"

fun taskFrom :: "node \<Rightarrow> bool \<Rightarrow> int \<Rightarrow> task \<Rightarrow> bool" where
  "taskFrom N g m (AwaitBlock t n a) = (n \<ge> m \<and> (\<forall>k h. a = ThenHeader k h \<longrightarrow> headerOk N k h))"
| "taskFrom N g m (HaveBlock t n p a) = (n \<ge> m \<and> showsBlock N g n (NextBlock p) \<and> (\<forall>k h. a = ThenHeader k h \<longrightarrow> headerOk N k h))"
| "taskFrom N g m (AwaitLatest a) = (\<forall>k h. a = ThenHeader k h \<longrightarrow> headerOk N k h)"
| "taskFrom N g m (EmittedAll a) = (\<forall>k h. a = ThenHeader k h \<longrightarrow> headerOk N k h)"
| "taskFrom N g m (AwaitFullBlock n) = (g \<and> (\<exists>i \<ge> m. n = Some i))"
| "taskFrom N g m (HaveProgress n p) = (\<exists>i \<ge> m. n = Some i \<and> showsBlock N g i (NextBlock p))"
| "taskFrom N g m _ = True"

definition watchesOnlyFrom :: "node \<Rightarrow> bool \<Rightarrow> int \<Rightarrow> message list \<Rightarrow> watcher \<Rightarrow> bool" where
  "watchesOnlyFrom N g m ms w \<longleftrightarrow> wb_isGetBlockData w = g \<and> (\<exists>l \<ge> m - 1. wb_lastSeenBlock w = Some l)
     \<and> (\<forall>t \<in> set (wb_tasks w). taskFrom N g m t) \<and> (\<exists>new. wb_sent w = ms @ new \<and> list_all (laterOnly N g m) new)"

definition continuesFrom :: "node \<Rightarrow> bool \<Rightarrow> int \<Rightarrow> message list \<Rightarrow> watcher \<Rightarrow> task list \<times> watcher \<Rightarrow> bool" where
  "continuesFrom N g m ms w r \<longleftrightarrow> (case r of (ts, w') \<Rightarrow> wb_tasks w' = wb_tasks w \<and> watchesOnlyFrom N g m ms w' \<and> (\<forall>t \<in> set ts. taskFrom N g m t))"

lemma from_tasks: "watchesOnlyFrom N g m ms w \<Longrightarrow> (\<And>t. t \<in> set us \<Longrightarrow> taskFrom N g m t) \<Longrightarrow> watchesOnlyFrom N g m ms (w\<lparr>wb_tasks := us\<rparr>)"
  by (simp add: watchesOnlyFrom_def)

lemma from_begins:
  assumes "continuesFrom N g m ms w (f w)"
  shows "watchesOnlyFrom N g m ms (begins f w)"
proof -
  obtain ts w' where f: "f w = (ts, w')" by (cases "f w")
  then have "\<And>t. t \<in> set (wb_tasks w' @ ts) \<Longrightarrow> taskFrom N g m t" "watchesOnlyFrom N g m ms w'"
    using assms by (auto simp: continuesFrom_def watchesOnlyFrom_def)
  then show ?thesis using f by (auto simp: begins_def start_def intro: from_tasks)
qed

lemma from_goOn:
  assumes "continuesFrom N g m ms w (f w)"
  shows "watchesOnlyFrom N g m ms (goOn i f w)"
proof -
  obtain ts w' where f: "f w = (ts, w')" by (cases "f w")
  let ?us = "take i (wb_tasks w) @ ts @ drop (Suc i) (wb_tasks w)"
  have "\<And>t. t \<in> set ?us \<Longrightarrow> taskFrom N g m t" "watchesOnlyFrom N g m ms w'"
    using assms f by (auto simp: continuesFrom_def watchesOnlyFrom_def dest: in_set_takeD in_set_dropD)
  then show ?thesis using f by (auto simp: goOn_def intro: from_tasks)
qed

lemma from_emit: "watchesOnlyFrom N g m ms w \<Longrightarrow> laterOnly N g m x \<Longrightarrow> watchesOnlyFrom N g m ms (emitMessage x w)"
  by (auto simp: watchesOnlyFrom_def emitMessage_def)

lemma from_emitLoop:
  assumes "watchesOnlyFrom N g m ms w'" "wb_tasks w' = wb_tasks w" "\<forall>k h. a = ThenHeader k h \<longrightarrow> headerOk N k h"
  shows "continuesFrom N g m ms w (emitLoop t a w')"
  using assms by (auto simp: continuesFrom_def emitLoop_def watchesOnlyFrom_def split: if_splits)

lemma from_nextOfHeader:
  "announcesFrom N m \<Longrightarrow> headerOk N n h \<Longrightarrow> wb_isGetBlockData w = g \<Longrightarrow> t \<in> set (nextOfHeader n h w) \<Longrightarrow> taskFrom N g m t"
  by (fastforce simp: nextOfHeader_def announcesFrom_def headerOk_def showsBlock_def split: if_splits)

lemma from_step:
  assumes "announcesFrom N m" "m \<ge> 1" "watchesOnlyFrom N g m ms w" "watch_step N w w'"
  shows "watchesOnlyFrom N g m ms w'"
proof -
  have task: "taskFrom N g m t" if "taskAt i w = Some t" for i t
    using taskAt_in [OF that] assms(3) by (auto simp: watchesOnlyFrom_def)
  have un: "continuesFrom N g m ms v (unsubscribe r v)" if "watchesOnlyFrom N g m ms v" for r v
    using that by (cases "wb_kind v")
      (auto simp: continuesFrom_def watchesOnlyFrom_def unsubscribe_def clearMonitoringInterval_def endSubscription_def afterUnsubscribe_def)
  have bw: "continuesFrom N g m ms w (beginWatching w)"
    using assms(3) by (cases "wb_kind w") (auto simp: continuesFrom_def watchesOnlyFrom_def beginWatching_def Let_def)
  from assms(4) show ?thesis
  proof cases
    case subscribes
    then show ?thesis using un [OF assms(3)] bw by (auto simp: subscribe_def intro!: from_begins)
  next
    case unsubscribes
    then show ?thesis using un [OF assms(3)] by (auto intro!: from_begins)
  next
    case disconnects
    have "watchesOnlyFrom N g m ms (w\<lparr>wb_disconnected := True\<rparr>)" using assms(3) by (simp add: watchesOnlyFrom_def)
    then show ?thesis using disconnects un by (auto intro!: from_begins)
  next
    case timer
    then show ?thesis using assms(3) by (auto simp: start_def watchesOnlyFrom_def)
  next
    case (header h)
    have "wb_isGetBlockData w = g" using assms(3) by (simp add: watchesOnlyFrom_def)
    moreover have "headerOk N (headerNumber h) h" using header by (simp add: headerOk_def)
    ultimately have "t \<in> set (nextOfHeader (headerNumber h) h w) \<Longrightarrow> taskFrom N g m t" for t
      using from_nextOfHeader [OF assms(1)] by blast
    then show ?thesis using header assms(3) \<open>headerOk N (headerNumber h) h\<close>
      by (auto simp: onHeader_def Let_def start_def watchesOnlyFrom_def)
  next
    case (stream_fails e)
    then show ?thesis using un [OF from_emit [OF assms(3)]] by (auto simp: laterOnly_def intro!: from_begins)
  next
    case (latest i a n)
    have "wb_lastSeenBlock w \<noteq> Some LAST_SEEN_LATEST_BLOCK" using assms(2,3) by (auto simp: watchesOnlyFrom_def LAST_SEEN_LATEST_BLOCK_def)
    then show ?thesis using latest task [OF latest(2)] assms(3)
      by (auto simp: onLatest_def intro!: from_goOn from_emitLoop)
  next
    case (block i t n a b)
    then have "continuesFrom N g m ms w (onBlock t n a b w)" using task [OF block(2)] assms(3)
      by (auto simp: continuesFrom_def onBlock_def showsBlock_def watchesOnlyFrom_def split: sum.splits)
    then show ?thesis using block by (simp add: from_goOn)
  next
    case (pushes i t n p a)
    then have t: "n \<ge> m" "showsBlock N g n (NextBlock p)" "\<forall>k h. a = ThenHeader k h \<longrightarrow> headerOk N k h" using task [OF pushes(2)] by auto
    then have "watchesOnlyFrom N g m ms ((emitMessage (NextBlock p) w)\<lparr>wb_lastSeenBlock := Some n\<rparr>)"
      using from_emit [OF assms(3), of "NextBlock p"] by (auto simp: laterOnly_def watchesOnlyFrom_def)
    then have "continuesFrom N g m ms w (emitLoop u a ((emitMessage (NextBlock p) w)\<lparr>wb_lastSeenBlock := Some n\<rparr>))" for u
      using t by (intro from_emitLoop) (simp_all add: emitMessage_def)
    moreover have "continuesFrom N g m ms w ([EmittedAll a], w)" using assms(3) t by (simp add: continuesFrom_def)
    ultimately show ?thesis using pushes by (simp add: from_goOn pushBlock_def)
  next
    case (emitted i a)
    then have t: "\<forall>k h. a = ThenHeader k h \<longrightarrow> headerOk N k h" using task [OF emitted(2)] by auto
    have "wb_isGetBlockData w = g" using assms(3) by (simp add: watchesOnlyFrom_def)
    then have "continuesFrom N g m ms w (afterAll a w)" using t assms(3) from_nextOfHeader [OF assms(1)]
      by (cases a) (auto simp: continuesFrom_def afterAll_def)
    then show ?thesis using emitted by (simp add: from_goOn)
  next
    case (pushes_header i n p)
    then obtain j where "n = Some j" "j \<ge> m" "showsBlock N g j (NextBlock p)" using task [OF pushes_header(2)] by auto
    then have "watchesOnlyFrom N g m ms ((emitMessage (NextBlock p) w)\<lparr>wb_lastSeenBlock := n\<rparr>)"
      using from_emit [OF assms(3), of "NextBlock p"] by (auto simp: laterOnly_def watchesOnlyFrom_def)
    then have "continuesFrom N g m ms w (pushHeader n p w)" by (simp add: pushHeader_def emitMessage_def continuesFrom_def)
    then show ?thesis using pushes_header by (simp add: from_goOn)
  next
    case (full_block i n b)
    then have "continuesFrom N g m ms w (onFullBlock n b w)" using task [OF full_block(2)] assms(3)
      by (auto simp: continuesFrom_def onFullBlock_def showsBlock_def blockProgress_def watchesOnlyFrom_def split: sum.splits)
    then show ?thesis using full_block by (simp add: from_goOn)
  next
    case (subscribed i)
    have "continuesFrom N g m ms w (onSubscription w)" using assms(3) by (simp add: continuesFrom_def watchesOnlyFrom_def onSubscription_def)
    then show ?thesis using subscribed by (simp add: from_goOn)
  next
    case (unsubscribed i r ok)
    have "continuesFrom N g m ms w (onUnsubscribed ok r w)" using assms(3)
      by (simp add: continuesFrom_def watchesOnlyFrom_def onUnsubscribed_def endSubscription_def afterUnsubscribe_def)
    then show ?thesis using unsubscribed by (simp add: from_goOn)
  next
    case (rejected i t)
    have "continuesFrom N g m ms w ([], w)" using assms(3) by (simp add: continuesFrom_def)
    then show ?thesis using rejected by (simp add: from_goOn)
  qed (use bw in \<open>simp add: from_goOn\<close>)
qed

text \<open>A run from a state.\<close>

definition leadsTo :: "node \<Rightarrow> watcher \<Rightarrow> watcher \<Rightarrow> bool" where
  "leadsTo N w w' \<longleftrightarrow> reaches (\<lambda>v. v = w) (watch_step N) w'"

lemma leadsTo_refl [simp]: "leadsTo N w w"
  by (simp add: leadsTo_def reaches.starts)

lemma leadsTo_step: "leadsTo N w v \<Longrightarrow> watch_step N v w' \<Longrightarrow> leadsTo N w w'"
  unfolding leadsTo_def by (rule reaches.steps)

lemma leadsTo_trans: "leadsTo N v w \<Longrightarrow> leadsTo N u v \<Longrightarrow> leadsTo N u w"
  unfolding leadsTo_def by (induction rule: reaches.induct) (auto intro: reaches.steps)

lemma leadsTo_from:
  assumes "announcesFrom N m" "m \<ge> 1" "watchesOnlyFrom N g m ms w" "leadsTo N w w'"
  shows "watchesOnlyFrom N g m ms w'"
  using assms(4) unfolding leadsTo_def by (rule reaches_invariant) (use assms(3) from_step [OF assms(1,2)] in auto)

text \<open>
  C31. A single skipped block can be lost for good. From every state in which a watcher with a subscription is idle, the node announces
  the block two after the last one seen, and announces none before that one any more, there is a run in which the watcher
  shows this block and after which no continuation whatever shows the block in between: the watcher
  looks for missing blocks only when the difference exceeds two. In other runs, in which the next header
  arrives while this block is still being fetched, the block in between may be found.
\<close>

theorem single_gap_lost:
  assumes "wb_streams w > 0" "wb_tasks w = []" "wb_lastSeenBlock w = Some l" "l \<ge> 0"
    and "nd_header N h" "headerNumber h = Some (l + 2)" "announcesFrom N (l + 2)"
    and "nd_block N (l + 2) b" "blockProgress True b = Inr p"
  shows "\<exists>v. leadsTo N w v \<and> wb_lastSeenBlock v = Some (l + 2) \<and> wb_tasks v = []
    \<and> wb_sent v = wb_sent w @ [NextBlock (if wb_isGetBlockData w then p else headerDataToBlockProgress h)]
    \<and> (\<forall>w'. leadsTo N v w' \<longrightarrow> (\<exists>new. wb_sent w' = wb_sent v @ new \<and> list_all (laterOnly N (wb_isGetBlockData w) (l + 2)) new))"
proof -
  let ?g = "wb_isGetBlockData w"
  let ?p = "if ?g then p else headerDataToBlockProgress h"
  let ?v = "w\<lparr>wb_sent := wb_sent w @ [NextBlock ?p], wb_lastSeenBlock := Some (l + 2), wb_tasks := []\<rparr>"
  let ?u = "w\<lparr>wb_tasks := [HaveProgress (Some (l + 2)) ?p]\<rparr>"
  have h: "onHeader h w = w\<lparr>wb_tasks := nextOfHeader (Some (l + 2)) h w\<rparr>"
    using assms(2,3,6) by (simp add: onHeader_def isMissing_def start_def)
  have 1: "leadsTo N w (onHeader h w)" by (rule leadsTo_step [OF leadsTo_refl]) (rule watch_step.header [OF assms(1,5)])
  have 2: "leadsTo N w ?u"
  proof (cases ?g)
    case True
    then have "taskAt 0 (onHeader h w) = Some (AwaitFullBlock (Some (l + 2)))" by (simp add: h nextOfHeader_def taskAt_def)
    then have "watch_step N (onHeader h w) (goOn 0 (onFullBlock (Some (l + 2)) b) (onHeader h w))"
      using assms(8) by (intro watch_step.full_block) auto
    moreover have "goOn 0 (onFullBlock (Some (l + 2)) b) (onHeader h w) = ?u"
      using True assms(9) by (simp add: h goOn_def onFullBlock_def nextOfHeader_def blockProgress_def)
    ultimately show ?thesis using leadsTo_step [OF 1] by simp
  next
    case False
    then show ?thesis using 1 by (simp add: h nextOfHeader_def)
  qed
  have 3: "watch_step N ?u (goOn 0 (pushHeader (Some (l + 2)) ?p) ?u)"
    by (rule watch_step.pushes_header) (simp add: taskAt_def)
  have "goOn 0 (pushHeader (Some (l + 2)) ?p) ?u = ?v" by (simp add: goOn_def pushHeader_def emitMessage_def)
  with leadsTo_step [OF 2 3] have v: "leadsTo N w ?v" by (simp only:)
  have start: "watchesOnlyFrom N ?g (l + 2) (wb_sent ?v) ?v" by (simp add: watchesOnlyFrom_def)
  have "\<exists>new. wb_sent w' = wb_sent ?v @ new \<and> list_all (laterOnly N ?g (l + 2)) new" if "leadsTo N ?v w'" for w'
    using leadsTo_from [OF assms(7) _ start that] assms(4) by (simp add: watchesOnlyFrom_def)
  then show ?thesis using v by (intro exI [of _ ?v]) simp
qed

section \<open>Overlapping rounds\<close>

text \<open>
  When the second round of a poller begins before the first has ended, the same block is shown twice.
\<close>

lemma overlapping_rounds_repeat:
  assumes "wb_kind w = HttpPoll" "wb_intervals w \<noteq> []" "isSubscribed w" "wb_tasks w = []" "wb_lastSeenBlock w = Some l" "l \<ge> 0"
    and "nd_latest N RoundDone (l + 1)" "nd_block N (l + 1) b" "blockProgress (wb_isGetBlockData w) b = Inr p"
  shows "\<exists>w'. leadsTo N w w' \<and> wb_sent w' = wb_sent w @ [NextBlock p, NextBlock p] \<and> wb_lastSeenBlock w' = Some (l + 1)"
proof -
  let ?t = "\<lambda>ts. w\<lparr>wb_tasks := ts\<rparr>"
  let ?s = "\<lambda>n ts. w\<lparr>wb_sent := wb_sent w @ replicate n (NextBlock p), wb_lastSeenBlock := Some (l + 1), wb_tasks := ts\<rparr>"
  note defs = goOn_def taskAt_def onLatest_def emitLoop_def LAST_SEEN_LATEST_BLOCK_def onBlock_def pushBlock_def emitMessage_def isSubscribed_def
    start_def
  have "leadsTo N w (?t [AwaitLatest RoundDone])"
    using leadsTo_step [OF leadsTo_refl watch_step.timer [OF assms(2)]] assms(4) by (simp add: start_def)
  then have "leadsTo N w (?t [AwaitLatest RoundDone, AwaitLatest RoundDone])"
    by (rule leadsTo_step) (use watch_step.timer [of "?t [AwaitLatest RoundDone]" N] assms(2) in \<open>simp add: start_def\<close>)
  then have "leadsTo N w (?t [AwaitBlock (l + 1) (l + 1) RoundDone, AwaitLatest RoundDone])"
    by (rule leadsTo_step) (use watch_step.latest [of 0 "?t [AwaitLatest RoundDone, AwaitLatest RoundDone]" RoundDone N "l + 1"] assms in
      \<open>simp add: defs\<close>)
  then have "leadsTo N w (?t [AwaitBlock (l + 1) (l + 1) RoundDone, AwaitBlock (l + 1) (l + 1) RoundDone])"
    by (rule leadsTo_step) (use watch_step.latest [of 1 "?t [AwaitBlock (l + 1) (l + 1) RoundDone, AwaitLatest RoundDone]" RoundDone N "l + 1"] assms in
      \<open>simp add: defs\<close>)
  then have "leadsTo N w (?t [HaveBlock (l + 1) (l + 1) p RoundDone, AwaitBlock (l + 1) (l + 1) RoundDone])"
    by (rule leadsTo_step) (use watch_step.block [of 0 "?t [AwaitBlock (l + 1) (l + 1) RoundDone, AwaitBlock (l + 1) (l + 1) RoundDone]" "l + 1" "l + 1" RoundDone N b] assms in
      \<open>simp add: defs\<close>)
  then have "leadsTo N w (?t [HaveBlock (l + 1) (l + 1) p RoundDone, HaveBlock (l + 1) (l + 1) p RoundDone])"
    by (rule leadsTo_step) (use watch_step.block [of 1 "?t [HaveBlock (l + 1) (l + 1) p RoundDone, AwaitBlock (l + 1) (l + 1) RoundDone]" "l + 1" "l + 1" RoundDone N b] assms in
      \<open>simp add: defs\<close>)
  then have "leadsTo N w (?s 1 [EmittedAll RoundDone, HaveBlock (l + 1) (l + 1) p RoundDone])"
    by (rule leadsTo_step) (use watch_step.pushes [of 0 "?t [HaveBlock (l + 1) (l + 1) p RoundDone, HaveBlock (l + 1) (l + 1) p RoundDone]" "l + 1" "l + 1" p RoundDone N] assms in
      \<open>simp add: defs\<close>)
  then have "leadsTo N w (?s 2 [EmittedAll RoundDone, EmittedAll RoundDone])"
    by (rule leadsTo_step) (use watch_step.pushes [of 1 "?s 1 [EmittedAll RoundDone, HaveBlock (l + 1) (l + 1) p RoundDone]" "l + 1" "l + 1" p RoundDone N] assms in
      \<open>simp add: defs numeral_2_eq_2\<close>)
  then show ?thesis by (intro exI conjI) (assumption, simp_all add: numeral_2_eq_2)
qed

section \<open>Clients that are gone\<close>

text \<open>
  A client that disconnects while the watcher still looks for the blocks it missed does not end the subscription: it is
  opened after that, and every header is pushed to the closed socket.
\<close>

lemma disconnected_watcher_streams:
  assumes "w = begins subscribe (createWatchBlocksV1Endpoint True opts)" "nd_latest N ThenSubscribe m"
    and "wb_lastSeenBlock w = Some l" "l = -1 \<or> m \<le> l"
  shows "\<exists>v. leadsTo N w v \<and> wb_disconnected v \<and> \<not> isSubscribed v \<and> wb_tasks v = [] \<and> wb_streams v = 1"
proof -
  let ?d = "begins (unsubscribe False) (w\<lparr>wb_disconnected := True\<rparr>)"
  note defs = begins_def subscribe_def unsubscribe_def createWatchBlocksV1Endpoint_def isSubscribed_def beginWatching_def start_def
    endSubscription_def afterUnsubscribe_def goOn_def taskAt_def onLatest_def emitLoop_def LAST_SEEN_LATEST_BLOCK_def afterAll_def onSubscription_def
  let ?e = "goOn 0 (onLatest m ThenSubscribe) ?d"
  let ?f = "goOn 0 (afterAll ThenSubscribe) ?e"
  have "leadsTo N w ?d" by (rule leadsTo_step [OF leadsTo_refl watch_step.disconnects])
  moreover have "watch_step N ?d ?e" using assms(1,2) by (intro watch_step.latest) (simp_all add: defs)
  moreover have "watch_step N ?e ?f" using assms by (intro watch_step.emitted) (auto simp: defs)
  moreover have "watch_step N ?f (goOn 0 onSubscription ?f)" using assms by (intro watch_step.subscribed) (auto simp: defs)
  ultimately have "leadsTo N w (goOn 0 onSubscription ?f)" by (meson leadsTo_step)
  moreover have "wb_disconnected (goOn 0 onSubscription ?f) \<and> \<not> isSubscribed (goOn 0 onSubscription ?f)
      \<and> wb_tasks (goOn 0 onSubscription ?f) = [] \<and> wb_streams (goOn 0 onSubscription ?f) = 1"
    using assms by (auto simp: defs)
  ultimately show ?thesis by blast
qed

section \<open>Examples\<close>

definition demoHeader :: "int \<Rightarrow> (string \<times> json) list" where
  "demoHeader n = [(''number'', JNum n)]"

definition demoChainNode :: node where
  "demoChainNode = \<lparr>nd_block = (\<lambda>n b. b = Some (JObj (demoHeader n))), nd_latest = (\<lambda>a n. a = RoundDone \<and> n = 1),
     nd_header = (\<lambda>h. h = demoHeader 2)\<rparr>"

definition demoPush :: json where
  "demoPush = JObj [(''blockData'', JObj [(''number'', JNum 1), (''transactions'', JArr [])])]"

definition demoPoller :: "task list \<Rightarrow> watcher" where
  "demoPoller ts = (begins subscribe (createWatchBlocksV1Endpoint False
     (Some \<lparr>wo_getBlockData = Some True, wo_lastSeenBlock = Some 0, wo_httpPollInterval = None\<rparr>)))\<lparr>wb_tasks := ts\<rparr>"

definition demoPolled :: watcher where
  "demoPolled = (demoPoller [EmittedAll RoundDone])\<lparr>wb_sent := [NextBlock demoPush], wb_lastSeenBlock := Some 1\<rparr>"

lemmas demoPoller_defs = demoPoller_def demoPolled_def demoChainNode_def demoHeader_def demoPush_def begins_def subscribe_def start_def
  beginWatching_def createWatchBlocksV1Endpoint_def isSubscribed_def goOn_def taskAt_def

lemma demo_poll_steps:
  "watch_step demoChainNode (demoPoller []) (demoPoller [AwaitLatest RoundDone])"
  "watch_step demoChainNode (demoPoller [AwaitLatest RoundDone]) (demoPoller [AwaitBlock 1 1 RoundDone])"
  "watch_step demoChainNode (demoPoller [AwaitBlock 1 1 RoundDone]) (demoPoller [HaveBlock 1 1 demoPush RoundDone])"
  "watch_step demoChainNode (demoPoller [HaveBlock 1 1 demoPush RoundDone]) demoPolled"
proof -
  show "watch_step demoChainNode (demoPoller []) (demoPoller [AwaitLatest RoundDone])"
    using watch_step.timer [of "demoPoller []" demoChainNode] by (simp add: demoPoller_defs Let_def)
  show "watch_step demoChainNode (demoPoller [AwaitLatest RoundDone]) (demoPoller [AwaitBlock 1 1 RoundDone])"
    using watch_step.latest [of 0 "demoPoller [AwaitLatest RoundDone]" RoundDone demoChainNode 1]
    by (simp add: demoPoller_defs Let_def onLatest_def emitLoop_def LAST_SEEN_LATEST_BLOCK_def)
  show "watch_step demoChainNode (demoPoller [AwaitBlock 1 1 RoundDone]) (demoPoller [HaveBlock 1 1 demoPush RoundDone])"
    using watch_step.block [of 0 "demoPoller [AwaitBlock 1 1 RoundDone]" 1 1 RoundDone demoChainNode "Some (JObj (demoHeader 1))"]
    by (simp add: demoPoller_defs Let_def onBlock_def blockProgress_def fullBlockProgress_def fieldsOf_def setField_def isNullish_def)
  show "watch_step demoChainNode (demoPoller [HaveBlock 1 1 demoPush RoundDone]) demoPolled"
    using watch_step.pushes [of 0 "demoPoller [HaveBlock 1 1 demoPush RoundDone]" 1 1 demoPush RoundDone demoChainNode]
    by (simp add: demoPoller_defs Let_def pushBlock_def emitMessage_def emitLoop_def)
qed

lemma demo_poll_run:
  assumes "init (demoPoller [])" "\<And>v v'. watch_step demoChainNode v v' \<Longrightarrow> wb_kind v = HttpPoll \<Longrightarrow> length (wb_tasks v') \<le> 1 \<Longrightarrow> step v v'"
  shows "reaches init step demoPolled"
proof -
  have "reaches init step (demoPoller [])" using assms(1) by (rule reaches.starts)
  then have "reaches init step (demoPoller [AwaitLatest RoundDone])"
    by (rule reaches.steps) (rule assms(2) [OF demo_poll_steps(1)], simp_all add: demoPoller_defs Let_def)
  then have "reaches init step (demoPoller [AwaitBlock 1 1 RoundDone])"
    by (rule reaches.steps) (rule assms(2) [OF demo_poll_steps(2)], simp_all add: demoPoller_defs Let_def)
  then have "reaches init step (demoPoller [HaveBlock 1 1 demoPush RoundDone])"
    by (rule reaches.steps) (rule assms(2) [OF demo_poll_steps(3)], simp_all add: demoPoller_defs Let_def)
  then show ?thesis
    by (rule reaches.steps) (rule assms(2) [OF demo_poll_steps(4)], simp_all add: demoPoller_defs Let_def)
qed

theorem watched_blocks_shown_witness: "seen demoChainNode True (wb_sent demoPolled) 1"
proof -
  have "honestNode demoChainNode" by (auto simp: honestNode_def demoChainNode_def demoHeader_def headerNumber_def)
  moreover have "reaches (watchesFrom HttpPoll True 0) (staysSubscribed demoChainNode) demoPolled"
    by (rule demo_poll_run) (simp_all add: watchesFrom_def staysSubscribed_def demoPoller_defs Let_def)
  moreover have "wb_lastSeenBlock demoPolled = Some 1" by (simp add: demoPolled_def)
  ultimately show ?thesis using watched_blocks_shown [of demoChainNode 0 HttpPoll True demoPolled 1 1] by simp
qed

theorem polls_in_order_witness: "list_all2 (showsBlock demoChainNode True) [1] (wb_sent demoPolled)"
proof -
  have "reaches (pollsFrom True 0) (oneAtATime demoChainNode) demoPolled"
    by (rule demo_poll_run) (simp_all add: pollsFrom_def oneAtATime_def demoPoller_defs Let_def)
  moreover have "wb_lastSeenBlock demoPolled = Some 1" by (simp add: demoPolled_def)
  ultimately show ?thesis using polls_in_order [of 0 True demoChainNode demoPolled] by auto
qed

theorem single_gap_lost_witness:
  "\<exists>v. leadsTo demoChainNode ((createWatchBlocksV1Endpoint True None)\<lparr>wb_lastSeenBlock := Some 0, wb_streams := 1\<rparr>) v
     \<and> wb_lastSeenBlock v = Some 2 \<and> wb_sent v = [NextBlock (JObj [(''blockHeader'', JObj [(''number'', JNum 2)])])]"
proof -
  let ?w = "(createWatchBlocksV1Endpoint True None)\<lparr>wb_lastSeenBlock := Some 0, wb_streams := 1\<rparr>"
  have "announcesFrom demoChainNode (0 + 2)" by (simp add: announcesFrom_def demoChainNode_def demoHeader_def headerNumber_def)
  moreover have "headerNumber (demoHeader 2) = Some (0 + 2)" by (simp add: demoHeader_def headerNumber_def)
  moreover have "nd_header demoChainNode (demoHeader 2)" "nd_block demoChainNode (0 + 2) (Some (JObj (demoHeader 2)))"
    by (simp_all add: demoChainNode_def)
  moreover have "blockProgress True (Some (JObj (demoHeader 2))) = Inr (JObj [(''blockData'', JObj [(''number'', JNum 2), (''transactions'', JArr [])])])"
    by (simp add: blockProgress_def fullBlockProgress_def demoHeader_def fieldsOf_def setField_def isNullish_def)
  moreover have "wb_streams ?w > 0" "wb_tasks ?w = []" "wb_lastSeenBlock ?w = Some 0" "\<not> wb_isGetBlockData ?w" "wb_sent ?w = []"
    by (simp_all add: createWatchBlocksV1Endpoint_def)
  moreover have "headerDataToBlockProgress (demoHeader 2) = JObj [(''blockHeader'', JObj [(''number'', JNum 2)])]"
    by (simp add: headerDataToBlockProgress_def demoHeader_def setField_def)
  ultimately show ?thesis using single_gap_lost [of ?w 0 demoChainNode "demoHeader 2"] by fastforce
qed

end
