(* ===== verification/Ethereum_Connector_Properties.thy ===== *)
theory Ethereum_Connector_Properties
  imports Ethereum_Connector Connector_Frame Watch_Blocks_Properties
begin

text \<open>
  Properties of the Ethereum connector: the argument check of a raw invocation, the fees of a transaction, the wait for a receipt,
  deployments through a keychain, and the end of the watchers when the connector shuts down.
\<close>

section \<open>Raw invocations\<close>

lemma foldR_Inl:
  assumes "\<And>acc x. f acc x = Inr () \<or> (\<exists>e. f acc x = Inl e)" "x \<in> set xs" "\<And>acc. \<exists>e. f acc x = Inl e"
  shows "\<exists>e. foldR f acc xs = Inl e"
  using assms(2)
proof (induction xs arbitrary: acc)
  case (Cons y ys)
  show ?case
  proof (cases "f acc y")
    case (Inr u)
    then have "y \<noteq> x" using assms(3) by (metis sum.distinct(1))
    then show ?thesis using Cons Inr by simp
  qed simp
qed simp

lemma typeOf_cases: "typeOf a \<in> {''boolean'', ''number'', ''string'', ''object''}"
  by (cases a) (simp_all add: typeOf_def)

lemma checkArguments_type:
  assumes "t \<in> set inputs" "t \<notin> {''boolean'', ''number'', ''string'', ''object''}"
  shows "\<exists>e. checkArguments name inputs args = Inl e"
proof (cases "length inputs = length args")
  case True
  obtain i where i: "i < length inputs" "inputs ! i = t" using assms(1) by (auto simp: in_set_conv_nth)
  then have "(i, t, args ! i) \<in> set (zip [0..<length inputs] (zip inputs args))"
    using True by (auto simp: in_set_conv_nth intro!: exI [of _ i])
  moreover have "typeOf (args ! i) \<noteq> t" using typeOf_cases [of "args ! i"] assms(2) by metis
  ultimately show ?thesis using True unfolding checkArguments_def
    by (simp, intro foldR_Inl) (auto split: prod.split)
qed (simp add: checkArguments_def)

text \<open>
  C35. A raw invocation of a contract compares the JavaScript type of each argument with the Solidity type of the parameter. A method that has a
  parameter of any type but \<open>string\<close>, whose name the two languages share, such as \<open>address\<close> or \<open>uint256\<close>, cannot be invoked: whatever the
  arguments, the request is refused before the node is asked.
\<close>

theorem raw_invocation_refused:
  assumes "e3_getFunction W (rc_abi req) (rc_contractMethod req) = Inr (Some inputs)"
    and "t \<in> set inputs" "t \<notin> {''boolean'', ''number'', ''string'', ''object''}"
  shows "\<exists>e. invokeRawWeb3EthContract W req w = (Throws e, w)"
proof -
  obtain e where "checkArguments (rc_contractMethod req) inputs
      (case rc_contractMethodArgs req of None \<Rightarrow> [] | Some as \<Rightarrow> as) = Inl e"
    using checkArguments_type [OF assms(2,3)] by blast
  then show ?thesis using assms(1)
    by (simp add: invokeRawWeb3EthContract_def ethContractA_def ethIsSafeToCallContractMethod_def run_defs Let_def
        split: sum.split)
qed

section \<open>Fees\<close>

lemma intToString_nonempty: "intToString n \<noteq> ''''"
  using parseInt_intToString [of n] by (auto simp: parseInt_def simp del: parseInt_intToString)

lemma estimate_nonempty: "estimateMaxFeePerGas W p w = (Returns f, w') \<Longrightarrow> f \<noteq> ''''"
  unfolding estimateMaxFeePerGas_def bindA_Returns
  by (elim exE conjE) (auto simp: throwE_def ret_def intToString_nonempty split: option.splits if_splits)

text \<open>
  The fees of a transaction: a configuration that mixes the two modes is refused; the price of the old mode serves as both fees; a
  transaction with a fee for the miner always has a maximal fee; the limit is never left out; nothing else of the
  configuration changes.
\<close>

theorem gas_config_applied:
  assumes "getTransactionFromTxConfig W c w = (Returns tx, w')"
  shows "tx\<lparr>tx_maxPriorityFeePerGas := None, tx_maxFeePerGas := None, tx_gasLimit := None\<rparr> = plainTransaction c
    \<and> (given (tx_maxPriorityFeePerGas tx) \<longrightarrow> given (tx_maxFeePerGas tx)) \<and> tx_gasLimit tx \<noteq> None
    \<and> (\<forall>g. et_gasConfig c = Some g \<longrightarrow> \<not> (isGasTransactionConfigLegacy g \<and> isGasTransactionConfigEIP1559 g)
      \<and> tx_maxPriorityFeePerGas tx = (if isGasTransactionConfigLegacy g then gc_gasPrice g else gc_maxPriorityFeePerGas g)
      \<and> (isGasTransactionConfigLegacy g \<longrightarrow> tx_maxFeePerGas tx = gc_gasPrice g)
      \<and> (given (gc_maxFeePerGas g) \<longrightarrow> tx_maxFeePerGas tx = gc_maxFeePerGas g))"
proof -
  obtain t w1 t' w2 where t: "applyGasConfig (et_gasConfig c) (plainTransaction c) = Inr t"
      and t': "(if given (tx_maxPriorityFeePerGas t) \<and> \<not> given (tx_maxFeePerGas t)
        then bindA (estimateMaxFeePerGas W (the (tx_maxPriorityFeePerGas t))) (\<lambda>f. ret (t\<lparr>tx_maxFeePerGas := Some f\<rparr>)) else ret t) w1
        = (Returns t', w2)"
      and tx: "(if noNumber (tx_gasLimit t')
        then bindA (libraryA (e3_estimateGas W t')) (\<lambda>n. ret (t'\<lparr>tx_gasLimit := Some (Inr n)\<rparr>)) else ret t') w2 = (Returns tx, w')"
    using assms unfolding getTransactionFromTxConfig_def by (auto simp only: bindA_Returns liftR_Returns)
  obtain l where limit: "tx = t'\<lparr>tx_gasLimit := l\<rparr>" "l \<noteq> None"
    using tx that [of "tx_gasLimit tx"] by (auto simp: returns noNumber_def split: if_splits)
  obtain f where fee: "t' = t\<lparr>tx_maxFeePerGas := f\<rparr>" "given (tx_maxPriorityFeePerGas t) \<longrightarrow> given f"
      "given (tx_maxFeePerGas t) \<or> \<not> given (tx_maxPriorityFeePerGas t) \<Longrightarrow> f = tx_maxFeePerGas t"
    using t' that [of "tx_maxFeePerGas t'"]
    by (auto simp: returns given_def dest: estimate_nonempty split: if_splits)
  have config: "t\<lparr>tx_maxPriorityFeePerGas := None, tx_maxFeePerGas := None, tx_gasLimit := None\<rparr> = plainTransaction c"
    using t by (auto simp: applyGasConfig_def plainTransaction_def split: option.splits if_splits)
  have g: "\<not> (isGasTransactionConfigLegacy g \<and> isGasTransactionConfigEIP1559 g)"
      "tx_maxPriorityFeePerGas t = (if isGasTransactionConfigLegacy g then gc_gasPrice g else gc_maxPriorityFeePerGas g)"
      "tx_maxFeePerGas t = (if isGasTransactionConfigLegacy g then gc_gasPrice g else gc_maxFeePerGas g)"
    if "et_gasConfig c = Some g" for g using t that by (auto simp: applyGasConfig_def split: if_splits)
  have "tx\<lparr>tx_maxPriorityFeePerGas := None, tx_maxFeePerGas := None, tx_gasLimit := None\<rparr> = plainTransaction c"
    using config by (simp add: limit(1) fee(1))
  moreover have "tx_maxFeePerGas tx = gc_gasPrice g" if "et_gasConfig c = Some g" "isGasTransactionConfigLegacy g" for g
    using g [OF that(1)] that(2) fee(3) by (auto simp: limit(1) fee(1))
  moreover have "tx_maxFeePerGas tx = gc_maxFeePerGas g" if "et_gasConfig c = Some g" "given (gc_maxFeePerGas g)" for g
  proof -
    have "isGasTransactionConfigEIP1559 g" using that(2) by (simp add: isGasTransactionConfigEIP1559_def given_def)
    then show ?thesis using g [OF that(1)] that(2) fee(3) by (simp add: limit(1) fee(1))
  qed
  ultimately show ?thesis using g(1,2) fee(2) limit(2) by (simp add: limit(1) fee(1))
qed

section \<open>The wait for a receipt\<close>

text \<open>Time does not go back, and a timer takes at least its time.\<close>

definition ethClockRuns :: "'x ethWeb3 \<Rightarrow> bool" where
  "ethClockRuns W \<longleftrightarrow> (\<forall>ms x. e3_now W x + ms \<le> e3_now W (e3_setTimeout W ms x))
     \<and> (\<forall>h x. e3_now W x \<le> e3_now W (snd (e3_getTransactionReceipt W h x)))"

lemma ethClockRunsD:
  assumes "ethClockRuns W" "e3_getTransactionReceipt W h x = (r, x')"
  shows "e3_now W x + ms \<le> e3_now W (e3_setTimeout W ms x')"
proof -
  have "e3_now W x \<le> e3_now W x'" using assms by (auto simp: ethClockRuns_def) (metis snd_conv)
  moreover have "e3_now W x' + ms \<le> e3_now W (e3_setTimeout W ms x')" using assms(1) by (simp add: ethClockRuns_def)
  ultimately show ?thesis by linarith
qed

text \<open>A round returns the receipt, gives up, goes on at least a second later, or waits for ever.\<close>

lemma ethPollLoop_round:
  "ethPollLoop W (Suc fuel) h s t tries w = (case e3_getTransactionReceipt W h (cw_ext w) of
      (None, x) \<Rightarrow> (Pending, w\<lparr>cw_ext := x\<rparr>)
    | (Some (Inr r), x) \<Rightarrow> (Returns r, w\<lparr>cw_ext := x\<rparr>)
    | (Some (Inl e), x) \<Rightarrow> (let w' = w\<lparr>cw_ext := e3_setTimeout W 1000 x\<rparr> in
        if s + t \<le> e3_now W (cw_ext w') then (Throws (ErrorMsg (''PluginLedgerConnectorEthereum#pollForTxReceipt() Timed out ''
            @ intToString t @ ''ms, polls='' @ natToString (tries + 1))), w')
        else ethPollLoop W fuel h s t (tries + 1) w'))"
  by (cases "e3_getTransactionReceipt W h (cw_ext w)")
    (auto simp: catchA_def libraryA_def never_def liftR_def throwE_def ret_def bindA_def thenA_def getsA_def modifyA_def Let_def
      split: option.split sum.split)

declare ethPollLoop.simps(2) [simp del]

text \<open>The state of the node before each of the requests for a receipt: a second after the one before\<close>

primrec nodeAtPoll :: "'x ethWeb3 \<Rightarrow> string \<Rightarrow> 'x \<Rightarrow> nat \<Rightarrow> 'x" where
  "nodeAtPoll W h x 0 = x"
| "nodeAtPoll W h x (Suc k) = e3_setTimeout W 1000 (snd (e3_getTransactionReceipt W h (nodeAtPoll W h x k)))"

text \<open>The first request that is not refused decides, and the first that is refused when the time is over after it.\<close>

definition decidingPoll :: "'x ethWeb3 \<Rightarrow> string \<Rightarrow> 'x \<Rightarrow> int \<Rightarrow> nat \<Rightarrow> bool" where
  "decidingPoll W h x deadline k \<longleftrightarrow> (\<nexists>e. fst (e3_getTransactionReceipt W h (nodeAtPoll W h x k)) = Some (Inl e))
     \<or> deadline \<le> e3_now W (nodeAtPoll W h x (Suc k))"

definition timedOutAfter :: "int \<Rightarrow> nat \<Rightarrow> jsError" where
  "timedOutAfter t polls = ErrorMsg (''PluginLedgerConnectorEthereum#pollForTxReceipt() Timed out '' @ intToString t @ ''ms, polls=''
     @ natToString polls)"

definition pollResult :: "'x ethWeb3 \<Rightarrow> string \<Rightarrow> 'x ethWorld \<Rightarrow> int \<Rightarrow> nat \<Rightarrow> (jsError, jsv) outcome \<times> 'x ethWorld" where
  "pollResult W h w t k = (case e3_getTransactionReceipt W h (nodeAtPoll W h (cw_ext w) k) of
      (None, x) \<Rightarrow> (Pending, w\<lparr>cw_ext := x\<rparr>)
    | (Some (Inr receipt), x) \<Rightarrow> (Returns receipt, w\<lparr>cw_ext := x\<rparr>)
    | (Some (Inl e), x) \<Rightarrow> (Throws (timedOutAfter t (k + 1)), w\<lparr>cw_ext := nodeAtPoll W h (cw_ext w) (Suc k)\<rparr>))"

lemma nodeAtPoll_later:
  assumes "ethClockRuns W"
  shows "e3_now W x + 1000 * int k \<le> e3_now W (nodeAtPoll W h x k)"
proof (induction k)
  case (Suc k)
  have "e3_now W (nodeAtPoll W h x k) + 1000 \<le> e3_now W (nodeAtPoll W h x (Suc k))"
    using ethClockRunsD [OF assms, of h "nodeAtPoll W h x k"] by (metis nodeAtPoll.simps(2) prod.collapse)
  with Suc.IH show ?case by simp
qed simp

lemma ethPollLoop_result:
  assumes "decidingPoll W h (cw_ext w) (s + t) k" "\<forall>j<k. \<not> decidingPoll W h (cw_ext w) (s + t) j" "j \<le> k" "k < fuel + j"
  shows "ethPollLoop W fuel h s t j (w\<lparr>cw_ext := nodeAtPoll W h (cw_ext w) j\<rparr>) = pollResult W h w t k"
  using assms(3-)
proof (induction fuel arbitrary: j)
  case (Suc fuel)
  obtain r x where r: "e3_getTransactionReceipt W h (nodeAtPoll W h (cw_ext w) j) = (r, x)"
    by (cases "e3_getTransactionReceipt W h (nodeAtPoll W h (cw_ext w) j)")
  show ?case
  proof (cases "j = k")
    case True
    then show ?thesis using assms(1) r
      by (auto simp: ethPollLoop_round pollResult_def decidingPoll_def timedOutAfter_def Let_def split: option.split sum.split)
  next
    case False
    then have "\<not> decidingPoll W h (cw_ext w) (s + t) j" "Suc j \<le> k" using assms(2) Suc.prems(1) by auto
    then obtain e where e: "r = Some (Inl e)" "\<not> s + t \<le> e3_now W (e3_setTimeout W 1000 x)" using r by (auto simp: decidingPoll_def)
    then show ?thesis using Suc.IH [of "Suc j"] Suc.prems(2) \<open>Suc j \<le> k\<close> r by (simp add: ethPollLoop_round Let_def)
  qed
qed simp

text \<open>
  C33. The wait for the receipt of a transaction asks once, and again after each second until the request that decides, and no longer than the
  time given: it returns the receipt as soon as one is answered; it gives up, with the number of the requests, when the time is over; and a request
  that the node never answers is waited for without an end. Every request before was refused, with time left.
\<close>

theorem receipt_wait_decided:
  assumes "ethClockRuns W" "0 < e3_polls W" "t \<le> 1000 * int (e3_polls W)"
  shows "\<exists>k. (k = 0 \<or> 1000 * int k < t) \<and> decidingPoll W h (cw_ext w) (e3_now W (cw_ext w) + t) k
    \<and> (\<forall>j<k. \<not> decidingPoll W h (cw_ext w) (e3_now W (cw_ext w) + t) j)
    \<and> ethPollForTxReceipt W h t w = pollResult W h w t k"
proof -
  let ?d = "decidingPoll W h (cw_ext w) (e3_now W (cw_ext w) + t)"
  have late: "?d k" if "t \<le> 1000 * (int k + 1)" for k
    using nodeAtPoll_later [OF assms(1), of "cw_ext w" "Suc k" h] that by (simp add: decidingPoll_def)
  have "?d (nat t)" by (rule late) simp
  define k where "k = (LEAST k. ?d k)"
  have k: "?d k" unfolding k_def using \<open>?d (nat t)\<close> by (rule LeastI)
  have before: "\<forall>j<k. \<not> ?d j" unfolding k_def by (blast dest: not_less_Least)
  have bound: "k = 0 \<or> 1000 * int k < t"
  proof (cases k)
    case (Suc j)
    then have "\<not> ?d j" using before by simp
    then have "\<not> t \<le> 1000 * (int j + 1)" using late by blast
    then show ?thesis using Suc by simp
  qed simp
  then have "k < e3_polls W" using assms(2,3) by auto
  then have "ethPollForTxReceipt W h t w = pollResult W h w t k"
    using ethPollLoop_result [OF k before, of 0 "e3_polls W"] by (simp add: ethPollForTxReceipt_def bindA_def getsA_def)
  with k before bound show ?thesis by blast
qed

section \<open>Deployments through a keychain\<close>

text \<open>The transactions follow what the primitive operations follow.\<close>

locale eth_frame = world_frame R
  for R :: "'x ethWorld \<Rightarrow> 'x ethWorld \<Rightarrow> bool"
begin

lemma follows_libraryA [follows_intros]: "follows R (libraryA f)"
  by (auto simp: follows_def libraryA_def never_def liftR_def ret_def throwE_def library split: prod.split option.split sum.split)

lemma follows_ethTransactSigned [follows_intros]: "follows R (ethTransactSigned W raw)"
  by (auto simp: ethTransactSigned_def intro!: follows_intros)

lemma follows_getTransaction [follows_intros]: "follows R (getTransactionFromTxConfig W c)"
  by (auto simp: getTransactionFromTxConfig_def estimateMaxFeePerGas_def intro!: follows_intros split: option.split)

lemma follows_ethPollLoop [follows_intros]: "follows R (ethPollLoop W fuel h s t tries)"
  by (induction fuel arbitrary: tries) (auto simp: ethPollLoop.simps(2) intro!: follows_intros)

lemma follows_transactGethKeychain [follows_intros]: "follows R (transactGethKeychain W c secret)"
  by (auto simp: transactGethKeychain_def ethPollForTxReceipt_def intro!: follows_intros)

lemma follows_ethTransactPrivateKey [follows_intros]: "follows R (ethTransactPrivateKey W c secret)"
  by (auto simp: ethTransactPrivateKey_def intro!: follows_intros)

lemma follows_ethTransact [follows_intros]: "follows R (ethTransact W req)"
  by (auto simp: ethTransact_def transactCactiKeychainRef_def Let_def split: EthSigningCredential.split intro!: follows_intros)

lemma follows_runContractDeployment: "follows R (runContractDeployment W credential j gasConfig args v)"
  by (auto simp: runContractDeployment_def ethContractA_def propA_def split: option.split intro!: follows_intros)

end

interpretation eth: eth_frame sameEntries
  by unfold_locales

lemma libraryA_const:
  assumes "\<And>x. \<exists>x'. f x = (Some r, x')"
  shows "\<exists>x. libraryA f w = liftR r (w\<lparr>cw_ext := x\<rparr>)"
proof -
  obtain x where "f (cw_ext w) = (Some r, x)" using assms by blast
  then show ?thesis by (auto simp: libraryA_def)
qed

lemma artifactOf_entry:
  assumes "hasEntry k name fs w"
  shows "\<exists>w'. artifactOf k name w = (Returns (JObj fs), w') \<and> sameEntries w w'"
proof -
  obtain b w1 where w1: "keychainHasA k name w = (Returns b, w1)" "sameEntries w w1" using entries.keychainHasA_run by blast
  have "hasEntry k name fs w1" using assms hasEntry_sameEntries [OF w1(2)] by simp
  then obtain w2 where w2: "keychainGetA k name w1 = (Returns (stringify (JObj fs)), w2)" "sameEntries w1 w2"
    using entries.keychainGetA_entry by blast
  have "wfJson (JObj fs)" using assms by (simp only: hasEntry_def)
  then show ?thesis using w1 w2 entries.chain [OF w1(2) w2(2)]
    by (simp add: artifactOf_def run_defs del: wfJson.simps stringify.simps)
qed

lemma saveAddress_records:
  assumes "saveAddress W k name (JObj fs) receipt w = (Returns r, w')" "wfJson (JObj fs)"
    and "jprop ''status'' (Some receipt) = Inr st" "truthy st"
    and "jprop ''contractAddress'' (Some receipt) = Inr (Some (JStr a))" "a \<noteq> ''''"
    and "\<And>x. \<exists>x'. e3_getId W x = (Some (Inr n), x')"
  shows "hasEntry k name (deployedEntry n a fs) w' \<and> cw_registry w' = cw_registry w"
proof -
  have "truthy (Some (JStr a))" using assms(6) by (simp add: truthy_def)
  moreover obtain x where "libraryA (e3_getId W) w = (Returns n, w\<lparr>cw_ext := x\<rparr>)"
    using libraryA_const [of "e3_getId W" "Inr n" w] assms(7) by (auto simp: liftR_def ret_def)
  ultimately show ?thesis using assms(1-5) wf_deployedEntry [OF assms(2), of n a]
    by (auto simp: saveAddress_def run_defs propA_def setNetworks_entry keychainSetA_def keychainSet_def publish_def setTotalKeyCounter_def
        Let_def hasEntry_def map_of_mapSet simp del: wfJson.simps stringify.simps)
qed

lemma saveAddress_returns: "saveAddress W k name j receipt w = (Returns r, w') \<Longrightarrow> r = receipt"
  by (auto simp: saveAddress_def bindA_Returns thenA_Returns ret_Returns split: if_splits)

text \<open>A request that names a contract in a keychain\<close>

definition inKeychain :: "string \<Rightarrow> string \<Rightarrow> ContractDefinition \<Rightarrow> bool" where
  "inKeychain i name c \<longleftrightarrow> cd_contractJSON c = None \<and> cd_keychainId c = Some i \<and> cd_contractName c = Some name"

lemma ethDeployContract_records:
  assumes "ethDeployContract W req w = (Returns receipt, w1)" "inKeychain i name (ed_contract req)"
    and "jprop ''status'' (Some receipt) = Inr st" "truthy st"
    and "jprop ''contractAddress'' (Some receipt) = Inr (Some (JStr a))" "a \<noteq> ''''"
    and "\<And>x. \<exists>x'. e3_getId W x = (Some (Inr n), x')"
    and "findOneByKeychainId i (cw_registry w) = Inr p" "hasEntry (pl_instanceId p) name fs w"
  shows "hasEntry (pl_instanceId p) name (deployedEntry n a fs) w1 \<and> cw_registry w1 = cw_registry w"
proof -
  let ?k = "pl_instanceId p"
  obtain w2 where w2: "artifactOf ?k name w = (Returns (JObj fs), w2)" "sameEntries w w2" using artifactOf_entry [OF assms(9)] by blast
  have d: "bindA (runContractDeployment W (ed_web3SigningCredential req) (Some (JObj fs)) (ed_gasConfig req) (ed_constructorArgs req) (ed_value req))
      (saveAddress W ?k name (JObj fs)) w2 = (Returns receipt, w1)"
    using assms(1,2,8) w2(1)
    by (auto simp: ethDeployContract_def isContractJsonDefinition_def isContractKeychainDefinition_def inKeychain_def throwE_Returns
        deployContractFromKeychain_def bindA_Returns keychainFor_Returns Let_def split: if_splits)
  then obtain r w3 where w3: "runContractDeployment W (ed_web3SigningCredential req) (Some (JObj fs)) (ed_gasConfig req) (ed_constructorArgs req)
      (ed_value req) w2 = (Returns r, w3)" and s: "saveAddress W ?k name (JObj fs) r w3 = (Returns receipt, w1)"
    by (auto simp only: bindA_Returns)
  have "sameEntries w2 w3" using followsD [OF eth.follows_runContractDeployment w3] .
  moreover have "r = receipt" using saveAddress_returns [OF s] by simp
  moreover have "wfJson (JObj fs)" using assms(9) by (simp only: hasEntry_def)
  ultimately show ?thesis using saveAddress_records [of W ?k name fs receipt w3 receipt w1 st a n] s assms(3-7) w2(2)
    by (simp add: sameEntries_def del: wfJson.simps)
qed

lemma deployedEntry_address: "deployedAddress m (JObj (deployedEntry n a fs)) = Inr (if m = n \<and> a \<noteq> '''' then Some (JStr a) else None)"
proof -
  have "intToString m = intToString n \<longleftrightarrow> m = n" "intToString n = intToString m \<longleftrightarrow> m = n"
    by (metis parseInt_intToString option.inject)+
  then show ?thesis by (auto simp: deployedAddress_def deployedEntry_def map_of_upsert truthy_def)
qed

text \<open>
  C34. A deployment through a keychain decides where later invocations go: with the same name and keychain, a connector to the same network
  invokes the contract at the address of the deployment, and one to any other network refuses, whatever address the artifact
  had there before; a comment at the refusal says that it deploys the contract when there is none, which the code does not do.
\<close>

theorem eth_deployment_decides:
  assumes "ethDeployContract W dreq w = (Returns receipt, w1)"
    and "inKeychain i name (ed_contract dreq)" "inKeychain i name (ei_contract req)" "name \<noteq> ''''"
    and "jprop ''status'' (Some receipt) = Inr st" "truthy st"
    and "jprop ''contractAddress'' (Some receipt) = Inr (Some (JStr a))" "a \<noteq> ''''"
    and "findOneByKeychainId i (cw_registry w) = Inr p" "hasEntry (pl_instanceId p) name fs w"
    and "\<And>x. \<exists>x'. e3_getId W x = (Some (Inr n), x')" "\<And>x. \<exists>x'. e3_getId W' x = (Some (Inr m), x')"
  shows "\<exists>w2. ethInvokeContract W' req w1 = (if m = n then runContractInvoke W' req (Some (JStr a)) (Some (JObj (deployedEntry n a fs))) w2
    else (Throws (ErrorMsg (''Contract has not been deployed yet on this network (id '' @ intToString m @ '') - can'' @ CHR 0x27 # ''t invoke!'')), w2))"
proof -
  have e: "hasEntry (pl_instanceId p) name (deployedEntry n a fs) w1" "cw_registry w1 = cw_registry w"
    using ethDeployContract_records [OF assms(1,2,5-8,11,9,10)] by auto
  obtain w2 where w2: "artifactOf (pl_instanceId p) name w1 = (Returns (JObj (deployedEntry n a fs)), w2)"
    using artifactOf_entry [OF e(1)] by blast
  obtain x where x: "libraryA (e3_getId W') w2 = (Returns m, w2\<lparr>cw_ext := x\<rparr>)"
    using libraryA_const [of "e3_getId W'" "Inr m" w2] assms(12) by (auto simp: liftR_def ret_def)
  have "i \<noteq> ''''" using assms(9) by (auto simp: findOneByKeychainId_def checkNonBlank_def isNonBlank_def trimSpaces_def)
  moreover have "keychainFor i w1 = (Returns (pl_instanceId p), w1)" using assms(9) e(2) by (simp add: keychainFor_Returns)
  ultimately show ?thesis using w2 x assms(3,4,8)
    by (simp add: ethInvokeContract_def isDeployedContractJsonDefinition_def isContractKeychainDefinition_def inKeychain_def
        invokeContractFromKeychain_def bindA_def liftR_def ret_def throwE_def deployedEntry_address exI [of _ "w2\<lparr>cw_ext := x\<rparr>"])
qed

section \<open>Watchers of the clients\<close>

text \<open>
  The end of a watch: the flag is cleared, the timer is stopped that the watcher holds, or the stream is closed at the node that it holds,
  and the client is sent nothing.
\<close>

definition endedWatch :: "watcher \<Rightarrow> watcher \<Rightarrow> bool" where
  "endedWatch v v' \<longleftrightarrow> \<not> wb_isSubscribed v' \<and> wb_kind v' = wb_kind v \<and> wb_sent v' = wb_sent v \<and> wb_tasks v' = wb_tasks v
     \<and> (wb_kind v = HttpPoll \<longrightarrow> wb_monitoringInterval v' = None
       \<and> set (wb_intervals v') = set (wb_intervals v) - set_option (wb_monitoringInterval v) \<and> wb_streams v' = wb_streams v)
     \<and> (wb_kind v = Subscription \<longrightarrow> \<not> wb_newBlocksSubscription v'
       \<and> wb_streams v' = wb_streams v - (if wb_newBlocksSubscription v then 1 else 0) \<and> wb_intervals v' = wb_intervals v)"

text \<open>The node answers every end of a subscription, and does end it.\<close>

definition confirmsUnsubscribing :: "'x ethWeb3 \<Rightarrow> bool" where
  "confirmsUnsubscribing W \<longleftrightarrow> (\<forall>i x. \<exists>x'. e3_unsubscribes W i x = (Some True, x'))"

text \<open>A watcher that holds the only timer that it runs, or the only stream\<close>

definition holdsAll :: "watcher \<Rightarrow> bool" where
  "holdsAll v \<longleftrightarrow> set (wb_intervals v) \<subseteq> (if wb_kind v = HttpPoll then set_option (wb_monitoringInterval v) else {})
     \<and> wb_streams v \<le> (if wb_kind v = Subscription \<and> wb_newBlocksSubscription v then 1 else 0)"

lemma endedWatch_holdsAll: "endedWatch v v' \<Longrightarrow> holdsAll v \<Longrightarrow> wb_intervals v' = [] \<and> wb_streams v' = 0"
  by (cases "wb_kind v") (auto simp: endedWatch_def holdsAll_def simp flip: set_empty)

lemma endedWatch_again: "endedWatch u v \<Longrightarrow> endedWatch v v' \<Longrightarrow> endedWatch u v'"
  by (cases "wb_kind u") (auto simp: endedWatch_def)

text \<open>What the connector does to a watcher is made of steps of the watcher.\<close>

lemma unsubscribe_leadsTo:
  assumes "unsubscribe False v = ([], v')"
  shows "leadsTo N v v' \<and> endedWatch v v'"
proof -
  have "watch_step N v (begins (unsubscribe False) v)" by (rule unsubscribes)
  moreover have "begins (unsubscribe False) v = v'" using assms by (simp add: begins_def start_def)
  moreover have "endedWatch v v'" using assms
    by (auto simp: endedWatch_def unsubscribe_def afterUnsubscribe_def clearMonitoringInterval_def endSubscription_def
        split: watchKind.splits if_splits)
  ultimately show ?thesis using leadsTo_step [OF leadsTo_refl] by metis
qed

lemma onUnsubscribed_leadsTo:
  assumes "unsubscribe False v = (ts, v')" "ts \<noteq> []"
  shows "leadsTo N v (snd (onUnsubscribed True False v)) \<and> endedWatch v (snd (onUnsubscribed True False v))"
proof -
  let ?n = "length (wb_tasks v)"
  let ?u = "v\<lparr>wb_tasks := wb_tasks v @ [AwaitUnsubscribed False]\<rparr>"
  have u: "unsubscribe False v = ([AwaitUnsubscribed False], v)" "wb_kind v = Subscription" "wb_newBlocksSubscription v"
    using assms by (auto simp: unsubscribe_def afterUnsubscribe_def split: watchKind.splits if_splits)
  then have "begins (unsubscribe False) v = ?u" by (simp add: begins_def start_def)
  then have "leadsTo N v ?u" using leadsTo_step [OF leadsTo_refl unsubscribes] by metis
  moreover have "watch_step N ?u (goOn ?n (onUnsubscribed True False) ?u)"
    by (rule unsubscribed) (simp add: taskAt_def)
  moreover have "goOn ?n (onUnsubscribed True False) ?u = snd (onUnsubscribed True False v)"
    by (simp add: goOn_def onUnsubscribed_def afterUnsubscribe_def endSubscription_def)
  moreover have "endedWatch v (snd (onUnsubscribed True False v))"
    using u(2,3) by (simp add: onUnsubscribed_def endSubscription_def endedWatch_def)
  ultimately show ?thesis using leadsTo_step by metis
qed

lemma closeWatcher_run:
  assumes "confirmsUnsubscribing W"
  shows "\<exists>x v. closeWatcher W i w = (Returns (), w\<lparr>cw_ext := x, ew_watchers := (ew_watchers w)[i := v]\<rparr>)
    \<and> (\<forall>N. leadsTo N (ew_watchers w ! i) v) \<and> endedWatch (ew_watchers w ! i) v"
proof -
  obtain ts v where u: "unsubscribe False (ew_watchers w ! i) = (ts, v)" by (cases "unsubscribe False (ew_watchers w ! i)")
  show ?thesis
  proof (cases "ts = []")
    case True
    then show ?thesis using u unsubscribe_leadsTo [of "ew_watchers w ! i" v]
      by (intro exI [of _ "cw_ext w"] exI [of _ v]) (simp add: closeWatcher_def)
  next
    case False
    obtain x where "e3_unsubscribes W i (cw_ext w) = (Some True, x)" using assms by (auto simp: confirmsUnsubscribing_def)
    moreover have "v = ew_watchers w ! i" using u False
      by (auto simp: unsubscribe_def afterUnsubscribe_def split: watchKind.splits if_splits)
    ultimately show ?thesis using u False onUnsubscribed_leadsTo [OF u False]
      by (intro exI [of _ x] exI [of _ "snd (onUnsubscribed True False v)"]) (simp add: closeWatcher_def)
  qed
qed

text \<open>Every socket has one place, with a watcher that exists.\<close>

definition watchersKnown :: "'x ethWorld \<Rightarrow> bool" where
  "watchersKnown w \<longleftrightarrow> wfMap (ew_watchBlocksSubscriptions w) \<and> (\<forall>i \<in> set (mapValues (ew_watchBlocksSubscriptions w)). i < length (ew_watchers w))"

lemma watchersKnown_new:
  "newEthereumConnector opts r ks x = Inr w \<Longrightarrow> watchersKnown w"
  "watchersKnown w \<Longrightarrow> addWatcher options w = (Returns i, w') \<Longrightarrow> watchersKnown w' \<and> i < length (ew_watchers w')"
  by (fastforce simp: newEthereumConnector_def bindR_Inr watchersKnown_def wfMap_def mapValues_def addWatcher_def split: if_splits)+

lemma mapSet_values: "set (mapValues (mapSet k v m)) \<subseteq> insert v (set (mapValues m))"
  by (induction m) (auto simp: mapValues_def)

lemma watchersKnown_enter:
  assumes "watchersKnown w" "i < length (ew_watchers w)" "enterWatcher s i w = (Returns (), w')"
  shows "watchersKnown w'"
  using assms mapSet_values [of s i "ew_watchBlocksSubscriptions w"] jsmap.invar_update [of "ew_watchBlocksSubscriptions w" s i]
  by (auto simp: watchersKnown_def enterWatcher_def modifyA_def)

text \<open>What closing the watchers of some sockets does to watcher \<open>i\<close>\<close>

definition closedFor :: "node \<Rightarrow> string list \<Rightarrow> 'x ethWorld \<Rightarrow> 'x ethWorld \<Rightarrow> nat \<Rightarrow> bool" where
  "closedFor N ids w w' i \<longleftrightarrow> leadsTo N (ew_watchers w ! i) (ew_watchers w' ! i)
     \<and> (if \<exists>s \<in> set ids. map_of (ew_watchBlocksSubscriptions w) s = Some i then endedWatch (ew_watchers w ! i) (ew_watchers w' ! i)
        else ew_watchers w' ! i = ew_watchers w ! i)"

definition closesWatchers :: "string list \<Rightarrow> 'x ethWorld \<Rightarrow> 'x ethWorld \<Rightarrow> bool" where
  "closesWatchers ids w w' \<longleftrightarrow> ew_watchBlocksSubscriptions w' = filter (\<lambda>e. fst e \<notin> set ids) (ew_watchBlocksSubscriptions w)
     \<and> length (ew_watchers w') = length (ew_watchers w) \<and> (\<forall>N i. i < length (ew_watchers w) \<longrightarrow> closedFor N ids w w' i)"

lemma remove_run:
  assumes "confirmsUnsubscribing W"
  shows "\<exists>w'. removeWatchBlocksSubscriptionForSocket W s w = (Returns (), w') \<and> closesWatchers [s] w w'"
proof (cases "map_of (ew_watchBlocksSubscriptions w) s")
  case None
  then have "s \<notin> fst ` set (ew_watchBlocksSubscriptions w)" by (simp add: map_of_eq_None_iff)
  then have "filter (\<lambda>e. fst e \<notin> set [s]) (ew_watchBlocksSubscriptions w) = ew_watchBlocksSubscriptions w"
    by (auto simp: filter_id_conv)
  with None show ?thesis
    by (simp add: removeWatchBlocksSubscriptionForSocket_def bindA_def getsA_def ret_def closesWatchers_def closedFor_def)
next
  case (Some j)
  obtain x v where r: "closeWatcher W j w = (Returns (), w\<lparr>cw_ext := x, ew_watchers := (ew_watchers w)[j := v]\<rparr>)"
      and v: "\<forall>N. leadsTo N (ew_watchers w ! j) v" "endedWatch (ew_watchers w ! j) v"
    using closeWatcher_run [OF assms, of j w] by blast
  have at: "(ew_watchers w)[j := v] ! i = (if i = j then v else ew_watchers w ! i)" if "i < length (ew_watchers w)" for i
    using that by simp
  show ?thesis using Some r v
    by (auto simp: at removeWatchBlocksSubscriptionForSocket_def bindA_def thenA_def getsA_def modifyA_def mapDelete_def closesWatchers_def closedFor_def)
qed

lemma closesWatchers_more:
  assumes "closesWatchers [s] w v" "closesWatchers ids v w'" "wfMap (ew_watchBlocksSubscriptions w)"
  shows "closesWatchers (s # ids) w w'"
proof -
  let ?m = "map_of (ew_watchBlocksSubscriptions w)"
  have l: "length (ew_watchers v) = length (ew_watchers w)" and m: "ew_watchBlocksSubscriptions v = filter (\<lambda>e. fst e \<noteq> s) (ew_watchBlocksSubscriptions w)"
    using assms(1) by (simp_all add: closesWatchers_def)
  have lookup: "map_of (ew_watchBlocksSubscriptions v) t = (if t = s then None else ?m t)" for t
    using jsmap.lookup_delete [of s "ew_watchBlocksSubscriptions w" t] by (simp add: m mapDelete_def)
  have "closedFor N (s # ids) w w' i" if i: "i < length (ew_watchers w)" for N i
  proof -
    have c: "closedFor N [s] w v i" "closedFor N ids v w' i" using assms(1,2) i l by (simp_all add: closesWatchers_def)
    then have "leadsTo N (ew_watchers w ! i) (ew_watchers w' ! i)"
      unfolding closedFor_def using leadsTo_trans by blast
    with c show ?thesis unfolding closedFor_def lookup by (auto split: if_splits dest: endedWatch_again)
  qed
  then show ?thesis using assms(2) l by (auto simp: closesWatchers_def m intro!: filter_cong)
qed

lemma remove_all:
  assumes "confirmsUnsubscribing W" "wfMap (ew_watchBlocksSubscriptions w)"
  shows "\<exists>w'. forEachA (removeWatchBlocksSubscriptionForSocket W) ids w = (Returns (), w') \<and> closesWatchers ids w w'"
  using assms(2)
proof (induction ids arbitrary: w)
  case (Cons s ids)
  obtain v where v: "removeWatchBlocksSubscriptionForSocket W s w = (Returns (), v)" "closesWatchers [s] w v"
    using remove_run [OF assms(1)] by blast
  have "wfMap (ew_watchBlocksSubscriptions v)"
    using v(2) Cons.prems jsmap.invar_delete [of "ew_watchBlocksSubscriptions w" s] by (simp add: closesWatchers_def mapDelete_def)
  then obtain w' where "forEachA (removeWatchBlocksSubscriptionForSocket W) ids v = (Returns (), w')" "closesWatchers ids v w'"
    using Cons.IH by blast
  then show ?case using v closesWatchers_more [OF v(2) _ Cons.prems] by (simp add: thenA_def bindA_def)
qed (simp add: ret_def closesWatchers_def closedFor_def)

lemma waitForRequests_ext: "\<exists>x. waitForRequests W n w = (Returns (), w\<lparr>cw_ext := x\<rparr>)"
proof (induction n arbitrary: w)
  case 0
  then show ?case by (simp add: ret_def exI [of _ "cw_ext w"])
next
  case (Suc n)
  obtain x where "waitForRequests W n (w\<lparr>cw_ext := e3_setTimeout W 500 (cw_ext w)\<rparr>) = (Returns (), w\<lparr>cw_ext := x\<rparr>)"
    using Suc.IH [of "w\<lparr>cw_ext := e3_setTimeout W 500 (cw_ext w)\<rparr>"] by auto
  moreover have "\<exists>x. w = w\<lparr>cw_ext := x\<rparr>" by (rule exI [of _ "cw_ext w"]) simp
  ultimately show ?case by (cases "e3_requestsOpen W (cw_ext w)") (auto simp: bindA_def thenA_def getsA_def modifyA_def ret_def)
qed

text \<open>A watcher, with a place or without, and what becomes of it\<close>

definition afterShutdown :: "node \<Rightarrow> bool \<Rightarrow> watcher \<Rightarrow> watcher \<Rightarrow> bool" where
  "afterShutdown N placed v v' \<longleftrightarrow> leadsTo N v v'
     \<and> (if placed then endedWatch v v' \<and> (holdsAll v \<longrightarrow> wb_intervals v' = [] \<and> wb_streams v' = 0) else v' = v)"

text \<open>
  C32. When the connector shuts down and the node confirms the end of every subscription, no socket keeps a place, and the watch of every
  socket with one is ended: its flag is cleared, its timer stopped, its stream closed at the node, and nothing more sent; so a watcher that holds
  its only timer or stream has none left. Each watcher only took steps of its own, and one that had lost its place is left as it was.
\<close>

theorem shutdown_ends_watchers:
  assumes "watchersKnown w" "confirmsUnsubscribing W"
  shows "\<exists>w'. shutdownEthereum W w = (Returns (), w') \<and> ew_watchBlocksSubscriptions w' = []
    \<and> length (ew_watchers w') = length (ew_watchers w)
    \<and> (\<forall>i < length (ew_watchers w).
      afterShutdown N (i \<in> set (mapValues (ew_watchBlocksSubscriptions w))) (ew_watchers w ! i) (ew_watchers w' ! i))"
proof -
  let ?m = "ew_watchBlocksSubscriptions w"
  have wf: "wfMap ?m" using assms by (simp add: watchersKnown_def)
  obtain v where v: "forEachA (removeWatchBlocksSubscriptionForSocket W) (mapKeys ?m) w = (Returns (), v)" "closesWatchers (mapKeys ?m) w v"
    using remove_all [OF assms(2) wf] by blast
  obtain x b where w': "shutdownEthereum W w = (Returns (), v\<lparr>cw_ext := x, ew_connected := b\<rparr>)"
  proof (cases "ew_provider v")
    case (HttpProvider h)
    then show ?thesis using v(1) that [of "ew_connected v" "cw_ext v"]
      by (simp add: shutdownEthereum_def closeWeb3jsConnection_def bindA_def thenA_def getsA_def ret_def)
  next
    case (WebSocketProvider h opts)
    obtain x where "waitForRequests W 10 v = (Returns (), v\<lparr>cw_ext := x\<rparr>)" using waitForRequests_ext [of W 10 v] by blast
    then show ?thesis using v(1) WebSocketProvider that [of False x]
      by (simp add: shutdownEthereum_def closeWeb3jsConnection_def bindA_def thenA_def getsA_def modifyA_def)
  qed
  have keys: "i \<in> set (mapValues ?m) \<longleftrightarrow> (\<exists>s \<in> set (mapKeys ?m). map_of ?m s = Some i)" for i
    using wf by (force simp: wfMap_def mapValues_def mapKeys_def)
  have "filter (\<lambda>e. fst e \<notin> set (mapKeys ?m)) ?m = []" by (auto simp: filter_empty_conv mapKeys_def)
  then have ends: "ew_watchBlocksSubscriptions v = []" "length (ew_watchers v) = length (ew_watchers w)"
    using v(2) by (simp_all add: closesWatchers_def)
  have each: "leadsTo N (ew_watchers w ! i) (ew_watchers v ! i) \<and> (if i \<in> set (mapValues ?m)
      then endedWatch (ew_watchers w ! i) (ew_watchers v ! i) else ew_watchers v ! i = ew_watchers w ! i)"
    if "i < length (ew_watchers w)" for i using v(2) that unfolding closesWatchers_def closedFor_def keys by blast
  have "afterShutdown N (i \<in> set (mapValues ?m)) (ew_watchers w ! i) (ew_watchers v ! i)" if "i < length (ew_watchers w)" for i
    using each [OF that] by (auto simp: afterShutdown_def endedWatch_holdsAll split: if_splits)
  with ends show ?thesis by (intro exI [of _ "v\<lparr>cw_ext := x, ew_connected := b\<rparr>"]) (simp add: w')
qed

section \<open>Examples\<close>

text \<open>
  A node whose state is the clock: it answers a transaction with a given receipt, and a look for a receipt with an error; its methods
  take an address and a number.
\<close>

definition demoEthNode :: "int ethWeb3" where
  "demoEthNode = \<lparr>e3_now = id, e3_setTimeout = (\<lambda>ms x. x + ms), e3_getId = (\<lambda>x. (Some (Inr 1337), x)),
     e3_validContract = (\<lambda>abi a. True), e3_methods = (\<lambda>abi. [''transfer'']), e3_encodeABI = (\<lambda>c n ps. Some ''0x''),
     e3_encodeDeploy = (\<lambda>abi b ps. Some ''0x''), e3_call = (\<lambda>c n ps x. (Some (Inr None), x)), e3_pendingBaseFee = (\<lambda>x. (Some (Inr (Some 5)), x)),
     e3_estimateGas = (\<lambda>t x. (Some (Inr 21000), x)), e3_signTransaction = (\<lambda>t k x. (Some (Inr ''raw''), x)),
     e3_sendSignedTransaction = (\<lambda>r x. (Some (Inr (Some (JObj [(''contractAddress'', JStr ''0xAB'')]))), x)),
     e3_sendTransaction = (\<lambda>t s x. (Some (Inr ''0x1''), x)), e3_getTransactionReceipt = (\<lambda>h x. (Some (Inl LibraryError), x)),
     e3_ethMethods = [], e3_ethMethod = (\<lambda>n ps x. (Some (Inr None), x)), e3_getFunction = (\<lambda>abi n. Inr (Some [''address'', ''uint256''])),
     e3_isAddress = (\<lambda>a. True), e3_contractMethod = (\<lambda>c n as i ps x. (Some (Inr None), x)), e3_requestsOpen = (\<lambda>x. False),
     e3_unsubscribes = (\<lambda>i x. (Some True, x)), e3_polls = 60\<rparr>"

definition demoEntry :: "(string \<times> json) list" where
  "demoEntry = [(''abi'', JArr [])]"

definition demoKeychain :: plugin where
  "demoKeychain = \<lparr>pl_instanceId = ''kc'', pl_packageName = ''keychain'', pl_keychainId = Some ''K''\<rparr>"

definition demoWatcher :: watcher where
  "demoWatcher = (createWatchBlocksV1Endpoint True None)\<lparr>wb_isSubscribed := True, wb_newBlocksSubscription := True, wb_streams := 1\<rparr>"

definition demoEth :: "int ethWorld" where
  "demoEth = \<lparr>cw_registry = [demoKeychain], cw_keychains = (\<lambda>_. \<lparr>kc_instanceId = ''kc'', kc_keychainId = ''K'',
     kc_backend = [(''Token'', stringify (JObj demoEntry))], kc_keyCount = 1, kc_published = []\<rparr>), cw_transactions = 0, cw_ext = 0,
     ew_provider = WebSocketProvider ''ws'' None, ew_connected = True, ew_reconnectOptions = None,
     ew_watchers = [demoWatcher], ew_watchBlocksSubscriptions = [(''socket'', 0)]\<rparr>"

definition demoGas :: GasTransactionConfig where
  "demoGas = \<lparr>gc_gas = None, gc_gasPrice = Some ''7'', gc_gasLimit = None, gc_maxFeePerGas = None, gc_maxPriorityFeePerGas = None\<rparr>"

definition demoTxConfig :: EthereumTransactionConfig where
  "demoTxConfig = \<lparr>et_rawTransaction = None, et_from = Some ''0x1'', et_to = Some ''0x2'', et_value = None, et_nonce = None, et_data = None,
     et_gasConfig = Some demoGas\<rparr>"

definition demoTokenContract :: ContractDefinition where
  "demoTokenContract = \<lparr>cd_contractJSON = None, cd_contractAddress = None, cd_contractName = Some ''Token'', cd_keychainId = Some ''K''\<rparr>"

definition demoDeploy :: EthDeployContractRequest where
  "demoDeploy = \<lparr>ed_web3SigningCredential = EthPrivateKeyHex ''0x1'' ''key'', ed_contract = demoTokenContract, ed_constructorArgs = [],
     ed_gasConfig = None, ed_value = None\<rparr>"

definition demoInvoke :: EthInvokeContractRequest where
  "demoInvoke = \<lparr>ei_contract = demoTokenContract, ei_methodName = ''transfer'', ei_params = [], ei_invocationType = EthCall,
     ei_web3SigningCredential = None, ei_gasConfig = None, ei_value = None, ei_timeoutMs = None\<rparr>"

definition demoRaw :: InvokeRawWeb3EthContractRequest where
  "demoRaw = \<lparr>rc_abi = JArr [], rc_address = ''0xAB'', rc_invocationType = ''send'', rc_invocationParams = None, rc_contractMethod = ''transfer'',
     rc_contractMethodArgs = Some [JStr ''0x2'', JNum 5]\<rparr>"

theorem raw_invocation_refused_witness: "\<exists>e. invokeRawWeb3EthContract demoEthNode demoRaw demoEth = (Throws e, demoEth)"
  by (rule raw_invocation_refused [of demoEthNode demoRaw "[''address'', ''uint256'']" "''uint256''"]) (simp_all add: demoEthNode_def demoRaw_def)

theorem gas_config_applied_witness:
  "\<exists>tx w'. getTransactionFromTxConfig demoEthNode demoTxConfig demoEth = (Returns tx, w')
     \<and> tx_maxPriorityFeePerGas tx = Some ''7'' \<and> tx_maxFeePerGas tx = Some ''7''"
proof -
  have "\<exists>tx w'. getTransactionFromTxConfig demoEthNode demoTxConfig demoEth = (Returns tx, w')"
    by (simp add: getTransactionFromTxConfig_def run_defs demoTxConfig_def demoGas_def applyGasConfig_def isGasTransactionConfigLegacy_def
        isGasTransactionConfigEIP1559_def plainTransaction_def given_def noNumber_def libraryA_def demoEthNode_def)
  then show ?thesis using gas_config_applied [of demoEthNode demoTxConfig demoEth]
    by (force simp: demoTxConfig_def demoGas_def isGasTransactionConfigLegacy_def)
qed

theorem receipt_wait_decided_witness:
  "\<exists>k. (k = 0 \<or> 1000 * int k < 60000) \<and> ethPollForTxReceipt demoEthNode ''0x1'' 60000 demoEth = pollResult demoEthNode ''0x1'' demoEth 60000 k"
proof -
  have "ethClockRuns demoEthNode" "0 < e3_polls demoEthNode" "60000 \<le> 1000 * int (e3_polls demoEthNode)"
    by (simp_all add: ethClockRuns_def demoEthNode_def)
  from receipt_wait_decided [OF this] show ?thesis by blast
qed

lemma demo_eth_deployed:
  "\<exists>w'. ethDeployContract demoEthNode demoDeploy demoEth = (Returns (JObj [(''contractAddress'', JStr ''0xAB''), (''status'', JBool True)]), w')"
proof -
  have "wfJson (JObj demoEntry)" by (simp add: demoEntry_def)
  moreover have "stringify j \<noteq> []" for j using stringify_length [of j] by (simp del: stringify_length)
  ultimately show ?thesis
    by (simp add: ethDeployContract_def demoDeploy_def demoTokenContract_def isContractJsonDefinition_def isContractKeychainDefinition_def
      isEthCredentialNone_def deployContractFromKeychain_def run_defs keychainFor_def findOneByKeychainId_def demoEth_def demoKeychain_def
      artifactOf_def keychainHasA_def keychainHas_def keychainGetA_def keychainGet_def publish_def Let_def runContractDeployment_def
      propA_def jprop_def ethContractA_def ethTransact_def ethTransactPrivateKey_def getTransactionFromTxConfig_def applyGasConfig_def
      plainTransaction_def given_def noNumber_def libraryA_def ethTransactSigned_def withBoolStatus_def convertWeb3ReceiptStatusToBool_def
      fieldsOf_def setField_def saveAddress_def setNetworks_def keychainSetA_def demoEthNode_def truthy_def isNonBlank_def trimSpaces_def
      isSpace_def orElseThrow_def ethAccountOf_def demoEntry_def
      del: wfJson.simps stringify.simps)
qed

theorem eth_deployment_decides_witness:
  "\<exists>w2. ethInvokeContract demoEthNode demoInvoke (snd (ethDeployContract demoEthNode demoDeploy demoEth))
     = runContractInvoke demoEthNode demoInvoke (Some (JStr ''0xAB'')) (Some (JObj (deployedEntry 1337 ''0xAB'' demoEntry))) w2"
proof -
  let ?receipt = "JObj [(''contractAddress'', JStr ''0xAB''), (''status'', JBool True)]"
  let ?d = "ethDeployContract demoEthNode demoDeploy demoEth"
  have d: "?d = (Returns ?receipt, snd ?d)" using demo_eth_deployed by (metis snd_conv)
  have k: "inKeychain ''K'' ''Token'' (ed_contract demoDeploy)" "inKeychain ''K'' ''Token'' (ei_contract demoInvoke)"
    by (simp_all add: inKeychain_def demoDeploy_def demoInvoke_def demoTokenContract_def)
  have "findOneByKeychainId ''K'' (cw_registry demoEth) = Inr demoKeychain"
    by (simp add: findOneByKeychainId_def demoEth_def demoKeychain_def orElseThrow_def isNonBlank_def trimSpaces_def isSpace_def)
  moreover have "hasEntry (pl_instanceId demoKeychain) ''Token'' demoEntry demoEth"
    by (simp add: hasEntry_def demoEth_def demoKeychain_def demoEntry_def del: stringify.simps)
  ultimately show ?thesis
    using eth_deployment_decides [OF d k, of "Some (JBool True)" "''0xAB''" demoKeychain demoEntry 1337 demoEthNode 1337]
    by (simp add: demoEthNode_def truthy_def del: stringify.simps)
qed

theorem shutdown_ends_watchers_witness:
  "\<exists>w'. shutdownEthereum demoEthNode demoEth = (Returns (), w') \<and> ew_watchBlocksSubscriptions w' = [] \<and> wb_streams (ew_watchers w' ! 0) = 0"
proof -
  have "watchersKnown demoEth" by (simp add: watchersKnown_def demoEth_def wfMap_def mapValues_def)
  moreover have "confirmsUnsubscribing demoEthNode" by (simp add: confirmsUnsubscribing_def demoEthNode_def)
  ultimately obtain w' where w': "shutdownEthereum demoEthNode demoEth = (Returns (), w')" "ew_watchBlocksSubscriptions w' = []"
      "\<forall>i < length (ew_watchers demoEth). afterShutdown \<lparr>nd_block = \<lambda>n b. True, nd_latest = \<lambda>a n. True, nd_header = \<lambda>h. True\<rparr>
         (i \<in> set (mapValues (ew_watchBlocksSubscriptions demoEth))) (ew_watchers demoEth ! i) (ew_watchers w' ! i)"
    using shutdown_ends_watchers [of demoEth demoEthNode] by blast
  have "holdsAll (ew_watchers demoEth ! 0)" "0 < length (ew_watchers demoEth)" "0 \<in> set (mapValues (ew_watchBlocksSubscriptions demoEth))"
    by (simp_all add: holdsAll_def demoEth_def demoWatcher_def createWatchBlocksV1Endpoint_def mapValues_def)
  then show ?thesis using w' by (auto simp: afterShutdown_def)
qed

end
