(* ===== verification/Consortium.thy ===== *)
theory Consortium
  imports JS_Async Plugin_Registry
begin

text \<open>
  The manual consortium plugin (\<open>plugin-consortium-manual.ts\<close>, \<open>consortium\<close>), the repository it shares with the client
  (\<open>consortium-repository.ts\<close>), and the client that finds a node for a ledger (\<open>api-client.ts\<close>,
  \<open>default-consortium-provider.ts\<close>). The world has the plugin of every node of the consortium, by the address of its
  API; a node asks the others for their signed copies of the database, a client asks a node for the collection.

  The compiler checks the options of a plugin; what comes over the network is a value of any type.
\<close>

section \<open>The consortium repository\<close>

definition newConsortiumRepository :: "jsv \<Rightarrow> json result" where
  "newConsortiumRepository db =
     (if \<not> truthy db then Inl (falsyError ''ConsortiumRepository#constructor() arg options.db'')
      else bindR (jprop ''cactusNode'' db) (\<lambda>nodes.
        if \<not> truthy nodes then Inl (falsyError ''ConsortiumRepository#constructor() arg options.db.cactusNode'') else Inr (the db)))"

definition allNodes :: "json \<Rightarrow> jsv result" where
  "allNodes db = jprop ''cactusNode'' (Some db)"

primrec filterR :: "('a \<Rightarrow> bool result) \<Rightarrow> 'a list \<Rightarrow> 'a list result" where
  "filterR f [] = Inr []"
| "filterR f (x # xs) = bindR (f x) (\<lambda>b. bindR (filterR f xs) (\<lambda>ys. Inr (if b then x # ys else ys)))"

text \<open>\<open>v.includes(s)\<close>, of an array or a text\<close>

definition includesR :: "string \<Rightarrow> jsv \<Rightarrow> bool result" where
  "includesR s v = (case v of
      Some (JArr xs) \<Rightarrow> Inr (JStr s \<in> set xs) | Some (JStr t) \<Rightarrow> Inr (sublist s t) | _ \<Rightarrow> Inl TypeError)"

definition nodesWithLedger :: "json \<Rightarrow> string \<Rightarrow> json list result" where
  "nodesWithLedger db ledgerId =
     bindR (checkNonBlank ledgerId ''ConsortiumRepository#nodesWithLedger():ledgerId'') (\<lambda>_.
     bindR (allNodes db) (\<lambda>nodes. bindR (elementsOf nodes) (\<lambda>nodes.
     filterR (\<lambda>cn. bindR (jprop ''ledgerIds'' (Some cn)) (includesR ledgerId)) nodes)))"

section \<open>Nodes\<close>

text \<open>The entry of a node in the database of the consortium\<close>

record CactusNode =
  cn_nodeApiHost :: string
  cn_publicKeyPem :: string
  cn_id :: string
  cn_consortiumId :: string
  cn_memberId :: string
  cn_ledgerIds :: "string list"
  cn_pluginInstanceIds :: "string list"

definition nodeJson :: "CactusNode \<Rightarrow> json" where
  "nodeJson n = JObj [(''nodeApiHost'', JStr (cn_nodeApiHost n)), (''publicKeyPem'', JStr (cn_publicKeyPem n)), (''id'', JStr (cn_id n)),
     (''consortiumId'', JStr (cn_consortiumId n)), (''memberId'', JStr (cn_memberId n)), (''ledgerIds'', JArr (map JStr (cn_ledgerIds n))),
     (''pluginInstanceIds'', JArr (map JStr (cn_pluginInstanceIds n)))]"

text \<open>\<open>cm_nodeCount\<close> is the gauge of the exporter.\<close>

record PluginConsortiumManual =
  cm_instanceId :: string
  cm_keyPairPem :: string
  cm_consortiumDatabase :: json
  cm_nodeCount :: nat

text \<open>
  The libraries: \<open>cl_stableStringify\<close> prints an object with sorted keys, \<open>cl_sign\<close> imports a key and gives the JSON web signature of a
  payload, unless one of the two fails, \<open>cl_reaches\<close> is whether a request to an address arrives and is answered, \<open>cl_random\<close> picks a number
  below its argument. Their state has the clock and the random numbers.
\<close>

record 'x consortiumLib =
  cl_stableStringify :: "json \<Rightarrow> string"
  cl_sign :: "string \<Rightarrow> byte list \<Rightarrow> 'x \<Rightarrow> json option \<times> 'x"
  cl_reaches :: "string \<Rightarrow> 'x \<Rightarrow> bool \<times> 'x"
  cl_random :: "nat \<Rightarrow> 'x \<Rightarrow> nat \<times> 'x"

record 'x consortiumWorld =
  co_plugins :: "string \<Rightarrow> PluginConsortiumManual option"
  co_ext :: 'x

type_synonym ('x, 'a) coact = "('x consortiumWorld, jsError, 'a) act"

definition nodesOf :: "json \<Rightarrow> json list" where
  "nodesOf db = (case allNodes db of Inr (Some (JArr nodes)) \<Rightarrow> nodes | _ \<Rightarrow> [])"

definition getNodeCount :: "PluginConsortiumManual \<Rightarrow> nat" where
  "getNodeCount p = length (nodesOf (cm_consortiumDatabase p))"

definition updateMetricNodeCount :: "PluginConsortiumManual \<Rightarrow> PluginConsortiumManual" where
  "updateMetricNodeCount p = p\<lparr>cm_nodeCount := getNodeCount p\<rparr>"

definition newPluginConsortiumManual :: "string \<Rightarrow> string \<Rightarrow> jsv \<Rightarrow> PluginConsortiumManual result" where
  "newPluginConsortiumManual instanceId keyPairPem db =
     (if instanceId = '''' then Inl (falsyError ''PluginConsortiumManual#constructor() options.instanceId'')
      else if \<not> truthy db then Inl (falsyError ''PluginConsortiumManual#constructor() options.consortiumDatabase'')
      else bindR (newConsortiumRepository db) (\<lambda>db.
        Inr (updateMetricNodeCount \<lparr>cm_instanceId = instanceId, cm_keyPairPem = keyPairPem, cm_consortiumDatabase = db, cm_nodeCount = 0\<rparr>)))"

section \<open>The signature of a node\<close>

definition getNodeJws :: "'x consortiumLib \<Rightarrow> string \<Rightarrow> PluginConsortiumManual \<Rightarrow> ('x, json) coact" where
  "getNodeJws L host p = (\<lambda>w. let p' = updateMetricNodeCount p; w' = w\<lparr>co_plugins := (co_plugins w)(host := Some p')\<rparr> in
     case cl_sign L (cm_keyPairPem p') (utf8Encode (cl_stableStringify L (JObj [(''consortiumDatabase'', cm_consortiumDatabase p')]))) (co_ext w') of
        (None, x) \<Rightarrow> (Throws LibraryError, w'\<lparr>co_ext := x\<rparr>)
      | (Some jws, x) \<Rightarrow> (Returns jws, w'\<lparr>co_ext := x\<rparr>))"

text \<open>The status and the \<open>jws\<close> of the body; the body of an error is left out.\<close>

definition jwsEndpoint :: "('x, json) coact \<Rightarrow> ('x, int \<times> jsv) coact" where
  "jwsEndpoint f = (\<lambda>w. case f w of
      (Returns jws, w') \<Rightarrow> (Returns (200, Some (JObj [(''jws'', jws)])), w')
    | (Throws e, w') \<Rightarrow> (Returns (500, None), w')
    | (Pending, w') \<Rightarrow> (Pending, w'))"

definition getNodeJwsEndpoint :: "'x consortiumLib \<Rightarrow> string \<Rightarrow> PluginConsortiumManual \<Rightarrow> ('x, int \<times> jsv) coact" where
  "getNodeJwsEndpoint L host p = jwsEndpoint (getNodeJws L host p)"

text \<open>A request of the generated client: an answer other than success is an error.\<close>

definition postTo :: "'x consortiumLib \<Rightarrow> string \<Rightarrow> (PluginConsortiumManual \<Rightarrow> ('x, int \<times> jsv) coact) \<Rightarrow> ('x, jsv) coact" where
  "postTo L host endpoint = (\<lambda>w. case cl_reaches L host (co_ext w) of
      (False, x) \<Rightarrow> (Throws RequestError, w\<lparr>co_ext := x\<rparr>)
    | (True, x) \<Rightarrow> (case co_plugins w host of
          None \<Rightarrow> (Throws RequestError, w\<lparr>co_ext := x\<rparr>)
        | Some p \<Rightarrow> bindA (endpoint p) (\<lambda>(status, body). if status < 300 then ret body else throwE RequestError) (w\<lparr>co_ext := x\<rparr>)))"

definition getNodeJwsV1 :: "'x consortiumLib \<Rightarrow> string \<Rightarrow> ('x, jsv) coact" where
  "getNodeJwsV1 L host = postTo L host (getNodeJwsEndpoint L host)"

section \<open>The signatures of the consortium\<close>

definition hostOf :: "json \<Rightarrow> string result" where
  "hostOf cn = bindR (jprop ''nodeApiHost'' (Some cn)) (\<lambda>h. Inr (jsTextV h))"

text \<open>
  The first answer gets the signatures of all. Every request has a client of its own, made from the options with the base path of the
  node.
\<close>

definition collectSignatures :: "jsv list \<Rightarrow> json result" where
  "collectSignatures responses =
     bindR (mapR (jprop ''jws'') responses) (\<lambda>jwss.
     bindR (mapR (\<lambda>jws. bindR (jprop ''signatures'' jws) elementsOf) jwss) (\<lambda>signatures.
     if jwss = [] then Inl TypeError
     else Inr (JObj (setField ''signatures'' (Some (JArr (concat signatures))) (fieldsOf (hd jwss))))))"

definition getConsortiumJws :: "'x consortiumLib \<Rightarrow> PluginConsortiumManual \<Rightarrow> ('x, json) coact" where
  "getConsortiumJws L p =
     bindA (liftR (mapR hostOf (nodesOf (cm_consortiumDatabase p)))) (\<lambda>hosts.
     bindA (allA (getNodeJwsV1 L) hosts) (\<lambda>responses. liftR (collectSignatures responses)))"

definition getConsortiumJwsEndpoint :: "'x consortiumLib \<Rightarrow> PluginConsortiumManual \<Rightarrow> ('x, int \<times> jsv) coact" where
  "getConsortiumJwsEndpoint L p = jwsEndpoint (getConsortiumJws L p)"

definition getConsortiumJwsV1 :: "'x consortiumLib \<Rightarrow> string \<Rightarrow> ('x, jsv) coact" where
  "getConsortiumJwsV1 L host = postTo L host (getConsortiumJwsEndpoint L)"

section \<open>The client\<close>

text \<open>\<open>Buffer.from(v, "base64").toString()\<close>; a text that is not UTF-8 counts as no JSON.\<close>

definition textOfBase64 :: "jsv \<Rightarrow> string result" where
  "textOfBase64 v = (case v of
      Some (JStr s) \<Rightarrow> (case utf8Decode (bytesOfBase64 s) of None \<Rightarrow> Inl SyntaxError | Some t \<Rightarrow> Inr t)
    | Some (JArr xs) \<Rightarrow> bindR (bufferFromHex v) (\<lambda>bs. case utf8Decode bs of None \<Rightarrow> Inl SyntaxError | Some t \<Rightarrow> Inr t)
    | _ \<Rightarrow> Inl TypeError)"

definition parseConsortiumJws :: "jsv \<Rightarrow> jsv result" where
  "parseConsortiumJws response =
     (if \<not> truthy response then Inl (falsyError ''DefaultConsortiumProvider#parseConsortiumJws()::response'')
      else bindR (jprop ''jws'' response) (\<lambda>jws.
        if \<not> truthy jws then Inl (falsyError ''DefaultConsortiumProvider#parseConsortiumJws()::response.jws'')
        else bindR (jprop ''payload'' jws) (\<lambda>payload.
          if \<not> truthy payload then Inl (falsyError ''DefaultConsortiumProvider#parseConsortiumJws()::response.jws.payload'')
          else bindR (textOfBase64 payload) (\<lambda>t. bindR (parseJ (Some (JStr t))) (\<lambda>body.
            bindR (jprop ''consortiumDatabase'' (Some body)) (\<lambda>db.
            if \<not> truthy db then Inl (falsyError ''DefaultConsortiumProvider#parseConsortiumJws()::consortiumDatabase'') else Inr db))))))"

text \<open>The default provider asks the node the client is configured for.\<close>

definition defaultConsortiumProvider :: "'x consortiumLib \<Rightarrow> string \<Rightarrow> ('x, jsv) coact" where
  "defaultConsortiumProvider L host = bindA (getConsortiumJwsV1 L host) (\<lambda>body. liftR (parseConsortiumJws body))"

datatype ledgerOrId = LedgerId string | LedgerObject string

definition ledgerIdOf :: "ledgerOrId \<Rightarrow> string" where
  "ledgerIdOf l = (case l of LedgerId i \<Rightarrow> i | LedgerObject i \<Rightarrow> i)"

text \<open>\<open>nodes[i]\<close>; the property of an element that is not there is an error.\<close>

definition nodeAt :: "json list \<Rightarrow> nat \<Rightarrow> jsv" where
  "nodeAt nodes i = (if i < length nodes then Some (nodes ! i) else None)"

text \<open>The base path of the client that is returned\<close>

definition ofLedger :: "'x consortiumLib \<Rightarrow> ('x, jsv) coact \<Rightarrow> ledgerOrId \<Rightarrow> ('x, jsv) coact" where
  "ofLedger L provider l =
     (if l = LedgerId '''' then throwE (falsyError ''ApiClient#forLedgerId():ledgerOrId'')
      else bindA provider (\<lambda>db. bindA (liftR (newConsortiumRepository db)) (\<lambda>repo.
        bindA (liftR (nodesWithLedger repo (ledgerIdOf l))) (\<lambda>nodes.
        bindA (\<lambda>w. case cl_random L (length nodes) (co_ext w) of (i, x) \<Rightarrow> (Returns i, w\<lparr>co_ext := x\<rparr>)) (\<lambda>i.
        propA ''nodeApiHost'' (nodeAt nodes i))))))"

end
