(* ===== verification/Consortium_Properties.thy ===== *)
theory Consortium_Properties
  imports Consortium
begin

text \<open>
  Properties of the consortium and its client: the signed database that a client gets is that of the first node, with the
  signatures of all, and the node that a client is sent to has the ledger in that database.
\<close>

section \<open>Equality up to the order of fields\<close>

inductive eqJson :: "json \<Rightarrow> json \<Rightarrow> bool" where
  atom: "(\<And>xs. j \<noteq> JArr xs) \<Longrightarrow> (\<And>fs. j \<noteq> JObj fs) \<Longrightarrow> eqJson j j"
| arr: "list_all2 eqJson xs ys \<Longrightarrow> eqJson (JArr xs) (JArr ys)"
| obj: "(\<And>k. rel_option eqJson (map_of fs k) (map_of gs k)) \<Longrightarrow> eqJson (JObj fs) (JObj gs)"
monos list_all2_mono option.rel_mono

inductive_cases eqJson_StrE: "eqJson (JStr s) j"
inductive_cases eqJson_ArrE: "eqJson (JArr xs) j"
inductive_cases eqJson_ObjE: "eqJson (JObj fs) j"

lemma eqJson_Str [simp]: "eqJson (JStr s) j \<longleftrightarrow> j = JStr s"
  by (auto elim: eqJson_StrE intro: eqJson.atom)

lemma eqJson_Strs: "eqJson (JArr (map JStr ss)) j \<longleftrightarrow> j = JArr (map JStr ss)"
proof
  assume "eqJson (JArr (map JStr ss)) j"
  then obtain ys where "j = JArr ys" "list_all2 eqJson (map JStr ss) ys" by (auto elim: eqJson_ArrE)
  then show "j = JArr (map JStr ss)" by (auto simp: list_all2_conv_all_nth intro: nth_equalityI)
qed (auto simp: list_all2_conv_all_nth intro!: eqJson.arr)

lemma eqJson_field:
  assumes "eqJson (JObj fs) j" "map_of fs k = Some v"
  shows "\<exists>v'. jprop k (Some j) = Inr (Some v') \<and> eqJson v v'"
proof -
  obtain gs where "j = JObj gs" "rel_option eqJson (map_of fs k) (map_of gs k)" using assms(1) by (auto elim: eqJson_ObjE)
  then show ?thesis using assms(2) by (auto simp: option_rel_Some1)
qed

section \<open>The libraries\<close>

text \<open>
  What the libraries are documented to do: a signature, when there is one, carries its payload, the printed text is read back up to the
  order of fields, a random index is in range.
\<close>

definition nodeJws :: "byte list \<Rightarrow> json \<Rightarrow> json" where
  "nodeJws bs sig = JObj [(''payload'', JStr (base64url bs)), (''signatures'', JArr [sig])]"

definition documentedLib :: "'x consortiumLib \<Rightarrow> bool" where
  "documentedLib L \<longleftrightarrow> (\<forall>pem bs x jws y. cl_sign L pem bs x = (Some jws, y) \<longrightarrow> (\<exists>sig. jws = nodeJws bs sig))
     \<and> (\<forall>j. wfJson j \<longrightarrow> (\<exists>j'. parse (cl_stableStringify L j) = Some j' \<and> eqJson j j'))
     \<and> (\<forall>n x. 0 < n \<longrightarrow> fst (cl_random L n x) < n)"

text \<open>A private key that can be imported, or cannot, and an address that is reached, or is not\<close>

definition validKey :: "'x consortiumLib \<Rightarrow> string \<Rightarrow> bool" where
  "validKey L pem \<longleftrightarrow> (\<forall>bs x. fst (cl_sign L pem bs x) \<noteq> None)"

definition invalidKey :: "'x consortiumLib \<Rightarrow> string \<Rightarrow> bool" where
  "invalidKey L pem \<longleftrightarrow> (\<forall>bs x. fst (cl_sign L pem bs x) = None)"

definition reached :: "'x consortiumLib \<Rightarrow> string \<Rightarrow> bool" where
  "reached L h \<longleftrightarrow> (\<forall>x. fst (cl_reaches L h x))"

definition unreached :: "'x consortiumLib \<Rightarrow> string \<Rightarrow> bool" where
  "unreached L h \<longleftrightarrow> (\<forall>x. \<not> fst (cl_reaches L h x))"

definition payloadOf :: "'x consortiumLib \<Rightarrow> json \<Rightarrow> byte list" where
  "payloadOf L db = utf8Encode (cl_stableStringify L (JObj [(''consortiumDatabase'', db)]))"

text \<open>A signature that a key gave for a database\<close>

definition signedBy :: "'x consortiumLib \<Rightarrow> string \<Rightarrow> json \<Rightarrow> json \<Rightarrow> bool" where
  "signedBy L pem db sig \<longleftrightarrow> (\<exists>x y. cl_sign L pem (payloadOf L db) x = (Some (nodeJws (payloadOf L db) sig), y))"

text \<open>The key and the database of the node at an address\<close>

definition identityAt :: "'x consortiumWorld \<Rightarrow> string \<Rightarrow> (string \<times> json) option" where
  "identityAt w h = map_option (\<lambda>p. (cm_keyPairPem p, cm_consortiumDatabase p)) (co_plugins w h)"

text \<open>A node that answers, with its key and its database, and one that does not\<close>

definition answersWith :: "'x consortiumLib \<Rightarrow> 'x consortiumWorld \<Rightarrow> string \<Rightarrow> string \<Rightarrow> json \<Rightarrow> bool" where
  "answersWith L w h pem db \<longleftrightarrow> reached L h \<and> identityAt w h = Some (pem, db) \<and> validKey L pem"

definition fails :: "'x consortiumLib \<Rightarrow> 'x consortiumWorld \<Rightarrow> string \<Rightarrow> bool" where
  "fails L w h \<longleftrightarrow> unreached L h \<or> (case identityAt w h of None \<Rightarrow> True | Some (pem, db) \<Rightarrow> invalidKey L pem)"

definition hasNodes :: "json \<Rightarrow> CactusNode list \<Rightarrow> bool" where
  "hasNodes db ns \<longleftrightarrow> wfJson db \<and> (\<exists>fs. db = JObj fs \<and> map_of fs ''cactusNode'' = Some (JArr (map nodeJson ns)))"

text \<open>The node at an address can be asked, and knows of some nodes.\<close>

definition knowsNodes :: "'x consortiumLib \<Rightarrow> 'x consortiumWorld \<Rightarrow> string \<Rightarrow> CactusNode list \<Rightarrow> bool" where
  "knowsNodes L w h ns \<longleftrightarrow> reached L h \<and> (\<exists>pem db. identityAt w h = Some (pem, db) \<and> hasNodes db ns)"

lemma hasNodes_nodesOf: "hasNodes db ns \<Longrightarrow> nodesOf db = map nodeJson ns"
  by (auto simp: hasNodes_def nodesOf_def allNodes_def)

section \<open>Collecting the signatures\<close>

lemma reachedD: "reached L h \<Longrightarrow> \<exists>x. cl_reaches L h y = (True, x)"
  unfolding reached_def by (metis prod.collapse)

lemma identityAt_update:
  assumes "co_plugins w h = Some p"
  shows "identityAt (w\<lparr>co_plugins := (co_plugins w)(h := Some (updateMetricNodeCount p))\<rparr>) = identityAt w"
  using assms by (simp add: identityAt_def fun_eq_iff updateMetricNodeCount_def)

lemma identityAt_ext [simp]: "identityAt (w\<lparr>co_ext := x\<rparr>) = identityAt w"
  by (simp add: identityAt_def fun_eq_iff)

lemmas node_request_defs = getNodeJwsV1_def postTo_def getNodeJwsEndpoint_def jwsEndpoint_def getNodeJws_def bindA_def ret_def throwE_def Let_def

lemma getNodeJwsV1_keeps:
  assumes "getNodeJwsV1 L h w = (r, w')"
  shows "identityAt w' = identityAt w" "r = Throws RequestError \<or> (\<exists>b. r = Returns b)"
  using assms by (auto simp: node_request_defs identityAt_update split: prod.splits bool.splits option.splits)

lemma getNodeJwsV1_fails:
  assumes "fails L w h"
  shows "fst (getNodeJwsV1 L h w) = Throws RequestError"
  using assms
  by (auto simp: node_request_defs fails_def unreached_def invalidKey_def identityAt_def updateMetricNodeCount_def
      split: prod.splits bool.splits option.splits) (metis fst_conv option.distinct(1))+

lemma getNodeJwsV1_run:
  assumes "documentedLib L" "answersWith L w h pem db"
  shows "\<exists>sig w'. getNodeJwsV1 L h w = (Returns (Some (JObj [(''jws'', nodeJws (payloadOf L db) sig)])), w') \<and> signedBy L pem db sig
    \<and> identityAt w' = identityAt w"
proof -
  obtain p where p: "co_plugins w h = Some p" "cm_consortiumDatabase p = db" "cm_keyPairPem p = pem"
    using assms(2) by (auto simp: answersWith_def identityAt_def)
  obtain x where x: "cl_reaches L h (co_ext w) = (True, x)" using assms(2) by (auto simp: answersWith_def dest: reachedD)
  obtain jws y where j: "cl_sign L pem (payloadOf L db) x = (Some jws, y)"
    using assms(2) unfolding answersWith_def validKey_def by (metis not_None_eq prod.collapse)
  then obtain sig where sig: "cl_sign L pem (payloadOf L db) x = (Some (nodeJws (payloadOf L db) sig), y)"
    using assms(1) unfolding documentedLib_def by blast
  have "getNodeJwsV1 L h w = (Returns (Some (JObj [(''jws'', nodeJws (payloadOf L db) sig)])),
      w\<lparr>co_plugins := (co_plugins w)(h := Some (updateMetricNodeCount p)), co_ext := y\<rparr>)"
    using p x sig by (simp add: node_request_defs updateMetricNodeCount_def payloadOf_def)
  moreover have "signedBy L pem db sig" using sig by (auto simp: signedBy_def)
  ultimately show ?thesis using identityAt_update [OF p(1)] by auto
qed

text \<open>The answer of a node with its signature\<close>

definition nodeAnswer :: "'x consortiumLib \<Rightarrow> json \<Rightarrow> json \<Rightarrow> jsv" where
  "nodeAnswer L db sig = Some (JObj [(''jws'', nodeJws (payloadOf L db) sig)])"

lemma answersWith_cong: "identityAt w' = identityAt w \<Longrightarrow> answersWith L w' h pem db = answersWith L w h pem db"
  by (simp add: answersWith_def)

lemma allA_getNodeJws:
  assumes "documentedLib L" "list_all2 (\<lambda>h (pem, db). answersWith L w h pem db) hosts ids"
  shows "\<exists>sigs w'. allA (getNodeJwsV1 L) hosts w = (Returns (map2 (nodeAnswer L) (map snd ids) sigs), w')
    \<and> list_all2 (\<lambda>(pem, db). signedBy L pem db) ids sigs \<and> identityAt w' = identityAt w"
  using assms(2)
proof (induction hosts arbitrary: ids w)
  case (Cons h hosts)
  then obtain pem db ids' where d: "ids = (pem, db) # ids'" "answersWith L w h pem db"
      "list_all2 (\<lambda>h (pem, db). answersWith L w h pem db) hosts ids'"
    by (auto simp: list_all2_Cons1)
  obtain sig v where v: "getNodeJwsV1 L h w = (Returns (nodeAnswer L db sig), v)" "identityAt v = identityAt w" "signedBy L pem db sig"
    using getNodeJwsV1_run [OF assms(1) d(2)] unfolding nodeAnswer_def by blast
  have "list_all2 (\<lambda>h (pem, db). answersWith L v h pem db) hosts ids'" using d(3) by (simp add: answersWith_cong [OF v(2)])
  then obtain sigs w' where "allA (getNodeJwsV1 L) hosts v = (Returns (map2 (nodeAnswer L) (map snd ids') sigs), w')"
      "list_all2 (\<lambda>(pem, db). signedBy L pem db) ids' sigs" "identityAt w' = identityAt v"
    using Cons.IH [of v ids'] by blast
  then show ?case using d v by (intro exI [of _ "sig # sigs"] exI [of _ w']) (simp add: bindA_def ret_def)
qed (simp add: ret_def)

lemma allA_fails:
  "(fst (allA (getNodeJwsV1 L) hosts w) = Throws RequestError \<or> (\<exists>bs. fst (allA (getNodeJwsV1 L) hosts w) = Returns bs))
    \<and> ((\<exists>h \<in> set hosts. fails L w h) \<longrightarrow> fst (allA (getNodeJwsV1 L) hosts w) = Throws RequestError)"
proof (induction hosts arbitrary: w)
  case (Cons h hosts)
  obtain r v where r: "getNodeJwsV1 L h w = (r, v)" by (cases "getNodeJwsV1 L h w")
  have v: "fails L v g = fails L w g" for g using getNodeJwsV1_keeps(1) [OF r] by (simp add: fails_def)
  have h: "fails L w h \<Longrightarrow> r = Throws RequestError" using getNodeJwsV1_fails [of L w h] r by simp
  obtain rs u where rs: "allA (getNodeJwsV1 L) hosts v = (rs, u)" by (cases "allA (getNodeJwsV1 L) hosts v")
  have rest: "rs = Throws RequestError \<or> (\<exists>bs. rs = Returns bs)" "(\<exists>g \<in> set hosts. fails L w g) \<Longrightarrow> rs = Throws RequestError"
    using Cons.IH [of v] v rs by auto
  from getNodeJwsV1_keeps(2) [OF r] show ?case
  proof
    assume "r = Throws RequestError"
    then show ?thesis using rest(1) by (elim disjE exE) (simp_all add: r rs)
  next
    assume "\<exists>b. r = Returns b"
    then obtain b where b: "r = Returns b" ..
    then have "allA (getNodeJwsV1 L) (h # hosts) w = (case rs of Returns bs \<Rightarrow> Returns (b # bs) | Throws e \<Rightarrow> Throws e | Pending \<Rightarrow> Pending, u)"
      by (cases rs) (simp_all add: r rs bindA_def ret_def)
    then show ?thesis using h b rest by auto
  qed
qed (simp add: ret_def)

lemma collected:
  assumes "length sigs = length dbs" "dbs \<noteq> []"
  shows "collectSignatures (map2 (nodeAnswer L) dbs sigs)
    = Inr (JObj [(''payload'', JStr (base64url (payloadOf L (hd dbs)))), (''signatures'', JArr sigs)])"
proof -
  let ?jws = "map2 (\<lambda>db sig. Some (nodeJws (payloadOf L db) sig)) dbs sigs"
  have 1: "mapR (jprop ''jws'') (map2 (nodeAnswer L) dbs sigs) = Inr ?jws"
    using assms(1) by (induction sigs dbs rule: list_induct2) (auto simp: nodeAnswer_def)
  have 2: "mapR (\<lambda>jws. bindR (jprop ''signatures'' jws) elementsOf) ?jws = Inr (map (\<lambda>s. [s]) sigs)"
    using assms(1) by (induction sigs dbs rule: list_induct2) (auto simp: nodeJws_def elementsOf_def)
  have "concat (map (\<lambda>s. [s]) sigs) = sigs" by (induction sigs) auto
  moreover have "?jws \<noteq> []" "hd ?jws = Some (nodeJws (payloadOf L (hd dbs)) (hd sigs))"
    using assms by (cases dbs; cases sigs; simp)+
  ultimately show ?thesis unfolding collectSignatures_def 1 bindR_simps 2
    by (simp add: nodeJws_def fieldsOf_def setField_def)
qed

lemma hosts_of: "mapR hostOf (map nodeJson ns) = Inr (map cn_nodeApiHost ns)"
  by (induction ns) (auto simp: hostOf_def nodeJson_def jsTextV_def)

text \<open>The answer of a node to a client: the database of the first node, with signatures\<close>

definition consortiumAnswer :: "'x consortiumLib \<Rightarrow> json \<Rightarrow> json list \<Rightarrow> jsv" where
  "consortiumAnswer L db sigs = Some (JObj [(''jws'', JObj [(''payload'', JStr (base64url (payloadOf L db))), (''signatures'', JArr sigs)])])"

lemmas client_request_defs = getConsortiumJwsV1_def postTo_def getConsortiumJwsEndpoint_def jwsEndpoint_def getConsortiumJws_def bindA_def
  ret_def throwE_def liftR_def

lemma getConsortiumJwsV1_run:
  assumes "documentedLib L" "knowsNodes L w h ns" "list_all2 (\<lambda>n (pem, db). answersWith L w (cn_nodeApiHost n) pem db) ns ids" "ns \<noteq> []"
  shows "\<exists>sigs w'. getConsortiumJwsV1 L h w = (Returns (consortiumAnswer L (snd (hd ids)) sigs), w')
    \<and> list_all2 (\<lambda>(pem, db). signedBy L pem db) ids sigs \<and> identityAt w' = identityAt w"
proof -
  obtain p where p: "co_plugins w h = Some p" "hasNodes (cm_consortiumDatabase p) ns"
    using assms(2) by (auto simp: knowsNodes_def identityAt_def)
  obtain x where x: "cl_reaches L h (co_ext w) = (True, x)" using assms(2) by (auto simp: knowsNodes_def dest: reachedD)
  let ?w = "w\<lparr>co_ext := x\<rparr>"
  have d: "list_all2 (\<lambda>h (pem, db). answersWith L ?w h pem db) (map cn_nodeApiHost ns) ids" "map snd ids \<noteq> []"
    using assms(3,4) by (auto simp: answersWith_def list_all2_map1 split: prod.splits)
  obtain sigs w' where s: "allA (getNodeJwsV1 L) (map cn_nodeApiHost ns) ?w = (Returns (map2 (nodeAnswer L) (map snd ids) sigs), w')"
      "list_all2 (\<lambda>(pem, db). signedBy L pem db) ids sigs" "identityAt w' = identityAt ?w"
    using allA_getNodeJws [OF assms(1) d(1)] by blast
  have "length sigs = length (map snd ids)" using s(2) by (simp add: list_all2_lengthD)
  from collected [OF this d(2), of L] have "getConsortiumJwsV1 L h w = (Returns (consortiumAnswer L (snd (hd ids)) sigs), w')"
    using s(1) p x d(2) by (simp add: client_request_defs hasNodes_nodesOf hosts_of consortiumAnswer_def hd_map)
  then show ?thesis using s(2,3) by auto
qed

lemma getConsortiumJwsV1_fails:
  assumes "knowsNodes L w h ns" "n \<in> set ns" "fails L w (cn_nodeApiHost n)"
  shows "\<exists>w'. getConsortiumJwsV1 L h w = (Throws RequestError, w')"
proof -
  obtain p where p: "co_plugins w h = Some p" "hasNodes (cm_consortiumDatabase p) ns"
    using assms(1) by (auto simp: knowsNodes_def identityAt_def)
  obtain x where x: "cl_reaches L h (co_ext w) = (True, x)" using assms(1) by (auto simp: knowsNodes_def dest: reachedD)
  have "fails L (w\<lparr>co_ext := x\<rparr>) (cn_nodeApiHost n)" using assms(3) by (simp add: fails_def)
  then have "fst (allA (getNodeJwsV1 L) (map cn_nodeApiHost ns) (w\<lparr>co_ext := x\<rparr>)) = Throws RequestError"
    using allA_fails assms(2) by (metis image_eqI list.set_map)
  then obtain v where "allA (getNodeJwsV1 L) (map cn_nodeApiHost ns) (w\<lparr>co_ext := x\<rparr>) = (Throws RequestError, v)" by (metis prod.collapse)
  then show ?thesis using p x by (simp add: client_request_defs hasNodes_nodesOf hosts_of)
qed

text \<open>
  C37. When the asked node and all nodes that it knows are reached, and these have keys that can be imported, the signed database of the
  consortium is that of the first node, with the signatures of all nodes in their order, each made with the node's own key over its own
  database. When one of them is not reached, or has a key that cannot be imported, the request fails.
\<close>

theorem consortium_jws_of_first_node:
  assumes "documentedLib L" "knowsNodes L w h ns" "ns \<noteq> []"
  shows "(\<forall>ids. list_all2 (\<lambda>n (pem, db). answersWith L w (cn_nodeApiHost n) pem db) ns ids
      \<longrightarrow> (\<exists>sigs w'. getConsortiumJwsV1 L h w = (Returns (consortiumAnswer L (snd (hd ids)) sigs), w')
        \<and> list_all2 (\<lambda>(pem, db). signedBy L pem db) ids sigs \<and> identityAt w' = identityAt w))
    \<and> ((\<exists>n \<in> set ns. fails L w (cn_nodeApiHost n)) \<longrightarrow> (\<exists>w'. getConsortiumJwsV1 L h w = (Throws RequestError, w')))"
  using getConsortiumJwsV1_run [OF assms(1,2) _ assms(3)] getConsortiumJwsV1_fails [OF assms(2)] by blast

section \<open>Finding a node\<close>

lemma parse_empty: "parse '''' = None"
  by code_simp

lemma bytesOfBase64_empty: "bytesOfBase64 '''' = []"
  by (simp add: bytesOfBase64_def)

lemma parsed_database:
  assumes "documentedLib L" "hasNodes db ns"
  shows "\<exists>db'. parseConsortiumJws (consortiumAnswer L db sigs) = Inr (Some db') \<and> eqJson db db'"
proof -
  let ?o = "JObj [(''consortiumDatabase'', db)]"
  have "wfJson ?o" using assms(2) by (simp add: hasNodes_def)
  then obtain j' where j': "parse (cl_stableStringify L ?o) = Some j'" "eqJson ?o j'" using assms(1) unfolding documentedLib_def by meson
  obtain db' where db': "jprop ''consortiumDatabase'' (Some j') = Inr (Some db')" "eqJson db db'" using eqJson_field [OF j'(2), of "''consortiumDatabase''" db] by auto
  have "truthy (Some db')" using db'(2) assms(2) by (auto simp: hasNodes_def truthy_def elim: eqJson_ObjE)
  moreover have "cl_stableStringify L ?o \<noteq> ''''" using j'(1) by (auto simp: parse_empty)
  then have "payloadOf L db \<noteq> []" unfolding payloadOf_def by (metis option.inject utf8Decode.simps(1) utf8_round)
  then have "base64url (payloadOf L db) \<noteq> ''''" by (metis base64url_round bytesOfBase64_empty)
  ultimately show ?thesis using j' db'
    by (simp add: consortiumAnswer_def parseConsortiumJws_def textOfBase64_def truthy_def payloadOf_def parseJ_def)
qed

lemma filtered_nodes:
  assumes "list_all2 eqJson (map nodeJson ns) js"
  shows "\<exists>js'. filterR (\<lambda>cn. bindR (jprop ''ledgerIds'' (Some cn)) (includesR l)) js = Inr js'
    \<and> list_all2 eqJson (map nodeJson (filter (\<lambda>n. l \<in> set (cn_ledgerIds n)) ns)) js'"
  using assms
proof (induction ns arbitrary: js)
  case (Cons n ns)
  then obtain j js1 where j: "js = j # js1" "eqJson (nodeJson n) j" "list_all2 eqJson (map nodeJson ns) js1" by (auto simp: list_all2_Cons1)
  have "jprop ''ledgerIds'' (Some j) = Inr (Some (JArr (map JStr (cn_ledgerIds n))))"
    using eqJson_field [of _ j "''ledgerIds''" "JArr (map JStr (cn_ledgerIds n))"] j(2) by (auto simp: nodeJson_def eqJson_Strs)
  then have "bindR (jprop ''ledgerIds'' (Some j)) (includesR l) = Inr (l \<in> set (cn_ledgerIds n))" by (auto simp: includesR_def)
  then show ?case using Cons.IH [OF j(3)] j(1,2) by auto
qed simp

lemma nodes_of_database:
  assumes "hasNodes db ns" "eqJson db db'" "isNonBlank l"
  shows "newConsortiumRepository (Some db') = Inr db'"
    "\<exists>js. nodesWithLedger db' l = Inr js \<and> list_all2 eqJson (map nodeJson (filter (\<lambda>n. l \<in> set (cn_ledgerIds n)) ns)) js"
proof -
  obtain v where v: "jprop ''cactusNode'' (Some db') = Inr (Some v)" "eqJson (JArr (map nodeJson ns)) v"
    using assms(1,2) eqJson_field unfolding hasNodes_def by blast
  then obtain js where js: "v = JArr js" "list_all2 eqJson (map nodeJson ns) js" by (auto elim: eqJson_ArrE)
  have "truthy (Some db')" using assms(1,2) by (auto simp: hasNodes_def truthy_def elim: eqJson_ObjE)
  then show "newConsortiumRepository (Some db') = Inr db'" using v js by (simp add: newConsortiumRepository_def truthy_def)
  show "\<exists>js. nodesWithLedger db' l = Inr js \<and> list_all2 eqJson (map nodeJson (filter (\<lambda>n. l \<in> set (cn_ledgerIds n)) ns)) js"
    using v js assms(3) filtered_nodes [OF js(2), of l] by (simp add: nodesWithLedger_def allNodes_def checkNonBlank_def elementsOf_def)
qed

lemma routed_run:
  assumes "documentedLib L" "knowsNodes L w h ns" "list_all2 (\<lambda>n (pem, db). answersWith L w (cn_nodeApiHost n) pem db) ns ids" "ns \<noteq> []"
    and "hasNodes (snd (hd ids)) ms" "isNonBlank l"
  shows "\<exists>w'. if \<exists>n \<in> set ms. l \<in> set (cn_ledgerIds n)
    then \<exists>n \<in> set ms. l \<in> set (cn_ledgerIds n)
      \<and> ofLedger L (defaultConsortiumProvider L h) (LedgerId l) w = (Returns (Some (JStr (cn_nodeApiHost n))), w')
    else ofLedger L (defaultConsortiumProvider L h) (LedgerId l) w = (Throws TypeError, w')"
proof -
  let ?db = "snd (hd ids)"
  let ?ok = "filter (\<lambda>n. l \<in> set (cn_ledgerIds n)) ms"
  obtain sigs w1 where w1: "getConsortiumJwsV1 L h w = (Returns (consortiumAnswer L ?db sigs), w1)"
    using getConsortiumJwsV1_run [OF assms(1-4)] by blast
  obtain db' where db': "parseConsortiumJws (consortiumAnswer L ?db sigs) = Inr (Some db')" "eqJson ?db db'"
    using parsed_database [OF assms(1,5)] by blast
  obtain js where js: "nodesWithLedger db' l = Inr js" "list_all2 eqJson (map nodeJson ?ok) js"
    using nodes_of_database(2) [OF assms(5) db'(2) assms(6)] by blast
  obtain i x where i: "cl_random L (length js) (co_ext w1) = (i, x)" by (cases "cl_random L (length js) (co_ext w1)")
  have "l \<noteq> ''''" using assms(6) by (auto simp: isNonBlank_def trimSpaces_def)
  then have run: "ofLedger L (defaultConsortiumProvider L h) (LedgerId l) w = propA ''nodeApiHost'' (nodeAt js i) (w1\<lparr>co_ext := x\<rparr>)"
    using w1 db' js(1) i nodes_of_database(1) [OF assms(5) db'(2) assms(6)]
    by (simp add: ofLedger_def defaultConsortiumProvider_def ledgerIdOf_def bindA_def liftR_def ret_def)
  have len: "length js = length ?ok" using js(2) by (auto dest: list_all2_lengthD)
  show ?thesis
  proof (cases "?ok = []")
    case True
    then have "\<not> (\<exists>n \<in> set ms. l \<in> set (cn_ledgerIds n))" by (auto simp: filter_empty_conv)
    moreover have "nodeAt js i = None" using True len by (simp add: nodeAt_def)
    ultimately show ?thesis using run by (simp add: propA_def jprop_def liftR_def throwE_def)
  next
    case False
    then have "i < length ?ok" using assms(1) i len unfolding documentedLib_def by (metis fst_conv length_greater_0_conv)
    then have n: "eqJson (nodeJson (?ok ! i)) (js ! i)" "nodeAt js i = Some (js ! i)" "?ok ! i \<in> set ?ok"
      using js(2) len by (auto simp: list_all2_conv_all_nth nodeAt_def simp del: set_filter)
    then have "jprop ''nodeApiHost'' (Some (js ! i)) = Inr (Some (JStr (cn_nodeApiHost (?ok ! i))))"
      using eqJson_field [of _ "js ! i" "''nodeApiHost''" "JStr (cn_nodeApiHost (?ok ! i))"] by (auto simp: nodeJson_def)
    then have "?ok ! i \<in> set ms \<and> l \<in> set (cn_ledgerIds (?ok ! i))"
        "ofLedger L (defaultConsortiumProvider L h) (LedgerId l) w = (Returns (Some (JStr (cn_nodeApiHost (?ok ! i)))), w1\<lparr>co_ext := x\<rparr>)"
      using run n(2,3) by (auto simp: propA_def liftR_def ret_def)
    then show ?thesis by (intro exI [of _ "w1\<lparr>co_ext := x\<rparr>"]) auto
  qed
qed

lemma routed_fails:
  assumes "knowsNodes L w h ns" "n \<in> set ns" "fails L w (cn_nodeApiHost n)" "isNonBlank l"
  shows "\<exists>w'. ofLedger L (defaultConsortiumProvider L h) (LedgerId l) w = (Throws RequestError, w')"
proof -
  have "l \<noteq> []" using assms(4) by (auto simp: isNonBlank_def trimSpaces_def)
  then show ?thesis using getConsortiumJwsV1_fails [OF assms(1-3)] by (auto simp: ofLedger_def defaultConsortiumProvider_def bindA_def)
qed

text \<open>
  C36. When the asked node and all nodes that it knows answer, a client that looks for a ledger is sent to a node that has the ledger in the database of
  the first of them, whatever the databases of the others say; when no node there has the ledger, the look ends with a type error. When one of
  the nodes that the asked node knows does not answer, the look fails, even if a reachable node has the ledger.
\<close>

theorem ledger_routed:
  assumes "documentedLib L" "knowsNodes L w h ns" "ns \<noteq> []" "isNonBlank l"
  shows "(\<forall>ids ms. list_all2 (\<lambda>n (pem, db). answersWith L w (cn_nodeApiHost n) pem db) ns ids \<and> hasNodes (snd (hd ids)) ms
      \<longrightarrow> (\<exists>w'. if \<exists>n \<in> set ms. l \<in> set (cn_ledgerIds n)
        then \<exists>n \<in> set ms. l \<in> set (cn_ledgerIds n)
          \<and> ofLedger L (defaultConsortiumProvider L h) (LedgerId l) w = (Returns (Some (JStr (cn_nodeApiHost n))), w')
        else ofLedger L (defaultConsortiumProvider L h) (LedgerId l) w = (Throws TypeError, w')))
    \<and> ((\<exists>n \<in> set ns. fails L w (cn_nodeApiHost n))
      \<longrightarrow> (\<exists>w'. ofLedger L (defaultConsortiumProvider L h) (LedgerId l) w = (Throws RequestError, w')))"
  using routed_run [OF assms(1,2) _ assms(3) _ assms(4)] routed_fails [OF assms(2) _ _ assms(4)] by blast

section \<open>Examples\<close>

lemma eqJson_refl: "eqJson j j"
proof (induction j)
  case (JArr xs)
  then show ?case by (auto intro!: eqJson.arr list.rel_refl_strong)
next
  case (JObj fs)
  have "rel_option eqJson (map_of fs k) (map_of fs k)" for k
    using JObj by (cases "map_of fs k") (fastforce dest: map_of_SomeD)+
  then show ?case by (rule eqJson.obj)
qed (auto intro: eqJson.atom)

text \<open>Libraries whose state counts the signatures, and a consortium of one node, which has one ledger.\<close>

definition demoJwsLib :: "nat consortiumLib" where
  "demoJwsLib = \<lparr>cl_stableStringify = stringify, cl_sign = (\<lambda>pem bs x. (Some (nodeJws bs (JStr pem)), x + 1)), cl_reaches = (\<lambda>h x. (True, x)),
     cl_random = (\<lambda>n x. (0, x))\<rparr>"

definition demoMember :: CactusNode where
  "demoMember = \<lparr>cn_nodeApiHost = ''http://a'', cn_publicKeyPem = ''pub'', cn_id = ''n'', cn_consortiumId = ''c'', cn_memberId = ''m'',
     cn_ledgerIds = [''besu''], cn_pluginInstanceIds = []\<rparr>"

definition demoConsortiumDb :: json where
  "demoConsortiumDb = JObj [(''cactusNode'', JArr [nodeJson demoMember])]"

definition demoConsortium :: "nat consortiumWorld" where
  "demoConsortium = \<lparr>co_plugins = (\<lambda>h. if h = ''http://a'' then Some \<lparr>cm_instanceId = ''i'', cm_keyPairPem = ''pem'',
     cm_consortiumDatabase = demoConsortiumDb, cm_nodeCount = 1\<rparr> else None), co_ext = 0\<rparr>"

lemma demoJwsLib_works: "documentedLib demoJwsLib"
  by (auto simp: documentedLib_def demoJwsLib_def eqJson_refl)

lemma demo_nodes: "hasNodes demoConsortiumDb [demoMember]" "knowsNodes demoJwsLib demoConsortium ''http://a'' [demoMember]"
    "answersWith demoJwsLib demoConsortium (cn_nodeApiHost demoMember) ''pem'' demoConsortiumDb"
  by (auto simp: hasNodes_def knowsNodes_def demoConsortiumDb_def demoMember_def nodeJson_def identityAt_def demoConsortium_def reached_def
      answersWith_def validKey_def demoJwsLib_def)

theorem consortium_jws_of_first_node_witness:
  "\<exists>sigs w'. getConsortiumJwsV1 demoJwsLib ''http://a'' demoConsortium = (Returns (consortiumAnswer demoJwsLib demoConsortiumDb sigs), w')"
proof -
  have "list_all2 (\<lambda>n (pem, db). answersWith demoJwsLib demoConsortium (cn_nodeApiHost n) pem db) [demoMember] [(''pem'', demoConsortiumDb)]"
    using demo_nodes(3) by simp
  from conjunct1 [OF consortium_jws_of_first_node [OF demoJwsLib_works demo_nodes(2)], rule_format, OF _ this] show ?thesis by auto
qed

theorem ledger_routed_witness:
  "\<exists>w'. ofLedger demoJwsLib (defaultConsortiumProvider demoJwsLib ''http://a'') (LedgerId ''besu'') demoConsortium
     = (Returns (Some (JStr ''http://a'')), w')"
proof -
  have "isNonBlank ''besu''" by code_simp
  from conjunct1 [OF ledger_routed [OF demoJwsLib_works demo_nodes(2) _ this], THEN spec [of _ "[(''pem'', demoConsortiumDb)]"], THEN spec [of _ "[demoMember]"]]
  show ?thesis using demo_nodes(1,3) by (auto simp: demoMember_def)
qed

end
