(* ===== verification/Socket_Client.thy ===== *)
theory Socket_Client
  imports JS_Async Plugin_Registry
begin

text \<open>
  The client of the validators that speak over a socket (\<open>socketio-api-client.ts\<close>): a request for an answer gets an identifier from a
  counter that starts again after a while, waits for a response that carries it, and ends by itself after some
  time. Many requests may wait at the same time. The events, which are responses, errors of the socket, timers, and the
  end of the check of a response, come in any order: \<open>client_step\<close> has one rule for each.
\<close>

section \<open>The client\<close>

record SocketIOApiClientOptions =
  sp_validatorID :: string
  sp_validatorURL :: string
  sp_validatorKeyValue :: "string option"
  sp_validatorKeyPath :: "string option"
  sp_maxCounterRequestID :: "int option"

text \<open>How a promise was settled: an answer as it came, one whose data was checked, status 504, or two kinds of errors.\<close>

datatype promiseEnd =
    Answered "(string \<times> json) list"
  | Checked jsv jsv
  | TimedOut
  | SocketFailed string
  | CheckFailed

text \<open>
  A request for an answer with the variables of its promise: \<open>sy_checks\<close> are the status and the data of the responses that are being
  checked, \<open>sy_timer\<close> is whether its timer runs.
\<close>

record syncRequest =
  sy_reqID :: string
  sy_responseFlag :: bool
  sy_checks :: "(jsv \<times> string) list"
  sy_timer :: bool
  sy_result :: "promiseEnd option"

datatype emission = Request2 json json json "string option"

record SocketIOApiClient =
  sc_validatorID :: string
  sc_validatorKey :: string
  sc_maxCounterRequestID :: int
  sc_counterReqID :: int
  sc_requests :: "syncRequest list"
  sc_emitted :: "emission list"
  sc_connected :: bool

definition nonEmpty :: "string option \<Rightarrow> bool" where
  "nonEmpty s \<longleftrightarrow> s \<noteq> None \<and> s \<noteq> Some ''''"

text \<open>\<open>readFile\<close> gives the text of a file, or an error.\<close>

definition newSocketIOApiClient :: "(string \<Rightarrow> string result) \<Rightarrow> SocketIOApiClientOptions \<Rightarrow> SocketIOApiClient result" where
  "newSocketIOApiClient readFile opts =
     bindR (checkNonBlank (sp_validatorID opts) ''SocketIOApiClient::constructor() validatorID'') (\<lambda>_.
     bindR (checkNonBlank (sp_validatorURL opts) ''SocketIOApiClient::constructor() validatorURL'') (\<lambda>_.
     bindR (if nonEmpty (sp_validatorKeyValue opts) then Inr (the (sp_validatorKeyValue opts))
       else if nonEmpty (sp_validatorKeyPath opts) then readFile (the (sp_validatorKeyPath opts))
       else Inl (ErrorMsg ''Either validatorKeyValue or validatorKeyPath must be defined'')) (\<lambda>key.
     Inr \<lparr>sc_validatorID = sp_validatorID opts, sc_validatorKey = key,
       sc_maxCounterRequestID = (case sp_maxCounterRequestID opts of None \<Rightarrow> 100 | Some n \<Rightarrow> if n = 0 then 100 else n),
       sc_counterReqID = 1, sc_requests = [], sc_emitted = [], sc_connected = True\<rparr>)))"

definition emitRequest :: "emission \<Rightarrow> SocketIOApiClient \<Rightarrow> SocketIOApiClient" where
  "emitRequest m c = c\<lparr>sc_emitted := sc_emitted c @ [m]\<rparr>"

definition sendAsyncRequest :: "json \<Rightarrow> json \<Rightarrow> json \<Rightarrow> SocketIOApiClient \<Rightarrow> SocketIOApiClient" where
  "sendAsyncRequest contract meth args = emitRequest (Request2 contract meth args None)"

definition genarateReqID :: "SocketIOApiClient \<Rightarrow> string \<times> SocketIOApiClient" where
  "genarateReqID c = (let n = (if sc_counterReqID c > sc_maxCounterRequestID c then 1 else sc_counterReqID c) in
     (sc_validatorID c @ ''_'' @ intToString n, c\<lparr>sc_counterReqID := n + 1\<rparr>))"

definition sendSyncRequest :: "json \<Rightarrow> json \<Rightarrow> json \<Rightarrow> SocketIOApiClient \<Rightarrow> SocketIOApiClient" where
  "sendSyncRequest contract meth args c = (case genarateReqID c of (reqID, c') \<Rightarrow>
     emitRequest (Request2 contract meth args (Some reqID)) (c'\<lparr>sc_requests := sc_requests c' @
       [\<lparr>sy_reqID = reqID, sy_responseFlag = False, sy_checks = [], sy_timer = True, sy_result = None\<rparr>]\<rparr>))"

section \<open>Events\<close>

text \<open>A promise is settled once; then its listeners and its timer are removed.\<close>

definition settle :: "promiseEnd \<Rightarrow> syncRequest \<Rightarrow> syncRequest" where
  "settle s r = (if sy_result r = None then r\<lparr>sy_result := Some s, sy_timer := False\<rparr> else r)"

definition onAll :: "(syncRequest \<Rightarrow> syncRequest) \<Rightarrow> SocketIOApiClient \<Rightarrow> SocketIOApiClient" where
  "onAll f c = c\<lparr>sc_requests := map f (sc_requests c)\<rparr>"

definition onOne :: "nat \<Rightarrow> (syncRequest \<Rightarrow> syncRequest) \<Rightarrow> SocketIOApiClient \<Rightarrow> SocketIOApiClient" where
  "onOne i f c = c\<lparr>sc_requests := (sc_requests c)[i := f (sc_requests c ! i)]\<rparr>"

text \<open>Data that is a text is taken as signed and checked.\<close>

definition responseHandler :: "string \<Rightarrow> (string \<times> json) list \<Rightarrow> syncRequest \<Rightarrow> syncRequest" where
  "responseHandler i resObj r =
     (if sy_result r \<noteq> None \<or> sy_reqID r \<noteq> i then r
      else let r' = r\<lparr>sy_responseFlag := True\<rparr> in case map_of resObj ''data'' of
          Some (JStr d) \<Rightarrow> r'\<lparr>sy_checks := sy_checks r' @ [(map_of resObj ''status'', d)]\<rparr>
        | _ \<Rightarrow> settle (Answered resObj) r')"

definition onResponse :: "string \<Rightarrow> (string \<times> json) list \<Rightarrow> SocketIOApiClient \<Rightarrow> SocketIOApiClient" where
  "onResponse i resObj = onAll (responseHandler i resObj)"

definition dropAt :: "nat \<Rightarrow> 'a list \<Rightarrow> 'a list" where
  "dropAt k xs = take k xs @ drop (Suc k) xs"

text \<open>The end of a check: \<open>V\<close> gives the decoded message of a key and a text, if it is valid.\<close>

definition checkEnds :: "json option \<Rightarrow> nat \<Rightarrow> syncRequest \<Rightarrow> syncRequest" where
  "checkEnds decoded k r = (let r' = r\<lparr>sy_checks := dropAt k (sy_checks r)\<rparr>; failed = settle CheckFailed (r'\<lparr>sy_responseFlag := False\<rparr>) in
     case decoded of
       None \<Rightarrow> failed
     | Some d \<Rightarrow> (case jprop ''result'' (Some d) of Inl e \<Rightarrow> failed | Inr v \<Rightarrow> settle (Checked (fst (sy_checks r ! k)) v) r'))"

definition onChecked :: "(string \<Rightarrow> string \<Rightarrow> json option) \<Rightarrow> nat \<Rightarrow> nat \<Rightarrow> SocketIOApiClient \<Rightarrow> SocketIOApiClient" where
  "onChecked V i k c = onOne i (checkEnds (V (sc_validatorKey c) (snd (sy_checks (sc_requests c ! i) ! k))) k) c"

definition timerFires :: "syncRequest \<Rightarrow> syncRequest" where
  "timerFires r = (let r' = r\<lparr>sy_timer := False\<rparr> in if \<not> sy_responseFlag r then settle TimedOut r' else r')"

definition onTimer :: "nat \<Rightarrow> SocketIOApiClient \<Rightarrow> SocketIOApiClient" where
  "onTimer i = onOne i timerFires"

text \<open>Every request that waits has a handler for errors, which disconnects.\<close>

definition onSocketError :: "string \<Rightarrow> SocketIOApiClient \<Rightarrow> SocketIOApiClient" where
  "onSocketError e c = (if \<exists>r \<in> set (sc_requests c). sy_result r = None then (onAll (settle (SocketFailed e)) c)\<lparr>sc_connected := False\<rparr> else c)"

inductive client_step :: "(string \<Rightarrow> string \<Rightarrow> json option) \<Rightarrow> SocketIOApiClient \<Rightarrow> SocketIOApiClient \<Rightarrow> bool"
  for V :: "string \<Rightarrow> string \<Rightarrow> json option" where
  sends: "client_step V c (sendSyncRequest contract meth args c)"
| sends_async: "client_step V c (sendAsyncRequest contract meth args c)"
| responds: "client_step V c (onResponse i resObj c)"
| checked: "i < length (sc_requests c) \<Longrightarrow> k < length (sy_checks (sc_requests c ! i)) \<Longrightarrow> client_step V c (onChecked V i k c)"
| timer: "i < length (sc_requests c) \<Longrightarrow> sy_timer (sc_requests c ! i) \<Longrightarrow> client_step V c (onTimer i c)"
| fails: "client_step V c (onSocketError e c)"

inductive_cases client_stepE: "client_step V c c'"

end
