(* ===== verification/Socket_Client_Properties.thy ===== *)
theory Socket_Client_Properties
  imports Socket_Client
begin

text \<open>
  Properties of the client of the validators over all orders of events: which request a response belongs to, and that no
  request waits for ever.
\<close>

section \<open>Identifiers\<close>

definition requestId :: "SocketIOApiClient \<Rightarrow> nat \<Rightarrow> string" where
  "requestId c i = sc_validatorID c @ ''_'' @ intToString (int (i mod nat (sc_maxCounterRequestID c)) + 1)"

definition created :: "SocketIOApiClient \<Rightarrow> bool" where
  "created c \<longleftrightarrow> (\<exists>readFile opts. newSocketIOApiClient readFile opts = Inr c)"

text \<open>The counter has the number of the next request, or is about to start again; a request that is open has a timer or is being checked.\<close>

definition wellNumbered :: "SocketIOApiClient \<Rightarrow> bool" where
  "wellNumbered c \<longleftrightarrow> (let m = sc_maxCounterRequestID c; n = sc_counterReqID c in m > 0 \<longrightarrow>
     n \<ge> 1 \<and> (if n > m then 1 else n) = int (length (sc_requests c) mod nat m) + 1
     \<and> (\<forall>i < length (sc_requests c). sy_reqID (sc_requests c ! i) = requestId c i))"

definition waits :: "syncRequest \<Rightarrow> bool" where
  "waits r \<longleftrightarrow> (sy_result r = None \<longrightarrow> sy_timer r \<and> \<not> sy_responseFlag r \<and> sy_checks r = [] \<or> sy_responseFlag r \<and> sy_checks r \<noteq> [])"

definition openWaits :: "SocketIOApiClient \<Rightarrow> bool" where
  "openWaits c \<longleftrightarrow> (\<forall>r \<in> set (sc_requests c). waits r)"

definition sameRequests :: "SocketIOApiClient \<Rightarrow> SocketIOApiClient \<Rightarrow> bool" where
  "sameRequests c c' \<longleftrightarrow> sc_validatorID c' = sc_validatorID c \<and> sc_maxCounterRequestID c' = sc_maxCounterRequestID c
     \<and> sc_counterReqID c' = sc_counterReqID c \<and> map sy_reqID (sc_requests c') = map sy_reqID (sc_requests c)"

lemma created_numbered: "created c \<Longrightarrow> wellNumbered c \<and> openWaits c"
  by (auto simp: created_def newSocketIOApiClient_def bindR_Inr wellNumbered_def openWaits_def Let_def)

lemma settle_id [simp]: "sy_reqID (settle s r) = sy_reqID r"
  by (simp add: settle_def)

lemma event_ids [simp]:
  "sy_reqID (responseHandler i resObj r) = sy_reqID r" "sy_reqID (timerFires r) = sy_reqID r" "sy_reqID (checkEnds d k r) = sy_reqID r"
  by (auto simp: responseHandler_def timerFires_def checkEnds_def Let_def split: option.split json.split sum.split)

lemma onOne_same: "(\<And>r. sy_reqID (f r) = sy_reqID r) \<Longrightarrow> sameRequests c (onOne i f c)"
  by (cases "i < length (sc_requests c)") (auto simp: sameRequests_def onOne_def map_update list_update_same_conv list_update_beyond)

lemma onAll_same: "(\<And>r. sy_reqID (f r) = sy_reqID r) \<Longrightarrow> sameRequests c (onAll f c)"
  by (simp add: sameRequests_def onAll_def)

lemma same_numbered:
  assumes "sameRequests c c'" "wellNumbered c"
  shows "wellNumbered c'"
proof -
  have l: "length (sc_requests c') = length (sc_requests c)" using assms(1) unfolding sameRequests_def by (metis length_map)
  have "sy_reqID (sc_requests c' ! i) = sy_reqID (sc_requests c ! i)" if "i < length (sc_requests c)" for i
    using assms(1) that l unfolding sameRequests_def by (metis nth_map)
  then show ?thesis using assms l by (auto simp: wellNumbered_def sameRequests_def requestId_def Let_def)
qed

lemma send_numbered:
  assumes "wellNumbered c"
  shows "wellNumbered (sendSyncRequest contract meth args c)"
proof (cases "sc_maxCounterRequestID c > 0")
  case True
  define m where "m = nat (sc_maxCounterRequestID c)"
  have m: "m > 0" "sc_maxCounterRequestID c = int m" using True by (simp_all add: m_def)
  let ?n = "length (sc_requests c)"
  have "int (Suc ?n mod m) + 1 = (if int (?n mod m) + 2 > int m then 1 else int (?n mod m) + 2)"
    using m(1) mod_less_divisor [OF m(1), of ?n] by (simp add: mod_Suc)
  then show ?thesis using assms m
    by (auto simp: wellNumbered_def sendSyncRequest_def genarateReqID_def emitRequest_def Let_def requestId_def nth_append less_Suc_eq split: if_splits)
qed (simp add: wellNumbered_def sendSyncRequest_def genarateReqID_def emitRequest_def Let_def)

lemma numbered_step: "client_step V c c' \<Longrightarrow> wellNumbered c \<Longrightarrow> wellNumbered c'"
proof (induction rule: client_step.induct)
  case (sends_async c contract meth args)
  then show ?case by (simp add: sendAsyncRequest_def emitRequest_def wellNumbered_def requestId_def)
next
  case (responds c i resObj)
  then show ?case unfolding onResponse_def by (intro same_numbered [OF onAll_same]) simp_all
next
  case (checked i c k)
  then show ?case unfolding onChecked_def by (intro same_numbered [OF onOne_same]) simp_all
next
  case (timer i c)
  then show ?case unfolding onTimer_def by (intro same_numbered [OF onOne_same]) simp_all
next
  case (fails c e)
  have "sameRequests c (onSocketError e c)" using onAll_same [of "settle (SocketFailed e)" c] by (auto simp: onSocketError_def sameRequests_def)
  then show ?case using fails by (rule same_numbered)
qed (rule send_numbered)

lemma reaches_numbered: "reaches created (client_step V) c \<Longrightarrow> wellNumbered c"
  by (erule reaches_invariant) (simp_all add: created_numbered numbered_step)

text \<open>
  C38. A response carries the identifier of a request, and only requests whose numbers differ by a multiple of the
  maximum have the same one: when every other request that waits is less than the maximum away, a response changes no other
  request than its own.
\<close>

theorem answers_match:
  assumes "reaches created (client_step V) c" "sc_maxCounterRequestID c > 0" "j < length (sc_requests c)"
    and "\<forall>i < length (sc_requests c). sy_result (sc_requests c ! i) = None \<longrightarrow> \<bar>int i - int j\<bar> < sc_maxCounterRequestID c"
    and "i < length (sc_requests c)" "i \<noteq> j"
  shows "sc_requests (onResponse (sy_reqID (sc_requests c ! j)) resObj c) ! i = sc_requests c ! i"
proof (cases "sy_result (sc_requests c ! i) = None")
  case True
  let ?m = "nat (sc_maxCounterRequestID c)"
  have w: "wellNumbered c" using assms(1) by (rule reaches_numbered)
  have "i mod ?m \<noteq> j mod ?m"
  proof
    assume "i mod ?m = j mod ?m"
    then have "int ?m dvd int i - int j" by (metis mod_eq_dvd_iff of_nat_mod)
    moreover have "\<bar>int i - int j\<bar> < int ?m" "int i - int j \<noteq> 0" using assms True by auto
    ultimately show False using dvd_imp_le_int [of "int i - int j" "int ?m"] by simp
  qed
  then have "intToString (int (i mod ?m) + 1) \<noteq> intToString (int (j mod ?m) + 1)"
    by (metis add_right_cancel of_nat_eq_iff option.inject parseInt_intToString)
  then have "sy_reqID (sc_requests c ! i) \<noteq> sy_reqID (sc_requests c ! j)"
    using w assms(2,3,5) by (simp add: wellNumbered_def requestId_def Let_def)
  then show ?thesis using assms(5) by (simp add: onResponse_def onAll_def responseHandler_def)
qed (use assms(5) in \<open>simp add: onResponse_def onAll_def responseHandler_def\<close>)

text \<open>
  The identifier of a request is given again after as many requests as the maximum: the late answer to a request that has ended
  settles the one that has its identifier now.
\<close>

theorem late_answer_taken:
  assumes "reaches created (client_step V) c" "sc_maxCounterRequestID c = int m" "0 < m" "j + m < length (sc_requests c)"
    and "sy_result (sc_requests c ! (j + m)) = None" "\<nexists>d. map_of resObj ''data'' = Some (JStr d)"
  shows "sy_result (sc_requests (onResponse (sy_reqID (sc_requests c ! j)) resObj c) ! (j + m)) = Some (Answered resObj)"
proof -
  have "wellNumbered c" using assms(1) by (rule reaches_numbered)
  then have "sy_reqID (sc_requests c ! (j + m)) = sy_reqID (sc_requests c ! j)"
    using assms(2-4) by (simp add: wellNumbered_def requestId_def Let_def)
  then show ?thesis using assms(4-6)
    by (auto simp: onResponse_def onAll_def responseHandler_def settle_def Let_def split: option.split json.split)
qed

section \<open>No request waits for ever\<close>

lemma settle_waits [simp]: "waits (settle s r)"
  by (auto simp: waits_def settle_def)

lemma fresh_waits [simp]: "waits \<lparr>sy_reqID = i, sy_responseFlag = False, sy_checks = [], sy_timer = True, sy_result = None\<rparr>"
  by (simp add: waits_def)

lemma event_waits:
  "waits r \<Longrightarrow> waits (responseHandler i resObj r)" "waits r \<Longrightarrow> waits (timerFires r)" "waits r \<Longrightarrow> waits (checkEnds d k r)"
  by (auto simp: responseHandler_def timerFires_def checkEnds_def waits_def settle_def Let_def split: option.split json.split sum.split)

lemma waits_step: "client_step V c c' \<Longrightarrow> openWaits c \<Longrightarrow> openWaits c'"
proof (induction rule: client_step.induct)
  case (checked i c k)
  then show ?case using event_waits(3) set_update_subset_insert by (fastforce simp: openWaits_def onChecked_def onOne_def)
next
  case (timer i c)
  then show ?case using event_waits(2) set_update_subset_insert by (fastforce simp: openWaits_def onTimer_def onOne_def)
qed (auto simp: openWaits_def sendSyncRequest_def genarateReqID_def sendAsyncRequest_def emitRequest_def Let_def onResponse_def onAll_def onSocketError_def
    event_waits)

lemma reaches_waits: "reaches created (client_step V) c \<Longrightarrow> openWaits c"
  by (erule reaches_invariant) (simp_all add: created_numbered waits_step)

text \<open>
  C39. No request waits for ever: as long as one is open, either its timer runs, which settles it when it fires, or an answer to it is being
  checked, and the end of the check settles it, with the result, or with an error if the answer is not valid.
\<close>

theorem request_settles:
  assumes "reaches created (client_step V) c" "i < length (sc_requests c)" "sy_result (sc_requests c ! i) = None"
  shows "sy_timer (sc_requests c ! i) \<and> sy_result (sc_requests (onTimer i c) ! i) = Some TimedOut
    \<or> sy_checks (sc_requests c ! i) \<noteq> []
      \<and> (\<forall>k < length (sy_checks (sc_requests c ! i)). sy_result (sc_requests (onChecked V i k c) ! i) \<noteq> None)"
proof -
  have "waits (sc_requests c ! i)" using reaches_waits [OF assms(1)] assms(2) by (simp add: openWaits_def)
  then show ?thesis using assms(2,3)
    by (auto simp: waits_def onTimer_def onChecked_def onOne_def timerFires_def checkEnds_def settle_def Let_def
        split: option.split sum.split)
qed

section \<open>Examples\<close>

text \<open>A client with a maximum of one, whose first request has timed out and whose second one waits.\<close>

definition demoSocket :: SocketIOApiClient where
  "demoSocket = \<lparr>sc_validatorID = ''v'', sc_validatorKey = ''k'', sc_maxCounterRequestID = 1, sc_counterReqID = 1, sc_requests = [],
     sc_emitted = [], sc_connected = True\<rparr>"

definition sendDemo :: "SocketIOApiClient \<Rightarrow> SocketIOApiClient" where
  "sendDemo = sendSyncRequest JNull JNull JNull"

definition demoWaiting :: SocketIOApiClient where
  "demoWaiting = sendDemo (onTimer 0 (sendDemo demoSocket))"

lemma demoWaiting_requests:
  "sc_requests demoWaiting = [\<lparr>sy_reqID = ''v_1'', sy_responseFlag = False, sy_checks = [], sy_timer = False, sy_result = Some TimedOut\<rparr>,
     \<lparr>sy_reqID = ''v_1'', sy_responseFlag = False, sy_checks = [], sy_timer = True, sy_result = None\<rparr>]"
  "sc_maxCounterRequestID demoWaiting = 1"
  by code_simp+

lemma demoWaiting_reached: "reaches created (client_step V) demoWaiting"
proof -
  have "newSocketIOApiClient (\<lambda>p. Inl LibraryError) \<lparr>sp_validatorID = ''v'', sp_validatorURL = ''u'', sp_validatorKeyValue = Some ''k'',
      sp_validatorKeyPath = None, sp_maxCounterRequestID = Some 1\<rparr> = Inr demoSocket"
    by (simp add: newSocketIOApiClient_def checkNonBlank_def isNonBlank_def trimSpaces_def isSpace_def nonEmpty_def demoSocket_def)
  then have "created demoSocket" unfolding created_def by blast
  then have "reaches created (client_step V) demoSocket" by (rule reaches.starts)
  moreover have "client_step V demoSocket (sendDemo demoSocket)" unfolding sendDemo_def by (rule client_step.sends)
  moreover have "client_step V (sendDemo demoSocket) (onTimer 0 (sendDemo demoSocket))"
    by (rule client_step.timer) (simp_all add: sendDemo_def sendSyncRequest_def genarateReqID_def emitRequest_def demoSocket_def)
  moreover have "client_step V (onTimer 0 (sendDemo demoSocket)) demoWaiting" unfolding demoWaiting_def sendDemo_def by (rule client_step.sends)
  ultimately show ?thesis by (blast intro: reaches.steps)
qed

theorem answers_match_witness:
  "sc_requests (onResponse (sy_reqID (sc_requests demoWaiting ! 1)) [] demoWaiting) ! 0 = sc_requests demoWaiting ! 0"
proof (rule answers_match [OF demoWaiting_reached])
  show "\<forall>i < length (sc_requests demoWaiting). sy_result (sc_requests demoWaiting ! i) = None
      \<longrightarrow> \<bar>int i - int 1\<bar> < sc_maxCounterRequestID demoWaiting"
    by (auto simp: demoWaiting_requests less_Suc_eq)
qed (simp_all add: demoWaiting_requests)

theorem late_answer_taken_witness:
  "sy_result (sc_requests (onResponse (sy_reqID (sc_requests demoWaiting ! 0)) [(''data'', JNum 7)] demoWaiting) ! (0 + 1))
    = Some (Answered [(''data'', JNum 7)])"
  by (rule late_answer_taken [OF demoWaiting_reached]) (simp_all add: demoWaiting_requests)

theorem request_settles_witness: "sy_result (sc_requests (onTimer 1 demoWaiting) ! 1) = Some TimedOut"
  using request_settles [OF demoWaiting_reached, of 1] by (simp add: demoWaiting_requests)

end
