(* ===== verification/Socket_Monitor.thy ===== *)
theory Socket_Monitor
  imports Socket_Client
begin

text \<open>
  Monitoring of a ledger by the client of the validators (\<open>watchBlocksV1\<close> of \<open>socketio-api-client.ts\<close>). All callers share one
  subject of \<open>rxjs\<close>, which is modelled as documented: it hands what it gets to its observers, replays the last block to a new one, and
  after an error it gives the error to everyone and takes nothing more. What \<open>finalize\<close> names is called when an
  observer of the observable that \<open>pipe\<close> returned leaves or has got an error. A caller subscribes to what it gets at once, as the verifier does.
\<close>

section \<open>The subject\<close>

datatype notification = MonitorNext jsv jsv | MonitorError string

text \<open>An observer with its number, and whether it came through \<open>finalize\<close>\<close>

record replaySubject =
  rs_observers :: "(nat \<times> bool) list"
  rs_buffer :: "(jsv \<times> jsv) option"
  rs_error :: "string option"

datatype monitorMessage = StartMonitor "(string \<times> json) list option" | StopMonitor

text \<open>
  \<open>sm_onConnect\<close> is the message that the listener of \<open>connect\<close> sends; the other listeners are there as long as the subject is.
  \<open>sm_checks\<close> are the blocks whose signature is being checked.
\<close>

record socketMonitor =
  sm_subject :: "replaySubject option"
  sm_onConnect :: "monitorMessage option"
  sm_checks :: "(jsv \<times> jsv) list"
  sm_connected :: bool
  sm_sent :: "monitorMessage list"
  sm_notified :: "(nat \<times> notification) list"

definition newMonitor :: "bool \<Rightarrow> socketMonitor" where
  "newMonitor connected = \<lparr>sm_subject = None, sm_onConnect = None, sm_checks = [], sm_connected = connected, sm_sent = [], sm_notified = []\<rparr>"

definition sendMonitor :: "monitorMessage \<Rightarrow> socketMonitor \<Rightarrow> socketMonitor" where
  "sendMonitor msg m = m\<lparr>sm_sent := sm_sent m @ [msg]\<rparr>"

definition notifyMonitor :: "(nat \<times> notification) list \<Rightarrow> socketMonitor \<Rightarrow> socketMonitor" where
  "notifyMonitor ns m = m\<lparr>sm_notified := sm_notified m @ ns\<rparr>"

section \<open>Observers\<close>

definition emitStartMonitor :: "(string \<times> json) list option \<Rightarrow> monitorMessage" where
  "emitStartMonitor opts = StartMonitor (case opts of None \<Rightarrow> None | Some fs \<Rightarrow> if fs = [] then None else Some fs)"

text \<open>What a subject gives to a new observer\<close>

definition replayed :: "nat \<Rightarrow> replaySubject \<Rightarrow> (nat \<times> notification) list" where
  "replayed n s = (case rs_buffer s of None \<Rightarrow> [] | Some (st, b) \<Rightarrow> [(n, MonitorNext st b)])
     @ (case rs_error s of None \<Rightarrow> [] | Some e \<Rightarrow> [(n, MonitorError e)])"

definition watchBlocksV1 :: "(string \<times> json) list option \<Rightarrow> nat \<Rightarrow> socketMonitor \<Rightarrow> socketMonitor" where
  "watchBlocksV1 opts n m = (case sm_subject m of
      Some s \<Rightarrow> notifyMonitor (replayed n s) (if rs_error s = None then m\<lparr>sm_subject := Some (s\<lparr>rs_observers := rs_observers s @ [(n, False)]\<rparr>)\<rparr> else m)
    | None \<Rightarrow> let m' = m\<lparr>sm_subject := Some \<lparr>rs_observers = [(n, True)], rs_buffer = None, rs_error = None\<rparr>\<rparr> in
        if sm_connected m then sendMonitor (emitStartMonitor opts) m' else m'\<lparr>sm_onConnect := Some (emitStartMonitor opts)\<rparr>)"

definition finalizeMonitor :: "socketMonitor \<Rightarrow> socketMonitor" where
  "finalizeMonitor m = (case sm_subject m of
      Some s \<Rightarrow> if rs_observers s = [] then (sendMonitor StopMonitor m)\<lparr>sm_subject := None, sm_onConnect := None\<rparr> else m
    | None \<Rightarrow> m)"

definition leaveMonitor :: "nat \<Rightarrow> socketMonitor \<Rightarrow> socketMonitor" where
  "leaveMonitor n m = (case sm_subject m of
      Some s \<Rightarrow> let m' = m\<lparr>sm_subject := Some (s\<lparr>rs_observers := filter (\<lambda>(k, p). k \<noteq> n) (rs_observers s)\<rparr>)\<rparr> in
        if (n, True) \<in> set (rs_observers s) then finalizeMonitor m' else m'
    | None \<Rightarrow> m)"

section \<open>Events\<close>

text \<open>\<open>monitorSubject.error(e)\<close>: the observers are taken from the front one by one.\<close>

fun failObservers :: "string \<Rightarrow> (nat \<times> bool) list \<Rightarrow> socketMonitor \<Rightarrow> socketMonitor" where
  "failObservers e [] m = m"
| "failObservers e ((n, piped) # os) m = failObservers e os (let m' = notifyMonitor [(n, MonitorError e)]
       (m\<lparr>sm_subject := map_option (rs_observers_update (\<lambda>_. os)) (sm_subject m)\<rparr>) in
     if piped then finalizeMonitor m' else m')"

definition failMonitor :: "string \<Rightarrow> socketMonitor \<Rightarrow> socketMonitor" where
  "failMonitor e m = (case sm_subject m of
      Some s \<Rightarrow> if rs_error s = None then failObservers e (rs_observers s) (m\<lparr>sm_subject := Some (s\<lparr>rs_error := Some e\<rparr>)\<rparr>) else m
    | None \<Rightarrow> m)"

text \<open>The handlers of errors of the connection, which disconnect, and of errors of the monitor\<close>

definition onConnectionError :: "string \<Rightarrow> socketMonitor \<Rightarrow> socketMonitor" where
  "onConnectionError e m = (if sm_subject m = None then m else failMonitor e (m\<lparr>sm_connected := False\<rparr>))"

definition onConnect :: "socketMonitor \<Rightarrow> socketMonitor" where
  "onConnect m = (case sm_onConnect m of None \<Rightarrow> m\<lparr>sm_connected := True\<rparr> | Some msg \<Rightarrow> sendMonitor msg (m\<lparr>sm_connected := True\<rparr>))"

definition onEventReceived :: "jsv \<Rightarrow> jsv \<Rightarrow> socketMonitor \<Rightarrow> socketMonitor" where
  "onEventReceived status blockData m = (if sm_subject m = None then m else m\<lparr>sm_checks := sm_checks m @ [(status, blockData)]\<rparr>)"

definition nextBlockOf :: "jsv \<Rightarrow> jsv \<Rightarrow> socketMonitor \<Rightarrow> socketMonitor" where
  "nextBlockOf status b m = (case sm_subject m of
      Some s \<Rightarrow> if rs_error s = None
        then notifyMonitor (map (\<lambda>(n, p). (n, MonitorNext status b)) (rs_observers s)) (m\<lparr>sm_subject := Some (s\<lparr>rs_buffer := Some (status, b)\<rparr>)\<rparr>)
        else m
    | None \<Rightarrow> m)"

text \<open>The end of a check: \<open>V\<close> gives the decoded message of a text, if it is valid.\<close>

definition decodedBlock :: "(string \<Rightarrow> json option) \<Rightarrow> jsv \<Rightarrow> jsv option" where
  "decodedBlock V blockData = (case blockData of
      Some (JStr t) \<Rightarrow> (case V t of None \<Rightarrow> None | Some d \<Rightarrow> (case jprop ''blockData'' (Some d) of Inl e \<Rightarrow> None | Inr b \<Rightarrow> Some b))
    | _ \<Rightarrow> None)"

definition onBlockChecked :: "(string \<Rightarrow> json option) \<Rightarrow> nat \<Rightarrow> socketMonitor \<Rightarrow> socketMonitor" where
  "onBlockChecked V k m = (let m' = m\<lparr>sm_checks := dropAt k (sm_checks m)\<rparr> in case sm_checks m ! k of
      (status, blockData) \<Rightarrow> (case decodedBlock V blockData of None \<Rightarrow> m' | Some b \<Rightarrow> nextBlockOf status b m'))"

inductive monitor_step :: "(string \<Rightarrow> json option) \<Rightarrow> socketMonitor \<Rightarrow> socketMonitor \<Rightarrow> bool" for V :: "string \<Rightarrow> json option" where
  watches: "\<forall>s p. sm_subject m = Some s \<longrightarrow> (n, p) \<notin> set (rs_observers s) \<Longrightarrow> monitor_step V m (watchBlocksV1 opts n m)"
| leaves: "monitor_step V m (leaveMonitor n m)"
| connection_fails: "monitor_step V m (onConnectionError e m)"
| monitor_fails: "monitor_step V m (failMonitor e m)"
| connects: "monitor_step V m (onConnect m)"
| disconnects: "monitor_step V m (m\<lparr>sm_connected := False\<rparr>)"
| receives: "monitor_step V m (onEventReceived status blockData m)"
| block_checked: "k < length (sm_checks m) \<Longrightarrow> monitor_step V m (onBlockChecked V k m)"

end
