(* ===== verification/Socket_Monitor_Properties.thy ===== *)
theory Socket_Monitor_Properties
  imports Socket_Monitor
begin

text \<open>
  Properties of the monitoring over all orders of events: which blocks the observers get, when the validator is told to stop, and
  that it never is once the first observer left before another one.
\<close>

definition noPipe :: "replaySubject \<Rightarrow> bool" where
  "noPipe s \<longleftrightarrow> (\<forall>p \<in> set (rs_observers s). \<not> snd p)"

definition stops :: "socketMonitor \<Rightarrow> nat" where
  "stops m = length (filter ((=) StopMonitor) (sm_sent m))"

definition fresh :: "socketMonitor \<Rightarrow> bool" where
  "fresh m \<longleftrightarrow> (\<exists>connected. m = newMonitor connected)"

text \<open>
  An invariant: the listener of \<open>connect\<close> starts, observers have numbers of their own, only the first one is piped, a subject that has failed
  has no observers, and without a subject nothing runs.
\<close>

definition wellMonitored :: "socketMonitor \<Rightarrow> bool" where
  "wellMonitored m \<longleftrightarrow> sm_onConnect m \<noteq> Some StopMonitor
     \<and> (case sm_subject m of
         None \<Rightarrow> sm_onConnect m = None \<and> (sm_sent m = [] \<or> last (sm_sent m) = StopMonitor)
       | Some s \<Rightarrow> distinct (map fst (rs_observers s)) \<and> (\<forall>p \<in> set (tl (rs_observers s)). \<not> snd p))"

lemmas monitor_defs = watchBlocksV1_def leaveMonitor_def onConnectionError_def failMonitor_def onConnect_def onEventReceived_def onBlockChecked_def
  nextBlockOf_def finalizeMonitor_def sendMonitor_def notifyMonitor_def emitStartMonitor_def Let_def

section \<open>Errors\<close>

lemma failObservers_raw:
  "sm_subject m = Some s \<Longrightarrow> \<forall>p \<in> set os. \<not> snd p \<Longrightarrow> failObservers e os m = notifyMonitor (map (\<lambda>(n, p). (n, MonitorError e)) os)
     (m\<lparr>sm_subject := Some (if os = [] then s else s\<lparr>rs_observers := []\<rparr>)\<rparr>)"
proof (induction os arbitrary: m s)
  case (Cons o1 os)
  then show ?case by (cases o1) (auto simp: notifyMonitor_def Let_def)
qed (simp add: notifyMonitor_def)

text \<open>The error of a subject whose only observer is the first one ends the monitoring; otherwise the subject stays.\<close>

lemma failMonitor_cases:
  assumes "wellMonitored m" "sm_subject m = Some s" "rs_error s = None"
  shows "failMonitor e m = (let m' = notifyMonitor (map (\<lambda>(n, p). (n, MonitorError e)) (rs_observers s))
      (m\<lparr>sm_subject := Some (s\<lparr>rs_observers := [], rs_error := Some e\<rparr>)\<rparr>) in
    if \<exists>n. rs_observers s = [(n, True)] then finalizeMonitor m' else m')"
proof (cases "rs_observers s")
  case (Cons p os)
  obtain n b where p: "p = (n, b)" by (cases p)
  have os: "\<forall>p \<in> set os. \<not> snd p" using assms(1,2) Cons by (simp add: wellMonitored_def)
  show ?thesis
  proof (cases "os = []")
    case True
    then show ?thesis using assms(2,3) Cons p by (cases s) (simp add: failMonitor_def notifyMonitor_def Let_def)
  next
    case False
    let ?m = "m\<lparr>sm_subject := Some (s\<lparr>rs_error := Some e\<rparr>)\<rparr>"
    let ?m' = "notifyMonitor [(n, MonitorError e)] (m\<lparr>sm_subject := Some (s\<lparr>rs_observers := os, rs_error := Some e\<rparr>)\<rparr>)"
    have "failObservers e ((n, b) # os) ?m = failObservers e os ?m'"
      using False by (cases s) (simp add: finalizeMonitor_def notifyMonitor_def Let_def)
    also have "\<dots> = notifyMonitor (map (\<lambda>(n, p). (n, MonitorError e)) os) (?m'\<lparr>sm_subject := Some (s\<lparr>rs_observers := [], rs_error := Some e\<rparr>)\<rparr>)"
      using failObservers_raw [of ?m' "s\<lparr>rs_observers := os, rs_error := Some e\<rparr>" os e] os False by (cases s) (simp add: notifyMonitor_def)
    finally show ?thesis using assms(2,3) Cons p False by (cases s) (simp add: failMonitor_def notifyMonitor_def Let_def)
  qed
qed (use assms(2,3) in \<open>cases s; simp add: failMonitor_def notifyMonitor_def Let_def\<close>)

section \<open>The invariant\<close>

lemma well_fail: "wellMonitored m \<Longrightarrow> wellMonitored (failMonitor e m)"
proof (cases "sm_subject m")
  case (Some s)
  assume w: "wellMonitored m"
  show ?thesis
  proof (cases "rs_error s")
    case None
    then show ?thesis using failMonitor_cases [OF w Some None, of e] w
      by (auto simp: wellMonitored_def finalizeMonitor_def notifyMonitor_def sendMonitor_def Let_def)
  qed (use w Some in \<open>simp add: failMonitor_def\<close>)
qed (simp add: failMonitor_def)

lemma in_tl: "x \<in> set (tl xs) \<Longrightarrow> x \<in> set xs"
  by (cases xs) auto

lemma well_leave:
  assumes "wellMonitored m"
  shows "wellMonitored (leaveMonitor n m)"
proof (cases "sm_subject m")
  case (Some s)
  let ?os = "filter (\<lambda>(k, p). k \<noteq> n) (rs_observers s)"
  have "distinct (map fst ?os)" using assms Some by (simp add: wellMonitored_def distinct_map_filter)
  moreover have "\<forall>p \<in> set (tl ?os). \<not> snd p"
    using assms Some by (cases "rs_observers s") (auto simp: wellMonitored_def dest!: in_tl)
  ultimately show ?thesis using assms Some by (simp add: wellMonitored_def leaveMonitor_def finalizeMonitor_def sendMonitor_def Let_def)
qed (use assms in \<open>simp add: leaveMonitor_def\<close>)

lemma well_step: "monitor_step V m m' \<Longrightarrow> wellMonitored m \<Longrightarrow> wellMonitored m'"
proof (induction rule: monitor_step.induct)
  case (watches m n opts)
  then show ?case by (cases "sm_subject m"; cases "rs_observers (the (sm_subject m))")
      (auto simp: wellMonitored_def watchBlocksV1_def notifyMonitor_def sendMonitor_def emitStartMonitor_def Let_def)
next
  case (connection_fails m e)
  then have "wellMonitored (m\<lparr>sm_connected := False\<rparr>)" by (simp add: wellMonitored_def split: option.splits)
  then show ?case using connection_fails by (simp add: onConnectionError_def well_fail)
qed (auto simp: well_leave well_fail, auto simp: wellMonitored_def onConnect_def onEventReceived_def onBlockChecked_def nextBlockOf_def sendMonitor_def
    notifyMonitor_def Let_def split: option.splits prod.splits)

lemma reaches_well: "reaches fresh (monitor_step V) m \<Longrightarrow> wellMonitored m"
  by (erule reaches_invariant, force simp: fresh_def newMonitor_def wellMonitored_def, erule (1) well_step [rotated])

section \<open>What the observers get\<close>

text \<open>Every block that was handed out came from a check that succeeded.\<close>

definition onlyChecked :: "(string \<Rightarrow> json option) \<Rightarrow> socketMonitor \<Rightarrow> bool" where
  "onlyChecked V m \<longleftrightarrow> (\<forall>n st b. (n, MonitorNext st b) \<in> set (sm_notified m) \<longrightarrow> (\<exists>d. decodedBlock V d = Some b))
     \<and> (\<forall>s st b. sm_subject m = Some s \<and> rs_buffer s = Some (st, b) \<longrightarrow> (\<exists>d. decodedBlock V d = Some b))"

lemma checked_finalize: "onlyChecked V m \<Longrightarrow> onlyChecked V (finalizeMonitor m)"
  by (auto simp: onlyChecked_def finalizeMonitor_def sendMonitor_def split: option.split)

lemma checked_failObservers: "onlyChecked V m \<Longrightarrow> onlyChecked V (failObservers e os m)"
proof (induction os arbitrary: m)
  case (Cons p os)
  obtain n b where p: "p = (n, b)" by (cases p)
  have "onlyChecked V (notifyMonitor [(n, MonitorError e)] (m\<lparr>sm_subject := map_option (rs_observers_update (\<lambda>_. os)) (sm_subject m)\<rparr>))"
    using Cons.prems by (auto simp: onlyChecked_def notifyMonitor_def)
  then show ?case using Cons.IH checked_finalize by (simp add: p Let_def)
qed simp

lemma checked_fail: "onlyChecked V m \<Longrightarrow> onlyChecked V (failMonitor e m)"
  by (auto simp: failMonitor_def onlyChecked_def split: option.split intro!: checked_failObservers [unfolded onlyChecked_def])

lemma checked_leave: "onlyChecked V m \<Longrightarrow> onlyChecked V (leaveMonitor n m)"
  by (auto simp: leaveMonitor_def onlyChecked_def Let_def split: option.split intro!: checked_finalize [unfolded onlyChecked_def])

lemma checked_next: "onlyChecked V m \<Longrightarrow> decodedBlock V d = Some b \<Longrightarrow> onlyChecked V (nextBlockOf st b m)"
  by (auto simp: nextBlockOf_def onlyChecked_def notifyMonitor_def split: option.split)

lemma checked_watch: "onlyChecked V m \<Longrightarrow> onlyChecked V (watchBlocksV1 opts n m)"
  by (auto simp: watchBlocksV1_def onlyChecked_def notifyMonitor_def replayed_def sendMonitor_def Let_def split: option.splits dest!: sym [of "Some _"])

lemma checked_step: "monitor_step V m m' \<Longrightarrow> onlyChecked V m \<Longrightarrow> onlyChecked V m'"
proof (induction rule: monitor_step.induct)
  case (connection_fails m e)
  then have "onlyChecked V (m\<lparr>sm_connected := False\<rparr>)" by (auto simp: onlyChecked_def)
  then show ?case using connection_fails by (simp add: onConnectionError_def checked_fail)
next
  case (block_checked k m)
  then have "onlyChecked V (m\<lparr>sm_checks := dropAt k (sm_checks m)\<rparr>)" by (auto simp: onlyChecked_def)
  then show ?case by (auto simp: onBlockChecked_def Let_def checked_next split: prod.split option.split)
qed (auto simp: checked_watch checked_leave checked_fail, auto simp: onlyChecked_def onConnect_def onEventReceived_def sendMonitor_def split: option.splits)

text \<open>
  Every block that an observer gets was in a message whose check under the key of the validator succeeded; and when no monitoring runs, the
  validator was never asked to start, or was told to stop last.
\<close>

theorem monitored_blocks_checked:
  assumes "reaches fresh (monitor_step V) m"
  shows "((n, MonitorNext st b) \<in> set (sm_notified m) \<longrightarrow> (\<exists>d. decodedBlock V d = Some b))
    \<and> (sm_subject m = None \<longrightarrow> sm_sent m = [] \<or> last (sm_sent m) = StopMonitor)"
proof -
  have "onlyChecked V m"
    by (rule reaches_invariant [OF assms], force simp: fresh_def newMonitor_def onlyChecked_def, erule (1) checked_step [rotated])
  then show ?thesis using reaches_well [OF assms] by (auto simp: onlyChecked_def wellMonitored_def)
qed

section \<open>When the monitoring ends\<close>

text \<open>A subject without a piped observer\<close>

definition orphaned :: "socketMonitor \<Rightarrow> bool" where
  "orphaned m \<longleftrightarrow> (\<exists>s. sm_subject m = Some s \<and> noPipe s)"

lemma orphaned_step:
  assumes "monitor_step V m m'" "wellMonitored m" "orphaned m"
  shows "orphaned m' \<and> stops m' = stops m"
proof -
  obtain s where s: "sm_subject m = Some s" "noPipe s" using assms(3) by (auto simp: orphaned_def)
  have fail: "orphaned (failMonitor e m1) \<and> stops (failMonitor e m1) = stops m1" if "sm_subject m1 = Some s" "wellMonitored m1" for e m1
    using that s(2) failMonitor_cases [OF that(2,1), of e]
    by (cases "rs_error s") (auto simp: failMonitor_def orphaned_def noPipe_def stops_def notifyMonitor_def Let_def)
  show ?thesis using assms(1)
  proof cases
    case (connection_fails e)
    have "wellMonitored (m\<lparr>sm_connected := False\<rparr>)" using assms(2) by (simp add: wellMonitored_def split: option.splits)
    then show ?thesis using fail [of "m\<lparr>sm_connected := False\<rparr>" e] s connection_fails by (simp add: onConnectionError_def stops_def)
  next
    case (monitor_fails e)
    then show ?thesis using fail [of m e] s assms(2) by simp
  next
    case connects
    then show ?thesis using assms(2,3) by (auto simp: onConnect_def orphaned_def stops_def sendMonitor_def wellMonitored_def split: option.splits)
  qed (use s in \<open>auto simp: orphaned_def noPipe_def stops_def watchBlocksV1_def notifyMonitor_def leaveMonitor_def onEventReceived_def
      onBlockChecked_def nextBlockOf_def Let_def split: option.split prod.split\<close>)
qed

text \<open>
  C40. Only the observable of the first call ends the monitoring. Once its observer has left before another one, the validator is never told
  to stop, whatever happens and whoever leaves, and the subject is never replaced.
\<close>

theorem monitor_outlives_first:
  assumes "reaches fresh (monitor_step V) m" "sm_subject m = Some s" "\<forall>p \<in> set (rs_observers s). \<not> snd p" "(monitor_step V)\<^sup>*\<^sup>* m m'"
  shows "sm_subject m' \<noteq> None \<and> stops m' = stops m"
proof -
  have "reaches fresh (monitor_step V) m' \<and> orphaned m' \<and> stops m' = stops m" using assms(4)
  proof induction
    case base
    then show ?case using assms(1-3) by (auto simp: orphaned_def noPipe_def)
  next
    case (step x y)
    then show ?case using orphaned_step [OF step(2) reaches_well] by (auto intro: reaches.steps)
  qed
  then show ?thesis by (auto simp: orphaned_def)
qed

section \<open>Examples\<close>

text \<open>Two observers; the first one leaves.\<close>

definition demoWatched :: socketMonitor where
  "demoWatched = leaveMonitor 0 (watchBlocksV1 None 1 (watchBlocksV1 None 0 (newMonitor True)))"

lemma demoWatched_reached: "reaches fresh (monitor_step V) demoWatched"
proof -
  have "reaches fresh (monitor_step V) (newMonitor True)" by (rule reaches.starts) (auto simp: fresh_def)
  moreover have "monitor_step V (newMonitor True) (watchBlocksV1 None 0 (newMonitor True))" by (rule monitor_step.watches) (simp add: newMonitor_def)
  moreover have "monitor_step V (watchBlocksV1 None 0 (newMonitor True)) (watchBlocksV1 None 1 (watchBlocksV1 None 0 (newMonitor True)))"
    by (rule monitor_step.watches) (simp add: newMonitor_def watchBlocksV1_def sendMonitor_def)
  ultimately show ?thesis unfolding demoWatched_def by (meson monitor_step.leaves reaches.steps)
qed

lemma demoWatched_subject: "sm_subject demoWatched = Some \<lparr>rs_observers = [(1, False)], rs_buffer = None, rs_error = None\<rparr>"
  by code_simp

text \<open>A validator whose messages all have the block 7, and a block that came from it\<close>

definition demoValidator :: "string \<Rightarrow> json option" where
  "demoValidator t = Some (JObj [(''blockData'', JNum 7)])"

definition demoDelivered :: socketMonitor where
  "demoDelivered = onBlockChecked demoValidator 0 (onEventReceived (Some (JNum 200)) (Some (JStr ''jwt'')) demoWatched)"

lemma demoDelivered_reached: "reaches fresh (monitor_step demoValidator) demoDelivered"
proof -
  have "monitor_step demoValidator demoWatched (onEventReceived (Some (JNum 200)) (Some (JStr ''jwt'')) demoWatched)" by (rule monitor_step.receives)
  moreover have "monitor_step demoValidator (onEventReceived (Some (JNum 200)) (Some (JStr ''jwt'')) demoWatched) demoDelivered"
    unfolding demoDelivered_def by (rule monitor_step.block_checked) (simp add: onEventReceived_def demoWatched_subject)
  ultimately show ?thesis using demoWatched_reached reaches.steps by meson
qed

theorem monitored_blocks_checked_witness:
  "sm_notified demoDelivered = [(1, MonitorNext (Some (JNum 200)) (Some (JNum 7)))] \<and> (\<exists>d. decodedBlock demoValidator d = Some (Some (JNum 7)))"
proof -
  have "sm_notified demoDelivered = [(1, MonitorNext (Some (JNum 200)) (Some (JNum 7)))]" by code_simp
  then show ?thesis using monitored_blocks_checked [OF demoDelivered_reached, of 1 "Some (JNum 200)" "Some (JNum 7)"] by simp
qed

theorem monitor_outlives_first_witness: "sm_subject (leaveMonitor 1 demoWatched) \<noteq> None \<and> stops (leaveMonitor 1 demoWatched) = stops demoWatched"
  by (rule monitor_outlives_first [OF demoWatched_reached demoWatched_subject, of "\<lambda>t. None"]) (simp, rule r_into_rtranclp, rule monitor_step.leaves)

end
