(* ===== verification/Spec2Isabelle.thy ===== *)
theory Spec2Isabelle
  imports Gateway_Properties Ledger_Properties Request_Properties Message_Properties Recovery_Properties
    Network_Properties Bungee_Strategy_Properties Keychain_Memory Swap_Properties Token_Swap HTLC_Properties Persistence_Properties
    Persistence_Fabric_Properties Ethereum_Connector_Properties Consortium_Properties Socket_Client_Properties Socket_Monitor_Properties
begin

text \<open>
  Verification of parts of Hyperledger Cacti: the asset transfer gateways of the Secure Asset Transfer
  Protocol (\<open>src/packages/cactus-plugin-satp-hermes\<close>), the ledger views of Bungee
  (\<open>src/packages/cactus-plugin-bungee-hermes\<close>), the hash time lock swaps with their contracts, plugins and
  coordinator (\<open>src/packages/cactus-plugin-htlc-eth-besu\<close>, \<open>src/packages/cactus-plugin-htlc-eth-besu-erc20\<close>,
  \<open>src/extensions/cactus-plugin-htlc-coordinator-besu\<close>), the Besu and Ethereum connectors
  (\<open>src/packages/cactus-plugin-ledger-connector-besu\<close>, \<open>src/packages/cactus-plugin-ledger-connector-ethereum\<close>), the persistence plugins for Ethereum
  and Fabric (\<open>src/packages/cactus-plugin-persistence-ethereum\<close>,
  \<open>src/packages/cactus-plugin-persistence-fabric\<close>), the consortium of nodes and its clients
  (\<open>src/packages/cactus-plugin-consortium-manual\<close>, \<open>src/packages/cactus-api-client\<close>), the plugin registry (\<open>src/packages/cactus-core\<close>), the
  memory keychain (\<open>src/packages/cactus-plugin-keychain-memory\<close>) and what they use of
  \<open>src/packages/cactus-common\<close>, above all the object signer. Paths below are relative to the directory
  \<open>src/main/typescript\<close> of the package.

  \<^bold>\<open>The program.\<close> Two gateways, each in front of a ledger, move an asset: the client gateway locks the
  asset on its ledger, proves it, deletes it, proves that, and the server gateway creates it on its
  own ledger. Eleven signed messages carry a sequence number and the hash of the previous message;
  every step is logged in a local table and, as a signed hash, in a remote log that both gateways
  read. After a crash a gateway reads its sessions from the local log, asks the peer for newer
  entries and resumes; on a failure or a timeout it rolls its ledger back and tells the peer.

  The Bungee plugin collects the states of a ledger with a strategy per kind of ledger, prunes them to
  a time frame, and signs the view with the Merkle roots of its states and transactions. A view can be
  sent to another plugin, which checks signature and roots, applies a privacy policy or merges several
  views into an integrated view, and signs the result. It shares the signer with the gateways. Plugins
  are registered by package name and find each other, keychains among them, in the registry.

  A swap locks an amount on a ledger under the hash of a secret and a deadline: who knows the secret
  withdraws it before the deadline, the sender gets it back afterwards. The contracts, in Solidity, hold
  Ether or tokens; the plugins deploy and call them through the Besu connector, which keeps the artifact
  and the address of each contract in a keychain; the coordinator opens, inspects and withdraws swaps
  through the plugins.

  The Ethereum connector sends transactions, deploys and calls contracts like the one for Besu, and pushes new blocks to the
  clients that subscribe over a socket: each has a watcher, which polls the node or lets it announce headers, and pushes what it missed
  since the last block it saw.

  The persistence plugin copies the blocks of an Ethereum ledger, with their transactions and token
  transfers, into a database and keeps the token balances there. It asks for the blocks that are missing,
  then receives new ones from the connector; a block that could not be stored is put on a list and
  tried again before the balances are updated. The plugin for Fabric copies the blocks of a channel one by one, with the
  details of their transactions, all at once or while the ledger grows.

  Every node of a consortium has a database of all nodes and signs it on request; one node collects the signatures of all. A client reads
  the database to find a node with the ledger it looks for. Validators that speak over a socket have a client of their own, with
  requests that wait for an answer and a monitoring that all callers share.

  \<^bold>\<open>The model.\<close> An asynchronous method is a function from the world to an outcome (returned, thrown, or
  never settled) and the world after it; a mutation made before an error stays visible, because the
  code mutates session objects that are shared through a map. The world holds the gateway (keys,
  configuration, log table, session map), the shared remote table, the clock, and the rest as a
  type parameter. A gateway begins with the log that its database has. Libraries and services (elliptic curve, hashes, SQL choices, date parsing, time
  zone, HTTP, object store, ledger connectors) are the fields of the record \<open>env\<close>; a theorem that
  relies on one names the documented behaviour it needs as a hypothesis. A request to the peer is a
  function on the whole world, since the peer calls back before it answers. Methods of the other
  parts that do not wait return a value or an error; the clients of the ledger connectors and the
  Merkle tree are parameters. A loop that removes elements from the array it runs over is modelled
  with its index and its fixed number of rounds, as the language defines it. A function of a contract
  returns the next ledger or the reason it reverts, with the machine words of the language; the ledger
  is the contract's storage, all balances, the time and the log of events. The library of the Besu
  connector is the record \<open>web3\<close>; its world is the registry, the keychains, the contracts it
  remembers, and the node. The Ethereum connector shares the first two and the operations on them; its libraries are the record
  \<open>ethWeb3\<close>, where a reply may be missing, as of a node that never answers: the method that waits for it is \<open>Pending\<close>. The methods of a watcher run at the same time: each is a list of tasks that wait, and the relation \<open>watch_step\<close> has one
  rule for what happens between two waits, so that its runs are all interleavings; \<open>client_step\<close> and \<open>monitor_step\<close> do the same for the
  events of a socket. A request to a node of the consortium runs the endpoint of the plugin at its address. A statement of the database gives a result and the next tables, or an error;
  a query is refused, or the connection is lost before or after it took effect, as a parameter
  decides. A call that is not awaited leaves its answer floating until the plugin waits. The
  fuel of the loop over the list of failed blocks is the number of its places and of the floating answers,
  which is enough (\<open>settlesA_syncFailedBlocks\<close>); the number of tokens of a contract that are looked for is bounded by
  the parameter \<open>lb_tokens\<close>. The loops of the Fabric plugin that end by what the
  ledger answers have the fuel \<open>fl_rounds\<close>, and one that runs out of it has not settled; the initial synchronization ends
  with the fuel it is given (\<open>initial_sync_ends\<close>). The fuel of the loop that polls for a receipt is the field \<open>w3_polls\<close>, and
  \<open>poll_terminates\<close> shows how much is enough; for the Ethereum connector it is \<open>e3_polls\<close>, and one for each
  second of the timeout is enough (\<open>receipt_wait_decided\<close>).

  \<^bold>\<open>The theories\<close>, in the order of their imports.
    \<^item> \<open>Prelude\<close>: outcomes and actions, weakest preconditions, runs that follow a preorder (locale
      \<open>run_preorder\<close>), the proof interface of every frame condition and invariant, and reachable states.
    \<^item> \<open>JS_Lib\<close>, \<open>JS_Buffer\<close>, \<open>Json\<close>: what the code uses of the language: number texts, \<open>parseInt\<close>, \<open>match\<close>,
      hexadecimal and base 64 buffers, dates, \<open>JSON.stringify\<close> and \<open>JSON.parse\<close>, with their round trips. The parser's fuel is twice
      the length of the text and two, and more fuel changes nothing (\<open>parseValue_enough_fuel\<close>).
    \<^item> \<open>Session\<close>, \<open>Messages\<close>: session data and the messages of \<open>generated/openapi\<close>, the text of each, and
      their decoding.
    \<^item> \<open>Signer\<close>: \<open>JsObjectSigner\<close>, and the contract of signatures as the locale \<open>signatures\<close>.
    \<^item> \<open>Logs\<close>: the repositories of \<open>gateway/repository\<close>: two tables (locale \<open>log_store\<close>, interpreted for
      both) and an object store.
    \<^item> \<open>Gateway\<close>: state, construction and services of \<open>gateway/plugin-satp-gateway.ts\<close>: sessions, signing,
      logging, reading logs, \<open>makeRequest\<close>. Its retry loop terminates by its measure; a request that
      is never answered is the outcome \<open>Pending\<close>.
    \<^item> \<open>Ledgers\<close>: \<open>gateway/besu-satp-gateway.ts\<close> and \<open>gateway/fabric-satp-gateway.ts\<close>, and the dispatch on the
      class.
    \<^item> \<open>Rollback\<close>: \<open>gateway/recovery/rollback.ts\<close>, \<open>rollback-ack.ts\<close>, \<open>Revert\<close>.
    \<^item> \<open>Client_Helper\<close>, \<open>Server_Helper\<close>: \<open>gateway/client/client-helper.ts\<close>, \<open>gateway/server/server-helper.ts\<close>.
    \<^item> \<open>Recovery\<close>: the other files of \<open>gateway/recovery\<close>, \<open>recoverOpenSessions\<close>, \<open>resumeSatpSession\<close>.
    \<^item> \<open>Handlers\<close>: the methods behind the endpoints of \<open>web-services\<close>, the client request, the endpoints.
    \<^item> \<open>Frame\<close>: the locale \<open>gateway_frame\<close>, in which it is shown once that every method only performs the
      elementary changes of its session (\<open>sessionEnv\<close>: the session of the call, or of any session for the messages of the
      recovery protocol, \<open>recoveryCall\<close>); its interpretations are constant configuration, append-only logs, the clock,
      well-formed logs, and, for the two gateways of \<open>Network\<close>, the isolation of sessions, over single calls and over \<open>reachable\<close> states.
    \<^item> \<open>Runs\<close>, \<open>Requests\<close>, \<open>Checks\<close>, \<open>Effects\<close>: the lemma library: inversion of runs that return, forward
      execution, logging that succeeds or is refused, the retry loop in closed form, and for each
      check of the two helpers the exact condition under which it accepts.
    \<^item> \<open>Scenario\<close>: a concrete environment and two gateways for the witnesses.
    \<^item> \<open>Gateway_Properties\<close>, \<open>Asset_Properties\<close>, \<open>Ledger_Properties\<close>, \<open>Request_Properties\<close>,
      \<open>Message_Properties\<close>, \<open>Recovery_Properties\<close>: the properties.

    \<^item> \<open>Network\<close>, \<open>Network_Properties\<close>: two gateways connected to each other, each request handled by the
      endpoints of the other, which call back before they answer. The fuel of the environment is the
      depth of these calls; a transfer needs eleven, and any more will do. One lemma per handler, from
      the last message to the first, shows that it succeeds when its message and the two sessions fit.
    \<^item> \<open>JS_Map\<close>, \<open>JS_Array\<close>, \<open>JS_Values\<close>: insertion-ordered maps (locale \<open>dictionary\<close>), the loop that splices
      the array it runs over and its closed form, dynamic values, \<open>BigInt\<close>, iteration, errors.
    \<^item> \<open>Bungee_View\<close> (\<open>view-creation\<close>, \<open>utils.ts\<close>), \<open>Bungee_Merge\<close> (\<open>view-merging\<close>), \<open>Bungee_Plugin\<close>
      (\<open>plugin-bungee-hermes.ts\<close>, \<open>web-services\<close>), \<open>Bungee_Strategies\<close> (\<open>strategy\<close>).
    \<^item> \<open>Bungee_Prune\<close>, \<open>Bungee_Roundtrip\<close>: the lemma library of the views: pruning in closed form, and
      printing and reading of well-formed views.
    \<^item> \<open>Bungee_Properties\<close>, \<open>Bungee_Merge_Properties\<close>, \<open>Bungee_Strategy_Properties\<close>: the properties.
    \<^item> \<open>Plugin_Registry\<close> (\<open>plugin-registry.ts\<close>,
      \<open>consensus-has-transaction-finality.ts\<close>) and \<open>Keychain_Memory\<close> (\<open>plugin-keychain-memory.ts\<close>,
      \<open>web-services\<close>, \<open>crpc-services\<close>): components with their properties; the keychain interprets
      \<open>dictionary\<close>.
    \<^item> \<open>JS_Async\<close>: asynchronous methods over dynamic values, when they end, and the answers of endpoints.
    \<^item> \<open>Evm\<close>: machine words, and two interfaces as locales: a contract that holds funds
      for its items (\<open>escrow\<close>) and pays each out once (\<open>settlement\<close>).
    \<^item> \<open>HashTimeLock\<close> (\<open>HashTimeLock.sol\<close>, \<open>PrivateHashTimeLock.sol\<close>), \<open>Swap_Ledger\<close> (the specification of
      a swap ledger, which interprets \<open>settlement\<close>, and that both contracts refine it), \<open>Swap_Properties\<close>;
      \<open>Token_Swap\<close> (\<open>HashedTimeLockContract.sol\<close>, over any token contracts) with its properties.
    \<^item> \<open>Connector_World\<close>, \<open>Connector_Frame\<close>: what the connectors share: registry, keychains, artifacts of contracts, and what these
      operations leave alone (locale \<open>world_frame\<close>).
    \<^item> \<open>Besu_Connector\<close> (\<open>plugin-ledger-connector-besu.ts\<close>, \<open>web-services\<close>, \<open>impl\<close>), \<open>Besu_Polling\<close> (the loop for
      receipts), \<open>Besu_Frame\<close> (what each operation leaves alone: locale \<open>connector_frame\<close>, which extends \<open>world_frame\<close>, and its
      extension \<open>connector_writes\<close>, interpreted for the keychains and for the registry).
    \<^item> \<open>HTLC_Plugin\<close> (\<open>plugin-htlc-eth-besu.ts\<close>, \<open>plugin-htlc-eth-besu-erc20.ts\<close>, their \<open>web-services\<close>),
      \<open>HTLC_Coordinator\<close> (\<open>plugin-htlc-coordinator-besu.ts\<close>, \<open>web-services\<close>), \<open>HTLC_Properties\<close>.
    \<^item> \<open>Watch_Blocks\<close> (\<open>web-services/watch-blocks-v1-endpoint.ts\<close>), \<open>Watch_Blocks_Properties\<close>: the watchers and an invariant
      over all interleavings.
    \<^item> \<open>Ethereum_Connector\<close> (\<open>plugin-ledger-connector-ethereum.ts\<close>, \<open>types\<close>, \<open>web-services\<close>), \<open>Ethereum_Connector_Properties\<close>
      (locale \<open>eth_frame\<close>).
    \<^item> \<open>JS_Set\<close>: the \<open>Set\<close> of the language and the loop over it, which sees what is added meanwhile.
    \<^item> \<open>Postgres\<close>: a session of the database over any tables, with its transactions and faults.
    \<^item> \<open>Persistence_Db\<close> (\<open>src/main/sql/schema.sql\<close>, \<open>database.types.ts\<close>), \<open>Persistence_Client\<close> (\<open>db-client.ts\<close>), \<open>Persistence_Ethereum\<close> (\<open>plugin-persistence-ethereum.ts\<close>,
      \<open>token-client\<close>, \<open>utils.ts\<close>, \<open>web-services\<close>).
    \<^item> \<open>Persistence_Frame\<close> (what a method leaves alone, and that storing a block is one statement or
      none), \<open>Persistence_Sync\<close> (the locales \<open>retry_frame\<close>, \<open>sync_frame\<close> and \<open>monitor_frame\<close>, in which it is shown once
      that all synchronization methods follow a relation of their steps; no block is lost, every loop
      ends), \<open>Persistence_Properties\<close>.
    \<^item> \<open>Persistence_Fabric\<close> (\<open>plugin-persistence-fabric.ts\<close>, \<open>db-client/db-client.ts\<close>, \<open>src/main/sql/schema.sql\<close>),
      \<open>Persistence_Fabric_Properties\<close>.
    \<^item> \<open>Consortium\<close> (\<open>consortium-repository.ts\<close>, \<open>plugin-consortium-manual.ts\<close>, \<open>consortium\<close>, \<open>api-client.ts\<close>,
      \<open>default-consortium-provider.ts\<close>), \<open>Consortium_Properties\<close>.
    \<^item> \<open>Socket_Client\<close>, \<open>Socket_Monitor\<close> (\<open>socketio-api-client.ts\<close>: requests, and monitoring), \<open>Socket_Client_Properties\<close>,
      \<open>Socket_Monitor_Properties\<close>: invariants over every order of events.

  \<^bold>\<open>What is shown.\<close> Transfers: an undisturbed transfer from Fabric to Besu completes, with the effects
  on both ledgers, both sessions and the log. Assets: the source asset is locked and deleted exactly when an acknowledgement fits
  the session in type, sequence number, hash, identities and signature; the recipient ledger is
  touched only when the deletion proof is in the remote log under the client's signature; each
  ledger method gets through to the ledger at most once per session, and a session is committed at most once. Messages:
  both gateways agree on the commit preparation, unless two requests collide under SHA-256; what is signed verifies anywhere. Sessions: no call
  outside of the recovery protocol touches another session of either gateway. Logs: an entry is refused exactly when it has the session,
  type and operation of another, also in a log that earlier gateways left; append only, written once, read back and verified, also through the
  object store. Recovery: when open sessions come back from their latest entries and when that fails; which received logs are adopted, also
  when a later one is refused; and where a session resumes. Requests: every outcome of \<open>makeRequest\<close>.

  Views: what pruning leaves and when that is the frame, when a created view is accepted by a reader
  and processed, that only correctly signed views with matching roots are merged, that merging refines
  insertion into a partial map, and which shape the collected states have for every connector that answers
  with JSON. Registry: what deleting a package leaves, and one plugin per package in registries filled by registration alone. Keychain: it refines a
  partial map, up to empty values.

  Swaps: the contract always holds the amounts of all active swaps; each is paid out once, to the
  receiver for the secret before the deadline or to the sender after it, and can be; a withdrawal
  on one ledger reveals the secret for the other. Connector: polling ends; a deployed contract is
  found again through its keychain and takes all later requests. Ethereum connector: which request for a receipt decides the wait for it, and that
  there is one in time; a deployment decides where later invocations go; a transaction has the fees of its configuration; a shutdown ends the
  watcher of every socket, its timer and its stream at the node. Watchers:
  no block is skipped by a poller, whatever overlaps, and when its rounds do not overlap it pushes each block once and in order.

  Persistence: storing a block is atomic whatever happens to the connection; a monitor that has started
  knows of every block up to the one named as the latest, and while it runs every block that is pushed or skipped is stored or on the list, except
  the last of a gap; the balances are the sums of the stored transfers; all synchronization ends. For Fabric, a block counts as
  stored only after all its transactions are.

  Consortium: what the signed database has, where a client that looks for a ledger is sent, and that one node that does not answer is enough
  for both to fail. Socket client: a response changes
  no other request than its own while those that wait are less than the maximum of the counter apart, no request waits for ever, and all
  blocks that are handed out were checked.

  Other theorems state behaviour that falls short of the intention: retries that send nothing, a
  timeout that does not fire after the first message, an unnoticed status of the remote log, a
  transfer completed by a stranger, a session reset by anyone, an allow list that is bypassed, a
  resumed session that its own log refuses, an unlock that locks, a rollback that asks for the wrong
  asset, the directions of transfer that can not complete, transactions that pruning misses, created
  views that no reader accepts, an integrated view whose beginning is never set, plugins that
  deletion misses, private swaps whose secret is one of 255 numbers, token swaps opened without payment, receipts
  returned because they are not confirmed, a failed token swap that locks Ether, failed transactions
  that are answered with 200, a block that is lost, one that blocks the balances for ever, balances
  updated while a block is missing, a synchronization with Fabric that neither succeeds nor resumes, a skipped block that
  a watcher never pushes and one that it pushes twice, a watcher that goes on without a client, raw invocations that are refused for the type of a parameter, signatures that
  are put on another payload, a late answer that settles another request, and a monitoring that is never stopped.

  \<^bold>\<open>Bounds of the model.\<close> Characters are bytes. Message properties of the wrong type are not modelled:
  the web framework's validation is outside. Log output is left out. The interleaving of two
  handlers of one gateway is modelled at the points where the code waits for the peer or a timer.
  The token contracts do not call back, and a payment of Ether carries too little gas for it. A
  registry has one Besu connector, since it refuses a second plugin of a package. The public methods
  of a persistence plugin run one after the other, so that its locks never wait; it alone writes to its database.
  The Fabric plugin may be switched off while it waits. A response of a validator has an object \<open>resObj\<close>, and who calls
  \<open>watchBlocksV1\<close> subscribes at once.

  \<^bold>\<open>Not modelled.\<close> The framework code that registers endpoints, the streams of the Besu connector over
  sockets and its gRPC services, the proxy, the signing of texts and the API client of the Ethereum connector, the mixing of clients into one object (\<open>extendWith\<close>), the verifiers on top of the socket client, the error callback of \<open>startMonitor\<close> of the Fabric persistence plugin, the other ledger connectors, the object store service, the metrics
  library, and the other packages of the repository.

  \<^bold>\<open>Plan.\<close> Next, the verifiers and the rest of \<open>cactus-common\<close>, and a transfer that crashes
  in the middle and is recovered.
\<close>

end
